(* ===== verification/Prelude.thy ===== *)
theory Prelude
  imports Main "HOL-Library.Word" "HOL-Library.Char_ord" "HOL-Library.List_Lexorder"
    "HOL-Library.Multiset" "HOL-Library.AList"
begin

text \<open>
  The vocabulary the component theories share.

  Go values are modelled as follows. A pointer \<open>*T\<close> whose only use is to tell
  ``unset'' from ``set'' is \<open>'a ptr\<close>, an option. A returned pair \<open>(T, error)\<close> is
  \<open>'a res\<close>: \<open>Inl e\<close> is a non-nil error, \<open>Inr x\<close> the result. An error keeps the
  format string the source gives to \<open>fmt.Errorf\<close> with its rendered arguments
  (\<open>Errorf\<close>) and, for the verb \<open>%w\<close>, the wrapped error (\<open>Wrapf\<close>); \<open>Join\<close> is an error
  made by \<open>errors.Join\<close>. A Go string is a
  sequence of bytes, here a \<open>string\<close> (HOL's \<open>char\<close> has 256 values). The functions of
  the packages \<open>strings\<close>, \<open>strconv\<close> and \<open>sort\<close> that the program calls are defined
  here on byte strings; white space is ASCII white space.
\<close>

section \<open>Collections of facts\<close>

named_theorems getters \<open>the accessor methods of the configuration types\<close>
named_theorems cfg_updates \<open>assignments through a pointer into the configuration\<close>
named_theorems go_defs \<open>definitions that unfold in evaluation proofs\<close>

section \<open>Pointers, results and errors\<close>

type_synonym 'a ptr = "'a option"

datatype error =
    Errorf string "string list"
  | Wrapf string "string list" error
  | Join "error list"

type_synonym 'a res = "error + 'a"

abbreviation ok :: "unit res" where
  "ok \<equiv> Inr ()"

definition is_ok :: "'a res \<Rightarrow> bool" where
  "is_ok r \<longleftrightarrow> (case r of Inl _ \<Rightarrow> False | Inr _ \<Rightarrow> True)"

lemma is_ok_simps [simp]:
  "is_ok (Inr x)" "\<not> is_ok (Inl e)"
  by (simp_all add: is_ok_def)

lemma is_ok_iff: "is_ok r \<longleftrightarrow> (\<exists>x. r = Inr x)"
  by (cases r) simp_all

lemma is_ok_unit: "is_ok r \<longleftrightarrow> r = ok"
  by (cases r) simp_all

text \<open>Running a fallible check on every element of a slice, stopping at the first error.\<close>

fun each :: "('a \<Rightarrow> unit res) \<Rightarrow> 'a list \<Rightarrow> unit res" where
  "each f [] = ok"
| "each f (x # xs) = (case f x of Inl e \<Rightarrow> Inl e | Inr _ \<Rightarrow> each f xs)"

lemma each_ok_iff: "each f xs = ok \<longleftrightarrow> (\<forall>x \<in> set xs. f x = ok)"
  by (induction xs) (auto split: sum.splits)

lemma each_error: "each f xs = Inl e \<Longrightarrow> \<exists>x \<in> set xs. f x = Inl e"
  by (induction xs) (auto split: sum.splits)

text \<open>Mapping a fallible function over a slice, stopping at the first error.\<close>

fun map_res :: "('a \<Rightarrow> 'b res) \<Rightarrow> 'a list \<Rightarrow> 'b list res" where
  "map_res f [] = Inr []"
| "map_res f (x # xs) =
     (case f x of Inl e \<Rightarrow> Inl e
      | Inr y \<Rightarrow> (case map_res f xs of Inl e \<Rightarrow> Inl e | Inr ys \<Rightarrow> Inr (y # ys)))"

lemma map_res_Inr_iff:
  "map_res f xs = Inr ys \<longleftrightarrow> map f xs = map Inr ys"
proof (induction xs arbitrary: ys)
  case (Cons x xs)
  show ?case
    by (cases ys) (simp_all add: Cons.IH [symmetric] split: sum.split)
qed auto

lemma map_res_length: "map_res f xs = Inr ys \<Longrightarrow> length ys = length xs"
  by (metis length_map map_res_Inr_iff)

section \<open>Pointer fields\<close>

text \<open>\<open>getField\<close> of \<open>cluster_config_merge_util.go\<close>: the pointed-to value, or the type's zero value.\<close>

definition getField :: "'a \<Rightarrow> 'a ptr \<Rightarrow> 'a" where
  "getField zero val = (case val of Some v \<Rightarrow> v | None \<Rightarrow> zero)"

lemma getField_simps [simp]:
  "getField z None = z" "getField z (Some v) = v"
  by (simp_all add: getField_def)

abbreviation getStr :: "string ptr \<Rightarrow> string" where "getStr \<equiv> getField []"
abbreviation getInt :: "int ptr \<Rightarrow> int" where "getInt \<equiv> getField 0"
abbreviation getBool :: "bool ptr \<Rightarrow> bool" where "getBool \<equiv> getField False"
abbreviation getList :: "'a list ptr \<Rightarrow> 'a list" where "getList \<equiv> getField []"

lemma getField_not_zero: "getField z v \<noteq> z \<Longrightarrow> \<exists>x. v = Some x \<and> x \<noteq> z"
  by (cases v) auto

section \<open>Package strings\<close>

subsection \<open>Split and Join with a one-byte separator\<close>

fun splitOn :: "char \<Rightarrow> string \<Rightarrow> string list" where
  "splitOn d [] = [[]]"
| "splitOn d (c # cs) =
     (if c = d then [] # splitOn d cs
      else (case splitOn d cs of [] \<Rightarrow> [[c]] | w # ws \<Rightarrow> (c # w) # ws))"

fun joinWith :: "char \<Rightarrow> string list \<Rightarrow> string" where
  "joinWith d [] = []"
| "joinWith d [w] = w"
| "joinWith d (w # v # ws) = w @ d # joinWith d (v # ws)"

lemma splitOn_nonempty [simp]: "splitOn d s \<noteq> []"
  by (cases s) (auto split: list.splits)

lemma splitOn_no_sep: "d \<notin> set s \<Longrightarrow> splitOn d s = [s]"
  by (induction s) auto

lemma splitOn_append_sep:
  "d \<notin> set w \<Longrightarrow> splitOn d (w @ d # s) = w # splitOn d s"
  by (induction w) auto

lemma splitOn_joinWith:
  "ws \<noteq> [] \<Longrightarrow> \<forall>w \<in> set ws. d \<notin> set w \<Longrightarrow> splitOn d (joinWith d ws) = ws"
  by (induction d ws rule: joinWith.induct)
    (simp_all add: splitOn_no_sep splitOn_append_sep)

lemma joinWith_splitOn: "joinWith d (splitOn d s) = s"
proof (induction s)
  case Nil
  then show ?case by simp
next
  case (Cons c s)
  obtain w ws where w: "splitOn d s = w # ws"
    by (meson neq_Nil_conv splitOn_nonempty)
  with Cons show ?case by (cases ws) auto
qed

lemma splitOn_sep_free: "w \<in> set (splitOn d s) \<Longrightarrow> d \<notin> set w"
  by (induction s arbitrary: w) (auto split: list.splits if_splits)

text \<open>\<open>splitOn\<close> yields one word more than there are separators.\<close>

lemma length_splitOn: "length (splitOn d s) = Suc (count_list s d)"
  by (induction s) (auto split: list.splits)

subsection \<open>Cut, TrimSpace, Trim, prefixes\<close>

text \<open>\<open>strings.Cut\<close>: the text before and after the first separator, or \<open>None\<close>.\<close>

fun strCut :: "char \<Rightarrow> string \<Rightarrow> (string \<times> string) option" where
  "strCut d [] = None"
| "strCut d (c # cs) =
     (if c = d then Some ([], cs)
      else (case strCut d cs of None \<Rightarrow> None | Some (a, b) \<Rightarrow> Some (c # a, b)))"

lemma strCut_None: "strCut d s = None \<longleftrightarrow> d \<notin> set s"
  by (induction s) (auto split: option.splits)

lemma strCut_append_sep: "d \<notin> set a \<Longrightarrow> strCut d (a @ d # b) = Some (a, b)"
  by (induction a) auto

lemma strCut_SomeD: "strCut d s = Some (a, b) \<Longrightarrow> s = a @ d # b \<and> d \<notin> set a"
  by (induction s arbitrary: a) (auto split: option.splits if_splits)

definition isSpace :: "char \<Rightarrow> bool" where
  "isSpace c \<longleftrightarrow> c \<in> {CHR 0x09, CHR 0x0A, CHR 0x0B, CHR 0x0C, CHR 0x0D, CHR 0x20}"

definition trimWhile :: "(char \<Rightarrow> bool) \<Rightarrow> string \<Rightarrow> string" where
  "trimWhile p s = rev (dropWhile p (rev (dropWhile p s)))"

definition TrimSpace :: "string \<Rightarrow> string" where
  "TrimSpace s = trimWhile isSpace s"

definition HasPrefix :: "string \<Rightarrow> string \<Rightarrow> bool" where
  "HasPrefix s p \<longleftrightarrow> take (length p) s = p"

definition HasSuffix :: "string \<Rightarrow> string \<Rightarrow> bool" where
  "HasSuffix s p \<longleftrightarrow> length p \<le> length s \<and> drop (length s - length p) s = p"

lemma dropWhile_id: "(s = [] \<or> \<not> p (hd s)) \<Longrightarrow> dropWhile p s = s"
  by (cases s) auto

lemma trimWhile_id:
  assumes "s = [] \<or> (\<not> p (hd s) \<and> \<not> p (last s))"
  shows "trimWhile p s = s"
proof -
  have "dropWhile p s = s" using assms by (intro dropWhile_id) auto
  moreover have "dropWhile p (rev s) = rev s"
    using assms by (intro dropWhile_id) (auto simp: hd_rev)
  ultimately show ?thesis by (simp add: trimWhile_def)
qed

lemma trimWhile_ends:
  "trimWhile p s = [] \<or> (\<not> p (hd (trimWhile p s)) \<and> \<not> p (last (trimWhile p s)))"
proof (cases "trimWhile p s = []")
  case False
  let ?t = "dropWhile p s"
  let ?r = "dropWhile p (rev ?t)"
  from False have r: "?r \<noteq> []" by (simp add: trimWhile_def)
  then have t: "?t \<noteq> []" by (metis dropWhile.simps(1) rev.simps(1))
  have last: "\<not> p (hd ?r)" using r hd_dropWhile by blast
  have "last ?r = hd ?t"
    using r t by (metis append_is_Nil_conv last_append last_rev takeWhile_dropWhile_id)
  then have "\<not> p (last ?r)" using t hd_dropWhile by metis
  with last r show ?thesis by (simp add: trimWhile_def hd_rev last_rev)
qed simp

lemma trimWhile_idem: "trimWhile p (trimWhile p s) = trimWhile p s"
  using trimWhile_ends by (intro trimWhile_id) auto

lemma set_trimWhile: "set (trimWhile p s) \<subseteq> set s"
proof
  fix x assume "x \<in> set (trimWhile p s)"
  then have "x \<in> set (dropWhile p s)"
    by (metis set_dropWhileD set_rev trimWhile_def)
  then show "x \<in> set s" by (rule set_dropWhileD)
qed

lemma HasPrefix_append [simp]: "HasPrefix (p @ s) p"
  by (simp add: HasPrefix_def)

section \<open>Package strconv\<close>

definition digitChar :: "nat \<Rightarrow> char" where
  "digitChar d = char_of (d + 48)"

fun natToString :: "nat \<Rightarrow> string" where
  "natToString n =
     (if n < 10 then [digitChar n] else natToString (n div 10) @ [digitChar (n mod 10)])"

declare natToString.simps [simp del]

text \<open>\<open>strconv.Itoa\<close>, also the verb \<open>%d\<close>.\<close>

definition Itoa :: "int \<Rightarrow> string" where
  "Itoa i = (if i < 0 then CHR ''-'' # natToString (nat (- i)) else natToString (nat i))"

definition isDigit :: "char \<Rightarrow> bool" where
  "isDigit c \<longleftrightarrow> 48 \<le> (of_char c :: nat) \<and> (of_char c :: nat) \<le> 57"

definition digitVal :: "char \<Rightarrow> nat" where
  "digitVal c = of_char c - 48"

text \<open>Value of a string of decimal digits, read left to right.\<close>

definition decVal :: "string \<Rightarrow> nat" where
  "decVal s = foldl (\<lambda>v c. v * 10 + digitVal c) 0 s"

lemma isDigit_digitChar [simp]: "d < 10 \<Longrightarrow> isDigit (digitChar d)"
  by (simp add: isDigit_def digitChar_def)

lemma digitVal_digitChar [simp]: "d < 10 \<Longrightarrow> digitVal (digitChar d) = d"
  by (simp add: digitVal_def digitChar_def)

lemma natToString_digits: "\<forall>c \<in> set (natToString n). isDigit c"
  by (induction n rule: natToString.induct) (subst natToString.simps, auto)

lemma natToString_nonempty [simp]: "natToString n \<noteq> []"
  by (subst natToString.simps) simp

lemma decVal_natToString: "decVal (natToString n) = n"
proof (induction n rule: natToString.induct)
  case (1 n)
  show ?case
  proof (cases "n < 10")
    case True
    then show ?thesis by (subst natToString.simps) (simp add: decVal_def)
  next
    case False
    with 1 have "decVal (natToString (n div 10)) = n div 10" by simp
    with False show ?thesis
      by (subst natToString.simps) (simp add: decVal_def)
  qed
qed

lemma natToString_inject: "natToString m = natToString n \<longleftrightarrow> m = n"
  by (metis decVal_natToString)

text \<open>
  \<open>strconv.Atoi\<close>: an optional sign, at least one digit, nothing else, and a value
  that fits a 64-bit signed integer.
\<close>

definition Atoi :: "string \<Rightarrow> int option" where
  "Atoi s =
     (let (neg, ds) = (case s of [] \<Rightarrow> (False, [])
            | c # cs \<Rightarrow> if c = CHR ''-'' then (True, cs)
                       else if c = CHR ''+'' then (False, cs) else (False, s))
      in if ds = [] \<or> \<not> list_all isDigit ds then None
         else (let v = (if neg then - int (decVal ds) else int (decVal ds))
               in if - (2 ^ 63) \<le> v \<and> v < 2 ^ 63 then Some v else None))"

lemma Atoi_Itoa:
  assumes "- (2 ^ 63) \<le> i" "i < 2 ^ 63"
  shows "Atoi (Itoa i) = Some i"
proof -
  have dig: "\<And>n. list_all isDigit (natToString n)"
    using natToString_digits by (simp add: list_all_iff)
  have hd: "hd (natToString n) \<noteq> CHR ''-'' \<and> hd (natToString n) \<noteq> CHR ''+''" for n
  proof -
    have "isDigit (hd (natToString n))"
      using natToString_digits natToString_nonempty by (meson hd_in_set)
    then show ?thesis by (auto simp: isDigit_def)
  qed
  show ?thesis
  proof (cases "i < 0")
    case True
    then show ?thesis using assms dig
      by (simp add: Atoi_def Itoa_def decVal_natToString Let_def)
  next
    case False
    obtain c cs where c: "natToString (nat i) = c # cs"
      by (meson neq_Nil_conv natToString_nonempty)
    with hd [of "nat i"] False show ?thesis using assms dig [of "nat i"]
      by (simp add: Atoi_def Itoa_def decVal_natToString [of "nat i", unfolded c] Let_def)
  qed
qed

text \<open>
  \<open>net.dtoi\<close>: the digits at the start of the string; it gives up at \<open>big = 0xFFFFFF\<close>.
  The result is \<open>Some (n, rest)\<close> when at least one digit was read.
\<close>

definition dtoi :: "string \<Rightarrow> (nat \<times> string) option" where
  "dtoi s =
     (let ds = takeWhile isDigit s in
      if ds = [] \<or> decVal ds \<ge> 0xFFFFFF then None else Some (decVal ds, dropWhile isDigit s))"

section \<open>Package path/filepath\<close>

text \<open>
  \<open>filepath.Clean\<close> on slash-separated paths: empty and \<open>.\<close> elements disappear, \<open>..\<close>
  removes the element before it (at the root it disappears), and the empty path is \<open>.\<close>.
  \<open>filepath.Join\<close> ignores leading empty elements and cleans the rest.
\<close>

definition pathElems :: "string \<Rightarrow> string list" where
  "pathElems s = filter (\<lambda>e. e \<noteq> [] \<and> e \<noteq> ''.'') (splitOn (CHR ''/'') s)"

fun cleanElems :: "bool \<Rightarrow> string list \<Rightarrow> string list \<Rightarrow> string list" where
  "cleanElems rooted st [] = rev st"
| "cleanElems rooted st (e # es) =
     (if e = ''..'' then
        (case st of
           [] \<Rightarrow> cleanElems rooted (if rooted then [] else [e]) es
         | t # ts \<Rightarrow> cleanElems rooted (if t = ''..'' then e # st else ts) es)
      else cleanElems rooted (e # st) es)"

definition filepathClean :: "string \<Rightarrow> string" where
  "filepathClean s =
     (let rooted = HasPrefix s ''/'';
          body = joinWith (CHR ''/'') (cleanElems rooted [] (pathElems s))
      in if rooted then CHR ''/'' # body else if body = [] then ''.'' else body)"

definition filepathJoin :: "string list \<Rightarrow> string" where
  "filepathJoin es =
     (let es' = dropWhile (\<lambda>e. e = []) es
      in if es' = [] then [] else filepathClean (joinWith (CHR ''/'') es'))"

abbreviation pathJoin :: "string \<Rightarrow> string \<Rightarrow> string" where
  "pathJoin dir file \<equiv> filepathJoin [dir, file]"

text \<open>The last element of a path that names a file in its directory.\<close>

definition plainName :: "string \<Rightarrow> bool" where
  "plainName n \<longleftrightarrow> n \<noteq> [] \<and> n \<noteq> ''.'' \<and> n \<noteq> ''..'' \<and> CHR ''/'' \<notin> set n"

lemma splitOn_append: "splitOn d (s @ d # t) = splitOn d s @ splitOn d t"
proof (induction s)
  case (Cons c s)
  obtain w ws where "splitOn d s = w # ws" by (meson neq_Nil_conv splitOn_nonempty)
  with Cons show ?case by simp
qed simp

lemma pathElems_append: "plainName n \<Longrightarrow> pathElems (s @ CHR ''/'' # n) = pathElems s @ [n]"
  by (simp add: pathElems_def splitOn_append plainName_def splitOn_no_sep)

lemma cleanElems_append:
  "n \<noteq> ''..'' \<Longrightarrow> cleanElems r st (es @ [n]) = cleanElems r st es @ [n]"
  by (induction r st es rule: cleanElems.induct) (auto split: list.splits)

lemma joinWith_snoc:
  "joinWith d (ws @ [n]) = (if ws = [] then n else joinWith d ws @ d # n)"
  by (induction d ws rule: joinWith.induct) auto

lemma filepathJoin_plain:
  assumes "plainName n"
  shows "\<exists>pre. \<forall>m. plainName m \<longrightarrow> pathJoin dir m = pre @ m"
proof (cases "dir = []")
  case True
  have "pathJoin [] m = [] @ m" if "plainName m" for m
    using that
    by (cases m) (auto simp: filepathJoin_def filepathClean_def HasPrefix_def pathElems_def
        splitOn_no_sep plainName_def)
  with True show ?thesis by blast
next
  case False
  define r where "r = HasPrefix dir ''/''"
  define cs where "cs = cleanElems r [] (pathElems dir)"
  define pre where "pre = (if r then ''/'' else []) @
    (if cs = [] then [] else joinWith (CHR ''/'') cs @ ''/'')"
  have "pathJoin dir m = pre @ m" if m: "plainName m" for m
  proof -
    have "HasPrefix (dir @ CHR ''/'' # m) ''/'' = r"
      using False by (cases dir) (simp_all add: r_def HasPrefix_def)
    moreover have "cleanElems r [] (pathElems (dir @ CHR ''/'' # m)) = cs @ [m]"
      using m by (simp add: pathElems_append cleanElems_append cs_def plainName_def)
    ultimately show ?thesis
      using False m by (auto simp: filepathJoin_def filepathClean_def joinWith_snoc pre_def plainName_def Let_def)
  qed
  then show ?thesis by blast
qed

text \<open>Two files of one directory have different paths.\<close>

lemma filepathJoin_inject:
  "plainName m \<Longrightarrow> plainName n \<Longrightarrow> pathJoin dir m = pathJoin dir n \<longleftrightarrow> m = n"
  using filepathJoin_plain [of n dir] by auto

section \<open>Stateful steps\<close>

text \<open>
  A method that changes the state \<open>'s\<close> and may fail returns the new state and a result: what it
  did before failing stays done. \<open>tryStep\<close> is the source's \<open>if err := op(); err != nil { return
  fmt.Errorf(fmt, args, err) }\<close> followed by the rest of the body, \<open>tryPass\<close> the same with the bare
  error returned.
\<close>

type_synonym ('s, 'a) step = "'s \<times> 'a res"

definition tryStep ::
  "('s, 'a) step \<Rightarrow> string \<Rightarrow> string list \<Rightarrow> ('s \<Rightarrow> 'a \<Rightarrow> ('s, 'b) step) \<Rightarrow> ('s, 'b) step"
where
  "tryStep r fmt args k =
     (case r of (s, Inl e) \<Rightarrow> (s, Inl (Wrapf fmt args e)) | (s, Inr x) \<Rightarrow> k s x)"

definition tryPass :: "('s, 'a) step \<Rightarrow> ('s \<Rightarrow> 'a \<Rightarrow> ('s, 'b) step) \<Rightarrow> ('s, 'b) step" where
  "tryPass r k = (case r of (s, Inl e) \<Rightarrow> (s, Inl e) | (s, Inr x) \<Rightarrow> k s x)"

lemma tryStep_simps [simp]:
  "tryStep (s, Inl e) f a k = (s, Inl (Wrapf f a e))"
  "tryStep (s, Inr x) f a k = k s x"
  by (simp_all add: tryStep_def)

lemma tryPass_simps [simp]:
  "tryPass (s, Inl e) k = (s, Inl e)" "tryPass (s, Inr x) k = k s x"
  by (simp_all add: tryPass_def)

lemma tryStep_inv: "tryStep r msg args f = (k', x) \<Longrightarrow>
    (\<exists>k1 e. r = (k1, Inl e) \<and> k' = k1 \<and> x = Inl (Wrapf msg args e)) \<or> (\<exists>k1 a. r = (k1, Inr a) \<and> f k1 a = (k', x))"
  by (auto simp: tryStep_def split: prod.splits sum.splits)

lemma tryStep_end: "tryStep r msg args (\<lambda>k _. (k, ok)) = (k', x) \<Longrightarrow> \<exists>y. r = (k', y)"
  by (auto simp: tryStep_def split: prod.splits sum.splits)

lemma tryStep_ok_iff:
  "tryStep r f a k = (s', Inr y) \<longleftrightarrow> (\<exists>s x. r = (s, Inr x) \<and> k s x = (s', Inr y))"
  by (cases r; cases "snd r") auto

lemma tryPass_ok_iff:
  "tryPass r k = (s', Inr y) \<longleftrightarrow> (\<exists>s x. r = (s, Inr x) \<and> k s x = (s', Inr y))"
  by (cases r; cases "snd r") auto

text \<open>A property of the state that every step keeps is kept by their sequence.\<close>

lemma tryStep_keeps:
  "P (fst r) \<Longrightarrow> (\<And>s x. r = (s, Inr x) \<Longrightarrow> P s \<Longrightarrow> P (fst (k s x))) \<Longrightarrow> P (fst (tryStep r f a k))"
  by (cases r; cases "snd r") auto

text \<open>A loop over a slice whose body is a step; it stops at the first error.\<close>

fun forEach :: "('a \<Rightarrow> 's \<Rightarrow> ('s, unit) step) \<Rightarrow> 'a list \<Rightarrow> 's \<Rightarrow> ('s, unit) step" where
  "forEach f [] s = (s, ok)"
| "forEach f (x # xs) s = tryPass (f x s) (\<lambda>s _. forEach f xs s)"

section \<open>Maps\<close>

text \<open>
  A Go map that the program iterates over is the list of its entries in the order in which
  \<open>range\<close> visits them, which the language leaves open: theorems quantify over every order.
  \<open>goodMap\<close> says that it is a map, every key once. \<open>m[k] = v\<close> is \<open>AList.update k v m\<close>, a
  lookup is \<open>map_of m k\<close>, an absent key reads as the zero value (\<open>mapGet\<close>).
\<close>

type_synonym 'v gomap = "(string \<times> 'v) list"

abbreviation goodMap :: "'v gomap \<Rightarrow> bool" where
  "goodMap m \<equiv> distinct (map fst m)"

abbreviation mapGet :: "string gomap \<Rightarrow> string \<Rightarrow> string" where
  "mapGet m k \<equiv> getField [] (map_of m k)"

text \<open>\<open>for k, v := range src { dst[k] = v }\<close>\<close>

definition mapAssignAll :: "'v gomap \<Rightarrow> 'v gomap \<Rightarrow> 'v gomap" where
  "mapAssignAll dst src = foldl (\<lambda>m (k, v). AList.update k v m) dst src"

lemma goodMap_assignAll [simp]: "goodMap dst \<Longrightarrow> goodMap (mapAssignAll dst src)"
proof (induction src arbitrary: dst)
  case (Cons p src)
  then show ?case by (cases p) (simp add: mapAssignAll_def distinct_update)
qed (simp add: mapAssignAll_def)

lemma map_of_assignAll:
  "goodMap src \<Longrightarrow> map_of (mapAssignAll dst src) = map_of dst ++ map_of src"
proof (induction src arbitrary: dst)
  case (Cons p src)
  obtain k v where p: "p = (k, v)" by (cases p)
  have "map_of (mapAssignAll dst (p # src)) = map_of (mapAssignAll (AList.update k v dst) src)"
    by (simp add: mapAssignAll_def p)
  also have "\<dots> = (map_of dst)(k \<mapsto> v) ++ map_of src"
    using Cons by (simp add: update_conv')
  also have "\<dots> = map_of dst ++ map_of (p # src)"
    using Cons.prems by (simp add: p map_add_upd_left dom_map_of_conv_image_fst)
  finally show ?case .
qed (simp add: mapAssignAll_def)

section \<open>Package errors\<close>

text \<open>\<open>errors.Is\<close>: the error or one it wraps is the target.\<close>

fun errorsIs :: "error \<Rightarrow> error \<Rightarrow> bool" where
  "errorsIs (Errorf f a) t \<longleftrightarrow> Errorf f a = t"
| "errorsIs (Wrapf f a e) t \<longleftrightarrow> Wrapf f a e = t \<or> errorsIs e t"
| "errorsIs (Join es) t \<longleftrightarrow> Join es = t \<or> (\<exists>e \<in> set es. errorsIs e t)"

section \<open>Package sort\<close>

text \<open>\<open>sort.Strings\<close>: byte-wise lexicographic order, the order of \<open>List_Lexorder\<close>.\<close>

definition sortStrings :: "string list \<Rightarrow> string list" where
  "sortStrings ws = sort ws"

lemma sortStrings_mset [simp]: "mset (sortStrings ws) = mset ws"
  and sortStrings_set [simp]: "set (sortStrings ws) = set ws"
  and sortStrings_sorted [simp]: "sorted (sortStrings ws)"
  and sortStrings_length [simp]: "length (sortStrings ws) = length ws"
  and sortStrings_distinct [simp]: "distinct (sortStrings ws) = distinct ws"
  by (simp_all add: sortStrings_def)

lemma sortStrings_idem: "sorted ws \<Longrightarrow> sortStrings ws = ws"
  by (simp add: sortStrings_def sorted_sort_id)

lemma sortStrings_perm: "mset vs = mset ws \<Longrightarrow> sortStrings vs = sortStrings ws"
  by (metis properties_for_sort sortStrings_def sortStrings_mset sortStrings_sorted)

lemma sortStrings_Nil_iff [simp]: "sortStrings ws = [] \<longleftrightarrow> ws = []"
  by (metis length_0_conv sortStrings_length)

lemma find_map: "find P (map f xs) = map_option f (find (\<lambda>x. P (f x)) xs)"
  by (induction xs) auto

lemma sort_nonempty: "xs \<noteq> [] \<Longrightarrow> sort_key f xs \<noteq> []"
  by (metis set_empty set_sort)

section \<open>Encodings\<close>

text \<open>
  A value written in another form and read back: the contract of every pair of a writer and a
  reader in the program, for the well-formed values \<open>wf\<close>.
\<close>

locale codec =
  fixes enc :: "'a \<Rightarrow> 'b" and dec :: "'b \<Rightarrow> 'a res" and wf :: "'a \<Rightarrow> bool"
  assumes decode_encode: "wf x \<Longrightarrow> dec (enc x) = Inr x"
begin

lemma encode_inject: "wf x \<Longrightarrow> wf y \<Longrightarrow> enc x = enc y \<Longrightarrow> x = y"
  by (metis decode_encode sum.inject(2))

lemma decode_unique: "wf x \<Longrightarrow> dec (enc x) = Inr y \<Longrightarrow> y = x"
  by (simp add: decode_encode)

lemma encode_decode_encode: "wf x \<Longrightarrow> dec (enc x) = Inr y \<Longrightarrow> enc y = enc x"
  by (simp add: decode_encode)

end

section \<open>Systems of steps\<close>

text \<open>
  Components whose state changes in steps: an invariant every step keeps, and a comparison of two
  states that every step satisfies and that composes.
\<close>

locale stable_system =
  fixes step :: "'s \<Rightarrow> 's \<Rightarrow> bool" and inv :: "'s \<Rightarrow> bool" and later :: "'s \<Rightarrow> 's \<Rightarrow> bool"
  assumes preserved: "step s s' \<Longrightarrow> inv s \<Longrightarrow> inv s' \<and> later s s'"
    and later_refl: "later s s"
    and later_trans: "later a b \<Longrightarrow> later b c \<Longrightarrow> later a c"
begin

lemma run_both: "step\<^sup>*\<^sup>* s s' \<Longrightarrow> inv s \<Longrightarrow> inv s' \<and> later s s'"
  by (induction rule: rtranclp_induct) (auto intro: later_refl dest: preserved later_trans)

lemma run: "step\<^sup>*\<^sup>* s s' \<Longrightarrow> inv s \<Longrightarrow> later s s'"
  using run_both by blast

lemma run_inv: "step\<^sup>*\<^sup>* s s' \<Longrightarrow> inv s \<Longrightarrow> inv s'"
  using run_both by blast

end

end
