(* ===== verification/GoNet.thy ===== *)
theory GoNet
  imports Prelude
begin

text \<open>
  The parts of Go's packages \<open>net\<close> and \<open>net/netip\<close> that the program calls: the parsers
  \<open>netip.ParseAddr\<close>, \<open>net.ParseIP\<close> and \<open>net.ParseCIDR\<close>, the 4-in-16-byte view
  \<open>IP.To4\<close>, \<open>IPNet.Contains\<close>, the order \<open>Addr.Less\<close> and the host/port functions. A
  \<open>net.IP\<close> is a list of bytes of length 4 or 16, as in Go. A parse error carries no
  detail: the program only forwards it.
\<close>

unbundle bit_operations_syntax

type_synonym byte = "8 word"
type_synonym IP = "byte list"

record IPNet =
  IPNet_IP :: IP
  IPNet_Mask :: "byte list"

datatype Addr = Addr4 "byte list" | Addr6 "byte list" string

section \<open>netip.ParseAddr\<close>

subsection \<open>IPv4 fields\<close>

text \<open>
  \<open>parseIPv4Fields\<close>: the loop state is the fields read so far, the value and the number
  of digits of the current field. A dot needs a digit before it and a character after it.
\<close>

fun parseIPv4Fields :: "string \<Rightarrow> byte list \<Rightarrow> nat \<Rightarrow> nat \<Rightarrow> byte list option" where
  "parseIPv4Fields [] fs val digLen =
     (if length fs < 3 then None else Some (fs @ [of_nat val]))"
| "parseIPv4Fields (c # cs) fs val digLen =
     (if isDigit c then
        (if digLen = 1 \<and> val = 0 then None
         else if val * 10 + digitVal c > 255 then None
         else parseIPv4Fields cs fs (val * 10 + digitVal c) (digLen + 1))
      else if c = CHR ''.'' then
        (if digLen = 0 \<or> cs = [] then None
         else if length fs = 3 then None
         else parseIPv4Fields cs (fs @ [of_nat val]) 0 0)
      else None)"

subsection \<open>IPv6\<close>

definition isHex :: "char \<Rightarrow> bool" where
  "isHex c \<longleftrightarrow> isDigit c \<or> (97 \<le> (of_char c :: nat) \<and> (of_char c :: nat) \<le> 102)
     \<or> (65 \<le> (of_char c :: nat) \<and> (of_char c :: nat) \<le> 70)"

definition hexVal :: "char \<Rightarrow> nat" where
  "hexVal c = (if isDigit c then of_char c - 48
     else if 97 \<le> (of_char c :: nat) then of_char c - 97 + 10 else of_char c - 65 + 10)"

definition hexNum :: "string \<Rightarrow> nat" where
  "hexNum s = foldl (\<lambda>v c. v * 16 + hexVal c) 0 s"

text \<open>
  The main loop of \<open>parseIPv6\<close>. State: the rest of the string, the bytes read so far and
  the position of the ellipsis. The result is the bytes, the ellipsis and the unread rest.
  The loop runs at most eight times (two bytes a round, 16 bytes in all), so the fuel 8
  that \<open>parseIPv6\<close> passes is exactly the loop's own bound.
\<close>

fun parseIPv6Loop ::
  "nat \<Rightarrow> string \<Rightarrow> byte list \<Rightarrow> nat option \<Rightarrow> (byte list \<times> nat option \<times> string) option"
where
  "parseIPv6Loop 0 s ip ell = Some (ip, ell, s)"
| "parseIPv6Loop (Suc k) s ip ell =
     (let ds = takeWhile isHex s; rest = dropWhile isHex s; acc = hexNum ds in
      if length ds > 4 then None
      else if ds = [] then None
      else if rest \<noteq> [] \<and> hd rest = CHR ''.'' then
        (if ell = None \<and> length ip \<noteq> 12 then None
         else if length ip + 4 > 16 then None
         else (case parseIPv4Fields s [] 0 0 of
                 None \<Rightarrow> None
               | Some fs \<Rightarrow> Some (ip @ fs, ell, [])))
      else
        (let ip' = ip @ [of_nat (acc div 256), of_nat acc] in
         if rest = [] then Some (ip', ell, [])
         else if hd rest \<noteq> CHR '':'' then None
         else if tl rest = [] then None
         else if hd (tl rest) = CHR '':'' then
           (if ell \<noteq> None then None
            else if tl (tl rest) = [] then Some (ip', Some (length ip'), [])
            else parseIPv6Loop k (tl (tl rest)) ip' (Some (length ip')))
         else parseIPv6Loop k (tl rest) ip' ell))"

definition expandEllipsis :: "byte list \<Rightarrow> nat option \<Rightarrow> byte list option" where
  "expandEllipsis ip ell =
     (if length ip < 16 then
        (case ell of None \<Rightarrow> None
         | Some e \<Rightarrow> Some (take e ip @ replicate (16 - length ip) 0 @ drop e ip))
      else if ell \<noteq> None then None else Some ip)"

definition parseIPv6 :: "string \<Rightarrow> Addr option" where
  "parseIPv6 inp =
     (let (s, zone, bad) = (case strCut (CHR ''%'') inp of None \<Rightarrow> (inp, [], False)
            | Some (a, z) \<Rightarrow> (a, z, z = [])) in
      if bad then None
      else if s = ''::'' then Some (Addr6 (replicate 16 0) zone)
      else
        (let (s', ell) = (if HasPrefix s ''::'' then (drop 2 s, Some 0) else (s, None)) in
         (case parseIPv6Loop 8 s' [] ell of
            None \<Rightarrow> None
          | Some (ip, ell', rest) \<Rightarrow>
              (if rest \<noteq> [] then None
               else (case expandEllipsis ip ell' of
                       None \<Rightarrow> None
                     | Some b \<Rightarrow> Some (Addr6 b zone))))))"

text \<open>\<open>ParseAddr\<close> looks for the first of the characters dot, colon and percent.\<close>

fun addrKind :: "string \<Rightarrow> char option" where
  "addrKind [] = None"
| "addrKind (c # cs) = (if c \<in> {CHR ''.'', CHR '':'', CHR ''%''} then Some c else addrKind cs)"

definition ParseAddr :: "string \<Rightarrow> Addr option" where
  "ParseAddr s =
     (case addrKind s of
        None \<Rightarrow> None
      | Some c \<Rightarrow>
          if c = CHR ''.'' then map_option Addr4 (parseIPv4Fields s [] 0 0)
          else if c = CHR '':'' then parseIPv6 s
          else None)"

fun BitLen :: "Addr \<Rightarrow> nat" where
  "BitLen (Addr4 _) = 32"
| "BitLen (Addr6 _ _) = 128"

fun Zone :: "Addr \<Rightarrow> string" where
  "Zone (Addr4 _) = []"
| "Zone (Addr6 _ z) = z"

definition v4InV6Prefix :: "byte list" where
  "v4InV6Prefix = replicate 10 0 @ [255, 255]"

fun As16 :: "Addr \<Rightarrow> IP" where
  "As16 (Addr4 b) = v4InV6Prefix @ b"
| "As16 (Addr6 b _) = b"

text \<open>\<open>Addr.Less\<close>: bit length first, then the address, then (IPv6 only) the zone.\<close>

fun addrLess :: "Addr \<Rightarrow> Addr \<Rightarrow> bool" where
  "addrLess (Addr4 a) (Addr4 b) = (a < b)"
| "addrLess (Addr4 a) (Addr6 b z) = True"
| "addrLess (Addr6 a z) (Addr4 b) = False"
| "addrLess (Addr6 a y) (Addr6 b z) = (a < b \<or> a = b \<and> y < z)"

subsection \<open>Every parsed address has 4 or 16 bytes\<close>

fun addrWF :: "Addr \<Rightarrow> bool" where
  "addrWF (Addr4 b) = (length b = 4)"
| "addrWF (Addr6 b z) = (length b = 16)"

lemma parseIPv4Fields_length:
  "parseIPv4Fields s fs v d = Some b \<Longrightarrow> length fs \<le> 3 \<Longrightarrow> length b = 4"
  by (induction s fs v d rule: parseIPv4Fields.induct) (auto split: if_splits)

lemma parseIPv6Loop_length:
  assumes "parseIPv6Loop k s ip ell = Some (b, ell', rest)" "length ip + 2 * k \<le> 16"
  shows "length b \<le> 16"
  using assms
proof (induction k s ip ell arbitrary: b ell' rest rule: parseIPv6Loop.induct)
  case (2 k s ip ell)
  then show ?case
    by (auto simp: Let_def parseIPv4Fields_length split: if_splits option.splits)
qed simp

lemma expandEllipsis_length:
  "expandEllipsis ip ell = Some b \<Longrightarrow> length ip \<le> 16 \<Longrightarrow> length b = 16"
  by (auto simp: expandEllipsis_def min_def split: if_splits option.splits)

lemma parseIPv6_WF: "parseIPv6 s = Some a \<Longrightarrow> addrWF a"
  by (auto simp: parseIPv6_def Let_def
      split: if_splits option.splits prod.splits
      dest!: parseIPv6Loop_length [where k = 8] expandEllipsis_length)

lemma ParseAddr_WF: "ParseAddr s = Some a \<Longrightarrow> addrWF a"
  by (auto simp: ParseAddr_def parseIPv6_WF parseIPv4Fields_length split: option.splits if_splits)

lemma addrLess_total: "addrLess a b \<or> a = b \<or> addrLess b a"
  by (cases a; cases b) (auto simp: not_less_iff_gr_or_eq)

lemma addrLess_asym: "addrLess a b \<Longrightarrow> \<not> addrLess b a"
  by (cases a; cases b) auto

lemma addrLess_trans: "addrLess a b \<Longrightarrow> addrLess b c \<Longrightarrow> addrLess a c"
  by (cases a; cases b; cases c) auto

section \<open>net.IP\<close>

text \<open>\<open>net.ParseIP\<close>: zones are refused, the result has 16 bytes.\<close>

definition ParseIP :: "string \<Rightarrow> IP option" where
  "ParseIP s =
     (case ParseAddr s of None \<Rightarrow> None | Some a \<Rightarrow> if Zone a \<noteq> [] then None else Some (As16 a))"

definition To4 :: "IP \<Rightarrow> IP option" where
  "To4 ip = (if length ip = 4 then Some ip
     else if length ip = 16 \<and> take 12 ip = v4InV6Prefix then Some (drop 12 ip) else None)"

definition To16 :: "IP \<Rightarrow> IP option" where
  "To16 ip = (if length ip = 4 then Some (v4InV6Prefix @ ip)
     else if length ip = 16 then Some ip else None)"

definition ipEqual :: "IP \<Rightarrow> IP \<Rightarrow> bool" where
  "ipEqual ip x =
     (if length ip = length x then ip = x
      else if length ip = 4 \<and> length x = 16 then take 12 x = v4InV6Prefix \<and> ip = drop 12 x
      else if length ip = 16 \<and> length x = 4 then take 12 ip = v4InV6Prefix \<and> drop 12 ip = x
      else False)"

definition IsLoopback :: "IP \<Rightarrow> bool" where
  "IsLoopback ip = (case To4 ip of Some b \<Rightarrow> b ! 0 = 127
     | None \<Rightarrow> ip = replicate 15 0 @ [1])"

text \<open>\<open>CIDRMask(ones, 8 * l)\<close>: \<open>ones\<close> one-bits, then zeros, in \<open>l\<close> bytes.\<close>

definition maskByte :: "nat \<Rightarrow> byte" where
  "maskByte n = (if n \<ge> 8 then 255 else NOT (drop_bit n 255))"

fun CIDRMask :: "nat \<Rightarrow> nat \<Rightarrow> byte list" where
  "CIDRMask n 0 = []"
| "CIDRMask n (Suc l) = maskByte n # CIDRMask (n - 8) l"

definition andBytes :: "byte list \<Rightarrow> byte list \<Rightarrow> byte list" where
  "andBytes a b = map2 (AND) a b"

text \<open>\<open>IP.Mask\<close> for the two cases \<open>ParseCIDR\<close> meets: equal lengths, or a 4-byte mask on a 16-byte IPv4 address.\<close>

definition ipMask :: "IP \<Rightarrow> byte list \<Rightarrow> IP" where
  "ipMask ip m =
     (let ip' = (if length m = 4 \<and> length ip = 16 \<and> take 12 ip = v4InV6Prefix
                 then drop 12 ip else ip)
      in if length ip' \<noteq> length m then [] else andBytes ip' m)"

section \<open>net.ParseCIDR\<close>

definition ParseCIDR :: "string \<Rightarrow> (IP \<times> IPNet) option" where
  "ParseCIDR s =
     (case strCut (CHR ''/'') s of
        None \<Rightarrow> None
      | Some (addr, maskStr) \<Rightarrow>
          (case ParseAddr addr of
             None \<Rightarrow> None
           | Some a \<Rightarrow>
               if Zone a \<noteq> [] then None
               else (case dtoi maskStr of
                       None \<Rightarrow> None
                     | Some (n, rest) \<Rightarrow>
                         if rest \<noteq> [] \<or> n > BitLen a then None
                         else (let m = CIDRMask n (BitLen a div 8) in
                               Some (As16 a, \<lparr>IPNet_IP = ipMask (As16 a) m, IPNet_Mask = m\<rparr>)))))"

definition parsesAsCIDR :: "string \<Rightarrow> bool" where
  "parsesAsCIDR s \<longleftrightarrow> ParseCIDR s \<noteq> None"

text \<open>\<open>IPMask.Size\<close>: the number of leading ones and the number of bits.\<close>

definition byteOnes :: "byte \<Rightarrow> nat" where
  "byteOnes b = (if b = 255 then 8 else if b = 254 then 7 else if b = 252 then 6
     else if b = 248 then 5 else if b = 240 then 4 else if b = 224 then 3
     else if b = 192 then 2 else if b = 128 then 1 else 0)"

definition maskSize :: "byte list \<Rightarrow> nat \<times> nat" where
  "maskSize m = (sum_list (map byteOnes m), 8 * length m)"

section \<open>IPNet.Contains\<close>

text \<open>The 4-byte form of an address when it has one.\<close>

definition shortIP :: "IP \<Rightarrow> IP" where
  "shortIP ip = (case To4 ip of Some b \<Rightarrow> b | None \<Rightarrow> ip)"

definition networkNumberAndMask :: "IPNet \<Rightarrow> (IP \<times> byte list) option" where
  "networkNumberAndMask n =
     (let ip = shortIP (IPNet_IP n); m = IPNet_Mask n in
      if length ip \<noteq> 4 \<and> length ip \<noteq> 16 then None
      else if length m = 4 then (if length ip \<noteq> 4 then None else Some (ip, m))
      else if length m = 16 then (if length ip = 4 then Some (ip, drop 12 m) else Some (ip, m))
      else None)"

definition netContains :: "IPNet \<Rightarrow> IP \<Rightarrow> bool" where
  "netContains n ip =
     (case networkNumberAndMask n of
        None \<Rightarrow> shortIP ip = []
      | Some (nn, m) \<Rightarrow> length (shortIP ip) = length nn \<and> andBytes nn m = andBytes (shortIP ip) m)"

section \<open>IP.String and IPNet.String\<close>

definition hexDigit :: "nat \<Rightarrow> char" where
  "hexDigit d = (if d < 10 then char_of (d + 48) else char_of (d + 87))"

fun natToHex :: "nat \<Rightarrow> string" where
  "natToHex n = (if n < 16 then [hexDigit n] else natToHex (n div 16) @ [hexDigit (n mod 16)])"

declare natToHex.simps [simp del]

fun groups16 :: "byte list \<Rightarrow> nat list" where
  "groups16 (a # b # bs) = (unat a * 256 + unat b) # groups16 bs"
| "groups16 bs = []"

text \<open>The first longest run of at least two zero groups, as start and end; \<open>(255, 255)\<close> for none.\<close>

definition zeroRun :: "nat list \<Rightarrow> nat \<times> nat" where
  "zeroRun gs = foldl (\<lambda>(s, e) i. let l = length (takeWhile (\<lambda>g. g = 0) (drop i gs))
     in if l \<ge> 2 \<and> l > e - s then (i, i + l) else (s, e)) (255, 255) [0..<8]"

definition ip6String :: "byte list \<Rightarrow> string" where
  "ip6String b =
     (let gs = groups16 b; (s, e) = zeroRun gs in
      if s = 255 then joinWith (CHR '':'') (map natToHex gs)
      else joinWith (CHR '':'') (map natToHex (take s gs)) @ ''::''
           @ joinWith (CHR '':'') (map natToHex (drop e gs)))"

definition bytesHex :: "byte list \<Rightarrow> string" where
  "bytesHex bs = concat (map (\<lambda>b. [hexDigit (unat b div 16), hexDigit (unat b mod 16)]) bs)"

definition IPString :: "IP \<Rightarrow> string" where
  "IPString ip =
     (if ip = [] then ''<nil>''
      else (case To4 ip of
              Some b \<Rightarrow> joinWith (CHR ''.'') (map (\<lambda>x. natToString (unat x)) b)
            | None \<Rightarrow> if length ip = 16 then ip6String ip else CHR ''?'' # bytesHex ip))"

text \<open>\<open>simpleMaskLength\<close>: the number of leading ones when only zeros follow, otherwise \<open>None\<close>.\<close>

fun simpleMaskLength :: "byte list \<Rightarrow> nat option" where
  "simpleMaskLength [] = Some 0"
| "simpleMaskLength (b # bs) =
     (if b = 255 then map_option ((+) 8) (simpleMaskLength bs)
      else if b \<in> {0, 128, 192, 224, 240, 248, 252, 254} \<and> list_all (\<lambda>x. x = 0) bs
      then Some (byteOnes b) else None)"

definition IPNetString :: "IPNet \<Rightarrow> string" where
  "IPNetString n =
     (case networkNumberAndMask n of
        None \<Rightarrow> ''<nil>''
      | Some (nn, m) \<Rightarrow> IPString nn @ ''/'' @
          (case simpleMaskLength m of None \<Rightarrow> bytesHex m | Some l \<Rightarrow> natToString l))"

section \<open>Facts about masks and parsed networks\<close>

lemma length_CIDRMask [simp]: "length (CIDRMask n l) = l"
  by (induction n l rule: CIDRMask.induct) auto

lemma nat_less_8_cases:
  "(n::nat) < 8 \<Longrightarrow> n = 0 \<or> n = 1 \<or> n = 2 \<or> n = 3 \<or> n = 4 \<or> n = 5 \<or> n = 6 \<or> n = 7"
  by auto

lemma and_255 [simp]: "255 AND (x::byte) = x"
proof -
  have m: "(255::byte) = - 1" by simp
  show ?thesis unfolding m by simp
qed

lemma maskByte_absorb: "a \<le> b \<Longrightarrow> maskByte b AND maskByte a = maskByte a"
proof (cases "b < 8")
  case True
  assume "a \<le> b"
  with True have "a < 8" by simp
  with True \<open>a \<le> b\<close> show ?thesis
    by (elim nat_less_8_cases [elim_format] disjE) (simp_all add: maskByte_def)
next
  case False
  then show ?thesis by (simp add: maskByte_def)
qed

lemma CIDRMask_absorb:
  "a \<le> b \<Longrightarrow> andBytes (CIDRMask b l) (CIDRMask a l) = CIDRMask a l"
  by (induction a l arbitrary: b rule: CIDRMask.induct)
    (simp_all add: andBytes_def maskByte_absorb)

lemma andBytes_assoc: "andBytes (andBytes a b) c = andBytes a (andBytes b c)"
  by (induction a arbitrary: b c) (auto simp: andBytes_def zip_Cons1 and.assoc split: list.splits)

lemma andBytes_idem: "length a = length b \<Longrightarrow> andBytes (andBytes a b) b = andBytes a b"
  by (induction a b rule: list_induct2) (simp_all add: andBytes_def and.assoc)

lemma length_andBytes [simp]: "length (andBytes a b) = min (length a) (length b)"
  by (simp add: andBytes_def)

lemma drop_CIDRMask: "j \<le> l \<Longrightarrow> drop j (CIDRMask n l) = CIDRMask (n - 8 * j) (l - j)"
proof (induction j arbitrary: n l)
  case (Suc j)
  then obtain l' where l: "l = Suc l'" "j \<le> l'" by (cases l) auto
  from Suc.IH [OF l(2), of "n - 8"] show ?case
    by (simp add: l(1) diff_diff_add algebra_simps)
qed simp

lemma byteOnes_maskByte: "byteOnes (maskByte n) = min n 8"
proof (cases "n < 8")
  case True
  then show ?thesis
    by (elim nat_less_8_cases [elim_format] disjE) (simp_all add: maskByte_def byteOnes_def)
qed (simp add: maskByte_def byteOnes_def)

lemma sum_byteOnes_CIDRMask: "sum_list (map byteOnes (CIDRMask n l)) = min n (8 * l)"
  by (induction n l rule: CIDRMask.induct) (auto simp: byteOnes_maskByte min_def)

lemma maskSize_CIDRMask: "maskSize (CIDRMask n l) = (min n (8 * l), 8 * l)"
  by (simp add: maskSize_def sum_byteOnes_CIDRMask)

lemma maskByte_even: "n < 8 \<Longrightarrow> maskByte n AND 1 = 0"
  by (elim nat_less_8_cases [elim_format] disjE) (simp_all add: maskByte_def)

lemma last_CIDRMask_even: "n < 8 * Suc l \<Longrightarrow> last (CIDRMask n (Suc l)) AND 1 = 0"
proof (induction l arbitrary: n)
  case 0
  then show ?case by (simp add: maskByte_even)
next
  case (Suc l)
  then have "n - 8 < 8 * Suc l" by simp
  then have "last (CIDRMask (n - 8) (Suc l)) AND 1 = 0" by (rule Suc.IH)
  moreover have "CIDRMask (n - 8) (Suc l) \<noteq> []" by simp
  ultimately show ?case by (metis CIDRMask.simps(2) last_ConsR)
qed

lemma andBytes_snoc:
  "length as = length bs \<Longrightarrow> andBytes (as @ [a]) (bs @ [b]) = andBytes as bs @ [a AND b]"
  by (simp add: andBytes_def)

lemma last_andBytes:
  assumes "length a = length b" "a \<noteq> []"
  shows "last (andBytes a b) = last a AND last b"
proof -
  have "b \<noteq> []" using assms by auto
  then have "andBytes (butlast a @ [last a]) (butlast b @ [last b])
      = andBytes (butlast a) (butlast b) @ [last a AND last b]"
    using assms by (intro andBytes_snoc) simp
  with assms \<open>b \<noteq> []\<close> show ?thesis by (metis append_butlast_last_id last_snoc)
qed

text \<open>
  A parsed network has a 4- or 16-byte number of the mask's length, and the mask is a run
  of ones followed by zeros.
\<close>

definition netWF :: "IPNet \<Rightarrow> bool" where
  "netWF n \<longleftrightarrow> (\<exists>k nn. networkNumberAndMask n = Some (nn, CIDRMask k (length nn))
     \<and> (length nn = 4 \<or> length nn = 16) \<and> nn = shortIP (IPNet_IP n))"

lemma length_v4InV6Prefix [simp]: "length v4InV6Prefix = 12"
  by (simp add: v4InV6Prefix_def)

lemma length_As16: "addrWF a \<Longrightarrow> length (As16 a) = 16"
  by (cases a) simp_all

lemma shortIP_length:
  "length ip = 4 \<or> length ip = 16 \<Longrightarrow> length (shortIP ip) = 4 \<or> length (shortIP ip) = 16"
  by (auto simp: shortIP_def To4_def)

lemma netWF_intro4:
  "length ip = 4 \<Longrightarrow> netWF \<lparr>IPNet_IP = ip, IPNet_Mask = CIDRMask k 4\<rparr>"
  by (auto simp: netWF_def networkNumberAndMask_def shortIP_def To4_def)

lemma netWF_intro16:
  assumes "length ip = 16"
  shows "netWF \<lparr>IPNet_IP = ip, IPNet_Mask = CIDRMask k 16\<rparr>"
proof (cases "take 12 ip = v4InV6Prefix")
  case True
  with assms show ?thesis
    by (auto simp: netWF_def networkNumberAndMask_def shortIP_def To4_def drop_CIDRMask)
next
  case False
  with assms show ?thesis
    by (auto simp: netWF_def networkNumberAndMask_def shortIP_def To4_def)
qed

lemma ParseCIDR_parts:
  assumes "ParseCIDR s = Some (ip, n)"
  obtains a k where "addrWF a" "ip = As16 a" "k \<le> BitLen a"
    "n = \<lparr>IPNet_IP = ipMask (As16 a) (CIDRMask k (BitLen a div 8)),
          IPNet_Mask = CIDRMask k (BitLen a div 8)\<rparr>"
proof -
  obtain addr ms a k where c: "strCut (CHR ''/'') s = Some (addr, ms)" "ParseAddr addr = Some a"
    "Zone a = []" "dtoi ms = Some (k, [])" "k \<le> BitLen a"
    using assms by (auto simp: ParseCIDR_def not_less Let_def split: option.splits prod.splits if_splits)
  have "addrWF a" using c(2) by (rule ParseAddr_WF)
  moreover have "ip = As16 a" "n = \<lparr>IPNet_IP = ipMask (As16 a) (CIDRMask k (BitLen a div 8)),
          IPNet_Mask = CIDRMask k (BitLen a div 8)\<rparr>"
    using assms c by (auto simp: ParseCIDR_def Let_def)
  ultimately show thesis using that c(5) by blast
qed

text \<open>The network of a parsed CIDR: a masked address of 4 or 16 bytes and a mask of the same length.\<close>

lemma ParseCIDR_masked:
  assumes "ParseCIDR s = Some (ip, n)"
  obtains x k l where "length x = l" "l = 4 \<or> l = 16" "k \<le> 8 * l"
    "n = \<lparr>IPNet_IP = andBytes x (CIDRMask k l), IPNet_Mask = CIDRMask k l\<rparr>"
proof -
  obtain a k where a: "addrWF a" "k \<le> BitLen a"
    "n = \<lparr>IPNet_IP = ipMask (As16 a) (CIDRMask k (BitLen a div 8)),
          IPNet_Mask = CIDRMask k (BitLen a div 8)\<rparr>"
    using ParseCIDR_parts [OF assms] by metis
  show thesis
  proof (cases a)
    case (Addr4 b)
    with a show thesis by (intro that [of b 4 k]) (simp_all add: ipMask_def)
  next
    case (Addr6 b z)
    with a show thesis by (intro that [of b 16 k]) (simp_all add: ipMask_def)
  qed
qed

lemma ParseCIDR_netWF:
  assumes "ParseCIDR s = Some (ip, n)"
  shows "netWF n" "length ip = 16"
proof -
  obtain a k where a: "addrWF a" "ip = As16 a"
    and n: "n = \<lparr>IPNet_IP = ipMask (As16 a) (CIDRMask k (BitLen a div 8)),
                IPNet_Mask = CIDRMask k (BitLen a div 8)\<rparr>"
    using ParseCIDR_parts [OF assms] by metis
  then show "length ip = 16" by (simp add: length_As16)
  show "netWF n"
  proof (cases a)
    case (Addr4 b)
    with a n show ?thesis by (auto simp: ipMask_def intro!: netWF_intro4)
  next
    case (Addr6 b z)
    with a n show ?thesis by (auto simp: ipMask_def intro!: netWF_intro16)
  qed
qed

lemma netContains_self: "netWF n \<Longrightarrow> netContains n (IPNet_IP n)"
  by (auto simp: netWF_def netContains_def)

text \<open>Two networks that share an address: the one with the shorter mask contains the other's number.\<close>

lemma netContains_common:
  assumes "netWF n1" "netWF n2" "netContains n1 ip" "netContains n2 ip"
  shows "netContains n1 (IPNet_IP n2) \<or> netContains n2 (IPNet_IP n1)"
proof -
  obtain k1 a where a: "networkNumberAndMask n1 = Some (a, CIDRMask k1 (length a))"
    "a = shortIP (IPNet_IP n1)" using assms(1) by (auto simp: netWF_def)
  obtain k2 b where b: "networkNumberAndMask n2 = Some (b, CIDRMask k2 (length b))"
    "b = shortIP (IPNet_IP n2)" using assms(2) by (auto simp: netWF_def)
  let ?l = "length a" and ?ip = "shortIP ip"
  have l: "length b = ?l" and
    eq1: "andBytes a (CIDRMask k1 ?l) = andBytes ?ip (CIDRMask k1 ?l)" and
    eq2: "andBytes b (CIDRMask k2 ?l) = andBytes ?ip (CIDRMask k2 ?l)"
    using assms(3,4) a(1) b(1) by (auto simp: netContains_def)
  have key: "andBytes y (CIDRMask i ?l) = andBytes x (CIDRMask i ?l)"
    if "i \<le> j" "andBytes x (CIDRMask i ?l) = andBytes ?ip (CIDRMask i ?l)"
      "andBytes y (CIDRMask j ?l) = andBytes ?ip (CIDRMask j ?l)" for x y i j
  proof -
    have "andBytes y (CIDRMask i ?l) = andBytes (andBytes y (CIDRMask j ?l)) (CIDRMask i ?l)"
      by (simp add: andBytes_assoc CIDRMask_absorb that(1))
    also have "\<dots> = andBytes ?ip (CIDRMask i ?l)"
      by (simp add: that(3) andBytes_assoc CIDRMask_absorb that(1))
    finally show ?thesis using that(2) by simp
  qed
  show ?thesis
  proof (cases "k1 \<le> k2")
    case True
    from key [OF True eq1 eq2] a b l show ?thesis by (simp add: netContains_def)
  next
    case False
    then have "k2 \<le> k1" by simp
    from key [OF this eq2 eq1] a b l show ?thesis by (simp add: netContains_def)
  qed
qed

section \<open>Evaluation\<close>

text \<open>
  Rules that let the simplifier run the parsers on literals: a loop is unfolded only when its
  string is known, and the byte counts are numerals.
\<close>

lemma CIDRMask_numeral: "CIDRMask n (numeral k) = maskByte n # CIDRMask (n - 8) (pred_numeral k)"
  by (simp add: numeral_eq_Suc)

lemma replicate_num: "replicate (numeral k) x = x # replicate (pred_numeral k) x"
  by (simp add: numeral_eq_Suc)

lemmas parseIPv6Loop_numeral =
  parseIPv6Loop.simps(2) [where k = "pred_numeral k" and s = "c # cs" for k c cs, folded numeral_eq_Suc]

declare parseIPv6Loop.simps(2) [simp del]

lemmas net_eval = ParseCIDR_def ParseAddr_def ParseIP_def isDigit_def digitVal_def dtoi_def decVal_def
  maskByte_def ipMask_def andBytes_def Let_def CIDRMask_numeral v4InV6Prefix_def replicate_num
  parseIPv6_def HasPrefix_def isHex_def hexVal_def hexNum_def expandEllipsis_def
  parseIPv6Loop_numeral To4_def To16_def shortIP_def networkNumberAndMask_def netContains_def
  maskSize_def byteOnes_def

section \<open>Host and port\<close>

text \<open>\<open>net.JoinHostPort\<close> brackets a host that contains a colon.\<close>

definition JoinHostPort :: "string \<Rightarrow> string \<Rightarrow> string" where
  "JoinHostPort host port =
     (if CHR '':'' \<in> set host then ''['' @ host @ '']:'' @ port else host @ '':'' @ port)"

text \<open>
  \<open>net.SplitHostPort\<close>: split at the last colon; a bracketed host runs to its first closing
  bracket, which that colon must follow; a bare host holds no colon; no further bracket.
\<close>

definition lastColon :: "string \<Rightarrow> (string \<times> string) option" where
  "lastColon s = (case strCut (CHR '':'') (rev s) of None \<Rightarrow> None | Some (a, b) \<Rightarrow> Some (rev b, rev a))"

definition SplitHostPort :: "string \<Rightarrow> (string \<times> string) option" where
  "SplitHostPort s =
     (case lastColon s of
        None \<Rightarrow> None
      | Some (before, port) \<Rightarrow>
          if s \<noteq> [] \<and> hd s = CHR ''['' then
            (case strCut (CHR '']'') s of
               None \<Rightarrow> None
             | Some (opening, rest) \<Rightarrow>
                 if rest \<noteq> CHR '':'' # port then None
                 else if CHR ''['' \<in> set (tl opening) \<or> CHR ''['' \<in> set port
                   \<or> CHR '']'' \<in> set port then None
                 else Some (tl opening, port))
          else if CHR '':'' \<in> set before then None
          else if CHR ''['' \<in> set s \<or> CHR '']'' \<in> set s then None
          else Some (before, port))"

lemma lastColon_append: "CHR '':'' \<notin> set p \<Longrightarrow> lastColon (h @ CHR '':'' # p) = Some (h, p)"
  using strCut_append_sep [of "CHR '':''" "rev p" "rev h"] by (simp add: lastColon_def)

lemma SplitHostPort_JoinHostPort:
  assumes "set h \<inter> {CHR ''['', CHR '']''} = {}"
    and "set p \<inter> {CHR '':'', CHR ''['', CHR '']''} = {}"
  shows "SplitHostPort (JoinHostPort h p) = Some (h, p)"
proof (cases "CHR '':'' \<in> set h")
  case True
  have last: "lastColon (''['' @ h @ '']:'' @ p) = Some (''['' @ h @ '']'', p)"
    using lastColon_append [of p "''['' @ h @ '']''"] assms by simp
  have strCut: "strCut (CHR '']'') (''['' @ h @ '']:'' @ p) = Some (''['' @ h, CHR '':'' # p)"
    using strCut_append_sep [of "CHR '']''" "''['' @ h" "CHR '':'' # p"] assms by simp
  from True last strCut assms show ?thesis
    by (simp add: JoinHostPort_def SplitHostPort_def)
next
  case False
  have "lastColon (h @ '':'' @ p) = Some (h, p)"
    using lastColon_append [of p h] assms by simp
  with False assms show ?thesis
    by (cases h) (auto simp: JoinHostPort_def SplitHostPort_def)
qed

end
