(* ===== verification/CIDR.thy ===== *)
theory CIDR
  imports GoNet
begin

text \<open>
  \<open>pkg/utils/cidr.go\<close>, \<open>pkg/utils/net.go\<close> and \<open>pkg/utils/localhost.go\<close>: the address and CIDR helpers.
  What the operating system answers (the interface list, the addresses of an interface) is
  an argument; the loops over it are the program's.
\<close>

section \<open>Interface addresses\<close>

text \<open>A \<open>net.Addr\<close> is a \<open>*net.IPNet\<close>, a \<open>*net.IPAddr\<close> or something else.\<close>

datatype netAddr = AddrIPNet IPNet | AddrIPAddr IP | AddrOther string

text \<open>The switch on the address type; the field \<open>IP\<close> of an interface's \<open>IPNet\<close> is not masked.\<close>

fun addrIP :: "netAddr \<Rightarrow> IP" where
  "addrIP (AddrIPNet n) = IPNet_IP n"
| "addrIP (AddrIPAddr ip) = ip"
| "addrIP (AddrOther _) = []"

fun addrString :: "netAddr \<Rightarrow> string" where
  "addrString (AddrIPNet n) = IPNetString n"
| "addrString (AddrIPAddr ip) = IPString ip"
| "addrString (AddrOther s) = s"

text \<open>\<open>findMatchingNodeAddress\<close>; the loop state is the selected address and its subnet bits.\<close>

fun findMatchingLoop :: "IPNet \<Rightarrow> netAddr list \<Rightarrow> IP option \<Rightarrow> int \<Rightarrow> IP option" where
  "findMatchingLoop cidr [] sel bits = sel"
| "findMatchingLoop cidr (AddrIPNet ipNet # addrs) sel bits =
     (if netContains cidr (IPNet_IP ipNet) \<and> \<not> IsLoopback (IPNet_IP ipNet) then
        (let subnetBits = int (snd (maskSize (IPNet_Mask cidr))) in
         if bits = -1 \<or> subnetBits < bits
         then findMatchingLoop cidr addrs (Some (IPNet_IP ipNet)) subnetBits
         else findMatchingLoop cidr addrs sel bits)
      else findMatchingLoop cidr addrs sel bits)"
| "findMatchingLoop cidr (AddrIPAddr ip # addrs) sel bits = findMatchingLoop cidr addrs sel bits"
| "findMatchingLoop cidr (AddrOther s # addrs) sel bits = findMatchingLoop cidr addrs sel bits"

definition findMatchingNodeAddress :: "netAddr list res \<Rightarrow> IPNet \<Rightarrow> IP res" where
  "findMatchingNodeAddress interfaceAddrs cidr =
     (case interfaceAddrs of
        Inl e \<Rightarrow> Inl (Wrapf ''could not get interface addresses: %w'' [] e)
      | Inr addrs \<Rightarrow>
          (case findMatchingLoop cidr addrs None (-1) of
             None \<Rightarrow> Inl (Errorf ''could not find a matching address for CIDR %q'' [IPNetString cidr])
           | Some ip \<Rightarrow> Inr ip))"

section \<open>The first address of a subnet\<close>

text \<open>Big-endian value of a byte string (\<open>big.Int.SetBytes\<close>) and its last 16 bytes.\<close>

definition bytesToNat :: "byte list \<Rightarrow> nat" where
  "bytesToNat bs = foldl (\<lambda>v b. v * 256 + unat b) 0 bs"

fun natToBytes :: "nat \<Rightarrow> nat \<Rightarrow> byte list" where
  "natToBytes 0 n = []"
| "natToBytes (Suc l) n = natToBytes l (n div 256) @ [of_nat n]"

definition GetFirstIP :: "string \<Rightarrow> IP res" where
  "GetFirstIP subnet =
     (case ParseCIDR subnet of
        None \<Rightarrow> Inl (Errorf ''%q is not a valid subnet CIDR: %w'' [subnet])
      | Some (_, cidr) \<Rightarrow>
          Inr (natToBytes 16
                (bytesToNat (case To16 (IPNet_IP cidr) of Some b \<Rightarrow> b | None \<Rightarrow> []) + 1)))"

definition GetKubernetesServiceIPsFromServiceCIDRs :: "string \<Rightarrow> IP list res" where
  "GetKubernetesServiceIPsFromServiceCIDRs serviceCIDR =
     (let cidrs = splitOn (CHR '','') serviceCIDR in
      if length cidrs \<noteq> 1 \<and> length cidrs \<noteq> 2
      then Inl (Errorf ''invalid ServiceCIDR value: %v'' cidrs)
      else map_res (\<lambda>cidr. case GetFirstIP cidr of
                 Inl e \<Rightarrow> Inl (Wrapf ''could not get IP from CIDR %q: %w'' [cidr] e)
               | Inr ip \<Rightarrow> Inr ip) cidrs)"

section \<open>Default addresses and the CIDR of an address\<close>

text \<open>An interface: its name, the flags \<open>FlagUp\<close> and \<open>FlagLoopback\<close>, and the answer of \<open>Addrs\<close>.\<close>

record iface =
  iface_Name :: string
  iface_Up :: bool
  iface_Loopback :: bool
  iface_Addrs :: "netAddr list res"

text \<open>The inner loop of \<open>GetDefaultAddress\<close>; the flag says that both addresses were found.\<close>

fun defaultAddrLoop :: "netAddr list \<Rightarrow> string \<times> string \<Rightarrow> (string \<times> string) \<times> bool" where
  "defaultAddrLoop [] acc = (acc, False)"
| "defaultAddrLoop (addr # addrs) (ipv4, ipv6) =
     (let ip = addrIP addr in
      if IsLoopback ip then defaultAddrLoop addrs (ipv4, ipv6)
      else
        (let acc = (if To4 ip \<noteq> None \<and> ipv4 = [] then (IPString ip, ipv6)
                    else if To4 ip = None \<and> ipv6 = [] then (ipv4, IPString ip)
                    else (ipv4, ipv6)) in
         if fst acc \<noteq> [] \<and> snd acc \<noteq> [] then (acc, True) else defaultAddrLoop addrs acc))"

fun defaultIfaceLoop :: "iface list \<Rightarrow> string \<times> string \<Rightarrow> (string \<times> string) res" where
  "defaultIfaceLoop [] acc = Inr acc"
| "defaultIfaceLoop (i # is) acc =
     (if \<not> iface_Up i \<or> iface_Loopback i then defaultIfaceLoop is acc
      else (case iface_Addrs i of
              Inl e \<Rightarrow> Inl (Wrapf ''failed to get addresses for interface %q: %w'' [iface_Name i] e)
            | Inr addrs \<Rightarrow>
                (case defaultAddrLoop addrs acc of
                   (acc', found) \<Rightarrow> if found then Inr acc' else defaultIfaceLoop is acc')))"

definition GetDefaultAddress :: "iface list res \<Rightarrow> (string \<times> string) res" where
  "GetDefaultAddress interfaces =
     (case interfaces of
        Inl e \<Rightarrow> Inl (Wrapf ''failed to get network interfaces: %w'' [] e)
      | Inr is \<Rightarrow> defaultIfaceLoop is ([], []))"

fun findCIDRAddrs :: "IP \<Rightarrow> netAddr list \<Rightarrow> string option" where
  "findCIDRAddrs nodeIp [] = None"
| "findCIDRAddrs nodeIp (AddrIPNet n # addrs) =
     (if netContains n nodeIp then Some (IPNetString n) else findCIDRAddrs nodeIp addrs)"
| "findCIDRAddrs nodeIp (AddrIPAddr _ # addrs) = findCIDRAddrs nodeIp addrs"
| "findCIDRAddrs nodeIp (AddrOther _ # addrs) = findCIDRAddrs nodeIp addrs"

fun findCIDRIfaces :: "IP \<Rightarrow> iface list \<Rightarrow> string res" where
  "findCIDRIfaces nodeIp [] = Inl (Errorf ''no CIDR found for IP %q'' [IPString nodeIp])"
| "findCIDRIfaces nodeIp (i # is) =
     (if \<not> iface_Up i then findCIDRIfaces nodeIp is
      else (case iface_Addrs i of
              Inl e \<Rightarrow> Inl (Wrapf ''failed to get addresses for interface %q: %w'' [iface_Name i] e)
            | Inr addrs \<Rightarrow>
                (case findCIDRAddrs nodeIp addrs of
                   Some s \<Rightarrow> Inr s
                 | None \<Rightarrow> findCIDRIfaces nodeIp is)))"

definition FindCIDRForIP :: "iface list res \<Rightarrow> IP \<Rightarrow> string res" where
  "FindCIDRForIP interfaces nodeIp =
     (case interfaces of
        Inl e \<Rightarrow> Inl (Wrapf ''failed to get network interfaces: %w'' [] e)
      | Inr is \<Rightarrow> findCIDRIfaces nodeIp is)"

section \<open>Splitting and comparing CIDR strings\<close>

fun splitCIDRLoop :: "string list \<Rightarrow> string \<times> string \<Rightarrow> (string \<times> string) res" where
  "splitCIDRLoop [] acc = Inr acc"
| "splitCIDRLoop (cidr # cidrs) (ipv4CIDR, ipv6CIDR) =
     (case ParseCIDR cidr of
        None \<Rightarrow> Inl (Errorf ''failed to parse cidr: %w'' [cidr])
      | Some (_, parsed) \<Rightarrow>
          if To4 (IPNet_IP parsed) \<noteq> None then splitCIDRLoop cidrs (cidr, ipv6CIDR)
          else splitCIDRLoop cidrs (ipv4CIDR, cidr))"

definition SplitCIDRStrings :: "string \<Rightarrow> (string \<times> string) res" where
  "SplitCIDRStrings cidrString =
     (let clusterCIDRs = splitOn (CHR '','') cidrString in
      if length clusterCIDRs \<noteq> 1 \<and> length clusterCIDRs \<noteq> 2
      then Inl (Errorf ''invalid CIDR list: %v'' clusterCIDRs)
      else splitCIDRLoop clusterCIDRs ([], []))"

definition IsIPv4 :: "string \<Rightarrow> bool" where
  "IsIPv4 address =
     (case ParseIP (hd (splitOn (CHR '':'') address)) of None \<Rightarrow> False | Some ip \<Rightarrow> To4 ip \<noteq> None)"

definition ToIPString :: "IP \<Rightarrow> string" where
  "ToIPString ip = (if To4 ip \<noteq> None then IPString ip else ''['' @ IPString ip @ '']'')"

definition CIDRsOverlap :: "string \<Rightarrow> string \<Rightarrow> bool res" where
  "CIDRsOverlap cidr1 cidr2 =
     (case ParseCIDR cidr1 of
        None \<Rightarrow> Inl (Errorf ''couldn't parse CIDR block %q: %w'' [cidr1])
      | Some (_, ipNet1) \<Rightarrow>
          (case ParseCIDR cidr2 of
             None \<Rightarrow> Inl (Errorf ''couldn't parse CIDR block %q: %w'' [cidr2])
           | Some (_, ipNet2) \<Rightarrow>
               Inr (netContains ipNet1 (IPNet_IP ipNet2) \<or> netContains ipNet2 (IPNet_IP ipNet1))))"

definition JoinHostPortInt :: "string \<Rightarrow> int \<Rightarrow> string" where
  "JoinHostPortInt host port = JoinHostPort host (Itoa port)"

section \<open>pkg/utils/net.go\<close>

fun parseIPAddresses :: "netAddr list \<Rightarrow> IP list res" where
  "parseIPAddresses [] = Inr []"
| "parseIPAddresses (addr # addrs) =
     (if addrIP addr = [] then Inl (Errorf (''failed to parse node IP address '%s'' @ [CHR 0x27]) [addrString addr])
      else (case parseIPAddresses addrs of Inl e \<Rightarrow> Inl e | Inr ips \<Rightarrow> Inr (addrIP addr # ips)))"

text \<open>
  The loop of \<open>getIPsFromIfaceWithIP\<close> over the interfaces, each with the answer of its
  \<open>Addrs\<close> call; the state is the last error.
\<close>

fun ifaceLoop :: "IP \<Rightarrow> netAddr list res list \<Rightarrow> error option \<Rightarrow> IP list res" where
  "ifaceLoop ip [] lastError =
     (case lastError of
        Some e \<Rightarrow> Inl e
      | None \<Rightarrow> Inl (Errorf (''failed to find a local interface associated with the node IP address '%s'' @ [CHR 0x27])
                  [IPString ip]))"
| "ifaceLoop ip (iface # ifaces) lastError =
     (case iface of
        Inl e \<Rightarrow> ifaceLoop ip ifaces
                   (Some (Wrapf ''failed to get local interface addresses: %w'' [] e))
      | Inr addrs \<Rightarrow>
          (case parseIPAddresses addrs of
             Inl e \<Rightarrow> ifaceLoop ip ifaces (Some e)
           | Inr ifaceIPs \<Rightarrow>
               if list_ex (ipEqual ip) ifaceIPs then Inr ifaceIPs
               else ifaceLoop ip ifaces lastError))"

definition getIPsFromIfaceWithIP :: "netAddr list res list res \<Rightarrow> IP \<Rightarrow> IP list res" where
  "getIPsFromIfaceWithIP interfaces ip =
     (case interfaces of
        Inl e \<Rightarrow> Inl (Wrapf ''failed to get local interfaces: %w'' [] e)
      | Inr ifaces \<Rightarrow> ifaceLoop ip ifaces None)"

text \<open>
  \<open>IP.IsGlobalUnicast\<close>: 4 or 16 bytes, and not broadcast, unspecified, loopback, multicast
  or link-local unicast.
\<close>

definition IsGlobalUnicast :: "IP \<Rightarrow> bool" where
  "IsGlobalUnicast ip \<longleftrightarrow>
     (length ip = 4 \<or> length ip = 16)
     \<and> (case To4 ip of
          Some b \<Rightarrow> b \<noteq> [255, 255, 255, 255] \<and> b \<noteq> [0, 0, 0, 0]
             \<and> (b ! 0) AND 0xF0 \<noteq> 0xE0 \<and> \<not> (b ! 0 = 169 \<and> b ! 1 = 254)
        | None \<Rightarrow> ip \<noteq> replicate 16 0 \<and> ip ! 0 \<noteq> 255
             \<and> \<not> (ip ! 0 = 0xFE \<and> (ip ! 1) AND 0xC0 = 0x80))
     \<and> \<not> IsLoopback ip"

definition GetIPv46Addresses :: "netAddr list res list res \<Rightarrow> IP \<Rightarrow> IP list res" where
  "GetIPv46Addresses interfaces ip =
     (case getIPsFromIfaceWithIP interfaces ip of
        Inl e \<Rightarrow> Inl e
      | Inr ifaceIPs \<Rightarrow>
          (case find (\<lambda>x. (To4 x \<noteq> None) \<noteq> (To4 ip \<noteq> None) \<and> IsGlobalUnicast x) ifaceIPs of
             Some x \<Rightarrow> Inr [ip, x]
           | None \<Rightarrow> Inr [ip]))"

section \<open>pkg/utils/localhost.go\<close>

text \<open>
  \<open>GetLocalhostAddress\<close> over the addresses of the interface \<open>lo\<close>, each as its \<open>String()\<close>;
  the loop remembers an IPv6 loopback address.
\<close>

fun localhostLoop :: "string list \<Rightarrow> IP option \<Rightarrow> IP res" where
  "localhostLoop [] ipv6 =
     (case ipv6 of Some ip \<Rightarrow> Inr ip | None \<Rightarrow> Inl (Errorf ''no loopback address found'' []))"
| "localhostLoop (addr # addrs) ipv6 =
     (case ParseCIDR addr of
        None \<Rightarrow> localhostLoop addrs ipv6
      | Some (ip, _) \<Rightarrow>
          if ipEqual ip (v4InV6Prefix @ [127, 0, 0, 1]) then Inr ip
          else if ipEqual ip (replicate 15 0 @ [1]) then localhostLoop addrs (Some ip)
          else localhostLoop addrs ipv6)"

definition GetLocalhostAddress :: "string list res res \<Rightarrow> IP res" where
  "GetLocalhostAddress lo =
     (case lo of
        Inl e \<Rightarrow> Inl (Wrapf ''failed to get loopback interface: %w'' [] e)
      | Inr addrsRes \<Rightarrow>
          (case addrsRes of
             Inl e \<Rightarrow> Inl (Wrapf ''failed to get addresses for loopback interface: %w'' [] e)
           | Inr addrs \<Rightarrow> localhostLoop addrs None))"

section \<open>Properties\<close>

subsection \<open>Overlap\<close>

lemma CIDRsOverlap_common:
  assumes "ParseCIDR c1 = Some (ip1, n1)" "ParseCIDR c2 = Some (ip2, n2)"
  shows "CIDRsOverlap c1 c2 = Inr (\<exists>ip. netContains n1 ip \<and> netContains n2 ip)"
proof -
  have wf: "netWF n1" "netWF n2" using assms ParseCIDR_netWF by blast+
  have "(netContains n1 (IPNet_IP n2) \<or> netContains n2 (IPNet_IP n1))
      \<longleftrightarrow> (\<exists>ip. netContains n1 ip \<and> netContains n2 ip)"
    using netContains_common [OF wf] netContains_self wf by blast
  then show ?thesis using assms by (simp add: CIDRsOverlap_def)
qed

text \<open>
  C3: for two CIDR strings that parse, \<open>CIDRsOverlap\<close> returns true exactly when some address
  belongs to both networks. Testing only the two network numbers is therefore a complete
  overlap test, for IPv4, IPv6 and 4-in-6 networks alike.
\<close>

theorem CIDRsOverlap_iff_common_address:
  assumes "ParseCIDR c1 = Some (ip1, n1)" "ParseCIDR c2 = Some (ip2, n2)"
  shows "CIDRsOverlap c1 c2 = Inr (\<exists>ip. netContains n1 ip \<and> netContains n2 ip)"
  using assms by (rule CIDRsOverlap_common)

lemma parse_10_1: "ParseCIDR ''10.1.0.0/16'' = Some (v4InV6Prefix @ [10, 1, 0, 0],
    \<lparr>IPNet_IP = [10, 1, 0, 0], IPNet_Mask = [255, 255, 0, 0]\<rparr>)"
  by (simp add: net_eval)

lemma parse_10_1_2: "ParseCIDR ''10.1.2.0/24'' = Some (v4InV6Prefix @ [10, 1, 2, 0],
    \<lparr>IPNet_IP = [10, 1, 2, 0], IPNet_Mask = [255, 255, 255, 0]\<rparr>)"
  by (simp add: net_eval)

lemma parse_10_152_183: "ParseCIDR ''10.152.183.0/24'' = Some (v4InV6Prefix @ [10, 152, 183, 0],
    \<lparr>IPNet_IP = [10, 152, 183, 0], IPNet_Mask = [255, 255, 255, 0]\<rparr>)"
  by (simp add: net_eval)

theorem CIDRsOverlap_iff_common_address_witness:
  "CIDRsOverlap ''10.1.0.0/16'' ''10.1.2.0/24'' =
     Inr (\<exists>ip. netContains \<lparr>IPNet_IP = [10, 1, 0, 0], IPNet_Mask = [255, 255, 0, 0]\<rparr> ip
            \<and> netContains \<lparr>IPNet_IP = [10, 1, 2, 0], IPNet_Mask = [255, 255, 255, 0]\<rparr> ip)"
  by (rule CIDRsOverlap_iff_common_address [OF parse_10_1 parse_10_1_2])

lemma CIDRsOverlap_sym: "CIDRsOverlap a b = Inr v \<Longrightarrow> CIDRsOverlap b a = Inr v"
  by (auto simp: CIDRsOverlap_def split: option.splits)

subsection \<open>The selected node address\<close>

definition matchesCIDR :: "IPNet \<Rightarrow> netAddr \<Rightarrow> bool" where
  "matchesCIDR cidr a \<longleftrightarrow> (case a of AddrIPNet n \<Rightarrow> netContains cidr (IPNet_IP n) \<and> \<not> IsLoopback (IPNet_IP n)
     | _ \<Rightarrow> False)"

lemma findMatchingLoop_selected:
  "findMatchingLoop cidr as (Some ip) (int (snd (maskSize (IPNet_Mask cidr)))) = Some ip"
proof (induction as)
  case (Cons a as)
  then show ?case by (cases a) simp_all
qed simp

lemma findMatchingLoop_first:
  "findMatchingLoop cidr as None (-1) = map_option addrIP (find (matchesCIDR cidr) as)"
proof (induction as)
  case (Cons a as)
  then show ?case
    by (cases a) (simp_all add: matchesCIDR_def Let_def findMatchingLoop_selected)
qed simp

text \<open>
  \<open>findMatchingNodeAddress\<close> returns the first non-loopback interface address inside the
  CIDR, whatever the subnets of the addresses: the subnet bits it compares are those of the
  CIDR argument, the same in every round, so a later address never replaces the first.
\<close>

theorem findMatchingNodeAddress_first:
  "findMatchingNodeAddress (Inr addrs) cidr =
     (case find (matchesCIDR cidr) addrs of
        None \<Rightarrow> Inl (Errorf ''could not find a matching address for CIDR %q'' [IPNetString cidr])
      | Some a \<Rightarrow> Inr (addrIP a))"
  by (simp add: findMatchingNodeAddress_def findMatchingLoop_first split: option.splits)

subsection \<open>The first address\<close>

lemma bytesToNat_snoc: "bytesToNat (bs @ [b]) = bytesToNat bs * 256 + unat b"
  by (simp add: bytesToNat_def)

lemma byte_256: "(256::byte) = 0"
  by simp

lemma natToBytes_bytesToNat: "natToBytes (length bs) (bytesToNat bs) = bs"
proof (induction bs rule: rev_induct)
  case (snoc b bs)
  have "unat b < 256" using unsigned_less [of b, where ?'a = nat] by simp
  then have "(bytesToNat bs * 256 + unat b) div 256 = bytesToNat bs" by simp
  with snoc show ?case by (simp add: bytesToNat_snoc byte_256)
qed (simp add: bytesToNat_def)

lemma natToBytes_succ:
  assumes "unat b < 255"
  shows "natToBytes (Suc (length bs)) (bytesToNat (bs @ [b]) + 1) = bs @ [b + 1]"
proof -
  have "(bytesToNat bs * 256 + unat b + 1) div 256 = bytesToNat bs" using assms by simp
  then show ?thesis
    by (simp add: bytesToNat_snoc natToBytes_bytesToNat add.commute byte_256)
qed

lemma length_natToBytes [simp]: "length (natToBytes l n) = l"
  by (induction l n rule: natToBytes.induct) auto

lemma even_byte_succ_and:
  assumes "(b::byte) AND 1 = 0" "m AND 1 = 0"
  shows "(b + 1) AND m = b AND m"
proof -
  have "b + 1 = b OR 1" using assms(1) by (simp add: disjunctive_add_eq_or)
  moreover have "(b OR 1) AND m = (b AND m) OR (1 AND m)"
    by (rule bit_eqI) (auto simp: bit_simps)
  ultimately show ?thesis using assms(2) by (simp add: and.commute)
qed

lemma odd_last_not_255: "(b::byte) AND 1 = 0 \<Longrightarrow> unat b < 255"
proof -
  assume "b AND 1 = 0"
  then have "b \<noteq> 255" by auto
  then have "unat b \<noteq> unat (255::byte)" by (simp add: word_unat_eq_iff)
  moreover have "unat b < 256" using unsigned_less [of b, where ?'a = nat] by simp
  ultimately show ?thesis by simp
qed

lemma shortIP_last: "length y = 16 \<Longrightarrow> shortIP (butlast y @ [c]) = butlast (shortIP y) @ [c]"
  by (auto simp: shortIP_def To4_def drop_butlast take_butlast split: if_splits)

lemma netContains_succ:
  assumes "netWF n" "networkNumberAndMask n = Some (nn, m)" "last m AND 1 = 0" "last nn AND 1 = 0"
    and "shortIP f = butlast nn @ [last nn + 1]"
  shows "netContains n f"
proof -
  have l: "length m = length nn" "nn \<noteq> []" using assms(1,2) by (auto simp: netWF_def)
  then have "m \<noteq> []" by auto
  have "andBytes nn m = andBytes (butlast nn) (butlast m) @ [last nn AND last m]"
    using l \<open>m \<noteq> []\<close> andBytes_snoc [of "butlast nn" "butlast m" "last nn" "last m"] by simp
  also have "\<dots> = andBytes (butlast nn) (butlast m) @ [(last nn + 1) AND last m]"
    by (simp add: even_byte_succ_and assms(3,4))
  also have "\<dots> = andBytes (shortIP f) m"
    using l \<open>m \<noteq> []\<close> andBytes_snoc [of "butlast nn" "butlast m" "last nn + 1" "last m"]
    by (simp add: assms(5))
  finally show ?thesis using l assms(2,5) by (simp add: netContains_def)
qed

text \<open>The value \<open>GetFirstIP\<close> computes, once the network number is known to be even.\<close>

lemma GetFirstIP_eq:
  assumes "ParseCIDR s = Some (ip, n)" "To16 (IPNet_IP n) = Some y" "length y = 16" "last y AND 1 = 0"
  shows "GetFirstIP s = Inr (butlast y @ [last y + 1])"
proof -
  have "y \<noteq> []" using assms(3) by auto
  then have y: "y = butlast y @ [last y]" "length (butlast y) = 15"
    using assms(3) by simp_all
  have e16: "Suc (length (butlast y)) = 16" using y(2) by simp
  have "natToBytes (Suc (length (butlast y))) (bytesToNat (butlast y @ [last y]) + 1)
      = butlast y @ [last y + 1]"
    by (rule natToBytes_succ) (simp add: odd_last_not_255 assms(4))
  then have "natToBytes 16 (bytesToNat y + 1) = butlast y @ [last y + 1]"
    unfolding e16 append_butlast_last_id [OF \<open>y \<noteq> []\<close>] .
  then show ?thesis using assms by (simp add: GetFirstIP_def del: natToBytes.simps)
qed

text \<open>
  For a subnet whose prefix is shorter than the address, \<open>GetFirstIP\<close> succeeds, its
  16-byte result lies inside the subnet, and it differs from the network number.
\<close>

theorem GetFirstIP_in_subnet:
  assumes p: "ParseCIDR s = Some (ip, n)"
    and short: "fst (maskSize (IPNet_Mask n)) < snd (maskSize (IPNet_Mask n))"
  shows "\<exists>f. GetFirstIP s = Inr f \<and> length f = 16 \<and> netContains n f
           \<and> shortIP f \<noteq> shortIP (IPNet_IP n)"
proof -
  obtain x k l where l: "length x = l" "l = 4 \<or> l = 16" "k \<le> 8 * l"
    and n: "n = \<lparr>IPNet_IP = andBytes x (CIDRMask k l), IPNet_Mask = CIDRMask k l\<rparr>"
    using ParseCIDR_masked [OF p] by metis
  obtain l' where l': "l = Suc l'" using l(2) by (cases l) auto
  have "k < 8 * l" using short n l(3) by (simp add: maskSize_CIDRMask)
  then have "k < 8 * Suc l'" by (simp add: l')
  then have m: "last (CIDRMask k l) AND 1 = 0" unfolding l' by (rule last_CIDRMask_even)
  have wf: "netWF n" using p by (rule ParseCIDR_netWF)
  let ?b = "IPNet_IP n"
  have "x \<noteq> []" using l by auto
  then have b: "length ?b = l" "last ?b AND 1 = 0"
    using l n m last_andBytes [of x "CIDRMask k l"] by (simp_all add: and.assoc)
  have "last (v4InV6Prefix @ ?b) = last ?b" using b(1) l(2) by (intro last_appendR) auto
  then obtain y where y: "To16 ?b = Some y" "length y = 16" "last y = last ?b" "shortIP y = shortIP ?b"
    using b(1) l(2) by (auto simp: To16_def shortIP_def To4_def)
  let ?f = "butlast y @ [last y + 1]"
  obtain nn M where nn: "networkNumberAndMask n = Some (nn, M)" "nn = shortIP ?b"
    using wf by (auto simp: netWF_def)
  have last: "last nn = last ?b" "nn \<noteq> []"
    using nn(2) b(1) l(2) by (auto simp: shortIP_def To4_def split: if_splits)
  have M: "last M AND 1 = 0"
    using nn(1) m l(2) unfolding n networkNumberAndMask_def by (auto simp: Let_def split: if_splits)
  have f: "shortIP ?f = butlast nn @ [last nn + 1]"
    using y last nn(2) by (simp add: shortIP_last)
  have "GetFirstIP s = Inr ?f" using p y b(2) by (intro GetFirstIP_eq) auto
  moreover have "netContains n ?f"
    by (rule netContains_succ [OF wf nn(1) M _ f]) (simp add: last(1) b(2))
  moreover have "shortIP ?f \<noteq> shortIP ?b"
    unfolding f nn(2) [symmetric] using last(2) by (metis append_butlast_last_id append1_eq_conv
        add_cancel_left_right zero_neq_one)
  ultimately show ?thesis using y(2) by auto
qed

theorem GetFirstIP_in_subnet_witness:
  "\<exists>f. GetFirstIP ''10.152.183.0/24'' = Inr f \<and> length f = 16
     \<and> netContains \<lparr>IPNet_IP = [10, 152, 183, 0], IPNet_Mask = [255, 255, 255, 0]\<rparr> f
     \<and> shortIP f \<noteq> shortIP [10, 152, 183, 0]"
  using GetFirstIP_in_subnet [OF parse_10_152_183] by (simp add: maskSize_def byteOnes_def)

subsection \<open>Splitting\<close>

text \<open>The address family of a CIDR string: IPv4 is \<open>True\<close>.\<close>

definition cidrFamily :: "string \<Rightarrow> bool option" where
  "cidrFamily c = map_option (\<lambda>(_, n). To4 (IPNet_IP n) \<noteq> None) (ParseCIDR c)"

lemma splitCIDRLoop_parses:
  "splitCIDRLoop cs acc = Inr r \<Longrightarrow> \<forall>c \<in> set cs. parsesAsCIDR c"
proof (induction cs arbitrary: acc)
  case (Cons c cs)
  obtain a b where acc: "acc = (a, b)" by (cases acc)
  with Cons show ?case by (auto simp: parsesAsCIDR_def split: option.splits if_splits)
qed simp

lemma splitCIDRLoop_v4:
  assumes "splitCIDRLoop cs (a, b) = Inr (v4, v6)"
    and "\<forall>d \<in> set cs. cidrFamily d = Some True \<longrightarrow> d = c"
    and "cidrFamily c = Some True" "a = c \<or> c \<in> set cs"
  shows "v4 = c"
  using assms
proof (induction cs arbitrary: a b)
  case (Cons d cs)
  then show ?case
    by (auto simp: cidrFamily_def split: option.splits if_splits prod.splits)
qed simp

lemma splitCIDRLoop_v6:
  assumes "splitCIDRLoop cs (a, b) = Inr (v4, v6)"
    and "\<forall>d \<in> set cs. cidrFamily d = Some False \<longrightarrow> d = c"
    and "cidrFamily c = Some False" "b = c \<or> c \<in> set cs"
  shows "v6 = c"
  using assms
proof (induction cs arbitrary: a b)
  case (Cons d cs)
  then show ?case
    by (auto simp: cidrFamily_def split: option.splits if_splits prod.splits)
qed simp

text \<open>An address inside a network has the network's family, so two networks that share an address agree.\<close>

lemma netContains_family:
  assumes "ParseCIDR c = Some (a, n)" "netContains n ip"
  shows "cidrFamily c = Some (length (shortIP ip) = 4)"
proof -
  have wf: "netWF n" using assms(1) by (rule ParseCIDR_netWF)
  then have "length (shortIP ip) = length (shortIP (IPNet_IP n))"
    using assms(2) by (auto simp: netWF_def netContains_def)
  moreover have "length (shortIP (IPNet_IP n)) = 4 \<longleftrightarrow> To4 (IPNet_IP n) \<noteq> None"
    using wf by (auto simp: netWF_def shortIP_def To4_def split: if_splits option.splits)
  ultimately show ?thesis using assms(1) by (simp add: cidrFamily_def)
qed

end
