(* ===== verification/ClusterConfig.thy ===== *)
theory ClusterConfig
  imports CIDR
begin

text \<open>
  The data model of \<open>pkg/k8sd/types\<close>: one record per Go struct, with the struct's name as a
  prefix of its fields, the accessor methods, and the conversions of the small structs
  (feature status, snap refresh, service ports). A field of type \<open>*T\<close> is a \<open>'a ptr\<close>;
  the accessor \<open>Get...\<close> of a nil field is the zero value of \<open>T\<close>. The Go map type
  \<open>Annotations\<close> is a partial function, itself a pointer because a nil map differs from an
  empty one where maps are merged.
\<close>

section \<open>Records\<close>

record Certificates =
  Certificates_CACert :: "string ptr"
  Certificates_CAKey :: "string ptr"
  Certificates_ClientCACert :: "string ptr"
  Certificates_ClientCAKey :: "string ptr"
  Certificates_FrontProxyCACert :: "string ptr"
  Certificates_FrontProxyCAKey :: "string ptr"
  Certificates_ServiceAccountKey :: "string ptr"
  Certificates_APIServerKubeletClientCert :: "string ptr"
  Certificates_APIServerKubeletClientKey :: "string ptr"
  Certificates_AdminClientCert :: "string ptr"
  Certificates_AdminClientKey :: "string ptr"
  Certificates_K8sdPublicKey :: "string ptr"
  Certificates_K8sdPrivateKey :: "string ptr"

record Datastore =
  Datastore_Type :: "string ptr"
  Datastore_ExternalServers :: "string list ptr"
  Datastore_ExternalCACert :: "string ptr"
  Datastore_ExternalClientCert :: "string ptr"
  Datastore_ExternalClientKey :: "string ptr"
  Datastore_EtcdCACert :: "string ptr"
  Datastore_EtcdCAKey :: "string ptr"
  Datastore_EtcdAPIServerClientCert :: "string ptr"
  Datastore_EtcdAPIServerClientKey :: "string ptr"
  Datastore_EtcdPort :: "int ptr"
  Datastore_EtcdPeerPort :: "int ptr"

record APIServer =
  APIServer_SecurePort :: "int ptr"
  APIServer_AuthorizationMode :: "string ptr"

record Kubelet =
  Kubelet_CloudProvider :: "string ptr"
  Kubelet_ClusterDNS :: "string ptr"
  Kubelet_ClusterDomain :: "string ptr"
  Kubelet_ControlPlaneTaints :: "string list ptr"

record Network =
  Network_Enabled :: "bool ptr"
  Network_PodCIDR :: "string ptr"
  Network_ServiceCIDR :: "string ptr"
  Network_KubeProxyEnabled :: "bool ptr"

record DNS =
  DNS_Enabled :: "bool ptr"
  DNS_UpstreamNameservers :: "string list ptr"

record Ingress =
  Ingress_Enabled :: "bool ptr"
  Ingress_DefaultTLSSecret :: "string ptr"
  Ingress_EnableProxyProtocol :: "bool ptr"

record LoadBalancer_IPRange =
  IPRange_Start :: string
  IPRange_Stop :: string

record LoadBalancer =
  LoadBalancer_Enabled :: "bool ptr"
  LoadBalancer_CIDRs :: "string list ptr"
  LoadBalancer_IPRanges :: "LoadBalancer_IPRange list ptr"
  LoadBalancer_L2Mode :: "bool ptr"
  LoadBalancer_L2Interfaces :: "string list ptr"
  LoadBalancer_BGPMode :: "bool ptr"
  LoadBalancer_BGPLocalASN :: "int ptr"
  LoadBalancer_BGPPeerAddress :: "string ptr"
  LoadBalancer_BGPPeerASN :: "int ptr"
  LoadBalancer_BGPPeerPort :: "int ptr"

record Gateway =
  Gateway_Enabled :: "bool ptr"

record MetricsServer =
  MetricsServer_Enabled :: "bool ptr"

record LocalStorage =
  LocalStorage_Enabled :: "bool ptr"
  LocalStorage_LocalPath :: "string ptr"
  LocalStorage_ReclaimPolicy :: "string ptr"
  LocalStorage_Default :: "bool ptr"

type_synonym Annotations = "(string \<rightharpoonup> string) ptr"

record ClusterConfig =
  CC_Certificates :: Certificates
  CC_Datastore :: Datastore
  CC_APIServer :: APIServer
  CC_Kubelet :: Kubelet
  CC_Network :: Network
  CC_DNS :: DNS
  CC_Ingress :: Ingress
  CC_LoadBalancer :: LoadBalancer
  CC_Gateway :: Gateway
  CC_LocalStorage :: LocalStorage
  CC_MetricsServer :: MetricsServer
  CC_Annotations :: Annotations

section \<open>Zero values\<close>

definition emptyCertificates :: Certificates where
  "emptyCertificates = \<lparr>Certificates_CACert = None, Certificates_CAKey = None,
     Certificates_ClientCACert = None, Certificates_ClientCAKey = None,
     Certificates_FrontProxyCACert = None, Certificates_FrontProxyCAKey = None,
     Certificates_ServiceAccountKey = None, Certificates_APIServerKubeletClientCert = None,
     Certificates_APIServerKubeletClientKey = None, Certificates_AdminClientCert = None,
     Certificates_AdminClientKey = None, Certificates_K8sdPublicKey = None,
     Certificates_K8sdPrivateKey = None\<rparr>"

definition emptyDatastore :: Datastore where
  "emptyDatastore = \<lparr>Datastore_Type = None, Datastore_ExternalServers = None,
     Datastore_ExternalCACert = None, Datastore_ExternalClientCert = None,
     Datastore_ExternalClientKey = None, Datastore_EtcdCACert = None, Datastore_EtcdCAKey = None,
     Datastore_EtcdAPIServerClientCert = None, Datastore_EtcdAPIServerClientKey = None,
     Datastore_EtcdPort = None, Datastore_EtcdPeerPort = None\<rparr>"

definition emptyAPIServer :: APIServer where
  "emptyAPIServer = \<lparr>APIServer_SecurePort = None, APIServer_AuthorizationMode = None\<rparr>"

definition emptyKubelet :: Kubelet where
  "emptyKubelet = \<lparr>Kubelet_CloudProvider = None, Kubelet_ClusterDNS = None,
     Kubelet_ClusterDomain = None, Kubelet_ControlPlaneTaints = None\<rparr>"

definition emptyNetwork :: Network where
  "emptyNetwork = \<lparr>Network_Enabled = None, Network_PodCIDR = None, Network_ServiceCIDR = None,
     Network_KubeProxyEnabled = None\<rparr>"

definition emptyDNS :: DNS where
  "emptyDNS = \<lparr>DNS_Enabled = None, DNS_UpstreamNameservers = None\<rparr>"

definition emptyIngress :: Ingress where
  "emptyIngress = \<lparr>Ingress_Enabled = None, Ingress_DefaultTLSSecret = None,
     Ingress_EnableProxyProtocol = None\<rparr>"

definition emptyLoadBalancer :: LoadBalancer where
  "emptyLoadBalancer = \<lparr>LoadBalancer_Enabled = None, LoadBalancer_CIDRs = None,
     LoadBalancer_IPRanges = None, LoadBalancer_L2Mode = None, LoadBalancer_L2Interfaces = None,
     LoadBalancer_BGPMode = None, LoadBalancer_BGPLocalASN = None, LoadBalancer_BGPPeerAddress = None,
     LoadBalancer_BGPPeerASN = None, LoadBalancer_BGPPeerPort = None\<rparr>"

definition emptyGateway :: Gateway where
  "emptyGateway = \<lparr>Gateway_Enabled = None\<rparr>"

definition emptyMetricsServer :: MetricsServer where
  "emptyMetricsServer = \<lparr>MetricsServer_Enabled = None\<rparr>"

definition emptyLocalStorage :: LocalStorage where
  "emptyLocalStorage = \<lparr>LocalStorage_Enabled = None, LocalStorage_LocalPath = None,
     LocalStorage_ReclaimPolicy = None, LocalStorage_Default = None\<rparr>"

definition emptyClusterConfig :: ClusterConfig where
  "emptyClusterConfig = \<lparr>CC_Certificates = emptyCertificates, CC_Datastore = emptyDatastore,
     CC_APIServer = emptyAPIServer, CC_Kubelet = emptyKubelet, CC_Network = emptyNetwork,
     CC_DNS = emptyDNS, CC_Ingress = emptyIngress, CC_LoadBalancer = emptyLoadBalancer,
     CC_Gateway = emptyGateway, CC_LocalStorage = emptyLocalStorage,
     CC_MetricsServer = emptyMetricsServer, CC_Annotations = None\<rparr>"

lemmas empty_defs = emptyCertificates_def emptyDatastore_def emptyAPIServer_def emptyKubelet_def
  emptyNetwork_def emptyDNS_def emptyIngress_def emptyLoadBalancer_def emptyGateway_def
  emptyMetricsServer_def emptyLocalStorage_def emptyClusterConfig_def

section \<open>Accessors with a rule of their own\<close>

text \<open>
  Every accessor is \<open>getField\<close> of its field, written \<open>getStr\<close>, \<open>getInt\<close>, \<open>getBool\<close>,
  \<open>getList\<close> at the place of use, except the three below: the client CA falls back to the CA,
  and \<open>kube-proxy-enabled\<close> defaults to true.
\<close>

definition GetClientCACert :: "Certificates \<Rightarrow> string" where [getters]:
  "GetClientCACert c =
     (let v = getStr (Certificates_ClientCACert c) in
      if v \<noteq> [] then v else getStr (Certificates_CACert c))"

definition GetClientCAKey :: "Certificates \<Rightarrow> string" where [getters]:
  "GetClientCAKey c =
     (let v = getStr (Certificates_ClientCAKey c) in
      if v \<noteq> [] then v else getStr (Certificates_CAKey c))"

definition GetKubeProxyEnabled :: "Network \<Rightarrow> bool" where [getters]:
  "GetKubeProxyEnabled c =
     (case Network_KubeProxyEnabled c of None \<Rightarrow> True | Some b \<Rightarrow> b)"

definition Certificates_Empty :: "Certificates \<Rightarrow> bool" where [getters]:
  "Certificates_Empty c \<longleftrightarrow> c = emptyCertificates"

definition Datastore_Empty :: "Datastore \<Rightarrow> bool" where [getters]:
  "Datastore_Empty c \<longleftrightarrow> c = emptyDatastore"

definition Annotations_Get :: "Annotations \<Rightarrow> string \<Rightarrow> string \<times> bool" where [getters]:
  "Annotations_Get a key =
     (case a of None \<Rightarrow> ([], False)
      | Some m \<Rightarrow> (case m key of Some v \<Rightarrow> (v, True) | None \<Rightarrow> ([], False)))"

section \<open>Datastore arguments of the kube-apiserver\<close>

text \<open>
  \<open>Datastore.ToKubeAPIServerArguments\<close>. The paths provider and the answer of
  \<open>utils.GetLocalhostAddress\<close> are arguments. The update map is the list of its entries.
\<close>

record DatastorePathsProvider =
  KubernetesPKIDir :: string
  EtcdPKIDir :: string

definition externalCertEntries :: "Datastore \<Rightarrow> (string \<times> string \<times> string) list" where
  "externalCertEntries c =
     [(getStr (Datastore_ExternalCACert c), ''--etcd-cafile'', ''ca.crt''),
      (getStr (Datastore_ExternalClientCert c), ''--etcd-certfile'', ''client.crt''),
      (getStr (Datastore_ExternalClientKey c), ''--etcd-keyfile'', ''client.key'')]"

fun externalCertLoop ::
  "string \<Rightarrow> (string \<times> string \<times> string) list \<Rightarrow> string gomap \<times> string list
   \<Rightarrow> string gomap \<times> string list"
where
  "externalCertLoop dir [] acc = acc"
| "externalCertLoop dir ((cert, arg, path) # es) (updateArgs, deleteArgs) =
     (if cert \<noteq> [] then externalCertLoop dir es (AList.update arg (pathJoin dir path) updateArgs, deleteArgs)
      else externalCertLoop dir es (updateArgs, deleteArgs @ [arg]))"

definition ToKubeAPIServerArguments ::
  "IP res \<Rightarrow> DatastorePathsProvider \<Rightarrow> Datastore
   \<Rightarrow> (string gomap \<times> string list) res"
where
  "ToKubeAPIServerArguments localhost p c =
     (if getStr (Datastore_Type c) = ''etcd'' then
        (case localhost of
           Inl e \<Rightarrow> Inl (Wrapf ''failed to get localhost address: %w'' [] e)
         | Inr host \<Rightarrow>
             Inr ([(''--etcd-cafile'', pathJoin (EtcdPKIDir p) ''ca.crt''),
                   (''--etcd-certfile'', pathJoin (KubernetesPKIDir p) ''apiserver-etcd-client.crt''),
                   (''--etcd-keyfile'', pathJoin (KubernetesPKIDir p) ''apiserver-etcd-client.key''),
                   (''--etcd-servers'',
                      ''https://'' @ JoinHostPortInt (IPString host) (getInt (Datastore_EtcdPort c)))], []))
      else if getStr (Datastore_Type c) = ''external'' then
        Inr (externalCertLoop (EtcdPKIDir p) (externalCertEntries c)
              ([(''--etcd-servers'',
                  joinWith (CHR '','') (getList (Datastore_ExternalServers c)))], []))
      else Inr ([], []))"

section \<open>Service ports\<close>

type_synonym extraArgs = "(string \<rightharpoonup> string ptr) ptr"

record K8sServiceConfigs =
  ExtraNodeKubeControllerManagerArgs :: extraArgs
  ExtraNodeKubeSchedulerArgs :: extraArgs
  ExtraNodeKubeletArgs :: extraArgs
  ExtraNodeKubeProxyArgs :: extraArgs

definition getConfigOrDefault :: "extraArgs \<Rightarrow> string \<Rightarrow> string \<Rightarrow> string" where
  "getConfigOrDefault serviceArgs optionName defaultValue =
     (case serviceArgs of
        None \<Rightarrow> defaultValue
      | Some m \<Rightarrow> (case m optionName of
                     Some (Some val) \<Rightarrow> val
                   | _ \<Rightarrow> defaultValue))"

definition GetKubeControllerManagerPort :: "K8sServiceConfigs \<Rightarrow> string" where
  "GetKubeControllerManagerPort s =
     getConfigOrDefault (ExtraNodeKubeControllerManagerArgs s) ''--secure-port'' ''10257''"

definition GetKubeSchedulerPort :: "K8sServiceConfigs \<Rightarrow> string" where
  "GetKubeSchedulerPort s =
     getConfigOrDefault (ExtraNodeKubeSchedulerArgs s) ''--secure-port'' ''10259''"

definition GetKubeletPort :: "K8sServiceConfigs \<Rightarrow> string" where
  "GetKubeletPort s = getConfigOrDefault (ExtraNodeKubeletArgs s) ''--port'' ''10250''"

definition GetKubeletHealthzPort :: "K8sServiceConfigs \<Rightarrow> string" where
  "GetKubeletHealthzPort s = getConfigOrDefault (ExtraNodeKubeletArgs s) ''--healthz-port'' ''10248''"

definition GetKubeletReadOnlyPort :: "K8sServiceConfigs \<Rightarrow> string" where
  "GetKubeletReadOnlyPort s = getConfigOrDefault (ExtraNodeKubeletArgs s) ''--read-only-port'' ''10255''"

text \<open>The kube-proxy ports come from a bind address, whose port part \<open>net.SplitHostPort\<close> returns.\<close>

definition bindAddressPort :: "extraArgs \<Rightarrow> string \<Rightarrow> string \<Rightarrow> string res" where
  "bindAddressPort args option defaultPort =
     (let address = getConfigOrDefault args option [] in
      if address = [] then Inr defaultPort
      else (case SplitHostPort address of
              None \<Rightarrow> Inl (Errorf ''address %s: cannot split host and port'' [address])
            | Some (_, port) \<Rightarrow> Inr port))"

definition GetKubeProxyHealthzPort :: "K8sServiceConfigs \<Rightarrow> string res" where
  "GetKubeProxyHealthzPort s =
     bindAddressPort (ExtraNodeKubeProxyArgs s) ''--healthz-bind-address'' ''10256''"

definition GetKubeProxyMetricsPort :: "K8sServiceConfigs \<Rightarrow> string res" where
  "GetKubeProxyMetricsPort s =
     bindAddressPort (ExtraNodeKubeProxyArgs s) ''--metrics-bind-address'' ''10249''"

section \<open>Feature status and snap refresh\<close>

type_synonym FeatureName = string

text \<open>\<open>'t\<close> is the time type.\<close>

record 't FeatureStatus =
  FS_Enabled :: bool
  FS_Message :: string
  FS_Version :: string
  FS_UpdatedAt :: 't

record RefreshOpts =
  Refresh_LocalPath :: string
  Refresh_Channel :: string
  Refresh_Revision :: string

text \<open>
  \<open>RefreshOptsFromAPI\<close>. The request's three fields come as a record of the same shape. The
  loop over the map of options visits the values in an unspecified order, given by \<open>order\<close>.
\<close>

fun onlyOneSet :: "string list \<Rightarrow> bool \<Rightarrow> bool" where
  "onlyOneSet [] alreadySet = True"
| "onlyOneSet (v # vs) alreadySet =
     (if alreadySet \<and> v \<noteq> [] then False else onlyOneSet vs (alreadySet \<or> v \<noteq> []))"

definition noRefreshOpts :: RefreshOpts where
  "noRefreshOpts = \<lparr>Refresh_LocalPath = [], Refresh_Channel = [], Refresh_Revision = []\<rparr>"

definition RefreshOptsFromAPI ::
  "(string list \<Rightarrow> string list) \<Rightarrow> RefreshOpts \<Rightarrow> RefreshOpts res"
where
  "RefreshOptsFromAPI order req =
     (if \<not> onlyOneSet (order [Refresh_LocalPath req, Refresh_Channel req, Refresh_Revision req]) False
      then Inl (Errorf ''only one of localPath, channel or revision can be specified'' [])
      else if Refresh_LocalPath req \<noteq> [] then
        Inr (noRefreshOpts\<lparr>Refresh_LocalPath := Refresh_LocalPath req\<rparr>)
      else if Refresh_Channel req \<noteq> [] then
        Inr (noRefreshOpts\<lparr>Refresh_Channel := Refresh_Channel req\<rparr>)
      else if Refresh_Revision req \<noteq> [] then
        Inr (noRefreshOpts\<lparr>Refresh_Revision := Refresh_Revision req\<rparr>)
      else Inl (Errorf ''empty snap refresh target'' []))"

end
