(* ===== verification/Validate.thy ===== *)
theory Validate
  imports ClusterConfig
begin

text \<open>
  \<open>pkg/k8sd/types/cluster_config_validate.go\<close>: the checks a cluster configuration passes
  before it is stored. What comes from packages outside the repository is a record
  \<open>extern\<close>: the name of the MetalLB BGP peers annotation, and whether \<open>url.Parse\<close> accepts a
  string.
\<close>

record extern =
  AnnotationBGPPeers :: string
  url_Parse_ok :: "string \<Rightarrow> bool"

section \<open>CIDR checks\<close>

definition validateCIDRs :: "string \<Rightarrow> unit res" where
  "validateCIDRs cidrString =
     (let cidrs = splitOn (CHR '','') cidrString in
      if length cidrs \<noteq> 1 \<and> length cidrs \<noteq> 2
      then Inl (Errorf ''must contain 1 or 2 CIDRs, but found %d instead'' [Itoa (int (length cidrs))])
      else each (\<lambda>cidr. if ParseCIDR cidr = None
                        then Inl (Errorf ''%q is not a valid CIDR: %w'' [cidr]) else ok) cidrs)"

text \<open>The overlap check of one address family; the two families differ only in the message.\<close>

definition checkOverlap :: "string \<Rightarrow> string \<Rightarrow> string \<Rightarrow> string \<Rightarrow> string \<Rightarrow> unit res" where
  "checkOverlap family podCIDR serviceCIDR pod svc =
     (if pod \<noteq> [] \<and> svc \<noteq> [] then
        (case CIDRsOverlap pod svc of
           Inl e \<Rightarrow> Inl (Wrapf (''failed to check for '' @ family @ '' overlap: %w'') [] e)
         | Inr overlap \<Rightarrow>
             if overlap
             then Inl (Errorf ''pod CIDR %q and service CIDR %q overlap'' [podCIDR, serviceCIDR])
             else ok)
      else ok)"

definition validateCIDROverlap :: "string \<Rightarrow> string \<Rightarrow> unit res" where
  "validateCIDROverlap podCIDR serviceCIDR =
     (case SplitCIDRStrings podCIDR of
        Inl e \<Rightarrow> Inl (Wrapf ''failed to parse pod CIDR: %w'' [] e)
      | Inr (podIPv4CIDR, podIPv6CIDR) \<Rightarrow>
          (case SplitCIDRStrings serviceCIDR of
             Inl e \<Rightarrow> Inl (Wrapf ''failed to parse service CIDR: %w'' [] e)
           | Inr (svcIPv4CIDR, svcIPv6CIDR) \<Rightarrow>
               (case checkOverlap ''IPv4'' podCIDR serviceCIDR podIPv4CIDR svcIPv4CIDR of
                  Inl e \<Rightarrow> Inl e
                | Inr _ \<Rightarrow> checkOverlap ''IPv6'' podCIDR serviceCIDR podIPv6CIDR svcIPv6CIDR)))"

definition validateIPv6CIDRSize :: "string \<Rightarrow> unit res" where
  "validateIPv6CIDRSize serviceCIDR =
     (case SplitCIDRStrings serviceCIDR of
        Inl e \<Rightarrow> Inl (Wrapf ''invalid CIDR: %w'' [] e)
      | Inr (_, svcIPv6CIDR) \<Rightarrow>
          if svcIPv6CIDR = [] then ok
          else (case ParseCIDR svcIPv6CIDR of
                  None \<Rightarrow> Inl (Errorf ''invalid CIDR: %w'' [svcIPv6CIDR])
                | Some (_, ipv6Net) \<Rightarrow>
                    if fst (maskSize (IPNet_Mask ipv6Net)) < 108
                    then Inl (Errorf ''service CIDR %q cannot be larger than /108'' [serviceCIDR])
                    else ok))"

section \<open>Validate\<close>

text \<open>
  The body of \<open>Validate\<close>, one definition per group of checks, in the order of the source;
  \<open>seqRes\<close> is the early return between them.
\<close>

fun seqRes :: "unit res list \<Rightarrow> unit res" where
  "seqRes [] = ok"
| "seqRes (r # rs) = (case r of Inl e \<Rightarrow> Inl e | Inr _ \<Rightarrow> seqRes rs)"

definition wrapErr :: "string \<Rightarrow> unit res \<Rightarrow> unit res" where
  "wrapErr msg r = (case r of Inl e \<Rightarrow> Inl (Wrapf msg [] e) | Inr _ \<Rightarrow> ok)"

definition failIf :: "bool \<Rightarrow> error \<Rightarrow> unit res" where
  "failIf b e = (if b then Inl e else ok)"

definition validateNetwork :: "ClusterConfig \<Rightarrow> unit res" where
  "validateNetwork c =
     (let net = CC_Network c; pod = getStr (Network_PodCIDR net); svc = getStr (Network_ServiceCIDR net) in
      seqRes [
        wrapErr ''invalid pod CIDR: %w'' (validateCIDRs pod),
        wrapErr ''invalid service CIDR: %w'' (validateCIDRs svc),
        wrapErr ''invalid cidr configuration: %w'' (validateCIDROverlap pod svc),
        wrapErr ''invalid service CIDR: %w'' (validateIPv6CIDRSize svc),
        failIf (\<not> getBool (Network_Enabled net) \<and> getBool (Gateway_Enabled (CC_Gateway c)))
          (Errorf ''gateway requires network to be enabled'' []),
        failIf (\<not> getBool (Network_Enabled net) \<and> getBool (Ingress_Enabled (CC_Ingress c)))
          (Errorf ''ingress requires network to be enabled'' []),
        failIf (getBool (Network_Enabled net) \<and> Network_KubeProxyEnabled net \<noteq> None
                \<and> GetKubeProxyEnabled net)
          (Errorf ''kube-proxy-enabled cannot be set to true when network is enabled'' [])])"

definition validateIPRange :: "LoadBalancer_IPRange \<Rightarrow> unit res" where
  "validateIPRange ipRange =
     (case ParseAddr (IPRange_Start ipRange) of
        None \<Rightarrow> Inl (Errorf ''load-balancer configuration contains an IP range (%#v) with an invalid start IP: %w''
                     [IPRange_Start ipRange, IPRange_Stop ipRange])
      | Some start \<Rightarrow>
          (case ParseAddr (IPRange_Stop ipRange) of
             None \<Rightarrow> Inl (Errorf ''load-balancer configuration contains an IP range (%#v) with an invalid stop IP: %w''
                          [IPRange_Start ipRange, IPRange_Stop ipRange])
           | Some stop \<Rightarrow>
               if addrLess stop start
               then Inl (Errorf ''load-balancer configuration contains an IP range (%#v) with start IP greater than the stop IP''
                          [IPRange_Start ipRange, IPRange_Stop ipRange])
               else ok))"

definition hasBGPPeersAnnotation :: "extern \<Rightarrow> ClusterConfig \<Rightarrow> bool" where
  "hasBGPPeersAnnotation ext c =
     (case CC_Annotations c of None \<Rightarrow> False | Some m \<Rightarrow> m (AnnotationBGPPeers ext) \<noteq> None)"

definition validateBGP :: "extern \<Rightarrow> ClusterConfig \<Rightarrow> unit res" where
  "validateBGP ext c =
     (let lb = CC_LoadBalancer c in
      if \<not> getBool (LoadBalancer_BGPMode lb) then ok
      else if getInt (LoadBalancer_BGPLocalASN lb) = 0 then
        Inl (Errorf ''load-balancer.bgp-local-asn must be set when load-balancer.bgp-mode is enabled'' [])
      else if hasBGPPeersAnnotation ext c then ok
      else if getStr (LoadBalancer_BGPPeerAddress lb) = [] then
        Inl (Errorf ''load-balancer.bgp-peer-address must be set when load-balancer.bgp-mode is enabled (or supply peers via the %s annotation)''
               [AnnotationBGPPeers ext])
      else if getInt (LoadBalancer_BGPPeerASN lb) = 0 then
        Inl (Errorf ''load-balancer.bgp-peer-asn must be set when load-balancer.bgp-mode is enabled (or supply peers via the %s annotation)''
               [AnnotationBGPPeers ext])
      else ok)"

definition validateLoadBalancer :: "extern \<Rightarrow> ClusterConfig \<Rightarrow> unit res" where
  "validateLoadBalancer ext c =
     seqRes [
       each (\<lambda>cidr. if ParseCIDR cidr = None
              then Inl (Errorf ''load-balancer configuration contains an invalid CIDR %q: %w'' [cidr])
              else ok) (getList (LoadBalancer_CIDRs (CC_LoadBalancer c))),
       each validateIPRange (getList (LoadBalancer_IPRanges (CC_LoadBalancer c))),
       validateBGP ext c]"

definition validateStorageDNSDatastore :: "extern \<Rightarrow> ClusterConfig \<Rightarrow> unit res" where
  "validateStorageDNSDatastore ext c =
     (let ls = CC_LocalStorage c; dns = getStr (Kubelet_ClusterDNS (CC_Kubelet c)) in
      seqRes [
        failIf (getStr (LocalStorage_ReclaimPolicy ls) \<notin> {[], ''Retain'', ''Delete''})
          (Errorf ''local-storage.reclaim-policy must be one of: Retain, Delete'' []),
        failIf (getBool (LocalStorage_Enabled ls) \<and> getStr (LocalStorage_LocalPath ls) = [])
          (Errorf ''local-storage.local-path must be set when local-storage is enabled'' []),
        failIf (dns \<noteq> [] \<and> ParseIP dns = None)
          (Errorf ''dns.service-ip must be a valid IP address'' []),
        each (\<lambda>server. if \<not> url_Parse_ok ext server
               then Inl (Errorf ''datastore.external-servers contains invalid address: %s'' [server])
               else ok) (getList (Datastore_ExternalServers (CC_Datastore c)))])"

definition Validate :: "extern \<Rightarrow> ClusterConfig \<Rightarrow> unit res" where
  "Validate ext c =
     seqRes [validateNetwork c, validateLoadBalancer ext c, validateStorageDNSDatastore ext c]"

section \<open>What a valid configuration satisfies\<close>

lemma seqRes_ok_iff: "seqRes rs = ok \<longleftrightarrow> (\<forall>r \<in> set rs. r = ok)"
  by (induction rs) (auto split: sum.splits)

declare seqRes.simps [simp del]

lemma wrapErr_ok_iff [simp]: "wrapErr m r = ok \<longleftrightarrow> r = ok"
  by (cases r) (simp_all add: wrapErr_def)

lemma failIf_ok_iff [simp]: "failIf b e = ok \<longleftrightarrow> \<not> b"
  by (simp add: failIf_def)

lemmas validate_ok_iffs = seqRes_ok_iff each_ok_iff wrapErr_ok_iff failIf_ok_iff

lemma validateCIDRs_ok_iff:
  "validateCIDRs s = ok \<longleftrightarrow>
     length (splitOn (CHR '','') s) \<le> 2 \<and> (\<forall>c \<in> set (splitOn (CHR '','') s). parsesAsCIDR c)"
proof -
  have "length (splitOn (CHR '','') s) \<ge> 1" by (simp add: length_splitOn)
  then show ?thesis
    by (auto simp: validateCIDRs_def Let_def each_ok_iff parsesAsCIDR_def split: if_splits)
qed

text \<open>The addresses a CIDR list denotes: those of the networks of its parts.\<close>

definition cidrListContains :: "string \<Rightarrow> IP \<Rightarrow> bool" where
  "cidrListContains s ip \<longleftrightarrow>
     (\<exists>c \<in> set (splitOn (CHR '','') s). \<exists>a n. ParseCIDR c = Some (a, n) \<and> netContains n ip)"

definition onePerFamily :: "string \<Rightarrow> bool" where
  "onePerFamily s \<longleftrightarrow>
     (\<forall>c \<in> set (splitOn (CHR '','') s). \<forall>d \<in> set (splitOn (CHR '','') s).
        cidrFamily c = cidrFamily d \<longrightarrow> c = d)"

lemma SplitCIDRStrings_picks:
  assumes "SplitCIDRStrings s = Inr (v4, v6)" "onePerFamily s" "c \<in> set (splitOn (CHR '','') s)"
  shows "cidrFamily c = Some True \<Longrightarrow> v4 = c" "cidrFamily c = Some False \<Longrightarrow> v6 = c"
proof -
  have loop: "splitCIDRLoop (splitOn (CHR '','') s) ([], []) = Inr (v4, v6)"
    using assms(1) by (auto simp: SplitCIDRStrings_def Let_def split: if_splits)
  show "cidrFamily c = Some True \<Longrightarrow> v4 = c"
    using splitCIDRLoop_v4 [OF loop] assms(2,3) unfolding onePerFamily_def by metis
  show "cidrFamily c = Some False \<Longrightarrow> v6 = c"
    using splitCIDRLoop_v6 [OF loop] assms(2,3) unfolding onePerFamily_def by metis
qed

lemma ParseCIDR_Nil [simp]: "ParseCIDR [] = None"
  by (simp add: ParseCIDR_def)

lemma checkOverlap_ok:
  assumes "checkOverlap f p s c d = ok" "ParseCIDR c = Some (a, n)" "ParseCIDR d = Some (b, m)"
  shows "\<not> (\<exists>ip. netContains n ip \<and> netContains m ip)"
proof -
  have "c \<noteq> []" "d \<noteq> []" using assms(2,3) by auto
  then show ?thesis using assms(1) CIDRsOverlap_common [OF assms(2,3)]
    by (simp add: checkOverlap_def split: if_splits)
qed

lemma validateCIDROverlap_disjoint:
  assumes ok: "validateCIDROverlap pod svc = ok" and one: "onePerFamily pod" "onePerFamily svc"
  shows "\<not> (cidrListContains pod ip \<and> cidrListContains svc ip)"
proof
  assume "cidrListContains pod ip \<and> cidrListContains svc ip"
  then obtain c a n d b m where
    c: "c \<in> set (splitOn (CHR '','') pod)" "ParseCIDR c = Some (a, n)" "netContains n ip" and
    d: "d \<in> set (splitOn (CHR '','') svc)" "ParseCIDR d = Some (b, m)" "netContains m ip"
    unfolding cidrListContains_def by blast
  obtain p4 p6 s4 s6 where sp: "SplitCIDRStrings pod = Inr (p4, p6)" "SplitCIDRStrings svc = Inr (s4, s6)"
    and chk: "checkOverlap ''IPv4'' pod svc p4 s4 = ok" "checkOverlap ''IPv6'' pod svc p6 s6 = ok"
    using ok by (auto simp: validateCIDROverlap_def split: sum.splits prod.splits)
  note fam = netContains_family [OF c(2,3)] netContains_family [OF d(2,3)]
  note picks = SplitCIDRStrings_picks [OF sp(1) one(1) c(1)] SplitCIDRStrings_picks [OF sp(2) one(2) d(1)]
  show False
  proof (cases "length (shortIP ip) = 4")
    case True
    with picks fam have "p4 = c" "s4 = d" by simp_all
    with chk(1) have "checkOverlap ''IPv4'' pod svc c d = ok" by simp
    from checkOverlap_ok [OF this c(2) d(2)] c(3) d(3) show False by blast
  next
    case False
    with picks fam have "p6 = c" "s6 = d" by simp_all
    with chk(2) have "checkOverlap ''IPv6'' pod svc c d = ok" by simp
    from checkOverlap_ok [OF this c(2) d(2)] c(3) d(3) show False by blast
  qed
qed

text \<open>The facts a valid configuration gives, each check of the source read back.\<close>

lemma Validate_okD:
  assumes "Validate ext c = ok"
  shows "validateCIDRs (getStr (Network_PodCIDR (CC_Network c))) = ok"
    and "validateCIDRs (getStr (Network_ServiceCIDR (CC_Network c))) = ok"
    and "validateCIDROverlap (getStr (Network_PodCIDR (CC_Network c)))
           (getStr (Network_ServiceCIDR (CC_Network c))) = ok"
    and "validateIPv6CIDRSize (getStr (Network_ServiceCIDR (CC_Network c))) = ok"
    and "getBool (Gateway_Enabled (CC_Gateway c)) \<Longrightarrow> getBool (Network_Enabled (CC_Network c))"
    and "getBool (Ingress_Enabled (CC_Ingress c)) \<Longrightarrow> getBool (Network_Enabled (CC_Network c))"
    and "getBool (Network_Enabled (CC_Network c)) \<Longrightarrow>
           Network_KubeProxyEnabled (CC_Network c) \<noteq> Some True"
    and "validateBGP ext c = ok"
    and "r \<in> set (getList (LoadBalancer_IPRanges (CC_LoadBalancer c))) \<Longrightarrow> validateIPRange r = ok"
  using assms
  by (auto simp: Validate_def validateNetwork_def validateLoadBalancer_def Let_def validate_ok_iffs
      GetKubeProxyEnabled_def)

section \<open>Properties\<close>

text \<open>
  C4: in a valid configuration whose pod and service CIDR lists hold at most one network per
  address family, no address is both a pod and a service address.
\<close>

theorem Validate_pod_service_disjoint:
  assumes "Validate ext c = ok"
    and "onePerFamily (getStr (Network_PodCIDR (CC_Network c)))"
    and "onePerFamily (getStr (Network_ServiceCIDR (CC_Network c)))"
  shows "\<not> (cidrListContains (getStr (Network_PodCIDR (CC_Network c))) ip
            \<and> cidrListContains (getStr (Network_ServiceCIDR (CC_Network c))) ip)"
  using validateCIDROverlap_disjoint [OF Validate_okD(3) [OF assms(1)] assms(2,3)] .

subsection \<open>Concrete configurations\<close>

lemmas validate_eval = Validate_def validateNetwork_def validateLoadBalancer_def
  validateStorageDNSDatastore_def validateBGP_def validateCIDRs_def validateCIDROverlap_def
  validateIPv6CIDRSize_def checkOverlap_def SplitCIDRStrings_def CIDRsOverlap_def wrapErr_def
  failIf_def seqRes.simps Let_def

definition cidrConfig :: "string \<Rightarrow> string \<Rightarrow> ClusterConfig" where
  "cidrConfig pod svc = emptyClusterConfig\<lparr>CC_Network :=
     emptyNetwork\<lparr>Network_PodCIDR := Some pod, Network_ServiceCIDR := Some svc\<rparr>\<rparr>"

lemma cidrConfig_network [simp]:
  "Network_PodCIDR (CC_Network (cidrConfig p s)) = Some p"
  "Network_ServiceCIDR (CC_Network (cidrConfig p s)) = Some s"
  by (simp_all add: cidrConfig_def)

lemma Validate_cidrConfig:
  "validateCIDRs p = ok \<Longrightarrow> validateCIDRs s = ok \<Longrightarrow> validateCIDROverlap p s = ok
   \<Longrightarrow> validateIPv6CIDRSize s = ok \<Longrightarrow> Validate ext (cidrConfig p s) = ok"
  by (simp add: Validate_def validateNetwork_def validateLoadBalancer_def
      validateStorageDNSDatastore_def validateBGP_def wrapErr_def failIf_def seqRes.simps Let_def
      cidrConfig_def empty_defs)

lemma defaultCIDRs_valid: "Validate ext (cidrConfig ''10.1.0.0/16'' ''10.152.183.0/24'') = ok"
  by (rule Validate_cidrConfig)
    (simp_all add: validateCIDRs_def validateCIDROverlap_def validateIPv6CIDRSize_def checkOverlap_def
      SplitCIDRStrings_def CIDRsOverlap_def Let_def parse_10_1 parse_10_152_183 net_eval)

theorem Validate_pod_service_disjoint_witness:
  "\<not> (cidrListContains ''10.1.0.0/16'' [10, 1, 0, 7] \<and> cidrListContains ''10.152.183.0/24'' [10, 1, 0, 7])"
proof -
  have "onePerFamily ''10.1.0.0/16''" "onePerFamily ''10.152.183.0/24''"
    by (simp_all add: onePerFamily_def)
  with Validate_pod_service_disjoint
    [OF defaultCIDRs_valid [of "\<lparr>AnnotationBGPPeers = [], url_Parse_ok = \<lambda>_. True\<rparr>"], of "[10, 1, 0, 7]"]
  show ?thesis by simp
qed

text \<open>
  The overlap check keeps one CIDR per family, so a list with two IPv4 CIDRs escapes it:
  this configuration is accepted although its pod and service CIDRs share addresses.
\<close>

theorem Validate_misses_same_family_overlap:
  "Validate ext (cidrConfig ''10.152.183.0/24,10.1.0.0/16'' ''10.152.183.0/24'') = ok
   \<and> cidrListContains ''10.152.183.0/24,10.1.0.0/16'' [10, 152, 183, 1]
   \<and> cidrListContains ''10.152.183.0/24'' [10, 152, 183, 1]"
proof (intro conjI)
  show "Validate ext (cidrConfig ''10.152.183.0/24,10.1.0.0/16'' ''10.152.183.0/24'') = ok"
    by (rule Validate_cidrConfig)
      (simp_all add: validateCIDRs_def validateCIDROverlap_def validateIPv6CIDRSize_def checkOverlap_def
        SplitCIDRStrings_def CIDRsOverlap_def Let_def parse_10_1 parse_10_152_183 net_eval)
  show "cidrListContains ''10.152.183.0/24,10.1.0.0/16'' [10, 152, 183, 1]"
    "cidrListContains ''10.152.183.0/24'' [10, 152, 183, 1]"
    by (simp_all add: cidrListContains_def parse_10_152_183 netContains_def networkNumberAndMask_def
        shortIP_def To4_def andBytes_def)
qed

end
