(* ===== verification/Merge.thy ===== *)
theory Merge
  imports Validate
begin

text \<open>
  \<open>pkg/k8sd/types/cluster_config_merge.go\<close> and \<open>cluster_config_merge_util.go\<close>: merging a
  configuration change into the stored configuration. The source walks four tables, one per
  field type; a table entry holds a name, a pointer into the new configuration, the old and
  the new value, and whether a change is allowed. The tables are lists of \<open>merge_entry\<close> here,
  in the source's order, and an assignment through the pointer is a record update. The
  abstract specification \<open>overrideConfig\<close> takes each field from the change if it is set there.
\<close>

section \<open>Field merges\<close>

definition mergeField :: "'a ptr \<Rightarrow> 'a ptr \<Rightarrow> bool \<Rightarrow> 'a ptr res" where
  "mergeField old new allowChange =
     (case old of
        None \<Rightarrow> Inr new
      | Some o' \<Rightarrow>
          (case new of
             None \<Rightarrow> Inr old
           | Some n \<Rightarrow>
               if n = o' then Inr old
               else if \<not> allowChange then Inl (Errorf ''value cannot change'' [])
               else Inr new))"

text \<open>For slices, equality is \<open>slices.Equal\<close>: the same elements in the same order.\<close>

definition mergeSliceField :: "'a list ptr \<Rightarrow> 'a list ptr \<Rightarrow> bool \<Rightarrow> 'a list ptr res" where
  "mergeSliceField old new allowChange =
     (case old of
        None \<Rightarrow> Inr new
      | Some o' \<Rightarrow>
          (case new of
             None \<Rightarrow> Inr old
           | Some n \<Rightarrow>
               if length n = length o' \<and> list_all2 (=) n o' then Inr old
               else if \<not> allowChange then Inl (Errorf ''value has changed'' [])
               else Inr new))"

text \<open>
  The loops over the old and the new map touch each key once, so the result is given key by
  key: the value \<open>-\<close> deletes. When the old map is nil the new map is returned as it is.
\<close>

definition mergeAnnotationsField :: "Annotations \<Rightarrow> Annotations \<Rightarrow> Annotations" where
  "mergeAnnotationsField old new =
     (case old of
        None \<Rightarrow> new
      | Some o' \<Rightarrow>
          (case new of
             None \<Rightarrow> old
           | Some n \<Rightarrow>
               Some (\<lambda>k. case n k of
                        Some v \<Rightarrow> if v = ''-'' then None else Some v
                      | None \<Rightarrow> o' k)))"

definition boolFieldRemainedEnabled :: "bool ptr \<Rightarrow> bool ptr \<Rightarrow> bool" where
  "boolFieldRemainedEnabled old new =
     (let oldVal = getBool old;
          newVal = (case new of Some b \<Rightarrow> b | None \<Rightarrow> oldVal)
      in oldVal \<and> newVal)"

section \<open>The tables\<close>

record 'a merge_entry =
  me_name :: string
  me_val :: "'a ptr \<Rightarrow> ClusterConfig \<Rightarrow> ClusterConfig"
  me_old :: "'a ptr"
  me_new :: "'a ptr"
  me_allowChange :: bool

definition mergeEntry ::
  "string \<Rightarrow> ('a ptr \<Rightarrow> ClusterConfig \<Rightarrow> ClusterConfig) \<Rightarrow> 'a ptr \<Rightarrow> 'a ptr \<Rightarrow> bool \<Rightarrow> 'a merge_entry"
where
  "mergeEntry name val old new allowChange =
     \<lparr>me_name = name, me_val = val, me_old = old, me_new = new, me_allowChange = allowChange\<rparr>"

abbreviation at_Certificates :: "(('a ptr \<Rightarrow> 'a ptr) \<Rightarrow> Certificates \<Rightarrow> Certificates) \<Rightarrow> 'a ptr \<Rightarrow> ClusterConfig \<Rightarrow> ClusterConfig" where
  "at_Certificates upd v \<equiv> CC_Certificates_update (upd (\<lambda>_. v))"
abbreviation at_Datastore :: "(('a ptr \<Rightarrow> 'a ptr) \<Rightarrow> Datastore \<Rightarrow> Datastore) \<Rightarrow> 'a ptr \<Rightarrow> ClusterConfig \<Rightarrow> ClusterConfig" where
  "at_Datastore upd v \<equiv> CC_Datastore_update (upd (\<lambda>_. v))"
abbreviation at_APIServer :: "(('a ptr \<Rightarrow> 'a ptr) \<Rightarrow> APIServer \<Rightarrow> APIServer) \<Rightarrow> 'a ptr \<Rightarrow> ClusterConfig \<Rightarrow> ClusterConfig" where
  "at_APIServer upd v \<equiv> CC_APIServer_update (upd (\<lambda>_. v))"
abbreviation at_Kubelet :: "(('a ptr \<Rightarrow> 'a ptr) \<Rightarrow> Kubelet \<Rightarrow> Kubelet) \<Rightarrow> 'a ptr \<Rightarrow> ClusterConfig \<Rightarrow> ClusterConfig" where
  "at_Kubelet upd v \<equiv> CC_Kubelet_update (upd (\<lambda>_. v))"
abbreviation at_Network :: "(('a ptr \<Rightarrow> 'a ptr) \<Rightarrow> Network \<Rightarrow> Network) \<Rightarrow> 'a ptr \<Rightarrow> ClusterConfig \<Rightarrow> ClusterConfig" where
  "at_Network upd v \<equiv> CC_Network_update (upd (\<lambda>_. v))"
abbreviation at_DNS :: "(('a ptr \<Rightarrow> 'a ptr) \<Rightarrow> DNS \<Rightarrow> DNS) \<Rightarrow> 'a ptr \<Rightarrow> ClusterConfig \<Rightarrow> ClusterConfig" where
  "at_DNS upd v \<equiv> CC_DNS_update (upd (\<lambda>_. v))"
abbreviation at_Ingress :: "(('a ptr \<Rightarrow> 'a ptr) \<Rightarrow> Ingress \<Rightarrow> Ingress) \<Rightarrow> 'a ptr \<Rightarrow> ClusterConfig \<Rightarrow> ClusterConfig" where
  "at_Ingress upd v \<equiv> CC_Ingress_update (upd (\<lambda>_. v))"
abbreviation at_LoadBalancer :: "(('a ptr \<Rightarrow> 'a ptr) \<Rightarrow> LoadBalancer \<Rightarrow> LoadBalancer) \<Rightarrow> 'a ptr \<Rightarrow> ClusterConfig \<Rightarrow> ClusterConfig" where
  "at_LoadBalancer upd v \<equiv> CC_LoadBalancer_update (upd (\<lambda>_. v))"
abbreviation at_Gateway :: "(('a ptr \<Rightarrow> 'a ptr) \<Rightarrow> Gateway \<Rightarrow> Gateway) \<Rightarrow> 'a ptr \<Rightarrow> ClusterConfig \<Rightarrow> ClusterConfig" where
  "at_Gateway upd v \<equiv> CC_Gateway_update (upd (\<lambda>_. v))"
abbreviation at_LocalStorage :: "(('a ptr \<Rightarrow> 'a ptr) \<Rightarrow> LocalStorage \<Rightarrow> LocalStorage) \<Rightarrow> 'a ptr \<Rightarrow> ClusterConfig \<Rightarrow> ClusterConfig" where
  "at_LocalStorage upd v \<equiv> CC_LocalStorage_update (upd (\<lambda>_. v))"
abbreviation at_MetricsServer :: "(('a ptr \<Rightarrow> 'a ptr) \<Rightarrow> MetricsServer \<Rightarrow> MetricsServer) \<Rightarrow> 'a ptr \<Rightarrow> ClusterConfig \<Rightarrow> ClusterConfig" where
  "at_MetricsServer upd v \<equiv> CC_MetricsServer_update (upd (\<lambda>_. v))"

definition stringEntries :: "ClusterConfig \<Rightarrow> ClusterConfig \<Rightarrow> string merge_entry list" where
  "stringEntries existing new =
     [mergeEntry ''CA certificate'' (at_Certificates Certificates_CACert_update)
        (Certificates_CACert (CC_Certificates existing)) (Certificates_CACert (CC_Certificates new)) False,
      mergeEntry ''CA key'' (at_Certificates Certificates_CAKey_update)
        (Certificates_CAKey (CC_Certificates existing)) (Certificates_CAKey (CC_Certificates new)) False,
      mergeEntry ''client CA certificate'' (at_Certificates Certificates_ClientCACert_update)
        (Certificates_ClientCACert (CC_Certificates existing)) (Certificates_ClientCACert (CC_Certificates new)) False,
      mergeEntry ''client CA key'' (at_Certificates Certificates_ClientCAKey_update)
        (Certificates_ClientCAKey (CC_Certificates existing)) (Certificates_ClientCAKey (CC_Certificates new)) False,
      mergeEntry ''apiserver-kubelet-client certificate'' (at_Certificates Certificates_APIServerKubeletClientCert_update)
        (Certificates_APIServerKubeletClientCert (CC_Certificates existing)) (Certificates_APIServerKubeletClientCert (CC_Certificates new)) True,
      mergeEntry ''apiserver-kubelet-client key'' (at_Certificates Certificates_APIServerKubeletClientKey_update)
        (Certificates_APIServerKubeletClientKey (CC_Certificates existing)) (Certificates_APIServerKubeletClientKey (CC_Certificates new)) True,
      mergeEntry ''front proxy CA certificate'' (at_Certificates Certificates_FrontProxyCACert_update)
        (Certificates_FrontProxyCACert (CC_Certificates existing)) (Certificates_FrontProxyCACert (CC_Certificates new)) False,
      mergeEntry ''front proxy CA key'' (at_Certificates Certificates_FrontProxyCAKey_update)
        (Certificates_FrontProxyCAKey (CC_Certificates existing)) (Certificates_FrontProxyCAKey (CC_Certificates new)) False,
      mergeEntry ''service account key'' (at_Certificates Certificates_ServiceAccountKey_update)
        (Certificates_ServiceAccountKey (CC_Certificates existing)) (Certificates_ServiceAccountKey (CC_Certificates new)) False,
      mergeEntry ''admin client certificate'' (at_Certificates Certificates_AdminClientCert_update)
        (Certificates_AdminClientCert (CC_Certificates existing)) (Certificates_AdminClientCert (CC_Certificates new)) True,
      mergeEntry ''admin client key'' (at_Certificates Certificates_AdminClientKey_update)
        (Certificates_AdminClientKey (CC_Certificates existing)) (Certificates_AdminClientKey (CC_Certificates new)) True,
      mergeEntry ''k8sd public key'' (at_Certificates Certificates_K8sdPublicKey_update)
        (Certificates_K8sdPublicKey (CC_Certificates existing)) (Certificates_K8sdPublicKey (CC_Certificates new)) False,
      mergeEntry ''k8sd private key'' (at_Certificates Certificates_K8sdPrivateKey_update)
        (Certificates_K8sdPrivateKey (CC_Certificates existing)) (Certificates_K8sdPrivateKey (CC_Certificates new)) False,
      mergeEntry ''datastore type'' (at_Datastore Datastore_Type_update)
        (Datastore_Type (CC_Datastore existing)) (Datastore_Type (CC_Datastore new)) False,
      mergeEntry ''external datastore CA certificate'' (at_Datastore Datastore_ExternalCACert_update)
        (Datastore_ExternalCACert (CC_Datastore existing)) (Datastore_ExternalCACert (CC_Datastore new)) True,
      mergeEntry ''external datastore client certificate'' (at_Datastore Datastore_ExternalClientCert_update)
        (Datastore_ExternalClientCert (CC_Datastore existing)) (Datastore_ExternalClientCert (CC_Datastore new)) True,
      mergeEntry ''external datastore client key'' (at_Datastore Datastore_ExternalClientKey_update)
        (Datastore_ExternalClientKey (CC_Datastore existing)) (Datastore_ExternalClientKey (CC_Datastore new)) True,
      mergeEntry ''etcd CA certificate'' (at_Datastore Datastore_EtcdCACert_update)
        (Datastore_EtcdCACert (CC_Datastore existing)) (Datastore_EtcdCACert (CC_Datastore new)) False,
      mergeEntry ''etcd CA key'' (at_Datastore Datastore_EtcdCAKey_update)
        (Datastore_EtcdCAKey (CC_Datastore existing)) (Datastore_EtcdCAKey (CC_Datastore new)) False,
      mergeEntry ''etcd apiserver client certificate'' (at_Datastore Datastore_EtcdAPIServerClientCert_update)
        (Datastore_EtcdAPIServerClientCert (CC_Datastore existing)) (Datastore_EtcdAPIServerClientCert (CC_Datastore new)) True,
      mergeEntry ''etcd apiserver client key'' (at_Datastore Datastore_EtcdAPIServerClientKey_update)
        (Datastore_EtcdAPIServerClientKey (CC_Datastore existing)) (Datastore_EtcdAPIServerClientKey (CC_Datastore new)) True,
      mergeEntry ''pod CIDR'' (at_Network Network_PodCIDR_update)
        (Network_PodCIDR (CC_Network existing)) (Network_PodCIDR (CC_Network new)) False,
      mergeEntry ''service CIDR'' (at_Network Network_ServiceCIDR_update)
        (Network_ServiceCIDR (CC_Network existing)) (Network_ServiceCIDR (CC_Network new)) False,
      mergeEntry ''kube-apiserver authorization mode'' (at_APIServer APIServer_AuthorizationMode_update)
        (APIServer_AuthorizationMode (CC_APIServer existing)) (APIServer_AuthorizationMode (CC_APIServer new)) True,
      mergeEntry ''kubelet cluster DNS'' (at_Kubelet Kubelet_ClusterDNS_update)
        (Kubelet_ClusterDNS (CC_Kubelet existing)) (Kubelet_ClusterDNS (CC_Kubelet new))
        (\<not> boolFieldRemainedEnabled (DNS_Enabled (CC_DNS existing)) (DNS_Enabled (CC_DNS new))),
      mergeEntry ''kubelet cluster domain'' (at_Kubelet Kubelet_ClusterDomain_update)
        (Kubelet_ClusterDomain (CC_Kubelet existing)) (Kubelet_ClusterDomain (CC_Kubelet new)) True,
      mergeEntry ''kubelet cloud provider'' (at_Kubelet Kubelet_CloudProvider_update)
        (Kubelet_CloudProvider (CC_Kubelet existing)) (Kubelet_CloudProvider (CC_Kubelet new)) True,
      mergeEntry ''ingress default TLS secret'' (at_Ingress Ingress_DefaultTLSSecret_update)
        (Ingress_DefaultTLSSecret (CC_Ingress existing)) (Ingress_DefaultTLSSecret (CC_Ingress new)) True,
      mergeEntry ''load balancer BGP peer address'' (at_LoadBalancer LoadBalancer_BGPPeerAddress_update)
        (LoadBalancer_BGPPeerAddress (CC_LoadBalancer existing)) (LoadBalancer_BGPPeerAddress (CC_LoadBalancer new)) True,
      mergeEntry ''local storage path'' (at_LocalStorage LocalStorage_LocalPath_update)
        (LocalStorage_LocalPath (CC_LocalStorage existing)) (LocalStorage_LocalPath (CC_LocalStorage new))
        (\<not> boolFieldRemainedEnabled (LocalStorage_Enabled (CC_LocalStorage existing)) (LocalStorage_Enabled (CC_LocalStorage new))),
      mergeEntry ''local storage reclaim policy'' (at_LocalStorage LocalStorage_ReclaimPolicy_update)
        (LocalStorage_ReclaimPolicy (CC_LocalStorage existing)) (LocalStorage_ReclaimPolicy (CC_LocalStorage new))
        (\<not> boolFieldRemainedEnabled (LocalStorage_Enabled (CC_LocalStorage existing)) (LocalStorage_Enabled (CC_LocalStorage new)))]"

definition sliceEntries :: "ClusterConfig \<Rightarrow> ClusterConfig \<Rightarrow> string list merge_entry list" where
  "sliceEntries existing new =
     [mergeEntry ''DNS upstream nameservers'' (at_DNS DNS_UpstreamNameservers_update)
        (DNS_UpstreamNameservers (CC_DNS existing)) (DNS_UpstreamNameservers (CC_DNS new)) True,
      mergeEntry ''external datastore servers'' (at_Datastore Datastore_ExternalServers_update)
        (Datastore_ExternalServers (CC_Datastore existing)) (Datastore_ExternalServers (CC_Datastore new)) True,
      mergeEntry ''load balancer CIDRs'' (at_LoadBalancer LoadBalancer_CIDRs_update)
        (LoadBalancer_CIDRs (CC_LoadBalancer existing)) (LoadBalancer_CIDRs (CC_LoadBalancer new)) True,
      mergeEntry ''load balancer L2 interfaces'' (at_LoadBalancer LoadBalancer_L2Interfaces_update)
        (LoadBalancer_L2Interfaces (CC_LoadBalancer existing)) (LoadBalancer_L2Interfaces (CC_LoadBalancer new)) True,
      mergeEntry ''control-plane register with taints'' (at_Kubelet Kubelet_ControlPlaneTaints_update)
        (Kubelet_ControlPlaneTaints (CC_Kubelet existing)) (Kubelet_ControlPlaneTaints (CC_Kubelet new)) False]"

definition intEntries :: "ClusterConfig \<Rightarrow> ClusterConfig \<Rightarrow> int merge_entry list" where
  "intEntries existing new =
     [mergeEntry ''kube-apiserver secure port'' (at_APIServer APIServer_SecurePort_update)
        (APIServer_SecurePort (CC_APIServer existing)) (APIServer_SecurePort (CC_APIServer new)) False,
      mergeEntry ''etcd client port'' (at_Datastore Datastore_EtcdPort_update)
        (Datastore_EtcdPort (CC_Datastore existing)) (Datastore_EtcdPort (CC_Datastore new)) False,
      mergeEntry ''etcd peer port'' (at_Datastore Datastore_EtcdPeerPort_update)
        (Datastore_EtcdPeerPort (CC_Datastore existing)) (Datastore_EtcdPeerPort (CC_Datastore new)) False,
      mergeEntry ''load balancer BGP local ASN'' (at_LoadBalancer LoadBalancer_BGPLocalASN_update)
        (LoadBalancer_BGPLocalASN (CC_LoadBalancer existing)) (LoadBalancer_BGPLocalASN (CC_LoadBalancer new)) True,
      mergeEntry ''load balancer BGP peer ASN'' (at_LoadBalancer LoadBalancer_BGPPeerASN_update)
        (LoadBalancer_BGPPeerASN (CC_LoadBalancer existing)) (LoadBalancer_BGPPeerASN (CC_LoadBalancer new)) True,
      mergeEntry ''load balancer BGP peer port'' (at_LoadBalancer LoadBalancer_BGPPeerPort_update)
        (LoadBalancer_BGPPeerPort (CC_LoadBalancer existing)) (LoadBalancer_BGPPeerPort (CC_LoadBalancer new)) True]"

definition boolEntries :: "ClusterConfig \<Rightarrow> ClusterConfig \<Rightarrow> bool merge_entry list" where
  "boolEntries existing new =
     [mergeEntry ''network enabled'' (at_Network Network_Enabled_update)
        (Network_Enabled (CC_Network existing)) (Network_Enabled (CC_Network new)) True,
      mergeEntry ''network kube-proxy-enabled'' (at_Network Network_KubeProxyEnabled_update)
        (Network_KubeProxyEnabled (CC_Network existing)) (Network_KubeProxyEnabled (CC_Network new)) True,
      mergeEntry ''DNS enabled'' (at_DNS DNS_Enabled_update)
        (DNS_Enabled (CC_DNS existing)) (DNS_Enabled (CC_DNS new)) True,
      mergeEntry ''gateway enabled'' (at_Gateway Gateway_Enabled_update)
        (Gateway_Enabled (CC_Gateway existing)) (Gateway_Enabled (CC_Gateway new)) True,
      mergeEntry ''ingress enabled'' (at_Ingress Ingress_Enabled_update)
        (Ingress_Enabled (CC_Ingress existing)) (Ingress_Enabled (CC_Ingress new)) True,
      mergeEntry ''ingress enable proxy protocol'' (at_Ingress Ingress_EnableProxyProtocol_update)
        (Ingress_EnableProxyProtocol (CC_Ingress existing)) (Ingress_EnableProxyProtocol (CC_Ingress new)) True,
      mergeEntry ''load balancer enabled'' (at_LoadBalancer LoadBalancer_Enabled_update)
        (LoadBalancer_Enabled (CC_LoadBalancer existing)) (LoadBalancer_Enabled (CC_LoadBalancer new)) True,
      mergeEntry ''load balancer L2 mode'' (at_LoadBalancer LoadBalancer_L2Mode_update)
        (LoadBalancer_L2Mode (CC_LoadBalancer existing)) (LoadBalancer_L2Mode (CC_LoadBalancer new)) True,
      mergeEntry ''load balancer BGP mode'' (at_LoadBalancer LoadBalancer_BGPMode_update)
        (LoadBalancer_BGPMode (CC_LoadBalancer existing)) (LoadBalancer_BGPMode (CC_LoadBalancer new)) True,
      mergeEntry ''local storage enabled'' (at_LocalStorage LocalStorage_Enabled_update)
        (LocalStorage_Enabled (CC_LocalStorage existing)) (LocalStorage_Enabled (CC_LocalStorage new)) True,
      mergeEntry ''local storage default'' (at_LocalStorage LocalStorage_Default_update)
        (LocalStorage_Default (CC_LocalStorage existing)) (LocalStorage_Default (CC_LocalStorage new)) True,
      mergeEntry ''metrics server enabled'' (at_MetricsServer MetricsServer_Enabled_update)
        (MetricsServer_Enabled (CC_MetricsServer existing)) (MetricsServer_Enabled (CC_MetricsServer new)) True]"

fun mergeLoop ::
  "('a ptr \<Rightarrow> 'a ptr \<Rightarrow> bool \<Rightarrow> 'a ptr res) \<Rightarrow> 'a merge_entry list \<Rightarrow> ClusterConfig \<Rightarrow> ClusterConfig res"
where
  "mergeLoop merge [] config = Inr config"
| "mergeLoop merge (i # is) config =
     (case merge (me_old i) (me_new i) (me_allowChange i) of
        Inl e \<Rightarrow> Inl (Wrapf ''prevented update of %s: %w'' [me_name i] e)
      | Inr v \<Rightarrow> mergeLoop merge is (me_val i v config))"

definition mergeIPRanges :: "ClusterConfig \<Rightarrow> ClusterConfig \<Rightarrow> ClusterConfig \<Rightarrow> ClusterConfig res" where
  "mergeIPRanges existing new config =
     (case mergeSliceField (LoadBalancer_IPRanges (CC_LoadBalancer existing))
             (LoadBalancer_IPRanges (CC_LoadBalancer new)) True of
        Inl e \<Rightarrow> Inl (Wrapf ''prevented update of load balancer IP ranges: %w'' [] e)
      | Inr v \<Rightarrow> Inr (at_LoadBalancer LoadBalancer_IPRanges_update v config))"

definition MergeClusterConfig :: "extern \<Rightarrow> ClusterConfig \<Rightarrow> ClusterConfig \<Rightarrow> ClusterConfig res" where
  "MergeClusterConfig ext existing new =
     (case mergeLoop mergeField (stringEntries existing new) emptyClusterConfig of
        Inl e \<Rightarrow> Inl e
      | Inr c1 \<Rightarrow>
     (case mergeLoop mergeSliceField (sliceEntries existing new) c1 of
        Inl e \<Rightarrow> Inl e
      | Inr c2 \<Rightarrow>
     (case mergeIPRanges existing new c2 of
        Inl e \<Rightarrow> Inl e
      | Inr c3 \<Rightarrow>
     (case mergeLoop mergeField (intEntries existing new) c3 of
        Inl e \<Rightarrow> Inl e
      | Inr c4 \<Rightarrow>
     (case mergeLoop mergeField (boolEntries existing new) c4 of
        Inl e \<Rightarrow> Inl e
      | Inr c5 \<Rightarrow>
     (let config = c5\<lparr>CC_Annotations :=
            mergeAnnotationsField (CC_Annotations existing) (CC_Annotations new)\<rparr> in
      case Validate ext config of
        Inl e \<Rightarrow> Inl (Wrapf ''updated cluster configuration is not valid: %w'' [] e)
      | Inr _ \<Rightarrow> Inr config))))))"

section \<open>The contract of a field merge\<close>

definition override :: "'a ptr \<Rightarrow> 'a ptr \<Rightarrow> 'a ptr" where
  "override old new = (case new of None \<Rightarrow> old | Some v \<Rightarrow> Some v)"

definition compatible :: "'a ptr \<Rightarrow> 'a ptr \<Rightarrow> bool" where
  "compatible old new \<longleftrightarrow> old = None \<or> new = None \<or> new = old"

definition entryAllowed :: "'a merge_entry \<Rightarrow> bool" where
  "entryAllowed i \<longleftrightarrow> me_allowChange i \<or> compatible (me_old i) (me_new i)"

definition entryApply :: "'a merge_entry \<Rightarrow> ClusterConfig \<Rightarrow> ClusterConfig" where
  "entryApply i = me_val i (override (me_old i) (me_new i))"

text \<open>
  What the walk over the tables relies on, stated once for both merge functions: an unset
  side gives the other side, an equal value is kept, a change is taken or refused.
\<close>

locale field_merge =
  fixes merge :: "'a ptr \<Rightarrow> 'a ptr \<Rightarrow> bool \<Rightarrow> 'a ptr res"
  assumes old_unset: "merge None new allow = Inr new"
    and new_unset: "merge old None allow = Inr old"
    and same: "merge old old allow = Inr old"
    and changed: "merge (Some o') (Some n) True = Inr (Some n)"
    and refused: "o' \<noteq> n \<Longrightarrow> \<exists>e. merge (Some o') (Some n) False = Inl e"
begin

lemma merge_Inr_iff:
  "merge old new allow = Inr r \<longleftrightarrow> r = override old new \<and> (allow \<or> compatible old new)"
proof (cases "old = None \<or> new = None \<or> new = old")
  case True
  then show ?thesis
    by (auto simp: old_unset new_unset same override_def compatible_def split: option.splits)
next
  case False
  then obtain o' n where "old = Some o'" "new = Some n" "o' \<noteq> n" by auto
  with refused [of o' n] show ?thesis
    by (cases allow) (auto simp: changed override_def compatible_def)
qed

lemma merge_allowed: "allow \<or> compatible old new \<Longrightarrow> merge old new allow = Inr (override old new)"
  by (simp add: merge_Inr_iff)

lemma mergeLoop_Inr_iff:
  "mergeLoop merge is c = Inr c' \<longleftrightarrow> (\<forall>i \<in> set is. entryAllowed i) \<and> c' = fold entryApply is c"
proof (induction "is" arbitrary: c)
  case (Cons i "is")
  show ?case
  proof (cases "entryAllowed i")
    case True
    then have "merge (me_old i) (me_new i) (me_allowChange i) = Inr (override (me_old i) (me_new i))"
      by (simp add: merge_allowed entryAllowed_def)
    with True Cons show ?thesis by (simp add: entryApply_def)
  next
    case False
    then have "\<forall>r. merge (me_old i) (me_new i) (me_allowChange i) \<noteq> Inr r"
      by (simp add: merge_Inr_iff entryAllowed_def)
    with False show ?thesis by (auto split: sum.splits)
  qed
qed auto

end

interpretation mf: field_merge mergeField
  by unfold_locales (auto simp: mergeField_def split: option.splits)

lemma list_all2_eq_iff: "list_all2 (=) xs ys \<longleftrightarrow> xs = ys"
  by (simp add: list.rel_eq)

interpretation ms: field_merge mergeSliceField
  by unfold_locales (auto simp: mergeSliceField_def list_all2_eq_iff split: option.splits)

section \<open>The abstract specification\<close>

definition overrideCertificates :: "Certificates \<Rightarrow> Certificates \<Rightarrow> Certificates" where
  "overrideCertificates a b = \<lparr>
     Certificates_CACert = override (Certificates_CACert a) (Certificates_CACert b),
     Certificates_CAKey = override (Certificates_CAKey a) (Certificates_CAKey b),
     Certificates_ClientCACert = override (Certificates_ClientCACert a) (Certificates_ClientCACert b),
     Certificates_ClientCAKey = override (Certificates_ClientCAKey a) (Certificates_ClientCAKey b),
     Certificates_FrontProxyCACert = override (Certificates_FrontProxyCACert a) (Certificates_FrontProxyCACert b),
     Certificates_FrontProxyCAKey = override (Certificates_FrontProxyCAKey a) (Certificates_FrontProxyCAKey b),
     Certificates_ServiceAccountKey = override (Certificates_ServiceAccountKey a) (Certificates_ServiceAccountKey b),
     Certificates_APIServerKubeletClientCert = override (Certificates_APIServerKubeletClientCert a) (Certificates_APIServerKubeletClientCert b),
     Certificates_APIServerKubeletClientKey = override (Certificates_APIServerKubeletClientKey a) (Certificates_APIServerKubeletClientKey b),
     Certificates_AdminClientCert = override (Certificates_AdminClientCert a) (Certificates_AdminClientCert b),
     Certificates_AdminClientKey = override (Certificates_AdminClientKey a) (Certificates_AdminClientKey b),
     Certificates_K8sdPublicKey = override (Certificates_K8sdPublicKey a) (Certificates_K8sdPublicKey b),
     Certificates_K8sdPrivateKey = override (Certificates_K8sdPrivateKey a) (Certificates_K8sdPrivateKey b)\<rparr>"

definition overrideDatastore :: "Datastore \<Rightarrow> Datastore \<Rightarrow> Datastore" where
  "overrideDatastore a b = \<lparr>
     Datastore_Type = override (Datastore_Type a) (Datastore_Type b),
     Datastore_ExternalServers = override (Datastore_ExternalServers a) (Datastore_ExternalServers b),
     Datastore_ExternalCACert = override (Datastore_ExternalCACert a) (Datastore_ExternalCACert b),
     Datastore_ExternalClientCert = override (Datastore_ExternalClientCert a) (Datastore_ExternalClientCert b),
     Datastore_ExternalClientKey = override (Datastore_ExternalClientKey a) (Datastore_ExternalClientKey b),
     Datastore_EtcdCACert = override (Datastore_EtcdCACert a) (Datastore_EtcdCACert b),
     Datastore_EtcdCAKey = override (Datastore_EtcdCAKey a) (Datastore_EtcdCAKey b),
     Datastore_EtcdAPIServerClientCert = override (Datastore_EtcdAPIServerClientCert a) (Datastore_EtcdAPIServerClientCert b),
     Datastore_EtcdAPIServerClientKey = override (Datastore_EtcdAPIServerClientKey a) (Datastore_EtcdAPIServerClientKey b),
     Datastore_EtcdPort = override (Datastore_EtcdPort a) (Datastore_EtcdPort b),
     Datastore_EtcdPeerPort = override (Datastore_EtcdPeerPort a) (Datastore_EtcdPeerPort b)\<rparr>"

definition overrideAPIServer :: "APIServer \<Rightarrow> APIServer \<Rightarrow> APIServer" where
  "overrideAPIServer a b = \<lparr>
     APIServer_SecurePort = override (APIServer_SecurePort a) (APIServer_SecurePort b),
     APIServer_AuthorizationMode = override (APIServer_AuthorizationMode a) (APIServer_AuthorizationMode b)\<rparr>"

definition overrideKubelet :: "Kubelet \<Rightarrow> Kubelet \<Rightarrow> Kubelet" where
  "overrideKubelet a b = \<lparr>
     Kubelet_CloudProvider = override (Kubelet_CloudProvider a) (Kubelet_CloudProvider b),
     Kubelet_ClusterDNS = override (Kubelet_ClusterDNS a) (Kubelet_ClusterDNS b),
     Kubelet_ClusterDomain = override (Kubelet_ClusterDomain a) (Kubelet_ClusterDomain b),
     Kubelet_ControlPlaneTaints = override (Kubelet_ControlPlaneTaints a) (Kubelet_ControlPlaneTaints b)\<rparr>"

definition overrideNetwork :: "Network \<Rightarrow> Network \<Rightarrow> Network" where
  "overrideNetwork a b = \<lparr>
     Network_Enabled = override (Network_Enabled a) (Network_Enabled b),
     Network_PodCIDR = override (Network_PodCIDR a) (Network_PodCIDR b),
     Network_ServiceCIDR = override (Network_ServiceCIDR a) (Network_ServiceCIDR b),
     Network_KubeProxyEnabled = override (Network_KubeProxyEnabled a) (Network_KubeProxyEnabled b)\<rparr>"

definition overrideDNS :: "DNS \<Rightarrow> DNS \<Rightarrow> DNS" where
  "overrideDNS a b = \<lparr>
     DNS_Enabled = override (DNS_Enabled a) (DNS_Enabled b),
     DNS_UpstreamNameservers = override (DNS_UpstreamNameservers a) (DNS_UpstreamNameservers b)\<rparr>"

definition overrideIngress :: "Ingress \<Rightarrow> Ingress \<Rightarrow> Ingress" where
  "overrideIngress a b = \<lparr>
     Ingress_Enabled = override (Ingress_Enabled a) (Ingress_Enabled b),
     Ingress_DefaultTLSSecret = override (Ingress_DefaultTLSSecret a) (Ingress_DefaultTLSSecret b),
     Ingress_EnableProxyProtocol = override (Ingress_EnableProxyProtocol a) (Ingress_EnableProxyProtocol b)\<rparr>"

definition overrideLoadBalancer :: "LoadBalancer \<Rightarrow> LoadBalancer \<Rightarrow> LoadBalancer" where
  "overrideLoadBalancer a b = \<lparr>
     LoadBalancer_Enabled = override (LoadBalancer_Enabled a) (LoadBalancer_Enabled b),
     LoadBalancer_CIDRs = override (LoadBalancer_CIDRs a) (LoadBalancer_CIDRs b),
     LoadBalancer_IPRanges = override (LoadBalancer_IPRanges a) (LoadBalancer_IPRanges b),
     LoadBalancer_L2Mode = override (LoadBalancer_L2Mode a) (LoadBalancer_L2Mode b),
     LoadBalancer_L2Interfaces = override (LoadBalancer_L2Interfaces a) (LoadBalancer_L2Interfaces b),
     LoadBalancer_BGPMode = override (LoadBalancer_BGPMode a) (LoadBalancer_BGPMode b),
     LoadBalancer_BGPLocalASN = override (LoadBalancer_BGPLocalASN a) (LoadBalancer_BGPLocalASN b),
     LoadBalancer_BGPPeerAddress = override (LoadBalancer_BGPPeerAddress a) (LoadBalancer_BGPPeerAddress b),
     LoadBalancer_BGPPeerASN = override (LoadBalancer_BGPPeerASN a) (LoadBalancer_BGPPeerASN b),
     LoadBalancer_BGPPeerPort = override (LoadBalancer_BGPPeerPort a) (LoadBalancer_BGPPeerPort b)\<rparr>"

definition overrideGateway :: "Gateway \<Rightarrow> Gateway \<Rightarrow> Gateway" where
  "overrideGateway a b = \<lparr>
     Gateway_Enabled = override (Gateway_Enabled a) (Gateway_Enabled b)\<rparr>"

definition overrideLocalStorage :: "LocalStorage \<Rightarrow> LocalStorage \<Rightarrow> LocalStorage" where
  "overrideLocalStorage a b = \<lparr>
     LocalStorage_Enabled = override (LocalStorage_Enabled a) (LocalStorage_Enabled b),
     LocalStorage_LocalPath = override (LocalStorage_LocalPath a) (LocalStorage_LocalPath b),
     LocalStorage_ReclaimPolicy = override (LocalStorage_ReclaimPolicy a) (LocalStorage_ReclaimPolicy b),
     LocalStorage_Default = override (LocalStorage_Default a) (LocalStorage_Default b)\<rparr>"

definition overrideMetricsServer :: "MetricsServer \<Rightarrow> MetricsServer \<Rightarrow> MetricsServer" where
  "overrideMetricsServer a b = \<lparr>
     MetricsServer_Enabled = override (MetricsServer_Enabled a) (MetricsServer_Enabled b)\<rparr>"

definition overrideConfig :: "ClusterConfig \<Rightarrow> ClusterConfig \<Rightarrow> ClusterConfig" where
  "overrideConfig a b = \<lparr>
     CC_Certificates = overrideCertificates (CC_Certificates a) (CC_Certificates b),
     CC_Datastore = overrideDatastore (CC_Datastore a) (CC_Datastore b),
     CC_APIServer = overrideAPIServer (CC_APIServer a) (CC_APIServer b),
     CC_Kubelet = overrideKubelet (CC_Kubelet a) (CC_Kubelet b),
     CC_Network = overrideNetwork (CC_Network a) (CC_Network b),
     CC_DNS = overrideDNS (CC_DNS a) (CC_DNS b),
     CC_Ingress = overrideIngress (CC_Ingress a) (CC_Ingress b),
     CC_LoadBalancer = overrideLoadBalancer (CC_LoadBalancer a) (CC_LoadBalancer b),
     CC_Gateway = overrideGateway (CC_Gateway a) (CC_Gateway b),
     CC_LocalStorage = overrideLocalStorage (CC_LocalStorage a) (CC_LocalStorage b),
     CC_MetricsServer = overrideMetricsServer (CC_MetricsServer a) (CC_MetricsServer b),
     CC_Annotations = mergeAnnotationsField (CC_Annotations a) (CC_Annotations b)\<rparr>"

lemmas override_defs = overrideConfig_def overrideCertificates_def overrideDatastore_def overrideAPIServer_def overrideKubelet_def overrideNetwork_def overrideDNS_def overrideIngress_def overrideLoadBalancer_def overrideGateway_def overrideLocalStorage_def overrideMetricsServer_def

text \<open>No protected field changes.\<close>

definition mergeAllowed :: "ClusterConfig \<Rightarrow> ClusterConfig \<Rightarrow> bool" where
  "mergeAllowed existing new \<longleftrightarrow>
     (\<forall>i \<in> set (stringEntries existing new). entryAllowed i)
     \<and> (\<forall>i \<in> set (sliceEntries existing new). entryAllowed i)
     \<and> (\<forall>i \<in> set (intEntries existing new). entryAllowed i)
     \<and> (\<forall>i \<in> set (boolEntries existing new). entryAllowed i)"

lemma tables_apply:
  "(fold entryApply (boolEntries a b) (fold entryApply (intEntries a b)
      (at_LoadBalancer LoadBalancer_IPRanges_update
         (override (LoadBalancer_IPRanges (CC_LoadBalancer a)) (LoadBalancer_IPRanges (CC_LoadBalancer b)))
         (fold entryApply (sliceEntries a b)
            (fold entryApply (stringEntries a b) emptyClusterConfig)))))
      \<lparr>CC_Annotations := mergeAnnotationsField (CC_Annotations a) (CC_Annotations b)\<rparr>
   = overrideConfig a b"
  by (simp add: stringEntries_def sliceEntries_def intEntries_def boolEntries_def entryApply_def
      mergeEntry_def override_defs empty_defs)

lemma MergeClusterConfig_char:
  "MergeClusterConfig ext existing new = Inr c \<longleftrightarrow>
     mergeAllowed existing new \<and> c = overrideConfig existing new \<and> Validate ext c = ok"
proof -
  let ?s1 = "fold entryApply (stringEntries existing new) emptyClusterConfig"
  let ?s2 = "fold entryApply (sliceEntries existing new) ?s1"
  let ?s3 = "at_LoadBalancer LoadBalancer_IPRanges_update
         (override (LoadBalancer_IPRanges (CC_LoadBalancer existing))
            (LoadBalancer_IPRanges (CC_LoadBalancer new))) ?s2"
  let ?s4 = "fold entryApply (intEntries existing new) ?s3"
  have ranges: "mergeIPRanges existing new ?s2 = Inr ?s3"
    by (simp add: mergeIPRanges_def ms.merge_allowed)
  have split: "(case r of Inl e \<Rightarrow> Inl e | Inr x \<Rightarrow> f x) = Inr y \<longleftrightarrow> (\<exists>x. r = Inr x \<and> f x = Inr y)"
    for r :: "'x res" and f :: "'x \<Rightarrow> 'y res" and y
    by (cases r) auto
  have valid: "(case v of Inl e \<Rightarrow> Inl (w e) | Inr _ \<Rightarrow> Inr x) = Inr y \<longleftrightarrow> v = ok \<and> y = x"
    for v :: "unit res" and w and x y :: ClusterConfig
    by (cases v) auto
  show ?thesis
    unfolding MergeClusterConfig_def split mf.mergeLoop_Inr_iff ms.mergeLoop_Inr_iff Let_def valid
    using ranges tables_apply [of existing new] by (auto simp: mergeAllowed_def)
qed

lemma override_simps [simp]:
  "override None n = n" "override o' None = o'" "override o' (Some v) = Some v"
  "override (override o' n) n = override o' n"
  by (auto simp: override_def split: option.splits)

lemma compatible_override [simp]: "compatible (override o' n) n"
  by (auto simp: override_def compatible_def split: option.splits)

lemma compatible_kept: "compatible o' n \<Longrightarrow> o' = Some v \<Longrightarrow> override o' n = Some v"
  by (auto simp: compatible_def)

section \<open>Properties\<close>

text \<open>
  C1: \<open>MergeClusterConfig\<close> refines its abstract specification. It succeeds exactly when no
  protected field would change and the combined configuration is valid, and then every field
  is the one of the change where the change sets it and the stored one otherwise.
\<close>

theorem MergeClusterConfig_refines_override:
  "MergeClusterConfig ext existing new = Inr c \<longleftrightarrow>
     mergeAllowed existing new \<and> c = overrideConfig existing new \<and> Validate ext c = ok"
  by (rule MergeClusterConfig_char)

text \<open>The fields no update may change once they are set.\<close>

definition immutableStrings :: "ClusterConfig \<Rightarrow> string ptr list" where
  "immutableStrings c =
     [Certificates_CACert (CC_Certificates c), Certificates_CAKey (CC_Certificates c),
      Certificates_ClientCACert (CC_Certificates c), Certificates_ClientCAKey (CC_Certificates c),
      Certificates_FrontProxyCACert (CC_Certificates c), Certificates_FrontProxyCAKey (CC_Certificates c),
      Certificates_ServiceAccountKey (CC_Certificates c), Certificates_K8sdPublicKey (CC_Certificates c),
      Certificates_K8sdPrivateKey (CC_Certificates c), Datastore_Type (CC_Datastore c),
      Datastore_EtcdCACert (CC_Datastore c), Datastore_EtcdCAKey (CC_Datastore c),
      Network_PodCIDR (CC_Network c), Network_ServiceCIDR (CC_Network c)]"

definition immutableInts :: "ClusterConfig \<Rightarrow> int ptr list" where
  "immutableInts c =
     [APIServer_SecurePort (CC_APIServer c), Datastore_EtcdPort (CC_Datastore c),
      Datastore_EtcdPeerPort (CC_Datastore c)]"

abbreviation keptIfSet :: "'a ptr \<Rightarrow> 'a ptr \<Rightarrow> bool" where
  "keptIfSet o' r \<equiv> o' \<noteq> None \<longrightarrow> r = o'"

lemma keptIfSet_compatible: "compatible o' n \<Longrightarrow> keptIfSet o' (override o' n)"
  by (auto simp: compatible_def)

lemma mergeAllowed_immutable:
  assumes "mergeAllowed e n"
  shows "list_all2 keptIfSet (immutableStrings e) (immutableStrings (overrideConfig e n))"
    and "list_all2 keptIfSet (immutableInts e) (immutableInts (overrideConfig e n))"
    and "keptIfSet (Kubelet_ControlPlaneTaints (CC_Kubelet e))
           (Kubelet_ControlPlaneTaints (CC_Kubelet (overrideConfig e n)))"
  using assms
  by (simp_all add: mergeAllowed_def stringEntries_def intEntries_def sliceEntries_def entryAllowed_def
      mergeEntry_def immutableStrings_def immutableInts_def override_defs keptIfSet_compatible del: not_None_eq)

text \<open>
  C2: a successful merge keeps every certificate authority, key pair, datastore type, CIDR,
  port and control-plane taint that was already set.
\<close>

theorem MergeClusterConfig_immutable:
  assumes "MergeClusterConfig ext existing new = Inr c"
  shows "list_all2 keptIfSet (immutableStrings existing) (immutableStrings c)
    \<and> list_all2 keptIfSet (immutableInts existing) (immutableInts c)
    \<and> keptIfSet (Kubelet_ControlPlaneTaints (CC_Kubelet existing)) (Kubelet_ControlPlaneTaints (CC_Kubelet c))"
  using assms mergeAllowed_immutable by (simp add: MergeClusterConfig_char)

text \<open>
  While the DNS feature is enabled and the change does not disable it, a set kubelet
  cluster DNS address is kept; likewise the local storage path and reclaim policy.
\<close>

theorem MergeClusterConfig_guarded_fields:
  assumes "MergeClusterConfig ext existing new = Inr c"
  shows "(boolFieldRemainedEnabled (DNS_Enabled (CC_DNS existing)) (DNS_Enabled (CC_DNS new)) \<longrightarrow>
       keptIfSet (Kubelet_ClusterDNS (CC_Kubelet existing)) (Kubelet_ClusterDNS (CC_Kubelet c)))
    \<and> (boolFieldRemainedEnabled (LocalStorage_Enabled (CC_LocalStorage existing))
          (LocalStorage_Enabled (CC_LocalStorage new)) \<longrightarrow>
       keptIfSet (LocalStorage_LocalPath (CC_LocalStorage existing)) (LocalStorage_LocalPath (CC_LocalStorage c))
       \<and> keptIfSet (LocalStorage_ReclaimPolicy (CC_LocalStorage existing))
           (LocalStorage_ReclaimPolicy (CC_LocalStorage c)))"
  using assms
  by (simp add: MergeClusterConfig_char mergeAllowed_def stringEntries_def entryAllowed_def
      mergeEntry_def override_defs keptIfSet_compatible del: not_None_eq)

lemma overrideConfig_idem:
  assumes "mergeAnnotationsField (mergeAnnotationsField (CC_Annotations e) (CC_Annotations n)) (CC_Annotations n)
      = mergeAnnotationsField (CC_Annotations e) (CC_Annotations n)"
  shows "overrideConfig (overrideConfig e n) n = overrideConfig e n"
  using assms by (simp add: override_defs)

lemma mergeAllowed_override: "mergeAllowed (overrideConfig e n) n"
  by (simp add: mergeAllowed_def stringEntries_def intEntries_def sliceEntries_def boolEntries_def
      entryAllowed_def mergeEntry_def override_defs)

lemma mergeAnnotationsField_idem:
  "old \<noteq> None \<or> new = None \<Longrightarrow>
     mergeAnnotationsField (mergeAnnotationsField old new) new = mergeAnnotationsField old new"
  by (auto simp: mergeAnnotationsField_def fun_eq_iff split: option.splits)

text \<open>
  Applying the same change twice is the same as applying it once, provided annotations
  were stored before or the change carries none.
\<close>

theorem MergeClusterConfig_idempotent:
  assumes "MergeClusterConfig ext existing new = Inr c"
    and "CC_Annotations existing \<noteq> None \<or> CC_Annotations new = None"
  shows "MergeClusterConfig ext c new = Inr c"
  using assms overrideConfig_idem [OF mergeAnnotationsField_idem]
  by (auto simp: MergeClusterConfig_char mergeAllowed_override)

text \<open>
  An annotation set to \<open>-\<close> is removed by a merge into stored annotations, but when no
  annotations are stored the merge keeps it, with the literal value \<open>-\<close>.
\<close>

theorem MergeClusterConfig_annotation_deletion:
  assumes "MergeClusterConfig ext existing new = Inr c"
    and "CC_Annotations new = Some n" "n k = Some ''-''"
  shows "(CC_Annotations existing \<noteq> None \<longrightarrow> Annotations_Get (CC_Annotations c) k = ([], False))
    \<and> (CC_Annotations existing = None \<longrightarrow> Annotations_Get (CC_Annotations c) k = (''-'', True))"
  using assms
  by (auto simp: MergeClusterConfig_char overrideConfig_def mergeAnnotationsField_def Annotations_Get_def)

section \<open>Instances\<close>

lemma overrideConfig_empty: "overrideConfig c emptyClusterConfig = c"
proof -
  have "mergeAnnotationsField a None = a" for a
    by (auto simp: mergeAnnotationsField_def split: option.splits)
  then show ?thesis by (simp add: override_defs empty_defs)
qed

lemma mergeAllowed_empty: "mergeAllowed c emptyClusterConfig"
  by (simp add: mergeAllowed_def stringEntries_def intEntries_def sliceEntries_def boolEntries_def
      entryAllowed_def mergeEntry_def compatible_def empty_defs)

lemma MergeClusterConfig_no_change:
  "Validate ext c = ok \<Longrightarrow> MergeClusterConfig ext c emptyClusterConfig = Inr c"
  by (simp add: MergeClusterConfig_char overrideConfig_empty mergeAllowed_empty)

definition sampleExtern :: extern where
  "sampleExtern = \<lparr>AnnotationBGPPeers = ''bgp-peers'', url_Parse_ok = \<lambda>_. True\<rparr>"

definition sampleConfig :: ClusterConfig where
  "sampleConfig = (cidrConfig ''10.1.0.0/16'' ''10.152.183.0/24'')\<lparr>
     CC_DNS := emptyDNS\<lparr>DNS_Enabled := Some True\<rparr>,
     CC_Kubelet := emptyKubelet\<lparr>Kubelet_ClusterDNS := Some ''10.152.183.10''\<rparr>,
     CC_Annotations := Some [''a'' \<mapsto> ''b'']\<rparr>"

lemma sampleConfig_valid: "Validate sampleExtern sampleConfig = ok"
proof -
  have net: "validateCIDRs ''10.1.0.0/16'' = ok" "validateCIDRs ''10.152.183.0/24'' = ok"
    "validateCIDROverlap ''10.1.0.0/16'' ''10.152.183.0/24'' = ok"
    "validateIPv6CIDRSize ''10.152.183.0/24'' = ok"
    using Validate_okD(1-4) [OF defaultCIDRs_valid] by simp_all
  have dns: "ParseIP ''10.152.183.10'' \<noteq> None" by (simp add: net_eval)
  show ?thesis using dns
    by (simp add: validate_ok_iffs Validate_def validateNetwork_def validateLoadBalancer_def
        validateStorageDNSDatastore_def validateBGP_def Let_def sampleConfig_def cidrConfig_def
        empty_defs net)
qed

lemmas sample_merge = MergeClusterConfig_no_change [OF sampleConfig_valid]

theorem MergeClusterConfig_immutable_witness:
  "list_all2 (\<lambda>o' r. o' \<noteq> None \<longrightarrow> r = o') (immutableStrings sampleConfig) (immutableStrings sampleConfig)"
  using MergeClusterConfig_immutable [OF sample_merge] by blast

theorem MergeClusterConfig_guarded_fields_witness:
  "boolFieldRemainedEnabled (DNS_Enabled (CC_DNS sampleConfig)) None
   \<and> Kubelet_ClusterDNS (CC_Kubelet sampleConfig) = Some ''10.152.183.10''"
proof -
  have "boolFieldRemainedEnabled (DNS_Enabled (CC_DNS sampleConfig)) (DNS_Enabled (CC_DNS emptyClusterConfig))"
    by (simp add: boolFieldRemainedEnabled_def sampleConfig_def cidrConfig_def empty_defs)
  with MergeClusterConfig_guarded_fields [OF sample_merge] show ?thesis
    by (simp add: sampleConfig_def empty_defs)
qed

theorem MergeClusterConfig_idempotent_witness:
  "MergeClusterConfig sampleExtern sampleConfig emptyClusterConfig = Inr sampleConfig"
  by (rule MergeClusterConfig_idempotent [OF sample_merge]) (simp add: sampleConfig_def)

lemma sample_delete_annotation:
  "MergeClusterConfig sampleExtern sampleConfig (emptyClusterConfig\<lparr>CC_Annotations := Some [''a'' \<mapsto> ''-'']\<rparr>)
     = Inr (sampleConfig\<lparr>CC_Annotations := Some Map.empty\<rparr>)"
proof -
  let ?n = "emptyClusterConfig\<lparr>CC_Annotations := Some [''a'' \<mapsto> ''-'']\<rparr>"
  have ov: "overrideConfig sampleConfig ?n = sampleConfig\<lparr>CC_Annotations := Some Map.empty\<rparr>"
    by (simp add: override_defs empty_defs mergeAnnotationsField_def sampleConfig_def cidrConfig_def fun_eq_iff)
  have "mergeAllowed sampleConfig ?n"
    by (simp add: mergeAllowed_def stringEntries_def intEntries_def sliceEntries_def boolEntries_def
        entryAllowed_def mergeEntry_def compatible_def empty_defs)
  moreover have "Validate sampleExtern (sampleConfig\<lparr>CC_Annotations := Some Map.empty\<rparr>) = ok"
    using sampleConfig_valid
    by (simp add: validate_ok_iffs Validate_def validateNetwork_def validateLoadBalancer_def
        validateStorageDNSDatastore_def validateBGP_def Let_def sampleConfig_def cidrConfig_def empty_defs)
  ultimately show ?thesis by (simp add: MergeClusterConfig_char ov)
qed

theorem MergeClusterConfig_annotation_deletion_witness:
  "Annotations_Get (CC_Annotations (sampleConfig\<lparr>CC_Annotations := Some Map.empty\<rparr>)) ''a'' = ([], False)"
  using MergeClusterConfig_annotation_deletion [OF sample_delete_annotation, of "[''a'' \<mapsto> ''-'']" "''a''"]
  by (simp add: sampleConfig_def)

end
