(* ===== verification/Convert.thy ===== *)
theory Convert
  imports Merge
begin

text \<open>
  \<open>cluster_config_defaults.go\<close>, \<open>cluster_config_convert.go\<close>,
  \<open>cluster_config_convert_loadbalancer.go\<close> and \<open>cluster_config_datastore_convert.go\<close>: default
  values, and the conversions between the internal configuration and the types of the public
  API. Those types belong to the API package; only the fields the conversions touch are listed.
  Their accessor methods (\<open>GetDatastoreType\<close> and so on) are an argument, \<open>bootstrapGetters\<close>.
\<close>

section \<open>Default values\<close>

definition defaultNil :: "'a \<Rightarrow> 'a ptr \<Rightarrow> 'a ptr" where
  "defaultNil d v = (if v = None then Some d else v)"

definition defaultZero :: "'a \<Rightarrow> 'a \<Rightarrow> 'a ptr \<Rightarrow> 'a ptr" where
  "defaultZero zero d v = (if getField zero v = zero then Some d else v)"

definition setDefaultsNetwork :: "Network \<Rightarrow> Network" where
  "setDefaultsNetwork n0 =
     (let n1 = n0\<lparr>Network_Enabled := defaultNil False (Network_Enabled n0)\<rparr>;
          n2 = n1\<lparr>Network_KubeProxyEnabled :=
                 defaultNil (\<not> getBool (Network_Enabled n1)) (Network_KubeProxyEnabled n1)\<rparr>;
          n3 = n2\<lparr>Network_PodCIDR := defaultZero [] ''10.1.0.0/16'' (Network_PodCIDR n2)\<rparr>
      in n3\<lparr>Network_ServiceCIDR := defaultZero [] ''10.152.183.0/24'' (Network_ServiceCIDR n3)\<rparr>)"

definition setDefaultsAPIServer :: "APIServer \<Rightarrow> APIServer" where
  "setDefaultsAPIServer a = a\<lparr>
     APIServer_SecurePort := defaultZero 0 6443 (APIServer_SecurePort a),
     APIServer_AuthorizationMode := defaultZero [] ''Node,RBAC'' (APIServer_AuthorizationMode a)\<rparr>"

definition setDefaultsDatastore :: "Datastore \<Rightarrow> Datastore" where
  "setDefaultsDatastore d = d\<lparr>
     Datastore_Type := defaultZero [] ''etcd'' (Datastore_Type d),
     Datastore_EtcdPort := defaultZero 0 2379 (Datastore_EtcdPort d),
     Datastore_EtcdPeerPort := defaultZero 0 2380 (Datastore_EtcdPeerPort d)\<rparr>"

definition setDefaultsKubelet :: "Kubelet \<Rightarrow> Kubelet" where
  "setDefaultsKubelet k = k\<lparr>
     Kubelet_ClusterDomain := defaultZero [] ''cluster.local'' (Kubelet_ClusterDomain k)\<rparr>"

definition setDefaultsDNS :: "DNS \<Rightarrow> DNS" where
  "setDefaultsDNS d = d\<lparr>
     DNS_Enabled := defaultNil False (DNS_Enabled d),
     DNS_UpstreamNameservers := defaultZero [] [''/etc/resolv.conf''] (DNS_UpstreamNameservers d)\<rparr>"

definition setDefaultsLocalStorage :: "LocalStorage \<Rightarrow> LocalStorage" where
  "setDefaultsLocalStorage l = l\<lparr>
     LocalStorage_Enabled := defaultNil False (LocalStorage_Enabled l),
     LocalStorage_LocalPath :=
       defaultZero [] ''/var/snap/k8s/common/rawfile-storage'' (LocalStorage_LocalPath l),
     LocalStorage_ReclaimPolicy := defaultZero [] ''Delete'' (LocalStorage_ReclaimPolicy l),
     LocalStorage_Default := defaultNil True (LocalStorage_Default l)\<rparr>"

definition setDefaultsLoadBalancer :: "LoadBalancer \<Rightarrow> LoadBalancer" where
  "setDefaultsLoadBalancer l = l\<lparr>
     LoadBalancer_Enabled := defaultNil False (LoadBalancer_Enabled l),
     LoadBalancer_CIDRs := defaultNil [] (LoadBalancer_CIDRs l),
     LoadBalancer_L2Mode := defaultNil True (LoadBalancer_L2Mode l),
     LoadBalancer_L2Interfaces := defaultNil [] (LoadBalancer_L2Interfaces l),
     LoadBalancer_BGPMode := defaultNil False (LoadBalancer_BGPMode l),
     LoadBalancer_BGPLocalASN := defaultNil 0 (LoadBalancer_BGPLocalASN l),
     LoadBalancer_BGPPeerAddress := defaultNil [] (LoadBalancer_BGPPeerAddress l),
     LoadBalancer_BGPPeerASN := defaultNil 0 (LoadBalancer_BGPPeerASN l),
     LoadBalancer_BGPPeerPort := defaultNil 179 (LoadBalancer_BGPPeerPort l)\<rparr>"

definition setDefaultsIngress :: "Ingress \<Rightarrow> Ingress" where
  "setDefaultsIngress i = i\<lparr>
     Ingress_Enabled := defaultNil False (Ingress_Enabled i),
     Ingress_DefaultTLSSecret := defaultNil [] (Ingress_DefaultTLSSecret i),
     Ingress_EnableProxyProtocol := defaultNil False (Ingress_EnableProxyProtocol i)\<rparr>"

definition SetDefaults :: "ClusterConfig \<Rightarrow> ClusterConfig" where
  "SetDefaults c = c\<lparr>
     CC_Network := setDefaultsNetwork (CC_Network c),
     CC_APIServer := setDefaultsAPIServer (CC_APIServer c),
     CC_Datastore := setDefaultsDatastore (CC_Datastore c),
     CC_Kubelet := setDefaultsKubelet (CC_Kubelet c),
     CC_DNS := setDefaultsDNS (CC_DNS c),
     CC_LocalStorage := setDefaultsLocalStorage (CC_LocalStorage c),
     CC_LoadBalancer := setDefaultsLoadBalancer (CC_LoadBalancer c),
     CC_Ingress := setDefaultsIngress (CC_Ingress c),
     CC_Gateway := (CC_Gateway c)\<lparr>Gateway_Enabled := defaultNil False (Gateway_Enabled (CC_Gateway c))\<rparr>,
     CC_MetricsServer := (CC_MetricsServer c)\<lparr>MetricsServer_Enabled :=
        defaultNil True (MetricsServer_Enabled (CC_MetricsServer c))\<rparr>\<rparr>"

lemmas setDefaults_defs = SetDefaults_def setDefaultsNetwork_def setDefaultsAPIServer_def
  setDefaultsDatastore_def setDefaultsKubelet_def setDefaultsDNS_def setDefaultsLocalStorage_def
  setDefaultsLoadBalancer_def setDefaultsIngress_def

section \<open>Load balancer address pools\<close>

fun lbFromAPILoop ::
  "string list \<Rightarrow> string list \<Rightarrow> LoadBalancer_IPRange list \<Rightarrow> (string list \<times> LoadBalancer_IPRange list) res"
where
  "lbFromAPILoop [] outCIDRs outRanges = Inr (outCIDRs, outRanges)"
| "lbFromAPILoop (cidr # cidrs) outCIDRs outRanges =
     (if CHR ''-'' \<in> set cidr then
        (case splitOn (CHR ''-'') cidr of
           [a, b] \<Rightarrow>
             (case ParseAddr a of
                None \<Rightarrow> Inl (Errorf ''load-balancer.cidrs contains an IP range (%q) with an invalid start IP (%q): %w'' [cidr, a])
              | Some start \<Rightarrow>
                  (case ParseAddr b of
                     None \<Rightarrow> Inl (Errorf ''load-balancer.cidrs contains an IP range (%q) with an invalid stop IP (%q): %w'' [cidr, b])
                   | Some stop \<Rightarrow>
                       if addrLess stop start
                       then Inl (Errorf ''load-balancer.cidrs contains an IP range (%q) with start IP (%q) greater than the stop IP (%q)'' [cidr, a, b])
                       else lbFromAPILoop cidrs outCIDRs
                              (outRanges @ [\<lparr>IPRange_Start = a, IPRange_Stop = b\<rparr>])))
         | _ \<Rightarrow> Inl (Errorf ''load-balancer.cidrs contains an IP range (%q) not in $START-$END format'' [cidr]))
      else if ParseCIDR cidr = None
      then Inl (Errorf ''load-balancer.cidrs contains an invalid CIDR %q: %w'' [cidr])
      else lbFromAPILoop cidrs (outCIDRs @ [cidr]) outRanges)"

definition loadBalancerCIDRsFromAPI ::
  "string list ptr \<Rightarrow> (string list ptr \<times> LoadBalancer_IPRange list ptr) res"
where
  "loadBalancerCIDRsFromAPI inCIDRs =
     (case inCIDRs of
        None \<Rightarrow> Inr (None, None)
      | Some cidrs \<Rightarrow>
          if cidrs = [] then Inr (Some [], Some [])
          else (case lbFromAPILoop cidrs [] [] of
                  Inl e \<Rightarrow> Inl e
                | Inr (cs, rs) \<Rightarrow> Inr (Some cs, Some rs)))"

definition rangeString :: "LoadBalancer_IPRange \<Rightarrow> string" where
  "rangeString r = IPRange_Start r @ ''-'' @ IPRange_Stop r"

definition loadBalancerCIDRsToAPI ::
  "string list ptr \<Rightarrow> LoadBalancer_IPRange list ptr \<Rightarrow> string list ptr"
where
  "loadBalancerCIDRsToAPI inCIDRs inRanges =
     (if inCIDRs = None \<and> inRanges = None then None
      else Some ((case inCIDRs of Some cs \<Rightarrow> cs | None \<Rightarrow> [])
                 @ (case inRanges of Some rs \<Rightarrow> map rangeString rs | None \<Rightarrow> [])))"

section \<open>The types of the public API\<close>

record NetworkConfig =
  NetworkConfig_Enabled :: "bool ptr"
  NetworkConfig_KubeProxyEnabled :: "bool ptr"

record DNSConfig =
  DNSConfig_Enabled :: "bool ptr"
  DNSConfig_ClusterDomain :: "string ptr"
  DNSConfig_ServiceIP :: "string ptr"
  DNSConfig_UpstreamNameservers :: "string list ptr"

record LoadBalancerConfig =
  LBConfig_Enabled :: "bool ptr"
  LBConfig_CIDRs :: "string list ptr"
  LBConfig_L2Mode :: "bool ptr"
  LBConfig_L2Interfaces :: "string list ptr"
  LBConfig_BGPMode :: "bool ptr"
  LBConfig_BGPLocalASN :: "int ptr"
  LBConfig_BGPPeerAddress :: "string ptr"
  LBConfig_BGPPeerASN :: "int ptr"
  LBConfig_BGPPeerPort :: "int ptr"

text \<open>Ingress, local storage, gateway and metrics server have the same fields as the internal structs.\<close>

record UserFacingClusterConfig =
  UF_Network :: NetworkConfig
  UF_DNS :: DNSConfig
  UF_Ingress :: Ingress
  UF_LoadBalancer :: LoadBalancerConfig
  UF_LocalStorage :: LocalStorage
  UF_MetricsServer :: MetricsServer
  UF_Gateway :: Gateway
  UF_CloudProvider :: "string ptr"
  UF_Annotations :: Annotations

record BootstrapConfig =
  BC_ClusterConfig :: UserFacingClusterConfig
  BC_SecurePort :: "int ptr"
  BC_DisableRBAC :: "bool ptr"
  BC_DatastoreType :: "string ptr"
  BC_DatastoreServers :: "string list"
  BC_DatastoreCACert :: "string ptr"
  BC_DatastoreClientCert :: "string ptr"
  BC_DatastoreClientKey :: "string ptr"
  BC_EtcdPort :: "int ptr"
  BC_EtcdPeerPort :: "int ptr"
  BC_PodCIDR :: "string ptr"
  BC_ServiceCIDR :: "string ptr"
  BC_ControlPlaneTaints :: "string list"

record bootstrapGetters =
  GetDatastoreType :: "BootstrapConfig \<Rightarrow> string"
  GetDatastoreCACert :: "BootstrapConfig \<Rightarrow> string"
  GetDatastoreClientCert :: "BootstrapConfig \<Rightarrow> string"
  GetDatastoreClientKey :: "BootstrapConfig \<Rightarrow> string"
  GetEtcdPort :: "BootstrapConfig \<Rightarrow> int"
  GetEtcdPeerPort :: "BootstrapConfig \<Rightarrow> int"

section \<open>Conversions\<close>

definition ClusterConfigFromUserFacing :: "UserFacingClusterConfig \<Rightarrow> ClusterConfig res" where
  "ClusterConfigFromUserFacing u =
     (case loadBalancerCIDRsFromAPI (LBConfig_CIDRs (UF_LoadBalancer u)) of
        Inl e \<Rightarrow> Inl (Wrapf ''invalid load-balancer.cidrs: %w'' [] e)
      | Inr (cidrs, ipRanges) \<Rightarrow>
          Inr (emptyClusterConfig\<lparr>
            CC_Annotations := UF_Annotations u,
            CC_Kubelet := emptyKubelet\<lparr>
              Kubelet_ClusterDNS := DNSConfig_ServiceIP (UF_DNS u),
              Kubelet_ClusterDomain := DNSConfig_ClusterDomain (UF_DNS u),
              Kubelet_CloudProvider := UF_CloudProvider u\<rparr>,
            CC_Network := emptyNetwork\<lparr>
              Network_Enabled := NetworkConfig_Enabled (UF_Network u),
              Network_KubeProxyEnabled := NetworkConfig_KubeProxyEnabled (UF_Network u)\<rparr>,
            CC_DNS := \<lparr>
              DNS_Enabled = DNSConfig_Enabled (UF_DNS u),
              DNS_UpstreamNameservers = DNSConfig_UpstreamNameservers (UF_DNS u)\<rparr>,
            CC_Ingress := \<lparr>
              Ingress_Enabled = Ingress_Enabled (UF_Ingress u),
              Ingress_DefaultTLSSecret = Ingress_DefaultTLSSecret (UF_Ingress u),
              Ingress_EnableProxyProtocol = Ingress_EnableProxyProtocol (UF_Ingress u)\<rparr>,
            CC_LoadBalancer := \<lparr>
              LoadBalancer_Enabled = LBConfig_Enabled (UF_LoadBalancer u),
              LoadBalancer_CIDRs = cidrs,
              LoadBalancer_IPRanges = ipRanges,
              LoadBalancer_L2Mode = LBConfig_L2Mode (UF_LoadBalancer u),
              LoadBalancer_L2Interfaces = LBConfig_L2Interfaces (UF_LoadBalancer u),
              LoadBalancer_BGPMode = LBConfig_BGPMode (UF_LoadBalancer u),
              LoadBalancer_BGPLocalASN = LBConfig_BGPLocalASN (UF_LoadBalancer u),
              LoadBalancer_BGPPeerAddress = LBConfig_BGPPeerAddress (UF_LoadBalancer u),
              LoadBalancer_BGPPeerASN = LBConfig_BGPPeerASN (UF_LoadBalancer u),
              LoadBalancer_BGPPeerPort = LBConfig_BGPPeerPort (UF_LoadBalancer u)\<rparr>,
            CC_LocalStorage := \<lparr>
              LocalStorage_Enabled = LocalStorage_Enabled (UF_LocalStorage u),
              LocalStorage_LocalPath = LocalStorage_LocalPath (UF_LocalStorage u),
              LocalStorage_ReclaimPolicy = LocalStorage_ReclaimPolicy (UF_LocalStorage u),
              LocalStorage_Default = LocalStorage_Default (UF_LocalStorage u)\<rparr>,
            CC_MetricsServer := \<lparr>MetricsServer_Enabled = MetricsServer_Enabled (UF_MetricsServer u)\<rparr>,
            CC_Gateway := \<lparr>Gateway_Enabled = Gateway_Enabled (UF_Gateway u)\<rparr>\<rparr>))"

definition ToUserFacing :: "ClusterConfig \<Rightarrow> UserFacingClusterConfig" where
  "ToUserFacing c = \<lparr>
     UF_Network = \<lparr>
       NetworkConfig_Enabled = Network_Enabled (CC_Network c),
       NetworkConfig_KubeProxyEnabled = Network_KubeProxyEnabled (CC_Network c)\<rparr>,
     UF_DNS = \<lparr>
       DNSConfig_Enabled = DNS_Enabled (CC_DNS c),
       DNSConfig_ClusterDomain = Kubelet_ClusterDomain (CC_Kubelet c),
       DNSConfig_ServiceIP = Kubelet_ClusterDNS (CC_Kubelet c),
       DNSConfig_UpstreamNameservers = DNS_UpstreamNameservers (CC_DNS c)\<rparr>,
     UF_Ingress = \<lparr>
       Ingress_Enabled = Ingress_Enabled (CC_Ingress c),
       Ingress_DefaultTLSSecret = Ingress_DefaultTLSSecret (CC_Ingress c),
       Ingress_EnableProxyProtocol = Ingress_EnableProxyProtocol (CC_Ingress c)\<rparr>,
     UF_LoadBalancer = \<lparr>
       LBConfig_Enabled = LoadBalancer_Enabled (CC_LoadBalancer c),
       LBConfig_CIDRs = loadBalancerCIDRsToAPI (LoadBalancer_CIDRs (CC_LoadBalancer c))
                          (LoadBalancer_IPRanges (CC_LoadBalancer c)),
       LBConfig_L2Mode = LoadBalancer_L2Mode (CC_LoadBalancer c),
       LBConfig_L2Interfaces = LoadBalancer_L2Interfaces (CC_LoadBalancer c),
       LBConfig_BGPMode = LoadBalancer_BGPMode (CC_LoadBalancer c),
       LBConfig_BGPLocalASN = LoadBalancer_BGPLocalASN (CC_LoadBalancer c),
       LBConfig_BGPPeerAddress = LoadBalancer_BGPPeerAddress (CC_LoadBalancer c),
       LBConfig_BGPPeerASN = LoadBalancer_BGPPeerASN (CC_LoadBalancer c),
       LBConfig_BGPPeerPort = LoadBalancer_BGPPeerPort (CC_LoadBalancer c)\<rparr>,
     UF_LocalStorage = \<lparr>
       LocalStorage_Enabled = LocalStorage_Enabled (CC_LocalStorage c),
       LocalStorage_LocalPath = LocalStorage_LocalPath (CC_LocalStorage c),
       LocalStorage_ReclaimPolicy = LocalStorage_ReclaimPolicy (CC_LocalStorage c),
       LocalStorage_Default = LocalStorage_Default (CC_LocalStorage c)\<rparr>,
     UF_MetricsServer = \<lparr>MetricsServer_Enabled = MetricsServer_Enabled (CC_MetricsServer c)\<rparr>,
     UF_Gateway = \<lparr>Gateway_Enabled = Gateway_Enabled (CC_Gateway c)\<rparr>,
     UF_CloudProvider = Kubelet_CloudProvider (CC_Kubelet c),
     UF_Annotations = CC_Annotations c\<rparr>"

text \<open>The datastore switch of \<open>ClusterConfigFromBootstrapConfig\<close>.\<close>

definition bootstrapDatastore :: "bootstrapGetters \<Rightarrow> BootstrapConfig \<Rightarrow> Datastore res" where
  "bootstrapDatastore g b =
     (let t = GetDatastoreType g b in
      if t = [] \<or> t = ''etcd'' then
        (if BC_DatastoreServers b \<noteq> [] then
           Inl (Errorf ''datastore-servers needs datastore-type to be external, not %q'' [t])
         else if GetDatastoreCACert g b \<noteq> [] then
           Inl (Errorf ''datastore-ca-crt needs datastore-type to be external, not %q'' [t])
         else if GetDatastoreClientCert g b \<noteq> [] then
           Inl (Errorf ''datastore-client-crt needs datastore-type to be external, not %q'' [t])
         else if GetDatastoreClientKey g b \<noteq> [] then
           Inl (Errorf ''datastore-client-key needs datastore-type to be external, not %q'' [t])
         else Inr (emptyDatastore\<lparr>Datastore_Type := Some ''etcd'',
                     Datastore_EtcdPort := BC_EtcdPort b, Datastore_EtcdPeerPort := BC_EtcdPeerPort b\<rparr>))
      else if t = ''external'' then
        (if BC_DatastoreServers b = [] then
           Inl (Errorf ''datastore type is external but no datastore servers were set'' [])
         else if GetEtcdPeerPort g b \<noteq> 0 then
           Inl (Errorf ''etcd-peer-port needs datastore-type to be etcd'' [])
         else if GetEtcdPort g b \<noteq> 0 then
           Inl (Errorf ''etcd-port needs datastore-type to be etcd'' [])
         else Inr (emptyDatastore\<lparr>Datastore_Type := Some ''external'',
                     Datastore_ExternalServers := Some (BC_DatastoreServers b),
                     Datastore_ExternalCACert := BC_DatastoreCACert b,
                     Datastore_ExternalClientCert := BC_DatastoreClientCert b,
                     Datastore_ExternalClientKey := BC_DatastoreClientKey b\<rparr>))
      else Inl (Errorf ''unknown datastore type specified in bootstrap config %q'' [t]))"

definition ClusterConfigFromBootstrapConfig ::
  "bootstrapGetters \<Rightarrow> BootstrapConfig \<Rightarrow> ClusterConfig res"
where
  "ClusterConfigFromBootstrapConfig g b =
     (case ClusterConfigFromUserFacing (BC_ClusterConfig b) of
        Inl e \<Rightarrow> Inl (Wrapf ''invalid cluster configuration: %w'' [] e)
      | Inr config \<Rightarrow>
          (case bootstrapDatastore g b of
             Inl e \<Rightarrow> Inl e
           | Inr datastore \<Rightarrow>
               Inr (config\<lparr>
                 CC_APIServer := (CC_APIServer config)\<lparr>
                   APIServer_SecurePort := BC_SecurePort b,
                   APIServer_AuthorizationMode :=
                     Some (if BC_DisableRBAC b = Some True then ''AlwaysAllow'' else ''Node,RBAC'')\<rparr>,
                 CC_Datastore := datastore,
                 CC_Network := (CC_Network config)\<lparr>
                   Network_PodCIDR := BC_PodCIDR b, Network_ServiceCIDR := BC_ServiceCIDR b\<rparr>,
                 CC_Kubelet := (CC_Kubelet config)\<lparr>
                   Kubelet_CloudProvider := UF_CloudProvider (BC_ClusterConfig b),
                   Kubelet_ControlPlaneTaints :=
                     (if BC_ControlPlaneTaints b \<noteq> [] then Some (BC_ControlPlaneTaints b)
                      else Kubelet_ControlPlaneTaints (CC_Kubelet config))\<rparr>\<rparr>)))"

record UserFacingDatastoreConfig =
  UFD_Type :: "string ptr"
  UFD_Servers :: "string list ptr"
  UFD_CACert :: "string ptr"
  UFD_ClientCert :: "string ptr"
  UFD_ClientKey :: "string ptr"

definition DatastoreConfigFromUserFacing ::
  "(UserFacingDatastoreConfig \<Rightarrow> string) \<Rightarrow> UserFacingDatastoreConfig \<Rightarrow> Datastore res"
where
  "DatastoreConfigFromUserFacing getType u =
     (if UFD_Type u \<noteq> None \<and> getType u \<noteq> ''external'' then
        Inl (Errorf ''failed to updated datastore config: type must be %q but is %q'' [''external'', getType u])
      else Inr (emptyDatastore\<lparr>Datastore_Type := UFD_Type u, Datastore_ExternalServers := UFD_Servers u,
                  Datastore_ExternalCACert := UFD_CACert u, Datastore_ExternalClientCert := UFD_ClientCert u,
                  Datastore_ExternalClientKey := UFD_ClientKey u\<rparr>))"

definition Datastore_ToUserFacing :: "Datastore \<Rightarrow> UserFacingDatastoreConfig" where
  "Datastore_ToUserFacing c = \<lparr>UFD_Type = Datastore_Type c, UFD_Servers = Datastore_ExternalServers c,
     UFD_CACert = Datastore_ExternalCACert c, UFD_ClientCert = Datastore_ExternalClientCert c,
     UFD_ClientKey = Datastore_ExternalClientKey c\<rparr>"

section \<open>Facts about defaults\<close>

lemma default_simps [simp]:
  "defaultNil d (defaultNil d' v) = defaultNil d' v"
  "defaultNil d v \<noteq> None"
  "d \<noteq> z \<Longrightarrow> defaultZero z d (defaultZero z d v) = defaultZero z d v"
  "defaultZero z d None = Some d"
  "defaultNil d (Some w) = Some w" "defaultNil d None = Some d"
  by (auto simp: defaultNil_def defaultZero_def)

lemma defaultZero_keeps: "v \<noteq> None \<Longrightarrow> v \<noteq> Some z \<Longrightarrow> defaultZero z d v = v"
  by (auto simp: defaultZero_def)

lemma defaultNil_keeps: "v \<noteq> None \<Longrightarrow> defaultNil d v = v"
  by (simp add: defaultNil_def)

section \<open>Facts about address pools\<close>

abbreviation isRange :: "string \<Rightarrow> bool" where
  "isRange x \<equiv> CHR ''-'' \<in> set x"

definition toRange :: "string \<Rightarrow> LoadBalancer_IPRange" where
  "toRange x = (case splitOn (CHR ''-'') x of
     [a, b] \<Rightarrow> \<lparr>IPRange_Start = a, IPRange_Stop = b\<rparr> | _ \<Rightarrow> \<lparr>IPRange_Start = [], IPRange_Stop = []\<rparr>)"

definition lbAccepts :: "string \<Rightarrow> bool" where
  "lbAccepts x \<longleftrightarrow>
     (if isRange x then length (splitOn (CHR ''-'') x) = 2 \<and> validateIPRange (toRange x) = ok
      else ParseCIDR x \<noteq> None)"

lemma lbFromAPILoop_Inr_iff:
  "lbFromAPILoop xs cs rs = Inr r \<longleftrightarrow>
     (\<forall>x \<in> set xs. lbAccepts x)
     \<and> r = (cs @ filter (\<lambda>x. \<not> isRange x) xs, rs @ map toRange (filter isRange xs))"
proof (induction xs arbitrary: cs rs)
  case (Cons x xs)
  show ?case
  proof (cases "isRange x")
    case True
    show ?thesis
    proof (cases "\<exists>a b. splitOn (CHR ''-'') x = [a, b]")
      case True
      then obtain a b where ab: "splitOn (CHR ''-'') x = [a, b]" by blast
      then have rng: "toRange x = \<lparr>IPRange_Start = a, IPRange_Stop = b\<rparr>" by (simp add: toRange_def)
      with ab \<open>isRange x\<close>
      have acc: "lbAccepts x \<longleftrightarrow> validateIPRange \<lparr>IPRange_Start = a, IPRange_Stop = b\<rparr> = ok"
        by (simp add: lbAccepts_def)
      show ?thesis using ab \<open>isRange x\<close>
        by (simp add: acc rng) (simp add: Cons.IH validateIPRange_def split: option.splits)
    next
      case False
      then have "length (splitOn (CHR ''-'') x) \<noteq> 2"
        by (auto simp: numeral_2_eq_2 length_Suc_conv)
      with False True show ?thesis by (auto simp: lbAccepts_def split: list.splits)
    qed
  next
    case False
    then show ?thesis by (auto simp: Cons.IH lbAccepts_def)
  qed
qed auto

lemma rangeString_toRange:
  assumes "length (splitOn (CHR ''-'') x) = 2"
  shows "rangeString (toRange x) = x"
proof -
  obtain a b where ab: "splitOn (CHR ''-'') x = [a, b]"
    using assms by (auto simp: numeral_2_eq_2 length_Suc_conv)
  have "joinWith (CHR ''-'') [a, b] = x" using joinWith_splitOn [of "CHR ''-''" x] ab by simp
  with ab show ?thesis by (simp add: rangeString_def toRange_def)
qed

lemma loadBalancerCIDRsFromAPI_Some:
  "loadBalancerCIDRsFromAPI (Some xs) = Inr r \<longleftrightarrow>
     (\<forall>x \<in> set xs. lbAccepts x)
     \<and> r = (Some (filter (\<lambda>x. \<not> isRange x) xs), Some (map toRange (filter isRange xs)))"
proof -
  have "(case lbFromAPILoop xs [] [] of Inl e \<Rightarrow> Inl e | Inr (cs, rs) \<Rightarrow> Inr (Some cs, Some rs)) = Inr r
      \<longleftrightarrow> (\<exists>cs rs. lbFromAPILoop xs [] [] = Inr (cs, rs) \<and> r = (Some cs, Some rs))"
    by (auto split: sum.splits prod.splits)
  then show ?thesis
    by (cases xs) (auto simp: loadBalancerCIDRsFromAPI_def lbFromAPILoop_Inr_iff
        simp del: lbFromAPILoop.simps)
qed

lemma lbToAPI_parsed:
  assumes "\<forall>x \<in> set xs. lbAccepts x"
  shows "loadBalancerCIDRsToAPI (Some (filter (\<lambda>x. \<not> isRange x) xs))
      (Some (map toRange (filter isRange xs)))
    = Some (filter (\<lambda>x. \<not> isRange x) xs @ filter isRange xs)"
proof -
  have "map (rangeString \<circ> toRange) (filter isRange xs) = map id (filter isRange xs)"
    using assms by (intro map_cong) (auto simp: lbAccepts_def rangeString_toRange)
  then show ?thesis by (simp add: loadBalancerCIDRsToAPI_def)
qed

text \<open>The pools that \<open>loadBalancerCIDRsFromAPI\<close> produces, and that the encoder reads back.\<close>

definition lbPoolWF :: "string list ptr \<times> LoadBalancer_IPRange list ptr \<Rightarrow> bool" where
  "lbPoolWF p \<longleftrightarrow> (\<exists>inp. loadBalancerCIDRsFromAPI inp = Inr p)"

interpretation lbpool: codec "\<lambda>(cs, rs). loadBalancerCIDRsToAPI cs rs" loadBalancerCIDRsFromAPI lbPoolWF
proof
  fix p :: "string list ptr \<times> LoadBalancer_IPRange list ptr"
  assume "lbPoolWF p"
  then obtain inp where inp: "loadBalancerCIDRsFromAPI inp = Inr p" by (auto simp: lbPoolWF_def)
  show "loadBalancerCIDRsFromAPI (case p of (cs, rs) \<Rightarrow> loadBalancerCIDRsToAPI cs rs) = Inr p"
  proof (cases inp)
    case None
    with inp show ?thesis by (auto simp: loadBalancerCIDRsFromAPI_def loadBalancerCIDRsToAPI_def)
  next
    case (Some xs)
    with inp have acc: "\<forall>x \<in> set xs. lbAccepts x"
      and p: "p = (Some (filter (\<lambda>x. \<not> isRange x) xs), Some (map toRange (filter isRange xs)))"
      by (auto simp: loadBalancerCIDRsFromAPI_Some)
    let ?ys = "filter (\<lambda>x. \<not> isRange x) xs @ filter isRange xs"
    have "loadBalancerCIDRsFromAPI (Some ?ys) = Inr p"
      unfolding loadBalancerCIDRsFromAPI_Some p using acc by (auto simp: filter_empty_conv)
    then show ?thesis by (simp add: p lbToAPI_parsed [OF acc])
  qed
qed

lemma FromUserFacing_pool:
  "ClusterConfigFromUserFacing u = Inr c \<Longrightarrow>
     loadBalancerCIDRsFromAPI (LBConfig_CIDRs (UF_LoadBalancer u)) =
       Inr (LoadBalancer_CIDRs (CC_LoadBalancer c), LoadBalancer_IPRanges (CC_LoadBalancer c))"
  by (auto simp: ClusterConfigFromUserFacing_def split: sum.splits prod.splits)

section \<open>Properties\<close>

text \<open>
  An address pool list that the API accepts comes back with the same entries: the CIDRs
  in their order, then the ranges in their order, each range spelled as it was.
\<close>

theorem loadBalancer_pool_roundtrip:
  assumes "loadBalancerCIDRsFromAPI (Some xs) = Inr (cs, rs)"
  shows "loadBalancerCIDRsToAPI cs rs =
     Some (filter (\<lambda>x. CHR ''-'' \<notin> set x) xs @ filter (\<lambda>x. CHR ''-'' \<in> set x) xs)"
  using assms lbToAPI_parsed by (auto simp: loadBalancerCIDRsFromAPI_Some)

theorem loadBalancer_pool_roundtrip_witness:
  "loadBalancerCIDRsToAPI (Some [''10.1.0.0/16'']) (Some []) = Some [''10.1.0.0/16'']"
proof -
  have "loadBalancerCIDRsFromAPI (Some [''10.1.0.0/16'']) = Inr (Some [''10.1.0.0/16''], Some [])"
    by (simp add: loadBalancerCIDRsFromAPI_def parse_10_1)
  from loadBalancer_pool_roundtrip [OF this] show ?thesis by simp
qed

text \<open>
  The user-facing view of a converted configuration converts back to the same
  configuration, so reading the configuration and writing it back changes nothing.
\<close>

theorem ClusterConfig_user_facing_roundtrip:
  assumes "ClusterConfigFromUserFacing u = Inr c"
  shows "ClusterConfigFromUserFacing (ToUserFacing c) = Inr c"
proof -
  let ?p = "(LoadBalancer_CIDRs (CC_LoadBalancer c), LoadBalancer_IPRanges (CC_LoadBalancer c))"
  have "lbPoolWF ?p" using FromUserFacing_pool [OF assms] by (auto simp: lbPoolWF_def)
  then have "loadBalancerCIDRsFromAPI (loadBalancerCIDRsToAPI (fst ?p) (snd ?p)) = Inr ?p"
    using lbpool.decode_encode by fastforce
  then have "ClusterConfigFromUserFacing (ToUserFacing c) = Inr (emptyClusterConfig\<lparr>
      CC_Annotations := CC_Annotations c,
      CC_Kubelet := emptyKubelet\<lparr>Kubelet_ClusterDNS := Kubelet_ClusterDNS (CC_Kubelet c),
        Kubelet_ClusterDomain := Kubelet_ClusterDomain (CC_Kubelet c),
        Kubelet_CloudProvider := Kubelet_CloudProvider (CC_Kubelet c)\<rparr>,
      CC_Network := emptyNetwork\<lparr>Network_Enabled := Network_Enabled (CC_Network c),
        Network_KubeProxyEnabled := Network_KubeProxyEnabled (CC_Network c)\<rparr>,
      CC_DNS := CC_DNS c, CC_Ingress := CC_Ingress c, CC_LoadBalancer := CC_LoadBalancer c,
      CC_LocalStorage := CC_LocalStorage c, CC_MetricsServer := CC_MetricsServer c,
      CC_Gateway := CC_Gateway c\<rparr>)"
    by (simp add: ClusterConfigFromUserFacing_def ToUserFacing_def)
  also have "\<dots> = Inr c"
    using assms by (auto simp: ClusterConfigFromUserFacing_def empty_defs split: sum.splits prod.splits)
  finally show ?thesis .
qed

text \<open>
  \<open>SetDefaults\<close> is idempotent, and on every configuration it leaves the network feature
  consistent: if kube-proxy was not configured, it is enabled exactly when the network
  feature is disabled.
\<close>

theorem SetDefaults_idempotent:
  "SetDefaults (SetDefaults c) = SetDefaults c
   \<and> (Network_KubeProxyEnabled (CC_Network c) = None \<longrightarrow>
        GetKubeProxyEnabled (CC_Network (SetDefaults c)) =
          (\<not> getBool (Network_Enabled (CC_Network (SetDefaults c)))))"
  by (auto simp: setDefaults_defs Let_def GetKubeProxyEnabled_def defaultNil_def)

lemma SetDefaults_empty_valid: "Validate ext (SetDefaults emptyClusterConfig) = ok"
proof -
  have net: "validateCIDRs ''10.1.0.0/16'' = ok" "validateCIDRs ''10.152.183.0/24'' = ok"
    "validateCIDROverlap ''10.1.0.0/16'' ''10.152.183.0/24'' = ok"
    "validateIPv6CIDRSize ''10.152.183.0/24'' = ok"
    using Validate_okD(1-4) [OF defaultCIDRs_valid] by simp_all
  show ?thesis
    by (simp add: validate_ok_iffs Validate_def validateNetwork_def validateLoadBalancer_def
        validateStorageDNSDatastore_def validateBGP_def Let_def setDefaults_defs empty_defs net
        GetKubeProxyEnabled_def)
qed

text \<open>The values of a configuration, by type, and what it means to keep them.\<close>

definition keptNonZero :: "'a \<Rightarrow> 'a ptr \<Rightarrow> 'a ptr \<Rightarrow> bool" where
  "keptNonZero z v w \<longleftrightarrow> (v \<noteq> None \<and> v \<noteq> Some z \<longrightarrow> w = v)"

definition keptSet :: "'a ptr \<Rightarrow> 'a ptr \<Rightarrow> bool" where
  "keptSet v w \<longleftrightarrow> (v \<noteq> None \<longrightarrow> w = v)"

definition stringFields :: "ClusterConfig \<Rightarrow> string ptr list" where
  "stringFields c = [
     Network_PodCIDR (CC_Network c), Network_ServiceCIDR (CC_Network c),
     APIServer_AuthorizationMode (CC_APIServer c), Datastore_Type (CC_Datastore c),
     Kubelet_ClusterDomain (CC_Kubelet c), Kubelet_ClusterDNS (CC_Kubelet c),
     Kubelet_CloudProvider (CC_Kubelet c), LocalStorage_LocalPath (CC_LocalStorage c),
     LocalStorage_ReclaimPolicy (CC_LocalStorage c), LoadBalancer_BGPPeerAddress (CC_LoadBalancer c),
     Ingress_DefaultTLSSecret (CC_Ingress c)]"

definition intFields :: "ClusterConfig \<Rightarrow> int ptr list" where
  "intFields c = [APIServer_SecurePort (CC_APIServer c), Datastore_EtcdPort (CC_Datastore c),
     Datastore_EtcdPeerPort (CC_Datastore c), LoadBalancer_BGPLocalASN (CC_LoadBalancer c),
     LoadBalancer_BGPPeerASN (CC_LoadBalancer c), LoadBalancer_BGPPeerPort (CC_LoadBalancer c)]"

definition boolFields :: "ClusterConfig \<Rightarrow> bool ptr list" where
  "boolFields c = [Network_Enabled (CC_Network c), Network_KubeProxyEnabled (CC_Network c),
     DNS_Enabled (CC_DNS c), LocalStorage_Enabled (CC_LocalStorage c),
     LocalStorage_Default (CC_LocalStorage c), LoadBalancer_Enabled (CC_LoadBalancer c),
     LoadBalancer_L2Mode (CC_LoadBalancer c), LoadBalancer_BGPMode (CC_LoadBalancer c),
     Ingress_Enabled (CC_Ingress c), Ingress_EnableProxyProtocol (CC_Ingress c),
     Gateway_Enabled (CC_Gateway c), MetricsServer_Enabled (CC_MetricsServer c)]"

lemma keptNonZero_default [simp]:
  "keptNonZero z v (defaultZero z d v)" "keptNonZero z v (defaultNil d v)" "keptNonZero z v v"
  "keptSet v (defaultNil d v)"
  by (auto simp: keptNonZero_def keptSet_def defaultZero_def defaultNil_def)

text \<open>
  \<open>SetDefaults\<close> fills gaps only: every string, number, flag and list that the user set to
  a non-zero value is unchanged, and so are certificates and annotations.
\<close>

theorem SetDefaults_keeps_user_values:
  "list_all2 (keptNonZero []) (stringFields c) (stringFields (SetDefaults c))
   \<and> list_all2 (keptNonZero 0) (intFields c) (intFields (SetDefaults c))
   \<and> list_all2 keptSet (boolFields c) (boolFields (SetDefaults c))
   \<and> keptNonZero [] (DNS_UpstreamNameservers (CC_DNS c)) (DNS_UpstreamNameservers (CC_DNS (SetDefaults c)))
   \<and> CC_Certificates (SetDefaults c) = CC_Certificates c
   \<and> CC_Annotations (SetDefaults c) = CC_Annotations c"
  by (simp add: stringFields_def intFields_def boolFields_def setDefaults_defs Let_def)

text \<open>
  The accessor methods of the bootstrap configuration return the field, or the zero value for
  an unset field.
\<close>

definition gettersOK :: "bootstrapGetters \<Rightarrow> bool" where
  "gettersOK g \<longleftrightarrow>
     GetDatastoreType g = (\<lambda>b. getStr (BC_DatastoreType b))
     \<and> GetDatastoreCACert g = (\<lambda>b. getStr (BC_DatastoreCACert b))
     \<and> GetDatastoreClientCert g = (\<lambda>b. getStr (BC_DatastoreClientCert b))
     \<and> GetDatastoreClientKey g = (\<lambda>b. getStr (BC_DatastoreClientKey b))
     \<and> GetEtcdPort g = (\<lambda>b. getInt (BC_EtcdPort b))
     \<and> GetEtcdPeerPort g = (\<lambda>b. getInt (BC_EtcdPeerPort b))"

text \<open>
  A converted bootstrap configuration has a consistent datastore: type etcd with no
  external servers or credentials, or type external with at least one server and no etcd
  port. Its pod and service CIDRs are those of the request, and RBAC is off only on request.
\<close>

theorem bootstrap_datastore_consistent:
  assumes "gettersOK g" "ClusterConfigFromBootstrapConfig g b = Inr c"
  shows "(getStr (Datastore_Type (CC_Datastore c)) = ''etcd''
           \<and> getList (Datastore_ExternalServers (CC_Datastore c)) = []
           \<and> getStr (BC_DatastoreCACert b) = [] \<and> getStr (BC_DatastoreClientCert b) = []
           \<and> getStr (BC_DatastoreClientKey b) = []
         \<or> getStr (Datastore_Type (CC_Datastore c)) = ''external''
           \<and> getList (Datastore_ExternalServers (CC_Datastore c)) = BC_DatastoreServers b
           \<and> BC_DatastoreServers b \<noteq> []
           \<and> getInt (BC_EtcdPort b) = 0 \<and> getInt (BC_EtcdPeerPort b) = 0)
    \<and> Network_PodCIDR (CC_Network c) = BC_PodCIDR b \<and> Network_ServiceCIDR (CC_Network c) = BC_ServiceCIDR b
    \<and> (getStr (APIServer_AuthorizationMode (CC_APIServer c)) = ''AlwaysAllow''
         \<longleftrightarrow> BC_DisableRBAC b = Some True)"
  using assms
  by (auto simp: ClusterConfigFromBootstrapConfig_def bootstrapDatastore_def gettersOK_def Let_def
      empty_defs split: sum.splits if_splits)

text \<open>
  A datastore update from the API never changes the type away from external, and it
  sets no etcd field.
\<close>

theorem DatastoreConfigFromUserFacing_external_only:
  assumes "DatastoreConfigFromUserFacing getType u = Inr d" "\<And>x. getType x = getStr (UFD_Type x)"
  shows "(Datastore_Type d = None \<or> Datastore_Type d = Some ''external'')
    \<and> Datastore_ToUserFacing d = u
    \<and> Datastore_EtcdCACert d = None \<and> Datastore_EtcdCAKey d = None
    \<and> Datastore_EtcdPort d = None \<and> Datastore_EtcdPeerPort d = None"
  using assms by (cases "UFD_Type u")
    (auto simp: DatastoreConfigFromUserFacing_def Datastore_ToUserFacing_def empty_defs split: if_splits)

section \<open>Instances\<close>

definition sampleUserFacing :: UserFacingClusterConfig where
  "sampleUserFacing = ToUserFacing (emptyClusterConfig\<lparr>CC_LoadBalancer :=
     emptyLoadBalancer\<lparr>LoadBalancer_CIDRs := Some [''10.1.0.0/16'']\<rparr>\<rparr>)"

definition sampleGetters :: bootstrapGetters where
  "sampleGetters = \<lparr>
     GetDatastoreType = (\<lambda>b. getStr (BC_DatastoreType b)),
     GetDatastoreCACert = (\<lambda>b. getStr (BC_DatastoreCACert b)),
     GetDatastoreClientCert = (\<lambda>b. getStr (BC_DatastoreClientCert b)),
     GetDatastoreClientKey = (\<lambda>b. getStr (BC_DatastoreClientKey b)),
     GetEtcdPort = (\<lambda>b. getInt (BC_EtcdPort b)),
     GetEtcdPeerPort = (\<lambda>b. getInt (BC_EtcdPeerPort b))\<rparr>"

definition sampleBootstrap :: BootstrapConfig where
  "sampleBootstrap = \<lparr>BC_ClusterConfig = sampleUserFacing, BC_SecurePort = None, BC_DisableRBAC = None,
     BC_DatastoreType = Some ''external'', BC_DatastoreServers = [''https://10.0.0.1:2379''],
     BC_DatastoreCACert = None, BC_DatastoreClientCert = None, BC_DatastoreClientKey = None,
     BC_EtcdPort = None, BC_EtcdPeerPort = None, BC_PodCIDR = None, BC_ServiceCIDR = None,
     BC_ControlPlaneTaints = []\<rparr>"

lemma sampleUserFacing_ok: "\<exists>c. ClusterConfigFromUserFacing sampleUserFacing = Inr c"
  by (simp add: ClusterConfigFromUserFacing_def sampleUserFacing_def ToUserFacing_def
      loadBalancerCIDRsToAPI_def loadBalancerCIDRsFromAPI_def parse_10_1 empty_defs)

theorem ClusterConfig_user_facing_roundtrip_witness:
  "\<exists>c. ClusterConfigFromUserFacing (ToUserFacing c) = Inr c"
  using sampleUserFacing_ok ClusterConfig_user_facing_roundtrip by blast

theorem SetDefaults_idempotent_witness:
  "GetKubeProxyEnabled (CC_Network (SetDefaults emptyClusterConfig)) =
     (\<not> getBool (Network_Enabled (CC_Network (SetDefaults emptyClusterConfig))))"
  using SetDefaults_idempotent [of emptyClusterConfig] by (simp add: empty_defs)

theorem bootstrap_datastore_consistent_witness:
  "\<exists>c. ClusterConfigFromBootstrapConfig sampleGetters sampleBootstrap = Inr c
     \<and> getStr (Datastore_Type (CC_Datastore c)) = ''external''"
proof -
  obtain u where u: "ClusterConfigFromUserFacing sampleUserFacing = Inr u"
    using sampleUserFacing_ok by blast
  obtain d where d: "bootstrapDatastore sampleGetters sampleBootstrap = Inr d"
    by (simp add: bootstrapDatastore_def sampleGetters_def sampleBootstrap_def Let_def)
  obtain c where c: "ClusterConfigFromBootstrapConfig sampleGetters sampleBootstrap = Inr c"
    using u d by (simp add: ClusterConfigFromBootstrapConfig_def sampleBootstrap_def)
  have "gettersOK sampleGetters" by (simp add: gettersOK_def sampleGetters_def)
  from bootstrap_datastore_consistent [OF this c] c show ?thesis
    by (auto simp: ClusterConfigFromBootstrapConfig_def bootstrapDatastore_def sampleBootstrap_def
        sampleGetters_def Let_def split: sum.splits)
qed

theorem DatastoreConfigFromUserFacing_external_only_witness:
  "\<exists>d. DatastoreConfigFromUserFacing (\<lambda>x. getStr (UFD_Type x))
      \<lparr>UFD_Type = Some ''external'', UFD_Servers = None, UFD_CACert = None, UFD_ClientCert = None,
       UFD_ClientKey = None\<rparr> = Inr d \<and> Datastore_EtcdPort d = None"
proof -
  let ?u = "\<lparr>UFD_Type = Some ''external'', UFD_Servers = None, UFD_CACert = None, UFD_ClientCert = None,
       UFD_ClientKey = None\<rparr>"
  have d: "\<exists>d. DatastoreConfigFromUserFacing (\<lambda>x. getStr (UFD_Type x)) ?u = Inr d"
    by (simp add: DatastoreConfigFromUserFacing_def)
  then show ?thesis using DatastoreConfigFromUserFacing_external_only by blast
qed

end
