(* ===== verification/Database.thy ===== *)
theory Database
  imports Merge
begin

text \<open>
  The cluster database (\<open>pkg/k8sd/database\<close>): the stored cluster configuration, the ClusterAPI
  token, the Kubernetes auth tokens, the worker join tokens and the feature statuses. A table is
  the list of its rows in the order of their ids; the statements are those of the SQL files
  under \<open>sql/queries\<close>. A query returns the first matching row. \<open>DB_fault\<close> gives the error of
  preparing or running a statement, of fetching the next row and of reading a row.

  JSON encoding is a pair of functions; the configurations that it reads back as they were
  written are those with \<open>jsonOK\<close>. Random bytes and the current time are arguments.

  The two upserts share the contract \<open>kv_store\<close>. \<open>dbStep\<close> is the database as a state machine,
  a step per successful transaction.
\<close>

section \<open>Tables\<close>

datatype dbPhase = Prepare | Exec | NextRow nat | ScanRow nat

record AuthToken =
  AT_token :: string
  AT_username :: string
  AT_groups :: string

record WorkerToken =
  WT_name :: string
  WT_token :: string
  WT_expiry :: int

record FeatureRow =
  FR_message :: string
  FR_version :: string
  FR_timestamp :: string
  FR_enabled :: bool

record DB =
  DB_configs :: "string gomap"
  DB_tokens :: "AuthToken list"
  DB_workers :: "WorkerToken list"
  DB_features :: "FeatureRow gomap"
  DB_fault :: "string \<Rightarrow> dbPhase \<Rightarrow> error option"

record json =
  jsonMarshal :: "ClusterConfig \<Rightarrow> string res"
  jsonUnmarshal :: "string \<Rightarrow> ClusterConfig res"

definition jsonOK :: "json \<Rightarrow> ClusterConfig \<Rightarrow> bool" where
  "jsonOK j c \<longleftrightarrow> (\<exists>s. jsonMarshal j c = Inr s \<and> jsonUnmarshal j s = Inr c)"

definition noDbFaults :: "DB \<Rightarrow> bool" where
  "noDbFaults db \<longleftrightarrow> DB_fault db = (\<lambda>_ _. None)"

text \<open>Preparing a statement, and running it.\<close>

definition dbStmt :: "DB \<Rightarrow> string \<Rightarrow> unit res" where
  "dbStmt db stmt = (case DB_fault db stmt Prepare of None \<Rightarrow> ok | Some e \<Rightarrow> Inl e)"

definition dbExec :: "DB \<Rightarrow> string \<Rightarrow> DB \<Rightarrow> (DB, unit) step" where
  "dbExec db stmt db' = (case DB_fault db stmt Exec of None \<Rightarrow> (db', ok) | Some e \<Rightarrow> (db, Inl e))"

section \<open>Cluster configuration\<close>

definition GetClusterConfig :: "json \<Rightarrow> DB \<Rightarrow> ClusterConfig res" where
  "GetClusterConfig j db =
     (case dbStmt db ''select-v1alpha2'' of
        Inl e \<Rightarrow> Inl (Wrapf ''failed to prepare statement: %w'' [] e)
      | Inr _ \<Rightarrow>
          (case DB_fault db ''select-v1alpha2'' Exec of
             Some e \<Rightarrow> Inl (Wrapf ''failed to retrieve v1alpha2 config: %w'' [] e)
           | None \<Rightarrow>
               (case map_of (DB_configs db) ''v1alpha2'' of
                  None \<Rightarrow> Inr emptyClusterConfig
                | Some s \<Rightarrow>
                    (case jsonUnmarshal j s of
                       Inl e \<Rightarrow> Inl (Wrapf ''failed to parse v1alpha2 config: %w'' [] e)
                     | Inr c \<Rightarrow> Inr c))))"

definition putConfig :: "string \<Rightarrow> string \<Rightarrow> DB \<Rightarrow> DB" where
  "putConfig key value db = db\<lparr>DB_configs := AList.update key value (DB_configs db)\<rparr>"

definition SetClusterConfig :: "extern \<Rightarrow> json \<Rightarrow> ClusterConfig \<Rightarrow> DB \<Rightarrow> (DB, ClusterConfig) step" where
  "SetClusterConfig ext j new db =
     tryStep (db, GetClusterConfig j db) ''failed to fetch existing cluster config: %w'' [] (\<lambda>db old.
     tryStep (db, MergeClusterConfig ext old new) ''failed to merge new cluster configuration options: %w'' []
       (\<lambda>db config.
     tryStep (db, jsonMarshal j config) ''failed to encode cluster config: %w'' [] (\<lambda>db b.
     tryStep (db, dbStmt db ''insert-v1alpha2'') ''failed to prepare insert statement: %w'' [] (\<lambda>db _.
     tryStep (dbExec db ''insert-v1alpha2'' (putConfig ''v1alpha2'' b db))
       ''failed to insert v1alpha2 config: %w'' [] (\<lambda>db _. (db, Inr config))))))"

section \<open>ClusterAPI token\<close>

definition SetClusterAPIToken :: "string \<Rightarrow> DB \<Rightarrow> (DB, unit) step" where
  "SetClusterAPIToken token db =
     (if token = [] then (db, Inl (Errorf ''token cannot be empty'' []))
      else
        tryStep (db, dbStmt db ''insert-capi-token'') ''failed to prepare insert statement: %w'' [] (\<lambda>db _.
        tryStep (dbExec db ''insert-capi-token'' (putConfig ''token::capi'' token db))
          ''insert ClusterAPI token query failed: %w'' [] (\<lambda>db _. (db, ok))))"

definition ValidateClusterAPIToken :: "string \<Rightarrow> DB \<Rightarrow> bool res" where
  "ValidateClusterAPIToken token db =
     (case dbStmt db ''select-capi-token'' of
        Inl e \<Rightarrow> Inl (Wrapf ''failed to prepare select statement: %w'' [] e)
      | Inr _ \<Rightarrow>
          (case DB_fault db ''select-capi-token'' Exec of
             Some e \<Rightarrow> Inl (Wrapf ''failed to query ClusterAPI token: %w'' [] e)
           | None \<Rightarrow> Inr (map_of (DB_configs db) ''token::capi'' = Some token)))"

section \<open>Kubernetes auth tokens\<close>

fun groupsLoop :: "string list \<Rightarrow> string list \<Rightarrow> string list res" where
  "groupsLoop [] groups = Inr groups"
| "groupsLoop (g # gs) groups =
     (if g = [] then Inl (Errorf ''group cannot be empty'' [])
      else if g \<in> set groups then Inl (Errorf ''duplicate group %s'' [g])
      else groupsLoop gs (groups @ [g]))"

definition groupsToString :: "string list \<Rightarrow> string res" where
  "groupsToString inGroups =
     (case groupsLoop inGroups [] of
        Inl e \<Rightarrow> Inl e
      | Inr groups \<Rightarrow> Inr (joinWith (CHR '','') (sortStrings groups)))"

definition groupsToList :: "string \<Rightarrow> string list" where
  "groupsToList inGroups = (if inGroups = [] then [] else splitOn (CHR '','') inGroups)"

definition CheckToken :: "string \<Rightarrow> DB \<Rightarrow> (string \<times> string list) res" where
  "CheckToken token db =
     (case dbStmt db ''select-by-token'' of
        Inl e \<Rightarrow> Inl (Wrapf ''failed to prepare statement: %w'' [] e)
      | Inr _ \<Rightarrow>
          (case DB_fault db ''select-by-token'' Exec of
             Some e \<Rightarrow> Inl (Wrapf ''failed to check token: %w'' [] e)
           | None \<Rightarrow>
               (case find (\<lambda>r. AT_token r = token) (DB_tokens db) of
                  None \<Rightarrow> Inl (Errorf ''invalid token'' [])
                | Some r \<Rightarrow> Inr (AT_username r, groupsToList (AT_groups r)))))"

text \<open>\<open>hex.EncodeToString\<close>\<close>

definition hexEncode :: "byte list \<Rightarrow> string" where
  "hexEncode bs = bytesHex bs"

text \<open>
  \<open>GetOrCreateToken\<close>. A failing lookup counts as no token, as in the source. \<open>random\<close> is the
  answer of \<open>rand.Read\<close> for the twenty bytes of a new token.
\<close>

definition GetOrCreateToken :: "byte list res \<Rightarrow> string \<Rightarrow> string list \<Rightarrow> DB \<Rightarrow> (DB, string) step" where
  "GetOrCreateToken random username groups db =
     (if username = [] then (db, Inl (Errorf ''username cannot be empty'' []))
      else
        tryStep (db, groupsToString groups) ''invalid groups: %w'' [] (\<lambda>db groupsString.
        tryStep (db, dbStmt db ''select-by-username'') ''failed to prepare select statement: %w'' [] (\<lambda>db _.
        case (if DB_fault db ''select-by-username'' Exec = None
              then find (\<lambda>r. AT_username r = username \<and> AT_groups r = groupsString) (DB_tokens db) else None) of
          Some r \<Rightarrow> (db, Inr (AT_token r))
        | None \<Rightarrow>
            tryStep (db, random) ''is the system entropy low? failed to get random bytes: %w'' [] (\<lambda>db b.
            let token = ''token::'' @ hexEncode b in
            tryStep (db, dbStmt db ''insert-token'') ''failed to prepare insert statement: %w'' [] (\<lambda>db _.
            tryStep (dbExec db ''insert-token''
                (db\<lparr>DB_tokens := DB_tokens db @
                   [\<lparr>AT_token = token, AT_username = username, AT_groups = groupsString\<rparr>]\<rparr>))
              ''insert token query failed: %w'' [] (\<lambda>db _. (db, Inr token)))))))"

definition DeleteToken :: "string \<Rightarrow> DB \<Rightarrow> (DB, unit) step" where
  "DeleteToken token db =
     (if token = [] then (db, Inl (Errorf ''token cannot be empty'' []))
      else
        tryStep (db, dbStmt db ''delete-by-token'') ''failed to prepare delete statement: %w'' [] (\<lambda>db _.
        tryStep (dbExec db ''delete-by-token'' (db\<lparr>DB_tokens := filter (\<lambda>r. AT_token r \<noteq> token) (DB_tokens db)\<rparr>))
          ''delete token query failed: %w'' [] (\<lambda>db _. (db, ok))))"

section \<open>Worker tokens\<close>

definition CheckWorkerNodeToken :: "int \<Rightarrow> string \<Rightarrow> string \<Rightarrow> DB \<Rightarrow> bool res" where
  "CheckWorkerNodeToken now nodeName token db =
     (case dbStmt db ''select-worker-token'' of
        Inl e \<Rightarrow> Inl (Wrapf ''failed to prepare select statement: %w'' [] e)
      | Inr _ \<Rightarrow>
          (case (if DB_fault db ''select-worker-token'' Exec = None
                 then find (\<lambda>r. WT_token r = token) (DB_workers db) else None) of
             Some r \<Rightarrow> Inr ((WT_name r = [] \<or> nodeName = WT_name r) \<and> now < WT_expiry r)
           | None \<Rightarrow> Inr False))"

definition GetOrCreateWorkerNodeToken :: "byte list res \<Rightarrow> string \<Rightarrow> int \<Rightarrow> DB \<Rightarrow> (DB, string) step" where
  "GetOrCreateWorkerNodeToken random nodeName expiry db =
     tryStep (db, dbStmt db ''insert-worker-token'') ''failed to prepare insert statement: %w'' [] (\<lambda>db _.
     tryStep (db, random) ''is the system entropy low? failed to get random bytes: %w'' [] (\<lambda>db b.
     let token = ''worker::'' @ hexEncode b in
     tryStep (dbExec db ''insert-worker-token''
         (db\<lparr>DB_workers := DB_workers db @ [\<lparr>WT_name = nodeName, WT_token = token, WT_expiry = expiry\<rparr>]\<rparr>))
       ''insert token query failed: %w'' [] (\<lambda>db _. (db, Inr token))))"

text \<open>The parameter is called \<open>nodeName\<close> in the source; the statement deletes by token.\<close>

definition DeleteWorkerNodeToken :: "string \<Rightarrow> DB \<Rightarrow> (DB, unit) step" where
  "DeleteWorkerNodeToken nodeName db =
     tryStep (db, dbStmt db ''delete-worker-token'') ''failed to prepare delete statement: %w'' [] (\<lambda>db _.
     tryStep (dbExec db ''delete-worker-token'' (db\<lparr>DB_workers := filter (\<lambda>r. WT_token r \<noteq> nodeName) (DB_workers db)\<rparr>))
       ''delete token query failed: %w'' [] (\<lambda>db _. (db, ok)))"

section \<open>Feature status\<close>

text \<open>
  Times are written and read in RFC 3339 format. A time that does not parse is logged and zero; its
  error stays in \<open>err\<close>, which is what a failing iteration wraps.
\<close>

definition putFeature :: "string \<Rightarrow> FeatureRow \<Rightarrow> DB \<Rightarrow> DB" where
  "putFeature name row db = db\<lparr>DB_features := AList.update name row (DB_features db)\<rparr>"

definition SetFeatureStatus :: "('t \<Rightarrow> string) \<Rightarrow> string \<Rightarrow> 't FeatureStatus \<Rightarrow> DB \<Rightarrow> (DB, unit) step" where
  "SetFeatureStatus fmtTime name status db =
     tryStep (db, dbStmt db ''upsert'') ''failed to prepare upsert statement: %w'' [] (\<lambda>db _.
     tryStep (dbExec db ''upsert'' (putFeature name
         \<lparr>FR_message = FS_Message status, FR_version = FS_Version status,
          FR_timestamp = fmtTime (FS_UpdatedAt status), FR_enabled = FS_Enabled status\<rparr> db))
       ''failed to execute upsert statement: %w'' [] (\<lambda>db _. (db, ok)))"

definition readRowsError :: "error option \<Rightarrow> error" where
  "readRowsError err = (case err of
     None \<Rightarrow> Errorf ''failed to read rows: %!w(<nil>)'' []
   | Some e \<Rightarrow> Wrapf ''failed to read rows: %w'' [] e)"

fun featureRowsLoop ::
  "(dbPhase \<Rightarrow> error option) \<Rightarrow> (string \<Rightarrow> 't res) \<Rightarrow> 't \<Rightarrow> nat \<Rightarrow> FeatureRow gomap \<Rightarrow> error option
    \<Rightarrow> 't FeatureStatus gomap \<Rightarrow> 't FeatureStatus gomap res"
where
  "featureRowsLoop fault parseTime zeroTime i [] err result =
     (if fault (NextRow i) \<noteq> None then Inl (readRowsError err) else Inr result)"
| "featureRowsLoop fault parseTime zeroTime i ((name, r) # rows) err result =
     (if fault (NextRow i) \<noteq> None then Inl (readRowsError err)
      else
        (case fault (ScanRow i) of
           Some e \<Rightarrow> Inl (Wrapf ''failed to scan row: %w'' [] e)
         | None \<Rightarrow>
             featureRowsLoop fault parseTime zeroTime (Suc i) rows
               (case parseTime (FR_timestamp r) of Inl e \<Rightarrow> Some e | Inr _ \<Rightarrow> None)
               (AList.update name
                 \<lparr>FS_Enabled = FR_enabled r, FS_Message = FR_message r, FS_Version = FR_version r,
                  FS_UpdatedAt = (case parseTime (FR_timestamp r) of Inl _ \<Rightarrow> zeroTime | Inr t \<Rightarrow> t)\<rparr> result)))"

definition GetFeatureStatuses :: "(string \<Rightarrow> 't res) \<Rightarrow> 't \<Rightarrow> DB \<Rightarrow> 't FeatureStatus gomap res" where
  "GetFeatureStatuses parseTime zeroTime db =
     (case dbStmt db ''select'' of
        Inl e \<Rightarrow> Inl (Wrapf ''failed to prepare select statement: %w'' [] e)
      | Inr _ \<Rightarrow>
          (case DB_fault db ''select'' Exec of
             Some e \<Rightarrow> Inl (Wrapf ''failed to execute select statement: %w'' [] e)
           | None \<Rightarrow> featureRowsLoop (DB_fault db ''select'') parseTime zeroTime 0 (DB_features db) None []))"

section \<open>Upserts\<close>

text \<open>A table with a unique key, written by \<open>INSERT ... ON CONFLICT DO UPDATE\<close>.\<close>

locale kv_store =
  fixes get :: "'s \<Rightarrow> string \<Rightarrow> 'v option" and put :: "string \<Rightarrow> 'v \<Rightarrow> 's \<Rightarrow> 's"
  assumes get_put: "get (put k v s) k' = (if k' = k then Some v else get s k')"
begin

lemma get_put_same [simp]: "get (put k v s) k = Some v"
  by (simp add: get_put)

lemma get_put_other: "k' \<noteq> k \<Longrightarrow> get (put k v s) k' = get s k'"
  by (simp add: get_put)

lemma put_twice: "get (put k v (put k w s)) = get (put k v s)"
  by (simp add: fun_eq_iff get_put)

lemma put_commute: "k \<noteq> l \<Longrightarrow> get (put k v (put l w s)) = get (put l w (put k v s))"
  by (auto simp: fun_eq_iff get_put)

end

interpretation cfg: kv_store "\<lambda>db. map_of (DB_configs db)" putConfig
  by unfold_locales (simp add: putConfig_def update_conv')

interpretation feat: kv_store "\<lambda>db. map_of (DB_features db)" putFeature
  by unfold_locales (simp add: putFeature_def update_conv')

lemma put_fault [simp]:
  "DB_fault (putConfig k v db) = DB_fault db" "DB_fault (putFeature k r db) = DB_fault db"
  "DB_tokens (putConfig k v db) = DB_tokens db" "DB_workers (putConfig k v db) = DB_workers db"
  "DB_features (putConfig k v db) = DB_features db" "DB_configs (putFeature n r db) = DB_configs db"
  "DB_tokens (putFeature n r db) = DB_tokens db" "DB_workers (putFeature n r db) = DB_workers db"
  by (simp_all add: putConfig_def putFeature_def)

section \<open>Successful operations\<close>

lemma dbExec_ok: "dbExec db st d = (db', Inr u) \<longleftrightarrow> DB_fault db st Exec = None \<and> db' = d"
  by (auto simp: dbExec_def split: option.splits)

lemma dbStmt_ok: "dbStmt db st = Inr u \<longleftrightarrow> DB_fault db st Prepare = None"
  by (auto simp: dbStmt_def split: option.splits)

lemma noDbFaults_stmt [simp]: "noDbFaults db \<Longrightarrow> dbStmt db st = ok" "noDbFaults db \<Longrightarrow> DB_fault db st ph = None"
  "noDbFaults db \<Longrightarrow> dbExec db st d = (d, ok)"
  by (simp_all add: noDbFaults_def dbStmt_def dbExec_def)

lemma SetClusterConfig_ok_iff:
  "SetClusterConfig ext j new db = (db', Inr c) \<longleftrightarrow>
     (\<exists>old s. GetClusterConfig j db = Inr old \<and> MergeClusterConfig ext old new = Inr c \<and> jsonMarshal j c = Inr s \<and>
        DB_fault db ''insert-v1alpha2'' Prepare = None \<and> DB_fault db ''insert-v1alpha2'' Exec = None \<and>
        db' = putConfig ''v1alpha2'' s db)"
  by (auto simp: SetClusterConfig_def tryStep_ok_iff dbExec_ok dbStmt_ok)

lemma SetClusterConfig_error: "SetClusterConfig ext j new db = (db', Inl e) \<Longrightarrow> db' = db"
  by (auto simp: SetClusterConfig_def tryStep_def dbExec_def split: sum.splits option.splits)

lemma SetClusterAPIToken_ok_iff:
  "SetClusterAPIToken t db = (db', Inr u) \<longleftrightarrow>
     t \<noteq> [] \<and> DB_fault db ''insert-capi-token'' Prepare = None \<and> DB_fault db ''insert-capi-token'' Exec = None \<and>
     db' = putConfig ''token::capi'' t db"
  by (auto simp: SetClusterAPIToken_def tryStep_ok_iff dbExec_ok dbStmt_ok)

text \<open>Reading the configuration looks at one key only.\<close>

lemma GetClusterConfig_cong:
  assumes "DB_fault db' = DB_fault db"
    "map_of (DB_configs db') ''v1alpha2'' = map_of (DB_configs db) ''v1alpha2''"
  shows "GetClusterConfig j db' = GetClusterConfig j db"
  unfolding GetClusterConfig_def dbStmt_def assms ..

lemma GetClusterConfig_after_set:
  assumes "SetClusterConfig ext j new db = (db', Inr c)" "jsonOK j c"
  shows "GetClusterConfig j db' = Inr c"
proof -
  from assms obtain old s where o: "GetClusterConfig j db = Inr old" and s: "jsonMarshal j c = Inr s"
    and db': "db' = putConfig ''v1alpha2'' s db"
    by (auto simp: SetClusterConfig_ok_iff)
  have "DB_fault db ''select-v1alpha2'' Prepare = None" "DB_fault db ''select-v1alpha2'' Exec = None"
    using o by (auto simp: GetClusterConfig_def dbStmt_def split: option.splits)
  with s db' assms(2) show ?thesis
    by (auto simp: GetClusterConfig_def dbStmt_def jsonOK_def)
qed

section \<open>Identities and tokens\<close>

abbreviation identity :: "AuthToken \<Rightarrow> string \<times> string" where
  "identity r \<equiv> (AT_username r, AT_groups r)"

lemma groupsLoop_ok:
  "groupsLoop gs acc = Inr r \<longleftrightarrow> r = acc @ gs \<and> [] \<notin> set gs \<and> distinct gs \<and> set gs \<inter> set acc = {}"
  by (induction gs acc rule: groupsLoop.induct) auto

lemma groupsToString_ok:
  "groupsToString gs = Inr s \<longleftrightarrow> [] \<notin> set gs \<and> distinct gs \<and> s = joinWith (CHR '','') (sortStrings gs)"
proof (cases "[] \<notin> set gs \<and> distinct gs")
  case True
  then have "groupsLoop gs [] = Inr gs" by (simp add: groupsLoop_ok)
  with True show ?thesis by (auto simp: groupsToString_def)
next
  case False
  then obtain e where "groupsLoop gs [] = Inl e"
    by (cases "groupsLoop gs []") (auto simp: groupsLoop_ok)
  with False show ?thesis by (auto simp: groupsToString_def)
qed

text \<open>The groups of an identity are read back sorted, if no name has a comma in it.\<close>

lemma groupsToList_groupsToString:
  assumes "groupsToString gs = Inr s" "\<forall>g \<in> set gs. CHR '','' \<notin> set g"
  shows "groupsToList s = sortStrings gs"
proof (cases "gs = []")
  case True
  with assms(1) have "s = []" unfolding groupsToString_ok sortStrings_def by simp
  with True show ?thesis by (simp add: groupsToList_def sortStrings_def)
next
  case False
  have s: "s = joinWith (CHR '','') (sortStrings gs)" and ne: "[] \<notin> set gs"
    using assms(1) by (simp_all add: groupsToString_ok)
  have sp: "splitOn (CHR '','') s = sortStrings gs"
    unfolding s using False assms(2) by (intro splitOn_joinWith) auto
  moreover have "s \<noteq> []"
  proof
    assume "s = []"
    then have "sortStrings gs = [[]]" using sp by simp
    then have "set gs = {[]}" using sortStrings_set [of gs] by simp
    with ne show False by simp
  qed
  ultimately show ?thesis by (simp add: groupsToList_def)
qed

text \<open>What a successful lookup or creation does.\<close>

lemma GetOrCreateToken_ok:
  assumes "GetOrCreateToken random u gs db = (db', Inr t)"
  shows "\<exists>g. u \<noteq> [] \<and> groupsToString gs = Inr g \<and>
    ((\<exists>r. find (\<lambda>r. AT_username r = u \<and> AT_groups r = g) (DB_tokens db) = Some r \<and> t = AT_token r \<and> db' = db) \<or>
     ((DB_fault db ''select-by-username'' Exec \<noteq> None \<or> (u, g) \<notin> identity ` set (DB_tokens db)) \<and>
      (\<exists>b. random = Inr b \<and> t = ''token::'' @ hexEncode b) \<and>
      db' = db\<lparr>DB_tokens := DB_tokens db @ [\<lparr>AT_token = t, AT_username = u, AT_groups = g\<rparr>]\<rparr>))"
proof -
  from assms obtain g where u: "u \<noteq> []" and g: "groupsToString gs = Inr g"
    and p: "DB_fault db ''select-by-username'' Prepare = None"
    by (auto simp: GetOrCreateToken_def tryStep_ok_iff dbStmt_ok split: if_splits)
  let ?f = "if DB_fault db ''select-by-username'' Exec = None
              then find (\<lambda>r. AT_username r = u \<and> AT_groups r = g) (DB_tokens db) else None"
  show ?thesis
  proof (cases ?f)
    case None
    then have "DB_fault db ''select-by-username'' Exec \<noteq> None \<or> (u, g) \<notin> identity ` set (DB_tokens db)"
      by (auto simp: find_None_iff split: if_splits)
    moreover obtain b where "random = Inr b" "t = ''token::'' @ hexEncode b"
      "db' = db\<lparr>DB_tokens := DB_tokens db @ [\<lparr>AT_token = t, AT_username = u, AT_groups = g\<rparr>]\<rparr>"
      using assms None u g p
      by (auto simp: GetOrCreateToken_def tryStep_ok_iff dbStmt_ok dbExec_ok Let_def)
    ultimately show ?thesis using u g by blast
  next
    case (Some r)
    then have "find (\<lambda>r. AT_username r = u \<and> AT_groups r = g) (DB_tokens db) = Some r"
      by (simp split: if_splits)
    moreover have "t = AT_token r \<and> db' = db"
      using assms Some u g p by (auto simp: GetOrCreateToken_def tryStep_ok_iff dbStmt_ok)
    ultimately show ?thesis using u g by blast
  qed
qed

section \<open>The database as a state machine\<close>

text \<open>
  A step is a transaction that succeeds; every transaction that fails is rolled back. The
  configuration written by a step is one that the encoding reads back.
\<close>

inductive dbStep :: "extern \<Rightarrow> json \<Rightarrow> DB \<Rightarrow> DB \<Rightarrow> bool" for ext j where
  setConfig: "SetClusterConfig ext j new db = (db', Inr c) \<Longrightarrow> jsonOK j c \<Longrightarrow> dbStep ext j db db'"
| setCapiToken: "SetClusterAPIToken t db = (db', Inr u) \<Longrightarrow> dbStep ext j db db'"
| createToken: "GetOrCreateToken random un gs db = (db', Inr t) \<Longrightarrow> dbStep ext j db db'"
| deleteToken: "DeleteToken t db = (db', Inr u) \<Longrightarrow> dbStep ext j db db'"
| createWorkerToken: "GetOrCreateWorkerNodeToken random n expiry db = (db', Inr t) \<Longrightarrow> dbStep ext j db db'"
| deleteWorkerToken: "DeleteWorkerNodeToken t db = (db', Inr u) \<Longrightarrow> dbStep ext j db db'"
| setFeature: "SetFeatureStatus (fmtTime :: int \<Rightarrow> string) name status db = (db', Inr u) \<Longrightarrow> dbStep ext j db db'"

inductive_cases dbStepE: "dbStep ext j db db'"

lemma SetFeatureStatus_ok:
  "SetFeatureStatus fmtTime name status db = (db', Inr u) \<Longrightarrow> \<exists>r. db' = putFeature name r db"
  by (auto simp: SetFeatureStatus_def tryStep_ok_iff dbExec_ok dbStmt_ok)

lemma DeleteToken_ok:
  "DeleteToken t db = (db', Inr u) \<Longrightarrow>
     t \<noteq> [] \<and> db' = db\<lparr>DB_tokens := filter (\<lambda>r. AT_token r \<noteq> t) (DB_tokens db)\<rparr>"
  by (auto simp: DeleteToken_def tryStep_ok_iff dbExec_ok dbStmt_ok split: if_splits)

lemma GetOrCreateWorkerNodeToken_ok:
  "GetOrCreateWorkerNodeToken random n ex db = (db', Inr t) \<Longrightarrow>
     \<exists>b. random = Inr b \<and> t = ''worker::'' @ hexEncode b \<and>
       db' = db\<lparr>DB_workers := DB_workers db @ [\<lparr>WT_name = n, WT_token = t, WT_expiry = ex\<rparr>]\<rparr>"
  by (auto simp: GetOrCreateWorkerNodeToken_def tryStep_ok_iff dbExec_ok dbStmt_ok Let_def)

lemma DeleteWorkerNodeToken_ok:
  "DeleteWorkerNodeToken t db = (db', Inr u) \<Longrightarrow>
     db' = db\<lparr>DB_workers := filter (\<lambda>r. WT_token r \<noteq> t) (DB_workers db)\<rparr>"
  by (auto simp: DeleteWorkerNodeToken_def tryStep_ok_iff dbExec_ok dbStmt_ok)

text \<open>Only \<open>SetClusterConfig\<close> changes what \<open>GetClusterConfig\<close> returns, and no step changes the faults.\<close>

lemma dbStep_config:
  assumes "dbStep ext j db db'"
  shows "DB_fault db' = DB_fault db \<and>
    (GetClusterConfig j db' = GetClusterConfig j db \<or>
     (\<exists>old new c. GetClusterConfig j db = Inr old \<and> MergeClusterConfig ext old new = Inr c \<and>
        GetClusterConfig j db' = Inr c))"
  using assms
proof (cases rule: dbStep.cases)
  case (setConfig new c)
  obtain old s where "GetClusterConfig j db = Inr old" "MergeClusterConfig ext old new = Inr c"
    "db' = putConfig ''v1alpha2'' s db"
    using setConfig(1) unfolding SetClusterConfig_ok_iff by blast
  moreover have "GetClusterConfig j db' = Inr c"
    using setConfig by (rule GetClusterConfig_after_set)
  ultimately show ?thesis by auto
next
  case (setCapiToken t u)
  then show ?thesis by (auto simp: SetClusterAPIToken_ok_iff cfg.get_put_other intro!: GetClusterConfig_cong)
next
  case (createToken random un gs t)
  then show ?thesis by (auto dest!: GetOrCreateToken_ok intro!: GetClusterConfig_cong)
next
  case (deleteToken t u)
  then show ?thesis by (auto dest!: DeleteToken_ok intro!: GetClusterConfig_cong)
next
  case (createWorkerToken random n expiry t)
  then show ?thesis by (auto dest!: GetOrCreateWorkerNodeToken_ok intro!: GetClusterConfig_cong)
next
  case (deleteWorkerToken t u)
  then show ?thesis by (auto dest!: DeleteWorkerNodeToken_ok intro!: GetClusterConfig_cong)
next
  case (setFeature fmtTime name status u)
  then show ?thesis by (auto dest!: SetFeatureStatus_ok intro!: GetClusterConfig_cong)
qed

text \<open>What may change between two stored configurations.\<close>

definition protectedKept :: "ClusterConfig \<Rightarrow> ClusterConfig \<Rightarrow> bool" where
  "protectedKept c d \<longleftrightarrow>
     list_all2 keptIfSet (immutableStrings c) (immutableStrings d) \<and>
     list_all2 keptIfSet (immutableInts c) (immutableInts d) \<and>
     keptIfSet (Kubelet_ControlPlaneTaints (CC_Kubelet c)) (Kubelet_ControlPlaneTaints (CC_Kubelet d))"

lemma keptIfSet_trans: "list_all2 keptIfSet xs ys \<Longrightarrow> list_all2 keptIfSet ys zs \<Longrightarrow> list_all2 keptIfSet xs zs"
  by (rule list_all2_trans [of keptIfSet keptIfSet keptIfSet]) auto

lemma protectedKept_refl [simp]: "protectedKept c c"
  by (simp add: protectedKept_def list_all2_refl)

lemma protectedKept_trans: "protectedKept c d \<Longrightarrow> protectedKept d e \<Longrightarrow> protectedKept c e"
  unfolding protectedKept_def by (elim conjE, intro conjI, erule (1) keptIfSet_trans, erule (1) keptIfSet_trans, simp)

lemma MergeClusterConfig_protected:
  "MergeClusterConfig ext old new = Inr c \<Longrightarrow> protectedKept old c \<and> Validate ext c = ok"
  using mergeAllowed_immutable by (auto simp: MergeClusterConfig_char protectedKept_def)

text \<open>The stored configuration after a run, compared with the one before.\<close>

definition laterConfig :: "extern \<Rightarrow> json \<Rightarrow> DB \<Rightarrow> DB \<Rightarrow> bool" where
  "laterConfig ext j db db' \<longleftrightarrow> (\<forall>c. GetClusterConfig j db = Inr c \<longrightarrow>
     (\<exists>d. GetClusterConfig j db' = Inr d \<and> protectedKept c d \<and> (Validate ext c = ok \<longrightarrow> Validate ext d = ok)))"

interpretation dbs: stable_system "dbStep ext j" "\<lambda>_. True" "laterConfig ext j" for ext j
proof unfold_locales
  fix db db' assume "dbStep ext j db db'"
  from dbStep_config [OF this] have "laterConfig ext j db db'"
    unfolding laterConfig_def by (auto dest: MergeClusterConfig_protected)
  then show "True \<and> laterConfig ext j db db'" by simp
next
  fix a b c assume "laterConfig ext j a b" "laterConfig ext j b c"
  then show "laterConfig ext j a c" unfolding laterConfig_def by (metis protectedKept_trans)
qed (simp add: laterConfig_def)

text \<open>
  C5: along every sequence of successful transactions that starts from a stored valid
  configuration, the stored configuration can be read, is valid, and no certificate authority,
  key pair, datastore type, CIDR, port or control-plane taint that was set has changed.
\<close>

theorem database_config_invariant:
  assumes "(dbStep ext j)\<^sup>*\<^sup>* db db'" "GetClusterConfig j db = Inr c" "Validate ext c = ok"
  shows "\<exists>d. GetClusterConfig j db' = Inr d \<and> Validate ext d = ok \<and> protectedKept c d"
  using dbs.run [OF assms(1)] assms(2,3) unfolding laterConfig_def by blast

text \<open>
  \<open>SetClusterConfig\<close> stores the merge of the stored configuration and the change and
  returns it, later reads return it, and the ClusterAPI token is untouched; when it fails the
  database is unchanged.
\<close>

theorem SetClusterConfig_spec:
  assumes "\<forall>c. MergeClusterConfig ext old new = Inr c \<longrightarrow> jsonOK j c" "GetClusterConfig j db = Inr old" "noDbFaults db"
  shows "case SetClusterConfig ext j new db of
      (db', Inr c) \<Rightarrow> MergeClusterConfig ext old new = Inr c \<and> GetClusterConfig j db' = Inr c
        \<and> (\<forall>t. ValidateClusterAPIToken t db' = ValidateClusterAPIToken t db)
    | (db', Inl e) \<Rightarrow> db' = db \<and> (\<exists>e'. MergeClusterConfig ext old new = Inl e')"
proof (cases "MergeClusterConfig ext old new")
  case (Inl e)
  then show ?thesis using assms by (simp add: SetClusterConfig_def)
next
  case (Inr c)
  with assms(1) obtain s where s: "jsonMarshal j c = Inr s" "jsonOK j c" by (auto simp: jsonOK_def)
  then have eq: "SetClusterConfig ext j new db = (putConfig ''v1alpha2'' s db, Inr c)"
    using Inr assms by (simp add: SetClusterConfig_def)
  then have "GetClusterConfig j (putConfig ''v1alpha2'' s db) = Inr c"
    using s(2) by (rule GetClusterConfig_after_set)
  with Inr assms(3) show ?thesis
    by (simp add: eq ValidateClusterAPIToken_def noDbFaults_def dbStmt_def cfg.get_put_other)
qed

section \<open>Life of a token\<close>

text \<open>One row per token and per identity.\<close>

definition tokenInv :: "DB \<Rightarrow> bool" where
  "tokenInv db \<longleftrightarrow> distinct (map AT_token (DB_tokens db)) \<and> distinct (map identity (DB_tokens db))"

lemma tokenInv_append:
  "tokenInv (db\<lparr>DB_tokens := DB_tokens db @ [r]\<rparr>) \<longleftrightarrow>
     tokenInv db \<and> AT_token r \<notin> AT_token ` set (DB_tokens db) \<and> identity r \<notin> identity ` set (DB_tokens db)"
  by (auto simp: tokenInv_def)

lemma tokenInv_filter: "tokenInv db \<Longrightarrow> tokenInv (db\<lparr>DB_tokens := filter P (DB_tokens db)\<rparr>)"
  by (auto simp: tokenInv_def distinct_map intro: inj_on_subset)

lemma find_unique:
  assumes "distinct (map f rs)" "r \<in> set rs"
  shows "find (\<lambda>x. f x = f r) rs = Some r"
  using assms by (induction rs) (auto simp: image_iff)

lemma find_SomeD: "find P xs = Some x \<Longrightarrow> x \<in> set xs \<and> P x"
  by (induction xs) (auto split: if_splits)

lemma tokenInv_find_token:
  assumes "tokenInv db" "r \<in> set (DB_tokens db)"
  shows "find (\<lambda>x. AT_token x = AT_token r) (DB_tokens db) = Some r"
  using assms(1) by (intro find_unique assms(2)) (simp add: tokenInv_def)

lemma tokenInv_find_identity:
  assumes "tokenInv db" "r \<in> set (DB_tokens db)"
  shows "find (\<lambda>x. AT_username x = AT_username r \<and> AT_groups x = AT_groups r) (DB_tokens db) = Some r"
  using find_unique [of identity, OF _ assms(2)] assms(1) by (simp add: tokenInv_def)

text \<open>A successful call leaves a row with the token and the identity, and keeps the invariant.\<close>

lemma GetOrCreateToken_row:
  assumes "GetOrCreateToken random u gs db = (db', Inr t)" "noDbFaults db" "tokenInv db"
    "\<forall>b. random = Inr b \<longrightarrow> ''token::'' @ hexEncode b \<notin> AT_token ` set (DB_tokens db)"
  shows "\<exists>g. u \<noteq> [] \<and> groupsToString gs = Inr g \<and> noDbFaults db' \<and> tokenInv db' \<and>
    \<lparr>AT_token = t, AT_username = u, AT_groups = g\<rparr> \<in> set (DB_tokens db')"
proof -
  from GetOrCreateToken_ok [OF assms(1)] obtain g where g: "u \<noteq> []" "groupsToString gs = Inr g" and
    c: "(\<exists>r. find (\<lambda>r. AT_username r = u \<and> AT_groups r = g) (DB_tokens db) = Some r \<and> t = AT_token r \<and> db' = db) \<or>
     ((DB_fault db ''select-by-username'' Exec \<noteq> None \<or> (u, g) \<notin> identity ` set (DB_tokens db)) \<and>
      (\<exists>b. random = Inr b \<and> t = ''token::'' @ hexEncode b) \<and>
      db' = db\<lparr>DB_tokens := DB_tokens db @ [\<lparr>AT_token = t, AT_username = u, AT_groups = g\<rparr>]\<rparr>)"
    by blast
  from c have "noDbFaults db' \<and> tokenInv db' \<and> \<lparr>AT_token = t, AT_username = u, AT_groups = g\<rparr> \<in> set (DB_tokens db')"
  proof (elim disjE exE conjE)
    fix r
    assume f: "find (\<lambda>r. AT_username r = u \<and> AT_groups r = g) (DB_tokens db) = Some r" "t = AT_token r" "db' = db"
    from find_SomeD [OF f(1)] have r: "r \<in> set (DB_tokens db)" "AT_username r = u" "AT_groups r = g"
      by simp_all
    then have "r = \<lparr>AT_token = t, AT_username = u, AT_groups = g\<rparr>" using f(2) by simp
    with r(1) f(3) assms(2,3) show ?thesis by simp
  next
    assume "DB_fault db ''select-by-username'' Exec \<noteq> None"
    then show ?thesis using assms(2) by (simp add: noDbFaults_def)
  next
    fix b
    assume "(u, g) \<notin> identity ` set (DB_tokens db)" "random = Inr b" "t = ''token::'' @ hexEncode b"
      "db' = db\<lparr>DB_tokens := DB_tokens db @ [\<lparr>AT_token = t, AT_username = u, AT_groups = g\<rparr>]\<rparr>"
    then show ?thesis using assms by (simp add: tokenInv_append) (simp add: noDbFaults_def)
  qed
  with g show ?thesis by blast
qed


text \<open>
  A group name that joins the sorted groups of an identity with commas is the same
  identity: the request is answered with that identity's token.
\<close>

theorem groups_comma_collision:
  assumes "gs \<noteq> []" "[] \<notin> set gs" "distinct gs"
  shows "GetOrCreateToken random u [joinWith (CHR '','') (sortStrings gs)] db = GetOrCreateToken random u gs db"
proof -
  let ?g = "joinWith (CHR '','') (sortStrings gs)"
  have "?g \<noteq> []"
  proof (cases "sortStrings gs")
    case Nil
    with assms(1) show ?thesis by simp
  next
    case (Cons a list)
    then have "a \<in> set gs" using sortStrings_set [of gs] by (metis list.set_intros(1))
    with assms(2) have "a \<noteq> []" by blast
    with Cons show ?thesis by (cases list) simp_all
  qed
  then have "groupsToString [?g] = groupsToString gs"
    using assms by (simp add: groupsToString_def groupsLoop_ok [THEN iffD2] sortStrings_def)
  then show ?thesis by (simp add: GetOrCreateToken_def)
qed

section \<open>Life of a worker token\<close>

lemma find_append: "find P (xs @ ys) = (case find P xs of None \<Rightarrow> find P ys | Some x \<Rightarrow> Some x)"
  by (induction xs) auto

lemma find_None: "\<forall>x \<in> set xs. \<not> P x \<Longrightarrow> find P xs = None"
  by (auto simp: find_None_iff)

lemma find_filter: "(\<And>x. P x \<Longrightarrow> Q x) \<Longrightarrow> find P (filter Q xs) = find P xs"
  by (induction xs) auto

text \<open>
  Every call hands out a new worker token, also for a node that has one. The token is
  accepted for its node (for every node when it was created without a name) until it expires and
  not after; once deleted it is accepted for no node. Other tokens keep their answers.
\<close>

theorem worker_token_lifecycle:
  assumes "GetOrCreateWorkerNodeToken random n expiry db = (db', Inr t)" "noDbFaults db"
    "\<forall>b. random = Inr b \<longrightarrow> ''worker::'' @ hexEncode b \<notin> WT_token ` set (DB_workers db)"
  shows "length (DB_workers db') = Suc (length (DB_workers db))
    \<and> (\<forall>now n'. CheckWorkerNodeToken now n' t db' = Inr ((n = [] \<or> n' = n) \<and> now < expiry))
    \<and> (\<forall>now n'. CheckWorkerNodeToken now n' t (fst (DeleteWorkerNodeToken t db')) = Inr False)
    \<and> (\<forall>now n' t'. t' \<noteq> t \<longrightarrow> CheckWorkerNodeToken now n' t' (fst (DeleteWorkerNodeToken t db')) = CheckWorkerNodeToken now n' t' db
         \<and> CheckWorkerNodeToken now n' t' db' = CheckWorkerNodeToken now n' t' db)"
proof -
  obtain b where t: "random = Inr b" "t = ''worker::'' @ hexEncode b"
    and db': "db' = db\<lparr>DB_workers := DB_workers db @ [\<lparr>WT_name = n, WT_token = t, WT_expiry = expiry\<rparr>]\<rparr>"
    using GetOrCreateWorkerNodeToken_ok [OF assms(1)] by blast
  have fresh: "t \<notin> WT_token ` set (DB_workers db)"
    unfolding t(2) using assms(3) [rule_format, OF t(1)] .
  have nf: "noDbFaults db'" using assms(2) by (simp add: db' noDbFaults_def)
  have del: "fst (DeleteWorkerNodeToken t db') = db\<lparr>DB_workers := filter (\<lambda>r. WT_token r \<noteq> t) (DB_workers db)\<rparr>"
  proof -
    have "fst (DeleteWorkerNodeToken t db') = db'\<lparr>DB_workers := filter (\<lambda>r. WT_token r \<noteq> t) (DB_workers db')\<rparr>"
      using nf by (simp add: DeleteWorkerNodeToken_def)
    then show ?thesis by (simp add: db')
  qed
  have chk: "CheckWorkerNodeToken now n' t' d = Inr (case find (\<lambda>r. WT_token r = t') (DB_workers d) of
      Some r \<Rightarrow> (WT_name r = [] \<or> n' = WT_name r) \<and> now < WT_expiry r | None \<Rightarrow> False)"
    if "DB_fault d = DB_fault db" for now n' t' d
    using assms(2) that
    by (simp add: CheckWorkerNodeToken_def noDbFaults_def dbStmt_def split: option.split)
  have gone: "find (\<lambda>r. WT_token r = t) (DB_workers db) = None"
    using fresh by (auto simp: find_None_iff image_iff)
  have "CheckWorkerNodeToken now n' t db' = Inr ((n = [] \<or> n' = n) \<and> now < expiry)" for now n'
    by (simp add: chk db' find_append gone)
  moreover have "CheckWorkerNodeToken now n' t (fst (DeleteWorkerNodeToken t db')) = Inr False" for now n'
    by (simp add: chk del find_None)
  moreover have "CheckWorkerNodeToken now n' t' (fst (DeleteWorkerNodeToken t db')) = CheckWorkerNodeToken now n' t' db"
    "CheckWorkerNodeToken now n' t' db' = CheckWorkerNodeToken now n' t' db" if "t' \<noteq> t" for now n' t'
    using that by (simp add: chk del find_filter) (simp add: chk db' find_append that [symmetric] split: option.split)
  ultimately show ?thesis by (simp add: db')
qed

section \<open>Feature statuses\<close>

text \<open>What the row loop computes when no row fails.\<close>

abbreviation rowStatus :: "(string \<Rightarrow> 't res) \<Rightarrow> 't \<Rightarrow> FeatureRow \<Rightarrow> 't FeatureStatus" where
  "rowStatus parseTime zeroTime r \<equiv>
     \<lparr>FS_Enabled = FR_enabled r, FS_Message = FR_message r, FS_Version = FR_version r,
      FS_UpdatedAt = (case parseTime (FR_timestamp r) of Inl _ \<Rightarrow> zeroTime | Inr t \<Rightarrow> t)\<rparr>"

lemma featureRowsLoop_noFault:
  assumes "\<And>ph. fault ph = None" "goodMap rows"
  shows "\<exists>m. featureRowsLoop fault p z i rows err acc = Inr m \<and>
    map_of m = map_of acc ++ (map_option (rowStatus p z) \<circ> map_of rows)"
  using assms(2)
proof (induction rows arbitrary: i err acc)
  case Nil
  then show ?case by (simp add: assms(1) comp_def map_add_def)
next
  case (Cons row rows)
  obtain name r where row: "row = (name, r)" by (cases row)
  let ?acc = "AList.update name (rowStatus p z r) acc"
  obtain m where "featureRowsLoop fault p z (Suc i) rows
      (case p (FR_timestamp r) of Inl e \<Rightarrow> Some e | Inr _ \<Rightarrow> None) ?acc = Inr m"
    "map_of m = map_of ?acc ++ (map_option (rowStatus p z) \<circ> map_of rows)"
    using Cons by fastforce
  moreover have "map_of ?acc ++ (map_option (rowStatus p z) \<circ> map_of rows) =
      map_of acc ++ (map_option (rowStatus p z) \<circ> map_of (row # rows))"
  proof (rule ext)
    have none: "map_of rows name = None" using Cons.prems by (simp add: row map_of_eq_None_iff)
    show "(map_of ?acc ++ (map_option (rowStatus p z) \<circ> map_of rows)) k =
        (map_of acc ++ (map_option (rowStatus p z) \<circ> map_of (row # rows))) k" for k
      by (cases "k = name") (simp_all add: row map_add_def update_conv' none split: option.split)
  qed
  moreover have "featureRowsLoop fault p z i (row # rows) err acc =
      featureRowsLoop fault p z (Suc i) rows (case p (FR_timestamp r) of Inl e \<Rightarrow> Some e | Inr _ \<Rightarrow> None) ?acc"
    by (simp add: row assms(1))
  ultimately show ?case by metis
qed

text \<open>
  After a feature status is stored, reading the statuses returns it for that feature, up
  to the textual form of its time, and every other feature as before.
\<close>

theorem feature_status_roundtrip:
  assumes "noDbFaults db" "goodMap (DB_features db)" "parseTime (fmtTime (FS_UpdatedAt status)) = Inr (FS_UpdatedAt status)"
  shows "\<exists>db' m m'. SetFeatureStatus fmtTime name status db = (db', ok)
    \<and> GetFeatureStatuses parseTime zeroTime db = Inr m \<and> GetFeatureStatuses parseTime zeroTime db' = Inr m'
    \<and> map_of m' = (map_of m)(name \<mapsto> status) \<and> goodMap (DB_features db')"
proof -
  let ?r = "\<lparr>FR_message = FS_Message status, FR_version = FS_Version status,
          FR_timestamp = fmtTime (FS_UpdatedAt status), FR_enabled = FS_Enabled status\<rparr>"
  let ?db = "putFeature name ?r db"
  have good: "goodMap (DB_features ?db)" using assms(2) by (simp add: putFeature_def distinct_update)
  have get: "\<exists>m. GetFeatureStatuses parseTime zeroTime d = Inr m \<and>
      map_of m = map_option (rowStatus parseTime zeroTime) \<circ> map_of (DB_features d)"
    if "DB_fault d = DB_fault db" "goodMap (DB_features d)" for d
    using featureRowsLoop_noFault [where fault = "\<lambda>_. None" and p = parseTime and z = zeroTime and i = 0 and err = None and acc = "[]",
        OF _ that(2)] assms(1) that(1)
    by (simp add: GetFeatureStatuses_def noDbFaults_def dbStmt_def)
  obtain m where m: "GetFeatureStatuses parseTime zeroTime db = Inr m"
    "map_of m = map_option (rowStatus parseTime zeroTime) \<circ> map_of (DB_features db)"
    using get [OF refl assms(2)] by blast
  obtain m' where m': "GetFeatureStatuses parseTime zeroTime ?db = Inr m'"
    "map_of m' = map_option (rowStatus parseTime zeroTime) \<circ> map_of (DB_features ?db)"
    using get [OF put_fault(2) good] by blast
  have "map_of m' = (map_of m)(name \<mapsto> status)"
    using assms(3) by (auto simp: m(2) m'(2) fun_eq_iff feat.get_put)
  moreover have "SetFeatureStatus fmtTime name status db = (?db, ok)"
    using assms(1) by (simp add: SetFeatureStatus_def)
  ultimately show ?thesis using m(1) m'(1) good by blast
qed

section \<open>A sample database\<close>

definition sampleJson :: json where
  "sampleJson = \<lparr>jsonMarshal = (\<lambda>_. Inr ''{}''), jsonUnmarshal = (\<lambda>_. Inr sampleConfig)\<rparr>"

definition sampleDB :: DB where
  "sampleDB = \<lparr>DB_configs = [(''v1alpha2'', ''{}'')], DB_tokens = [], DB_workers = [],
     DB_features = [(''dns'', \<lparr>FR_message = ''enabled'', FR_version = ''1.0'', FR_timestamp = ''0'', FR_enabled = True\<rparr>)],
     DB_fault = (\<lambda>_ _. None)\<rparr>"

lemma sampleDB_facts:
  "noDbFaults sampleDB" "tokenInv sampleDB" "GetClusterConfig sampleJson sampleDB = Inr sampleConfig"
  "jsonOK sampleJson sampleConfig" "goodMap (DB_features sampleDB)"
  by (simp_all add: sampleDB_def noDbFaults_def tokenInv_def GetClusterConfig_def dbStmt_def sampleJson_def jsonOK_def)

lemma sampleDB_set:
  "SetClusterConfig sampleExtern sampleJson emptyClusterConfig sampleDB = (sampleDB, Inr sampleConfig)"
  by (simp add: SetClusterConfig_def sampleDB_facts sample_merge)
    (simp add: sampleJson_def sampleDB_def putConfig_def dbStmt_def dbExec_def)

theorem database_config_invariant_witness:
  "\<exists>db' d. SetClusterAPIToken ''secret'' sampleDB = (db', ok) \<and> GetClusterConfig sampleJson db' = Inr d
    \<and> Validate sampleExtern d = ok \<and> protectedKept sampleConfig d"
proof -
  obtain db' where t: "SetClusterAPIToken ''secret'' sampleDB = (db', ok)"
    using sampleDB_facts by (simp add: SetClusterAPIToken_def)
  have "(dbStep sampleExtern sampleJson)\<^sup>*\<^sup>* sampleDB db'"
    using setConfig [OF sampleDB_set sampleDB_facts(4)] setCapiToken [OF t]
    by (meson converse_rtranclp_into_rtranclp rtranclp.rtrancl_refl)
  from database_config_invariant [OF this sampleDB_facts(3) sampleConfig_valid] t show ?thesis by blast
qed

theorem SetClusterConfig_spec_witness:
  "MergeClusterConfig sampleExtern sampleConfig emptyClusterConfig = Inr sampleConfig
   \<and> GetClusterConfig sampleJson sampleDB = Inr sampleConfig"
proof -
  have "\<forall>c. MergeClusterConfig sampleExtern sampleConfig emptyClusterConfig = Inr c \<longrightarrow> jsonOK sampleJson c"
    using sampleDB_facts(4) by (simp add: sample_merge)
  from SetClusterConfig_spec [OF this sampleDB_facts(3,1)] show ?thesis by (simp add: sampleDB_set)
qed


theorem groups_comma_collision_witness:
  "GetOrCreateToken (Inr [1]) ''u'' [''a,b''] sampleDB = GetOrCreateToken (Inr [1]) ''u'' [''a'', ''b''] sampleDB"
proof -
  have "sortStrings [''a'', ''b''] = [''a'', ''b'']" by code_simp
  then show ?thesis using groups_comma_collision [of "[''a'', ''b'']"] by simp
qed

theorem worker_token_lifecycle_witness:
  "\<exists>db'. GetOrCreateWorkerNodeToken (Inr [7]) ''w1'' 100 sampleDB = (db', Inr ''worker::07'')
    \<and> CheckWorkerNodeToken 50 ''w1'' ''worker::07'' db' = Inr True
    \<and> CheckWorkerNodeToken 50 ''w2'' ''worker::07'' db' = Inr False
    \<and> CheckWorkerNodeToken 100 ''w1'' ''worker::07'' db' = Inr False"
proof -
  have hex: "hexEncode [7] = ''07''"
    by (simp add: hexEncode_def bytesHex_def hexDigit_def digitChar_def char_of_def bit_0)
  have "\<exists>db'. GetOrCreateWorkerNodeToken (Inr [7]) ''w1'' 100 sampleDB = (db', Inr ''worker::07'')"
    by (simp add: GetOrCreateWorkerNodeToken_def sampleDB_facts hex Let_def)
  then obtain db' where g: "GetOrCreateWorkerNodeToken (Inr [7]) ''w1'' 100 sampleDB = (db', Inr ''worker::07'')"
    by blast
  have "\<forall>b. Inr [7] = Inr b \<longrightarrow> ''worker::'' @ hexEncode b \<notin> WT_token ` set (DB_workers sampleDB)"
    by (simp add: sampleDB_def)
  from worker_token_lifecycle [OF g sampleDB_facts(1) this] g show ?thesis by auto
qed

theorem feature_status_roundtrip_witness:
  "\<exists>db' m'. SetFeatureStatus (\<lambda>t. [t]) ''network'' \<lparr>FS_Enabled = False, FS_Message = ''off'', FS_Version = ''2'', FS_UpdatedAt = CHR ''7''\<rparr> sampleDB = (db', ok)
    \<and> GetFeatureStatuses (\<lambda>s. Inr (hd s)) (CHR ''0'') db' = Inr m'
    \<and> map_of m' ''network'' = Some \<lparr>FS_Enabled = False, FS_Message = ''off'', FS_Version = ''2'', FS_UpdatedAt = CHR ''7''\<rparr>"
  using feature_status_roundtrip [OF sampleDB_facts(1,5), of "\<lambda>s. Inr (hd s)" "\<lambda>t. [t]"
      "\<lparr>FS_Enabled = False, FS_Message = ''off'', FS_Version = ''2'', FS_UpdatedAt = CHR ''7''\<rparr>" "''network''" "CHR ''0''"]
  by auto

end
