(* ===== verification/Host.thy ===== *)
theory Host
  imports Prelude
begin

text \<open>
  The machine a node runs on, as the program sees it: files, and the commands it runs
  (\<open>pkg/utils/file.go\<close>, \<open>pkg/utils/control/retry.go\<close>), the paths and the service commands of
  the snap (\<open>pkg/snap/snap.go\<close>, \<open>pkg/snap/service.go\<close>), the lists of services, the worker mark
  and the dqlite failure domain (\<open>pkg/snap/util\<close>).

  A file has contents, an owner and permission bits. The operating system may refuse an
  operation on a path: \<open>H_fault\<close> says with which error. A file that is not there is the error
  \<open>ErrNotExist\<close>. A command is a list of words; \<open>H_cmds\<close> is the log of the commands run, and
  \<open>H_cmdFault\<close> gives the error of the command at a position of that log, so that a command that
  is tried again may succeed.
\<close>

section \<open>Files\<close>

record FileNode =
  F_data :: string
  F_uid :: int
  F_gid :: int
  F_mode :: "32 word"

datatype fileOp =
    OpRead | OpStat | OpCreate | OpWrite | OpRemove | OpChown | OpChmod
  | OpCreateTemp | OpTempWrite | OpTempChmod | OpTempClose | OpRename

record Host =
  H_files :: "string \<rightharpoonup> FileNode"
  H_fault :: "fileOp \<Rightarrow> string \<Rightarrow> error option"
  H_cmds :: "string list list"
  H_cmdFault :: "nat \<Rightarrow> string list \<Rightarrow> error option"
  H_uid :: int
  H_gid :: int

text \<open>The octal modes of the source.\<close>

abbreviation perm400 :: "32 word" where "perm400 \<equiv> 0x100"
abbreviation perm600 :: "32 word" where "perm600 \<equiv> 0x180"
abbreviation perm644 :: "32 word" where "perm644 \<equiv> 0x1A4"
abbreviation perm666 :: "32 word" where "perm666 \<equiv> 0x1B6"
abbreviation perm700 :: "32 word" where "perm700 \<equiv> 0x1C0"

definition ErrNotExist :: error where
  "ErrNotExist = Errorf ''file does not exist'' []"

abbreviation IsNotExist :: "error \<Rightarrow> bool" where
  "IsNotExist e \<equiv> e = ErrNotExist"

definition setFile :: "string \<Rightarrow> FileNode option \<Rightarrow> Host \<Rightarrow> Host" where
  "setFile p n h = h\<lparr>H_files := (H_files h)(p := n)\<rparr>"

lemma setFile_simps [simp]:
  "H_files (setFile p n h) = (H_files h)(p := n)"
  "H_fault (setFile p n h) = H_fault h" "H_cmds (setFile p n h) = H_cmds h"
  "H_cmdFault (setFile p n h) = H_cmdFault h"
  "H_uid (setFile p n h) = H_uid h" "H_gid (setFile p n h) = H_gid h"
  by (simp_all add: setFile_def)

definition ReadFile :: "Host \<Rightarrow> string \<Rightarrow> string res" where
  "ReadFile h p =
     (case H_fault h OpRead p of Some e \<Rightarrow> Inl e
      | None \<Rightarrow> (case H_files h p of None \<Rightarrow> Inl ErrNotExist | Some n \<Rightarrow> Inr (F_data n)))"

text \<open>\<open>os.Stat\<close>, of which the program only uses the error.\<close>

definition osStat :: "Host \<Rightarrow> string \<Rightarrow> unit res" where
  "osStat h p =
     (case H_fault h OpStat p of Some e \<Rightarrow> Inl e
      | None \<Rightarrow> (if H_files h p = None then Inl ErrNotExist else ok))"

definition newNode :: "Host \<Rightarrow> string \<Rightarrow> 32 word \<Rightarrow> FileNode" where
  "newNode h data m = \<lparr>F_data = data, F_uid = H_uid h, F_gid = H_gid h, F_mode = m\<rparr>"

text \<open>
  \<open>os.WriteFile\<close> and \<open>os.Create\<close>: the contents of an existing file are replaced and its owner
  and mode kept; a new file belongs to the process. (The process runs with umask 0.)
\<close>

definition osWriteFile :: "Host \<Rightarrow> string \<Rightarrow> string \<Rightarrow> 32 word \<Rightarrow> (Host, unit) step" where
  "osWriteFile h p data m =
     (case H_fault h OpWrite p of Some e \<Rightarrow> (h, Inl e)
      | None \<Rightarrow>
          (setFile p (Some (case H_files h p of None \<Rightarrow> newNode h data m
                            | Some n \<Rightarrow> n\<lparr>F_data := data\<rparr>)) h, ok))"

definition osCreate :: "Host \<Rightarrow> string \<Rightarrow> (Host, unit) step" where
  "osCreate h p =
     (case H_fault h OpCreate p of Some e \<Rightarrow> (h, Inl e)
      | None \<Rightarrow>
          (setFile p (Some (case H_files h p of None \<Rightarrow> newNode h [] perm666
                            | Some n \<Rightarrow> n\<lparr>F_data := []\<rparr>)) h, ok))"

definition osRemove :: "Host \<Rightarrow> string \<Rightarrow> (Host, unit) step" where
  "osRemove h p =
     (case H_fault h OpRemove p of Some e \<Rightarrow> (h, Inl e)
      | None \<Rightarrow> (if H_files h p = None then (h, Inl ErrNotExist) else (setFile p None h, ok)))"

definition osChown :: "Host \<Rightarrow> string \<Rightarrow> int \<Rightarrow> int \<Rightarrow> (Host, unit) step" where
  "osChown h p uid gid =
     (case H_fault h OpChown p of Some e \<Rightarrow> (h, Inl e)
      | None \<Rightarrow> (case H_files h p of None \<Rightarrow> (h, Inl ErrNotExist)
                 | Some n \<Rightarrow> (setFile p (Some (n\<lparr>F_uid := uid, F_gid := gid\<rparr>)) h, ok)))"

definition osChmod :: "Host \<Rightarrow> string \<Rightarrow> 32 word \<Rightarrow> (Host, unit) step" where
  "osChmod h p m =
     (case H_fault h OpChmod p of Some e \<Rightarrow> (h, Inl e)
      | None \<Rightarrow> (case H_files h p of None \<Rightarrow> (h, Inl ErrNotExist)
                 | Some n \<Rightarrow> (setFile p (Some (n\<lparr>F_mode := m\<rparr>)) h, ok)))"

text \<open>
  \<open>utils.WriteFile\<close>: a temporary file is created in the directory, written, given its mode,
  closed and renamed. The temporary file has a name no other file has and the deferred
  \<open>os.Remove\<close> deletes it on every error path, so only the rename shows in the state.
\<close>

definition WriteFile :: "Host \<Rightarrow> string \<Rightarrow> string \<Rightarrow> 32 word \<Rightarrow> (Host, unit) step" where
  "WriteFile h p data perm =
     (case H_fault h OpCreateTemp p of
        Some e \<Rightarrow> (h, Inl (Wrapf ''failed to create temp file: %w'' [] e))
      | None \<Rightarrow> (case H_fault h OpTempWrite p of
        Some e \<Rightarrow> (h, Inl (Wrapf ''failed to write to temp file: %w'' [] e))
      | None \<Rightarrow> (case H_fault h OpTempChmod p of
        Some e \<Rightarrow> (h, Inl (Wrapf ''failed to set permissions on temp file: %w'' [] e))
      | None \<Rightarrow> (case H_fault h OpTempClose p of
        Some e \<Rightarrow> (h, Inl (Wrapf ''failed to close temp file: %w'' [] e))
      | None \<Rightarrow> (case H_fault h OpRename p of
        Some e \<Rightarrow> (h, Inl (Wrapf ''failed to rename temp file to target file: %w'' [] e))
      | None \<Rightarrow> (setFile p (Some (newNode h data perm)) h, ok))))))"

definition FileExists :: "Host \<Rightarrow> string \<Rightarrow> bool res" where
  "FileExists h p =
     (case osStat h p of
        Inl e \<Rightarrow> if \<not> IsNotExist e then Inl (Wrapf ''failed to stat: %w'' [] e) else Inr False
      | Inr _ \<Rightarrow> Inr True)"

text \<open>
  \<open>utils.CopyFile\<close> creates (and so empties) the destination before it opens the source.
\<close>

definition CopyFile :: "Host \<Rightarrow> string \<Rightarrow> string \<Rightarrow> (Host, unit) step" where
  "CopyFile h srcFile dstFile =
     tryStep (osCreate h dstFile) ''failed to create destination file: %w'' []
       (\<lambda>h _. case ReadFile h srcFile of
          Inl e \<Rightarrow> (h, Inl (Wrapf ''failed to read source file: %w'' [] e))
        | Inr data \<Rightarrow>
            tryStep (osWriteFile h dstFile data perm666) ''failed to copy file: %w'' []
              (\<lambda>h _. (h, ok)))"

text \<open>A host on which no file operation is refused.\<close>

definition noFaults :: "Host \<Rightarrow> bool" where
  "noFaults h \<longleftrightarrow> H_fault h = (\<lambda>_ _. None)"

lemma noFaultsD [simp]: "noFaults h \<Longrightarrow> H_fault h o' p = None"
  by (simp add: noFaults_def)

lemma noFaults_setFile [simp]: "noFaults (setFile p n h) = noFaults h"
  by (simp add: noFaults_def)

text \<open>Atomicity of \<open>WriteFile\<close>: on an error nothing changed, otherwise the whole file is new.\<close>

lemma WriteFile_cases:
  obtains (fail) e where "WriteFile h p d m = (h, Inl e)"
  | (written) "WriteFile h p d m = (setFile p (Some (newNode h d m)) h, ok)"
  by (cases "H_fault h OpCreateTemp p"; cases "H_fault h OpTempWrite p";
      cases "H_fault h OpTempChmod p"; cases "H_fault h OpTempClose p";
      cases "H_fault h OpRename p") (simp_all add: WriteFile_def)

lemma WriteFile_okD:
  "WriteFile h p d m = (h', Inr u) \<Longrightarrow> h' = setFile p (Some (newNode h d m)) h"
  using WriteFile_cases [where h = h and p = p and d = d and m = m] by (metis Inl_Inr_False fst_conv prod.inject)

lemma WriteFile_errD: "WriteFile h p d m = (h', Inl e) \<Longrightarrow> h' = h"
  using WriteFile_cases [where h = h and p = p and d = d and m = m] by (metis Inl_Inr_False fst_conv prod.inject)

lemma WriteFile_noFaults [simp]:
  "noFaults h \<Longrightarrow> WriteFile h p d m = (setFile p (Some (newNode h d m)) h, ok)"
  by (simp add: WriteFile_def)

lemma WriteFile_other: "p' \<noteq> p \<Longrightarrow> H_files (fst (WriteFile h p d m)) p' = H_files h p'"
  by (rule WriteFile_cases [where h = h and p = p and d = d and m = m]) simp_all

lemma ReadFile_setFile [simp]:
  "H_fault h OpRead p = None \<Longrightarrow> ReadFile (setFile p (Some n) h) p = Inr (F_data n)"
  by (simp add: ReadFile_def)

lemma ReadFile_setFile_other [simp]:
  "p' \<noteq> p \<Longrightarrow> ReadFile (setFile p n h) p' = ReadFile h p'"
  by (simp add: ReadFile_def split: option.split)

lemma F_data_newNode [simp]: "F_data (newNode h d m) = d"
  by (simp add: newNode_def)

section \<open>Commands and the snap\<close>

definition runCommand :: "Host \<Rightarrow> string list \<Rightarrow> (Host, unit) step" where
  "runCommand h cmd =
     (h\<lparr>H_cmds := H_cmds h @ [cmd]\<rparr>,
      (case H_cmdFault h (length (H_cmds h)) cmd of None \<Rightarrow> ok | Some e \<Rightarrow> Inl e))"

record Snap =
  snapDir :: string
  snapCommonDir :: string
  snapInstanceName :: string
  containerdBaseDir :: string
  Hostname :: string
  OnLXD :: "bool res"

text \<open>\<open>NewSnap\<close>; whether the snap is strictly confined is read from \<open>meta/snap.yaml\<close> elsewhere.\<close>

definition NewSnap ::
  "string \<Rightarrow> string \<Rightarrow> string \<Rightarrow> string \<Rightarrow> bool \<Rightarrow> string \<Rightarrow> bool res \<Rightarrow> Snap"
where
  "NewSnap instanceName dir commonDir baseDir strict hostname onLXD =
     \<lparr>snapDir = dir, snapCommonDir = commonDir, snapInstanceName = instanceName,
      containerdBaseDir =
        (if baseDir = [] then (if strict then commonDir else ''/'') else baseDir),
      Hostname = hostname, OnLXD = onLXD\<rparr>"

definition snapUID :: int where "snapUID = 0"
definition snapGID :: int where "snapGID = 0"

definition ContainerdConfigDir :: "Snap \<Rightarrow> string" where
  "ContainerdConfigDir s = filepathJoin [containerdBaseDir s, ''etc'', ''containerd'']"

definition ContainerdRootDir :: "Snap \<Rightarrow> string" where
  "ContainerdRootDir s = filepathJoin [containerdBaseDir s, ''var'', ''lib'', ''containerd'']"

definition ContainerdSocketDir :: "Snap \<Rightarrow> string" where
  "ContainerdSocketDir s = filepathJoin [containerdBaseDir s, ''run'', ''containerd'']"

definition ContainerdSocketPath :: "Snap \<Rightarrow> string" where
  "ContainerdSocketPath s = filepathJoin [containerdBaseDir s, ''run'', ''containerd'', ''containerd.sock'']"

definition ContainerdStateDir :: "Snap \<Rightarrow> string" where
  "ContainerdStateDir s = filepathJoin [containerdBaseDir s, ''run'', ''containerd'']"

definition CNIBinDir :: string where "CNIBinDir = ''/opt/cni/bin''"

definition KubernetesConfigDir :: string where "KubernetesConfigDir = ''/etc/kubernetes''"

definition snapKubernetesPKIDir :: string where "snapKubernetesPKIDir = ''/etc/kubernetes/pki''"

definition snapEtcdPKIDir :: string where "snapEtcdPKIDir = ''/etc/kubernetes/pki/etcd''"

definition KubeletRootDir :: string where "KubeletRootDir = ''/var/lib/kubelet''"

definition K8sdStateDir :: "Snap \<Rightarrow> string" where
  "K8sdStateDir s = filepathJoin [snapCommonDir s, ''var'', ''lib'', ''k8sd'', ''state'']"

definition EtcdDir :: "Snap \<Rightarrow> string" where
  "EtcdDir s = filepathJoin [snapCommonDir s, ''var'', ''lib'', ''etcd'']"

definition ServiceArgumentsDir :: "Snap \<Rightarrow> string" where
  "ServiceArgumentsDir s = filepathJoin [snapCommonDir s, ''args'']"

definition ServiceExtraConfigDir :: "Snap \<Rightarrow> string" where
  "ServiceExtraConfigDir s = filepathJoin [snapCommonDir s, ''args'', ''conf.d'']"

definition LockFilesDir :: "Snap \<Rightarrow> string" where
  "LockFilesDir s = filepathJoin [snapCommonDir s, ''lock'']"

definition serviceName :: "string \<Rightarrow> string" where
  "serviceName name =
     (if HasPrefix name ''k8s.'' \<or> name = ''k8s'' then name else ''k8s.'' @ name)"

definition buildServiceCommand :: "string \<Rightarrow> string list \<Rightarrow> string list \<Rightarrow> string list" where
  "buildServiceCommand action names extraSnapArgs =
     [''snap'', action] @ map serviceName names @ extraSnapArgs"

definition StartServices :: "Host \<Rightarrow> string list \<Rightarrow> string list \<Rightarrow> (Host, unit) step" where
  "StartServices h names extraSnapArgs =
     runCommand h (buildServiceCommand ''start'' names (''--enable'' # extraSnapArgs))"

definition StopServices :: "Host \<Rightarrow> string list \<Rightarrow> string list \<Rightarrow> (Host, unit) step" where
  "StopServices h names extraSnapArgs =
     runCommand h (buildServiceCommand ''stop'' names (''--disable'' # extraSnapArgs))"

definition RestartServices :: "Host \<Rightarrow> string list \<Rightarrow> string list \<Rightarrow> (Host, unit) step" where
  "RestartServices h names extraSnapArgs =
     runCommand h (buildServiceCommand ''restart'' names extraSnapArgs)"

lemma runCommand_files [simp]: "H_files (fst (runCommand h cmd)) = H_files h"
  by (simp add: runCommand_def)

lemma runCommand_log [simp]: "H_cmds (fst (runCommand h cmd)) = H_cmds h @ [cmd]"
  by (simp add: runCommand_def)

lemma serviceName_idem: "serviceName (serviceName n) = serviceName n"
  by (simp add: serviceName_def HasPrefix_def)

section \<open>Lists of services\<close>

definition workerK8sServices :: "string list" where
  "workerK8sServices = [''containerd'', ''k8s-apiserver-proxy'', ''kubelet'', ''kube-proxy'']"

definition controlPlaneK8sServices :: "string list" where
  "controlPlaneK8sServices =
     [''containerd'', ''kube-controller-manager'', ''kube-proxy'', ''kube-scheduler'', ''kubelet'',
      ''kube-apiserver'']"

definition k8sServices :: "string list" where
  "k8sServices =
     [''containerd'', ''kube-apiserver'', ''kube-controller-manager'', ''kube-scheduler'',
      ''kube-proxy'', ''kubelet'', ''etcd'', ''k8s-apiserver-proxy'']"

text \<open>\<open>removeElement\<close> drops the first occurrence.\<close>

definition removeElement :: "string list \<Rightarrow> string \<Rightarrow> string list" where
  "removeElement xs v = remove1 v xs"

definition RestartControlPlaneServices :: "Host \<Rightarrow> bool \<Rightarrow> string list \<Rightarrow> (Host, unit) step" where
  "RestartControlPlaneServices h kubeProxyEnabled extraSnapArgs =
     (let svc = (if \<not> kubeProxyEnabled then removeElement controlPlaneK8sServices ''kube-proxy''
                 else controlPlaneK8sServices)
      in tryStep (RestartServices h svc extraSnapArgs) ''failed to restart service %v: %w'' svc
           (\<lambda>h _. (h, ok)))"

definition StartWorkerServices :: "Host \<Rightarrow> bool \<Rightarrow> string list \<Rightarrow> (Host, unit) step" where
  "StartWorkerServices h kubeProxyEnabled extraSnapArgs =
     (let svc = (if \<not> kubeProxyEnabled then removeElement workerK8sServices ''kube-proxy''
                 else workerK8sServices)
      in tryStep (StartServices h svc extraSnapArgs) ''failed to start service %v: %w'' svc
           (\<lambda>h _. (h, ok)))"

definition StartControlPlaneServices :: "Host \<Rightarrow> bool \<Rightarrow> string list \<Rightarrow> (Host, unit) step" where
  "StartControlPlaneServices h kubeProxyEnabled extraSnapArgs =
     (let svc = (if \<not> kubeProxyEnabled then removeElement controlPlaneK8sServices ''kube-proxy''
                 else controlPlaneK8sServices)
      in tryStep (StartServices h svc extraSnapArgs) ''failed to start service %v: %w'' svc
           (\<lambda>h _. (h, ok)))"

definition StartEtcdServices :: "Host \<Rightarrow> string list \<Rightarrow> (Host, unit) step" where
  "StartEtcdServices h extraSnapArgs =
     tryStep (StartServices h [''etcd''] extraSnapArgs) ''failed to start service %v: %w'' [''etcd'']
       (\<lambda>h _. (h, ok))"

definition StopWorkerServices :: "Host \<Rightarrow> string list \<Rightarrow> (Host, unit) step" where
  "StopWorkerServices h extraSnapArgs =
     tryStep (StopServices h workerK8sServices extraSnapArgs)
       ''failed to stop service %v: %w'' workerK8sServices (\<lambda>h _. (h, ok))"

definition StopControlPlaneServices :: "Host \<Rightarrow> string list \<Rightarrow> (Host, unit) step" where
  "StopControlPlaneServices h extraSnapArgs =
     tryStep (StopServices h controlPlaneK8sServices extraSnapArgs)
       ''failed to stop service %v: %w'' controlPlaneK8sServices (\<lambda>h _. (h, ok))"

definition StopEtcdServices :: "Host \<Rightarrow> string list \<Rightarrow> (Host, unit) step" where
  "StopEtcdServices h extraSnapArgs =
     tryStep (StopServices h [''etcd''] extraSnapArgs) ''failed to stop service %v: %w'' [''etcd'']
       (\<lambda>h _. (h, ok))"

definition StopK8sServices :: "Host \<Rightarrow> string list \<Rightarrow> (Host, unit) step" where
  "StopK8sServices h extraSnapArgs =
     tryStep (StopServices h k8sServices extraSnapArgs)
       ''failed to stop service %v: %w'' k8sServices (\<lambda>h _. (h, ok))"

section \<open>Retries\<close>

text \<open>
  \<open>control.RetryFor\<close>: the function runs until it succeeds, at most \<open>retryCount\<close> times. After
  a failure the loop waits; \<open>ctxDone i\<close> says that the context ends during the wait after
  attempt \<open>i\<close>.
\<close>

definition ctxCanceled :: error where
  "ctxCanceled = Errorf ''context canceled'' []"

fun retryLoop ::
  "(nat \<Rightarrow> bool) \<Rightarrow> nat \<Rightarrow> nat \<Rightarrow> ('s \<Rightarrow> ('s, unit) step) \<Rightarrow> unit res \<Rightarrow> 's \<Rightarrow> ('s, unit) step"
where
  "retryLoop ctxDone i 0 f err s = (s, err)"
| "retryLoop ctxDone i (Suc n) f err s =
     (case f s of
        (s', Inl e) \<Rightarrow>
          if ctxDone i then (s', Inl ctxCanceled) else retryLoop ctxDone (Suc i) n f (Inl e) s'
      | (s', Inr _) \<Rightarrow> (s', ok))"

definition RetryFor ::
  "(nat \<Rightarrow> bool) \<Rightarrow> nat \<Rightarrow> ('s \<Rightarrow> ('s, unit) step) \<Rightarrow> 's \<Rightarrow> ('s, unit) step"
where
  "RetryFor ctxDone retryCount f s = retryLoop ctxDone 0 retryCount f ok s"

text \<open>The states the attempts pass through when every one of them fails.\<close>

primrec attempt :: "('s \<Rightarrow> ('s, unit) step) \<Rightarrow> 's \<Rightarrow> nat \<Rightarrow> ('s, unit) step" where
  "attempt f s 0 = f s"
| "attempt f s (Suc k) = attempt f (fst (f s)) k"

lemma retryLoop_ok_iff:
  "retryLoop cd i n f (Inl e) s = (s', ok) \<longleftrightarrow>
     (\<exists>k < n. attempt f s k = (s', ok) \<and>
        (\<forall>j < k. \<not> is_ok (snd (attempt f s j)) \<and> \<not> cd (i + j)))"
proof (induction n arbitrary: i s e)
  case (Suc n)
  have ex: "(\<exists>k < Suc n. P k) \<longleftrightarrow> P 0 \<or> (\<exists>k < n. P (Suc k))" for P :: "nat \<Rightarrow> bool"
    by (metis less_Suc_eq_0_disj)
  have all: "(\<forall>j < Suc k. Q j) \<longleftrightarrow> Q 0 \<and> (\<forall>j < k. Q (Suc j))" for Q :: "nat \<Rightarrow> bool" and k
    by (metis less_Suc_eq_0_disj)
  obtain t r where f: "f s = (t, r)" by (cases "f s")
  show ?case
    unfolding ex all by (cases r) (auto simp: f Suc.IH)
qed simp

lemma RetryFor_ok_iff:
  "0 < n \<Longrightarrow> RetryFor cd n f s = (s', ok) \<longleftrightarrow>
     (\<exists>k < n. attempt f s k = (s', ok) \<and>
        (\<forall>j < k. \<not> is_ok (snd (attempt f s j)) \<and> \<not> cd j))"
  using retryLoop_ok_iff [of cd 0 n f undefined s s']
  by (cases n) (simp_all add: RetryFor_def)

lemma retryLoop_invariant:
  assumes "\<And>s. I s \<Longrightarrow> I (fst (f s))" "I s" "retryLoop cd i n f r s = (s', r')"
  shows "I s'"
  using assms(2,3)
proof (induction n arbitrary: i r s)
  case (Suc n)
  show ?case using Suc.prems Suc.IH assms(1) [OF Suc.prems(1)] by (auto split: prod.splits sum.splits if_splits)
qed simp

section \<open>Worker mark\<close>

definition workerLock :: "Snap \<Rightarrow> string" where
  "workerLock s = pathJoin (LockFilesDir s) ''worker''"

definition IsWorker :: "Snap \<Rightarrow> Host \<Rightarrow> bool res" where
  "IsWorker s h = FileExists h (workerLock s)"

definition MarkAsWorkerNode :: "Snap \<Rightarrow> bool \<Rightarrow> Host \<Rightarrow> (Host, unit) step" where
  "MarkAsWorkerNode s mark h =
     (let fname = workerLock s in
      if mark then
        tryStep (osCreate h fname) ''failed to mark node as worker: %w'' [] (\<lambda>h _.
        tryStep (osChown h fname snapUID snapGID) ''failed to chown %s: %w'' [fname] (\<lambda>h _.
        tryStep (osChmod h fname perm600) ''failed to chmod %s: %w'' [fname] (\<lambda>h _. (h, ok))))
      else
        tryStep (osRemove h fname) ''failed to unmark node as worker: %w'' [] (\<lambda>h _. (h, ok)))"

section \<open>Failure domain of the database\<close>

text \<open>
  \<open>strconv.ParseUint(s, 10, 64)\<close>: digits only, and a value below \<open>2^64\<close>. The hash of a label is
  an argument: its first eight bytes are read with the least significant byte first.
\<close>

definition ParseUint64 :: "string \<Rightarrow> 64 word option" where
  "ParseUint64 s =
     (if s = [] \<or> \<not> list_all isDigit s \<or> 2 ^ 64 \<le> decVal s then None
      else Some (of_nat (decVal s)))"

definition littleEndianUint64 :: "8 word list \<Rightarrow> 64 word" where
  "littleEndianUint64 bs = foldr (\<lambda>b acc. ucast b + 256 * acc) (take 8 bs) 0"

definition NodeLabelToDqliteFailureDomain :: "(string \<Rightarrow> 8 word list) \<Rightarrow> string \<Rightarrow> 64 word" where
  "NodeLabelToDqliteFailureDomain sha256 label = littleEndianUint64 (sha256 label)"

definition GetDqliteFailureDomainFile :: "string \<Rightarrow> string" where
  "GetDqliteFailureDomainFile dbStateDir = pathJoin dbStateDir ''failure-domain''"

definition GetDqliteFailureDomain :: "string \<Rightarrow> Host \<Rightarrow> 64 word res" where
  "GetDqliteFailureDomain dbStateDir h =
     (let file = GetDqliteFailureDomainFile dbStateDir in
      case FileExists h file of
        Inl e \<Rightarrow> Inl (Wrapf ''unable to check if file exists %s: %w'' [file] e)
      | Inr fileExists \<Rightarrow>
          if \<not> fileExists then Inr 0
          else (case ReadFile h file of
              Inl e \<Rightarrow> Inl (Wrapf ''failed to read failure-domain file %s: %w'' [file] e)
            | Inr contents \<Rightarrow>
                (let str = hd (splitOn (CHR 0x0A) contents) in
                 case ParseUint64 str of
                   None \<Rightarrow> Inl (Errorf ''failed to parse failure domain %s: %w'' [str])
                 | Some d \<Rightarrow> Inr d)))"

definition UpdateDqliteFailureDomain :: "64 word \<Rightarrow> string \<Rightarrow> Host \<Rightarrow> (Host, bool) step" where
  "UpdateDqliteFailureDomain failureDomain dbStateDir h =
     (let str = natToString (unat failureDomain);
          file = GetDqliteFailureDomainFile dbStateDir
      in case FileExists h file of
           Inl e \<Rightarrow> (h, Inl (Wrapf ''unable to check if file exists %s: %w'' [file] e))
         | Inr fileExists \<Rightarrow>
             if \<not> fileExists then
               (let modified = (failureDomain \<noteq> 0) in
                tryStep (osWriteFile h file str perm644)
                  ''failed to update failure-domain file %s: %w'' [file] (\<lambda>h _. (h, Inr modified)))
             else (case GetDqliteFailureDomain dbStateDir h of
                 Inl e \<Rightarrow> (h, Inl e)
               | Inr existing \<Rightarrow>
                   if existing = failureDomain then (h, Inr False)
                   else tryStep (osWriteFile h file str perm644)
                     ''failed to update failure-domain file %s: %w'' [file] (\<lambda>h _. (h, Inr True))))"

lemma natToString_no_newline: "CHR 0x0A \<notin> set (natToString n)"
  using natToString_digits [of n] by (auto simp: isDigit_def)

lemma ParseUint64_natToString [simp]: "ParseUint64 (natToString (unat (w :: 64 word))) = Some w"
proof -
  have "unat w < 2 ^ 64" using unsigned_less [of w] by simp
  moreover have "list_all isDigit (natToString (unat w))"
    using natToString_digits by (simp add: list_all_iff)
  ultimately show ?thesis by (simp add: ParseUint64_def decVal_natToString)
qed

end
