(* ===== verification/PKI.thy ===== *)
theory PKI
  imports Host CIDR
begin

text \<open>
  Certificates: loading, generating, signing and checking them (\<open>pkg/utils/pki\<close>), and the
  completion of the certificates of a control plane node, of a worker and of etcd
  (\<open>pkg/k8sd/pki\<close>).

  The primitives of the packages \<open>crypto/rsa\<close>, \<open>crypto/x509\<close> and \<open>encoding/pem\<close> are the fields
  of the record \<open>crypto\<close>. The primitives that draw random numbers take the number of draws
  made before; the program state of a completion is that number and the certificates. A
  theorem that relies on a primitive says so in a hypothesis (\<open>pemNonEmpty\<close>: an encoded PEM
  block is not the empty string).
\<close>

section \<open>Certificates and primitives\<close>

record Name =
  CommonName :: string
  Organization :: "string list"

datatype ExtKeyUsage = ExtKeyUsageClientAuth | ExtKeyUsageServerAuth

record Certificate =
  SerialNumber :: nat
  Subject :: Name
  NotBefore :: int
  NotAfter :: int
  IPAddresses :: "IP list"
  DNSNames :: "string list"
  IsCA :: bool
  KeyUsage :: "32 word"
  ExtKeyUsages :: "ExtKeyUsage list"
  BasicConstraintsValid :: bool

record 'key crypto =
  randInt :: "nat \<Rightarrow> nat res"
  rsaGenerateKey :: "nat \<Rightarrow> int \<Rightarrow> 'key res"
  pemEncode :: "string \<Rightarrow> string \<Rightarrow> string option"
  pemDecode :: "string \<Rightarrow> (string \<times> string) option"
  MarshalPKCS1PrivateKey :: "'key \<Rightarrow> string"
  MarshalPKIXPublicKey :: "'key \<Rightarrow> string res"
  CreateCertificate :: "nat \<Rightarrow> Certificate \<Rightarrow> Certificate \<Rightarrow> 'key \<Rightarrow> 'key \<Rightarrow> string res"
  ParseCertificate :: "string \<Rightarrow> Certificate res"
  ParsePKCS1PrivateKey :: "string \<Rightarrow> 'key res"
  ParsePKCS8PrivateKey :: "string \<Rightarrow> 'key option res"
  AppendCertsFromPEM :: "string \<Rightarrow> bool"
  certVerify :: "Certificate \<Rightarrow> string option \<Rightarrow> unit res"
  VerifyHostname :: "Certificate \<Rightarrow> string \<Rightarrow> unit res"
  timeNow :: int

definition pemNonEmpty :: "'key crypto \<Rightarrow> bool" where
  "pemNonEmpty x \<longleftrightarrow> (\<forall>t b s. pemEncode x t b = Some s \<longrightarrow> s \<noteq> [])"

section \<open>Loading\<close>

definition LoadRSAPrivateKey :: "'key crypto \<Rightarrow> string \<Rightarrow> 'key res" where
  "LoadRSAPrivateKey x keyPEM =
     (case pemDecode x keyPEM of
        None \<Rightarrow> Inl (Errorf ''failed to parse PEM block'' [])
      | Some (typ, bytes) \<Rightarrow>
          if typ = ''RSA PRIVATE KEY'' then
            (case ParsePKCS1PrivateKey x bytes of
               Inl e \<Rightarrow> Inl (Wrapf ''failed to parse RSA private key: %w'' [] e)
             | Inr key \<Rightarrow> Inr key)
          else if typ = ''PRIVATE KEY'' then
            (case ParsePKCS8PrivateKey x bytes of
               Inl e \<Rightarrow> Inl (Wrapf ''failed to parse private key: %w'' [] e)
             | Inr None \<Rightarrow> Inl (Errorf ''not an RSA private key'' [])
             | Inr (Some key) \<Rightarrow> Inr key)
          else Inl (Errorf ''unknown private key block type %q'' [typ]))"

definition LoadCertificate ::
  "'key crypto \<Rightarrow> string \<Rightarrow> string \<Rightarrow> (Certificate \<times> 'key option) res"
where
  "LoadCertificate x certPEM keyPEM =
     (case pemDecode x certPEM of
        None \<Rightarrow> Inl (Errorf ''failed to parse certificate PEM'' [])
      | Some (_, bytes) \<Rightarrow>
          (case ParseCertificate x bytes of
             Inl e \<Rightarrow> Inl (Wrapf ''failed to parse certificate: %w'' [] e)
           | Inr cert \<Rightarrow>
               if keyPEM = [] then Inr (cert, None)
               else (case LoadRSAPrivateKey x keyPEM of
                       Inl e \<Rightarrow> Inl (Wrapf ''failed to load RSA private key: %w'' [] e)
                     | Inr key \<Rightarrow> Inr (cert, Some key))))"

definition LoadCertificatePairFromDir ::
  "'key crypto \<Rightarrow> Host \<Rightarrow> string \<Rightarrow> string \<Rightarrow> (Certificate \<times> 'key option) res"
where
  "LoadCertificatePairFromDir x h baseDir name =
     (case ReadFile h (pathJoin baseDir (name @ ''.crt'')) of
        Inl e \<Rightarrow> Inl (Wrapf ''failed to read %s.crt: %w'' [name] e)
      | Inr certBytes \<Rightarrow>
          (case ReadFile h (pathJoin baseDir (name @ ''.key'')) of
             Inl e \<Rightarrow> Inl (Wrapf ''failed to read %s.key: %w'' [name] e)
           | Inr keyBytes \<Rightarrow>
               (case LoadCertificate x certBytes keyBytes of
                  Inl e \<Rightarrow> Inl (Wrapf ''failed to parse %s certificate: %w'' [name] e)
                | Inr p \<Rightarrow> Inr p)))"

section \<open>Generating and signing\<close>

text \<open>The key usages of \<open>x509\<close> are bits.\<close>

definition KeyUsageDigitalSignature :: "32 word" where "KeyUsageDigitalSignature = 1"
definition KeyUsageKeyEncipherment :: "32 word" where "KeyUsageKeyEncipherment = 4"
definition KeyUsageDataEncipherment :: "32 word" where "KeyUsageDataEncipherment = 8"
definition KeyUsageCertSign :: "32 word" where "KeyUsageCertSign = 32"

definition GenerateCertificate ::
  "'key crypto \<Rightarrow> Name \<Rightarrow> int \<Rightarrow> int \<Rightarrow> bool \<Rightarrow> string list \<Rightarrow> IP list \<Rightarrow> nat \<Rightarrow> (nat, Certificate) step"
where
  "GenerateCertificate x subject notBefore notAfter ca dnsSANs ipSANs n =
     tryStep (Suc n, randInt x n) ''failed to generate serial number for certificate template: %w'' []
       (\<lambda>n serial. (n, Inr
         \<lparr>SerialNumber = serial, Subject = subject, NotBefore = notBefore, NotAfter = notAfter,
          IPAddresses = ipSANs, DNSNames = dnsSANs, IsCA = ca,
          KeyUsage = (if ca then or KeyUsageDigitalSignature KeyUsageCertSign
            else or (or KeyUsageKeyEncipherment KeyUsageDataEncipherment) KeyUsageDigitalSignature),
          ExtKeyUsages = [ExtKeyUsageClientAuth, ExtKeyUsageServerAuth], BasicConstraintsValid = True\<rparr>))"

definition encodeKeyPEM :: "'key crypto \<Rightarrow> 'key \<Rightarrow> string res" where
  "encodeKeyPEM x key =
     (case pemEncode x ''RSA PRIVATE KEY'' (MarshalPKCS1PrivateKey x key) of
        None \<Rightarrow> Inl (Errorf ''failed to encode private key PEM'' []) | Some s \<Rightarrow> Inr s)"

definition encodeCertPEM :: "'key crypto \<Rightarrow> string \<Rightarrow> string res" where
  "encodeCertPEM x der =
     (case pemEncode x ''CERTIFICATE'' der of
        None \<Rightarrow> Inl (Errorf ''failed to encode certificate PEM'' []) | Some s \<Rightarrow> Inr s)"

definition GenerateSelfSignedCA ::
  "'key crypto \<Rightarrow> Name \<Rightarrow> int \<Rightarrow> int \<Rightarrow> int \<Rightarrow> nat \<Rightarrow> (nat, string \<times> string) step"
where
  "GenerateSelfSignedCA x subject notBefore notAfter bits n =
     tryStep (GenerateCertificate x subject notBefore notAfter True [] [] n)
       ''failed to generate certificate: %w'' [] (\<lambda>n cert.
     tryStep (Suc n, rsaGenerateKey x n bits) ''failed to generate RSA private key: %w'' [] (\<lambda>n key.
     tryPass (n, encodeKeyPEM x key) (\<lambda>n keyPEM.
     tryStep (Suc n, CreateCertificate x n cert cert key key) ''failed to self-sign certificate: %w'' []
       (\<lambda>n der.
     tryPass (n, encodeCertPEM x der) (\<lambda>n crtPEM. (n, Inr (crtPEM, keyPEM)))))))"

text \<open>
  \<open>SignCertificate\<close> is called with the key of the parent; the branch for a nil key pair, in
  which the certificate signs itself with the new key, is \<open>priv = None\<close>.
\<close>

definition SignCertificate ::
  "'key crypto \<Rightarrow> Certificate \<Rightarrow> int \<Rightarrow> Certificate \<Rightarrow> 'key option \<Rightarrow> nat \<Rightarrow> (nat, string \<times> string) step"
where
  "SignCertificate x certificate bits parent priv n =
     tryStep (Suc n, rsaGenerateKey x n bits) ''failed to generate RSA private key: %w'' [] (\<lambda>n key.
     tryPass (n, encodeKeyPEM x key) (\<lambda>n keyPEM.
     tryStep (Suc n, CreateCertificate x n certificate parent key (case priv of None \<Rightarrow> key | Some p \<Rightarrow> p))
       ''failed to sign certificate: %w'' [] (\<lambda>n der.
     tryPass (n, encodeCertPEM x der) (\<lambda>n crtPEM. (n, Inr (crtPEM, keyPEM))))))"

definition GenerateRSAKey :: "'key crypto \<Rightarrow> int \<Rightarrow> nat \<Rightarrow> (nat, string \<times> string) step" where
  "GenerateRSAKey x bits n =
     tryStep (Suc n, rsaGenerateKey x n bits) ''failed to generate RSA private key: %w'' [] (\<lambda>n priv.
     tryPass (n, encodeKeyPEM x priv) (\<lambda>n privPEM.
     tryStep (n, MarshalPKIXPublicKey x priv) ''failed to encode RSA public key: %w'' [] (\<lambda>n pubBytes.
       (n, case pemEncode x ''PUBLIC KEY'' pubBytes of
             None \<Rightarrow> Inl (Errorf ''failed to encode public key PEM'' [])
           | Some pubPEM \<Rightarrow> Inr (privPEM, pubPEM)))))"

section \<open>Checking\<close>

record CertCheck =
  CN :: string
  Check_O :: "string list"
  DNSSANs :: "string list"
  CaPEM :: string
  AllowSelfSigned :: bool

definition noCheck :: CertCheck where
  "noCheck = \<lparr>CN = [], Check_O = [], DNSSANs = [], CaPEM = [], AllowSelfSigned = False\<rparr>"

definition ValidateCert :: "'key crypto \<Rightarrow> CertCheck \<Rightarrow> Certificate \<Rightarrow> unit res" where
  "ValidateCert x check cert =
     (if CN check \<noteq> [] \<and> CN check \<noteq> CommonName (Subject cert)
      then Inl (Errorf ''invalid certificate CN, expected: %s, actual: %s '' [CN check, CommonName (Subject cert)])
      else (case each (\<lambda>o'. if o' \<in> set (Organization (Subject cert)) then ok
                  else Inl (Errorf ''missing cert organization: %s, actual: %v'' [o'])) (Check_O check) of
        Inl e \<Rightarrow> Inl e
      | Inr _ \<Rightarrow>
        if timeNow x < NotBefore cert
        then Inl (Errorf ''invalid certificate, not valid before: %v, current time: %v'' [])
        else if timeNow x > NotAfter cert
        then Inl (Errorf ''certificate expired since: %v, current time: %v'' [])
        else if \<not> AllowSelfSigned check \<and> CaPEM check \<noteq> [] \<and> \<not> AppendCertsFromPEM x (CaPEM check)
        then Inl (Errorf ''invalid CA certificate'' [])
        else (case (if AllowSelfSigned check then ok
                    else certVerify x cert (if CaPEM check \<noteq> [] then Some (CaPEM check) else None)) of
          Inl e \<Rightarrow> Inl (Wrapf ''certificate validation failure: %w'' [] e)
        | Inr _ \<Rightarrow>
            each (\<lambda>d. case VerifyHostname x cert d of
                Inl e \<Rightarrow> Inl (Wrapf ''certificate dns name (%s) validation failure: %w, allowed dns names: %v'' [d] e)
              | Inr _ \<Rightarrow> ok) (DNSSANs check))))"

definition ValidateKeypair :: "'key crypto \<Rightarrow> CertCheck \<Rightarrow> string \<Rightarrow> string \<Rightarrow> unit res" where
  "ValidateKeypair x check certPEM keyPEM =
     (case LoadCertificate x certPEM keyPEM of
        Inl e \<Rightarrow> Inl (Wrapf ''failed to parse certificate: %w'' [] e)
      | Inr (cert, _) \<Rightarrow> ValidateCert x check cert)"

section \<open>Control plane certificates\<close>

text \<open>
  \<open>ControlPlanePKI\<close>. An absent certificate or key is the empty string, as in the source. Times
  are seconds.
\<close>

record ControlPlanePKI =
  allowSelfSignedCA :: bool
  includeMachineAddressSANs :: bool
  pki_hostname :: string
  ipSANs :: "IP list"
  dnsSANs :: "string list"
  notBefore :: int
  notAfter :: int
  CACert :: string
  CAKey :: string
  ClientCACert :: string
  ClientCAKey :: string
  FrontProxyCACert :: string
  FrontProxyCAKey :: string
  FrontProxyClientCert :: string
  FrontProxyClientKey :: string
  ServiceAccountKey :: string
  APIServerCert :: string
  APIServerKey :: string
  KubeletCert :: string
  KubeletKey :: string
  AdminClientCert :: string
  AdminClientKey :: string
  KubeControllerManagerClientCert :: string
  KubeControllerManagerClientKey :: string
  KubeSchedulerClientCert :: string
  KubeSchedulerClientKey :: string
  KubeProxyClientCert :: string
  KubeProxyClientKey :: string
  KubeletClientCert :: string
  KubeletClientKey :: string
  APIServerKubeletClientCert :: string
  APIServerKubeletClientKey :: string
  K8sdPublicKey :: string
  K8sdPrivateKey :: string

text \<open>A CA pair: generated if both parts are missing and that is allowed, otherwise checked.\<close>

definition completeCA ::
  "'key crypto \<Rightarrow> bool \<Rightarrow> int \<Rightarrow> int \<Rightarrow> string \<Rightarrow> string \<Rightarrow> string \<Rightarrow> string \<Rightarrow> string \<times> string \<Rightarrow> nat
   \<Rightarrow> (nat, string \<times> string) step"
where
  "completeCA x allow nb na cn msgMissing msgGenerate msgCheck = (\<lambda>(cert, key) n.
     if cert = [] \<and> key = [] then
       (if \<not> allow then (n, Inl (Errorf msgMissing []))
        else tryStep (GenerateSelfSignedCA x \<lparr>CommonName = cn, Organization = []\<rparr> nb na 2048 n)
               msgGenerate [] (\<lambda>n p. (n, Inr p)))
     else tryStep (n, ValidateKeypair x (noCheck\<lparr>AllowSelfSigned := True\<rparr>) cert key) msgCheck []
            (\<lambda>n _. (n, Inr (cert, key))))"

text \<open>A certificate signed by a CA.\<close>

definition signLeaf ::
  "'key crypto \<Rightarrow> int \<Rightarrow> int \<Rightarrow> Name \<Rightarrow> string list \<Rightarrow> IP list \<Rightarrow> int \<Rightarrow> Certificate \<Rightarrow> 'key \<Rightarrow>
   string \<Rightarrow> string \<Rightarrow> nat \<Rightarrow> (nat, string \<times> string) step"
where
  "signLeaf x nb na subject dns ips bits caCert caKey msgGenerate msgSign n =
     tryStep (GenerateCertificate x subject nb na False dns ips n) msgGenerate [] (\<lambda>n template.
     tryStep (SignCertificate x template bits caCert (Some caKey) n) msgSign [] (\<lambda>n p. (n, Inr p)))"

definition machineIPs :: "string list res \<Rightarrow> bool \<Rightarrow> IP list res" where
  "machineIPs interfaceAddrs includeAddrs =
     (if includeAddrs then
        (case interfaceAddrs of
           Inl e \<Rightarrow> Inl (Wrapf ''failed to retrieve machine addresses: %w'' [] e)
         | Inr addresses \<Rightarrow>
             Inr (List.map_filter (\<lambda>a. case ParseCIDR a of None \<Rightarrow> None | Some (ip, _) \<Rightarrow> Some ip) addresses))
      else Inr [the (ParseIP ''127.0.0.1''), the (ParseIP ''::1'')])"

definition checkKeysHaveCerts :: "ControlPlanePKI \<Rightarrow> unit res" where
  "checkKeysHaveCerts c =
     (if CACert c = [] \<and> CAKey c \<noteq> [] then
        Inl (Errorf ''kubernetes CA key is set without a certificate, fail to prevent causing issues'' [])
      else if ClientCACert c = [] \<and> ClientCAKey c \<noteq> [] then
        Inl (Errorf ''kubernetes CA client key is set without a certificate, fail to prevent causing issues'' [])
      else if FrontProxyCACert c = [] \<and> FrontProxyCAKey c \<noteq> [] then
        Inl (Errorf ''front-proxy CA key is set without a certificate, fail to prevent causing issues'' [])
      else ok)"

definition completeClusterCA :: "'key crypto \<Rightarrow> ControlPlanePKI \<Rightarrow> nat \<Rightarrow> (nat, ControlPlanePKI) step" where
  "completeClusterCA x c n =
     tryPass (completeCA x (allowSelfSignedCA c) (notBefore c) (notAfter c) ''kubernetes-ca''
         ''kubernetes CA not specified and generating self-signed CA not allowed''
         ''failed to generate kubernetes CA: %w''
         ''kubernetes CA certificate validation failure: %w'' (CACert c, CAKey c) n)
       (\<lambda>n (cert, key). (n, Inr (c\<lparr>CACert := cert, CAKey := key\<rparr>)))"

definition completeClientCA :: "'key crypto \<Rightarrow> ControlPlanePKI \<Rightarrow> nat \<Rightarrow> (nat, ControlPlanePKI) step" where
  "completeClientCA x c n =
     tryPass (completeCA x (allowSelfSignedCA c) (notBefore c) (notAfter c) ''kubernetes-ca-client''
         ''kubernetes client CA not specified and generating self-signed CA not allowed''
         ''failed to generate kubernetes client CA: %w''
         ''kubernetes client CA certificate validation failure: %w'' (ClientCACert c, ClientCAKey c) n)
       (\<lambda>n (cert, key). (n, Inr (c\<lparr>ClientCACert := cert, ClientCAKey := key\<rparr>)))"

definition completeFrontProxyCA :: "'key crypto \<Rightarrow> ControlPlanePKI \<Rightarrow> nat \<Rightarrow> (nat, ControlPlanePKI) step" where
  "completeFrontProxyCA x c n =
     tryPass (completeCA x (allowSelfSignedCA c) (notBefore c) (notAfter c) ''front-proxy-ca''
         ''front-proxy CA not specified and generating self-signed CA not allowed''
         ''failed to generate front-proxy CA: %w''
         ''kubernetes front-proxy CA certificate validation failure: %w''
         (FrontProxyCACert c, FrontProxyCAKey c) n)
       (\<lambda>n (cert, key). (n, Inr (c\<lparr>FrontProxyCACert := cert, FrontProxyCAKey := key\<rparr>)))"

definition completeFrontProxyClient ::
  "'key crypto \<Rightarrow> ControlPlanePKI \<Rightarrow> nat \<Rightarrow> (nat, ControlPlanePKI) step"
where
  "completeFrontProxyClient x c n =
     (if FrontProxyClientCert c = [] \<or> FrontProxyClientKey c = [] then
        (case LoadCertificate x (FrontProxyCACert c) (FrontProxyCAKey c) of
           Inl e \<Rightarrow> (n, Inl (Wrapf ''failed to parse front proxy CA: %w'' [] e))
         | Inr (_, None) \<Rightarrow>
             (n, Inl (Errorf ''using an external front proxy CA without providing the front-proxy-client certificate is not possible'' []))
         | Inr (caCert, Some caKey) \<Rightarrow>
             tryPass (signLeaf x (notBefore c) (notAfter c)
                 \<lparr>CommonName = ''front-proxy-client'', Organization = []\<rparr> [] [] 2048 caCert caKey
                 ''failed to generate front-proxy-client certificate: %w''
                 ''failed to sign front-proxy-client certificate: %w'' n)
               (\<lambda>n (cert, key). (n, Inr (c\<lparr>FrontProxyClientCert := cert, FrontProxyClientKey := key\<rparr>))))
      else tryStep (n, ValidateKeypair x (noCheck\<lparr>CaPEM := FrontProxyCACert c\<rparr>)
               (FrontProxyClientCert c) (FrontProxyClientKey c))
             ''kubernetes front-proxy client certificate validation failure: %w'' [] (\<lambda>n _. (n, Inr c)))"

definition completeServiceAccountKey ::
  "'key crypto \<Rightarrow> ControlPlanePKI \<Rightarrow> nat \<Rightarrow> (nat, ControlPlanePKI) step"
where
  "completeServiceAccountKey x c n =
     (if ServiceAccountKey c = [] then
        (if \<not> allowSelfSignedCA c then
           (n, Inl (Errorf ''service account signing key not specified and generating new key is not allowed'' []))
         else tryStep (GenerateRSAKey x 2048 n) ''failed to generate service account key: %w'' []
                (\<lambda>n (key, _). (n, Inr (c\<lparr>ServiceAccountKey := key\<rparr>))))
      else (n, Inr c))"

text \<open>
  A certificate of the node: signed by the CA if a part is missing, otherwise checked.
\<close>

definition completeLeaf ::
  "'key crypto \<Rightarrow> ControlPlanePKI \<Rightarrow> Name \<Rightarrow> string list \<Rightarrow> IP list \<Rightarrow> Certificate \<times> 'key option \<Rightarrow>
   string \<Rightarrow> string \<Rightarrow> string \<Rightarrow> CertCheck \<Rightarrow> string \<Rightarrow> string \<times> string \<Rightarrow> nat \<Rightarrow> (nat, string \<times> string) step"
where
  "completeLeaf x c subject dns ips ca msgNoKey msgGenerate msgSign check msgCheck = (\<lambda>(cert, key) n.
     if cert = [] \<or> key = [] then
       (case ca of
          (_, None) \<Rightarrow> (n, Inl (Errorf msgNoKey []))
        | (caCert, Some caKey) \<Rightarrow>
            signLeaf x (notBefore c) (notAfter c) subject dns ips 2048 caCert caKey msgGenerate msgSign n)
     else tryStep (n, ValidateKeypair x check cert key) msgCheck [] (\<lambda>n _. (n, Inr (cert, key))))"

definition completeKubelet ::
  "'key crypto \<Rightarrow> IP list \<Rightarrow> Certificate \<times> 'key option \<Rightarrow> ControlPlanePKI \<Rightarrow> nat \<Rightarrow> (nat, ControlPlanePKI) step"
where
  "completeKubelet x ips serverCA c n =
     tryPass (completeLeaf x c
         \<lparr>CommonName = ''system:node:'' @ pki_hostname c, Organization = [''system:nodes'']\<rparr>
         (dnsSANs c @ [pki_hostname c]) (ipSANs c @ ips) serverCA
         ''using an external kubernetes CA without providing the kubelet certificate is not possible''
         ''failed to generate kubelet certificate: %w'' ''failed to sign kubelet certificate: %w''
         (noCheck\<lparr>CaPEM := CACert c, DNSSANs := [pki_hostname c]\<rparr>)
         ''kubelet certificate validation failure: %w'' (KubeletCert c, KubeletKey c) n)
       (\<lambda>n (cert, key). (n, Inr (c\<lparr>KubeletCert := cert, KubeletKey := key\<rparr>)))"

definition completeAPIServerKubeletClient ::
  "'key crypto \<Rightarrow> Certificate \<times> 'key option \<Rightarrow> ControlPlanePKI \<Rightarrow> nat \<Rightarrow> (nat, ControlPlanePKI) step"
where
  "completeAPIServerKubeletClient x clientCA c n =
     tryPass (completeLeaf x c
         \<lparr>CommonName = ''apiserver-kubelet-client'', Organization = [''system:masters'']\<rparr> [] [] clientCA
         ''using an external kubernetes CA without providing the apiserver-kubelet-client certificate is not possible''
         ''failed to generate apiserver-kubelet-client certificate: %w''
         ''failed to sign apiserver-kubelet-client certificate: %w''
         (noCheck\<lparr>CaPEM := ClientCACert c\<rparr>)
         ''apiserver-kubelet-client certificate validation failure: %w''
         (APIServerKubeletClientCert c, APIServerKubeletClientKey c) n)
       (\<lambda>n (cert, key). (n, Inr (c\<lparr>APIServerKubeletClientCert := cert, APIServerKubeletClientKey := key\<rparr>)))"

definition completeAPIServer ::
  "'key crypto \<Rightarrow> IP list \<Rightarrow> Certificate \<times> 'key option \<Rightarrow> ControlPlanePKI \<Rightarrow> nat \<Rightarrow> (nat, ControlPlanePKI) step"
where
  "completeAPIServer x ips serverCA c n =
     tryPass (completeLeaf x c \<lparr>CommonName = ''kube-apiserver'', Organization = []\<rparr>
         (dnsSANs c @ [''kubernetes'', ''kubernetes.default'', ''kubernetes.default.svc'',
            ''kubernetes.default.svc.cluster'', ''kubernetes.default.svc.cluster.local''])
         (ipSANs c @ ips) serverCA
         ''using an external kubernetes CA without providing the apiserver certificate is not possible''
         ''failed to generate apiserver certificate: %w'' ''failed to sign apiserver certificate: %w''
         (noCheck\<lparr>CaPEM := CACert c, DNSSANs := [''kubernetes'']\<rparr>)
         ''kube-apiserver certificate validation failure: %w'' (APIServerCert c, APIServerKey c) n)
       (\<lambda>n (cert, key). (n, Inr (c\<lparr>APIServerCert := cert, APIServerKey := key\<rparr>)))"

text \<open>The loop over the client certificates: name, common name, organization, fields.\<close>

record clientEntry =
  CE_name :: string
  CE_cn :: string
  CE_o :: "string list"
  CE_get :: "ControlPlanePKI \<Rightarrow> string \<times> string"
  CE_set :: "string \<times> string \<Rightarrow> ControlPlanePKI \<Rightarrow> ControlPlanePKI"

definition clientEntries :: "string \<Rightarrow> clientEntry list" where
  "clientEntries hostname =
     [\<lparr>CE_name = ''admin'', CE_cn = ''kubernetes-admin'', CE_o = [''system:masters''],
       CE_get = (\<lambda>c. (AdminClientCert c, AdminClientKey c)),
       CE_set = (\<lambda>(a, b) c. c\<lparr>AdminClientCert := a, AdminClientKey := b\<rparr>)\<rparr>,
      \<lparr>CE_name = ''controller'', CE_cn = ''system:kube-controller-manager'', CE_o = [],
       CE_get = (\<lambda>c. (KubeControllerManagerClientCert c, KubeControllerManagerClientKey c)),
       CE_set = (\<lambda>(a, b) c. c\<lparr>KubeControllerManagerClientCert := a, KubeControllerManagerClientKey := b\<rparr>)\<rparr>,
      \<lparr>CE_name = ''proxy'', CE_cn = ''system:kube-proxy'', CE_o = [],
       CE_get = (\<lambda>c. (KubeProxyClientCert c, KubeProxyClientKey c)),
       CE_set = (\<lambda>(a, b) c. c\<lparr>KubeProxyClientCert := a, KubeProxyClientKey := b\<rparr>)\<rparr>,
      \<lparr>CE_name = ''scheduler'', CE_cn = ''system:kube-scheduler'', CE_o = [],
       CE_get = (\<lambda>c. (KubeSchedulerClientCert c, KubeSchedulerClientKey c)),
       CE_set = (\<lambda>(a, b) c. c\<lparr>KubeSchedulerClientCert := a, KubeSchedulerClientKey := b\<rparr>)\<rparr>,
      \<lparr>CE_name = ''kubelet'', CE_cn = ''system:node:'' @ hostname, CE_o = [''system:nodes''],
       CE_get = (\<lambda>c. (KubeletClientCert c, KubeletClientKey c)),
       CE_set = (\<lambda>(a, b) c. c\<lparr>KubeletClientCert := a, KubeletClientKey := b\<rparr>)\<rparr>]"

fun completeClients ::
  "'key crypto \<Rightarrow> Certificate \<times> 'key option \<Rightarrow> clientEntry list \<Rightarrow> ControlPlanePKI \<Rightarrow> nat \<Rightarrow> (nat, ControlPlanePKI) step"
where
  "completeClients x clientCA [] c n = (n, Inr c)"
| "completeClients x clientCA (i # is) c n =
     (if fst (CE_get i c) = [] \<or> snd (CE_get i c) = [] then
        (case clientCA of
           (_, None) \<Rightarrow> (n, Inl (Errorf ''using an external kubernetes CA client without providing the %s certificate is not possible'' [CE_name i]))
         | (caCert, Some caKey) \<Rightarrow>
             tryStep (GenerateCertificate x \<lparr>CommonName = CE_cn i, Organization = CE_o i\<rparr>
                 (notBefore c) (notAfter c) False [] [] n)
               ''failed to generate %s client certificate: %w'' [CE_name i] (\<lambda>n template.
             tryStep (SignCertificate x template 2048 caCert (Some caKey) n)
               ''failed to sign %s client certificate: %w'' [CE_name i] (\<lambda>n p.
             completeClients x clientCA is (CE_set i p c) n)))
      else completeClients x clientCA is c n)"

definition completeK8sdKeypair :: "'key crypto \<Rightarrow> ControlPlanePKI \<Rightarrow> nat \<Rightarrow> (nat, ControlPlanePKI) step" where
  "completeK8sdKeypair x c n =
     (if K8sdPrivateKey c = [] \<or> K8sdPublicKey c = [] then
        (if \<not> allowSelfSignedCA c then
           (n, Inl (Errorf ''cluster keypair not specified and generating new key is not allowed'' []))
         else tryStep (GenerateRSAKey x 2048 n) ''failed to generate cluster keypair: %w'' []
                (\<lambda>n (priv, pub). (n, Inr (c\<lparr>K8sdPrivateKey := priv, K8sdPublicKey := pub\<rparr>))))
      else (n, Inr c))"

definition CompleteCertificates ::
  "'key crypto \<Rightarrow> string list res \<Rightarrow> ControlPlanePKI \<Rightarrow> nat \<Rightarrow> (nat, ControlPlanePKI) step"
where
  "CompleteCertificates x interfaceAddrs c n =
     tryPass (n, checkKeysHaveCerts c) (\<lambda>n _.
     tryPass (n, machineIPs interfaceAddrs (includeMachineAddressSANs c)) (\<lambda>n ips.
     tryPass (completeClusterCA x c n) (\<lambda>n c.
     tryPass (completeClientCA x c n) (\<lambda>n c.
     tryStep (n, LoadCertificate x (CACert c) (CAKey c)) ''failed to parse kubernetes CA: %w'' [] (\<lambda>n serverCA.
     tryStep (n, LoadCertificate x (ClientCACert c) (ClientCAKey c)) ''failed to parse kubernetes CA: %w'' []
       (\<lambda>n clientCA.
     tryPass (completeFrontProxyCA x c n) (\<lambda>n c.
     tryPass (completeFrontProxyClient x c n) (\<lambda>n c.
     tryPass (completeServiceAccountKey x c n) (\<lambda>n c.
     tryPass (completeKubelet x ips serverCA c n) (\<lambda>n c.
     tryPass (completeAPIServerKubeletClient x clientCA c n) (\<lambda>n c.
     tryPass (completeAPIServer x ips serverCA c n) (\<lambda>n c.
     tryPass (completeClients x clientCA (clientEntries (pki_hostname c)) c n) (\<lambda>n c.
     completeK8sdKeypair x c n)))))))))))))"

definition NewControlPlanePKI ::
  "string \<Rightarrow> string list \<Rightarrow> IP list \<Rightarrow> int \<Rightarrow> int option \<Rightarrow> bool \<Rightarrow> bool \<Rightarrow> (int \<Rightarrow> int) \<Rightarrow> ControlPlanePKI"
where
  "NewControlPlanePKI hostname dns ips nb na allow machine addYear =
     \<lparr>allowSelfSignedCA = allow, includeMachineAddressSANs = machine, pki_hostname = hostname,
      ipSANs = ips, dnsSANs = dns, notBefore = nb,
      notAfter = (case na of None \<Rightarrow> addYear nb | Some t \<Rightarrow> t),
      CACert = [], CAKey = [], ClientCACert = [], ClientCAKey = [], FrontProxyCACert = [],
      FrontProxyCAKey = [], FrontProxyClientCert = [], FrontProxyClientKey = [], ServiceAccountKey = [],
      APIServerCert = [], APIServerKey = [], KubeletCert = [], KubeletKey = [], AdminClientCert = [],
      AdminClientKey = [], KubeControllerManagerClientCert = [], KubeControllerManagerClientKey = [],
      KubeSchedulerClientCert = [], KubeSchedulerClientKey = [], KubeProxyClientCert = [],
      KubeProxyClientKey = [], KubeletClientCert = [], KubeletClientKey = [],
      APIServerKubeletClientCert = [], APIServerKubeletClientKey = [], K8sdPublicKey = [],
      K8sdPrivateKey = []\<rparr>"

section \<open>Worker, external datastore and etcd certificates\<close>

record WorkerNodePKI =
  W_CACert :: string
  W_ClientCACert :: string
  W_KubeletCert :: string
  W_KubeletKey :: string
  W_KubeProxyClientCert :: string
  W_KubeProxyClientKey :: string
  W_KubeletClientCert :: string
  W_KubeletClientKey :: string

text \<open>
  \<open>CompleteWorkerNodePKI\<close>: the kubelet certificate when the CA key is there, the client
  certificates when the client CA key is there. The two client certificates start out empty,
  so the loop signs both.
\<close>

definition workerKubelet ::
  "'key crypto \<Rightarrow> ControlPlanePKI \<Rightarrow> string \<Rightarrow> IP \<Rightarrow> int \<Rightarrow> Certificate \<times> 'key option \<Rightarrow> nat
   \<Rightarrow> (nat, string \<times> string) step"
where
  "workerKubelet x c hostname nodeIP bits serverCA n =
     (case serverCA of
        (_, None) \<Rightarrow> (n, Inr ([], []))
      | (caCert, Some caKey) \<Rightarrow>
          signLeaf x (notBefore c) (notAfter c)
            \<lparr>CommonName = ''system:node:'' @ hostname, Organization = [''system:nodes'']\<rparr>
            [hostname] [the (ParseIP ''127.0.0.1''), the (ParseIP ''::1''), nodeIP] bits caCert caKey
            ''failed to generate kubelet certificate for hostname=%s address=%s: %w''
            ''failed to sign kubelet certificate for hostname=%s address=%s: %w'' n)"

definition workerClient ::
  "'key crypto \<Rightarrow> ControlPlanePKI \<Rightarrow> Name \<Rightarrow> Certificate \<times> 'key option \<Rightarrow> nat \<Rightarrow> (nat, string \<times> string) step"
where
  "workerClient x c subject clientCA n =
     (case clientCA of
        (_, None) \<Rightarrow> (n, Inr ([], []))
      | (caCert, Some caKey) \<Rightarrow>
          signLeaf x (notBefore c) (notAfter c) subject [] [] 2048 caCert caKey
            ''failed to generate %s client certificate: %w'' ''failed to sign %s client certificate: %w'' n)"

definition CompleteWorkerNodePKI ::
  "'key crypto \<Rightarrow> ControlPlanePKI \<Rightarrow> string \<Rightarrow> IP \<Rightarrow> int \<Rightarrow> nat \<Rightarrow> (nat, WorkerNodePKI) step"
where
  "CompleteWorkerNodePKI x c hostname nodeIP bits n =
     tryStep (n, LoadCertificate x (CACert c) (CAKey c)) ''failed to load kubernetes CA: %w'' [] (\<lambda>n serverCA.
     tryStep (n, LoadCertificate x (ClientCACert c) (ClientCAKey c)) ''failed to load kubernetes client CA: %w'' []
       (\<lambda>n clientCA.
     tryPass (workerKubelet x c hostname nodeIP bits serverCA n) (\<lambda>n (kc, kk).
     tryPass (workerClient x c \<lparr>CommonName = ''system:kube-proxy'', Organization = []\<rparr> clientCA n)
       (\<lambda>n (pc, pk).
     tryPass (workerClient x c
         \<lparr>CommonName = ''system:node:'' @ hostname, Organization = [''system:nodes'']\<rparr> clientCA n)
       (\<lambda>n (cc, ck). (n, Inr
         \<lparr>W_CACert = CACert c, W_ClientCACert = ClientCACert c, W_KubeletCert = kc, W_KubeletKey = kk,
          W_KubeProxyClientCert = pc, W_KubeProxyClientKey = pk,
          W_KubeletClientCert = cc, W_KubeletClientKey = ck\<rparr>))))))"

definition Worker_CompleteCertificates :: "WorkerNodePKI \<Rightarrow> unit res" where
  "Worker_CompleteCertificates w =
     (if W_CACert w = [] then Inl (Errorf ''kubernetes CA not specified'' [])
      else if W_KubeletCert w = [] \<or> W_KubeletKey w = [] then
        Inl (Errorf ''kubelet certificate not specified'' [])
      else if W_KubeletClientCert w = [] \<or> W_KubeletClientKey w = [] then
        Inl (Errorf ''kubelet client certificate not specified'' [])
      else if W_KubeProxyClientCert w = [] \<or> W_KubeProxyClientKey w = [] then
        Inl (Errorf ''kube-proxy client certificate not specified'' [])
      else ok)"

record ExternalDatastorePKI =
  DatastoreCACert :: string
  DatastoreClientCert :: string
  DatastoreClientKey :: string

definition CheckCertificates :: "ExternalDatastorePKI \<Rightarrow> unit res" where
  "CheckCertificates c =
     (if DatastoreClientCert c = [] \<and> DatastoreClientKey c \<noteq> [] then
        Inl (Errorf ''external datastore certificate key set without a certificate, fail to prevent further issues'' [])
      else if DatastoreClientCert c \<noteq> [] \<and> DatastoreClientKey c = [] then
        Inl (Errorf ''external datastore certificate set without a key, fail to prevent further issues'' [])
      else ok)"

record EtcdPKI =
  E_allowSelfSignedCA :: bool
  E_hostname :: string
  E_ipSANs :: "IP list"
  E_dnsSANs :: "string list"
  E_notBefore :: int
  E_notAfter :: int
  E_CACert :: string
  E_CAKey :: string
  E_ServerCert :: string
  E_ServerKey :: string
  E_ServerPeerCert :: string
  E_ServerPeerKey :: string
  E_APIServerClientCert :: string
  E_APIServerClientKey :: string

text \<open>
  An etcd certificate is generated only when both its parts are missing; a pair of which one
  part is given passes unchanged.
\<close>

definition etcdLeaf ::
  "'key crypto \<Rightarrow> EtcdPKI \<Rightarrow> string \<Rightarrow> string list \<Rightarrow> IP list \<Rightarrow> Certificate \<times> 'key option \<Rightarrow> string \<Rightarrow>
   string \<times> string \<Rightarrow> nat \<Rightarrow> (nat, string \<times> string) step"
where
  "etcdLeaf x c cn dns ips ca msgNoKey = (\<lambda>(cert, key) n.
     if cert = [] \<and> key = [] then
       (case ca of
          (_, None) \<Rightarrow> (n, Inl (Errorf msgNoKey []))
        | (caCert, Some caKey) \<Rightarrow>
            signLeaf x (E_notBefore c) (E_notAfter c) \<lparr>CommonName = cn, Organization = []\<rparr> dns ips 2048
              caCert caKey ''failed to generate etcd certificate: %w''
              ''failed to self-sign etcd certificate: %w'' n)
     else (n, Inr (cert, key)))"

definition Etcd_CompleteCertificates :: "'key crypto \<Rightarrow> EtcdPKI \<Rightarrow> nat \<Rightarrow> (nat, EtcdPKI) step" where
  "Etcd_CompleteCertificates x c n =
     (if E_CACert c = [] \<and> E_CAKey c \<noteq> [] then
        (n, Inl (Errorf ''etcd CA certificate key set without a certificate, fail to prevent further issues'' []))
      else
        tryPass (completeCA x (E_allowSelfSignedCA c) (E_notBefore c) (E_notAfter c) ''etcd-ca''
            ''etcd CA not specified and generating self-signed CA not allowed''
            ''failed to generate etcd CA: %w'' ''etcd CA certificate validation failure: %w''
            (E_CACert c, E_CAKey c) n) (\<lambda>n (caCert, caKey).
        tryStep (n, LoadCertificate x caCert caKey) ''failed to parse etcd CA: %w'' [] (\<lambda>n ca.
        tryPass (etcdLeaf x c ''kube-etcd'' (E_dnsSANs c @ [E_hostname c]) (E_ipSANs c @ [[127, 0, 0, 1]]) ca
            ''using an external etcd CA with specifying an etcd server certificate is not possible''
            (E_ServerCert c, E_ServerKey c) n) (\<lambda>n (sc, sk).
        tryPass (etcdLeaf x c ''kube-etcd-peer'' (E_dnsSANs c @ [E_hostname c]) (E_ipSANs c @ [[127, 0, 0, 1]]) ca
            ''using an external etcd CA with specifying an etcd server peer certificate is not possible''
            (E_ServerPeerCert c, E_ServerPeerKey c) n) (\<lambda>n (pc, pk).
        tryPass (etcdLeaf x c ''kube-apiserver-etcd-client'' [] [] ca
            ''using an external etcd CA with specifying an etcd apiserver client certificate is not possible''
            (E_APIServerClientCert c, E_APIServerClientKey c) n) (\<lambda>n (ac, ak).
        (n, Inr (c\<lparr>E_CACert := caCert, E_CAKey := caKey, E_ServerCert := sc, E_ServerKey := sk,
               E_ServerPeerCert := pc, E_ServerPeerKey := pk,
               E_APIServerClientCert := ac, E_APIServerClientKey := ak\<rparr>))))))))"

section \<open>What a completed step leaves\<close>

text \<open>
  A pair of a certificate and a key that was completed: both are there, and a pair that was
  already complete is the same as before.
\<close>

definition completedPair :: "string \<times> string \<Rightarrow> string \<times> string \<Rightarrow> bool" where
  "completedPair old new \<longleftrightarrow>
     fst new \<noteq> [] \<and> snd new \<noteq> [] \<and> (fst old \<noteq> [] \<and> snd old \<noteq> [] \<longrightarrow> new = old)"

text \<open>
  A CA pair: the certificate is there, anything given is kept, and without the permission to
  generate, everything is kept.
\<close>

definition completedCA :: "bool \<Rightarrow> string \<times> string \<Rightarrow> string \<times> string \<Rightarrow> bool" where
  "completedCA allow old new \<longleftrightarrow>
     (snd old \<noteq> [] \<longrightarrow> fst old \<noteq> []) \<longrightarrow> fst new \<noteq> [] \<and> (old \<noteq> ([], []) \<or> \<not> allow \<longrightarrow> new = old)"

lemma encodePEM_nonempty:
  "pemNonEmpty x \<Longrightarrow> encodeKeyPEM x k = Inr s \<Longrightarrow> s \<noteq> []"
  "pemNonEmpty x \<Longrightarrow> encodeCertPEM x d = Inr s \<Longrightarrow> s \<noteq> []"
  by (auto simp: encodeKeyPEM_def encodeCertPEM_def pemNonEmpty_def split: option.splits)

lemma GenerateSelfSignedCA_nonempty:
  assumes "pemNonEmpty x" "GenerateSelfSignedCA x sub nb na bits n = (n', Inr p)"
  shows "fst p \<noteq> [] \<and> snd p \<noteq> []"
  using assms(2) encodePEM_nonempty [OF assms(1)]
  by (auto simp: GenerateSelfSignedCA_def tryStep_ok_iff tryPass_ok_iff)

lemma SignCertificate_nonempty:
  assumes "pemNonEmpty x" "SignCertificate x c bits parent priv n = (n', Inr p)"
  shows "fst p \<noteq> [] \<and> snd p \<noteq> []"
  using assms(2) encodePEM_nonempty [OF assms(1)]
  by (auto simp: SignCertificate_def tryStep_ok_iff tryPass_ok_iff)

lemma GenerateRSAKey_nonempty:
  assumes "pemNonEmpty x" "GenerateRSAKey x bits n = (n', Inr p)"
  shows "fst p \<noteq> [] \<and> snd p \<noteq> []"
  using assms(2) encodePEM_nonempty [OF assms(1)] assms(1) [unfolded pemNonEmpty_def]
  by (auto simp: GenerateRSAKey_def tryStep_ok_iff tryPass_ok_iff split: option.splits)

lemma signLeaf_nonempty:
  assumes "pemNonEmpty x" "signLeaf x nb na sub dns ips bits caCert caKey m1 m2 n = (n', Inr p)"
  shows "fst p \<noteq> [] \<and> snd p \<noteq> []"
  using assms(2) SignCertificate_nonempty [OF assms(1)]
  by (auto simp: signLeaf_def tryStep_ok_iff)

lemma completeCA_completed:
  assumes "pemNonEmpty x" "completeCA x allow nb na cn m1 m2 m3 old n = (n', Inr new)"
  shows "completedCA allow old new"
  using assms(2) GenerateSelfSignedCA_nonempty [OF assms(1)]
  by (cases old) (auto simp: completeCA_def completedCA_def tryStep_ok_iff split: if_splits)

lemma completeLeaf_completed:
  assumes "pemNonEmpty x" "completeLeaf x c sub dns ips ca m1 m2 m3 check m4 old n = (n', Inr new)"
  shows "completedPair old new"
  using assms(2) signLeaf_nonempty [OF assms(1)]
  by (cases old) (auto simp: completeLeaf_def completedPair_def tryStep_ok_iff
      split: if_splits option.splits prod.splits)

lemma tryPass_pair_ok:
  "tryPass r (\<lambda>n (a, b). (n, Inr (f a b))) = (n', Inr y) \<longleftrightarrow> (\<exists>a b. r = (n', Inr (a, b)) \<and> y = f a b)"
  by (auto simp: tryPass_ok_iff)

lemma tryStep_pair_ok:
  "tryStep r m as (\<lambda>n (a, b). (n, Inr (f a b))) = (n', Inr y) \<longleftrightarrow> (\<exists>a b. r = (n', Inr (a, b)) \<and> y = f a b)"
  by (auto simp: tryStep_ok_iff)

lemma completeClusterCA_ok:
  assumes "pemNonEmpty x" "completeClusterCA x c n = (n', Inr c')"
  shows "\<exists>a b. c' = c\<lparr>CACert := a, CAKey := b\<rparr> \<and> completedCA (allowSelfSignedCA c) (CACert c, CAKey c) (a, b)"
  using assms(2) completeCA_completed [OF assms(1)]
  unfolding completeClusterCA_def tryPass_pair_ok by blast

lemma completeClientCA_ok:
  assumes "pemNonEmpty x" "completeClientCA x c n = (n', Inr c')"
  shows "\<exists>a b. c' = c\<lparr>ClientCACert := a, ClientCAKey := b\<rparr> \<and>
    completedCA (allowSelfSignedCA c) (ClientCACert c, ClientCAKey c) (a, b)"
  using assms(2) completeCA_completed [OF assms(1)]
  unfolding completeClientCA_def tryPass_pair_ok by blast

lemma completeFrontProxyCA_ok:
  assumes "pemNonEmpty x" "completeFrontProxyCA x c n = (n', Inr c')"
  shows "\<exists>a b. c' = c\<lparr>FrontProxyCACert := a, FrontProxyCAKey := b\<rparr> \<and>
    completedCA (allowSelfSignedCA c) (FrontProxyCACert c, FrontProxyCAKey c) (a, b)"
  using assms(2) completeCA_completed [OF assms(1)]
  unfolding completeFrontProxyCA_def tryPass_pair_ok by blast

lemma completeFrontProxyClient_ok:
  assumes "pemNonEmpty x" "completeFrontProxyClient x c n = (n', Inr c')"
  shows "\<exists>a b. c' = c\<lparr>FrontProxyClientCert := a, FrontProxyClientKey := b\<rparr> \<and>
    completedPair (FrontProxyClientCert c, FrontProxyClientKey c) (a, b)"
proof (cases "FrontProxyClientCert c = [] \<or> FrontProxyClientKey c = []")
  case True
  with assms(2) obtain caCert caKey a b m1 m2 where
    "signLeaf x (notBefore c) (notAfter c) \<lparr>CommonName = ''front-proxy-client'', Organization = []\<rparr>
       [] [] 2048 caCert caKey m1 m2 n = (n', Inr (a, b))"
    and c': "c' = c\<lparr>FrontProxyClientCert := a, FrontProxyClientKey := b\<rparr>"
    by (auto simp: completeFrontProxyClient_def tryPass_pair_ok
        split: sum.splits prod.splits option.splits)
  then have "completedPair (FrontProxyClientCert c, FrontProxyClientKey c) (a, b)"
    using signLeaf_nonempty [OF assms(1)] True by (fastforce simp: completedPair_def)
  with c' show ?thesis by blast
next
  case False
  then have "c' = c" using assms(2) by (auto simp: completeFrontProxyClient_def tryStep_ok_iff)
  with False show ?thesis
    by (intro exI [of _ "FrontProxyClientCert c"] exI [of _ "FrontProxyClientKey c"])
      (simp add: completedPair_def)
qed

lemma completeServiceAccountKey_ok:
  assumes "pemNonEmpty x" "completeServiceAccountKey x c n = (n', Inr c')"
  shows "\<exists>a. c' = c\<lparr>ServiceAccountKey := a\<rparr> \<and> a \<noteq> [] \<and>
    (ServiceAccountKey c \<noteq> [] \<or> \<not> allowSelfSignedCA c \<longrightarrow> a = ServiceAccountKey c)"
proof (cases "ServiceAccountKey c = []")
  case True
  with assms(2) obtain a b where "GenerateRSAKey x 2048 n = (n', Inr (a, b))"
    and c': "c' = c\<lparr>ServiceAccountKey := a\<rparr>" "allowSelfSignedCA c"
    by (auto simp: completeServiceAccountKey_def tryStep_pair_ok split: if_splits)
  then have "a \<noteq> []" using GenerateRSAKey_nonempty [OF assms(1)] by fastforce
  with c' True show ?thesis by blast
next
  case False
  then have "c' = c" using assms(2) by (simp add: completeServiceAccountKey_def)
  with False show ?thesis by (intro exI [of _ "ServiceAccountKey c"]) simp
qed

lemma completeKubelet_ok:
  assumes "pemNonEmpty x" "completeKubelet x ips ca c n = (n', Inr c')"
  shows "\<exists>a b. c' = c\<lparr>KubeletCert := a, KubeletKey := b\<rparr> \<and> completedPair (KubeletCert c, KubeletKey c) (a, b)"
  using assms(2) completeLeaf_completed [OF assms(1)]
  unfolding completeKubelet_def tryPass_pair_ok by blast

lemma completeAPIServerKubeletClient_ok:
  assumes "pemNonEmpty x" "completeAPIServerKubeletClient x ca c n = (n', Inr c')"
  shows "\<exists>a b. c' = c\<lparr>APIServerKubeletClientCert := a, APIServerKubeletClientKey := b\<rparr> \<and>
    completedPair (APIServerKubeletClientCert c, APIServerKubeletClientKey c) (a, b)"
  using assms(2) completeLeaf_completed [OF assms(1)]
  unfolding completeAPIServerKubeletClient_def tryPass_pair_ok by blast

lemma completeAPIServer_ok:
  assumes "pemNonEmpty x" "completeAPIServer x ips ca c n = (n', Inr c')"
  shows "\<exists>a b. c' = c\<lparr>APIServerCert := a, APIServerKey := b\<rparr> \<and>
    completedPair (APIServerCert c, APIServerKey c) (a, b)"
  using assms(2) completeLeaf_completed [OF assms(1)]
  unfolding completeAPIServer_def tryPass_pair_ok by blast

lemma completeClients_Cons:
  assumes "pemNonEmpty x" "completeClients x ca (i # is) c n = (n', Inr c')"
    "CE_set i (CE_get i c) c = c"
  shows "\<exists>p n1. completedPair (CE_get i c) p \<and> completeClients x ca is (CE_set i p c) n1 = (n', Inr c')"
proof (cases "fst (CE_get i c) = [] \<or> snd (CE_get i c) = []")
  case True
  with assms(2) obtain t caCert caKey n0 n1 p where
    sign: "SignCertificate x t 2048 caCert (Some caKey) n0 = (n1, Inr p)"
    and rest: "completeClients x ca is (CE_set i p c) n1 = (n', Inr c')"
    by (auto simp: tryStep_ok_iff split: prod.splits option.splits)
  have "completedPair (CE_get i c) p"
    using SignCertificate_nonempty [OF assms(1) sign] True by (auto simp: completedPair_def)
  with rest show ?thesis by blast
next
  case False
  then show ?thesis
    using assms(2,3) by (intro exI [of _ "CE_get i c"]) (auto simp: completedPair_def)
qed

lemma completeK8sdKeypair_ok:
  assumes "pemNonEmpty x" "completeK8sdKeypair x c n = (n', Inr c')"
  shows "\<exists>a b. c' = c\<lparr>K8sdPrivateKey := a, K8sdPublicKey := b\<rparr> \<and>
    completedPair (K8sdPrivateKey c, K8sdPublicKey c) (a, b) \<and>
    (\<not> allowSelfSignedCA c \<longrightarrow> (a, b) = (K8sdPrivateKey c, K8sdPublicKey c))"
proof (cases "K8sdPrivateKey c = [] \<or> K8sdPublicKey c = []")
  case True
  with assms(2) obtain a b where "GenerateRSAKey x 2048 n = (n', Inr (a, b))"
    and c': "c' = c\<lparr>K8sdPrivateKey := a, K8sdPublicKey := b\<rparr>" "allowSelfSignedCA c"
    by (auto simp: completeK8sdKeypair_def tryStep_pair_ok split: if_splits)
  then have "completedPair (K8sdPrivateKey c, K8sdPublicKey c) (a, b)"
    using GenerateRSAKey_nonempty [OF assms(1)] True by (fastforce simp: completedPair_def)
  with c' show ?thesis by blast
next
  case False
  then have "c' = c" using assms(2) by (simp add: completeK8sdKeypair_def)
  with False show ?thesis
    by (intro exI [of _ "K8sdPrivateKey c"] exI [of _ "K8sdPublicKey c"]) (simp add: completedPair_def)
qed

text \<open>The pairs of the certificates a node uses, and the pairs of the three CAs.\<close>

definition leafPairs :: "ControlPlanePKI \<Rightarrow> (string \<times> string) list" where
  "leafPairs c =
     [(FrontProxyClientCert c, FrontProxyClientKey c), (KubeletCert c, KubeletKey c),
      (APIServerKubeletClientCert c, APIServerKubeletClientKey c), (APIServerCert c, APIServerKey c),
      (AdminClientCert c, AdminClientKey c),
      (KubeControllerManagerClientCert c, KubeControllerManagerClientKey c),
      (KubeProxyClientCert c, KubeProxyClientKey c), (KubeSchedulerClientCert c, KubeSchedulerClientKey c),
      (KubeletClientCert c, KubeletClientKey c), (K8sdPrivateKey c, K8sdPublicKey c)]"

definition caPairs :: "ControlPlanePKI \<Rightarrow> (string \<times> string) list" where
  "caPairs c = [(CACert c, CAKey c), (ClientCACert c, ClientCAKey c), (FrontProxyCACert c, FrontProxyCAKey c)]"

lemma completeClients_entries:
  assumes "pemNonEmpty x" "completeClients x ca (clientEntries hn) c n = (n', Inr c')"
  shows "\<exists>a1 b1 a2 b2 a3 b3 a4 b4 a5 b5.
    c' = c\<lparr>AdminClientCert := a1, AdminClientKey := b1,
           KubeControllerManagerClientCert := a2, KubeControllerManagerClientKey := b2,
           KubeProxyClientCert := a3, KubeProxyClientKey := b3,
           KubeSchedulerClientCert := a4, KubeSchedulerClientKey := b4,
           KubeletClientCert := a5, KubeletClientKey := b5\<rparr> \<and>
    completedPair (AdminClientCert c, AdminClientKey c) (a1, b1) \<and>
    completedPair (KubeControllerManagerClientCert c, KubeControllerManagerClientKey c) (a2, b2) \<and>
    completedPair (KubeProxyClientCert c, KubeProxyClientKey c) (a3, b3) \<and>
    completedPair (KubeSchedulerClientCert c, KubeSchedulerClientKey c) (a4, b4) \<and>
    completedPair (KubeletClientCert c, KubeletClientKey c) (a5, b5)"
  using assms(2) unfolding clientEntries_def
  by - ((drule completeClients_Cons [OF assms(1)], simp, clarsimp simp del: completeClients.simps(2))+, blast)

lemma checkKeysHaveCerts_ok:
  "checkKeysHaveCerts c = ok \<longleftrightarrow> (\<forall>(cert, key) \<in> set (caPairs c). key \<noteq> [] \<longrightarrow> cert \<noteq> [])"
  by (auto simp: checkKeysHaveCerts_def caPairs_def)

section \<open>Properties\<close>

lemma CompleteCertificates_pairs:
  assumes pem: "pemNonEmpty x" and run: "CompleteCertificates x addrs c n = (n', Inr c')"
  shows "list_all2 completedPair (leafPairs c) (leafPairs c') \<and>
    list_all2 (\<lambda>old new. fst new \<noteq> [] \<and> (old \<noteq> ([], []) \<or> \<not> allowSelfSignedCA c \<longrightarrow> new = old))
      (caPairs c) (caPairs c') \<and>
    ServiceAccountKey c' \<noteq> [] \<and>
    (ServiceAccountKey c \<noteq> [] \<or> \<not> allowSelfSignedCA c \<longrightarrow> ServiceAccountKey c' = ServiceAccountKey c) \<and>
    (\<not> allowSelfSignedCA c \<longrightarrow> (K8sdPrivateKey c', K8sdPublicKey c') = (K8sdPrivateKey c, K8sdPublicKey c)) \<and>
    pki_hostname c' = pki_hostname c \<and> notBefore c' = notBefore c \<and> notAfter c' = notAfter c"
proof -
  from run obtain ips serverCA clientCA n1 n2 n3 n4 n5 n6 n7 n8 n9 c1 c2 c3 c4 c5 c6 c7 c8 c9 where
    chk: "checkKeysHaveCerts c = ok" and
    steps: "completeClusterCA x c n = (n1, Inr c1)" "completeClientCA x c1 n1 = (n2, Inr c2)"
      "completeFrontProxyCA x c2 n2 = (n3, Inr c3)" "completeFrontProxyClient x c3 n3 = (n4, Inr c4)"
      "completeServiceAccountKey x c4 n4 = (n5, Inr c5)"
      "completeKubelet x ips serverCA c5 n5 = (n6, Inr c6)"
      "completeAPIServerKubeletClient x clientCA c6 n6 = (n7, Inr c7)"
      "completeAPIServer x ips serverCA c7 n7 = (n8, Inr c8)"
      "completeClients x clientCA (clientEntries (pki_hostname c8)) c8 n8 = (n9, Inr c9)"
      "completeK8sdKeypair x c9 n9 = (n', Inr c')"
    by (auto simp: CompleteCertificates_def tryPass_ok_iff tryStep_ok_iff is_ok_unit)
  note r = completeClusterCA_ok [OF pem steps(1)] completeClientCA_ok [OF pem steps(2)]
    completeFrontProxyCA_ok [OF pem steps(3)] completeFrontProxyClient_ok [OF pem steps(4)]
    completeServiceAccountKey_ok [OF pem steps(5)] completeKubelet_ok [OF pem steps(6)]
    completeAPIServerKubeletClient_ok [OF pem steps(7)] completeAPIServer_ok [OF pem steps(8)]
    completeClients_entries [OF pem steps(9)] completeK8sdKeypair_ok [OF pem steps(10)]
  have chk': "CAKey c \<noteq> [] \<longrightarrow> CACert c \<noteq> []" "ClientCAKey c \<noteq> [] \<longrightarrow> ClientCACert c \<noteq> []"
    "FrontProxyCAKey c \<noteq> [] \<longrightarrow> FrontProxyCACert c \<noteq> []"
    using chk by (simp_all add: checkKeysHaveCerts_ok caPairs_def)
  show ?thesis
    using r chk' unfolding leafPairs_def caPairs_def
    by (elim exE conjE) (hypsubst, simp add: completedCA_def)
qed

text \<open>
  C8: A successful completion leaves no certificate or key of the node missing, and keeps every
  pair that was already complete. The three CA certificates are there; a CA of which the caller
  gave a part is kept as it is. Without the permission to generate self-signed CAs, the CAs,
  the service account key and the cluster key pair are exactly those given. No other field changes.
\<close>

theorem CompleteCertificates_complete:
  assumes pem: "pemNonEmpty x" and run: "CompleteCertificates x addrs c n = (n', Inr c')"
  shows "list_all2 completedPair (leafPairs c) (leafPairs c') \<and>
    list_all2 (\<lambda>old new. fst new \<noteq> [] \<and> (old \<noteq> ([], []) \<or> \<not> allowSelfSignedCA c \<longrightarrow> new = old))
      (caPairs c) (caPairs c') \<and>
    ServiceAccountKey c' \<noteq> [] \<and>
    (ServiceAccountKey c \<noteq> [] \<or> \<not> allowSelfSignedCA c \<longrightarrow> ServiceAccountKey c' = ServiceAccountKey c) \<and>
    (\<not> allowSelfSignedCA c \<longrightarrow> (K8sdPrivateKey c', K8sdPublicKey c') = (K8sdPrivateKey c, K8sdPublicKey c)) \<and>
    pki_hostname c' = pki_hostname c \<and> notBefore c' = notBefore c \<and> notAfter c' = notAfter c"
  using assms by (rule CompleteCertificates_pairs)

text \<open>A stand-in for the primitives in which every certificate parses and verifies.\<close>

definition sampleCert :: Certificate where
  "sampleCert = \<lparr>SerialNumber = 0, Subject = \<lparr>CommonName = [], Organization = []\<rparr>, NotBefore = 0,
     NotAfter = 100, IPAddresses = [], DNSNames = [], IsCA = True, KeyUsage = 0, ExtKeyUsages = [],
     BasicConstraintsValid = True\<rparr>"

definition sampleCrypto :: "unit crypto" where
  "sampleCrypto = \<lparr>randInt = Inr, rsaGenerateKey = (\<lambda>_ _. Inr ()), pemEncode = (\<lambda>t b. Some (t @ ''|'' @ b)),
     pemDecode = strCut (CHR ''|''), MarshalPKCS1PrivateKey = (\<lambda>_. ''k''), MarshalPKIXPublicKey = (\<lambda>_. Inr ''p''),
     CreateCertificate = (\<lambda>_ _ _ _ _. Inr ''c''), ParseCertificate = (\<lambda>_. Inr sampleCert),
     ParsePKCS1PrivateKey = (\<lambda>_. Inr ()), ParsePKCS8PrivateKey = (\<lambda>_. Inr None), AppendCertsFromPEM = (\<lambda>_. True),
     certVerify = (\<lambda>_ _. ok), VerifyHostname = (\<lambda>_ _. ok), timeNow = 50\<rparr>"

lemma sampleCrypto_pem: "pemNonEmpty sampleCrypto"
  by (simp add: pemNonEmpty_def sampleCrypto_def)

lemmas pki_eval = sampleCrypto_def completeCA_def GenerateSelfSignedCA_def GenerateCertificate_def
  encodeKeyPEM_def encodeCertPEM_def LoadCertificate_def LoadRSAPrivateKey_def signLeaf_def
  SignCertificate_def GenerateRSAKey_def ValidateKeypair_def ValidateCert_def sampleCert_def noCheck_def

lemma sample_CA: "completeCA sampleCrypto True nb na cn m1 m2 m3 ([], []) n =
    (n + 3, Inr (''CERTIFICATE|c'', ''RSA PRIVATE KEY|k''))"
  by (simp add: pki_eval)

lemma sample_load: "LoadCertificate sampleCrypto ''CERTIFICATE|c'' ''RSA PRIVATE KEY|k'' = Inr (sampleCert, Some ())"
  by (simp add: pki_eval)

lemma sample_sign:
  "signLeaf sampleCrypto nb na sub dns ips bits ca k m1 m2 n =
     (n + 3, Inr (''CERTIFICATE|c'', ''RSA PRIVATE KEY|k''))"
  by (simp add: pki_eval)

lemma sample_sign_step:
  "SignCertificate sampleCrypto t bits p k n = (n + 2, Inr (''CERTIFICATE|c'', ''RSA PRIVATE KEY|k''))"
  by (simp add: pki_eval)

lemma sample_rsa: "GenerateRSAKey sampleCrypto bits n = (Suc n, Inr (''RSA PRIVATE KEY|k'', ''PUBLIC KEY|p''))"
  by (simp add: pki_eval)

definition samplePKI :: ControlPlanePKI where
  "samplePKI = NewControlPlanePKI ''n1'' [] [] 0 (Some 100) True False id"

lemmas complete_defs = completeClusterCA_def completeClientCA_def completeFrontProxyCA_def
  completeFrontProxyClient_def completeServiceAccountKey_def completeKubelet_def
  completeAPIServerKubeletClient_def completeAPIServer_def completeLeaf_def completeK8sdKeypair_def
  clientEntries_def

lemma samplePKI_completes: "\<exists>n' c'. CompleteCertificates sampleCrypto (Inr []) samplePKI 0 = (n', Inr c')"
proof -
  have gen: "tryStep (GenerateCertificate sampleCrypto sub nb na False dns ips n) m as k =
      k (Suc n) (the (Some (case snd (GenerateCertificate sampleCrypto sub nb na False dns ips n) of Inr t \<Rightarrow> t)))"
    for sub nb na dns ips n m as and k :: "nat \<Rightarrow> Certificate \<Rightarrow> (nat, ControlPlanePKI) step"
    by (simp add: pki_eval)
  show ?thesis
    by (simp add: CompleteCertificates_def checkKeysHaveCerts_def machineIPs_def samplePKI_def
        NewControlPlanePKI_def complete_defs sample_CA sample_load sample_sign sample_rsa sample_sign_step gen)
qed

theorem CompleteCertificates_complete_witness:
  "\<exists>n' c'. CompleteCertificates sampleCrypto (Inr []) samplePKI 0 = (n', Inr c') \<and>
     list_all2 completedPair (leafPairs samplePKI) (leafPairs c') \<and> CACert c' \<noteq> []"
proof -
  obtain n' c' where run: "CompleteCertificates sampleCrypto (Inr []) samplePKI 0 = (n', Inr c')"
    using samplePKI_completes by blast
  note done' = CompleteCertificates_complete [OF sampleCrypto_pem run]
  then have "CACert c' \<noteq> []" by (simp add: caPairs_def)
  with done' run show ?thesis by blast
qed

lemma LoadCertificate_key:
  "LoadCertificate x cert key = Inr (c, k) \<Longrightarrow> k = None \<longleftrightarrow> key = []"
  by (auto simp: LoadCertificate_def split: option.splits sum.splits if_splits prod.splits)

lemma signLeaf_pairD:
  "pemNonEmpty x \<Longrightarrow> signLeaf x nb na sub dns ips bits caCert caKey m1 m2 n = (n', Inr (a, b)) \<Longrightarrow> a \<noteq> [] \<and> b \<noteq> []"
  using signLeaf_nonempty by fastforce

lemma workerClient_ok:
  assumes "pemNonEmpty x" "workerClient x c sub ca n = (n', Inr (a, b))"
  shows "snd ca = None \<and> a = [] \<and> b = [] \<or> snd ca \<noteq> None \<and> a \<noteq> [] \<and> b \<noteq> []"
  using assms(2) signLeaf_pairD [OF assms(1)]
  by (auto simp: workerClient_def split: prod.splits option.splits)

lemma workerKubelet_ok:
  assumes "pemNonEmpty x" "workerKubelet x c hn ip bits ca n = (n', Inr (a, b))"
  shows "snd ca = None \<and> a = [] \<and> b = [] \<or> snd ca \<noteq> None \<and> a \<noteq> [] \<and> b \<noteq> []"
  using assms(2) signLeaf_pairD [OF assms(1)]
  by (auto simp: workerKubelet_def split: prod.splits option.splits)

text \<open>
  The certificates a control plane node makes for a worker pass the worker's own check
  exactly when the control plane holds the keys of both CAs; with an external CA the worker has
  to bring its certificates.
\<close>

theorem CompleteWorkerNodePKI_checks:
  assumes "pemNonEmpty x" "CACert c \<noteq> []"
    and run: "CompleteWorkerNodePKI x c hostname nodeIP bits n = (n', Inr w)"
  shows "W_CACert w = CACert c \<and> W_ClientCACert w = ClientCACert c \<and>
    (Worker_CompleteCertificates w = ok \<longleftrightarrow> CAKey c \<noteq> [] \<and> ClientCAKey c \<noteq> [])"
proof -
  from run obtain serverCA clientCA n1 n2 n3 kc kk pc pk cc ck where
    load: "LoadCertificate x (CACert c) (CAKey c) = Inr serverCA"
      "LoadCertificate x (ClientCACert c) (ClientCAKey c) = Inr clientCA" and
    steps: "workerKubelet x c hostname nodeIP bits serverCA n = (n1, Inr (kc, kk))"
      "workerClient x c \<lparr>CommonName = ''system:kube-proxy'', Organization = []\<rparr> clientCA n1 = (n2, Inr (pc, pk))"
      "workerClient x c \<lparr>CommonName = ''system:node:'' @ hostname, Organization = [''system:nodes'']\<rparr> clientCA n2 =
         (n3, Inr (cc, ck))" and
    w: "w = \<lparr>W_CACert = CACert c, W_ClientCACert = ClientCACert c, W_KubeletCert = kc, W_KubeletKey = kk,
          W_KubeProxyClientCert = pc, W_KubeProxyClientKey = pk, W_KubeletClientCert = cc, W_KubeletClientKey = ck\<rparr>"
    by (auto simp: CompleteWorkerNodePKI_def tryStep_ok_iff tryPass_ok_iff)
  have keys: "snd serverCA = None \<longleftrightarrow> CAKey c = []" "snd clientCA = None \<longleftrightarrow> ClientCAKey c = []"
    using load by (metis LoadCertificate_key prod.collapse)+
  show ?thesis
    using workerKubelet_ok [OF assms(1) steps(1)] workerClient_ok [OF assms(1) steps(2)]
      workerClient_ok [OF assms(1) steps(3)] assms(2) keys
    by (auto simp: w Worker_CompleteCertificates_def)
qed

theorem CompleteWorkerNodePKI_checks_witness:
  "\<exists>n' w. CompleteWorkerNodePKI sampleCrypto
       (samplePKI\<lparr>CACert := ''CERTIFICATE|c'', CAKey := ''RSA PRIVATE KEY|k'',
          ClientCACert := ''CERTIFICATE|c'', ClientCAKey := ''RSA PRIVATE KEY|k''\<rparr>) ''w1'' [10, 0, 0, 1] 2048 0 =
     (n', Inr w) \<and> Worker_CompleteCertificates w = ok"
proof -
  let ?c = "samplePKI\<lparr>CACert := ''CERTIFICATE|c'', CAKey := ''RSA PRIVATE KEY|k'',
          ClientCACert := ''CERTIFICATE|c'', ClientCAKey := ''RSA PRIVATE KEY|k''\<rparr>"
  obtain n' w where run: "CompleteWorkerNodePKI sampleCrypto ?c ''w1'' [10, 0, 0, 1] 2048 0 = (n', Inr w)"
    by (simp add: CompleteWorkerNodePKI_def workerKubelet_def workerClient_def sample_load sample_sign)
  have "CACert ?c \<noteq> []" by simp
  from CompleteWorkerNodePKI_checks [OF sampleCrypto_pem this run] run show ?thesis by auto
qed

text \<open>
  A successful completion of the etcd certificates keeps every pair of which a part was
  given and fills the pairs that were missing altogether; the CA certificate is there.
\<close>

theorem Etcd_CompleteCertificates_fills:
  assumes "pemNonEmpty x" "Etcd_CompleteCertificates x c n = (n', Inr c')"
  shows "E_CACert c' \<noteq> [] \<and>
    list_all2 (\<lambda>old new. if old = ([], []) then fst new \<noteq> [] \<and> snd new \<noteq> [] else new = old)
      [(E_ServerCert c, E_ServerKey c), (E_ServerPeerCert c, E_ServerPeerKey c),
       (E_APIServerClientCert c, E_APIServerClientKey c)]
      [(E_ServerCert c', E_ServerKey c'), (E_ServerPeerCert c', E_ServerPeerKey c'),
       (E_APIServerClientCert c', E_APIServerClientKey c')]"
proof -
  have leaf: "if old = ([], []) then fst new \<noteq> [] \<and> snd new \<noteq> [] else new = old"
    if "etcdLeaf x c cn dns ips ca m old k = (k', Inr new)" for cn dns ips ca m old k k' new
    using that signLeaf_nonempty [OF assms(1)]
    by (cases old) (auto simp: etcdLeaf_def split: if_splits prod.splits option.splits)
  from assms(2) obtain caCert caKey sc sk pc pk ac ak ca n1 n2 n3 n4 where
    ca: "completeCA x (E_allowSelfSignedCA c) (E_notBefore c) (E_notAfter c) ''etcd-ca''
            ''etcd CA not specified and generating self-signed CA not allowed''
            ''failed to generate etcd CA: %w'' ''etcd CA certificate validation failure: %w''
            (E_CACert c, E_CAKey c) n = (n1, Inr (caCert, caKey))" "E_CACert c = [] \<longrightarrow> E_CAKey c = []" and
    leaves: "etcdLeaf x c ''kube-etcd'' (E_dnsSANs c @ [E_hostname c]) (E_ipSANs c @ [[127, 0, 0, 1]]) ca
        ''using an external etcd CA with specifying an etcd server certificate is not possible''
        (E_ServerCert c, E_ServerKey c) n1 = (n2, Inr (sc, sk))"
      "etcdLeaf x c ''kube-etcd-peer'' (E_dnsSANs c @ [E_hostname c]) (E_ipSANs c @ [[127, 0, 0, 1]]) ca
        ''using an external etcd CA with specifying an etcd server peer certificate is not possible''
        (E_ServerPeerCert c, E_ServerPeerKey c) n2 = (n3, Inr (pc, pk))"
      "etcdLeaf x c ''kube-apiserver-etcd-client'' [] [] ca
        ''using an external etcd CA with specifying an etcd apiserver client certificate is not possible''
        (E_APIServerClientCert c, E_APIServerClientKey c) n3 = (n4, Inr (ac, ak))" and
    c': "c' = c\<lparr>E_CACert := caCert, E_CAKey := caKey, E_ServerCert := sc, E_ServerKey := sk,
               E_ServerPeerCert := pc, E_ServerPeerKey := pk,
               E_APIServerClientCert := ac, E_APIServerClientKey := ak\<rparr>"
    unfolding Etcd_CompleteCertificates_def
    by (auto simp: tryStep_ok_iff tryPass_ok_iff split: if_splits)
  have "caCert \<noteq> []"
    using completeCA_completed [OF assms(1) ca(1)] ca(2) by (auto simp: completedCA_def)
  then show ?thesis
    using leaf [OF leaves(1)] leaf [OF leaves(2)] leaf [OF leaves(3)] by (simp add: c')
qed

definition sampleEtcdPKI :: EtcdPKI where
  "sampleEtcdPKI = \<lparr>E_allowSelfSignedCA = True, E_hostname = ''n1'', E_ipSANs = [], E_dnsSANs = [],
     E_notBefore = 0, E_notAfter = 100, E_CACert = [], E_CAKey = [], E_ServerCert = ''given'', E_ServerKey = [],
     E_ServerPeerCert = [], E_ServerPeerKey = [], E_APIServerClientCert = [], E_APIServerClientKey = []\<rparr>"

theorem Etcd_CompleteCertificates_fills_witness:
  "\<exists>n' c'. Etcd_CompleteCertificates sampleCrypto sampleEtcdPKI 0 = (n', Inr c') \<and>
     E_ServerCert c' = ''given'' \<and> E_ServerKey c' = [] \<and> E_ServerPeerKey c' \<noteq> []"
proof -
  obtain n' c' where run: "Etcd_CompleteCertificates sampleCrypto sampleEtcdPKI 0 = (n', Inr c')"
    by (simp add: Etcd_CompleteCertificates_def sampleEtcdPKI_def etcdLeaf_def sample_CA sample_load sample_sign)
  from Etcd_CompleteCertificates_fills [OF sampleCrypto_pem run] run show ?thesis
    by (simp add: sampleEtcdPKI_def)
qed

end
