(* ===== verification/NodeFiles.thy ===== *)
theory NodeFiles
  imports PKI
begin

text \<open>
  The certificate files and kubeconfigs of a node (\<open>pkg/k8sd/setup/certificates.go\<close>,
  \<open>util_kubeconfig.go\<close>, \<open>util_extra_files.go\<close>): writing them, and reading the certificates of a
  control plane node back from disk.

  The encoding of a kubeconfig is a library's; \<open>kubeconfigIO\<close> holds its two functions, and the
  hypothesis \<open>kubeconfigCodec\<close> says that a kubeconfig whose user has a certificate and a key is
  read back as it was written.
\<close>

section \<open>Ensuring files\<close>

definition ensureContents ::
  "string \<Rightarrow> string \<Rightarrow> int \<Rightarrow> int \<Rightarrow> 32 word \<Rightarrow> string \<Rightarrow> Host \<Rightarrow> (Host, bool) step"
where
  "ensureContents fname contents uid gid m origContent h =
     tryPass (if contents \<noteq> origContent
              then tryStep (WriteFile h fname contents m) ''failed to write: %w'' [] (\<lambda>h _. (h, Inr True))
              else (h, Inr False)) (\<lambda>h contentChanged.
     tryStep (osChown h fname uid gid) ''failed to chown: %w'' [] (\<lambda>h _.
     tryStep (osChmod h fname m) ''failed to chmod: %w'' [] (\<lambda>h _. (h, Inr contentChanged))))"

definition ensureFile ::
  "string \<Rightarrow> string \<Rightarrow> int \<Rightarrow> int \<Rightarrow> 32 word \<Rightarrow> Host \<Rightarrow> (Host, bool) step"
where
  "ensureFile fname contents uid gid m h =
     (if contents = [] then
        (case osRemove h fname of
           (h, Inl e) \<Rightarrow>
             if \<not> IsNotExist e then (h, Inl (Wrapf ''failed to delete: %w'' [] e)) else (h, Inr False)
         | (h, Inr _) \<Rightarrow> (h, Inr True))
      else
        (case ReadFile h fname of
           Inl e \<Rightarrow>
             if \<not> IsNotExist e then (h, Inl (Wrapf ''failed to read: %w'' [] e))
             else ensureContents fname contents uid gid m [] h
         | Inr origContent \<Rightarrow> ensureContents fname contents uid gid m origContent h))"

text \<open>\<open>filepath.Base\<close> of the name only appears in the error text; the name itself is kept.\<close>

fun ensureFiles ::
  "int \<Rightarrow> int \<Rightarrow> 32 word \<Rightarrow> string gomap \<Rightarrow> bool \<Rightarrow> Host \<Rightarrow> (Host, bool) step"
where
  "ensureFiles uid gid m [] changed h = (h, Inr changed)"
| "ensureFiles uid gid m ((fname, content) # files) changed h =
     tryStep (ensureFile fname content uid gid m h) ''failed to configure %s: %w'' [fname]
       (\<lambda>h v. ensureFiles uid gid m files (changed \<or> v) h)"

abbreviation k8sFile :: "string \<Rightarrow> string" where
  "k8sFile \<equiv> pathJoin snapKubernetesPKIDir"

abbreviation etcdFile :: "string \<Rightarrow> string" where
  "etcdFile \<equiv> pathJoin snapEtcdPKIDir"

definition extDatastoreFiles :: "ExternalDatastorePKI \<Rightarrow> string gomap" where
  "extDatastoreFiles c =
     [(etcdFile ''ca.crt'', DatastoreCACert c), (etcdFile ''client.key'', DatastoreClientKey c),
      (etcdFile ''client.crt'', DatastoreClientCert c)]"

definition EnsureExtDatastorePKI :: "ExternalDatastorePKI \<Rightarrow> Host \<Rightarrow> (Host, bool) step" where
  "EnsureExtDatastorePKI c h = ensureFiles snapUID snapGID perm600 (extDatastoreFiles c) False h"

definition controlPlaneFiles :: "ControlPlanePKI \<Rightarrow> string gomap" where
  "controlPlaneFiles c =
     [(k8sFile ''apiserver-kubelet-client.crt'', APIServerKubeletClientCert c),
      (k8sFile ''apiserver-kubelet-client.key'', APIServerKubeletClientKey c),
      (k8sFile ''apiserver.crt'', APIServerCert c),
      (k8sFile ''apiserver.key'', APIServerKey c),
      (k8sFile ''ca.crt'', CACert c),
      (k8sFile ''ca.key'', CAKey c),
      (k8sFile ''client-ca.crt'', ClientCACert c),
      (k8sFile ''client-ca.key'', ClientCAKey c),
      (k8sFile ''front-proxy-ca.crt'', FrontProxyCACert c),
      (k8sFile ''front-proxy-ca.key'', FrontProxyCAKey c),
      (k8sFile ''front-proxy-client.crt'', FrontProxyClientCert c),
      (k8sFile ''front-proxy-client.key'', FrontProxyClientKey c),
      (k8sFile ''kubelet.crt'', KubeletCert c),
      (k8sFile ''kubelet.key'', KubeletKey c),
      (k8sFile ''serviceaccount.key'', ServiceAccountKey c)]"

definition EnsureControlPlanePKI :: "ControlPlanePKI \<Rightarrow> Host \<Rightarrow> (Host, bool) step" where
  "EnsureControlPlanePKI c h = ensureFiles snapUID snapGID perm600 (controlPlaneFiles c) False h"

definition workerFiles :: "WorkerNodePKI \<Rightarrow> string gomap" where
  "workerFiles c =
     [(k8sFile ''ca.crt'', W_CACert c), (k8sFile ''client-ca.crt'', W_ClientCACert c),
      (k8sFile ''kubelet.crt'', W_KubeletCert c), (k8sFile ''kubelet.key'', W_KubeletKey c)]"

definition EnsureWorkerPKI :: "WorkerNodePKI \<Rightarrow> Host \<Rightarrow> (Host, bool) step" where
  "EnsureWorkerPKI c h = ensureFiles snapUID snapGID perm600 (workerFiles c) False h"

definition etcdFiles :: "EtcdPKI \<Rightarrow> string gomap" where
  "etcdFiles c =
     [(etcdFile ''ca.crt'', E_CACert c), (etcdFile ''server.crt'', E_ServerCert c),
      (etcdFile ''server.key'', E_ServerKey c), (etcdFile ''peer.crt'', E_ServerPeerCert c),
      (etcdFile ''peer.key'', E_ServerPeerKey c),
      (k8sFile ''apiserver-etcd-client.crt'', E_APIServerClientCert c),
      (k8sFile ''apiserver-etcd-client.key'', E_APIServerClientKey c)]"

definition EnsureEtcdPKI :: "EtcdPKI \<Rightarrow> Host \<Rightarrow> (Host, bool) step" where
  "EnsureEtcdPKI c h = ensureFiles snapUID snapGID perm600 (etcdFiles c) False h"

text \<open>\<open>ExtraNodeConfigFiles\<close>: a name with a slash is refused.\<close>

fun ExtraNodeConfigFiles :: "Snap \<Rightarrow> string gomap \<Rightarrow> Host \<Rightarrow> (Host, unit) step" where
  "ExtraNodeConfigFiles s [] h = (h, ok)"
| "ExtraNodeConfigFiles s ((filename, content) # files) h =
     (if CHR ''/'' \<in> set filename then
        (h, Inl (Errorf ''file name %q must not contain any slashes (possible path-traversal prevented)'' [filename]))
      else
        (let filePath = pathJoin (ServiceExtraConfigDir s) filename in
         tryStep (WriteFile h filePath content perm400) ''failed to write to file %s: %w'' [filePath] (\<lambda>h _.
         tryStep (osChown h filePath snapUID snapGID) ''failed to change owner of file %s: %w'' [filePath] (\<lambda>h _.
         ExtraNodeConfigFiles s files h))))"

section \<open>Kubeconfigs\<close>

record AuthInfo =
  ClientCertificateData :: "string ptr"
  ClientKeyData :: "string ptr"

record Cluster =
  CertificateAuthorityData :: string
  Server :: string

record KubeConfig =
  Clusters :: "Cluster gomap"
  AuthInfos :: "AuthInfo gomap"
  Contexts :: "(string \<times> string) gomap"
  CurrentContext :: string

definition createConfig :: "string \<Rightarrow> string \<Rightarrow> string \<Rightarrow> string \<Rightarrow> KubeConfig" where
  "createConfig server caPEM crtPEM keyPEM =
     (let server = (if \<not> HasPrefix server ''http'' then ''https://'' @ server else server) in
      \<lparr>Clusters = [(''k8s'', \<lparr>CertificateAuthorityData = caPEM, Server = server\<rparr>)],
       AuthInfos = [(''k8s-user'', \<lparr>ClientCertificateData = Some crtPEM, ClientKeyData = Some keyPEM\<rparr>)],
       Contexts = [(''k8s'', (''k8s'', ''k8s-user''))], CurrentContext = ''k8s''\<rparr>)"

record kubeconfigIO =
  kubeconfigWrite :: "KubeConfig \<Rightarrow> string res"
  kubeconfigLoad :: "string \<Rightarrow> KubeConfig res"

text \<open>\<open>clientcmd.WriteToFile\<close> and \<open>clientcmd.LoadFromFile\<close>\<close>

definition Kubeconfig ::
  "kubeconfigIO \<Rightarrow> string \<Rightarrow> string \<Rightarrow> string \<Rightarrow> string \<Rightarrow> string \<Rightarrow> Host \<Rightarrow> (Host, unit) step"
where
  "Kubeconfig io path url caPEM crtPEM keyPEM h =
     (case kubeconfigWrite io (createConfig url caPEM crtPEM keyPEM) of
        Inl e \<Rightarrow> (h, Inl (Wrapf ''failed to write kubeconfig: %w'' [] e))
      | Inr data \<Rightarrow>
          tryStep (osWriteFile h path data perm600) ''failed to write kubeconfig: %w'' [] (\<lambda>h _. (h, ok)))"

definition KubeconfigString ::
  "kubeconfigIO \<Rightarrow> string \<Rightarrow> string \<Rightarrow> string \<Rightarrow> string \<Rightarrow> string res"
where
  "KubeconfigString io url caPEM crtPEM keyPEM =
     (case kubeconfigWrite io (createConfig url caPEM crtPEM keyPEM) of
        Inl e \<Rightarrow> Inl (Wrapf ''failed to encode kubeconfig yaml: %w'' [] e)
      | Inr data \<Rightarrow> Inr data)"

fun kubeconfigLoop ::
  "kubeconfigIO \<Rightarrow> string \<Rightarrow> string \<Rightarrow> string \<Rightarrow> (string \<times> string \<times> string) list \<Rightarrow> Host \<Rightarrow> (Host, unit) step"
where
  "kubeconfigLoop io dir url caPEM [] h = (h, ok)"
| "kubeconfigLoop io dir url caPEM ((file, crt, key) # ks) h =
     tryStep (Kubeconfig io (pathJoin dir file) url caPEM crt key h) ''failed to write kubeconfig %s: %w'' [file]
       (\<lambda>h _. kubeconfigLoop io dir url caPEM ks h)"

text \<open>The server address is \<open>fmt.Sprintf("%s:%d", localhostAddress, securePort)\<close>.\<close>

definition kubeconfigServer :: "IP \<Rightarrow> int \<Rightarrow> string" where
  "kubeconfigServer localhostAddress securePort = IPString localhostAddress @ '':'' @ Itoa securePort"

definition controlPlaneKubeconfigs :: "ControlPlanePKI \<Rightarrow> (string \<times> string \<times> string) list" where
  "controlPlaneKubeconfigs c =
     [(''admin.conf'', AdminClientCert c, AdminClientKey c),
      (''controller.conf'', KubeControllerManagerClientCert c, KubeControllerManagerClientKey c),
      (''proxy.conf'', KubeProxyClientCert c, KubeProxyClientKey c),
      (''scheduler.conf'', KubeSchedulerClientCert c, KubeSchedulerClientKey c),
      (''kubelet.conf'', KubeletClientCert c, KubeletClientKey c)]"

definition SetupControlPlaneKubeconfigs ::
  "kubeconfigIO \<Rightarrow> IP res \<Rightarrow> string \<Rightarrow> int \<Rightarrow> ControlPlanePKI \<Rightarrow> Host \<Rightarrow> (Host, unit) step"
where
  "SetupControlPlaneKubeconfigs io localhost dir securePort c h =
     (case localhost of
        Inl e \<Rightarrow> (h, Inl (Wrapf ''failed to get localhost address: %w'' [] e))
      | Inr ip \<Rightarrow> kubeconfigLoop io dir (kubeconfigServer ip securePort) (CACert c) (controlPlaneKubeconfigs c) h)"

definition SetupWorkerKubeconfigs ::
  "kubeconfigIO \<Rightarrow> IP res \<Rightarrow> string \<Rightarrow> int \<Rightarrow> WorkerNodePKI \<Rightarrow> Host \<Rightarrow> (Host, unit) step"
where
  "SetupWorkerKubeconfigs io localhost dir securePort c h =
     (case localhost of
        Inl e \<Rightarrow> (h, Inl (Wrapf ''failed to get localhost address: %w'' [] e))
      | Inr ip \<Rightarrow>
          kubeconfigLoop io dir (kubeconfigServer ip securePort) (W_CACert c)
            [(''kubelet.conf'', W_KubeletClientCert c, W_KubeletClientKey c),
             (''proxy.conf'', W_KubeProxyClientCert c, W_KubeProxyClientKey c)] h)"

section \<open>Reading the certificates back\<close>

text \<open>The table of the files: path, whether to read it, and the field it fills.\<close>

type_synonym readEntry = "string \<times> bool \<times> (string \<Rightarrow> ControlPlanePKI \<Rightarrow> ControlPlanePKI)"

definition fileFields :: "bool \<Rightarrow> bool \<Rightarrow> bool \<Rightarrow> bool \<Rightarrow> readEntry list" where
  "fileFields readManaged ca clientCA frontProxyCA =
     [(k8sFile ''ca.crt'', True, \<lambda>v. CACert_update (\<lambda>_. v)),
      (k8sFile ''client-ca.crt'', True, \<lambda>v. ClientCACert_update (\<lambda>_. v)),
      (k8sFile ''front-proxy-ca.crt'', True, \<lambda>v. FrontProxyCACert_update (\<lambda>_. v)),
      (k8sFile ''ca.key'', readManaged \<and> ca, \<lambda>v. CAKey_update (\<lambda>_. v)),
      (k8sFile ''client-ca.key'', readManaged \<and> clientCA, \<lambda>v. ClientCAKey_update (\<lambda>_. v)),
      (k8sFile ''front-proxy-ca.key'', readManaged \<and> frontProxyCA, \<lambda>v. FrontProxyCAKey_update (\<lambda>_. v)),
      (k8sFile ''apiserver.crt'', readManaged = ca, \<lambda>v. APIServerCert_update (\<lambda>_. v)),
      (k8sFile ''apiserver.key'', readManaged = ca, \<lambda>v. APIServerKey_update (\<lambda>_. v)),
      (k8sFile ''kubelet.crt'', readManaged = ca, \<lambda>v. KubeletCert_update (\<lambda>_. v)),
      (k8sFile ''kubelet.key'', readManaged = ca, \<lambda>v. KubeletKey_update (\<lambda>_. v)),
      (k8sFile ''front-proxy-client.crt'', readManaged = frontProxyCA, \<lambda>v. FrontProxyClientCert_update (\<lambda>_. v)),
      (k8sFile ''front-proxy-client.key'', readManaged = frontProxyCA, \<lambda>v. FrontProxyClientKey_update (\<lambda>_. v)),
      (k8sFile ''apiserver-kubelet-client.crt'', readManaged = clientCA, \<lambda>v. APIServerKubeletClientCert_update (\<lambda>_. v)),
      (k8sFile ''apiserver-kubelet-client.key'', readManaged = clientCA, \<lambda>v. APIServerKubeletClientKey_update (\<lambda>_. v)),
      (k8sFile ''serviceaccount.key'', True, \<lambda>v. ServiceAccountKey_update (\<lambda>_. v))]"

fun readFileLoop :: "Host \<Rightarrow> readEntry list \<Rightarrow> ControlPlanePKI \<Rightarrow> ControlPlanePKI res" where
  "readFileLoop h [] c = Inr c"
| "readFileLoop h ((path, rd, setField) # es) c =
     (if \<not> rd then readFileLoop h es c
      else (case ReadFile h path of
              Inl e \<Rightarrow> Inl (Wrapf ''failed to read file %s: %w'' [path] e)
            | Inr content \<Rightarrow> readFileLoop h es (setField content c)))"

type_synonym kubeconfigEntry =
  "string \<times> (string \<Rightarrow> ControlPlanePKI \<Rightarrow> ControlPlanePKI) \<times> (string \<Rightarrow> ControlPlanePKI \<Rightarrow> ControlPlanePKI)"

definition kubeconfigFields :: "kubeconfigEntry list" where
  "kubeconfigFields =
     [(''admin.conf'', \<lambda>v. AdminClientCert_update (\<lambda>_. v), \<lambda>v. AdminClientKey_update (\<lambda>_. v)),
      (''controller.conf'', \<lambda>v. KubeControllerManagerClientCert_update (\<lambda>_. v),
         \<lambda>v. KubeControllerManagerClientKey_update (\<lambda>_. v)),
      (''scheduler.conf'', \<lambda>v. KubeSchedulerClientCert_update (\<lambda>_. v), \<lambda>v. KubeSchedulerClientKey_update (\<lambda>_. v)),
      (''proxy.conf'', \<lambda>v. KubeProxyClientCert_update (\<lambda>_. v), \<lambda>v. KubeProxyClientKey_update (\<lambda>_. v)),
      (''kubelet.conf'', \<lambda>v. KubeletClientCert_update (\<lambda>_. v), \<lambda>v. KubeletClientKey_update (\<lambda>_. v))]"

definition LoadFromFile :: "kubeconfigIO \<Rightarrow> Host \<Rightarrow> string \<Rightarrow> KubeConfig res" where
  "LoadFromFile io h path = (case ReadFile h path of Inl e \<Rightarrow> Inl e | Inr d \<Rightarrow> kubeconfigLoad io d)"

fun readKubeconfigLoop ::
  "kubeconfigIO \<Rightarrow> Host \<Rightarrow> bool \<Rightarrow> kubeconfigEntry list \<Rightarrow> ControlPlanePKI \<Rightarrow> ControlPlanePKI res"
where
  "readKubeconfigLoop io h rd [] c = Inr c"
| "readKubeconfigLoop io h rd ((name, setCert, setKey) # es) c =
     (if \<not> rd then readKubeconfigLoop io h rd es c
      else (case LoadFromFile io h (pathJoin KubernetesConfigDir name) of
          Inl e \<Rightarrow> Inl (Wrapf ''failed to load kubeconfig %s: %w'' [name] e)
        | Inr cfg \<Rightarrow>
            (case map_of (AuthInfos cfg) ''k8s-user'' of
               None \<Rightarrow> Inl (Errorf ''user 'k8s-user' not found in kubeconfig %s'' [name])
             | Some a \<Rightarrow>
                 (let c = (case ClientCertificateData a of None \<Rightarrow> c | Some v \<Rightarrow> setCert v c);
                      c = (case ClientKeyData a of None \<Rightarrow> c | Some v \<Rightarrow> setKey v c)
                  in readKubeconfigLoop io h rd es c))))"

definition ReadControlPlanePKI ::
  "kubeconfigIO \<Rightarrow> bool \<Rightarrow> ControlPlanePKI \<Rightarrow> Host \<Rightarrow> ControlPlanePKI res"
where
  "ReadControlPlanePKI io readManaged c h =
     (case FileExists h (k8sFile ''ca.key'') of
        Inl e \<Rightarrow> Inl (Wrapf ''failed to check if ca.key exists: %w'' [] e)
      | Inr ca \<Rightarrow> (case FileExists h (k8sFile ''client-ca.key'') of
        Inl e \<Rightarrow> Inl (Wrapf ''failed to check if client-ca.key exists: %w'' [] e)
      | Inr clientCA \<Rightarrow> (case FileExists h (k8sFile ''front-proxy-ca.key'') of
        Inl e \<Rightarrow> Inl (Wrapf ''failed to check if front-proxy-ca.key: %w'' [] e)
      | Inr frontProxyCA \<Rightarrow>
          (case readFileLoop h (fileFields readManaged ca clientCA frontProxyCA) c of
             Inl e \<Rightarrow> Inl e
           | Inr c \<Rightarrow> readKubeconfigLoop io h (readManaged = clientCA) kubeconfigFields c))))"

section \<open>Lemmas\<close>

text \<open>A refused operation is not reported as a missing file.\<close>

definition honestFaults :: "Host \<Rightarrow> bool" where
  "honestFaults h \<longleftrightarrow> (\<forall>op p. H_fault h op p \<noteq> Some ErrNotExist)"

lemma noFaults_honest: "noFaults h \<Longrightarrow> honestFaults h"
  by (simp add: noFaults_def honestFaults_def)

lemma honestFaults_setFile [simp]: "honestFaults (setFile p n h) = honestFaults h"
  by (simp add: honestFaults_def)

text \<open>The node of an ensured file; empty contents mean no file.\<close>

definition ensuredNode :: "string \<Rightarrow> int \<Rightarrow> int \<Rightarrow> 32 word \<Rightarrow> FileNode option" where
  "ensuredNode contents uid gid m =
     (if contents = [] then None
      else Some \<lparr>F_data = contents, F_uid = uid, F_gid = gid, F_mode = m\<rparr>)"

lemma setFile_setFile [simp]: "setFile p a (setFile p b h) = setFile p a h"
  by (simp add: setFile_def)

lemma osChown_ok: "osChown h p u g = (h', Inr x) \<Longrightarrow>
    \<exists>n. H_files h p = Some n \<and> h' = setFile p (Some (n\<lparr>F_uid := u, F_gid := g\<rparr>)) h"
  by (auto simp: osChown_def split: option.splits)

lemma osChmod_ok: "osChmod h p m = (h', Inr x) \<Longrightarrow>
    \<exists>n. H_files h p = Some n \<and> h' = setFile p (Some (n\<lparr>F_mode := m\<rparr>)) h"
  by (auto simp: osChmod_def split: option.splits)

lemma ensureContents_ok:
  assumes "ensureContents f c u g m orig h = (h', Inr ch)"
    "orig = getField [] (map_option F_data (H_files h f))"
  shows "h' = setFile f (Some \<lparr>F_data = c, F_uid = u, F_gid = g, F_mode = m\<rparr>) h \<and> (ch \<longleftrightarrow> c \<noteq> orig)"
proof -
  from assms(1) obtain h1 h2 where
    w: "(if c \<noteq> orig then tryStep (WriteFile h f c m) ''failed to write: %w'' [] (\<lambda>h _. (h, Inr True))
         else (h, Inr False)) = (h1, Inr ch)"
    and o: "osChown h1 f u g = (h2, ok)" and d: "osChmod h2 f m = (h', ok)"
    by (auto simp: ensureContents_def tryPass_ok_iff tryStep_ok_iff)
  obtain n where n: "H_files h1 f = Some n" "h2 = setFile f (Some (n\<lparr>F_uid := u, F_gid := g\<rparr>)) h1"
    using osChown_ok [OF o] by blast
  have h': "h' = setFile f (Some (n\<lparr>F_uid := u, F_gid := g, F_mode := m\<rparr>)) h1"
    using osChmod_ok [OF d] n(2) by auto
  show ?thesis
  proof (cases "c = orig")
    case True
    with w have "h1 = h" "\<not> ch" by auto
    with n assms(2) True h' show ?thesis by (cases n) simp
  next
    case False
    with w have "h1 = setFile f (Some (newNode h c m)) h" and ch
      by (auto simp: tryStep_ok_iff dest: WriteFile_okD)
    with n h' False show ?thesis by (auto simp: newNode_def)
  qed
qed

lemma ensureFile_ok:
  assumes "honestFaults h" "ensureFile f c u g m h = (h', Inr ch)"
  shows "h' = setFile f (ensuredNode c u g m) h \<and>
    (ch \<longleftrightarrow> map_option F_data (H_files h f) \<noteq> (if c = [] then None else Some c))"
proof (cases "c = []")
  case True
  have "setFile f None h = h" if "H_files h f = None"
    using that by (simp add: setFile_def fun_upd_idem)
  with assms True show ?thesis
    by (auto simp: ensureFile_def osRemove_def ensuredNode_def honestFaults_def split: option.splits if_splits)
next
  case False
  have "ensureContents f c u g m (getField [] (map_option F_data (H_files h f))) h = (h', Inr ch)"
    using assms False
    by (auto simp: ensureFile_def ReadFile_def honestFaults_def split: option.splits if_splits)
  from ensureContents_ok [OF this] False show ?thesis
    by (cases "H_files h f") (auto simp: ensuredNode_def)
qed

lemma ensureFiles_ok:
  "honestFaults h \<Longrightarrow> goodMap fs \<Longrightarrow> ensureFiles u g m fs ch h = (h', Inr ch') \<Longrightarrow>
   H_files h' = (\<lambda>p. case map_of fs p of None \<Rightarrow> H_files h p | Some c \<Rightarrow> ensuredNode c u g m) \<and>
   H_fault h' = H_fault h \<and> H_cmds h' = H_cmds h \<and> H_cmdFault h' = H_cmdFault h \<and>
   (ch' \<longleftrightarrow> ch \<or> (\<exists>(f, c) \<in> set fs. map_option F_data (H_files h f) \<noteq> (if c = [] then None else Some c)))"
proof (induction u g m fs ch h rule: ensureFiles.induct)
  case (2 uid gid m f c fs ch h)
  from 2(4) obtain h1 v where
    step: "ensureFile f c uid gid m h = (h1, Inr v)" and
    rest: "ensureFiles uid gid m fs (ch \<or> v) h1 = (h', Inr ch')"
    by (auto simp: tryStep_ok_iff)
  note e = ensureFile_ok [OF 2(2) step]
  have h1: "h1 = setFile f (ensuredNode c uid gid m) h" using e by simp
  have fresh: "f \<notin> fst ` set fs" using 2(3) by simp
  have ih: "H_files h' = (\<lambda>p. case map_of fs p of None \<Rightarrow> H_files h1 p | Some c \<Rightarrow> ensuredNode c uid gid m)"
    "H_fault h' = H_fault h1" "H_cmds h' = H_cmds h1" "H_cmdFault h' = H_cmdFault h1"
    "ch' \<longleftrightarrow> (ch \<or> v) \<or> (\<exists>(f, c) \<in> set fs. map_option F_data (H_files h1 f) \<noteq> (if c = [] then None else Some c))"
    using 2(1) [of h1 v] 2(2,3) rest h1 by auto
  have same: "(\<exists>(f, c) \<in> set fs. map_option F_data (H_files h1 f) \<noteq> (if c = [] then None else Some c)) \<longleftrightarrow>
    (\<exists>(f, c) \<in> set fs. map_option F_data (H_files h f) \<noteq> (if c = [] then None else Some c))"
    by (rule bex_cong) (use fresh h1 in \<open>auto simp: image_iff\<close>)
  have "map_of fs f = None" using fresh by (simp add: map_of_eq_None_iff)
  then show ?case
    using ih(1-4) h1 e unfolding ih(5) same by (auto simp: fun_eq_iff split: option.splits)
qed auto

lemma ensureFiles_total:
  "noFaults h \<Longrightarrow> \<exists>h' ch'. ensureFiles u g m fs ch h = (h', Inr ch')"
proof (induction u g m fs ch h rule: ensureFiles.induct)
  case (2 uid gid m f c fs ch h)
  have "\<exists>h1 v. ensureFile f c uid gid m h = (h1, Inr v)"
    using 2(2)
    by (cases "H_files h f")
      (auto simp: ensureFile_def osRemove_def ReadFile_def ensureContents_def osChown_def osChmod_def newNode_def)
  then obtain h1 v where step: "ensureFile f c uid gid m h = (h1, Inr v)" by blast
  have "noFaults h1" using ensureFile_ok [OF noFaults_honest [OF 2(2)] step] 2(2) by simp
  with 2(1) step show ?case by simp
qed simp

section \<open>Reading back what was written\<close>

text \<open>What the program relies on: an encoded kubeconfig with a certificate and a key reads back.\<close>

definition kubeconfigCodec :: "kubeconfigIO \<Rightarrow> bool" where
  "kubeconfigCodec io \<longleftrightarrow>
     (\<forall>url ca crt key. crt \<noteq> [] \<and> key \<noteq> [] \<longrightarrow>
        (\<exists>d. kubeconfigWrite io (createConfig url ca crt key) = Inr d \<and>
             kubeconfigLoad io d = Inr (createConfig url ca crt key)))"

lemma plainNames [simp]:
  "plainName ''ca.crt''" "plainName ''ca.key''" "plainName ''client-ca.crt''" "plainName ''client-ca.key''"
  "plainName ''front-proxy-ca.crt''" "plainName ''front-proxy-ca.key''" "plainName ''apiserver.crt''"
  "plainName ''apiserver.key''" "plainName ''kubelet.crt''" "plainName ''kubelet.key''"
  "plainName ''front-proxy-client.crt''" "plainName ''front-proxy-client.key''"
  "plainName ''apiserver-kubelet-client.crt''" "plainName ''apiserver-kubelet-client.key''"
  "plainName ''serviceaccount.key''" "plainName ''admin.conf''" "plainName ''controller.conf''"
  "plainName ''proxy.conf''" "plainName ''scheduler.conf''" "plainName ''kubelet.conf''"
  "plainName ''client.crt''" "plainName ''client.key''" "plainName ''server.crt''" "plainName ''server.key''"
  "plainName ''peer.crt''" "plainName ''peer.key''" "plainName ''apiserver-etcd-client.crt''"
  "plainName ''apiserver-etcd-client.key''"
  by (simp_all add: plainName_def)

lemma controlPlaneFiles_good: "goodMap (controlPlaneFiles c)"
  by (simp add: controlPlaneFiles_def filepathJoin_inject)

text \<open>A kubeconfig and a certificate file never share a path.\<close>

lemma pki_config_paths: "plainName a \<Longrightarrow> plainName b \<Longrightarrow> k8sFile a \<noteq> pathJoin KubernetesConfigDir b"
proof -
  assume a: "plainName a" and b: "plainName b"
  have ca: "k8sFile a = ''/etc/kubernetes/pki/'' @ a"
    using a by (simp add: snapKubernetesPKIDir_def filepathJoin_def filepathClean_def HasPrefix_def
        pathElems_def plainName_def splitOn_no_sep)
  have cb: "pathJoin KubernetesConfigDir b = ''/etc/kubernetes/'' @ b"
    using b by (simp add: KubernetesConfigDir_def filepathJoin_def filepathClean_def HasPrefix_def
        pathElems_def plainName_def splitOn_no_sep)
  show ?thesis
  proof
    assume "k8sFile a = pathJoin KubernetesConfigDir b"
    then have "''pki/'' @ a = b" unfolding ca cb by simp
    then have "CHR ''/'' \<in> set b" by auto
    with b show False by (simp add: plainName_def)
  qed
qed

lemma Kubeconfig_ok:
  assumes "kubeconfigCodec io" "crt \<noteq> []" "key \<noteq> []" "noFaults h"
  shows "\<exists>n. Kubeconfig io p url ca crt key h = (setFile p (Some n) h, ok) \<and>
    kubeconfigLoad io (F_data n) = Inr (createConfig url ca crt key)"
proof -
  obtain d where d: "kubeconfigWrite io (createConfig url ca crt key) = Inr d"
    "kubeconfigLoad io d = Inr (createConfig url ca crt key)"
    using assms(1) [unfolded kubeconfigCodec_def] assms(2,3) by blast
  then show ?thesis
    using assms(4) by (cases "H_files h p") (auto simp: Kubeconfig_def osWriteFile_def)
qed

text \<open>Writing a list of kubeconfigs; each of them can be loaded afterwards.\<close>

lemma kubeconfigLoop_ok:
  assumes "kubeconfigCodec io"
  shows "noFaults h \<Longrightarrow> distinct (map fst ks) \<Longrightarrow>
    \<forall>(f, crt, key) \<in> set ks. plainName f \<and> crt \<noteq> [] \<and> key \<noteq> [] \<Longrightarrow>
    \<exists>h'. kubeconfigLoop io dir url ca ks h = (h', ok) \<and> noFaults h' \<and>
      (\<forall>(f, crt, key) \<in> set ks. LoadFromFile io h' (pathJoin dir f) = Inr (createConfig url ca crt key)) \<and>
      (\<forall>p. p \<notin> (pathJoin dir \<circ> fst) ` set ks \<longrightarrow> H_files h' p = H_files h p)"
proof (induction ks arbitrary: h)
  case (Cons k ks)
  obtain f crt key where k: "k = (f, crt, key)" by (cases k)
  obtain n where n: "Kubeconfig io (pathJoin dir f) url ca crt key h = (setFile (pathJoin dir f) (Some n) h, ok)"
    "kubeconfigLoad io (F_data n) = Inr (createConfig url ca crt key)"
    using Kubeconfig_ok [OF assms, of crt key h "pathJoin dir f" url ca] Cons.prems by (auto simp: k)
  let ?h1 = "setFile (pathJoin dir f) (Some n) h"
  obtain h' where h': "kubeconfigLoop io dir url ca ks ?h1 = (h', ok)" "noFaults h'"
    "\<forall>(f, crt, key) \<in> set ks. LoadFromFile io h' (pathJoin dir f) = Inr (createConfig url ca crt key)"
    "\<forall>p. p \<notin> (pathJoin dir \<circ> fst) ` set ks \<longrightarrow> H_files h' p = H_files ?h1 p"
    using Cons.IH [of ?h1] Cons.prems by auto
  have "pathJoin dir f \<notin> (pathJoin dir \<circ> fst) ` set ks"
    using Cons.prems filepathJoin_inject by (fastforce simp: k image_iff)
  then have fn: "H_files h' (pathJoin dir f) = Some n" using h'(4) by simp
  have "LoadFromFile io h' (pathJoin dir f) = Inr (createConfig url ca crt key)"
    using fn h'(2) n(2) by (simp add: LoadFromFile_def ReadFile_def)
  then show ?case
    using h' n(1) by (auto simp: k)
qed simp

text \<open>
  The certificates that a read gives, from those stored on the node (\<open>pki\<close>) and those of the
  caller (\<open>c\<close>): a certificate is read when its CA key is on the node and managed certificates
  are asked for, or when it is not and external ones are.
\<close>

definition storedPKI :: "bool \<Rightarrow> ControlPlanePKI \<Rightarrow> ControlPlanePKI \<Rightarrow> ControlPlanePKI" where
  "storedPKI managed pki c =
     (let c = c\<lparr>CACert := CACert pki, ClientCACert := ClientCACert pki, FrontProxyCACert := FrontProxyCACert pki,
                ServiceAccountKey := ServiceAccountKey pki\<rparr>;
          c = (if managed \<and> CAKey pki \<noteq> [] then c\<lparr>CAKey := CAKey pki\<rparr> else c);
          c = (if managed \<and> ClientCAKey pki \<noteq> [] then c\<lparr>ClientCAKey := ClientCAKey pki\<rparr> else c);
          c = (if managed \<and> FrontProxyCAKey pki \<noteq> [] then c\<lparr>FrontProxyCAKey := FrontProxyCAKey pki\<rparr> else c);
          c = (if managed = (CAKey pki \<noteq> []) then
                 c\<lparr>APIServerCert := APIServerCert pki, APIServerKey := APIServerKey pki,
                   KubeletCert := KubeletCert pki, KubeletKey := KubeletKey pki\<rparr> else c);
          c = (if managed = (FrontProxyCAKey pki \<noteq> []) then
                 c\<lparr>FrontProxyClientCert := FrontProxyClientCert pki, FrontProxyClientKey := FrontProxyClientKey pki\<rparr> else c)
      in if managed = (ClientCAKey pki \<noteq> []) then
           c\<lparr>APIServerKubeletClientCert := APIServerKubeletClientCert pki,
             APIServerKubeletClientKey := APIServerKubeletClientKey pki,
             AdminClientCert := AdminClientCert pki, AdminClientKey := AdminClientKey pki,
             KubeControllerManagerClientCert := KubeControllerManagerClientCert pki,
             KubeControllerManagerClientKey := KubeControllerManagerClientKey pki,
             KubeSchedulerClientCert := KubeSchedulerClientCert pki,
             KubeSchedulerClientKey := KubeSchedulerClientKey pki,
             KubeProxyClientCert := KubeProxyClientCert pki, KubeProxyClientKey := KubeProxyClientKey pki,
             KubeletClientCert := KubeletClientCert pki, KubeletClientKey := KubeletClientKey pki\<rparr>
         else c)"

definition allPresent :: "ControlPlanePKI \<Rightarrow> bool" where
  "allPresent pki \<longleftrightarrow>
     list_all (\<lambda>(cert, key). cert \<noteq> [] \<and> key \<noteq> []) (leafPairs pki) \<and>
     list_all (\<lambda>(cert, _). cert \<noteq> []) (caPairs pki) \<and> ServiceAccountKey pki \<noteq> []"

lemma FileExists_noFaults: "noFaults h \<Longrightarrow> FileExists h p = Inr (H_files h p \<noteq> None)"
  by (simp add: FileExists_def osStat_def)

lemma ReadFile_stored:
  assumes "noFaults h" "H_files h p = ensuredNode c u g m"
  shows "H_files h p \<noteq> None \<longleftrightarrow> c \<noteq> []" "c \<noteq> [] \<Longrightarrow> ReadFile h p = Inr c"
  using assms by (simp_all add: ensuredNode_def ReadFile_def)

lemma controlPlane_stored:
  assumes "noFaults h" "EnsureControlPlanePKI pki h = (h1, Inr ch)"
    "(f, v) \<in> set (controlPlaneFiles pki)" "\<forall>n. plainName n \<longrightarrow> H_files h2 (k8sFile n) = H_files h1 (k8sFile n)"
    "f = k8sFile n" "plainName n"
  shows "H_files h2 f = ensuredNode v snapUID snapGID perm600"
proof -
  note e = ensureFiles_ok [OF noFaults_honest [OF assms(1)] controlPlaneFiles_good
      assms(2) [unfolded EnsureControlPlanePKI_def]]
  have "map_of (controlPlaneFiles pki) f = Some v"
    using assms(3) controlPlaneFiles_good by simp
  then have "H_files h1 f = ensuredNode v snapUID snapGID perm600" using e by simp
  with assms(4-6) show ?thesis by simp
qed

lemma kubeconfigs_present:
  "allPresent pki \<Longrightarrow>
   \<forall>(f, crt, key) \<in> set (controlPlaneKubeconfigs pki). plainName f \<and> crt \<noteq> [] \<and> key \<noteq> []"
  by (simp add: allPresent_def controlPlaneKubeconfigs_def leafPairs_def)

lemma kubeconfigs_distinct: "distinct (map fst (controlPlaneKubeconfigs pki))"
  by (simp add: controlPlaneKubeconfigs_def)

lemma kubeconfigs_stored:
  assumes "kubeconfigCodec io" "noFaults h1" "allPresent pki"
    and confs: "SetupControlPlaneKubeconfigs io (Inr ip) KubernetesConfigDir port pki h1 = (h2, Inr u)"
  shows "noFaults h2 \<and>
      (\<forall>(f, crt, key) \<in> set (controlPlaneKubeconfigs pki). LoadFromFile io h2 (pathJoin KubernetesConfigDir f) =
         Inr (createConfig (kubeconfigServer ip port) (CACert pki) crt key)) \<and>
      (\<forall>p. p \<notin> (pathJoin KubernetesConfigDir \<circ> fst) ` set (controlPlaneKubeconfigs pki) \<longrightarrow> H_files h2 p = H_files h1 p)"
  using kubeconfigLoop_ok [OF assms(1,2) kubeconfigs_distinct kubeconfigs_present [OF assms(3)],
      of KubernetesConfigDir "kubeconfigServer ip port" "CACert pki"]
    confs [unfolded SetupControlPlaneKubeconfigs_def] by force

lemma ReadControlPlanePKI_reads:
  assumes codec: "kubeconfigCodec io" and h: "noFaults h" and pki: "allPresent pki"
    and files: "EnsureControlPlanePKI pki h = (h1, Inr ch)"
    and confs: "SetupControlPlaneKubeconfigs io (Inr ip) KubernetesConfigDir port pki h1 = (h2, Inr u)"
  shows "ReadControlPlanePKI io managed c h2 = Inr (storedPKI managed pki c)"
proof -
  have h1: "noFaults h1"
    using ensureFiles_ok [OF noFaults_honest [OF h] controlPlaneFiles_good files [unfolded EnsureControlPlanePKI_def]] h
    by (simp add: noFaults_def)
  note loads = kubeconfigs_stored [OF codec h1 pki confs]
  then have h2: "noFaults h2" by blast
  have pki_files: "\<forall>n. plainName n \<longrightarrow> H_files h2 (k8sFile n) = H_files h1 (k8sFile n)"
    using loads pki_config_paths kubeconfigs_present [OF pki] by fastforce
  have st: "plainName n \<Longrightarrow> (k8sFile n, v) \<in> set (controlPlaneFiles pki) \<Longrightarrow>
      (H_files h2 (k8sFile n) \<noteq> None \<longleftrightarrow> v \<noteq> []) \<and> (v \<noteq> [] \<longrightarrow> ReadFile h2 (k8sFile n) = Inr v)" for n v
    using ReadFile_stored [OF h2 controlPlane_stored [OF h files _ pki_files]] by blast
  note stored = st [of "''ca.crt''" "CACert pki"] st [of "''client-ca.crt''" "ClientCACert pki"]
    st [of "''front-proxy-ca.crt''" "FrontProxyCACert pki"] st [of "''ca.key''" "CAKey pki"]
    st [of "''client-ca.key''" "ClientCAKey pki"] st [of "''front-proxy-ca.key''" "FrontProxyCAKey pki"]
    st [of "''apiserver.crt''" "APIServerCert pki"] st [of "''apiserver.key''" "APIServerKey pki"]
    st [of "''kubelet.crt''" "KubeletCert pki"] st [of "''kubelet.key''" "KubeletKey pki"]
    st [of "''front-proxy-client.crt''" "FrontProxyClientCert pki"] st [of "''front-proxy-client.key''" "FrontProxyClientKey pki"]
    st [of "''apiserver-kubelet-client.crt''" "APIServerKubeletClientCert pki"]
    st [of "''apiserver-kubelet-client.key''" "APIServerKubeletClientKey pki"]
    st [of "''serviceaccount.key''" "ServiceAccountKey pki"]
  have ne: "CACert pki \<noteq> []" "ClientCACert pki \<noteq> []" "FrontProxyCACert pki \<noteq> []" "APIServerCert pki \<noteq> []"
    "APIServerKey pki \<noteq> []" "KubeletCert pki \<noteq> []" "KubeletKey pki \<noteq> []" "FrontProxyClientCert pki \<noteq> []"
    "FrontProxyClientKey pki \<noteq> []" "APIServerKubeletClientCert pki \<noteq> []" "APIServerKubeletClientKey pki \<noteq> []"
    "ServiceAccountKey pki \<noteq> []"
    using pki by (simp_all add: allPresent_def leafPairs_def caPairs_def)
  have confs: "LoadFromFile io h2 (pathJoin KubernetesConfigDir f) =
      Inr (createConfig (kubeconfigServer ip port) (CACert pki) crt key)"
    if "(f, crt, key) \<in> set (controlPlaneKubeconfigs pki)" for f crt key
    using loads that by blast
  have user: "map_of (AuthInfos (createConfig url ca crt key)) ''k8s-user'' =
      Some \<lparr>ClientCertificateData = Some crt, ClientKeyData = Some key\<rparr>" for url ca crt key
    by (simp add: createConfig_def Let_def)
  show ?thesis
    using stored
    by (simp add: ReadControlPlanePKI_def FileExists_noFaults [OF h2] controlPlaneFiles_def fileFields_def
        kubeconfigFields_def confs controlPlaneKubeconfigs_def user ne storedPKI_def Let_def)
qed

text \<open>
  C9: The certificates of a control plane node survive the disk. After the files and the
  kubeconfigs of a complete set of certificates have been written, reading them back gives
  exactly the stored certificates that the flag selects and leaves the rest of the caller's
  structure alone; nothing fails.
\<close>

theorem ReadControlPlanePKI_roundtrip:
  assumes codec: "kubeconfigCodec io" and h: "noFaults h" and pki: "allPresent pki"
    and files: "EnsureControlPlanePKI pki h = (h1, Inr ch)"
    and confs: "SetupControlPlaneKubeconfigs io (Inr ip) KubernetesConfigDir port pki h1 = (h2, Inr u)"
  shows "ReadControlPlanePKI io managed c h2 = Inr (storedPKI managed pki c)"
  using assms by (rule ReadControlPlanePKI_reads)

text \<open>A kubeconfig encoding for the witness: every string as marked characters and an end mark.\<close>

definition encStr :: "string \<Rightarrow> string" where
  "encStr s = concat (map (\<lambda>c. [CHR ''a'', c]) s) @ ''z''"

fun decStr :: "string \<Rightarrow> string \<Rightarrow> string \<times> string" where
  "decStr acc (m # c # r) = (if m = CHR ''a'' then decStr (acc @ [c]) r else (acc, c # r))"
| "decStr acc _ = (acc, [])"

lemma decStr_encStr: "decStr acc (encStr s @ r) = (acc @ s, r)"
  by (induction s arbitrary: acc) (cases r; auto simp: encStr_def)+

definition sampleIO :: kubeconfigIO where
  "sampleIO = \<lparr>kubeconfigWrite = (\<lambda>cfg. case (Clusters cfg, AuthInfos cfg) of
       ((_, cl) # _, (_, a) # _) \<Rightarrow>
         Inr (encStr (Server cl) @ encStr (CertificateAuthorityData cl) @
              encStr (getStr (ClientCertificateData a)) @ encStr (getStr (ClientKeyData a)))
     | _ \<Rightarrow> Inl (Errorf ''no user'' [])),
     kubeconfigLoad = (\<lambda>d.
       (let (server, d) = decStr [] d; (ca, d) = decStr [] d; (crt, d) = decStr [] d; (key, d) = decStr [] d
        in Inr \<lparr>Clusters = [(''k8s'', \<lparr>CertificateAuthorityData = ca, Server = server\<rparr>)],
             AuthInfos = [(''k8s-user'', \<lparr>ClientCertificateData = Some crt, ClientKeyData = Some key\<rparr>)],
             Contexts = [(''k8s'', (''k8s'', ''k8s-user''))], CurrentContext = ''k8s''\<rparr>))\<rparr>"

lemma sampleIO_codec: "kubeconfigCodec sampleIO"
  using decStr_encStr [of "[]" _ "[]"]
  by (simp add: kubeconfigCodec_def sampleIO_def createConfig_def Let_def decStr_encStr)

definition fullPKI :: ControlPlanePKI where
  "fullPKI = samplePKI\<lparr>CACert := ''ca'', CAKey := ''cak'', ClientCACert := ''cca'', FrontProxyCACert := ''fca'',
     FrontProxyCAKey := ''fcak'', FrontProxyClientCert := ''fc'', FrontProxyClientKey := ''fk'',
     ServiceAccountKey := ''sa'', APIServerCert := ''ac'', APIServerKey := ''ak'', KubeletCert := ''kc'',
     KubeletKey := ''kk'', AdminClientCert := ''adc'', AdminClientKey := ''adk'',
     KubeControllerManagerClientCert := ''cmc'', KubeControllerManagerClientKey := ''cmk'',
     KubeSchedulerClientCert := ''sc'', KubeSchedulerClientKey := ''sk'', KubeProxyClientCert := ''pc'',
     KubeProxyClientKey := ''pk'', KubeletClientCert := ''klc'', KubeletClientKey := ''klk'',
     APIServerKubeletClientCert := ''akc'', APIServerKubeletClientKey := ''akk'', K8sdPublicKey := ''pub'',
     K8sdPrivateKey := ''priv''\<rparr>"

definition emptyHost :: Host where
  "emptyHost = \<lparr>H_files = Map.empty, H_fault = (\<lambda>_ _. None), H_cmds = [], H_cmdFault = (\<lambda>_ _. None),
     H_uid = 0, H_gid = 0\<rparr>"

lemma emptyHost_noFaults [simp]: "noFaults emptyHost"
  by (simp add: noFaults_def emptyHost_def)

lemma fullPKI_present: "allPresent fullPKI"
  by (simp add: allPresent_def leafPairs_def caPairs_def fullPKI_def)

theorem ReadControlPlanePKI_roundtrip_witness:
  "\<exists>h1 ch h2. EnsureControlPlanePKI fullPKI emptyHost = (h1, Inr ch) \<and>
     SetupControlPlaneKubeconfigs sampleIO (Inr [127, 0, 0, 1]) KubernetesConfigDir 6443 fullPKI h1 = (h2, ok) \<and>
     ReadControlPlanePKI sampleIO True samplePKI h2 = Inr (storedPKI True fullPKI samplePKI) \<and>
     KubeletCert (storedPKI True fullPKI samplePKI) = ''kc'' \<and>
     AdminClientCert (storedPKI True fullPKI samplePKI) = []"
proof -
  obtain h1 ch where e: "EnsureControlPlanePKI fullPKI emptyHost = (h1, Inr ch)"
    using ensureFiles_total [OF emptyHost_noFaults] unfolding EnsureControlPlanePKI_def by blast
  have "noFaults h1"
    using ensureFiles_ok [OF noFaults_honest [OF emptyHost_noFaults] controlPlaneFiles_good
        e [unfolded EnsureControlPlanePKI_def]] by (simp add: noFaults_def emptyHost_def)
  then obtain h2 where s: "SetupControlPlaneKubeconfigs sampleIO (Inr [127, 0, 0, 1]) KubernetesConfigDir 6443 fullPKI h1 = (h2, ok)"
    using kubeconfigLoop_ok [OF sampleIO_codec _ kubeconfigs_distinct kubeconfigs_present [OF fullPKI_present],
        of h1 KubernetesConfigDir "kubeconfigServer [127, 0, 0, 1] 6443" "CACert fullPKI"]
    unfolding SetupControlPlaneKubeconfigs_def by auto
  show ?thesis
    using ReadControlPlanePKI_roundtrip [OF sampleIO_codec emptyHost_noFaults fullPKI_present e s, of True samplePKI] e s
    by (auto simp: storedPKI_def fullPKI_def samplePKI_def NewControlPlanePKI_def Let_def)
qed

text \<open>
  \<open>ensureFiles\<close> makes the files what the table says: a file with contents exists with these
  contents, owner and mode, an entry without contents has no file, every other file is
  untouched, and the answer is true exactly when some content differed before. It succeeds on a
  host that refuses nothing, and a second run reports no change.
\<close>

theorem ensureFiles_spec:
  assumes "noFaults h" "goodMap fs"
  shows "\<exists>h' ch. ensureFiles uid gid m fs False h = (h', Inr ch) \<and>
    (\<forall>(f, c) \<in> set fs. H_files h' f = ensuredNode c uid gid m) \<and>
    (\<forall>p. p \<notin> fst ` set fs \<longrightarrow> H_files h' p = H_files h p) \<and>
    (ch \<longleftrightarrow> (\<exists>(f, c) \<in> set fs. map_option F_data (H_files h f) \<noteq> (if c = [] then None else Some c))) \<and>
    (\<exists>h''. ensureFiles uid gid m fs False h' = (h'', Inr False))"
proof -
  obtain h' ch where e: "ensureFiles uid gid m fs False h = (h', Inr ch)"
    using ensureFiles_total [OF assms(1)] by blast
  note r = ensureFiles_ok [OF noFaults_honest [OF assms(1)] assms(2) e]
  have files: "\<forall>(f, c) \<in> set fs. H_files h' f = ensuredNode c uid gid m"
    using r assms(2) by auto
  have nf: "noFaults h'" using r assms(1) by (simp add: noFaults_def)
  obtain h'' ch2 where e2: "ensureFiles uid gid m fs False h' = (h'', Inr ch2)"
    using ensureFiles_total [OF nf] by blast
  have "map_option F_data (H_files h' f) = (if c = [] then None else Some c)" if "(f, c) \<in> set fs" for f c
    using bspec [OF files that] by (simp add: ensuredNode_def)
  then have "\<not> ch2"
    using ensureFiles_ok [OF noFaults_honest [OF nf] assms(2) e2] by blast
  moreover have "\<forall>p. p \<notin> fst ` set fs \<longrightarrow> H_files h' p = H_files h p"
    using r by (metis (no_types, lifting) map_of_eq_None_iff option.simps(4))
  ultimately show ?thesis using e e2 files r by auto
qed

theorem ensureFiles_spec_witness:
  "\<exists>h' ch. ensureFiles 0 0 perm600 [(''/a'', ''x''), (''/b'', [])] False emptyHost = (h', Inr ch) \<and>
     H_files h' ''/a'' = Some \<lparr>F_data = ''x'', F_uid = 0, F_gid = 0, F_mode = perm600\<rparr> \<and> H_files h' ''/b'' = None"
  using ensureFiles_spec [OF emptyHost_noFaults, of "[(''/a'', ''x''), (''/b'', [])]" 0 0 perm600]
  by (auto simp: ensuredNode_def)

text \<open>
  The server address in a kubeconfig is what \<open>net.JoinHostPort\<close> would write exactly when the
  local address has no colon. For the IPv6 loopback address it is \<open>::1:6443\<close>, which is not the
  address of a host and a port.
\<close>

theorem kubeconfigServer_ipv4_only:
  "(kubeconfigServer ip port = JoinHostPortInt (IPString ip) port \<longleftrightarrow> CHR '':'' \<notin> set (IPString ip)) \<and>
   kubeconfigServer ([0, 0, 0, 0, 0, 0, 0, 0, 0, 0, 0, 0, 0, 0, 0, 1]) 6443 = ''::1:6443'' \<and> SplitHostPort ''::1:6443'' = None"
proof -
  have "IPString ([0, 0, 0, 0, 0, 0, 0, 0, 0, 0, 0, 0, 0, 0, 0, 1]) = ''::1''"
    by (simp add: IPString_def To4_def ip6String_def zeroRun_def upt_rec natToHex.simps hexDigit_def
        v4InV6Prefix_def Let_def char_of_def bit_0)
  moreover have "Itoa 6443 = ''6443''"
    by (simp add: Itoa_def natToString.simps digitChar_def char_of_def bit_0)
  ultimately show ?thesis
    by (cases "IPString ip")
      (auto simp: kubeconfigServer_def JoinHostPortInt_def JoinHostPort_def SplitHostPort_def lastColon_def)
qed

end
