(* ===== verification/ServiceArgs.thy ===== *)
theory ServiceArgs
  imports Host
begin

text \<open>
  The argument files of the services: \<open>ParseArgumentLine\<close>, \<open>ParseArgumentFile\<close> and
  \<open>SerializeArgumentFile\<close> (\<open>pkg/utils/file.go\<close>), \<open>GetServiceArgument\<close> and
  \<open>UpdateServiceArguments\<close> (\<open>pkg/snap/util/arguments.go\<close>), \<open>ServiceArgsFromMap\<close> and
  \<open>RunningServiceArgs\<close> (\<open>pkg/utils/services.go\<close>).

  The abstract view of an argument file is a partial map from argument names to values.
  The locale \<open>args_store\<close> states what the users of these files rely on: an update removes the
  deleted names, then overrides with the new values, reports exactly whether the map changed,
  and leaves the files of other services alone. The interpretation \<open>sa\<close> discharges it for
  \<open>UpdateServiceArguments\<close>, under the invariant that a name occurs once in the file.
\<close>

section \<open>Lines and files\<close>

abbreviation newline :: char where "newline \<equiv> CHR 0x0A"
abbreviation quoteChar :: char where "quoteChar \<equiv> CHR 0x22"

definition isArgSep :: "char \<Rightarrow> bool" where
  "isArgSep c \<longleftrightarrow> c = CHR '' '' \<or> c = CHR ''=''"

definition ParseArgumentLine :: "string \<Rightarrow> string \<times> string" where
  "ParseArgumentLine l =
     (let line = TrimSpace l;
          rest = dropWhile (\<lambda>c. \<not> isArgSep c) line
      in if rest = [] then (line, [])
         else (takeWhile (\<lambda>c. \<not> isArgSep c) line,
               trimWhile (\<lambda>c. c = quoteChar) (TrimSpace (tl rest))))"

text \<open>
  The lines \<open>bufio.Scanner\<close> yields: the text between newlines without one final carriage
  return, and no empty line after the last newline. A line of 64 KiB or more is an error.
\<close>

definition dropCR :: "string \<Rightarrow> string" where
  "dropCR l = (if l \<noteq> [] \<and> last l = CHR 0x0D then butlast l else l)"

definition scanLines :: "string \<Rightarrow> string list res" where
  "scanLines s =
     (let ls = splitOn newline s; ls' = (if last ls = [] then butlast ls else ls)
      in if list_ex (\<lambda>l. 65536 \<le> length l) ls' then Inl (Errorf ''bufio.Scanner: token too long'' [])
         else Inr (map dropCR ls'))"

fun parseArgLoop :: "string list \<Rightarrow> string gomap \<Rightarrow> string gomap" where
  "parseArgLoop [] args = args"
| "parseArgLoop (l # ls) args =
     (let line = TrimSpace l in
      if line \<noteq> [] \<and> \<not> HasPrefix line ''#''
      then (case ParseArgumentLine line of (a, v) \<Rightarrow> parseArgLoop ls (AList.update a v args))
      else parseArgLoop ls args)"

definition ParseArgumentFile :: "Host \<Rightarrow> string \<Rightarrow> string gomap res" where
  "ParseArgumentFile h path =
     (case ReadFile h path of
        Inl e \<Rightarrow> Inl (Wrapf ''failed to read argument file %s: %w'' [path] e)
      | Inr data \<Rightarrow> (case scanLines data of
          Inl e \<Rightarrow> Inl (Wrapf ''failed to scan lines in argument file: %w'' [] e)
        | Inr ls \<Rightarrow> Inr (parseArgLoop ls [])))"

definition SerializeArgumentFile ::
  "string gomap \<Rightarrow> string \<Rightarrow> string \<Rightarrow> Host \<Rightarrow> (Host, unit) step"
where
  "SerializeArgumentFile arguments path headerComment h =
     (case osCreate h path of
        (h, Inl e) \<Rightarrow> (h, Inl (Wrapf ''failed to write argument file %s: %w'' [path] e))
      | (h, Inr _) \<Rightarrow>
          (let body = headerComment @
                 concat (map (\<lambda>k. k @ ''='' @ mapGet arguments k @ [newline])
                   (sortStrings (map fst arguments)))
           in (fst (osWriteFile h path body perm666), ok)))"

section \<open>Reading and updating an argument file\<close>

definition argumentsFileForService :: "Snap \<Rightarrow> string \<Rightarrow> string" where
  "argumentsFileForService s svc = pathJoin (ServiceArgumentsDir s) svc"

fun getArgLoop :: "string list \<Rightarrow> string \<Rightarrow> string" where
  "getArgLoop [] argument = []"
| "getArgLoop (l # ls) argument =
     (let line = TrimSpace l in
      if line = [] then getArgLoop ls argument
      else (case ParseArgumentLine line of (key, value) \<Rightarrow>
              if key = argument then value else getArgLoop ls argument))"

definition GetServiceArgument :: "Snap \<Rightarrow> string \<Rightarrow> string \<Rightarrow> Host \<Rightarrow> string res" where
  "GetServiceArgument s svc argument h =
     (case ReadFile h (argumentsFileForService s svc) of
        Inl e \<Rightarrow> Inl (Wrapf ''failed to read arguments file for service %s: %w'' [svc] e)
      | Inr arguments \<Rightarrow> Inr (getArgLoop (splitOn newline arguments) argument))"

definition renderArg :: "string \<Rightarrow> string \<Rightarrow> string" where
  "renderArg key value = key @ ''='' @ [quoteChar] @ value @ [quoteChar]"

text \<open>The state of the loop: whether something changed, the names seen, the lines to write.\<close>

fun updateArgLoop ::
  "string gomap \<Rightarrow> string list \<Rightarrow> string list \<Rightarrow> bool \<times> string list \<times> string list
   \<Rightarrow> bool \<times> string list \<times> string list"
where
  "updateArgLoop um dl [] acc = acc"
| "updateArgLoop um dl (l # ls) (changed, existing, new) =
     (let line = TrimSpace l in
      if line = [] then updateArgLoop um dl ls (changed, existing, new)
      else (case ParseArgumentLine line of (key, oldValue) \<Rightarrow>
        (case map_of um key of
           Some newValue \<Rightarrow>
             updateArgLoop um dl ls
               (changed \<or> oldValue \<noteq> newValue, key # existing, new @ [renderArg key newValue])
         | None \<Rightarrow>
             if key \<in> set dl then updateArgLoop um dl ls (True, key # existing, new)
             else updateArgLoop um dl ls (changed, key # existing, new @ [line]))))"

fun appendArgLoop ::
  "string gomap \<Rightarrow> string list \<Rightarrow> bool \<times> string list \<Rightarrow> bool \<times> string list"
where
  "appendArgLoop [] existing acc = acc"
| "appendArgLoop ((key, value) # m) existing (changed, new) =
     (if key \<notin> set existing then appendArgLoop m existing (True, new @ [renderArg key value])
      else appendArgLoop m existing (changed, new))"

text \<open>Everything after the file has been read.\<close>

definition rewriteArgs ::
  "string \<Rightarrow> string \<Rightarrow> string gomap \<Rightarrow> string list \<Rightarrow> string \<Rightarrow> Host \<Rightarrow> (Host, bool) step"
where
  "rewriteArgs svc file updateMap deleteList arguments h =
     (case updateArgLoop updateMap deleteList (splitOn newline arguments) (False, [], []) of
        (changed, existing, new) \<Rightarrow>
          (case appendArgLoop updateMap existing (changed, new) of (changed, new) \<Rightarrow>
             tryStep (WriteFile h file (joinWith newline (sortStrings new) @ [newline]) perm600)
               ''failed to write arguments for service %s: %w'' [svc] (\<lambda>h _. (h, Inr changed))))"

definition UpdateServiceArguments ::
  "Snap \<Rightarrow> string \<Rightarrow> string gomap \<Rightarrow> string list \<Rightarrow> Host \<Rightarrow> (Host, bool) step"
where
  "UpdateServiceArguments s svc updateMap deleteList h =
     (if updateMap = [] \<and> deleteList = [] then (h, Inr False)
      else
        (let file = argumentsFileForService s svc in
         case ReadFile h file of
           Inl e \<Rightarrow>
             if \<not> IsNotExist e
             then (h, Inl (Wrapf ''failed to read arguments file for service %s: %w'' [svc] e))
             else rewriteArgs svc file updateMap deleteList [] h
         | Inr arguments \<Rightarrow> rewriteArgs svc file updateMap deleteList arguments h))"


section \<open>Minimum configuration, running services\<close>

text \<open>
  \<open>MinConfigFileDiff\<close>: \<open>readDir\<close> is \<open>os.ReadDir\<close>, the names of the entries and whether each
  is a directory. An unreadable directory or file is skipped. Go compares strings with \<open>>=\<close>
  byte by byte, which is the order of \<open>List_Lexorder\<close>.
\<close>

fun minConfigKeys :: "string gomap \<Rightarrow> string gomap \<Rightarrow> string gomap \<Rightarrow> string gomap" where
  "minConfigKeys [] params newConfig = newConfig"
| "minConfigKeys ((key, minimum) # m) params newConfig =
     (case map_of params key of
        Some value \<Rightarrow>
          minConfigKeys m params (if value \<ge> minimum then AList.delete key newConfig else newConfig)
      | None \<Rightarrow> minConfigKeys m params newConfig)"

fun minConfigEntries ::
  "Host \<Rightarrow> string gomap \<Rightarrow> string \<Rightarrow> string \<Rightarrow> (string \<times> bool) list \<Rightarrow> string gomap \<Rightarrow> string gomap"
where
  "minConfigEntries h minConfig excludeFile dir [] newConfig = newConfig"
| "minConfigEntries h minConfig excludeFile dir ((name, isDir) # es) newConfig =
     (if isDir \<or> pathJoin dir name = excludeFile
      then minConfigEntries h minConfig excludeFile dir es newConfig
      else (case ParseArgumentFile h (pathJoin dir name) of
              Inl _ \<Rightarrow> minConfigEntries h minConfig excludeFile dir es newConfig
            | Inr params \<Rightarrow>
                minConfigEntries h minConfig excludeFile dir es
                  (minConfigKeys minConfig params newConfig)))"

definition MinConfigFileDiff ::
  "(string \<Rightarrow> (string \<times> bool) list res) \<Rightarrow> Host \<Rightarrow> string list \<Rightarrow> string gomap \<Rightarrow> string \<Rightarrow> string gomap"
where
  "MinConfigFileDiff readDir h dirs minConfig excludeFile =
     foldl (\<lambda>newConfig dir. case readDir dir of
         Inl _ \<Rightarrow> newConfig
       | Inr entries \<Rightarrow> minConfigEntries h minConfig excludeFile dir entries newConfig)
       minConfig dirs"

text \<open>\<open>ServiceArgsFromMap\<close>: a nil value deletes the argument.\<close>

fun serviceArgsLoop ::
  "string ptr gomap \<Rightarrow> string gomap \<times> string list \<Rightarrow> string gomap \<times> string list"
where
  "serviceArgsLoop [] acc = acc"
| "serviceArgsLoop ((arg, val) # m) (updateArgs, deleteArgs) =
     (case val of
        None \<Rightarrow> serviceArgsLoop m (updateArgs, deleteArgs @ [arg])
      | Some v \<Rightarrow> serviceArgsLoop m (AList.update arg v updateArgs, deleteArgs))"

definition ServiceArgsFromMap :: "string ptr gomap \<Rightarrow> string gomap \<times> string list" where
  "ServiceArgsFromMap args = serviceArgsLoop args ([], [])"

text \<open>
  \<open>RunningServiceArgs\<close>: \<open>systemctl unit property\<close> is the output of the query.
\<close>

definition ErrUnitNotRunning :: error where
  "ErrUnitNotRunning = Errorf ''unit is not running'' []"

definition getUnitLoadState :: "(string \<Rightarrow> string \<Rightarrow> string res) \<Rightarrow> string \<Rightarrow> string res" where
  "getUnitLoadState systemctl unit =
     (case systemctl unit ''LoadState'' of
        Inl e \<Rightarrow> Inl (Wrapf ''failed to query LoadState for unit %q: %w'' [unit] e)
      | Inr out \<Rightarrow>
          (let st = TrimSpace out in
           if st = ''loaded'' then Inr ''loaded''
           else if st = ''not-found'' then Inr ''not-found''
           else Inl (Errorf ''invalid LoadState %q for unit %q'' [st, unit])))"

definition getUnitActiveState :: "(string \<Rightarrow> string \<Rightarrow> string res) \<Rightarrow> string \<Rightarrow> string res" where
  "getUnitActiveState systemctl unit =
     (case systemctl unit ''ActiveState'' of
        Inl e \<Rightarrow> Inl (Wrapf ''failed to query ActiveState for unit %q: %w'' [unit] e)
      | Inr out \<Rightarrow>
          (let st = TrimSpace out in
           if st = ''active'' then Inr ''active''
           else if st = ''inactive'' then Inr ''inactive''
           else Inl (Errorf ''invalid ActiveState %q for unit %q'' [st, unit])))"

definition getUnitMainPID :: "(string \<Rightarrow> string \<Rightarrow> string res) \<Rightarrow> string \<Rightarrow> int res" where
  "getUnitMainPID systemctl unit =
     (case systemctl unit ''MainPID'' of
        Inl e \<Rightarrow> Inl (Wrapf ''failed to query MainPID for unit %q: %w'' [unit] e)
      | Inr out \<Rightarrow>
          (case Atoi (TrimSpace out) of
             None \<Rightarrow> Inl (Errorf ''failed to convert unit %q pid %q to int: %w'' [unit, out])
           | Some pid \<Rightarrow> Inr pid))"

fun cmdlineLoop :: "string list \<Rightarrow> string gomap \<Rightarrow> string gomap" where
  "cmdlineLoop [] args = args"
| "cmdlineLoop (part # parts) args =
     (if part = [] then cmdlineLoop parts args
      else (case ParseArgumentLine part of (key, value) \<Rightarrow>
              cmdlineLoop parts (if key \<noteq> [] then AList.update key value args else args)))"

definition RunningServiceArgs ::
  "(string \<Rightarrow> string \<Rightarrow> string res) \<Rightarrow> Host \<Rightarrow> string \<Rightarrow> string gomap res"
where
  "RunningServiceArgs systemctl h svc =
     (let unit = ''snap.k8s.'' @ svc @ ''.service'' in
      case getUnitLoadState systemctl unit of
        Inl e \<Rightarrow> Inl (Wrapf ''failed to get unit %q LoadState: %w'' [unit] e)
      | Inr loadState \<Rightarrow>
        if loadState = ''not-found'' then Inl (Errorf ''unit %q was not found'' [unit])
        else (case getUnitActiveState systemctl unit of
          Inl e \<Rightarrow> Inl (Wrapf ''failed to get unit %q ActiveState: %w'' [unit] e)
        | Inr activeState \<Rightarrow>
          if activeState = ''inactive'' then Inl (Wrapf ''%q: %w'' [unit] ErrUnitNotRunning)
          else (case getUnitMainPID systemctl unit of
            Inl e \<Rightarrow> Inl (Wrapf ''failed to get unit %q MainPID: %w'' [unit] e)
          | Inr pid \<Rightarrow>
            if pid = 0 then Inl (Wrapf ''pid is 0 for unit %q: %w'' [unit] ErrUnitNotRunning)
            else (case ReadFile h (''/proc/'' @ Itoa pid @ ''/cmdline'') of
              Inl e \<Rightarrow>
                if errorsIs e ErrNotExist
                then Inl (Wrapf ''cmdline file doesn't exist for unit %q (pid %d): %w'' [unit, Itoa pid]
                       ErrUnitNotRunning)
                else Inl (Wrapf ''failed to read cmdline for pid %d (unit %q): %w'' [Itoa pid, unit] e)
            | Inr cmdline \<Rightarrow> Inr (cmdlineLoop (tl (splitOn (CHR 0x00) cmdline)) [])))))"

section \<open>Closed forms\<close>

definition argLines :: "string \<Rightarrow> string list" where
  "argLines contents = filter (\<lambda>l. l \<noteq> []) (map TrimSpace (splitOn newline contents))"

text \<open>What the update makes of a line.\<close>

definition outLine :: "string gomap \<Rightarrow> string list \<Rightarrow> string \<Rightarrow> string option" where
  "outLine um dl line =
     (case map_of um (fst (ParseArgumentLine line)) of
        Some v \<Rightarrow> Some (renderArg (fst (ParseArgumentLine line)) v)
      | None \<Rightarrow> if fst (ParseArgumentLine line) \<in> set dl then None else Some line)"

definition lineChanges :: "string gomap \<Rightarrow> string list \<Rightarrow> string \<Rightarrow> bool" where
  "lineChanges um dl line \<longleftrightarrow>
     (case map_of um (fst (ParseArgumentLine line)) of
        Some v \<Rightarrow> snd (ParseArgumentLine line) \<noteq> v
      | None \<Rightarrow> fst (ParseArgumentLine line) \<in> set dl)"

definition trimmedLines :: "string list \<Rightarrow> string list" where
  "trimmedLines ls = filter (\<lambda>l. l \<noteq> []) (map TrimSpace ls)"

lemma trimmedLines_simps:
  "trimmedLines [] = []"
  "trimmedLines (l # ls) =
     (if TrimSpace l = [] then trimmedLines ls else TrimSpace l # trimmedLines ls)"
  by (simp_all add: trimmedLines_def)

lemma updateArgLoop_closed:
  "updateArgLoop um dl ls (c, ex, n) =
     (c \<or> (\<exists>l \<in> set (trimmedLines ls). lineChanges um dl l),
      rev (map (fst \<circ> ParseArgumentLine) (trimmedLines ls)) @ ex,
      n @ List.map_filter (outLine um dl) (trimmedLines ls))"
proof (induction ls arbitrary: c ex n)
  case (Cons l ls)
  obtain k v where kv: "ParseArgumentLine (TrimSpace l) = (k, v)" by (cases "ParseArgumentLine (TrimSpace l)")
  show ?case
    by (cases "map_of um k")
      (auto simp: Let_def trimmedLines_simps kv Cons.IH lineChanges_def outLine_def map_filter_simps)
qed (simp add: trimmedLines_simps map_filter_simps)

lemma appendArgLoop_closed:
  "appendArgLoop m ex (c, n) =
     (c \<or> (\<exists>k \<in> fst ` set m. k \<notin> set ex),
      n @ map (\<lambda>(k, v). renderArg k v) (filter (\<lambda>(k, v). k \<notin> set ex) m))"
  by (induction m ex "(c, n)" arbitrary: c n rule: appendArgLoop.induct) auto

lemma getArgLoop_closed:
  "getArgLoop ls a = getField [] (map_of (map ParseArgumentLine (trimmedLines ls)) a)"
proof (induction ls)
  case (Cons l ls)
  obtain k v where "ParseArgumentLine (TrimSpace l) = (k, v)" by (cases "ParseArgumentLine (TrimSpace l)")
  with Cons show ?case by (auto simp: Let_def trimmedLines_simps)
qed (simp add: trimmedLines_simps)

section \<open>Well-formed arguments and lines\<close>

definition wfKey :: "string \<Rightarrow> bool" where
  "wfKey k \<longleftrightarrow> list_all (\<lambda>c. \<not> isSpace c \<and> c \<noteq> CHR ''='') k"

definition wfValue :: "string \<Rightarrow> bool" where
  "wfValue v \<longleftrightarrow> newline \<notin> set v \<and> (v = [] \<or> (hd v \<noteq> quoteChar \<and> last v \<noteq> quoteChar))"

definition wfArgs :: "string gomap \<Rightarrow> bool" where
  "wfArgs m \<longleftrightarrow> list_all (\<lambda>(k, v). wfKey k \<and> wfValue v) m"

text \<open>A line as it is kept in the file: not empty, trimmed, on one line.\<close>

definition wfLine :: "string \<Rightarrow> bool" where
  "wfLine l \<longleftrightarrow> l \<noteq> [] \<and> TrimSpace l = l \<and> newline \<notin> set l"

lemma wfLine_argLines: "l \<in> set (argLines s) \<Longrightarrow> wfLine l"
proof -
  assume "l \<in> set (argLines s)"
  then obtain r where r: "r \<in> set (splitOn newline s)" "l = TrimSpace r" "l \<noteq> []"
    by (auto simp: argLines_def)
  then have "newline \<notin> set l"
    using splitOn_sep_free set_trimWhile by (metis TrimSpace_def subsetD)
  with r show ?thesis by (simp add: wfLine_def TrimSpace_def trimWhile_idem)
qed

lemma argLines_joinWith:
  assumes "\<forall>w \<in> set ws. wfLine w"
  shows "argLines (joinWith newline ws @ [newline]) = ws"
proof (cases "ws = []")
  case True
  then show ?thesis by (simp add: argLines_def TrimSpace_def trimWhile_def)
next
  case False
  have "splitOn newline (joinWith newline ws @ newline # []) = ws @ splitOn newline []"
    using assms False by (subst splitOn_append) (simp add: splitOn_joinWith wfLine_def)
  moreover have "filter (\<lambda>l. l \<noteq> []) (map TrimSpace ws) = ws"
    using assms by (induction ws) (simp_all add: wfLine_def)
  ultimately show ?thesis
    by (simp add: argLines_def TrimSpace_def trimWhile_def)
qed

lemma trim_quotes: "wfValue v \<Longrightarrow>
    trimWhile (\<lambda>c. c = quoteChar) (quoteChar # v @ [quoteChar]) = v"
proof (cases "v = []")
  case True
  then show ?thesis by (simp add: trimWhile_def)
next
  case False
  assume "wfValue v"
  with False have v: "hd v \<noteq> quoteChar" "last v \<noteq> quoteChar" by (simp_all add: wfValue_def)
  have "dropWhile (\<lambda>c. c = quoteChar) (quoteChar # v @ [quoteChar]) = v @ [quoteChar]"
    using False v by (cases v) auto
  moreover have "dropWhile (\<lambda>c. c = quoteChar) (rev (v @ [quoteChar])) = rev v"
    using False v by (cases v rule: rev_cases) auto
  ultimately show ?thesis by (simp add: trimWhile_def)
qed

lemma isSpace_punct [simp]: "\<not> isSpace quoteChar" "\<not> isSpace (CHR ''='')" "isSpace newline"
  "isSpace (CHR '' '')"
  by (simp_all add: isSpace_def)

lemma wfLine_renderArg: "wfKey k \<Longrightarrow> wfValue v \<Longrightarrow> wfLine (renderArg k v)"
proof -
  assume k: "wfKey k" and v: "wfValue v"
  have "\<not> isSpace (hd (renderArg k v))"
    using k by (cases k) (simp_all add: renderArg_def wfKey_def)
  moreover have "last (renderArg k v) = quoteChar" by (simp add: renderArg_def)
  ultimately have "TrimSpace (renderArg k v) = renderArg k v"
    unfolding TrimSpace_def by (intro trimWhile_id) auto
  moreover have "newline \<notin> set k"
    using k by (metis isSpace_punct(3) list_all_iff wfKey_def)
  ultimately show ?thesis
    using v by (simp add: wfLine_def renderArg_def wfValue_def)
qed

text \<open>What is rendered is parsed back.\<close>

lemma ParseArgumentLine_renderArg:
  assumes "wfKey k" "wfValue v"
  shows "ParseArgumentLine (renderArg k v) = (k, v)"
proof -
  have trim: "TrimSpace (renderArg k v) = renderArg k v"
    using wfLine_renderArg [OF assms] by (simp add: wfLine_def)
  have k: "\<forall>c \<in> set k. \<not> isArgSep c"
    using assms(1) isSpace_punct(4) unfolding wfKey_def list_all_iff isArgSep_def by metis
  have "dropWhile (\<lambda>c. \<not> isArgSep c) (renderArg k v) = CHR ''='' # quoteChar # v @ [quoteChar]"
    and "takeWhile (\<lambda>c. \<not> isArgSep c) (renderArg k v) = k"
    using k by (simp_all add: renderArg_def dropWhile_append takeWhile_append isArgSep_def)
  moreover have "TrimSpace (quoteChar # v @ [quoteChar]) = quoteChar # v @ [quoteChar]"
    unfolding TrimSpace_def by (intro trimWhile_id) auto
  ultimately show ?thesis
    using assms(2)
    by (simp add: ParseArgumentLine_def trim trim_quotes Let_def del: dropWhile_eq_Nil_conv)
qed

section \<open>The abstract view of an update\<close>

text \<open>The entries of the new file, in terms of the entries of the old one.\<close>

definition outEntry :: "string gomap \<Rightarrow> string list \<Rightarrow> string \<times> string \<Rightarrow> (string \<times> string) option" where
  "outEntry um dl = (\<lambda>(k, v). case map_of um k of Some nv \<Rightarrow> Some (k, nv)
     | None \<Rightarrow> if k \<in> set dl then None else Some (k, v))"

definition newEntries :: "string gomap \<Rightarrow> string list \<Rightarrow> string gomap \<Rightarrow> string gomap" where
  "newEntries um dl kvs =
     List.map_filter (outEntry um dl) kvs @ filter (\<lambda>(k, v). k \<notin> fst ` set kvs) um"

lemma outEntry_pair:
  "outEntry um dl (k, v) = (case map_of um k of Some nv \<Rightarrow> Some (k, nv)
     | None \<Rightarrow> if k \<in> set dl then None else Some (k, v))"
  by (simp add: outEntry_def)

lemma map_of_map_filter_outEntry:
  "map_of (List.map_filter (outEntry um dl) kvs) k =
     (case map_of kvs k of None \<Rightarrow> None
      | Some v \<Rightarrow> (case map_of um k of Some nv \<Rightarrow> Some nv
                  | None \<Rightarrow> if k \<in> set dl then None else Some v))"
proof (induction kvs arbitrary: k)
  case (Cons p kvs)
  obtain k' v' where p: "p = (k', v')" by (cases p)
  show ?case
    by (cases "map_of um k'") (auto simp: p outEntry_pair map_filter_simps Cons.IH split: option.split)
qed (simp add: map_filter_simps)

lemma map_of_filter_keys:
  "map_of (filter (\<lambda>(k, v). k \<notin> K) m) k = (if k \<in> K then None else map_of m k)"
  by (induction m) auto

lemma newEntries_view:
  "map_of (newEntries um dl kvs) = (map_of kvs |` (- set dl)) ++ map_of um"
proof
  fix k
  show "map_of (newEntries um dl kvs) k = ((map_of kvs |` (- set dl)) ++ map_of um) k"
    by (cases "map_of kvs k"; cases "map_of um k")
      (auto simp: newEntries_def map_of_map_filter_outEntry map_of_filter_keys map_add_def
        restrict_map_def map_of_eq_None_iff [symmetric] dom_map_of_conv_image_fst [symmetric])
qed

lemma keys_map_filter_outEntry:
  "fst ` set (List.map_filter (outEntry um dl) kvs) \<subseteq> fst ` set kvs"
  by (induction kvs) (auto simp: map_filter_simps outEntry_def split: option.splits if_splits)

lemma newEntries_distinct:
  assumes "goodMap kvs" "goodMap um"
  shows "goodMap (newEntries um dl kvs)"
proof -
  have "goodMap (List.map_filter (outEntry um dl) kvs)"
    using assms(1)
  proof (induction kvs)
    case (Cons p kvs)
    obtain k v where "p = (k, v)" by (cases p)
    with Cons keys_map_filter_outEntry [of um dl kvs] show ?case
      by (auto simp: map_filter_simps outEntry_pair split: option.splits)
  qed (simp add: map_filter_simps)
  moreover have "goodMap (filter (\<lambda>(k, v). k \<notin> fst ` set kvs) um)"
    using assms(2) by (simp add: distinct_map_filter)
  moreover have "fst ` set (filter (\<lambda>(k, v). k \<notin> fst ` set kvs) um) \<inter> fst ` set kvs = {}"
    by force
  ultimately show ?thesis
    using keys_map_filter_outEntry [of um dl kvs] unfolding newEntries_def map_append distinct_append
      set_map by blast
qed

text \<open>The update changes the view exactly when it says so.\<close>

definition entriesChange :: "string gomap \<Rightarrow> string list \<Rightarrow> string gomap \<Rightarrow> bool" where
  "entriesChange um dl kvs \<longleftrightarrow>
     (\<exists>k v. (k, v) \<in> set kvs \<and> (case map_of um k of Some nv \<Rightarrow> v \<noteq> nv | None \<Rightarrow> k \<in> set dl)) \<or>
     (\<exists>k \<in> fst ` set um. k \<notin> fst ` set kvs)"

lemma override_eq_iff:
  "(m |` (- D)) ++ u = m \<longleftrightarrow>
     (\<forall>k v. m k = Some v \<longrightarrow> (case u k of Some nv \<Rightarrow> v = nv | None \<Rightarrow> k \<notin> D)) \<and> dom u \<subseteq> dom m"
  (is "?L \<longleftrightarrow> ?R")
proof
  assume L: ?L
  show ?R
  proof (intro conjI allI impI)
    fix k v assume "m k = Some v"
    then show "case u k of Some nv \<Rightarrow> v = nv | None \<Rightarrow> k \<notin> D"
      using fun_cong [OF L, of k] by (auto simp: map_add_def restrict_map_def split: option.splits if_splits)
  next
    show "dom u \<subseteq> dom m" using L by (metis dom_map_add Un_upper1)
  qed
next
  assume R: ?R
  show ?L
  proof
    fix k
    show "((m |` (- D)) ++ u) k = m k"
      using R [THEN conjunct1, rule_format, of k] R [THEN conjunct2]
      by (cases "m k"; cases "u k") (auto simp: map_add_def restrict_map_def)
  qed
qed

lemma entriesChange_iff:
  assumes "goodMap kvs"
  shows "entriesChange um dl kvs \<longleftrightarrow> (map_of kvs |` (- set dl)) ++ map_of um \<noteq> map_of kvs"
proof -
  have neg: "(case x of Some nv \<Rightarrow> v \<noteq> nv | None \<Rightarrow> k \<in> set dl) \<longleftrightarrow>
      \<not> (case x of Some nv \<Rightarrow> v = nv | None \<Rightarrow> k \<notin> set dl)" for x v k
    by (cases x) auto
  show ?thesis
    unfolding override_eq_iff entriesChange_def dom_map_of_conv_image_fst neg
      map_of_eq_Some_iff [OF assms] by blast
qed

lemma Parse_outLine:
  assumes "wfArgs um"
  shows "map_option ParseArgumentLine (outLine um dl l) = outEntry um dl (ParseArgumentLine l)"
proof -
  obtain k v where kv: "ParseArgumentLine l = (k, v)" by (cases "ParseArgumentLine l")
  show ?thesis
  proof (cases "map_of um k")
    case (Some nv)
    then have "wfKey k \<and> wfValue nv"
      using assms by (auto simp: wfArgs_def list_all_iff dest: map_of_SomeD)
    then show ?thesis by (simp add: outLine_def outEntry_def kv Some ParseArgumentLine_renderArg)
  qed (simp add: outLine_def outEntry_def kv)
qed

lemma map_Parse_outLine:
  "wfArgs um \<Longrightarrow>
   map ParseArgumentLine (List.map_filter (outLine um dl) ls) =
     List.map_filter (outEntry um dl) (map ParseArgumentLine ls)"
proof (induction ls)
  case (Cons l ls)
  then show ?case
    using Parse_outLine [of um dl l]
    by (cases "outLine um dl l"; cases "outEntry um dl (ParseArgumentLine l)") (auto simp: map_filter_simps)
qed (simp add: map_filter_simps)

section \<open>Argument files as maps\<close>

definition contentsOf :: "Host \<Rightarrow> string \<Rightarrow> string" where
  "contentsOf h p = (case ReadFile h p of Inl _ \<Rightarrow> [] | Inr d \<Rightarrow> d)"

lemma contentsOf_setFile [simp]:
  "H_fault h OpRead p = None \<Longrightarrow> contentsOf (setFile p (Some n) h) p = F_data n"
  "p' \<noteq> p \<Longrightarrow> contentsOf (setFile p n' h) p' = contentsOf h p'"
  by (simp_all add: contentsOf_def)

definition argEntries :: "Snap \<Rightarrow> Host \<Rightarrow> string \<Rightarrow> string gomap" where
  "argEntries s h svc =
     map ParseArgumentLine (argLines (contentsOf h (argumentsFileForService s svc)))"

definition argsView :: "Snap \<Rightarrow> Host \<Rightarrow> string \<Rightarrow> (string \<rightharpoonup> string)" where
  "argsView s h svc = map_of (argEntries s h svc)"

text \<open>
  The invariant of an argument file: it can be read, and names no argument twice. A file that
  is not there has no entries.
\<close>

definition argsInv :: "Snap \<Rightarrow> Host \<Rightarrow> string \<Rightarrow> bool" where
  "argsInv s h svc \<longleftrightarrow>
     plainName svc \<and> H_fault h OpRead (argumentsFileForService s svc) = None \<and>
     goodMap (argEntries s h svc)"

lemma GetServiceArgument_view:
  "GetServiceArgument s svc a h = Inr v \<Longrightarrow> v = getField [] (argsView s h svc a)"
  by (auto simp: GetServiceArgument_def getArgLoop_closed argsView_def argEntries_def contentsOf_def
      argLines_def trimmedLines_def split: sum.splits)

definition rewrittenLines :: "string gomap \<Rightarrow> string list \<Rightarrow> string list \<Rightarrow> string list" where
  "rewrittenLines um dl ls =
     List.map_filter (outLine um dl) ls @
     map (\<lambda>(k, v). renderArg k v)
       (filter (\<lambda>(k, v). k \<notin> fst ` set (map ParseArgumentLine ls)) um)"

lemma set_map_filter_iff: "y \<in> set (List.map_filter f xs) \<longleftrightarrow> (\<exists>x \<in> set xs. f x = Some y)"
  by (induction xs) (auto simp: map_filter_simps split: option.splits)

lemma wfLine_rewrittenLines:
  assumes "wfArgs um" "\<forall>l \<in> set ls. wfLine l" "w \<in> set (rewrittenLines um dl ls)"
  shows "wfLine w"
proof -
  have r: "wfLine (renderArg k v)" if "(k, v) \<in> set um" for k v
    using assms(1) that by (auto simp: wfArgs_def list_all_iff intro: wfLine_renderArg)
  from assms(3) consider (kept) l where "l \<in> set ls" "outLine um dl l = Some w"
    | (added) k v where "(k, v) \<in> set um" "w = renderArg k v"
    by (auto simp: rewrittenLines_def set_map_filter_iff)
  then show ?thesis
  proof cases
    case kept
    then show ?thesis
      using assms(2) r by (auto simp: outLine_def dest: map_of_SomeD split: option.splits if_splits)
  qed (simp add: r)
qed

lemma map_Parse_rewrittenLines:
  assumes "wfArgs um"
  shows "map ParseArgumentLine (rewrittenLines um dl ls) =
    newEntries um dl (map ParseArgumentLine ls)"
proof -
  have "map (\<lambda>x. ParseArgumentLine (case x of (k, v) \<Rightarrow> renderArg k v)) (filter P um) = filter P um"
    for P
    using assms by (induction um) (auto simp: wfArgs_def ParseArgumentLine_renderArg)
  then show ?thesis
    using assms by (simp add: rewrittenLines_def newEntries_def map_Parse_outLine o_def)
qed

lemma ex_pair_map:
  "(\<exists>l \<in> set ls. Q (fst (f l)) (snd (f l))) \<longleftrightarrow> (\<exists>k v. (k, v) \<in> set (map f ls) \<and> Q k v)"
  by (simp add: image_iff) (metis fst_conv prod.collapse snd_conv)

lemma rewriteArgs_closed:
  "rewriteArgs svc file um dl data h =
     tryStep (WriteFile h file
         (joinWith newline (sortStrings (rewrittenLines um dl (argLines data))) @ [newline]) perm600)
       ''failed to write arguments for service %s: %w'' [svc]
       (\<lambda>h _. (h, Inr (entriesChange um dl (map ParseArgumentLine (argLines data)))))"
proof -
  have ch: "(\<exists>l \<in> set ls. lineChanges um dl l) \<longleftrightarrow>
     (\<exists>k v. (k, v) \<in> set (map ParseArgumentLine ls) \<and>
        (case map_of um k of Some nv \<Rightarrow> v \<noteq> nv | None \<Rightarrow> k \<in> set dl))" for ls
    unfolding lineChanges_def by (rule ex_pair_map)
  show ?thesis
    unfolding rewriteArgs_def updateArgLoop_closed appendArgLoop_closed entriesChange_def ch [symmetric]
    by (simp add: rewrittenLines_def argLines_def trimmedLines_def image_comp o_def)
qed

text \<open>
  What an update does, in one statement: the no-op, the unreadable file, the failed write that
  leaves the file as it was, and the rewritten file.
\<close>

lemma UpdateServiceArguments_cases:
  assumes inv: "argsInv s h svc" and wf: "wfArgs um"
    and upd: "UpdateServiceArguments s svc um dl h = (h', Inr c)"
  shows "(um = [] \<and> dl = [] \<and> h' = h \<and> \<not> c) \<or>
    (c = entriesChange um dl (argEntries s h svc) \<and>
     (\<exists>d. h' = setFile (argumentsFileForService s svc) (Some (newNode h d perm600)) h) \<and>
     mset (argEntries s h' svc) = mset (newEntries um dl (argEntries s h svc)))"
proof (cases "um = [] \<and> dl = []")
  case True
  with upd show ?thesis by (simp add: UpdateServiceArguments_def)
next
  case False
  let ?f = "argumentsFileForService s svc"
  let ?ls = "argLines (contentsOf h ?f)"
  let ?d = "joinWith newline (sortStrings (rewrittenLines um dl ?ls)) @ [newline]"
  have read: "ReadFile h ?f = Inl ErrNotExist \<or> (\<exists>d. ReadFile h ?f = Inr d)"
    using inv by (auto simp: argsInv_def ReadFile_def split: option.split)
  then have "UpdateServiceArguments s svc um dl h = rewriteArgs svc ?f um dl (contentsOf h ?f) h"
    using False by (auto simp: UpdateServiceArguments_def contentsOf_def Let_def)
  with upd have r: "rewriteArgs svc ?f um dl (contentsOf h ?f) h = (h', Inr c)" by simp
  then have w: "h' = setFile ?f (Some (newNode h ?d perm600)) h"
    and c: "c = entriesChange um dl (argEntries s h svc)"
    unfolding rewriteArgs_closed argEntries_def by (auto simp: tryStep_ok_iff dest: WriteFile_okD)
  have lines: "\<forall>l \<in> set (sortStrings (rewrittenLines um dl ?ls)). wfLine l"
    using wfLine_rewrittenLines [OF wf] wfLine_argLines by (simp del: set_append) blast
  have "argEntries s h' svc = map ParseArgumentLine (sortStrings (rewrittenLines um dl ?ls))"
    using inv by (simp add: w argEntries_def argsInv_def argLines_joinWith [OF lines])
  then have "mset (argEntries s h' svc) = mset (newEntries um dl (argEntries s h svc))"
    by (metis argEntries_def map_Parse_rewrittenLines [OF wf] mset_map sortStrings_mset)
  with c w show ?thesis by blast
qed

lemma mset_goodMap:
  assumes "mset m = mset m'" "goodMap m'"
  shows "goodMap m" "map_of m = map_of m'"
proof -
  show g: "goodMap m"
    using assms by (metis distinct_count_atmost_1 mset_map mset_eq_imp_distinct_iff)
  show "map_of m = map_of m'"
    using g assms by (subst map_of_inject_set) (auto dest: mset_eq_setD)
qed

section \<open>The contract of an argument store\<close>

text \<open>
  What the setup code and the controllers rely on: a store of named maps with an update that
  removes, overrides and tells whether the map changed.
\<close>

locale args_store =
  fixes view :: "'h \<Rightarrow> string \<Rightarrow> (string \<rightharpoonup> string)"
    and upd :: "string \<Rightarrow> string gomap \<Rightarrow> string list \<Rightarrow> 'h \<Rightarrow> ('h, bool) step"
    and inv :: "'h \<Rightarrow> string \<Rightarrow> bool"
    and wf :: "string gomap \<Rightarrow> bool"
  assumes upd_view: "inv h svc \<Longrightarrow> wf um \<Longrightarrow> goodMap um \<Longrightarrow> upd svc um dl h = (h', Inr c) \<Longrightarrow>
      view h' svc = (view h svc |` (- set dl)) ++ map_of um"
    and upd_changed: "inv h svc \<Longrightarrow> wf um \<Longrightarrow> goodMap um \<Longrightarrow> upd svc um dl h = (h', Inr c) \<Longrightarrow>
      c \<longleftrightarrow> view h' svc \<noteq> view h svc"
    and upd_inv: "inv h svc \<Longrightarrow> wf um \<Longrightarrow> goodMap um \<Longrightarrow> upd svc um dl h = (h', Inr c) \<Longrightarrow>
      inv h svc' \<Longrightarrow> inv h' svc'"
    and upd_other: "inv h svc \<Longrightarrow> wf um \<Longrightarrow> goodMap um \<Longrightarrow> upd svc um dl h = (h', Inr c) \<Longrightarrow>
      inv h svc' \<Longrightarrow> svc' \<noteq> svc \<Longrightarrow> view h' svc' = view h svc'"
begin

text \<open>The second of two equal updates changes nothing.\<close>

lemma upd_twice:
  assumes "inv h svc" "wf um" "goodMap um" "upd svc um dl h = (h1, Inr c1)"
    "upd svc um dl h1 = (h2, Inr c2)"
  shows "\<not> c2 \<and> view h2 svc = view h1 svc"
proof -
  have i: "inv h1 svc" using assms upd_inv by blast
  have v1: "view h1 svc = (view h svc |` (- set dl)) ++ map_of um"
    using assms upd_view by blast
  have "view h2 svc = (view h1 svc |` (- set dl)) ++ map_of um"
    using assms i upd_view by blast
  then have "view h2 svc = view h1 svc"
    unfolding v1 by (auto simp: fun_eq_iff map_add_def restrict_map_def split: option.splits)
  then show ?thesis using upd_changed [OF i assms(2,3,5)] by simp
qed

text \<open>Defaults first, then the user's arguments: the user's values win, unset arguments vanish.\<close>

lemma upd_defaults_then_extra:
  assumes "inv h svc" "wf um" "goodMap um" "wf um'" "goodMap um'"
    "upd svc um dl h = (h1, Inr c1)" "upd svc um' dl' h1 = (h2, Inr c2)"
  shows "inv h2 svc \<and>
    view h2 svc = ((((view h svc |` (- set dl)) ++ map_of um) |` (- set dl')) ++ map_of um')"
  using assms upd_inv upd_view by metis

end

text \<open>The argument files of the snap implement the contract.\<close>

lemma argsFile_inject:
  "plainName a \<Longrightarrow> plainName b \<Longrightarrow>
   argumentsFileForService s a = argumentsFileForService s b \<longleftrightarrow> a = b"
  by (simp add: argumentsFileForService_def filepathJoin_inject)

lemma UpdateServiceArguments_entries:
  assumes "argsInv s h svc" "wfArgs um" "goodMap um" "UpdateServiceArguments s svc um dl h = (h', Inr c)"
  shows "goodMap (argEntries s h' svc)"
    and "argsView s h' svc = (argsView s h svc |` (- set dl)) ++ map_of um"
    and "c \<longleftrightarrow> argsView s h' svc \<noteq> argsView s h svc"
    and "H_fault h' = H_fault h"
    and "argsInv s h svc' \<Longrightarrow> svc' \<noteq> svc \<Longrightarrow> argEntries s h' svc' = argEntries s h svc'"
proof -
  have good: "goodMap (argEntries s h svc)" using assms(1) by (simp add: argsInv_def)
  note cases = UpdateServiceArguments_cases [OF assms(1,2,4)]
  note new = newEntries_distinct [OF good assms(3), of dl]
  have m: "goodMap (argEntries s h' svc) \<and>
      argsView s h' svc = (argsView s h svc |` (- set dl)) ++ map_of um"
    using cases
  proof
    assume "um = [] \<and> dl = [] \<and> h' = h \<and> \<not> c"
    then show ?thesis using good by (simp add: argsView_def restrict_map_def)
  next
    assume "c = entriesChange um dl (argEntries s h svc) \<and>
      (\<exists>d. h' = setFile (argumentsFileForService s svc) (Some (newNode h d perm600)) h) \<and>
      mset (argEntries s h' svc) = mset (newEntries um dl (argEntries s h svc))"
    then show ?thesis
      using mset_goodMap [OF _ new] by (simp add: argsView_def newEntries_view)
  qed
  then show "goodMap (argEntries s h' svc)"
    and "argsView s h' svc = (argsView s h svc |` (- set dl)) ++ map_of um" by simp_all
  then show "c \<longleftrightarrow> argsView s h' svc \<noteq> argsView s h svc"
    using cases entriesChange_iff [OF good, of um dl] by (auto simp: argsView_def)
  show "H_fault h' = H_fault h" using cases by auto
  show "argEntries s h' svc' = argEntries s h svc'" if "argsInv s h svc'" "svc' \<noteq> svc"
    using cases that assms(1) by (auto simp: argEntries_def argsInv_def argsFile_inject)
qed

interpretation sa: args_store "argsView s" "UpdateServiceArguments s" "argsInv s" wfArgs for s
proof
  fix h h' :: Host and svc svc' um dl c
  assume a: "argsInv s h svc" "wfArgs um" "goodMap um"
    "UpdateServiceArguments s svc um dl h = (h', Inr c)"
  note u = UpdateServiceArguments_entries [OF a]
  show "argsView s h' svc = (argsView s h svc |` (- set dl)) ++ map_of um" by (rule u(2))
  show "c \<longleftrightarrow> argsView s h' svc \<noteq> argsView s h svc" by (rule u(3))
  show "argsInv s h' svc'" if "argsInv s h svc'"
    using that u(1,4,5) by (cases "svc' = svc") (auto simp: argsInv_def)
  show "argsView s h' svc' = argsView s h svc'" if "argsInv s h svc'" "svc' \<noteq> svc"
    using that u(5) by (simp add: argsView_def)
qed

section \<open>Lemmas on the other operations\<close>

lemma serviceArgsLoop_view:
  "goodMap m \<Longrightarrow> goodMap u \<Longrightarrow> fst ` set m \<inter> fst ` set u = {} \<Longrightarrow>
   serviceArgsLoop m (u, d) = (u', d') \<Longrightarrow>
   goodMap u' \<and> set d' = set d \<union> {k. map_of m k = Some None} \<and>
   (\<forall>k. map_of u' k = (case map_of m k of Some (Some v) \<Rightarrow> Some v | _ \<Rightarrow> map_of u k))"
proof (induction m "(u, d)" arbitrary: u d rule: serviceArgsLoop.induct)
  case (2 arg val m u d)
  have fresh: "map_of m arg = None" "map_of u arg = None"
    using 2(3,5) by (auto simp: map_of_eq_None_iff)
  show ?case
  proof (cases val)
    case None
    then show ?thesis
      using 2(1) [OF None _ _ ] 2(3-6) fresh by (auto simp: None split: option.splits if_splits)
  next
    case (Some v)
    have "goodMap (AList.update arg v u)" using 2(4) by (rule distinct_update)
    moreover have "fst ` set m \<inter> fst ` set (AList.update arg v u) = {}"
      using 2(3,5) by (auto simp: dom_update)
    ultimately show ?thesis
      using 2(2) [OF Some] 2(3,6) fresh
      by (auto simp: Some update_conv' split: option.splits if_splits)
  qed
qed simp

lemma ServiceArgsFromMap_spec:
  assumes "goodMap m" "ServiceArgsFromMap m = (u, d)"
  shows "goodMap u" "set d = {k. map_of m k = Some None}"
    "map_of u k = (case map_of m k of Some (Some v) \<Rightarrow> Some v | _ \<Rightarrow> None)"
  using serviceArgsLoop_view [of m "[]" "[]" u d] assms 
  by (auto simp: ServiceArgsFromMap_def split: option.split)

lemma parseArgLoop_good: "goodMap m \<Longrightarrow> goodMap (parseArgLoop ls m)"
  by (induction ls m rule: parseArgLoop.induct)
    (auto simp: Let_def distinct_update split: prod.splits)

text \<open>The lines of the new file depend on the update map only through its lookups.\<close>

lemma UpdateServiceArguments_perm:
  assumes "goodMap um" "mset um = mset um'" "set dl = set dl'" "dl = [] \<longleftrightarrow> dl' = []"
  shows "UpdateServiceArguments s svc um dl h = UpdateServiceArguments s svc um' dl' h"
proof -
  have m: "map_of um = map_of um'" by (metis assms(1,2) mset_goodMap(2))
  have st: "set um = set um'" by (metis assms(2) mset_eq_setD)
  have out: "outLine um dl = outLine um' dl'"
    by (simp add: fun_eq_iff outLine_def m assms(3))
  have "mset (rewrittenLines um dl ls) = mset (rewrittenLines um' dl' ls)" for ls
    by (simp add: rewrittenLines_def out assms(2))
  then have "sortStrings (rewrittenLines um dl ls) = sortStrings (rewrittenLines um' dl' ls)" for ls
    by (rule sortStrings_perm)
  moreover have "entriesChange um dl kvs = entriesChange um' dl' kvs" for kvs
    unfolding entriesChange_def m st assms(3) ..
  moreover have "um = [] \<longleftrightarrow> um' = []" using st by (metis set_empty)
  ultimately show ?thesis
    using assms(4) unfolding UpdateServiceArguments_def rewriteArgs_closed
    by (simp add: Let_def split: sum.split)
qed

lemma UpdateServiceArguments_total:
  "noFaults h \<Longrightarrow> \<exists>h' c. UpdateServiceArguments s svc um dl h = (h', Inr c)"
  by (auto simp: UpdateServiceArguments_def rewriteArgs_closed Let_def ReadFile_def
      split: option.split)

section \<open>Properties\<close>

text \<open>A host and a snap on which the properties are exercised.\<close>

definition sampleSnap :: Snap where
  "sampleSnap = NewSnap ''k8s'' ''/snap/k8s/current'' ''/var/snap/k8s/common'' [] False ''node1'' (Inr False)"

definition sampleHost :: Host where
  "sampleHost = \<lparr>H_files = [''/var/snap/k8s/common/args/kubelet'' \<mapsto>
       \<lparr>F_data = ''--a=1'' @ [newline] @ ''--b '' @ [quoteChar] @ ''x y'' @ [quoteChar, newline],
        F_uid = 0, F_gid = 0, F_mode = perm600\<rparr>],
     H_fault = (\<lambda>_ _. None), H_cmds = [], H_cmdFault = (\<lambda>_ _. None), H_uid = 0, H_gid = 0\<rparr>"

lemmas path_eval = filepathJoin_def filepathClean_def pathElems_def HasPrefix_def

lemma sampleArgsFile: "argumentsFileForService sampleSnap ''kubelet'' = ''/var/snap/k8s/common/args/kubelet''"
  by (simp add: argumentsFileForService_def ServiceArgumentsDir_def sampleSnap_def NewSnap_def path_eval)

lemma sampleHost_noFaults [simp]: "noFaults sampleHost"
  by (simp add: noFaults_def sampleHost_def)

lemmas arg_eval = ParseArgumentLine_def TrimSpace_def trimWhile_def isSpace_def isArgSep_def

lemma sampleHost_entries:
  "argEntries sampleSnap sampleHost ''kubelet'' = [(''--a'', ''1''), (''--b'', ''x y'')]"
  by (simp add: argEntries_def sampleArgsFile contentsOf_def ReadFile_def sampleHost_def argLines_def arg_eval)

lemma sampleHost_inv: "argsInv sampleSnap sampleHost ''kubelet''"
  by (simp add: argsInv_def sampleHost_entries plainName_def)

text \<open>
  C7: An argument file is a map. When an update succeeds, the arguments of the file are the old
  ones without the deleted names, overridden by the new values; the update reports a change
  exactly when this map is not the old one; the file names every argument once, and the files of
  other services keep their arguments. On a host that refuses no file operation it succeeds.
\<close>

theorem UpdateServiceArguments_spec:
  assumes "argsInv s h svc" "wfArgs um" "goodMap um"
  shows "(noFaults h \<longrightarrow> (\<exists>h' c. UpdateServiceArguments s svc um dl h = (h', Inr c))) \<and>
    (\<forall>h' c. UpdateServiceArguments s svc um dl h = (h', Inr c) \<longrightarrow>
      argsInv s h' svc \<and>
      argsView s h' svc = (argsView s h svc |` (- set dl)) ++ map_of um \<and>
      (c \<longleftrightarrow> argsView s h' svc \<noteq> argsView s h svc) \<and>
      (\<forall>svc'. argsInv s h svc' \<and> svc' \<noteq> svc \<longrightarrow> argsView s h' svc' = argsView s h svc'))"
  using UpdateServiceArguments_total [of h s svc um dl]
    sa.upd_inv [OF assms, of dl _ _ svc] sa.upd_view [OF assms, of dl]
    sa.upd_changed [OF assms, of dl] sa.upd_other [OF assms, of dl] assms(1)
  by auto

theorem UpdateServiceArguments_spec_witness:
  "\<exists>h' c. UpdateServiceArguments sampleSnap ''kubelet'' [(''--a'', ''2'')] [''--b''] sampleHost = (h', Inr c) \<and>
     argsView sampleSnap h' ''kubelet'' = [''--a'' \<mapsto> ''2''] \<and> c"
proof -
  have wf: "wfArgs [(''--a'', ''2'')]" "goodMap [(''--a'', ''2'')]"
    by (simp_all add: wfArgs_def wfKey_def wfValue_def isSpace_def)
  note spec = UpdateServiceArguments_spec [OF sampleHost_inv wf, of "[''--b'']"]
  obtain h' c where u: "UpdateServiceArguments sampleSnap ''kubelet'' [(''--a'', ''2'')] [''--b''] sampleHost = (h', Inr c)"
    using spec by auto
  have v: "argsView sampleSnap sampleHost ''kubelet'' = [''--a'' \<mapsto> ''1'', ''--b'' \<mapsto> ''x y'']"
    by (simp add: argsView_def sampleHost_entries fun_upd_twist)
  have r: "argsView sampleSnap h' ''kubelet'' =
      (argsView sampleSnap sampleHost ''kubelet'' |` (- set [''--b''])) ++ map_of [(''--a'', ''2'')]"
    and c: "c \<longleftrightarrow> argsView sampleSnap h' ''kubelet'' \<noteq> argsView sampleSnap sampleHost ''kubelet''"
    using spec u by blast+
  have v': "argsView sampleSnap h' ''kubelet'' = [''--a'' \<mapsto> ''2'']"
    unfolding r v by (auto simp: fun_eq_iff restrict_map_def map_add_def)
  have "argsView sampleSnap h' ''kubelet'' ''--b'' \<noteq> argsView sampleSnap sampleHost ''kubelet'' ''--b''"
    unfolding v v' by simp
  then have c using c by metis
  with u v' show ?thesis by blast
qed

text \<open>
  The output of an update does not depend on the order in which Go visits the update map,
  nor on the order or repetitions of the deletions: the same file is written and the same answer given.
\<close>

theorem UpdateServiceArguments_order_independent:
  assumes "goodMap um" "mset um = mset um'" "set dl = set dl'"
  shows "UpdateServiceArguments s svc um dl h = UpdateServiceArguments s svc um' dl' h"
  using assms UpdateServiceArguments_perm by (metis set_empty)

theorem UpdateServiceArguments_order_independent_witness:
  "UpdateServiceArguments sampleSnap ''kubelet'' [(''--a'', ''2''), (''--c'', ''3'')] [''--b'', ''--d''] sampleHost =
   UpdateServiceArguments sampleSnap ''kubelet'' [(''--c'', ''3''), (''--a'', ''2'')] [''--d'', ''--b'', ''--d''] sampleHost"
  by (rule UpdateServiceArguments_order_independent) auto

text \<open>
  Writing an argument and reading it back. After a successful update, \<open>GetServiceArgument\<close>
  returns the new value of every updated argument, the empty string for a deleted one, and the
  old value of every other.
\<close>

theorem GetServiceArgument_after_update:
  assumes "argsInv s h svc" "wfArgs um" "goodMap um"
    "UpdateServiceArguments s svc um dl h = (h', Inr c)"
    "GetServiceArgument s svc a h' = Inr v"
  shows "v = (case map_of um a of Some nv \<Rightarrow> nv
              | None \<Rightarrow> if a \<in> set dl then [] else getField [] (argsView s h svc a))"
  using GetServiceArgument_view [OF assms(5)] sa.upd_view [OF assms(1-4)]
  by (auto simp: map_add_def restrict_map_def split: option.split)

theorem GetServiceArgument_after_update_witness:
  "\<exists>h' c. UpdateServiceArguments sampleSnap ''kubelet'' [(''--a'', ''2 3'')] [] sampleHost = (h', Inr c) \<and>
     GetServiceArgument sampleSnap ''kubelet'' ''--a'' h' = Inr ''2 3''"
proof -
  have wf: "wfArgs [(''--a'', ''2 3'')]" "goodMap [(''--a'', ''2 3'')]"
    by (simp_all add: wfArgs_def wfKey_def wfValue_def isSpace_def)
  obtain h' c where u: "UpdateServiceArguments sampleSnap ''kubelet'' [(''--a'', ''2 3'')] [] sampleHost = (h', Inr c)"
    using UpdateServiceArguments_total [OF sampleHost_noFaults] by blast
  obtain d where d: "H_files h' (argumentsFileForService sampleSnap ''kubelet'') = Some d"
    "H_fault h' = H_fault sampleHost"
    using UpdateServiceArguments_cases [OF sampleHost_inv wf(1) u] by auto
  then obtain v where v: "GetServiceArgument sampleSnap ''kubelet'' ''--a'' h' = Inr v"
    by (simp add: GetServiceArgument_def ReadFile_def)
  show ?thesis
    using GetServiceArgument_after_update [OF sampleHost_inv wf u v] u v by auto
qed

text \<open>
  The minimum configuration is compared as text. A file that sets a key to a smaller number
  with a greater first digit counts as satisfying the minimum, and the key is not enforced.
\<close>

theorem MinConfigFileDiff_compares_text:
  "MinConfigFileDiff (\<lambda>_. Inr [(''99-local.conf'', False)])
     \<lparr>H_files = [''/etc/sysctl.d/99-local.conf'' \<mapsto> newNode sampleHost ''fs.inotify.max_user_instances=512'' perm600],
      H_fault = (\<lambda>_ _. None), H_cmds = [], H_cmdFault = (\<lambda>_ _. None), H_uid = 0, H_gid = 0\<rparr>
     [''/etc/sysctl.d''] [(''fs.inotify.max_user_instances'', ''1024'')] [] = []"
  by (simp add: MinConfigFileDiff_def ParseArgumentFile_def ReadFile_def scanLines_def path_eval arg_eval
      dropCR_def Let_def)

end
