(* ===== verification/ServiceSetup.thy ===== *)
theory ServiceSetup
  imports ServiceArgs ClusterConfig
begin

text \<open>
  The arguments a node gives to its services (\<open>pkg/k8sd/setup\<close>: \<open>kube_apiserver.go\<close>,
  \<open>kube_controller_manager.go\<close>, \<open>kube_scheduler.go\<close>, \<open>kube_proxy.go\<close>, \<open>kubelet.go\<close>, \<open>etcd.go\<close>,
  \<open>k8s_apiserver_proxy.go\<close>). Every function builds a map of defaults, writes it to the argument
  file of its service and then applies the user's extra arguments. The contract of the argument
  files (\<open>args_store\<close>) gives what a service is started with: the extra value if there is one,
  otherwise the default.
\<close>

section \<open>Common steps\<close>

text \<open>The two updates every function ends with; the error messages differ.\<close>

definition applyServiceArgs ::
  "Snap \<Rightarrow> string \<Rightarrow> string gomap \<Rightarrow> string list \<Rightarrow> string ptr gomap \<Rightarrow> string \<Rightarrow> string \<Rightarrow> Host \<Rightarrow> (Host, unit) step"
where
  "applyServiceArgs s svc args deleteArgs extraArgs msgDefaults msgExtra h =
     tryStep (UpdateServiceArguments s svc args deleteArgs h) msgDefaults [] (\<lambda>h _.
     case ServiceArgsFromMap extraArgs of (updateArgs, deleteArgs) \<Rightarrow>
       tryStep (UpdateServiceArguments s svc updateArgs deleteArgs h) msgExtra [] (\<lambda>h _. (h, ok)))"

definition tlsCipherSuites :: "string list" where
  "tlsCipherSuites =
     [''TLS_ECDHE_ECDSA_WITH_AES_128_GCM_SHA256'', ''TLS_ECDHE_RSA_WITH_AES_128_GCM_SHA256'',
      ''TLS_ECDHE_ECDSA_WITH_AES_256_GCM_SHA384'', ''TLS_ECDHE_RSA_WITH_AES_256_GCM_SHA384'',
      ''TLS_ECDHE_ECDSA_WITH_CHACHA20_POLY1305'', ''TLS_ECDHE_RSA_WITH_CHACHA20_POLY1305'']"

section \<open>kube-apiserver\<close>

definition snapPaths :: DatastorePathsProvider where
  "snapPaths = \<lparr>KubernetesPKIDir = snapKubernetesPKIDir, EtcdPKIDir = snapEtcdPKIDir\<rparr>"

abbreviation pkiFile :: "string \<Rightarrow> string" where
  "pkiFile \<equiv> pathJoin snapKubernetesPKIDir"

definition apiserverBaseArgs :: "Snap \<Rightarrow> int \<Rightarrow> string \<Rightarrow> string \<Rightarrow> string gomap" where
  "apiserverBaseArgs s securePort serviceCIDR authorizationMode =
     [(''--anonymous-auth'', ''false''),
      (''--allow-privileged'', ''true''),
      (''--authentication-token-webhook-config-file'', pathJoin (ServiceExtraConfigDir s) ''auth-token-webhook.conf''),
      (''--authorization-mode'', authorizationMode),
      (''--client-ca-file'', pkiFile ''client-ca.crt''),
      (''--enable-admission-plugins'', ''NodeRestriction''),
      (''--kubelet-certificate-authority'', pkiFile ''ca.crt''),
      (''--kubelet-client-certificate'', pkiFile ''apiserver-kubelet-client.crt''),
      (''--kubelet-client-key'', pkiFile ''apiserver-kubelet-client.key''),
      (''--kubelet-preferred-address-types'', ''InternalIP,Hostname,InternalDNS,ExternalDNS,ExternalIP''),
      (''--profiling'', ''false''),
      (''--request-timeout'', ''300s''),
      (''--secure-port'', Itoa securePort),
      (''--service-account-issuer'', ''https://kubernetes.default.svc''),
      (''--service-account-key-file'', pkiFile ''serviceaccount.key''),
      (''--service-account-signing-key-file'', pkiFile ''serviceaccount.key''),
      (''--service-cluster-ip-range'', serviceCIDR),
      (''--tls-cert-file'', pkiFile ''apiserver.crt''),
      (''--tls-cipher-suites'', joinWith (CHR '','') tlsCipherSuites),
      (''--tls-min-version'', ''VersionTLS12''),
      (''--tls-private-key-file'', pkiFile ''apiserver.key'')]"

definition frontProxyArgs :: "string gomap" where
  "frontProxyArgs =
     [(''--requestheader-client-ca-file'', pkiFile ''front-proxy-ca.crt''),
      (''--requestheader-allowed-names'', ''front-proxy-client''),
      (''--requestheader-extra-headers-prefix'', ''X-Remote-Extra-''),
      (''--requestheader-group-headers'', ''X-Remote-Group''),
      (''--requestheader-username-headers'', ''X-Remote-User''),
      (''--proxy-client-cert-file'', pkiFile ''front-proxy-client.crt''),
      (''--proxy-client-key-file'', pkiFile ''front-proxy-client.key'')]"

definition apiserverArgs ::
  "Snap \<Rightarrow> int \<Rightarrow> IP ptr \<Rightarrow> string \<Rightarrow> bool \<Rightarrow> string gomap \<Rightarrow> string \<Rightarrow> string gomap"
where
  "apiserverArgs s securePort nodeIP serviceCIDR enableFrontProxy datastoreArgs authorizationMode =
     (let args = apiserverBaseArgs s securePort serviceCIDR authorizationMode;
          args = (case nodeIP of
                    None \<Rightarrow> args
                  | Some ip \<Rightarrow> if IsLoopback ip then args
                      else AList.update ''--advertise-address'' (IPString ip) args);
          args = mapAssignAll args datastoreArgs
      in if enableFrontProxy then mapAssignAll args frontProxyArgs else args)"

text \<open>
  \<open>KubeAPIServer\<close>. The webhook configuration is a text template with the URL and the path of the
  cluster certificate; \<open>template url caPath\<close> is its result. The file is opened before, and
  truncated, whatever happens next.
\<close>

definition KubeAPIServer ::
  "(string \<Rightarrow> string \<Rightarrow> string res) \<Rightarrow> IP res \<Rightarrow> Snap \<Rightarrow> int \<Rightarrow> IP ptr \<Rightarrow> string \<Rightarrow> string \<Rightarrow> bool \<Rightarrow> Datastore \<Rightarrow>
   string \<Rightarrow> string ptr gomap \<Rightarrow> Host \<Rightarrow> (Host, unit) step"
where
  "KubeAPIServer template localhost s securePort nodeIP serviceCIDR authWebhookURL enableFrontProxy datastore
     authorizationMode extraArgs h =
     (let webhookFile = pathJoin (ServiceExtraConfigDir s) ''auth-token-webhook.conf'' in
      tryStep (osWriteFile h webhookFile [] perm600) ''failed to open auth-token-webhook.conf: %w'' [] (\<lambda>h _.
      case template authWebhookURL (pathJoin (K8sdStateDir s) ''cluster.crt'') of
        Inl e \<Rightarrow> (h, Inl (Wrapf ''failed to write auth-token-webhook.conf: %w'' [] e))
      | Inr text \<Rightarrow>
          tryStep (osWriteFile h webhookFile text perm600) ''failed to write auth-token-webhook.conf: %w'' [] (\<lambda>h _.
          if getStr (Datastore_Type datastore) \<notin> {''etcd'', ''external''} then
            (h, Inl (Errorf ''unsupported datastore %s, must be one of %v'' [getStr (Datastore_Type datastore)]))
          else
            (case ToKubeAPIServerArguments localhost snapPaths datastore of
               Inl e \<Rightarrow> (h, Inl (Wrapf ''failed to get datastore arguments for kube-apiserver: %w'' [] e))
             | Inr (datastoreUpdateArgs, deleteArgs) \<Rightarrow>
                 applyServiceArgs s ''kube-apiserver''
                   (apiserverArgs s securePort nodeIP serviceCIDR enableFrontProxy datastoreUpdateArgs authorizationMode)
                   deleteArgs extraArgs
                   ''failed to render arguments file: %w'' ''failed to write arguments file: %w'' h))))"

section \<open>kube-controller-manager, kube-scheduler, kube-proxy\<close>

definition controllerManagerArgs :: "bool \<Rightarrow> string gomap" where
  "controllerManagerArgs haveCAKey =
     (let conf = pathJoin KubernetesConfigDir ''controller.conf'' in
      [(''--authentication-kubeconfig'', conf),
       (''--authorization-kubeconfig'', conf),
       (''--kubeconfig'', conf),
       (''--leader-elect-lease-duration'', ''30s''),
       (''--leader-elect-renew-deadline'', ''15s''),
       (''--profiling'', ''false''),
       (''--root-ca-file'', pkiFile ''ca.crt''),
       (''--service-account-private-key-file'', pkiFile ''serviceaccount.key''),
       (''--terminated-pod-gc-threshold'', ''12500''),
       (''--tls-min-version'', ''VersionTLS12''),
       (''--use-service-account-credentials'', ''true'')] @
      (if haveCAKey then
         [(''--cluster-signing-cert-file'', pkiFile ''ca.crt''),
          (''--cluster-signing-key-file'', pkiFile ''ca.key'')] else []))"

definition KubeControllerManager :: "Snap \<Rightarrow> string ptr gomap \<Rightarrow> Host \<Rightarrow> (Host, unit) step" where
  "KubeControllerManager s extraArgs h =
     applyServiceArgs s ''kube-controller-manager''
       (controllerManagerArgs (is_ok (osStat h (pkiFile ''ca.key'')))) [] extraArgs
       ''failed to render arguments file: %w'' ''failed to write arguments file: %w'' h"

definition schedulerArgs :: "string gomap" where
  "schedulerArgs =
     (let conf = pathJoin KubernetesConfigDir ''scheduler.conf'' in
      [(''--authentication-kubeconfig'', conf),
       (''--authorization-kubeconfig'', conf),
       (''--kubeconfig'', conf),
       (''--leader-elect-lease-duration'', ''30s''),
       (''--leader-elect-renew-deadline'', ''15s''),
       (''--profiling'', ''false''),
       (''--tls-min-version'', ''VersionTLS12'')])"

definition KubeScheduler :: "Snap \<Rightarrow> string ptr gomap \<Rightarrow> Host \<Rightarrow> (Host, unit) step" where
  "KubeScheduler s extraArgs h =
     applyServiceArgs s ''kube-scheduler'' schedulerArgs [] extraArgs
       ''failed to render arguments file: %w'' ''failed to write arguments file: %w'' h"

definition kubeProxyArgs :: "Snap \<Rightarrow> IP \<Rightarrow> string \<Rightarrow> string \<Rightarrow> string gomap" where
  "kubeProxyArgs s localhostAddress hostname podCIDR =
     [(''--cluster-cidr'', podCIDR),
      (''--healthz-bind-address'', IPString localhostAddress @ '':10256''),
      (''--kubeconfig'', pathJoin KubernetesConfigDir ''proxy.conf''),
      (''--profiling'', ''false'')] @
     (if hostname \<noteq> Hostname s then [(''--hostname-override'', hostname)] else []) @
     (if OnLXD s = Inr True then [(''--conntrack-max-per-core'', ''0'')] else [])"

definition KubeProxy ::
  "IP res \<Rightarrow> Snap \<Rightarrow> string \<Rightarrow> string \<Rightarrow> string ptr gomap \<Rightarrow> Host \<Rightarrow> (Host, unit) step"
where
  "KubeProxy localhost s hostname podCIDR extraArgs h =
     (case localhost of
        Inl e \<Rightarrow> (h, Inl (Wrapf ''failed to get localhost address: %w'' [] e))
      | Inr ip \<Rightarrow>
          applyServiceArgs s ''kube-proxy'' (kubeProxyArgs s ip hostname podCIDR) [] extraArgs
            ''failed to render arguments file: %w'' ''failed to write arguments file: %w'' h)"

section \<open>kubelet\<close>

definition kubeletTLSCipherSuites :: "string list" where
  "kubeletTLSCipherSuites =
     [''TLS_ECDHE_ECDSA_WITH_AES_128_GCM_SHA256'', ''TLS_ECDHE_ECDSA_WITH_AES_256_GCM_SHA384'',
      ''TLS_ECDHE_ECDSA_WITH_CHACHA20_POLY1305'', ''TLS_ECDHE_RSA_WITH_AES_128_GCM_SHA256'',
      ''TLS_ECDHE_RSA_WITH_AES_256_GCM_SHA384'', ''TLS_ECDHE_RSA_WITH_CHACHA20_POLY1305'',
      ''TLS_RSA_WITH_AES_128_GCM_SHA256'', ''TLS_RSA_WITH_AES_256_GCM_SHA384'']"

definition kubeletControlPlaneLabels :: "string list" where
  "kubeletControlPlaneLabels =
     [''node-role.kubernetes.io/control-plane='', ''node-role.kubernetes.io/worker='', ''k8sd.io/role=control-plane'']"

definition kubeletWorkerLabels :: "string list" where
  "kubeletWorkerLabels = [''node-role.kubernetes.io/worker='', ''k8sd.io/role=worker'']"

definition kubeletArgs ::
  "Snap \<Rightarrow> string \<Rightarrow> IP list \<Rightarrow> string \<Rightarrow> string \<Rightarrow> string \<Rightarrow> string list \<Rightarrow> string list \<Rightarrow> string gomap"
where
  "kubeletArgs s hostname nodeIPs clusterDNS clusterDomain cloudProvider taints labels =
     [(''--authorization-mode'', ''Webhook''),
      (''--anonymous-auth'', ''false''),
      (''--authentication-token-webhook'', ''true''),
      (''--client-ca-file'', pkiFile ''client-ca.crt''),
      (''--containerd'', ContainerdSocketPath s),
      (''--container-runtime-endpoint'', ContainerdSocketPath s),
      (''--cgroup-driver'', ''systemd''),
      (''--eviction-hard'', ''memory.available<100Mi,nodefs.available<1Gi,imagefs.available<1Gi''),
      (''--fail-swap-on'', ''false''),
      (''--kubeconfig'', pathJoin KubernetesConfigDir ''kubelet.conf''),
      (''--node-labels'', joinWith (CHR '','') labels),
      (''--read-only-port'', ''0''),
      (''--register-with-taints'', joinWith (CHR '','') taints),
      (''--root-dir'', KubeletRootDir),
      (''--serialize-image-pulls'', ''false''),
      (''--tls-cipher-suites'', joinWith (CHR '','') kubeletTLSCipherSuites),
      (''--tls-cert-file'', pkiFile ''kubelet.crt''),
      (''--tls-private-key-file'', pkiFile ''kubelet.key'')] @
     (if hostname \<noteq> Hostname s then [(''--hostname-override'', hostname)] else []) @
     (if cloudProvider \<noteq> [] then [(''--cloud-provider'', cloudProvider)] else []) @
     (if clusterDNS \<noteq> [] then [(''--cluster-dns'', clusterDNS)] else []) @
     (if clusterDomain \<noteq> [] then [(''--cluster-domain'', clusterDomain)] else []) @
     (let ips = map IPString (filter (\<lambda>ip. \<not> IsLoopback ip) nodeIPs)
      in if ips \<noteq> [] then [(''--node-ip'', joinWith (CHR '','') ips)] else [])"

definition kubelet ::
  "Snap \<Rightarrow> string \<Rightarrow> IP list \<Rightarrow> string \<Rightarrow> string \<Rightarrow> string \<Rightarrow> string list \<Rightarrow> string list \<Rightarrow> string ptr gomap \<Rightarrow> Host
   \<Rightarrow> (Host, unit) step"
where
  "kubelet s hostname nodeIPs clusterDNS clusterDomain cloudProvider taints labels extraArgs h =
     applyServiceArgs s ''kubelet''
       (kubeletArgs s hostname nodeIPs clusterDNS clusterDomain cloudProvider taints labels) [] extraArgs
       ''failed to render arguments file: %w'' ''failed to write arguments file: %w'' h"

definition KubeletControlPlane ::
  "Snap \<Rightarrow> string \<Rightarrow> IP list \<Rightarrow> string \<Rightarrow> string \<Rightarrow> string \<Rightarrow> string list \<Rightarrow> string ptr gomap \<Rightarrow> Host \<Rightarrow> (Host, unit) step"
where
  "KubeletControlPlane s hostname nodeIPs clusterDNS clusterDomain cloudProvider registerWithTaints extraArgs h =
     kubelet s hostname nodeIPs clusterDNS clusterDomain cloudProvider registerWithTaints
       kubeletControlPlaneLabels extraArgs h"

definition KubeletWorker ::
  "Snap \<Rightarrow> string \<Rightarrow> IP list \<Rightarrow> string \<Rightarrow> string \<Rightarrow> string \<Rightarrow> string ptr gomap \<Rightarrow> Host \<Rightarrow> (Host, unit) step"
where
  "KubeletWorker s hostname nodeIPs clusterDNS clusterDomain cloudProvider extraArgs h =
     kubelet s hostname nodeIPs clusterDNS clusterDomain cloudProvider [] kubeletWorkerLabels extraArgs h"

section \<open>etcd and the API server proxy\<close>

text \<open>
  \<open>Etcd\<close>. The members of the initial cluster are listed in the order of their names; with no
  member given the cluster is new.
\<close>

definition etcdInitialCluster :: "string gomap \<Rightarrow> string" where
  "etcdInitialCluster members =
     joinWith (CHR '','') (map (\<lambda>n. n @ ''='' @ mapGet members n) (sortStrings (map fst members)))"

definition etcdArgs ::
  "Snap \<Rightarrow> string \<Rightarrow> IP \<Rightarrow> IP \<Rightarrow> int \<Rightarrow> int \<Rightarrow> string gomap \<Rightarrow> string gomap"
where
  "etcdArgs s name nodeIP localhostAddress clientPort peerPort members =
     (let clientURL = ''https://'' @ JoinHostPortInt (IPString nodeIP) clientPort;
          listenUrls = [clientURL] @
            (if nodeIP \<noteq> [] \<and> \<not> IsLoopback nodeIP
             then [''https://'' @ JoinHostPortInt (IPString localhostAddress) clientPort] else []);
          peerURL = ''https://'' @ JoinHostPortInt (IPString nodeIP) peerPort
      in [(''--data-dir'', pathJoin (EtcdDir s) ''data''),
          (''--name'', name),
          (''--initial-advertise-peer-urls'', peerURL),
          (''--listen-peer-urls'', peerURL),
          (''--listen-client-urls'', joinWith (CHR '','') listenUrls),
          (''--advertise-client-urls'', clientURL),
          (''--initial-cluster-state'', (if members \<noteq> [] then ''existing'' else ''new'')),
          (''--initial-cluster'', etcdInitialCluster (AList.update name peerURL members)),
          (''--client-cert-auth'', ''true''),
          (''--trusted-ca-file'', pathJoin snapEtcdPKIDir ''ca.crt''),
          (''--cert-file'', pathJoin snapEtcdPKIDir ''server.crt''),
          (''--key-file'', pathJoin snapEtcdPKIDir ''server.key''),
          (''--peer-client-cert-auth'', ''true''),
          (''--peer-trusted-ca-file'', pathJoin snapEtcdPKIDir ''ca.crt''),
          (''--peer-cert-file'', pathJoin snapEtcdPKIDir ''peer.crt''),
          (''--peer-key-file'', pathJoin snapEtcdPKIDir ''peer.key''),
          (''--auto-tls'', ''false''),
          (''--peer-auto-tls'', ''false'')])"

definition Etcd ::
  "IP res \<Rightarrow> Snap \<Rightarrow> string \<Rightarrow> IP \<Rightarrow> int \<Rightarrow> int \<Rightarrow> string gomap \<Rightarrow> string ptr gomap \<Rightarrow> Host \<Rightarrow> (Host, unit) step"
where
  "Etcd localhost s name nodeIP clientPort peerPort initialClusterMembers extraArgs h =
     (case localhost of
        Inl e \<Rightarrow> (h, Inl (Wrapf ''failed to get localhost address: %w'' [] e))
      | Inr ip \<Rightarrow>
          applyServiceArgs s ''etcd''
            (etcdArgs s name nodeIP ip clientPort peerPort initialClusterMembers) [] extraArgs
            ''failed to write arguments file: %w'' ''failed to write extra arguments: %w'' h)"

text \<open>The JSON encoding of the endpoints is a function of the list.\<close>

definition WriteEndpointsConfig :: "(string list \<Rightarrow> string res) \<Rightarrow> string list \<Rightarrow> string \<Rightarrow> Host \<Rightarrow> (Host, unit) step" where
  "WriteEndpointsConfig jsonMarshal endpoints file h =
     (case jsonMarshal endpoints of
        Inl e \<Rightarrow> (h, Inl (Wrapf ''failed to marshal configuration: %w'' [] e))
      | Inr b \<Rightarrow>
          tryStep (WriteFile h file b perm600) ''failed to write configuration file %s: %w'' [file] (\<lambda>h _. (h, ok)))"

definition loadEndpointsConfig :: "(string \<Rightarrow> string list res) \<Rightarrow> string \<Rightarrow> Host \<Rightarrow> string list res" where
  "loadEndpointsConfig jsonUnmarshal file h =
     (case ReadFile h file of
        Inl e \<Rightarrow> Inl (Wrapf ''failed to read file: %w'' [] e)
      | Inr b \<Rightarrow>
          (case jsonUnmarshal b of
             Inl e \<Rightarrow> Inl (Wrapf ''failed to parse config file %s: %w'' [file] e)
           | Inr endpoints \<Rightarrow> Inr (sortStrings endpoints)))"

definition K8sAPIServerProxy ::
  "(string list \<Rightarrow> string res) \<Rightarrow> Snap \<Rightarrow> string list \<Rightarrow> int \<Rightarrow> string ptr gomap \<Rightarrow> Host \<Rightarrow> (Host, unit) step"
where
  "K8sAPIServerProxy jsonMarshal s servers securePort extraArgs h =
     (let configFile = pathJoin (ServiceExtraConfigDir s) ''k8s-apiserver-proxy.json'' in
      tryStep (WriteEndpointsConfig jsonMarshal servers configFile h)
        ''failed to write proxy configuration file: %w'' [] (\<lambda>h _.
      applyServiceArgs s ''k8s-apiserver-proxy''
        [(''--endpoints'', configFile),
         (''--kubeconfig'', pathJoin KubernetesConfigDir ''kubelet.conf''),
         (''--listen'', CHR '':'' # Itoa securePort)] [] extraArgs
        ''failed to write arguments file: %w'' ''failed to write arguments file: %w'' h))"

section \<open>Lemmas\<close>

definition wfExtra :: "string ptr gomap \<Rightarrow> bool" where
  "wfExtra m \<longleftrightarrow> goodMap m \<and> list_all (\<lambda>(k, v). case v of None \<Rightarrow> True | Some w \<Rightarrow> wfKey k \<and> wfValue w) m"

text \<open>
  What a service is started with: the extra value, nothing for an extra argument without a
  value, otherwise the default, and what the file had for every other argument.
\<close>

definition startedWith ::
  "string ptr gomap \<Rightarrow> string gomap \<Rightarrow> string list \<Rightarrow> (string \<rightharpoonup> string) \<Rightarrow> (string \<rightharpoonup> string)"
where
  "startedWith extraArgs args deleteArgs old a =
     (case map_of extraArgs a of
        Some v \<Rightarrow> v
      | None \<Rightarrow> (case map_of args a of
          Some v \<Rightarrow> Some v
        | None \<Rightarrow> if a \<in> set deleteArgs then None else old a))"

lemma wfArgs_extra:
  assumes "wfExtra m" "ServiceArgsFromMap m = (u, d)"
  shows "wfArgs u"
proof -
  have "wfKey k \<and> wfValue v" if "(k, v) \<in> set u" for k v
  proof -
    have "map_of u k = Some v"
      using that ServiceArgsFromMap_spec(1) [of m u d] assms by (simp add: wfExtra_def)
    then have "map_of m k = Some (Some v)"
      using ServiceArgsFromMap_spec(3) [of m u d k] assms by (auto simp: wfExtra_def split: option.splits)
    then show ?thesis
      using assms(1) by (auto simp: wfExtra_def list_all_iff dest!: map_of_SomeD)
  qed
  then show ?thesis by (auto simp: wfArgs_def list_all_iff)
qed

lemma applyServiceArgs_view:
  assumes "argsInv s h svc" "wfArgs args" "goodMap args" "wfExtra extraArgs"
    and run: "applyServiceArgs s svc args deleteArgs extraArgs m1 m2 h = (h', Inr x)"
  shows "argsInv s h' svc \<and> argsView s h' svc = startedWith extraArgs args deleteArgs (argsView s h svc)"
proof -
  obtain u d where ud: "ServiceArgsFromMap extraArgs = (u, d)" by (cases "ServiceArgsFromMap extraArgs")
  from run obtain h1 c1 c2 where
    u1: "UpdateServiceArguments s svc args deleteArgs h = (h1, Inr c1)" and
    u2: "UpdateServiceArguments s svc u d h1 = (h', Inr c2)"
    by (auto simp: applyServiceArgs_def tryStep_ok_iff ud)
  have good: "goodMap extraArgs" using assms(4) by (simp add: wfExtra_def)
  note spec = ServiceArgsFromMap_spec [OF good ud]
  note r = sa.upd_defaults_then_extra [OF assms(1-3) wfArgs_extra [OF assms(4) ud] spec(1) u1 u2]
  have "argsView s h' svc a = startedWith extraArgs args deleteArgs (argsView s h svc) a" for a
    using r spec(2) spec(3) [of a]
    by (auto simp: startedWith_def map_add_def restrict_map_def split: option.splits)
  with r show ?thesis by auto
qed

lemma argsInv_setFile:
  "p \<noteq> argumentsFileForService s svc \<Longrightarrow>
   argsInv s (setFile p n h) svc = argsInv s h svc \<and> argsView s (setFile p n h) svc = argsView s h svc"
  by (simp add: argsInv_def argsView_def argEntries_def)

lemma osWriteFile_ok:
  "osWriteFile h p d m = (h', Inr x) \<Longrightarrow> \<exists>n. h' = setFile p (Some n) h \<and> F_data n = d"
  by (auto simp: osWriteFile_def split: option.splits)

lemma externalCertLoop_good:
  "goodMap (fst acc) \<Longrightarrow> goodMap (fst (externalCertLoop dir es acc))"
  by (induction dir es acc rule: externalCertLoop.induct) (auto simp: distinct_update)

lemma ToKubeAPIServerArguments_good:
  "ToKubeAPIServerArguments lh p ds = Inr (u, d) \<Longrightarrow> goodMap u"
  using externalCertLoop_good [of "([(''--etcd-servers'', joinWith (CHR '','') (getList (Datastore_ExternalServers ds)))], [])"
      "EtcdPKIDir p" "externalCertEntries ds"]
  by (auto simp: ToKubeAPIServerArguments_def split: if_splits sum.splits)

lemma apiserverArgs_good: "goodMap (apiserverArgs s port ip cidr fp ds mode)"
proof -
  have "goodMap (apiserverBaseArgs s port cidr mode)" by (simp add: apiserverBaseArgs_def)
  then show ?thesis
    by (auto simp: apiserverArgs_def Let_def distinct_update split: option.split)
qed

text \<open>Optional entries, without a case split.\<close>

lemma opt_list:
  "map f (if b then [x] else []) = (if b then [f x] else [])"
  "set (if b then [x] else []) = {y. b \<and> y = x}"
  "distinct (if b then [x] else [])"
  by (cases b; simp)+

lemma kubeletArgs_good: "goodMap (kubeletArgs s hn ips dns domain cp taints labels)"
  by (simp add: kubeletArgs_def Let_def opt_list Int_def split del: if_split)

section \<open>Properties\<close>

text \<open>
  What the API server is started with. When \<open>KubeAPIServer\<close> succeeds, the datastore is
  \<open>etcd\<close> or \<open>external\<close>, and every argument of the service is the user's extra value if there is
  one, otherwise the default (anonymous access off, the requested authorization mode, the
  cluster's client CA, TLS 1.2, the datastore's arguments, and so on); a datastore argument that is to be
  deleted is absent.
\<close>

theorem KubeAPIServer_arguments:
  assumes "argsInv s h ''kube-apiserver''" "wfExtra extraArgs"
    and paths: "pathJoin (ServiceExtraConfigDir s) ''auth-token-webhook.conf'' \<noteq> argumentsFileForService s ''kube-apiserver''"
    and run: "KubeAPIServer template localhost s port ip cidr url frontProxy ds mode extraArgs h = (h', Inr x)"
    and wf: "\<And>dsArgs dl. ToKubeAPIServerArguments localhost snapPaths ds = Inr (dsArgs, dl) \<Longrightarrow>
        wfArgs (apiserverArgs s port ip cidr frontProxy dsArgs mode)"
  shows "\<exists>dsArgs dl. ToKubeAPIServerArguments localhost snapPaths ds = Inr (dsArgs, dl) \<and>
    getStr (Datastore_Type ds) \<in> {''etcd'', ''external''} \<and>
    argsView s h' ''kube-apiserver'' =
      startedWith extraArgs (apiserverArgs s port ip cidr frontProxy dsArgs mode) dl (argsView s h ''kube-apiserver'')"
proof -
  let ?web = "pathJoin (ServiceExtraConfigDir s) ''auth-token-webhook.conf''"
  from run obtain h1 body where w1: "osWriteFile h ?web [] perm600 = (h1, ok)"
    and t: "template url (pathJoin (K8sdStateDir s) ''cluster.crt'') = Inr body"
    by (cases "template url (pathJoin (K8sdStateDir s) ''cluster.crt'')")
      (auto simp: KubeAPIServer_def Let_def tryStep_ok_iff)
  with run obtain h2 where w2: "osWriteFile h1 ?web body perm600 = (h2, ok)"
    by (auto simp: KubeAPIServer_def Let_def tryStep_ok_iff)
  have ds1: "getStr (Datastore_Type ds) \<in> {''etcd'', ''external''}"
    using run by (rule contrapos_pp) (simp add: KubeAPIServer_def Let_def w1 t w2)
  obtain dsArgs dl where ds2: "ToKubeAPIServerArguments localhost snapPaths ds = Inr (dsArgs, dl)"
    using run ds1 by (cases "ToKubeAPIServerArguments localhost snapPaths ds")
      (auto simp: KubeAPIServer_def Let_def w1 t w2)
  note ds = ds1 ds2
  have app: "applyServiceArgs s ''kube-apiserver'' (apiserverArgs s port ip cidr frontProxy dsArgs mode) dl extraArgs
      ''failed to render arguments file: %w'' ''failed to write arguments file: %w'' h2 = (h', Inr x)"
    using run ds1 by (auto simp: KubeAPIServer_def Let_def w1 t w2 ds2)
  have h2: "argsInv s h2 ''kube-apiserver''" "argsView s h2 ''kube-apiserver'' = argsView s h ''kube-apiserver''"
    using osWriteFile_ok [OF w1] osWriteFile_ok [OF w2] argsInv_setFile [OF paths] assms(1) by auto
  show ?thesis
    using applyServiceArgs_view [OF h2(1) wf [OF ds(2)] apiserverArgs_good assms(2) app] ds h2(2) by auto
qed

lemma UpdateServiceArguments_noFaults:
  assumes "noFaults h" "UpdateServiceArguments s svc um dl h = (h', r)"
  shows "noFaults h'"
proof -
  have "noFaults (fst (UpdateServiceArguments s svc um dl h))"
    using assms(1)
    by (auto simp: UpdateServiceArguments_def rewriteArgs_closed Let_def ReadFile_def split: option.split)
  with assms(2) show ?thesis by simp
qed

lemma applyServiceArgs_total:
  assumes "noFaults h"
  shows "\<exists>h'. applyServiceArgs s svc args dl extra m1 m2 h = (h', ok)"
proof -
  obtain u d where ud: "ServiceArgsFromMap extra = (u, d)" by (cases "ServiceArgsFromMap extra")
  obtain h1 c where u1: "UpdateServiceArguments s svc args dl h = (h1, Inr c)"
    using UpdateServiceArguments_total [OF assms] by blast
  obtain h2 c2 where "UpdateServiceArguments s svc u d h1 = (h2, Inr c2)"
    using UpdateServiceArguments_total [OF UpdateServiceArguments_noFaults [OF assms u1]] by blast
  with u1 ud show ?thesis by (simp add: applyServiceArgs_def)
qed

lemma osWriteFile_noFaults: "noFaults h \<Longrightarrow> \<exists>n. osWriteFile h p d m = (setFile p (Some n) h, ok)"
  by (simp add: osWriteFile_def) blast

lemma KubeAPIServer_total:
  assumes "noFaults h" "template url (pathJoin (K8sdStateDir s) ''cluster.crt'') = Inr body"
    "getStr (Datastore_Type ds) \<in> {''etcd'', ''external''}"
    "ToKubeAPIServerArguments localhost snapPaths ds = Inr (u, d)"
  shows "\<exists>h'. KubeAPIServer template localhost s port ip cidr url fp ds mode extra h = (h', ok)"
proof -
  let ?web = "pathJoin (ServiceExtraConfigDir s) ''auth-token-webhook.conf''"
  obtain n1 where w1: "osWriteFile h ?web [] perm600 = (setFile ?web (Some n1) h, ok)"
    using osWriteFile_noFaults [OF assms(1)] by blast
  have nf: "noFaults (setFile ?web (Some n1) h)" using assms(1) by simp
  obtain n2 where w2: "osWriteFile (setFile ?web (Some n1) h) ?web body perm600 =
      (setFile ?web (Some n2) (setFile ?web (Some n1) h), ok)"
    using osWriteFile_noFaults [OF nf] by blast
  have nf2: "noFaults (setFile ?web (Some n2) (setFile ?web (Some n1) h))" using assms(1) by simp
  show ?thesis
    using applyServiceArgs_total [OF nf2] assms(2-4) by (simp add: KubeAPIServer_def Let_def w1 w2)
qed

definition sampleExternal :: Datastore where
  "sampleExternal = emptyDatastore\<lparr>Datastore_Type := Some ''external'', Datastore_ExternalServers := Some [''https://10.0.0.9:2379'']\<rparr>"

lemma sample_apiserver_file:
  "argumentsFileForService sampleSnap ''kube-apiserver'' = ''/var/snap/k8s/common/args/kube-apiserver''"
  "pathJoin (ServiceExtraConfigDir sampleSnap) ''auth-token-webhook.conf'' = ''/var/snap/k8s/common/args/conf.d/auth-token-webhook.conf''"
  by (simp_all add: argumentsFileForService_def ServiceArgumentsDir_def ServiceExtraConfigDir_def sampleSnap_def
      NewSnap_def path_eval)

lemma sample_apiserver_entries: "argEntries sampleSnap sampleHost ''kube-apiserver'' = []"
  by (simp add: argEntries_def sample_apiserver_file contentsOf_def ReadFile_def sampleHost_def argLines_def arg_eval)

lemma sample_apiserver_inv: "argsInv sampleSnap sampleHost ''kube-apiserver''"
  by (simp add: argsInv_def sample_apiserver_entries plainName_def)

lemma sample_datastore_args:
  "ToKubeAPIServerArguments lh snapPaths sampleExternal =
     Inr ([(''--etcd-servers'', ''https://10.0.0.9:2379'')], [''--etcd-cafile'', ''--etcd-certfile'', ''--etcd-keyfile''])"
  by (simp add: ToKubeAPIServerArguments_def sampleExternal_def emptyDatastore_def externalCertEntries_def)

lemma sample_apiserver_wf:
  "wfArgs (apiserverArgs sampleSnap 6443 None ''10.152.183.0/24'' False [(''--etcd-servers'', ''https://10.0.0.9:2379'')] ''Node,RBAC'')"
proof -
  have port: "Itoa 6443 = ''6443''"
    by (simp add: Itoa_def natToString.simps digitChar_def char_of_def bit_0)
  show ?thesis
    unfolding apiserverArgs_def apiserverBaseArgs_def sample_apiserver_file port
    by (simp add: mapAssignAll_def wfArgs_def wfKey_def wfValue_def isSpace_def
        snapKubernetesPKIDir_def path_eval tlsCipherSuites_def)
qed

theorem KubeAPIServer_arguments_witness:
  "\<exists>h'. KubeAPIServer (\<lambda>u c. Inr (u @ c)) (Inr [127, 0, 0, 1]) sampleSnap 6443 None ''10.152.183.0/24'' ''https://w'' False
       sampleExternal ''Node,RBAC'' [(''--profiling'', Some ''true'')] sampleHost = (h', ok) \<and>
     argsView sampleSnap h' ''kube-apiserver'' ''--anonymous-auth'' = Some ''false'' \<and>
     argsView sampleSnap h' ''kube-apiserver'' ''--profiling'' = Some ''true''"
proof -
  let ?run = "KubeAPIServer (\<lambda>u c. Inr (u @ c)) (Inr [127, 0, 0, 1]) sampleSnap 6443 None ''10.152.183.0/24'' ''https://w'' False
       sampleExternal ''Node,RBAC'' [(''--profiling'', Some ''true'')] sampleHost"
  have extra: "wfExtra [(''--profiling'', Some ''true'')]"
    by (simp add: wfExtra_def wfKey_def wfValue_def isSpace_def)
  have ty: "getStr (Datastore_Type sampleExternal) = ''external''" by (simp add: sampleExternal_def)
  obtain h' where run: "?run = (h', ok)"
    using KubeAPIServer_total [OF sampleHost_noFaults _ _ sample_datastore_args] ty by force
  have paths: "pathJoin (ServiceExtraConfigDir sampleSnap) ''auth-token-webhook.conf'' \<noteq>
      argumentsFileForService sampleSnap ''kube-apiserver''" by (simp add: sample_apiserver_file)
  have v: "argsView sampleSnap h' ''kube-apiserver'' =
      startedWith [(''--profiling'', Some ''true'')]
        (apiserverArgs sampleSnap 6443 None ''10.152.183.0/24'' False [(''--etcd-servers'', ''https://10.0.0.9:2379'')] ''Node,RBAC'')
        [''--etcd-cafile'', ''--etcd-certfile'', ''--etcd-keyfile''] (argsView sampleSnap sampleHost ''kube-apiserver'')"
    using KubeAPIServer_arguments [OF sample_apiserver_inv extra paths run] sample_apiserver_wf
    by (auto simp: sample_datastore_args)
  show ?thesis
    using run v by (simp add: startedWith_def apiserverArgs_def apiserverBaseArgs_def mapAssignAll_def Let_def)
qed

text \<open>
  A worker's kubelet never takes the control plane role. When \<open>KubeletWorker\<close> succeeds and
  the user does not override them, the labels are exactly the worker's, no taint is registered,
  anonymous access is off and authorization is delegated to the API server; all other
  arguments follow the extra arguments, then the defaults.
\<close>

theorem KubeletWorker_arguments:
  assumes "argsInv s h ''kubelet''" "wfExtra extraArgs"
    and "wfArgs (kubeletArgs s hostname ips dns domain cp [] kubeletWorkerLabels)"
    and run: "KubeletWorker s hostname ips dns domain cp extraArgs h = (h', Inr x)"
  shows "argsView s h' ''kubelet'' =
      startedWith extraArgs (kubeletArgs s hostname ips dns domain cp [] kubeletWorkerLabels) [] (argsView s h ''kubelet'') \<and>
    (map_of extraArgs ''--node-labels'' = None \<longrightarrow>
       argsView s h' ''kubelet'' ''--node-labels'' = Some ''node-role.kubernetes.io/worker=,k8sd.io/role=worker'') \<and>
    (map_of extraArgs ''--register-with-taints'' = None \<longrightarrow> argsView s h' ''kubelet'' ''--register-with-taints'' = Some []) \<and>
    (map_of extraArgs ''--anonymous-auth'' = None \<longrightarrow> argsView s h' ''kubelet'' ''--anonymous-auth'' = Some ''false'') \<and>
    (map_of extraArgs ''--authorization-mode'' = None \<longrightarrow> argsView s h' ''kubelet'' ''--authorization-mode'' = Some ''Webhook'')"
proof -
  have v: "argsView s h' ''kubelet'' =
      startedWith extraArgs (kubeletArgs s hostname ips dns domain cp [] kubeletWorkerLabels) [] (argsView s h ''kubelet'')"
    using applyServiceArgs_view [OF assms(1,3) kubeletArgs_good assms(2) run [unfolded KubeletWorker_def kubelet_def]]
    by simp
  show ?thesis
    unfolding v by (simp add: startedWith_def kubeletArgs_def kubeletWorkerLabels_def)
qed

lemma sample_kubelet_wf: "wfArgs (kubeletArgs sampleSnap ''node1'' [] [] [] [] [] kubeletWorkerLabels)"
  by (simp add: kubeletArgs_def kubeletWorkerLabels_def kubeletTLSCipherSuites_def wfArgs_def wfKey_def wfValue_def
      isSpace_def snapKubernetesPKIDir_def KubernetesConfigDir_def KubeletRootDir_def ContainerdSocketPath_def
      sampleSnap_def NewSnap_def path_eval)

theorem KubeletWorker_arguments_witness:
  "\<exists>h'. KubeletWorker sampleSnap ''node1'' [] [] [] [] [] sampleHost = (h', ok) \<and>
     argsView sampleSnap h' ''kubelet'' ''--register-with-taints'' = Some []"
proof -
  have extra: "wfExtra []" by (simp add: wfExtra_def)
  obtain h' where run: "KubeletWorker sampleSnap ''node1'' [] [] [] [] [] sampleHost = (h', ok)"
    using applyServiceArgs_total [OF sampleHost_noFaults] unfolding KubeletWorker_def kubelet_def by blast
  from KubeletWorker_arguments [OF sampleHost_inv extra sample_kubelet_wf run] run show ?thesis by auto
qed

end
