(* ===== verification/NodeConfig.thy ===== *)
theory NodeConfig
  imports Merge
begin

text \<open>
  What control plane nodes publish for all nodes, and what they hand to joining workers: the
  signed config map (\<open>pkg/k8sd/types/cluster_config_node.go\<close>) and the worker join token
  (\<open>pkg/k8sd/types/worker.go\<close>).

  RSA, SHA-256 and the JSON encodings are the operations of \<open>nodeCrypto\<close> and \<open>tokenJson\<close>; base64
  is modelled. The JSON form of a map lists its keys in alphabetical order, so the encoder gets
  the sorted entries.
\<close>

section \<open>Base64\<close>

definition base64Alphabet :: string where
  "base64Alphabet = ''ABCDEFGHIJKLMNOPQRSTUVWXYZabcdefghijklmnopqrstuvwxyz0123456789+/''"

definition base64Char :: "nat \<Rightarrow> char" where
  "base64Char n = base64Alphabet ! (n mod 64)"

definition base64Val :: "char \<Rightarrow> nat option" where
  "base64Val c = map_of (zip base64Alphabet [0..<64]) c"

abbreviation byteOf :: "char \<Rightarrow> nat" where
  "byteOf c \<equiv> of_char c"

abbreviation chr :: "nat \<Rightarrow> char" where
  "chr n \<equiv> char_of n"

fun base64Encode :: "string \<Rightarrow> string" where
  "base64Encode [] = []"
| "base64Encode [a] =
     (let n = byteOf a * 65536 in [base64Char (n div 262144), base64Char (n div 4096), CHR ''='', CHR ''=''])"
| "base64Encode [a, b] =
     (let n = byteOf a * 65536 + byteOf b * 256
      in [base64Char (n div 262144), base64Char (n div 4096), base64Char (n div 64), CHR ''=''])"
| "base64Encode (a # b # c # s) =
     (let n = byteOf a * 65536 + byteOf b * 256 + byteOf c
      in [base64Char (n div 262144), base64Char (n div 4096), base64Char (n div 64), base64Char n] @ base64Encode s)"

text \<open>Decoding in groups of four; padding may only end the text. Line breaks are skipped.\<close>

fun base64Quanta :: "string \<Rightarrow> string option" where
  "base64Quanta [] = Some []"
| "base64Quanta (a # b # c # d # s) =
     (case (base64Val a, base64Val b) of
        (Some x, Some y) \<Rightarrow>
          if c = CHR ''='' then
            (if d = CHR ''='' \<and> s = [] then Some [chr ((x * 262144 + y * 4096) div 65536)] else None)
          else (case base64Val c of
             None \<Rightarrow> None
           | Some z \<Rightarrow>
               let n = x * 262144 + y * 4096 + z * 64 in
               if d = CHR ''='' then (if s = [] then Some [chr (n div 65536), chr (n div 256)] else None)
               else (case base64Val d of
                  None \<Rightarrow> None
                | Some w \<Rightarrow>
                    map_option (\<lambda>r. chr ((n + w) div 65536) # chr ((n + w) div 256) # chr (n + w) # r) (base64Quanta s)))
      | _ \<Rightarrow> None)"
| "base64Quanta _ = None"

definition base64Decode :: "string \<Rightarrow> string res" where
  "base64Decode s =
     (case base64Quanta (filter (\<lambda>c. c \<notin> {CHR 0x0A, CHR 0x0D}) s) of
        None \<Rightarrow> Inl (Errorf ''illegal base64 data at input byte'' [])
      | Some r \<Rightarrow> Inr r)"

lemma base64Val_Char [simp]: "base64Val (base64Char n) = Some (n mod 64)"
proof -
  have "list_all (\<lambda>n. base64Val (base64Alphabet ! n) = Some n) [0..<64]" by code_simp
  then have "\<forall>n < 64. base64Val (base64Alphabet ! n) = Some n" by (simp add: list_all_iff)
  then show ?thesis by (simp add: base64Char_def)
qed

lemma base64Char_plain: "base64Char n \<noteq> CHR ''=''" "base64Char n \<notin> {CHR 0x0A, CHR 0x0D}"
proof -
  have "list_all (\<lambda>n. base64Alphabet ! n \<noteq> CHR ''='' \<and> base64Alphabet ! n \<notin> {CHR 0x0A, CHR 0x0D}) [0..<64]"
    by code_simp
  then have "\<forall>n < 64. base64Alphabet ! n \<noteq> CHR ''='' \<and> base64Alphabet ! n \<notin> {CHR 0x0A, CHR 0x0D}"
    by (simp add: list_all_iff)
  then show "base64Char n \<noteq> CHR ''=''" "base64Char n \<notin> {CHR 0x0A, CHR 0x0D}"
    by (simp_all add: base64Char_def)
qed

lemma byteOf_less: "byteOf c < (256 :: nat)"
  by simp

lemma chr_byteOf: "n mod 256 = byteOf c \<Longrightarrow> chr n = c"
  by (metis char_of_mod_256 char_of_char)

lemma base64Encode_plain: "filter (\<lambda>c. c \<notin> {CHR 0x0A, CHR 0x0D}) (base64Encode s) = base64Encode s"
  by (induction s rule: base64Encode.induct) (use base64Char_plain(2) in \<open>simp_all add: Let_def\<close>)

text \<open>The four digits of a group of three bytes are the number they came from, and so are the bytes.\<close>

lemma base64_digits:
  fixes n :: nat
  assumes "n < 16777216"
  shows "n div 262144 mod 64 * 262144 + n div 4096 mod 64 * 4096 + n div 64 mod 64 * 64 + n mod 64 = n"
proof -
  have d: "n div 4096 = n div 64 div 64" "n div 262144 = n div 64 div 64 div 64"
    by (simp_all add: div_mult2_eq [symmetric])
  have "n div 64 div 64 div 64 < 64" using assms by (simp add: div_mult2_eq [symmetric] less_mult_imp_div_less)
  then show ?thesis
    unfolding d
    using mult_div_mod_eq [of 64 n] mult_div_mod_eq [of 64 "n div 64"] mult_div_mod_eq [of 64 "n div 64 div 64"]
    by (simp only: mod_less)
qed

lemma base64_bytes:
  fixes a b c :: nat
  assumes "b < 256" "c < 256"
  defines "n \<equiv> a * 65536 + b * 256 + c"
  shows "n div 65536 = a" "n div 256 mod 256 = b" "n mod 256 = c"
proof -
  have n: "n = (a * 256 + b) * 256 + c" by (simp add: n_def)
  have n256: "n div 256 = a * 256 + b" using assms(2) unfolding n by simp
  then show "n div 256 mod 256 = b" using assms(1) by simp
  have "n div 65536 = n div 256 div 256" by (simp add: div_mult2_eq [symmetric])
  then show "n div 65536 = a" using n256 assms(1) by simp
  show "n mod 256 = c" unfolding n mod_mult_self3 using assms(2) by simp
qed

lemma base64_bound: "byteOf a * 65536 + byteOf b * 256 + byteOf c < (16777216 :: nat)"
  using byteOf_less [of a] byteOf_less [of b] byteOf_less [of c] by linarith

lemma base64Quanta_encode: "base64Quanta (base64Encode s) = Some s"
proof (induction s rule: base64Encode.induct)
  case (2 a)
  let ?n = "byteOf a * 65536 :: nat"
  have "?n < 16777216" using byteOf_less [of a] by linarith
  moreover have "?n div 64 mod 64 = 0" "?n mod 64 = 0" by simp_all
  ultimately have "?n div 262144 mod 64 * 262144 + ?n div 4096 mod 64 * 4096 = ?n"
    using base64_digits [of ?n] by (simp only: mult_zero_left add_0_right)
  then show ?case
    unfolding base64Encode.simps Let_def base64Quanta.simps base64Val_Char prod.case option.case
    by (simp only: simp_thms if_True) simp
next
  case (3 a b)
  let ?n = "byteOf a * 65536 + byteOf b * 256 :: nat"
  have "?n < 16777216" using byteOf_less [of a] byteOf_less [of b] by linarith
  moreover have "?n mod 64 = 0" by simp
  ultimately have "?n div 262144 mod 64 * 262144 + ?n div 4096 mod 64 * 4096 + ?n div 64 mod 64 * 64 = ?n"
    using base64_digits [of ?n] by (simp only: add_0_right)
  moreover have "chr (?n div 65536) = a" "chr (?n div 256) = b"
    using base64_bytes [of "byteOf b" 0 "byteOf a"] byteOf_less [of b] by (simp_all add: chr_byteOf)
  ultimately show ?case
    unfolding base64Encode.simps Let_def base64Quanta.simps base64Val_Char prod.case option.case
    by (simp only: base64Char_plain if_False if_True simp_thms)
next
  case (4 a b c s)
  note bytes = base64_bytes [of "byteOf b" "byteOf c" "byteOf a", OF byteOf_less byteOf_less]
  show ?case
    using 4 base64_digits [OF base64_bound [of a b c]] bytes chr_byteOf [OF bytes(2)] chr_byteOf [OF bytes(3)]
    unfolding base64Encode.simps Let_def append.simps base64Quanta.simps base64Val_Char
    by (simp only: base64Char_plain prod.case option.case if_False option.map simp_thms char_of_char)
qed simp

interpretation b64: codec base64Encode base64Decode "\<lambda>_. True"
  by unfold_locales (simp only: base64Decode_def base64Encode_plain base64Quanta_encode option.case)

section \<open>The signed config map\<close>

text \<open>
  \<open>rsaSign\<close> and \<open>rsaVerify\<close> are PKCS #1 v1.5 signatures of a digest under a private and a public
  key; \<open>jsonMap\<close> and \<open>jsonTaints\<close> encode a map of strings and a list of strings.
\<close>

record ('sk, 'pk) nodeCrypto =
  jsonMap :: "(string \<times> string) list \<Rightarrow> string res"
  sha256 :: "string \<Rightarrow> string res"
  rsaSign :: "'sk \<Rightarrow> string \<Rightarrow> string res"
  rsaVerify :: "'pk \<Rightarrow> string \<Rightarrow> string \<Rightarrow> unit res"
  jsonTaints :: "string list \<Rightarrow> string res"
  parseTaints :: "string \<Rightarrow> string list res"

definition configMapHash :: "('sk, 'pk) nodeCrypto \<Rightarrow> string gomap \<Rightarrow> string res" where
  "configMapHash x d =
     (case jsonMap x (sort_key fst d) of
        Inl e \<Rightarrow> Inl (Wrapf ''failed to marshal config: %w'' [] e)
      | Inr data \<Rightarrow>
          (case sha256 x data of
             Inl e \<Rightarrow> Inl (Wrapf ''failed to compute sha256: %w'' [] e)
           | Inr h \<Rightarrow> Inr h))"

definition withoutSignature :: "string gomap \<Rightarrow> string gomap" where
  "withoutSignature d = filter (\<lambda>(k, v). k \<noteq> ''k8sd-mac'') d"

definition putIfSet :: "string \<Rightarrow> string ptr \<Rightarrow> string gomap \<Rightarrow> string gomap" where
  "putIfSet k v d = (case v of None \<Rightarrow> d | Some w \<Rightarrow> AList.update k w d)"

definition boolText :: "bool \<Rightarrow> string" where
  "boolText b = (if b then ''true'' else ''false'')"

definition nodeConfigData :: "string ptr \<Rightarrow> ClusterConfig \<Rightarrow> string gomap" where
  "nodeConfigData taints config =
     AList.update ''kube-proxy-enabled'' (boolText (GetKubeProxyEnabled (CC_Network config)))
       (putIfSet ''control-plane-taints'' taints
         (putIfSet ''cluster-domain'' (Kubelet_ClusterDomain (CC_Kubelet config))
           (putIfSet ''cluster-dns'' (Kubelet_ClusterDNS (CC_Kubelet config))
             (putIfSet ''cloud-provider'' (Kubelet_CloudProvider (CC_Kubelet config)) []))))"

definition signConfigMap :: "('sk, 'pk) nodeCrypto \<Rightarrow> 'sk ptr \<Rightarrow> string gomap \<Rightarrow> string gomap res" where
  "signConfigMap x key data =
     (case key of
        None \<Rightarrow> Inr data
      | Some k \<Rightarrow>
          (case configMapHash x data of
             Inl e \<Rightarrow> Inl (Wrapf ''failed to compute hash: %w'' [] e)
           | Inr hash \<Rightarrow>
               (case rsaSign x k hash of
                  Inl e \<Rightarrow> Inl (Wrapf ''failed to sign hash: %w'' [] e)
                | Inr mac \<Rightarrow> Inr (AList.update ''k8sd-mac'' (base64Encode mac) data))))"

definition ClusterConfigToConfigMap ::
  "('sk, 'pk) nodeCrypto \<Rightarrow> ClusterConfig \<Rightarrow> 'sk ptr \<Rightarrow> string gomap res"
where
  "ClusterConfigToConfigMap x config key =
     (case Kubelet_ControlPlaneTaints (CC_Kubelet config) of
        None \<Rightarrow> signConfigMap x key (nodeConfigData None config)
      | Some v \<Rightarrow>
          (case jsonTaints x v of
             Inl e \<Rightarrow> Inl (Wrapf ''failed to marshal control plane taints: %w'' [] e)
           | Inr taints \<Rightarrow> signConfigMap x key (nodeConfigData (Some taints) config)))"

definition verifyConfigMap :: "('sk, 'pk) nodeCrypto \<Rightarrow> string gomap \<Rightarrow> 'pk ptr \<Rightarrow> unit res" where
  "verifyConfigMap x m key =
     (case key of
        None \<Rightarrow> ok
      | Some k \<Rightarrow>
          (case configMapHash x (withoutSignature m) of
             Inl e \<Rightarrow> Inl (Wrapf ''failed to compute config hash: %w'' [] e)
           | Inr hash \<Rightarrow>
               (case base64Decode (mapGet m ''k8sd-mac'') of
                  Inl e \<Rightarrow> Inl (Wrapf ''failed to parse signature: %w'' [] e)
                | Inr signature \<Rightarrow>
                    (case rsaVerify x k hash signature of
                       Inl e \<Rightarrow> Inl (Wrapf ''failed to verify signature: %w'' [] e)
                     | Inr _ \<Rightarrow> ok))))"

definition parseNodeConfig :: "('sk, 'pk) nodeCrypto \<Rightarrow> string gomap \<Rightarrow> ClusterConfig res" where
  "parseNodeConfig x m =
     (case (case map_of m ''control-plane-taints'' of
              None \<Rightarrow> Inr None
            | Some v \<Rightarrow> (case parseTaints x v of Inl e \<Rightarrow> Inl e | Inr taints \<Rightarrow> Inr (Some taints))) of
        Inl e \<Rightarrow> Inl (Wrapf ''failed to parse control plane taints: %w'' [] e)
      | Inr taints \<Rightarrow>
          let config = emptyClusterConfig
            \<lparr>CC_Kubelet := \<lparr>Kubelet_CloudProvider = map_of m ''cloud-provider'', Kubelet_ClusterDNS = map_of m ''cluster-dns'',
                Kubelet_ClusterDomain = map_of m ''cluster-domain'', Kubelet_ControlPlaneTaints = taints\<rparr>\<rparr>;
              withProxy = (\<lambda>b. config\<lparr>CC_Network := (CC_Network config)\<lparr>Network_KubeProxyEnabled := Some b\<rparr>\<rparr>) in
          (case map_of m ''kube-proxy-enabled'' of
             Some v \<Rightarrow>
               if v \<noteq> ''true'' \<and> v \<noteq> ''false''
               then Inl (Errorf ''invalid value for kube-proxy-enabled: %q'' [v]) else Inr (withProxy (v = ''true''))
           | None \<Rightarrow> Inr (withProxy True)))"

definition ConfigMapToClusterConfig ::
  "('sk, 'pk) nodeCrypto \<Rightarrow> string gomap ptr \<Rightarrow> 'pk ptr \<Rightarrow> ClusterConfig res"
where
  "ConfigMapToClusterConfig x m key =
     (case m of
        None \<Rightarrow> Inr emptyClusterConfig
      | Some m \<Rightarrow> (case verifyConfigMap x m key of Inl e \<Rightarrow> Inl e | Inr _ \<Rightarrow> parseNodeConfig x m))"

section \<open>Worker join token\<close>

record InternalWorkerNodeToken =
  WN_Token :: string
  WN_Secret :: string
  WN_JoinAddresses :: "string list"
  WN_Fingerprint :: string

definition internalWorkerNodeTokenSerializeMagicString :: string where
  "internalWorkerNodeTokenSerializeMagicString = ''m!!''"

text \<open>JSON of a token with its magic string.\<close>

record tokenJson =
  tokenMarshal :: "InternalWorkerNodeToken \<times> string \<Rightarrow> string res"
  tokenUnmarshal :: "string \<Rightarrow> (InternalWorkerNodeToken \<times> string) res"

definition Token_Encode :: "tokenJson \<Rightarrow> InternalWorkerNodeToken \<Rightarrow> string res" where
  "Token_Encode j t =
     (case tokenMarshal j (t, internalWorkerNodeTokenSerializeMagicString) of
        Inl e \<Rightarrow> Inl (Wrapf ''failed to marshal token: %w'' [] e)
      | Inr b \<Rightarrow> Inr (base64Encode b))"

definition Token_Decode :: "tokenJson \<Rightarrow> string \<Rightarrow> InternalWorkerNodeToken res" where
  "Token_Decode j encoded =
     (case base64Decode encoded of
        Inl e \<Rightarrow> Inl (Wrapf ''failed to deserialize token: %w'' [] e)
      | Inr raw \<Rightarrow>
          (case tokenUnmarshal j raw of
             Inl e \<Rightarrow> Inl (Wrapf ''failed to unmarshal token: %w'' [] e)
           | Inr (t, magic) \<Rightarrow>
               if magic \<noteq> internalWorkerNodeTokenSerializeMagicString
               then Inl (Errorf ''magic string mismatch'' []) else Inr t))"

section \<open>Reading back\<close>

lemma update_absent: "k \<notin> fst ` set m \<Longrightarrow> AList.update k v m = m @ [(k, v)]"
  by (induction m) auto

lemma map_of_putIfSet: "map_of (putIfSet k v d) k' = (if k' = k \<and> v \<noteq> None then v else map_of d k')"
  by (auto simp: putIfSet_def update_conv' split: option.split)

lemma nodeConfigData_get:
  "map_of (nodeConfigData t c) ''cloud-provider'' = Kubelet_CloudProvider (CC_Kubelet c)"
  "map_of (nodeConfigData t c) ''cluster-dns'' = Kubelet_ClusterDNS (CC_Kubelet c)"
  "map_of (nodeConfigData t c) ''cluster-domain'' = Kubelet_ClusterDomain (CC_Kubelet c)"
  "map_of (nodeConfigData t c) ''control-plane-taints'' = t"
  "map_of (nodeConfigData t c) ''kube-proxy-enabled'' = Some (boolText (GetKubeProxyEnabled (CC_Network c)))"
  "map_of (nodeConfigData t c) ''k8sd-mac'' = None"
  by (auto simp: nodeConfigData_def update_conv' map_of_putIfSet)

lemma nodeConfigData_good: "goodMap (nodeConfigData t c)"
  by (auto simp: nodeConfigData_def putIfSet_def distinct_update split: option.split)

text \<open>Signing adds one entry, which the check takes out again.\<close>

lemma withoutSignature_signed:
  assumes "map_of d ''k8sd-mac'' = None"
  shows "withoutSignature (AList.update ''k8sd-mac'' v d) = d"
proof -
  have no: "''k8sd-mac'' \<notin> fst ` set d" using assms by (simp add: map_of_eq_None_iff)
  have "withoutSignature d = d"
    unfolding withoutSignature_def filter_id_conv using no by force
  then show ?thesis by (simp add: update_absent [OF no]) (simp add: withoutSignature_def)
qed

lemma signConfigMap_verify:
  assumes "signConfigMap x (Some sk) d = Inr m" "map_of d ''k8sd-mac'' = None"
    "\<And>h s. rsaSign x sk h = Inr s \<Longrightarrow> rsaVerify x pk h s = ok"
  shows "verifyConfigMap x m (Some pk) = ok \<and> (\<forall>k. k \<noteq> ''k8sd-mac'' \<longrightarrow> map_of m k = map_of d k)"
proof -
  obtain h mac where h: "configMapHash x d = Inr h" "rsaSign x sk h = Inr mac"
    and m: "m = AList.update ''k8sd-mac'' (base64Encode mac) d"
    using assms(1) by (auto simp: signConfigMap_def split: sum.splits)
  show ?thesis
    using h assms(3) [OF h(2)]
    by (simp add: m verifyConfigMap_def withoutSignature_signed [OF assms(2)] update_conv' b64.decode_encode)
qed

lemma parseNodeConfig_cong:
  assumes "\<And>k. k \<noteq> ''k8sd-mac'' \<Longrightarrow> map_of m k = map_of m' k"
  shows "parseNodeConfig x m = parseNodeConfig x m'"
proof -
  have eq: "map_of m ''cloud-provider'' = map_of m' ''cloud-provider''" "map_of m ''cluster-dns'' = map_of m' ''cluster-dns''"
    "map_of m ''cluster-domain'' = map_of m' ''cluster-domain''"
    "map_of m ''control-plane-taints'' = map_of m' ''control-plane-taints''"
    "map_of m ''kube-proxy-enabled'' = map_of m' ''kube-proxy-enabled''"
    by (simp_all add: assms)
  show ?thesis unfolding parseNodeConfig_def eq ..
qed

text \<open>The part of a configuration that nodes get.\<close>

definition nodePart :: "ClusterConfig \<Rightarrow> ClusterConfig" where
  "nodePart c = emptyClusterConfig\<lparr>CC_Kubelet := CC_Kubelet c,
     CC_Network := emptyNetwork\<lparr>Network_KubeProxyEnabled := Some (GetKubeProxyEnabled (CC_Network c))\<rparr>\<rparr>"

lemma parse_nodeConfigData:
  assumes "case Kubelet_ControlPlaneTaints (CC_Kubelet c) of None \<Rightarrow> t = None
    | Some ts \<Rightarrow> (\<exists>j. t = Some j \<and> parseTaints x j = Inr ts)"
  shows "parseNodeConfig x (nodeConfigData t c) = Inr (nodePart c)"
  using assms
  by (cases "CC_Kubelet c")
    (auto simp: parseNodeConfig_def nodeConfigData_get Let_def boolText_def nodePart_def empty_defs split: option.splits)

lemma configMap_reads:
  assumes "ClusterConfigToConfigMap x c (Some sk) = Inr m"
    "\<And>h s. rsaSign x sk h = Inr s \<Longrightarrow> rsaVerify x pk h s = ok"
    "\<And>ts t. jsonTaints x ts = Inr t \<Longrightarrow> parseTaints x t = Inr ts"
  shows "ConfigMapToClusterConfig x (Some m) (Some pk) = Inr (nodePart c)"
proof -
  obtain t where t: "case Kubelet_ControlPlaneTaints (CC_Kubelet c) of None \<Rightarrow> t = None
      | Some ts \<Rightarrow> (\<exists>j. t = Some j \<and> parseTaints x j = Inr ts)"
    and s: "signConfigMap x (Some sk) (nodeConfigData t c) = Inr m"
    using assms(1,3) by (auto simp: ClusterConfigToConfigMap_def split: option.splits sum.splits)
  from signConfigMap_verify [OF s nodeConfigData_get(6) assms(2)]
  have v: "verifyConfigMap x m (Some pk) = ok" and
    p: "parseNodeConfig x m = parseNodeConfig x (nodeConfigData t c)"
    by (auto intro: parseNodeConfig_cong)
  then show ?thesis by (simp add: ConfigMapToClusterConfig_def p parse_nodeConfigData [OF t])
qed

text \<open>
  C10: the config map of a cluster configuration, signed with the cluster's private key, is
  accepted under the public key and gives back the kubelet settings and the effective kube-proxy flag.
\<close>

theorem config_map_roundtrip:
  assumes "ClusterConfigToConfigMap x c (Some sk) = Inr m"
    "\<And>h s. rsaSign x sk h = Inr s \<Longrightarrow> rsaVerify x pk h s = ok"
    "\<And>ts t. jsonTaints x ts = Inr t \<Longrightarrow> parseTaints x t = Inr ts"
  shows "ConfigMapToClusterConfig x (Some m) (Some pk) = Inr (nodePart c)"
  using assms by (rule configMap_reads)

lemma withoutSignature_get: "k \<noteq> ''k8sd-mac'' \<Longrightarrow> map_of (withoutSignature m) k = map_of m k"
  by (induction m) (auto simp: withoutSignature_def)

lemma withoutSignature_good: "goodMap m \<Longrightarrow> goodMap (withoutSignature m)"
  unfolding withoutSignature_def by (rule distinct_map_filter)

lemma verifyConfigMap_ok:
  "verifyConfigMap x m (Some pk) = ok \<Longrightarrow> \<exists>h s. configMapHash x (withoutSignature m) = Inr h \<and>
     base64Decode (mapGet m ''k8sd-mac'') = Inr s \<and> rsaVerify x pk h s = ok"
  by (auto simp: verifyConfigMap_def split: sum.splits)

text \<open>
  C11: a signature cannot be moved to other data. Of two config maps that carry the same
  signature and whose data do not collide under the hash, if both are accepted then they are the
  same configuration. (An RSA signature verifies for one digest only.)
\<close>

theorem config_map_signature_binds:
  assumes "ConfigMapToClusterConfig x (Some m) (Some pk) = Inr c" "ConfigMapToClusterConfig x (Some m') (Some pk) = Inr c'"
    "mapGet m ''k8sd-mac'' = mapGet m' ''k8sd-mac''" "goodMap m" "goodMap m'"
    "\<And>h h' s. rsaVerify x pk h s = ok \<Longrightarrow> rsaVerify x pk h' s = ok \<Longrightarrow> h = h'"
    "configMapHash x (withoutSignature m) = configMapHash x (withoutSignature m') \<Longrightarrow>
       sort_key fst (withoutSignature m) = sort_key fst (withoutSignature m')"
  shows "c = c' \<and> (\<forall>k. map_of m k = map_of m' k \<or> k = ''k8sd-mac'')"
proof -
  have v: "verifyConfigMap x m (Some pk) = ok" "verifyConfigMap x m' (Some pk) = ok"
    using assms(1,2) by (auto simp: ConfigMapToClusterConfig_def split: sum.splits)
  have "configMapHash x (withoutSignature m) = configMapHash x (withoutSignature m')"
    using verifyConfigMap_ok [OF v(1)] verifyConfigMap_ok [OF v(2)] assms(3,6) by auto
  from assms(7) [OF this] have "set (withoutSignature m) = set (withoutSignature m')"
    by (metis set_sort)
  then have "map_of (withoutSignature m) = map_of (withoutSignature m')"
    using map_of_inject_set withoutSignature_good assms(4,5) by blast
  then have eq: "map_of m k = map_of m' k" if "k \<noteq> ''k8sd-mac''" for k
    using withoutSignature_get [OF that] by metis
  then have "parseNodeConfig x m = parseNodeConfig x m'" by (rule parseNodeConfig_cong)
  then have "c = c'" using assms(1,2) v by (simp add: ConfigMapToClusterConfig_def)
  with eq show ?thesis by blast
qed

text \<open>
  A worker join token is decoded to what was encoded, and a text is accepted only if it is
  the base64 form of a JSON token with the magic string.
\<close>

theorem worker_token_codec:
  assumes "\<And>b. tokenMarshal j (t, ''m!!'') = Inr b \<Longrightarrow> tokenUnmarshal j b = Inr (t, ''m!!'')"
  shows "(Token_Encode j t = Inr e \<longrightarrow> Token_Decode j e = Inr t) \<and>
    (Token_Decode j e' = Inr t' \<longleftrightarrow> (\<exists>raw. base64Decode e' = Inr raw \<and> tokenUnmarshal j raw = Inr (t', ''m!!'')))"
  using assms
  by (auto simp: Token_Encode_def Token_Decode_def internalWorkerNodeTokenSerializeMagicString_def b64.decode_encode
      split: sum.splits)

section \<open>A sample scheme\<close>

text \<open>A stand-in for the signature scheme: the signature of a digest is the digest.\<close>

definition sampleNodeCrypto :: "(unit, unit) nodeCrypto" where
  "sampleNodeCrypto = \<lparr>jsonMap = (\<lambda>d. Inr (concat (map (\<lambda>(k, v). k @ ''='' @ v @ '';'') d))), sha256 = Inr,
     rsaSign = (\<lambda>_ h. Inr h), rsaVerify = (\<lambda>_ h s. if s = h then ok else Inl (Errorf ''crypto/rsa: verification error'' [])),
     jsonTaints = (\<lambda>ts. Inr (joinWith (CHR '','') ts)), parseTaints = (\<lambda>s. Inr (splitOn (CHR '','') s))\<rparr>"

definition sampleTaintCrypto :: "(unit, unit) nodeCrypto" where
  "sampleTaintCrypto = sampleNodeCrypto\<lparr>jsonTaints := (\<lambda>ts. if ts = [''a'', ''b''] then Inr ''a,b'' else Inl (Errorf ''unsupported'' []))\<rparr>"

theorem config_map_roundtrip_witness:
  "\<exists>m. ClusterConfigToConfigMap sampleTaintCrypto
       (sampleConfig\<lparr>CC_Kubelet := (CC_Kubelet sampleConfig)\<lparr>Kubelet_ControlPlaneTaints := Some [''a'', ''b'']\<rparr>\<rparr>) (Some ()) = Inr m
    \<and> ConfigMapToClusterConfig sampleTaintCrypto (Some m) (Some ()) =
        Inr (nodePart (sampleConfig\<lparr>CC_Kubelet := (CC_Kubelet sampleConfig)\<lparr>Kubelet_ControlPlaneTaints := Some [''a'', ''b'']\<rparr>\<rparr>))"
proof -
  let ?c = "sampleConfig\<lparr>CC_Kubelet := (CC_Kubelet sampleConfig)\<lparr>Kubelet_ControlPlaneTaints := Some [''a'', ''b'']\<rparr>\<rparr>"
  have "\<exists>m. ClusterConfigToConfigMap sampleTaintCrypto ?c (Some ()) = Inr m"
    by (simp add: ClusterConfigToConfigMap_def signConfigMap_def configMapHash_def sampleTaintCrypto_def sampleNodeCrypto_def)
  then obtain m where m: "ClusterConfigToConfigMap sampleTaintCrypto ?c (Some ()) = Inr m" by blast
  have "ConfigMapToClusterConfig sampleTaintCrypto (Some m) (Some ()) = Inr (nodePart ?c)"
    by (rule config_map_roundtrip [OF m])
      (auto simp: sampleTaintCrypto_def sampleNodeCrypto_def split: if_splits)
  with m show ?thesis by blast
qed

theorem config_map_signature_binds_witness:
  "ConfigMapToClusterConfig sampleNodeCrypto (Some [(''cluster-dns'', ''a''), (''k8sd-mac'', base64Encode ''cluster-dns=a;'')]) (Some ()) =
   ConfigMapToClusterConfig sampleNodeCrypto (Some [(''k8sd-mac'', base64Encode ''cluster-dns=a;''), (''cluster-dns'', ''a'')]) (Some ())
   \<and> is_ok (ConfigMapToClusterConfig sampleNodeCrypto (Some [(''cluster-dns'', ''a''), (''k8sd-mac'', base64Encode ''cluster-dns=a;'')]) (Some ()))"
proof -
  let ?mac = "base64Encode ''cluster-dns=a;''"
  let ?m = "[(''cluster-dns'', ''a''), (''k8sd-mac'', ?mac)]" and ?m' = "[(''k8sd-mac'', ?mac), (''cluster-dns'', ''a'')]"
  have w: "withoutSignature ?m = [(''cluster-dns'', ''a'')]" "withoutSignature ?m' = [(''cluster-dns'', ''a'')]"
    by (simp_all add: withoutSignature_def)
  have v: "verifyConfigMap sampleNodeCrypto ?m (Some ()) = ok" "verifyConfigMap sampleNodeCrypto ?m' (Some ()) = ok"
    unfolding verifyConfigMap_def w
    by (simp_all add: configMapHash_def sampleNodeCrypto_def b64.decode_encode del: base64Encode.simps)
  obtain c c' where c: "ConfigMapToClusterConfig sampleNodeCrypto (Some ?m) (Some ()) = Inr c"
      "ConfigMapToClusterConfig sampleNodeCrypto (Some ?m') (Some ()) = Inr c'"
    by (simp add: ConfigMapToClusterConfig_def v parseNodeConfig_def Let_def del: base64Encode.simps)
  have "c = c' \<and> (\<forall>k. map_of ?m k = map_of ?m' k \<or> k = ''k8sd-mac'')"
    by (rule config_map_signature_binds [OF c])
      (auto simp: sampleNodeCrypto_def w simp del: base64Encode.simps split: if_splits)
  with c show ?thesis by (simp del: base64Encode.simps)
qed

definition sampleToken :: InternalWorkerNodeToken where
  "sampleToken = \<lparr>WN_Token = ''worker::07'', WN_Secret = ''s'', WN_JoinAddresses = [''10.0.0.1:6400''], WN_Fingerprint = ''f''\<rparr>"

theorem worker_token_codec_witness:
  "Token_Decode \<lparr>tokenMarshal = (\<lambda>_. Inr ''tok''), tokenUnmarshal = (\<lambda>_. Inr (sampleToken, ''m!!''))\<rparr> (base64Encode ''tok'') = Inr sampleToken"
proof -
  let ?j = "\<lparr>tokenMarshal = (\<lambda>_. Inr ''tok''), tokenUnmarshal = (\<lambda>_. Inr (sampleToken, ''m!!''))\<rparr>"
  have "Token_Encode ?j sampleToken = Inr (base64Encode ''tok'')"
    by (simp add: Token_Encode_def del: base64Encode.simps)
  then show ?thesis using worker_token_codec [of ?j sampleToken "base64Encode ''tok''"] by (simp del: base64Encode.simps)
qed

end
