(* ===== verification/Controllers.thy ===== *)
theory Controllers
  imports Convert Database NodeFiles ServiceSetup NodeConfig
begin

text \<open>
  The controllers that every node runs (\<open>pkg/k8sd/controllers\<close>): the control plane configuration,
  the published node configuration, its application on a node, node labels and service
  arguments; with the parts of snapd configuration they touch
  (\<open>pkg/utils/experimental/snapdconfig\<close>) and the callbacks of \<open>pkg/k8sd/app/hooks_start.go\<close>.

  A reconcile is a step on the host, on the host and the database (record \<open>Node\<close>), or on the
  state \<open>'k\<close> of the Kubernetes API, of which only the calls made are parameters. A \<open>Run\<close> loop
  is a function of the list of its triggers; it ends with the list (the context is done) or by itself.
\<close>

section \<open>Snapd configuration\<close>

text \<open>\<open>out\<close> is what \<open>snapctl get\<close> prints.\<close>

definition SnapctlGet :: "(string list \<Rightarrow> string) \<Rightarrow> string list \<Rightarrow> Host \<Rightarrow> (Host, string) step" where
  "SnapctlGet out args h =
     tryPass (runCommand h ([''snapctl'', ''get''] @ args)) (\<lambda>h _. (h, Inr (out args)))"

definition SnapctlSet :: "string list \<Rightarrow> Host \<Rightarrow> (Host, unit) step" where
  "SnapctlSet args h = runCommand h ([''snapctl'', ''set''] @ args)"

record Meta =
  Orb :: string
  Meta_APIVersion :: string
  Meta_Error :: string

datatype snapdSection =
    MetaSection Meta | DNSSection DNSConfig | NetworkSection NetworkConfig | LocalStorageSection LocalStorage
  | LoadBalancerSection LoadBalancerConfig | IngressSection Ingress | GatewaySection Gateway

text \<open>JSON of the sections; the order in which Go visits the map of sections.\<close>

record snapdIO =
  snapctlOut :: "string list \<Rightarrow> string"
  parseMetaJson :: "string \<Rightarrow> Meta res"
  sectionJson :: "snapdSection \<Rightarrow> string res"
  sectionOrder :: "(string \<times> snapdSection) list \<Rightarrow> (string \<times> snapdSection) list"

definition checkMeta :: "Meta \<Rightarrow> Meta res" where
  "checkMeta m =
     (let m = (if Orb m = [] then m\<lparr>Orb := ''none''\<rparr> else m) in
      if Orb m \<notin> {''k8sd'', ''snapd'', ''none''} then Inl (Errorf ''invalid meta.orb value %q'' [Orb m])
      else let m = (if Meta_APIVersion m = [] then m\<lparr>Meta_APIVersion := ''1.30''\<rparr> else m) in
      if Meta_APIVersion m \<noteq> ''1.30'' then Inl (Errorf ''invalid meta.apiVersion value %q'' [Meta_APIVersion m])
      else Inr m)"

definition ParseMeta :: "snapdIO \<Rightarrow> Host \<Rightarrow> (Host, Meta) step" where
  "ParseMeta io h =
     tryStep (SnapctlGet (snapctlOut io) [''-d'', ''meta''] h) ''failed to get snapd config mode: %w'' [] (\<lambda>h b.
     tryStep (h, parseMetaJson io b) ''failed to parse snap config mode: %w'' [] (\<lambda>h m. (h, checkMeta m)))"

definition snapdSections :: "UserFacingClusterConfig \<Rightarrow> (string \<times> snapdSection) list" where
  "snapdSections config =
     [(''meta'', MetaSection \<lparr>Orb = ''snapd'', Meta_APIVersion = ''1.30'', Meta_Error = []\<rparr>),
      (''dns'', DNSSection (UF_DNS config)), (''network'', NetworkSection (UF_Network config)),
      (''local-storage'', LocalStorageSection (UF_LocalStorage config)),
      (''load-balancer'', LoadBalancerSection (UF_LoadBalancer config)),
      (''ingress'', IngressSection (UF_Ingress config)), (''gateway'', GatewaySection (UF_Gateway config))]"

fun snapdSets :: "(snapdSection \<Rightarrow> string res) \<Rightarrow> (string \<times> snapdSection) list \<Rightarrow> string list \<Rightarrow> string list res" where
  "snapdSets json [] acc = Inr acc"
| "snapdSets json ((key, cfg) # rest) acc =
     (case json cfg of
        Inl e \<Rightarrow> Inl (Wrapf ''failed to marshal %s config: %w'' [key] e)
      | Inr b \<Rightarrow> snapdSets json rest (acc @ [key @ ''='' @ b]))"

definition SetSnapdFromK8sd :: "snapdIO \<Rightarrow> UserFacingClusterConfig \<Rightarrow> Host \<Rightarrow> (Host, unit) step" where
  "SetSnapdFromK8sd io config h =
     (case snapdSets (sectionJson io) (sectionOrder io (snapdSections config)) [] of
        Inl e \<Rightarrow> (h, Inl e)
      | Inr sets \<Rightarrow> tryStep (SnapctlSet sets h) ''failed to set snapd configuration: %w'' [] (\<lambda>h _. (h, ok)))"

section \<open>Control plane configuration\<close>

definition externalPKI :: "ClusterConfig \<Rightarrow> ExternalDatastorePKI" where
  "externalPKI config =
     \<lparr>DatastoreCACert = getStr (Datastore_ExternalCACert (CC_Datastore config)),
      DatastoreClientCert = getStr (Datastore_ExternalClientCert (CC_Datastore config)),
      DatastoreClientKey = getStr (Datastore_ExternalClientKey (CC_Datastore config))\<rparr>"

definition reconcileDatastore :: "IP res \<Rightarrow> Snap \<Rightarrow> ClusterConfig \<Rightarrow> Host \<Rightarrow> (Host, unit) step" where
  "reconcileDatastore localhost s config h =
     (if getStr (Datastore_Type (CC_Datastore config)) = ''external'' then
        tryStep (EnsureExtDatastorePKI (externalPKI config) h)
          ''failed to reconcile external datastore certificates: %w'' [] (\<lambda>h certificatesChanged.
        tryStep (h, ToKubeAPIServerArguments localhost snapPaths (CC_Datastore config))
          ''failed to get datastore arguments for kube-apiserver: %w'' [] (\<lambda>h (updateArgs, deleteArgs).
        tryStep (UpdateServiceArguments s ''kube-apiserver'' updateArgs deleteArgs h)
          ''failed to update kube-apiserver datastore arguments: %w'' [] (\<lambda>h argsChanged.
        if certificatesChanged \<or> argsChanged
        then tryStep (RestartServices h [''kube-apiserver''] [])
          ''failed to restart kube-apiserver to apply configuration: %w'' [] (\<lambda>h _. (h, ok))
        else (h, ok))))
      else (h, ok))"

definition reconcileCloudProvider :: "Snap \<Rightarrow> ClusterConfig \<Rightarrow> Host \<Rightarrow> (Host, unit) step" where
  "reconcileCloudProvider s config h =
     (case Kubelet_CloudProvider (CC_Kubelet config) of
        None \<Rightarrow> (h, ok)
      | Some v \<Rightarrow>
          tryStep (UpdateServiceArguments s ''kube-controller-manager'' [(''--cloud-provider'', v)] [] h)
            ''failed to update kube-controller-manager arguments: %w'' [] (\<lambda>h mustRestart.
          if mustRestart
          then tryStep (RestartServices h [''kube-controller-manager''] [])
            ''failed to restart kube-controller-manager to apply configuration: %w'' [] (\<lambda>h _. (h, ok))
          else (h, ok)))"

text \<open>A failure to update snapd is logged only.\<close>

definition reconcileSnapd :: "snapdIO \<Rightarrow> ClusterConfig \<Rightarrow> Host \<Rightarrow> (Host, unit) step" where
  "reconcileSnapd io config h =
     (case ParseMeta io h of
        (h, Inl _) \<Rightarrow> (h, ok)
      | (h, Inr meta) \<Rightarrow>
          if Orb meta \<noteq> ''none'' then (fst (SetSnapdFromK8sd io (ToUserFacing config) h), ok) else (h, ok))"

definition ControlPlane_reconcile ::
  "IP res \<Rightarrow> snapdIO \<Rightarrow> Snap \<Rightarrow> ClusterConfig \<Rightarrow> Host \<Rightarrow> (Host, unit) step"
where
  "ControlPlane_reconcile localhost io s config h =
     tryPass (reconcileDatastore localhost s config h) (\<lambda>h _.
     tryPass (reconcileCloudProvider s config h) (\<lambda>h _. reconcileSnapd io config h))"

text \<open>
  \<open>Run\<close>: a trigger brings what \<open>getClusterConfig\<close> answers at that time. The result says whether
  the loop ended by itself, because the node is a worker.
\<close>

fun ControlPlane_Run :: "IP res \<Rightarrow> snapdIO \<Rightarrow> Snap \<Rightarrow> ClusterConfig res list \<Rightarrow> Host \<Rightarrow> Host \<times> bool" where
  "ControlPlane_Run localhost io s [] h = (h, False)"
| "ControlPlane_Run localhost io s (getClusterConfig # triggers) h =
     (case IsWorker s h of
        Inl _ \<Rightarrow> ControlPlane_Run localhost io s triggers h
      | Inr True \<Rightarrow> (h, True)
      | Inr False \<Rightarrow>
          (case getClusterConfig of
             Inl _ \<Rightarrow> ControlPlane_Run localhost io s triggers h
           | Inr config \<Rightarrow>
               ControlPlane_Run localhost io s triggers (fst (ControlPlane_reconcile localhost io s config h))))"

section \<open>Publishing the node configuration\<close>

text \<open>\<open>apply\<close> is the server-side apply of the Kubernetes client: namespace, name and data.\<close>

definition UpdateConfigMap ::
  "(string \<Rightarrow> string \<Rightarrow> string gomap \<Rightarrow> 'k \<Rightarrow> ('k, unit) step) \<Rightarrow> string \<Rightarrow> string \<Rightarrow> string gomap \<Rightarrow> 'k \<Rightarrow> ('k, unit) step"
where
  "UpdateConfigMap apply namespace name data k =
     tryStep (apply namespace name data k)
       ''failed to update configmap, namespace: %s name: %s: %w'' [namespace, name] (\<lambda>k _. (k, ok))"

definition publishConfigMap ::
  "('sk, 'pk) nodeCrypto \<Rightarrow> (string \<Rightarrow> string \<Rightarrow> string gomap \<Rightarrow> 'k \<Rightarrow> ('k, unit) step) \<Rightarrow> ClusterConfig \<Rightarrow> 'sk ptr \<Rightarrow> 'k \<Rightarrow> ('k, unit) step"
where
  "publishConfigMap x apply config key k =
     tryStep (k, ClusterConfigToConfigMap x config key) ''failed to format node configmap data: %w'' [] (\<lambda>k cmData.
     tryStep (UpdateConfigMap apply ''kube-system'' ''k8sd-config'' cmData k) ''failed to update node config: %w'' []
       (\<lambda>k _. (k, ok)))"

definition UpdateNodeConfiguration_reconcile ::
  "'sk crypto \<Rightarrow> ('sk, 'pk) nodeCrypto \<Rightarrow> (string \<Rightarrow> string \<Rightarrow> string gomap \<Rightarrow> 'k \<Rightarrow> ('k, unit) step) \<Rightarrow> ClusterConfig \<Rightarrow> 'k \<Rightarrow> ('k, unit) step"
where
  "UpdateNodeConfiguration_reconcile y x apply config k =
     (let keyPEM = getStr (Certificates_K8sdPrivateKey (CC_Certificates config)) in
      case LoadRSAPrivateKey y keyPEM of
        Inl e \<Rightarrow> if keyPEM \<noteq> [] then (k, Inl (Wrapf ''failed to load cluster RSA key: %w'' [] e))
                 else publishConfigMap x apply config None k
      | Inr key \<Rightarrow> publishConfigMap x apply config (Some key) k)"

section \<open>Applying the node configuration\<close>

record Node =
  N_host :: Host
  N_db :: DB

text \<open>A transaction of the database is rolled back when its function fails.\<close>

definition Transaction :: "(DB \<Rightarrow> (DB, 'a) step) \<Rightarrow> DB \<Rightarrow> (DB, 'a) step" where
  "Transaction f db = (case f db of (db', Inr x) \<Rightarrow> (db', Inr x) | (_, Inl e) \<Rightarrow> (db, Inl e))"

definition util_GetClusterConfig :: "json \<Rightarrow> DB \<Rightarrow> ClusterConfig res" where
  "util_GetClusterConfig j db =
     (case GetClusterConfig j db of
        Inl e \<Rightarrow> Inl (Wrapf ''failed to perform cluster config transaction request: %w'' []
                   (Wrapf ''failed to get cluster config from database: %w'' [] e))
      | Inr c \<Rightarrow> Inr c)"

definition LoadRSAPublicKey :: "'sk crypto \<Rightarrow> (string \<Rightarrow> 'pk option res) \<Rightarrow> string \<Rightarrow> 'pk res" where
  "LoadRSAPublicKey y parsePKIX keyPEM =
     (case pemDecode y keyPEM of
        None \<Rightarrow> Inl (Errorf ''failed to parse PEM block'' [])
      | Some (ty, bytes) \<Rightarrow>
          if ty = ''PUBLIC KEY'' then
            (case parsePKIX bytes of
               Inl e \<Rightarrow> Inl (Wrapf ''failed to parse public key: %w'' [] e)
             | Inr None \<Rightarrow> Inl (Errorf ''not an RSA public key'' [])
             | Inr (Some key) \<Rightarrow> Inr key)
          else Inl (Errorf ''unknown public key block type %q'' [ty]))"

definition getRSAKey :: "'sk crypto \<Rightarrow> (string \<Rightarrow> 'pk option res) \<Rightarrow> json \<Rightarrow> DB \<Rightarrow> 'pk ptr res" where
  "getRSAKey y parsePKIX j db =
     (case util_GetClusterConfig j db of
        Inl e \<Rightarrow> Inl (Wrapf ''failed to load RSA key from configuration: %w'' [] e)
      | Inr cfg \<Rightarrow>
          let keyPEM = getStr (Certificates_K8sdPublicKey (CC_Certificates cfg)) in
          (case LoadRSAPublicKey y parsePKIX keyPEM of
             Inl e \<Rightarrow> if keyPEM \<noteq> [] then Inl (Wrapf ''failed to load RSA key: %w'' [] e) else Inr None
           | Inr key \<Rightarrow> Inr (Some key)))"

definition updateKubeProxyEnabled :: "extern \<Rightarrow> json \<Rightarrow> bool \<Rightarrow> DB \<Rightarrow> (DB, unit) step" where
  "updateKubeProxyEnabled ext j enabled db =
     tryStep (Transaction (\<lambda>db.
         tryStep (db, GetClusterConfig j db) ''failed to get cluster config: %w'' [] (\<lambda>db cfg.
         if Network_KubeProxyEnabled (CC_Network cfg) = Some enabled then (db, ok)
         else tryStep (SetClusterConfig ext j
                (cfg\<lparr>CC_Network := (CC_Network cfg)\<lparr>Network_KubeProxyEnabled := Some enabled\<rparr>\<rparr>) db)
                ''failed to update cluster config: %w'' [] (\<lambda>db _. (db, ok)))) db)
       ''database transaction to update cluster configuration failed: %w'' [] (\<lambda>db _. (db, ok))"

fun kubeletArgChanges :: "(string \<times> string ptr) list \<Rightarrow> string gomap \<times> string list \<Rightarrow> string gomap \<times> string list" where
  "kubeletArgChanges [] acc = acc"
| "kubeletArgChanges ((arg, val) # rest) (updateArgs, deleteArgs) =
     (case val of
        None \<Rightarrow> kubeletArgChanges rest (updateArgs, deleteArgs)
      | Some v \<Rightarrow>
          if v = [] then kubeletArgChanges rest (updateArgs, deleteArgs @ [arg])
          else kubeletArgChanges rest (AList.update arg v updateArgs, deleteArgs))"

definition nodeKubeletArgs :: "ClusterConfig \<Rightarrow> string gomap \<times> string list" where
  "nodeKubeletArgs c =
     kubeletArgChanges
       [(''--cloud-provider'', Kubelet_CloudProvider (CC_Kubelet c)), (''--cluster-dns'', Kubelet_ClusterDNS (CC_Kubelet c)),
        (''--cluster-domain'', Kubelet_ClusterDomain (CC_Kubelet c))] ([], [])"

text \<open>\<open>cleanup.RemoveKubeProxyRules\<close>; an error is logged only.\<close>

definition RemoveKubeProxyRules :: "Snap \<Rightarrow> Host \<Rightarrow> Host" where
  "RemoveKubeProxyRules s h = fst (runCommand h [filepathJoin [snapDir s, ''bin'', ''kube-proxy''], ''--cleanup''])"

text \<open>The effects on the host before and after the database is updated.\<close>

definition reconcileKubelet :: "(nat \<Rightarrow> bool) \<Rightarrow> Snap \<Rightarrow> ClusterConfig \<Rightarrow> Host \<Rightarrow> (Host, unit) step" where
  "reconcileKubelet ctxDone s nodeConfig h =
     (case nodeKubeletArgs nodeConfig of (updateArgs, deleteArgs) \<Rightarrow>
        tryStep (UpdateServiceArguments s ''kubelet'' updateArgs deleteArgs h)
          ''failed to update kubelet arguments: %w'' [] (\<lambda>h mustRestartKubelet.
        if mustRestartKubelet then
          tryStep (RetryFor ctxDone 5
              (\<lambda>h. tryStep (RestartServices h [''kubelet''] [])
                     ''failed to restart kubelet to apply node configuration: %w'' [] (\<lambda>h _. (h, ok))) h)
            ''failed after retry: %w'' [] (\<lambda>h _. (h, ok))
        else (h, ok)))"

definition reconcileKubeProxy :: "(nat \<Rightarrow> bool) \<Rightarrow> Snap \<Rightarrow> bool \<Rightarrow> Host \<Rightarrow> (Host, unit) step" where
  "reconcileKubeProxy ctxDone s kubeProxyEnabled h =
     (if kubeProxyEnabled then
        tryStep (RetryFor ctxDone 5 (\<lambda>h. StartServices h [''kube-proxy''] []) h)
          ''failed to start kube-proxy: %w'' [] (\<lambda>h _. (h, ok))
      else
        tryStep (RetryFor ctxDone 5 (\<lambda>h. StopServices h [''kube-proxy''] []) h)
          ''failed to stop kube-proxy: %w'' [] (\<lambda>h _. (RemoveKubeProxyRules s h, ok)))"

text \<open>Steps on a part of the node.\<close>

definition onHost :: "(Host \<Rightarrow> (Host, 'a) step) \<Rightarrow> Node \<Rightarrow> (Node, 'a) step" where
  "onHost f n = (case f (N_host n) of (h, r) \<Rightarrow> (n\<lparr>N_host := h\<rparr>, r))"

definition onDB :: "(DB \<Rightarrow> (DB, 'a) step) \<Rightarrow> Node \<Rightarrow> (Node, 'a) step" where
  "onDB f n = (case f (N_db n) of (db, r) \<Rightarrow> (n\<lparr>N_db := db\<rparr>, r))"

definition NodeConfiguration_reconcile ::
  "'sk crypto \<Rightarrow> ('sk, 'pk) nodeCrypto \<Rightarrow> (string \<Rightarrow> 'pk option res) \<Rightarrow> extern \<Rightarrow> json \<Rightarrow> (nat \<Rightarrow> bool) \<Rightarrow> Snap
   \<Rightarrow> string gomap ptr \<Rightarrow> Node \<Rightarrow> (Node, unit) step"
where
  "NodeConfiguration_reconcile y x parsePKIX ext j ctxDone s configMap n =
     tryStep (n, getRSAKey y parsePKIX j (N_db n)) ''failed to load the RSA public key: %w'' [] (\<lambda>n key.
     tryStep (n, ConfigMapToClusterConfig x configMap key) ''failed to parse configmap data to cluster config: %w'' []
       (\<lambda>n nodeConfig.
     tryPass (onHost (reconcileKubelet ctxDone s nodeConfig) n) (\<lambda>n _.
     let kubeProxyEnabled = GetKubeProxyEnabled (CC_Network nodeConfig) in
     tryStep (onDB (updateKubeProxyEnabled ext j kubeProxyEnabled) n)
       ''failed to update kube-proxy enabled state: %w'' [] (\<lambda>n _.
     onHost (reconcileKubeProxy ctxDone s kubeProxyEnabled) n))))"

section \<open>Node labels\<close>

record KubeNode =
  KN_Name :: string
  KN_Labels :: "string gomap"
  KN_Annotations :: "string gomap ptr"

definition updateDqliteFailureDomain :: "Snap \<Rightarrow> 64 word \<Rightarrow> Host \<Rightarrow> (Host, unit) step" where
  "updateDqliteFailureDomain s failureDomain h =
     tryStep (UpdateDqliteFailureDomain failureDomain (pathJoin (K8sdStateDir s) ''database'') h)
       ''failed to update k8sd failure domain: %w'' [] (\<lambda>h modified.
     if modified then
       tryStep (RestartServices h [''k8sd''] []) ''failed to restart k8sd to apply failure domain: %w'' [] (\<lambda>h _. (h, ok))
     else (h, ok))"

definition nodeFailureDomain :: "(string \<Rightarrow> 8 word list) \<Rightarrow> KubeNode \<Rightarrow> 64 word" where
  "nodeFailureDomain sha node =
     (case map_of (KN_Labels node) ''topology.kubernetes.io/zone'' of
        Some azLabel \<Rightarrow> if azLabel \<noteq> [] then NodeLabelToDqliteFailureDomain sha azLabel else 0
      | None \<Rightarrow> 0)"

definition reconcileFailureDomain :: "(string \<Rightarrow> 8 word list) \<Rightarrow> Snap \<Rightarrow> KubeNode \<Rightarrow> Host \<Rightarrow> (Host, unit) step" where
  "reconcileFailureDomain sha s node h =
     tryStep (updateDqliteFailureDomain s (nodeFailureDomain sha node) h)
       ''failed to update failure-domain, error: %w'' [] (\<lambda>h _. (h, ok))"

text \<open>
  The version annotation: \<open>revision\<close> and \<open>k8sVersion\<close> are what snapd and the snap answer,
  \<open>encode\<close> is \<open>version.Info.Encode\<close>, \<open>updateNode\<close> the answer of the API to the updated node. The
  result is the node sent.
\<close>

definition reconcileVersionAnnotation ::
  "string res \<Rightarrow> string res \<Rightarrow> (string \<Rightarrow> string \<Rightarrow> string res) \<Rightarrow> (KubeNode \<Rightarrow> unit res) \<Rightarrow> KubeNode \<Rightarrow> KubeNode res"
where
  "reconcileVersionAnnotation revision k8sVersion encode updateNode node =
     (case revision of
        Inl e \<Rightarrow> Inl (Wrapf ''failed to get snap revision: %w'' [] e)
      | Inr snapRev \<Rightarrow> (case k8sVersion of
        Inl e \<Rightarrow> Inl (Wrapf ''failed to get kubernetes version: %w'' [] e)
      | Inr v \<Rightarrow> (case encode snapRev v of
        Inl e \<Rightarrow> Inl (Wrapf ''failed to encode version info: %w'' [] e)
      | Inr b \<Rightarrow>
          let annotations = (case KN_Annotations node of None \<Rightarrow> [] | Some a \<Rightarrow> a);
              node = node\<lparr>KN_Annotations := Some (AList.update ''k8sd.io/version'' b annotations)\<rparr> in
          (case updateNode node of
             Inl e \<Rightarrow> Inl (Wrapf ''failed to update node %s annotations: %w'' [KN_Name node] e)
           | Inr _ \<Rightarrow> Inr node))))"

text \<open>\<open>errors.NewAggregate\<close> of the collected errors is \<open>nil\<close> when there are none; here the list is kept.\<close>

definition NodeLabel_reconcile ::
  "(string \<Rightarrow> 8 word list) \<Rightarrow> Snap \<Rightarrow> string res \<Rightarrow> string res \<Rightarrow> (string \<Rightarrow> string \<Rightarrow> string res) \<Rightarrow> (KubeNode \<Rightarrow> unit res)
   \<Rightarrow> KubeNode \<Rightarrow> Host \<Rightarrow> Host \<times> (error + error list)"
where
  "NodeLabel_reconcile sha s revision k8sVersion encode updateNode node h =
     (case IsWorker s h of
        Inl e \<Rightarrow> (h, Inl (Wrapf ''failed to check if node is a worker: %w'' [] e))
      | Inr isWorker \<Rightarrow>
          (case (if isWorker then (h, ok) else reconcileFailureDomain sha s node h) of (h, r) \<Rightarrow>
             let errs = (case r of Inl e \<Rightarrow> [Wrapf ''failed to reconcile failure domain: %w'' [] e] | Inr _ \<Rightarrow> []) in
             (h, Inr (errs @
                (case reconcileVersionAnnotation revision k8sVersion encode updateNode node of
                   Inl e \<Rightarrow> [Wrapf ''failed to reconcile version annotation: %w'' [] e] | Inr _ \<Rightarrow> [])))))"

section \<open>Service arguments\<close>

fun argsDifferLoop :: "string gomap \<Rightarrow> string gomap \<Rightarrow> bool" where
  "argsDifferLoop [] actual = False"
| "argsDifferLoop ((key, desiredVal) # rest) actual =
     (if mapGet actual key \<noteq> desiredVal then True else argsDifferLoop rest actual)"

definition serviceArgsDiffer ::
  "(string \<Rightarrow> string \<Rightarrow> string res) \<Rightarrow> Snap \<Rightarrow> Host \<Rightarrow> string \<Rightarrow> bool res"
where
  "serviceArgsDiffer systemctl s h svc =
     (case ParseArgumentFile h (argumentsFileForService s svc) of
        Inl e \<Rightarrow>
          if errorsIs e ErrNotExist then Inr False
          else Inl (Wrapf ''failed to read args file for %q: %w'' [svc] e)
      | Inr desiredArgs \<Rightarrow>
          (case RunningServiceArgs systemctl h svc of
             Inl e \<Rightarrow>
               if errorsIs e ErrUnitNotRunning then Inr False
               else Inl (Wrapf ''failed to get running args for %q: %w'' [svc] e)
           | Inr actualArgs \<Rightarrow>
               if length desiredArgs \<noteq> length actualArgs then Inr True
               else Inr (argsDifferLoop desiredArgs actualArgs)))"

text \<open>Errors of single services are logged; the loop goes on.\<close>

fun serviceArgsRestarts :: "(string \<Rightarrow> string \<Rightarrow> string res) \<Rightarrow> Snap \<Rightarrow> string list \<Rightarrow> Host \<Rightarrow> Host" where
  "serviceArgsRestarts systemctl s [] h = h"
| "serviceArgsRestarts systemctl s (svc # svcs) h =
     (case serviceArgsDiffer systemctl s h svc of
        Inl _ \<Rightarrow> serviceArgsRestarts systemctl s svcs h
      | Inr differs \<Rightarrow>
          if \<not> differs then serviceArgsRestarts systemctl s svcs h
          else serviceArgsRestarts systemctl s svcs (fst (RestartServices h [svc] [])))"

definition ServiceArgs_reconcile ::
  "(string \<Rightarrow> string \<Rightarrow> string res) \<Rightarrow> Snap \<Rightarrow> string list ptr \<Rightarrow> Host \<Rightarrow> (Host, unit) step"
where
  "ServiceArgs_reconcile systemctl s services h =
     (case services of
        Some svcs \<Rightarrow> (serviceArgsRestarts systemctl s svcs h, ok)
      | None \<Rightarrow>
          (case IsWorker s h of
             Inl e \<Rightarrow> (h, Inl (Wrapf ''failed to determine node type: %w'' [] e))
           | Inr isWorker \<Rightarrow>
               (serviceArgsRestarts systemctl s (if isWorker then workerK8sServices else controlPlaneK8sServices) h, ok)))"

section \<open>Frames\<close>

text \<open>A host that refuses no file operation and on which every command succeeds.\<close>

definition hostOK :: "Host \<Rightarrow> bool" where
  "hostOK h \<longleftrightarrow> noFaults h \<and> H_cmdFault h = (\<lambda>_ _. None)"

abbreviation addCmd :: "string list \<Rightarrow> Host \<Rightarrow> Host" where
  "addCmd cmd h \<equiv> h\<lparr>H_cmds := H_cmds h @ [cmd]\<rparr>"

definition restartCmd :: "string \<Rightarrow> string list" where
  "restartCmd svc = [''snap'', ''restart'', serviceName svc]"

definition restarts :: "Host \<Rightarrow> string list list" where
  "restarts h = filter (\<lambda>c. take 2 c = [''snap'', ''restart'']) (H_cmds h)"

lemma hostOK_simps [simp]:
  "hostOK h \<Longrightarrow> noFaults h" "hostOK (h\<lparr>H_cmds := cs\<rparr>) = hostOK h"
  "hostOK h \<Longrightarrow> runCommand h c = (addCmd c h, ok)"
  by (simp_all add: hostOK_def noFaults_def runCommand_def)

lemma RestartServices_ok [simp]: "hostOK h \<Longrightarrow> RestartServices h [svc] [] = (addCmd (restartCmd svc) h, ok)"
  by (simp add: RestartServices_def buildServiceCommand_def restartCmd_def)

lemma RestartServices_cmds:
  "H_cmds (fst (RestartServices h [svc] [])) = H_cmds h @ [restartCmd svc]"
  "H_files (fst (RestartServices h [svc] [])) = H_files h" "H_fault (fst (RestartServices h [svc] [])) = H_fault h"
  by (simp_all add: RestartServices_def buildServiceCommand_def restartCmd_def runCommand_def)

lemma restarts_addCmd [simp]:
  "restarts (addCmd (restartCmd svc) h) = restarts h @ [restartCmd svc]"
  "restarts (addCmd (''snapctl'' # c) h) = restarts h"
  by (simp_all add: restarts_def restartCmd_def)

lemma args_cong:
  assumes "H_fault h' = H_fault h" "H_files h' (argumentsFileForService s svc) = H_files h (argumentsFileForService s svc)"
  shows "argsInv s h' svc = argsInv s h svc" "argsView s h' svc = argsView s h svc"
proof -
  have "contentsOf h' (argumentsFileForService s svc) = contentsOf h (argumentsFileForService s svc)"
    unfolding contentsOf_def ReadFile_def assms ..
  then show "argsInv s h' svc = argsInv s h svc" "argsView s h' svc = argsView s h svc"
    by (simp_all add: argsInv_def argsView_def argEntries_def assms(1))
qed

lemma args_cmds [simp]:
  "argsInv s (h\<lparr>H_cmds := c\<rparr>) svc = argsInv s h svc" "argsView s (h\<lparr>H_cmds := c\<rparr>) svc = argsView s h svc"
  by (rule args_cong; simp)+

lemma WriteFile_frame:
  "H_cmds (fst (WriteFile h p d m)) = H_cmds h \<and> H_fault (fst (WriteFile h p d m)) = H_fault h
   \<and> H_cmdFault (fst (WriteFile h p d m)) = H_cmdFault h"
  by (rule WriteFile_cases [where h = h and p = p and d = d and m = m]) simp_all

lemma rewriteArgs_frame:
  "H_cmds (fst (rewriteArgs svc file um dl data h)) = H_cmds h \<and> H_fault (fst (rewriteArgs svc file um dl data h)) = H_fault h
   \<and> H_cmdFault (fst (rewriteArgs svc file um dl data h)) = H_cmdFault h
   \<and> (\<forall>p. p \<noteq> file \<longrightarrow> H_files (fst (rewriteArgs svc file um dl data h)) p = H_files h p)"
proof -
  let ?d = "joinWith newline (sortStrings (rewrittenLines um dl (argLines data))) @ [newline]"
  have "fst (rewriteArgs svc file um dl data h) = fst (WriteFile h file ?d perm600)"
    unfolding rewriteArgs_closed by (cases "WriteFile h file ?d perm600"; cases "snd (WriteFile h file ?d perm600)") auto
  then show ?thesis using WriteFile_frame WriteFile_other by metis
qed

lemma UpdateServiceArguments_frame:
  assumes "UpdateServiceArguments s svc um dl h = (h', r)"
  shows "H_cmds h' = H_cmds h" "H_fault h' = H_fault h" "H_cmdFault h' = H_cmdFault h"
    "p \<noteq> argumentsFileForService s svc \<Longrightarrow> H_files h' p = H_files h p"
proof -
  have "h' = fst (UpdateServiceArguments s svc um dl h)" using assms by simp
  then have "h' = h \<or> (\<exists>data. h' = fst (rewriteArgs svc (argumentsFileForService s svc) um dl data h))"
    unfolding UpdateServiceArguments_def Let_def by (auto split: sum.split if_split)
  then show "H_cmds h' = H_cmds h" "H_fault h' = H_fault h" "H_cmdFault h' = H_cmdFault h"
    "p \<noteq> argumentsFileForService s svc \<Longrightarrow> H_files h' p = H_files h p"
    using rewriteArgs_frame by auto
qed

lemma UpdateServiceArguments_hostOK:
  assumes "hostOK h"
  obtains h' c where "UpdateServiceArguments s svc um dl h = (h', Inr c)" "hostOK h'"
proof -
  obtain h' c where u: "UpdateServiceArguments s svc um dl h = (h', Inr c)"
    using UpdateServiceArguments_total [of h s svc um dl] assms by auto
  have "hostOK h'" using assms UpdateServiceArguments_frame [OF u] by (simp add: hostOK_def noFaults_def)
  with u that show ?thesis by blast
qed

section \<open>Service arguments: what is restarted\<close>

lemma ReadFile_cong: "H_files h' = H_files h \<Longrightarrow> H_fault h' = H_fault h \<Longrightarrow> ReadFile h' = ReadFile h"
  unfolding ReadFile_def by (rule ext) presburger

lemma serviceArgsDiffer_cong:
  assumes "H_files h' = H_files h" "H_fault h' = H_fault h"
  shows "serviceArgsDiffer systemctl s h' svc = serviceArgsDiffer systemctl s h svc"
  unfolding serviceArgsDiffer_def ParseArgumentFile_def RunningServiceArgs_def ReadFile_cong [OF assms] ..

lemma serviceArgsRestarts_log:
  "H_files (serviceArgsRestarts sc s svcs h) = H_files h \<and> H_fault (serviceArgsRestarts sc s svcs h) = H_fault h \<and>
   H_cmds (serviceArgsRestarts sc s svcs h) =
     H_cmds h @ map restartCmd (filter (\<lambda>svc. serviceArgsDiffer sc s h svc = Inr True) svcs)"
proof (induction sc s svcs h rule: serviceArgsRestarts.induct)
  case (2 systemctl s svc svcs h)
  let ?h = "fst (RestartServices h [svc] [])"
  have "serviceArgsDiffer systemctl s ?h svc' = serviceArgsDiffer systemctl s h svc'" for svc'
    by (rule serviceArgsDiffer_cong) (simp_all add: RestartServices_cmds)
  with 2 show ?case by (cases "serviceArgsDiffer systemctl s h svc") (auto simp: RestartServices_cmds)
qed simp

text \<open>
  One round of the service arguments controller restarts exactly the services whose
  argument file differs from the running command line, each once and in order, whether or not a restart fails,
  and changes no file. Without a list it looks at the services of the node's role.
\<close>

theorem ServiceArgs_reconcile_restarts:
  "(\<exists>h'. ServiceArgs_reconcile systemctl s (Some svcs) h = (h', ok) \<and> H_files h' = H_files h \<and>
     H_cmds h' = H_cmds h @ map restartCmd (filter (\<lambda>svc. serviceArgsDiffer systemctl s h svc = Inr True) svcs)) \<and>
   ServiceArgs_reconcile systemctl s None h =
     (case IsWorker s h of
        Inl e \<Rightarrow> (h, Inl (Wrapf ''failed to determine node type: %w'' [] e))
      | Inr w \<Rightarrow> ServiceArgs_reconcile systemctl s (Some (if w then workerK8sServices else controlPlaneK8sServices)) h)"
  using serviceArgsRestarts_log by (auto simp: ServiceArgs_reconcile_def split: sum.split)

lemma argsDifferLoop_iff: "argsDifferLoop d a \<longleftrightarrow> (\<exists>(k, v) \<in> set d. mapGet a k \<noteq> v)"
  by (induction d a rule: argsDifferLoop.induct) auto

lemma cmdlineLoop_good: "goodMap acc \<Longrightarrow> goodMap (cmdlineLoop ls acc)"
  by (induction ls acc rule: cmdlineLoop.induct) (auto simp: distinct_update split: prod.split)

lemma ParseArgumentFile_good: "ParseArgumentFile h p = Inr m \<Longrightarrow> goodMap m"
  by (auto simp: ParseArgumentFile_def parseArgLoop_good split: sum.splits)

lemma RunningServiceArgs_good: "RunningServiceArgs sc h svc = Inr m \<Longrightarrow> goodMap m"
  by (auto simp: RunningServiceArgs_def Let_def cmdlineLoop_good split: sum.splits if_splits)

lemma goodMap_card: "goodMap m \<Longrightarrow> card (set m) = length m"
  by (simp add: distinct_card distinct_map)

lemma argsDiffer_maps:
  assumes "goodMap d" "goodMap a" "length d = length a" "\<forall>(k, v) \<in> set d. v \<noteq> []" "\<not> argsDifferLoop d a"
  shows "map_of d = map_of a"
proof -
  have "set d \<subseteq> set a"
  proof
    fix e assume e: "e \<in> set d"
    obtain k v where kv: "e = (k, v)" by (cases e)
    have v: "v \<noteq> []" "mapGet a k = v" using e assms(4,5) by (auto simp: kv argsDifferLoop_iff)
    then have "map_of a k = Some v" by (cases "map_of a k") auto
    then show "e \<in> set a" unfolding kv by (rule map_of_SomeD)
  qed
  moreover have "card (set d) = card (set a)" using goodMap_card assms(1-3) by metis
  ultimately have "set d = set a" by (simp add: card_subset_eq)
  then show ?thesis using map_of_inject_set assms(1,2) by blast
qed

text \<open>
  Drift of the arguments of a running service is seen. When every argument in the file has
  a value, the comparison answers no exactly when the file and the command line are the same map.
\<close>

theorem serviceArgsDiffer_iff_drift:
  assumes "ParseArgumentFile h (argumentsFileForService s svc) = Inr d" "RunningServiceArgs systemctl h svc = Inr a"
    "\<forall>(k, v) \<in> set d. v \<noteq> []"
  shows "serviceArgsDiffer systemctl s h svc = Inr (map_of d \<noteq> map_of a)"
proof -
  have good: "goodMap d" "goodMap a"
    using assms ParseArgumentFile_good RunningServiceArgs_good by blast+
  have same: "length d = length a \<and> \<not> argsDifferLoop d a" if "map_of d = map_of a"
  proof -
    have "set d = set a" using that map_of_inject_set good by blast
    then have "length d = length a" using goodMap_card good by metis
    moreover have "mapGet a k = v" if "(k, v) \<in> set d" for k v
      using that \<open>set d = set a\<close> good(2) by simp
    ultimately show ?thesis by (auto simp: argsDifferLoop_iff)
  qed
  show ?thesis
    using argsDiffer_maps [OF good _ assms(3)] same assms(1,2) by (auto simp: serviceArgsDiffer_def)
qed

section \<open>Convergence of a reconcile\<close>

text \<open>
  The contract of a reconcile function: from every state it accepts it reaches the desired
  state, and there it has nothing to log (no restart to do).
\<close>

locale reconciler =
  fixes step :: "'s \<Rightarrow> ('s, unit) step" and good :: "'s \<Rightarrow> bool" and reached :: "'s \<Rightarrow> bool" and log :: "'s \<Rightarrow> 'l list"
  assumes step_reaches: "good s \<Longrightarrow> \<exists>s'. step s = (s', ok) \<and> good s' \<and> reached s'"
    and quiet: "good s \<Longrightarrow> reached s \<Longrightarrow> log (fst (step s)) = log s"
begin

abbreviation after :: "nat \<Rightarrow> 's \<Rightarrow> 's" where
  "after n \<equiv> (\<lambda>s. fst (step s)) ^^ n"

lemma after_good: "good s \<Longrightarrow> good (after n s)"
  by (induction n) (use step_reaches in \<open>fastforce+\<close>)

lemma after_Suc: "good s \<Longrightarrow> reached (after (Suc n) s) \<and> log (after (Suc n) s) = log (fst (step s))"
proof (induction n)
  case 0
  then show ?case using step_reaches by fastforce
next
  case (Suc n)
  have g: "good (after (Suc n) s)" using Suc.prems by (rule after_good)
  have "log (after (Suc (Suc n)) s) = log (after (Suc n) s)"
    using quiet [OF g] Suc by simp
  moreover have "reached (after (Suc (Suc n)) s)" using step_reaches [OF g] by auto
  ultimately show ?case using Suc by simp
qed

lemma step_ok: "good s \<Longrightarrow> snd (step s) = ok"
  using step_reaches by fastforce

end

section \<open>Convergence of the control plane configuration\<close>

abbreviation isExternal :: "ClusterConfig \<Rightarrow> bool" where
  "isExternal c \<equiv> getStr (Datastore_Type (CC_Datastore c)) = ''external''"

definition externalArgs :: "ClusterConfig \<Rightarrow> string gomap \<times> string list" where
  "externalArgs c = externalCertLoop snapEtcdPKIDir (externalCertEntries (CC_Datastore c))
     ([(''--etcd-servers'', joinWith (CHR '','') (getList (Datastore_ExternalServers (CC_Datastore c))))], [])"

lemma ToKube_external:
  "isExternal c \<Longrightarrow> ToKubeAPIServerArguments lh snapPaths (CC_Datastore c) = Inr (externalArgs c)"
  by (simp add: ToKubeAPIServerArguments_def externalArgs_def snapPaths_def)

lemma externalArgs_good: "goodMap (fst (externalArgs c))"
  by (simp add: externalArgs_def externalCertLoop_good)

lemma extDatastoreFiles_good: "goodMap (extDatastoreFiles c)"
  by (simp add: extDatastoreFiles_def snapEtcdPKIDir_def path_eval)

text \<open>Hosts and configurations on which the reconcile is looked at.\<close>

definition cpGood :: "Snap \<Rightarrow> ClusterConfig \<Rightarrow> Host \<Rightarrow> bool" where
  "cpGood s c h \<longleftrightarrow> hostOK h \<and> argsInv s h ''kube-apiserver'' \<and> argsInv s h ''kube-controller-manager'' \<and>
     wfArgs (fst (externalArgs c)) \<and> wfArgs (case Kubelet_CloudProvider (CC_Kubelet c) of None \<Rightarrow> [] | Some v \<Rightarrow> [(''--cloud-provider'', v)]) \<and>
     argumentsFileForService s ''kube-apiserver'' \<notin> fst ` set (extDatastoreFiles (externalPKI c)) \<and>
     argumentsFileForService s ''kube-controller-manager'' \<notin> fst ` set (extDatastoreFiles (externalPKI c))"

text \<open>The desired state: certificates on disk, datastore arguments, cloud provider.\<close>

abbreviation updatedView :: "string gomap \<times> string list \<Rightarrow> (string \<rightharpoonup> string) \<Rightarrow> (string \<rightharpoonup> string)" where
  "updatedView ud v \<equiv> (v |` (- set (snd ud))) ++ map_of (fst ud)"

definition dsReached :: "Snap \<Rightarrow> ClusterConfig \<Rightarrow> Host \<Rightarrow> bool" where
  "dsReached s c h \<longleftrightarrow> (isExternal c \<longrightarrow>
     (\<forall>(f, d) \<in> set (extDatastoreFiles (externalPKI c)). map_option F_data (H_files h f) = (if d = [] then None else Some d)) \<and>
     argsView s h ''kube-apiserver'' = updatedView (externalArgs c) (argsView s h ''kube-apiserver''))"

definition cloudReached :: "Snap \<Rightarrow> ClusterConfig \<Rightarrow> Host \<Rightarrow> bool" where
  "cloudReached s c h \<longleftrightarrow>
     (\<forall>v. Kubelet_CloudProvider (CC_Kubelet c) = Some v \<longrightarrow> argsView s h ''kube-controller-manager'' ''--cloud-provider'' = Some v)"

lemma updatedView_idem: "updatedView ud (updatedView ud v) = updatedView ud v"
  by (auto simp: fun_eq_iff map_add_def restrict_map_def split: option.splits)

lemma cp_cmds [simp]:
  "cpGood s c (h\<lparr>H_cmds := cs\<rparr>) = cpGood s c h" "dsReached s c (h\<lparr>H_cmds := cs\<rparr>) = dsReached s c h"
  "cloudReached s c (h\<lparr>H_cmds := cs\<rparr>) = cloudReached s c h"
  by (simp_all add: cpGood_def dsReached_def cloudReached_def)

lemma reconcileDatastore_spec:
  assumes g: "cpGood s c h"
  shows "\<exists>h'. reconcileDatastore lh s c h = (h', ok) \<and> cpGood s c h' \<and> dsReached s c h' \<and>
    (cloudReached s c h' \<longleftrightarrow> cloudReached s c h) \<and>
    H_cmds h' = H_cmds h @ (if dsReached s c h then [] else [restartCmd ''kube-apiserver''])"
proof (cases "isExternal c")
  case False
  then show ?thesis using g by (simp add: reconcileDatastore_def dsReached_def)
next
  case True
  let ?fs = "extDatastoreFiles (externalPKI c)" and ?ud = "externalArgs c"
  let ?api = "argumentsFileForService s ''kube-apiserver''" and ?kcm = "argumentsFileForService s ''kube-controller-manager''"
  have hok: "hostOK h" and inv: "argsInv s h ''kube-apiserver''" "argsInv s h ''kube-controller-manager''"
    and wf: "wfArgs (fst ?ud)" and paths: "?api \<notin> fst ` set ?fs" "?kcm \<notin> fst ` set ?fs"
    using g by (simp_all add: cpGood_def)
  have nf: "noFaults h" using hok by simp
  obtain h1 ch where e: "ensureFiles snapUID snapGID perm600 ?fs False h = (h1, Inr ch)"
    using ensureFiles_total [OF nf] by blast
  note r = ensureFiles_ok [OF noFaults_honest [OF nf] extDatastoreFiles_good e]
  have hok1: "hostOK h1" using r hok by (simp add: hostOK_def noFaults_def)
  have same: "H_files h1 p = H_files h p" if "p \<notin> fst ` set ?fs" for p
    using r that by (simp add: map_of_eq_None_iff [THEN iffD2])
  have f1: "H_files h1 f = ensuredNode d snapUID snapGID perm600" if "(f, d) \<in> set ?fs" for f d
    using r that extDatastoreFiles_good by simp
  have v1: "argsInv s h1 ''kube-apiserver''" "argsInv s h1 ''kube-controller-manager''"
    "argsView s h1 ''kube-apiserver'' = argsView s h ''kube-apiserver''"
    using inv args_cong [of h1 h] r same [OF paths(1)] same [OF paths(2)] by auto
  obtain h2 ca where u: "UpdateServiceArguments s ''kube-apiserver'' (fst ?ud) (snd ?ud) h1 = (h2, Inr ca)" and hok2: "hostOK h2"
    by (rule UpdateServiceArguments_hostOK [OF hok1])
  note upd = sa.upd_view [OF v1(1) wf externalArgs_good u] sa.upd_changed [OF v1(1) wf externalArgs_good u]
    sa.upd_inv [OF v1(1) wf externalArgs_good u] UpdateServiceArguments_frame [OF u]
  have f2: "map_option F_data (H_files h2 f) = (if d = [] then None else Some d)" if "(f, d) \<in> set ?fs" for f d
  proof -
    have "f \<noteq> ?api" using that paths(1) by (metis fst_conv image_eqI)
    then show ?thesis using f1 [OF that] upd(7) by (simp add: ensuredNode_def)
  qed
  have ds: "dsReached s c h2"
  proof -
    have "\<forall>(f, d) \<in> set ?fs. map_option F_data (H_files h2 f) = (if d = [] then None else Some d)"
      using f2 by blast
    moreover have "argsView s h2 ''kube-apiserver'' = updatedView ?ud (argsView s h2 ''kube-apiserver'')"
      unfolding upd(1) updatedView_idem ..
    ultimately show ?thesis unfolding dsReached_def by blast
  qed
  have cloud: "cloudReached s c h2 \<longleftrightarrow> cloudReached s c h"
    using sa.upd_other [OF v1(1) wf externalArgs_good u v1(2)] args_cong(2) [of h1 h] r same [OF paths(2)]
    by (simp add: cloudReached_def)
  have "ch \<longleftrightarrow> False \<or> (\<exists>(f, d) \<in> set ?fs. map_option F_data (H_files h f) \<noteq> (if d = [] then None else Some d))"
    using r by blast
  moreover have "ca \<longleftrightarrow> argsView s h ''kube-apiserver'' \<noteq> updatedView ?ud (argsView s h ''kube-apiserver'')"
    using upd(1,2) v1(3) by auto
  ultimately have chg: "(ch \<or> ca) \<longleftrightarrow> \<not> dsReached s c h"
    unfolding dsReached_def using True by blast
  have cmds: "H_cmds h2 = H_cmds h" using upd(4) r by simp
  have "cpGood s c h2"
    using g hok2 upd(3) [OF v1(1)] upd(3) [OF v1(2)] by (simp add: cpGood_def)
  moreover have "reconcileDatastore lh s c h =
      (if ch \<or> ca then (addCmd (restartCmd ''kube-apiserver'') h2, ok) else (h2, ok))"
    using True hok2 u
    by (simp add: reconcileDatastore_def EnsureExtDatastorePKI_def e ToKube_external case_prod_beta)
  ultimately show ?thesis using ds chg cmds cloud by auto
qed

lemma map_upd_same: "m(k \<mapsto> v) = m \<longleftrightarrow> m k = Some v"
  by (metis fun_upd_same fun_upd_triv)

lemma reconcileCloudProvider_spec:
  assumes g: "cpGood s c h" and ds: "dsReached s c h"
  shows "\<exists>h'. reconcileCloudProvider s c h = (h', ok) \<and> cpGood s c h' \<and> dsReached s c h' \<and> cloudReached s c h' \<and>
    H_cmds h' = H_cmds h @ (if cloudReached s c h then [] else [restartCmd ''kube-controller-manager''])"
proof (cases "Kubelet_CloudProvider (CC_Kubelet c)")
  case None
  then show ?thesis using g ds by (simp add: reconcileCloudProvider_def cloudReached_def)
next
  case (Some v)
  let ?um = "[(''--cloud-provider'', v)]"
  have hok: "hostOK h" and inv: "argsInv s h ''kube-apiserver''" "argsInv s h ''kube-controller-manager''" and wf: "wfArgs ?um"
    and path: "argumentsFileForService s ''kube-controller-manager'' \<notin> fst ` set (extDatastoreFiles (externalPKI c))"
    using g Some by (simp_all add: cpGood_def)
  have gm: "goodMap ?um" by simp
  obtain h2 ca where u: "UpdateServiceArguments s ''kube-controller-manager'' ?um [] h = (h2, Inr ca)" and hok2: "hostOK h2"
    by (rule UpdateServiceArguments_hostOK [OF hok])
  note upd = sa.upd_view [OF inv(2) wf gm u] sa.upd_changed [OF inv(2) wf gm u] sa.upd_inv [OF inv(2) wf gm u]
    UpdateServiceArguments_frame [OF u] sa.upd_other [OF inv(2) wf gm u inv(1)]
  have view: "argsView s h2 ''kube-controller-manager'' = (argsView s h ''kube-controller-manager'')(''--cloud-provider'' \<mapsto> v)"
    using upd(1) by (simp add: restrict_map_def fun_eq_iff map_add_def)
  have chg: "ca \<longleftrightarrow> \<not> cloudReached s c h"
    unfolding upd(2) view map_upd_same cloudReached_def using Some by simp
  have f2: "H_files h2 f = H_files h f" if "(f, d) \<in> set (extDatastoreFiles (externalPKI c))" for f d
    using that path upd(7) by (metis fst_conv image_eqI)
  have "dsReached s c h2"
    using ds f2 upd(8) unfolding dsReached_def by (auto split: prod.splits)
  moreover have "cloudReached s c h2" using Some by (simp add: cloudReached_def view)
  moreover have "cpGood s c h2"
    using g hok2 upd(3) [OF inv(1)] upd(3) [OF inv(2)] by (simp add: cpGood_def)
  moreover have "reconcileCloudProvider s c h =
      (if ca then (addCmd (restartCmd ''kube-controller-manager'') h2, ok) else (h2, ok))"
    using Some hok2 u by (simp add: reconcileCloudProvider_def)
  ultimately show ?thesis using chg upd(4) by auto
qed

text \<open>Talking to snapd only logs \<open>snapctl\<close> commands.\<close>

definition snapctlOnly :: "Host \<Rightarrow> Host \<Rightarrow> bool" where
  "snapctlOnly h h' \<longleftrightarrow> (\<exists>cs. h' = h\<lparr>H_cmds := H_cmds h @ cs\<rparr> \<and> (\<forall>cmd \<in> set cs. take 1 cmd = [''snapctl'']))"

lemma snapctlOnly_refl: "snapctlOnly h h"
  by (auto simp: snapctlOnly_def intro: exI [of _ "[]"])

lemma snapctlOnly_run: "snapctlOnly h h' \<Longrightarrow> snapctlOnly h (fst (runCommand h' (''snapctl'' # c)))"
  unfolding snapctlOnly_def
proof (elim exE conjE)
  fix cs
  assume "h' = h\<lparr>H_cmds := H_cmds h @ cs\<rparr>" "\<forall>cmd \<in> set cs. take 1 cmd = [''snapctl'']"
  then show "\<exists>cs. fst (runCommand h' (''snapctl'' # c)) = h\<lparr>H_cmds := H_cmds h @ cs\<rparr> \<and> (\<forall>cmd \<in> set cs. take 1 cmd = [''snapctl''])"
    by (intro exI [of _ "cs @ [''snapctl'' # c]"]) (auto simp: runCommand_def)
qed

lemma snapctlOnly_restarts: "snapctlOnly h h' \<Longrightarrow> restarts h' = restarts h"
proof -
  have ne: "take 1 c = [''snapctl''] \<Longrightarrow> take 2 c \<noteq> [''snap'', ''restart'']" for c :: "string list" by (cases c) simp_all
  have no: "filter (\<lambda>c. take 2 c = [''snap'', ''restart'']) cs = []" if "\<forall>cmd \<in> set cs. take 1 cmd = [''snapctl'']" for cs
    using that by (induction cs) (simp_all add: ne)
  show "snapctlOnly h h' \<Longrightarrow> restarts h' = restarts h"
    unfolding snapctlOnly_def by (elim exE conjE) (simp add: restarts_def no)
qed

lemma snapctlOnly_keeps:
  assumes "snapctlOnly h h'"
  shows "cpGood s c h' = cpGood s c h" "dsReached s c h' = dsReached s c h" "cloudReached s c h' = cloudReached s c h"
    "hostOK h' = hostOK h"
proof -
  have "\<exists>cs. h' = h\<lparr>H_cmds := cs\<rparr>"
    using assms unfolding snapctlOnly_def by (elim exE conjE, intro exI) assumption
  then obtain cs where h': "h' = h\<lparr>H_cmds := cs\<rparr>" ..
  show "cpGood s c h' = cpGood s c h" "dsReached s c h' = dsReached s c h" "cloudReached s c h' = cloudReached s c h"
    "hostOK h' = hostOK h" unfolding h' by simp_all
qed

lemma tryPass_fst: "(\<And>s x. fst (k s x) = s) \<Longrightarrow> fst (tryPass r k) = fst r"
  by (cases r; cases "snd r") auto

lemma tryStep_fst: "(\<And>s x. fst (k s x) = s) \<Longrightarrow> fst (tryStep r f a k) = fst r"
  by (cases r; cases "snd r") auto

lemma ParseMeta_snapctl: "snapctlOnly h (fst (ParseMeta io h))"
proof -
  have "fst (ParseMeta io h) = fst (runCommand h [''snapctl'', ''get'', ''-d'', ''meta''])"
    unfolding ParseMeta_def SnapctlGet_def by (simp add: tryPass_fst tryStep_fst)
  then show ?thesis using snapctlOnly_run [OF snapctlOnly_refl] by simp
qed

lemma SetSnapdFromK8sd_snapctl: "snapctlOnly h h' \<Longrightarrow> snapctlOnly h (fst (SetSnapdFromK8sd io u h'))"
  unfolding SetSnapdFromK8sd_def SnapctlSet_def
  using snapctlOnly_run by (auto simp: tryStep_fst split: sum.split)

lemma reconcileSnapd_spec: "\<exists>h'. reconcileSnapd io c h = (h', ok) \<and> snapctlOnly h h'"
proof -
  obtain h1 r where p: "ParseMeta io h = (h1, r)" by (cases "ParseMeta io h")
  then have "snapctlOnly h h1" using ParseMeta_snapctl [of h io] by simp
  then show ?thesis
    using SetSnapdFromK8sd_snapctl by (cases r) (auto simp: reconcileSnapd_def p)
qed

interpretation cp: reconciler "ControlPlane_reconcile lh io s c" "cpGood s c" "\<lambda>h. dsReached s c h \<and> cloudReached s c h" restarts
  for lh io s c
proof
  fix h
  assume g: "cpGood s c h"
  obtain h1 where h1: "reconcileDatastore lh s c h = (h1, ok)" "cpGood s c h1" "dsReached s c h1"
    "cloudReached s c h1 \<longleftrightarrow> cloudReached s c h" "H_cmds h1 = H_cmds h @ (if dsReached s c h then [] else [restartCmd ''kube-apiserver''])"
    using reconcileDatastore_spec [OF g] by blast
  obtain h2 where h2: "reconcileCloudProvider s c h1 = (h2, ok)" "cpGood s c h2" "dsReached s c h2" "cloudReached s c h2"
    "H_cmds h2 = H_cmds h1 @ (if cloudReached s c h1 then [] else [restartCmd ''kube-controller-manager''])"
    using reconcileCloudProvider_spec [OF h1(2,3)] by blast
  obtain h3 where h3: "reconcileSnapd io c h2 = (h3, ok)" "snapctlOnly h2 h3"
    using reconcileSnapd_spec by blast
  have run: "ControlPlane_reconcile lh io s c h = (h3, ok)"
    by (simp add: ControlPlane_reconcile_def h1(1) h2(1) h3(1))
  show "\<exists>h'. ControlPlane_reconcile lh io s c h = (h', ok) \<and> cpGood s c h' \<and> dsReached s c h' \<and> cloudReached s c h'"
    using run h2 snapctlOnly_keeps [OF h3(2)] by blast
  show "restarts (fst (ControlPlane_reconcile lh io s c h)) = restarts h" if "dsReached s c h \<and> cloudReached s c h"
  proof -
    have "H_cmds h2 = H_cmds h" using h1(4,5) h2(5) that by simp
    then show ?thesis using run snapctlOnly_restarts [OF h3(2)] by (simp add: restarts_def)
  qed
qed


section \<open>Retried commands\<close>

lemma attempt_runCommand:
  "attempt (\<lambda>h. runCommand h c) h k =
     (h\<lparr>H_cmds := H_cmds h @ replicate (Suc k) c\<rparr>,
      case H_cmdFault h (length (H_cmds h) + k) c of None \<Rightarrow> ok | Some e \<Rightarrow> Inl e)"
proof (induction k arbitrary: h)
  case 0
  then show ?case by (simp add: runCommand_def)
next
  case (Suc k)
  show ?case unfolding attempt.simps Suc.IH by (simp add: runCommand_def)
qed

lemma retryLoop_cmds:
  "\<exists>m \<le> n. H_cmds (fst (retryLoop cd i n (\<lambda>h. runCommand h c) e h)) = H_cmds h @ replicate m c"
proof (induction n arbitrary: i e h)
  case 0
  then show ?case by (auto intro: exI [of _ 0])
next
  case (Suc n)
  obtain r where r: "runCommand h c = (addCmd c h, r)" by (simp add: runCommand_def)
  show ?case
  proof (cases r)
    case (Inl f)
    show ?thesis
    proof (cases "cd i")
      case True
      then show ?thesis by (intro exI [of _ 1]) (simp add: r Inl)
    next
      case False
      obtain m where "m \<le> n" "H_cmds (fst (retryLoop cd (Suc i) n (\<lambda>h. runCommand h c) (Inl f) (addCmd c h))) = H_cmds (addCmd c h) @ replicate m c"
        using Suc.IH by blast
      then show ?thesis using False by (intro exI [of _ "Suc m"]) (simp add: r Inl)
    qed
  next
    case (Inr u)
    then show ?thesis by (intro exI [of _ 1]) (simp add: r)
  qed
qed

text \<open>
  A command that is retried ends after at most \<open>n\<close> attempts, and succeeds exactly when one
  of the first \<open>n\<close> attempts would and the context stays alive until then.
\<close>

theorem RetryFor_command:
  assumes "0 < n"
  shows "(\<exists>m \<le> n. H_cmds (fst (RetryFor ctxDone n (\<lambda>h. runCommand h c) h)) = H_cmds h @ replicate m c) \<and>
    (snd (RetryFor ctxDone n (\<lambda>h. runCommand h c) h) = ok \<longleftrightarrow>
      (\<exists>k < n. H_cmdFault h (length (H_cmds h) + k) c = None \<and>
        (\<forall>j < k. H_cmdFault h (length (H_cmds h) + j) c \<noteq> None \<and> \<not> ctxDone j)))"
proof
  show "\<exists>m \<le> n. H_cmds (fst (RetryFor ctxDone n (\<lambda>h. runCommand h c) h)) = H_cmds h @ replicate m c"
    unfolding RetryFor_def by (rule retryLoop_cmds)
  have pr: "(\<exists>h'. p = (h', ok)) \<longleftrightarrow> snd p = ok" for p :: "Host \<times> unit res" by (cases p) auto
  have a: "snd (attempt (\<lambda>h. runCommand h c) h k) = ok \<longleftrightarrow> H_cmdFault h (length (H_cmds h) + k) c = None" for k
    by (simp add: attempt_runCommand split: option.split)
  have b: "is_ok (snd (attempt (\<lambda>h. runCommand h c) h k)) \<longleftrightarrow> H_cmdFault h (length (H_cmds h) + k) c = None" for k
    by (simp add: attempt_runCommand is_ok_def split: option.split)
  have "snd (RetryFor ctxDone n (\<lambda>h. runCommand h c) h) = ok \<longleftrightarrow>
      (\<exists>h'. RetryFor ctxDone n (\<lambda>h. runCommand h c) h = (h', ok))"
    unfolding pr ..
  also have "\<dots> \<longleftrightarrow> (\<exists>k < n. snd (attempt (\<lambda>h. runCommand h c) h k) = ok \<and>
      (\<forall>j < k. \<not> is_ok (snd (attempt (\<lambda>h. runCommand h c) h j)) \<and> \<not> ctxDone j))"
    unfolding RetryFor_ok_iff [OF assms] pr [symmetric] by blast
  finally show "snd (RetryFor ctxDone n (\<lambda>h. runCommand h c) h) = ok \<longleftrightarrow>
      (\<exists>k < n. H_cmdFault h (length (H_cmds h) + k) c = None \<and>
        (\<forall>j < k. H_cmdFault h (length (H_cmds h) + j) c \<noteq> None \<and> \<not> ctxDone j))"
    unfolding a b .
qed

section \<open>The node configuration on a node\<close>

lemma RetryFor_first: "0 < n \<Longrightarrow> f h = (h', ok) \<Longrightarrow> RetryFor cd n f h = (h', ok)"
  by (cases n) (simp_all add: RetryFor_def)

lemma kubeletArgChanges_good: "goodMap (fst acc) \<Longrightarrow> goodMap (fst (kubeletArgChanges es acc))"
  by (induction es acc rule: kubeletArgChanges.induct) (auto simp: distinct_update split: option.split)

lemma nodeKubeletArgs_good: "goodMap (fst (nodeKubeletArgs c))"
  unfolding nodeKubeletArgs_def by (rule kubeletArgChanges_good) simp

lemma kubeletArgChanges_view:
  assumes "distinct (map fst es)" "\<forall>a \<in> fst ` set es. map_of u a = None \<and> a \<notin> set d"
  shows "updatedView (kubeletArgChanges es (u, d)) m a =
    (case map_of es a of
       Some (Some w) \<Rightarrow> if w = [] then None else Some w
     | _ \<Rightarrow> updatedView (u, d) m a)"
  using assms
proof (induction es arbitrary: u d)
  case (Cons e es)
  obtain arg val where e: "e = (arg, val)" by (cases e)
  have no: "map_of es arg = None" "map_of u arg = None" using Cons.prems by (auto simp: e map_of_eq_None_iff)
  show ?case
  proof (cases val)
    case None
    then show ?thesis using Cons no by (simp add: e)
  next
    case (Some w)
    show ?thesis
    proof (cases "w = []")
      case True
      have "updatedView (kubeletArgChanges es (u, d @ [arg])) m a =
          (case map_of es a of Some (Some w) \<Rightarrow> if w = [] then None else Some w | _ \<Rightarrow> updatedView (u, d @ [arg]) m a)"
        using Cons.prems by (intro Cons.IH) (auto simp: e)
      then show ?thesis using no by (auto simp: e Some True map_add_def restrict_map_def split: option.split)
    next
      case False
      have "updatedView (kubeletArgChanges es (AList.update arg w u, d)) m a =
          (case map_of es a of Some (Some w) \<Rightarrow> if w = [] then None else Some w | _ \<Rightarrow> updatedView (AList.update arg w u, d) m a)"
        using Cons.prems by (intro Cons.IH) (auto simp: e update_conv')
      then show ?thesis using no by (auto simp: e Some False map_add_def update_conv' split: option.split)
    qed
  qed
qed simp

text \<open>What the config map says of an argument: nothing, remove it, or a value.\<close>

definition argAsConfigured :: "string ptr \<Rightarrow> string option \<Rightarrow> string option \<Rightarrow> bool" where
  "argAsConfigured v old new \<longleftrightarrow> (case v of None \<Rightarrow> new = old | Some w \<Rightarrow> new = (if w = [] then None else Some w))"

lemma nodeKubeletArgs_at:
  "updatedView (nodeKubeletArgs c) m a =
     (case map_of [(''--cloud-provider'', Kubelet_CloudProvider (CC_Kubelet c)), (''--cluster-dns'', Kubelet_ClusterDNS (CC_Kubelet c)),
        (''--cluster-domain'', Kubelet_ClusterDomain (CC_Kubelet c))] a of
        Some (Some w) \<Rightarrow> if w = [] then None else Some w
      | _ \<Rightarrow> m a)"
proof -
  have "updatedView ([], []) m a = m a" by (simp add: restrict_map_def)
  then show ?thesis
    unfolding nodeKubeletArgs_def by (subst kubeletArgChanges_view) (simp_all only: list.map fst_conv list.set image_empty image_insert, simp_all)
qed

lemma nodeKubeletArgs_view:
  "argAsConfigured (Kubelet_CloudProvider (CC_Kubelet c)) (m ''--cloud-provider'') (updatedView (nodeKubeletArgs c) m ''--cloud-provider'')"
  "argAsConfigured (Kubelet_ClusterDNS (CC_Kubelet c)) (m ''--cluster-dns'') (updatedView (nodeKubeletArgs c) m ''--cluster-dns'')"
  "argAsConfigured (Kubelet_ClusterDomain (CC_Kubelet c)) (m ''--cluster-domain'') (updatedView (nodeKubeletArgs c) m ''--cluster-domain'')"
  "a \<notin> {''--cloud-provider'', ''--cluster-dns'', ''--cluster-domain''} \<Longrightarrow> updatedView (nodeKubeletArgs c) m a = m a"
  unfolding nodeKubeletArgs_at argAsConfigured_def by (simp_all split: option.split)

lemma reconcileKubelet_spec:
  assumes "hostOK h" "argsInv s h ''kubelet''" "wfArgs (fst (nodeKubeletArgs c))"
  shows "\<exists>h'. reconcileKubelet cd s c h = (h', ok) \<and> hostOK h' \<and> argsInv s h' ''kubelet'' \<and>
    argsView s h' ''kubelet'' = updatedView (nodeKubeletArgs c) (argsView s h ''kubelet'') \<and>
    H_cmds h' = H_cmds h @ (if argsView s h' ''kubelet'' = argsView s h ''kubelet'' then [] else [restartCmd ''kubelet''])"
proof -
  obtain h1 ch where u: "UpdateServiceArguments s ''kubelet'' (fst (nodeKubeletArgs c)) (snd (nodeKubeletArgs c)) h = (h1, Inr ch)"
    and ok1: "hostOK h1" by (rule UpdateServiceArguments_hostOK [OF assms(1)])
  note upd = sa.upd_view [OF assms(2,3) nodeKubeletArgs_good u] sa.upd_changed [OF assms(2,3) nodeKubeletArgs_good u]
    sa.upd_inv [OF assms(2,3) nodeKubeletArgs_good u assms(2)] UpdateServiceArguments_frame [OF u]
  have "RetryFor cd 5 (\<lambda>h. tryStep (RestartServices h [''kubelet''] [])
      ''failed to restart kubelet to apply node configuration: %w'' [] (\<lambda>h _. (h, ok))) h1 = (addCmd (restartCmd ''kubelet'') h1, ok)"
    using ok1 by (intro RetryFor_first) simp_all
  then have "reconcileKubelet cd s c h = (if ch then addCmd (restartCmd ''kubelet'') h1 else h1, ok)"
    using u by (simp add: reconcileKubelet_def case_prod_beta)
  then show ?thesis using upd ok1 by (cases ch) auto
qed

lemma reconcileKubeProxy_spec:
  assumes "hostOK h"
  shows "\<exists>h'. reconcileKubeProxy cd s b h = (h', ok) \<and> H_files h' = H_files h \<and> hostOK h' \<and>
    H_cmds h' = H_cmds h @ (if b then [[''snap'', ''start'', ''k8s.kube-proxy'', ''--enable'']]
      else [[''snap'', ''stop'', ''k8s.kube-proxy'', ''--disable''], [filepathJoin [snapDir s, ''bin'', ''kube-proxy''], ''--cleanup'']])"
proof -
  have sv: "serviceName ''kube-proxy'' = ''k8s.kube-proxy''" by (simp add: serviceName_def HasPrefix_def)
  have "RetryFor cd 5 (\<lambda>h. StartServices h [''kube-proxy''] []) h = (addCmd [''snap'', ''start'', ''k8s.kube-proxy'', ''--enable''] h, ok)"
    "RetryFor cd 5 (\<lambda>h. StopServices h [''kube-proxy''] []) h = (addCmd [''snap'', ''stop'', ''k8s.kube-proxy'', ''--disable''] h, ok)"
    using assms by (intro RetryFor_first; simp add: StartServices_def StopServices_def buildServiceCommand_def sv)+
  then show ?thesis using assms by (simp add: reconcileKubeProxy_def RemoveKubeProxyRules_def)
qed

lemma NodeConfiguration_sets:
  assumes "hostOK (N_host n)" "argsInv s (N_host n) ''kubelet''" "wfArgs (fst (nodeKubeletArgs c))"
    "getRSAKey y parsePKIX j (N_db n) = Inr key" "ConfigMapToClusterConfig x cm key = Inr c"
    "updateKubeProxyEnabled ext j (GetKubeProxyEnabled (CC_Network c)) (N_db n) = (db', ok)"
  shows "\<exists>n'. NodeConfiguration_reconcile y x parsePKIX ext j ctxDone s cm n = (n', ok) \<and> N_db n' = db' \<and>
    (let old = argsView s (N_host n) ''kubelet''; new = argsView s (N_host n') ''kubelet'' in
       argAsConfigured (Kubelet_CloudProvider (CC_Kubelet c)) (old ''--cloud-provider'') (new ''--cloud-provider'') \<and>
       argAsConfigured (Kubelet_ClusterDNS (CC_Kubelet c)) (old ''--cluster-dns'') (new ''--cluster-dns'') \<and>
       argAsConfigured (Kubelet_ClusterDomain (CC_Kubelet c)) (old ''--cluster-domain'') (new ''--cluster-domain'') \<and>
       (\<forall>a. a \<notin> {''--cloud-provider'', ''--cluster-dns'', ''--cluster-domain''} \<longrightarrow> new a = old a) \<and>
       H_cmds (N_host n') = H_cmds (N_host n) @ (if new = old then [] else [restartCmd ''kubelet'']) @
         (if GetKubeProxyEnabled (CC_Network c) then [[''snap'', ''start'', ''k8s.kube-proxy'', ''--enable'']]
          else [[''snap'', ''stop'', ''k8s.kube-proxy'', ''--disable''], [filepathJoin [snapDir s, ''bin'', ''kube-proxy''], ''--cleanup'']]))"
proof -
  obtain h1 where h1: "reconcileKubelet ctxDone s c (N_host n) = (h1, ok)" "hostOK h1"
    "argsView s h1 ''kubelet'' = updatedView (nodeKubeletArgs c) (argsView s (N_host n) ''kubelet'')"
    "H_cmds h1 = H_cmds (N_host n) @ (if argsView s h1 ''kubelet'' = argsView s (N_host n) ''kubelet'' then [] else [restartCmd ''kubelet''])"
    using reconcileKubelet_spec [OF assms(1-3)] by blast
  obtain h2 where h2: "reconcileKubeProxy ctxDone s (GetKubeProxyEnabled (CC_Network c)) h1 = (h2, ok)" "H_files h2 = H_files h1" "hostOK h2"
    "H_cmds h2 = H_cmds h1 @ (if GetKubeProxyEnabled (CC_Network c) then [[''snap'', ''start'', ''k8s.kube-proxy'', ''--enable'']]
      else [[''snap'', ''stop'', ''k8s.kube-proxy'', ''--disable''], [filepathJoin [snapDir s, ''bin'', ''kube-proxy''], ''--cleanup'']])"
    using reconcileKubeProxy_spec [OF h1(2)] by blast
  have "H_fault h2 = H_fault h1" using h1(2) h2(3) by (simp add: hostOK_def noFaults_def)
  then have view: "argsView s h2 ''kubelet'' = argsView s h1 ''kubelet''"
    using h2(2) by (intro args_cong(2)) simp_all
  have run: "NodeConfiguration_reconcile y x parsePKIX ext j ctxDone s cm n = (n\<lparr>N_host := h2, N_db := db'\<rparr>, ok)"
    using assms(4-6) h1(1) h2(1) by (simp add: NodeConfiguration_reconcile_def onHost_def onDB_def Let_def)
  show ?thesis
    unfolding Let_def run
    by (rule exI [of _ "n\<lparr>N_host := h2, N_db := db'\<rparr>"])
      (use nodeKubeletArgs_view [where m = "argsView s (N_host n) ''kubelet''" and c = c] h1(4) in \<open>simp add: view h1(3) h2(4)\<close>)
qed

text \<open>
  An accepted config map is applied. The three kubelet arguments become what the map says
  (unset: kept; empty: removed), all other arguments stay; the kubelet is restarted exactly when
  an argument changed; then kube-proxy is started, or stopped and its rules removed.
\<close>

theorem NodeConfiguration_applies:
  assumes "hostOK (N_host n)" "argsInv s (N_host n) ''kubelet''" "wfArgs (fst (nodeKubeletArgs c))"
    "getRSAKey y parsePKIX j (N_db n) = Inr key" "ConfigMapToClusterConfig x cm key = Inr c"
    "updateKubeProxyEnabled ext j (GetKubeProxyEnabled (CC_Network c)) (N_db n) = (db', ok)"
  shows "\<exists>n'. NodeConfiguration_reconcile y x parsePKIX ext j ctxDone s cm n = (n', ok) \<and> N_db n' = db' \<and>
    (let old = argsView s (N_host n) ''kubelet''; new = argsView s (N_host n') ''kubelet'' in
       argAsConfigured (Kubelet_CloudProvider (CC_Kubelet c)) (old ''--cloud-provider'') (new ''--cloud-provider'') \<and>
       argAsConfigured (Kubelet_ClusterDNS (CC_Kubelet c)) (old ''--cluster-dns'') (new ''--cluster-dns'') \<and>
       argAsConfigured (Kubelet_ClusterDomain (CC_Kubelet c)) (old ''--cluster-domain'') (new ''--cluster-domain'') \<and>
       (\<forall>a. a \<notin> {''--cloud-provider'', ''--cluster-dns'', ''--cluster-domain''} \<longrightarrow> new a = old a) \<and>
       H_cmds (N_host n') = H_cmds (N_host n) @ (if new = old then [] else [restartCmd ''kubelet'']) @
         (if GetKubeProxyEnabled (CC_Network c) then [[''snap'', ''start'', ''k8s.kube-proxy'', ''--enable'']]
          else [[''snap'', ''stop'', ''k8s.kube-proxy'', ''--disable''], [filepathJoin [snapDir s, ''bin'', ''kube-proxy''], ''--cleanup'']]))"
  using assms by (rule NodeConfiguration_sets)

text \<open>
  A config map that is not accepted (bad signature, unparsable value) or for which the
  cluster key cannot be loaded changes nothing on the node: no file, no command, no database entry.
\<close>

theorem NodeConfiguration_rejects:
  assumes "\<And>key c. getRSAKey y parsePKIX j (N_db n) = Inr key \<Longrightarrow> ConfigMapToClusterConfig x cm key \<noteq> Inr c"
  shows "\<exists>e. NodeConfiguration_reconcile y x parsePKIX ext j ctxDone s cm n = (n, Inl e)"
proof (cases "getRSAKey y parsePKIX j (N_db n)")
  case (Inl e)
  then show ?thesis by (simp add: NodeConfiguration_reconcile_def)
next
  case (Inr key)
  obtain e where "ConfigMapToClusterConfig x cm key = Inl e"
    using assms [OF Inr] by (cases "ConfigMapToClusterConfig x cm key") blast+
  with Inr show ?thesis by (simp add: NodeConfiguration_reconcile_def)
qed

section \<open>Failure domains\<close>

lemma osStat_cong: "H_files h' = H_files h \<Longrightarrow> H_fault h' = H_fault h \<Longrightarrow> osStat h' = osStat h"
  unfolding osStat_def by (rule ext) presburger

lemma GetDqliteFailureDomain_written:
  assumes "noFaults h"
  shows "GetDqliteFailureDomain dir (setFile (GetDqliteFailureDomainFile dir) (Some n) h) =
    (case ParseUint64 (hd (splitOn (CHR 0x0A) (F_data n))) of
       None \<Rightarrow> Inl (Errorf ''failed to parse failure domain %s: %w'' [hd (splitOn (CHR 0x0A) (F_data n))]) | Some d \<Rightarrow> Inr d)"
  using assms by (simp add: GetDqliteFailureDomain_def FileExists_def osStat_def ReadFile_def Let_def)

lemma UpdateDqliteFailureDomain_spec:
  assumes nf: "noFaults h" and old: "GetDqliteFailureDomain dir h = Inr d0"
  shows "\<exists>h'. UpdateDqliteFailureDomain d dir h = (h', Inr (d \<noteq> d0)) \<and> GetDqliteFailureDomain dir h' = Inr d \<and>
    (\<exists>n. h' = setFile (GetDqliteFailureDomainFile dir) n h)"
proof -
  let ?f = "GetDqliteFailureDomainFile dir"
  obtain n where w: "osWriteFile h ?f (natToString (unat d)) perm644 = (setFile ?f (Some n) h, ok)"
    and data: "F_data n = natToString (unat d)"
    using nf by (cases "H_files h ?f") (auto simp: osWriteFile_def newNode_def)
  have get: "GetDqliteFailureDomain dir (setFile ?f (Some n) h) = Inr d"
    unfolding GetDqliteFailureDomain_written [OF nf] data
    by (simp add: splitOn_no_sep natToString_no_newline)
  show ?thesis
  proof (cases "H_files h ?f")
    case None
    then have "d0 = 0" using old nf by (simp add: GetDqliteFailureDomain_def FileExists_def osStat_def Let_def)
    then show ?thesis
      using None w get nf by (auto simp: UpdateDqliteFailureDomain_def FileExists_def osStat_def Let_def)
  next
    case (Some m)
    have same: "h = setFile ?f (Some m) h" using Some by (cases h) (auto simp: setFile_def fun_upd_idem)
    show ?thesis
    proof (cases "d = d0")
      case True
      have "UpdateDqliteFailureDomain d dir h = (h, Inr False)"
        using Some old nf True by (simp add: UpdateDqliteFailureDomain_def FileExists_def osStat_def Let_def)
      moreover have "\<exists>n. h = setFile ?f n h" using same by (rule exI)
      ultimately show ?thesis using True old by (intro exI [of _ h]) simp
    next
      case False
      have "UpdateDqliteFailureDomain d dir h = (setFile ?f (Some n) h, Inr True)"
        using Some old nf False w by (simp add: UpdateDqliteFailureDomain_def FileExists_def osStat_def Let_def)
      then show ?thesis using False get by (intro exI [of _ "setFile ?f (Some n) h"]) auto
    qed
  qed
qed

text \<open>
  The zone label of the node becomes its failure domain. After the reconcile the domain read
  back is the hash of the label (0 without one), and k8sd is restarted exactly when it was another one before.
\<close>

theorem reconcileFailureDomain_spec:
  assumes "hostOK h" "GetDqliteFailureDomain (pathJoin (K8sdStateDir s) ''database'') h = Inr d0"
  shows "\<exists>h'. reconcileFailureDomain sha s node h = (h', ok)
    \<and> GetDqliteFailureDomain (pathJoin (K8sdStateDir s) ''database'') h' = Inr (nodeFailureDomain sha node)
    \<and> H_cmds h' = H_cmds h @ (if nodeFailureDomain sha node = d0 then [] else [restartCmd ''k8sd''])"
proof -
  let ?dir = "pathJoin (K8sdStateDir s) ''database''" and ?d = "nodeFailureDomain sha node"
  have nf: "noFaults h" using assms(1) by simp
  obtain h1 n where u: "UpdateDqliteFailureDomain ?d ?dir h = (h1, Inr (?d \<noteq> d0))" and get: "GetDqliteFailureDomain ?dir h1 = Inr ?d"
    and h1: "h1 = setFile (GetDqliteFailureDomainFile ?dir) n h"
    using UpdateDqliteFailureDomain_spec [OF nf assms(2)] by blast
  have ok1: "hostOK h1" using assms(1) by (simp add: h1 hostOK_def noFaults_def)
  have "GetDqliteFailureDomain ?dir (addCmd c h1) = GetDqliteFailureDomain ?dir h1" for c
  proof -
    have eq: "ReadFile (addCmd c h1) = ReadFile h1" "osStat (addCmd c h1) = osStat h1"
      by (rule ReadFile_cong osStat_cong; simp)+
    show ?thesis unfolding GetDqliteFailureDomain_def FileExists_def eq ..
  qed
  then show ?thesis
    using u get ok1 by (auto simp: reconcileFailureDomain_def updateDqliteFailureDomain_def h1)
qed

section \<open>Samples\<close>

definition runningHost :: "string \<Rightarrow> string \<Rightarrow> Host" where
  "runningHost args cmdline = sampleHost\<lparr>H_files := [''/var/snap/k8s/common/args/kubelet'' \<mapsto> newNode sampleHost args perm600,
     ''/proc/7/cmdline'' \<mapsto> newNode sampleHost cmdline perm600]\<rparr>"

definition sampleSystemctl :: "string \<Rightarrow> string \<Rightarrow> string res" where
  "sampleSystemctl unit prop = Inr (if prop = ''LoadState'' then ''loaded'' else if prop = ''ActiveState'' then ''active'' else ''7'')"

lemma runningHost_pid: "getUnitMainPID sampleSystemctl u = Inr 7"
  by (simp add: getUnitMainPID_def sampleSystemctl_def arg_eval Atoi_def Let_def decVal_def isDigit_def digitVal_def)

lemma runningHost_running:
  "RunningServiceArgs sampleSystemctl (runningHost args cmdline) svc = Inr (cmdlineLoop (tl (splitOn (CHR 0x00) cmdline)) [])"
proof -
  have states: "getUnitLoadState sampleSystemctl u = Inr ''loaded''" "getUnitActiveState sampleSystemctl u = Inr ''active''" for u
    by (simp_all add: getUnitLoadState_def getUnitActiveState_def sampleSystemctl_def arg_eval Let_def)
  have "Itoa 7 = ''7''" by (simp add: Itoa_def natToString.simps digitChar_def char_of_def bit_0)
  then show ?thesis
    by (simp add: RunningServiceArgs_def Let_def states runningHost_pid ReadFile_def runningHost_def sampleHost_def)
qed

lemma runningHost_args:
  "ParseArgumentFile (runningHost args cmdline) (argumentsFileForService sampleSnap ''kubelet'') =
     (case scanLines args of Inl e \<Rightarrow> Inl (Wrapf ''failed to scan lines in argument file: %w'' [] e) | Inr ls \<Rightarrow> Inr (parseArgLoop ls []))"
  by (simp add: ParseArgumentFile_def sampleArgsFile ReadFile_def runningHost_def sampleHost_def)

lemmas line_eval = scanLines_def dropCR_def arg_eval Let_def HasPrefix_def

theorem serviceArgsDiffer_iff_drift_witness:
  "serviceArgsDiffer sampleSystemctl sampleSnap (runningHost (''--a=1'' @ [newline]) (''kubelet'' @ [CHR 0x00] @ ''--a=2'' @ [CHR 0x00])) ''kubelet'' = Inr True"
proof -
  let ?h = "runningHost (''--a=1'' @ [newline]) (''kubelet'' @ [CHR 0x00] @ ''--a=2'' @ [CHR 0x00])"
  have d: "ParseArgumentFile ?h (argumentsFileForService sampleSnap ''kubelet'') = Inr [(''--a'', ''1'')]"
    unfolding runningHost_args by (simp add: line_eval)
  have a: "RunningServiceArgs sampleSystemctl ?h ''kubelet'' = Inr [(''--a'', ''2'')]"
    unfolding runningHost_running by (simp add: line_eval)
  have "map_of [(''--a'', ''1'')] ''--a'' \<noteq> map_of [(''--a'', ''2'')] ''--a''" by simp
  then have "map_of [(''--a'', ''1'')] \<noteq> map_of [(''--a'', ''2'')]" by metis
  with serviceArgsDiffer_iff_drift [OF d a] show ?thesis by simp
qed

text \<open>
  An argument without a value hides drift. A service that runs with another flag than the
  one its file has is not restarted: the missing key reads as the empty string.
\<close>

theorem serviceArgsDiffer_misses_flag:
  "serviceArgsDiffer sampleSystemctl sampleSnap (runningHost (''--a'' @ [newline]) (''kubelet'' @ [CHR 0x00] @ ''--b=2'' @ [CHR 0x00])) ''kubelet'' = Inr False"
proof -
  let ?h = "runningHost (''--a'' @ [newline]) (''kubelet'' @ [CHR 0x00] @ ''--b=2'' @ [CHR 0x00])"
  have d: "ParseArgumentFile ?h (argumentsFileForService sampleSnap ''kubelet'') = Inr [(''--a'', [])]"
    unfolding runningHost_args by (simp add: line_eval)
  have a: "RunningServiceArgs sampleSystemctl ?h ''kubelet'' = Inr [(''--b'', ''2'')]"
    unfolding runningHost_running by (simp add: line_eval)
  show ?thesis unfolding serviceArgsDiffer_def d a by simp
qed

theorem RetryFor_command_witness:
  "snd (RetryFor (\<lambda>_. False) 3 (\<lambda>h. runCommand h [''true'']) (sampleHost\<lparr>H_cmdFault := (\<lambda>i _. if i < 2 then Some ErrNotExist else None)\<rparr>)) = ok"
proof -
  let ?h = "sampleHost\<lparr>H_cmdFault := (\<lambda>i _. if i < 2 then Some ErrNotExist else None)\<rparr>"
  have "\<exists>k < 3. H_cmdFault ?h (length (H_cmds ?h) + k) [''true''] = None \<and>
      (\<forall>j < k. H_cmdFault ?h (length (H_cmds ?h) + j) [''true''] \<noteq> None \<and> \<not> False)"
    by (intro exI [of _ 2]) (simp add: sampleHost_def)
  then show ?thesis using RetryFor_command [of 3 "\<lambda>_. False" "[''true'']" ?h] by simp
qed

definition sampleCloudConfig :: ClusterConfig where
  "sampleCloudConfig = emptyClusterConfig\<lparr>CC_Datastore := sampleExternal,
     CC_Kubelet := emptyKubelet\<lparr>Kubelet_CloudProvider := Some ''external''\<rparr>\<rparr>"

definition sampleSnapdIO :: snapdIO where
  "sampleSnapdIO = \<lparr>snapctlOut = (\<lambda>_. ''{}''), parseMetaJson = (\<lambda>_. Inr \<lparr>Orb = [], Meta_APIVersion = [], Meta_Error = []\<rparr>),
     sectionJson = (\<lambda>_. Inr ''{}''), sectionOrder = id\<rparr>"

lemma sampleHost_ok: "hostOK sampleHost"
  by (simp add: hostOK_def) (simp add: sampleHost_def)

lemma sample_kcm_file:
  "argumentsFileForService sampleSnap ''kube-controller-manager'' = ''/var/snap/k8s/common/args/kube-controller-manager''"
  by (simp add: argumentsFileForService_def ServiceArgumentsDir_def sampleSnap_def NewSnap_def path_eval)

lemma sample_kcm_inv: "argsInv sampleSnap sampleHost ''kube-controller-manager''"
  by (simp add: argsInv_def argEntries_def sample_kcm_file contentsOf_def ReadFile_def sampleHost_def argLines_def arg_eval plainName_def)

lemma sample_cpGood: "cpGood sampleSnap sampleCloudConfig sampleHost"
proof -
  have "wfArgs (fst (externalArgs sampleCloudConfig))"
    by (simp add: externalArgs_def sampleCloudConfig_def sampleExternal_def emptyDatastore_def externalCertEntries_def wfArgs_def
        wfKey_def wfValue_def isSpace_def)
  moreover have "fst ` set (extDatastoreFiles (externalPKI sampleCloudConfig)) =
      {''/etc/kubernetes/pki/etcd/ca.crt'', ''/etc/kubernetes/pki/etcd/client.key'', ''/etc/kubernetes/pki/etcd/client.crt''}"
    by (simp add: extDatastoreFiles_def snapEtcdPKIDir_def path_eval)
  ultimately show ?thesis
    by (simp add: cpGood_def sampleHost_ok sample_apiserver_inv sample_kcm_inv sample_apiserver_file sample_kcm_file)
      (simp add: sampleCloudConfig_def wfArgs_def wfKey_def wfValue_def isSpace_def)
qed


definition sampleNode :: Node where
  "sampleNode = \<lparr>N_host = sampleHost, N_db = sampleDB\<rparr>"

definition proxyJson :: json where
  "proxyJson = \<lparr>jsonMarshal = (\<lambda>_. Inr ''{}''),
     jsonUnmarshal = (\<lambda>_. Inr (emptyClusterConfig\<lparr>CC_Network := emptyNetwork\<lparr>Network_KubeProxyEnabled := Some True\<rparr>\<rparr>))\<rparr>"

lemma sample_LoadRSAPublicKey: "LoadRSAPublicKey sampleCrypto f [] = Inl (Errorf ''failed to parse PEM block'' [])"
  by (simp add: LoadRSAPublicKey_def sampleCrypto_def)

lemma sample_getRSAKey: "getRSAKey sampleCrypto (\<lambda>_. Inr (Some ())) proxyJson sampleDB = Inr None"
  by (simp add: getRSAKey_def util_GetClusterConfig_def GetClusterConfig_def sampleDB_facts)
    (simp add: sampleDB_def proxyJson_def empty_defs sample_LoadRSAPublicKey)

lemma sample_proxy: "updateKubeProxyEnabled sampleExtern proxyJson True sampleDB = (sampleDB, ok)"
  by (simp add: updateKubeProxyEnabled_def Transaction_def GetClusterConfig_def sampleDB_facts)
    (simp add: sampleDB_def proxyJson_def)

theorem NodeConfiguration_applies_witness:
  "\<exists>n'. NodeConfiguration_reconcile sampleCrypto sampleNodeCrypto (\<lambda>_. Inr (Some ())) sampleExtern proxyJson (\<lambda>_. False) sampleSnap
       (Some [(''cluster-dns'', ''10.1.1.1'')]) sampleNode = (n', ok) \<and>
     argsView sampleSnap (N_host n') ''kubelet'' ''--cluster-dns'' = Some ''10.1.1.1'' \<and>
     argsView sampleSnap (N_host n') ''kubelet'' ''--a'' = Some ''1''"
proof -
  let ?cm = "Some [(''cluster-dns'', ''10.1.1.1'')]"
  let ?c = "emptyClusterConfig\<lparr>CC_Kubelet := emptyKubelet\<lparr>Kubelet_ClusterDNS := Some ''10.1.1.1''\<rparr>,
      CC_Network := emptyNetwork\<lparr>Network_KubeProxyEnabled := Some True\<rparr>\<rparr>"
  have c: "ConfigMapToClusterConfig sampleNodeCrypto ?cm None = Inr ?c"
    by (simp add: ConfigMapToClusterConfig_def verifyConfigMap_def parseNodeConfig_def Let_def empty_defs)
  have wf: "wfArgs (fst (nodeKubeletArgs ?c))"
    by (simp add: nodeKubeletArgs_def empty_defs wfArgs_def wfKey_def wfValue_def isSpace_def)
  have a: "argsView sampleSnap sampleHost ''kubelet'' ''--a'' = Some ''1''"
    by (simp add: argsView_def sampleHost_entries)
  have p: "GetKubeProxyEnabled (CC_Network ?c) = True" by (simp add: GetKubeProxyEnabled_def)
  have h: "hostOK (N_host sampleNode)" "argsInv sampleSnap (N_host sampleNode) ''kubelet''"
    "getRSAKey sampleCrypto (\<lambda>_. Inr (Some ())) proxyJson (N_db sampleNode) = Inr None"
    "updateKubeProxyEnabled sampleExtern proxyJson (GetKubeProxyEnabled (CC_Network ?c)) (N_db sampleNode) = (sampleDB, ok)"
    unfolding p by (simp_all add: sampleNode_def sampleHost_ok sampleHost_inv sample_getRSAKey sample_proxy)
  from NodeConfiguration_applies [OF h(1,2) wf h(3) c h(4), of "\<lambda>_. False"]
  obtain n' where "NodeConfiguration_reconcile sampleCrypto sampleNodeCrypto (\<lambda>_. Inr (Some ())) sampleExtern proxyJson (\<lambda>_. False) sampleSnap
       ?cm sampleNode = (n', ok)"
    "argAsConfigured (Kubelet_ClusterDNS (CC_Kubelet ?c)) (argsView sampleSnap (N_host sampleNode) ''kubelet'' ''--cluster-dns'')
       (argsView sampleSnap (N_host n') ''kubelet'' ''--cluster-dns'')"
    "\<forall>a. a \<notin> {''--cloud-provider'', ''--cluster-dns'', ''--cluster-domain''} \<longrightarrow>
       argsView sampleSnap (N_host n') ''kubelet'' a = argsView sampleSnap (N_host sampleNode) ''kubelet'' a"
    unfolding Let_def by (elim exE conjE) (rule that)
  then show ?thesis using a by (intro exI [of _ n']) (simp add: argAsConfigured_def sampleNode_def)
qed

theorem NodeConfiguration_rejects_witness:
  "\<exists>e. NodeConfiguration_reconcile sampleCrypto sampleNodeCrypto (\<lambda>_. Inr (Some ())) sampleExtern proxyJson (\<lambda>_. False) sampleSnap
       (Some [(''kube-proxy-enabled'', ''maybe'')]) sampleNode = (sampleNode, Inl e)"
proof (rule NodeConfiguration_rejects)
  fix key c
  assume "getRSAKey sampleCrypto (\<lambda>_. Inr (Some ())) proxyJson (N_db sampleNode) = Inr key"
  then have "key = None" using sample_getRSAKey by (simp add: sampleNode_def)
  then show "ConfigMapToClusterConfig sampleNodeCrypto (Some [(''kube-proxy-enabled'', ''maybe'')]) key \<noteq> Inr c"
    by (simp add: ConfigMapToClusterConfig_def verifyConfigMap_def parseNodeConfig_def Let_def)
qed

theorem reconcileFailureDomain_spec_witness:
  "\<exists>h'. reconcileFailureDomain (\<lambda>_. [5, 0, 0, 0, 0, 0, 0, 0]) sampleSnap
       \<lparr>KN_Name = ''n1'', KN_Labels = [(''topology.kubernetes.io/zone'', ''az1'')], KN_Annotations = None\<rparr> sampleHost = (h', ok)
    \<and> H_cmds h' = [restartCmd ''k8sd'']"
proof -
  let ?n = "\<lparr>KN_Name = ''n1'', KN_Labels = [(''topology.kubernetes.io/zone'', ''az1'')], KN_Annotations = None\<rparr>"
  have old: "GetDqliteFailureDomain (pathJoin (K8sdStateDir sampleSnap) ''database'') sampleHost = Inr 0"
    by (simp add: GetDqliteFailureDomain_def GetDqliteFailureDomainFile_def FileExists_def osStat_def Let_def K8sdStateDir_def sampleSnap_def
        NewSnap_def sampleHost_def path_eval)
  have "nodeFailureDomain (\<lambda>_. [5, 0, 0, 0, 0, 0, 0, 0]) ?n = 5"
    by (simp add: nodeFailureDomain_def NodeLabelToDqliteFailureDomain_def littleEndianUint64_def)
  then show ?thesis
    using reconcileFailureDomain_spec [OF sampleHost_ok old, of "\<lambda>_. [5, 0, 0, 0, 0, 0, 0, 0]" ?n]
    by (auto simp: sampleHost_def)
qed

end
