(* ===== verification/Api.thy ===== *)
theory Api
  imports CIDR
begin

text \<open>
  What the handlers of the REST API share: their responses and how a failing step becomes one.
  An error response keeps the HTTP status that \<open>BadRequest\<close>, \<open>InternalError\<close> and the other
  constructors of the microcluster library stand for.
\<close>

datatype 'a response = SyncResponse 'a | ErrorResponse nat error

abbreviation BadRequest :: "error \<Rightarrow> 'a response" where "BadRequest \<equiv> ErrorResponse 400"
abbreviation NotFound :: "error \<Rightarrow> 'a response" where "NotFound \<equiv> ErrorResponse 404"
abbreviation InternalError :: "error \<Rightarrow> 'a response" where "InternalError \<equiv> ErrorResponse 500"
abbreviation Unavailable :: "error \<Rightarrow> 'a response" where "Unavailable \<equiv> ErrorResponse 503"

text \<open>
  \<open>orFail\<close> is \<open>if err := op(); err != nil { return status(fmt.Errorf(fmt, args, err)) }\<close> followed
  by the rest of the handler.
\<close>

definition orFail ::
  "nat \<Rightarrow> string \<Rightarrow> string list \<Rightarrow> ('s, 'a) step \<Rightarrow> ('s \<Rightarrow> 'a \<Rightarrow> 's \<times> 'b response) \<Rightarrow> 's \<times> 'b response"
where
  "orFail status fmt args r k =
     (case r of (s, Inl e) \<Rightarrow> (s, ErrorResponse status (Wrapf fmt args e)) | (s, Inr x) \<Rightarrow> k s x)"

lemma orFail_simps [simp]:
  "orFail c f a (s, Inl e) k = (s, ErrorResponse c (Wrapf f a e))" "orFail c f a (s, Inr x) k = k s x"
  by (simp_all add: orFail_def)

lemma orFail_sync_iff:
  "orFail c f a r k = (s', SyncResponse y) \<longleftrightarrow> (\<exists>s x. r = (s, Inr x) \<and> k s x = (s', SyncResponse y))"
  by (cases r; cases "snd r") auto

text \<open>\<open>SplitIPAndDNSSANs\<close> of \<open>pkg/utils/certificate.go\<close>: the addresses and the other names, in order.\<close>

fun splitSANsLoop :: "string list \<Rightarrow> IP list \<times> string list \<Rightarrow> IP list \<times> string list" where
  "splitSANsLoop [] acc = acc"
| "splitSANsLoop (san # sans) (ips, names) =
     (if san = [] then splitSANsLoop sans (ips, names)
      else (case ParseIP san of
              Some ip \<Rightarrow> splitSANsLoop sans (ips @ [ip], names)
            | None \<Rightarrow> splitSANsLoop sans (ips, names @ [san])))"

definition SplitIPAndDNSSANs :: "string list \<Rightarrow> IP list \<times> string list" where
  "SplitIPAndDNSSANs extraSANs = splitSANsLoop extraSANs ([], [])"

lemma splitSANsLoop_eq:
  "splitSANsLoop sans (ips, names) =
     (ips @ List.map_filter ParseIP (filter (\<lambda>s. s \<noteq> []) sans),
      names @ filter (\<lambda>s. s \<noteq> [] \<and> ParseIP s = None) sans)"
  by (induction sans arbitrary: ips names) (auto simp: List.map_filter_def split: option.splits)

text \<open>
  A response that is rendered before services restart: \<open>StartAsyncRestart\<close> waits for the result
  of rendering and restarts only after a response that reached the client, ignoring the error of
  the restart itself.
\<close>

definition asyncRestart :: "unit res \<Rightarrow> ('s \<Rightarrow> ('s, unit) step) \<Rightarrow> 's \<Rightarrow> 's" where
  "asyncRestart rendered restartFn s = (case rendered of Inl _ \<Rightarrow> s | Inr _ \<Rightarrow> fst (restartFn s))"

end
