(* ===== verification/GoTime.thy ===== *)
theory GoTime
  imports Prelude
begin

text \<open>
  Points in time, validity periods and the TTL notation (\<open>pkg/utils/time.go\<close>).

  A \<open>time.Time\<close> is its number of seconds since 1970-01-01 00:00:00 UTC; certificates carry no
  fractions of a second. \<open>AddDate\<close> works on the proleptic Gregorian calendar of the host's zone,
  here UTC. Machine integers wrap where the source multiplies: \<open>int64\<close> and \<open>int32\<close> bring a
  mathematical integer back to the value the machine has.
\<close>

section \<open>Machine integers\<close>

definition int64 :: "int \<Rightarrow> int" where
  "int64 x = (x + 2 ^ 63) mod 2 ^ 64 - 2 ^ 63"

definition int32 :: "int \<Rightarrow> int" where
  "int32 x = (x + 2 ^ 31) mod 2 ^ 32 - 2 ^ 31"

lemma int64_id: "- (2 ^ 63) \<le> x \<Longrightarrow> x < 2 ^ 63 \<Longrightarrow> int64 x = x"
  by (simp add: int64_def)

lemma int32_id: "- (2 ^ 31) \<le> x \<Longrightarrow> x < 2 ^ 31 \<Longrightarrow> int32 x = x"
  by (simp add: int32_def)

lemma int32_range: "- (2 ^ 31) \<le> int32 x \<and> int32 x < 2 ^ 31"
  by (simp add: int32_def)

text \<open>Division and remainder of the language truncate towards zero.\<close>

definition goQuot :: "int \<Rightarrow> int \<Rightarrow> int" where
  "goQuot a b = sgn a * sgn b * (\<bar>a\<bar> div \<bar>b\<bar>)"

definition goRem :: "int \<Rightarrow> int \<Rightarrow> int" where
  "goRem a b = a - b * goQuot a b"

section \<open>The calendar\<close>

definition isLeap :: "int \<Rightarrow> bool" where
  "isLeap y \<longleftrightarrow> y mod 4 = 0 \<and> (y mod 100 \<noteq> 0 \<or> y mod 400 = 0)"

text \<open>Days from 1 January of year 1 to 1 January of year \<open>y\<close>.\<close>

definition daysBeforeYear :: "int \<Rightarrow> int" where
  "daysBeforeYear y = 365 * (y - 1) + (y - 1) div 4 - (y - 1) div 100 + (y - 1) div 400"

text \<open>Days of a year before its month \<open>m\<close>, counted from 0.\<close>

definition daysBeforeMonth :: "bool \<Rightarrow> int \<Rightarrow> int" where
  "daysBeforeMonth leap m =
     [0, 31, 59, 90, 120, 151, 181, 212, 243, 273, 304, 334] ! nat m + (if leap \<and> 2 \<le> m then 1 else 0)"

definition unixEpochDay :: int where
  "unixEpochDay = 719162"

text \<open>\<open>time.Date\<close>: a month outside of a year carries into the year, a day outside of a month into the month.\<close>

definition dateToDay :: "int \<Rightarrow> int \<Rightarrow> int \<Rightarrow> int" where
  "dateToDay y m d =
     (let y' = y + m div 12; m' = m mod 12
      in daysBeforeYear y' + daysBeforeMonth (isLeap y') m' + d - 1)"

text \<open>The date of a day: the year through cycles of 400, 100, 4 and 1 years, then the month.\<close>

definition yearOfDay :: "int \<Rightarrow> int" where
  "yearOfDay n =
     (let n400 = n div 146097; r400 = n mod 146097;
          n100 = min 3 (r400 div 36524); r100 = r400 - 36524 * n100;
          n4 = r100 div 1461; r4 = r100 mod 1461;
          n1 = min 3 (r4 div 365)
      in 400 * n400 + 100 * n100 + 4 * n4 + n1 + 1)"

fun monthFrom :: "bool \<Rightarrow> int \<Rightarrow> nat \<Rightarrow> int" where
  "monthFrom leap yday 0 = 0"
| "monthFrom leap yday (Suc m) =
     (if daysBeforeMonth leap (int (Suc m)) \<le> yday then int (Suc m) else monthFrom leap yday m)"

definition dayToDate :: "int \<Rightarrow> int \<times> int \<times> int" where
  "dayToDate n =
     (let y = yearOfDay n; yday = n - daysBeforeYear y; m = monthFrom (isLeap y) yday 11
      in (y, m, yday - daysBeforeMonth (isLeap y) m + 1))"

definition AddDate :: "int \<Rightarrow> int \<Rightarrow> int \<Rightarrow> int \<Rightarrow> int" where
  "AddDate t years months days =
     (case dayToDate (t div 86400 + unixEpochDay) of (y, m, d) \<Rightarrow>
        (dateToDay (y + years) (m + months) (d + days) - unixEpochDay) * 86400 + t mod 86400)"

section \<open>Expiration dates\<close>

definition yearSeconds :: int where "yearSeconds = 365 * 24 * 60 * 60"
definition monthSeconds :: int where "monthSeconds = 30 * 24 * 60 * 60"
definition daySeconds :: int where "daySeconds = 24 * 60 * 60"

text \<open>\<open>time.Duration\<close> counts nanoseconds in an \<open>int64\<close>, so the last branch wraps for more than 292 years.\<close>

definition SecondsToExpirationDate :: "int \<Rightarrow> int \<Rightarrow> int" where
  "SecondsToExpirationDate now seconds =
     (if goRem seconds yearSeconds = 0 then AddDate now (goQuot seconds yearSeconds) 0 0
      else if goRem seconds monthSeconds = 0 then AddDate now 0 (goQuot seconds monthSeconds) 0
      else if goRem seconds daySeconds = 0 then AddDate now 0 0 (goQuot seconds daySeconds)
      else now + goQuot (int64 (seconds * 1000000000)) 1000000000)"

section \<open>The TTL notation\<close>

text \<open>
  \<open>time.ParseDuration\<close> on the texts \<open>TTLToSeconds\<close> gives it: an optional sign and digits, which
  \<open>Atoi\<close> has accepted, and a unit of one byte. The result is in nanoseconds; a value that does
  not fit into an \<open>int64\<close> is an error.
\<close>

definition durationUnit :: "char \<Rightarrow> int option" where
  "durationUnit u =
     (if u = CHR ''s'' then Some 1000000000 else if u = CHR ''m'' then Some (60 * 1000000000)
      else if u = CHR ''h'' then Some (3600 * 1000000000) else None)"

definition ParseDuration :: "int \<Rightarrow> char \<Rightarrow> int option" where
  "ParseDuration value u =
     (case durationUnit u of
        None \<Rightarrow> None
      | Some f \<Rightarrow> if - (2 ^ 63) \<le> value * f \<and> value * f < 2 ^ 63 then Some (value * f) else None)"

definition toLowerChar :: "char \<Rightarrow> char" where
  "toLowerChar c = (if CHR ''A'' \<le> c \<and> c \<le> CHR ''Z'' then char_of (of_char c + (32 :: nat)) else c)"

definition TTLToSeconds :: "string \<Rightarrow> int res" where
  "TTLToSeconds ttl =
     (if length ttl < 2 then Inl (Errorf ''invalid TTL length: %s'' [ttl])
      else
        let months = HasSuffix ttl ''mo'';
            value = Atoi (take (length ttl - (if months then 2 else 1)) ttl);
            unit = (if months then ''mo'' else [toLowerChar (last ttl)])
        in (case value of
              None \<Rightarrow> Inl (Wrapf ''invalid TTL format: %w'' [] (Errorf ''invalid syntax'' []))
            | Some v \<Rightarrow>
                if unit = ''y'' then Inr (int64 (v * yearSeconds))
                else if unit = ''mo'' then Inr (int64 (v * monthSeconds))
                else if unit = ''d'' then Inr (int64 (v * daySeconds))
                else (case ParseDuration v (last ttl) of
                        None \<Rightarrow> Inl (Errorf ''invalid TTL unit: %s'' [unit])
                      | Some ns \<Rightarrow> Inr (goQuot ns 1000000000))))"

section \<open>The calendar is a calendar\<close>

lemma div_pred:
  fixes y n :: int
  assumes "0 < n"
  shows "(y - 1) div n = y div n - (if y mod n = 0 then 1 else 0)"
proof -
  obtain q r where y: "y = n * q + r" "0 \<le> r" "r < n"
    using assms by (intro that [of "y div n" "y mod n"]) simp_all
  then have "y div n = q" "y mod n = r" by (simp_all add: int_div_pos_eq int_mod_pos_eq)
  moreover have "(y - 1) div n = q - (if r = 0 then 1 else 0)"
    using y by (intro int_div_pos_eq [where r = "if r = 0 then n - 1 else r - 1"]) (auto simp: algebra_simps)
  ultimately show ?thesis by simp
qed

lemma daysBeforeYear_Suc: "daysBeforeYear (y + 1) = daysBeforeYear y + 365 + (if isLeap y then 1 else 0)"
proof -
  have "y mod 100 = 0 \<Longrightarrow> y mod 4 = 0" using mod_mod_cancel [of 4 100 y] by simp
  moreover have "y mod 400 = 0 \<Longrightarrow> y mod 100 = 0" using mod_mod_cancel [of 100 400 y] by simp
  ultimately show ?thesis by (auto simp: daysBeforeYear_def isLeap_def div_pred)
qed

lemma month_cases:
  assumes "0 \<le> (x :: int)" "x < 12"
  obtains "x = 0" | "x = 1" | "x = 2" | "x = 3" | "x = 4" | "x = 5" | "x = 6" | "x = 7" | "x = 8"
    | "x = 9" | "x = 10" | "x = 11"
  using assms by atomize_elim arith

text \<open>The first day of the month \<open>M\<close>, counted from January of year 0.\<close>

definition monthStart :: "int \<Rightarrow> int" where
  "monthStart M = daysBeforeYear (M div 12) + daysBeforeMonth (isLeap (M div 12)) (M mod 12)"

lemma dateToDay_monthStart: "dateToDay y m d = monthStart (12 * y + m) + d - 1"
  by (simp add: dateToDay_def monthStart_def Let_def)

lemma daysBeforeMonth_next:
  "0 \<le> m \<Longrightarrow> m < 11 \<Longrightarrow> daysBeforeMonth l (m + 1) - daysBeforeMonth l m \<in> {28, 29, 30, 31}"
  by (rule month_cases [of m]) (simp_all add: daysBeforeMonth_def)

lemma monthStart_eq:
  "0 \<le> r \<Longrightarrow> r < 12 \<Longrightarrow> monthStart (12 * q + r) = daysBeforeYear q + daysBeforeMonth (isLeap q) r"
  by (simp add: monthStart_def)

lemma month_split:
  obtains q r where "(M :: int) = 12 * q + r" "0 \<le> r" "r < 12"
  by (rule that [of "M div 12" "M mod 12"]) simp_all

lemma monthStart_next: "28 \<le> monthStart (M + 1) - monthStart M \<and> monthStart (M + 1) - monthStart M \<le> 31"
proof -
  obtain q r where M: "M = 12 * q + r" "0 \<le> r" "r < 12" by (rule month_split)
  show ?thesis
  proof (cases "r = 11")
    case True
    have "M + 1 = 12 * (q + 1) + 0" using M(1) True by simp
    with M True show ?thesis
      by (simp only: monthStart_eq) (simp add: daysBeforeYear_Suc daysBeforeMonth_def)
  next
    case False
    with M have r: "0 \<le> r + 1" "r + 1 < 12" "r < 11" by simp_all
    have "M + 1 = 12 * q + (r + 1)" using M(1) by simp
    with M r daysBeforeMonth_next [OF M(2) r(3), of "isLeap q"] show ?thesis
      by (simp only: monthStart_eq) auto
  qed
qed

lemma monthStart_year: "monthStart (M + 12) - monthStart M \<in> {365, 366}"
proof -
  obtain q r where M: "M = 12 * q + r" "0 \<le> r" "r < 12" by (rule month_split)
  then have "M + 12 = 12 * (q + 1) + r" by simp
  with M show ?thesis
    by (simp only: monthStart_eq) (auto simp: daysBeforeYear_Suc daysBeforeMonth_def)
qed

lemma monthStart_months:
  "28 * int k \<le> monthStart (M + int k) - monthStart M \<and> monthStart (M + int k) - monthStart M \<le> 31 * int k"
proof (induction k)
  case (Suc k)
  have "M + int (Suc k) = (M + int k) + 1" by simp
  with Suc monthStart_next [of "M + int k"] show ?case unfolding of_nat_Suc by (smt (verit) distrib_left)
qed simp

lemma monthStart_years:
  "365 * int k \<le> monthStart (M + 12 * int k) - monthStart M \<and> monthStart (M + 12 * int k) - monthStart M \<le> 366 * int k"
proof (induction k)
  case (Suc k)
  have "M + 12 * int (Suc k) = (M + 12 * int k) + 12" by simp
  moreover have "365 \<le> monthStart (M + 12 * int k + 12) - monthStart (M + 12 * int k)"
    "monthStart (M + 12 * int k + 12) - monthStart (M + 12 * int k) \<le> 366"
    using monthStart_year [of "M + 12 * int k"] by auto
  ultimately show ?case using Suc by (simp add: algebra_simps)
qed simp

lemma monthFrom_range: "0 \<le> monthFrom l yd k \<and> monthFrom l yd k \<le> int k"
  by (induction k) auto

lemma dayToDate_monthStart:
  "dayToDate n = (y, m, d) \<Longrightarrow> monthStart (12 * y + m) + d - 1 = n"
  using monthFrom_range [of "isLeap (yearOfDay n)" "n - daysBeforeYear (yearOfDay n)" 11]
  by (auto simp: dayToDate_def monthStart_def Let_def)

text \<open>The year of a day contains it, and the day of the month is one.\<close>

lemma lastOfCycle:
  fixes x k u :: int
  assumes "0 \<le> x" "x \<le> (k + 1) * u" "0 < u" "0 \<le> k"
  shows "0 \<le> min k (x div u)" "0 \<le> x - u * min k (x div u)" "x - u * min k (x div u) \<le> u"
    "x - u * min k (x div u) = u \<Longrightarrow> min k (x div u) = k \<and> x = (k + 1) * u"
proof -
  obtain q r where x: "x div u = q" "x = u * q + r" "0 \<le> r" "r < u"
    using assms(3) by (intro that [of "x div u" "x mod u"]) simp_all
  have q: "0 \<le> q" using assms x(1) by (simp add: pos_imp_zdiv_nonneg_iff flip: x(1))
  show "0 \<le> min k (x div u)" using assms q by (simp add: x(1))
  have "q < k + 1 \<or> (q = k + 1 \<and> r = 0)"
  proof (rule ccontr)
    assume "\<not> ?thesis"
    then have "k + 1 < q \<or> q = k + 1 \<and> 0 < r" using x(3) by auto
    then have "(k + 1) * u < x"
    proof
      assume "k + 1 < q"
      then have "(k + 1) * u < u * q" using assms(3) by (simp add: mult.commute)
      then show ?thesis using x(2,3) by linarith
    qed (use x in \<open>simp add: mult.commute\<close>)
    then show False using assms(2) by simp
  qed
  then have "q \<le> k \<and> min k q = q \<or> min k q = k \<and> x = u * k + u" using x(2) by (auto simp: algebra_simps)
  then show "0 \<le> x - u * min k (x div u)" "x - u * min k (x div u) \<le> u"
    "x - u * min k (x div u) = u \<Longrightarrow> min k (x div u) = k \<and> x = (k + 1) * u"
    using x(2-4) assms(3) unfolding x(1) by (auto simp: algebra_simps)
qed

lemma yearOfDay_parts:
  obtains a b c d r where
    "yearOfDay n = 400 * a + 100 * b + 4 * c + d + 1" "n = 146097 * a + 36524 * b + 1461 * c + 365 * d + r"
    "0 \<le> b" "b \<le> 3" "0 \<le> c" "c \<le> 24" "0 \<le> d" "d \<le> 3" "0 \<le> r" "r \<le> 365"
    "r = 365 \<Longrightarrow> d = 3 \<and> (c = 24 \<longrightarrow> b = 3)"
proof -
  define x where "x = n mod 146097"
  define b where "b = min 3 (x div 36524)"
  define y where "y = x - 36524 * b"
  define c where "c = y div 1461"
  define z where "z = y mod 1461"
  define d where "d = min 3 (z div 365)"
  have x: "0 \<le> x" "x < 146097" by (simp_all add: x_def)
  have b: "0 \<le> b" "b \<le> 3" "0 \<le> y" "y \<le> 36524" "y = 36524 \<Longrightarrow> b = 3"
    using x lastOfCycle [of x 3 36524] by (simp_all add: b_def y_def)
  have z: "0 \<le> z" "z < 1461" "y = 1461 * c + z" by (simp_all add: z_def c_def)
  have c: "0 \<le> c" "c \<le> 24" using b(3,4) z by linarith+
  have d: "0 \<le> d" "d \<le> 3" "0 \<le> z - 365 * d" "z - 365 * d \<le> 365" "z - 365 * d = 365 \<Longrightarrow> d = 3 \<and> z = 1460"
    using z lastOfCycle [of z 3 365] by (simp_all add: d_def)
  have n: "n = 146097 * (n div 146097) + x" by (simp add: x_def)
  show thesis
  proof (rule that [of "n div 146097" b c d "z - 365 * d"])
    show "yearOfDay n = 400 * (n div 146097) + 100 * b + 4 * c + d + 1"
      unfolding yearOfDay_def Let_def x_def b_def y_def c_def z_def d_def ..
    show "n = 146097 * (n div 146097) + 36524 * b + 1461 * c + 365 * d + (z - 365 * d)"
      using n z(3) y_def by simp
    show "d = 3 \<and> (c = 24 \<longrightarrow> b = 3)" if "z - 365 * d = 365" using d(5) [OF that] z(3) b(5) by simp
  qed (use b c d in simp_all)
qed

lemma yearOfDay_spec: "daysBeforeYear (yearOfDay n) \<le> n" "n < daysBeforeYear (yearOfDay n + 1)"
proof -
  obtain a b c d r where y: "yearOfDay n = 400 * a + 100 * b + 4 * c + d + 1"
    and n: "n = 146097 * a + 36524 * b + 1461 * c + 365 * d + r"
    and B: "0 \<le> b" "b \<le> 3" "0 \<le> c" "c \<le> 24" "0 \<le> d" "d \<le> 3" "0 \<le> r" "r \<le> 365"
    and last: "r = 365 \<Longrightarrow> d = 3 \<and> (c = 24 \<longrightarrow> b = 3)"
    using yearOfDay_parts [of n] by blast
  have "(400 * a + 100 * b + 4 * c + d) div 4 = 100 * a + 25 * b + c"
    "(400 * a + 100 * b + 4 * c + d) div 100 = 4 * a + b" "(400 * a + 100 * b + 4 * c + d) div 400 = a"
    using B by (simp_all add: int_div_pos_eq [where r = d] int_div_pos_eq [where r = "4 * c + d"]
        int_div_pos_eq [where r = "100 * b + 4 * c + d"])
  then have D: "n - daysBeforeYear (yearOfDay n) = r" unfolding y daysBeforeYear_def using n by simp
  then show "daysBeforeYear (yearOfDay n) \<le> n" using B by simp
  have "isLeap (yearOfDay n)" if "r = 365"
  proof -
    from last [OF that] have d: "d = 3" "c = 24 \<Longrightarrow> b = 3" by simp_all
    have "yearOfDay n mod 4 = 0" unfolding y d(1) using B by (intro int_mod_pos_eq [where q = "100 * a + 25 * b + c + 1"]) simp_all
    moreover have "yearOfDay n mod 100 = 4 * c + 4" if "c < 24"
      unfolding y d(1) using that B by (intro int_mod_pos_eq [where q = "4 * a + b"]) simp_all
    moreover have "yearOfDay n mod 400 = 0" if "c = 24"
      unfolding y d(1) d(2) [OF that] that by (intro int_mod_pos_eq [where q = "a + 1"]) simp_all
    ultimately show ?thesis using B by (cases "c = 24") (simp_all add: isLeap_def)
  qed
  then show "n < daysBeforeYear (yearOfDay n + 1)" using D B by (cases "r = 365") (simp_all add: daysBeforeYear_Suc)
qed

lemma monthFrom_spec:
  "daysBeforeMonth l 0 \<le> yd \<Longrightarrow> daysBeforeMonth l (monthFrom l yd k) \<le> yd \<and>
     (monthFrom l yd k < int k \<longrightarrow> yd < daysBeforeMonth l (monthFrom l yd k + 1))"
proof (induction k)
  case (Suc k)
  then show ?case using monthFrom_range [of l yd k] by (cases "monthFrom l yd k = int k") (auto simp: add.commute)
qed simp

lemma dayToDate_valid:
  assumes "dayToDate n = (y, m, d)"
  shows "0 \<le> m \<and> m \<le> 11 \<and> 1 \<le> d \<and> d \<le> 31"
proof -
  let ?yd = "n - daysBeforeYear y"
  have y: "y = yearOfDay n" and m: "m = monthFrom (isLeap y) ?yd 11" and d: "d = ?yd - daysBeforeMonth (isLeap y) m + 1"
    using assms by (auto simp: dayToDate_def Let_def)
  have yd: "0 \<le> ?yd" "?yd < 365 + (if isLeap y then 1 else 0)"
    using yearOfDay_spec [of n] by (auto simp: y daysBeforeYear_Suc)
  have r: "0 \<le> m" "m \<le> 11" using monthFrom_range [of "isLeap y" ?yd 11] by (simp_all add: m)
  have s: "daysBeforeMonth (isLeap y) m \<le> ?yd" "m < 11 \<longrightarrow> ?yd < daysBeforeMonth (isLeap y) (m + 1)"
    using monthFrom_spec [of "isLeap y" ?yd 11] yd(1) by (simp_all add: daysBeforeMonth_def m)
  have "?yd < daysBeforeMonth (isLeap y) m + 31"
  proof (cases "m = 11")
    case True
    then show ?thesis using yd(2) by (simp add: daysBeforeMonth_def split: if_splits)
  next
    case False
    then have "m < 11" using r by simp
    from daysBeforeMonth_next [OF r(1) this, of "isLeap y"] s(2) this show ?thesis by auto
  qed
  then show ?thesis using r s(1) d by simp
qed

lemma AddDate_monthStart:
  assumes "dayToDate (t div 86400 + unixEpochDay) = (y, m, d)"
  shows "AddDate t years months days =
    t + (monthStart (12 * y + m + (12 * years + months)) - monthStart (12 * y + m) + days) * 86400"
proof -
  have "monthStart (12 * y + m) + d - 1 = t div 86400 + unixEpochDay" by (rule dayToDate_monthStart [OF assms])
  moreover have "12 * (y + years) + (m + months) = 12 * y + m + (12 * years + months)" by simp
  moreover obtain q r where t: "t div 86400 = q" "t mod 86400 = r" "t = q * 86400 + r"
    by (rule that [OF refl refl]) simp
  ultimately show ?thesis
    using assms by (simp add: AddDate_def dateToDay_monthStart t(1,2)) (simp add: t(3) algebra_simps)
qed

lemma AddDate_bounds:
  assumes "0 \<le> k"
  shows "365 * k * 86400 \<le> AddDate t k 0 0 - t" "AddDate t k 0 0 - t \<le> 366 * k * 86400"
    "28 * k * 86400 \<le> AddDate t 0 k 0 - t" "AddDate t 0 k 0 - t \<le> 31 * k * 86400"
    "AddDate t 0 0 k - t = k * 86400"
proof -
  obtain y m d where c: "dayToDate (t div 86400 + unixEpochDay) = (y, m, d)" by (rule prod_cases3)
  note a = AddDate_monthStart [OF c]
  from assms obtain n where k: "k = int n" using nonneg_int_cases by blast
  show "365 * k * 86400 \<le> AddDate t k 0 0 - t" "AddDate t k 0 0 - t \<le> 366 * k * 86400"
    using monthStart_years [of n "12 * y + m"] unfolding a k by simp_all
  show "28 * k * 86400 \<le> AddDate t 0 k 0 - t" "AddDate t 0 k 0 - t \<le> 31 * k * 86400"
    using monthStart_months [of n "12 * y + m"] unfolding a k by simp_all
  show "AddDate t 0 0 k - t = k * 86400" unfolding a by simp
qed

section \<open>Expiration dates\<close>

lemma goQuot_mult: "0 < u \<Longrightarrow> goQuot (k * u) u = k"
  by (cases k "0 :: int" rule: linorder_cases)
    (simp_all add: goQuot_def abs_mult sgn_mult mult_neg_pos flip: mult_minus_left)

lemma goQuot_nonneg: "0 \<le> s \<Longrightarrow> 0 < u \<Longrightarrow> goQuot s u = s div u"
  by (cases "s = 0") (simp_all add: goQuot_def)

lemma goRem_zero: "0 \<le> s \<Longrightarrow> 0 < u \<Longrightarrow> goRem s u = 0 \<longleftrightarrow> u * (s div u) = s"
  by (auto simp: goRem_def goQuot_nonneg)

lemma goRem_mult: "0 < u \<Longrightarrow> goRem (k * u) u = 0"
  by (simp add: goRem_def goQuot_mult)

lemmas unit_seconds = yearSeconds_def monthSeconds_def daySeconds_def



section \<open>The TTL notation\<close>

lemma TTLToSeconds_units:
  assumes "Atoi s = Some v"
  shows "TTLToSeconds (s @ ''y'') = Inr (int64 (v * yearSeconds))"
    "TTLToSeconds (s @ ''mo'') = Inr (int64 (v * monthSeconds))"
    "TTLToSeconds (s @ ''d'') = Inr (int64 (v * daySeconds))"
proof -
  have "s \<noteq> []" using assms by (auto simp: Atoi_def)
  then show "TTLToSeconds (s @ ''y'') = Inr (int64 (v * yearSeconds))"
    "TTLToSeconds (s @ ''mo'') = Inr (int64 (v * monthSeconds))"
    "TTLToSeconds (s @ ''d'') = Inr (int64 (v * daySeconds))"
    using assms by (auto simp: TTLToSeconds_def HasSuffix_def toLowerChar_def Let_def Suc_le_eq)
qed

text \<open>A TTL in years expires on the same date of the calendar, that many years later.\<close>

lemma TTL_years_expiry:
  assumes "0 \<le> n" "n < 2 ^ 63 div yearSeconds"
  shows "\<exists>secs. TTLToSeconds (Itoa n @ ''y'') = Inr secs \<and> SecondsToExpirationDate now secs = AddDate now n 0 0"
proof (intro exI conjI)
  have u: "yearSeconds = 31536000" by (simp add: yearSeconds_def)
  have "n < 292471208677" using assms(2) unfolding u by simp
  then have "int64 (n * yearSeconds) = n * yearSeconds" using assms(1) by (intro int64_id) (simp_all add: u)
  then show "TTLToSeconds (Itoa n @ ''y'') = Inr (n * yearSeconds)"
    using assms \<open>n < 292471208677\<close> by (simp add: TTLToSeconds_units [OF Atoi_Itoa])
  show "SecondsToExpirationDate now (n * yearSeconds) = AddDate now n 0 0"
    by (simp add: SecondsToExpirationDate_def goRem_mult goQuot_mult u)
qed

text \<open>
  The documentation promises every unit of \<open>time.ParseDuration\<close>; a duration of more than one
  unit or with a unit of two letters is refused.
\<close>

lemma TTLToSeconds_one_unit:
  "TTLToSeconds ''1h30m'' = Inl (Wrapf ''invalid TTL format: %w'' [] (Errorf ''invalid syntax'' []))"
  "TTLToSeconds ''300ms'' = Inl (Wrapf ''invalid TTL format: %w'' [] (Errorf ''invalid syntax'' []))"
  "TTLToSeconds ''90m'' = Inr 5400"
  by (simp_all add: TTLToSeconds_def HasSuffix_def Atoi_def isDigit_def Let_def toLowerChar_def decVal_def digitVal_def
      ParseDuration_def durationUnit_def goQuot_def)

end
