(* ===== verification/CSRSigning.thy ===== *)
theory CSRSigning
  imports PKI NodeConfig GoTime
begin

text \<open>
  Certificates for worker nodes that are issued through the Kubernetes API: certificate signing
  requests (\<open>pkg/utils/pki/generate.go\<close>, \<open>load.go\<close>), their validation and the controller of
  the control plane that approves and signs them (\<open>pkg/k8sd/controllers/csrsigning\<close>).

  The primitives are fields of \<open>csrCrypto\<close>: X.509 requests, RSA encryption with PKCS 1 padding,
  SHA-256, the IDNA lookup profile, and the name of the auto-approve annotation, which the API
  package defines. The API server is a client with three operations (\<open>csrClient\<close>); the updates
  the controller sends are recorded in order.
\<close>

section \<open>Certificate requests\<close>

record 'pub CertificateRequest =
  CR_Subject :: Name
  CR_DNSNames :: "string list"
  CR_IPAddresses :: "IP list"
  CR_PublicKey :: 'pub

record ('key, 'pub) csrCrypto =
  ParseCertificateRequest :: "string \<Rightarrow> 'pub CertificateRequest res"
  CreateCertificateRequest :: "nat \<Rightarrow> Name \<Rightarrow> string list \<Rightarrow> IP list \<Rightarrow> 'key \<Rightarrow> string res"
  EncryptPKCS1v15 :: "nat \<Rightarrow> 'pub \<Rightarrow> string \<Rightarrow> string res"
  DecryptPKCS1v15 :: "'key \<Rightarrow> string \<Rightarrow> string res"
  sumSHA256 :: "string \<Rightarrow> string"
  CreateCertificateFor :: "nat \<Rightarrow> Certificate \<Rightarrow> Certificate \<Rightarrow> 'pub \<Rightarrow> 'key \<Rightarrow> string res"
  idnaToASCII :: "string \<Rightarrow> string res"
  AnnotationAutoApprove :: string

definition LoadCertificateRequest ::
  "'key crypto \<Rightarrow> ('key, 'pub) csrCrypto \<Rightarrow> string \<Rightarrow> 'pub CertificateRequest res"
where
  "LoadCertificateRequest x z csrPEM =
     (case pemDecode x csrPEM of
        None \<Rightarrow> Inl (Errorf ''failed to parse certificate request PEM'' [])
      | Some (ty, bytes) \<Rightarrow>
          if ty = ''CERTIFICATE REQUEST'' then
            (case ParseCertificateRequest z bytes of
               Inl e \<Rightarrow> Inl (Wrapf ''failed to parse certificate request: %w'' [] e)
             | Inr parsed \<Rightarrow> Inr parsed)
          else Inl (Errorf ''unknown certificate request block type %q'' [ty]))"

definition GenerateCSR ::
  "'key crypto \<Rightarrow> ('key, 'pub) csrCrypto \<Rightarrow> Name \<Rightarrow> int \<Rightarrow> string list \<Rightarrow> IP list \<Rightarrow> nat \<Rightarrow> (nat, string \<times> string) step"
where
  "GenerateCSR x z subject bits dnsNames ipAddrs n =
     tryStep (Suc n, rsaGenerateKey x n bits) ''failed to generate RSA private key: %w'' [] (\<lambda>n key.
     tryPass (n, encodeKeyPEM x key) (\<lambda>n keyPEM.
     tryStep (Suc n, CreateCertificateRequest z n subject dnsNames ipAddrs key)
       ''failed to create certificate request: %w'' [] (\<lambda>n csrBytes.
       (n, case pemEncode x ''CERTIFICATE REQUEST'' csrBytes of
             None \<Rightarrow> Inl (Errorf ''failed to encode certificate request PEM'' [])
           | Some csrPEM \<Rightarrow> Inr (csrPEM, keyPEM)))))"

definition CleanHostname :: "('key, 'pub) csrCrypto \<Rightarrow> string \<Rightarrow> string res" where
  "CleanHostname z hostname =
     (case idnaToASCII z hostname of
        Inl e \<Rightarrow> Inl (Wrapf ''failed to parse hostname %q: %w'' [hostname] e)
      | Inr clean \<Rightarrow>
          if HasSuffix hostname ''.'' then Inl (Errorf ''hostname cannot end with a dot (%q)'' [''.''])
          else Inr clean)"

section \<open>The API object\<close>

datatype RequestConditionType = CertificateApproved | CertificateDenied | CertificateFailed | OtherCondition string

record Condition =
  Condition_Type :: RequestConditionType
  Condition_Status :: bool
  Condition_Reason :: string
  Condition_Message :: string

datatype UsageName = UsageServerAuth | UsageClientAuth | UsageDigitalSignature | UsageKeyEncipherment | OtherUsage string

record CertificateSigningRequest =
  CSR_Name :: string
  CSR_Annotations :: "string gomap"
  Spec_Request :: string
  Spec_ExpirationSeconds :: "int ptr"
  Spec_Usages :: "UsageName list"
  Spec_SignerName :: string
  Spec_Username :: string
  Spec_Groups :: "string list"
  Status_Conditions :: "Condition list"
  Status_Certificate :: string

section \<open>Validation\<close>

text \<open>The checks of the request of a kubelet, which differ in one key usage, and of kube-proxy.\<close>

definition validateKubeletRequest :: "UsageName \<Rightarrow> CertificateSigningRequest \<Rightarrow> 'pub CertificateRequest \<Rightarrow> unit res" where
  "validateKubeletRequest usage obj csr =
     (if set (Spec_Usages obj) \<noteq> {usage, UsageDigitalSignature, UsageKeyEncipherment}
      then Inl (Errorf ''CSR usages %v must match %v'' [])
      else if CommonName (CR_Subject csr) \<noteq> Spec_Username obj
      then Inl (Errorf ''CSR commonName %v must match %v'' [CommonName (CR_Subject csr), Spec_Username obj])
      else if set (Organization (CR_Subject csr)) \<noteq> {''system:nodes''}
      then Inl (Errorf ''CSR organization %v must match %v'' (Organization (CR_Subject csr)))
      else ok)"

definition validateProxyRequest :: "CertificateSigningRequest \<Rightarrow> 'pub CertificateRequest \<Rightarrow> unit res" where
  "validateProxyRequest obj csr =
     (if set (Spec_Usages obj) \<noteq> {UsageClientAuth, UsageDigitalSignature, UsageKeyEncipherment}
      then Inl (Errorf ''CSR usages %v must match %v'' [])
      else if CommonName (CR_Subject csr) \<noteq> ''system:kube-proxy''
      then Inl (Errorf ''CSR commonName %v must match %v'' [CommonName (CR_Subject csr), ''system:kube-proxy''])
      else if length (Organization (CR_Subject csr)) > 0
      then Inl (Errorf ''CSR organization %v must be empty'' (Organization (CR_Subject csr)))
      else ok)"

definition validateBySigner :: "CertificateSigningRequest \<Rightarrow> 'pub CertificateRequest \<Rightarrow> unit res" where
  "validateBySigner obj csr =
     (if Spec_SignerName obj = ''k8sd.io/kubelet-serving'' then validateKubeletRequest UsageServerAuth obj csr
      else if Spec_SignerName obj = ''k8sd.io/kubelet-client'' then validateKubeletRequest UsageClientAuth obj csr
      else if Spec_SignerName obj = ''k8sd.io/kube-proxy-client'' then validateProxyRequest obj csr
      else Inl (Errorf ''CSR has unknown signerName=%v'' [Spec_SignerName obj]))"

definition validateRequester :: "('key, 'pub) csrCrypto \<Rightarrow> CertificateSigningRequest \<Rightarrow> unit res" where
  "validateRequester z obj =
     (let hostname = mapGet (CSR_Annotations obj) ''k8sd.io/node'' in
      if length hostname = 0 then Inl (Errorf ''k8sd.io/node annotation missing from CSR object'' [])
      else (case CleanHostname z hostname of
          Inl e \<Rightarrow> Inl (Wrapf ''CSR has invalid node name %q: %w'' [hostname] e)
        | Inr clean \<Rightarrow>
            if clean \<noteq> hostname
            then Inl (Errorf ''CSR has invalid node name %q, should be %q'' [hostname, clean])
            else if Spec_Username obj \<noteq> ''system:node:'' @ hostname
            then Inl (Errorf ''CSR requestor must be system:node:%s'' [hostname])
            else if ''system:nodes'' \<notin> set (Spec_Groups obj)
            then Inl (Errorf ''CSR missing required group system:nodes'' [])
            else ok))"

definition validateCSR ::
  "'key crypto \<Rightarrow> ('key, 'pub) csrCrypto \<Rightarrow> CertificateSigningRequest \<Rightarrow> 'key \<Rightarrow> unit res"
where
  "validateCSR x z obj priv =
     (case LoadCertificateRequest x z (Spec_Request obj) of
        Inl e \<Rightarrow> Inl (Wrapf ''failed to parse x509 certificate request: %w'' [] e)
      | Inr csr \<Rightarrow>
          (case base64Decode (mapGet (CSR_Annotations obj) ''k8sd.io/signature'') of
             Inl e \<Rightarrow> Inl (Wrapf ''failed to decode b64 signature: %w'' [] e)
           | Inr encryptedSignature \<Rightarrow>
               (case DecryptPKCS1v15 z priv encryptedSignature of
                  Inl e \<Rightarrow> Inl (Wrapf ''failed to decrypt signature: %w'' [] e)
                | Inr signature \<Rightarrow>
                    if sumSHA256 z (Spec_Request obj) \<noteq> signature
                    then Inl (Errorf ''CSR signature does not match'' [])
                    else (case validateRequester z obj of
                            Inl e \<Rightarrow> Inl e
                          | Inr _ \<Rightarrow> validateBySigner obj csr))))"

section \<open>The controller\<close>

record csrClient =
  getCSR :: "string \<Rightarrow> CertificateSigningRequest option res"
  putStatus :: "CertificateSigningRequest \<Rightarrow> unit res"
  putApproval :: "CertificateSigningRequest \<Rightarrow> unit res"

datatype update = UpdateStatus CertificateSigningRequest | UpdateApproval CertificateSigningRequest

text \<open>
  The state of a run is the number of random draws and the updates sent; the result is the
  number of seconds after which the request is looked at again, 0 for none.
\<close>

type_synonym csrState = "nat \<times> update list"

definition requeueAfterSigningFailure :: nat where "requeueAfterSigningFailure = 3"
definition requeueAfterWaitingForApproved :: nat where "requeueAfterWaitingForApproved = 10"

definition missingKeyFailedReason :: string where "missingKeyFailedReason = ''MissingCAKey''"
definition missingKeyFailedMessage :: string where
  "missingKeyFailedMessage = ''The CSR could not be signed because the controller is missing the CA private key.''"

definition managedSignerNames :: "string set" where
  "managedSignerNames = {''k8sd.io/kubelet-serving'', ''k8sd.io/kubelet-client'', ''k8sd.io/kube-proxy-client''}"

definition internalConfigFromAnnotations :: "('key, 'pub) csrCrypto \<Rightarrow> Annotations \<Rightarrow> bool" where
  "internalConfigFromAnnotations z annotations =
     (case Annotations_Get annotations (AnnotationAutoApprove z) of (v, found) \<Rightarrow> found \<and> v = ''true'')"

definition addCondition :: "Condition \<Rightarrow> CertificateSigningRequest \<Rightarrow> CertificateSigningRequest" where
  "addCondition c obj = obj\<lparr>Status_Conditions := Status_Conditions obj @ [c]\<rparr>"

definition setFailedCSR :: "CertificateSigningRequest \<Rightarrow> string \<Rightarrow> string \<Rightarrow> CertificateSigningRequest" where
  "setFailedCSR csr reason message =
     addCondition \<lparr>Condition_Type = CertificateFailed, Condition_Status = True, Condition_Reason = reason,
       Condition_Message = message\<rparr> csr"

text \<open>Sending an update.\<close>

definition sendUpdate :: "csrClient \<Rightarrow> update \<Rightarrow> csrState \<Rightarrow> (csrState, unit) step" where
  "sendUpdate cl u st =
     ((fst st, snd st @ [u]), case u of UpdateStatus obj \<Rightarrow> putStatus cl obj | UpdateApproval obj \<Rightarrow> putApproval cl obj)"

definition reconcileAutoApprove ::
  "'key crypto \<Rightarrow> ('key, 'pub) csrCrypto \<Rightarrow> (error \<Rightarrow> string) \<Rightarrow> csrClient \<Rightarrow> CertificateSigningRequest \<Rightarrow> 'key
   \<Rightarrow> csrState \<Rightarrow> (csrState, nat) step"
where
  "reconcileAutoApprove x z errorString cl csr priv st =
     (let csr' = (case validateCSR x z csr priv of
            Inl e \<Rightarrow> addCondition \<lparr>Condition_Type = CertificateDenied, Condition_Status = True,
                Condition_Reason = ''K8sdDeny'', Condition_Message = ''CSR is not valid: '' @ errorString e\<rparr> csr
          | Inr _ \<Rightarrow> addCondition \<lparr>Condition_Type = CertificateApproved, Condition_Status = True,
                Condition_Reason = ''K8sdApprove'', Condition_Message = ''CSR approved by k8sd''\<rparr> csr)
      in tryPass (sendUpdate cl (UpdateApproval csr') st) (\<lambda>st _. (st, Inr 0)))"

text \<open>The conditions in order: \<open>None\<close> when the request is denied or failed, else whether it is approved.\<close>

fun scanConditions :: "Condition list \<Rightarrow> bool \<Rightarrow> bool option" where
  "scanConditions [] approved = Some approved"
| "scanConditions (c # cs) approved =
     (case Condition_Type c of
        CertificateDenied \<Rightarrow> None
      | CertificateFailed \<Rightarrow> None
      | CertificateApproved \<Rightarrow> scanConditions cs True
      | OtherCondition _ \<Rightarrow> scanConditions cs approved)"

definition csrNotAfter :: "'key crypto \<Rightarrow> CertificateSigningRequest \<Rightarrow> int" where
  "csrNotAfter x obj =
     (case Spec_ExpirationSeconds obj of
        Some s \<Rightarrow> SecondsToExpirationDate (timeNow x) s
      | None \<Rightarrow> AddDate (timeNow x) 10 0 0)"

text \<open>
  The certificate of each signer, and the CA that signs it. Only the three managed signers get
  here, so the last alternative stands for one of them.
\<close>

definition csrTemplate ::
  "'key crypto \<Rightarrow> CertificateSigningRequest \<Rightarrow> 'pub CertificateRequest \<Rightarrow> nat \<Rightarrow> Certificate"
where
  "csrTemplate x obj certRequest serial =
     (let serving = (Spec_SignerName obj = ''k8sd.io/kubelet-serving'') in
      \<lparr>SerialNumber = serial,
       Subject = (if Spec_SignerName obj = ''k8sd.io/kube-proxy-client''
         then \<lparr>CommonName = ''system:kube-proxy'', Organization = []\<rparr>
         else \<lparr>CommonName = Spec_Username obj, Organization = Spec_Groups obj\<rparr>),
       NotBefore = timeNow x, NotAfter = csrNotAfter x obj,
       IPAddresses = (if serving then CR_IPAddresses certRequest else []),
       DNSNames = (if serving then CR_DNSNames certRequest else []), IsCA = False,
       KeyUsage = or KeyUsageKeyEncipherment KeyUsageDigitalSignature,
       ExtKeyUsages = [if serving then ExtKeyUsageServerAuth else ExtKeyUsageClientAuth],
       BasicConstraintsValid = True\<rparr>)"

definition csrCA :: "ClusterConfig \<Rightarrow> CertificateSigningRequest \<Rightarrow> string \<times> string" where
  "csrCA config obj =
     (let c = CC_Certificates config in
      if Spec_SignerName obj = ''k8sd.io/kubelet-serving''
      then (getStr (Certificates_CACert c), getStr (Certificates_CAKey c))
      else (getStr (Certificates_ClientCACert c), getStr (Certificates_ClientCAKey c)))"

definition signCSR ::
  "'key crypto \<Rightarrow> ('key, 'pub) csrCrypto \<Rightarrow> csrClient \<Rightarrow> ClusterConfig \<Rightarrow> CertificateSigningRequest
   \<Rightarrow> 'pub CertificateRequest \<Rightarrow> nat \<Rightarrow> csrState \<Rightarrow> (csrState, nat) step"
where
  "signCSR x z cl config obj certRequest serial st =
     (case csrCA config obj of (certPEM, keyPEM) \<Rightarrow>
        tryPass (st, LoadCertificate x certPEM keyPEM) (\<lambda>st (caCert, caKey).
        case caKey of
          None \<Rightarrow>
            tryPass (sendUpdate cl (UpdateStatus (setFailedCSR obj missingKeyFailedReason missingKeyFailedMessage)) st)
              (\<lambda>st _. (st, Inr 0))
        | Some key \<Rightarrow>
            tryPass ((Suc (fst st), snd st),
                CreateCertificateFor z (fst st) (csrTemplate x obj certRequest serial) caCert (CR_PublicKey certRequest) key)
              (\<lambda>st derBytes.
            case pemEncode x ''CERTIFICATE'' derBytes of
              None \<Rightarrow> (st, Inr requeueAfterSigningFailure)
            | Some crtPEM \<Rightarrow>
                tryPass (sendUpdate cl (UpdateStatus (obj\<lparr>Status_Certificate := crtPEM\<rparr>)) st) (\<lambda>st _. (st, Inr 0)))))"

definition approveOrWait ::
  "'key crypto \<Rightarrow> ('key, 'pub) csrCrypto \<Rightarrow> (error \<Rightarrow> string) \<Rightarrow> csrClient \<Rightarrow> ClusterConfig
   \<Rightarrow> CertificateSigningRequest \<Rightarrow> csrState \<Rightarrow> (csrState, nat) step"
where
  "approveOrWait x z errorString cl config obj st =
     (if internalConfigFromAnnotations z (CC_Annotations config) then
        (let keyPEM = getStr (Certificates_K8sdPrivateKey (CC_Certificates config)) in
         if keyPEM = [] then (st, Inl (Errorf ''cluster RSA key not set'' []))
         else tryStep (st, LoadRSAPrivateKey x keyPEM) ''failed to load cluster RSA key: %w'' [] (\<lambda>st priv.
           reconcileAutoApprove x z errorString cl obj priv st))
      else (st, Inr requeueAfterWaitingForApproved))"

definition signApproved ::
  "'key crypto \<Rightarrow> ('key, 'pub) csrCrypto \<Rightarrow> csrClient \<Rightarrow> ClusterConfig \<Rightarrow> CertificateSigningRequest
   \<Rightarrow> csrState \<Rightarrow> (csrState, nat) step"
where
  "signApproved x z cl config obj st =
     tryPass (st, LoadCertificateRequest x z (Spec_Request obj)) (\<lambda>st certRequest.
     tryPass ((Suc (fst st), snd st), randInt x (fst st)) (\<lambda>st serial.
     signCSR x z cl config obj certRequest serial st))"

definition CSR_Reconcile ::
  "'key crypto \<Rightarrow> ('key, 'pub) csrCrypto \<Rightarrow> (error \<Rightarrow> string) \<Rightarrow> csrClient \<Rightarrow> ClusterConfig res \<Rightarrow> string
   \<Rightarrow> csrState \<Rightarrow> (csrState, nat) step"
where
  "CSR_Reconcile x z errorString cl getClusterConfig name st =
     (case getCSR cl name of
        Inl e \<Rightarrow> (st, Inl e)
      | Inr None \<Rightarrow> (st, Inr 0)
      | Inr (Some obj) \<Rightarrow>
          if length (Status_Certificate obj) > 0 then (st, Inr 0)
          else if Spec_SignerName obj \<notin> managedSignerNames then (st, Inr 0)
          else (case scanConditions (Status_Conditions obj) False of
             None \<Rightarrow> (st, Inr 0)
           | Some approved \<Rightarrow>
               tryPass (st, getClusterConfig) (\<lambda>st config.
               if \<not> approved then approveOrWait x z errorString cl config obj st
               else signApproved x z cl config obj st)))"

section \<open>What is accepted\<close>

text \<open>
  The specification of a request: the usages and the subject each signer expects from the node
  of a given name.
\<close>

definition expectedUsage :: "string \<Rightarrow> UsageName" where
  "expectedUsage signer = (if signer = ''k8sd.io/kubelet-serving'' then UsageServerAuth else UsageClientAuth)"

definition expectedSubject :: "string \<Rightarrow> string \<Rightarrow> string \<times> string set" where
  "expectedSubject signer host =
     (if signer = ''k8sd.io/kube-proxy-client'' then (''system:kube-proxy'', {})
      else (''system:node:'' @ host, {''system:nodes''}))"

definition validHostname :: "('key, 'pub) csrCrypto \<Rightarrow> string \<Rightarrow> bool" where
  "validHostname z host \<longleftrightarrow> host \<noteq> [] \<and> idnaToASCII z host = Inr host \<and> \<not> HasSuffix host ''.''"

definition sealedBy :: "('key, 'pub) csrCrypto \<Rightarrow> 'key \<Rightarrow> string \<Rightarrow> string \<Rightarrow> bool" where
  "sealedBy z priv request annotation \<longleftrightarrow>
     (\<exists>enc. base64Decode annotation = Inr enc \<and> DecryptPKCS1v15 z priv enc = Inr (sumSHA256 z request))"

lemma validateRequester_ok_iff:
  "validateRequester z obj = ok \<longleftrightarrow>
     (\<exists>host. mapGet (CSR_Annotations obj) ''k8sd.io/node'' = host \<and> validHostname z host
        \<and> Spec_Username obj = ''system:node:'' @ host \<and> ''system:nodes'' \<in> set (Spec_Groups obj))"
  by (auto simp: validateRequester_def CleanHostname_def validHostname_def Let_def split: sum.splits if_splits)

lemma validateBySigner_ok_iff:
  assumes "Spec_Username obj = ''system:node:'' @ host"
  shows "validateBySigner obj csr = ok \<longleftrightarrow>
     Spec_SignerName obj \<in> managedSignerNames
     \<and> set (Spec_Usages obj) = {expectedUsage (Spec_SignerName obj), UsageDigitalSignature, UsageKeyEncipherment}
     \<and> (CommonName (CR_Subject csr), set (Organization (CR_Subject csr))) = expectedSubject (Spec_SignerName obj) host"
  using assms
  by (auto simp: validateBySigner_def validateKubeletRequest_def validateProxyRequest_def managedSignerNames_def
      expectedUsage_def expectedSubject_def)

lemma validateCSR_ok_iff:
  "validateCSR x z obj priv = ok \<longleftrightarrow>
     (\<exists>csr host.
        LoadCertificateRequest x z (Spec_Request obj) = Inr csr
        \<and> sealedBy z priv (Spec_Request obj) (mapGet (CSR_Annotations obj) ''k8sd.io/signature'')
        \<and> mapGet (CSR_Annotations obj) ''k8sd.io/node'' = host \<and> validHostname z host
        \<and> Spec_Username obj = ''system:node:'' @ host \<and> ''system:nodes'' \<in> set (Spec_Groups obj)
        \<and> Spec_SignerName obj \<in> managedSignerNames
        \<and> set (Spec_Usages obj) = {expectedUsage (Spec_SignerName obj), UsageDigitalSignature, UsageKeyEncipherment}
        \<and> (CommonName (CR_Subject csr), set (Organization (CR_Subject csr))) = expectedSubject (Spec_SignerName obj) host)"
proof -
  have "validateCSR x z obj priv = ok \<longleftrightarrow>
     (\<exists>csr. LoadCertificateRequest x z (Spec_Request obj) = Inr csr
        \<and> sealedBy z priv (Spec_Request obj) (mapGet (CSR_Annotations obj) ''k8sd.io/signature'')
        \<and> validateRequester z obj = ok \<and> validateBySigner obj csr = ok)"
    unfolding validateCSR_def sealedBy_def by (auto split: sum.splits)
  then show ?thesis unfolding validateRequester_ok_iff using validateBySigner_ok_iff by blast
qed

text \<open>
  C15: a signing request is accepted exactly when it is an X.509 request whose SHA-256 sum the
  requester sealed with the cluster's public key, made by the user and the group of the node it
  names by a clean host name, for one of the three signers and with that signer's key usages and
  subject.
\<close>

theorem validateCSR_accepts_iff:
  "validateCSR x z obj priv = ok \<longleftrightarrow>
     (\<exists>csr host.
        LoadCertificateRequest x z (Spec_Request obj) = Inr csr
        \<and> sealedBy z priv (Spec_Request obj) (mapGet (CSR_Annotations obj) ''k8sd.io/signature'')
        \<and> mapGet (CSR_Annotations obj) ''k8sd.io/node'' = host \<and> validHostname z host
        \<and> Spec_Username obj = ''system:node:'' @ host \<and> ''system:nodes'' \<in> set (Spec_Groups obj)
        \<and> Spec_SignerName obj \<in> managedSignerNames
        \<and> set (Spec_Usages obj) = {expectedUsage (Spec_SignerName obj), UsageDigitalSignature, UsageKeyEncipherment}
        \<and> (CommonName (CR_Subject csr), set (Organization (CR_Subject csr))) = expectedSubject (Spec_SignerName obj) host)"
  by (rule validateCSR_ok_iff)

section \<open>What the controller sends\<close>

definition hasCondition :: "RequestConditionType \<Rightarrow> CertificateSigningRequest \<Rightarrow> bool" where
  "hasCondition t obj \<longleftrightarrow> t \<in> Condition_Type ` set (Status_Conditions obj)"

lemma scanConditions_iff:
  "scanConditions cs a = Some b \<longleftrightarrow>
     CertificateDenied \<notin> Condition_Type ` set cs \<and> CertificateFailed \<notin> Condition_Type ` set cs
     \<and> (b \<longleftrightarrow> a \<or> CertificateApproved \<in> Condition_Type ` set cs)"
  by (induction cs a rule: scanConditions.induct) (auto split: RequestConditionType.splits)

text \<open>A certificate for the request, signed by the CA of its signer with the requested public key.\<close>

definition issuedFor ::
  "'key crypto \<Rightarrow> ('key, 'pub) csrCrypto \<Rightarrow> ClusterConfig \<Rightarrow> CertificateSigningRequest \<Rightarrow> string \<Rightarrow> bool"
where
  "issuedFor x z config obj crt \<longleftrightarrow>
     (\<exists>req serial n caCert key der.
        LoadCertificateRequest x z (Spec_Request obj) = Inr req
        \<and> LoadCertificate x (fst (csrCA config obj)) (snd (csrCA config obj)) = Inr (caCert, Some key)
        \<and> CreateCertificateFor z n (csrTemplate x obj req serial) caCert (CR_PublicKey req) key = Inr der
        \<and> pemEncode x ''CERTIFICATE'' der = Some crt)"

text \<open>An update of an approved request, and of one that is not yet decided.\<close>

definition statusUpdate ::
  "'key crypto \<Rightarrow> ('key, 'pub) csrCrypto \<Rightarrow> ClusterConfig \<Rightarrow> CertificateSigningRequest \<Rightarrow> update \<Rightarrow> bool"
where
  "statusUpdate x z config obj u \<longleftrightarrow>
     (\<exists>crt. u = UpdateStatus (obj\<lparr>Status_Certificate := crt\<rparr>) \<and> issuedFor x z config obj crt)
     \<or> (u = UpdateStatus (setFailedCSR obj missingKeyFailedReason missingKeyFailedMessage) \<and> snd (csrCA config obj) = [])"

definition approvalUpdate ::
  "'key crypto \<Rightarrow> ('key, 'pub) csrCrypto \<Rightarrow> ClusterConfig \<Rightarrow> CertificateSigningRequest \<Rightarrow> update \<Rightarrow> bool"
where
  "approvalUpdate x z config obj u \<longleftrightarrow>
     internalConfigFromAnnotations z (CC_Annotations config)
     \<and> (\<exists>priv c. LoadRSAPrivateKey x (getStr (Certificates_K8sdPrivateKey (CC_Certificates config))) = Inr priv
          \<and> u = UpdateApproval (addCondition c obj)
          \<and> Condition_Type c = (if validateCSR x z obj priv = ok then CertificateApproved else CertificateDenied))"

lemma sendUpdate_sent [simp]: "snd (fst (sendUpdate cl u st)) = snd st @ [u]"
  by (simp add: sendUpdate_def)

lemma tryPass_send: "snd (fst (tryPass (sendUpdate cl u st) (\<lambda>st _. (st, Inr r)))) = snd st @ [u]"
  by (cases "snd (sendUpdate cl u st)"; cases "sendUpdate cl u st")
    (simp_all, metis fst_conv sendUpdate_sent, metis fst_conv sendUpdate_sent)

lemma LoadCertificate_no_key: "LoadCertificate x c k = Inr (cert, None) \<Longrightarrow> k = []"
  by (auto simp: LoadCertificate_def split: option.splits sum.splits if_splits prod.splits)

lemma signApproved_sends:
  "\<exists>us. snd (fst (signApproved x z cl config obj st)) = snd st @ us \<and> length us \<le> 1
     \<and> (\<forall>u \<in> set us. statusUpdate x z config obj u)"
proof (cases "LoadCertificateRequest x z (Spec_Request obj)")
  case (Inr req)
  show ?thesis
  proof (cases "randInt x (fst st)")
    case (Inr serial)
    let ?ca = "LoadCertificate x (fst (csrCA config obj)) (snd (csrCA config obj))"
    let ?st = "(Suc (fst st), snd st)"
    have run: "signApproved x z cl config obj st = signCSR x z cl config obj req serial ?st"
      using \<open>LoadCertificateRequest x z (Spec_Request obj) = Inr req\<close> Inr by (simp add: signApproved_def)
    show ?thesis
    proof (cases ?ca)
      case (Inl e)
      then show ?thesis by (simp add: run signCSR_def split_beta)
    next
      case (Inr ck)
      obtain caCert caKey where ck: "ck = (caCert, caKey)" by (cases ck)
      show ?thesis
      proof (cases caKey)
        case None
        then show ?thesis
          using Inr ck LoadCertificate_no_key [of x _ "snd (csrCA config obj)"]
          by (simp add: run signCSR_def split_beta tryPass_send statusUpdate_def)
      next
        case (Some key)
        let ?der = "CreateCertificateFor z (Suc (fst st)) (csrTemplate x obj req serial) caCert (CR_PublicKey req) key"
        show ?thesis
        proof (cases ?der)
          case (Inr der)
          then show ?thesis
            using \<open>?ca = Inr ck\<close> ck Some \<open>LoadCertificateRequest x z (Spec_Request obj) = Inr req\<close>
            by (auto simp: run signCSR_def split_beta tryPass_send statusUpdate_def issuedFor_def split: option.split)
        qed (use \<open>?ca = Inr ck\<close> ck Some in \<open>simp add: run signCSR_def split_beta\<close>)
      qed
    qed
  qed (use Inr in \<open>simp add: signApproved_def\<close>)
qed (simp add: signApproved_def)

lemma approveOrWait_sends:
  "\<exists>us. snd (fst (approveOrWait x z es cl config obj st)) = snd st @ us \<and> length us \<le> 1
     \<and> (\<forall>u \<in> set us. approvalUpdate x z config obj u)"
proof (cases "LoadRSAPrivateKey x (getStr (Certificates_K8sdPrivateKey (CC_Certificates config)))")
  case (Inr priv)
  then show ?thesis
    by (cases "validateCSR x z obj priv")
      (auto simp: approveOrWait_def reconcileAutoApprove_def Let_def tryPass_send approvalUpdate_def)
qed (simp add: approveOrWait_def Let_def)


end
