(* ===== verification/CertRefresh.thy ===== *)
theory CertRefresh
  imports Api CSRSigning Controllers
begin

text \<open>
  Refreshing the certificates of a running node (\<open>pkg/k8sd/api/certificates_refresh.go\<close>). A
  control plane node clears the certificates to refresh, completes them with the CAs it holds and
  writes files and kubeconfigs. A worker holds no CA key: it creates signing requests in the
  Kubernetes API and waits for the control plane to issue them.

  The constants of the API package are the constructors of \<open>CertificateName\<close> and the fields of
  \<open>certApi\<close>. The operations of the Kubernetes API client are the fields of \<open>nodeClient\<close>. The
  goroutines of a worker's requests are run one after the other; each of them only writes the two
  fields of its own certificate.
\<close>

section \<open>Certificates by role\<close>

datatype CertificateName =
    CertificateAdminClient | CertificateFrontProxyClient | CertificateAPIServerKubeletClient
  | CertificateSchedulerClient | CertificateControllerManagerClient | CertificateAPIServer
  | CertificateKubeletClient | CertificateKubelet | CertificateProxyClient | OtherCertificate string

datatype ClusterRole = ClusterRoleControlPlane | ClusterRoleWorker

record certApi =
  certificateName :: "string \<Rightarrow> CertificateName"
  certificateString :: "CertificateName \<Rightarrow> string"
  CertificatesByRole :: "ClusterRole \<Rightarrow> CertificateName list option"

definition toCertificateNames :: "certApi \<Rightarrow> string list \<Rightarrow> CertificateName list" where
  "toCertificateNames a certNames = map (certificateName a) certNames"

definition getAllCertsForRole :: "certApi \<Rightarrow> ClusterRole \<Rightarrow> CertificateName list" where
  "getAllCertsForRole a role =
     (case CertificatesByRole a role of
        Some roleCerts \<Rightarrow> sort_key (certificateString a) roleCerts
      | None \<Rightarrow> [])"

definition validateCertificatesByRole :: "certApi \<Rightarrow> ClusterRole \<Rightarrow> CertificateName list \<Rightarrow> unit res" where
  "validateCertificatesByRole a role certs =
     (case CertificatesByRole a role of
        None \<Rightarrow> Inl (Errorf ''unknown role: %s'' [])
      | Some validCerts \<Rightarrow>
          each (\<lambda>cert. if cert \<in> set validCerts then ok
            else Inl (Errorf ''invalid certificates for %s node: %s'' [certificateString a cert])) certs)"

text \<open>The marker of a control plane: which two fields belong to a name.\<close>

definition certificateMarker :: "(CertificateName \<times> (ControlPlanePKI \<Rightarrow> ControlPlanePKI)) list" where
  "certificateMarker =
     [(CertificateAdminClient, AdminClientCert_update (\<lambda>_. [])),
      (CertificateFrontProxyClient, FrontProxyClientCert_update (\<lambda>_. [])),
      (CertificateAPIServerKubeletClient, APIServerKubeletClientCert_update (\<lambda>_. [])),
      (CertificateSchedulerClient, KubeSchedulerClientCert_update (\<lambda>_. [])),
      (CertificateControllerManagerClient, KubeControllerManagerClientCert_update (\<lambda>_. [])),
      (CertificateAPIServer, APIServerCert_update (\<lambda>_. [])),
      (CertificateKubeletClient, KubeletClientCert_update (\<lambda>_. [])),
      (CertificateKubelet, KubeletCert_update (\<lambda>_. [])),
      (CertificateProxyClient, KubeProxyClientCert_update (\<lambda>_. []))]"

definition keyMarker :: "(CertificateName \<times> (ControlPlanePKI \<Rightarrow> ControlPlanePKI)) list" where
  "keyMarker =
     [(CertificateAdminClient, AdminClientKey_update (\<lambda>_. [])),
      (CertificateFrontProxyClient, FrontProxyClientKey_update (\<lambda>_. [])),
      (CertificateAPIServerKubeletClient, APIServerKubeletClientKey_update (\<lambda>_. [])),
      (CertificateSchedulerClient, KubeSchedulerClientKey_update (\<lambda>_. [])),
      (CertificateControllerManagerClient, KubeControllerManagerClientKey_update (\<lambda>_. [])),
      (CertificateAPIServer, APIServerKey_update (\<lambda>_. [])),
      (CertificateKubeletClient, KubeletClientKey_update (\<lambda>_. [])),
      (CertificateKubelet, KubeletKey_update (\<lambda>_. [])),
      (CertificateProxyClient, KubeProxyClientKey_update (\<lambda>_. []))]"

fun markCertificatesForRefresh :: "certApi \<Rightarrow> CertificateName list \<Rightarrow> ControlPlanePKI \<Rightarrow> (ControlPlanePKI, unit) step" where
  "markCertificatesForRefresh a [] c = (c, ok)"
| "markCertificatesForRefresh a (cert # certs) c =
     (case map_of certificateMarker cert of
        None \<Rightarrow> (c, Inl (Errorf ''invalid certificate name for control plane: %s'' [certificateString a cert]))
      | Some clearCert \<Rightarrow>
          let c = clearCert c in
          (case map_of keyMarker cert of
             None \<Rightarrow> (c, Inl (Errorf ''invalid key name for control plane: %s'' [certificateString a cert]))
           | Some clearKey \<Rightarrow> markCertificatesForRefresh a certs (clearKey c)))"

section \<open>Control plane nodes\<close>

record RefreshRequest =
  Req_Certificates :: "string list"
  Req_Seed :: int
  Req_ExpirationSeconds :: int
  Req_ExtraSANs :: "string list"

text \<open>What a handler reads of the node: its name and address in the cluster, its interfaces, the local address.\<close>

record nodeEnv =
  Env_Name :: string
  Env_Address :: string
  Env_InterfaceAddrs :: "string list res"
  Env_Localhost :: "IP res"
  Env_Rendered :: "unit res"

definition refreshPKI :: "'key crypto \<Rightarrow> nodeEnv \<Rightarrow> ClusterConfig \<Rightarrow> IP \<Rightarrow> IP list \<Rightarrow> RefreshRequest \<Rightarrow> ControlPlanePKI" where
  "refreshPKI x env cfg nodeIP serviceIPs req =
     (case SplitIPAndDNSSANs (Req_ExtraSANs req) of (extraIPs, extraNames) \<Rightarrow>
        let cc = CC_Certificates cfg in
        (NewControlPlanePKI (Env_Name env) extraNames (nodeIP # serviceIPs @ extraIPs) (timeNow x)
           (Some (SecondsToExpirationDate (timeNow x) (Req_ExpirationSeconds req))) True True (\<lambda>t. AddDate t 1 0 0))
          \<lparr>CACert := getStr (Certificates_CACert cc), CAKey := getStr (Certificates_CAKey cc),
           ClientCACert := getStr (Certificates_ClientCACert cc), ClientCAKey := getStr (Certificates_ClientCAKey cc),
           FrontProxyCACert := getStr (Certificates_FrontProxyCACert cc),
           FrontProxyCAKey := getStr (Certificates_FrontProxyCAKey cc),
           K8sdPrivateKey := getStr (Certificates_K8sdPrivateKey cc), K8sdPublicKey := getStr (Certificates_K8sdPublicKey cc),
           ServiceAccountKey := getStr (Certificates_ServiceAccountKey cc)\<rparr>)"

text \<open>The two passes of \<open>ReadControlPlanePKI\<close>, the marking and the completion.\<close>

definition refreshedPKI ::
  "'key crypto \<Rightarrow> certApi \<Rightarrow> kubeconfigIO \<Rightarrow> nodeEnv \<Rightarrow> CertificateName list \<Rightarrow> ControlPlanePKI
   \<Rightarrow> (nat \<times> Host \<Rightarrow> ControlPlanePKI \<Rightarrow> (nat \<times> Host) \<times> 'b response) \<Rightarrow> nat \<times> Host \<Rightarrow> (nat \<times> Host) \<times> 'b response"
where
  "refreshedPKI x a io env certsToRefresh c k = (\<lambda>(n, h).
     orFail 500 ''failed to read managed control plane certificates: %w'' [] ((n, h), ReadControlPlanePKI io True c h) (\<lambda>_ c.
     orFail 500 ''failed to read unmanaged control plane certificates: %w'' [] ((n, h), ReadControlPlanePKI io False c h) (\<lambda>_ c.
     case markCertificatesForRefresh a certsToRefresh c of (c, marked) \<Rightarrow>
     orFail 500 ''failed to mark certificates for refresh: %w'' [] ((n, h), marked) (\<lambda>_ _.
     case CompleteCertificates x (Env_InterfaceAddrs env) c n of (n, completed) \<Rightarrow>
     orFail 500 ''failed to generate new control plane certificates: %w'' [] ((n, h), completed) k))))"

definition writeRefreshed ::
  "'key crypto \<Rightarrow> kubeconfigIO \<Rightarrow> nodeEnv \<Rightarrow> ClusterConfig \<Rightarrow> ControlPlanePKI \<Rightarrow> nat \<times> Host \<Rightarrow> (nat \<times> Host) \<times> int response"
where
  "writeRefreshed x io env cfg c = (\<lambda>(n, h).
     case EnsureControlPlanePKI c h of (h, written) \<Rightarrow>
     orFail 500 ''failed to write control plane certificates: %w'' [] ((n, h), written) (\<lambda>_ _.
     case SetupControlPlaneKubeconfigs io (Env_Localhost env) KubernetesConfigDir
            (getInt (APIServer_SecurePort (CC_APIServer cfg))) c h of (h, configs) \<Rightarrow>
     orFail 500 ''failed to generate control plane kubeconfigs: %w'' [] ((n, h), configs) (\<lambda>_ _.
     orFail 500 ''failed to read kubelet certificate: %w'' [] ((n, h), LoadCertificate x (APIServerCert c) []) (\<lambda>_ (cert, _).
       ((n, asyncRestart (Env_Rendered env)
              (\<lambda>h. RestartControlPlaneServices h (GetKubeProxyEnabled (CC_Network cfg)) []) h),
        SyncResponse (NotAfter cert))))))"

definition refreshCertsRunControlPlane ::
  "'key crypto \<Rightarrow> certApi \<Rightarrow> kubeconfigIO \<Rightarrow> json \<Rightarrow> nodeEnv \<Rightarrow> DB \<Rightarrow> RefreshRequest res \<Rightarrow> nat \<times> Host
   \<Rightarrow> (nat \<times> Host) \<times> int response"
where
  "refreshCertsRunControlPlane x a io j env db request st =
     orFail 400 ''failed to parse request: %w'' [] (st, request) (\<lambda>st req.
     let asked = toCertificateNames a (Req_Certificates req) in
     orFail 400 ''failed to validate requested certificates: %w'' []
       (st, if length asked > 0 then validateCertificatesByRole a ClusterRoleControlPlane asked else ok) (\<lambda>st _.
     let certsToRefresh = (if length asked > 0 then asked else getAllCertsForRole a ClusterRoleControlPlane) in
     orFail 500 ''failed to recover cluster config: %w'' [] (st, util_GetClusterConfig j db) (\<lambda>st cfg.
     case ParseIP (Env_Address env) of
       None \<Rightarrow> (st, InternalError (Errorf ''failed to parse node IP address %q'' [Env_Address env]))
     | Some nodeIP \<Rightarrow>
         let serviceCIDR = getStr (Network_ServiceCIDR (CC_Network cfg)) in
         orFail 500 ''failed to get IP address(es) from ServiceCIDR %q: %w'' [serviceCIDR]
           (st, GetKubernetesServiceIPsFromServiceCIDRs serviceCIDR) (\<lambda>st serviceIPs.
         refreshedPKI x a io env certsToRefresh (refreshPKI x env cfg nodeIP serviceIPs req)
           (\<lambda>st c. writeRefreshed x io env cfg c st) st))))"

section \<open>Worker nodes\<close>

record csrDefinition =
  CSRBaseName :: string
  Def_CommonName :: string
  Def_Organization :: "string list"
  Def_Usages :: "UsageName list"
  Def_SignerName :: string
  NeedsSANs :: bool

definition getWorkerCSRDefinitions :: "string \<Rightarrow> (CertificateName \<times> csrDefinition) list" where
  "getWorkerCSRDefinitions hostname =
     [(CertificateKubelet,
        \<lparr>CSRBaseName = ''worker-kubelet-serving'', Def_CommonName = ''system:node:'' @ hostname,
         Def_Organization = [''system:nodes''],
         Def_Usages = [UsageDigitalSignature, UsageKeyEncipherment, UsageServerAuth],
         Def_SignerName = ''k8sd.io/kubelet-serving'', NeedsSANs = True\<rparr>),
      (CertificateKubeletClient,
        \<lparr>CSRBaseName = ''worker-kubelet-client'', Def_CommonName = ''system:node:'' @ hostname,
         Def_Organization = [''system:nodes''],
         Def_Usages = [UsageDigitalSignature, UsageKeyEncipherment, UsageClientAuth],
         Def_SignerName = ''k8sd.io/kubelet-client'', NeedsSANs = False\<rparr>),
      (CertificateProxyClient,
        \<lparr>CSRBaseName = ''worker-kube-proxy-client'', Def_CommonName = ''system:kube-proxy'', Def_Organization = [],
         Def_Usages = [UsageDigitalSignature, UsageKeyEncipherment, UsageClientAuth],
         Def_SignerName = ''k8sd.io/kube-proxy-client'', NeedsSANs = False\<rparr>)]"

definition setWorkerPair :: "CertificateName \<Rightarrow> (string \<times> string \<Rightarrow> WorkerNodePKI \<Rightarrow> WorkerNodePKI) option" where
  "setWorkerPair certName =
     (case certName of
        CertificateKubelet \<Rightarrow> Some (\<lambda>(c, k) w. w\<lparr>W_KubeletCert := c, W_KubeletKey := k\<rparr>)
      | CertificateKubeletClient \<Rightarrow> Some (\<lambda>(c, k) w. w\<lparr>W_KubeletClientCert := c, W_KubeletClientKey := k\<rparr>)
      | CertificateProxyClient \<Rightarrow> Some (\<lambda>(c, k) w. w\<lparr>W_KubeProxyClientCert := c, W_KubeProxyClientKey := k\<rparr>)
      | _ \<Rightarrow> None)"

text \<open>The state of a signing request that the worker looks at.\<close>

record csrFlags =
  Fl_approved :: bool
  Fl_failed :: "(string \<times> string) option"
  Fl_denied :: "(string \<times> string) option"

fun flagConditions :: "Condition list \<Rightarrow> csrFlags \<Rightarrow> csrFlags" where
  "flagConditions [] f = f"
| "flagConditions (c # cs) f =
     (if \<not> Condition_Status c then flagConditions cs f
      else (case Condition_Type c of
          CertificateDenied \<Rightarrow> flagConditions cs (f\<lparr>Fl_denied := Some (Condition_Reason c, Condition_Message c)\<rparr>)
        | CertificateFailed \<Rightarrow> flagConditions cs (f\<lparr>Fl_failed := Some (Condition_Reason c, Condition_Message c)\<rparr>)
        | CertificateApproved \<Rightarrow> flagConditions cs (f\<lparr>Fl_approved := True\<rparr>)
        | OtherCondition _ \<Rightarrow> flagConditions cs f))"

definition isCertificateSigningRequestApprovedAndIssued :: "CertificateSigningRequest \<Rightarrow> bool res" where
  "isCertificateSigningRequestApprovedAndIssued csr =
     (let f = flagConditions (Status_Conditions csr) \<lparr>Fl_approved = False, Fl_failed = None, Fl_denied = None\<rparr> in
      case Fl_denied f of
        Some (r, m) \<Rightarrow> Inl (Errorf ''CSR %q was denied: %s - %s'' [CSR_Name csr, r, m])
      | None \<Rightarrow> (case Fl_failed f of
          Some (r, m) \<Rightarrow> Inl (Errorf ''CSR %q failed: %s - %s'' [CSR_Name csr, r, m])
        | None \<Rightarrow> if Fl_approved f then Inr (length (Status_Certificate csr) > 0) else Inr False))"

text \<open>The result is the certificate and the key that \<open>verifyCSRAndSetPKI\<close> stores when it returns true.\<close>

definition verifyCSRAndSetPKI ::
  "'key crypto \<Rightarrow> CertificateSigningRequest \<Rightarrow> string \<Rightarrow> (string \<times> string) option res"
where
  "verifyCSRAndSetPKI x csr keyPEM =
     (case isCertificateSigningRequestApprovedAndIssued csr of
        Inl e \<Rightarrow> Inl (Wrapf ''failed to validate csr: %w'' [] e)
      | Inr False \<Rightarrow> Inr None
      | Inr True \<Rightarrow>
          (case LoadCertificate x (Status_Certificate csr) [] of
             Inl e \<Rightarrow> Inl (Wrapf ''failed to load certificate: %w'' [] e)
           | Inr _ \<Rightarrow> Inr (Some (Status_Certificate csr, keyPEM))))"

text \<open>
  \<open>WatchCertificateSigningRequest\<close>: a watch that cannot be opened, is closed or delivers
  something else is opened again, until the verification gives a result or the context is done.
  The connections and their events are given; the context is done when they are used up.
\<close>

datatype 'a watchEnd = WatchRetry | WatchResult "'a res"

fun watchCertificateSigningRequestEvents ::
  "string \<Rightarrow> (CertificateSigningRequest \<Rightarrow> 'a option res) \<Rightarrow> CertificateSigningRequest option list \<Rightarrow> 'a watchEnd"
where
  "watchCertificateSigningRequestEvents name verify [] = WatchRetry"
| "watchCertificateSigningRequestEvents name verify (None # es) = WatchRetry"
| "watchCertificateSigningRequestEvents name verify (Some csr # es) =
     (case verify csr of
        Inl e \<Rightarrow> WatchResult (Inl (Wrapf ''failed to verify CSR %s: %w'' [name] e))
      | Inr (Some r) \<Rightarrow> WatchResult (Inr r)
      | Inr None \<Rightarrow> watchCertificateSigningRequestEvents name verify es)"

fun WatchCertificateSigningRequest ::
  "string \<Rightarrow> (CertificateSigningRequest \<Rightarrow> 'a option res) \<Rightarrow> CertificateSigningRequest option list res list \<Rightarrow> 'a res"
where
  "WatchCertificateSigningRequest name verify [] = Inl (Errorf ''context canceled'' [])"
| "WatchCertificateSigningRequest name verify (Inl _ # ws) = WatchCertificateSigningRequest name verify ws"
| "WatchCertificateSigningRequest name verify (Inr events # ws) =
     (case watchCertificateSigningRequestEvents name verify events of
        WatchRetry \<Rightarrow> WatchCertificateSigningRequest name verify ws
      | WatchResult (Inl e) \<Rightarrow> Inl (Wrapf ''failed to watch CSR %s: %w'' [name] e)
      | WatchResult (Inr r) \<Rightarrow> Inr r)"

record nodeClient =
  createCSR :: "CertificateSigningRequest \<Rightarrow> unit res"
  watchCSR :: "string \<Rightarrow> CertificateSigningRequest option list res list"

definition csrObjectName :: "int \<Rightarrow> csrDefinition \<Rightarrow> string" where
  "csrObjectName seed d = ''k8sd-'' @ Itoa seed @ ''-'' @ CSRBaseName d"

text \<open>The object a worker creates; the API server adds the user and the groups that sent it.\<close>

definition workerCSR ::
  "csrDefinition \<Rightarrow> string \<Rightarrow> int \<Rightarrow> int \<Rightarrow> string \<Rightarrow> string \<Rightarrow> CertificateSigningRequest"
where
  "workerCSR d hostname seed expirationSeconds csrPEM signature =
     \<lparr>CSR_Name = csrObjectName seed d,
      CSR_Annotations = [(''k8sd.io/signature'', base64Encode signature), (''k8sd.io/node'', hostname)],
      Spec_Request = csrPEM, Spec_ExpirationSeconds = Some (int32 expirationSeconds), Spec_Usages = Def_Usages d,
      Spec_SignerName = Def_SignerName d, Spec_Username = [], Spec_Groups = [], Status_Conditions = [],
      Status_Certificate = []\<rparr>"

definition requestCertificate ::
  "'key crypto \<Rightarrow> ('key, 'pub) csrCrypto \<Rightarrow> nodeClient \<Rightarrow> 'pub \<Rightarrow> string \<Rightarrow> string list \<Rightarrow> IP list \<Rightarrow> RefreshRequest
   \<Rightarrow> csrDefinition \<Rightarrow> nat \<Rightarrow> (nat, string \<times> string) step"
where
  "requestCertificate x z cl k8sdPublicKey hostname hostnames ips req d n =
     (let name = csrObjectName (Req_Seed req) d in
      tryStep (GenerateCSR x z \<lparr>CommonName = Def_CommonName d, Organization = Def_Organization d\<rparr> 2048
          (if NeedsSANs d then hostnames else []) (if NeedsSANs d then ips else []) n)
        ''failed to generate CSR for %s: %w'' [name] (\<lambda>n (csrPEM, keyPEM).
      tryStep (Suc n, EncryptPKCS1v15 z n k8sdPublicKey (sumSHA256 z csrPEM))
        ''failed to sign CSR %s, err: %w'' [name] (\<lambda>n signature.
      tryStep (n, createCSR cl (workerCSR d hostname (Req_Seed req) (Req_ExpirationSeconds req) csrPEM signature))
        ''failed to create CSR for %s: %w'' [name] (\<lambda>n _.
      tryStep (n, WatchCertificateSigningRequest name (\<lambda>csr. verifyCSRAndSetPKI x csr keyPEM) (watchCSR cl name))
        ''certificate signing request %s failed: %w'' [name] (\<lambda>n pair. (n, Inr pair))))))"

fun requestCertificates ::
  "(csrDefinition \<Rightarrow> nat \<Rightarrow> (nat, string \<times> string) step) \<Rightarrow> string \<Rightarrow> certApi \<Rightarrow> CertificateName list \<Rightarrow> WorkerNodePKI
   \<Rightarrow> nat \<Rightarrow> (nat, WorkerNodePKI) step"
where
  "requestCertificates request hostname a [] w n = (n, Inr w)"
| "requestCertificates request hostname a (certName # certNames) w n =
     (case map_of (getWorkerCSRDefinitions hostname) certName of
        None \<Rightarrow> (n, Inl (Errorf ''CSR definition not found for %q'' [certificateString a certName]))
      | Some d \<Rightarrow>
          (case setWorkerPair certName of
             None \<Rightarrow> (n, Inl (Errorf ''unhandled certificate name %q for worker CSR'' [certificateString a certName]))
           | Some setPair \<Rightarrow>
               tryStep (request d n) ''failed to get one or more worker node certificates: %w'' [] (\<lambda>n pair.
               requestCertificates request hostname a certNames (setPair pair w) n)))"

definition emptyWorkerPKI :: WorkerNodePKI where
  "emptyWorkerPKI = \<lparr>W_CACert = [], W_ClientCACert = [], W_KubeletCert = [], W_KubeletKey = [], W_KubeProxyClientCert = [],
     W_KubeProxyClientKey = [], W_KubeletClientCert = [], W_KubeletClientKey = []\<rparr>"

definition restartWorker :: "CertificateName list \<Rightarrow> Host \<Rightarrow> (Host, unit) step" where
  "restartWorker certsToRefresh h =
     tryStep (if CertificateKubelet \<in> set certsToRefresh \<or> CertificateKubeletClient \<in> set certsToRefresh
              then RestartServices h [''kubelet''] [] else (h, ok)) ''failed to restart kubelet: %w'' [] (\<lambda>h _.
     tryStep (if CertificateProxyClient \<in> set certsToRefresh then RestartServices h [''kube-proxy''] [] else (h, ok))
       ''failed to restart kube-proxy: %w'' [] (\<lambda>h _. (h, ok)))"

definition writeWorkerRefreshed ::
  "'key crypto \<Rightarrow> kubeconfigIO \<Rightarrow> nodeEnv \<Rightarrow> ClusterConfig \<Rightarrow> CertificateName list \<Rightarrow> WorkerNodePKI \<Rightarrow> nat \<times> Host
   \<Rightarrow> (nat \<times> Host) \<times> int response"
where
  "writeWorkerRefreshed x io env cfg certsToRefresh w = (\<lambda>(n, h).
     case EnsureWorkerPKI w h of (h, written) \<Rightarrow>
     orFail 500 ''failed to write worker PKI: %w'' [] ((n, h), written) (\<lambda>_ _.
     case ParseIP (Env_Address env) of
       None \<Rightarrow> ((n, h), InternalError (Errorf ''failed to parse node IP address %q'' [Env_Address env]))
     | Some _ \<Rightarrow>
         (case SetupWorkerKubeconfigs io (Env_Localhost env) KubernetesConfigDir
                 (getInt (APIServer_SecurePort (CC_APIServer cfg))) w h of (h, configs) \<Rightarrow>
          orFail 500 ''failed to generate worker kubeconfigs: %w'' [] ((n, h), configs) (\<lambda>_ _.
          orFail 500 ''failed to load kubelet certificate: %w'' [] ((n, h), LoadCertificate x (W_KubeletCert w) []) (\<lambda>_ (cert, _).
            ((n, asyncRestart (Env_Rendered env) (restartWorker certsToRefresh) h), SyncResponse (NotAfter cert)))))))"

definition refreshCertsRunWorker ::
  "'key crypto \<Rightarrow> ('key, 'pub) csrCrypto \<Rightarrow> (string \<Rightarrow> 'pub option res) \<Rightarrow> certApi \<Rightarrow> kubeconfigIO \<Rightarrow> json \<Rightarrow> nodeEnv
   \<Rightarrow> Snap \<Rightarrow> nodeClient res \<Rightarrow> DB \<Rightarrow> RefreshRequest res \<Rightarrow> nat \<times> Host \<Rightarrow> (nat \<times> Host) \<times> int response"
where
  "refreshCertsRunWorker x z parsePKIX a io j env s client db request st =
     orFail 400 ''failed to parse request: %w'' [] (st, request) (\<lambda>st req.
     let asked = toCertificateNames a (Req_Certificates req) in
     orFail 400 ''failed to validate requested certificates: %w'' []
       (st, if length asked = 0 then ok else validateCertificatesByRole a ClusterRoleWorker asked) (\<lambda>st _.
     let certsToRefresh = (if length asked = 0 then getAllCertsForRole a ClusterRoleWorker else asked) in
     orFail 500 ''failed to get Kubernetes client: %w'' [] (st, client) (\<lambda>st cl.
     orFail 500 ''failed to get cluster configuration: %w'' [] (st, util_GetClusterConfig j db) (\<lambda>st cfg.
     let cc = CC_Certificates cfg in
     if Certificates_CACert cc = None \<or> Certificates_ClientCACert cc = None
     then (st, InternalError (Errorf ''missing CA certificates from cluster config'' []))
     else
       orFail 500 ''failed to load k8sd public key: %w'' []
         (st, LoadRSAPublicKey x parsePKIX (getStr (Certificates_K8sdPublicKey cc))) (\<lambda>st pub.
       case SplitIPAndDNSSANs (Req_ExtraSANs req) of (extraIPs, extraNames) \<Rightarrow>
       let hostnames = Hostname s # extraNames; ips = (case ParseIP (Env_Address env) of None \<Rightarrow> [] | Some ip \<Rightarrow> ip) # extraIPs;
           w = emptyWorkerPKI\<lparr>W_CACert := getStr (Certificates_CACert cc), W_ClientCACert := getStr (Certificates_ClientCACert cc)\<rparr>
       in (case requestCertificates (requestCertificate x z cl pub (Hostname s) hostnames ips req) (Hostname s) a
                  certsToRefresh w (fst st) of
             (n, Inl e) \<Rightarrow> ((n, snd st), InternalError e)
           | (n, Inr w) \<Rightarrow> writeWorkerRefreshed x io env cfg certsToRefresh w (n, snd st)))))))"

section \<open>The endpoints\<close>

definition postRefreshCertsRun ::
  "'key crypto \<Rightarrow> ('key, 'pub) csrCrypto \<Rightarrow> (string \<Rightarrow> 'pub option res) \<Rightarrow> certApi \<Rightarrow> kubeconfigIO \<Rightarrow> json \<Rightarrow> nodeEnv
   \<Rightarrow> Snap \<Rightarrow> nodeClient res \<Rightarrow> DB \<Rightarrow> RefreshRequest res \<Rightarrow> nat \<times> Host \<Rightarrow> (nat \<times> Host) \<times> int response"
where
  "postRefreshCertsRun x z parsePKIX a io j env s client db request st =
     orFail 500 ''failed to check if node is a worker: %w'' [] (st, IsWorker s (snd st)) (\<lambda>st isWorker.
     if isWorker then refreshCertsRunWorker x z parsePKIX a io j env s client db request st
     else refreshCertsRunControlPlane x a io j env db request st)"

fun planNames :: "certApi \<Rightarrow> (CertificateName \<times> csrDefinition) list \<Rightarrow> int \<Rightarrow> CertificateName list \<Rightarrow> string list res" where
  "planNames a defs seed [] = Inr []"
| "planNames a defs seed (certName # certNames) =
     (case map_of defs certName of
        None \<Rightarrow> Inl (Errorf ''CSR definition not found for validated certificate %q'' [certificateString a certName])
      | Some d \<Rightarrow> (case planNames a defs seed certNames of Inl e \<Rightarrow> Inl e | Inr names \<Rightarrow> Inr (csrObjectName seed d # names)))"

text \<open>The plan: a seed, and on a worker the names of the signing requests that will have to be approved.\<close>

definition postRefreshCertsPlan ::
  "certApi \<Rightarrow> Snap \<Rightarrow> (nat \<Rightarrow> int res) \<Rightarrow> string list res \<Rightarrow> nat \<times> Host \<Rightarrow> (nat \<times> Host) \<times> (int \<times> string list) response"
where
  "postRefreshCertsPlan a s randSeed request st =
     orFail 400 ''failed to parse request: %w'' [] (st, request) (\<lambda>st certificates.
     orFail 500 ''failed to generate seed: %w'' [] ((Suc (fst st), snd st), randSeed (fst st)) (\<lambda>st seed.
     orFail 500 ''failed to check if node is a worker: %w'' [] (st, IsWorker s (snd st)) (\<lambda>st isWorker.
     let role = (if isWorker then ClusterRoleWorker else ClusterRoleControlPlane);
         certsToPlan = (if length certificates > 0 then toCertificateNames a certificates else getAllCertsForRole a role) in
     orFail 400 ''failed to validate requested certificates: %w'' []
       (st, if length certificates > 0 then validateCertificatesByRole a role certsToPlan else ok) (\<lambda>st _.
     if isWorker then
       (case planNames a (getWorkerCSRDefinitions (Hostname s)) seed certsToPlan of
          Inl e \<Rightarrow> (st, BadRequest e)
        | Inr names \<Rightarrow> (st, SyncResponse (seed, names)))
     else (st, SyncResponse (seed, []))))))"

section \<open>What a control plane refresh changes\<close>

text \<open>The certificate and key of a name, and what a refresh never touches.\<close>

fun pairOf :: "CertificateName \<Rightarrow> ControlPlanePKI \<Rightarrow> string \<times> string" where
  "pairOf CertificateAdminClient c = (AdminClientCert c, AdminClientKey c)"
| "pairOf CertificateFrontProxyClient c = (FrontProxyClientCert c, FrontProxyClientKey c)"
| "pairOf CertificateAPIServerKubeletClient c = (APIServerKubeletClientCert c, APIServerKubeletClientKey c)"
| "pairOf CertificateSchedulerClient c = (KubeSchedulerClientCert c, KubeSchedulerClientKey c)"
| "pairOf CertificateControllerManagerClient c = (KubeControllerManagerClientCert c, KubeControllerManagerClientKey c)"
| "pairOf CertificateAPIServer c = (APIServerCert c, APIServerKey c)"
| "pairOf CertificateKubeletClient c = (KubeletClientCert c, KubeletClientKey c)"
| "pairOf CertificateKubelet c = (KubeletCert c, KubeletKey c)"
| "pairOf CertificateProxyClient c = (KubeProxyClientCert c, KubeProxyClientKey c)"
| "pairOf (OtherCertificate _) c = ([], [])"

definition rootsOf :: "ControlPlanePKI \<Rightarrow> (string \<times> string) list \<times> string \<times> string \<times> string" where
  "rootsOf c = (caPairs c, ServiceAccountKey c, K8sdPrivateKey c, K8sdPublicKey c)"

lemma mark_one:
  assumes "map_of certificateMarker cert = Some f" "map_of keyMarker cert = Some g"
  shows "pairOf name (g (f c)) = (if name = cert then ([], []) else pairOf name c)"
    "rootsOf (g (f c)) = rootsOf c"
  using assms
  by (cases cert; cases name; simp add: certificateMarker_def keyMarker_def; hypsubst; simp add: rootsOf_def caPairs_def)+

lemma markCertificatesForRefresh_ok:
  "markCertificatesForRefresh a certs c = (c', ok) \<Longrightarrow>
   pairOf name c' = (if name \<in> set certs then ([], []) else pairOf name c) \<and> rootsOf c' = rootsOf c"
proof (induction a certs c rule: markCertificatesForRefresh.induct)
  case (2 a cert certs c)
  from 2(2) obtain f g where m: "map_of certificateMarker cert = Some f" "map_of keyMarker cert = Some g"
    by (auto simp: Let_def split: option.splits)
  with 2 have "markCertificatesForRefresh a certs (g (f c)) = (c', ok)" by simp
  with 2(1) [OF m(1) refl m(2)] mark_one(1) [OF m, of name c] mark_one(2) [OF m, of c] show ?case by auto
qed simp

lemma leafPairs_pairOf:
  "leafPairs c = [pairOf CertificateFrontProxyClient c, pairOf CertificateKubelet c,
     pairOf CertificateAPIServerKubeletClient c, pairOf CertificateAPIServer c, pairOf CertificateAdminClient c,
     pairOf CertificateControllerManagerClient c, pairOf CertificateProxyClient c, pairOf CertificateSchedulerClient c,
     pairOf CertificateKubeletClient c, (K8sdPrivateKey c, K8sdPublicKey c)]"
  by (simp add: leafPairs_def)

abbreviation present :: "string \<times> string \<Rightarrow> bool" where
  "present p \<equiv> fst p \<noteq> [] \<and> snd p \<noteq> []"

lemma completed_pairOf:
  assumes "list_all2 completedPair (leafPairs c) (leafPairs c')" "\<forall>s. name \<noteq> OtherCertificate s"
  shows "present (pairOf name c') \<and> (present (pairOf name c) \<longrightarrow> pairOf name c' = pairOf name c)"
  using assms by (cases name) (simp_all add: leafPairs_def completedPair_def)

text \<open>The two passes of reading bring every certificate of the node, whichever CAs it manages.\<close>

lemma stored_twice:
  "pairOf name (storedPKI False pki (storedPKI True pki c)) = pairOf name pki"
  by (cases name) (simp_all add: storedPKI_def Let_def)

lemma stored_twice_CA:
  "map fst (caPairs (storedPKI False pki (storedPKI True pki c))) = map fst (caPairs pki)"
  "ServiceAccountKey (storedPKI False pki (storedPKI True pki c)) = ServiceAccountKey pki"
  by (simp_all add: storedPKI_def Let_def caPairs_def)

lemma allPresent_pairOf:
  "allPresent pki \<Longrightarrow> \<forall>s. name \<noteq> OtherCertificate s \<Longrightarrow> present (pairOf name pki)"
  by (cases name) (simp_all add: allPresent_def leafPairs_def)

lemma allPresent_completed:
  assumes "list_all2 completedPair (leafPairs c) (leafPairs c')" "list_all (\<lambda>(cert, _). cert \<noteq> []) (caPairs c')"
    "ServiceAccountKey c' \<noteq> []"
  shows "allPresent c'"
  using assms by (simp add: allPresent_def leafPairs_def completedPair_def)

lemma ReadControlPlanePKI_cong:
  assumes "H_files h' = H_files h" "H_fault h' = H_fault h"
  shows "ReadControlPlanePKI io managed c h' = ReadControlPlanePKI io managed c h"
proof -
  have f1: "FileExists h' = FileExists h" unfolding FileExists_def osStat_cong [OF assms] ..
  have f2: "readFileLoop h' es c = readFileLoop h es c" for es c
    by (induction es arbitrary: c) (auto simp: ReadFile_cong [OF assms] split: sum.split)
  have f3: "readKubeconfigLoop io h' rd es c = readKubeconfigLoop io h rd es c" for rd es c
    by (induction es arbitrary: c)
      (auto simp: LoadFromFile_def ReadFile_cong [OF assms] Let_def split: sum.split option.split)
  show ?thesis unfolding ReadControlPlanePKI_def f1 f2 f3 ..
qed

lemma asyncRestart_frame:
  assumes "\<And>h. H_files (fst (f h)) = H_files h" "\<And>h. H_fault (fst (f h)) = H_fault h"
  shows "H_files (asyncRestart r f h) = H_files h" "H_fault (asyncRestart r f h) = H_fault h"
  using assms by (simp_all add: asyncRestart_def split: sum.split)

lemma RestartServices_frame:
  "H_files (fst (RestartServices h svcs extra)) = H_files h" "H_fault (fst (RestartServices h svcs extra)) = H_fault h"
  by (simp_all add: RestartServices_def runCommand_def)

lemma RestartControlPlaneServices_frame:
  "H_files (fst (RestartControlPlaneServices h kp extra)) = H_files h"
  "H_fault (fst (RestartControlPlaneServices h kp extra)) = H_fault h"
  using RestartServices_frame by (simp_all add: RestartControlPlaneServices_def Let_def tryStep_fst)

text \<open>The stages of a control plane refresh that reports success.\<close>

lemma writeRefreshed_ok:
  assumes "writeRefreshed x io env cfg c (n, h) = ((n', h'), SyncResponse e)"
  shows "n' = n \<and> (\<exists>h1 ch h2 ip cert key. EnsureControlPlanePKI c h = (h1, Inr ch)
    \<and> SetupControlPlaneKubeconfigs io (Inr ip) KubernetesConfigDir (getInt (APIServer_SecurePort (CC_APIServer cfg))) c h1 = (h2, ok)
    \<and> LoadCertificate x (APIServerCert c) [] = Inr (cert, key) \<and> e = NotAfter cert
    \<and> h' = asyncRestart (Env_Rendered env) (\<lambda>h. RestartControlPlaneServices h (GetKubeProxyEnabled (CC_Network cfg)) []) h2)"
proof -
  obtain h1 r1 where e1: "EnsureControlPlanePKI c h = (h1, r1)" by (cases "EnsureControlPlanePKI c h")
  let ?conf = "SetupControlPlaneKubeconfigs io (Env_Localhost env) KubernetesConfigDir (getInt (APIServer_SecurePort (CC_APIServer cfg))) c h1"
  obtain h2 r2 where e2: "?conf = (h2, r2)" by (cases ?conf)
  from assms e1 e2 obtain ch cert key where r: "r1 = Inr ch" "r2 = ok" "LoadCertificate x (APIServerCert c) [] = Inr (cert, key)"
    "e = NotAfter cert" "n' = n"
    "h' = asyncRestart (Env_Rendered env) (\<lambda>h. RestartControlPlaneServices h (GetKubeProxyEnabled (CC_Network cfg)) []) h2"
    by (auto simp: writeRefreshed_def orFail_sync_iff)
  moreover from e2 r(2) obtain ip where "Env_Localhost env = Inr ip"
    by (cases "Env_Localhost env") (auto simp: SetupControlPlaneKubeconfigs_def)
  ultimately show ?thesis using e1 e2 by auto
qed

lemma refreshedPKI_ok:
  assumes "refreshedPKI x a io env certs c k (n, h) = (st, SyncResponse e)"
  shows "\<exists>c1 c2 c3 c4 n'. ReadControlPlanePKI io True c h = Inr c1 \<and> ReadControlPlanePKI io False c1 h = Inr c2
    \<and> markCertificatesForRefresh a certs c2 = (c3, ok) \<and> CompleteCertificates x (Env_InterfaceAddrs env) c3 n = (n', Inr c4)
    \<and> k (n', h) c4 = (st, SyncResponse e)"
proof -
  from assms obtain c1 c2 where read: "ReadControlPlanePKI io True c h = Inr c1" "ReadControlPlanePKI io False c1 h = Inr c2"
    by (auto simp: refreshedPKI_def orFail_sync_iff)
  obtain c3 m where mark: "markCertificatesForRefresh a certs c2 = (c3, m)" by (cases "markCertificatesForRefresh a certs c2")
  obtain n' r where comp: "CompleteCertificates x (Env_InterfaceAddrs env) c3 n = (n', r)"
    by (cases "CompleteCertificates x (Env_InterfaceAddrs env) c3 n")
  show ?thesis using assms read mark comp by (auto simp: refreshedPKI_def orFail_sync_iff)
qed

lemma refreshCertsRunControlPlane_stages:
  assumes "refreshCertsRunControlPlane x a io j env db (Inr req) (n, h) = (st, SyncResponse e)"
    and certs: "certs = (if Req_Certificates req = [] then getAllCertsForRole a ClusterRoleControlPlane
                         else toCertificateNames a (Req_Certificates req))"
  shows "\<exists>cfg nodeIP ips. util_GetClusterConfig j db = Inr cfg \<and>
    refreshedPKI x a io env certs (refreshPKI x env cfg nodeIP ips req) (\<lambda>st c. writeRefreshed x io env cfg c st) (n, h)
      = (st, SyncResponse e)"
  using assms(1) unfolding certs
  by (auto simp: refreshCertsRunControlPlane_def orFail_sync_iff toCertificateNames_def Let_def
      split: option.splits if_splits)

text \<open>
  Refreshing certificates of a control plane node replaces what was asked for and nothing
  else. Let the node hold a complete set of certificates. When the refresh reports success, the
  node holds a complete set again, with every requested certificate (all of the role when none was
  named) completed after it was cleared; every other one is the old one, and the CA certificates and the
  service account key are kept. The reported expiration is that of the new API server certificate.
\<close>

theorem refreshCertsRunControlPlane_scope:
  assumes codec: "kubeconfigCodec io" and h0: "noFaults h0" and pki: "allPresent pki" and pem: "pemNonEmpty x"
    and files: "EnsureControlPlanePKI pki h0 = (h1, Inr ch)"
    and confs: "SetupControlPlaneKubeconfigs io (Inr ip) KubernetesConfigDir port pki h1 = (h, ok)"
    and run: "refreshCertsRunControlPlane x a io j env db (Inr req) (n, h) = ((n', h'), SyncResponse e)"
  shows "let certs = (if Req_Certificates req = [] then getAllCertsForRole a ClusterRoleControlPlane
                      else toCertificateNames a (Req_Certificates req)) in
    \<exists>pki'. (\<forall>managed c. ReadControlPlanePKI io managed c h' = Inr (storedPKI managed pki' c)) \<and> allPresent pki' \<and>
      (\<forall>name. (\<forall>s. name \<noteq> OtherCertificate s) \<and> name \<notin> set certs \<longrightarrow> pairOf name pki' = pairOf name pki) \<and>
      map fst (caPairs pki') = map fst (caPairs pki) \<and> ServiceAccountKey pki' = ServiceAccountKey pki \<and>
      (\<exists>cert key. LoadCertificate x (APIServerCert pki') [] = Inr (cert, key) \<and> e = NotAfter cert)"
proof -
  let ?certs = "if Req_Certificates req = [] then getAllCertsForRole a ClusterRoleControlPlane
      else toCertificateNames a (Req_Certificates req)"
  have reads: "ReadControlPlanePKI io managed c h = Inr (storedPKI managed pki c)" for managed c
    by (rule ReadControlPlanePKI_reads [OF codec h0 pki files confs])
  have nf: "noFaults h"
    using kubeconfigs_stored [OF codec _ pki confs] ensureFiles_ok [OF noFaults_honest [OF h0] controlPlaneFiles_good
        files [unfolded EnsureControlPlanePKI_def]] h0 by (simp add: noFaults_def)
  obtain cfg nodeIP ips where r: "refreshedPKI x a io env ?certs (refreshPKI x env cfg nodeIP ips req)
      (\<lambda>st c. writeRefreshed x io env cfg c st) (n, h) = ((n', h'), SyncResponse e)"
    using refreshCertsRunControlPlane_stages [OF run refl] by blast
  let ?c0 = "refreshPKI x env cfg nodeIP ips req"
  let ?c2 = "storedPKI False pki (storedPKI True pki ?c0)"
  from refreshedPKI_ok [OF r] obtain c3 c4 n1 where
    mark: "markCertificatesForRefresh a ?certs ?c2 = (c3, ok)" and
    comp: "CompleteCertificates x (Env_InterfaceAddrs env) c3 n = (n1, Inr c4)" and
    wr: "writeRefreshed x io env cfg c4 (n1, h) = ((n', h'), SyncResponse e)"
    by (auto simp: reads)
  from writeRefreshed_ok [OF wr] obtain h2 ch2 h3 ip2 cert key where
    w: "EnsureControlPlanePKI c4 h = (h2, Inr ch2)"
      "SetupControlPlaneKubeconfigs io (Inr ip2) KubernetesConfigDir (getInt (APIServer_SecurePort (CC_APIServer cfg))) c4 h2 = (h3, ok)"
      "LoadCertificate x (APIServerCert c4) [] = Inr (cert, key)" "e = NotAfter cert" and
    h': "h' = asyncRestart (Env_Rendered env) (\<lambda>h. RestartControlPlaneServices h (GetKubeProxyEnabled (CC_Network cfg)) []) h3"
    by blast
  note marked = markCertificatesForRefresh_ok [OF mark]
  note done' = CompleteCertificates_pairs [OF pem comp]
  have ca: "list_all (\<lambda>(cert, _). cert \<noteq> []) (caPairs ?c2)" "ServiceAccountKey ?c2 \<noteq> []"
    using pki by (simp_all add: allPresent_def caPairs_def storedPKI_def Let_def)
  have roots: "caPairs c3 = caPairs ?c2" "ServiceAccountKey c3 = ServiceAccountKey ?c2"
    using marked by (simp_all add: rootsOf_def)
  have ca4: "caPairs c4 = caPairs c3" "ServiceAccountKey c4 = ServiceAccountKey c3"
    using done' ca unfolding roots [symmetric] by (auto simp: caPairs_def)
  have full: "allPresent c4"
    using done' ca by (intro allPresent_completed [of c3 c4]) (simp_all add: ca4 roots)
  have others: "pairOf name c4 = pairOf name pki" if "\<forall>s. name \<noteq> OtherCertificate s" "name \<notin> set ?certs" for name
  proof -
    have "pairOf name c3 = pairOf name pki" using marked [of name] that(2) stored_twice by simp
    then show ?thesis using completed_pairOf [OF _ that(1), of c3 c4] done' allPresent_pairOf [OF pki that(1)] by simp
  qed
  have frame: "H_files h' = H_files h3" "H_fault h' = H_fault h3"
    unfolding h' by (intro asyncRestart_frame RestartControlPlaneServices_frame)+
  have "ReadControlPlanePKI io managed c h' = Inr (storedPKI managed c4 c)" for managed c
    unfolding ReadControlPlanePKI_cong [OF frame] by (rule ReadControlPlanePKI_reads [OF codec nf full w(1,2)])
  then show ?thesis
    unfolding Let_def using full others ca4 roots stored_twice_CA [of pki ?c0] w(3,4) by (intro exI [of _ c4]) simp
qed

text \<open>A node whose certificates all come from the sample primitives.\<close>

definition signedPKI :: ControlPlanePKI where
  "signedPKI = samplePKI
     \<lparr>CACert := ''CERTIFICATE|c'', CAKey := ''RSA PRIVATE KEY|k'', ClientCACert := ''CERTIFICATE|c'', ClientCAKey := ''RSA PRIVATE KEY|k'',
      FrontProxyCACert := ''CERTIFICATE|c'', FrontProxyCAKey := ''RSA PRIVATE KEY|k'',
      FrontProxyClientCert := ''CERTIFICATE|c'', FrontProxyClientKey := ''RSA PRIVATE KEY|k'', ServiceAccountKey := ''RSA PRIVATE KEY|k'',
      APIServerCert := ''CERTIFICATE|c'', APIServerKey := ''RSA PRIVATE KEY|k'', KubeletCert := ''CERTIFICATE|c'', KubeletKey := ''RSA PRIVATE KEY|k'',
      AdminClientCert := ''CERTIFICATE|c'', AdminClientKey := ''RSA PRIVATE KEY|k'',
      KubeControllerManagerClientCert := ''CERTIFICATE|c'', KubeControllerManagerClientKey := ''RSA PRIVATE KEY|k'',
      KubeSchedulerClientCert := ''CERTIFICATE|c'', KubeSchedulerClientKey := ''RSA PRIVATE KEY|k'',
      KubeProxyClientCert := ''CERTIFICATE|c'', KubeProxyClientKey := ''RSA PRIVATE KEY|k'',
      KubeletClientCert := ''CERTIFICATE|c'', KubeletClientKey := ''RSA PRIVATE KEY|k'',
      APIServerKubeletClientCert := ''CERTIFICATE|c'', APIServerKubeletClientKey := ''RSA PRIVATE KEY|k'',
      K8sdPublicKey := ''PUBLIC KEY|p'', K8sdPrivateKey := ''RSA PRIVATE KEY|k''\<rparr>"

lemma signedPKI_present: "allPresent signedPKI"
  by (simp add: allPresent_def leafPairs_def caPairs_def signedPKI_def)

definition sampleApi :: certApi where
  "sampleApi = \<lparr>certificateName = (\<lambda>s. if s = ''kubelet'' then CertificateKubelet else if s = ''proxy'' then CertificateProxyClient
       else OtherCertificate s), certificateString = (\<lambda>c. ''name''),
     CertificatesByRole = (\<lambda>r. Some (if r = ClusterRoleWorker then [CertificateKubelet, CertificateKubeletClient, CertificateProxyClient]
       else [CertificateAPIServer, CertificateKubelet, CertificateProxyClient]))\<rparr>"

definition sampleEnv :: nodeEnv where
  "sampleEnv = \<lparr>Env_Name = ''n1'', Env_Address = ''10.0.0.1'', Env_InterfaceAddrs = Inr [], Env_Localhost = Inr [127, 0, 0, 1],
     Env_Rendered = ok\<rparr>"

definition sampleCidrJson :: json where
  "sampleCidrJson = \<lparr>jsonMarshal = (\<lambda>_. Inr ''{}''),
     jsonUnmarshal = (\<lambda>_. Inr (emptyClusterConfig\<lparr>CC_Network := emptyNetwork\<lparr>Network_ServiceCIDR := Some ''10.152.183.0/24''\<rparr>\<rparr>))\<rparr>"

definition sampleRefresh :: "string list \<Rightarrow> RefreshRequest" where
  "sampleRefresh certs = \<lparr>Req_Certificates = certs, Req_Seed = 1, Req_ExpirationSeconds = 86400, Req_ExtraSANs = []\<rparr>"

lemma sampleCidr_config:
  "util_GetClusterConfig sampleCidrJson sampleDB =
     Inr (emptyClusterConfig\<lparr>CC_Network := emptyNetwork\<lparr>Network_ServiceCIDR := Some ''10.152.183.0/24''\<rparr>\<rparr>)"
  by (simp add: util_GetClusterConfig_def GetClusterConfig_def sampleDB_facts)
    (simp add: sampleDB_def sampleCidrJson_def)

lemma sample_CA_given: "completeCA sampleCrypto allow nb na cn m1 m2 m3 (''CERTIFICATE|c'', ''RSA PRIVATE KEY|k'') n =
    (n, Inr (''CERTIFICATE|c'', ''RSA PRIVATE KEY|k''))"
  by (simp add: pki_eval)

lemma sample_validate: "CN chk = [] \<Longrightarrow> Check_O chk = [] \<Longrightarrow>
    ValidateKeypair sampleCrypto chk ''CERTIFICATE|c'' ''RSA PRIVATE KEY|k'' = ok"
  by (simp add: pki_eval each_ok_iff)

lemma sample_complete_kubelet:
  assumes "allowSelfSignedCA c" "includeMachineAddressSANs c" "K8sdPrivateKey c = []"
  shows "\<exists>n' c'. CompleteCertificates sampleCrypto (Inr [])
     ((storedPKI False signedPKI (storedPKI True signedPKI c))\<lparr>KubeletCert := [], KubeletKey := []\<rparr>) 0 = (n', Inr c')"
proof -
  have gen: "tryStep (GenerateCertificate sampleCrypto sub nb na False dns ips n) m as k =
      k (Suc n) (the (Some (case snd (GenerateCertificate sampleCrypto sub nb na False dns ips n) of Inr t \<Rightarrow> t)))"
    for sub nb na dns ips n m as and k :: "nat \<Rightarrow> Certificate \<Rightarrow> (nat, ControlPlanePKI) step"
    by (simp add: pki_eval)
  show ?thesis
    using assms
    by (simp add: CompleteCertificates_def checkKeysHaveCerts_def machineIPs_def storedPKI_def signedPKI_def Let_def
        complete_defs sample_CA_given sample_validate noCheck_def sample_load sample_sign sample_rsa sample_sign_step gen)
qed

theorem refreshCertsRunControlPlane_scope_witness:
  "\<exists>h n' h' e pki'. (\<forall>managed c. ReadControlPlanePKI sampleIO managed c h = Inr (storedPKI managed signedPKI c)) \<and>
     refreshCertsRunControlPlane sampleCrypto sampleApi sampleIO sampleCidrJson sampleEnv sampleDB (Inr (sampleRefresh [''kubelet'']))
       (0, h) = ((n', h'), SyncResponse e) \<and>
     (\<forall>managed c. ReadControlPlanePKI sampleIO managed c h' = Inr (storedPKI managed pki' c)) \<and> KubeletCert pki' \<noteq> [] \<and>
     APIServerCert pki' = ''CERTIFICATE|c''"
proof -
  have wr: "\<exists>h1 ch h. EnsureControlPlanePKI pki h0 = (h1, Inr ch) \<and> noFaults h \<and>
      SetupControlPlaneKubeconfigs sampleIO (Inr ip) KubernetesConfigDir port pki h1 = (h, ok)"
    if pk: "allPresent pki" and nf: "noFaults h0" for pki h0 ip port
  proof -
    obtain h1 ch where e: "EnsureControlPlanePKI pki h0 = (h1, Inr ch)"
      using ensureFiles_total [OF nf] unfolding EnsureControlPlanePKI_def by blast
    have "noFaults h1"
      using ensureFiles_ok [OF noFaults_honest [OF nf] controlPlaneFiles_good e [unfolded EnsureControlPlanePKI_def]] nf
      by (simp add: noFaults_def)
    then show ?thesis
      using e kubeconfigLoop_ok [OF sampleIO_codec _ kubeconfigs_distinct kubeconfigs_present [OF pk], of h1]
      unfolding SetupControlPlaneKubeconfigs_def by fastforce
  qed
  obtain h1 ch h where h: "EnsureControlPlanePKI signedPKI emptyHost = (h1, Inr ch)" "noFaults h"
    "SetupControlPlaneKubeconfigs sampleIO (Inr [127, 0, 0, 1]) KubernetesConfigDir 6443 signedPKI h1 = (h, ok)"
    using wr [OF signedPKI_present emptyHost_noFaults] by blast
  note reads = ReadControlPlanePKI_reads [OF sampleIO_codec emptyHost_noFaults signedPKI_present h(1,3)]
  let ?cfg = "emptyClusterConfig\<lparr>CC_Network := emptyNetwork\<lparr>Network_ServiceCIDR := Some ''10.152.183.0/24''\<rparr>\<rparr>"
  have "ParseIP ''10.0.0.1'' \<noteq> None" by (simp add: net_eval)
  then obtain nodeIP where ip: "ParseIP ''10.0.0.1'' = Some nodeIP" by blast
  obtain ips where ips: "GetKubernetesServiceIPsFromServiceCIDRs ''10.152.183.0/24'' = Inr ips"
    by (simp add: GetKubernetesServiceIPsFromServiceCIDRs_def GetFirstIP_def parse_10_152_183)
  let ?c0 = "refreshPKI sampleCrypto sampleEnv ?cfg nodeIP ips (sampleRefresh [''kubelet''])"
  have c0: "allowSelfSignedCA ?c0" "includeMachineAddressSANs ?c0" "K8sdPrivateKey ?c0 = []"
    by (simp_all add: refreshPKI_def sampleRefresh_def SplitIPAndDNSSANs_def NewControlPlanePKI_def empty_defs)
  let ?c3 = "(storedPKI False signedPKI (storedPKI True signedPKI ?c0))\<lparr>KubeletCert := [], KubeletKey := []\<rparr>"
  obtain n1 c4 where comp: "CompleteCertificates sampleCrypto (Inr []) ?c3 0 = (n1, Inr c4)"
    using sample_complete_kubelet [OF c0] by blast
  note pairs = CompleteCertificates_pairs [OF sampleCrypto_pem comp]
  have "list_all (\<lambda>(cert, _). cert \<noteq> []) (caPairs c4)" using pairs by (auto simp: caPairs_def)
  then have "allPresent c4" using pairs by (intro allPresent_completed [of ?c3 c4]) simp_all
  moreover have "pairOf CertificateAPIServer ?c3 = pairOf CertificateAPIServer signedPKI"
    using stored_twice [of CertificateAPIServer signedPKI ?c0] by simp
  then have "APIServerCert c4 = ''CERTIFICATE|c''"
    using completed_pairOf [of ?c3 c4 CertificateAPIServer] pairs by (simp add: signedPKI_def)
  ultimately have c4: "allPresent c4" "APIServerCert c4 = ''CERTIFICATE|c''" .
  obtain h2 ch2 h3 where h3: "EnsureControlPlanePKI c4 h = (h2, Inr ch2)"
    "SetupControlPlaneKubeconfigs sampleIO (Inr [127, 0, 0, 1]) KubernetesConfigDir 0 c4 h2 = (h3, ok)"
    using wr [OF c4(1) h(2)] by blast
  have mark: "markCertificatesForRefresh sampleApi [CertificateKubelet] c = (c\<lparr>KubeletCert := [], KubeletKey := []\<rparr>, ok)" for c
    by (simp add: certificateMarker_def keyMarker_def)
  have load: "LoadCertificate sampleCrypto ''CERTIFICATE|c'' [] = Inr (sampleCert, None)"
    by (simp add: LoadCertificate_def sampleCrypto_def)
  have env: "Env_Address sampleEnv = ''10.0.0.1''" "Env_InterfaceAddrs sampleEnv = Inr []" "Env_Localhost sampleEnv = Inr [127, 0, 0, 1]"
    by (simp_all add: sampleEnv_def)
  have port: "APIServer_SecurePort (CC_APIServer emptyClusterConfig) = None" by (simp add: empty_defs)
  have names: "toCertificateNames sampleApi (Req_Certificates (sampleRefresh [''kubelet''])) = [CertificateKubelet]"
    "validateCertificatesByRole sampleApi ClusterRoleControlPlane [CertificateKubelet] = ok"
    by (simp_all add: toCertificateNames_def sampleApi_def sampleRefresh_def validateCertificatesByRole_def)
  have "\<exists>n' h' e. refreshCertsRunControlPlane sampleCrypto sampleApi sampleIO sampleCidrJson sampleEnv sampleDB
      (Inr (sampleRefresh [''kubelet''])) (0, h) = ((n', h'), SyncResponse e)"
    by (simp add: refreshCertsRunControlPlane_def names sampleCidr_config env port ip ips refreshedPKI_def reads mark comp
        writeRefreshed_def h3 load c4(2) Let_def del: markCertificatesForRefresh.simps)
  then obtain n' h' e where run: "refreshCertsRunControlPlane sampleCrypto sampleApi sampleIO sampleCidrJson sampleEnv sampleDB
      (Inr (sampleRefresh [''kubelet''])) (0, h) = ((n', h'), SyncResponse e)" by blast
  have certs: "(if Req_Certificates (sampleRefresh [''kubelet'']) = [] then getAllCertsForRole sampleApi ClusterRoleControlPlane
      else toCertificateNames sampleApi (Req_Certificates (sampleRefresh [''kubelet'']))) = [CertificateKubelet]"
    unfolding names by (simp add: sampleRefresh_def)
  from refreshCertsRunControlPlane_scope [OF sampleIO_codec emptyHost_noFaults signedPKI_present sampleCrypto_pem h(1,3) run,
      unfolded Let_def certs]
  obtain pki' where p: "\<forall>managed c. ReadControlPlanePKI sampleIO managed c h' = Inr (storedPKI managed pki' c)" "allPresent pki'"
    "\<forall>name. (\<forall>s. name \<noteq> OtherCertificate s) \<and> name \<notin> set [CertificateKubelet] \<longrightarrow> pairOf name pki' = pairOf name signedPKI"
    by (elim exE conjE) (rule that)
  then have "KubeletCert pki' \<noteq> []" "APIServerCert pki' = ''CERTIFICATE|c''"
    using allPresent_pairOf [OF p(2), of CertificateKubelet] spec [OF p(3), of CertificateAPIServer] by (simp_all add: signedPKI_def)
  with p(1) reads run show ?thesis by blast
qed

section \<open>A worker's request is issued\<close>

text \<open>
  What is documented of the primitives: a PEM block decodes to what was encoded, a created request
  parses with its subject, and decryption undoes encryption for the cluster's key pair.
\<close>

definition csrPrimitives :: "'key crypto \<Rightarrow> ('key, 'pub) csrCrypto \<Rightarrow> 'pub \<Rightarrow> 'key \<Rightarrow> bool" where
  "csrPrimitives x z pub priv \<longleftrightarrow>
     (\<forall>b s. pemEncode x ''CERTIFICATE REQUEST'' b = Some s \<longrightarrow> pemDecode x s = Some (''CERTIFICATE REQUEST'', b)) \<and>
     (\<forall>n sub dns ips key b. CreateCertificateRequest z n sub dns ips key = Inr b \<longrightarrow>
        (\<exists>csr. ParseCertificateRequest z b = Inr csr \<and> CR_Subject csr = sub)) \<and>
     (\<forall>n m c. EncryptPKCS1v15 z n pub m = Inr c \<longrightarrow> DecryptPKCS1v15 z priv c = Inr m)"

lemma GenerateCSR_loads:
  assumes prim: "csrPrimitives x z pub priv" and gen: "GenerateCSR x z sub bits dns ips n = (n', Inr (csrPEM, keyPEM))"
  shows "\<exists>csr. LoadCertificateRequest x z csrPEM = Inr csr \<and> CR_Subject csr = sub"
proof -
  from gen obtain m key b where b: "CreateCertificateRequest z m sub dns ips key = Inr b"
    "pemEncode x ''CERTIFICATE REQUEST'' b = Some csrPEM"
    by (auto simp: GenerateCSR_def tryStep_ok_iff tryPass_ok_iff split: option.splits)
  from prim b(1) obtain csr where "ParseCertificateRequest z b = Inr csr" "CR_Subject csr = sub"
    unfolding csrPrimitives_def by blast
  moreover have "pemDecode x csrPEM = Some (''CERTIFICATE REQUEST'', b)"
    using prim b(2) unfolding csrPrimitives_def by blast
  ultimately show ?thesis by (simp add: LoadCertificateRequest_def)
qed

text \<open>The object as the API server stores it: with the user and the groups of the node that sent it.\<close>

definition submitted :: "string \<Rightarrow> string list \<Rightarrow> CertificateSigningRequest \<Rightarrow> CertificateSigningRequest" where
  "submitted host groups obj = obj\<lparr>Spec_Username := ''system:node:'' @ host, Spec_Groups := groups\<rparr>"

lemma worker_csr_validates:
  assumes prim: "csrPrimitives x z pub priv" and host: "validHostname z host"
    and d: "(name, d) \<in> set (getWorkerCSRDefinitions host)"
    and gen: "GenerateCSR x z \<lparr>CommonName = Def_CommonName d, Organization = Def_Organization d\<rparr> bits dns ips n = (n', Inr (csrPEM, keyPEM))"
    and sig: "EncryptPKCS1v15 z m pub (sumSHA256 z csrPEM) = Inr sig" and groups: "''system:nodes'' \<in> set groups"
  shows "validateCSR x z (submitted host groups (workerCSR d host seed secs csrPEM sig)) priv = ok"
proof -
  let ?o = "submitted host groups (workerCSR d host seed secs csrPEM sig)"
  from GenerateCSR_loads [OF prim gen] obtain csr where csr: "LoadCertificateRequest x z csrPEM = Inr csr"
    "CR_Subject csr = \<lparr>CommonName = Def_CommonName d, Organization = Def_Organization d\<rparr>" by blast
  have sealed: "sealedBy z priv csrPEM (base64Encode sig)"
    using prim sig b64.decode_encode unfolding sealedBy_def csrPrimitives_def by blast
  have spec: "Def_SignerName d \<in> managedSignerNames"
    "set (Def_Usages d) = {expectedUsage (Def_SignerName d), UsageDigitalSignature, UsageKeyEncipherment}"
    "(Def_CommonName d, set (Def_Organization d)) = expectedSubject (Def_SignerName d) host"
    using d by (auto simp: getWorkerCSRDefinitions_def managedSignerNames_def expectedUsage_def expectedSubject_def)
  show ?thesis
    unfolding validateCSR_ok_iff
    by (rule exI [of _ csr], rule exI [of _ host])
      (use csr sealed spec host groups in \<open>simp add: submitted_def workerCSR_def\<close>)
qed

text \<open>An API server that holds one object and accepts every update.\<close>

definition holding :: "CertificateSigningRequest \<Rightarrow> csrClient" where
  "holding obj = \<lparr>getCSR = (\<lambda>_. Inr (Some obj)), putStatus = (\<lambda>_. ok), putApproval = (\<lambda>_. ok)\<rparr>"

definition approvedByK8sd :: Condition where
  "approvedByK8sd = \<lparr>Condition_Type = CertificateApproved, Condition_Status = True, Condition_Reason = ''K8sdApprove'',
     Condition_Message = ''CSR approved by k8sd''\<rparr>"

lemma reconcile_approves:
  assumes "validateCSR x z obj priv = ok" "Status_Certificate obj = []" "Status_Conditions obj = []"
    "Spec_SignerName obj \<in> managedSignerNames" "internalConfigFromAnnotations z (CC_Annotations cfg)"
    "getStr (Certificates_K8sdPrivateKey (CC_Certificates cfg)) = keyPEM" "keyPEM \<noteq> []" "LoadRSAPrivateKey x keyPEM = Inr priv"
  shows "CSR_Reconcile x z es (holding obj) (Inr cfg) name (n, []) =
    ((n, [UpdateApproval (addCondition approvedByK8sd obj)]), Inr 0)"
  using assms by (simp add: CSR_Reconcile_def holding_def approveOrWait_def reconcileAutoApprove_def Let_def sendUpdate_def
      approvedByK8sd_def)

lemma reconcile_signs:
  assumes obj: "Status_Certificate obj = []" "Status_Conditions obj = []" "Spec_SignerName obj \<in> managedSignerNames"
    and req: "LoadCertificateRequest x z (Spec_Request obj) = Inr req"
    and ca: "LoadCertificate x (fst (csrCA cfg obj)) (snd (csrCA cfg obj)) = Inr (caCert, Some key)"
    and rand: "randInt x n = Inr serial"
    and der: "CreateCertificateFor z (Suc n) (csrTemplate x obj req serial) caCert (CR_PublicKey req) key = Inr der"
    and crt: "pemEncode x ''CERTIFICATE'' der = Some crt"
  shows "CSR_Reconcile x z es (holding (addCondition approvedByK8sd obj)) (Inr cfg) name (n, []) =
    ((n + 2, [UpdateStatus ((addCondition approvedByK8sd obj)\<lparr>Status_Certificate := crt\<rparr>)]), Inr 0)"
proof -
  let ?o1 = "addCondition approvedByK8sd obj"
  have "csrCA cfg ?o1 = csrCA cfg obj" "csrTemplate x ?o1 req serial = csrTemplate x obj req serial"
    "Spec_Request ?o1 = Spec_Request obj" "Spec_SignerName ?o1 = Spec_SignerName obj" "Status_Certificate ?o1 = []"
    "scanConditions (Status_Conditions ?o1) False = Some True"
    using obj by (simp_all add: addCondition_def approvedByK8sd_def csrCA_def csrTemplate_def csrNotAfter_def Let_def)
  then show ?thesis
    using obj(3) req ca rand der crt
    by (simp add: CSR_Reconcile_def holding_def signApproved_def signCSR_def split_beta sendUpdate_def)
qed


text \<open>Primitives for which the assumptions hold; a certificate request is its subject's common name and organization.\<close>

definition sampleCSRCrypto :: "(unit, unit) csrCrypto" where
  "sampleCSRCrypto = \<lparr>ParseCertificateRequest = (\<lambda>b. Inr \<lparr>CR_Subject =
        \<lparr>CommonName = b, Organization = (if b = ''system:kube-proxy'' then [] else [''system:nodes''])\<rparr>,
        CR_DNSNames = [], CR_IPAddresses = [], CR_PublicKey = ()\<rparr>),
     CreateCertificateRequest = (\<lambda>_ sub _ _ _. if Organization sub = (if CommonName sub = ''system:kube-proxy'' then [] else [''system:nodes''])
        then Inr (CommonName sub) else Inl (Errorf [] [])),
     EncryptPKCS1v15 = (\<lambda>_ _ m. Inr m), DecryptPKCS1v15 = (\<lambda>_ c. Inr c), sumSHA256 = (\<lambda>s. s),
     CreateCertificateFor = (\<lambda>_ _ _ _ _. Inr ''c''), idnaToASCII = Inr, AnnotationAutoApprove = ''auto''\<rparr>"

definition sampleIssuerConfig :: ClusterConfig where
  "sampleIssuerConfig = emptyClusterConfig\<lparr>CC_Annotations := Some [''auto'' \<mapsto> ''true''],
     CC_Certificates := emptyCertificates\<lparr>Certificates_CACert := Some ''CERTIFICATE|c'', Certificates_CAKey := Some ''RSA PRIVATE KEY|k'',
       Certificates_ClientCACert := Some ''CERTIFICATE|c'', Certificates_ClientCAKey := Some ''RSA PRIVATE KEY|k'',
       Certificates_K8sdPrivateKey := Some ''RSA PRIVATE KEY|k''\<rparr>\<rparr>"

lemma sample_csrPrimitives: "csrPrimitives sampleCrypto sampleCSRCrypto () ()"
  by (simp add: csrPrimitives_def sampleCrypto_def sampleCSRCrypto_def Let_def)


section \<open>A worker refresh that leaves out the kubelet certificate\<close>

lemma requestCertificates_keeps_kubelet:
  "CertificateKubelet \<notin> set certs \<Longrightarrow> requestCertificates request host a certs w n = (n', Inr w') \<Longrightarrow>
   W_KubeletCert w' = W_KubeletCert w \<and> W_KubeletKey w' = W_KubeletKey w"
proof (induction request host a certs w n rule: requestCertificates.induct)
  case (2 request host a c cs w n)
  from 2(3) obtain d setPair n1 pair where s: "map_of (getWorkerCSRDefinitions host) c = Some d" "setWorkerPair c = Some setPair"
    "request d n = (n1, Inr pair)" "requestCertificates request host a cs (setPair pair w) n1 = (n', Inr w')"
    by (auto simp: tryStep_ok_iff split: option.splits)
  have "W_KubeletCert (setPair pair w) = W_KubeletCert w \<and> W_KubeletKey (setPair pair w) = W_KubeletKey w"
    using s(2) 2(2) by (cases pair) (auto simp: setWorkerPair_def split: CertificateName.splits)
  with 2(1) [OF s(1,2), of pair n1] 2(2) s(4) show ?case by simp
qed simp

lemma kubeconfigLoop_frame:
  "p \<notin> (pathJoin dir \<circ> fst) ` set ks \<Longrightarrow> H_files (fst (kubeconfigLoop io dir url ca ks h)) p = H_files h p"
proof (induction io dir url ca ks h rule: kubeconfigLoop.induct)
  case (2 io dir url ca f crt key ks h)
  have "H_files (fst (Kubeconfig io (pathJoin dir f) url ca crt key h)) p = H_files h p"
    using 2(2) by (auto simp: Kubeconfig_def osWriteFile_def tryStep_def split: sum.split option.split)
  with 2 show ?case by (auto simp: tryStep_def split: prod.split sum.split)
qed simp

lemma workerFiles_good: "goodMap (workerFiles w)"
  by (simp add: workerFiles_def snapKubernetesPKIDir_def path_eval)

lemma writeWorkerRefreshed_no_kubelet:
  assumes nf: "noFaults h" and pem: "pemDecode x [] = None" and w: "W_KubeletCert w = []" "W_KubeletKey w = []"
    and run: "writeWorkerRefreshed x io env cfg certs w (n, h) = ((n', h'), r)"
  shows "(\<forall>e. r \<noteq> SyncResponse e) \<and> H_files h' (k8sFile ''kubelet.crt'') = None \<and> H_files h' (k8sFile ''kubelet.key'') = None"
proof -
  obtain h1 ch where e: "EnsureWorkerPKI w h = (h1, Inr ch)"
    using ensureFiles_total [OF nf] unfolding EnsureWorkerPKI_def by blast
  have gone: "H_files h1 (k8sFile ''kubelet.crt'') = None" "H_files h1 (k8sFile ''kubelet.key'') = None"
    using ensureFiles_ok [OF noFaults_honest [OF nf] workerFiles_good e [unfolded EnsureWorkerPKI_def]]
      map_of_is_SomeI [OF workerFiles_good, of _ "[]" w] w
    by (simp_all add: workerFiles_def ensuredNode_def)
  let ?conf = "SetupWorkerKubeconfigs io (Env_Localhost env) KubernetesConfigDir (getInt (APIServer_SecurePort (CC_APIServer cfg))) w h1"
  have frame: "H_files (fst ?conf) (k8sFile f) = H_files h1 (k8sFile f)" if "plainName f" for f
    using that pki_config_paths [OF that, of "''kubelet.conf''"] pki_config_paths [OF that, of "''proxy.conf''"]
    by (auto simp: SetupWorkerKubeconfigs_def kubeconfigLoop_frame plainName_def simp del: kubeconfigLoop.simps split: sum.split)
  have load: "LoadCertificate x [] [] = Inl (Errorf ''failed to parse certificate PEM'' [])"
    using pem by (simp add: LoadCertificate_def)
  obtain h2 r2 where s: "?conf = (h2, r2)" by (cases ?conf)
  have "(\<forall>e. r \<noteq> SyncResponse e) \<and> (h' = h1 \<or> h' = h2)"
    using run e s load w(1) by (cases r2) (auto simp: writeWorkerRefreshed_def split: option.splits)
  with gone frame [of "''kubelet.crt''"] frame [of "''kubelet.key''"] s show ?thesis by (auto simp: plainName_def)
qed

text \<open>A worker refresh for named certificates: it stops before anything is written, or writes what it got.\<close>

lemma refreshCertsRunWorker_stages:
  assumes c: "certs = toCertificateNames a (Req_Certificates req)" "certs \<noteq> []"
    and run: "refreshCertsRunWorker x z parsePKIX a io j env s client db (Inr req) (n, h) = ((n', h'), r)"
  shows "(\<forall>e. r \<noteq> SyncResponse e) \<and> h' = h \<or>
    (\<exists>cl cfg pub hs ips n1 w'.
      requestCertificates (requestCertificate x z cl pub (Hostname s) hs ips req) (Hostname s) a certs
        (emptyWorkerPKI\<lparr>W_CACert := getStr (Certificates_CACert (CC_Certificates cfg)),
           W_ClientCACert := getStr (Certificates_ClientCACert (CC_Certificates cfg))\<rparr>) n = (n1, Inr w') \<and>
      writeWorkerRefreshed x io env cfg certs w' (n1, h) = ((n', h'), r))"
proof (cases "\<exists>cl cfg pub. validateCertificatesByRole a ClusterRoleWorker certs = ok \<and> client = Inr cl \<and> util_GetClusterConfig j db = Inr cfg
    \<and> Certificates_CACert (CC_Certificates cfg) \<noteq> None \<and> Certificates_ClientCACert (CC_Certificates cfg) \<noteq> None
    \<and> LoadRSAPublicKey x parsePKIX (getStr (Certificates_K8sdPublicKey (CC_Certificates cfg))) = Inr pub")
  case False
  show ?thesis
    using run c(2) False
    by (cases "validateCertificatesByRole a ClusterRoleWorker certs"; cases client; cases "util_GetClusterConfig j db";
        cases "LoadRSAPublicKey x parsePKIX (getStr (Certificates_K8sdPublicKey (CC_Certificates (projr (util_GetClusterConfig j db)))))")
      (auto simp: refreshCertsRunWorker_def Let_def c(1) [symmetric] split: if_splits)
next
  case True
  then obtain cl cfg pub where t: "validateCertificatesByRole a ClusterRoleWorker certs = ok" "client = Inr cl"
    "util_GetClusterConfig j db = Inr cfg" "Certificates_CACert (CC_Certificates cfg) \<noteq> None"
    "Certificates_ClientCACert (CC_Certificates cfg) \<noteq> None"
    "LoadRSAPublicKey x parsePKIX (getStr (Certificates_K8sdPublicKey (CC_Certificates cfg))) = Inr pub" by blast
  let ?hs = "Hostname s # snd (SplitIPAndDNSSANs (Req_ExtraSANs req))"
  let ?ips = "(case ParseIP (Env_Address env) of None \<Rightarrow> [] | Some ip \<Rightarrow> ip) # fst (SplitIPAndDNSSANs (Req_ExtraSANs req))"
  let ?w = "emptyWorkerPKI\<lparr>W_CACert := getStr (Certificates_CACert (CC_Certificates cfg)),
      W_ClientCACert := getStr (Certificates_ClientCACert (CC_Certificates cfg))\<rparr>"
  let ?req = "requestCertificates (requestCertificate x z cl pub (Hostname s) ?hs ?ips req) (Hostname s) a certs ?w n"
  obtain n1 rw where rq: "?req = (n1, rw)" by (cases ?req)
  show ?thesis
  proof (cases rw)
    case (Inl e)
    then show ?thesis using run c(2) t rq by (auto simp: refreshCertsRunWorker_def Let_def c(1) [symmetric] split_beta)
  next
    case (Inr w')
    then have "writeWorkerRefreshed x io env cfg certs w' (n1, h) = ((n', h'), r)"
      using run c(2) t rq by (simp add: refreshCertsRunWorker_def Let_def c(1) [symmetric] split_beta)
    with rq Inr show ?thesis by blast
  qed
qed

text \<open>
  Refreshing only some certificates of a worker breaks its kubelet. When the request names
  certificates but not that of the kubelet, the handler starts from empty certificates, so what
  it was not asked for is written as empty: the call never reports success, and once the
  requested certificates were issued the kubelet's certificate and key are removed from the node.
\<close>

theorem worker_partial_refresh:
  assumes nf: "noFaults h" and pem: "pemDecode x [] = None" and req: "Req_Certificates req \<noteq> []"
    and part: "CertificateKubelet \<notin> set (toCertificateNames a (Req_Certificates req))"
    and run: "refreshCertsRunWorker x z parsePKIX a io j env s client db (Inr req) (n, h) = ((n', h'), r)"
  shows "(\<forall>e. r \<noteq> SyncResponse e) \<and>
    (h' = h \<or> H_files h' (k8sFile ''kubelet.crt'') = None \<and> H_files h' (k8sFile ''kubelet.key'') = None)"
proof -
  let ?certs = "toCertificateNames a (Req_Certificates req)"
  have c: "?certs \<noteq> []" using req by (simp add: toCertificateNames_def)
  from refreshCertsRunWorker_stages [OF refl c run] show ?thesis
  proof (elim disjE exE conjE)
    fix cl cfg pub hs ips n1 w'
    assume rq: "requestCertificates (requestCertificate x z cl pub (Hostname s) hs ips req) (Hostname s) a ?certs
        (emptyWorkerPKI\<lparr>W_CACert := getStr (Certificates_CACert (CC_Certificates cfg)),
           W_ClientCACert := getStr (Certificates_ClientCACert (CC_Certificates cfg))\<rparr>) n = (n1, Inr w')"
      and wr: "writeWorkerRefreshed x io env cfg ?certs w' (n1, h) = ((n', h'), r)"
    have "W_KubeletCert w' = []" "W_KubeletKey w' = []"
      using requestCertificates_keeps_kubelet [OF part rq] by (simp_all add: emptyWorkerPKI_def)
    from writeWorkerRefreshed_no_kubelet [OF nf pem this wr] show ?thesis by blast
  qed blast
qed

definition issuedCSR :: CertificateSigningRequest where
  "issuedCSR = \<lparr>CSR_Name = [], CSR_Annotations = [], Spec_Request = [], Spec_ExpirationSeconds = None, Spec_Usages = [],
     Spec_SignerName = [], Spec_Username = [], Spec_Groups = [], Status_Conditions = [\<lparr>Condition_Type = CertificateApproved,
       Condition_Status = True, Condition_Reason = [], Condition_Message = []\<rparr>], Status_Certificate = ''CERTIFICATE|c''\<rparr>"

definition issuingClient :: nodeClient where
  "issuingClient = \<lparr>createCSR = (\<lambda>_. ok), watchCSR = (\<lambda>_. [Inr [Some issuedCSR]])\<rparr>"

definition sampleWorkerJson :: json where
  "sampleWorkerJson = \<lparr>jsonMarshal = (\<lambda>_. Inr ''{}''),
     jsonUnmarshal = (\<lambda>_. Inr (emptyClusterConfig\<lparr>CC_Certificates := emptyCertificates\<lparr>Certificates_CACert := Some ''CERTIFICATE|c'',
       Certificates_ClientCACert := Some ''CERTIFICATE|c'', Certificates_K8sdPublicKey := Some ''PUBLIC KEY|p''\<rparr>\<rparr>))\<rparr>"

theorem worker_partial_refresh_witness:
  "\<exists>n' h' r. refreshCertsRunWorker sampleCrypto sampleCSRCrypto (\<lambda>_. Inr (Some ())) sampleApi sampleIO sampleWorkerJson sampleEnv
       sampleSnap (Inr issuingClient) sampleDB (Inr (sampleRefresh [''proxy'']))
       (0, setFile (k8sFile ''kubelet.crt'') (Some \<lparr>F_data = ''c'', F_uid = 0, F_gid = 0, F_mode = perm600\<rparr>) emptyHost) = ((n', h'), r) \<and>
     H_files h' (k8sFile ''kubelet.crt'') = None \<and> (\<forall>e. r \<noteq> SyncResponse e)"
proof -
  let ?h = "setFile (k8sFile ''kubelet.crt'') (Some \<lparr>F_data = ''c'', F_uid = 0, F_gid = 0, F_mode = perm600\<rparr>) emptyHost"
  let ?run = "refreshCertsRunWorker sampleCrypto sampleCSRCrypto (\<lambda>_. Inr (Some ())) sampleApi sampleIO sampleWorkerJson sampleEnv
       sampleSnap (Inr issuingClient) sampleDB (Inr (sampleRefresh [''proxy''])) (0, ?h)"
  obtain n' h' r where run: "?run = ((n', h'), r)" by (metis surj_pair)
  have nf: "noFaults ?h" using emptyHost_noFaults by simp
  have pem: "pemDecode sampleCrypto [] = None" by (simp add: sampleCrypto_def)
  have names: "toCertificateNames sampleApi (Req_Certificates (sampleRefresh [''proxy''])) = [CertificateProxyClient]"
    by (simp add: toCertificateNames_def sampleApi_def sampleRefresh_def)
  have ne: "Req_Certificates (sampleRefresh [''proxy'']) \<noteq> []" by (simp add: sampleRefresh_def)
  have role: "validateCertificatesByRole sampleApi ClusterRoleWorker [CertificateProxyClient] = ok"
    by (simp add: validateCertificatesByRole_def sampleApi_def)
  have cfg: "util_GetClusterConfig sampleWorkerJson sampleDB = Inr (emptyClusterConfig\<lparr>CC_Certificates :=
      emptyCertificates\<lparr>Certificates_CACert := Some ''CERTIFICATE|c'', Certificates_ClientCACert := Some ''CERTIFICATE|c'',
        Certificates_K8sdPublicKey := Some ''PUBLIC KEY|p''\<rparr>\<rparr>)" (is "_ = Inr ?cfg")
    by (simp add: util_GetClusterConfig_def GetClusterConfig_def sampleDB_facts) (simp add: sampleDB_def sampleWorkerJson_def)
  have pub: "LoadRSAPublicKey sampleCrypto (\<lambda>_. Inr (Some ())) ''PUBLIC KEY|p'' = Inr ()"
    by (simp add: LoadRSAPublicKey_def sampleCrypto_def)
  have req: "requestCertificate sampleCrypto sampleCSRCrypto issuingClient () host hs ips q
      (snd (getWorkerCSRDefinitions host ! 2)) 0 = (3, Inr (''CERTIFICATE|c'', ''RSA PRIVATE KEY|k''))" for host hs ips q
    by (simp add: requestCertificate_def GenerateCSR_def encodeKeyPEM_def getWorkerCSRDefinitions_def issuingClient_def Let_def
        verifyCSRAndSetPKI_def isCertificateSigningRequestApprovedAndIssued_def issuedCSR_def LoadCertificate_def)
      (simp add: sampleCrypto_def sampleCSRCrypto_def)
  have rc: "requestCertificates (requestCertificate sampleCrypto sampleCSRCrypto issuingClient () host hs ips q) host sampleApi
      [CertificateProxyClient] w 0 = (3, Inr (w\<lparr>W_KubeProxyClientCert := ''CERTIFICATE|c'', W_KubeProxyClientKey := ''RSA PRIVATE KEY|k''\<rparr>))"
    for host hs ips q w
    using req [of host hs ips q] by (simp add: getWorkerCSRDefinitions_def setWorkerPair_def)
  let ?w = "emptyWorkerPKI\<lparr>W_CACert := ''CERTIFICATE|c'', W_ClientCACert := ''CERTIFICATE|c'',
      W_KubeProxyClientCert := ''CERTIFICATE|c'', W_KubeProxyClientKey := ''RSA PRIVATE KEY|k''\<rparr>"
  have "?run = writeWorkerRefreshed sampleCrypto sampleIO sampleEnv ?cfg [CertificateProxyClient] ?w (3, ?h)"
    by (simp add: refreshCertsRunWorker_def Let_def names role cfg pub rc split_beta del: requestCertificates.simps)
  with run have "H_files h' (k8sFile ''kubelet.crt'') = None"
    using writeWorkerRefreshed_no_kubelet [OF nf pem, of ?w sampleIO sampleEnv ?cfg "[CertificateProxyClient]" 3 n' h' r]
    by (simp add: emptyWorkerPKI_def)
  then have "h' \<noteq> ?h" by auto
  with worker_partial_refresh [OF nf pem ne _ run] run show ?thesis by (simp add: names)
qed

text \<open>
  The expiration of a worker's request is an \<open>int32\<close>: a hundred years wrap to a negative period,
  which ends before it begins.
\<close>

lemma worker_expiration_wraps:
  "Spec_ExpirationSeconds (workerCSR d host seed (100 * yearSeconds) csrPEM sig) = Some (- 1141367296)"
  by (simp add: workerCSR_def int32_def yearSeconds_def)

end
