(* ===== verification/Helm.thy ===== *)
theory Helm
  imports Host
begin

text \<open>
  The chart client (\<open>pkg/client/helm\<close>): \<open>Apply\<close> brings one chart to a desired state, whatever state
  an earlier run left it in.

  Chart values are JSON values. The releases are those the Helm library stores: it keeps the
  configuration, chart version and status of the latest revision. Every library call may fail
  (\<open>H_fault\<close>, by the number of the call), and a failing install, upgrade or uninstall may leave a
  revision behind in any status. The JSON codec, the merge of value tables (\<open>chartutil.CoalesceTables\<close>)
  and the chart files are arguments (\<open>helmLib\<close>).
\<close>

section \<open>Values, charts and releases\<close>

datatype hval =
  HNull | HBool bool | HInt int | HString string | HArray "hval list" | HObject "(string \<times> hval) list"

record InstallableChart =
  Chart_Name :: string
  Chart_Namespace :: string
  Chart_ManifestPath :: string

datatype HelmTarget = StateDeleted | StatePresent | StateUpgradeOnly

definition StatePresentOrDeleted :: "bool \<Rightarrow> HelmTarget" where
  "StatePresentOrDeleted enabled = (if enabled then StatePresent else StateDeleted)"

definition StateUpgradeOnlyOrDeleted :: "bool \<Rightarrow> HelmTarget" where
  "StateUpgradeOnlyOrDeleted enabled = (if enabled then StateUpgradeOnly else StateDeleted)"

datatype ReleaseStatus = StatusDeployed | StatusSuperseded | StatusFailed | StatusPending | StatusOther

record Release =
  Rel_Config :: hval
  Rel_Version :: string
  Rel_Status :: ReleaseStatus

record HelmState =
  H_releases :: "string \<rightharpoonup> Release"
  H_calls :: nat
  H_fault :: "nat \<Rightarrow> (error \<times> ReleaseStatus option) option"

record helmLib =
  valuesMarshal :: "hval \<Rightarrow> string res"
  valuesUnmarshal :: "string \<Rightarrow> hval res"
  CoalesceTables :: "hval \<Rightarrow> hval \<Rightarrow> hval"
  loadChart :: "string \<Rightarrow> string res"
  manifestsBaseDir :: string

definition ErrReleaseNotFound :: error where
  "ErrReleaseNotFound = Errorf ''release: not found'' []"

section \<open>The library's actions\<close>

definition helmCall :: "(HelmState \<Rightarrow> (HelmState, 'a) step) \<Rightarrow> (ReleaseStatus \<Rightarrow> HelmState \<Rightarrow> HelmState) \<Rightarrow> HelmState \<Rightarrow> (HelmState, 'a) step" where
  "helmCall act left h =
     (let h' = h\<lparr>H_calls := Suc (H_calls h)\<rparr> in
      case H_fault h (H_calls h) of
        None \<Rightarrow> act h'
      | Some (e, None) \<Rightarrow> (h', Inl e)
      | Some (e, Some status) \<Rightarrow> (left status h', Inl e))"

definition putRelease :: "string \<Rightarrow> Release option \<Rightarrow> HelmState \<Rightarrow> HelmState" where
  "putRelease name r h = h\<lparr>H_releases := (H_releases h)(name := r)\<rparr>"

definition helmInit :: "HelmState \<Rightarrow> (HelmState, unit) step" where
  "helmInit = helmCall (\<lambda>h. (h, ok)) (\<lambda>_ h. h)"

definition helmGet :: "string \<Rightarrow> HelmState \<Rightarrow> (HelmState, Release) step" where
  "helmGet name = helmCall (\<lambda>h. (h, case H_releases h name of None \<Rightarrow> Inl ErrReleaseNotFound | Some r \<Rightarrow> Inr r)) (\<lambda>_ h. h)"

definition helmUpdate :: "string \<Rightarrow> Release \<Rightarrow> HelmState \<Rightarrow> (HelmState, unit) step" where
  "helmUpdate name r = helmCall (\<lambda>h. (putRelease name (Some r) h, ok)) (\<lambda>_ h. h)"

definition helmInstall :: "string \<Rightarrow> string \<Rightarrow> hval \<Rightarrow> HelmState \<Rightarrow> (HelmState, unit) step" where
  "helmInstall name version values =
     helmCall (\<lambda>h. (putRelease name (Some \<lparr>Rel_Config = values, Rel_Version = version, Rel_Status = StatusDeployed\<rparr>) h, ok))
       (\<lambda>st. putRelease name (Some \<lparr>Rel_Config = values, Rel_Version = version, Rel_Status = st\<rparr>))"

text \<open>An upgrade with \<open>ResetThenReuseValues\<close>: the new values over those of the last release.\<close>

definition helmUpgrade :: "helmLib \<Rightarrow> string \<Rightarrow> string \<Rightarrow> hval \<Rightarrow> hval \<Rightarrow> HelmState \<Rightarrow> (HelmState, unit) step" where
  "helmUpgrade lib name version values old =
     helmCall (\<lambda>h. (putRelease name (Some \<lparr>Rel_Config = CoalesceTables lib values old, Rel_Version = version, Rel_Status = StatusDeployed\<rparr>) h, ok))
       (\<lambda>st. putRelease name (Some \<lparr>Rel_Config = CoalesceTables lib values old, Rel_Version = version, Rel_Status = st\<rparr>))"

definition helmUninstall :: "string \<Rightarrow> HelmState \<Rightarrow> (HelmState, unit) step" where
  "helmUninstall name =
     helmCall (\<lambda>h. (putRelease name None h, ok))
       (\<lambda>st h. putRelease name (map_option (\<lambda>r. r\<lparr>Rel_Status := st\<rparr>) (H_releases h name)) h)"

section \<open>Apply\<close>

definition jsonEqual :: "helmLib \<Rightarrow> hval \<Rightarrow> hval \<Rightarrow> bool" where
  "jsonEqual lib v1 v2 =
     (case (valuesMarshal lib v1, valuesMarshal lib v2) of (Inr b1, Inr b2) \<Rightarrow> b1 = b2 | _ \<Rightarrow> False)"

definition cloneMap :: "helmLib \<Rightarrow> hval \<Rightarrow> hval res" where
  "cloneMap lib m =
     (case valuesMarshal lib m of
        Inl e \<Rightarrow> Inl (Wrapf ''failed to marshal map: %w'' [] e)
      | Inr b \<Rightarrow> (case valuesUnmarshal lib b of
            Inl e \<Rightarrow> Inl (Wrapf ''failed to unmarshal map: %w'' [] e)
          | Inr c \<Rightarrow> Inr c))"

definition sanitizeHelmValues :: "helmLib \<Rightarrow> hval \<Rightarrow> hval res" where
  "sanitizeHelmValues lib values =
     (case valuesMarshal lib values of
        Inl e \<Rightarrow> Inl (Wrapf ''failed to convert Helm values to JSON for schema validation: %w'' [] e)
      | Inr b \<Rightarrow> (case valuesUnmarshal lib b of
            Inl e \<Rightarrow> Inl (Wrapf ''failed to convert JSON back to Helm-compatible value types: %w'' [] e)
          | Inr r \<Rightarrow> Inr r))"

text \<open>The branch for an installed release that is to stay: nothing when nothing changes, else an upgrade.\<close>

definition upgradeInstalled ::
  "helmLib \<Rightarrow> InstallableChart \<Rightarrow> Release \<Rightarrow> hval \<Rightarrow> HelmState \<Rightarrow> (HelmState, bool) step"
where
  "upgradeInstalled lib c release sanitizedValues h =
     tryStep (h, loadChart lib (pathJoin (manifestsBaseDir lib) (Chart_ManifestPath c))) ''failed to load manifest for %s: %w'' [Chart_Name c] (\<lambda>h version.
     tryStep (h, cloneMap lib sanitizedValues) ''failed to clone values for %s: %w'' [Chart_Name c] (\<lambda>h clonedValues.
     let oldConfig = Rel_Config release;
         sameValues = jsonEqual lib oldConfig (CoalesceTables lib clonedValues oldConfig);
         sameVersions = (Rel_Version release = version) in
     if sameValues \<and> sameVersions \<and> (Rel_Status release = StatusDeployed \<or> Rel_Status release = StatusSuperseded)
     then (h, Inr False)
     else tryStep (helmUpgrade lib (Chart_Name c) version sanitizedValues oldConfig h) ''failed to upgrade %s: %w'' [Chart_Name c]
            (\<lambda>h _. (h, Inr True))))"

text \<open>What is done once the release was looked up and the values converted.\<close>

definition applyDesired ::
  "helmLib \<Rightarrow> InstallableChart \<Rightarrow> HelmTarget \<Rightarrow> hval \<Rightarrow> Release option \<Rightarrow> HelmState \<Rightarrow> (HelmState, bool) step"
where
  "applyDesired lib c desired sanitizedValues installed h =
     (case (installed, desired) of
        (None, StateDeleted) \<Rightarrow> (h, Inr False)
      | (None, StateUpgradeOnly) \<Rightarrow> (h, Inl (Errorf ''cannot upgrade %s as it is not installed'' [Chart_Name c]))
      | (None, StatePresent) \<Rightarrow>
          tryStep (h, loadChart lib (pathJoin (manifestsBaseDir lib) (Chart_ManifestPath c))) ''failed to load manifest for %s: %w'' [Chart_Name c] (\<lambda>h version.
          tryStep (helmInstall (Chart_Name c) version sanitizedValues h) ''failed to install %s: %w'' [Chart_Name c]
            (\<lambda>h _. (h, Inr True)))
      | (Some release, StateDeleted) \<Rightarrow>
          tryStep (helmUninstall (Chart_Name c) h) ''failed to uninstall %s: %w'' [Chart_Name c] (\<lambda>h _. (h, Inr True))
      | (Some release, _) \<Rightarrow> upgradeInstalled lib c release sanitizedValues h)"

definition lookupRelease :: "InstallableChart \<Rightarrow> HelmState \<Rightarrow> (HelmState, Release option) step" where
  "lookupRelease c h =
     (case helmGet (Chart_Name c) h of
        (h, Inl e) \<Rightarrow>
          if e \<noteq> ErrReleaseNotFound then (h, Inl (Wrapf ''failed to get status of release %s: %w'' [Chart_Name c] e))
          else (h, Inr None)
      | (h, Inr release) \<Rightarrow>
          if Rel_Status release = StatusPending then
            (let failed = release\<lparr>Rel_Status := StatusFailed\<rparr> in
             tryStep (helmUpdate (Chart_Name c) failed h) ''failed to update release %s status: %w'' [Chart_Name c] (\<lambda>h _. (h, Inr (Some failed))))
          else (h, Inr (Some release)))"

definition Helm_Apply :: "helmLib \<Rightarrow> InstallableChart \<Rightarrow> HelmTarget \<Rightarrow> hval \<Rightarrow> HelmState \<Rightarrow> (HelmState, bool) step" where
  "Helm_Apply lib c desired values h =
     tryStep (helmInit h) ''failed to create action configuration: %w'' [] (\<lambda>h _.
     tryPass (lookupRelease c h) (\<lambda>h installed.
     tryStep (h, sanitizeHelmValues lib values) ''failed to convert values: %w'' [] (\<lambda>h sanitizedValues.
     applyDesired lib c desired sanitizedValues installed h)))"

section \<open>What Apply does\<close>

abbreviation noHelmFaults :: "HelmState \<Rightarrow> bool" where
  "noHelmFaults h \<equiv> H_fault h = (\<lambda>_. None)"

lemma putRelease_simps [simp]:
  "H_releases (putRelease n r h) = (H_releases h)(n := r)" "H_fault (putRelease n r h) = H_fault h"
  by (simp_all add: putRelease_def)

lemma helm_quiet:
  assumes "noHelmFaults h"
  shows "helmInit h = (h\<lparr>H_calls := Suc (H_calls h)\<rparr>, ok)"
    "helmGet n h = (h\<lparr>H_calls := Suc (H_calls h)\<rparr>, case H_releases h n of None \<Rightarrow> Inl ErrReleaseNotFound | Some r \<Rightarrow> Inr r)"
    "helmUpdate n r h = (putRelease n (Some r) (h\<lparr>H_calls := Suc (H_calls h)\<rparr>), ok)"
    "helmInstall n ver v h = (putRelease n (Some \<lparr>Rel_Config = v, Rel_Version = ver, Rel_Status = StatusDeployed\<rparr>) (h\<lparr>H_calls := Suc (H_calls h)\<rparr>), ok)"
    "helmUpgrade lib n ver v u h = (putRelease n (Some \<lparr>Rel_Config = CoalesceTables lib v u, Rel_Version = ver, Rel_Status = StatusDeployed\<rparr>) (h\<lparr>H_calls := Suc (H_calls h)\<rparr>), ok)"
    "helmUninstall n h = (putRelease n None (h\<lparr>H_calls := Suc (H_calls h)\<rparr>), ok)"
  using assms by (simp_all add: helmInit_def helmGet_def helmUpdate_def helmInstall_def helmUpgrade_def helmUninstall_def helmCall_def)

text \<open>No other release is touched, whatever fails.\<close>

definition onlyRelease :: "string \<Rightarrow> HelmState \<Rightarrow> HelmState \<Rightarrow> bool" where
  "onlyRelease n h h' \<longleftrightarrow> (\<forall>m. m \<noteq> n \<longrightarrow> H_releases h' m = H_releases h m)"

lemma onlyRelease_refl [simp]: "onlyRelease n h h"
  by (simp add: onlyRelease_def)

lemma onlyRelease_trans: "onlyRelease n a b \<Longrightarrow> onlyRelease n b c \<Longrightarrow> onlyRelease n a c"
  by (simp add: onlyRelease_def)

lemma helmCall_only:
  "(\<And>h. onlyRelease n h (fst (act h))) \<Longrightarrow> (\<And>st h. onlyRelease n h (left st h)) \<Longrightarrow> onlyRelease n h (fst (helmCall act left h))"
  by (auto simp: helmCall_def Let_def onlyRelease_def split: option.split)

lemma helm_only:
  "onlyRelease n h (fst (helmInit h))" "onlyRelease n h (fst (helmGet n' h))" "onlyRelease n h (fst (helmUpdate n r h))"
  "onlyRelease n h (fst (helmInstall n ver v h))" "onlyRelease n h (fst (helmUpgrade lib n ver v u h))" "onlyRelease n h (fst (helmUninstall n h))"
  unfolding helmInit_def helmGet_def helmUpdate_def helmInstall_def helmUpgrade_def helmUninstall_def
  by (rule helmCall_only; simp add: onlyRelease_def putRelease_def)+

lemma tryStep_only:
  "onlyRelease n h (fst r) \<Longrightarrow> (\<And>h' x. onlyRelease n h h' \<Longrightarrow> onlyRelease n h (fst (f h' x))) \<Longrightarrow> onlyRelease n h (fst (tryStep r m a f))"
  "onlyRelease n h (fst r) \<Longrightarrow> (\<And>h' x. onlyRelease n h h' \<Longrightarrow> onlyRelease n h (fst (g h' x))) \<Longrightarrow> onlyRelease n h (fst (tryPass r g))"
  by (auto simp: tryStep_def tryPass_def split: prod.split sum.split)

lemma upgradeInstalled_only: "onlyRelease (Chart_Name c) h (fst (upgradeInstalled lib c r v h))"
  unfolding upgradeInstalled_def Let_def
  by (intro tryStep_only) (auto intro!: tryStep_only(1) intro: onlyRelease_trans [OF _ helm_only(5)])

lemma applyDesired_only: "onlyRelease (Chart_Name c) h (fst (applyDesired lib c desired v inst h))"
  unfolding applyDesired_def
  by (cases inst; cases desired)
    (auto intro!: tryStep_only(1) upgradeInstalled_only intro: helm_only onlyRelease_trans [OF _ helm_only(4)])

lemma lookupRelease_only: "onlyRelease (Chart_Name c) h (fst (lookupRelease c h))"
proof -
  obtain h1 r where g: "helmGet (Chart_Name c) h = (h1, r)" by fastforce
  have only: "onlyRelease (Chart_Name c) h h1" using helm_only(2) [of "Chart_Name c" h "Chart_Name c"] g by simp
  then show ?thesis
    unfolding lookupRelease_def g
    by (cases r) (auto simp: Let_def intro!: tryStep_only(1) intro: onlyRelease_trans [OF _ helm_only(3)])
qed

lemma Helm_Apply_only: "onlyRelease (Chart_Name c) h (fst (Helm_Apply lib c desired v h))"
  unfolding Helm_Apply_def
  by (intro tryStep_only helm_only(1))
    (auto intro: onlyRelease_trans [OF _ applyDesired_only] onlyRelease_trans [OF _ lookupRelease_only])

text \<open>The release a lookup finds when nothing fails.\<close>

definition recovered :: "Release \<Rightarrow> Release" where
  "recovered r = (if Rel_Status r = StatusPending then r\<lparr>Rel_Status := StatusFailed\<rparr> else r)"

lemma lookupRelease_quiet:
  assumes "noHelmFaults h"
  obtains h' where "lookupRelease c h = (h', Inr (map_option recovered (H_releases h (Chart_Name c))))"
    "noHelmFaults h'" "H_releases h' = (H_releases h)(Chart_Name c := map_option recovered (H_releases h (Chart_Name c)))"
proof (cases "H_releases h (Chart_Name c)")
  case None
  then show thesis using assms
    by (intro that [of "h\<lparr>H_calls := Suc (H_calls h)\<rparr>"]) (auto simp: lookupRelease_def helm_quiet)
next
  case (Some r)
  let ?h = "h\<lparr>H_calls := Suc (H_calls h)\<rparr>"
  show thesis
  proof (cases "Rel_Status r = StatusPending")
    case True
    then show thesis using assms Some
      by (intro that [of "putRelease (Chart_Name c) (Some (r\<lparr>Rel_Status := StatusFailed\<rparr>)) (?h\<lparr>H_calls := Suc (H_calls ?h)\<rparr>)"])
        (auto simp: lookupRelease_def helm_quiet Let_def recovered_def)
  next
    case False
    then show thesis using assms Some by (intro that [of ?h]) (auto simp: lookupRelease_def helm_quiet recovered_def)
  qed
qed

text \<open>The library as documented, for the values given: the codec and the merge are stable.\<close>

definition stableValues :: "helmLib \<Rightarrow> hval \<Rightarrow> bool" where
  "stableValues lib s \<longleftrightarrow>
     cloneMap lib s = Inr s \<and> (\<forall>v. is_ok (valuesMarshal lib v)) \<and> CoalesceTables lib s s = s \<and>
     (\<forall>u. CoalesceTables lib s (CoalesceTables lib s u) = CoalesceTables lib s u)"

lemma jsonEqual_refl: "\<forall>v. is_ok (valuesMarshal lib v) \<Longrightarrow> jsonEqual lib v v"
  by (cases "valuesMarshal lib v") (auto simp: jsonEqual_def dest: spec [of _ v])

definition deployedWith :: "helmLib \<Rightarrow> string \<Rightarrow> hval \<Rightarrow> Release \<Rightarrow> bool" where
  "deployedWith lib version s r \<longleftrightarrow>
     Rel_Version r = version \<and> (Rel_Status r = StatusDeployed \<or> Rel_Status r = StatusSuperseded) \<and>
     jsonEqual lib (Rel_Config r) (CoalesceTables lib s (Rel_Config r))"

lemma upgradeInstalled_deployed:
  assumes "loadChart lib (pathJoin (manifestsBaseDir lib) (Chart_ManifestPath c)) = Inr version" "stableValues lib s"
    "deployedWith lib version s r"
  shows "upgradeInstalled lib c r s h = (h, Inr False)"
  using assms by (simp add: upgradeInstalled_def stableValues_def deployedWith_def)

lemma upgradeInstalled_other:
  assumes "loadChart lib (pathJoin (manifestsBaseDir lib) (Chart_ManifestPath c)) = Inr version" "stableValues lib s"
    "\<not> deployedWith lib version s r" "noHelmFaults h"
  shows "upgradeInstalled lib c r s h =
    (putRelease (Chart_Name c) (Some \<lparr>Rel_Config = CoalesceTables lib s (Rel_Config r), Rel_Version = version, Rel_Status = StatusDeployed\<rparr>)
       (h\<lparr>H_calls := Suc (H_calls h)\<rparr>), Inr True)"
  using assms by (auto simp: upgradeInstalled_def stableValues_def deployedWith_def helm_quiet)

lemma recovered_deployed: "deployedWith lib version s (recovered r) \<longleftrightarrow> deployedWith lib version s r"
  by (auto simp: recovered_def deployedWith_def)

lemma deployedWith_new:
  assumes "stableValues lib s"
  shows "deployedWith lib version s \<lparr>Rel_Config = s, Rel_Version = version, Rel_Status = StatusDeployed\<rparr>"
    "deployedWith lib version s \<lparr>Rel_Config = CoalesceTables lib s u, Rel_Version = version, Rel_Status = StatusDeployed\<rparr>"
  using assms jsonEqual_refl [of lib] by (simp_all add: deployedWith_def stableValues_def)

text \<open>Everything \<open>Apply\<close> needs besides the releases.\<close>

definition helmReady :: "helmLib \<Rightarrow> InstallableChart \<Rightarrow> hval \<Rightarrow> string \<Rightarrow> hval \<Rightarrow> HelmState \<Rightarrow> bool" where
  "helmReady lib c v version s h \<longleftrightarrow>
     noHelmFaults h \<and> sanitizeHelmValues lib v = Inr s \<and> stableValues lib s \<and>
     loadChart lib (pathJoin (manifestsBaseDir lib) (Chart_ManifestPath c)) = Inr version"

definition appliedRelease :: "helmLib \<Rightarrow> string \<Rightarrow> hval \<Rightarrow> Release option \<Rightarrow> Release" where
  "appliedRelease lib version s r =
     (case r of
        None \<Rightarrow> \<lparr>Rel_Config = s, Rel_Version = version, Rel_Status = StatusDeployed\<rparr>
      | Some r \<Rightarrow> if deployedWith lib version s r then r
          else \<lparr>Rel_Config = CoalesceTables lib s (Rel_Config r), Rel_Version = version, Rel_Status = StatusDeployed\<rparr>)"

lemma appliedRelease_deployed: "stableValues lib s \<Longrightarrow> deployedWith lib version s (appliedRelease lib version s r)"
  using deployedWith_new [of lib s version] by (auto simp: appliedRelease_def split: option.split)

lemma Helm_Apply_present:
  assumes r: "helmReady lib c v version s h" and st: "st = StatePresent \<or> st = StateUpgradeOnly \<and> H_releases h (Chart_Name c) \<noteq> None"
  obtains h' where "Helm_Apply lib c st v h =
      (h', Inr (\<not> pred_option (deployedWith lib version s) (H_releases h (Chart_Name c)) \<or> H_releases h (Chart_Name c) = None))"
    "H_releases h' = (H_releases h)(Chart_Name c \<mapsto> appliedRelease lib version s (H_releases h (Chart_Name c)))" "noHelmFaults h'"
proof -
  let ?n = "Chart_Name c"
  have q: "noHelmFaults h" "noHelmFaults (h\<lparr>H_calls := Suc (H_calls h)\<rparr>)" "sanitizeHelmValues lib v = Inr s" "stableValues lib s"
    and load: "loadChart lib (pathJoin (manifestsBaseDir lib) (Chart_ManifestPath c)) = Inr version"
    using r by (auto simp: helmReady_def)
  obtain h1 where h1: "lookupRelease c (h\<lparr>H_calls := Suc (H_calls h)\<rparr>) = (h1, Inr (map_option recovered (H_releases h ?n)))"
    "noHelmFaults h1" "H_releases h1 = (H_releases h)(?n := map_option recovered (H_releases h ?n))"
    by (rule lookupRelease_quiet [OF q(2), of c]) auto
  have run: "Helm_Apply lib c st v h = applyDesired lib c st s (map_option recovered (H_releases h ?n)) h1"
    by (simp add: Helm_Apply_def helm_quiet q h1)
  show thesis
  proof (cases "H_releases h ?n")
    case None
    then show thesis using st h1(2,3) run
      by (intro that [of "putRelease ?n (Some \<lparr>Rel_Config = s, Rel_Version = version, Rel_Status = StatusDeployed\<rparr>) (h1\<lparr>H_calls := Suc (H_calls h1)\<rparr>)"])
        (auto simp: applyDesired_def load helm_quiet appliedRelease_def)
  next
    case (Some r)
    have ap: "applyDesired lib c st s (Some (recovered r)) h1 = upgradeInstalled lib c (recovered r) s h1"
      using st by (auto simp: applyDesired_def)
    show thesis
    proof (cases "deployedWith lib version s r")
      case True
      then have "recovered r = r" by (auto simp: recovered_def deployedWith_def)
      then show thesis using True Some h1 upgradeInstalled_deployed [OF load q(4), of r h1] ap
        by (intro that [of h1]) (auto simp: run appliedRelease_def)
    next
      case False
      have "Rel_Config (recovered r) = Rel_Config r" by (simp add: recovered_def)
      then show thesis using False Some h1 upgradeInstalled_other [OF load q(4), of "recovered r" h1]
        by (intro that [of "fst (upgradeInstalled lib c (recovered r) s h1)"]) (auto simp: run ap appliedRelease_def recovered_deployed)
    qed
  qed
qed


text \<open>A chart that is to go is gone, and one that may only be upgraded is never installed.\<close>

lemma Helm_Apply_deleted:
  assumes "noHelmFaults h" "is_ok (sanitizeHelmValues lib v)"
  shows "\<exists>h'. Helm_Apply lib c StateDeleted v h = (h', Inr (H_releases h (Chart_Name c) \<noteq> None)) \<and>
     H_releases h' = (H_releases h)(Chart_Name c := None)"
proof -
  obtain s where s: "sanitizeHelmValues lib v = Inr s" using assms(2) by (auto simp: is_ok_iff)
  have q: "noHelmFaults (h\<lparr>H_calls := Suc (H_calls h)\<rparr>)" using assms(1) by simp
  obtain h1 where h1: "lookupRelease c (h\<lparr>H_calls := Suc (H_calls h)\<rparr>) = (h1, Inr (map_option recovered (H_releases h (Chart_Name c))))"
    "noHelmFaults h1" "H_releases h1 = (H_releases h)(Chart_Name c := map_option recovered (H_releases h (Chart_Name c)))"
    by (rule lookupRelease_quiet [OF q, of c]) auto
  show ?thesis
    using h1 by (cases "H_releases h (Chart_Name c)")
      (auto simp: Helm_Apply_def helm_quiet assms(1) s applyDesired_def)
qed

lemma Helm_Apply_upgradeOnly_absent:
  assumes "noHelmFaults h" "is_ok (sanitizeHelmValues lib v)" "H_releases h (Chart_Name c) = None"
  shows "\<exists>h'. Helm_Apply lib c StateUpgradeOnly v h = (h', Inl (Errorf ''cannot upgrade %s as it is not installed'' [Chart_Name c])) \<and>
     H_releases h' = H_releases h"
proof -
  obtain s where s: "sanitizeHelmValues lib v = Inr s" using assms(2) by (auto simp: is_ok_iff)
  show ?thesis using assms(1,3) by (auto simp: Helm_Apply_def helm_quiet s applyDesired_def lookupRelease_def)
qed

section \<open>Instances\<close>

text \<open>A codec that is exact on the values used, and a merge in which the new values win.\<close>

definition sampleHelm :: helmLib where
  "sampleHelm = \<lparr>valuesMarshal = (\<lambda>v. Inr (case v of HBool True \<Rightarrow> ''true'' | HBool False \<Rightarrow> ''false'' | _ \<Rightarrow> ''null'')),
     valuesUnmarshal = (\<lambda>s. Inr (if s = ''true'' then HBool True else if s = ''false'' then HBool False else HNull)),
     CoalesceTables = (\<lambda>v u. v), loadChart = (\<lambda>_. Inr ''1.0''), manifestsBaseDir = ''/m''\<rparr>"

definition sampleChart :: InstallableChart where
  "sampleChart = \<lparr>Chart_Name = ''ck-dns'', Chart_Namespace = ''kube-system'', Chart_ManifestPath = ''dns''\<rparr>"

definition samplePending :: HelmState where
  "samplePending = \<lparr>H_releases = [''ck-dns'' \<mapsto> \<lparr>Rel_Config = HBool False, Rel_Version = ''0.9'', Rel_Status = StatusPending\<rparr>],
     H_calls = 0, H_fault = (\<lambda>_. None)\<rparr>"

lemma sample_helmReady: "helmReady sampleHelm sampleChart (HBool True) ''1.0'' (HBool True) samplePending"
  by (simp add: helmReady_def stableValues_def sanitizeHelmValues_def cloneMap_def sampleHelm_def samplePending_def)

end
