(* ===== verification/Upgrade.thy ===== *)
theory Upgrade
  imports Controllers
begin

text \<open>
  Upgrades of a running cluster: the custom resource that tracks one
  (\<open>pkg/client/kubernetes/upgrades.go\<close>, \<open>pkg/upgrade\<close>), the controller that drives it
  (\<open>pkg/k8sd/controllers/upgrade\<close>), and the two hooks that start or join one: after a snap refresh
  (\<open>hooks_post_refresh.go\<close>) and when a node of another version joins (\<open>hooks_join.go\<close>).

  The Kubernetes API server is the state \<open>Kube\<close>: it keeps the objects it is given, numbers the
  requests, and may refuse any of them (\<open>K_fault\<close>). A status patch changes the fields in which the
  new object differs from the one the patch was computed from. Versions are those of
  \<open>k8s.io/apimachinery\<close>: a type with the operations of \<open>versionOps\<close>.
\<close>

section \<open>The API server\<close>

datatype UpgradePhase =
  UpgradePhaseNodeUpgrade | UpgradePhaseFeatureUpgrade | UpgradePhaseCompleted | UpgradePhaseFailed | UpgradePhaseUnset

datatype UpgradeStrategy =
  UpgradeStrategyInPlace | UpgradeStrategyRollingUpgrade | UpgradeStrategyRollingDowngrade | UpgradeStrategyUnset

record UpgradeObject =
  Upgrade_Name :: string
  UpgradedNodes :: "string list"
  Phase :: UpgradePhase
  Strategy :: UpgradeStrategy

record ClusterNode =
  Node_Name :: string
  Node_Annotations :: "string gomap"
  Node_KubeletVersion :: string

record Kube =
  K_upgrades :: "UpgradeObject list"
  K_nodes :: "ClusterNode list"
  K_calls :: nat
  K_fault :: "nat \<Rightarrow> error option"

definition ErrNotFound :: error where "ErrNotFound = Errorf ''not found'' []"
definition ErrAlreadyExists :: error where "ErrAlreadyExists = Errorf ''already exists'' []"

abbreviation IsNotFound :: "error \<Rightarrow> bool" where "IsNotFound e \<equiv> e = ErrNotFound"

definition request :: "(Kube \<Rightarrow> (Kube, 'a) step) \<Rightarrow> Kube \<Rightarrow> (Kube, 'a) step" where
  "request f k =
     (let k' = k\<lparr>K_calls := Suc (K_calls k)\<rparr> in
      case K_fault k (K_calls k) of Some e \<Rightarrow> (k', Inl e) | None \<Rightarrow> f k')"

definition findUpgrade :: "string \<Rightarrow> Kube \<Rightarrow> UpgradeObject option" where
  "findUpgrade name k = find (\<lambda>u. Upgrade_Name u = name) (K_upgrades k)"

definition findNode :: "string \<Rightarrow> Kube \<Rightarrow> ClusterNode option" where
  "findNode name k = find (\<lambda>n. Node_Name n = name) (K_nodes k)"

definition getUpgrade :: "string \<Rightarrow> Kube \<Rightarrow> (Kube, UpgradeObject) step" where
  "getUpgrade name = request (\<lambda>k. (k, case findUpgrade name k of None \<Rightarrow> Inl ErrNotFound | Some u \<Rightarrow> Inr u))"

definition getNode :: "string \<Rightarrow> Kube \<Rightarrow> (Kube, ClusterNode) step" where
  "getNode name = request (\<lambda>k. (k, case findNode name k of None \<Rightarrow> Inl ErrNotFound | Some n \<Rightarrow> Inr n))"

definition listUpgrades :: "Kube \<Rightarrow> (Kube, UpgradeObject list) step" where
  "listUpgrades = request (\<lambda>k. (k, Inr (K_upgrades k)))"

definition listNodes :: "Kube \<Rightarrow> (Kube, ClusterNode list) step" where
  "listNodes = request (\<lambda>k. (k, Inr (K_nodes k)))"

definition createUpgrade :: "UpgradeObject \<Rightarrow> Kube \<Rightarrow> (Kube, unit) step" where
  "createUpgrade u = request (\<lambda>k.
     if findUpgrade (Upgrade_Name u) k \<noteq> None then (k, Inl ErrAlreadyExists)
     else (k\<lparr>K_upgrades := K_upgrades k @ [u]\<rparr>, ok))"

text \<open>The merge patch from \<open>base\<close> to \<open>new\<close>, applied to what is stored.\<close>

definition mergePatch :: "UpgradeObject \<Rightarrow> UpgradeObject \<Rightarrow> UpgradeObject \<Rightarrow> UpgradeObject" where
  "mergePatch base new stored = stored
     \<lparr>UpgradedNodes := (if UpgradedNodes new = UpgradedNodes base then UpgradedNodes stored else UpgradedNodes new),
      Phase := (if Phase new = Phase base then Phase stored else Phase new),
      Strategy := (if Strategy new = Strategy base then Strategy stored else Strategy new)\<rparr>"

definition patchUpgrade :: "UpgradeObject \<Rightarrow> UpgradeObject \<Rightarrow> Kube \<Rightarrow> (Kube, unit) step" where
  "patchUpgrade base new = request (\<lambda>k.
     if findUpgrade (Upgrade_Name base) k = None then (k, Inl ErrNotFound)
     else (k\<lparr>K_upgrades := map (\<lambda>u. if Upgrade_Name u = Upgrade_Name base then mergePatch base new u else u) (K_upgrades k)\<rparr>, ok))"

section \<open>The upgrade resource\<close>

record 'v VersionInfo =
  Revision :: string
  KubernetesVersion :: "'v ptr"

record 'v versionOps =
  v_equal :: "'v \<Rightarrow> 'v \<Rightarrow> bool"
  v_less :: "'v \<Rightarrow> 'v \<Rightarrow> bool"
  v_major :: "'v \<Rightarrow> nat"
  v_minor :: "'v \<Rightarrow> nat"
  v_string :: "'v \<Rightarrow> string"
  v_parse :: "string \<Rightarrow> 'v res"
  jsonEncodeInfo :: "string \<times> string \<Rightarrow> string res"
  jsonDecodeInfo :: "string \<Rightarrow> (string \<times> string) res"

text \<open>
  The JSON form of a version: an object with the strings \<open>revision\<close> and \<open>kubernetesVersion\<close>, both
  left out when empty. The codec of such pairs of strings is \<open>encoding/json\<close>'s.
\<close>

definition Info_MarshalJSON :: "'v versionOps \<Rightarrow> 'v VersionInfo \<Rightarrow> string res" where
  "Info_MarshalJSON vo d =
     jsonEncodeInfo vo (Revision d, case KubernetesVersion d of None \<Rightarrow> '''' | Some v \<Rightarrow> v_string vo v)"

definition Info_UnmarshalJSON :: "'v versionOps \<Rightarrow> string \<Rightarrow> 'v VersionInfo res" where
  "Info_UnmarshalJSON vo data =
     (case jsonDecodeInfo vo data of
        Inl e \<Rightarrow> Inl e
      | Inr (r, kv) \<Rightarrow>
          if kv \<noteq> '''' then
            (case v_parse vo kv of
               Inl e \<Rightarrow> Inl (Wrapf ''failed to parse kubernetes version: %w'' [] e)
             | Inr v \<Rightarrow> Inr \<lparr>Revision = r, KubernetesVersion = Some v\<rparr>)
          else Inr \<lparr>Revision = r, KubernetesVersion = None\<rparr>)"

definition Info_Encode :: "'v versionOps \<Rightarrow> 'v VersionInfo \<Rightarrow> string res" where
  "Info_Encode vo d =
     (case Info_MarshalJSON vo d of Inl e \<Rightarrow> Inl (Wrapf ''failed to marshal version info: %w'' [] e) | Inr b \<Rightarrow> Inr b)"

definition Info_String :: "'v versionOps \<Rightarrow> 'v VersionInfo \<Rightarrow> string" where
  "Info_String vo d =
     ''Revision: '' @ Revision d @ '', KubernetesVersion: ''
       @ (case KubernetesVersion d of Some v \<Rightarrow> v_string vo v | None \<Rightarrow> ''UNKNOWN'')"

definition Info_Decode :: "'v versionOps \<Rightarrow> string \<Rightarrow> 'v VersionInfo res" where
  "Info_Decode vo data =
     (if length data = 0 then Inl (Errorf ''data cannot be empty'' [])
      else (case Info_UnmarshalJSON vo data of
              Inl e \<Rightarrow> Inl (Wrapf ''failed to unmarshal version info: %w'' [] e)
            | Inr i \<Rightarrow> Inr i))"

definition GetName :: "'v versionOps \<Rightarrow> 'v VersionInfo \<Rightarrow> string" where
  "GetName vo v =
     ''cluster-upgrade-to-k8s-'' @ (case KubernetesVersion v of None \<Rightarrow> ''UNKNOWN'' | Some w \<Rightarrow> v_string vo w)
       @ ''-rev-'' @ Revision v"

definition newUpgrade :: "string \<Rightarrow> UpgradeObject" where
  "newUpgrade name = \<lparr>Upgrade_Name = name, UpgradedNodes = [], Phase = UpgradePhaseUnset, Strategy = UpgradeStrategyUnset\<rparr>"

definition inProgress :: "UpgradeObject \<Rightarrow> bool" where
  "inProgress u \<longleftrightarrow> Phase u \<noteq> UpgradePhaseFailed \<and> Phase u \<noteq> UpgradePhaseCompleted"

text \<open>
  \<open>GetInProgressUpgrade\<close>: the list request is tried five times; of the upgrades that are neither
  failed nor completed the last one by name is returned.
\<close>

definition listAttempt :: "Kube \<times> UpgradeObject list \<times> bool \<Rightarrow> (Kube \<times> UpgradeObject list \<times> bool, unit) step" where
  "listAttempt = (\<lambda>(k, result, noUpgrades).
     case listUpgrades k of
       (k, Inl e) \<Rightarrow>
         if IsNotFound e then ((k, result, True), ok)
         else ((k, result, noUpgrades), Inl (Wrapf ''failed to get upgrades: %w'' [] e))
     | (k, Inr us) \<Rightarrow> ((k, us, noUpgrades), ok))"

definition GetInProgressUpgrade :: "(nat \<Rightarrow> bool) \<Rightarrow> Kube \<Rightarrow> (Kube, UpgradeObject option) step" where
  "GetInProgressUpgrade ctxDone k =
     (case RetryFor ctxDone 5 listAttempt (k, [], False) of
        ((k, _, _), Inl e) \<Rightarrow> (k, Inl (Wrapf ''failed after retry: %w'' [] e))
      | ((k, result, noUpgrades), Inr _) \<Rightarrow>
          if noUpgrades then (k, Inr None)
          else let matches = filter inProgress result in
               (k, Inr (if matches = [] then None else Some (last (sort_key Upgrade_Name matches)))))"

definition PatchUpgradeStatus ::
  "UpgradeObject \<Rightarrow> string list \<Rightarrow> UpgradePhase \<Rightarrow> UpgradeStrategy \<Rightarrow> Kube \<Rightarrow> (Kube, unit) step"
where
  "PatchUpgradeStatus u nodes phase strategy k =
     tryStep (patchUpgrade u (u\<lparr>UpgradedNodes := nodes, Phase := phase, Strategy := strategy\<rparr>) k)
       ''failed to patch upgrade status: %w'' [] (\<lambda>k _. (k, ok))"

section \<open>The upgrade controller\<close>

text \<open>
  The environment of a run: whether the feature controller becomes ready in time, the features in
  the order in which the map is iterated, and whether each of them reconciles after its trigger.
  The state of a run is the API server and the features triggered.
\<close>

record featureEnv =
  Env_Ready :: bool
  Env_Features :: "string list"
  Env_Reconciles :: "string \<Rightarrow> bool"

type_synonym upState = "Kube \<times> string list"

definition onKube :: "(Kube \<Rightarrow> (Kube, 'a) step) \<Rightarrow> upState \<Rightarrow> (upState, 'a) step" where
  "onKube f = (\<lambda>(k, ts). case f k of (k, r) \<Rightarrow> ((k, ts), r))"

definition transitionTo :: "UpgradeObject \<Rightarrow> UpgradePhase \<Rightarrow> Kube \<Rightarrow> (Kube, unit) step" where
  "transitionTo u phase k =
     tryStep (patchUpgrade u (u\<lparr>Phase := phase\<rparr>) k) ''failed to patch: %w'' [] (\<lambda>k _. (k, ok))"

definition addToUpgradedNodes :: "UpgradeObject \<Rightarrow> ClusterNode \<Rightarrow> Kube \<Rightarrow> (Kube, unit) step" where
  "addToUpgradedNodes u node k =
     (if Node_Name node \<in> set (UpgradedNodes u) then (k, ok)
      else tryStep (patchUpgrade u (u\<lparr>UpgradedNodes := UpgradedNodes u @ [Node_Name node]\<rparr>) k) ''failed to patch: %w'' []
             (\<lambda>k _. (k, ok)))"

definition allNodesUpgraded :: "string list \<Rightarrow> Kube \<Rightarrow> (Kube, bool) step" where
  "allNodesUpgraded upgraded k =
     tryStep (listNodes k) ''failed to list nodes: %w'' [] (\<lambda>k nodes.
       (k, Inr (filter (\<lambda>n. n \<notin> set upgraded) (map Node_Name nodes) = [])))"

definition featureNames :: "string list" where
  "featureNames = [''network'', ''gateway'', ''ingress'', ''load-balancer'', ''local-storage'', ''metrics-server'', ''dns'']"

definition triggerFeature :: "string \<Rightarrow> upState \<Rightarrow> (upState, unit) step" where
  "triggerFeature name st =
     (if name \<in> set featureNames then ((fst st, snd st @ [name]), ok)
      else (st, Inl (Errorf ''unknown feature %q'' [name])))"

fun waitForFeatureReconciliations :: "(string \<Rightarrow> bool) \<Rightarrow> string list \<Rightarrow> upState \<Rightarrow> (upState, unit) step" where
  "waitForFeatureReconciliations reconciles [] st = (st, ok)"
| "waitForFeatureReconciliations reconciles (name # names) st =
     tryStep (triggerFeature name st) ''failed to trigger feature %q: %w'' [name] (\<lambda>st _.
     if reconciles name then waitForFeatureReconciliations reconciles names st
     else (st, Inl (Errorf ''timed out waiting for feature %q to get reconciled'' [name])))"

definition reconcileStatusNodeUpgrade :: "UpgradeObject \<Rightarrow> upState \<Rightarrow> (upState, unit) step" where
  "reconcileStatusNodeUpgrade u st =
     tryStep (onKube (allNodesUpgraded (UpgradedNodes u)) st) ''failed to check if all nodes have been upgraded: %w'' [] (\<lambda>st all.
     if \<not> all then (st, ok)
     else tryStep (onKube (transitionTo u UpgradePhaseFeatureUpgrade) st) ''failed to transition to %q phase: %w'' []
            (\<lambda>st _. (st, ok)))"

definition reconcileStatusFeatureUpgrade :: "featureEnv \<Rightarrow> UpgradeObject \<Rightarrow> upState \<Rightarrow> (upState, unit) step" where
  "reconcileStatusFeatureUpgrade env u st =
     (if \<not> Env_Ready env then (st, Inl (Errorf ''timed out waiting for feature controllers to be ready'' []))
      else tryStep (waitForFeatureReconciliations (Env_Reconciles env) (Env_Features env) st)
             ''failed to wait for feature reconciliations: %w'' [] (\<lambda>st _.
           tryStep (onKube (transitionTo u UpgradePhaseCompleted) st) ''failed to transition to %q phase: %w'' []
             (\<lambda>st _. (st, ok))))"

definition reconcileUpgrade :: "featureEnv \<Rightarrow> UpgradeObject \<Rightarrow> upState \<Rightarrow> (upState, unit) step" where
  "reconcileUpgrade env u st =
     (case Phase u of
        UpgradePhaseNodeUpgrade \<Rightarrow> reconcileStatusNodeUpgrade u st
      | UpgradePhaseFeatureUpgrade \<Rightarrow> reconcileStatusFeatureUpgrade env u st
      | UpgradePhaseFailed \<Rightarrow> (st, Inl (Errorf ''upgrade %q has failed'' [Upgrade_Name u]))
      | _ \<Rightarrow> (st, ok))"

definition reconcileNode :: "'v versionOps \<Rightarrow> ClusterNode \<Rightarrow> upState \<Rightarrow> (upState, unit) step" where
  "reconcileNode vo node st =
     (case map_of (Node_Annotations node) ''k8sd.io/version'' of
        None \<Rightarrow> (st, ok)
      | Some vStr \<Rightarrow>
          tryStep (st, Info_Decode vo vStr) ''failed to decode version info for node %q: %w'' [Node_Name node] (\<lambda>st info.
          case onKube (getUpgrade (GetName vo info)) st of
            (st, Inl e) \<Rightarrow>
              if IsNotFound e then (st, ok)
              else (st, Inl (Wrapf ''failed to get upgrade for version %q: %w'' [] e))
          | (st, Inr u) \<Rightarrow>
              if Phase u \<noteq> UpgradePhaseNodeUpgrade then (st, ok)
              else tryStep (onKube (addToUpgradedNodes u node) st) ''failed to add node %q to upgraded nodes: %w'' [Node_Name node]
                     (\<lambda>st _. (st, ok))))"

text \<open>Errors of both lookups are collected; the result is nil when there are none.\<close>

definition Upgrade_reconcile :: "'v versionOps \<Rightarrow> featureEnv \<Rightarrow> string \<Rightarrow> upState \<Rightarrow> (upState, unit) step" where
  "Upgrade_reconcile vo env name st =
     (case onKube (getUpgrade name) st of
        (st, Inr u) \<Rightarrow> tryStep (reconcileUpgrade env u st) ''failed to reconcile upgrade %q: %w'' [name] (\<lambda>st _. (st, ok))
      | (st, Inl e) \<Rightarrow>
          let errs = (if IsNotFound e then [] else [Wrapf ''failed to get upgrade %q: %w'' [name] e]) in
          (case onKube (getNode name) st of
             (st, Inr node) \<Rightarrow> tryStep (reconcileNode vo node st) ''failed to reconcile node %q: %w'' [name] (\<lambda>st _. (st, ok))
           | (st, Inl e) \<Rightarrow>
               let errs = errs @ (if IsNotFound e then [] else [Wrapf ''failed to get node %q: %w'' [name] e]) in
               (st, case errs of [] \<Rightarrow> ok | e # _ \<Rightarrow> Inl e)))"

text \<open>The exported method requeues every reconciliation: after five minutes when nothing else is asked for.\<close>

definition Upgrade_Reconcile :: "'v versionOps \<Rightarrow> featureEnv \<Rightarrow> string \<Rightarrow> upState \<Rightarrow> (upState, nat) step" where
  "Upgrade_Reconcile vo env name st =
     tryStep (Upgrade_reconcile vo env name st) ''failed to reconcile: %w'' [] (\<lambda>st _. (st, Inr (5 * 60)))"

section \<open>After a snap refresh\<close>

definition performPostUpgrade ::
  "'v versionOps \<Rightarrow> (nat \<Rightarrow> bool) \<Rightarrow> unit res \<Rightarrow> string res \<Rightarrow> 'v res \<Rightarrow> string \<Rightarrow> Kube \<Rightarrow> (Kube, unit) step"
where
  "performPostUpgrade vo ctxDone client revision k8sVersion nodeName k =
     tryStep (k, client) ''failed to get Kubernetes client: %w'' [] (\<lambda>k _.
     tryStep (GetInProgressUpgrade ctxDone k) ''failed to check for in-progress upgrade: %w'' [] (\<lambda>k found.
     tryPass (case found of
         Some u \<Rightarrow> (k, Inr u)
       | None \<Rightarrow>
           tryStep (k, revision) ''failed to get revision: %w'' [] (\<lambda>k rev.
           tryStep (k, k8sVersion) ''failed to get kubernetes version: %w'' [] (\<lambda>k v.
           let u = newUpgrade (GetName vo \<lparr>Revision = rev, KubernetesVersion = Some v\<rparr>) in
           tryStep (createUpgrade u k) ''failed to create upgrade: %w'' [] (\<lambda>k _. (k, Inr u))))) (\<lambda>k u.
     let nodes = (if nodeName \<in> set (UpgradedNodes u) then UpgradedNodes u else UpgradedNodes u @ [nodeName]) in
     tryStep (PatchUpgradeStatus u nodes UpgradePhaseNodeUpgrade UpgradeStrategyInPlace k)
       ''failed to mark node as upgraded: %w'' [] (\<lambda>k _. (k, ok)))))"

section \<open>Joining a node of another version\<close>

definition NodeVersions :: "'v versionOps \<Rightarrow> Kube \<Rightarrow> (Kube, (string \<times> 'v) list) step" where
  "NodeVersions vo k =
     tryStep (listNodes k) ''failed to list nodes: %w'' [] (\<lambda>k nodes.
       (k, map_res (\<lambda>n. case v_parse vo (Node_KubeletVersion n) of
              Inl e \<Rightarrow> Inl (Wrapf ''failed to parse version for node %s: %w'' [Node_Name n] e)
            | Inr v \<Rightarrow> Inr (Node_Name n, v)) nodes))"

text \<open>The loop over the other nodes: the version they agree on.\<close>

fun clusterVersionLoop :: "'v versionOps \<Rightarrow> string \<Rightarrow> (string \<times> 'v) list \<Rightarrow> 'v ptr \<Rightarrow> 'v ptr res" where
  "clusterVersionLoop vo self [] acc = Inr acc"
| "clusterVersionLoop vo self ((node, v) # rest) acc =
     (if node = self then clusterVersionLoop vo self rest acc
      else let c = (case acc of None \<Rightarrow> v | Some c \<Rightarrow> c) in
           if \<not> v_equal vo c v
           then Inl (Errorf ''the cluster has nodes with different Kubernetes versions %q and %q - upgrade all nodes to the same version before joining a new one''
                  [v_string vo c, v_string vo v])
           else clusterVersionLoop vo self rest (Some c))"

definition initiateRollingUpgrade ::
  "'v versionOps \<Rightarrow> string res \<Rightarrow> string \<Rightarrow> 'v \<Rightarrow> 'v \<Rightarrow> Kube \<Rightarrow> (Kube, unit) step"
where
  "initiateRollingUpgrade vo revision nodeName this cluster k =
     tryStep (k, revision) ''failed to get snap revision: %w'' [] (\<lambda>k rev.
     let strategy = (if v_less vo cluster this then UpgradeStrategyRollingUpgrade else UpgradeStrategyRollingDowngrade);
         u = newUpgrade (GetName vo \<lparr>Revision = rev, KubernetesVersion = Some this\<rparr>) in
     tryStep (createUpgrade u k) ''failed to create upgrade: %w'' [] (\<lambda>k _.
     tryStep (PatchUpgradeStatus u [nodeName] UpgradePhaseNodeUpgrade strategy k) ''failed to patch upgrade status: %w'' []
       (\<lambda>k _. (k, ok))))"

definition handleNoUpgradeInProgress ::
  "'v versionOps \<Rightarrow> string res \<Rightarrow> string \<Rightarrow> 'v \<Rightarrow> (string \<times> 'v) list \<Rightarrow> Kube \<Rightarrow> (Kube, unit) step"
where
  "handleNoUpgradeInProgress vo revision nodeName this nodeVersions k =
     (case clusterVersionLoop vo nodeName nodeVersions None of
        Inl e \<Rightarrow> (k, Inl e)
      | Inr None \<Rightarrow> (k, Inl (Errorf ''the cluster has no nodes - cannot determine cluster Kubernetes version'' []))
      | Inr (Some c) \<Rightarrow>
          if v_equal vo this c then (k, ok)
          else if v_major vo this = v_major vo c \<and> v_minor vo this = v_minor vo c
          then (k, Inl (Errorf ''the joining node has a different patch version than cluster nodes'' []))
          else if v_major vo this = v_major vo c \<and> v_minor vo this \<noteq> v_minor vo c
          then initiateRollingUpgrade vo revision nodeName this c k
          else (k, ok))"

fun lowestHighestK8sVersions :: "'v versionOps \<Rightarrow> (string \<times> 'v) list \<Rightarrow> 'v ptr \<times> 'v ptr \<Rightarrow> 'v ptr \<times> 'v ptr" where
  "lowestHighestK8sVersions vo [] acc = acc"
| "lowestHighestK8sVersions vo ((_, v) # rest) (lowest, highest) =
     lowestHighestK8sVersions vo rest
       (case lowest of None \<Rightarrow> Some v | Some l \<Rightarrow> if v_less vo v l then Some v else Some l,
        case highest of None \<Rightarrow> Some v | Some g \<Rightarrow> if v_less vo g v then Some v else Some g)"

text \<open>
  The version a joining node has to have; without any node in the cluster the source dereferences
  a nil pointer, which ends the hook.
\<close>

definition nilPointer :: error where
  "nilPointer = Errorf ''invalid memory address or nil pointer dereference'' []"

definition handleUpgradeInProgress ::
  "'v versionOps \<Rightarrow> string \<Rightarrow> UpgradeObject \<Rightarrow> 'v \<Rightarrow> (string \<times> 'v) list \<Rightarrow> Kube \<Rightarrow> (Kube, unit) step"
where
  "handleUpgradeInProgress vo nodeName u this nodeVersions k =
     (case lowestHighestK8sVersions vo nodeVersions (None, None) of (lowest, highest) \<Rightarrow>
      let mark = (\<lambda>k. PatchUpgradeStatus u
            (if nodeName \<in> set (UpgradedNodes u) then UpgradedNodes u else UpgradedNodes u @ [nodeName]) (Phase u) (Strategy u) k) in
      (case Strategy u of
         UpgradeStrategyRollingUpgrade \<Rightarrow>
           (case highest of
              None \<Rightarrow> (k, Inl nilPointer)
            | Some g \<Rightarrow> if v_equal vo this g then mark k
                else (k, Inl (Errorf ''joining node version %q needs to match highest version %q'' [v_string vo this, v_string vo g])))
       | UpgradeStrategyRollingDowngrade \<Rightarrow>
           (case lowest of
              None \<Rightarrow> (k, Inl nilPointer)
            | Some l \<Rightarrow> if v_equal vo this l then mark k
                else (k, Inl (Errorf ''joining node version %q needs to match lowest version %q'' [v_string vo this, v_string vo l])))
       | UpgradeStrategyInPlace \<Rightarrow> (k, Inl (Errorf ''can not join a new node while an in-place upgrade is in progress'' []))
       | UpgradeStrategyUnset \<Rightarrow> (k, Inl (Errorf ''unknown upgrade strategy in progress: %q'' []))))"

definition getNodeVersion :: "'v res \<Rightarrow> 'v res" where
  "getNodeVersion nodeVersion =
     (case nodeVersion of Inl e \<Rightarrow> Inl (Wrapf ''failed to get node Kubernetes version: %w'' [] e) | Inr v \<Rightarrow> Inr v)"

definition handleRollOutUpgrade ::
  "'v versionOps \<Rightarrow> (nat \<Rightarrow> bool) \<Rightarrow> string res \<Rightarrow> 'v res \<Rightarrow> string \<Rightarrow> Kube \<Rightarrow> (Kube, unit) step"
where
  "handleRollOutUpgrade vo ctxDone revision nodeVersion nodeName k =
     tryStep (GetInProgressUpgrade ctxDone k) ''failed to check for in-progress upgrade: %w'' [] (\<lambda>k found.
     tryStep (k, getNodeVersion nodeVersion) ''failed to get node Kubernetes version: %w'' [] (\<lambda>k this.
     tryStep (NodeVersions vo k) ''failed to get Kubernetes versions of cluster: %w'' [] (\<lambda>k nodeVersions.
     case found of
       None \<Rightarrow> handleNoUpgradeInProgress vo revision nodeName this nodeVersions k
     | Some u \<Rightarrow> handleUpgradeInProgress vo nodeName u this nodeVersions k)))"

end
