(* ===== verification/UpgradeLife.thy ===== *)
theory UpgradeLife
  imports Upgrade
begin

text \<open>
  The life of an upgrade: a specification of what one step may do to an upgrade object, the proofs
  that the controller and both hooks keep to it, the invariants of the system they form, progress
  to completion, and what the hooks do on their own.
\<close>

section \<open>What a step may do to an upgrade\<close>

text \<open>
  The specification of one step of the system on one upgrade, given the nodes of the cluster: a
  failed or completed upgrade stays as it is, no upgraded node is forgotten, the features are
  upgraded only after every node of the cluster was, and an upgrade completes only from there.
\<close>

definition allowed :: "string set \<Rightarrow> UpgradeObject \<Rightarrow> UpgradeObject \<Rightarrow> bool" where
  "allowed nodes u u' \<longleftrightarrow>
     Upgrade_Name u' = Upgrade_Name u \<and> (\<not> inProgress u \<longrightarrow> u' = u) \<and>
     set (UpgradedNodes u) \<subseteq> set (UpgradedNodes u') \<and>
     (Phase u' = UpgradePhaseFeatureUpgrade \<and> Phase u \<noteq> UpgradePhaseFeatureUpgrade \<longrightarrow>
        Phase u = UpgradePhaseNodeUpgrade \<and> nodes \<subseteq> set (UpgradedNodes u)) \<and>
     (Phase u' = UpgradePhaseCompleted \<and> Phase u \<noteq> UpgradePhaseCompleted \<longrightarrow> Phase u = UpgradePhaseFeatureUpgrade) \<and>
     (Phase u' = UpgradePhaseFailed \<longrightarrow> Phase u = UpgradePhaseFailed)"

abbreviation nodeNames :: "Kube \<Rightarrow> string set" where
  "nodeNames k \<equiv> Node_Name ` set (K_nodes k)"

definition upInv :: "Kube \<Rightarrow> bool" where
  "upInv k \<longleftrightarrow> distinct (map Upgrade_Name (K_upgrades k))"

text \<open>A run from \<open>k\<close> to \<open>k'\<close> that keeps to the specification on every upgrade.\<close>

definition keeps :: "Kube \<Rightarrow> Kube \<Rightarrow> bool" where
  "keeps k k' \<longleftrightarrow>
     upInv k' \<and> K_nodes k' = K_nodes k \<and>
     (\<forall>name u. findUpgrade name k = Some u \<longrightarrow> (\<exists>u'. findUpgrade name k' = Some u' \<and> allowed (nodeNames k) u u'))"

text \<open>Reading leaves the objects alone.\<close>

definition sameObjects :: "Kube \<Rightarrow> Kube \<Rightarrow> bool" where
  "sameObjects k k' \<longleftrightarrow> K_upgrades k' = K_upgrades k \<and> K_nodes k' = K_nodes k"

lemma allowed_refl [simp]: "allowed ns u u"
  by (simp add: allowed_def)

lemma sameObjects_refl [simp]: "sameObjects k k"
  by (simp add: sameObjects_def)

lemma sameObjects_trans: "sameObjects k k1 \<Longrightarrow> sameObjects k1 k2 \<Longrightarrow> sameObjects k k2"
  by (simp add: sameObjects_def)

lemma sameObjects_find: "sameObjects k k' \<Longrightarrow> findUpgrade name k' = findUpgrade name k"
  by (simp add: sameObjects_def findUpgrade_def)

lemma sameObjects_upInv: "sameObjects k k' \<Longrightarrow> upInv k' = upInv k"
  by (simp add: sameObjects_def upInv_def)

lemma keeps_same: "upInv k \<Longrightarrow> sameObjects k k' \<Longrightarrow> keeps k k'"
  by (simp add: keeps_def sameObjects_find sameObjects_upInv) (simp add: sameObjects_def)

lemma keeps_after_same: "sameObjects k k1 \<Longrightarrow> keeps k1 k2 \<Longrightarrow> keeps k k2"
  unfolding keeps_def by (auto simp: sameObjects_find) (simp_all add: sameObjects_def)

lemma request_same: "(\<And>k. sameObjects k (fst (f k))) \<Longrightarrow> sameObjects k (fst (request f k))"
  by (auto simp: request_def Let_def sameObjects_def split: option.split)

lemma get_same [simp]:
  "sameObjects k (fst (getUpgrade name k))" "sameObjects k (fst (getNode name k))"
  "sameObjects k (fst (listUpgrades k))" "sameObjects k (fst (listNodes k))"
  unfolding getUpgrade_def getNode_def listUpgrades_def listNodes_def by (rule request_same, simp)+

lemma find_name: "findUpgrade name k = Some u \<Longrightarrow> Upgrade_Name u = name \<and> u \<in> set (K_upgrades k)"
  by (auto simp: findUpgrade_def find_Some_iff)

lemma find_distinct: "upInv k \<Longrightarrow> u \<in> set (K_upgrades k) \<Longrightarrow> findUpgrade (Upgrade_Name u) k = Some u"
  unfolding upInv_def findUpgrade_def by (rule find_unique)

lemma getUpgrade_ok:
  assumes "getUpgrade name k = (k', Inr u)"
  shows "sameObjects k k' \<and> findUpgrade name k' = Some u"
  using assms get_same(1) [of k name]
  by (auto simp: getUpgrade_def request_def Let_def findUpgrade_def split: option.splits)

text \<open>A patch of an object as it is stored.\<close>

lemma mergePatch_same: "Upgrade_Name new = Upgrade_Name b \<Longrightarrow> mergePatch b new b = new"
  by (cases b; cases new) (simp add: mergePatch_def)

text \<open>A patch changes the object it names, by the rule given, and no other.\<close>

lemma patchUpgrade_find:
  assumes p: "patchUpgrade b new k = (k', r)" and n: "Upgrade_Name new = Upgrade_Name b"
  shows "K_nodes k' = K_nodes k" "upInv k \<Longrightarrow> upInv k'"
    "nm \<noteq> Upgrade_Name b \<Longrightarrow> findUpgrade nm k' = findUpgrade nm k"
    "findUpgrade (Upgrade_Name b) k = Some b \<Longrightarrow>
       findUpgrade (Upgrade_Name b) k' = Some b \<and> r \<noteq> ok \<or> findUpgrade (Upgrade_Name b) k' = Some new \<and> r = ok"
proof -
  let ?f = "\<lambda>u. if Upgrade_Name u = Upgrade_Name b then mergePatch b new u else u"
  have name: "Upgrade_Name (?f u) = Upgrade_Name u" for u by (simp add: mergePatch_def)
  have *: "K_nodes k' = K_nodes k \<and>
      (K_upgrades k' = K_upgrades k \<and> r \<noteq> ok \<or> K_upgrades k' = map ?f (K_upgrades k) \<and> r = ok)"
    using p by (auto simp: patchUpgrade_def request_def Let_def split: option.splits if_splits)
  have find: "findUpgrade m k' = findUpgrade m k \<and> r \<noteq> ok \<or> findUpgrade m k' = map_option ?f (findUpgrade m k) \<and> r = ok" for m
    using * by (auto simp: findUpgrade_def find_map name)
  show "K_nodes k' = K_nodes k" using * by simp
  show "upInv k \<Longrightarrow> upInv k'" using * by (auto simp: upInv_def comp_def name)
  show "findUpgrade nm k' = findUpgrade nm k" if "nm \<noteq> Upgrade_Name b"
    using find [of nm] find_name [of nm k] that by (cases "findUpgrade nm k") auto
  show "findUpgrade (Upgrade_Name b) k' = Some b \<and> r \<noteq> ok \<or> findUpgrade (Upgrade_Name b) k' = Some new \<and> r = ok"
    if "findUpgrade (Upgrade_Name b) k = Some b"
    using find [of "Upgrade_Name b"] that mergePatch_same [OF n] by auto
qed

lemma patchUpgrade_keeps:
  assumes inv: "upInv k" and b: "findUpgrade (Upgrade_Name b) k = Some b" and new: "allowed (nodeNames k) b new"
    and p: "patchUpgrade b new k = (k', r)"
  shows "keeps k k'"
proof -
  have n: "Upgrade_Name new = Upgrade_Name b" using new by (simp add: allowed_def)
  note q = patchUpgrade_find [OF p n]
  have "\<exists>u'. findUpgrade nm k' = Some u' \<and> allowed (nodeNames k) u u'" if "findUpgrade nm k = Some u" for nm u
    using q(3) [of nm] q(4) that b new by (cases "nm = Upgrade_Name b") auto
  then show ?thesis using q(1) q(2) [OF inv] by (simp add: keeps_def)
qed

lemma createUpgrade_find:
  assumes p: "createUpgrade u k = (k', r)"
  shows "K_nodes k' = K_nodes k" "upInv k \<Longrightarrow> upInv k'"
    "nm \<noteq> Upgrade_Name u \<Longrightarrow> findUpgrade nm k' = findUpgrade nm k"
    "r = ok \<Longrightarrow> findUpgrade (Upgrade_Name u) k = None \<and> findUpgrade (Upgrade_Name u) k' = Some u"
    "r \<noteq> ok \<Longrightarrow> sameObjects k k'"
proof -
  have *: "K_nodes k' = K_nodes k \<and>
      (K_upgrades k' = K_upgrades k \<and> r \<noteq> ok \<or>
       findUpgrade (Upgrade_Name u) k = None \<and> K_upgrades k' = K_upgrades k @ [u] \<and> r = ok)"
    using p by (auto simp: createUpgrade_def request_def Let_def findUpgrade_def split: option.splits if_splits)
  have app: "find P (xs @ ys) = (case find P xs of None \<Rightarrow> find P ys | Some x \<Rightarrow> Some x)" for P and xs ys :: "UpgradeObject list"
    by (induction xs) auto
  show "K_nodes k' = K_nodes k" "r \<noteq> ok \<Longrightarrow> sameObjects k k'" using * by (auto simp: sameObjects_def)
  show "upInv k \<Longrightarrow> upInv k'" using * by (fastforce simp: upInv_def findUpgrade_def find_None_iff)
  show "nm \<noteq> Upgrade_Name u \<Longrightarrow> findUpgrade nm k' = findUpgrade nm k"
    "r = ok \<Longrightarrow> findUpgrade (Upgrade_Name u) k = None \<and> findUpgrade (Upgrade_Name u) k' = Some u"
    using * by (auto simp: findUpgrade_def app split: option.splits)
qed

lemma onKube_inv: "onKube f (k, ts) = ((k', ts'), r) \<longleftrightarrow> f k = (k', r) \<and> ts' = ts"
  by (auto simp: onKube_def split: prod.splits)

text \<open>The controller.\<close>

lemma transitionTo_keeps:
  assumes "upInv k" "findUpgrade (Upgrade_Name u) k = Some u" "allowed (nodeNames k) u (u\<lparr>Phase := p\<rparr>)"
    "transitionTo u p k = (k', r)"
  shows "keeps k k'"
  using assms tryStep_end [OF assms(4) [unfolded transitionTo_def]] by (auto intro: patchUpgrade_keeps)

lemma addToUpgradedNodes_keeps:
  assumes "upInv k" "findUpgrade (Upgrade_Name u) k = Some u" "inProgress u" "addToUpgradedNodes u node k = (k', r)"
  shows "keeps k k'"
proof (cases "Node_Name node \<in> set (UpgradedNodes u)")
  case True then show ?thesis using assms by (simp add: addToUpgradedNodes_def keeps_same)
next
  case False
  then obtain y where "patchUpgrade u (u\<lparr>UpgradedNodes := UpgradedNodes u @ [Node_Name node]\<rparr>) k = (k', y)"
    using tryStep_end assms(4) by (fastforce simp: addToUpgradedNodes_def)
  then show ?thesis using assms(3) by (intro patchUpgrade_keeps [OF assms(1,2)]) (auto simp: allowed_def)
qed

lemma allNodesUpgraded_true:
  assumes "allNodesUpgraded ns k = (k', r)"
  shows "sameObjects k k'" "r = Inr True \<Longrightarrow> nodeNames k \<subseteq> set ns"
  using assms get_same(4) [of k]
  by (auto simp: allNodesUpgraded_def listNodes_def request_def Let_def filter_empty_conv split: option.splits)

lemma waitForFeatureReconciliations_kube:
  "waitForFeatureReconciliations rc fs (k, ts) = ((k', ts'), r) \<Longrightarrow> k' = k"
  by (induction fs arbitrary: ts) (auto simp: triggerFeature_def tryStep_def split: if_splits)

lemma reconcileUpgrade_keeps:
  assumes inv: "upInv k" and u: "findUpgrade (Upgrade_Name u) k = Some u" and r: "reconcileUpgrade env u (k, ts) = ((k', ts'), r)"
  shows "keeps k k'"
proof (cases "Phase u")
  case UpgradePhaseNodeUpgrade
  then have "reconcileStatusNodeUpgrade u (k, ts) = ((k', ts'), r)" using r by (simp add: reconcileUpgrade_def)
  then obtain k1 a where all: "allNodesUpgraded (UpgradedNodes u) k = (k1, a)"
    and rest: "k' = k1 \<or> a = Inr True \<and> (\<exists>y. transitionTo u UpgradePhaseFeatureUpgrade k1 = (k', y))"
    unfolding reconcileStatusNodeUpgrade_def
    by (auto simp: onKube_def tryStep_def split: prod.splits sum.splits if_splits)
  note same = allNodesUpgraded_true [OF all]
  have "keeps k1 k'" if y: "transitionTo u UpgradePhaseFeatureUpgrade k1 = (k', y)" and t: "a = Inr True" for y
  proof (rule transitionTo_keeps [OF _ _ _ y])
    show "upInv k1" "findUpgrade (Upgrade_Name u) k1 = Some u"
      using inv u sameObjects_upInv [OF same(1)] sameObjects_find [OF same(1)] by simp_all
    show "allowed (nodeNames k1) u (u\<lparr>Phase := UpgradePhaseFeatureUpgrade\<rparr>)"
      using same(1) same(2) [OF t] UpgradePhaseNodeUpgrade by (auto simp: allowed_def inProgress_def sameObjects_def)
  qed
  then show ?thesis using rest same(1) inv by (metis keeps_same keeps_after_same)
next
  case UpgradePhaseFeatureUpgrade
  then have "reconcileStatusFeatureUpgrade env u (k, ts) = ((k', ts'), r)" using r by (simp add: reconcileUpgrade_def)
  then have "k' = k \<or> (\<exists>y. transitionTo u UpgradePhaseCompleted k = (k', y))"
    unfolding reconcileStatusFeatureUpgrade_def
    by (auto simp: onKube_def tryStep_def split: prod.splits sum.splits if_splits dest: waitForFeatureReconciliations_kube)
  then show ?thesis using transitionTo_keeps [OF inv u] keeps_same [OF inv] UpgradePhaseFeatureUpgrade
    by (auto simp: allowed_def inProgress_def)
qed (use r inv in \<open>simp_all add: reconcileUpgrade_def keeps_same\<close>)

lemma getUpgrade_same: "getUpgrade name k = (k', r) \<Longrightarrow> sameObjects k k'"
  using get_same(1) [of k name] by simp

lemma reconcileNode_cases:
  assumes r: "reconcileNode vo node (k, ts) = ((k', ts'), r)"
  obtains "sameObjects k k'"
  | name u k1 y where "getUpgrade name k = (k1, Inr u)" "Phase u = UpgradePhaseNodeUpgrade" "addToUpgradedNodes u node k1 = (k', y)"
proof (cases "map_of (Node_Annotations node) ''k8sd.io/version''")
  case None then show thesis using r that(1) by (simp add: reconcileNode_def)
next
  case (Some v)
  show thesis
  proof (cases "Info_Decode vo v")
    case (Inl e) then show thesis using r Some that(1) by (simp add: reconcileNode_def)
  next
    case (Inr info)
    obtain k1 g where g: "getUpgrade (GetName vo info) k = (k1, g)" by fastforce
    consider "k' = k1" | u y where "g = Inr u" "Phase u = UpgradePhaseNodeUpgrade" "addToUpgradedNodes u node k1 = (k', y)"
      using r Some Inr g
      by (auto simp: reconcileNode_def onKube_def tryStep_def split: prod.splits sum.splits if_splits)
    then show thesis using getUpgrade_same [OF g] that g by cases auto
  qed
qed

lemma reconcileNode_keeps:
  assumes inv: "upInv k" and r: "reconcileNode vo node (k, ts) = ((k', ts'), r)"
  shows "keeps k k'"
  using r
proof (cases rule: reconcileNode_cases)
  case 1 then show ?thesis using inv by (rule keeps_same [rotated])
next
  case (2 name u k1 y)
  have s: "sameObjects k k1" "findUpgrade name k1 = Some u" using getUpgrade_ok [OF 2(1)] by auto
  have "keeps k1 k'" using sameObjects_upInv [OF s(1)] s(2) inv 2(2) find_name [OF s(2)]
    by (intro addToUpgradedNodes_keeps [OF _ _ _ 2(3)]) (auto simp: inProgress_def)
  then show ?thesis using s(1) by (blast intro: keeps_after_same)
qed

lemma Upgrade_reconcile_keeps:
  assumes inv: "upInv k" and r: "Upgrade_reconcile vo env name (k, ts) = ((k', ts'), r)"
  shows "keeps k k'"
proof -
  obtain k1 g where g: "getUpgrade name k = (k1, g)" by fastforce
  have s: "sameObjects k k1" and inv1: "upInv k1" using getUpgrade_same [OF g] inv sameObjects_upInv by auto
  have "keeps k1 k'"
  proof (cases g)
    case (Inr u)
    then have f: "findUpgrade name k1 = Some u" using getUpgrade_ok g by blast
    obtain y where "reconcileUpgrade env u (k1, ts) = ((k', ts'), y)"
      using r g Inr by (auto simp: Upgrade_reconcile_def onKube_def dest: tryStep_end)
    then show ?thesis using f find_name [OF f] reconcileUpgrade_keeps [OF inv1] by auto
  next
    case (Inl e)
    obtain k2 n where n: "getNode name k1 = (k2, n)" by fastforce
    have s2: "sameObjects k1 k2" using get_same(2) [of k1 name] n by simp
    have inv2: "upInv k2" using sameObjects_upInv [OF s2] inv1 by simp
    have "keeps k2 k'"
    proof (cases n)
      case (Inr node)
      obtain y where "reconcileNode vo node (k2, ts) = ((k', ts'), y)"
        using r g Inl n Inr by (auto simp: Upgrade_reconcile_def onKube_def Let_def dest: tryStep_end)
      then show ?thesis by (rule reconcileNode_keeps [OF inv2])
    next
      case (Inl e')
      then have "k' = k2" using r g n \<open>g = Inl e\<close> by (simp add: Upgrade_reconcile_def onKube_def Let_def)
      then show ?thesis using keeps_same [OF inv2] by simp
    qed
    then show ?thesis using s2 by (blast intro: keeps_after_same)
  qed
  then show ?thesis using s by (blast intro: keeps_after_same)
qed

text \<open>The hooks.\<close>

lemma GetInProgressUpgrade_found:
  assumes g: "GetInProgressUpgrade cd k = (k', r)"
  shows "sameObjects k k'" "r = Inr (Some u) \<Longrightarrow> u \<in> set (K_upgrades k') \<and> inProgress u"
proof -
  let ?I = "\<lambda>(k1, us, b :: bool). sameObjects k k1 \<and> set us \<subseteq> set (K_upgrades k)"
  have step: "?I st \<Longrightarrow> ?I (fst (listAttempt st))" for st
    by (auto simp: listAttempt_def listUpgrades_def request_def Let_def sameObjects_def split: option.splits prod.splits)
  obtain k1 us b x where l: "RetryFor cd 5 listAttempt (k, [], False) = ((k1, us, b), x)" by (metis prod.exhaust)
  have i: "?I (k1, us, b)" by (rule retryLoop_invariant [OF _ _ l [unfolded RetryFor_def]]) (use step in auto)
  have "k' = k1" "r = Inr (Some u) \<Longrightarrow> u \<in> set us \<and> inProgress u"
    using g l last_in_set [of "sort_key Upgrade_Name (filter inProgress us)"] sort_nonempty
    by (auto simp: GetInProgressUpgrade_def Let_def split: sum.splits if_splits)
  then show "sameObjects k k'" "r = Inr (Some u) \<Longrightarrow> u \<in> set (K_upgrades k') \<and> inProgress u"
    using i by (auto simp: sameObjects_def)
qed

lemma PatchUpgradeStatus_end:
  "PatchUpgradeStatus u ns p st k = (k', r) \<Longrightarrow>
     \<exists>y. patchUpgrade u (u\<lparr>UpgradedNodes := ns, Phase := p, Strategy := st\<rparr>) k = (k', y)"
  unfolding PatchUpgradeStatus_def by (rule tryStep_end)

text \<open>A new object, and then its status: no object that was there changes.\<close>

lemma createUpgrade_keeps: "upInv k \<Longrightarrow> createUpgrade u k = (k', r) \<Longrightarrow> keeps k k'"
  using createUpgrade_find [of u k k' r] keeps_same [of k k']
  by (cases "r = ok") (auto simp: keeps_def, metis allowed_refl option.distinct(1))

lemma create_patch_keeps:
  assumes inv: "upInv k" and c: "createUpgrade u k = (k1, ok)" and p: "PatchUpgradeStatus u ns ph st k1 = (k', r)"
  shows "keeps k k'"
proof -
  obtain y where "patchUpgrade u (u\<lparr>UpgradedNodes := ns, Phase := ph, Strategy := st\<rparr>) k1 = (k', y)"
    using PatchUpgradeStatus_end [OF p] by blast
  then have p': "K_nodes k' = K_nodes k1" "upInv k1 \<Longrightarrow> upInv k'"
    "nm \<noteq> Upgrade_Name u \<Longrightarrow> findUpgrade nm k' = findUpgrade nm k1" for nm
    by (auto dest: patchUpgrade_find)
  note c' = createUpgrade_find [OF c]
  have "findUpgrade nm k' = Some v" if "findUpgrade nm k = Some v" for nm v
    using that c'(4) c'(3) [of nm] p'(3) [of nm] by (cases "nm = Upgrade_Name u") auto
  then show ?thesis using c'(1,2) p'(1,2) inv by (simp add: keeps_def)
qed

lemma markNode_keeps:
  assumes inv: "upInv k" and u: "u \<in> set (K_upgrades k)" "inProgress u" "p = UpgradePhaseNodeUpgrade \<or> p = Phase u"
    and p: "PatchUpgradeStatus u (if n \<in> set (UpgradedNodes u) then UpgradedNodes u else UpgradedNodes u @ [n]) p st k = (k', r)"
  shows "keeps k k'"
proof -
  obtain y where "patchUpgrade u (u\<lparr>UpgradedNodes := (if n \<in> set (UpgradedNodes u) then UpgradedNodes u else UpgradedNodes u @ [n]),
      Phase := p, Strategy := st\<rparr>) k = (k', y)"
    using PatchUpgradeStatus_end [OF p] by blast
  then show ?thesis
    by (rule patchUpgrade_keeps [OF inv find_distinct [OF inv u(1)], rotated]) (use u(2,3) in \<open>auto simp: allowed_def inProgress_def\<close>)
qed

lemma performPostUpgrade_keeps:
  assumes inv: "upInv k" and r: "performPostUpgrade vo cd client revision version nodeName k = (k', r)"
  shows "keeps k k'"
proof (cases client)
  case (Inl e) then show ?thesis using r keeps_same [OF inv sameObjects_refl] by (simp add: performPostUpgrade_def)
next
  case client: (Inr c)
  obtain k1 g where g: "GetInProgressUpgrade cd k = (k1, g)" by fastforce
  note found = GetInProgressUpgrade_found [OF g] and r = r [unfolded performPostUpgrade_def client tryStep_simps(2)]
  have inv1: "upInv k1" using sameObjects_upInv [OF found(1)] inv by simp
  note same1 = keeps_same [OF inv1 sameObjects_refl]
  consider (fail) e where "g = Inl e" | (new) "g = Inr None" | (old) u where "g = Inr (Some u)"
    by (metis sum.exhaust option.exhaust)
  then have "keeps k1 k'"
  proof cases
    case fail then show ?thesis using r g same1 by simp
  next
    case old
    have "u \<in> set (K_upgrades k1)" "inProgress u" using found(2) old by auto
    then show ?thesis using r g old
      by (auto simp: Let_def dest!: tryStep_end intro: markNode_keeps [OF inv1])
  next
    case new
    show ?thesis
    proof (cases "\<exists>rv v. revision = Inr rv \<and> version = Inr v")
      case False
      then show ?thesis using r g new same1 by (cases revision; cases version) auto
    next
      case True
      then obtain rv v where rv: "revision = Inr rv" "version = Inr v" by blast
      define u where "u = newUpgrade (GetName vo \<lparr>Revision = rv, KubernetesVersion = Some v\<rparr>)"
      obtain k2 c where c: "createUpgrade u k1 = (k2, c)" by fastforce
      show ?thesis
      proof (cases c)
        case (Inl e)
        then show ?thesis using r g new rv c createUpgrade_keeps [OF inv1 c] by (simp add: u_def)
      next
        case (Inr x)
        then show ?thesis using r g new rv c create_patch_keeps [OF inv1, of u k2]
          by (auto simp: u_def [symmetric] Let_def dest!: tryStep_end)
      qed
    qed
  qed
  then show ?thesis using found(1) by (blast intro: keeps_after_same)
qed

lemma initiateRollingUpgrade_keeps:
  assumes inv: "upInv k" and r: "initiateRollingUpgrade vo revision nodeName this c k = (k', r)"
  shows "keeps k k'"
proof (cases revision)
  case (Inl e) then show ?thesis using r keeps_same [OF inv sameObjects_refl] by (simp add: initiateRollingUpgrade_def)
next
  case (Inr rv)
  define u where "u = newUpgrade (GetName vo \<lparr>Revision = rv, KubernetesVersion = Some this\<rparr>)"
  obtain k2 x where x: "createUpgrade u k = (k2, x)" by fastforce
  show ?thesis
  proof (cases x)
    case (Inl e)
    then show ?thesis using r x createUpgrade_keeps [OF inv x] \<open>revision = Inr rv\<close>
      by (simp add: initiateRollingUpgrade_def u_def)
  next
    case (Inr y)
    then show ?thesis using r x create_patch_keeps [OF inv, of u k2] \<open>revision = Inr rv\<close>
      by (auto simp: initiateRollingUpgrade_def u_def [symmetric] Let_def dest!: tryStep_end)
  qed
qed

lemma handleUpgradeInProgress_keeps:
  assumes inv: "upInv k" and u: "u \<in> set (K_upgrades k)" "inProgress u"
    and r: "handleUpgradeInProgress vo nodeName u this nvs k = (k', r)"
  shows "keeps k k'"
  using r keeps_same [OF inv sameObjects_refl] markNode_keeps [OF inv u disjI2 [OF refl]]
  by (auto simp: handleUpgradeInProgress_def Let_def split: UpgradeStrategy.splits option.splits prod.splits if_split_asm)

lemma listNodes_same: "listNodes k = (k', r) \<Longrightarrow> sameObjects k k'"
  using get_same(4) [of k] by simp

lemma handleRollOutUpgrade_keeps:
  assumes inv: "upInv k" and r: "handleRollOutUpgrade vo cd revision version nodeName k = (k', r)"
  shows "keeps k k'"
proof -
  obtain k1 g where g: "GetInProgressUpgrade cd k = (k1, g)" by fastforce
  note found = GetInProgressUpgrade_found [OF g]
  have inv1: "upInv k1" using sameObjects_upInv [OF found(1)] inv by simp
  obtain k2 nv where nv: "NodeVersions vo k1 = (k2, nv)" by fastforce
  have s2: "sameObjects k1 k2" using nv
    by (auto simp: NodeVersions_def tryStep_def split: prod.splits sum.splits dest: listNodes_same)
  have inv2: "upInv k2" using sameObjects_upInv [OF s2] inv1 by simp
  have "k' = k1 \<or> k' = k2 \<or>
      (\<exists>fo this nvs y. g = Inr fo \<and> (case fo of
         None \<Rightarrow> handleNoUpgradeInProgress vo revision nodeName this nvs k2 = (k', y)
       | Some u \<Rightarrow> handleUpgradeInProgress vo nodeName u this nvs k2 = (k', y)))"
    using r g nv by (auto simp: handleRollOutUpgrade_def tryStep_def split: sum.splits option.splits)
  moreover have "keeps k1 k'"
    if "g = Inr None" "handleNoUpgradeInProgress vo revision nodeName this nvs k2 = (k', y)" for this nvs y
  proof -
    have "keeps k2 k'" using that(2) keeps_same [OF inv2 sameObjects_refl]
      by (auto simp: handleNoUpgradeInProgress_def split: sum.splits option.splits if_splits intro: initiateRollingUpgrade_keeps [OF inv2])
    then show ?thesis using s2 by (blast intro: keeps_after_same)
  qed
  moreover have "keeps k1 k'"
    if "g = Inr (Some u)" "handleUpgradeInProgress vo nodeName u this nvs k2 = (k', y)" for u this nvs y
  proof -
    have "u \<in> set (K_upgrades k2)" "inProgress u" using found(2) that(1) s2 by (auto simp: sameObjects_def)
    then show ?thesis using that(2) s2 by (blast intro: keeps_after_same handleUpgradeInProgress_keeps [OF inv2])
  qed
  ultimately have "keeps k1 k'"
    using keeps_same [OF inv1 sameObjects_refl] keeps_same [OF inv1 s2] by (fastforce split: option.splits)
  then show ?thesis using found(1) by (blast intro: keeps_after_same)
qed

section \<open>The system\<close>

text \<open>
  The steps that touch an upgrade: a reconciliation of any object, the hook of a node that was
  refreshed, the hook of a node that joins. Nodes come, go and are annotated in between.
\<close>

inductive upgradeStep :: "'v versionOps \<Rightarrow> Kube \<Rightarrow> Kube \<Rightarrow> bool" for vo where
  reconciled: "Upgrade_Reconcile vo env name (k, ts) = ((k', ts'), r) \<Longrightarrow> upgradeStep vo k k'"
| refreshed: "performPostUpgrade vo cd client revision version nodeName k = (k', r) \<Longrightarrow> upgradeStep vo k k'"
| joined: "handleRollOutUpgrade vo cd revision version nodeName k = (k', r') \<Longrightarrow> upgradeStep vo k k'"
| nodes: "upgradeStep vo k (k\<lparr>K_nodes := ns\<rparr>)"

lemma Upgrade_Reconcile_end:
  "Upgrade_Reconcile vo env name st = (st', r) \<Longrightarrow> \<exists>y. Upgrade_reconcile vo env name st = (st', y)"
  by (auto simp: Upgrade_Reconcile_def tryStep_def split: prod.splits sum.splits)

lemma upgradeStep_follows:
  assumes "upgradeStep vo k k'" "upInv k"
  shows "upInv k' \<and> (\<forall>name u. findUpgrade name k = Some u \<longrightarrow> (\<exists>u'. findUpgrade name k' = Some u' \<and> allowed (nodeNames k) u u'))"
proof -
  have "keeps k k' \<or> (\<exists>ns. k' = k\<lparr>K_nodes := ns\<rparr>)"
    using assms
  proof (cases rule: upgradeStep.cases)
    case (reconciled env name ts ts' r)
    then show ?thesis using Upgrade_Reconcile_end Upgrade_reconcile_keeps [OF assms(2)] by blast
  next
    case (refreshed cd client revision version nodeName r)
    then show ?thesis using performPostUpgrade_keeps [OF assms(2)] by blast
  next
    case (joined cd revision version nodeName r')
    then show ?thesis using handleRollOutUpgrade_keeps [OF assms(2)] by blast
  qed blast
  then show ?thesis
  proof
    assume "\<exists>ns. k' = k\<lparr>K_nodes := ns\<rparr>"
    then obtain ns where "k' = k\<lparr>K_nodes := ns\<rparr>" ..
    then show ?thesis using assms(2) by (simp add: upInv_def findUpgrade_def)
  qed (simp add: keeps_def)
qed


text \<open>Two states of a run compared.\<close>

definition laterObjects :: "Kube \<Rightarrow> Kube \<Rightarrow> bool" where
  "laterObjects k k' \<longleftrightarrow> (\<forall>name u. findUpgrade name k = Some u \<longrightarrow>
     (\<exists>u'. findUpgrade name k' = Some u' \<and> set (UpgradedNodes u) \<subseteq> set (UpgradedNodes u') \<and> (\<not> inProgress u \<longrightarrow> u' = u)))"

interpretation up: stable_system "upgradeStep vo" upInv laterObjects for vo
proof unfold_locales
  fix k k' assume "upgradeStep vo k k'" "upInv k"
  then show "upInv k' \<and> laterObjects k k'"
    using upgradeStep_follows [of vo k k'] unfolding laterObjects_def allowed_def by blast
next
  fix a b c assume "laterObjects a b" "laterObjects b c"
  then show "laterObjects a c" unfolding laterObjects_def by (metis subset_trans)
qed (simp add: laterObjects_def)

text \<open>
  Over any run of the system an upgrade object stays, its list of upgraded nodes only grows,
  and once it is completed or failed it never changes again.
\<close>

theorem upgrade_terminal_final:
  assumes "(upgradeStep vo)\<^sup>*\<^sup>* k k'" "upInv k" "findUpgrade name k = Some u"
  shows "\<exists>u'. findUpgrade name k' = Some u' \<and> set (UpgradedNodes u) \<subseteq> set (UpgradedNodes u') \<and> (\<not> inProgress u \<longrightarrow> u' = u)"
  using up.run [OF assms(1,2)] assms(3) unfolding laterObjects_def by blast

section \<open>Progress\<close>

text \<open>
  An API server that refuses nothing, an upgrade whose nodes are being upgraded, and nodes that
  are not named like an upgrade.
\<close>

abbreviation quiet :: "Kube \<Rightarrow> bool" where
  "quiet k \<equiv> K_fault k = (\<lambda>_. None)"

definition upgrading :: "string \<Rightarrow> Kube \<Rightarrow> bool" where
  "upgrading name k \<longleftrightarrow>
     quiet k \<and> distinct (map Node_Name (K_nodes k)) \<and> (\<forall>n \<in> set (K_nodes k). findUpgrade (Node_Name n) k = None) \<and>
     (case findUpgrade name k of None \<Rightarrow> False | Some u \<Rightarrow> Phase u = UpgradePhaseNodeUpgrade)"

definition onTarget :: "'v versionOps \<Rightarrow> string \<Rightarrow> ClusterNode \<Rightarrow> bool" where
  "onTarget vo name n \<longleftrightarrow>
     (case map_of (Node_Annotations n) ''k8sd.io/version'' of
        None \<Rightarrow> False
      | Some v \<Rightarrow> (case Info_Decode vo v of Inl _ \<Rightarrow> False | Inr info \<Rightarrow> GetName vo info = name))"

definition reconcileAll :: "'v versionOps \<Rightarrow> featureEnv \<Rightarrow> string list \<Rightarrow> upState \<Rightarrow> upState" where
  "reconcileAll vo env names st = fold (\<lambda>name st. fst (Upgrade_Reconcile vo env name st)) names st"

text \<open>Without faults a patch of the stored object succeeds.\<close>

lemma quiet_get:
  "quiet k \<Longrightarrow> getUpgrade name k = (k\<lparr>K_calls := Suc (K_calls k)\<rparr>, case findUpgrade name k of None \<Rightarrow> Inl ErrNotFound | Some u \<Rightarrow> Inr u)"
  "quiet k \<Longrightarrow> getNode name k = (k\<lparr>K_calls := Suc (K_calls k)\<rparr>, case findNode name k of None \<Rightarrow> Inl ErrNotFound | Some n \<Rightarrow> Inr n)"
  "quiet k \<Longrightarrow> listNodes k = (k\<lparr>K_calls := Suc (K_calls k)\<rparr>, Inr (K_nodes k))"
  "quiet k \<Longrightarrow> listUpgrades k = (k\<lparr>K_calls := Suc (K_calls k)\<rparr>, Inr (K_upgrades k))"
  by (simp_all add: getUpgrade_def getNode_def listNodes_def listUpgrades_def request_def findUpgrade_def findNode_def)

lemma calls_find [simp]:
  "findUpgrade name (k\<lparr>K_calls := c\<rparr>) = findUpgrade name k" "findNode name (k\<lparr>K_calls := c\<rparr>) = findNode name k"
  by (simp_all add: findUpgrade_def findNode_def)

lemma quiet_patch:
  assumes q: "quiet k" and b: "findUpgrade (Upgrade_Name b) k = Some b" and n: "Upgrade_Name new = Upgrade_Name b"
  obtains k' where "patchUpgrade b new k = (k', ok)" "quiet k'" "K_nodes k' = K_nodes k"
    "findUpgrade (Upgrade_Name b) k' = Some new" "\<And>nm. nm \<noteq> Upgrade_Name b \<Longrightarrow> findUpgrade nm k' = findUpgrade nm k"
proof -
  obtain k' r where p: "patchUpgrade b new k = (k', r)" by fastforce
  have "r = ok \<and> quiet k'" using p q b by (auto simp: patchUpgrade_def request_def Let_def)
  then show thesis using p patchUpgrade_find [OF p n] b by (intro that [of k']) auto
qed

lemma Upgrade_Reconcile_node:
  assumes q: "quiet k" and n: "findUpgrade (Node_Name n) k = None" "findNode (Node_Name n) k = Some n"
    and t: "onTarget vo (Upgrade_Name u) n" and u: "findUpgrade (Upgrade_Name u) k = Some u" "Phase u = UpgradePhaseNodeUpgrade"
  obtains k' u' where "Upgrade_Reconcile vo env (Node_Name n) (k, ts) = ((k', ts), Inr 300)" "quiet k'" "K_nodes k' = K_nodes k"
    "findUpgrade (Upgrade_Name u) k' = Some u'" "Upgrade_Name u' = Upgrade_Name u" "Phase u' = UpgradePhaseNodeUpgrade"
    "set (UpgradedNodes u') = insert (Node_Name n) (set (UpgradedNodes u))"
    "\<And>nm. nm \<noteq> Upgrade_Name u \<Longrightarrow> findUpgrade nm k' = findUpgrade nm k"
proof -
  obtain v info where v: "map_of (Node_Annotations n) ''k8sd.io/version'' = Some v" "Info_Decode vo v = Inr info"
    "GetName vo info = Upgrade_Name u"
    using t by (auto simp: onTarget_def split: option.splits sum.splits)
  let ?k = "k\<lparr>K_calls := K_calls k + 3\<rparr>"
  let ?u = "u\<lparr>UpgradedNodes := UpgradedNodes u @ [Node_Name n]\<rparr>"
  have run: "Upgrade_Reconcile vo env (Node_Name n) (k, ts) = tryStep (tryStep (tryStep
      (onKube (addToUpgradedNodes u n) (?k, ts)) ''failed to add node %q to upgraded nodes: %w'' [Node_Name n] (\<lambda>st _. (st, ok)))
      ''failed to reconcile node %q: %w'' [Node_Name n] (\<lambda>st _. (st, ok)))
      ''failed to reconcile: %w'' [] (\<lambda>st _. (st, Inr (5 * 60)))"
    by (simp add: Upgrade_Reconcile_def Upgrade_reconcile_def onKube_def quiet_get q n reconcileNode_def v u numeral_3_eq_3)
  show thesis
  proof (cases "Node_Name n \<in> set (UpgradedNodes u)")
    case True
    then have "Upgrade_Reconcile vo env (Node_Name n) (k, ts) = ((?k, ts), Inr 300)"
      unfolding run by (simp add: addToUpgradedNodes_def onKube_def)
    then show thesis using True q u by (intro that [of ?k u]) auto
  next
    case False
    obtain k' where k': "patchUpgrade u ?u ?k = (k', ok)" "quiet k'" "K_nodes k' = K_nodes ?k"
      "findUpgrade (Upgrade_Name u) k' = Some ?u" "\<And>nm. nm \<noteq> Upgrade_Name u \<Longrightarrow> findUpgrade nm k' = findUpgrade nm ?k"
      by (rule quiet_patch [of ?k u ?u]) (use q u in auto)
    have "Upgrade_Reconcile vo env (Node_Name n) (k, ts) = ((k', ts), Inr 300)"
      unfolding run using False k'(1) by (simp add: addToUpgradedNodes_def onKube_def)
    then show thesis using k' u by (intro that [of k' ?u]) auto
  qed
qed

lemma find_node_distinct: "distinct (map Node_Name (K_nodes k)) \<Longrightarrow> n \<in> set (K_nodes k) \<Longrightarrow> findNode (Node_Name n) k = Some n"
  unfolding findNode_def by (rule find_unique)

lemma reconcile_nodes:
  assumes "upgrading name k" "findUpgrade name k = Some u" "set ns \<subseteq> set (K_nodes k)" "\<forall>n \<in> set ns. onTarget vo name n"
  shows "\<exists>k' u'. reconcileAll vo env (map Node_Name ns) (k, ts) = (k', ts) \<and> upgrading name k' \<and> K_nodes k' = K_nodes k \<and>
     findUpgrade name k' = Some u' \<and> Node_Name ` set ns \<union> set (UpgradedNodes u) \<subseteq> set (UpgradedNodes u')"
  using assms
proof (induction ns arbitrary: k u)
  case Nil then show ?case by (auto simp: reconcileAll_def)
next
  case (Cons n ns)
  have name: "Upgrade_Name u = name" using find_name [OF Cons.prems(2)] by simp
  have up: "quiet k" "distinct (map Node_Name (K_nodes k))" "\<forall>n \<in> set (K_nodes k). findUpgrade (Node_Name n) k = None"
    "Phase u = UpgradePhaseNodeUpgrade"
    using Cons.prems(1,2) by (auto simp: upgrading_def)
  have n: "n \<in> set (K_nodes k)" "onTarget vo (Upgrade_Name u) n" using Cons.prems name by auto
  obtain k1 u1 where k1: "Upgrade_Reconcile vo env (Node_Name n) (k, ts) = ((k1, ts), Inr 300)" "quiet k1" "K_nodes k1 = K_nodes k"
    "findUpgrade (Upgrade_Name u) k1 = Some u1" "Upgrade_Name u1 = Upgrade_Name u" "Phase u1 = UpgradePhaseNodeUpgrade"
    "set (UpgradedNodes u1) = insert (Node_Name n) (set (UpgradedNodes u))"
    "\<And>nm. nm \<noteq> Upgrade_Name u \<Longrightarrow> findUpgrade nm k1 = findUpgrade nm k"
    by (rule Upgrade_Reconcile_node [OF up(1) _ find_node_distinct [OF up(2) n(1)] n(2) _ up(4)])
      (use up(3) n(1) Cons.prems(2) name in auto)
  have ne: "Node_Name m \<noteq> Upgrade_Name u" if "m \<in> set (K_nodes k)" for m
    using up(3) that Cons.prems(2) name by force
  have "upgrading name k1" using k1 up ne name by (auto simp: upgrading_def)
  moreover have "findUpgrade name k1 = Some u1" using k1(4) name by simp
  ultimately obtain k' u' where "reconcileAll vo env (map Node_Name ns) (k1, ts) = (k', ts)" "upgrading name k'" "K_nodes k' = K_nodes k1"
     "findUpgrade name k' = Some u'" "Node_Name ` set ns \<union> set (UpgradedNodes u1) \<subseteq> set (UpgradedNodes u')"
    using Cons.IH [of k1 u1] Cons.prems(3,4) k1(3) by auto
  then show ?case using k1 by (auto simp: reconcileAll_def)
qed

lemma waitForFeatureReconciliations_all:
  "set fs \<subseteq> set featureNames \<Longrightarrow> \<forall>f \<in> set fs. rc f \<Longrightarrow> waitForFeatureReconciliations rc fs (k, ts) = ((k, ts @ fs), ok)"
  by (induction fs arbitrary: ts) (auto simp: triggerFeature_def)

lemma transitionTo_quiet:
  assumes q: "quiet k" and b: "findUpgrade (Upgrade_Name u) k = Some u"
  obtains k' where "transitionTo u p k = (k', ok)" "quiet k'" "K_nodes k' = K_nodes k" "findUpgrade (Upgrade_Name u) k' = Some (u\<lparr>Phase := p\<rparr>)"
  by (rule quiet_patch [OF q b, of "u\<lparr>Phase := p\<rparr>"]) (auto simp: transitionTo_def intro: that)

lemma Upgrade_Reconcile_featurePhase:
  assumes up: "upgrading name k" and u: "findUpgrade name k = Some u" and all: "Node_Name ` set (K_nodes k) \<subseteq> set (UpgradedNodes u)"
  shows "\<exists>k'. Upgrade_Reconcile vo env name (k, ts) = ((k', ts), Inr 300) \<and> quiet k' \<and>
     findUpgrade name k' = Some (u\<lparr>Phase := UpgradePhaseFeatureUpgrade\<rparr>)"
proof -
  have q: "quiet k" and ph: "Phase u = UpgradePhaseNodeUpgrade" and name: "Upgrade_Name u = name"
    using up u find_name [OF u] by (auto simp: upgrading_def)
  let ?k = "k\<lparr>K_calls := Suc (Suc (K_calls k))\<rparr>"
  obtain k' where "transitionTo u UpgradePhaseFeatureUpgrade ?k = (k', ok)" "quiet k'"
    "findUpgrade name k' = Some (u\<lparr>Phase := UpgradePhaseFeatureUpgrade\<rparr>)"
    by (rule transitionTo_quiet [of ?k u]) (use q u name in auto)
  moreover have "filter (\<lambda>n. n \<notin> set (UpgradedNodes u)) (map Node_Name (K_nodes k)) = []"
    using all by (auto simp: filter_empty_conv)
  ultimately show ?thesis
    by (simp add: Upgrade_Reconcile_def Upgrade_reconcile_def onKube_def quiet_get q u reconcileUpgrade_def ph
        reconcileStatusNodeUpgrade_def allNodesUpgraded_def)
qed

lemma Upgrade_Reconcile_completes:
  assumes q: "quiet k" and u: "findUpgrade name k = Some u" "Phase u = UpgradePhaseFeatureUpgrade"
    and env: "Env_Ready env" "set (Env_Features env) \<subseteq> set featureNames" "\<forall>f \<in> set (Env_Features env). Env_Reconciles env f"
  shows "\<exists>k'. Upgrade_Reconcile vo env name (k, ts) = ((k', ts @ Env_Features env), Inr 300) \<and>
     findUpgrade name k' = Some (u\<lparr>Phase := UpgradePhaseCompleted\<rparr>)"
proof -
  have name: "Upgrade_Name u = name" using find_name [OF u(1)] by simp
  let ?k = "k\<lparr>K_calls := Suc (K_calls k)\<rparr>"
  obtain k' where "transitionTo u UpgradePhaseCompleted ?k = (k', ok)" "findUpgrade name k' = Some (u\<lparr>Phase := UpgradePhaseCompleted\<rparr>)"
    by (rule transitionTo_quiet [of ?k u]) (use q u name in auto)
  then show ?thesis
    by (simp add: Upgrade_Reconcile_def Upgrade_reconcile_def onKube_def quiet_get q u reconcileUpgrade_def
        reconcileStatusFeatureUpgrade_def env(1) waitForFeatureReconciliations_all [OF env(2,3)])
qed

text \<open>
  C18: When the nodes of a cluster run the version of an upgrade in its node phase, no request fails,
  the feature controllers become ready and every feature reconciles, then reconciling every node and
  twice the upgrade completes it, with every node recorded and every feature triggered once in order.
\<close>

theorem upgrade_completes:
  assumes up: "upgrading name k" and t: "\<forall>n \<in> set (K_nodes k). onTarget vo name n"
    and env: "Env_Ready env" "set (Env_Features env) \<subseteq> set featureNames" "\<forall>f \<in> set (Env_Features env). Env_Reconciles env f"
  shows "\<exists>k' u'. reconcileAll vo env (map Node_Name (K_nodes k) @ [name, name]) (k, ts) = (k', ts @ Env_Features env) \<and>
     findUpgrade name k' = Some u' \<and> Phase u' = UpgradePhaseCompleted \<and> nodeNames k \<subseteq> set (UpgradedNodes u')"
proof -
  obtain u where u: "findUpgrade name k = Some u" using up by (auto simp: upgrading_def split: option.splits)
  obtain k1 u1 where k1: "reconcileAll vo env (map Node_Name (K_nodes k)) (k, ts) = (k1, ts)" "upgrading name k1" "K_nodes k1 = K_nodes k"
    "findUpgrade name k1 = Some u1" "nodeNames k \<union> set (UpgradedNodes u) \<subseteq> set (UpgradedNodes u1)"
    using reconcile_nodes [OF up u subset_refl t, of env ts] by (elim exE conjE)
  have all: "nodeNames k1 \<subseteq> set (UpgradedNodes u1)" using k1(3,5) by simp
  obtain k2 where k2: "Upgrade_Reconcile vo env name (k1, ts) = ((k2, ts), Inr 300)" "quiet k2"
    "findUpgrade name k2 = Some (u1\<lparr>Phase := UpgradePhaseFeatureUpgrade\<rparr>)"
    using Upgrade_Reconcile_featurePhase [OF k1(2,4) all] by blast
  obtain k3 where "Upgrade_Reconcile vo env name (k2, ts) = ((k3, ts @ Env_Features env), Inr 300)"
    "findUpgrade name k3 = Some (u1\<lparr>Phase := UpgradePhaseFeatureUpgrade, Phase := UpgradePhaseCompleted\<rparr>)"
    using Upgrade_Reconcile_completes [OF k2(2,3) _ env, of vo ts] by auto
  then show ?thesis using k1(1,3) k2(1) all by (simp add: reconcileAll_def)
qed

section \<open>What the hooks do\<close>

lemma GetInProgressUpgrade_quiet:
  "quiet k \<Longrightarrow> GetInProgressUpgrade cd k =
     (k\<lparr>K_calls := Suc (K_calls k)\<rparr>,
      Inr (case filter inProgress (K_upgrades k) of [] \<Rightarrow> None | us \<Rightarrow> Some (last (sort_key Upgrade_Name us))))"
  by (simp add: GetInProgressUpgrade_def RetryFor_def numeral_eq_Suc listAttempt_def quiet_get Let_def split: list.split)

text \<open>
  The hook of a refreshed node adds the node to the upgrade in progress with the last name; it
  also sets the phase back to the node phase, even when the features were already being upgraded, and
  makes the strategy in-place, even when a rolling upgrade was in progress.
\<close>

theorem performPostUpgrade_marks:
  assumes q: "quiet k" and inv: "upInv k" and us: "filter inProgress (K_upgrades k) \<noteq> []"
  shows "let u = last (sort_key Upgrade_Name (filter inProgress (K_upgrades k)));
             (k', r) = performPostUpgrade vo cd ok revision version nodeName k in
         r = ok \<and> findUpgrade (Upgrade_Name u) k' = Some (u\<lparr>
           UpgradedNodes := (if nodeName \<in> set (UpgradedNodes u) then UpgradedNodes u else UpgradedNodes u @ [nodeName]),
           Phase := UpgradePhaseNodeUpgrade, Strategy := UpgradeStrategyInPlace\<rparr>)"
proof -
  define u where "u = last (sort_key Upgrade_Name (filter inProgress (K_upgrades k)))"
  let ?k = "k\<lparr>K_calls := Suc (K_calls k)\<rparr>"
  let ?new = "u\<lparr>UpgradedNodes := (if nodeName \<in> set (UpgradedNodes u) then UpgradedNodes u else UpgradedNodes u @ [nodeName]),
      Phase := UpgradePhaseNodeUpgrade, Strategy := UpgradeStrategyInPlace\<rparr>"
  have "u \<in> set (K_upgrades k)"
    using last_in_set [OF sort_nonempty [OF us, of Upgrade_Name]] by (auto simp: u_def)
  then have "findUpgrade (Upgrade_Name u) ?k = Some u" using find_distinct [OF inv] by simp
  then obtain k' where "patchUpgrade u ?new ?k = (k', ok)" "findUpgrade (Upgrade_Name u) k' = Some ?new"
    using quiet_patch [of ?k u ?new] q by auto
  moreover have "GetInProgressUpgrade cd k = (?k, Inr (Some u))"
    using us by (simp add: GetInProgressUpgrade_quiet q u_def split: list.split)
  ultimately show ?thesis
    unfolding u_def [symmetric] by (simp add: performPostUpgrade_def Let_def PatchUpgradeStatus_def)
qed

text \<open>
  When a finished upgrade to the same version and revision is still stored (the snap was refreshed
  to it before), the hook of a refreshed node fails and changes nothing.
\<close>

theorem performPostUpgrade_name_taken:
  assumes q: "quiet k" and us: "filter inProgress (K_upgrades k) = []"
    and taken: "findUpgrade (GetName vo \<lparr>Revision = rv, KubernetesVersion = Some v\<rparr>) k \<noteq> None"
  shows "let (k', r) = performPostUpgrade vo cd ok (Inr rv) (Inr v) nodeName k in
         r = Inl (Wrapf ''failed to create upgrade: %w'' [] ErrAlreadyExists) \<and> K_upgrades k' = K_upgrades k"
  using assms
  by (simp add: performPostUpgrade_def GetInProgressUpgrade_quiet createUpgrade_def request_def newUpgrade_def findUpgrade_def)

text \<open>
  The version a node announces in its annotation is the one the controller reads, given a JSON codec
  and version strings that read back.
\<close>

lemma Info_Decode_Encode:
  assumes "\<And>p b. jsonEncodeInfo vo p = Inr b \<Longrightarrow> b \<noteq> '''' \<and> jsonDecodeInfo vo b = Inr p"
    "\<And>v. v_string vo v \<noteq> '''' \<and> v_parse vo (v_string vo v) = Inr v" "Info_Encode vo d = Inr b"
  shows "Info_Decode vo b = Inr d"
proof -
  have "jsonEncodeInfo vo (Revision d, case KubernetesVersion d of None \<Rightarrow> '''' | Some v \<Rightarrow> v_string vo v) = Inr b"
    using assms(3) by (simp add: Info_Encode_def Info_MarshalJSON_def split: sum.splits)
  then show ?thesis
    using assms(1) [of _ b] assms(2)
    by (cases d; cases "KubernetesVersion d") (auto simp: Info_Decode_def Info_UnmarshalJSON_def)
qed

text \<open>Which version a node has to have to join a rolling upgrade.\<close>

definition versionOrder :: "'v versionOps \<Rightarrow> bool" where
  "versionOrder vo \<longleftrightarrow> (\<forall>x. \<not> v_less vo x x) \<and> (\<forall>x y z. \<not> v_less vo y x \<and> \<not> v_less vo z y \<longrightarrow> \<not> v_less vo z x) \<and>
     (\<forall>x y. v_less vo x y \<longrightarrow> \<not> v_less vo y x)"

lemma lowestHighestK8sVersions_bounds:
  assumes ord: "versionOrder vo" and r: "lowestHighestK8sVersions vo nvs (lo, hi) = (Some l, Some g)"
  shows "(l \<in> snd ` set nvs \<or> lo = Some l) \<and> (g \<in> snd ` set nvs \<or> hi = Some g) \<and>
     (\<forall>v \<in> snd ` set nvs \<union> set_option lo. \<not> v_less vo v l) \<and> (\<forall>v \<in> snd ` set nvs \<union> set_option hi. \<not> v_less vo g v)"
  using r
proof (induction nvs arbitrary: lo hi)
  case Nil then show ?case using ord by (auto simp: versionOrder_def)
next
  case (Cons nv nvs)
  obtain n v where nv: "nv = (n, v)" by fastforce
  let ?lo = "case lo of None \<Rightarrow> Some v | Some l \<Rightarrow> if v_less vo v l then Some v else Some l"
  let ?hi = "case hi of None \<Rightarrow> Some v | Some g \<Rightarrow> if v_less vo g v then Some v else Some g"
  have IH: "(l \<in> snd ` set nvs \<or> ?lo = Some l) \<and> (g \<in> snd ` set nvs \<or> ?hi = Some g) \<and>
     (\<forall>v \<in> snd ` set nvs \<union> set_option ?lo. \<not> v_less vo v l) \<and> (\<forall>v \<in> snd ` set nvs \<union> set_option ?hi. \<not> v_less vo g v)"
    using Cons.prems by (intro Cons.IH) (simp add: nv)
  have trans: "\<not> v_less vo y x \<Longrightarrow> \<not> v_less vo z y \<Longrightarrow> \<not> v_less vo z x" and asym: "v_less vo x y \<Longrightarrow> \<not> v_less vo y x" for x y z
    using ord unfolding versionOrder_def by blast+
  have lo: "\<not> v_less vo v l \<and> (\<forall>w \<in> set_option lo. \<not> v_less vo w l)"
  proof (cases lo)
    case (Some w)
    show ?thesis using IH trans [of v l w] trans [of w l v] asym [of v w] by (cases "v_less vo v w") (simp_all add: Some)
  qed (use IH in simp)
  have hi: "\<not> v_less vo g v \<and> (\<forall>w \<in> set_option hi. \<not> v_less vo g w)"
  proof (cases hi)
    case (Some w)
    show ?thesis using IH trans [of v w g] trans [of w v g] asym [of w v] by (cases "v_less vo w v") (simp_all add: Some)
  qed (use IH in simp)
  have "l \<in> insert v (snd ` set nvs) \<or> lo = Some l" using IH by (cases lo) (auto split: if_splits)
  moreover have "g \<in> insert v (snd ` set nvs) \<or> hi = Some g" using IH by (cases hi) (auto split: if_splits)
  moreover have "\<forall>w \<in> snd ` set nvs. \<not> v_less vo w l" "\<forall>w \<in> snd ` set nvs. \<not> v_less vo g w" using IH by blast+
  ultimately show ?case using lo hi by (simp add: nv ball_Un)
qed

lemma lowestHighestK8sVersions_some: "nvs \<noteq> [] \<or> lo \<noteq> None \<and> hi \<noteq> None \<Longrightarrow>
    \<exists>l g. lowestHighestK8sVersions vo nvs (lo, hi) = (Some l, Some g)"
proof (induction nvs arbitrary: lo hi)
  case (Cons nv nvs)
  obtain n v where nv: "nv = (n, v)" by fastforce
  show ?case unfolding nv lowestHighestK8sVersions.simps by (rule Cons.IH) (auto split: option.splits)
qed auto

text \<open>
  A node joins a cluster in the middle of an upgrade only when the upgrade is a rolling one, and
  then only with the highest version of the cluster when upgrading, the lowest when downgrading.
\<close>

theorem join_rolling_version:
  assumes ord: "versionOrder vo" and j: "handleUpgradeInProgress vo nodeName u this nodeVersions k = (k', ok)"
  shows "(\<exists>v \<in> snd ` set nodeVersions. v_equal vo this v \<and>
       (if Strategy u = UpgradeStrategyRollingUpgrade then \<forall>w \<in> snd ` set nodeVersions. \<not> v_less vo v w
        else \<forall>w \<in> snd ` set nodeVersions. \<not> v_less vo w v)) \<and>
     (Strategy u = UpgradeStrategyRollingUpgrade \<or> Strategy u = UpgradeStrategyRollingDowngrade)"
proof -
  have ne: "nodeVersions \<noteq> []" using j by (auto simp: handleUpgradeInProgress_def Let_def split: UpgradeStrategy.splits)
  then obtain l g where lg: "lowestHighestK8sVersions vo nodeVersions (None, None) = (Some l, Some g)"
    using lowestHighestK8sVersions_some by blast
  show ?thesis
    using j lowestHighestK8sVersions_bounds [OF ord lg] by (auto simp: handleUpgradeInProgress_def lg Let_def split: UpgradeStrategy.splits if_splits)
qed

text \<open>A cluster of two nodes with plain version strings.\<close>

definition stringVersions :: "string versionOps" where
  "stringVersions = \<lparr>v_equal = (=), v_less = (\<lambda>x y. length x < length y), v_major = (\<lambda>v. length (takeWhile (\<lambda>c. c \<noteq> CHR ''.'') v)),
     v_minor = length, v_string = id, v_parse = Inr, jsonEncodeInfo = (\<lambda>(r, v). Inr v), jsonDecodeInfo = (\<lambda>d. Inr (''7'', d))\<rparr>"

definition sampleNode :: "string \<Rightarrow> ClusterNode" where
  "sampleNode n = \<lparr>Node_Name = n, Node_Annotations = [(''k8sd.io/version'', ''1.34'')], Node_KubeletVersion = ''1.34''\<rparr>"

definition sampleUpgrade :: "UpgradePhase \<Rightarrow> UpgradeObject" where
  "sampleUpgrade p = \<lparr>Upgrade_Name = ''cluster-upgrade-to-k8s-1.34-rev-7'', UpgradedNodes = [''a''], Phase = p, Strategy = UpgradeStrategyInPlace\<rparr>"

definition sampleKube :: "UpgradePhase \<Rightarrow> Kube" where
  "sampleKube p = \<lparr>K_upgrades = [sampleUpgrade p], K_nodes = [sampleNode ''a'', sampleNode ''b''], K_calls = 0, K_fault = (\<lambda>_. None)\<rparr>"

lemmas upgrade_eval = stringVersions_def sampleNode_def sampleUpgrade_def sampleKube_def findUpgrade_def findNode_def upInv_def
  inProgress_def GetName_def Info_Decode_def Info_UnmarshalJSON_def

theorem upgrade_completes_witness:
  "let name = ''cluster-upgrade-to-k8s-1.34-rev-7'';
       env = \<lparr>Env_Ready = True, Env_Features = [''dns'', ''network''], Env_Reconciles = (\<lambda>_. True)\<rparr>;
       k = sampleKube UpgradePhaseNodeUpgrade in
   \<exists>k' u'. reconcileAll stringVersions env (map Node_Name (K_nodes k) @ [name, name]) (k, []) = (k', [] @ Env_Features env) \<and>
     findUpgrade name k' = Some u' \<and> Phase u' = UpgradePhaseCompleted \<and> nodeNames k \<subseteq> set (UpgradedNodes u')"
  unfolding Let_def
  by (rule upgrade_completes) (simp_all add: upgrading_def onTarget_def upgrade_eval featureNames_def)

lemma sampleStep: "upgradeStep stringVersions (sampleKube p) (sampleKube p\<lparr>K_nodes := []\<rparr>)"
  by (rule upgradeStep.nodes)


theorem upgrade_terminal_final_witness:
  "\<exists>u'. findUpgrade ''cluster-upgrade-to-k8s-1.34-rev-7'' (sampleKube UpgradePhaseCompleted\<lparr>K_nodes := []\<rparr>) = Some u' \<and>
     set (UpgradedNodes (sampleUpgrade UpgradePhaseCompleted)) \<subseteq> set (UpgradedNodes u') \<and>
     (\<not> inProgress (sampleUpgrade UpgradePhaseCompleted) \<longrightarrow> u' = sampleUpgrade UpgradePhaseCompleted)"
  by (rule upgrade_terminal_final [OF r_into_rtranclp [where r = "upgradeStep stringVersions", OF sampleStep]]) (simp_all add: upgrade_eval)

theorem performPostUpgrade_marks_witness:
  "let k = sampleKube UpgradePhaseFeatureUpgrade; u = last (sort_key Upgrade_Name (filter inProgress (K_upgrades k)));
       (k', r) = performPostUpgrade stringVersions (\<lambda>_. False) ok (Inr ''7'') (Inr ''1.34'') ''b'' k in
   r = ok \<and> findUpgrade (Upgrade_Name u) k' = Some (u\<lparr>
     UpgradedNodes := (if ''b'' \<in> set (UpgradedNodes u) then UpgradedNodes u else UpgradedNodes u @ [''b'']),
     Phase := UpgradePhaseNodeUpgrade, Strategy := UpgradeStrategyInPlace\<rparr>)"
  unfolding Let_def by (rule performPostUpgrade_marks [unfolded Let_def]) (simp_all add: upgrade_eval)

theorem performPostUpgrade_name_taken_witness:
  "let (k', r) = performPostUpgrade stringVersions (\<lambda>_. False) ok (Inr ''7'') (Inr ''1.34'') ''b'' (sampleKube UpgradePhaseCompleted) in
   r = Inl (Wrapf ''failed to create upgrade: %w'' [] ErrAlreadyExists) \<and> K_upgrades k' = K_upgrades (sampleKube UpgradePhaseCompleted)"
  by (rule performPostUpgrade_name_taken) (simp_all add: upgrade_eval)

theorem join_rolling_version_witness:
  "let u = sampleUpgrade UpgradePhaseNodeUpgrade\<lparr>Strategy := UpgradeStrategyRollingUpgrade\<rparr>; nvs = [(''a'', ''1.34''), (''b'', ''1.9'')] in
   (\<exists>v \<in> snd ` set nvs. v_equal stringVersions ''1.34'' v \<and>
       (if Strategy u = UpgradeStrategyRollingUpgrade then \<forall>w \<in> snd ` set nvs. \<not> v_less stringVersions v w
        else \<forall>w \<in> snd ` set nvs. \<not> v_less stringVersions w v)) \<and>
     (Strategy u = UpgradeStrategyRollingUpgrade \<or> Strategy u = UpgradeStrategyRollingDowngrade)"
  unfolding Let_def
  by (rule join_rolling_version [where nodeName = "''a''" and k = "sampleKube UpgradePhaseNodeUpgrade"
        and k' = "fst (handleUpgradeInProgress stringVersions ''a'' (sampleUpgrade UpgradePhaseNodeUpgrade\<lparr>Strategy := UpgradeStrategyRollingUpgrade\<rparr>)
           ''1.34'' [(''a'', ''1.34''), (''b'', ''1.9'')] (sampleKube UpgradePhaseNodeUpgrade))"])
    (simp_all add: upgrade_eval versionOrder_def handleUpgradeInProgress_def PatchUpgradeStatus_def patchUpgrade_def request_def)

end
