(* ===== verification/FeatureLoop.thy ===== *)
theory FeatureLoop
  imports UpgradeLife GoTime
begin

text \<open>
  The feature controller (\<open>pkg/k8sd/controllers/feature.go\<close>): one loop per feature that waits for a
  trigger, is held back by an upgrade in progress, applies the configuration and retries with an
  exponential backoff (\<open>pkg/utils/time/backoff.go\<close>); and the buffered signal channels it uses
  (\<open>pkg/utils/chan.go\<close>).

  The channels of the loop have capacity one and carry no data, so a channel is whether it is full.
  Timers started by \<open>time.AfterFunc\<close> are kept in a list; firing one is a step of its own. The state
  \<open>'e\<close> is what the feature works on (database, cluster); the implementation of the features is an
  argument.
\<close>

section \<open>Channels and delays\<close>

definition MaybeNotify :: "bool \<Rightarrow> bool" where
  "MaybeNotify full = (if \<not> full then True else full)"

definition MaybeReceive :: "bool \<Rightarrow> bool" where
  "MaybeReceive full = (if full then False else full)"

text \<open>
  \<open>ExponentialBackoff\<close> on 64-bit nanoseconds. \<open>rnd\<close> is what \<open>rand.Int64N\<close> draws below its argument; it
  panics, here \<open>None\<close>, when the argument is not positive.
\<close>

definition Int64N :: "int \<Rightarrow> int \<Rightarrow> int option" where
  "Int64N rnd n = (if n \<le> 0 then None else Some (rnd mod n))"

definition backoffDelay :: "int \<Rightarrow> int \<Rightarrow> int \<Rightarrow> int" where
  "backoffDelay attempts baseDelay maxDelay =
     (let exp = min (max 0 attempts) 32 in min (int64 (baseDelay * 2 ^ nat exp)) maxDelay)"

definition ExponentialBackoff :: "int \<Rightarrow> int \<Rightarrow> int \<Rightarrow> int \<Rightarrow> int option" where
  "ExponentialBackoff rnd attempts baseDelay maxDelay =
     (let d = backoffDelay attempts baseDelay maxDelay in
      map_option (\<lambda>r. int64 (d + int64 (r - goQuot d 2))) (Int64N rnd d))"

definition Second :: int where "Second = 1000000000"
definition Minute :: int where "Minute = 60 * Second"

section \<open>One reconciliation\<close>

record ('e, 't) featureOps =
  getClusterConfig :: "'e \<Rightarrow> ('e, ClusterConfig) step"
  setFeatureStatus :: "string \<Rightarrow> 't FeatureStatus \<Rightarrow> 'e \<Rightarrow> ('e, unit) step"
  kubernetesClient :: "unit res"
  disableSeparateFeatureUpgrades :: string

definition Feature_reconcile ::
  "('e \<Rightarrow> ('e, ClusterConfig) step) \<Rightarrow> (ClusterConfig \<Rightarrow> 'e \<Rightarrow> 'e \<times> 't FeatureStatus \<times> unit res)
    \<Rightarrow> ('t FeatureStatus \<Rightarrow> 'e \<Rightarrow> ('e, unit) step) \<Rightarrow> 'e \<Rightarrow> ('e, unit) step"
where
  "Feature_reconcile getConfig applyF updateFeatureStatus e =
     tryStep (getConfig e) ''failed to retrieve cluster configuration: %w'' [] (\<lambda>e cfg.
       case applyF cfg e of (e, status, applyErr) \<Rightarrow>
       case updateFeatureStatus status e of (e, _) \<Rightarrow>
       tryStep (e, applyErr) ''failed to apply configuration: %w'' [] (\<lambda>e _. (e, ok)))"

definition isBlocked ::
  "('e, 't) featureOps \<Rightarrow> (nat \<Rightarrow> bool) \<Rightarrow> 'e \<times> Kube \<Rightarrow> ('e \<times> Kube, bool) step"
where
  "isBlocked ops ctxDone = (\<lambda>(e, k).
     tryStep (case getClusterConfig ops e of (e, r) \<Rightarrow> ((e, k), r)) ''failed to retrieve cluster configuration: %w'' []
       (\<lambda>(e, k) cfg.
     if snd (Annotations_Get (CC_Annotations cfg) (disableSeparateFeatureUpgrades ops)) then ((e, k), Inr False)
     else tryStep ((e, k), kubernetesClient ops) ''failed to get Kubernetes client: %w'' [] (\<lambda>(e, k) _.
     tryStep (case GetInProgressUpgrade ctxDone k of (k, r) \<Rightarrow> ((e, k), r)) ''failed to check for in-progress upgrade: %w'' []
       (\<lambda>(e, k) upgrade.
         ((e, k), Inr (case upgrade of None \<Rightarrow> False | Some u \<Rightarrow> Phase u \<noteq> UpgradePhaseFeatureUpgrade))))))"

section \<open>The loop\<close>

record 'e featureLoop =
  L_env :: 'e
  L_kube :: Kube
  L_attempts :: int
  L_trigger :: bool
  L_reconciled :: bool
  L_timers :: "int list"

text \<open>
  The body of the loop once it has received from the trigger channel. \<open>None\<close> is a panic, which ends
  the process.
\<close>

definition reconcileLoopBody ::
  "('e, 't) featureOps \<Rightarrow> int \<Rightarrow> string \<Rightarrow> (ClusterConfig \<Rightarrow> 'e \<Rightarrow> 'e \<times> 't FeatureStatus \<times> unit res)
    \<Rightarrow> (nat \<Rightarrow> bool) \<Rightarrow> int \<Rightarrow> 'e featureLoop \<Rightarrow> 'e featureLoop option"
where
  "reconcileLoopBody ops maxRetryAttempts featureName applyF ctxDone rnd l0 =
     (let l = l0\<lparr>L_trigger := False, L_reconciled := MaybeReceive (L_reconciled l0)\<rparr> in
      case isBlocked ops ctxDone (L_env l, L_kube l) of
        ((e, k), Inl _) \<Rightarrow> Some (l\<lparr>L_env := e, L_kube := k, L_timers := L_timers l @ [5 * Second]\<rparr>)
      | ((e, k), Inr True) \<Rightarrow> Some (l\<lparr>L_env := e, L_kube := k\<rparr>)
      | ((e, k), Inr False) \<Rightarrow>
          (case Feature_reconcile (getClusterConfig ops) applyF (setFeatureStatus ops featureName) e of
             (e, Inl _) \<Rightarrow>
               let attempts = L_attempts l + 1 in
               if attempts \<ge> maxRetryAttempts \<and> maxRetryAttempts > 0
               then Some (l\<lparr>L_env := e, L_kube := k, L_attempts := 0\<rparr>)
               else (case ExponentialBackoff rnd attempts (3 * Second) (5 * Minute) of
                       None \<Rightarrow> None
                     | Some delay \<Rightarrow> Some (l\<lparr>L_env := e, L_kube := k, L_attempts := attempts, L_timers := L_timers l @ [delay]\<rparr>))
           | (e, Inr _) \<Rightarrow> Some (l\<lparr>L_env := e, L_kube := k, L_attempts := 0, L_reconciled := MaybeNotify (L_reconciled l)\<rparr>)))"

text \<open>A timer that fires notifies the trigger channel.\<close>

definition fireTimer :: "nat \<Rightarrow> 'e featureLoop \<Rightarrow> 'e featureLoop" where
  "fireTimer i l = l\<lparr>L_trigger := MaybeNotify (L_trigger l), L_timers := take i (L_timers l) @ drop (Suc i) (L_timers l)\<rparr>"

text \<open>
  What the loop of a feature goes through: triggers from elsewhere, timers, its own body, and the
  upgrade controller taking the \<open>reconciled\<close> signal. Outside the body the objects of the API server
  change as well.
\<close>

inductive featureStep ::
  "('e, 't) featureOps \<Rightarrow> int \<Rightarrow> string \<Rightarrow> (ClusterConfig \<Rightarrow> 'e \<Rightarrow> 'e \<times> 't FeatureStatus \<times> unit res)
    \<Rightarrow> 'e featureLoop \<Rightarrow> 'e featureLoop \<Rightarrow> bool"
  for ops maxRetryAttempts featureName applyF
where
  triggered: "featureStep ops maxRetryAttempts featureName applyF l (l\<lparr>L_trigger := MaybeNotify (L_trigger l)\<rparr>)"
| timer: "i < length (L_timers l) \<Longrightarrow> featureStep ops maxRetryAttempts featureName applyF l (fireTimer i l)"
| body: "L_trigger l \<Longrightarrow> reconcileLoopBody ops maxRetryAttempts featureName applyF ctxDone rnd l = Some l'
    \<Longrightarrow> featureStep ops maxRetryAttempts featureName applyF l l'"
| taken: "L_reconciled l \<Longrightarrow> featureStep ops maxRetryAttempts featureName applyF l (l\<lparr>L_reconciled := MaybeReceive (L_reconciled l)\<rparr>)"
| environment: "featureStep ops maxRetryAttempts featureName applyF l (l\<lparr>L_env := e, L_kube := k\<rparr>)"

section \<open>The features\<close>

text \<open>The interface of the feature implementations (\<open>pkg/k8sd/features/interface.go\<close>).\<close>

record ('e, 't) featuresInterface =
  ApplyDNS :: "DNS \<Rightarrow> Kubelet \<Rightarrow> Annotations \<Rightarrow> 'e \<Rightarrow> 'e \<times> 't FeatureStatus \<times> string res"
  ApplyNetwork :: "APIServer \<Rightarrow> Network \<Rightarrow> Annotations \<Rightarrow> 'e \<Rightarrow> 'e \<times> 't FeatureStatus \<times> unit res"
  ApplyLoadBalancer :: "LoadBalancer \<Rightarrow> Network \<Rightarrow> Annotations \<Rightarrow> 'e \<Rightarrow> 'e \<times> 't FeatureStatus \<times> unit res"
  ApplyIngress :: "Ingress \<Rightarrow> Network \<Rightarrow> Annotations \<Rightarrow> 'e \<Rightarrow> 'e \<times> 't FeatureStatus \<times> unit res"
  ApplyGateway :: "Gateway \<Rightarrow> Network \<Rightarrow> Annotations \<Rightarrow> 'e \<Rightarrow> 'e \<times> 't FeatureStatus \<times> unit res"
  ApplyMetricsServer :: "MetricsServer \<Rightarrow> Annotations \<Rightarrow> 'e \<Rightarrow> 'e \<times> 't FeatureStatus \<times> unit res"
  ApplyLocalStorage :: "LocalStorage \<Rightarrow> Annotations \<Rightarrow> 'e \<Rightarrow> 'e \<times> 't FeatureStatus \<times> unit res"

text \<open>
  The DNS loop publishes a changed cluster DNS address; \<open>errText\<close> renders an error into the status
  message.
\<close>

definition applyDNSFeature ::
  "('e, 't) featuresInterface \<Rightarrow> (string \<Rightarrow> 'e \<Rightarrow> ('e, unit) step) \<Rightarrow> (error \<Rightarrow> string) \<Rightarrow> ClusterConfig
    \<Rightarrow> 'e \<Rightarrow> 'e \<times> 't FeatureStatus \<times> unit res"
where
  "applyDNSFeature impl notifyDNSChangedIP errText cfg e =
     (case ApplyDNS impl (CC_DNS cfg) (CC_Kubelet cfg) (CC_Annotations cfg) e of
        (e, status, Inl err) \<Rightarrow> (e, status, Inl (Wrapf ''failed to apply DNS configuration: %w'' [] err))
      | (e, status, Inr dnsIP) \<Rightarrow>
          if dnsIP \<noteq> [] then
            (case notifyDNSChangedIP dnsIP e of
               (e, Inl err) \<Rightarrow>
                 let changeErr = Wrapf ''failed to update DNS IP address to %s: %w'' [dnsIP] err in
                 (e, status\<lparr>FS_Message := FS_Message status @ '': '' @ errText changeErr\<rparr>, Inl changeErr)
             | (e, Inr _) \<Rightarrow> (e, status, ok))
          else (e, status, ok))"

text \<open>
  \<open>Run\<close>: no loop on a worker (an error while looking for the worker mark counts as not being one); otherwise the seven loops, each with its way to apply the configuration.
\<close>

definition featureLoops ::
  "('e, 't) featuresInterface \<Rightarrow> (string \<Rightarrow> 'e \<Rightarrow> ('e, unit) step) \<Rightarrow> (error \<Rightarrow> string)
    \<Rightarrow> (string \<times> (ClusterConfig \<Rightarrow> 'e \<Rightarrow> 'e \<times> 't FeatureStatus \<times> unit res)) list"
where
  "featureLoops impl notifyDNSChangedIP errText =
     [(''network'', \<lambda>cfg. ApplyNetwork impl (CC_APIServer cfg) (CC_Network cfg) (CC_Annotations cfg)),
      (''gateway'', \<lambda>cfg. ApplyGateway impl (CC_Gateway cfg) (CC_Network cfg) (CC_Annotations cfg)),
      (''ingress'', \<lambda>cfg. ApplyIngress impl (CC_Ingress cfg) (CC_Network cfg) (CC_Annotations cfg)),
      (''load-balancer'', \<lambda>cfg. ApplyLoadBalancer impl (CC_LoadBalancer cfg) (CC_Network cfg) (CC_Annotations cfg)),
      (''local-storage'', \<lambda>cfg. ApplyLocalStorage impl (CC_LocalStorage cfg) (CC_Annotations cfg)),
      (''metrics-server'', \<lambda>cfg. ApplyMetricsServer impl (CC_MetricsServer cfg) (CC_Annotations cfg)),
      (''dns'', applyDNSFeature impl notifyDNSChangedIP errText)]"

definition FeatureController_Run ::
  "Snap \<Rightarrow> Host \<Rightarrow> ('e, 't) featuresInterface \<Rightarrow> (string \<Rightarrow> 'e \<Rightarrow> ('e, unit) step) \<Rightarrow> (error \<Rightarrow> string)
    \<Rightarrow> (string \<times> (ClusterConfig \<Rightarrow> 'e \<Rightarrow> 'e \<times> 't FeatureStatus \<times> unit res)) list"
where
  "FeatureController_Run s h impl notifyDNSChangedIP errText =
     (if IsWorker s h = Inr True then [] else featureLoops impl notifyDNSChangedIP errText)"

section \<open>The delays\<close>

lemma backoffDelay_small:
  assumes "0 \<le> n" "n \<le> 31"
  shows "backoffDelay n (3 * Second) (5 * Minute) = min (3 * Second * 2 ^ nat n) (5 * Minute)"
proof -
  define p :: int where "p = 2 ^ nat n"
  have "p \<le> 2 ^ 31" using assms unfolding p_def by (intro power_increasing) auto
  moreover have "0 \<le> p" by (simp add: p_def)
  ultimately have "int64 (3 * Second * p) = 3 * Second * p" by (intro int64_id) (simp_all add: Second_def)
  then show ?thesis using assms by (simp add: backoffDelay_def p_def)
qed

lemma ExponentialBackoff_some:
  assumes "0 \<le> n" "n \<le> 31"
  shows "\<exists>t. ExponentialBackoff rnd n (3 * Second) (5 * Minute) = Some t \<and>
     (let d = min (3 * Second * 2 ^ nat n) (5 * Minute) in d \<le> 2 * t \<and> 2 * t < 3 * d)"
proof -
  define d where "d = min (3 * Second * 2 ^ nat n) (5 * Minute)"
  have "(1 :: int) \<le> 2 ^ nat n" by simp
  then have d: "0 < d" "d \<le> 5 * Minute" unfolding d_def Second_def Minute_def by linarith+
  define r where "r = rnd mod d"
  have r: "0 \<le> r" "r < d" using d by (simp_all add: r_def)
  have q: "goQuot d 2 = d div 2" using d by (simp add: goQuot_nonneg)
  have small: "d < 2 ^ 40" using d(2) by (simp add: Minute_def Second_def)
  have "int64 (d + int64 (r - d div 2)) = d + r - d div 2"
    using r d(1) small int64_id [of "r - d div 2"] int64_id [of "d + (r - d div 2)"] by simp
  moreover have "ExponentialBackoff rnd n (3 * Second) (5 * Minute) = Some (int64 (d + int64 (r - d div 2)))"
    using d(1) by (simp add: ExponentialBackoff_def backoffDelay_small [OF assms] d_def [symmetric] Int64N_def r_def q)
  moreover have "d \<le> 2 * (d + r - d div 2) \<and> 2 * (d + r - d div 2) < 3 * d" using r d(1) by presburger
  ultimately show ?thesis unfolding d_def [symmetric] Let_def by simp
qed

lemma ExponentialBackoff_none:
  assumes "32 \<le> n"
  shows "ExponentialBackoff rnd n (3 * Second) (5 * Minute) = None"
proof -
  have "backoffDelay n (3 * Second) (5 * Minute) < 0"
    using assms by (simp add: backoffDelay_def Second_def Minute_def int64_def)
  then show ?thesis by (simp add: ExponentialBackoff_def Int64N_def)
qed

section \<open>The loop\<close>

text \<open>The body, by how the check for upgrades and the reconciliation end.\<close>

lemma reconcileLoopBody_blocked:
  assumes "isBlocked ops cd (L_env l, L_kube l) = ((e, k), Inr True)"
  shows "reconcileLoopBody ops m name applyF cd rnd l =
     Some (l\<lparr>L_trigger := False, L_reconciled := False, L_env := e, L_kube := k\<rparr>)"
  by (simp add: reconcileLoopBody_def assms MaybeReceive_def)

lemma reconcileLoopBody_unknown:
  assumes "isBlocked ops cd (L_env l, L_kube l) = ((e, k), Inl x)"
  shows "reconcileLoopBody ops m name applyF cd rnd l =
     Some (l\<lparr>L_trigger := False, L_reconciled := False, L_env := e, L_kube := k, L_timers := L_timers l @ [5 * Second]\<rparr>)"
  by (simp add: reconcileLoopBody_def assms MaybeReceive_def)

lemma reconcileLoopBody_applied:
  assumes "isBlocked ops cd (L_env l, L_kube l) = ((e, k), Inr False)"
    "Feature_reconcile (getClusterConfig ops) applyF (setFeatureStatus ops name) e = (e', Inr u)"
  shows "reconcileLoopBody ops m name applyF cd rnd l =
     Some (l\<lparr>L_trigger := False, L_env := e', L_kube := k, L_attempts := 0, L_reconciled := True\<rparr>)"
  by (simp add: reconcileLoopBody_def assms MaybeReceive_def MaybeNotify_def)

lemma reconcileLoopBody_failed:
  assumes "isBlocked ops cd (L_env l, L_kube l) = ((e, k), Inr False)"
    "Feature_reconcile (getClusterConfig ops) applyF (setFeatureStatus ops name) e = (e', Inl x)"
  shows "reconcileLoopBody ops m name applyF cd rnd l =
     (let l = l\<lparr>L_trigger := False, L_reconciled := False, L_env := e', L_kube := k\<rparr> in
      if L_attempts l + 1 \<ge> m \<and> m > 0 then Some (l\<lparr>L_attempts := 0\<rparr>)
      else map_option (\<lambda>t. l\<lparr>L_attempts := L_attempts l + 1, L_timers := L_timers l @ [t]\<rparr>)
        (ExponentialBackoff rnd (L_attempts l + 1) (3 * Second) (5 * Minute)))"
  by (simp add: reconcileLoopBody_def assms MaybeReceive_def Let_def split: option.split)

lemma reconcileLoopBody_cases:
  assumes r: "reconcileLoopBody ops m name applyF cd rnd l = Some l'"
  obtains "L_attempts l' = L_attempts l" "L_timers l' = L_timers l @ [5 * Second]"
  | "L_attempts l' = L_attempts l" "L_timers l' = L_timers l"
  | "L_attempts l' = 0" "L_timers l' = L_timers l"
  | t where "L_attempts l' = L_attempts l + 1" "m > 0 \<longrightarrow> L_attempts l' < m" "L_timers l' = L_timers l @ [t]"
      "ExponentialBackoff rnd (L_attempts l') (3 * Second) (5 * Minute) = Some t"
proof -
  obtain e k b where b: "isBlocked ops cd (L_env l, L_kube l) = ((e, k), b)" by (metis surj_pair)
  obtain e' x where x: "Feature_reconcile (getClusterConfig ops) applyF (setFeatureStatus ops name) e = (e', x)" by fastforce
  consider y where "b = Inl y" | "b = Inr True" | "b = Inr False" "x = ok" | y where "b = Inr False" "x = Inl y"
    by (cases b; cases x) auto
  then show thesis
  proof cases
    case 1 then show thesis using that(1) r reconcileLoopBody_unknown [of ops cd l] b by auto
  next
    case 2 then show thesis using that(2) r reconcileLoopBody_blocked [of ops cd l] b by auto
  next
    case 3 then show thesis using that(3) r reconcileLoopBody_applied [of ops cd l e k applyF name] b x by auto
  next
    case 4
    show thesis
    proof (cases "L_attempts l + 1 \<ge> m \<and> m > 0")
      case True
      then show thesis using that(3) r reconcileLoopBody_failed [of ops cd l e k applyF name e' y m rnd] b x 4 by (auto simp: Let_def)
    next
      case False
      then show thesis using that(4) r reconcileLoopBody_failed [of ops cd l e k applyF name e' y m rnd] b x 4 by (auto simp: Let_def)
    qed
  qed
qed

definition featureInv :: "int \<Rightarrow> 'e featureLoop \<Rightarrow> bool" where
  "featureInv m l \<longleftrightarrow>
     0 \<le> L_attempts l \<and> L_attempts l \<le> 31 \<and> (m > 0 \<longrightarrow> L_attempts l < m) \<and>
     (\<forall>t \<in> set (L_timers l). 3 * Second \<le> t \<and> t < 450 * Second)"

lemma ExponentialBackoff_SomeD:
  assumes "ExponentialBackoff rnd n (3 * Second) (5 * Minute) = Some t" "1 \<le> n"
  shows "n \<le> 31 \<and> 3 * Second \<le> t \<and> t < 450 * Second"
proof -
  have n: "n \<le> 31" using ExponentialBackoff_none [of n rnd] assms(1) by force
  define p :: int where "p = 2 ^ nat n"
  have "2 ^ 1 \<le> p" unfolding p_def using assms(2) by (intro power_increasing) auto
  moreover have "min (3 * Second * p) (5 * Minute) \<le> 2 * t" "2 * t < 3 * min (3 * Second * p) (5 * Minute)"
    using ExponentialBackoff_some [of n rnd] assms n by (auto simp: p_def Let_def)
  ultimately show ?thesis using n by (auto simp: Second_def Minute_def min_def split: if_splits)
qed

lemma featureInv_step:
  assumes "featureStep ops m name applyF l l'" "featureInv m l"
  shows "featureInv m l'"
  using assms
proof (cases rule: featureStep.cases)
  case (timer i)
  then show ?thesis using assms(2) by (auto simp: featureInv_def fireTimer_def dest: in_set_takeD in_set_dropD)
next
  case (body ctxDone rnd)
  from body(2) show ?thesis
    by (cases rule: reconcileLoopBody_cases)
      (use assms(2) ExponentialBackoff_SomeD [of rnd "L_attempts l'"] in \<open>auto simp: featureInv_def Second_def\<close>)
qed (use assms(2) in \<open>simp_all add: featureInv_def\<close>)

text \<open>
  Over any run of a feature loop (triggers, timers, upgrades, failures of every kind) the
  failure counter stays below 32 and below the configured maximum, and every pending retry fires
  after at least 3 seconds and within 7.5 minutes.
\<close>

theorem feature_loop_invariant:
  assumes "(featureStep ops m name applyF)\<^sup>*\<^sup>* l l'" "L_attempts l = 0" "L_timers l = []"
  shows "0 \<le> L_attempts l' \<and> L_attempts l' \<le> 31 \<and> (m > 0 \<longrightarrow> L_attempts l' < m) \<and>
    (\<forall>t \<in> set (L_timers l'). 3 * Second \<le> t \<and> t < 450 * Second)"
proof -
  have "featureInv m l" using assms(2,3) by (simp add: featureInv_def)
  with assms(1) have "featureInv m l'" by (induction rule: rtranclp_induct) (auto dest: featureInv_step)
  then show ?thesis by (simp add: featureInv_def)
qed

section \<open>Retries\<close>

text \<open>Rounds of the loop in which nobody else triggers it: the body, then the first timer fires.\<close>

fun retryRounds ::
  "('e, 't) featureOps \<Rightarrow> int \<Rightarrow> string \<Rightarrow> (ClusterConfig \<Rightarrow> 'e \<Rightarrow> 'e \<times> 't FeatureStatus \<times> unit res)
    \<Rightarrow> (nat \<Rightarrow> bool) \<Rightarrow> (nat \<Rightarrow> int) \<Rightarrow> nat \<Rightarrow> 'e featureLoop \<Rightarrow> 'e featureLoop option"
where
  "retryRounds ops m name applyF cd rnd 0 l = Some l"
| "retryRounds ops m name applyF cd rnd (Suc n) l =
     (case retryRounds ops m name applyF cd rnd n l of
        None \<Rightarrow> None
      | Some l \<Rightarrow>
          map_option (\<lambda>l. if L_timers l = [] then l else fireTimer 0 l) (reconcileLoopBody ops m name applyF cd (rnd n) l))"

definition alwaysFails ::
  "('e, 't) featureOps \<Rightarrow> string \<Rightarrow> (ClusterConfig \<Rightarrow> 'e \<Rightarrow> 'e \<times> 't FeatureStatus \<times> unit res) \<Rightarrow> (nat \<Rightarrow> bool) \<Rightarrow> bool"
where
  "alwaysFails ops name applyF cd \<longleftrightarrow>
     (\<forall>e k. snd (isBlocked ops cd (e, k)) = Inr False) \<and>
     (\<forall>e. \<not> is_ok (snd (Feature_reconcile (getClusterConfig ops) applyF (setFeatureStatus ops name) e)))"

lemma failing_body:
  assumes "alwaysFails ops name applyF cd"
  obtains e k where "reconcileLoopBody ops m name applyF cd rnd l =
     (let l = l\<lparr>L_trigger := False, L_reconciled := False, L_env := e, L_kube := k\<rparr> in
      if L_attempts l + 1 \<ge> m \<and> m > 0 then Some (l\<lparr>L_attempts := 0\<rparr>)
      else map_option (\<lambda>t. l\<lparr>L_attempts := L_attempts l + 1, L_timers := L_timers l @ [t]\<rparr>)
        (ExponentialBackoff rnd (L_attempts l + 1) (3 * Second) (5 * Minute)))"
proof -
  obtain e k where b: "isBlocked ops cd (L_env l, L_kube l) = ((e, k), Inr False)"
    using assms unfolding alwaysFails_def by (metis surj_pair snd_conv)
  obtain e' x where r: "Feature_reconcile (getClusterConfig ops) applyF (setFeatureStatus ops name) e = (e', Inl x)"
    using assms unfolding alwaysFails_def by (metis surj_pair snd_conv sum.exhaust is_ok_simps(1))
  show thesis
    by (rule that) (rule reconcileLoopBody_failed [OF b r])
qed

lemma retryRounds_failing:
  assumes f: "alwaysFails ops name applyF cd" and l: "L_attempts l = 0" "L_timers l = []" "L_trigger l"
    and n: "n \<le> 31" "m > 0 \<longrightarrow> int n < m"
  shows "\<exists>l'. retryRounds ops m name applyF cd rnd n l = Some l' \<and> L_attempts l' = int n \<and> L_timers l' = [] \<and> L_trigger l'"
  using n
proof (induction n)
  case 0 then show ?case using l by simp
next
  case (Suc n)
  then obtain l1 where l1: "retryRounds ops m name applyF cd rnd n l = Some l1" "L_attempts l1 = int n" "L_timers l1 = []" "L_trigger l1"
    by auto
  obtain e k where "reconcileLoopBody ops m name applyF cd (rnd n) l1 =
     (let l = l1\<lparr>L_trigger := False, L_reconciled := False, L_env := e, L_kube := k\<rparr> in
      if L_attempts l + 1 \<ge> m \<and> m > 0 then Some (l\<lparr>L_attempts := 0\<rparr>)
      else map_option (\<lambda>t. l\<lparr>L_attempts := L_attempts l + 1, L_timers := L_timers l @ [t]\<rparr>)
        (ExponentialBackoff (rnd n) (L_attempts l + 1) (3 * Second) (5 * Minute)))"
    by (rule failing_body [OF f])
  moreover obtain t where "ExponentialBackoff (rnd n) (int n + 1) (3 * Second) (5 * Minute) = Some t"
    using ExponentialBackoff_some [of "int n + 1" "rnd n"] Suc.prems by auto
  ultimately show ?case using l1 Suc.prems by (auto simp: fireTimer_def MaybeNotify_def Let_def)
qed


section \<open>Upgrades hold features back\<close>

text \<open>Whether an upgrade other than one in its feature phase is in progress.\<close>

definition heldBack :: "Kube \<Rightarrow> bool" where
  "heldBack k \<longleftrightarrow> (let us = filter inProgress (K_upgrades k) in
     us \<noteq> [] \<and> Phase (last (sort_key Upgrade_Name us)) \<noteq> UpgradePhaseFeatureUpgrade)"

text \<open>
  While an upgrade is in progress that is not in its feature phase (and the cluster does not
  opt out), a triggered feature loop touches nothing, sends no signal and keeps its counter; otherwise
  it applies the configuration and signals \<open>reconciled\<close> exactly when that succeeded.
\<close>

theorem feature_held_back:
  assumes q: "quiet (L_kube l)" and cfg: "getClusterConfig ops (L_env l) = (L_env l, Inr cfg)" and c: "kubernetesClient ops = ok"
    and t: "snd (Annotations_Get (CC_Annotations cfg) (disableSeparateFeatureUpgrades ops)) = False"
    and b: "reconcileLoopBody ops m name applyF cd rnd l = Some l'"
  shows "if heldBack (L_kube l)
    then L_env l' = L_env l \<and> L_attempts l' = L_attempts l \<and> L_timers l' = L_timers l \<and> \<not> L_reconciled l'
    else (let (e, r) = Feature_reconcile (getClusterConfig ops) applyF (setFeatureStatus ops name) (L_env l) in
          L_env l' = e \<and> L_reconciled l' = is_ok r \<and> (is_ok r \<longrightarrow> L_attempts l' = 0))"
proof -
  have blocked: "isBlocked ops cd (L_env l, L_kube l) =
      ((L_env l, (L_kube l)\<lparr>K_calls := Suc (K_calls (L_kube l))\<rparr>), Inr (heldBack (L_kube l)))"
    by (simp add: isBlocked_def cfg c t GetInProgressUpgrade_quiet [OF q] heldBack_def Let_def split: list.split)
  obtain e r where r: "Feature_reconcile (getClusterConfig ops) applyF (setFeatureStatus ops name) (L_env l) = (e, r)" by fastforce
  show ?thesis
  proof (cases "heldBack (L_kube l)")
    case True
    then show ?thesis using b blocked reconcileLoopBody_blocked [of ops cd l] by auto
  next
    case False
    then have nb: "isBlocked ops cd (L_env l, L_kube l) = ((L_env l, (L_kube l)\<lparr>K_calls := Suc (K_calls (L_kube l))\<rparr>), Inr False)"
      using blocked by simp
    show ?thesis
    proof (cases r)
      case (Inl x)
      then show ?thesis using b False r reconcileLoopBody_failed [OF nb, of applyF name e x] by (auto simp: Let_def split: if_splits)
    next
      case (Inr u)
      then show ?thesis using b False r reconcileLoopBody_applied [OF nb, of applyF name e u] by (auto simp: Let_def)
    qed
  qed
qed

text \<open>Of the features only the DNS loop adds to what the implementation reports.\<close>

lemma FeatureController_Run_names:
  "map fst (FeatureController_Run s h impl notify errText) = (if IsWorker s h = Inr True then [] else
     [''network'', ''gateway'', ''ingress'', ''load-balancer'', ''local-storage'', ''metrics-server'', ''dns''])"
  by (simp add: FeatureController_Run_def featureLoops_def)

section \<open>Instances\<close>

definition sampleFeatureOps :: "string \<Rightarrow> (nat, int) featureOps" where
  "sampleFeatureOps key = \<lparr>getClusterConfig = (\<lambda>e. (e, Inr (sampleConfig\<lparr>CC_Annotations := Some [''off'' \<mapsto> []]\<rparr>))),
     setFeatureStatus = (\<lambda>_ _ e. (e, ok)), kubernetesClient = ok, disableSeparateFeatureUpgrades = key\<rparr>"

definition sampleLoop :: "UpgradePhase \<Rightarrow> nat featureLoop" where
  "sampleLoop p = \<lparr>L_env = 0, L_kube = sampleKube p, L_attempts = 0, L_trigger = True, L_reconciled = False, L_timers = []\<rparr>"

definition sampleApply :: "unit res \<Rightarrow> ClusterConfig \<Rightarrow> nat \<Rightarrow> nat \<times> int FeatureStatus \<times> unit res" where
  "sampleApply r cfg e = (Suc e, \<lparr>FS_Enabled = True, FS_Message = [], FS_Version = [], FS_UpdatedAt = 0\<rparr>, r)"

lemmas feature_eval = sampleFeatureOps_def sampleLoop_def sampleApply_def Annotations_Get_def Feature_reconcile_def

lemma sample_alwaysFails: "alwaysFails (sampleFeatureOps ''off'') ''dns'' (sampleApply (Inl nilPointer)) cd"
  by (simp add: alwaysFails_def isBlocked_def feature_eval)


theorem feature_loop_invariant_witness:
  "0 \<le> L_attempts (sampleLoop UpgradePhaseCompleted) \<and> L_attempts (sampleLoop UpgradePhaseCompleted) \<le> 31 \<and>
     ((64 :: int) > 0 \<longrightarrow> L_attempts (sampleLoop UpgradePhaseCompleted) < 64) \<and>
     (\<forall>t \<in> set (L_timers (sampleLoop UpgradePhaseCompleted)). 3 * Second \<le> t \<and> t < 450 * Second)"
  by (rule feature_loop_invariant [where ops = "sampleFeatureOps ''off''" and name = "''dns''" and applyF = "sampleApply ok", OF rtranclp.rtrancl_refl])
    (simp_all add: sampleLoop_def)

theorem feature_held_back_witness:
  "let l = sampleLoop UpgradePhaseNodeUpgrade; ops = sampleFeatureOps ''on'';
       l' = the (reconcileLoopBody ops 64 ''dns'' (sampleApply ok) (\<lambda>_. False) 0 l) in
   if heldBack (L_kube l)
    then L_env l' = L_env l \<and> L_attempts l' = L_attempts l \<and> L_timers l' = L_timers l \<and> \<not> L_reconciled l'
    else (let (e, r) = Feature_reconcile (getClusterConfig ops) (sampleApply ok) (setFeatureStatus ops ''dns'') (L_env l) in
          L_env l' = e \<and> L_reconciled l' = is_ok r \<and> (is_ok r \<longrightarrow> L_attempts l' = 0))"
proof -
  have blocked: "isBlocked (sampleFeatureOps ''on'') (\<lambda>_. False) (0, sampleKube UpgradePhaseNodeUpgrade) =
      ((0, (sampleKube UpgradePhaseNodeUpgrade)\<lparr>K_calls := 1\<rparr>), Inr True)"
    by (simp add: isBlocked_def feature_eval GetInProgressUpgrade_quiet upgrade_eval)
  have body: "reconcileLoopBody (sampleFeatureOps ''on'') 64 ''dns'' (sampleApply ok) (\<lambda>_. False) 0 (sampleLoop UpgradePhaseNodeUpgrade) =
      Some (the (reconcileLoopBody (sampleFeatureOps ''on'') 64 ''dns'' (sampleApply ok) (\<lambda>_. False) 0 (sampleLoop UpgradePhaseNodeUpgrade)))"
    by (simp add: reconcileLoopBody_def sampleLoop_def blocked Let_def)
  show ?thesis
    unfolding Let_def
    by (rule feature_held_back [unfolded Let_def, where cfg = "sampleConfig\<lparr>CC_Annotations := Some [''off'' \<mapsto> []]\<rparr>", OF _ _ _ _ body])
      (simp_all add: feature_eval sampleKube_def)
qed

end
