(* ===== verification/Features.thy ===== *)
theory Features
  imports Helm FeatureLoop
begin

text \<open>
  The built-in features that are deployed as charts (\<open>pkg/k8sd/features\<close>): CoreDNS, the metrics
  server, local storage and the MetalLB load balancer, with the calls they make to the cluster
  (\<open>pkg/client/kubernetes\<close>: restarts, services, API resources; \<open>pkg/utils/control/wait.go\<close>). The Cilium
  features follow in their own theory.

  \<open>Cluster\<close> is what a feature works on: the Helm releases and the objects of the API server, whose
  requests are numbered and may be refused. \<open>featEnv\<close> holds what comes from outside: the Helm library,
  the annotation keys, the rendering of errors, the YAML reader, the resources the API server
  announces at each request, and when the context ends.
\<close>

section \<open>The cluster\<close>

type_synonym workload = "(string \<times> string) \<times> string gomap"

record Cluster =
  C_helm :: HelmState
  C_deployments :: "workload list"
  C_daemonsets :: "workload list"
  C_services :: "((string \<times> string) \<times> string) list"
  C_calls :: nat
  C_fault :: "nat \<Rightarrow> error option"

record bgpNeighbor =
  peerAddress :: string
  peerASN :: int
  peerPort :: int
  myASN :: int
  nodeSelector :: "string gomap"

record featEnv =
  E_helm :: helmLib
  E_client :: "unit res"
  E_errText :: "error \<Rightarrow> string"
  E_now :: string
  E_ctxDone :: "nat \<Rightarrow> bool"
  E_checks :: nat
  E_resources :: "nat \<Rightarrow> string \<Rightarrow> string list res"
  E_parsePeers :: "string \<Rightarrow> bgpNeighbor list res"
  AnnotationImageRepo :: string
  AnnotationImageTag :: string
  AnnotationBGPPeers :: string
  AnnotationAdvertiseAllPools :: string

definition clusterCall :: "(Cluster \<Rightarrow> (Cluster, 'a) step) \<Rightarrow> Cluster \<Rightarrow> (Cluster, 'a) step" where
  "clusterCall f c =
     (let c' = c\<lparr>C_calls := Suc (C_calls c)\<rparr> in
      case C_fault c (C_calls c) of Some e \<Rightarrow> (c', Inl e) | None \<Rightarrow> f c')"

definition helmApply :: "featEnv \<Rightarrow> InstallableChart \<Rightarrow> HelmTarget \<Rightarrow> hval \<Rightarrow> Cluster \<Rightarrow> (Cluster, bool) step" where
  "helmApply env chart desired values c =
     (case Helm_Apply (E_helm env) chart desired values (C_helm c) of (h, r) \<Rightarrow> (c\<lparr>C_helm := h\<rparr>, r))"

text \<open>A rollout restart: the annotation of the pod template is set to the current time.\<close>

definition restartedAt :: "string \<Rightarrow> workload \<Rightarrow> workload" where
  "restartedAt now w = (fst w, AList.update ''kubectl.kubernetes.io/restartedAt'' now (snd w))"

definition RestartDeployment :: "featEnv \<Rightarrow> string \<Rightarrow> string \<Rightarrow> Cluster \<Rightarrow> (Cluster, unit) step" where
  "RestartDeployment env name namespace c =
     tryStep (clusterCall (\<lambda>c. (c, case find (\<lambda>w. fst w = (name, namespace)) (C_deployments c) of None \<Rightarrow> Inl ErrNotFound | Some w \<Rightarrow> Inr w)) c)
       ''failed to get deployment %s in namespace %s: %w'' [name, namespace] (\<lambda>c w.
     tryStep (clusterCall (\<lambda>c. (c\<lparr>C_deployments := map (\<lambda>x. if fst x = fst w then restartedAt (E_now env) w else x) (C_deployments c)\<rparr>, ok)) c)
       ''failed to set restartedAt annotation for deployment %s in namespace %s: %w'' [name, namespace] (\<lambda>c _. (c, ok)))"

definition RestartDaemonset :: "featEnv \<Rightarrow> string \<Rightarrow> string \<Rightarrow> Cluster \<Rightarrow> (Cluster, unit) step" where
  "RestartDaemonset env name namespace0 c =
     (let namespace = (if namespace0 = [] then ''default'' else namespace0) in
      tryStep (clusterCall (\<lambda>c. (c, case find (\<lambda>w. fst w = (name, namespace)) (C_daemonsets c) of None \<Rightarrow> Inl ErrNotFound | Some w \<Rightarrow> Inr w)) c)
        ''failed to get daemonset %s in namespace %s: %w'' [name, namespace] (\<lambda>c w.
      tryStep (clusterCall (\<lambda>c. (c\<lparr>C_daemonsets := map (\<lambda>x. if fst x = fst w then restartedAt (E_now env) w else x) (C_daemonsets c)\<rparr>, ok)) c)
        ''failed to set restartedAt annotation for daemonset %s in namespace %s: %w'' [name, namespace] (\<lambda>c _. (c, ok))))"

definition GetServiceClusterIP :: "string \<Rightarrow> string \<Rightarrow> Cluster \<Rightarrow> (Cluster, string) step" where
  "GetServiceClusterIP name namespace c =
     tryStep (clusterCall (\<lambda>c. (c, case map_of (C_services c) (name, namespace) of None \<Rightarrow> Inl ErrNotFound | Some ip \<Rightarrow> Inr ip)) c)
       ''failed to get service '%s' in namespace '%s': %w'' [name, namespace] (\<lambda>c ip. (c, Inr ip))"

definition ListResourcesForGroupVersion :: "featEnv \<Rightarrow> string \<Rightarrow> Cluster \<Rightarrow> (Cluster, string list) step" where
  "ListResourcesForGroupVersion env groupVersion c =
     tryStep (clusterCall (\<lambda>c. (c, E_resources env (C_calls c) groupVersion)) c)
       ''failed to fetch server resources for %s: %w'' [groupVersion] (\<lambda>c rs. (c, Inr rs))"

text \<open>
  \<open>control.WaitUntilReady\<close>: a check a second until one says yes, one fails, or the context ends, which
  it does after \<open>n\<close> checks.
\<close>

fun WaitUntilReady :: "nat \<Rightarrow> ('s \<Rightarrow> ('s, bool) step) \<Rightarrow> 's \<Rightarrow> ('s, unit) step" where
  "WaitUntilReady 0 check s = (s, Inl ctxCanceled)"
| "WaitUntilReady (Suc n) check s =
     (case check s of
        (s', Inl e) \<Rightarrow> (s', Inl (Wrapf ''wait check failed: %w'' [] e))
      | (s', Inr ready) \<Rightarrow> if ready then (s', ok) else WaitUntilReady n check s')"

section \<open>Status of a feature\<close>

fun Sprintf1 :: "string \<Rightarrow> string \<Rightarrow> string" where
  "Sprintf1 (c # d # cs) s = (if c = CHR ''%'' \<and> (d = CHR ''v'' \<or> d = CHR ''s'') then s @ cs else c # Sprintf1 (d # cs) s)"
| "Sprintf1 cs s = cs"

definition featureFailed :: "featEnv \<Rightarrow> string \<Rightarrow> string \<Rightarrow> error \<Rightarrow> Cluster \<Rightarrow> Cluster \<times> int FeatureStatus \<times> 'a res" where
  "featureFailed env version tmpl err c =
     (c, \<lparr>FS_Enabled = False, FS_Message = Sprintf1 tmpl (E_errText env err), FS_Version = version, FS_UpdatedAt = 0\<rparr>, Inl err)"

definition featureDone :: "string \<Rightarrow> bool \<Rightarrow> string \<Rightarrow> 'a \<Rightarrow> Cluster \<Rightarrow> Cluster \<times> int FeatureStatus \<times> 'a res" where
  "featureDone version enabled msg x c =
     (c, \<lparr>FS_Enabled = enabled, FS_Message = msg, FS_Version = version, FS_UpdatedAt = 0\<rparr>, Inr x)"

definition orFailed ::
  "(Cluster, 'a) step \<Rightarrow> featEnv \<Rightarrow> string \<Rightarrow> string \<Rightarrow> string \<Rightarrow> string list
    \<Rightarrow> (Cluster \<Rightarrow> 'a \<Rightarrow> Cluster \<times> int FeatureStatus \<times> 'b res) \<Rightarrow> Cluster \<times> int FeatureStatus \<times> 'b res"
where
  "orFailed r env version tmpl fmt args k =
     (case r of (c, Inl e) \<Rightarrow> featureFailed env version tmpl (Wrapf fmt args e) c | (c, Inr x) \<Rightarrow> k c x)"

abbreviation imageValues :: "string \<Rightarrow> string \<Rightarrow> hval" where
  "imageValues repo tag \<equiv> HObject [(''repository'', HString repo), (''tag'', HString tag)]"

section \<open>CoreDNS\<close>

definition coredns_Chart :: InstallableChart where
  "coredns_Chart = \<lparr>Chart_Name = ''ck-dns'', Chart_Namespace = ''kube-system'',
     Chart_ManifestPath = pathJoin ''charts'' ''coredns-1.39.2.tgz''\<rparr>"

definition coredns_imageRepo :: string where "coredns_imageRepo = ''ghcr.io/canonical/coredns''"
definition coredns_ImageTag :: string where "coredns_ImageTag = ''1.14.6-ck0''"

definition dnsMatchLabels :: hval where
  "dnsMatchLabels = HObject [(''matchLabels'', HObject
     [(''app.kubernetes.io/name'', HString ''coredns''), (''app.kubernetes.io/instance'', HString ''ck-dns''),
      (''k8s-app'', HString ''coredns'')])]"

definition dnsPlugins :: "DNS \<Rightarrow> Kubelet \<Rightarrow> hval" where
  "dnsPlugins dns kl =
     (let plugin = (\<lambda>name. HObject [(''name'', HString name)]);
          param = (\<lambda>name p. HObject [(''name'', HString name), (''parameters'', HString p)]) in
      HArray
        [plugin ''errors'',
         HObject [(''name'', HString ''health''), (''configBlock'', HString ''lameduck 5s'')],
         plugin ''ready'',
         HObject [(''name'', HString ''kubernetes''),
           (''parameters'', HString (getStr (Kubelet_ClusterDomain kl) @ '' in-addr.arpa ip6.arpa'')),
           (''configBlock'', HString (''pods insecure'' @ [CHR 0x0A] @ ''fallthrough in-addr.arpa ip6.arpa'' @ [CHR 0x0A] @ ''ttl 30''))],
         param ''prometheus'' ''0.0.0.0:9153'',
         param ''forward'' (''. '' @ joinWith (CHR '' '') (getList (DNS_UpstreamNameservers dns))),
         param ''cache'' ''30'',
         plugin ''loop'', plugin ''reload'', plugin ''loadbalance''])"

definition dnsSpread :: "string \<Rightarrow> hval" where
  "dnsSpread topologyKey = HObject
     [(''maxSkew'', HInt 1), (''topologyKey'', HString topologyKey), (''whenUnsatisfiable'', HString ''ScheduleAnyway''),
      (''labelSelector'', dnsMatchLabels), (''matchLabelKeys'', HArray [HString ''pod-template-hash''])]"

definition dnsMetric :: "string \<Rightarrow> int \<Rightarrow> hval" where
  "dnsMetric name utilization = HObject
     [(''type'', HString ''Resource''),
      (''resource'', HObject [(''name'', HString name),
        (''target'', HObject [(''type'', HString ''Utilization''), (''averageUtilization'', HInt utilization)])])]"

definition dnsValues :: "DNS \<Rightarrow> Kubelet \<Rightarrow> hval" where
  "dnsValues dns kl = HObject
     [(''image'', imageValues coredns_imageRepo coredns_ImageTag),
      (''service'', HObject [(''name'', HString ''coredns''), (''clusterIP'', HString (getStr (Kubelet_ClusterDNS kl)))]),
      (''serviceAccount'', HObject [(''create'', HBool True), (''name'', HString ''coredns'')]),
      (''priorityClassName'', HString ''system-node-critical''),
      (''tolerations'', HArray [HObject
        [(''key'', HString ''node-role.kubernetes.io/control-plane''), (''operator'', HString ''Exists''), (''effect'', HString ''NoSchedule'')]]),
      (''deployment'', HObject [(''name'', HString ''coredns'')]),
      (''servers'', HArray [HObject
        [(''zones'', HArray [HObject [(''zone'', HString ''.'')]]), (''port'', HInt 53), (''plugins'', dnsPlugins dns kl)]]),
      (''affinity'', HObject [(''podAntiAffinity'', HObject
        [(''preferredDuringSchedulingIgnoredDuringExecution'', HArray [HObject
          [(''weight'', HInt 100),
           (''podAffinityTerm'', HObject [(''labelSelector'', dnsMatchLabels), (''topologyKey'', HString ''kubernetes.io/hostname'')])]])])]),
      (''topologySpreadConstraints'', HArray [dnsSpread ''topology.kubernetes.io/zone'', dnsSpread ''kubernetes.io/hostname'']),
      (''podDisruptionBudget'', HObject [(''minAvailable'', HInt 1)]),
      (''hpa'', HObject
        [(''enabled'', HBool True), (''minReplicas'', HInt 2), (''maxReplicas'', HInt 100),
         (''metrics'', HArray [dnsMetric ''cpu'' 80, dnsMetric ''memory'' 70])]),
      (''securityContext'', HObject
        [(''allowPrivilegeEscalation'', HBool True), (''readOnlyRootFilesystem'', HBool False),
         (''capabilities'', HObject [(''drop'', HArray [])])])]"

definition coredns_ApplyDNS :: "featEnv \<Rightarrow> DNS \<Rightarrow> Kubelet \<Rightarrow> Annotations \<Rightarrow> Cluster \<Rightarrow> Cluster \<times> int FeatureStatus \<times> string res" where
  "coredns_ApplyDNS env dns kl annotations c =
     (let deleteFailed = ''Failed to delete DNS, the error was: %v''; deployFailed = ''Failed to deploy DNS, the error was: %v'';
          ver = coredns_ImageTag in
      if \<not> getBool (DNS_Enabled dns) then
        orFailed (helmApply env coredns_Chart StateDeleted HNull c) env ver deleteFailed ''failed to uninstall coredns: %w'' []
          (\<lambda>c _. featureDone ver False ''disabled'' [] c)
      else
        orFailed (helmApply env coredns_Chart StatePresent (dnsValues dns kl) c) env ver deployFailed ''failed to apply coredns: %w'' [] (\<lambda>c _.
        orFailed (c, E_client env) env ver deployFailed ''failed to create kubernetes client: %w'' [] (\<lambda>c _.
        orFailed (GetServiceClusterIP ''coredns'' ''kube-system'' c) env ver deployFailed ''failed to retrieve the coredns service: %w'' [] (\<lambda>c dnsIP.
        featureDone ver True (Sprintf1 ''enabled at %s'' dnsIP) dnsIP c))))"

section \<open>Metrics server\<close>

definition metrics_chart :: InstallableChart where
  "metrics_chart = \<lparr>Chart_Name = ''metrics-server'', Chart_Namespace = ''kube-system'',
     Chart_ManifestPath = pathJoin ''charts'' ''metrics-server-3.12.2.tgz''\<rparr>"

definition metrics_imageRepo :: string where "metrics_imageRepo = ''ghcr.io/canonical/metrics-server''"
definition metrics_imageTag :: string where "metrics_imageTag = ''0.9.0-ck0''"

definition metrics_internalConfig :: "featEnv \<Rightarrow> Annotations \<Rightarrow> string \<times> string" where
  "metrics_internalConfig env annotations =
     (case Annotations_Get annotations (AnnotationImageRepo env) of (v, found) \<Rightarrow> if found then v else metrics_imageRepo,
      case Annotations_Get annotations (AnnotationImageTag env) of (v, found) \<Rightarrow> if found then v else metrics_imageTag)"

definition ApplyMetrics :: "featEnv \<Rightarrow> MetricsServer \<Rightarrow> Annotations \<Rightarrow> Cluster \<Rightarrow> Cluster \<times> int FeatureStatus \<times> unit res" where
  "ApplyMetrics env cfg annotations c =
     (let (repo, tag) = metrics_internalConfig env annotations; enabled = getBool (MetricsServer_Enabled cfg);
          values = HObject [(''image'', imageValues repo tag), (''securityContext'', HObject [(''readOnlyRootFilesystem'', HBool False)])] in
      case helmApply env metrics_chart (StatePresentOrDeleted enabled) values c of
        (c, Inl e) \<Rightarrow>
          if enabled then featureFailed env metrics_imageTag ''Failed to deploy Metrics Server, the error was: %v''
            (Wrapf ''failed to install metrics server chart: %w'' [] e) c
          else featureFailed env metrics_imageTag ''Failed to delete Metrics Server, the error was: %v''
            (Wrapf ''failed to delete metrics server chart: %w'' [] e) c
      | (c, Inr _) \<Rightarrow>
          if enabled then featureDone metrics_imageTag True ''enabled'' () c
          else featureDone metrics_imageTag False ''disabled'' () c)"

section \<open>Local storage\<close>

definition localpv_Chart :: InstallableChart where
  "localpv_Chart = \<lparr>Chart_Name = ''ck-storage'', Chart_Namespace = ''kube-system'',
     Chart_ManifestPath = pathJoin ''charts'' ''rawfile-csi-0.9.2.tgz''\<rparr>"

definition localpv_imageRepo :: string where "localpv_imageRepo = ''ghcr.io/canonical/rawfile-localpv''"
definition localpv_ImageTag :: string where "localpv_ImageTag = ''0.8.3-ck2''"

definition localpvValues :: "LocalStorage \<Rightarrow> hval" where
  "localpvValues cfg = HObject
     [(''storageClass'', HObject
        [(''enabled'', HBool True), (''isDefault'', HBool (getBool (LocalStorage_Default cfg))),
         (''reclaimPolicy'', HString (getStr (LocalStorage_ReclaimPolicy cfg))), (''allowVolumeExpansion'', HBool False)]),
      (''serviceMonitor'', HObject [(''enabled'', HBool False)]),
      (''controller'', HObject
        [(''csiDriverArgs'', HArray (map HString [''--args'', ''rawfile'', ''csi-driver'', ''--disable-metrics''])),
         (''image'', imageValues localpv_imageRepo localpv_ImageTag)]),
      (''node'', HObject
        [(''image'', imageValues localpv_imageRepo localpv_ImageTag),
         (''storage'', HObject [(''path'', HString (getStr (LocalStorage_LocalPath cfg)))])]),
      (''images'', HObject
        [(''csiNodeDriverRegistrar'', HString ''ghcr.io/canonical/csi-node-driver-registrar:2.16.0-ck1''),
         (''csiProvisioner'', HString ''ghcr.io/canonical/csi-provisioner:6.2.0-ck1''),
         (''csiResizer'', HString ''ghcr.io/canonical/csi-resizer:2.1.0-ck1''),
         (''csiSnapshotter'', HString ''ghcr.io/canonical/csi-snapshotter:8.5.0-ck1'')])]"

definition ApplyLocalPV :: "featEnv \<Rightarrow> LocalStorage \<Rightarrow> Annotations \<Rightarrow> Cluster \<Rightarrow> Cluster \<times> int FeatureStatus \<times> unit res" where
  "ApplyLocalPV env cfg annotations c =
     (let enabled = getBool (LocalStorage_Enabled cfg) in
      case helmApply env localpv_Chart (StatePresentOrDeleted enabled) (localpvValues cfg) c of
        (c, Inl e) \<Rightarrow>
          if enabled then featureFailed env localpv_ImageTag ''Failed to deploy Local Storage, the error was: %v''
            (Wrapf ''failed to install rawfile-csi helm package: %w'' [] e) c
          else featureFailed env localpv_ImageTag ''Failed to delete Local Storage, the error was: %v''
            (Wrapf ''failed to delete rawfile-csi helm package: %w'' [] e) c
      | (c, Inr _) \<Rightarrow>
          if enabled then featureDone localpv_ImageTag True (Sprintf1 ''enabled at %s'' (getStr (LocalStorage_LocalPath cfg))) () c
          else featureDone localpv_ImageTag False ''disabled'' () c)"

section \<open>MetalLB\<close>

definition ChartMetalLB :: InstallableChart where
  "ChartMetalLB = \<lparr>Chart_Name = ''metallb'', Chart_Namespace = ''metallb-system'',
     Chart_ManifestPath = pathJoin ''charts'' ''metallb-0.16.1.tgz''\<rparr>"

definition ChartMetalLBLoadBalancer :: InstallableChart where
  "ChartMetalLBLoadBalancer = \<lparr>Chart_Name = ''metallb-loadbalancer'', Chart_Namespace = ''metallb-system'',
     Chart_ManifestPath = pathJoin ''charts'' ''ck-loadbalancer''\<rparr>"

definition metallb_ControllerImageTag :: string where "metallb_ControllerImageTag = ''v0.16.1-ck0''"
definition metallb_speakerImageTag :: string where "metallb_speakerImageTag = ''v0.16.1-ck0''"

fun validateBGPNeighborsFrom :: "int \<Rightarrow> bgpNeighbor list \<Rightarrow> unit res" where
  "validateBGPNeighborsFrom i [] = ok"
| "validateBGPNeighborsFrom i (n # ns) =
     (if peerASN n < 1 \<or> peerASN n > 4294967295
      then Inl (Errorf ''neighbor[%d]: peerASN %d out of range [1, 4294967295]'' [Itoa i, Itoa (peerASN n)])
      else if myASN n \<noteq> 0 \<and> (myASN n < 1 \<or> myASN n > 4294967295)
      then Inl (Errorf ''neighbor[%d]: myASN %d out of range [1, 4294967295]'' [Itoa i, Itoa (myASN n)])
      else if peerPort n \<noteq> 0 \<and> (peerPort n < 1 \<or> peerPort n > 65535)
      then Inl (Errorf ''neighbor[%d]: peerPort %d out of range [1, 65535]'' [Itoa i, Itoa (peerPort n)])
      else if ParseIP (peerAddress n) = None
      then Inl (Errorf ''neighbor[%d]: invalid peerAddress %q'' [Itoa i, peerAddress n])
      else if [] \<in> fst ` set (nodeSelector n)
      then Inl (Errorf ''neighbor[%d]: nodeSelector has empty key'' [Itoa i])
      else validateBGPNeighborsFrom (i + 1) ns)"

definition validateBGPNeighbors :: "bgpNeighbor list \<Rightarrow> unit res" where
  "validateBGPNeighbors neighbors = validateBGPNeighborsFrom 0 neighbors"

text \<open>\<open>strconv.ParseBool\<close>.\<close>

definition ParseBool :: "string \<Rightarrow> bool res" where
  "ParseBool s =
     (if s \<in> set [''1'', ''t'', ''T'', ''TRUE'', ''true'', ''True''] then Inr True
      else if s \<in> set [''0'', ''f'', ''F'', ''FALSE'', ''false'', ''False''] then Inr False
      else Inl (Errorf ''strconv.ParseBool: parsing %q: invalid syntax'' [s]))"

definition annotation :: "Annotations \<Rightarrow> string \<Rightarrow> string option" where
  "annotation a key = (case a of None \<Rightarrow> None | Some m \<Rightarrow> m key)"

definition advertiseAllPools :: "featEnv \<Rightarrow> Annotations \<Rightarrow> bool res" where
  "advertiseAllPools env annotations =
     (case annotation annotations (AnnotationAdvertiseAllPools env) of
        None \<Rightarrow> Inr False
      | Some v \<Rightarrow> (case ParseBool v of
            Inl e \<Rightarrow> Inl (Wrapf ''failed to parse advertise-all-pools annotation %q: %w'' [v] e)
          | Inr b \<Rightarrow> Inr b))"

text \<open>The neighbors, whether all pools are advertised, and whether the annotation is there at all.\<close>

definition neighborsFromAnnotations :: "featEnv \<Rightarrow> Annotations \<Rightarrow> (bgpNeighbor list \<times> bool \<times> bool) res" where
  "neighborsFromAnnotations env annotations =
     (case annotation annotations (AnnotationBGPPeers env) of
        None \<Rightarrow> Inr ([], False, False)
      | Some peersYAML \<Rightarrow>
          (case E_parsePeers env peersYAML of
             Inl e \<Rightarrow> Inl (Wrapf ''failed to parse bgp-peers annotation: %w'' [] e)
           | Inr neighbors \<Rightarrow>
               (case advertiseAllPools env annotations of Inl e \<Rightarrow> Inl e | Inr all \<Rightarrow> Inr (neighbors, all, True))))"

definition poolValues :: "LoadBalancer \<Rightarrow> hval" where
  "poolValues lb = HArray
     (map (\<lambda>cidr. HObject [(''cidr'', HString cidr)]) (getList (LoadBalancer_CIDRs lb)) @
      map (\<lambda>r. HObject [(''start'', HString (IPRange_Start r)), (''stop'', HString (IPRange_Stop r))]) (getList (LoadBalancer_IPRanges lb)))"

definition neighborValues :: "bgpNeighbor \<Rightarrow> hval" where
  "neighborValues n = HObject
     ([(''peerAddress'', HString (peerAddress n)), (''peerASN'', HInt (peerASN n)), (''peerPort'', HInt (peerPort n))]
      @ (if myASN n \<noteq> 0 then [(''myASN'', HInt (myASN n))] else [])
      @ (if length (nodeSelector n) > 0 then [(''nodeSelector'', HObject (map (\<lambda>(k, v). (k, HString v)) (nodeSelector n)))] else []))"

definition buildLoadBalancerValues :: "LoadBalancer \<Rightarrow> bgpNeighbor list \<Rightarrow> bool \<Rightarrow> hval" where
  "buildLoadBalancerValues lb neighbors advertiseAll = HObject
     [(''driver'', HString ''metallb''),
      (''l2'', HObject
        [(''enabled'', HBool (getBool (LoadBalancer_L2Mode lb))), (''interfaces'', HArray (map HString (getList (LoadBalancer_L2Interfaces lb))))]),
      (''ipPool'', HObject [(''cidrs'', poolValues lb)]),
      (''bgp'', HObject
        [(''enabled'', HBool (getBool (LoadBalancer_BGPMode lb))), (''localASN'', HInt (getInt (LoadBalancer_BGPLocalASN lb))),
         (''neighbors'', HArray (map neighborValues neighbors)), (''advertiseAllPools'', HBool advertiseAll)])]"

definition metalLBValues :: hval where
  "metalLBValues = HObject
     [(''controller'', HObject
        [(''image'', imageValues ''ghcr.io/canonical/metallb-controller'' metallb_ControllerImageTag), (''command'', HString ''/controller'')]),
      (''speaker'', HObject
        [(''image'', imageValues ''ghcr.io/canonical/metallb-speaker'' metallb_speakerImageTag), (''command'', HString ''/speaker''),
         (''frr'', HObject [(''enabled'', HBool False)])]),
      (''frrk8s'', HObject [(''enabled'', HBool False)])]"

text \<open>One check for the resource definitions MetalLB brings.\<close>

definition metallbCRDs :: "featEnv \<Rightarrow> bool \<Rightarrow> Cluster \<Rightarrow> (Cluster, bool) step" where
  "metallbCRDs env bgpMode c =
     (case ListResourcesForGroupVersion env ''metallb.io/v1beta1'' c of
        (c, Inl _) \<Rightarrow> (c, Inr False)
      | (c, Inr v1beta1) \<Rightarrow>
          (case ListResourcesForGroupVersion env ''metallb.io/v1beta2'' c of
             (c, Inl _) \<Rightarrow> (c, Inr False)
           | (c, Inr v1beta2) \<Rightarrow>
               let required = [''metallb.io/v1beta1:ipaddresspools'', ''metallb.io/v1beta1:l2advertisements'']
                     @ (if bgpMode then [''metallb.io/v1beta2:bgppeers'', ''metallb.io/v1beta1:bgpadvertisements''] else []) in
               (c, Inr (int (length required)
                  - int (length (filter (\<lambda>r. ''metallb.io/v1beta1:'' @ r \<in> set required) v1beta1))
                  - int (length (filter (\<lambda>r. ''metallb.io/v1beta2:'' @ r \<in> set required) v1beta2)) = 0))))"

definition metallb_waitForRequiredLoadBalancerCRDs :: "featEnv \<Rightarrow> bool \<Rightarrow> Cluster \<Rightarrow> (Cluster, unit) step" where
  "metallb_waitForRequiredLoadBalancerCRDs env bgpMode c =
     tryStep (c, E_client env) ''failed to create Kubernetes client: %w'' [] (\<lambda>c _.
       WaitUntilReady (E_checks env) (metallbCRDs env bgpMode) c)"

definition metallb_disableLoadBalancer :: "featEnv \<Rightarrow> Cluster \<Rightarrow> (Cluster, unit) step" where
  "metallb_disableLoadBalancer env c =
     tryStep (helmApply env ChartMetalLBLoadBalancer StateDeleted HNull c) ''failed to uninstall MetalLB LoadBalancer chart: %w'' [] (\<lambda>c _.
     tryStep (helmApply env ChartMetalLB StateDeleted HNull c) ''failed to uninstall MetalLB chart: %w'' [] (\<lambda>c _. (c, ok)))"

text \<open>The neighbors to configure: those of the annotation, else in BGP mode the one of the typed keys.\<close>

definition chosenNeighbors :: "featEnv \<Rightarrow> LoadBalancer \<Rightarrow> Annotations \<Rightarrow> (bgpNeighbor list \<times> bool) res" where
  "chosenNeighbors env lb annotations =
     (case neighborsFromAnnotations env annotations of
        Inl e \<Rightarrow> Inl (Wrapf ''invalid BGP peer annotation: %w'' [] e)
      | Inr (ns, all, active) \<Rightarrow>
          if active then Inr (ns, all)
          else if getBool (LoadBalancer_BGPMode lb) then
            (case advertiseAllPools env annotations of
               Inl e \<Rightarrow> Inl e
             | Inr all \<Rightarrow> Inr ([\<lparr>peerAddress = getStr (LoadBalancer_BGPPeerAddress lb), peerASN = getInt (LoadBalancer_BGPPeerASN lb),
                 peerPort = getInt (LoadBalancer_BGPPeerPort lb), myASN = 0, nodeSelector = []\<rparr>], all))
          else Inr ([], False))"

definition metallb_enableLoadBalancer :: "featEnv \<Rightarrow> LoadBalancer \<Rightarrow> Annotations \<Rightarrow> Cluster \<Rightarrow> (Cluster, unit) step" where
  "metallb_enableLoadBalancer env lb annotations c =
     tryStep (helmApply env ChartMetalLB StatePresent metalLBValues c) ''failed to apply MetalLB configuration: %w'' [] (\<lambda>c _.
     tryStep (metallb_waitForRequiredLoadBalancerCRDs env (getBool (LoadBalancer_BGPMode lb)) c) ''failed to wait for required MetalLB CRDs: %w'' [] (\<lambda>c _.
     tryPass (c, chosenNeighbors env lb annotations) (\<lambda>c (neighbors, advertiseAll).
     tryStep (c, validateBGPNeighbors neighbors) ''invalid BGP peers: %w'' [] (\<lambda>c _.
     tryStep (helmApply env ChartMetalLBLoadBalancer StatePresent (buildLoadBalancerValues lb neighbors advertiseAll) c)
       ''failed to apply MetalLB LoadBalancer configuration: %w'' [] (\<lambda>c _. (c, ok))))))"

definition metallb_ApplyLoadBalancer ::
  "featEnv \<Rightarrow> LoadBalancer \<Rightarrow> Network \<Rightarrow> Annotations \<Rightarrow> Cluster \<Rightarrow> Cluster \<times> int FeatureStatus \<times> unit res"
where
  "metallb_ApplyLoadBalancer env lb network annotations c =
     (let ver = metallb_ControllerImageTag in
      if \<not> getBool (LoadBalancer_Enabled lb) then
        orFailed (metallb_disableLoadBalancer env c) env ver ''Failed to delete MetalLB, the error was: %v'' ''failed to disable LoadBalancer: %w'' []
          (\<lambda>c _. featureDone ver False ''disabled'' () c)
      else
        orFailed (metallb_enableLoadBalancer env lb annotations c) env ver ''Failed to deploy MetalLB, the error was: %v'' ''failed to enable LoadBalancer: %w'' [] (\<lambda>c _.
        let active = annotation annotations (AnnotationBGPPeers env) \<noteq> None;
            both = active \<and> getStr (LoadBalancer_BGPPeerAddress lb) \<noteq> [] in
        if getBool (LoadBalancer_BGPMode lb) then
          featureDone ver True (if both then ''enabled, BGP mode (alpha) - warning: single-peer typed keys are ignored''
            else if active then ''enabled, BGP mode (alpha)'' else Sprintf1 ''enabled, %s mode'' ''BGP'') () c
        else if getBool (LoadBalancer_L2Mode lb) then featureDone ver True (Sprintf1 ''enabled, %s mode'' ''L2'') () c
        else featureDone ver True (Sprintf1 ''enabled, %s mode'' ''Unknown'') () c))"

section \<open>What a feature reports\<close>

text \<open>
  The contract of every implementation: a success reports whether the feature is on as configured,
  a failure reports the feature as off with the error in the message.
\<close>

definition reports :: "featEnv \<Rightarrow> bool \<Rightarrow> Cluster \<times> int FeatureStatus \<times> 'a res \<Rightarrow> bool" where
  "reports env enabled = (\<lambda>(c, st, r).
     case r of
       Inr _ \<Rightarrow> FS_Enabled st = enabled
     | Inl e \<Rightarrow> \<not> FS_Enabled st \<and> (\<exists>tmpl. FS_Message st = Sprintf1 tmpl (E_errText env e)))"

lemma reports_failed [intro, simp]: "reports env enabled (featureFailed env ver tmpl e c)"
  by (auto simp: reports_def featureFailed_def)

lemma reports_done [simp]: "reports env enabled (featureDone ver b msg x c) \<longleftrightarrow> b = enabled"
  by (auto simp: reports_def featureDone_def)

lemma reports_orFailed [intro]:
  "(\<And>c x. reports env enabled (k c x)) \<Longrightarrow> reports env enabled (orFailed r env ver tmpl fmt args k)"
  by (cases r; cases "snd r") (auto simp: orFailed_def)

locale reporting_feature =
  fixes implement :: "'cfg \<Rightarrow> Cluster \<Rightarrow> Cluster \<times> int FeatureStatus \<times> 'a res" and enabled :: "'cfg \<Rightarrow> bool" and env :: featEnv
  assumes reporting: "reports env (enabled cfg) (implement cfg c)"
begin

lemma status_iff: "implement cfg c = (c', st, r) \<Longrightarrow> FS_Enabled st \<longleftrightarrow> is_ok r \<and> enabled cfg"
  using reporting [of cfg c] by (auto simp: reports_def split: sum.splits)

lemma failure_message: "implement cfg c = (c', st, Inl e) \<Longrightarrow> \<exists>tmpl. FS_Message st = Sprintf1 tmpl (E_errText env e)"
  using reporting [of cfg c] by (auto simp: reports_def)

end

interpretation dns: reporting_feature "\<lambda>(d, k, a). coredns_ApplyDNS env d k a" "\<lambda>(d, k, a). getBool (DNS_Enabled d)" env for env
  by unfold_locales (auto simp: coredns_ApplyDNS_def Let_def intro!: reports_orFailed)

interpretation ms: reporting_feature "\<lambda>(m, a). ApplyMetrics env m a" "\<lambda>(m, a). getBool (MetricsServer_Enabled m)" env for env
  by unfold_locales (auto simp: ApplyMetrics_def Let_def split: prod.split sum.split)

interpretation ls: reporting_feature "\<lambda>(l, a). ApplyLocalPV env l a" "\<lambda>(l, a). getBool (LocalStorage_Enabled l)" env for env
  by unfold_locales (auto simp: ApplyLocalPV_def Let_def split: prod.split sum.split)

interpretation mlb: reporting_feature "\<lambda>(l, n, a). metallb_ApplyLoadBalancer env l n a" "\<lambda>(l, n, a). getBool (LoadBalancer_Enabled l)" env for env
  by unfold_locales (auto simp: metallb_ApplyLoadBalancer_def Let_def intro!: reports_orFailed)

section \<open>MetalLB neighbors\<close>

definition validNeighbor :: "bgpNeighbor \<Rightarrow> bool" where
  "validNeighbor n \<longleftrightarrow>
     1 \<le> peerASN n \<and> peerASN n \<le> 4294967295 \<and> (myASN n = 0 \<or> 1 \<le> myASN n \<and> myASN n \<le> 4294967295) \<and>
     (peerPort n = 0 \<or> 1 \<le> peerPort n \<and> peerPort n \<le> 65535) \<and> ParseIP (peerAddress n) \<noteq> None \<and> [] \<notin> fst ` set (nodeSelector n)"

lemma validateBGPNeighborsFrom_ok: "is_ok (validateBGPNeighborsFrom i ns) \<longleftrightarrow> (\<forall>n \<in> set ns. validNeighbor n)"
  by (induction ns arbitrary: i) (auto simp: validNeighbor_def)

lemma validateBGPNeighbors_ok: "validateBGPNeighbors ns = ok \<longleftrightarrow> (\<forall>n \<in> set ns. validNeighbor n)"
  using validateBGPNeighborsFrom_ok [of 0 ns] by (simp add: validateBGPNeighbors_def is_ok_unit)

lemma helmApply_other:
  assumes "helmApply env chart st v c = (c', r)" "n \<noteq> Chart_Name chart"
  shows "H_releases (C_helm c') n = H_releases (C_helm c) n"
  using assms Helm_Apply_only [of chart "C_helm c" "E_helm env" st v]
  by (auto simp: helmApply_def onlyRelease_def split: prod.splits)

lemma clusterCall_helm: "(\<And>c. C_helm (fst (f c)) = C_helm c) \<Longrightarrow> C_helm (fst (clusterCall f c)) = C_helm c"
  by (auto simp: clusterCall_def Let_def split: option.split)

lemma ListResources_helm: "ListResourcesForGroupVersion env gv c = (c', r) \<Longrightarrow> C_helm c' = C_helm c"
  using clusterCall_helm [of "\<lambda>c. (c, E_resources env (C_calls c) gv)" c]
  by (auto simp: ListResourcesForGroupVersion_def tryStep_def split: prod.splits sum.splits)

lemma WaitUntilReady_invariant:
  "(\<And>s. I s \<Longrightarrow> I (fst (check s))) \<Longrightarrow> I s \<Longrightarrow> I (fst (WaitUntilReady n check s))"
proof (induction n arbitrary: s)
  case (Suc n)
  obtain s' r where c: "check s = (s', r)" by fastforce
  have "I s'" using Suc.prems(1) [OF Suc.prems(2)] c by simp
  then show ?case using Suc.IH [OF Suc.prems(1)] by (simp add: c split: sum.split)
qed simp

lemma metallbCRDs_helm: "C_helm (fst (metallbCRDs env b c)) = C_helm c"
  by (auto simp: metallbCRDs_def Let_def split: prod.split sum.split dest!: ListResources_helm)

lemma metallb_wait_helm: "metallb_waitForRequiredLoadBalancerCRDs env b c = (c', r) \<Longrightarrow> C_helm c' = C_helm c"
  using WaitUntilReady_invariant [of "\<lambda>d. C_helm d = C_helm c" "metallbCRDs env b" c "E_checks env"]
  by (cases "E_client env") (auto simp: metallb_waitForRequiredLoadBalancerCRDs_def metallbCRDs_helm)

text \<open>
  MetalLB's BGP configuration is applied only with valid neighbors (AS numbers, ports and
  addresses in range, no empty selector key); an unreadable annotation or an invalid neighbor makes
  the feature fail and leaves the load balancer chart as it was.
\<close>

theorem metallb_peers_checked:
  assumes e: "metallb_enableLoadBalancer env lb a c = (c', r)"
  shows "(r = ok \<longrightarrow> (\<exists>ns all. chosenNeighbors env lb a = Inr (ns, all) \<and> (\<forall>n \<in> set ns. validNeighbor n))) \<and>
    ((case chosenNeighbors env lb a of Inl _ \<Rightarrow> True | Inr (ns, all) \<Rightarrow> \<exists>n \<in> set ns. \<not> validNeighbor n) \<longrightarrow>
       r \<noteq> ok \<and> H_releases (C_helm c') ''metallb-loadbalancer'' = H_releases (C_helm c) ''metallb-loadbalancer'')"
proof -
  let ?n = "''metallb-loadbalancer''"
  obtain c1 r1 where c1: "helmApply env ChartMetalLB StatePresent metalLBValues c = (c1, r1)" by fastforce
  have k1: "H_releases (C_helm c1) ?n = H_releases (C_helm c) ?n"
    by (rule helmApply_other [OF c1]) (simp add: ChartMetalLB_def)
  obtain c2 r2 where c2: "metallb_waitForRequiredLoadBalancerCRDs env (getBool (LoadBalancer_BGPMode lb)) c1 = (c2, r2)" by fastforce
  have k2: "C_helm c2 = C_helm c1" by (rule metallb_wait_helm [OF c2])
  show ?thesis
  proof (cases "is_ok r1 \<and> is_ok r2")
    case False
    then show ?thesis using e k1 k2 by (auto simp: metallb_enableLoadBalancer_def c1 c2 tryStep_def is_ok_iff split: sum.splits)
  next
    case True
    then obtain x1 x2 where x: "r1 = Inr x1" "r2 = Inr x2" by (auto simp: is_ok_iff)
    show ?thesis
    proof (cases "chosenNeighbors env lb a")
      case (Inl err)
      then show ?thesis using e k1 k2 by (auto simp: metallb_enableLoadBalancer_def c1 c2 x)
    next
      case (Inr p)
      obtain ns all where p: "p = (ns, all)" by fastforce
      show ?thesis
      proof (cases "\<forall>n \<in> set ns. validNeighbor n")
        case True then show ?thesis using Inr p by auto
      next
        case False
        then obtain err where "validateBGPNeighbors ns = Inl err" using validateBGPNeighbors_ok [of ns] by (cases "validateBGPNeighbors ns") auto
        then show ?thesis using e k1 k2 False Inr p by (auto simp: metallb_enableLoadBalancer_def c1 c2 x)
      qed
    qed
  qed
qed

section \<open>Chart values are values of maps\<close>

text \<open>The values of a chart stand for nested Go maps: no object has a key twice.\<close>

fun wfValue :: "hval \<Rightarrow> bool" where
  "wfValue (HObject fs) \<longleftrightarrow> distinct (map fst fs) \<and> (\<forall>f \<in> set fs. wfValue (snd f))"
| "wfValue (HArray vs) \<longleftrightarrow> (\<forall>v \<in> set vs. wfValue v)"
| "wfValue _ \<longleftrightarrow> True"

lemma wfValue_pool [simp]: "wfValue (poolValues lb)"
  by (auto simp: poolValues_def)

lemma wfValue_neighbor: "goodMap (nodeSelector n) \<Longrightarrow> wfValue (neighborValues n)"
  by (auto simp: neighborValues_def comp_def case_prod_beta)

lemma wfValue_update: "wfValue (HObject fs) \<Longrightarrow> wfValue v \<Longrightarrow> wfValue (HObject (AList.update k v fs))"
proof -
  assume a: "wfValue (HObject fs)" "wfValue v"
  have "\<forall>f \<in> set (AList.update k v fs). f \<in> set fs \<or> snd f = v" by (induction fs) auto
  then show ?thesis using a by (auto simp: distinct_update)
qed

lemma wfValue_features:
  "wfValue (dnsValues dns kl)" "wfValue (localpvValues ls)" "wfValue metalLBValues"
  "(\<forall>n \<in> set ns. goodMap (nodeSelector n)) \<Longrightarrow> wfValue (buildLoadBalancerValues lb ns all)"
  by (auto simp: dnsValues_def dnsPlugins_def dnsMatchLabels_def dnsSpread_def dnsMetric_def Let_def localpvValues_def
      metalLBValues_def buildLoadBalancerValues_def wfValue_neighbor)

section \<open>Instances\<close>

definition sampleFeat :: featEnv where
  "sampleFeat = \<lparr>E_helm = sampleHelm, E_client = ok, E_errText = (\<lambda>_. ''error''), E_now = ''now'', E_ctxDone = (\<lambda>_. False), E_checks = 1,
     E_resources = (\<lambda>_ gv. Inr (if gv = ''metallb.io/v1beta1'' then [''ipaddresspools'', ''l2advertisements'', ''bgpadvertisements''] else [''bgppeers''])),
     E_parsePeers = (\<lambda>_. Inr [\<lparr>peerAddress = ''10.0.0.1'', peerASN = 0, peerPort = 179, myASN = 0, nodeSelector = []\<rparr>]),
     AnnotationImageRepo = ''r'', AnnotationImageTag = ''t'', AnnotationBGPPeers = ''p'', AnnotationAdvertiseAllPools = ''a''\<rparr>"

definition sampleCluster :: Cluster where
  "sampleCluster = \<lparr>C_helm = samplePending, C_deployments = [], C_daemonsets = [], C_services = [], C_calls = 0, C_fault = (\<lambda>_. None)\<rparr>"

theorem metallb_peers_checked_witness:
  "\<exists>c' r. metallb_enableLoadBalancer sampleFeat emptyLoadBalancer (Some [''p'' \<mapsto> ''x'']) sampleCluster = (c', r) \<and> r \<noteq> ok \<and>
     H_releases (C_helm c') ''metallb-loadbalancer'' = H_releases (C_helm sampleCluster) ''metallb-loadbalancer''"
proof -
  obtain c' r where e: "metallb_enableLoadBalancer sampleFeat emptyLoadBalancer (Some [''p'' \<mapsto> ''x'']) sampleCluster = (c', r)" by fastforce
  have "chosenNeighbors sampleFeat emptyLoadBalancer (Some [''p'' \<mapsto> ''x'']) =
      Inr ([\<lparr>peerAddress = ''10.0.0.1'', peerASN = 0, peerPort = 179, myASN = 0, nodeSelector = []\<rparr>], False)"
    by (simp add: chosenNeighbors_def neighborsFromAnnotations_def annotation_def sampleFeat_def advertiseAllPools_def)
  then show ?thesis using metallb_peers_checked [OF e] e by (simp add: validNeighbor_def)
qed

end
