(* ===== verification/Cilium.thy ===== *)
theory Cilium
  imports Features
begin

text \<open>
  The features Cilium provides (\<open>pkg/k8sd/features/cilium\<close>): the network itself, the gateway and the
  ingress, which all operate on the one chart \<open>ck-network\<close>, and the Cilium load balancer; with what they
  read from the host (\<open>utils.GetMountPath\<close>, \<open>GetMountPropagationType\<close>, \<open>ListVXLANInterfaces\<close>,
  \<open>snap.OnLXD\<close>). \<open>ciliumEnv\<close> adds to the environment of a feature the annotation keys, the loopback
  addresses, the mount table and the output of the \<open>ip\<close> tool.
\<close>

section \<open>The host\<close>

record ciliumEnv =
  CE_feat :: featEnv
  AnnotationDevices :: string
  AnnotationDirectRoutingDevice :: string
  AnnotationVLANBPFBypass :: string
  AnnotationCNIExclusive :: string
  AnnotationSCTPEnabled :: string
  AnnotationTunnelPort :: string
  CE_loopback :: "string list res res"
  CE_hostname :: string
  CE_strict :: bool
  CE_mountsOfType :: "string \<Rightarrow> string list res"
  CE_mountsAt :: "string \<Rightarrow> string list res"
  CE_ipOutput :: "string res"
  CE_parseLinks :: "string \<Rightarrow> (string \<times> int ptr) list res"
  CE_interfaceByName :: "string \<Rightarrow> string res"

definition ErrUnknownMount :: error where
  "ErrUnknownMount = Errorf ''mount is unknown'' []"

definition GetMountPath :: "ciliumEnv \<Rightarrow> string \<Rightarrow> string res" where
  "GetMountPath ce fsType =
     (case CE_mountsOfType ce fsType of
        Inl e \<Rightarrow> Inl (Wrapf ''failed to find the mount info for %s: %w'' [fsType] e)
      | Inr [] \<Rightarrow> Inl ErrUnknownMount
      | Inr (m # _) \<Rightarrow> Inr m)"

definition strContains :: "string \<Rightarrow> string \<Rightarrow> bool" where
  "strContains s sub = list_ex (\<lambda>i. take (length sub) (drop i s) = sub) [0 ..< Suc (length s)]"

datatype MountPropagationType = MountPropagationShared | MountPropagationPrivate

definition GetMountPropagationType :: "ciliumEnv \<Rightarrow> string \<Rightarrow> MountPropagationType res" where
  "GetMountPropagationType ce path =
     (case CE_mountsAt ce path of
        Inl e \<Rightarrow> Inl (Wrapf ''failed to get mounts: %w'' [] e)
      | Inr [] \<Rightarrow> Inl ErrUnknownMount
      | Inr (optional # _) \<Rightarrow> Inr (if strContains optional ''shared'' then MountPropagationShared else MountPropagationPrivate))"

definition OnLXD :: "ciliumEnv \<Rightarrow> bool res" where
  "OnLXD ce =
     (case CE_mountsOfType ce ''fuse.lxcfs'' of
        Inl e \<Rightarrow> Inl (Wrapf ''failed to check for lxcfs mounts: %w'' [] e)
      | Inr ms \<Rightarrow> Inr (length ms > 0))"

fun vxlanLoop :: "ciliumEnv \<Rightarrow> (string \<times> int ptr) list \<Rightarrow> (string \<times> int ptr) list \<Rightarrow> (string \<times> int ptr) list res" where
  "vxlanLoop ce [] acc = Inr acc"
| "vxlanLoop ce ((ifName, port) # links) acc =
     (if ifName = [] then vxlanLoop ce links acc
      else (case CE_interfaceByName ce ifName of
              Inl e \<Rightarrow> Inl (Wrapf ''returning interface by name failed: %w'' [] e)
            | Inr name \<Rightarrow> vxlanLoop ce links (acc @ [(name, port)])))"

definition ListVXLANInterfaces :: "ciliumEnv \<Rightarrow> (string \<times> int ptr) list res" where
  "ListVXLANInterfaces ce =
     (case CE_ipOutput ce of
        Inl e \<Rightarrow> Inl (Wrapf ''running ip command failed: %s'' [] e)
      | Inr out \<Rightarrow>
          (case CE_parseLinks ce out of
             Inl e \<Rightarrow> Inl (Wrapf ''unmarshaling ip command output failed: %w'' [] e)
           | Inr links \<Rightarrow> vxlanLoop ce links []))"

section \<open>Charts and settings\<close>

definition ChartCilium :: InstallableChart where
  "ChartCilium = \<lparr>Chart_Name = ''ck-network'', Chart_Namespace = ''kube-system'', Chart_ManifestPath = pathJoin ''charts'' ''cilium-1.19.4.tgz''\<rparr>"

definition ChartCiliumLoadBalancer :: InstallableChart where
  "ChartCiliumLoadBalancer = \<lparr>Chart_Name = ''ck-loadbalancer'', Chart_Namespace = ''kube-system'', Chart_ManifestPath = pathJoin ''charts'' ''ck-loadbalancer''\<rparr>"

definition chartGateway :: InstallableChart where
  "chartGateway = \<lparr>Chart_Name = ''ck-gateway'', Chart_Namespace = ''kube-system'', Chart_ManifestPath = pathJoin ''charts'' ''gateway-api-1.4.1.tgz''\<rparr>"

definition chartGatewayClass :: InstallableChart where
  "chartGatewayClass = \<lparr>Chart_Name = ''ck-gateway-class'', Chart_Namespace = ''default'', Chart_ManifestPath = pathJoin ''charts'' ''ck-gateway-cilium''\<rparr>"

definition CiliumAgentImageTag :: string where "CiliumAgentImageTag = ''1.19.4-ck1''"
definition ciliumOperatorImageTag :: string where "ciliumOperatorImageTag = ''1.19.4-ck1''"
definition ciliumDefaultVXLANPort :: int where "ciliumDefaultVXLANPort = 8472"
definition ciliumVXLANDeviceName :: string where "ciliumVXLANDeviceName = ''cilium_vxlan''"

definition minVLANIDValue :: int where "minVLANIDValue = 0"
definition maxVLANIDValue :: int where "maxVLANIDValue = 4094"

record ciliumConfig =
  devices :: string
  directRoutingDevice :: string
  vlanBPFBypass :: "int list ptr"
  cniExclusive :: bool
  sctpEnabled :: bool
  tunnelPort :: int

definition validatePort :: "string \<Rightarrow> int res" where
  "validatePort portStr =
     (case Atoi portStr of
        None \<Rightarrow> Inl (Errorf ''invalid port: not a number'' [])
      | Some port \<Rightarrow> if port < 1 \<or> port > 65535 then Inl (Errorf ''invalid port: out of range'' []) else Inr port)"

fun vlanLoop :: "string list \<Rightarrow> int list \<Rightarrow> int list res" where
  "vlanLoop [] tags = Inr tags"
| "vlanLoop (vlan # vlans) tags =
     (case Atoi (TrimSpace vlan) of
        None \<Rightarrow> Inl (Errorf ''failed to parse VLAN tag: %w'' [])
      | Some vlanID \<Rightarrow>
          if vlanID < minVLANIDValue \<or> vlanID > maxVLANIDValue
          then Inl (Errorf ''VLAN tag must be between 0 and %d'' [Itoa maxVLANIDValue])
          else if vlanID \<in> set tags then vlanLoop vlans tags
          else vlanLoop vlans (tags @ [vlanID]))"

definition validateVLANBPFBypass :: "string \<Rightarrow> int list res" where
  "validateVLANBPFBypass vlanList0 =
     (let vlanList = trimWhile (\<lambda>c. c = CHR ''{'' \<or> c = CHR ''}'') (TrimSpace vlanList0) in
      case vlanLoop (splitOn (CHR '','') vlanList) [] of Inl e \<Rightarrow> Inl e | Inr tags \<Rightarrow> Inr (sort tags))"

definition cilium_internalConfig :: "ciliumEnv \<Rightarrow> Annotations \<Rightarrow> ciliumConfig res" where
  "cilium_internalConfig ce a =
     (let bypass = (case annotation a (AnnotationVLANBPFBypass ce) of
            None \<Rightarrow> Inr None
          | Some v \<Rightarrow> (case validateVLANBPFBypass v of
                Inl e \<Rightarrow> Inl (Wrapf ''failed to parse VLAN BPF bypass list: %w'' [] e)
              | Inr tags \<Rightarrow> Inr (Some tags)));
          tunnel = (case Annotations_Get a (AnnotationTunnelPort ce) of (v, found) \<Rightarrow>
             if found then (case validatePort v of
                 Inl e \<Rightarrow> Inl (Wrapf ''failed to parse Tunnel encapsulation port: %w'' [] e)
               | Inr p \<Rightarrow> Inr p)
             else Inr ciliumDefaultVXLANPort) in
      case bypass of
        Inl e \<Rightarrow> Inl e
      | Inr tags \<Rightarrow>
          (case tunnel of
             Inl e \<Rightarrow> Inl e
           | Inr p \<Rightarrow> Inr \<lparr>devices = fst (Annotations_Get a (AnnotationDevices ce)),
               directRoutingDevice = fst (Annotations_Get a (AnnotationDirectRoutingDevice ce)),
               vlanBPFBypass = tags,
               cniExclusive = snd (Annotations_Get a (AnnotationCNIExclusive ce)),
               sctpEnabled = snd (Annotations_Get a (AnnotationSCTPEnabled ce)),
               tunnelPort = p\<rparr>))"

fun vxlanConflict :: "int \<Rightarrow> (string \<times> int ptr) list \<Rightarrow> unit res" where
  "vxlanConflict port [] = ok"
| "vxlanConflict port ((name, None) # devs) = vxlanConflict port devs"
| "vxlanConflict port ((name, Some devicePort) # devs) =
     (if devicePort = port \<and> name \<noteq> ciliumVXLANDeviceName
      then Inl (Errorf ''interface %s uses the same destination port as cilium. Please consider changing the Cilium tunnel port'' [name])
      else vxlanConflict port devs)"

definition checkAndSanitizeCiliumVXLAN :: "ciliumEnv \<Rightarrow> int \<Rightarrow> unit res" where
  "checkAndSanitizeCiliumVXLAN ce port =
     (case ListVXLANInterfaces ce of
        Inl e \<Rightarrow> Inl (Wrapf ''listing vxlan interfaces failed: %w'' [] e)
      | Inr devs \<Rightarrow> vxlanConflict port devs)"

definition rolloutRestartCilium :: "featEnv \<Rightarrow> nat \<Rightarrow> Cluster \<Rightarrow> (Cluster, unit) step" where
  "rolloutRestartCilium env attempts c =
     tryStep (c, E_client env) ''failed to create kubernetes client: %w'' [] (\<lambda>c _.
     tryStep (RetryFor (E_ctxDone env) attempts (\<lambda>c. tryStep (RestartDeployment env ''cilium-operator'' ''kube-system'' c)
         ''failed to restart cilium-operator deployment: %w'' [] (\<lambda>c _. (c, ok))) c)
       ''failed to restart cilium-operator deployment after %d attempts: %w'' [Itoa (int attempts)] (\<lambda>c _.
     tryStep (RetryFor (E_ctxDone env) attempts (\<lambda>c. tryStep (RestartDaemonset env ''cilium'' ''kube-system'' c)
         ''failed to restart cilium daemonset: %w'' [] (\<lambda>c _. (c, ok))) c)
       ''failed to restart cilium daemonset after %d attempts: %w'' [Itoa (int attempts)] (\<lambda>c _. (c, ok))))"

section \<open>Network\<close>

abbreviation enabledValue :: "bool \<Rightarrow> hval" where
  "enabledValue b \<equiv> HObject [(''enabled'', HBool b)]"

definition digestImage :: "string \<Rightarrow> string \<Rightarrow> hval" where
  "digestImage repo tag = HObject [(''repository'', HString repo), (''tag'', HString tag), (''useDigest'', HBool False)]"

definition networkValues :: "ciliumConfig \<Rightarrow> IP \<Rightarrow> string \<Rightarrow> string \<Rightarrow> int \<Rightarrow> (string \<times> hval) list" where
  "networkValues config localhostAddress ipv4CIDR ipv6CIDR securePort =
     [(''bpf'', HObject (case vlanBPFBypass config of None \<Rightarrow> [] | Some tags \<Rightarrow> [(''vlanBypass'', HArray (map HInt tags))])),
      (''image'', digestImage ''ghcr.io/canonical/cilium'' CiliumAgentImageTag),
      (''socketLB'', enabledValue True),
      (''cni'', HObject
        [(''confPath'', HString ''/etc/cni/net.d''), (''binPath'', HString ''/opt/cni/bin''),
         (''exclusive'', HBool (cniExclusive config)), (''chainingMode'', HString ''portmap'')]),
      (''sctp'', enabledValue (sctpEnabled config)),
      (''operator'', HObject
        [(''replicas'', HInt 1), (''image'', digestImage ''ghcr.io/canonical/cilium-operator'' ciliumOperatorImageTag)]),
      (''ipv4'', enabledValue (ipv4CIDR \<noteq> [])),
      (''ipv6'', enabledValue (ipv6CIDR \<noteq> [])),
      (''ipam'', HObject [(''operator'', HObject
        [(''clusterPoolIPv4PodCIDRList'', HString ipv4CIDR), (''clusterPoolIPv6PodCIDRList'', HString ipv6CIDR)])]),
      (''envoy'', enabledValue False),
      (''kubeProxyReplacement'', HBool True),
      (''nodePort'', HObject ([(''enabled'', HBool True), (''enableHealthCheck'', HBool True)]
        @ (if directRoutingDevice config \<noteq> [] then [(''directRoutingDevice'', HString (directRoutingDevice config))] else []))),
      (''disableEnvoyVersionCheck'', HBool True),
      (''k8sServiceHost'', HString (trimWhile (\<lambda>c. c = CHR ''['' \<or> c = CHR '']'') (IPString localhostAddress))),
      (''k8sServicePort'', HInt securePort),
      (''enableRuntimeDeviceDetection'', HBool True),
      (''sessionAffinity'', HBool True),
      (''loadBalancer'', HObject [(''protocolDifferentiation'', enabledValue True)]),
      (''tunnelPort'', HInt (tunnelPort config))]
     @ (if ipv4CIDR = [] \<and> ipv6CIDR \<noteq> []
        then [(''routingMode'', HString ''tunnel''), (''ipv6NativeRoutingCIDR'', HString []), (''autoDirectNodeRoutes'', HBool False)] else [])
     @ (if devices config \<noteq> [] then [(''devices'', HString (devices config))] else [])"

text \<open>Under strict confinement the mounts have to exist; otherwise \<open>/sys\<close> has to be a shared mount.\<close>

definition mountValues :: "ciliumEnv \<Rightarrow> (string \<times> hval) list \<Rightarrow> (string \<times> hval) list res" where
  "mountValues ce values =
     (if CE_strict ce then
        (case GetMountPath ce ''bpf'' of
           Inl e \<Rightarrow> Inl (Wrapf ''failed to get bpf mount path: %w'' [] e)
         | Inr bpfMnt \<Rightarrow>
             (case GetMountPath ce ''cgroup2'' of
                Inl e \<Rightarrow> Inl (Wrapf ''failed to get cgroup2 mount path: %w'' [] e)
              | Inr cgrMnt \<Rightarrow> Inr
                  (AList.update ''cgroup'' (HObject [(''autoMount'', enabledValue False), (''hostRoot'', HString cgrMnt)])
                    (AList.update ''bpf'' (HObject [(''autoMount'', enabledValue False), (''root'', HString bpfMnt)]) values))))
      else
        (case GetMountPropagationType ce ''/sys'' of
           Inl e \<Rightarrow> Inl (Wrapf ''failed to get mount propagation type for /sys: %w'' [] e)
         | Inr pt \<Rightarrow>
             if pt = MountPropagationPrivate then
               if OnLXD ce = Inr True
               then Inl (Errorf ''/sys is not a shared mount on the LXD container, this might be resolved by updating LXD on the host to version 5.0.2 or newer'' [])
               else Inl (Errorf ''/sys is not a shared mount'' [])
             else Inr values))"

definition cilium_ApplyNetwork ::
  "ciliumEnv \<Rightarrow> APIServer \<Rightarrow> Network \<Rightarrow> Annotations \<Rightarrow> Cluster \<Rightarrow> Cluster \<times> int FeatureStatus \<times> unit res"
where
  "cilium_ApplyNetwork ce apiserver network annotations c =
     (let env = CE_feat ce; ver = CiliumAgentImageTag; deployFailed = ''Failed to deploy Cilium Network, the error was: %v'' in
      if \<not> getBool (Network_Enabled network) then
        orFailed (helmApply env ChartCilium StateDeleted HNull c) env ver ''Failed to delete Cilium Network, the error was: %v''
          ''failed to uninstall network: %w'' [] (\<lambda>c _. featureDone ver False ''disabled'' () c)
      else
        orFailed (c, cilium_internalConfig ce annotations) env ver deployFailed ''failed to parse annotations: %w'' [] (\<lambda>c config.
        orFailed (c, GetLocalhostAddress (CE_loopback ce)) env ver deployFailed ''failed to determine localhost address: %w'' [] (\<lambda>c localhostAddress.
        if ParseIP (CE_hostname ce) = None
        then featureFailed env ver deployFailed (Errorf ''failed to parse node IP address %q'' [CE_hostname ce]) c
        else
        orFailed (c, SplitCIDRStrings (getStr (Network_PodCIDR network))) env ver deployFailed ''invalid kube-proxy --cluster-cidr value: %w'' [] (\<lambda>c (ipv4CIDR, ipv6CIDR).
        case checkAndSanitizeCiliumVXLAN ce (tunnelPort config) of
          Inl e \<Rightarrow> featureFailed env ver deployFailed e c
        | Inr _ \<Rightarrow>
        (case mountValues ce (networkValues config localhostAddress ipv4CIDR ipv6CIDR (getInt (APIServer_SecurePort apiserver))) of
           Inl e \<Rightarrow> featureFailed env ver deployFailed e c
         | Inr values \<Rightarrow>
        orFailed (helmApply env ChartCilium StatePresent (HObject values) c) env ver deployFailed ''failed to enable network: %w'' [] (\<lambda>c _.
        orFailed (rolloutRestartCilium env 3 c) env ver deployFailed ''failed to rollout restart cilium to apply new network configuration: %w'' [] (\<lambda>c _.
        featureDone ver True ''enabled'' () c)))))))"

section \<open>Gateway\<close>

definition enableGateway :: "featEnv \<Rightarrow> Cluster \<Rightarrow> Cluster \<times> int FeatureStatus \<times> unit res" where
  "enableGateway env c =
     (let ver = CiliumAgentImageTag; deployFailed = ''Failed to deploy Cilium Gateway, the error was %v'';
          values = HObject [(''gatewayAPI'', HObject [(''enabled'', HBool True), (''gatewayClass'', HObject [(''create'', HString ''false'')])])] in
      orFailed (helmApply env chartGateway StatePresent HNull c) env ver deployFailed ''failed to install Gateway API CRDs: %w'' [] (\<lambda>c _.
      orFailed (helmApply env chartGatewayClass StatePresent HNull c) env ver deployFailed ''failed to install Gateway API GatewayClass: %w'' [] (\<lambda>c _.
      orFailed (helmApply env ChartCilium StateUpgradeOnly values c) env ver deployFailed ''failed to upgrade Gateway API cilium configuration: %w'' [] (\<lambda>c changed.
      if \<not> changed then featureDone ver True ''enabled'' () c
      else orFailed (rolloutRestartCilium env 3 c) env ver deployFailed ''failed to rollout restart cilium to enable Gateway API: %w'' [] (\<lambda>c _.
        featureDone ver True ''enabled'' () c)))))"

definition disableGateway :: "featEnv \<Rightarrow> Network \<Rightarrow> Cluster \<Rightarrow> Cluster \<times> int FeatureStatus \<times> unit res" where
  "disableGateway env network c =
     (let ver = CiliumAgentImageTag; deleteFailed = ''Failed to delete Cilium Gateway, the error was %v'' in
      orFailed (helmApply env chartGatewayClass StateDeleted HNull c) env ver deleteFailed ''failed to delete Gateway API GatewayClass: %w'' [] (\<lambda>c _.
      orFailed (helmApply env ChartCilium (StateUpgradeOnlyOrDeleted (getBool (Network_Enabled network)))
          (HObject [(''gatewayAPI'', enabledValue False)]) c) env ver deleteFailed ''failed to delete Gateway API cilium configuration: %w'' [] (\<lambda>c changed.
      orFailed (helmApply env chartGateway StateDeleted HNull c) env ver deleteFailed ''failed to delete Gateway API CRDs: %w'' [] (\<lambda>c _.
      if \<not> changed then featureDone ver False ''disabled'' () c
      else orFailed (rolloutRestartCilium env 3 c) env ver ''Failed to deploy Cilium Gateway, the error was %v''
        ''failed to rollout restart cilium to disable Gateway API: %w'' [] (\<lambda>c _. featureDone ver False ''disabled'' () c)))))"

definition cilium_ApplyGateway :: "ciliumEnv \<Rightarrow> Gateway \<Rightarrow> Network \<Rightarrow> Annotations \<Rightarrow> Cluster \<Rightarrow> Cluster \<times> int FeatureStatus \<times> unit res" where
  "cilium_ApplyGateway ce gateway network annotations c =
     (if getBool (Gateway_Enabled gateway) then enableGateway (CE_feat ce) c else disableGateway (CE_feat ce) network c)"

section \<open>Ingress\<close>

definition ingressValues :: "Ingress \<Rightarrow> hval" where
  "ingressValues ingress =
     (if getBool (Ingress_Enabled ingress) then
        HObject [(''ingressController'', HObject
          [(''enabled'', HBool True), (''loadbalancerMode'', HString ''shared''), (''defaultSecretNamespace'', HString ''kube-system''),
           (''defaultSecretName'', HString (getStr (Ingress_DefaultTLSSecret ingress))),
           (''enableProxyProtocol'', HBool (getBool (Ingress_EnableProxyProtocol ingress)))])]
      else
        HObject [(''ingressController'', HObject
          [(''enabled'', HBool False), (''loadbalancerMode'', HString []), (''defaultSecretNamespace'', HString []),
           (''defaultSecretName'', HString []), (''enableProxyProtocol'', HBool False)])])"

definition cilium_ApplyIngress :: "ciliumEnv \<Rightarrow> Ingress \<Rightarrow> Network \<Rightarrow> Annotations \<Rightarrow> Cluster \<Rightarrow> Cluster \<times> int FeatureStatus \<times> unit res" where
  "cilium_ApplyIngress ce ingress network annotations c =
     (let env = CE_feat ce; ver = CiliumAgentImageTag; enabled = getBool (Ingress_Enabled ingress); up = getBool (Network_Enabled network);
          deployFailed = ''Failed to deploy Cilium Ingress, the error was: %v'' in
      case helmApply env ChartCilium (StateUpgradeOnlyOrDeleted up) (ingressValues ingress) c of
        (c, Inl e) \<Rightarrow>
          if up then featureFailed env ver deployFailed (Wrapf ''failed to enable ingress: %w'' [] e) c
          else featureFailed env ver ''Failed to delete Cilium Ingress, the error was: %v'' (Wrapf ''failed to disable ingress: %w'' [] e) c
      | (c, Inr changed) \<Rightarrow>
          if \<not> changed then
            (if enabled then featureDone ver True ''enabled'' () c else featureDone ver False ''disabled'' () c)
          else if \<not> enabled then featureDone ver False ''disabled'' () c
          else orFailed (rolloutRestartCilium env 3 c) env ver deployFailed ''failed to rollout restart cilium to apply ingress: %w'' []
            (\<lambda>c _. featureDone ver True ''enabled'' () c))"

section \<open>Load balancer\<close>

definition ciliumLBRequest :: "bool \<Rightarrow> bool \<Rightarrow> bool \<Rightarrow> int \<Rightarrow> int \<Rightarrow> hval" where
  "ciliumLBRequest l2 bgp external qps burst = HObject
     [(''l2announcements'', enabledValue l2), (''bgpControlPlane'', enabledValue bgp), (''externalIPs'', enabledValue external),
      (''k8sClientRateLimit'', HObject [(''qps'', HInt qps), (''burst'', HInt burst)])]"

definition cilium_disableLoadBalancer :: "featEnv \<Rightarrow> Network \<Rightarrow> Cluster \<Rightarrow> (Cluster, unit) step" where
  "cilium_disableLoadBalancer env network c =
     tryStep (helmApply env ChartCiliumLoadBalancer StateDeleted HNull c) ''failed to uninstall LoadBalancer manifests: %w'' [] (\<lambda>c _.
     tryStep (helmApply env ChartCilium (StateUpgradeOnlyOrDeleted (getBool (Network_Enabled network))) (ciliumLBRequest False False False 5 10) c)
       ''failed to refresh network to apply LoadBalancer configuration: %w'' [] (\<lambda>c _. (c, ok)))"

definition ciliumCRDs :: "featEnv \<Rightarrow> bool \<Rightarrow> Cluster \<Rightarrow> (Cluster, bool) step" where
  "ciliumCRDs env bgpMode c =
     (case ListResourcesForGroupVersion env ''cilium.io/v2alpha1'' c of
        (c, Inl _) \<Rightarrow> (c, Inr False)
      | (c, Inr resources) \<Rightarrow>
          let required = [''ciliuml2announcementpolicies'', ''ciliumloadbalancerippools''] @ (if bgpMode then [''ciliumbgppeeringpolicies''] else []) in
          (c, Inr (int (length required) - int (length (filter (\<lambda>r. r \<in> set required) resources)) = 0)))"

definition cilium_waitForRequiredLoadBalancerCRDs :: "featEnv \<Rightarrow> bool \<Rightarrow> Cluster \<Rightarrow> (Cluster, unit) step" where
  "cilium_waitForRequiredLoadBalancerCRDs env bgpMode c =
     tryStep (c, E_client env) ''failed to create Kubernetes client: %w'' [] (\<lambda>c _. WaitUntilReady (E_checks env) (ciliumCRDs env bgpMode) c)"

definition ciliumLBValues :: "LoadBalancer \<Rightarrow> hval" where
  "ciliumLBValues lb = HObject
     [(''driver'', HString ''cilium''),
      (''l2'', HObject
        [(''enabled'', HBool (getBool (LoadBalancer_L2Mode lb))), (''interfaces'', HArray (map HString (getList (LoadBalancer_L2Interfaces lb))))]),
      (''ipPool'', HObject [(''cidrs'', poolValues lb)]),
      (''bgp'', HObject
        [(''enabled'', HBool (getBool (LoadBalancer_BGPMode lb))), (''localASN'', HInt (getInt (LoadBalancer_BGPLocalASN lb))),
         (''neighbors'', HArray [HObject
           [(''peerAddress'', HString (getStr (LoadBalancer_BGPPeerAddress lb))), (''peerASN'', HInt (getInt (LoadBalancer_BGPPeerASN lb))),
            (''peerPort'', HInt (getInt (LoadBalancer_BGPPeerPort lb)))]])])]"

definition cilium_enableLoadBalancer :: "featEnv \<Rightarrow> LoadBalancer \<Rightarrow> Network \<Rightarrow> Cluster \<Rightarrow> (Cluster, unit) step" where
  "cilium_enableLoadBalancer env lb network c =
     tryStep (helmApply env ChartCilium (StateUpgradeOnlyOrDeleted (getBool (Network_Enabled network)))
         (ciliumLBRequest (getBool (LoadBalancer_L2Mode lb)) (getBool (LoadBalancer_BGPMode lb)) True 10 20) c)
       ''failed to update Cilium configuration for LoadBalancer: %w'' [] (\<lambda>c changed.
     tryStep (cilium_waitForRequiredLoadBalancerCRDs env (getBool (LoadBalancer_BGPMode lb)) c)
       ''failed to wait for required Cilium CRDs to be available: %w'' [] (\<lambda>c _.
     tryStep (helmApply env ChartCiliumLoadBalancer StatePresent (ciliumLBValues lb) c) ''failed to apply LoadBalancer configuration: %w'' [] (\<lambda>c _.
     if \<not> changed then (c, ok)
     else tryStep (rolloutRestartCilium env 3 c) ''failed to rollout restart cilium to apply LoadBalancer configuration: %w'' [] (\<lambda>c _. (c, ok)))))"

definition cilium_ApplyLoadBalancer ::
  "ciliumEnv \<Rightarrow> LoadBalancer \<Rightarrow> Network \<Rightarrow> Annotations \<Rightarrow> Cluster \<Rightarrow> Cluster \<times> int FeatureStatus \<times> unit res"
where
  "cilium_ApplyLoadBalancer ce lb network annotations c =
     (let env = CE_feat ce; ver = CiliumAgentImageTag in
      if \<not> getBool (LoadBalancer_Enabled lb) then
        orFailed (cilium_disableLoadBalancer env network c) env ver ''Failed to delete Cilium Load Balancer, the error was: %v''
          ''failed to disable LoadBalancer: %w'' [] (\<lambda>c _. featureDone ver False ''disabled'' () c)
      else
        orFailed (cilium_enableLoadBalancer env lb network c) env ver ''Failed to deploy Cilium Load Balancer, the error was: %v''
          ''failed to enable LoadBalancer: %w'' [] (\<lambda>c _.
          featureDone ver True (Sprintf1 ''enabled, %s mode'' (if getBool (LoadBalancer_BGPMode lb) then ''BGP''
            else if getBool (LoadBalancer_L2Mode lb) then ''L2'' else ''Unknown'')) () c))"

section \<open>The default implementation\<close>

text \<open>\<open>features.Implementation\<close>.\<close>

definition Implementation :: "ciliumEnv \<Rightarrow> (Cluster, int) featuresInterface" where
  "Implementation ce = \<lparr>
     ApplyDNS = coredns_ApplyDNS (CE_feat ce),
     ApplyNetwork = cilium_ApplyNetwork ce,
     ApplyLoadBalancer = metallb_ApplyLoadBalancer (CE_feat ce),
     ApplyIngress = cilium_ApplyIngress ce,
     ApplyGateway = cilium_ApplyGateway ce,
     ApplyMetricsServer = ApplyMetrics (CE_feat ce),
     ApplyLocalStorage = ApplyLocalPV (CE_feat ce)\<rparr>"

section \<open>What the Cilium features report\<close>

interpretation net: reporting_feature "\<lambda>(s, n, a). cilium_ApplyNetwork ce s n a" "\<lambda>(s, n, a). getBool (Network_Enabled n)" "CE_feat ce" for ce
  by unfold_locales (auto simp: cilium_ApplyNetwork_def Let_def intro!: reports_orFailed split: sum.split prod.split)

interpretation gw: reporting_feature "\<lambda>(g, n, a). cilium_ApplyGateway ce g n a" "\<lambda>(g, n, a). getBool (Gateway_Enabled g)" "CE_feat ce" for ce
  by unfold_locales (auto simp: cilium_ApplyGateway_def enableGateway_def disableGateway_def Let_def intro!: reports_orFailed)

interpretation ing: reporting_feature "\<lambda>(i, n, a). cilium_ApplyIngress ce i n a" "\<lambda>(i, n, a). getBool (Ingress_Enabled i)" "CE_feat ce" for ce
  by unfold_locales (auto simp: cilium_ApplyIngress_def Let_def intro!: reports_orFailed split: prod.split sum.split)

interpretation clb: reporting_feature "\<lambda>(l, n, a). cilium_ApplyLoadBalancer ce l n a" "\<lambda>(l, n, a). getBool (LoadBalancer_Enabled l)" "CE_feat ce" for ce
  by unfold_locales (auto simp: cilium_ApplyLoadBalancer_def Let_def intro!: reports_orFailed)

text \<open>Which part of the configuration switches a feature on.\<close>

definition featureEnabled :: "string \<Rightarrow> ClusterConfig \<Rightarrow> bool" where
  "featureEnabled name cfg =
     (if name = ''network'' then getBool (Network_Enabled (CC_Network cfg))
      else if name = ''gateway'' then getBool (Gateway_Enabled (CC_Gateway cfg))
      else if name = ''ingress'' then getBool (Ingress_Enabled (CC_Ingress cfg))
      else if name = ''load-balancer'' then getBool (LoadBalancer_Enabled (CC_LoadBalancer cfg))
      else if name = ''local-storage'' then getBool (LocalStorage_Enabled (CC_LocalStorage cfg))
      else if name = ''metrics-server'' then getBool (MetricsServer_Enabled (CC_MetricsServer cfg))
      else getBool (DNS_Enabled (CC_DNS cfg)))"

lemma applyDNSFeature_status:
  assumes "applyDNSFeature (Implementation ce) notify errText cfg c = (c', st, r)"
  shows "FS_Enabled st \<longrightarrow> getBool (DNS_Enabled (CC_DNS cfg))" "is_ok r \<longrightarrow> FS_Enabled st = getBool (DNS_Enabled (CC_DNS cfg))"
proof -
  obtain c1 st1 r1 where a: "coredns_ApplyDNS (CE_feat ce) (CC_DNS cfg) (CC_Kubelet cfg) (CC_Annotations cfg) c = (c1, st1, r1)"
    using prod_cases3 by blast
  have iff: "FS_Enabled st1 \<longleftrightarrow> is_ok r1 \<and> getBool (DNS_Enabled (CC_DNS cfg))"
    using dns.status_iff [of "CE_feat ce" "(CC_DNS cfg, CC_Kubelet cfg, CC_Annotations cfg)" c c1 st1 r1] a by simp
  show "FS_Enabled st \<longrightarrow> getBool (DNS_Enabled (CC_DNS cfg))" "is_ok r \<longrightarrow> FS_Enabled st = getBool (DNS_Enabled (CC_DNS cfg))"
    using assms iff
    by (auto simp: applyDNSFeature_def Implementation_def a Let_def split: sum.splits if_splits prod.splits)
qed

definition truthful :: "string \<Rightarrow> (ClusterConfig \<Rightarrow> Cluster \<Rightarrow> Cluster \<times> int FeatureStatus \<times> unit res) \<Rightarrow> bool" where
  "truthful name applyF \<longleftrightarrow> (\<forall>cfg c. case applyF cfg c of (c', st, r) \<Rightarrow>
     (FS_Enabled st \<longrightarrow> featureEnabled name cfg) \<and> (is_ok r \<longrightarrow> FS_Enabled st = featureEnabled name cfg) \<and>
     (\<not> is_ok r \<and> name \<noteq> ''dns'' \<longrightarrow> \<not> FS_Enabled st))"

lemma truthfulI:
  "(\<And>cfg c c' st r. applyF cfg c = (c', st, r) \<Longrightarrow> FS_Enabled st \<longleftrightarrow> is_ok r \<and> featureEnabled name cfg) \<Longrightarrow> truthful name applyF"
  by (auto simp: truthful_def)

lemma Implementation_truthful:
  "truthful ''network'' (\<lambda>cfg. ApplyNetwork (Implementation ce) (CC_APIServer cfg) (CC_Network cfg) (CC_Annotations cfg))"
  "truthful ''gateway'' (\<lambda>cfg. ApplyGateway (Implementation ce) (CC_Gateway cfg) (CC_Network cfg) (CC_Annotations cfg))"
  "truthful ''ingress'' (\<lambda>cfg. ApplyIngress (Implementation ce) (CC_Ingress cfg) (CC_Network cfg) (CC_Annotations cfg))"
  "truthful ''load-balancer'' (\<lambda>cfg. ApplyLoadBalancer (Implementation ce) (CC_LoadBalancer cfg) (CC_Network cfg) (CC_Annotations cfg))"
  "truthful ''local-storage'' (\<lambda>cfg. ApplyLocalStorage (Implementation ce) (CC_LocalStorage cfg) (CC_Annotations cfg))"
  "truthful ''metrics-server'' (\<lambda>cfg. ApplyMetricsServer (Implementation ce) (CC_MetricsServer cfg) (CC_Annotations cfg))"
  using net.status_iff [of ce "(_, _, _)"] gw.status_iff [of ce "(_, _, _)"] ing.status_iff [of ce "(_, _, _)"]
    mlb.status_iff [of "CE_feat ce" "(_, _, _)"] ls.status_iff [of "CE_feat ce" "(_, _)"] ms.status_iff [of "CE_feat ce" "(_, _)"]
  by (intro truthfulI; simp add: Implementation_def featureEnabled_def)+

lemma dns_truthful: "truthful ''dns'' (applyDNSFeature (Implementation ce) notify errText)"
  unfolding truthful_def
proof (intro allI)
  fix cfg c
  obtain c' st r where a: "applyDNSFeature (Implementation ce) notify errText cfg c = (c', st, r)" using prod_cases3 by blast
  show "case applyDNSFeature (Implementation ce) notify errText cfg c of (c', st, r) \<Rightarrow>
     (FS_Enabled st \<longrightarrow> featureEnabled ''dns'' cfg) \<and> (is_ok r \<longrightarrow> FS_Enabled st = featureEnabled ''dns'' cfg) \<and>
     (\<not> is_ok r \<and> ''dns'' \<noteq> ''dns'' \<longrightarrow> \<not> FS_Enabled st)"
    using applyDNSFeature_status [OF a] by (simp add: a featureEnabled_def)
qed


section \<open>Cilium settings\<close>

lemma vlanLoop_tags:
  "vlanLoop vs tags = Inr ts \<Longrightarrow> distinct tags \<Longrightarrow> (\<forall>t \<in> set tags. 0 \<le> t \<and> t \<le> 4094) \<Longrightarrow>
     distinct ts \<and> (\<forall>t \<in> set ts. 0 \<le> t \<and> t \<le> 4094) \<and> set ts = set tags \<union> {t. \<exists>v \<in> set vs. Atoi (TrimSpace v) = Some t} \<and>
     (\<forall>v \<in> set vs. Atoi (TrimSpace v) \<noteq> None)"
  by (induction vs tags rule: vlanLoop.induct)
    (auto simp: minVLANIDValue_def maxVLANIDValue_def split: option.splits if_splits)

text \<open>
  An accepted VLAN bypass list is a sorted, duplicate-free, non-empty list of 802.1Q tags.
\<close>

theorem validateVLANBPFBypass_tags:
  assumes "validateVLANBPFBypass s = Inr tags"
  shows "sorted tags \<and> distinct tags \<and> tags \<noteq> [] \<and> (\<forall>t \<in> set tags. 0 \<le> t \<and> t \<le> 4094)"
proof -
  define vs where "vs = splitOn (CHR '','') (trimWhile (\<lambda>c. c = CHR ''{'' \<or> c = CHR ''}'') (TrimSpace s))"
  obtain ts where ts: "vlanLoop vs [] = Inr ts" "tags = sort ts"
    using assms by (auto simp: validateVLANBPFBypass_def Let_def vs_def split: sum.splits)
  have "vs \<noteq> []" by (simp add: vs_def)
  then obtain v where v: "v \<in> set vs" by (cases vs) auto
  have tags: "distinct ts" "\<forall>t \<in> set ts. 0 \<le> t \<and> t \<le> 4094"
    "set ts = {t. \<exists>v \<in> set vs. Atoi (TrimSpace v) = Some t}" "Atoi (TrimSpace v) \<noteq> None"
    using vlanLoop_tags [OF ts(1)] v by simp_all
  then have "ts \<noteq> []" using v by (cases "Atoi (TrimSpace v)") auto
  then show ?thesis using tags(1,2) ts(2) by (simp add: sort_nonempty)
qed

definition bpfBypass :: "(string \<times> hval) list \<Rightarrow> hval option" where
  "bpfBypass values = (case map_of values ''bpf'' of Some (HObject fs) \<Rightarrow> map_of fs ''vlanBypass'' | _ \<Rightarrow> None)"

text \<open>
  Outside strict confinement the VLAN bypass tags asked for by annotation are part of the values
  Cilium is deployed with; under strict confinement the \<open>bpf\<close> values are replaced by the mount settings
  and the tags are lost.
\<close>

theorem cilium_strict_drops_bypass:
  assumes "mountValues ce (networkValues config ip v4 v6 port) = Inr values"
  shows "bpfBypass values = (if CE_strict ce then None else map_option (\<lambda>tags. HArray (map HInt tags)) (vlanBPFBypass config))"
proof -
  have start: "map_of (networkValues config ip v4 v6 port) ''bpf'' =
      Some (HObject (case vlanBPFBypass config of None \<Rightarrow> [] | Some tags \<Rightarrow> [(''vlanBypass'', HArray (map HInt tags))]))"
    by (simp add: networkValues_def)
  show ?thesis
  proof (cases "CE_strict ce")
    case True
    then show ?thesis using assms
      by (auto simp: mountValues_def bpfBypass_def update_conv' split: sum.splits)
  next
    case False
    then have "values = networkValues config ip v4 v6 port"
      using assms by (auto simp: mountValues_def split: sum.splits if_splits)
    then show ?thesis using False by (simp add: bpfBypass_def start split: option.split)
  qed
qed

lemma distinct_optional: "distinct (xs @ ys @ zs) \<Longrightarrow> distinct (xs @ (if p then ys else []) @ (if q then zs else []))"
  by auto

lemma wfValue_network: "wfValue (HObject (networkValues config ip v4 v6 port))"
proof -
  have "map fst (networkValues config ip v4 v6 port) =
      [''bpf'', ''image'', ''socketLB'', ''cni'', ''sctp'', ''operator'', ''ipv4'', ''ipv6'', ''ipam'', ''envoy'', ''kubeProxyReplacement'',
       ''nodePort'', ''disableEnvoyVersionCheck'', ''k8sServiceHost'', ''k8sServicePort'', ''enableRuntimeDeviceDetection'',
       ''sessionAffinity'', ''loadBalancer'', ''tunnelPort'']
      @ (if v4 = [] \<and> v6 \<noteq> [] then [''routingMode'', ''ipv6NativeRoutingCIDR'', ''autoDirectNodeRoutes''] else [])
      @ (if devices config \<noteq> [] then [''devices''] else [])"
    by (simp add: networkValues_def)
  moreover have "distinct \<dots>" by (rule distinct_optional) simp
  moreover have "\<forall>f \<in> set (networkValues config ip v4 v6 port). wfValue (snd f)"
    by (simp add: networkValues_def digestImage_def ball_Un split: option.split) auto
  ultimately show ?thesis by simp
qed


section \<open>Instances\<close>

definition sampleCilium :: "bool \<Rightarrow> ciliumEnv" where
  "sampleCilium strict = \<lparr>CE_feat = sampleFeat, AnnotationDevices = ''d'', AnnotationDirectRoutingDevice = ''r'', AnnotationVLANBPFBypass = ''v'',
     AnnotationCNIExclusive = ''x'', AnnotationSCTPEnabled = ''s'', AnnotationTunnelPort = ''t'', CE_loopback = Inr (Inr [''127.0.0.1/8'']),
     CE_hostname = ''10.0.0.1'', CE_strict = strict, CE_mountsOfType = (\<lambda>t. Inr [''/m/'' @ t]), CE_mountsAt = (\<lambda>_. Inr [''shared:1'']),
     CE_ipOutput = Inr [], CE_parseLinks = (\<lambda>_. Inr []), CE_interfaceByName = Inr\<rparr>"

definition sampleCiliumConfig :: ciliumConfig where
  "sampleCiliumConfig = \<lparr>devices = [], directRoutingDevice = [], vlanBPFBypass = Some [5], cniExclusive = False, sctpEnabled = False, tunnelPort = 8472\<rparr>"

lemma sample_mountValues:
  "mountValues (sampleCilium True) vs =
     Inr (AList.update ''cgroup'' (HObject [(''autoMount'', enabledValue False), (''hostRoot'', HString ''/m/cgroup2'')])
       (AList.update ''bpf'' (HObject [(''autoMount'', enabledValue False), (''root'', HString ''/m/bpf'')]) vs))"
  by (simp add: mountValues_def GetMountPath_def sampleCilium_def)

theorem cilium_strict_drops_bypass_witness:
  "\<exists>values. mountValues (sampleCilium True) (networkValues sampleCiliumConfig [] ''10.1.0.0/16'' [] 6443) = Inr values \<and>
     bpfBypass values = None \<and> vlanBPFBypass sampleCiliumConfig = Some [5]"
  using cilium_strict_drops_bypass [OF sample_mountValues, of sampleCiliumConfig "[]" "''10.1.0.0/16''" "[]" 6443] sample_mountValues
  by (simp add: sampleCilium_def sampleCiliumConfig_def)

theorem validateVLANBPFBypass_tags_witness:
  "\<exists>tags. validateVLANBPFBypass ''{4094, 0,4094}'' = Inr tags \<and> sorted tags \<and> distinct tags \<and> tags \<noteq> [] \<and> (\<forall>t \<in> set tags. 0 \<le> t \<and> t \<le> 4094)"
proof -
  have "validateVLANBPFBypass ''{4094, 0,4094}'' = Inr [0, 4094]" by code_simp
  then show ?thesis using validateVLANBPFBypass_tags by blast
qed


end
