(* ===== verification/NodeSetup.thy ===== *)
theory NodeSetup
  imports NodeFiles ServiceSetup Helm
begin

text \<open>
  What a node prepares before its services start: the directories (\<open>pkg/k8sd/setup/directories.go\<close>),
  the container runtime (\<open>pkg/k8sd/setup/containerd.go\<close>) with the lock files that mark its
  directories as the snap's (\<open>pkg/snap/util/containerd.go\<close>) and their removal
  (\<open>pkg/snap/util/cleanup/internal/containerd_paths.go\<close>), the checks before a node is initialised
  (\<open>pkg/utils/checks\<close>, \<open>PreInitChecks\<close> of \<open>pkg/snap/snap.go\<close>) and the tuning of the kernel
  parameters (\<open>pkg/k8sd/app/system_tuning.go\<close>).

  A \<open>Machine\<close> is a host with its directories and symbolic links. As for files, the operating system
  may refuse an operation on a path (\<open>M_fault\<close>); \<open>os.RemoveAll\<close>, when it fails, may have removed a
  part of the tree (\<open>M_removeFault\<close> says what is kept). Paths are absolute and clean, and no
  directory on the way to a path is a link.
\<close>

section \<open>Directories and links\<close>

record DirNode =
  D_uid :: int
  D_gid :: int
  D_mode :: "32 word"

datatype dirOp =
    OpMkdir | OpDirStat | OpDirChown | OpDirChmod | OpProbeCreate | OpProbeClose | OpProbeRemove
  | OpReadlink | OpSymlink | OpUnlink

record Machine =
  M_host :: Host
  M_dirs :: "string \<rightharpoonup> DirNode"
  M_links :: "string \<rightharpoonup> string"
  M_fault :: "dirOp \<Rightarrow> string \<Rightarrow> error option"
  M_removeFault :: "string \<Rightarrow> (error \<times> (string \<Rightarrow> bool)) option"

definition onFiles :: "(Host \<Rightarrow> (Host, 'a) step) \<Rightarrow> Machine \<Rightarrow> (Machine, 'a) step" where
  "onFiles f m = (case f (M_host m) of (h, r) \<Rightarrow> (m\<lparr>M_host := h\<rparr>, r))"

definition setDir :: "string \<Rightarrow> DirNode option \<Rightarrow> Machine \<Rightarrow> Machine" where
  "setDir p d m = m\<lparr>M_dirs := (M_dirs m)(p := d)\<rparr>"

definition setLink :: "string \<Rightarrow> string option \<Rightarrow> Machine \<Rightarrow> Machine" where
  "setLink p t m = m\<lparr>M_links := (M_links m)(p := t)\<rparr>"

text \<open>Where a link leads; the kernel follows at most forty.\<close>

definition linkTarget :: "string \<Rightarrow> string \<Rightarrow> string" where
  "linkTarget p t =
     (if HasPrefix t ''/'' then t else pathJoin (rev (dropWhile (\<lambda>c. c \<noteq> CHR ''/'') (rev p))) t)"

fun followLinks :: "nat \<Rightarrow> (string \<rightharpoonup> string) \<Rightarrow> string \<Rightarrow> string option" where
  "followLinks 0 links p = None"
| "followLinks (Suc n) links p =
     (case links p of None \<Rightarrow> Some p | Some t \<Rightarrow> followLinks n links (linkTarget p t))"

text \<open>
  The result of \<open>os.Stat\<close> and \<open>syscall.Stat\<close>: they describe what a link leads to, so \<open>FI_link\<close>, the
  bit \<open>fs.ModeSymlink\<close>, is never set. \<open>FI_path\<close> is the path described.
\<close>

record FileInfo =
  FI_path :: string
  FI_dir :: bool
  FI_link :: bool
  FI_uid :: int
  FI_gid :: int
  FI_mode :: "32 word"

definition machineStat :: "Machine \<Rightarrow> string \<Rightarrow> FileInfo res" where
  "machineStat m p =
     (case M_fault m OpDirStat p of
        Some e \<Rightarrow> Inl e
      | None \<Rightarrow> (case followLinks 41 (M_links m) p of
        None \<Rightarrow> Inl (Errorf ''too many levels of symbolic links'' [])
      | Some q \<Rightarrow> (case M_dirs m q of
          Some d \<Rightarrow> Inr \<lparr>FI_path = q, FI_dir = True, FI_link = False, FI_uid = D_uid d, FI_gid = D_gid d, FI_mode = D_mode d\<rparr>
        | None \<Rightarrow> (case H_files (M_host m) q of
            Some n \<Rightarrow> Inr \<lparr>FI_path = q, FI_dir = False, FI_link = False, FI_uid = F_uid n, FI_gid = F_gid n, FI_mode = F_mode n\<rparr>
          | None \<Rightarrow> Inl ErrNotExist))))"

text \<open>\<open>os.Chown\<close> and \<open>os.Chmod\<close> on a directory or on the file a path leads to.\<close>

definition chownPath :: "string \<Rightarrow> int \<Rightarrow> int \<Rightarrow> Machine \<Rightarrow> (Machine, unit) step" where
  "chownPath p uid gid m =
     (case M_fault m OpDirChown p of
        Some e \<Rightarrow> (m, Inl e)
      | None \<Rightarrow> tryPass (m, machineStat m p) (\<lambda>m fi.
          case M_dirs m (FI_path fi) of
            Some d \<Rightarrow> (setDir (FI_path fi) (Some (d\<lparr>D_uid := uid, D_gid := gid\<rparr>)) m, ok)
          | None \<Rightarrow> onFiles (\<lambda>h. osChown h (FI_path fi) uid gid) m))"

definition chmodPath :: "string \<Rightarrow> 32 word \<Rightarrow> Machine \<Rightarrow> (Machine, unit) step" where
  "chmodPath p mode m =
     (case M_fault m OpDirChmod p of
        Some e \<Rightarrow> (m, Inl e)
      | None \<Rightarrow> tryPass (m, machineStat m p) (\<lambda>m fi.
          case M_dirs m (FI_path fi) of
            Some d \<Rightarrow> (setDir (FI_path fi) (Some (d\<lparr>D_mode := mode\<rparr>)) m, ok)
          | None \<Rightarrow> onFiles (\<lambda>h. osChmod h (FI_path fi) mode) m))"

text \<open>\<open>os.MkdirAll\<close>: the missing directories on the way are made, the topmost first.\<close>

definition notADirectory :: error where "notADirectory = Errorf ''not a directory'' []"

definition ancestors :: "string \<Rightarrow> string list" where
  "ancestors p = map (\<lambda>i. take i p) (filter (\<lambda>i. i = length p \<or> p ! i = CHR ''/'') [1..<Suc (length p)])"

definition osMkdir :: "32 word \<Rightarrow> string \<Rightarrow> Machine \<Rightarrow> (Machine, unit) step" where
  "osMkdir perm p m =
     (if M_dirs m p \<noteq> None then (m, ok)
      else if H_files (M_host m) p \<noteq> None then (m, Inl notADirectory)
      else (case M_fault m OpMkdir p of
              Some e \<Rightarrow> (m, Inl e)
            | None \<Rightarrow> (setDir p (Some \<lparr>D_uid = H_uid (M_host m), D_gid = H_gid (M_host m), D_mode = perm\<rparr>) m, ok)))"

definition MkdirAll :: "32 word \<Rightarrow> string \<Rightarrow> Machine \<Rightarrow> (Machine, unit) step" where
  "MkdirAll perm p m =
     (case machineStat m p of
        Inr fi \<Rightarrow> (m, if FI_dir fi then ok else Inl notADirectory)
      | Inl _ \<Rightarrow> forEach (osMkdir perm) (ancestors p) m)"

text \<open>\<open>os.RemoveAll\<close>: the path and everything below it. A link is removed itself, not followed.\<close>

definition below :: "string \<Rightarrow> string \<Rightarrow> bool" where
  "below p q \<longleftrightarrow> q = p \<or> HasPrefix q (p @ ''/'')"

definition removePaths :: "(string \<Rightarrow> bool) \<Rightarrow> Machine \<Rightarrow> Machine" where
  "removePaths gone m = m
     \<lparr>M_host := (M_host m)\<lparr>H_files := (\<lambda>q. if gone q then None else H_files (M_host m) q)\<rparr>,
      M_dirs := (\<lambda>q. if gone q then None else M_dirs m q),
      M_links := (\<lambda>q. if gone q then None else M_links m q)\<rparr>"

definition RemoveAll :: "string \<Rightarrow> Machine \<Rightarrow> (Machine, unit) step" where
  "RemoveAll p m =
     (case M_removeFault m p of
        None \<Rightarrow> (removePaths (below p) m, ok)
      | Some (e, kept) \<Rightarrow> (removePaths (\<lambda>q. below p q \<and> \<not> kept q) m, Inl e))"

text \<open>\<open>os.Remove\<close>, \<open>os.Readlink\<close> and \<open>os.Symlink\<close>.\<close>

definition hasEntries :: "Machine \<Rightarrow> string \<Rightarrow> bool" where
  "hasEntries m p \<longleftrightarrow>
     (\<exists>q. HasPrefix q (p @ ''/'') \<and> (M_dirs m q \<noteq> None \<or> M_links m q \<noteq> None \<or> H_files (M_host m) q \<noteq> None))"

definition removePath :: "string \<Rightarrow> Machine \<Rightarrow> (Machine, unit) step" where
  "removePath p m =
     (case M_fault m OpUnlink p of
        Some e \<Rightarrow> (m, Inl e)
      | None \<Rightarrow>
          if M_links m p \<noteq> None then (setLink p None m, ok)
          else if M_dirs m p \<noteq> None then
            (if hasEntries m p then (m, Inl (Errorf ''directory not empty'' [])) else (setDir p None m, ok))
          else onFiles (\<lambda>h. osRemove h p) m)"

definition readLink :: "Machine \<Rightarrow> string \<Rightarrow> string res" where
  "readLink m p =
     (case M_fault m OpReadlink p of
        Some e \<Rightarrow> Inl e
      | None \<Rightarrow> (case M_links m p of Some t \<Rightarrow> Inr t | None \<Rightarrow> Inl (Errorf ''invalid argument'' [])))"

definition symLink :: "string \<Rightarrow> string \<Rightarrow> Machine \<Rightarrow> (Machine, unit) step" where
  "symLink target p m =
     (case M_fault m OpSymlink p of
        Some e \<Rightarrow> (m, Inl e)
      | None \<Rightarrow>
          if M_links m p \<noteq> None \<or> M_dirs m p \<noteq> None \<or> H_files (M_host m) p \<noteq> None
          then (m, Inl (Errorf ''file exists'' []))
          else (setLink p (Some target) m, ok))"

section \<open>Paths of the snap\<close>

definition CNIConfDir :: string where "CNIConfDir = ''/etc/cni/net.d''"

definition SystemTuningConfigDir :: string where "SystemTuningConfigDir = ''/etc/sysctl.d''"

definition SystemConfigDirs :: "string list" where
  "SystemConfigDirs =
     [''/etc/sysctl.d'', ''/run/sysctl.d'', ''/usr/local/lib/sysctl.d'', ''/usr/lib/sysctl.d'', ''/lib/sysctl.d'',
      ''/etc/sysctl.conf'']"

definition SystemMinConfig :: "string gomap" where
  "SystemMinConfig =
     [(''fs.inotify.max_user_instances'', ''1024''), (''fs.inotify.max_user_watches'', ''1048576'')]"

definition CNIPluginsBinary :: "Snap \<Rightarrow> string" where
  "CNIPluginsBinary s = filepathJoin [snapDir s, ''bin'', ''cni'']"

definition CNIPlugins :: "string list" where
  "CNIPlugins =
     [''dhcp'', ''host-local'', ''static'', ''bridge'', ''host-device'', ''ipvlan'', ''loopback'', ''macvlan'', ''ptp'',
      ''vlan'', ''bandwidth'', ''firewall'', ''portmap'', ''sbr'', ''tuning'', ''vrf'']"

definition ContainerdExtraConfigDir :: "Snap \<Rightarrow> string" where
  "ContainerdExtraConfigDir s = filepathJoin [containerdBaseDir s, ''etc'', ''containerd'', ''conf.d'']"

definition ContainerdRegistryConfigDir :: "Snap \<Rightarrow> string" where
  "ContainerdRegistryConfigDir s = filepathJoin [containerdBaseDir s, ''etc'', ''containerd'', ''hosts.d'']"

definition PostRefreshLockPath :: "Snap \<Rightarrow> string" where
  "PostRefreshLockPath s = pathJoin (LockFilesDir s) ''post-refresh''"

text \<open>\<open>confinement\<close> reads that key of a YAML document.\<close>

definition Strict :: "(string \<Rightarrow> string res) \<Rightarrow> Snap \<Rightarrow> Host \<Rightarrow> bool" where
  "Strict confinement s h =
     (case ReadFile h (filepathJoin [snapDir s, ''meta'', ''snap.yaml'']) of
        Inl _ \<Rightarrow> False
      | Inr contents \<Rightarrow> (case confinement contents of Inl _ \<Rightarrow> False | Inr c \<Rightarrow> c = ''strict''))"

section \<open>Required directories\<close>

text \<open>
  \<open>ensureCniBinDir\<close>; \<open>tmp\<close> is the name \<open>os.CreateTemp\<close> picks. The mode given to \<open>os.Chmod\<close> comes from
  the raw bits of \<open>stat\<close>, of which Go keeps the nine permission bits.
\<close>

definition probeDir :: "string \<Rightarrow> string \<Rightarrow> Machine \<Rightarrow> (Machine, unit) step" where
  "probeDir tmp dir m =
     (let f = pathJoin dir tmp in
      case M_fault m OpProbeCreate dir of
        Some e \<Rightarrow> (m, Inl (Wrapf ''failed create file in %q: %w'' [dir] e))
      | None \<Rightarrow>
          let m = m\<lparr>M_host := setFile f (Some (newNode (M_host m) [] perm600)) (M_host m)\<rparr> in
          (case M_fault m OpProbeClose dir of
             Some e \<Rightarrow> (m, Inl (Wrapf ''failed close file in %q: %w'' [dir] e))
           | None \<Rightarrow>
               (case M_fault m OpProbeRemove dir of
                  Some e \<Rightarrow> (m, Inl (Wrapf ''failed delete file in %q: %w'' [dir] e))
                | None \<Rightarrow> (m\<lparr>M_host := setFile f None (M_host m)\<rparr>, ok))))"

definition ensureCniBinDirStat :: "string \<Rightarrow> Machine \<Rightarrow> (Machine, FileInfo) step" where
  "ensureCniBinDirStat dir m =
     (case machineStat m dir of
        Inr fi \<Rightarrow> (m, Inr fi)
      | Inl e \<Rightarrow>
          if \<not> IsNotExist e then (m, Inl (Wrapf ''failed to syscall.Stat(%q): %w'' [dir] e))
          else tryStep (MkdirAll perm700 dir m) ''failed to os.MkdirAll(%s): %w'' [dir] (\<lambda>m _.
               tryStep (m, machineStat m dir) ''failed to syscall.Stat(%q) newly-created cni bin dir: %w'' [dir]
                 (\<lambda>m fi. (m, Inr fi))))"

definition ensureCniBinDir :: "string \<Rightarrow> string \<Rightarrow> Machine \<Rightarrow> (Machine, unit) step" where
  "ensureCniBinDir tmp dir m =
     (if dir = [] then (m, ok)
      else tryPass (ensureCniBinDirStat dir m) (\<lambda>m stat.
        tryStep (if FI_uid stat \<noteq> 0 \<or> FI_gid stat \<noteq> 0 then chownPath dir 0 0 m else (m, ok))
          ''failed to os.Chown(%q, 0, 0): %w'' [dir] (\<lambda>m _.
        tryStep (if and (FI_mode stat) perm700 \<noteq> perm700 then chmodPath dir (and (or (FI_mode stat) perm700) 0x1FF) m else (m, ok))
          ''failed to os.Chmod(%q, %o): %w'' [dir] (\<lambda>m _.
        probeDir tmp dir m))))"

definition makeDirectories :: "string list \<Rightarrow> Machine \<Rightarrow> (Machine, unit) step" where
  "makeDirectories dirs m =
     forEach (\<lambda>dir m. if dir = [] then (m, ok)
                else tryStep (MkdirAll perm700 dir m) ''failed to create required directory: %w'' [] (\<lambda>m _. (m, ok)))
       dirs m"

definition EnsureAllDirectories :: "string \<Rightarrow> Snap \<Rightarrow> Machine \<Rightarrow> (Machine, unit) step" where
  "EnsureAllDirectories tmp s m =
     tryPass (ensureCniBinDir tmp CNIBinDir m) (\<lambda>m _.
     makeDirectories
       [SystemTuningConfigDir, CNIConfDir, EtcdDir s, KubernetesConfigDir, snapKubernetesPKIDir, snapEtcdPKIDir,
        LockFilesDir s, ServiceArgumentsDir s, ServiceExtraConfigDir s] m)"

section \<open>The container runtime\<close>

definition defaultPauseImage :: string where
  "defaultPauseImage = ''ghcr.io/canonical/k8s-snap/pause:3.10''"

definition defaultContainerdConfig :: "string \<Rightarrow> string \<Rightarrow> string \<Rightarrow> string \<Rightarrow> string \<Rightarrow> hval" where
  "defaultContainerdConfig cniConfDir cniBinDir importsDir registryConfigDir pauseImage = HObject
     [(''version'', HInt 2), (''oom_score'', HInt 0),
      (''imports'', HArray [HString (pathJoin importsDir ''*.toml'')]),
      (''grpc'', HObject [(''uid'', HInt 0), (''gid'', HInt 0),
         (''max_recv_message_size'', HInt 16777216), (''max_send_message_size'', HInt 16777216)]),
      (''debug'', HObject [(''uid'', HInt 0), (''gid'', HInt 0), (''address'', HString []), (''level'', HString [])]),
      (''metrics'', HObject [(''address'', HString []), (''grpc_histogram'', HBool False)]),
      (''cgroup'', HObject [(''path'', HString [])]),
      (''plugins'', HObject [(''io.containerd.grpc.v1.cri'', HObject
         [(''stream_server_address'', HString ''127.0.0.1''), (''stream_server_port'', HString ''0''),
          (''enable_selinux'', HBool False), (''sandbox_image'', HString pauseImage),
          (''stats_collect_period'', HInt 10), (''enable_tls_streaming'', HBool False),
          (''max_container_log_line_size'', HInt 16384),
          (''containerd'', HObject
             [(''no_pivot'', HBool False), (''default_runtime_name'', HString ''runc''),
              (''runtimes'', HObject [(''runc'', HObject
                 [(''runtime_type'', HString ''io.containerd.runc.v2''),
                  (''options'', HObject [(''SystemdCgroup'', HBool True)])])])]),
          (''cni'', HObject [(''bin_dir'', HString cniBinDir), (''conf_dir'', HString cniConfDir)]),
          (''registry'', HObject [(''config_path'', HString registryConfigDir)])])])]"

text \<open>
  The libraries: \<open>mergo.Merge\<close> with its options, \<open>toml.Marshal\<close>, and the order in which \<open>range\<close> visits
  the map of lock files.
\<close>

record containerdLib =
  mergoMerge :: "hval \<Rightarrow> hval \<Rightarrow> hval res"
  tomlMarshal :: "hval \<Rightarrow> string res"
  lockOrder :: "string gomap \<Rightarrow> string gomap"

definition ContainerdLockPathsForSnap :: "Snap \<Rightarrow> string gomap" where
  "ContainerdLockPathsForSnap s =
     map (\<lambda>(k, v). (pathJoin (LockFilesDir s) k, v))
       [(''containerd-socket-path'', ContainerdSocketDir s), (''containerd-config-dir'', ContainerdConfigDir s),
        (''containerd-root-dir'', ContainerdRootDir s), (''containerd-cni-bin-dir'', CNIBinDir)]"

definition saveSnapContainerdPaths :: "containerdLib \<Rightarrow> Snap \<Rightarrow> Machine \<Rightarrow> (Machine, unit) step" where
  "saveSnapContainerdPaths lib s m =
     tryPass (forEach (\<lambda>(lockpath, dirpath) m.
         tryStep (onFiles (\<lambda>h. WriteFile h lockpath dirpath perm600) m) ''failed to write %s: %w'' [lockpath] (\<lambda>m _. (m, ok)))
       (lockOrder lib (ContainerdLockPathsForSnap s)) m) (\<lambda>m _.
     let baseDirPath = pathJoin (LockFilesDir s) ''.containerd-base-dir'' in
     tryStep (onFiles (\<lambda>h. WriteFile h baseDirPath (containerdBaseDir s) perm600) m) ''failed to write %s: %w'' [baseDirPath]
       (\<lambda>m _. (m, ok)))"

definition installPlugin :: "string \<Rightarrow> Machine \<Rightarrow> (Machine, unit) step" where
  "installPlugin plugin m =
     (let p = pathJoin CNIBinDir plugin;
          link = (\<lambda>m. tryStep (symLink ''cni'' p m) ''failed to symlink cni plugin %s: %w'' [plugin] (\<lambda>m _. (m, ok)))
      in case machineStat m p of
           Inl _ \<Rightarrow> link m
         | Inr _ \<Rightarrow>
             if readLink m p = Inr ''cni'' then (m, ok)
             else tryStep (removePath p m) ''failed to remove already existing file %s: %w'' [p] (\<lambda>m _. link m))"

definition installCNI :: "Snap \<Rightarrow> Machine \<Rightarrow> (Machine, unit) step" where
  "installCNI s m =
     (let cniBinary = pathJoin CNIBinDir ''cni'' in
      tryStep (onFiles (\<lambda>h. CopyFile h (CNIPluginsBinary s) cniBinary) m) ''failed to copy cni plugin binary: %w'' [] (\<lambda>m _.
      tryStep (onFiles (\<lambda>h. osChmod h cniBinary perm700) m) ''failed to chmod cni plugin binary: %w'' [] (\<lambda>m _.
      tryStep (onFiles (\<lambda>h. osChown h cniBinary snapUID snapGID) m) ''failed to chown cni plugin binary: %w'' [] (\<lambda>m _.
      forEach installPlugin CNIPlugins m))))"

definition containerdArgs :: "Snap \<Rightarrow> string gomap" where
  "containerdArgs s =
     [(''--address'', ContainerdSocketPath s), (''--config'', pathJoin (ContainerdConfigDir s) ''config.toml''),
      (''--root'', ContainerdRootDir s), (''--state'', ContainerdStateDir s)]"

definition writeContainerdConfig :: "containerdLib \<Rightarrow> Snap \<Rightarrow> hval \<Rightarrow> Machine \<Rightarrow> (Machine, unit) step" where
  "writeContainerdConfig lib s extraConfig m =
     (let configToml = defaultContainerdConfig CNIConfDir CNIBinDir (ContainerdExtraConfigDir s)
            (ContainerdRegistryConfigDir s) defaultPauseImage
      in tryStep (m, mergoMerge lib configToml extraConfig) ''failed to merge containerd config.toml overrides: %w'' [] (\<lambda>m configToml.
         tryStep (m, tomlMarshal lib configToml) ''failed to render containerd config.toml: %w'' [] (\<lambda>m b.
         tryStep (onFiles (\<lambda>h. WriteFile h (pathJoin (ContainerdConfigDir s) ''config.toml'') b perm600) m)
           ''failed to write config.toml: %w'' [] (\<lambda>m _. (m, ok)))))"

definition Containerd :: "containerdLib \<Rightarrow> Snap \<Rightarrow> hval \<Rightarrow> string ptr gomap \<Rightarrow> Machine \<Rightarrow> (Machine, unit) step" where
  "Containerd lib s extraConfig extraArgs m =
     tryPass (makeDirectories [ContainerdConfigDir s, ContainerdExtraConfigDir s, ContainerdRegistryConfigDir s] m) (\<lambda>m _.
     tryPass (writeContainerdConfig lib s extraConfig m) (\<lambda>m _.
     tryPass (onFiles (applyServiceArgs s ''containerd'' (containerdArgs s) [] extraArgs
         ''failed to write arguments file: %w'' ''failed to write arguments file: %w'') m) (\<lambda>m _.
     tryPass (installCNI s m) (\<lambda>m _.
     saveSnapContainerdPaths lib s m))))"

section \<open>Directories of the container runtime\<close>

text \<open>
  \<open>ForEachContainerdPath\<close> runs a callback on every directory whose lock file holds its path; other
  directories are skipped and the errors of the callback are logged only. The state of the callback is
  \<open>'s\<close>, of which \<open>mach\<close> is the machine.
\<close>

definition lockHolds :: "Machine \<Rightarrow> string \<Rightarrow> string \<Rightarrow> unit res" where
  "lockHolds m lockpath dirpath =
     (if machineStat m lockpath = Inl ErrNotExist
      then Inl (Errorf ''failed to find containerd lockfile %q for directory %q'' [lockpath, dirpath])
      else (case ReadFile (M_host m) lockpath of
              Inl e \<Rightarrow> Inl (Wrapf ''failed to read contents of lockfile %q: %w'' [lockpath] e)
            | Inr contents \<Rightarrow>
                if contents \<noteq> dirpath
                then Inl (Errorf ''lockfile %q points to different path than expected: %q != %q'' [lockpath, dirpath, contents])
                else ok))"

fun containerdPathLoop ::
  "('s \<Rightarrow> Machine) \<Rightarrow> (string \<Rightarrow> string \<Rightarrow> 's \<Rightarrow> ('s, unit) step) \<Rightarrow> string gomap \<Rightarrow> 's \<Rightarrow> 's"
where
  "containerdPathLoop mach callback [] st = st"
| "containerdPathLoop mach callback ((lockpath, dirpath) # paths) st =
     containerdPathLoop mach callback paths
       (if is_ok (lockHolds (mach st) lockpath dirpath) then fst (callback lockpath dirpath st) else st)"

definition ForEachContainerdPath ::
  "containerdLib \<Rightarrow> Snap \<Rightarrow> ('s \<Rightarrow> Machine) \<Rightarrow> (string \<Rightarrow> string \<Rightarrow> 's \<Rightarrow> ('s, unit) step) \<Rightarrow> 's \<Rightarrow> 's"
where
  "ForEachContainerdPath lib s mach callback st =
     containerdPathLoop mach callback (lockOrder lib (ContainerdLockPathsForSnap s)) st"

definition IsContainerdPathManaged :: "containerdLib \<Rightarrow> Snap \<Rightarrow> string \<Rightarrow> Machine \<Rightarrow> bool" where
  "IsContainerdPathManaged lib s hee m =
     snd (ForEachContainerdPath lib s fst
            (\<lambda>_ dirpath (m, isManaged). ((m, isManaged \<or> dirpath = hee), ok)) (m, False))"

text \<open>
  \<open>TryCleanupContainerdPaths\<close>. The target of a link is read only when \<open>os.Stat\<close> reports a link, which
  it never does.
\<close>

definition cleanupContainerdPath :: "string \<Rightarrow> string \<Rightarrow> Machine \<Rightarrow> (Machine, unit) step" where
  "cleanupContainerdPath lockpath dirpath m =
     (case machineStat m dirpath of
        Inl e \<Rightarrow>
          (m, Inl (if IsNotExist e then Errorf ''containerd data directory %q does not exist'' [dirpath]
                   else Wrapf ''failed to stat containerd data directory %q: %w'' [dirpath] e))
      | Inr stat \<Rightarrow>
          tryStep (m, if FI_link stat then readLink m dirpath else Inr dirpath)
            ''failed to read link for directory %q: %w'' [dirpath] (\<lambda>m realPath.
          if realPath = ''/'' then
            (m, Inl (Errorf ''there is some configuration/logic error related to lockfile %q (meant to lock %q, which points to %q)''
               [lockpath, dirpath, realPath]))
          else tryStep (RemoveAll dirpath m) ''failed to remove containerd data directory %q: %w'' [dirpath] (\<lambda>m _.
               tryStep (removePath lockpath m) ''failed to remove containerd lockfile %q: %w'' [lockpath] (\<lambda>m _. (m, ok)))))"

definition TryCleanupContainerdPaths :: "containerdLib \<Rightarrow> Snap \<Rightarrow> Machine \<Rightarrow> Machine" where
  "TryCleanupContainerdPaths lib s m = ForEachContainerdPath lib s (\<lambda>m. m) cleanupContainerdPath m"

section \<open>Checks before a node is initialised\<close>

definition errorsJoin :: "error list \<Rightarrow> unit res" where
  "errorsJoin es = (if es = [] then ok else Inl (Join es))"

text \<open>The map of ports, and the errors met while building it.\<close>

definition addPort :: "string \<Rightarrow> string res \<Rightarrow> error list \<times> string gomap \<Rightarrow> error list \<times> string gomap" where
  "addPort name port = (\<lambda>(errs, ports).
     case port of Inl e \<Rightarrow> (errs @ [e], ports) | Inr p \<Rightarrow> (errs, AList.update name p ports))"

definition servicePorts :: "ClusterConfig \<Rightarrow> K8sServiceConfigs \<Rightarrow> bool \<Rightarrow> error list \<times> string gomap" where
  "servicePorts config sc isControlPlane =
     (let base = [(''kubelet'', GetKubeletPort sc), (''kubelet-healthz'', GetKubeletHealthzPort sc),
                  (''kubelet-read-only'', GetKubeletReadOnlyPort sc),
                  (''loadbalancer'', Itoa (getInt (LoadBalancer_BGPPeerPort (CC_LoadBalancer config))))];
          acc = addPort ''kube-proxy-healhz'' (GetKubeProxyHealthzPort sc) ([], base);
          acc = addPort ''kube-proxy-metrics'' (GetKubeProxyMetricsPort sc) acc;
          securePort = Itoa (getInt (APIServer_SecurePort (CC_APIServer config)))
      in if isControlPlane then
           (let acc = addPort ''kube-apiserver'' (Inr securePort) acc;
                acc = addPort ''kube-scheduler'' (Inr (GetKubeSchedulerPort sc)) acc;
                acc = addPort ''kube-controller-manager'' (Inr (GetKubeControllerManagerPort sc)) acc
            in if getStr (Datastore_Type (CC_Datastore config)) = ''etcd'' then
                 addPort ''etcd-peer'' (Inr (Itoa (getInt (Datastore_EtcdPeerPort (CC_Datastore config)))))
                   (addPort ''etcd'' (Inr (Itoa (getInt (Datastore_EtcdPort (CC_Datastore config))))) acc)
               else acc)
         else addPort ''kube-apiserver-proxy'' (Inr securePort) acc)"

text \<open>\<open>isLocalPortOpen\<close> is \<open>utils.IsLocalPortOpen\<close>; the map of ports is visited in the order \<open>order\<close>.\<close>

definition portProblem :: "(string \<Rightarrow> bool res) \<Rightarrow> string \<times> string \<Rightarrow> error option" where
  "portProblem isLocalPortOpen = (\<lambda>(service, port).
     if port = ''0'' then None
     else (case isLocalPortOpen port of
             Inl e \<Rightarrow> Some (Wrapf ''could not check port %s (needed by: %s): %w'' [port, service] e)
           | Inr opened \<Rightarrow>
               if opened then None else Some (Errorf ''port %s (needed by: %s) is already in use'' [port, service])))"

definition CheckK8sServicePorts ::
  "(string gomap \<Rightarrow> string gomap) \<Rightarrow> (string \<Rightarrow> bool res) \<Rightarrow> ClusterConfig \<Rightarrow> K8sServiceConfigs \<Rightarrow> bool \<Rightarrow> unit res"
where
  "CheckK8sServicePorts order isLocalPortOpen config sc isControlPlane =
     (case servicePorts config sc isControlPlane of (errs, ports) \<Rightarrow>
        errorsJoin (errs @ List.map_filter (portProblem isLocalPortOpen) (order ports)))"

definition checkedBinaries :: "string list" where
  "checkedBinaries = [''kube-apiserver'', ''kube-controller-manager'', ''kube-scheduler'', ''kube-proxy'', ''kubelet'']"

definition PreInitChecks ::
  "(string gomap \<Rightarrow> string gomap) \<Rightarrow> (string \<Rightarrow> bool res) \<Rightarrow> Snap \<Rightarrow> ClusterConfig \<Rightarrow> K8sServiceConfigs \<Rightarrow> bool \<Rightarrow> Machine \<Rightarrow> (Machine, unit) step"
where
  "PreInitChecks order isLocalPortOpen s config sc isControlPlane m =
     tryStep (m, CheckK8sServicePorts order isLocalPortOpen config sc isControlPlane)
       ''Encountered error(s) while verifying port availability for Kubernetes services: %w'' [] (\<lambda>m _.
     tryPass (forEach (\<lambda>binary m.
         tryStep (onFiles (\<lambda>h. runCommand h [filepathJoin [snapDir s, ''bin'', binary], ''--version'']) m)
           ''%q binary could not run: %w'' [binary] (\<lambda>m _. (m, ok))) checkedBinaries m) (\<lambda>m _.
     case machineStat m (ContainerdSocketDir s) of
       Inr _ \<Rightarrow> (m, Inl (Errorf ''The path '%s' required for the containerd socket already exists'' [ContainerdSocketDir s, ContainerdSocketDir s]))
     | Inl e \<Rightarrow>
         if \<not> IsNotExist e then (m, Inl (Wrapf ''Encountered an error while checking '%s': %w'' [ContainerdSocketDir s] e))
         else (m, ok)))"

section \<open>Kernel parameters\<close>

text \<open>
  The regular expressions \<open>^(\d+)-k8s.conf$\<close>, in which the dot stands for any character, and
  \<open>^(\d+)-.*\.conf$\<close>. \<open>readDir\<close> is \<open>os.ReadDir\<close>.
\<close>

definition reK8sConfFile :: "string \<Rightarrow> bool" where
  "reK8sConfFile name \<longleftrightarrow>
     (let rest = dropWhile isDigit name in
      takeWhile isDigit name \<noteq> [] \<and> length rest = 9 \<and> take 4 rest = ''-k8s'' \<and> rest ! 4 \<noteq> newline \<and> drop 5 rest = ''conf'')"

definition reConfFiles :: "string \<Rightarrow> string option" where
  "reConfFiles name =
     (let rest = dropWhile isDigit name in
      if takeWhile isDigit name \<noteq> [] \<and> 6 \<le> length rest \<and> HasPrefix rest ''-'' \<and> HasSuffix rest ''.conf'' \<and> newline \<notin> set rest
      then Some (takeWhile isDigit name) else None)"

definition GetFileMatches :: "(string \<Rightarrow> (string \<times> bool) list res) \<Rightarrow> string \<Rightarrow> (string \<Rightarrow> bool) \<Rightarrow> string list res" where
  "GetFileMatches readDir path re =
     (case readDir path of
        Inl e \<Rightarrow> Inl e
      | Inr entries \<Rightarrow> Inr (map fst (filter (\<lambda>(name, isDir). \<not> isDir \<and> re name) entries)))"

fun highestOrderLoop :: "(string \<times> bool) list \<Rightarrow> int \<Rightarrow> int" where
  "highestOrderLoop [] maxOrder = maxOrder"
| "highestOrderLoop ((name, isDir) # es) maxOrder =
     (if isDir then highestOrderLoop es maxOrder
      else (case reConfFiles name of
              None \<Rightarrow> highestOrderLoop es maxOrder
            | Some numStr \<Rightarrow>
                (case Atoi numStr of
                   None \<Rightarrow> highestOrderLoop es maxOrder
                 | Some num \<Rightarrow> highestOrderLoop es (if num > maxOrder then num else maxOrder))))"

definition GetHighestConfigFileOrder :: "(string \<Rightarrow> (string \<times> bool) list res) \<Rightarrow> string \<Rightarrow> int res" where
  "GetHighestConfigFileOrder readDir path =
     (case readDir path of Inl e \<Rightarrow> Inl e | Inr entries \<Rightarrow> Inr (highestOrderLoop entries 0))"

definition systemConfFileHeader :: string where
  "systemConfFileHeader =
     ''# AUTOGENERATED - DO NOT EDIT'' @ [newline] @ ''# Generated by the k8s snap for system tuning.'' @ [newline]
     @ ''# Delete this file to disable auto-tuning.'' @ [newline]
     @ ''# Overrides defaults via 'sysctl --system' on k8sd service start.'' @ [newline]"

text \<open>An \<open>int\<close> has 64 bits: the order after the highest one wraps around.\<close>

definition nextOrder :: "int \<Rightarrow> int" where
  "nextOrder maxOrder = sint (word_of_int (maxOrder + 1) :: 64 word)"

definition ensureSystemTuningConfigFile :: "(Host \<Rightarrow> string \<Rightarrow> (string \<times> bool) list res) \<Rightarrow> Host \<Rightarrow> (Host, unit) step" where
  "ensureSystemTuningConfigFile readDir h =
     tryPass (h, GetFileMatches (readDir h) SystemTuningConfigDir reK8sConfFile) (\<lambda>h confPath.
     if confPath \<noteq> [] then (h, ok)
     else tryPass (h, GetHighestConfigFileOrder (readDir h) SystemTuningConfigDir) (\<lambda>h maxOrder.
       WriteFile h (pathJoin SystemTuningConfigDir (Itoa (nextOrder maxOrder) @ ''-k8s.conf'')) systemConfFileHeader perm600))"

definition tuneSystemSettings :: "(Host \<Rightarrow> string \<Rightarrow> (string \<times> bool) list res) \<Rightarrow> Host \<Rightarrow> (Host, unit) step" where
  "tuneSystemSettings readDir h =
     (case GetFileMatches (readDir h) SystemTuningConfigDir reK8sConfFile of
        Inl _ \<Rightarrow> (h, ok)
      | Inr [] \<Rightarrow> (h, ok)
      | Inr (conf # _) \<Rightarrow>
          (let confFile = pathJoin SystemTuningConfigDir conf;
               newConfig = MinConfigFileDiff (readDir h) h SystemConfigDirs SystemMinConfig confFile
           in if newConfig = [] then (h, ok)
              else (let h = fst (SerializeArgumentFile newConfig confFile systemConfFileHeader h) in
                    tryStep (runCommand h [''sysctl'', ''--system'']) ''failed to apply system parameters: %w'' []
                      (\<lambda>h _. (h, ok)))))"

section \<open>What a clean-up removes\<close>

text \<open>
  \<open>shrinks P m m'\<close>: between the two states paths were only removed, and only paths in \<open>P\<close>.
\<close>

definition pathAt :: "Machine \<Rightarrow> string \<Rightarrow> DirNode option \<times> string option \<times> FileNode option" where
  "pathAt m q = (M_dirs m q, M_links m q, H_files (M_host m) q)"

definition shrinks :: "(string \<Rightarrow> bool) \<Rightarrow> Machine \<Rightarrow> Machine \<Rightarrow> bool" where
  "shrinks P m m' \<longleftrightarrow>
     (\<forall>q. \<not> P q \<longrightarrow> pathAt m' q = pathAt m q) \<and>
     (\<forall>q. H_files (M_host m') q = None \<or> H_files (M_host m') q = H_files (M_host m) q) \<and>
     (\<forall>q. M_dirs m' q = None \<or> M_dirs m' q = M_dirs m q) \<and>
     (\<forall>q. M_links m' q = None \<or> M_links m' q = M_links m q) \<and>
     Host.H_fault (M_host m') = Host.H_fault (M_host m)"

lemma shrinks_refl [simp]: "shrinks P m m"
  by (simp add: shrinks_def)

lemma shrinks_trans: "shrinks P m m1 \<Longrightarrow> shrinks P m1 m2 \<Longrightarrow> shrinks P m m2"
  unfolding shrinks_def by metis

lemma shrinks_mono: "shrinks P m m' \<Longrightarrow> (\<And>q. P q \<Longrightarrow> Q q) \<Longrightarrow> shrinks Q m m'"
  unfolding shrinks_def by blast

lemma ReadFile_shrinks: "shrinks P m m' \<Longrightarrow> ReadFile (M_host m') p = Inr d \<Longrightarrow> ReadFile (M_host m) p = Inr d"
  unfolding shrinks_def ReadFile_def by (auto split: option.splits) (metis option.distinct(1) option.inject)+

lemma removePath_shrinks: "shrinks (\<lambda>q. q = p) m (fst (removePath p m))"
  by (auto simp: removePath_def shrinks_def pathAt_def setLink_def setDir_def onFiles_def osRemove_def split: option.split)

lemma RemoveAll_shrinks: "shrinks (below p) m (fst (RemoveAll p m))"
  by (auto simp: RemoveAll_def shrinks_def pathAt_def removePaths_def split: option.split)

lemma cleanupContainerdPath_shrinks:
  "shrinks (\<lambda>q. below dirpath q \<or> q = lockpath) m (fst (cleanupContainerdPath lockpath dirpath m))"
proof -
  let ?P = "\<lambda>q. below dirpath q \<or> q = lockpath"
  obtain m1 r1 where r: "RemoveAll dirpath m = (m1, r1)" by (cases "RemoveAll dirpath m")
  have 1: "shrinks ?P m m1" using RemoveAll_shrinks [of dirpath m] r by (auto elim: shrinks_mono)
  obtain m2 r2 where l: "removePath lockpath m1 = (m2, r2)" by (cases "removePath lockpath m1")
  have 2: "shrinks ?P m m2"
    using removePath_shrinks [of lockpath m1] l 1 by (auto elim: shrinks_mono intro: shrinks_trans)
  have "machineStat m dirpath = Inr fi \<Longrightarrow> \<not> FI_link fi" for fi
    by (auto simp: machineStat_def split: option.splits)
  then show ?thesis
    using 1 2 by (cases "machineStat m dirpath"; cases r1; cases r2) (simp_all add: cleanupContainerdPath_def r l)
qed

text \<open>The paths the clean-up may remove: those below a directory whose lock file holds its path.\<close>

definition lockedPath :: "string gomap \<Rightarrow> Machine \<Rightarrow> string \<Rightarrow> bool" where
  "lockedPath paths m q \<longleftrightarrow>
     (\<exists>(lockpath, dirpath) \<in> set paths. ReadFile (M_host m) lockpath = Inr dirpath \<and> (below dirpath q \<or> q = lockpath))"

lemma lockHolds_ReadFile: "is_ok (lockHolds m l d) \<Longrightarrow> ReadFile (M_host m) l = Inr d"
  by (auto simp: lockHolds_def split: if_splits sum.splits)

lemma containerdPathLoop_cleanup_shrinks:
  "shrinks (lockedPath paths m) m (containerdPathLoop (\<lambda>m. m) cleanupContainerdPath paths m)"
proof (induction paths arbitrary: m)
  case (Cons e paths)
  obtain l d where e: "e = (l, d)" by (cases e)
  show ?case
  proof (cases "is_ok (lockHolds m l d)")
    case True
    let ?m1 = "fst (cleanupContainerdPath l d m)"
    have first: "shrinks (lockedPath (e # paths) m) m ?m1"
      by (rule shrinks_mono [OF cleanupContainerdPath_shrinks]) (auto simp: lockedPath_def e lockHolds_ReadFile [OF True])
    have "lockedPath (e # paths) m q" if lp: "lockedPath paths ?m1 q" for q
    proof -
      obtain x y where xy: "(x, y) \<in> set paths" "ReadFile (M_host ?m1) x = Inr y" "below y q \<or> q = x"
        using lp unfolding lockedPath_def by blast
      show ?thesis
        unfolding lockedPath_def
        by (rule bexI [of _ "(x, y)"]) (simp_all add: xy ReadFile_shrinks [OF cleanupContainerdPath_shrinks xy(2)])
    qed
    then show ?thesis using True first shrinks_mono [OF Cons.IH] by (auto simp: e intro: shrinks_trans)
  next
    case False
    have "shrinks (lockedPath (e # paths) m) m (containerdPathLoop (\<lambda>m. m) cleanupContainerdPath paths m)"
      by (rule shrinks_mono [OF Cons.IH]) (auto simp: lockedPath_def)
    with False show ?thesis by (simp add: e)
  qed
qed simp

text \<open>
  Cleaning up the directories of the container runtime touches nothing but the directories that a
  lock file of this snap names, what is below them, and those lock files: every other path of the
  machine is as before.
\<close>

theorem cleanup_only_locked:
  assumes "set (lockOrder lib (ContainerdLockPathsForSnap s)) = set (ContainerdLockPathsForSnap s)"
    and "\<not> (\<exists>(lockpath, dirpath) \<in> set (ContainerdLockPathsForSnap s).
              ReadFile (M_host m) lockpath = Inr dirpath \<and> (below dirpath q \<or> q = lockpath))"
  shows "pathAt (TryCleanupContainerdPaths lib s m) q = pathAt m q"
proof -
  have "\<not> lockedPath (lockOrder lib (ContainerdLockPathsForSnap s)) m q"
    using assms by (simp add: lockedPath_def)
  then show ?thesis
    using containerdPathLoop_cleanup_shrinks
    unfolding TryCleanupContainerdPaths_def ForEachContainerdPath_def shrinks_def by metis
qed

section \<open>Installing and removing the container runtime\<close>

definition faultless :: "Machine \<Rightarrow> bool" where
  "faultless m \<longleftrightarrow> noFaults (M_host m) \<and> M_fault m = (\<lambda>_ _. None) \<and> M_removeFault m = (\<lambda>_. None)"

definition gone :: "Machine \<Rightarrow> string \<Rightarrow> bool" where
  "gone m d \<longleftrightarrow> (\<forall>q. below d q \<longrightarrow> pathAt m q = (None, None, None))"

lemma gone_shrinks: "gone m d \<Longrightarrow> shrinks P m m' \<Longrightarrow> gone m' d"
  unfolding gone_def shrinks_def pathAt_def by (metis prod.inject)

text \<open>A directory that is really one, or nothing at all.\<close>

definition removable :: "Machine \<Rightarrow> string \<Rightarrow> bool" where
  "removable m d \<longleftrightarrow> gone m d \<or> (M_dirs m d \<noteq> None \<and> M_links m d = None)"

lemma below_refl [simp]: "below d d"
  by (simp add: below_def)

lemma HasPrefix_iff: "HasPrefix s p \<longleftrightarrow> (\<exists>t. s = p @ t)"
  by (metis HasPrefix_def append_eq_conv_conj append_take_drop_id)

lemma below_trans: "below d e \<Longrightarrow> below e q \<Longrightarrow> below d q"
  unfolding below_def HasPrefix_iff by (metis append.assoc)

lemma gone_step: "gone m d \<Longrightarrow> (\<And>q. pathAt m' q = (None, None, None) \<or> pathAt m' q = pathAt m q) \<Longrightarrow> gone m' d"
  unfolding gone_def by metis

text \<open>The step of the clean-up on a machine without faults whose lock file holds the directory.\<close>

lemma machineStat_noLink:
  "faultless m \<Longrightarrow> M_links m p = None \<Longrightarrow> machineStat m p =
     (case M_dirs m p of
        Some d \<Rightarrow> Inr \<lparr>FI_path = p, FI_dir = True, FI_link = False, FI_uid = D_uid d, FI_gid = D_gid d, FI_mode = D_mode d\<rparr>
      | None \<Rightarrow> (case H_files (M_host m) p of
          Some n \<Rightarrow> Inr \<lparr>FI_path = p, FI_dir = False, FI_link = False, FI_uid = F_uid n, FI_gid = F_gid n, FI_mode = F_mode n\<rparr>
        | None \<Rightarrow> Inl ErrNotExist))"
  by (simp add: machineStat_def faultless_def numeral_eq_Suc)

lemma gone_at: "gone m d \<Longrightarrow> M_dirs m d = None \<and> M_links m d = None \<and> H_files (M_host m) d = None"
  by (auto simp: gone_def pathAt_def dest: spec [of _ d])

lemma cleanup_gone: "faultless m \<Longrightarrow> gone m d \<Longrightarrow> fst (cleanupContainerdPath l d m) = m"
  using gone_at [of m d] by (simp add: cleanupContainerdPath_def machineStat_noLink)

lemma cleanup_dir:
  assumes "faultless m" "M_dirs m d = Some x" "M_links m d = None" "d \<noteq> ''/''" "\<not> below d l"
    "H_files (M_host m) l = Some n" "M_links m l = None" "M_dirs m l = None"
  shows "fst (cleanupContainerdPath l d m) =
    (let m' = removePaths (below d) m in m'\<lparr>M_host := setFile l None (M_host m')\<rparr>)"
  using assms
  by (simp add: cleanupContainerdPath_def machineStat_noLink RemoveAll_def faultless_def removePath_def onFiles_def
      osRemove_def removePaths_def noFaults_def Let_def)

lemma faultless_removed: "faultless m \<Longrightarrow> faultless (removePaths P m)"
  by (simp add: faultless_def removePaths_def noFaults_def)

lemma cleanupContainerdPath_effect:
  assumes m: "faultless m" "H_files (M_host m) l = Some n" "M_links m l = None" "M_dirs m l = None"
    and d: "removable m d" "d \<noteq> ''/''" "\<not> below d l"
  shows "gone (fst (cleanupContainerdPath l d m)) d"
    and "faultless (fst (cleanupContainerdPath l d m))"
    and "pathAt (fst (cleanupContainerdPath l d m)) q = (None, None, None) \<or>
         pathAt (fst (cleanupContainerdPath l d m)) q = pathAt m q"
proof -
  let ?m = "fst (cleanupContainerdPath l d m)"
  consider (gone) "gone m d" | (dir) x where "M_dirs m d = Some x" "M_links m d = None"
    using d(1) by (auto simp: removable_def)
  then have "gone ?m d \<and> faultless ?m \<and> (pathAt ?m q = (None, None, None) \<or> pathAt ?m q = pathAt m q)"
  proof cases
    case gone
    then show ?thesis by (simp add: cleanup_gone [OF m(1) gone] m)
  next
    case dir
    note eq = cleanup_dir [OF m(1) dir d(2,3) m(2-4)]
    have "faultless ?m"
      using faultless_removed [OF m(1), of "below d"] by (simp add: eq Let_def faultless_def noFaults_def)
    moreover have "gone ?m d"
      by (simp add: eq Let_def gone_def pathAt_def removePaths_def)
    ultimately show ?thesis using m(3,4) by (simp add: eq Let_def pathAt_def removePaths_def)
  qed
  then show "gone ?m d" "faultless ?m" "pathAt ?m q = (None, None, None) \<or> pathAt ?m q = pathAt m q"
    by blast+
qed

text \<open>The lock files lie outside the directories they lock, and no directory is the root.\<close>

definition containerdLayout :: "string gomap \<Rightarrow> bool" where
  "containerdLayout paths \<longleftrightarrow>
     distinct (map fst paths) \<and> (\<forall>(l, d) \<in> set paths. d \<noteq> ''/'' \<and> (\<forall>(l', d') \<in> set paths. \<not> below d l'))"

definition lockedDir :: "Machine \<Rightarrow> string \<times> string \<Rightarrow> bool" where
  "lockedDir m = (\<lambda>(l, d). removable m d \<and> (\<exists>n. pathAt m l = (None, None, Some n) \<and> F_data n = d))"

lemma lockedDir_holds: "faultless m \<Longrightarrow> lockedDir m (l, d) \<Longrightarrow> is_ok (lockHolds m l d)"
  by (auto simp: lockedDir_def lockHolds_def machineStat_noLink pathAt_def ReadFile_def faultless_def)

lemma removable_step:
  assumes "removable m e" "gone m' d" "\<And>q. pathAt m' q = (None, None, None) \<or> pathAt m' q = pathAt m q"
    and "\<And>q. \<not> below d q \<Longrightarrow> q \<noteq> l \<Longrightarrow> pathAt m' q = pathAt m q" "pathAt m l = (None, None, Some n)"
  shows "removable m' e"
proof (cases "gone m e")
  case True
  then show ?thesis using gone_step [OF True assms(3)] by (simp add: removable_def)
next
  case False
  then have dir: "M_dirs m e \<noteq> None" "M_links m e = None" using assms(1) by (auto simp: removable_def)
  show ?thesis
  proof (cases "below d e")
    case True
    then have "gone m' e" using assms(2) below_trans unfolding gone_def by blast
    then show ?thesis by (simp add: removable_def)
  next
    case False
    then have "pathAt m' e = pathAt m e" using assms(4,5) dir by (metis pathAt_def prod.inject)
    then show ?thesis using dir by (simp add: removable_def pathAt_def)
  qed
qed

lemma cleanup_loop_gone:
  assumes "faultless m" "containerdLayout paths" "\<forall>e \<in> set paths. lockedDir m e"
  shows "\<forall>(l, d) \<in> set paths. gone (containerdPathLoop (\<lambda>m. m) cleanupContainerdPath paths m) d"
  using assms
proof (induction paths arbitrary: m)
  case (Cons e paths)
  obtain l d where e: "e = (l, d)" by (cases e)
  have ld: "lockedDir m (l, d)" using Cons.prems(3) e by simp
  then obtain n where n: "pathAt m l = (None, None, Some n)" "removable m d" by (auto simp: lockedDir_def)
  have lay0: "containerdLayout ((l, d) # paths)" using Cons.prems(2) by (simp add: e)
  then have lay: "d \<noteq> ''/''" "\<not> below d l" "l \<notin> fst ` set paths" "containerdLayout paths"
    by (auto simp: containerdLayout_def)
  have lay3: "\<not> below d l'" if "(l', d') \<in> set paths" for l' d'
    using lay0 that unfolding containerdLayout_def by fastforce
  let ?m = "fst (cleanupContainerdPath l d m)"
  note eff = cleanupContainerdPath_effect [OF Cons.prems(1) _ _ _ n(2) lay(1,2), of n]
  have g: "gone ?m d" and f: "faultless ?m" and s: "\<And>q. pathAt ?m q = (None, None, None) \<or> pathAt ?m q = pathAt m q"
    using n eff by (simp_all add: pathAt_def)
  have out: "\<not> below d q \<Longrightarrow> q \<noteq> l \<Longrightarrow> pathAt ?m q = pathAt m q" for q
    using cleanupContainerdPath_shrinks [of d l m] by (simp add: shrinks_def)
  have all: "lockedDir ?m x" if x: "x \<in> set paths" for x
  proof -
    obtain l' d' where x': "x = (l', d')" by (cases x)
    have "lockedDir m (l', d')" "\<not> below d l'" "l' \<noteq> l"
      using Cons.prems(3) x lay(3) lay3 by (auto simp: x' image_iff)
    then show ?thesis
      using removable_step [OF _ g s out n(1)] out [of l'] by (auto simp: lockedDir_def x')
  qed
  have ih: "\<forall>(l, d) \<in> set paths. gone (containerdPathLoop (\<lambda>m. m) cleanupContainerdPath paths ?m) d"
    using Cons.IH [OF f lay(4)] all by blast
  have "gone (containerdPathLoop (\<lambda>m. m) cleanupContainerdPath paths ?m) d"
    by (rule gone_shrinks [OF g containerdPathLoop_cleanup_shrinks])
  with ih show ?case using lockedDir_holds [OF Cons.prems(1) ld] by (simp add: e)
qed simp

lemma onFiles_simps [simp]:
  "M_links (fst (onFiles f m)) = M_links m" "M_dirs (fst (onFiles f m)) = M_dirs m"
  by (simp_all add: onFiles_def split: prod.split)

lemma onFiles_okD: "onFiles f m = (m', Inr x) \<Longrightarrow> f (M_host m) = (M_host m', Inr x) \<and> M_links m' = M_links m \<and> M_dirs m' = M_dirs m"
  by (auto simp: onFiles_def split: prod.splits)

lemma installPlugin_ok:
  assumes "installPlugin p m = (m', ok)"
  shows "M_links m' (pathJoin CNIBinDir p) = Some ''cni''"
    and "M_links m q = Some ''cni'' \<Longrightarrow> M_links m' q = Some ''cni''"
proof -
  let ?p = "pathJoin CNIBinDir p"
  have link: "tryStep (symLink ''cni'' ?p m0) f a (\<lambda>m _. (m, ok)) = (m', ok) \<Longrightarrow> M_links m' = (M_links m0)(?p \<mapsto> ''cni'')" for m0 f a
    by (auto simp: symLink_def setLink_def split: option.splits if_splits)
  have rm: "removePath ?p m = (m1, Inr u) \<Longrightarrow> r \<noteq> ?p \<Longrightarrow> M_links m1 r = M_links m r" for m1 u r
    using removePath_shrinks [of ?p m] by (simp add: shrinks_def pathAt_def)
  have "M_links m' ?p = Some ''cni'' \<and> (M_links m q = Some ''cni'' \<longrightarrow> M_links m' q = Some ''cni'')"
  proof (cases "machineStat m ?p")
    case (Inl e)
    then show ?thesis using link [of m] assms by (simp add: installPlugin_def)
  next
    case (Inr fi)
    show ?thesis
    proof (cases "readLink m ?p = Inr ''cni''")
      case True
      then have "m' = m" "M_links m ?p = Some ''cni''"
        using assms Inr by (auto simp: installPlugin_def readLink_def split: option.splits)
      then show ?thesis by simp
    next
      case False
      then obtain m1 u where "removePath ?p m = (m1, Inr u)" "M_links m' = (M_links m1)(?p \<mapsto> ''cni'')"
        using assms Inr link by (auto simp: installPlugin_def tryStep_ok_iff Let_def)
      then show ?thesis using rm by auto
    qed
  qed
  then show "M_links m' ?p = Some ''cni''" "M_links m q = Some ''cni'' \<Longrightarrow> M_links m' q = Some ''cni''" by auto
qed

lemma installPlugins_ok:
  "forEach installPlugin ps m = (m', ok) \<Longrightarrow>
     (\<forall>p \<in> set ps. M_links m' (pathJoin CNIBinDir p) = Some ''cni'') \<and> (M_links m q = Some ''cni'' \<longrightarrow> M_links m' q = Some ''cni'')"
proof (induction ps arbitrary: m q)
  case (Cons p ps)
  obtain m1 u where 1: "installPlugin p m = (m1, Inr u)" and 2: "forEach installPlugin ps m1 = (m', ok)"
    using Cons.prems by (auto simp: tryPass_ok_iff)
  have "M_links m' (pathJoin CNIBinDir p) = Some ''cni''"
    using Cons.IH [OF 2] installPlugin_ok(1) [of p m m1] 1 by simp
  then show ?case using Cons.IH [OF 2, of q] installPlugin_ok(2) [of p m m1 q] 1 by simp
qed simp

text \<open>The lock files after they were all written.\<close>

lemma writeLocks_ok:
  assumes "forEach (\<lambda>(l, d) m. tryStep (onFiles (\<lambda>h. WriteFile h l d perm600) m) msg [l] (\<lambda>m _. (m, ok))) paths m = (m', ok)"
    and "distinct (map fst paths)"
  shows "(\<forall>(l, d) \<in> set paths. \<exists>n. H_files (M_host m') l = Some n \<and> F_data n = d) \<and>
     (\<forall>q. q \<notin> fst ` set paths \<longrightarrow> H_files (M_host m') q = H_files (M_host m) q) \<and> M_links m' = M_links m"
  using assms
proof (induction paths arbitrary: m)
  case (Cons e paths)
  obtain l d where e: "e = (l, d)" by (cases e)
  obtain m1 where 1: "M_host m1 = setFile l (Some (newNode (M_host m) d perm600)) (M_host m)" "M_links m1 = M_links m"
      and 2: "forEach (\<lambda>(l, d) m. tryStep (onFiles (\<lambda>h. WriteFile h l d perm600) m) msg [l] (\<lambda>m _. (m, ok))) paths m1 = (m', ok)"
    using Cons.prems(1) by (auto simp: e tryPass_ok_iff tryStep_ok_iff dest!: onFiles_okD WriteFile_okD)
  have "distinct (map fst paths)" "l \<notin> fst ` set paths" using Cons.prems(2) by (simp_all add: e)
  then show ?case using Cons.IH [OF 2] by (auto simp: e 1)
qed simp

lemma lockPaths_distinct: "distinct (map fst (ContainerdLockPathsForSnap s))"
  and lockPaths_base: "pathJoin (LockFilesDir s) ''.containerd-base-dir'' \<notin> fst ` set (ContainerdLockPathsForSnap s)"
  by (simp_all add: ContainerdLockPathsForSnap_def filepathJoin_inject plainName_def)

lemma lockOrder_distinct:
  "mset paths = mset (ContainerdLockPathsForSnap s) \<Longrightarrow> distinct (map fst paths)"
  using lockPaths_distinct [of s] by (metis mset_eq_imp_distinct_iff mset_map)

lemma saveSnapContainerdPaths_ok:
  assumes "saveSnapContainerdPaths lib s m = (m', ok)"
    and "mset (lockOrder lib (ContainerdLockPathsForSnap s)) = mset (ContainerdLockPathsForSnap s)"
  shows "(\<forall>(l, d) \<in> set (ContainerdLockPathsForSnap s). \<exists>n. H_files (M_host m') l = Some n \<and> F_data n = d) \<and> M_links m' = M_links m"
proof -
  let ?paths = "lockOrder lib (ContainerdLockPathsForSnap s)"
  have st: "set ?paths = set (ContainerdLockPathsForSnap s)" by (metis assms(2) set_mset_mset)
  note dist = lockOrder_distinct [OF assms(2)]
  let ?base = "pathJoin (LockFilesDir s) ''.containerd-base-dir''"
  obtain m1 where 1: "forEach (\<lambda>(l, d) m. tryStep (onFiles (\<lambda>h. WriteFile h l d perm600) m) ''failed to write %s: %w'' [l]
        (\<lambda>m _. (m, ok))) ?paths m = (m1, ok)"
      and 2: "M_host m' = setFile ?base (Some (newNode (M_host m1) (containerdBaseDir s) perm600)) (M_host m1)" "M_links m' = M_links m1"
    using assms(1) unfolding saveSnapContainerdPaths_def Let_def
    by (auto simp: tryPass_ok_iff tryStep_ok_iff dest!: onFiles_okD WriteFile_okD)
  have "l \<noteq> ?base" if "(l, d) \<in> set (ContainerdLockPathsForSnap s)" for l d
    using that lockPaths_base [of s] by (metis fst_conv image_eqI)
  then show ?thesis using writeLocks_ok [OF 1 dist] 2 unfolding st by auto
qed

lemma Containerd_ok:
  assumes "Containerd lib s extraConfig extraArgs m = (m', ok)"
    and "mset (lockOrder lib (ContainerdLockPathsForSnap s)) = mset (ContainerdLockPathsForSnap s)"
  shows "\<forall>plugin \<in> set CNIPlugins. M_links m' (pathJoin CNIBinDir plugin) = Some ''cni''"
    and "\<forall>(l, d) \<in> set (ContainerdLockPathsForSnap s). \<exists>n. H_files (M_host m') l = Some n \<and> F_data n = d"
proof -
  obtain m0 m1 u where 1: "installCNI s m0 = (m1, Inr u)" and 2: "saveSnapContainerdPaths lib s m1 = (m', ok)"
    using assms(1) unfolding Containerd_def by (auto simp: tryPass_ok_iff)
  have "\<forall>plugin \<in> set CNIPlugins. M_links m1 (pathJoin CNIBinDir plugin) = Some ''cni''"
    using 1 installPlugins_ok unfolding installCNI_def Let_def by (fastforce simp: tryStep_ok_iff)
  then show "\<forall>plugin \<in> set CNIPlugins. M_links m' (pathJoin CNIBinDir plugin) = Some ''cni''"
    using saveSnapContainerdPaths_ok [OF 2 assms(2)] by simp
  show "\<forall>(l, d) \<in> set (ContainerdLockPathsForSnap s). \<exists>n. H_files (M_host m') l = Some n \<and> F_data n = d"
    using saveSnapContainerdPaths_ok [OF 2 assms(2)] by simp
qed

text \<open>
  When the container runtime is configured, every CNI plugin is a link to the installed \<open>cni\<close>
  binary. And the clean-up undoes the configuration: on any later machine on which the lock files are
  still as they were written and each of the four directories is a directory or absent, it leaves
  nothing at or below these directories, whatever was put there meanwhile.
\<close>

theorem containerd_install_cleanup:
  assumes run: "Containerd lib s extraConfig extraArgs m = (m1, ok)"
    and order: "mset (lockOrder lib (ContainerdLockPathsForSnap s)) = mset (ContainerdLockPathsForSnap s)"
    and layout: "containerdLayout (ContainerdLockPathsForSnap s)"
    and later: "faultless m2"
    and kept: "\<forall>(l, d) \<in> set (ContainerdLockPathsForSnap s).
                 H_files (M_host m2) l = H_files (M_host m1) l \<and> M_links m2 l = None \<and> M_dirs m2 l = None \<and> removable m2 d"
  shows "(\<forall>plugin \<in> set CNIPlugins. M_links m1 (pathJoin CNIBinDir plugin) = Some ''cni'') \<and>
         (\<forall>(l, d) \<in> set (ContainerdLockPathsForSnap s). gone (TryCleanupContainerdPaths lib s m2) d)"
proof -
  let ?paths = "lockOrder lib (ContainerdLockPathsForSnap s)"
  have st: "set ?paths = set (ContainerdLockPathsForSnap s)" by (metis order set_mset_mset)
  have lay: "containerdLayout ?paths"
    using layout lockOrder_distinct [OF order] unfolding containerdLayout_def st by simp
  have "lockedDir m2 e" if e: "e \<in> set ?paths" for e
  proof -
    obtain l d where ld: "e = (l, d)" "(l, d) \<in> set (ContainerdLockPathsForSnap s)" using e unfolding st by (metis surj_pair)
    obtain n where n: "H_files (M_host m1) l = Some n" "F_data n = d" using bspec [OF Containerd_ok(2) [OF run order] ld(2)] by auto
    have "H_files (M_host m2) l = Some n" "M_links m2 l = None" "M_dirs m2 l = None" "removable m2 d"
      using bspec [OF kept ld(2)] n by simp_all
    then show ?thesis using n by (simp add: ld lockedDir_def pathAt_def)
  qed
  then show ?thesis
    using Containerd_ok(1) [OF run order] cleanup_loop_gone [OF later lay] st
    by (simp add: TryCleanupContainerdPaths_def ForEachContainerdPath_def)
qed

text \<open>
  On a machine without faults that has the binary of the snap and nothing that is no file in the place
  of a plugin, the configuration of the container runtime succeeds.
\<close>

definition runtimeReady :: "string list \<Rightarrow> Snap \<Rightarrow> Machine \<Rightarrow> bool" where
  "runtimeReady plugins s m \<longleftrightarrow>
     faultless m \<and> H_files (M_host m) (CNIPluginsBinary s) \<noteq> None \<and>
     (\<forall>p \<in> set plugins. M_links m (pathJoin CNIBinDir p) = None \<and> M_dirs m (pathJoin CNIBinDir p) = None)"

lemma onFiles_ok: "f (M_host m) = (h, Inr x) \<Longrightarrow> onFiles f m = (m\<lparr>M_host := h\<rparr>, Inr x)"
  by (simp add: onFiles_def)

lemma runtimeReady_host:
  "runtimeReady ps s m \<Longrightarrow> noFaults h \<Longrightarrow> H_files h (CNIPluginsBinary s) \<noteq> None \<Longrightarrow> runtimeReady ps s (m\<lparr>M_host := h\<rparr>)"
  by (simp add: runtimeReady_def faultless_def)

lemma UpdateServiceArguments_present:
  "noFaults h \<Longrightarrow> UpdateServiceArguments s svc um dl h = (h', r) \<Longrightarrow> H_files h p \<noteq> None \<Longrightarrow> H_files h' p \<noteq> None"
  by (auto simp: UpdateServiceArguments_def rewriteArgs_closed Let_def ReadFile_def split: option.splits if_splits)

lemma applyServiceArgs_present:
  assumes "noFaults h" "H_files h p \<noteq> None"
  shows "\<exists>h'. applyServiceArgs s svc args dl extra m1 m2 h = (h', ok) \<and> noFaults h' \<and> H_files h' p \<noteq> None"
proof -
  obtain u d where ud: "ServiceArgsFromMap extra = (u, d)" by (cases "ServiceArgsFromMap extra")
  obtain h1 c where u1: "UpdateServiceArguments s svc args dl h = (h1, Inr c)"
    using UpdateServiceArguments_total [OF assms(1)] by blast
  note n1 = UpdateServiceArguments_noFaults [OF assms(1) u1]
  obtain h2 c2 where u2: "UpdateServiceArguments s svc u d h1 = (h2, Inr c2)"
    using UpdateServiceArguments_total [OF n1] by blast
  show ?thesis
    using u1 u2 ud UpdateServiceArguments_noFaults [OF n1 u2] UpdateServiceArguments_present [OF n1 u2, of p]
      UpdateServiceArguments_present [OF assms(1) u1 assms(2)]
    by (simp add: applyServiceArgs_def)
qed

lemma installPlugin_total:
  assumes "faultless m" "M_links m (pathJoin CNIBinDir p) = None" "M_dirs m (pathJoin CNIBinDir p) = None"
  shows "\<exists>m'. installPlugin p m = (m', ok) \<and> faultless m' \<and> M_dirs m' = M_dirs m \<and>
     (\<forall>q. q \<noteq> pathJoin CNIBinDir p \<longrightarrow> M_links m' q = M_links m q)"
proof (cases "H_files (M_host m) (pathJoin CNIBinDir p)")
  case None
  then show ?thesis
    using assms by (simp add: installPlugin_def Let_def machineStat_noLink symLink_def faultless_def setLink_def)
next
  case (Some n)
  then show ?thesis
    using assms
    by (simp add: installPlugin_def Let_def machineStat_noLink symLink_def faultless_def setLink_def readLink_def removePath_def
        onFiles_def osRemove_def)
qed

lemma installPlugins_total:
  assumes "faultless m" "\<forall>p \<in> set ps. M_links m (pathJoin CNIBinDir p) = None \<and> M_dirs m (pathJoin CNIBinDir p) = None"
    "distinct (map (pathJoin CNIBinDir) ps)"
  shows "\<exists>m'. forEach installPlugin ps m = (m', ok) \<and> faultless m'"
  using assms
proof (induction ps arbitrary: m)
  case (Cons p ps)
  obtain m1 where m1: "installPlugin p m = (m1, ok)" "faultless m1" "M_dirs m1 = M_dirs m"
      "\<forall>q. q \<noteq> pathJoin CNIBinDir p \<longrightarrow> M_links m1 q = M_links m q"
    using installPlugin_total [OF Cons.prems(1), of p] Cons.prems(2) by fastforce
  have "\<forall>x \<in> set ps. M_links m1 (pathJoin CNIBinDir x) = None \<and> M_dirs m1 (pathJoin CNIBinDir x) = None"
    using Cons.prems(2,3) m1(3,4) by (auto simp: image_iff)
  then show ?case using Cons.IH [OF m1(2)] Cons.prems(3) by (simp add: m1(1))
qed simp

lemma saveSnapContainerdPaths_total:
  assumes "faultless m"
  shows "\<exists>m'. saveSnapContainerdPaths lib s m = (m', ok)"
proof -
  have "\<exists>m'. forEach (\<lambda>(l, d) m. tryStep (onFiles (\<lambda>h. WriteFile h l d perm600) m) msg [l] (\<lambda>m _. (m, ok))) paths m = (m', ok)
      \<and> faultless m'" for msg paths
    using assms
  proof (induction paths arbitrary: m)
    case (Cons e paths)
    then show ?case by (cases e) (simp add: onFiles_def faultless_def)
  qed simp
  then obtain m1 where "forEach (\<lambda>(l, d) m. tryStep (onFiles (\<lambda>h. WriteFile h l d perm600) m) ''failed to write %s: %w'' [l] (\<lambda>m _. (m, ok)))
      (lockOrder lib (ContainerdLockPathsForSnap s)) m = (m1, ok)" "faultless m1" by blast
  then show ?thesis by (simp add: saveSnapContainerdPaths_def Let_def onFiles_def faultless_def)
qed

lemma plugins_distinct: "distinct (map (pathJoin CNIBinDir) CNIPlugins)"
  by (simp add: CNIPlugins_def filepathJoin_inject plainName_def)

lemma installCNI_total:
  assumes "runtimeReady CNIPlugins s m"
  shows "\<exists>m'. installCNI s m = (m', ok) \<and> faultless m'"
proof -
  let ?cni = "pathJoin CNIBinDir ''cni''"
  have nf: "noFaults (M_host m)" using assms by (simp add: runtimeReady_def faultless_def)
  obtain d where d: "H_files (M_host m) (CNIPluginsBinary s) = Some d" using assms by (auto simp: runtimeReady_def)
  obtain n1 where w: "osCreate (M_host m) ?cni = (setFile ?cni (Some n1) (M_host m), ok)"
    using nf by (simp add: osCreate_def)
  obtain b where b: "ReadFile (setFile ?cni (Some n1) (M_host m)) (CNIPluginsBinary s) = Inr b"
    using nf d by (cases "CNIPluginsBinary s = ?cni") (simp_all add: ReadFile_def)
  obtain n2 where c: "CopyFile (M_host m) (CNIPluginsBinary s) ?cni = (setFile ?cni (Some n2) (setFile ?cni (Some n1) (M_host m)), ok)"
    using osWriteFile_noFaults [of "setFile ?cni (Some n1) (M_host m)" ?cni b perm666] nf by (auto simp: CopyFile_def w b)
  let ?h = "setFile ?cni (Some (n2\<lparr>F_mode := perm700, F_uid := snapUID, F_gid := snapGID\<rparr>)) (M_host m)"
  have "\<exists>h. noFaults h \<and> installCNI s m = forEach installPlugin CNIPlugins (m\<lparr>M_host := h\<rparr>)"
    using nf by (simp add: installCNI_def Let_def onFiles_def c osChmod_def osChown_def) (metis noFaults_setFile)
  then obtain h where h: "noFaults h" "installCNI s m = forEach installPlugin CNIPlugins (m\<lparr>M_host := h\<rparr>)" by blast
  show ?thesis
    using installPlugins_total [OF _ _ plugins_distinct, of "m\<lparr>M_host := h\<rparr>"] assms h
    by (simp add: runtimeReady_def faultless_def)
qed

lemma Containerd_total:
  assumes dirs: "makeDirectories [ContainerdConfigDir s, ContainerdExtraConfigDir s, ContainerdRegistryConfigDir s] m = (m0, ok)"
    and ready: "runtimeReady CNIPlugins s m0"
    and lib: "mergoMerge lib (defaultContainerdConfig CNIConfDir CNIBinDir (ContainerdExtraConfigDir s)
       (ContainerdRegistryConfigDir s) defaultPauseImage) extraConfig = Inr c" "tomlMarshal lib c = Inr b"
  shows "\<exists>m1. Containerd lib s extraConfig extraArgs m = (m1, ok)"
proof -
  have nf: "noFaults (M_host m0)" "H_files (M_host m0) (CNIPluginsBinary s) \<noteq> None"
    using ready by (auto simp: runtimeReady_def faultless_def)
  let ?toml = "pathJoin (ContainerdConfigDir s) ''config.toml''"
  let ?h1 = "setFile ?toml (Some (newNode (M_host m0) b perm600)) (M_host m0)"
  have w: "writeContainerdConfig lib s extraConfig m0 = (m0\<lparr>M_host := ?h1\<rparr>, ok)"
    using nf(1) by (simp add: writeContainerdConfig_def Let_def lib onFiles_def)
  have nf1: "noFaults ?h1" "H_files ?h1 (CNIPluginsBinary s) \<noteq> None" using nf by simp_all
  obtain h2 where h2: "applyServiceArgs s ''containerd'' (containerdArgs s) [] extraArgs ''failed to write arguments file: %w''
      ''failed to write arguments file: %w'' ?h1 = (h2, ok)" "noFaults h2" "H_files h2 (CNIPluginsBinary s) \<noteq> None"
    using applyServiceArgs_present [OF nf1] by blast
  have "runtimeReady CNIPlugins s (m0\<lparr>M_host := h2\<rparr>)" using runtimeReady_host [OF ready h2(2,3)] .
  then obtain m3 where m3: "installCNI s (m0\<lparr>M_host := h2\<rparr>) = (m3, ok)" "faultless m3" using installCNI_total by blast
  show ?thesis
    using saveSnapContainerdPaths_total [OF m3(2)] by (simp add: Containerd_def dirs w onFiles_def h2(1) m3(1))
qed

section \<open>When a node may be initialised\<close>

text \<open>Commands run one after the other, and when all of them succeed.\<close>

definition commandsRun :: "Host \<Rightarrow> string list list \<Rightarrow> bool" where
  "commandsRun h cmds \<longleftrightarrow> (\<forall>i < length cmds. H_cmdFault h (length (H_cmds h) + i) (cmds ! i) = None)"

lemma commandsRun_Cons:
  "commandsRun h (c # cs) \<longleftrightarrow> H_cmdFault h (length (H_cmds h)) c = None \<and> commandsRun (h\<lparr>H_cmds := H_cmds h @ [c]\<rparr>) cs"
  by (auto simp: commandsRun_def less_Suc_eq_0_disj)

lemma runCommands_ok_iff:
  "forEach (\<lambda>x m. tryStep (onFiles (\<lambda>h. runCommand h (cmd x)) m) msg [x] (\<lambda>m _. (m, ok))) xs m = (m', ok) \<longleftrightarrow>
     commandsRun (M_host m) (map cmd xs) \<and> m' = m\<lparr>M_host := (M_host m)\<lparr>H_cmds := H_cmds (M_host m) @ map cmd xs\<rparr>\<rparr>"
proof (induction xs arbitrary: m)
  case Nil
  then show ?case by (auto simp: commandsRun_def)
next
  case (Cons x xs)
  let ?m = "m\<lparr>M_host := (M_host m)\<lparr>H_cmds := H_cmds (M_host m) @ [cmd x]\<rparr>\<rparr>"
  have run: "onFiles (\<lambda>h. runCommand h (cmd x)) m =
      (?m, case H_cmdFault (M_host m) (length (H_cmds (M_host m))) (cmd x) of None \<Rightarrow> ok | Some e \<Rightarrow> Inl e)"
    by (simp add: onFiles_def runCommand_def)
  show ?case
    by (cases "H_cmdFault (M_host m) (length (H_cmds (M_host m))) (cmd x)") (auto simp: run commandsRun_Cons Cons.IH [of ?m])
qed

lemma runCommands_iff:
  "forEach (\<lambda>x m. tryStep (onFiles (\<lambda>h. runCommand h (cmd x)) m) msg [x] (\<lambda>m _. (m, ok))) xs m = (m', Inr u) \<longleftrightarrow>
     commandsRun (M_host m) (map cmd xs) \<and> m' = m\<lparr>M_host := (M_host m)\<lparr>H_cmds := H_cmds (M_host m) @ map cmd xs\<rparr>\<rparr>"
  by (cases u) (simp only: runCommands_ok_iff)

lemma map_filter_empty_iff: "List.map_filter f xs = [] \<longleftrightarrow> (\<forall>x \<in> set xs. f x = None)"
  by (induction xs) (auto simp: List.map_filter_def)

lemma CheckK8sServicePorts_ok_iff:
  assumes "\<And>ports. set (order ports) = set ports"
  shows "CheckK8sServicePorts order isOpen config sc cp = ok \<longleftrightarrow>
     is_ok (GetKubeProxyHealthzPort sc) \<and> is_ok (GetKubeProxyMetricsPort sc) \<and>
     (\<forall>(svc, port) \<in> set (snd (servicePorts config sc cp)). port = ''0'' \<or> isOpen port = Inr True)"
proof -
  have errs: "fst (servicePorts config sc cp) = [] \<longleftrightarrow> is_ok (GetKubeProxyHealthzPort sc) \<and> is_ok (GetKubeProxyMetricsPort sc)"
    by (cases "GetKubeProxyHealthzPort sc"; cases "GetKubeProxyMetricsPort sc") (simp_all add: servicePorts_def addPort_def Let_def)
  have "portProblem isOpen e = None \<longleftrightarrow> (case e of (svc, port) \<Rightarrow> port = ''0'' \<or> isOpen port = Inr True)" for e
    by (cases e; cases "isOpen (snd e)") (auto simp: portProblem_def)
  then show ?thesis
    using errs by (cases "servicePorts config sc cp") (auto simp: CheckK8sServicePorts_def errorsJoin_def map_filter_empty_iff assms)
qed

text \<open>
  A node passes the checks before its initialisation exactly when the bind addresses of kube-proxy
  can be read, every port its services need is 0 or free, each of the five Kubernetes binaries runs, and
  nothing exists at the directory of the containerd socket. The checks change nothing but the log of
  commands. (The map of ports may be visited in any order.)
\<close>

theorem PreInitChecks_ok_iff:
  assumes "\<And>ports. set (order ports) = set ports"
  shows "PreInitChecks order isOpen s config sc cp m = (m', ok) \<longleftrightarrow>
     (is_ok (GetKubeProxyHealthzPort sc) \<and> is_ok (GetKubeProxyMetricsPort sc) \<and>
      (\<forall>(svc, port) \<in> set (snd (servicePorts config sc cp)). port = ''0'' \<or> isOpen port = Inr True)) \<and>
     (let cmds = map (\<lambda>binary. [filepathJoin [snapDir s, ''bin'', binary], ''--version''])
                   [''kube-apiserver'', ''kube-controller-manager'', ''kube-scheduler'', ''kube-proxy'', ''kubelet'']
      in commandsRun (M_host m) cmds \<and> m' = m\<lparr>M_host := (M_host m)\<lparr>H_cmds := H_cmds (M_host m) @ cmds\<rparr>\<rparr>) \<and>
     machineStat m (ContainerdSocketDir s) = Inl ErrNotExist"
proof -
  have stat: "machineStat (m\<lparr>M_host := (M_host m)\<lparr>H_cmds := c\<rparr>\<rparr>) p = machineStat m p" for c p
    by (simp add: machineStat_def split: option.split)
  have last: "(case machineStat m0 p of
        Inr _ \<Rightarrow> (m0, Inl e1)
      | Inl e \<Rightarrow> if \<not> IsNotExist e then (m0, Inl (Wrapf msg a e)) else (m0, ok)) = (m', ok) \<longleftrightarrow>
      m' = m0 \<and> machineStat m0 p = Inl ErrNotExist" for m0 p e1 msg a
    by (cases "machineStat m0 p") auto
  show ?thesis
    unfolding CheckK8sServicePorts_ok_iff [OF assms, symmetric] PreInitChecks_def
      tryStep_ok_iff tryPass_ok_iff runCommands_iff last
    by (auto simp: stat Let_def checkedBinaries_def)
qed

section \<open>Concrete runs\<close>

definition sampleLib :: containerdLib where
  "sampleLib = \<lparr>mergoMerge = (\<lambda>c _. Inr c), tomlMarshal = (\<lambda>_. Inr ''toml''), lockOrder = (\<lambda>m. m)\<rparr>"

definition sampleMachine :: Machine where
  "sampleMachine = \<lparr>M_host = setFile ''/snap/k8s/current/bin/cni'' (Some (newNode emptyHost ''elf'' perm700)) emptyHost,
     M_dirs = Map.empty, M_links = Map.empty, M_fault = (\<lambda>_ _. None), M_removeFault = (\<lambda>_. None)\<rparr>"

text \<open>The machine after the lock files were written: the four directories exist and hold something.\<close>

definition lockedMachine :: Machine where
  "lockedMachine =
     (let dir = \<lparr>D_uid = 0, D_gid = 0, D_mode = perm700\<rparr>;
          h = foldr (\<lambda>(l, d). setFile l (Some (newNode emptyHost d perm600))) (ContainerdLockPathsForSnap sampleSnap) emptyHost
      in \<lparr>M_host = setFile ''/run/containerd/s'' (Some (newNode emptyHost [] perm600)) h,
          M_dirs = [''/run/containerd'' \<mapsto> dir, ''/etc/containerd'' \<mapsto> dir, ''/opt/cni/bin'' \<mapsto> dir],
          M_links = Map.empty, M_fault = (\<lambda>_ _. None), M_removeFault = (\<lambda>_. None)\<rparr>)"

lemmas sample_paths = ContainerdLockPathsForSnap_def ContainerdSocketDir_def ContainerdConfigDir_def ContainerdRootDir_def
  CNIBinDir_def LockFilesDir_def sampleSnap_def NewSnap_def path_eval

lemma sampleLocks:
  "ContainerdLockPathsForSnap sampleSnap =
     [(''/var/snap/k8s/common/lock/containerd-socket-path'', ''/run/containerd''), (''/var/snap/k8s/common/lock/containerd-config-dir'', ''/etc/containerd''),
      (''/var/snap/k8s/common/lock/containerd-root-dir'', ''/var/lib/containerd''), (''/var/snap/k8s/common/lock/containerd-cni-bin-dir'', ''/opt/cni/bin'')]"
  by (simp add: sample_paths)

lemma cleanup_only_locked_witness:
  "pathAt (TryCleanupContainerdPaths sampleLib sampleSnap lockedMachine) ''/etc/passwd'' = pathAt lockedMachine ''/etc/passwd''"
  by (rule cleanup_only_locked) (simp_all add: sampleLib_def sampleLocks below_def HasPrefix_def)

lemma PreInitChecks_ok_iff_witness:
  "\<exists>m'. PreInitChecks (\<lambda>m. m) (\<lambda>_. Inr True) sampleSnap emptyClusterConfig
     \<lparr>ExtraNodeKubeControllerManagerArgs = None, ExtraNodeKubeSchedulerArgs = None, ExtraNodeKubeletArgs = None, ExtraNodeKubeProxyArgs = None\<rparr>
     True sampleMachine = (m', ok)"
proof -
  have "machineStat sampleMachine (ContainerdSocketDir sampleSnap) = Inl ErrNotExist"
    by (simp add: machineStat_def sampleMachine_def sample_paths emptyHost_def numeral_eq_Suc)
  then show ?thesis
    using PreInitChecks_ok_iff [of "\<lambda>m. m" "\<lambda>_. Inr True" sampleSnap emptyClusterConfig
      "\<lparr>ExtraNodeKubeControllerManagerArgs = None, ExtraNodeKubeSchedulerArgs = None, ExtraNodeKubeletArgs = None, ExtraNodeKubeProxyArgs = None\<rparr>"
      True sampleMachine]
    by (auto simp: GetKubeProxyHealthzPort_def GetKubeProxyMetricsPort_def bindAddressPort_def getConfigOrDefault_def
        commandsRun_def sampleMachine_def emptyHost_def Let_def)
qed

text \<open>A later machine: the lock files of \<open>m\<close> and the directories they lock.\<close>

definition laterMachine :: "Machine \<Rightarrow> Machine" where
  "laterMachine m = lockedMachine
     \<lparr>M_host := emptyHost\<lparr>H_files := (\<lambda>q. if q \<in> fst ` set (ContainerdLockPathsForSnap sampleSnap) then H_files (M_host m) q else None)\<rparr>\<rparr>"

lemma laterMachine_kept:
  "faultless (laterMachine m) \<and>
   (\<forall>(l, d) \<in> set (ContainerdLockPathsForSnap sampleSnap).
      H_files (M_host (laterMachine m)) l = H_files (M_host m) l \<and> M_links (laterMachine m) l = None \<and>
      M_dirs (laterMachine m) l = None \<and> removable (laterMachine m) d)"
  by (auto simp: laterMachine_def lockedMachine_def sampleLocks faultless_def noFaults_def emptyHost_def removable_def gone_def
      pathAt_def below_def HasPrefix_def Let_def)

lemma containerd_install_cleanup_witness:
  "\<exists>m1. Containerd sampleLib sampleSnap (HObject []) [] sampleMachine = (m1, ok) \<and>
     (\<forall>plugin \<in> set CNIPlugins. M_links m1 (pathJoin CNIBinDir plugin) = Some ''cni'') \<and>
     (\<forall>(l, d) \<in> set (ContainerdLockPathsForSnap sampleSnap). gone (TryCleanupContainerdPaths sampleLib sampleSnap (laterMachine m1)) d)"
proof -
  let ?dirs = "[ContainerdConfigDir sampleSnap, ContainerdExtraConfigDir sampleSnap, ContainerdRegistryConfigDir sampleSnap]"
  have dirs: "snd (makeDirectories ?dirs sampleMachine) = ok" "runtimeReady CNIPlugins sampleSnap (fst (makeDirectories ?dirs sampleMachine))"
    by (simp_all add: makeDirectories_def sample_paths ContainerdExtraConfigDir_def ContainerdRegistryConfigDir_def MkdirAll_def
        machineStat_def sampleMachine_def emptyHost_def numeral_eq_Suc ancestors_def upt_conv_Cons osMkdir_def setDir_def
        runtimeReady_def faultless_def noFaults_def CNIPluginsBinary_def CNIPlugins_def)
  have eq: "makeDirectories ?dirs sampleMachine = (fst (makeDirectories ?dirs sampleMachine), ok)"
    using dirs(1) by (simp add: prod_eq_iff)
  have "\<exists>m1. Containerd sampleLib sampleSnap (HObject []) [] sampleMachine = (m1, ok)"
    by (rule Containerd_total [OF eq dirs(2)]) (simp_all add: sampleLib_def)
  then obtain m1 where run: "Containerd sampleLib sampleSnap (HObject []) [] sampleMachine = (m1, ok)" by blast
  have "containerdLayout (ContainerdLockPathsForSnap sampleSnap)"
    by (simp add: containerdLayout_def sampleLocks below_def HasPrefix_def)
  moreover have "mset (lockOrder sampleLib (ContainerdLockPathsForSnap sampleSnap)) = mset (ContainerdLockPathsForSnap sampleSnap)"
    by (simp add: sampleLib_def)
  ultimately show ?thesis
    using containerd_install_cleanup [OF run, of "laterMachine m1"] laterMachine_kept [of m1] run by blast
qed

end
