(* ===== verification/Bootstrap.thy ===== *)
theory Bootstrap
  imports NodeSetup Controllers Api Convert FeatureLoop
begin

text \<open>
  How the first control plane node and the workers come up (\<open>pkg/k8sd/app/hooks_bootstrap.go\<close>,
  \<open>cluster_util.go\<close>, \<open>provider.go\<close>): the hook that runs the components of the other theories in order, on
  the machine of the node, its database and the random source of its keys.

  A hook works on \<open>World\<close>: the machine, the database, the position in the random source, the controllers
  that were triggered, and the requests sent to other nodes. \<open>hookEnv\<close> holds what the hook reads from its
  surroundings: its name and address, the interfaces, the libraries, and how the other services answer.
  The fields of the API's \<open>BootstrapConfig\<close>, \<open>ControlPlaneJoinConfig\<close> and \<open>WorkerJoinConfig\<close> that only the hooks use are
  the fields of \<open>nodeArgs\<close> and \<open>workerArgs\<close>; they hold what the API's getters return.
\<close>

section \<open>The world of a hook\<close>

record World =
  A_machine :: Machine
  A_db :: DB
  A_rand :: nat
  A_signals :: "string \<Rightarrow> bool"
  A_requests :: "(string \<times> string \<times> string) list"

definition onMachine :: "(Machine \<Rightarrow> (Machine, 'a) step) \<Rightarrow> World \<Rightarrow> (World, 'a) step" where
  "onMachine f w = (case f (A_machine w) of (m, r) \<Rightarrow> (w\<lparr>A_machine := m\<rparr>, r))"

abbreviation onNode :: "(Host \<Rightarrow> (Host, 'a) step) \<Rightarrow> World \<Rightarrow> (World, 'a) step" where
  "onNode f \<equiv> onMachine (onFiles f)"

definition onStore :: "(DB \<Rightarrow> (DB, 'a) step) \<Rightarrow> World \<Rightarrow> (World, 'a) step" where
  "onStore f w = (case f (A_db w) of (db, r) \<Rightarrow> (w\<lparr>A_db := db\<rparr>, r))"

definition onRand :: "(nat \<Rightarrow> (nat, 'a) step) \<Rightarrow> World \<Rightarrow> (World, 'a) step" where
  "onRand f w = (case f (A_rand w) of (n, r) \<Rightarrow> (w\<lparr>A_rand := n\<rparr>, r))"

record 'key hookEnv =
  X_name :: string
  X_hostname :: string
  X_webhookURL :: string
  X_snap :: Snap
  X_crypto :: "'key crypto"
  X_interfaceAddrs :: "string list res"
  X_interfaces :: "netAddr list res list res"
  X_localhost :: "IP res"
  X_kubeconfig :: kubeconfigIO
  X_snapd :: snapdIO
  X_json :: json
  X_extern :: extern
  X_getters :: bootstrapGetters
  X_containerd :: containerdLib
  X_portOrder :: "string gomap \<Rightarrow> string gomap"
  X_portOpen :: "string \<Rightarrow> bool res"
  X_webhookTemplate :: "string \<Rightarrow> string \<Rightarrow> string res"
  X_endpointsJson :: "string list \<Rightarrow> string res"
  X_confinement :: "string \<Rightarrow> string res"
  X_readDir :: "Host \<Rightarrow> string \<Rightarrow> (string \<times> bool) list res"
  X_tmp :: string
  X_ctxDone :: "nat \<Rightarrow> bool"
  X_kubernetesClient :: "unit res"
  X_endpointReady :: "unit res"

record nodeArgs =
  NA_ExtraSANs :: "string list"
  NA_DisableSystemTuning :: bool
  NA_PKI :: ControlPlanePKI
  NA_Etcd :: EtcdPKI
  NA_EtcdArgs :: "string ptr gomap"
  NA_ContainerdConfig :: hval
  NA_ContainerdArgs :: "string ptr gomap"
  NA_KubeletArgs :: "string ptr gomap"
  NA_KubeProxyArgs :: "string ptr gomap"
  NA_ControllerManagerArgs :: "string ptr gomap"
  NA_SchedulerArgs :: "string ptr gomap"
  NA_APIServerArgs :: "string ptr gomap"
  NA_ConfigFiles :: "string gomap"

section \<open>Triggers\<close>

text \<open>Each controller has a channel of capacity one.\<close>

definition notify :: "string \<Rightarrow> World \<Rightarrow> World" where
  "notify ch w = w\<lparr>A_signals := (A_signals w)(ch := MaybeNotify (A_signals w ch))\<rparr>"

definition NotifyUpdateNodeConfigController :: "World \<Rightarrow> World" where
  "NotifyUpdateNodeConfigController w = notify ''update-node-config'' w"

definition NotifyFeatureController :: "bool \<Rightarrow> bool \<Rightarrow> bool \<Rightarrow> bool \<Rightarrow> bool \<Rightarrow> bool \<Rightarrow> bool \<Rightarrow> World \<Rightarrow> World" where
  "NotifyFeatureController network gateway ingress loadBalancer localStorage metricsServer dns w =
     foldl (\<lambda>w (b, ch). if b then notify ch w else w) w
       [(network, ''network''), (gateway, ''gateway''), (ingress, ''ingress''), (loadBalancer, ''load-balancer''),
        (localStorage, ''local-storage''), (metricsServer, ''metrics-server''), (dns, ''dns'')]"

section \<open>Starting services\<close>

definition supportedDatastores :: "string list" where
  "supportedDatastores = [''etcd'', ''external'']"

definition unsupportedDatastore :: "string \<Rightarrow> error" where
  "unsupportedDatastore ty = Errorf ''unsupported datastore %s, must be one of %v'' (ty # supportedDatastores)"

abbreviation datastoreType :: "ClusterConfig \<Rightarrow> string" where
  "datastoreType cfg \<equiv> getStr (Datastore_Type (CC_Datastore cfg))"

definition startControlPlaneServices :: "ClusterConfig \<Rightarrow> Host \<Rightarrow> (Host, unit) step" where
  "startControlPlaneServices cfg h =
     tryPass
       (if datastoreType cfg = ''etcd'' then
          tryStep (StartEtcdServices h []) ''failed to start etcd services: %w'' [] (\<lambda>h _. (h, ok))
        else if datastoreType cfg = ''external'' then (h, ok)
        else (h, Inl (unsupportedDatastore (datastoreType cfg))))
       (\<lambda>h _. tryStep (StartControlPlaneServices h (GetKubeProxyEnabled (CC_Network cfg)) [])
          ''failed to start control plane services: %w'' [] (\<lambda>h _. (h, ok)))"

definition waitApiServerReady :: "'key hookEnv \<Rightarrow> unit res" where
  "waitApiServerReady env =
     (case X_kubernetesClient env of
        Inl e \<Rightarrow> Inl (Wrapf ''failed to create Kubernetes client: %w'' [] e)
      | Inr _ \<Rightarrow> (case X_endpointReady env of
          Inl e \<Rightarrow> Inl (Wrapf ''kubernetes endpoints not ready yet: %w'' [] e)
        | Inr _ \<Rightarrow> ok))"

section \<open>Steps shared by the hooks\<close>

definition nodeAddresses :: "string \<Rightarrow> 'key hookEnv \<Rightarrow> (IP \<times> IP list) res" where
  "nodeAddresses msg env =
     (case ParseIP (X_hostname env) of
        None \<Rightarrow> Inl (Errorf msg [X_hostname env])
      | Some nodeIP \<Rightarrow>
          (case GetIPv46Addresses (X_interfaces env) nodeIP of
             Inl e \<Rightarrow> Inl (Wrapf ''failed to get local node IPs for kubelet: %w'' [] e)
           | Inr nodeIPs \<Rightarrow> Inr (nodeIP, nodeIPs)))"

text \<open>Errors of the tuning are logged only.\<close>

definition systemTuning :: "'key hookEnv \<Rightarrow> bool \<Rightarrow> World \<Rightarrow> World" where
  "systemTuning env disabled w =
     (if Strict (X_confinement env) (X_snap env) (M_host (A_machine w)) \<or> disabled then w
      else (let w = fst (onNode (ensureSystemTuningConfigFile (X_readDir env)) w)
            in fst (onNode (tuneSystemSettings (X_readDir env)) w)))"

definition localhostIPs :: "IP list" where
  "localhostIPs = List.map_filter ParseIP [''127.0.0.1'', ''::1'']"

definition newEtcdPKI :: "'key hookEnv \<Rightarrow> bool \<Rightarrow> IP \<Rightarrow> nodeArgs \<Rightarrow> EtcdPKI" where
  "newEtcdPKI env allowSelfSigned nodeIP a =
     (case SplitIPAndDNSSANs (NA_ExtraSANs a) of (extraIPs, extraNames) \<Rightarrow>
        \<lparr>E_allowSelfSignedCA = allowSelfSigned, E_hostname = X_name env,
         E_ipSANs = nodeIP # localhostIPs @ extraIPs, E_dnsSANs = X_name env # extraNames,
         E_notBefore = timeNow (X_crypto env), E_notAfter = AddDate (timeNow (X_crypto env)) 20 0 0,
         E_CACert = [], E_CAKey = [], E_ServerCert = E_ServerCert (NA_Etcd a), E_ServerKey = E_ServerKey (NA_Etcd a),
         E_ServerPeerCert = E_ServerPeerCert (NA_Etcd a), E_ServerPeerKey = E_ServerPeerKey (NA_Etcd a),
         E_APIServerClientCert = [], E_APIServerClientKey = []\<rparr>)"

definition newControlPlanePKI :: "'key hookEnv \<Rightarrow> bool \<Rightarrow> IP \<Rightarrow> IP list \<Rightarrow> nodeArgs \<Rightarrow> ControlPlanePKI" where
  "newControlPlanePKI env allowSelfSigned nodeIP serviceIPs a =
     (case SplitIPAndDNSSANs (NA_ExtraSANs a) of (extraIPs, extraNames) \<Rightarrow>
        NewControlPlanePKI (X_name env) extraNames ((nodeIP # serviceIPs) @ extraIPs) (timeNow (X_crypto env))
          (Some (AddDate (timeNow (X_crypto env)) 20 0 0)) allowSelfSigned True (\<lambda>t. AddDate t 1 0 0))"

definition writeEtcdPKI :: "'key hookEnv \<Rightarrow> EtcdPKI \<Rightarrow> World \<Rightarrow> (World, EtcdPKI) step" where
  "writeEtcdPKI env c w =
     tryStep (onRand (Etcd_CompleteCertificates (X_crypto env) c) w) ''failed to initialize etcd certificates: %w'' [] (\<lambda>w c.
     tryStep (onNode (EnsureEtcdPKI c) w) ''failed to write etcd certificates: %w'' [] (\<lambda>w _. (w, Inr c)))"

definition writeExternalPKI :: "ClusterConfig \<Rightarrow> World \<Rightarrow> (World, unit) step" where
  "writeExternalPKI cfg w =
     tryStep (w, CheckCertificates (externalPKI cfg)) ''failed to initialize external datastore certificates: %w'' [] (\<lambda>w _.
     tryStep (onNode (EnsureExtDatastorePKI (externalPKI cfg)) w) ''failed to write external datastore certificates: %w'' []
       (\<lambda>w _. (w, ok)))"

definition nodeServiceConfigs :: "nodeArgs \<Rightarrow> K8sServiceConfigs" where
  "nodeServiceConfigs a =
     \<lparr>ExtraNodeKubeControllerManagerArgs = Some (map_of (NA_ControllerManagerArgs a)),
      ExtraNodeKubeSchedulerArgs = Some (map_of (NA_SchedulerArgs a)),
      ExtraNodeKubeletArgs = Some (map_of (NA_KubeletArgs a)), ExtraNodeKubeProxyArgs = Some (map_of (NA_KubeProxyArgs a))\<rparr>"

text \<open>The services of a control plane node, in the order in which they are configured.\<close>

definition configureServices :: "'key hookEnv \<Rightarrow> IP \<Rightarrow> IP list \<Rightarrow> ClusterConfig \<Rightarrow> nodeArgs \<Rightarrow> World \<Rightarrow> (World, unit) step" where
  "configureServices env nodeIP nodeIPs cfg a w =
     (let s = X_snap env; k = CC_Kubelet cfg in
      tryStep (onMachine (Containerd (X_containerd env) s (NA_ContainerdConfig a) (NA_ContainerdArgs a)) w)
        ''failed to configure containerd: %w'' [] (\<lambda>w _.
      tryStep (onNode (KubeletControlPlane s (X_name env) nodeIPs (getStr (Kubelet_ClusterDNS k)) (getStr (Kubelet_ClusterDomain k))
          (getStr (Kubelet_CloudProvider k)) (getList (Kubelet_ControlPlaneTaints k)) (NA_KubeletArgs a)) w)
        ''failed to configure kubelet: %w'' [] (\<lambda>w _.
      tryStep (onNode (KubeProxy (X_localhost env) s (X_name env) (getStr (Network_PodCIDR (CC_Network cfg))) (NA_KubeProxyArgs a)) w)
        ''failed to configure kube-proxy: %w'' [] (\<lambda>w _.
      tryStep (onNode (KubeControllerManager s (NA_ControllerManagerArgs a)) w)
        ''failed to configure kube-controller-manager: %w'' [] (\<lambda>w _.
      tryStep (onNode (KubeScheduler s (NA_SchedulerArgs a)) w) ''failed to configure kube-scheduler: %w'' [] (\<lambda>w _.
      tryStep (onNode (KubeAPIServer (X_webhookTemplate env) (X_localhost env) s (getInt (APIServer_SecurePort (CC_APIServer cfg)))
          (Some nodeIP) (getStr (Network_ServiceCIDR (CC_Network cfg))) (X_webhookURL env) True (CC_Datastore cfg)
          (getStr (APIServer_AuthorizationMode (CC_APIServer cfg))) (NA_APIServerArgs a)) w)
        ''failed to configure kube-apiserver: %w'' [] (\<lambda>w _.
      tryStep (onNode (ExtraNodeConfigFiles s (NA_ConfigFiles a)) w) ''failed to write extra node config files: %w'' []
        (\<lambda>w _. (w, ok)))))))))"

text \<open>Starting may fail while a controller restarts the services, hence the retries.\<close>

definition startServices :: "'key hookEnv \<Rightarrow> ClusterConfig \<Rightarrow> World \<Rightarrow> (World, unit) step" where
  "startServices env cfg w =
     tryStep (onNode (RetryFor (X_ctxDone env) 5 (\<lambda>h.
         tryStep (startControlPlaneServices cfg h) ''failed to start services: %w'' [] (\<lambda>h _. (h, ok)))) w)
       ''failed after retry: %w'' [] (\<lambda>w _. (w, ok))"

section \<open>Bootstrapping a control plane\<close>

definition bootstrapDatastorePKI :: "'key hookEnv \<Rightarrow> nodeArgs \<Rightarrow> IP \<Rightarrow> ClusterConfig \<Rightarrow> World \<Rightarrow> (World, ClusterConfig) step" where
  "bootstrapDatastorePKI env a nodeIP cfg w =
     (if datastoreType cfg = ''etcd'' then
        tryPass (writeEtcdPKI env ((newEtcdPKI env True nodeIP a)
            \<lparr>E_CACert := E_CACert (NA_Etcd a), E_CAKey := E_CAKey (NA_Etcd a),
             E_APIServerClientCert := E_APIServerClientCert (NA_Etcd a), E_APIServerClientKey := E_APIServerClientKey (NA_Etcd a)\<rparr>) w)
          (\<lambda>w c. (w, Inr (cfg\<lparr>CC_Datastore := (CC_Datastore cfg)
             \<lparr>Datastore_EtcdCACert := Some (E_CACert c), Datastore_EtcdCAKey := Some (E_CAKey c),
              Datastore_EtcdAPIServerClientCert := Some (E_APIServerClientCert c),
              Datastore_EtcdAPIServerClientKey := Some (E_APIServerClientKey c)\<rparr>\<rparr>)))
      else if datastoreType cfg = ''external'' then tryPass (writeExternalPKI cfg w) (\<lambda>w _. (w, Inr cfg))
      else (w, Inl (unsupportedDatastore (datastoreType cfg))))"

text \<open>The certificates the bootstrap configuration brings.\<close>

definition bootstrapPKI :: "ControlPlanePKI \<Rightarrow> ControlPlanePKI \<Rightarrow> ControlPlanePKI" where
  "bootstrapPKI g c = c
     \<lparr>CACert := CACert g, CAKey := CAKey g, ClientCACert := ClientCACert g, ClientCAKey := ClientCAKey g,
      FrontProxyCACert := FrontProxyCACert g, FrontProxyCAKey := FrontProxyCAKey g,
      FrontProxyClientCert := FrontProxyClientCert g, FrontProxyClientKey := FrontProxyClientKey g,
      ServiceAccountKey := ServiceAccountKey g, APIServerKubeletClientCert := APIServerKubeletClientCert g,
      APIServerKubeletClientKey := APIServerKubeletClientKey g, AdminClientCert := AdminClientCert g,
      AdminClientKey := AdminClientKey g, KubeControllerManagerClientCert := KubeControllerManagerClientCert g,
      KubeControllerManagerClientKey := KubeControllerManagerClientKey g, KubeSchedulerClientCert := KubeSchedulerClientCert g,
      KubeSchedulerClientKey := KubeSchedulerClientKey g, KubeProxyClientCert := KubeProxyClientCert g,
      KubeProxyClientKey := KubeProxyClientKey g, APIServerCert := APIServerCert g, APIServerKey := APIServerKey g,
      KubeletCert := KubeletCert g, KubeletKey := KubeletKey g, KubeletClientCert := KubeletClientCert g,
      KubeletClientKey := KubeletClientKey g\<rparr>"

definition withCertificates :: "ControlPlanePKI \<Rightarrow> ClusterConfig \<Rightarrow> ClusterConfig" where
  "withCertificates c cfg = cfg\<lparr>CC_Certificates := (CC_Certificates cfg)
     \<lparr>Certificates_CACert := Some (CACert c), Certificates_CAKey := Some (CAKey c),
      Certificates_ClientCACert := Some (ClientCACert c), Certificates_ClientCAKey := Some (ClientCAKey c),
      Certificates_FrontProxyCACert := Some (FrontProxyCACert c), Certificates_FrontProxyCAKey := Some (FrontProxyCAKey c),
      Certificates_APIServerKubeletClientCert := Some (APIServerKubeletClientCert c),
      Certificates_APIServerKubeletClientKey := Some (APIServerKubeletClientKey c),
      Certificates_ServiceAccountKey := Some (ServiceAccountKey c), Certificates_AdminClientCert := Some (AdminClientCert c),
      Certificates_AdminClientKey := Some (AdminClientKey c), Certificates_K8sdPublicKey := Some (K8sdPublicKey c),
      Certificates_K8sdPrivateKey := Some (K8sdPrivateKey c)\<rparr>\<rparr>"

definition bootstrapControlPlanePKI ::
  "'key hookEnv \<Rightarrow> nodeArgs \<Rightarrow> IP \<Rightarrow> IP list \<Rightarrow> World \<Rightarrow> (World, ControlPlanePKI) step"
where
  "bootstrapControlPlanePKI env a nodeIP serviceIPs w =
     tryStep (onRand (CompleteCertificates (X_crypto env) (X_interfaceAddrs env)
         (bootstrapPKI (NA_PKI a) (newControlPlanePKI env True nodeIP serviceIPs a))) w)
       ''failed to initialize control plane certificates: %w'' [] (\<lambda>w c.
     tryStep (onNode (EnsureControlPlanePKI c) w) ''failed to write control plane certificates: %w'' [] (\<lambda>w _. (w, Inr c)))"

definition writeBootstrapConfig :: "'key hookEnv \<Rightarrow> ClusterConfig \<Rightarrow> World \<Rightarrow> (World, unit) step" where
  "writeBootstrapConfig env cfg w =
     tryStep (onStore (Transaction (\<lambda>db.
         tryStep (SetClusterConfig (X_extern env) (X_json env) cfg db) ''failed to write cluster configuration: %w'' []
           (\<lambda>db _. (db, ok)))) w)
       ''database transaction to update cluster configuration failed: %w'' [] (\<lambda>w _. (w, ok))"

definition bootstrapValidConfig :: "'key hookEnv \<Rightarrow> BootstrapConfig \<Rightarrow> ClusterConfig res" where
  "bootstrapValidConfig env b =
     (case ClusterConfigFromBootstrapConfig (X_getters env) b of
        Inl e \<Rightarrow> Inl (Wrapf ''invalid bootstrap config: %w'' [] e)
      | Inr cfg \<Rightarrow>
          (case Validate (X_extern env) (SetDefaults cfg) of
             Inl e \<Rightarrow> Inl (Wrapf ''invalid cluster configuration: %w'' [] e)
           | Inr _ \<Rightarrow> Inr (SetDefaults cfg)))"

definition notifyBootstrapped :: "ClusterConfig \<Rightarrow> World \<Rightarrow> World" where
  "notifyBootstrapped cfg w =
     NotifyUpdateNodeConfigController
       (NotifyFeatureController (getBool (Network_Enabled (CC_Network cfg))) (getBool (Gateway_Enabled (CC_Gateway cfg)))
          (getBool (Ingress_Enabled (CC_Ingress cfg))) (getBool (LoadBalancer_Enabled (CC_LoadBalancer cfg)))
          (getBool (LocalStorage_Enabled (CC_LocalStorage cfg))) (getBool (MetricsServer_Enabled (CC_MetricsServer cfg)))
          (getBool (DNS_Enabled (CC_DNS cfg))) w)"

text \<open>From the checks on: certificates are on disk and in \<open>cfg\<close>.\<close>

definition bootstrapConfigure ::
  "'key hookEnv \<Rightarrow> nodeArgs \<Rightarrow> IP \<Rightarrow> IP list \<Rightarrow> ControlPlanePKI \<Rightarrow> ClusterConfig \<Rightarrow> World \<Rightarrow> (World, unit) step"
where
  "bootstrapConfigure env a nodeIP nodeIPs c cfg w =
     (let s = X_snap env in
      tryStep (onMachine (PreInitChecks (X_portOrder env) (X_portOpen env) s cfg (nodeServiceConfigs a) True) w)
        ''pre-init checks failed for bootstrap node: %w'' [] (\<lambda>w _.
      tryStep (onNode (SetupControlPlaneKubeconfigs (X_kubeconfig env) (X_localhost env) KubernetesConfigDir
          (getInt (APIServer_SecurePort (CC_APIServer cfg))) c) w) ''failed to generate kubeconfigs: %w'' [] (\<lambda>w _.
      tryPass (if datastoreType cfg = ''etcd'' then
          tryStep (onNode (Etcd (X_localhost env) s (X_name env) nodeIP (getInt (Datastore_EtcdPort (CC_Datastore cfg)))
              (getInt (Datastore_EtcdPeerPort (CC_Datastore cfg))) [] (NA_EtcdArgs a)) w)
            ''failed to configure etcd: %w'' [] (\<lambda>w _. (w, ok))
        else if datastoreType cfg = ''external'' then (w, ok)
        else (w, Inl (unsupportedDatastore (datastoreType cfg)))) (\<lambda>w _.
      configureServices env nodeIP nodeIPs cfg a w))))"

text \<open>The configuration is stored before the services are started.\<close>

definition bootstrapCommit :: "'key hookEnv \<Rightarrow> ClusterConfig \<Rightarrow> World \<Rightarrow> (World, unit) step" where
  "bootstrapCommit env cfg w =
     tryPass (writeBootstrapConfig env cfg w) (\<lambda>w _.
     tryStep (onNode (SetSnapdFromK8sd (X_snapd env) (ToUserFacing cfg)) w)
       ''failed to set snapd configuration from k8sd: %w'' [] (\<lambda>w _.
     tryPass (startServices env cfg w) (\<lambda>w _.
     tryStep (w, waitApiServerReady env) ''kube-apiserver did not become ready in time: %w'' [] (\<lambda>w _.
     (notifyBootstrapped cfg w, ok)))))"

text \<open>From the datastore's certificates on.\<close>

definition bootstrapCluster ::
  "'key hookEnv \<Rightarrow> nodeArgs \<Rightarrow> IP \<Rightarrow> IP list \<Rightarrow> IP list \<Rightarrow> ClusterConfig \<Rightarrow> World \<Rightarrow> (World, unit) step"
where
  "bootstrapCluster env a nodeIP nodeIPs serviceIPs cfg w =
     tryPass (bootstrapDatastorePKI env a nodeIP cfg w) (\<lambda>w cfg.
     tryPass (bootstrapControlPlanePKI env a nodeIP serviceIPs w) (\<lambda>w c.
     let cfg = withCertificates c cfg in
     tryPass (bootstrapConfigure env a nodeIP nodeIPs c cfg w) (\<lambda>w _.
     bootstrapCommit env cfg w)))"

definition onBootstrapControlPlane :: "'key hookEnv \<Rightarrow> BootstrapConfig \<Rightarrow> nodeArgs \<Rightarrow> World \<Rightarrow> (World, unit) step" where
  "onBootstrapControlPlane env b a w =
     tryPass (w, bootstrapValidConfig env b) (\<lambda>w cfg.
     tryPass (w, nodeAddresses ''failed to parse node IP address %q'' env) (\<lambda>w (nodeIP, nodeIPs).
     tryStep (onMachine (EnsureAllDirectories (X_tmp env) (X_snap env)) w) ''failed to create directories: %w'' [] (\<lambda>w _.
     let w = systemTuning env (NA_DisableSystemTuning a) w;
         serviceCIDR = getStr (Network_ServiceCIDR (CC_Network cfg))
     in
     tryStep (w, GetKubernetesServiceIPsFromServiceCIDRs serviceCIDR)
       ''failed to get IP address(es) from ServiceCIDR %q: %w'' [serviceCIDR] (\<lambda>w serviceIPs.
     bootstrapCluster env a nodeIP nodeIPs serviceIPs cfg w))))"

section \<open>Bootstrapping a worker\<close>

text \<open>
  A worker asks a control plane node for its certificates. \<open>workerInfo\<close> is the API's
  \<open>GetWorkerJoinInfoResponse\<close>. The network is \<open>workerNet\<close>: the certificate a node presents, its fingerprint, the TLS
  configuration that trusts it, the encoding of the request, and the answer to the request, an HTTP status
  and the decoded body. A request is logged with its address, the name and the secret it carries.
\<close>

record workerInfo =
  WI_PKI :: WorkerNodePKI
  WI_APIServers :: "string list"
  WI_PodCIDR :: string
  WI_ServiceCIDR :: string
  WI_KubeProxyEnabled :: bool
  WI_K8sdPublicKey :: string
  WI_Annotations :: Annotations
  WI_ClusterDNS :: string
  WI_ClusterDomain :: string
  WI_CloudProvider :: string

record workerArgs =
  WA_DisableSystemTuning :: bool
  WA_PKI :: WorkerNodePKI
  WA_ContainerdConfig :: hval
  WA_ContainerdArgs :: "string ptr gomap"
  WA_KubeletArgs :: "string ptr gomap"
  WA_KubeProxyArgs :: "string ptr gomap"
  WA_ProxyArgs :: "string ptr gomap"
  WA_ConfigFiles :: "string gomap"

record 'cert workerNet =
  GetRemoteCertificate :: "string \<Rightarrow> 'cert res"
  CertFingerprint :: "'cert \<Rightarrow> string"
  TLSClientConfig :: "'cert \<Rightarrow> unit res"
  infoRequest :: "string \<Rightarrow> unit res"
  newRequest :: "string \<Rightarrow> unit res"
  postInfo :: "string \<Rightarrow> string \<Rightarrow> string \<Rightarrow> (nat \<times> (string \<times> workerInfo) res) res"

text \<open>The loop over the addresses: the first node that answers, or the last error.\<close>

fun remoteCertificateLoop :: "'cert workerNet \<Rightarrow> string list \<Rightarrow> string \<times> 'cert res \<Rightarrow> string \<times> 'cert res" where
  "remoteCertificateLoop net [] acc = acc"
| "remoteCertificateLoop net (address # addresses) acc =
     (case GetRemoteCertificate net address of
        Inr cert \<Rightarrow> (address, Inr cert)
      | Inl e \<Rightarrow> remoteCertificateLoop net addresses (address, Inl e))"

definition noAddresses :: error where
  "noAddresses = Errorf ''empty list of control plane addresses'' []"

definition trustedAddress :: "'cert workerNet \<Rightarrow> InternalWorkerNodeToken \<Rightarrow> string res" where
  "trustedAddress net token =
     (case remoteCertificateLoop net (WN_JoinAddresses token) ([], Inl noAddresses) of
        (address, Inl e) \<Rightarrow> Inl (Wrapf ''failed to get certificate of cluster member: %w'' [] e)
      | (address, Inr cert) \<Rightarrow>
          if CertFingerprint net cert \<noteq> WN_Fingerprint token then
            Inl (Errorf ''fingerprint from token (%q) does not match fingerprint of node %q (%q)''
              [WN_Fingerprint token, address, CertFingerprint net cert])
          else (case TLSClientConfig net cert of
                  Inl e \<Rightarrow> Inl (Wrapf ''failed to get TLS configuration for trusted certificate: %w'' [] e)
                | Inr _ \<Rightarrow> Inr address))"

definition requestWorkerInfo :: "'cert workerNet \<Rightarrow> string \<Rightarrow> InternalWorkerNodeToken \<Rightarrow> IP \<Rightarrow> string \<Rightarrow> World \<Rightarrow> (World, workerInfo) step" where
  "requestWorkerInfo net name token nodeIP address w =
     tryStep (w, infoRequest net (IPString nodeIP)) ''failed to prepare worker info request: %w'' [] (\<lambda>w _.
     let url = ''https://'' @ address @ ''/1.0/k8sd/worker/info'' in
     tryStep (w, newRequest net url) ''failed to prepare HTTP request: %w'' [] (\<lambda>w _.
     let w = w\<lparr>A_requests := A_requests w @ [(address, name, WN_Secret token)]\<rparr> in
     tryStep (w, postInfo net url name (WN_Secret token)) ''failed to POST %s: %w'' [url] (\<lambda>w (status, body).
     tryStep (w, body) ''failed to parse HTTP response: %w'' [] (\<lambda>w (err, info).
     if status \<noteq> 200 then (w, Inl (Errorf ''HTTP request for worker node info failed: %s'' [err])) else (w, Inr info)))))"

text \<open>The join configuration overrides what the control plane issued.\<close>

definition orElse :: "string \<Rightarrow> string \<Rightarrow> string" where
  "orElse own given = (if own \<noteq> [] then own else given)"

definition workerPKI :: "workerArgs \<Rightarrow> workerInfo \<Rightarrow> WorkerNodePKI" where
  "workerPKI a info =
     (let g = WI_PKI info; o' = WA_PKI a in
      \<lparr>W_CACert = W_CACert g, W_ClientCACert = W_ClientCACert g,
       W_KubeletCert = orElse (W_KubeletCert o') (W_KubeletCert g), W_KubeletKey = orElse (W_KubeletKey o') (W_KubeletKey g),
       W_KubeProxyClientCert = orElse (W_KubeProxyClientCert o') (W_KubeProxyClientCert g),
       W_KubeProxyClientKey = orElse (W_KubeProxyClientKey o') (W_KubeProxyClientKey g),
       W_KubeletClientCert = orElse (W_KubeletClientCert o') (W_KubeletClientCert g),
       W_KubeletClientKey = orElse (W_KubeletClientKey o') (W_KubeletClientKey g)\<rparr>)"

text \<open>The port of the first API server: what follows the last colon.\<close>

definition workerSecurePort :: "workerInfo \<Rightarrow> int res" where
  "workerSecurePort info =
     (case WI_APIServers info of
        [] \<Rightarrow> Inl (Errorf ''no APIServers found in worker node info'' [])
      | server # _ \<Rightarrow>
          (let port = rev (takeWhile (\<lambda>c. c \<noteq> CHR '':'') (rev server)) in
           case Atoi port of
             None \<Rightarrow> Inl (Errorf ''failed to parse apiserver secure port: %w'' [port])
           | Some n \<Rightarrow> Inr n))"

definition workerClusterConfig :: "workerInfo \<Rightarrow> int \<Rightarrow> ClusterConfig" where
  "workerClusterConfig info securePort = emptyClusterConfig
     \<lparr>CC_APIServer := emptyAPIServer\<lparr>APIServer_SecurePort := Some securePort\<rparr>,
      CC_Network := emptyNetwork\<lparr>Network_PodCIDR := Some (WI_PodCIDR info), Network_ServiceCIDR := Some (WI_ServiceCIDR info),
        Network_KubeProxyEnabled := Some (WI_KubeProxyEnabled info)\<rparr>,
      CC_Certificates := emptyCertificates\<lparr>Certificates_K8sdPublicKey := Some (WI_K8sdPublicKey info),
        Certificates_CACert := Some (W_CACert (WI_PKI info)), Certificates_ClientCACert := Some (W_ClientCACert (WI_PKI info))\<rparr>,
      CC_Annotations := WI_Annotations info\<rparr>"

definition workerServiceConfigs :: "workerArgs \<Rightarrow> K8sServiceConfigs" where
  "workerServiceConfigs a =
     \<lparr>ExtraNodeKubeControllerManagerArgs = None, ExtraNodeKubeSchedulerArgs = None,
      ExtraNodeKubeletArgs = Some (map_of (WA_KubeletArgs a)), ExtraNodeKubeProxyArgs = Some (map_of (WA_KubeProxyArgs a))\<rparr>"

definition writeWorkerConfig :: "'key hookEnv \<Rightarrow> ClusterConfig \<Rightarrow> World \<Rightarrow> (World, unit) step" where
  "writeWorkerConfig env cfg w =
     tryStep (onStore (Transaction (\<lambda>db.
         tryStep (SetClusterConfig (X_extern env) (X_json env) cfg db) ''failed to write cluster configuration: %w'' []
           (\<lambda>db _. (db, ok)))) w)
       ''database transaction to set cluster configuration failed: %w'' [] (\<lambda>w _. (w, ok))"

definition configureWorker ::
  "'key hookEnv \<Rightarrow> workerArgs \<Rightarrow> IP list \<Rightarrow> workerInfo \<Rightarrow> int \<Rightarrow> ClusterConfig \<Rightarrow> World \<Rightarrow> (World, unit) step"
where
  "configureWorker env a nodeIPs info securePort cfg w =
     (let s = X_snap env in
      tryStep (onMachine (Containerd (X_containerd env) s (WA_ContainerdConfig a) (WA_ContainerdArgs a)) w)
        ''failed to configure containerd: %w'' [] (\<lambda>w _.
      tryStep (onNode (KubeletWorker s (X_name env) nodeIPs (WI_ClusterDNS info) (WI_ClusterDomain info) (WI_CloudProvider info)
          (WA_KubeletArgs a)) w) ''failed to configure kubelet: %w'' [] (\<lambda>w _.
      tryStep (onNode (KubeProxy (X_localhost env) s (X_name env) (WI_PodCIDR info) (WA_KubeProxyArgs a)) w)
        ''failed to configure kube-proxy: %w'' [] (\<lambda>w _.
      tryStep (onNode (K8sAPIServerProxy (X_endpointsJson env) s (WI_APIServers info) securePort (WA_ProxyArgs a)) w)
        ''failed to configure k8s-apiserver-proxy: %w'' [] (\<lambda>w _.
      tryStep (onNode (ExtraNodeConfigFiles s (WA_ConfigFiles a)) w) ''failed to write extra node config files: %w'' [] (\<lambda>w _.
      tryStep (onNode (MarkAsWorkerNode s True) w) ''failed to mark node as worker: %w'' [] (\<lambda>w _.
      tryStep (onNode (RetryFor (X_ctxDone env) 5 (\<lambda>h.
          tryStep (StartWorkerServices h (GetKubeProxyEnabled (CC_Network cfg)) []) ''failed to start worker services: %w'' []
            (\<lambda>h _. (h, ok)))) w)
        ''failed after retry: %w'' [] (\<lambda>w _. (w, ok)))))))))"

text \<open>What follows once the control plane has answered.\<close>

definition installWorker :: "'key hookEnv \<Rightarrow> workerArgs \<Rightarrow> IP list \<Rightarrow> workerInfo \<Rightarrow> World \<Rightarrow> (World, unit) step" where
  "installWorker env a nodeIPs info w =
     (let s = X_snap env in
      tryStep (onMachine (EnsureAllDirectories (X_tmp env) s) w) ''failed to create directories: %w'' [] (\<lambda>w _.
      let w = systemTuning env (WA_DisableSystemTuning a) w; c = workerPKI a info in
      tryStep (w, Worker_CompleteCertificates c) ''failed to initialize worker node certificates: %w'' [] (\<lambda>w _.
      tryStep (onNode (EnsureWorkerPKI c) w) ''failed to write worker node certificates: %w'' [] (\<lambda>w _.
      tryPass (w, workerSecurePort info) (\<lambda>w securePort.
      tryStep (onNode (SetupWorkerKubeconfigs (X_kubeconfig env) (X_localhost env) KubernetesConfigDir securePort c) w)
        ''failed to generate worker node kubeconfigs: %w'' [] (\<lambda>w _.
      let cfg = workerClusterConfig info securePort in
      tryStep (onMachine (PreInitChecks (X_portOrder env) (X_portOpen env) s cfg (workerServiceConfigs a) False) w)
        ''pre-init checks failed for worker node: %w'' [] (\<lambda>w _.
      tryPass (writeWorkerConfig env cfg w) (\<lambda>w _.
      configureWorker env a nodeIPs info securePort cfg w))))))))"

definition onBootstrapWorkerNode ::
  "'key hookEnv \<Rightarrow> 'cert workerNet \<Rightarrow> tokenJson \<Rightarrow> string \<Rightarrow> workerArgs \<Rightarrow> World \<Rightarrow> (World, unit) step"
where
  "onBootstrapWorkerNode env net tj encodedToken a w =
     tryStep (w, Token_Decode tj encodedToken) ''failed to parse worker token: %w'' [] (\<lambda>w token.
     if WN_JoinAddresses token = [] then (w, Inl noAddresses)
     else
     tryPass (w, nodeAddresses ''failed to parse node IP address %s'' env) (\<lambda>w (nodeIP, nodeIPs).
     tryPass (w, trustedAddress net token) (\<lambda>w address.
     tryPass (requestWorkerInfo net (X_name env) token nodeIP address w) (\<lambda>w info.
     installWorker env a nodeIPs info w))))"

text \<open>
  \<open>onBootstrap\<close>: a worker token in the initial configuration makes the node a worker. The decoders are those of
  \<open>pkg/utils/microcluster.go\<close>, over JSON and YAML.
\<close>

record hookDecoders =
  decodeBootstrap :: "string \<Rightarrow> (BootstrapConfig \<times> nodeArgs) res"
  decodeWorkerJoin :: "string \<Rightarrow> workerArgs res"
  decodeControlPlaneJoin :: "string \<Rightarrow> nodeArgs res"

definition MicroclusterBootstrapConfigFromMap :: "hookDecoders \<Rightarrow> string gomap \<Rightarrow> (BootstrapConfig \<times> nodeArgs) res" where
  "MicroclusterBootstrapConfigFromMap d m =
     (case decodeBootstrap d (mapGet m ''bootstrapConfig'') of
        Inl e \<Rightarrow> Inl (Wrapf ''failed to unmarshal bootstrap config: %w'' [] e) | Inr c \<Rightarrow> Inr c)"

definition MicroclusterWorkerJoinConfigFromMap :: "hookDecoders \<Rightarrow> string gomap \<Rightarrow> workerArgs res" where
  "MicroclusterWorkerJoinConfigFromMap d m =
     (case decodeWorkerJoin d (mapGet m ''workerJoinConfig'') of
        Inl e \<Rightarrow> Inl (Wrapf ''failed to unmarshal worker join config: %w'' [] e) | Inr c \<Rightarrow> Inr c)"

definition MicroclusterControlPlaneJoinConfigFromMap :: "hookDecoders \<Rightarrow> string gomap \<Rightarrow> nodeArgs res" where
  "MicroclusterControlPlaneJoinConfigFromMap d m =
     (case decodeControlPlaneJoin d (mapGet m ''controlPlaneJoinConfig'') of
        Inl e \<Rightarrow> Inl (Wrapf ''failed to unmarshal control plane join config: %w'' [] e) | Inr c \<Rightarrow> Inr c)"

definition onBootstrap ::
  "'key hookEnv \<Rightarrow> 'cert workerNet \<Rightarrow> tokenJson \<Rightarrow> hookDecoders \<Rightarrow> string gomap \<Rightarrow> World \<Rightarrow> (World, unit) step"
where
  "onBootstrap env net tj d initConfig w =
     (case map_of initConfig ''workerToken'' of
        Some workerToken \<Rightarrow>
          tryStep (w, MicroclusterWorkerJoinConfigFromMap d initConfig) ''failed to unmarshal worker join config: %w'' [] (\<lambda>w a.
          onBootstrapWorkerNode env net tj workerToken a w)
      | None \<Rightarrow>
          tryStep (w, MicroclusterBootstrapConfigFromMap d initConfig) ''failed to unmarshal bootstrap config: %w'' [] (\<lambda>w (b, a).
          onBootstrapControlPlane env b a w))"

section \<open>What the steps of a hook leave alone\<close>

lemma tryPass_keeps:
  "P (fst r) \<Longrightarrow> (\<And>s x. r = (s, Inr x) \<Longrightarrow> P s \<Longrightarrow> P (fst (k s x))) \<Longrightarrow> P (fst (tryPass r k))"
  by (cases r; cases "snd r") auto

lemma onMachine_frame [simp]:
  "A_db (fst (onMachine f w)) = A_db w" "A_rand (fst (onMachine f w)) = A_rand w"
  "A_signals (fst (onMachine f w)) = A_signals w" "A_requests (fst (onMachine f w)) = A_requests w"
  by (simp_all add: onMachine_def split: prod.splits)

lemma onRand_frame [simp]:
  "A_db (fst (onRand g w)) = A_db w" "A_machine (fst (onRand g w)) = A_machine w"
  "A_signals (fst (onRand g w)) = A_signals w" "A_requests (fst (onRand g w)) = A_requests w"
  by (simp_all add: onRand_def split: prod.splits)

lemma onStore_frame [simp]:
  "A_machine (fst (onStore q w)) = A_machine w" "A_rand (fst (onStore q w)) = A_rand w"
  "A_signals (fst (onStore q w)) = A_signals w" "A_requests (fst (onStore q w)) = A_requests w"
  by (simp_all add: onStore_def split: prod.splits)

lemma systemTuning_frame [simp]:
  "A_db (systemTuning env b w) = A_db w" "A_requests (systemTuning env b w) = A_requests w"
  "A_signals (systemTuning env b w) = A_signals w"
  by (simp_all add: systemTuning_def Let_def)

section \<open>A worker's secret\<close>

definition asked :: "(string \<times> string \<times> string) list \<Rightarrow> World \<Rightarrow> bool" where
  "asked rs w \<longleftrightarrow> A_requests w = rs"

lemma asked_frame [simp]:
  "asked rs (fst (onMachine f w)) \<longleftrightarrow> asked rs w" "asked rs (fst (onStore q w)) \<longleftrightarrow> asked rs w"
  "asked rs (systemTuning env b w) \<longleftrightarrow> asked rs w"
  by (simp_all add: asked_def)

lemma configureWorker_asked: "asked rs w \<Longrightarrow> asked rs (fst (configureWorker env a nodeIPs info port cfg w))"
  unfolding configureWorker_def Let_def by (intro tryStep_keeps [where P = "asked rs"]) simp_all

lemma writeWorkerConfig_asked: "asked rs w \<Longrightarrow> asked rs (fst (writeWorkerConfig env cfg w))"
  unfolding writeWorkerConfig_def by (intro tryStep_keeps [where P = "asked rs"]) simp_all

lemma installWorker_asked: "asked rs w \<Longrightarrow> asked rs (fst (installWorker env a nodeIPs info w))"
  unfolding installWorker_def Let_def
  by (intro tryStep_keeps [where P = "asked rs"] tryPass_keeps [where P = "asked rs"])
    (simp_all add: writeWorkerConfig_asked configureWorker_asked)

lemma remoteCertificateLoop_found:
  "remoteCertificateLoop net addresses acc = (address, Inr cert) \<Longrightarrow>
     acc = (address, Inr cert) \<or> address \<in> set addresses \<and> GetRemoteCertificate net address = Inr cert"
  by (induction addresses arbitrary: acc) (auto split: sum.splits)

lemma trustedAddress_pinned:
  assumes "trustedAddress net token = Inr address"
  obtains cert where "address \<in> set (WN_JoinAddresses token)" "GetRemoteCertificate net address = Inr cert"
    "CertFingerprint net cert = WN_Fingerprint token" "TLSClientConfig net cert = ok"
  using assms by (auto simp: trustedAddress_def dest: remoteCertificateLoop_found split: prod.splits sum.splits if_splits)

lemma requestWorkerInfo_asked:
  "A_requests (fst (requestWorkerInfo net name token nodeIP address w)) = A_requests w \<or>
     A_requests (fst (requestWorkerInfo net name token nodeIP address w)) = A_requests w @ [(address, name, WN_Secret token)]"
  by (auto simp: requestWorkerInfo_def Let_def tryStep_def split: sum.splits prod.splits)

text \<open>
  C23: A worker's join secret is pinned to its token. Joining as a worker sends at most one request, and only to an address
  of the token whose certificate has the fingerprint of the token: the secret never reaches a node that presents another
  certificate, and nothing is sent when the token cannot be decoded.
\<close>

theorem worker_secret_pinned:
  "A_requests (fst (onBootstrapWorkerNode env net tj encodedToken a w)) = A_requests w \<or>
   (\<exists>token address cert. Token_Decode tj encodedToken = Inr token \<and> address \<in> set (WN_JoinAddresses token) \<and>
      GetRemoteCertificate net address = Inr cert \<and> CertFingerprint net cert = WN_Fingerprint token \<and>
      A_requests (fst (onBootstrapWorkerNode env net tj encodedToken a w)) =
        A_requests w @ [(address, X_name env, WN_Secret token)])"
proof (cases "\<exists>token nodeIP nodeIPs address. Token_Decode tj encodedToken = Inr token \<and> WN_JoinAddresses token \<noteq> [] \<and>
    nodeAddresses ''failed to parse node IP address %s'' env = Inr (nodeIP, nodeIPs) \<and> trustedAddress net token = Inr address")
  case True
  then obtain token nodeIP nodeIPs address where t: "Token_Decode tj encodedToken = Inr token" "WN_JoinAddresses token \<noteq> []"
    and n: "nodeAddresses ''failed to parse node IP address %s'' env = Inr (nodeIP, nodeIPs)" and ad: "trustedAddress net token = Inr address"
    by blast
  obtain cert where c: "address \<in> set (WN_JoinAddresses token)" "GetRemoteCertificate net address = Inr cert"
    "CertFingerprint net cert = WN_Fingerprint token"
    using trustedAddress_pinned [OF ad] by metis
  let ?ask = "requestWorkerInfo net (X_name env) token nodeIP address w"
  have "asked (A_requests (fst ?ask)) (fst (tryPass ?ask (\<lambda>w info. installWorker env a nodeIPs info w)))"
    by (rule tryPass_keeps) (simp_all add: asked_def installWorker_asked [unfolded asked_def])
  then have "A_requests (fst (onBootstrapWorkerNode env net tj encodedToken a w)) = A_requests (fst ?ask)"
    using t by (simp add: onBootstrapWorkerNode_def n ad asked_def)
  then show ?thesis
    using requestWorkerInfo_asked [of net "X_name env" token nodeIP address w] t c by auto
next
  case False
  then have "A_requests (fst (onBootstrapWorkerNode env net tj encodedToken a w)) = A_requests w"
    by (cases "Token_Decode tj encodedToken"; cases "nodeAddresses ''failed to parse node IP address %s'' env")
      (auto simp: onBootstrapWorkerNode_def tryPass_def split: sum.splits prod.splits)
  then show ?thesis ..
qed

section \<open>What a bootstrap stores\<close>

definition sameStore :: "World \<Rightarrow> World \<Rightarrow> bool" where
  "sameStore w w' \<longleftrightarrow> A_db w' = A_db w \<and> A_signals w' = A_signals w"

lemma sameStore_frame [simp]:
  "sameStore w w" "sameStore w (fst (onMachine f w')) \<longleftrightarrow> sameStore w w'" "sameStore w (fst (onRand g w')) \<longleftrightarrow> sameStore w w'"
  "sameStore w (systemTuning env b w') \<longleftrightarrow> sameStore w w'"
  by (simp_all add: sameStore_def)

lemmas sameStore_keeps = tryStep_keeps [where P = "sameStore w" for w] tryPass_keeps [where P = "sameStore w" for w]

lemma configureServices_store: "sameStore w w' \<Longrightarrow> sameStore w (fst (configureServices env nodeIP nodeIPs cfg a w'))"
  unfolding configureServices_def Let_def by (intro sameStore_keeps) simp_all

lemma startServices_store: "sameStore w w' \<Longrightarrow> sameStore w (fst (startServices env cfg w'))"
  unfolding startServices_def by (intro sameStore_keeps) simp_all

lemma writeEtcdPKI_store: "sameStore w w' \<Longrightarrow> sameStore w (fst (writeEtcdPKI env c w'))"
  unfolding writeEtcdPKI_def by (intro sameStore_keeps) simp_all

lemma writeExternalPKI_store: "sameStore w w' \<Longrightarrow> sameStore w (fst (writeExternalPKI cfg w'))"
  unfolding writeExternalPKI_def by (intro sameStore_keeps) simp_all

lemma bootstrapDatastorePKI_store: "sameStore w w' \<Longrightarrow> sameStore w (fst (bootstrapDatastorePKI env a nodeIP cfg w'))"
  unfolding bootstrapDatastorePKI_def
  by (auto intro!: sameStore_keeps simp: writeEtcdPKI_store writeExternalPKI_store)

lemma bootstrapControlPlanePKI_store: "sameStore w w' \<Longrightarrow> sameStore w (fst (bootstrapControlPlanePKI env a nodeIP ips w'))"
  unfolding bootstrapControlPlanePKI_def by (intro sameStore_keeps) simp_all

lemma bootstrapDatastorePKI_config:
  "bootstrapDatastorePKI env a nodeIP cfg w = (w', Inr cfg') \<Longrightarrow> \<exists>ds. cfg' = cfg\<lparr>CC_Datastore := ds\<rparr>"
proof -
  assume ok: "bootstrapDatastorePKI env a nodeIP cfg w = (w', Inr cfg')"
  have same: "cfg = cfg\<lparr>CC_Datastore := CC_Datastore cfg\<rparr>" by simp
  consider "datastoreType cfg = ''etcd''" | "datastoreType cfg = ''external''" "datastoreType cfg \<noteq> ''etcd''"
    using ok by (cases "datastoreType cfg = ''etcd''"; cases "datastoreType cfg = ''external''")
      (simp_all only: bootstrapDatastorePKI_def if_True if_False prod.inject sum.distinct simp_thms)
  then show ?thesis
  proof cases
    case 1
    then show ?thesis using ok by (simp only: bootstrapDatastorePKI_def simp_thms if_True tryPass_ok_iff prod.inject sum.inject) blast
  next
    case 2
    then have "cfg' = cfg" using ok by (auto simp: bootstrapDatastorePKI_def tryPass_ok_iff)
    then show ?thesis using same by blast
  qed
qed

lemma bootstrapControlPlanePKI_complete:
  "bootstrapControlPlanePKI env a nodeIP ips w = (w', Inr c) \<Longrightarrow>
     \<exists>c0 n n'. CompleteCertificates (X_crypto env) (X_interfaceAddrs env) c0 n = (n', Inr c)"
  by (auto simp: bootstrapControlPlanePKI_def tryStep_ok_iff onRand_def split: prod.splits)

text \<open>Transactions commit only when they succeed.\<close>

lemma writeBootstrapConfig_cases:
  obtains e where "writeBootstrapConfig env cfg w = (w, Inl e)"
  | db stored where "SetClusterConfig (X_extern env) (X_json env) cfg (A_db w) = (db, Inr stored)" "writeBootstrapConfig env cfg w = (w\<lparr>A_db := db\<rparr>, ok)"
proof -
  obtain db r where r: "SetClusterConfig (X_extern env) (X_json env) cfg (A_db w) = (db, r)" by force
  show thesis
    using that r by (cases r) (simp_all add: writeBootstrapConfig_def onStore_def Transaction_def)
qed

text \<open>The configuration of the bootstrap is in the database.\<close>

definition committed :: "'key hookEnv \<Rightarrow> ClusterConfig \<Rightarrow> DB \<Rightarrow> DB \<Rightarrow> bool" where
  "committed env cfg db db' \<longleftrightarrow>
     (\<exists>stored. SetClusterConfig (X_extern env) (X_json env) cfg db = (db', Inr stored))"

definition featureChannels :: "ClusterConfig \<Rightarrow> (bool \<times> string) list" where
  "featureChannels cfg =
     [(getBool (Network_Enabled (CC_Network cfg)), ''network''), (getBool (Gateway_Enabled (CC_Gateway cfg)), ''gateway''),
      (getBool (Ingress_Enabled (CC_Ingress cfg)), ''ingress''), (getBool (LoadBalancer_Enabled (CC_LoadBalancer cfg)), ''load-balancer''),
      (getBool (LocalStorage_Enabled (CC_LocalStorage cfg)), ''local-storage''),
      (getBool (MetricsServer_Enabled (CC_MetricsServer cfg)), ''metrics-server''), (getBool (DNS_Enabled (CC_DNS cfg)), ''dns'')]"

lemma notify_fold:
  "A_db (foldl (\<lambda>w (b, ch). if b then notify ch w else w) w xs) = A_db w \<and>
   (A_signals (foldl (\<lambda>w (b, ch). if b then notify ch w else w) w xs) c \<longleftrightarrow> A_signals w c \<or> (True, c) \<in> set xs)"
proof (induction xs arbitrary: w)
  case (Cons x xs)
  obtain b ch where x: "x = (b, ch)" by (cases x)
  show ?case
    using Cons.IH [of "notify ch w"] Cons.IH [of w]
    by (cases b) (simp_all add: x notify_def MaybeNotify_def)
qed simp

lemma notifyBootstrapped_effect:
  "A_db (notifyBootstrapped cfg w) = A_db w"
  "A_signals (notifyBootstrapped cfg w) c \<longleftrightarrow> A_signals w c \<or> c = ''update-node-config'' \<or> (True, c) \<in> set (featureChannels cfg)"
  using notify_fold [of w "featureChannels cfg" c]
  by (simp_all only: notifyBootstrapped_def NotifyUpdateNodeConfigController_def NotifyFeatureController_def featureChannels_def)
    (auto simp: notify_def MaybeNotify_def)

text \<open>\<open>A\<close> holds when a step succeeds, \<open>B\<close> when it fails; \<open>I\<close> is what holds in between.\<close>

definition outcome :: "('s \<Rightarrow> bool) \<Rightarrow> ('s \<Rightarrow> bool) \<Rightarrow> ('s, 'a) step \<Rightarrow> bool" where
  "outcome A B r \<longleftrightarrow> (case r of (s, Inr _) \<Rightarrow> A s | (s, Inl _) \<Rightarrow> B s)"

lemma outcome_tryStep:
  "I (fst r) \<Longrightarrow> (\<And>s. I s \<Longrightarrow> B s) \<Longrightarrow> (\<And>s x. r = (s, Inr x) \<Longrightarrow> I s \<Longrightarrow> outcome A B (k s x)) \<Longrightarrow> outcome A B (tryStep r f a k)"
  by (cases r; cases "snd r") (auto simp: outcome_def)

lemma outcome_tryPass:
  "I (fst r) \<Longrightarrow> (\<And>s. I s \<Longrightarrow> B s) \<Longrightarrow> (\<And>s x. r = (s, Inr x) \<Longrightarrow> I s \<Longrightarrow> outcome A B (k s x)) \<Longrightarrow> outcome A B (tryPass r k)"
  by (cases r; cases "snd r") (auto simp: outcome_def)

text \<open>What a bootstrap with configuration \<open>cfg\<close> leaves when it succeeds and when it fails.\<close>

definition storeDone :: "'key hookEnv \<Rightarrow> ClusterConfig \<Rightarrow> World \<Rightarrow> World \<Rightarrow> bool" where
  "storeDone env cfg w w' \<longleftrightarrow> committed env cfg (A_db w) (A_db w') \<and>
     (\<forall>c. A_signals w' c \<longleftrightarrow> A_signals w c \<or> c = ''update-node-config'' \<or> (True, c) \<in> set (featureChannels cfg))"

definition storeFailed :: "'key hookEnv \<Rightarrow> ClusterConfig \<Rightarrow> World \<Rightarrow> World \<Rightarrow> bool" where
  "storeFailed env cfg w w' \<longleftrightarrow> A_signals w' = A_signals w \<and> (A_db w' = A_db w \<or> committed env cfg (A_db w) (A_db w'))"

definition storeCommitted :: "'key hookEnv \<Rightarrow> ClusterConfig \<Rightarrow> World \<Rightarrow> World \<Rightarrow> bool" where
  "storeCommitted env cfg w w' \<longleftrightarrow> A_signals w' = A_signals w \<and> committed env cfg (A_db w) (A_db w')"

lemma store_weaken: "sameStore w s \<Longrightarrow> storeFailed env cfg w s" "storeCommitted env cfg w s \<Longrightarrow> storeFailed env cfg w s"
  by (simp_all add: sameStore_def storeFailed_def storeCommitted_def)

lemma storeCommitted_frame [simp]: "storeCommitted env cfg w (fst (onMachine f w')) \<longleftrightarrow> storeCommitted env cfg w w'"
  by (simp add: storeCommitted_def)

lemma storeCommitted_start: "storeCommitted env cfg w w' \<Longrightarrow> storeCommitted env cfg w (fst (startServices env cfg w'))"
  unfolding startServices_def by (intro tryStep_keeps [where P = "storeCommitted env cfg w"]) simp_all

lemma bootstrapConfigure_store: "sameStore w w' \<Longrightarrow> sameStore w (fst (bootstrapConfigure env a nodeIP nodeIPs c cfg w'))"
  unfolding bootstrapConfigure_def Let_def
  by (intro sameStore_keeps) (auto intro!: sameStore_keeps simp: configureServices_store)

lemma bootstrapCommit_store:
  assumes "sameStore w0 w"
  shows "outcome (storeDone env cfg w0) (storeFailed env cfg w0) (bootstrapCommit env cfg w)"
proof (cases rule: writeBootstrapConfig_cases [of env cfg w])
  case (1 e)
  then show ?thesis using assms by (simp add: bootstrapCommit_def outcome_def store_weaken)
next
  case (2 db stored)
  let ?I = "storeCommitted env cfg w0"
  have I: "?I (w\<lparr>A_db := db\<rparr>)" using 2(1) assms by (auto simp: storeCommitted_def committed_def sameStore_def)
  show ?thesis
    unfolding bootstrapCommit_def 2(2) tryPass_simps
  proof (rule outcome_tryStep [where I = ?I], goal_cases)
    case (3 s x)
    show ?case
    proof (rule outcome_tryPass [where I = ?I], goal_cases)
      case (3 s x)
      show ?case
        by (rule outcome_tryStep [where I = ?I])
          (use 3 in \<open>auto simp: store_weaken outcome_def storeDone_def storeCommitted_def notifyBootstrapped_effect\<close>)
    qed (use 3 in \<open>simp_all add: storeCommitted_start store_weaken\<close>)
  qed (use I in \<open>simp_all add: store_weaken\<close>)
qed

text \<open>
  A stored configuration that belongs to a bootstrap configuration: it is valid, no field the user or the defaults set is
  lost, and the certificate authorities and the service account key are there.
\<close>

definition bootstrapStored :: "'key hookEnv \<Rightarrow> ClusterConfig \<Rightarrow> ClusterConfig \<Rightarrow> bool" where
  "bootstrapStored env cfg stored \<longleftrightarrow> Validate (X_extern env) stored = ok \<and>
     overrideAPIServer (CC_APIServer stored) (CC_APIServer cfg) = CC_APIServer stored \<and>
     overrideKubelet (CC_Kubelet stored) (CC_Kubelet cfg) = CC_Kubelet stored \<and>
     overrideNetwork (CC_Network stored) (CC_Network cfg) = CC_Network stored \<and>
     overrideDNS (CC_DNS stored) (CC_DNS cfg) = CC_DNS stored \<and>
     overrideLoadBalancer (CC_LoadBalancer stored) (CC_LoadBalancer cfg) = CC_LoadBalancer stored \<and>
     getStr (Certificates_CACert (CC_Certificates stored)) \<noteq> [] \<and> getStr (Certificates_ClientCACert (CC_Certificates stored)) \<noteq> [] \<and>
     getStr (Certificates_FrontProxyCACert (CC_Certificates stored)) \<noteq> [] \<and>
     getStr (Certificates_ServiceAccountKey (CC_Certificates stored)) \<noteq> []"

lemma override_again [simp]: "override (override a b) b = override a b"
  by (simp add: override_def split: option.splits)

lemma committed_stored:
  assumes json: "\<And>c s. jsonMarshal (X_json env) c = Inr s \<Longrightarrow> jsonUnmarshal (X_json env) s = Inr c" and pem: "pemNonEmpty (X_crypto env)"
    and c: "CompleteCertificates (X_crypto env) (X_interfaceAddrs env) c0 n = (n', Inr c)"
    and com: "committed env (withCertificates c (cfg\<lparr>CC_Datastore := ds\<rparr>)) db db'"
  shows "\<exists>stored. GetClusterConfig (X_json env) db' = Inr stored \<and> bootstrapStored env cfg stored"
proof -
  let ?new = "withCertificates c (cfg\<lparr>CC_Datastore := ds\<rparr>)"
  obtain stored where st: "SetClusterConfig (X_extern env) (X_json env) ?new db = (db', Inr stored)"
    using com unfolding committed_def by blast
  then obtain old where m: "MergeClusterConfig (X_extern env) old ?new = Inr stored"
    by (auto simp: SetClusterConfig_ok_iff)
  have v: "Validate (X_extern env) stored = ok" and o: "stored = overrideConfig old ?new"
    using m unfolding MergeClusterConfig_char by blast+
  have ca: "CACert c \<noteq> []" "ClientCACert c \<noteq> []" "FrontProxyCACert c \<noteq> []" "ServiceAccountKey c \<noteq> []"
    using CompleteCertificates_pairs [OF pem c] by (simp_all add: caPairs_def)
  have "bootstrapStored env cfg stored"
    unfolding bootstrapStored_def using v unfolding o
    by (simp add: override_defs withCertificates_def) (simp add: override_def ca)
  moreover have "jsonOK (X_json env) stored" using st json by (auto simp: SetClusterConfig_ok_iff jsonOK_def)
  ultimately show ?thesis using GetClusterConfig_after_set [OF st] by blast
qed

lemma bootstrapCluster_cases:
  assumes s: "sameStore w w0"
  obtains w1 e where "bootstrapCluster env a nodeIP nodeIPs ips cfg w0 = (w1, Inl e)" "sameStore w w1"
  | ds c0 n n' c w1 where
      "CompleteCertificates (X_crypto env) (X_interfaceAddrs env) c0 n = (n', Inr c)" "sameStore w w1"
      "bootstrapCluster env a nodeIP nodeIPs ips cfg w0 = bootstrapCommit env (withCertificates c (cfg\<lparr>CC_Datastore := ds\<rparr>)) w1"
proof -
  obtain w1 r1 where r1: "bootstrapDatastorePKI env a nodeIP cfg w0 = (w1, r1)" by force
  have s1: "sameStore w w1" using bootstrapDatastorePKI_store [OF s, of env a nodeIP cfg] by (simp add: r1)
  show thesis
  proof (cases r1)
    case (Inl e)
    then show thesis using that(1) s1 by (simp add: bootstrapCluster_def r1)
  next
    case (Inr cfg1)
    obtain ds where ds: "cfg1 = cfg\<lparr>CC_Datastore := ds\<rparr>" using bootstrapDatastorePKI_config r1 Inr by blast
    obtain w2 r2 where r2: "bootstrapControlPlanePKI env a nodeIP ips w1 = (w2, r2)" by force
    have s2: "sameStore w w2" using bootstrapControlPlanePKI_store [OF s1, of env a nodeIP ips] by (simp add: r2)
    show thesis
    proof (cases r2)
      case (Inl e)
      then show thesis using that(1) s2 Inr by (simp add: bootstrapCluster_def r1 r2 \<open>r1 = Inr cfg1\<close>)
    next
      case c: (Inr c)
      obtain c0 n n' where cc: "CompleteCertificates (X_crypto env) (X_interfaceAddrs env) c0 n = (n', Inr c)"
        using bootstrapControlPlanePKI_complete r2 c by blast
      obtain w3 r3 where r3: "bootstrapConfigure env a nodeIP nodeIPs c (withCertificates c cfg1) w2 = (w3, r3)" by force
      have s3: "sameStore w w3"
        using bootstrapConfigure_store [OF s2, of env a nodeIP nodeIPs c "withCertificates c cfg1"] by (simp add: r3)
      show thesis
        using that(1) [of w3] that(2) [OF cc s3, of ds] s3
        by (cases r3) (simp_all add: bootstrapCluster_def r1 r2 r3 Inr c Let_def ds [symmetric])
    qed
  qed
qed

text \<open>The hook up to the point where the configuration is known, and from there on.\<close>

lemma onBootstrapControlPlane_cases:
  obtains w1 e where "onBootstrapControlPlane env b a w = (w1, Inl e)" "sameStore w w1"
  | cfg ds c0 n n' c w1 where "bootstrapValidConfig env b = Inr cfg"
      "CompleteCertificates (X_crypto env) (X_interfaceAddrs env) c0 n = (n', Inr c)" "sameStore w w1"
      "onBootstrapControlPlane env b a w = bootstrapCommit env (withCertificates c (cfg\<lparr>CC_Datastore := ds\<rparr>)) w1"
proof -
  let ?dirs = "onMachine (EnsureAllDirectories (X_tmp env) (X_snap env)) w"
  show thesis
  proof (cases "bootstrapValidConfig env b")
    case (Inl e)
    then show thesis using that(1) by (simp add: onBootstrapControlPlane_def)
  next
    case cfg: (Inr cfg)
    show thesis
    proof (cases "nodeAddresses ''failed to parse node IP address %q'' env")
      case (Inl e)
      then show thesis using that(1) cfg by (simp add: onBootstrapControlPlane_def)
    next
      case ad: (Inr x)
      obtain nodeIP nodeIPs where x: "x = (nodeIP, nodeIPs)" by (cases x)
      obtain w2 r2 where d: "?dirs = (w2, r2)" by force
      have s2: "sameStore w w2" using sameStore_frame (2) [of w "EnsureAllDirectories (X_tmp env) (X_snap env)" w] by (simp add: d)
      let ?w3 = "systemTuning env (NA_DisableSystemTuning a) w2"
      have s3: "sameStore w ?w3" using s2 by simp
      show thesis
      proof (cases "r2 = ok \<and> (\<exists>ips. GetKubernetesServiceIPsFromServiceCIDRs (getStr (Network_ServiceCIDR (CC_Network cfg))) = Inr ips)")
        case False
        then show thesis
          using that(1) s2 s3
          by (cases r2; cases "GetKubernetesServiceIPsFromServiceCIDRs (getStr (Network_ServiceCIDR (CC_Network cfg)))")
            (simp_all add: onBootstrapControlPlane_def cfg ad x d)
      next
        case True
        then obtain ips where ips: "GetKubernetesServiceIPsFromServiceCIDRs (getStr (Network_ServiceCIDR (CC_Network cfg))) = Inr ips"
          by blast
        have eq: "onBootstrapControlPlane env b a w = bootstrapCluster env a nodeIP nodeIPs ips cfg ?w3"
          using True by (simp add: onBootstrapControlPlane_def cfg ad x d ips Let_def)
        show thesis
          by (rule bootstrapCluster_cases [OF s3, of env a nodeIP nodeIPs ips cfg]) (use that cfg eq in simp_all)
      qed
    qed
  qed
qed


section \<open>A sample node\<close>

definition sampleHook :: "string \<Rightarrow> unit hookEnv" where
  "sampleHook hostname =
     \<lparr>X_name = ''n1'', X_hostname = hostname, X_webhookURL = ''https://10.0.0.1:6400/1.0/kubernetes/auth/webhook'', X_snap = sampleSnap,
      X_crypto = sampleCrypto, X_interfaceAddrs = Inr [], X_interfaces = Inr [], X_localhost = Inl noAddresses,
      X_kubeconfig = sampleIO, X_snapd = sampleSnapdIO,
      X_json = \<lparr>jsonMarshal = (\<lambda>c. if c = sampleConfig then Inr ''{}'' else Inl noAddresses), jsonUnmarshal = (\<lambda>_. Inr sampleConfig)\<rparr>,
      X_extern = sampleExtern, X_getters = sampleGetters, X_containerd = sampleLib, X_portOrder = (\<lambda>m. m), X_portOpen = (\<lambda>_. Inr False),
      X_webhookTemplate = (\<lambda>_ _. Inr ''webhook''), X_endpointsJson = (\<lambda>_. Inr ''endpoints''), X_confinement = (\<lambda>_. Inr ''classic''),
      X_readDir = (\<lambda>_ _. Inr []), X_tmp = ''/tmp'', X_ctxDone = (\<lambda>_. False), X_kubernetesClient = ok, X_endpointReady = ok\<rparr>"

definition sampleWorld :: World where
  "sampleWorld = \<lparr>A_machine = sampleMachine, A_db = sampleDB, A_rand = 0, A_signals = (\<lambda>_. False), A_requests = []\<rparr>"

definition sampleArgs :: nodeArgs where
  "sampleArgs = \<lparr>NA_ExtraSANs = [], NA_DisableSystemTuning = True, NA_PKI = samplePKI, NA_Etcd = sampleEtcdPKI, NA_EtcdArgs = [],
     NA_ContainerdConfig = HNull, NA_ContainerdArgs = [], NA_KubeletArgs = [], NA_KubeProxyArgs = [], NA_ControllerManagerArgs = [],
     NA_SchedulerArgs = [], NA_APIServerArgs = [], NA_ConfigFiles = []\<rparr>"


end
