(* ===== verification/Join.thy ===== *)
theory Join
  imports Bootstrap UpgradeLife
begin

text \<open>
  A control plane node that joins a cluster (\<open>pkg/k8sd/app/hooks_join.go\<close>), with the etcd client
  (\<open>pkg/client/etcd\<close>) and the deletion of a Kubernetes node (\<open>pkg/client/kubernetes/node.go\<close>).

  The node is added to the etcd cluster as a learner, started, and promoted to a voting member. When a later step
  fails, the functions registered with the reverter run, the last one registered first: they delete the Kubernetes
  node and remove the member from the etcd cluster. The etcd cluster itself is a parameter: its state is of type
  \<open>'e\<close> and its operations are the fields of \<open>etcdOps\<close>. \<open>J_log\<close> records in which order the hook changed the membership and
  started and stopped the local etcd.
\<close>

section \<open>The etcd client\<close>

record EtcdMember =
  EM_ID :: "64 word"
  EM_Name :: string
  EM_PeerURLs :: "string list"
  EM_IsLearner :: bool

record 'e etcdOps =
  loadTLSConfig :: "Host \<Rightarrow> string \<Rightarrow> string \<Rightarrow> string \<Rightarrow> unit res"
  clientNew :: "string list \<Rightarrow> unit res"
  memberList :: "'e \<Rightarrow> ('e, EtcdMember list) step"
  memberAddAsLearner :: "string list \<Rightarrow> 'e \<Rightarrow> ('e, 64 word \<times> EtcdMember list) step"
  memberPromote :: "64 word \<Rightarrow> 'e \<Rightarrow> ('e, unit) step"
  memberRemove :: "64 word \<Rightarrow> 'e \<Rightarrow> ('e, unit) step"
  notEnoughStarted :: "error \<Rightarrow> bool"

definition etcd_NewClient :: "'e etcdOps \<Rightarrow> string \<Rightarrow> string list \<Rightarrow> Host \<Rightarrow> unit res" where
  "etcd_NewClient ops pkiDir endpoints h =
     (case loadTLSConfig ops h (pkiDir @ ''/server.crt'') (pkiDir @ ''/server.key'') (pkiDir @ ''/ca.crt'') of
        Inl e \<Rightarrow> Inl (Wrapf ''failed to load TLS config: %w'' [] e)
      | Inr _ \<Rightarrow> (case clientNew ops endpoints of
          Inl e \<Rightarrow> Inl (Wrapf ''failed to create etcd client: %w'' [] e)
        | Inr _ \<Rightarrow> ok))"

text \<open>The member of a given name is found by the loop; the identifier zero stands for none.\<close>

fun findMemberID :: "string \<Rightarrow> EtcdMember list \<Rightarrow> 64 word" where
  "findMemberID name [] = 0"
| "findMemberID name (m # ms) = (if EM_Name m = name then EM_ID m else findMemberID name ms)"

definition RemoveNodeByName :: "'e etcdOps \<Rightarrow> string \<Rightarrow> 'e \<Rightarrow> ('e, unit) step" where
  "RemoveNodeByName ops name e =
     tryStep (memberList ops e) ''failed to list etcd members: %w'' [] (\<lambda>e members.
     let memberID = findMemberID name members in
     if memberID = 0 then (e, Inl (Errorf ''no etcd member found with name: %s'' [name]))
     else tryStep (memberRemove ops memberID e) ''failed to remove etcd member: %w'' [] (\<lambda>e _. (e, ok)))"

section \<open>Deleting a Kubernetes node\<close>

text \<open>
  \<open>retry.OnError\<close> with a backoff of \<open>steps\<close> attempts: a conflict is always tried again, an internal error while the
  counter is at most five; a node that does not exist is no error.
\<close>

definition deleteNodeRequest :: "string \<Rightarrow> Kube \<Rightarrow> (Kube, unit) step" where
  "deleteNodeRequest name = request (\<lambda>k.
     if findNode name k = None then (k, Inl ErrNotFound)
     else (k\<lparr>K_nodes := filter (\<lambda>n. Node_Name n \<noteq> name) (K_nodes k)\<rparr>, ok))"

fun deleteNodeLoop ::
  "(error \<Rightarrow> bool) \<Rightarrow> (error \<Rightarrow> bool) \<Rightarrow> string \<Rightarrow> nat \<Rightarrow> nat \<Rightarrow> unit res \<Rightarrow> Kube \<Rightarrow> (Kube, unit) step"
where
  "deleteNodeLoop isConflict isInternal name 0 tries lastErr k = (k, lastErr)"
| "deleteNodeLoop isConflict isInternal name (Suc n) tries lastErr k =
     (case deleteNodeRequest name k of
        (k, Inr _) \<Rightarrow> (k, ok)
      | (k, Inl e) \<Rightarrow>
          if IsNotFound e then (k, ok)
          else (let err = Inl (Wrapf ''failed to delete node: %w'' [] e) in
                if isConflict e then deleteNodeLoop isConflict isInternal name n tries err k
                else if isInternal e \<and> Suc tries \<le> 5 then deleteNodeLoop isConflict isInternal name n (Suc tries) err k
                else (k, err)))"

definition DeleteNode :: "(error \<Rightarrow> bool) \<Rightarrow> (error \<Rightarrow> bool) \<Rightarrow> nat \<Rightarrow> string \<Rightarrow> Kube \<Rightarrow> (Kube, unit) step" where
  "DeleteNode isConflict isInternal steps name k = deleteNodeLoop isConflict isInternal name steps 0 ok k"

section \<open>The state of a join\<close>

datatype etcdEvent =
    MemberAdded "64 word" | MemberPromoted "64 word" | MemberRemoved "64 word" | EtcdStarted | EtcdStopped

record reverter =
  RV_learner :: "64 word option"
  RV_endpoints :: "string list"
  RV_promoted :: bool
  RV_started :: bool
  RV_node :: bool

record 'e JoinState =
  J_world :: World
  J_kube :: Kube
  J_etcd :: 'e
  J_log :: "etcdEvent list"
  J_revert :: reverter

text \<open>A member of the microcluster with its address and port.\<close>

record clusterMember =
  CM_Name :: string
  CM_Address :: string
  CM_Port :: int
  CM_Role :: string

text \<open>What the hook reads besides the environment of every hook.\<close>

record ('e, 'v) joinEnv =
  Z_etcd :: "'e etcdOps"
  Z_k8sdClient :: "unit res"
  Z_members :: "clusterMember list res"
  Z_versions :: "'v versionOps"
  Z_revision :: "string res"
  Z_nodeVersion :: "'v res"
  Z_disableSeparateFeatureUpgrades :: string
  Z_isConflict :: "error \<Rightarrow> bool"
  Z_isInternal :: "error \<Rightarrow> bool"
  Z_deleteSteps :: nat
  Z_applyCRDs :: "Kube \<Rightarrow> (Kube, unit) step"
  Z_promoteDone :: "nat \<Rightarrow> bool"

definition noRevert :: reverter where
  "noRevert = \<lparr>RV_learner = None, RV_endpoints = [], RV_promoted = False, RV_started = False, RV_node = False\<rparr>"

definition onWorld :: "(World \<Rightarrow> (World, 'a) step) \<Rightarrow> 'e JoinState \<Rightarrow> ('e JoinState, 'a) step" where
  "onWorld f st = (case f (J_world st) of (w, r) \<Rightarrow> (st\<lparr>J_world := w\<rparr>, r))"

definition onKubernetes :: "(Kube \<Rightarrow> (Kube, 'a) step) \<Rightarrow> 'e JoinState \<Rightarrow> ('e JoinState, 'a) step" where
  "onKubernetes f st = (case f (J_kube st) of (k, r) \<Rightarrow> (st\<lparr>J_kube := k\<rparr>, r))"

definition onEtcd :: "('e \<Rightarrow> ('e, 'a) step) \<Rightarrow> 'e JoinState \<Rightarrow> ('e JoinState, 'a) step" where
  "onEtcd f st = (case f (J_etcd st) of (e, r) \<Rightarrow> (st\<lparr>J_etcd := e\<rparr>, r))"

definition logEvent :: "etcdEvent \<Rightarrow> 'e JoinState \<Rightarrow> 'e JoinState" where
  "logEvent ev st = st\<lparr>J_log := J_log st @ [ev]\<rparr>"

section \<open>Reverting a failed join\<close>

definition removeMember :: "('e, 'v) joinEnv \<Rightarrow> 64 word \<Rightarrow> 'e JoinState \<Rightarrow> 'e JoinState" where
  "removeMember z learnerID st =
     (let endpoints = RV_endpoints (J_revert st) in
      if endpoints = [] then st
      else (case etcd_NewClient (Z_etcd z) snapEtcdPKIDir endpoints (M_host (A_machine (J_world st))) of
              Inl _ \<Rightarrow> st
            | Inr _ \<Rightarrow>
                (case onEtcd (memberRemove (Z_etcd z) learnerID) st of
                   (st, Inl _) \<Rightarrow> st
                 | (st, Inr _) \<Rightarrow> logEvent (MemberRemoved learnerID) st)))"

definition stopLocalEtcd :: "'e JoinState \<Rightarrow> 'e JoinState" where
  "stopLocalEtcd st =
     (case onWorld (onNode (\<lambda>h. StopEtcdServices h [])) st of
        (st, Inl _) \<Rightarrow> st
      | (st, Inr _) \<Rightarrow> logEvent EtcdStopped st)"

definition revertEtcd :: "'key hookEnv \<Rightarrow> ('e, 'v) joinEnv \<Rightarrow> 64 word \<Rightarrow> 'e JoinState \<Rightarrow> 'e JoinState" where
  "revertEtcd env z learnerID st =
     (let promoted = RV_promoted (J_revert st);
          st = (if promoted then removeMember z learnerID st else st);
          st = (if RV_started (J_revert st) then stopLocalEtcd st else st);
          st = (if \<not> promoted then removeMember z learnerID st else st)
      in fst (onWorld (onMachine (RemoveAll (EtcdDir (X_snap env)))) st))"

definition revertNode :: "'key hookEnv \<Rightarrow> ('e, 'v) joinEnv \<Rightarrow> 'e JoinState \<Rightarrow> 'e JoinState" where
  "revertNode env z st =
     fst (onKubernetes (DeleteNode (Z_isConflict z) (Z_isInternal z) (Z_deleteSteps z) (X_name env)) st)"

text \<open>\<open>reverter.Fail\<close> runs the functions in the reverse order of their registration.\<close>

definition reverterFail :: "'key hookEnv \<Rightarrow> ('e, 'v) joinEnv \<Rightarrow> 'e JoinState \<Rightarrow> 'e JoinState" where
  "reverterFail env z st =
     (let st = (if RV_node (J_revert st) then revertNode env z st else st)
      in case RV_learner (J_revert st) of None \<Rightarrow> st | Some learnerID \<Rightarrow> revertEtcd env z learnerID st)"

text \<open>
  \<open>registerEtcdMemberReverter\<close>, the variant that removes by name: a voting member is removed only when more than two
  endpoints are left, a learner when there is one.
\<close>

definition etcdMemberReverter ::
  "'key hookEnv \<Rightarrow> ('e, 'v) joinEnv \<Rightarrow> string \<Rightarrow> string list \<Rightarrow> bool \<Rightarrow> 'e JoinState \<Rightarrow> 'e JoinState"
where
  "etcdMemberReverter env z nodeName endpoints isLearner st =
     (if isLearner \<and> 0 < length endpoints \<or> \<not> isLearner \<and> 2 < length endpoints then
        (case etcd_NewClient (Z_etcd z) snapEtcdPKIDir endpoints (M_host (A_machine (J_world st))) of
           Inl _ \<Rightarrow> st
         | Inr _ \<Rightarrow>
             (case onEtcd (RemoveNodeByName (Z_etcd z) nodeName) st of
                (st, Inl _) \<Rightarrow> st
              | (st, Inr _) \<Rightarrow> fst (onWorld (onMachine (RemoveAll (EtcdDir (X_snap env)))) st)))
      else st)"

section \<open>Joining the etcd cluster\<close>

definition joinEndpoints :: "string \<Rightarrow> int \<Rightarrow> clusterMember list \<Rightarrow> string list" where
  "joinEndpoints self port members =
     map (\<lambda>m. ''https://'' @ JoinHostPortInt (CM_Address m) port) (filter (\<lambda>m. CM_Name m \<noteq> self) members)"

fun initialClusterLoop :: "EtcdMember list \<Rightarrow> string gomap \<Rightarrow> string gomap" where
  "initialClusterLoop [] acc = acc"
| "initialClusterLoop (m # ms) acc =
     (case EM_PeerURLs m of
        [] \<Rightarrow> initialClusterLoop ms acc
      | url # _ \<Rightarrow> if EM_Name m = [] then initialClusterLoop ms acc else initialClusterLoop ms (AList.update (EM_Name m) url acc))"

definition buildInitialClusterMembers :: "EtcdMember list \<Rightarrow> string gomap" where
  "buildInitialClusterMembers members = initialClusterLoop members []"

definition addLearner :: "'key hookEnv \<Rightarrow> ('e, 'v) joinEnv \<Rightarrow> string list \<Rightarrow> string \<Rightarrow> 'e JoinState \<Rightarrow> ('e JoinState, 64 word \<times> EtcdMember list) step" where
  "addLearner env z endpoints peerURL st =
     (case onEtcd (memberAddAsLearner (Z_etcd z) [peerURL]) st of
        (st, Inl e) \<Rightarrow>
          (st, Inl (if notEnoughStarted (Z_etcd z) e
             then Errorf ''failed to add learner member %s to etcd cluster: cluster is unhealthy or another node is currently joining the cluster'' [X_name env]
             else Wrapf ''failed to add learner member %s to etcd cluster: %w'' [X_name env] e))
      | (st, Inr (learnerID, members)) \<Rightarrow>
          (logEvent (MemberAdded learnerID)
             (st\<lparr>J_revert := (J_revert st)\<lparr>RV_learner := Some learnerID, RV_endpoints := endpoints\<rparr>\<rparr>), Inr (learnerID, members)))"

definition promoteLearner :: "'key hookEnv \<Rightarrow> ('e, 'v) joinEnv \<Rightarrow> 64 word \<Rightarrow> 'e JoinState \<Rightarrow> ('e JoinState, unit) step" where
  "promoteLearner env z learnerID st =
     tryStep (onEtcd (RetryFor (Z_promoteDone z) 30 (\<lambda>e.
         tryStep (memberPromote (Z_etcd z) learnerID e) ''failed to promote etcd learner %s (ID: %d): %w'' [X_name env]
           (\<lambda>e _. (e, ok)))) st)
       ''failed to promote etcd learner after retries: %w'' [] (\<lambda>st _.
     (logEvent (MemberPromoted learnerID) (st\<lparr>J_revert := (J_revert st)\<lparr>RV_promoted := True\<rparr>\<rparr>), ok))"

definition joinEtcd :: "'key hookEnv \<Rightarrow> ('e, 'v) joinEnv \<Rightarrow> nodeArgs \<Rightarrow> IP \<Rightarrow> ClusterConfig \<Rightarrow> 'e JoinState \<Rightarrow> ('e JoinState, unit) step" where
  "joinEtcd env z a nodeIP cfg st =
     (let port = getInt (Datastore_EtcdPort (CC_Datastore cfg)); peerPort = getInt (Datastore_EtcdPeerPort (CC_Datastore cfg)) in
      tryStep (st, Z_k8sdClient z) ''failed to get k8sd client: %w'' [] (\<lambda>st _.
      tryStep (st, Z_members z) ''failed to get microcluster members: %w'' [] (\<lambda>st members.
      let endpoints = joinEndpoints (X_name env) port members in
      tryStep (st, etcd_NewClient (Z_etcd z) snapEtcdPKIDir endpoints (M_host (A_machine (J_world st))))
        ''failed to create etcd client: %w'' [] (\<lambda>st _.
      tryPass (addLearner env z endpoints (''https://'' @ JoinHostPortInt (IPString nodeIP) peerPort) st) (\<lambda>st (learnerID, etcdMembers).
      tryStep (onWorld (onNode (Etcd (X_localhost env) (X_snap env) (X_name env) nodeIP port peerPort
          (buildInitialClusterMembers etcdMembers) (NA_EtcdArgs a))) st) ''failed to configure etcd: %w'' [] (\<lambda>st _.
      tryStep (onWorld (onNode (\<lambda>h. StartEtcdServices h [])) st) ''failed to start etcd learner: %w'' [] (\<lambda>st _.
      promoteLearner env z learnerID (logEvent EtcdStarted (st\<lparr>J_revert := (J_revert st)\<lparr>RV_started := True\<rparr>\<rparr>)))))))))"

section \<open>The hook\<close>

definition joinDatastorePKI :: "'key hookEnv \<Rightarrow> nodeArgs \<Rightarrow> IP \<Rightarrow> ClusterConfig \<Rightarrow> World \<Rightarrow> (World, unit) step" where
  "joinDatastorePKI env a nodeIP cfg w =
     (let ds = CC_Datastore cfg in
      if datastoreType cfg = ''etcd'' then
        tryPass (writeEtcdPKI env ((newEtcdPKI env False nodeIP a)
            \<lparr>E_CACert := getStr (Datastore_EtcdCACert ds), E_CAKey := getStr (Datastore_EtcdCAKey ds),
             E_APIServerClientCert := getStr (Datastore_EtcdAPIServerClientCert ds),
             E_APIServerClientKey := getStr (Datastore_EtcdAPIServerClientKey ds)\<rparr>) w) (\<lambda>w _. (w, ok))
      else if datastoreType cfg = ''external'' then writeExternalPKI cfg w
      else (w, Inl (unsupportedDatastore (datastoreType cfg))))"

text \<open>The certificates shared by the cluster, and those of the join configuration.\<close>

definition joinPKI :: "Certificates \<Rightarrow> ControlPlanePKI \<Rightarrow> ControlPlanePKI \<Rightarrow> ControlPlanePKI" where
  "joinPKI cc g c = c
     \<lparr>CACert := getStr (Certificates_CACert cc), CAKey := getStr (Certificates_CAKey cc),
      ClientCACert := GetClientCACert cc, ClientCAKey := GetClientCAKey cc,
      FrontProxyCACert := getStr (Certificates_FrontProxyCACert cc), FrontProxyCAKey := getStr (Certificates_FrontProxyCAKey cc),
      APIServerKubeletClientCert := getStr (Certificates_APIServerKubeletClientCert cc),
      APIServerKubeletClientKey := getStr (Certificates_APIServerKubeletClientKey cc),
      ServiceAccountKey := getStr (Certificates_ServiceAccountKey cc),
      K8sdPublicKey := getStr (Certificates_K8sdPublicKey cc), K8sdPrivateKey := getStr (Certificates_K8sdPrivateKey cc),
      APIServerCert := APIServerCert g, APIServerKey := APIServerKey g,
      FrontProxyClientCert := FrontProxyClientCert g, FrontProxyClientKey := FrontProxyClientKey g,
      KubeletCert := KubeletCert g, KubeletKey := KubeletKey g, AdminClientCert := AdminClientCert g,
      AdminClientKey := AdminClientKey g, KubeControllerManagerClientCert := KubeControllerManagerClientCert g,
      KubeControllerManagerClientKey := KubeControllerManagerClientKey g, KubeSchedulerClientCert := KubeSchedulerClientCert g,
      KubeSchedulerClientKey := KubeSchedulerClientKey g, KubeProxyClientCert := KubeProxyClientCert g,
      KubeProxyClientKey := KubeProxyClientKey g, KubeletClientCert := KubeletClientCert g, KubeletClientKey := KubeletClientKey g\<rparr>"

text \<open>Until the kubeconfigs are written nothing outside the node changes.\<close>

definition joinPrepare :: "'key hookEnv \<Rightarrow> nodeArgs \<Rightarrow> World \<Rightarrow> (World, ClusterConfig \<times> IP \<times> IP list) step" where
  "joinPrepare env a w =
     tryStep (w, util_GetClusterConfig (X_json env) (A_db w)) ''failed to get cluster config: %w'' [] (\<lambda>w cfg.
     tryPass (w, nodeAddresses ''failed to parse node IP address %q'' env) (\<lambda>w (nodeIP, nodeIPs).
     tryStep (onMachine (EnsureAllDirectories (X_tmp env) (X_snap env)) w) ''failed to create directories: %w'' [] (\<lambda>w _.
     let serviceCIDR = getStr (Network_ServiceCIDR (CC_Network cfg)) in
     tryStep (w, GetKubernetesServiceIPsFromServiceCIDRs serviceCIDR)
       ''failed to get IP address(es) from ServiceCIDR %q: %w'' [serviceCIDR] (\<lambda>w serviceIPs.
     tryPass (joinDatastorePKI env a nodeIP cfg w) (\<lambda>w _.
     tryStep (onRand (CompleteCertificates (X_crypto env) (X_interfaceAddrs env)
         (joinPKI (CC_Certificates cfg) (NA_PKI a) (newControlPlanePKI env False nodeIP serviceIPs a))) w)
       ''failed to initialize control plane certificates: %w'' [] (\<lambda>w c.
     tryStep (onMachine (PreInitChecks (X_portOrder env) (X_portOpen env) (X_snap env) cfg (nodeServiceConfigs a) True) w)
       ''pre-init checks failed for joining node: %w'' [] (\<lambda>w _.
     tryStep (onNode (EnsureControlPlanePKI c) w) ''failed to write control plane certificates: %w'' [] (\<lambda>w _.
     tryStep (onNode (SetupControlPlaneKubeconfigs (X_kubeconfig env) (X_localhost env) KubernetesConfigDir
         (getInt (APIServer_SecurePort (CC_APIServer cfg))) c) w) ''failed to generate kubeconfigs: %w'' [] (\<lambda>w _.
     (w, Inr (cfg, nodeIP, nodeIPs)))))))))))"

text \<open>The services are configured and started, then the API server is awaited.\<close>

definition joinServices :: "'key hookEnv \<Rightarrow> nodeArgs \<Rightarrow> IP \<Rightarrow> IP list \<Rightarrow> ClusterConfig \<Rightarrow> World \<Rightarrow> (World, unit) step" where
  "joinServices env a nodeIP nodeIPs cfg w =
     tryPass (configureServices env nodeIP nodeIPs cfg a w) (\<lambda>w _.
     tryStep (onNode (SetSnapdFromK8sd (X_snapd env) (ToUserFacing cfg)) w)
       ''failed to set snapd configuration from k8sd: %w'' [] (\<lambda>w _.
     tryPass (startServices env cfg w) (\<lambda>w _.
     tryStep (w, waitApiServerReady env) ''failed to wait for kube-apiserver to become ready: %w'' [] (\<lambda>w _. (w, ok)))))"

text \<open>The last part: the node object may exist from here on.\<close>

definition joinUpgrade :: "'key hookEnv \<Rightarrow> ('e, 'v) joinEnv \<Rightarrow> 'e JoinState \<Rightarrow> ('e JoinState, unit) step" where
  "joinUpgrade env z st =
     tryStep (st, X_kubernetesClient env) ''failed to get Kubernetes client: %w'' [] (\<lambda>st _.
     let st = fst (onKubernetes (Z_applyCRDs z) (st\<lparr>J_revert := (J_revert st)\<lparr>RV_node := True\<rparr>\<rparr>)) in
     tryStep (st, util_GetClusterConfig (X_json env) (A_db (J_world st))) ''failed to get cluster config: %w'' [] (\<lambda>st config.
     if snd (Annotations_Get (CC_Annotations config) (Z_disableSeparateFeatureUpgrades z)) then (st, ok)
     else tryStep (onKubernetes (handleRollOutUpgrade (Z_versions z) (X_ctxDone env) (Z_revision z) (Z_nodeVersion z) (X_name env)) st)
            ''failed to handle rollout-upgrade: %w'' [] (\<lambda>st _. (st, ok))))"

definition joinBody :: "'key hookEnv \<Rightarrow> ('e, 'v) joinEnv \<Rightarrow> nodeArgs \<Rightarrow> 'e JoinState \<Rightarrow> ('e JoinState, unit) step" where
  "joinBody env z a st =
     tryPass (onWorld (joinPrepare env a) st) (\<lambda>st (cfg, nodeIP, nodeIPs).
     tryPass (if datastoreType cfg = ''etcd'' then joinEtcd env z a nodeIP cfg st
              else if datastoreType cfg = ''external'' then (st, ok)
              else (st, Inl (unsupportedDatastore (datastoreType cfg)))) (\<lambda>st _.
     tryPass (onWorld (joinServices env a nodeIP nodeIPs cfg) st) (\<lambda>st _.
     joinUpgrade env z st)))"

definition onPostJoin ::
  "'key hookEnv \<Rightarrow> ('e, 'v) joinEnv \<Rightarrow> hookDecoders \<Rightarrow> string gomap \<Rightarrow> 'e JoinState \<Rightarrow> ('e JoinState, unit) step"
where
  "onPostJoin env z d initConfig st =
     tryStep (st, MicroclusterControlPlaneJoinConfigFromMap d initConfig) ''failed to unmarshal control plane join config: %w'' [] (\<lambda>st a.
     case joinBody env z a (st\<lparr>J_revert := noRevert\<rparr>) of
       (st, Inl e) \<Rightarrow> (reverterFail env z st, Inl e)
     | (st, Inr _) \<Rightarrow> (st, ok))"

section \<open>What a join does to the etcd cluster\<close>

text \<open>What the log holds, as the reverter sees it.\<close>

definition joinLog :: "reverter \<Rightarrow> etcdEvent list" where
  "joinLog r = (case RV_learner r of None \<Rightarrow> []
     | Some i \<Rightarrow> MemberAdded i # (if RV_started r then [EtcdStarted] else []) @ (if RV_promoted r then [MemberPromoted i] else []))"

text \<open>The documented behaviour of etcd: a new member has a new identifier, promotion and refused requests change no membership.\<close>

definition memberLaws :: "'e etcdOps \<Rightarrow> ('e \<Rightarrow> 64 word set) \<Rightarrow> bool" where
  "memberLaws ops members \<longleftrightarrow>
     (\<forall>urls e e' i ms. memberAddAsLearner ops urls e = (e', Inr (i, ms)) \<longrightarrow> i \<notin> members e \<and> members e' = insert i (members e)) \<and>
     (\<forall>urls e e' x. memberAddAsLearner ops urls e = (e', Inl x) \<longrightarrow> members e' = members e) \<and>
     (\<forall>i e. members (fst (memberPromote ops i e)) = members e) \<and>
     (\<forall>i e e'. memberRemove ops i e = (e', ok) \<longrightarrow> members e' = members e - {i})"

text \<open>
  The invariant of the hook: the log is the one of the reverter, the learner is the one new member, and its endpoints
  are those of the other members, for which a client could be made.
\<close>

definition joinInv :: "'key hookEnv \<Rightarrow> ('e, 'v) joinEnv \<Rightarrow> ('e \<Rightarrow> 64 word set) \<Rightarrow> 'e JoinState \<Rightarrow> 'e JoinState \<Rightarrow> bool" where
  "joinInv env z members st0 st \<longleftrightarrow>
     J_log st = J_log st0 @ joinLog (J_revert st) \<and>
     (RV_promoted (J_revert st) \<longrightarrow> RV_started (J_revert st)) \<and>
     (case RV_learner (J_revert st) of
        None \<Rightarrow> \<not> RV_started (J_revert st) \<and> (memberLaws (Z_etcd z) members \<longrightarrow> members (J_etcd st) = members (J_etcd st0))
      | Some i \<Rightarrow> (memberLaws (Z_etcd z) members \<longrightarrow>
            i \<notin> members (J_etcd st0) \<and> members (J_etcd st) = insert i (members (J_etcd st0))) \<and>
          (\<exists>port ms. Z_members z = Inr ms \<and> RV_endpoints (J_revert st) = joinEndpoints (X_name env) port ms) \<and>
          clientNew (Z_etcd z) (RV_endpoints (J_revert st)) = ok)"

lemma memberLaws_added:
  assumes "memberLaws ops members" "memberAddAsLearner ops urls e = (e', Inr (i, ms))"
  shows "i \<notin> members e" "members e' = insert i (members e)"
  using assms(1) [unfolded memberLaws_def, THEN conjunct1, rule_format, OF assms(2)] by simp_all

lemma onWorld_frame [simp]:
  "J_log (fst (onWorld f st)) = J_log st" "J_revert (fst (onWorld f st)) = J_revert st"
  "J_etcd (fst (onWorld f st)) = J_etcd st" "J_kube (fst (onWorld f st)) = J_kube st"
  by (simp_all add: onWorld_def split: prod.splits)

lemma onKubernetes_frame [simp]:
  "J_log (fst (onKubernetes g st)) = J_log st" "J_revert (fst (onKubernetes g st)) = J_revert st"
  "J_etcd (fst (onKubernetes g st)) = J_etcd st" "J_world (fst (onKubernetes g st)) = J_world st"
  by (simp_all add: onKubernetes_def split: prod.splits)

lemma onEtcd_frame [simp]:
  "J_log (fst (onEtcd q st)) = J_log st" "J_revert (fst (onEtcd q st)) = J_revert st"
  "J_world (fst (onEtcd q st)) = J_world st" "J_kube (fst (onEtcd q st)) = J_kube st"
  "J_etcd (fst (onEtcd q st)) = fst (q (J_etcd st))"
  by (simp_all add: onEtcd_def split: prod.splits)

lemma logEvent_frame [simp]:
  "J_log (logEvent ev st) = J_log st @ [ev]" "J_revert (logEvent ev st) = J_revert st"
  "J_etcd (logEvent ev st) = J_etcd st" "J_world (logEvent ev st) = J_world st" "J_kube (logEvent ev st) = J_kube st"
  by (simp_all add: logEvent_def)

lemma joinInv_frame [simp]:
  "joinInv env z members st0 (fst (onWorld f st)) \<longleftrightarrow> joinInv env z members st0 st"
  "joinInv env z members st0 (fst (onKubernetes g st)) \<longleftrightarrow> joinInv env z members st0 st"
  "joinInv env z members st0 (st\<lparr>J_revert := (J_revert st)\<lparr>RV_node := b\<rparr>\<rparr>) \<longleftrightarrow> joinInv env z members st0 st"
  by (simp_all add: joinInv_def joinLog_def cong: option.case_cong)

lemma retryLoop_keeps: "(\<And>s. P s \<Longrightarrow> P (fst (f s))) \<Longrightarrow> P s \<Longrightarrow> P (fst (retryLoop cd i n f err s))"
  by (induction n arbitrary: i err s) (auto split: prod.split sum.split, (metis fst_conv)+)

lemma RetryFor_keeps: "(\<And>s. P s \<Longrightarrow> P (fst (f s))) \<Longrightarrow> P s \<Longrightarrow> P (fst (RetryFor cd n f s))"
  unfolding RetryFor_def by (rule retryLoop_keeps)

lemma promote_members:
  assumes "memberLaws (Z_etcd z) members"
  shows "members (fst (RetryFor cd n (\<lambda>e. tryStep (memberPromote (Z_etcd z) i e) msg args (\<lambda>e _. (e, ok))) e)) = members e"
proof (rule RetryFor_keeps [where P = "\<lambda>e'. members e' = members e"])
  fix e' assume e': "members e' = members e"
  have "members (fst (memberPromote (Z_etcd z) i e')) = members e'"
    using assms by (simp add: memberLaws_def)
  then show "members (fst (tryStep (memberPromote (Z_etcd z) i e') msg args (\<lambda>e _. (e, ok)))) = members e"
    unfolding e' by (intro tryStep_keeps [where P = "\<lambda>e'. members e' = members e"]) simp_all
qed simp

lemma promoteLearner_keeps:
  assumes inv: "joinInv env z members st0 st"
    and i: "RV_learner (J_revert st) = Some i" and s: "RV_started (J_revert st)" and p: "\<not> RV_promoted (J_revert st)"
  shows "joinInv env z members st0 (fst (promoteLearner env z i st))"
proof -
  let ?f = "\<lambda>e. tryStep (memberPromote (Z_etcd z) i e) ''failed to promote etcd learner %s (ID: %d): %w'' [X_name env] (\<lambda>e _. (e, ok))"
  obtain st' r where r: "onEtcd (RetryFor (Z_promoteDone z) 30 ?f) st = (st', r)" by force
  have m: "members (J_etcd st') = members (J_etcd st)" if "memberLaws (Z_etcd z) members"
    using onEtcd_frame (5) [of "RetryFor (Z_promoteDone z) 30 ?f" st] promote_members [OF that] by (simp add: r)
  have fr: "J_log st' = J_log st" "J_revert st' = J_revert st"
    using onEtcd_frame (1,2) [of "RetryFor (Z_promoteDone z) 30 ?f" st] by (simp_all add: r)
  have inv': "joinInv env z members st0 st'"
    using inv by (simp add: joinInv_def m fr cong: option.case_cong)
  show ?thesis
  proof (cases r)
    case (Inl x)
    then show ?thesis using inv' by (simp add: promoteLearner_def r)
  next
    case (Inr u)
    then show ?thesis using inv' i s p by (auto simp: promoteLearner_def r joinInv_def joinLog_def fr)
  qed
qed

lemma addLearner_refused:
  assumes inv: "joinInv env z members st0 st"
    and r: "J_revert st = noRevert" and a: "addLearner env z eps url st = (st', Inl x)"
  shows "joinInv env z members st0 st'"
proof -
  obtain e y where e: "memberAddAsLearner (Z_etcd z) [url] (J_etcd st) = (e, Inl y)" and st': "st' = st\<lparr>J_etcd := e\<rparr>"
    using a by (auto simp: addLearner_def onEtcd_def split: prod.splits sum.splits)
  have "members e = members (J_etcd st)" if "memberLaws (Z_etcd z) members"
    by (rule that [unfolded memberLaws_def, THEN conjunct2, THEN conjunct1, rule_format, OF e])
  then show ?thesis using inv r by (simp add: st' joinInv_def noRevert_def)
qed

lemma addLearner_added:
  assumes inv: "joinInv env z members st0 st"
    and r: "J_revert st = noRevert" and a: "addLearner env z eps url st = (st', Inr (i, ms))"
    and eps: "Z_members z = Inr cms" "eps = joinEndpoints (X_name env) port cms" and cl: "clientNew (Z_etcd z) eps = ok"
  shows "joinInv env z members st0 st' \<and> J_revert st' = noRevert\<lparr>RV_learner := Some i, RV_endpoints := eps\<rparr>"
proof -
  obtain e where e: "memberAddAsLearner (Z_etcd z) [url] (J_etcd st) = (e, Inr (i, ms))"
    and st': "st' = logEvent (MemberAdded i) (st\<lparr>J_etcd := e, J_revert := (J_revert st)\<lparr>RV_learner := Some i, RV_endpoints := eps\<rparr>\<rparr>)"
    using a by (auto simp: addLearner_def onEtcd_def split: prod.splits sum.splits)
  have m: "i \<notin> members (J_etcd st)" "members e = insert i (members (J_etcd st))" if "memberLaws (Z_etcd z) members"
    by (rule memberLaws_added [OF that e])+
  have "\<exists>p ms. Z_members z = Inr ms \<and> eps = joinEndpoints (X_name env) p ms"
    unfolding eps(1) using eps(2) by blast
  then show ?thesis using inv m cl by (simp add: st' joinInv_def joinLog_def r noRevert_def)
qed

lemma etcd_NewClient_ok: "etcd_NewClient ops dir eps h = Inr u \<Longrightarrow> clientNew ops eps = ok"
  by (simp add: etcd_NewClient_def split: sum.splits)

lemma joinEtcd_keeps:
  assumes inv: "joinInv env z members st0 st" and r: "J_revert st = noRevert"
  shows "joinInv env z members st0 (fst (joinEtcd env z a nodeIP cfg st))"
  unfolding joinEtcd_def Let_def
proof (intro tryStep_keeps [where P = "joinInv env z members st0"], goal_cases)
  case (4 s1 u1 s2 cms s3 u3)
  let ?port = "getInt (Datastore_EtcdPort (CC_Datastore cfg))"
  let ?eps = "joinEndpoints (X_name env) ?port cms"
  have s: "s3 = st" "Z_members z = Inr cms" "clientNew (Z_etcd z) ?eps = ok"
    using 4 etcd_NewClient_ok by auto
  let ?add = "addLearner env z ?eps (''https://'' @ JoinHostPortInt (IPString nodeIP) (getInt (Datastore_EtcdPeerPort (CC_Datastore cfg)))) s3"
  show ?case
  proof (rule tryPass_keeps [where P = "joinInv env z members st0"], goal_cases)
    case 1
    obtain st' x where a: "?add = (st', x)" by force
    show ?case
    proof (cases x)
      case (Inl y)
      then show ?thesis using addLearner_refused [OF inv r] a s by simp
    next
      case (Inr y)
      then show ?thesis using addLearner_added [OF inv r, where port = ?port] a s by (cases y) simp
    qed
  next
    case (2 s4 x)
    obtain i ms where x: "x = (i, ms)" by (cases x)
    let ?P = "\<lambda>st. joinInv env z members st0 st \<and> J_revert st = noRevert\<lparr>RV_learner := Some i, RV_endpoints := ?eps\<rparr>"
    have P: "?P s4"
      using addLearner_added [OF inv r, where port = ?port] 2 s x by simp
    show ?case
      unfolding x prod.case
    proof (rule tryStep_keeps [where P = "joinInv env z members st0"], goal_cases)
      case 1
      then show ?case using P by simp
    next
      case (2 s5 u)
      then have P5: "?P s5" using P onWorld_frame (2) joinInv_frame (1) fst_conv by metis
      show ?case
      proof (rule tryStep_keeps [where P = "joinInv env z members st0"], goal_cases)
        case 1
        then show ?case using P5 by simp
      next
        case (2 s6 u)
        then have P6: "?P s6" using P5 onWorld_frame (2) joinInv_frame (1) fst_conv by metis
        then show ?case
          by (intro promoteLearner_keeps) (auto simp: noRevert_def joinInv_def joinLog_def)
      qed
    qed
  qed
qed (use inv in simp_all)

lemma joinUpgrade_keeps: "joinInv env z members st0 st \<Longrightarrow> joinInv env z members st0 (fst (joinUpgrade env z st))"
  unfolding joinUpgrade_def Let_def
  by (intro tryStep_keeps [where P = "joinInv env z members st0"]) (auto intro!: tryStep_keeps [where P = "joinInv env z members st0"])

lemma joinBody_keeps:
  assumes inv: "joinInv env z members st0 st" and r: "J_revert st = noRevert"
  shows "joinInv env z members st0 (fst (joinBody env z a st))"
  unfolding joinBody_def
proof (rule tryPass_keeps [where P = "joinInv env z members st0"], goal_cases)
  case 1
  then show ?case using inv by simp
next
  case (2 s1 x)
  obtain cfg nodeIP nodeIPs where x: "x = (cfg, nodeIP, nodeIPs)" by (cases x)
  have r1: "J_revert s1 = noRevert" using 2 r onWorld_frame (2) fst_conv by metis
  show ?case
    unfolding x prod.case
  proof (intro tryPass_keeps [where P = "joinInv env z members st0"], goal_cases)
    case 1
    then show ?case using joinEtcd_keeps [OF 2(2) r1] 2 by simp
  next
    case (2 s2 u)
    then show ?case by simp
  next
    case (3 s2 u s3 u')
    then show ?case by (intro joinUpgrade_keeps) simp
  qed
qed

section \<open>The reverter\<close>

lemma removeMember_cases:
  "\<exists>e ev. removeMember z i st = st\<lparr>J_etcd := e, J_log := J_log st @ ev\<rparr> \<and> (ev = [] \<or> ev = [MemberRemoved i])"
proof (cases "RV_endpoints (J_revert st) = [] \<or>
    (\<exists>x. etcd_NewClient (Z_etcd z) snapEtcdPKIDir (RV_endpoints (J_revert st)) (M_host (A_machine (J_world st))) = Inl x)")
  case True
  then have "removeMember z i st = st\<lparr>J_etcd := J_etcd st, J_log := J_log st @ []\<rparr>"
    by (auto simp: removeMember_def Let_def)
  then show ?thesis by blast
next
  case False
  then obtain u where c: "RV_endpoints (J_revert st) \<noteq> []"
    "etcd_NewClient (Z_etcd z) snapEtcdPKIDir (RV_endpoints (J_revert st)) (M_host (A_machine (J_world st))) = Inr u"
    by (meson sum.exhaust)
  obtain e r where e: "memberRemove (Z_etcd z) i (J_etcd st) = (e, r)" by force
  have "removeMember z i st = st\<lparr>J_etcd := e, J_log := J_log st @ (case r of Inl _ \<Rightarrow> [] | Inr _ \<Rightarrow> [MemberRemoved i])\<rparr>"
    using c by (cases r) (simp_all add: removeMember_def onEtcd_def e logEvent_def)
  moreover have "(case r of Inl _ \<Rightarrow> [] | Inr _ \<Rightarrow> [MemberRemoved i]) = [] \<or> (case r of Inl _ \<Rightarrow> [] | Inr _ \<Rightarrow> [MemberRemoved i]) = [MemberRemoved i]"
    by (cases r) simp_all
  ultimately show ?thesis by blast
qed

lemma removeMember_frame [simp]:
  "J_revert (removeMember z i st) = J_revert st" "J_world (removeMember z i st) = J_world st" "J_kube (removeMember z i st) = J_kube st"
  using removeMember_cases [of z i st] by auto

lemma removeMember_log:
  obtains r where "r \<in> {[], [MemberRemoved i]}" "J_log (removeMember z i st) = J_log st @ r"
  using removeMember_cases [of z i st]
proof (elim exE conjE)
  fix e ev
  assume "removeMember z i st = st\<lparr>J_etcd := e, J_log := J_log st @ ev\<rparr>" "ev = [] \<or> ev = [MemberRemoved i]"
  then show ?thesis by (intro that [of ev]) simp_all
qed

lemma stopLocalEtcd_cases:
  "\<exists>w ev. stopLocalEtcd st = st\<lparr>J_world := w, J_log := J_log st @ ev\<rparr> \<and> ev \<in> {[], [EtcdStopped]}"
proof -
  obtain w r where w: "onNode (\<lambda>h. StopEtcdServices h []) (J_world st) = (w, r)" by force
  have "stopLocalEtcd st = st\<lparr>J_world := w, J_log := J_log st @ (case r of Inl _ \<Rightarrow> [] | Inr _ \<Rightarrow> [EtcdStopped])\<rparr>"
    by (cases r) (simp_all add: stopLocalEtcd_def onWorld_def w logEvent_def)
  moreover have "(case r of Inl _ \<Rightarrow> [] | Inr _ \<Rightarrow> [EtcdStopped]) \<in> {[], [EtcdStopped]}"
    by (cases r) simp_all
  ultimately show ?thesis by blast
qed

lemma stopLocalEtcd_frame [simp]:
  "J_revert (stopLocalEtcd st) = J_revert st" "J_etcd (stopLocalEtcd st) = J_etcd st" "J_kube (stopLocalEtcd st) = J_kube st"
  using stopLocalEtcd_cases [of st] by auto

lemma stopLocalEtcd_log:
  obtains s where "s \<in> {[], [EtcdStopped]}" "J_log (stopLocalEtcd st) = J_log st @ s"
proof -
  obtain w ev where "stopLocalEtcd st = st\<lparr>J_world := w, J_log := J_log st @ ev\<rparr>" "ev \<in> {[], [EtcdStopped]}"
    using stopLocalEtcd_cases by blast
  then show ?thesis by (intro that [of ev]) simp_all
qed

lemma revertNode_frame [simp]:
  "J_revert (revertNode env z st) = J_revert st" "J_etcd (revertNode env z st) = J_etcd st" "J_log (revertNode env z st) = J_log st"
  by (simp_all add: revertNode_def)

lemma revertEtcd_log:
  assumes "RV_promoted (J_revert st) \<longrightarrow> RV_started (J_revert st)"
  shows "\<exists>r s. r \<in> {[], [MemberRemoved i]} \<and> s \<in> {[], [EtcdStopped]} \<and>
     J_log (revertEtcd env z i st) = J_log st @
       (if RV_promoted (J_revert st) then r @ s else if RV_started (J_revert st) then s @ r else r)"
proof -
  obtain s1 where s1: "s1 \<in> {[], [EtcdStopped]}" "J_log (stopLocalEtcd st) = J_log st @ s1"
    by (rule stopLocalEtcd_log)
  obtain r1 where r1: "r1 \<in> {[], [MemberRemoved i]}" "J_log (removeMember z i st) = J_log st @ r1"
    by (rule removeMember_log)
  obtain r2 where r2: "r2 \<in> {[], [MemberRemoved i]}" "J_log (removeMember z i (stopLocalEtcd st)) = J_log (stopLocalEtcd st) @ r2"
    by (rule removeMember_log)
  obtain s2 where s2: "s2 \<in> {[], [EtcdStopped]}" "J_log (stopLocalEtcd (removeMember z i st)) = J_log (removeMember z i st) @ s2"
    by (rule stopLocalEtcd_log)
  show ?thesis
  proof (cases "RV_promoted (J_revert st)")
    case True
    then have "J_log (revertEtcd env z i st) = J_log st @ r1 @ s2"
      using assms r1 s2 by (simp add: revertEtcd_def Let_def)
    then show ?thesis using True r1(1) s2(1) by auto
  next
    case f: False
    show ?thesis
    proof (cases "RV_started (J_revert st)")
      case True
      then have "J_log (revertEtcd env z i st) = J_log st @ s1 @ r2"
        using f s1 r2 by (simp add: revertEtcd_def Let_def)
      then show ?thesis using True f s1(1) r2(1) by auto
    next
      case False
      then have "J_log (revertEtcd env z i st) = J_log st @ r1"
        using f r1 by (simp add: revertEtcd_def Let_def)
      then show ?thesis using False f r1(1) by auto
    qed
  qed
qed

lemma promoteLearner_ok: "promoteLearner env z i st = (st', Inr u) \<Longrightarrow> RV_promoted (J_revert st')"
  by (auto simp: promoteLearner_def tryStep_ok_iff)

lemma joinEtcd_ok: "joinEtcd env z a nodeIP cfg st = (st', Inr u) \<Longrightarrow> RV_promoted (J_revert st')"
  unfolding joinEtcd_def Let_def tryStep_ok_iff tryPass_ok_iff
  by (elim exE conjE) (auto simp: tryStep_ok_iff dest!: promoteLearner_ok split: prod.splits)

definition settled :: "'e JoinState \<Rightarrow> bool" where
  "settled st \<longleftrightarrow> RV_learner (J_revert st) = None \<or> RV_promoted (J_revert st)"

lemma settled_frame [simp]:
  "settled (fst (onKubernetes g st)) \<longleftrightarrow> settled st" "settled (fst (onWorld f st)) \<longleftrightarrow> settled st"
  "settled (st\<lparr>J_revert := (J_revert st)\<lparr>RV_node := b\<rparr>\<rparr>) \<longleftrightarrow> settled st"
  by (simp_all add: settled_def)

lemma joinUpgrade_settled: "settled st \<Longrightarrow> settled (fst (joinUpgrade env z st))"
  unfolding joinUpgrade_def Let_def
  by (intro tryStep_keeps [where P = settled]) (auto intro!: tryStep_keeps [where P = settled])

lemma joinBody_ok:
  assumes ok: "joinBody env z a st = (st', Inr u)" and r: "J_revert st = noRevert"
  shows "settled st'"
proof -
  obtain s1 cfg nodeIP nodeIPs s2 u2 s3 u3
    where s1: "onWorld (joinPrepare env a) st = (s1, Inr (cfg, nodeIP, nodeIPs))"
      and s2: "(if datastoreType cfg = ''etcd'' then joinEtcd env z a nodeIP cfg s1
              else if datastoreType cfg = ''external'' then (s1, ok)
              else (s1, Inl (unsupportedDatastore (datastoreType cfg)))) = (s2, Inr u2)"
      and s3: "onWorld (joinServices env a nodeIP nodeIPs cfg) s2 = (s3, Inr u3)"
      and s4: "joinUpgrade env z s3 = (st', Inr u)"
    using ok unfolding joinBody_def tryPass_ok_iff by (auto split: prod.splits simp: tryPass_ok_iff)
  have "J_revert s1 = noRevert" using arg_cong [OF s1, of "\<lambda>x. J_revert (fst x)"] r by simp
  then have "settled s2"
    using s2 joinEtcd_ok [of env z a nodeIP cfg s1 s2 u2] by (auto split: if_splits simp: noRevert_def settled_def)
  then have "settled s3" using arg_cong [OF s3, of "\<lambda>x. settled (fst x)"] by simp
  then show ?thesis using joinUpgrade_settled [of s3 env z] s4 by simp
qed

lemma joinInv_start [simp]: "joinInv env z members st (st\<lparr>J_revert := noRevert\<rparr>)"
  by (simp add: joinInv_def joinLog_def noRevert_def)

lemma joinInv_log:
  assumes "joinInv env z members st0 st"
  shows "J_log (reverterFail env z st) = J_log st0 \<or>
       (\<exists>i removed stopped. removed \<in> {[], [MemberRemoved i]} \<and> stopped \<in> {[], [EtcdStopped]} \<and>
          J_log (reverterFail env z st) \<in> {J_log st0 @ [MemberAdded i] @ removed,
                       J_log st0 @ [MemberAdded i, EtcdStarted] @ stopped @ removed,
                       J_log st0 @ [MemberAdded i, EtcdStarted, MemberPromoted i] @ removed @ stopped})"
proof -
  let ?st = "if RV_node (J_revert st) then revertNode env z st else st"
  have fr: "J_revert ?st = J_revert st" "J_log ?st = J_log st" by simp_all
  show ?thesis
  proof (cases "RV_learner (J_revert st)")
    case None
    then show ?thesis using assms by (simp add: reverterFail_def joinInv_def joinLog_def)
  next
    case (Some i)
    have p: "RV_promoted (J_revert ?st) \<longrightarrow> RV_started (J_revert ?st)" using assms by (simp add: fr joinInv_def)
    obtain r s where r: "r \<in> {[], [MemberRemoved i]}" and s: "s \<in> {[], [EtcdStopped]}" and
      log: "J_log (revertEtcd env z i ?st) = J_log ?st @
        (if RV_promoted (J_revert ?st) then r @ s else if RV_started (J_revert ?st) then s @ r else r)"
      using revertEtcd_log [OF p, of i env z] by metis
    have "reverterFail env z st = revertEtcd env z i ?st"
      by (simp add: reverterFail_def Some)
    then have "J_log (reverterFail env z st) \<in> {J_log st0 @ [MemberAdded i] @ r,
        J_log st0 @ [MemberAdded i, EtcdStarted] @ s @ r, J_log st0 @ [MemberAdded i, EtcdStarted, MemberPromoted i] @ r @ s}"
      using assms by (simp add: log fr joinInv_def joinLog_def Some)
    then show ?thesis using r s by blast
  qed
qed

lemma joinInv_done:
  assumes "joinInv env z members st0 st" "settled st"
  shows "J_log st = J_log st0 \<or> (\<exists>i. J_log st = J_log st0 @ [MemberAdded i, EtcdStarted, MemberPromoted i])"
  using assms by (cases "RV_learner (J_revert st)") (auto simp: joinInv_def joinLog_def settled_def)

lemma onPostJoin_cases:
  obtains x where "onPostJoin env z d initConfig st = (st, Inl x)"
  | a st' x where "joinBody env z a (st\<lparr>J_revert := noRevert\<rparr>) = (st', Inl x)" "onPostJoin env z d initConfig st = (reverterFail env z st', Inl x)"
  | a st' u where "joinBody env z a (st\<lparr>J_revert := noRevert\<rparr>) = (st', Inr u)" "onPostJoin env z d initConfig st = (st', ok)"
proof (cases "MicroclusterControlPlaneJoinConfigFromMap d initConfig")
  case (Inl x)
  then show ?thesis using that(1) by (simp add: onPostJoin_def)
next
  case (Inr a)
  obtain st' r where "joinBody env z a (st\<lparr>J_revert := noRevert\<rparr>) = (st', r)" by force
  then show ?thesis using that(2,3) Inr by (cases r) (simp_all add: onPostJoin_def)
qed


text \<open>When the etcd cluster can be reached and answers, the reverter does remove the member.\<close>

definition etcdReachable :: "'key hookEnv \<Rightarrow> ('e, 'v) joinEnv \<Rightarrow> bool" where
  "etcdReachable env z \<longleftrightarrow>
     (\<forall>i e. \<exists>e'. memberRemove (Z_etcd z) i e = (e', ok)) \<and>
     (\<forall>h cert key ca. loadTLSConfig (Z_etcd z) h cert key ca = ok) \<and>
     (\<forall>ms. Z_members z = Inr ms \<longrightarrow> (\<exists>m \<in> set ms. CM_Name m \<noteq> X_name env))"

lemma removeMember_removed:
  assumes laws: "memberLaws (Z_etcd z) members" and reach: "etcdReachable env z"
    and ms: "Z_members z = Inr ms" "RV_endpoints (J_revert st) = joinEndpoints (X_name env) port ms"
    and cl: "clientNew (Z_etcd z) (RV_endpoints (J_revert st)) = ok"
  shows "members (J_etcd (removeMember z i st)) = members (J_etcd st) - {i}"
proof -
  have "\<exists>m \<in> set ms. CM_Name m \<noteq> X_name env" using reach ms(1) by (simp add: etcdReachable_def)
  then have "filter (\<lambda>m. CM_Name m \<noteq> X_name env) ms \<noteq> []" by (simp add: filter_empty_conv)
  then have eps: "RV_endpoints (J_revert st) \<noteq> []" by (simp add: ms(2) joinEndpoints_def)
  obtain e' where e': "memberRemove (Z_etcd z) i (J_etcd st) = (e', ok)"
    using reach unfolding etcdReachable_def by blast
  have "members e' = members (J_etcd st) - {i}"
    by (rule laws [unfolded memberLaws_def, THEN conjunct2, THEN conjunct2, THEN conjunct2, rule_format, OF e'])
  moreover have "etcd_NewClient (Z_etcd z) dir (RV_endpoints (J_revert st)) h = ok" for dir h
    using reach cl by (simp add: etcd_NewClient_def etcdReachable_def)
  ultimately show ?thesis using eps by (simp add: removeMember_def onEtcd_def e')
qed

lemma revertEtcd_members:
  assumes laws: "memberLaws (Z_etcd z) members" and reach: "etcdReachable env z"
    and ms: "Z_members z = Inr ms" "RV_endpoints (J_revert st) = joinEndpoints (X_name env) port ms"
    and cl: "clientNew (Z_etcd z) (RV_endpoints (J_revert st)) = ok"
  shows "members (J_etcd (revertEtcd env z i st)) = members (J_etcd st) - {i}"
proof -
  have r: "members (J_etcd (removeMember z i s)) = members (J_etcd s) - {i}" if "J_revert s = J_revert st" for s
    using removeMember_removed [OF laws reach ms(1), of s port i] ms(2) cl that by simp
  show ?thesis by (simp add: revertEtcd_def Let_def r)
qed


section \<open>Deleting a node\<close>

text \<open>What one attempt to delete the node leaves.\<close>

definition withoutNode :: "string \<Rightarrow> Kube \<Rightarrow> ClusterNode list" where
  "withoutNode name k = filter (\<lambda>n. Node_Name n \<noteq> name) (K_nodes k)"

lemma withoutNode_absent: "findNode name k = None \<Longrightarrow> withoutNode name k = K_nodes k"
  by (auto simp: findNode_def withoutNode_def find_None_iff intro!: filter_True)

lemma deleteNodeRequest_fault:
  "K_fault k (K_calls k) = Some e \<Longrightarrow> deleteNodeRequest name k = (k\<lparr>K_calls := Suc (K_calls k)\<rparr>, Inl e)"
  by (simp add: deleteNodeRequest_def request_def)

lemma deleteNodeRequest_done:
  "K_fault k (K_calls k) = None \<Longrightarrow>
     deleteNodeRequest name k = (k\<lparr>K_calls := Suc (K_calls k), K_nodes := withoutNode name k\<rparr>,
       if findNode name k = None then Inl ErrNotFound else ok)"
  using withoutNode_absent [of name k]
  by (auto simp: deleteNodeRequest_def request_def findNode_def withoutNode_def)

lemma deleteNodeLoop_spec:
  assumes "\<And>n. K_fault k n \<noteq> Some ErrNotFound" "deleteNodeLoop isC isI name (Suc n) t lastErr k = (k', r)"
  shows "K_upgrades k' = K_upgrades k \<and> K_calls k' \<le> K_calls k + Suc n \<and>
    (r = ok \<and> K_nodes k' = withoutNode name k \<or> (\<exists>x. r = Inl x) \<and> K_nodes k' = K_nodes k)"
  using assms
proof (induction n arbitrary: t lastErr k)
  case 0
  show ?case
  proof (cases "K_fault k (K_calls k)")
    case None
    then show ?thesis using 0 by (auto simp: deleteNodeRequest_done split: if_splits)
  next
    case (Some e)
    then show ?thesis using 0 by (auto simp: deleteNodeRequest_fault Let_def split: if_splits)
  qed
next
  case (Suc n)
  show ?case
  proof (cases "K_fault k (K_calls k)")
    case None
    then show ?thesis using Suc.prems by (auto simp: deleteNodeRequest_done split: if_splits)
  next
    case (Some e)
    let ?k = "k\<lparr>K_calls := Suc (K_calls k)\<rparr>"
    have w: "withoutNode name ?k = withoutNode name k" by (simp add: withoutNode_def)
    have IH: "K_upgrades k' = K_upgrades k \<and> K_calls k' \<le> K_calls k + Suc (Suc n) \<and>
        (r = ok \<and> K_nodes k' = withoutNode name k \<or> (\<exists>x. r = Inl x) \<and> K_nodes k' = K_nodes k)"
      if "deleteNodeLoop isC isI name (Suc n) t' err' ?k = (k', r)" for t' err'
      using Suc.IH [OF _ that] Suc.prems(1) by (auto simp: w)
    have "e \<noteq> ErrNotFound" using Suc.prems(1) Some by metis
    then show ?thesis
      using Suc.prems(2) Some IH
      by (subst (asm) deleteNodeLoop.simps(2)) (auto simp: deleteNodeRequest_fault Let_def simp del: deleteNodeLoop.simps split: if_splits)
  qed
qed

text \<open>
  Deleting a node ends after at most as many requests as the backoff has steps. It succeeds exactly when the node
  object is gone at the end (having been there or not); when it fails, no object was touched.
\<close>

theorem DeleteNode_outcome:
  assumes "\<And>n. K_fault k n \<noteq> Some ErrNotFound" and "0 < steps"
  shows "K_calls (fst (DeleteNode isC isI steps name k)) \<le> K_calls k + steps \<and>
    (case DeleteNode isC isI steps name k of
       (k', Inr _) \<Rightarrow> K_nodes k' = filter (\<lambda>n. Node_Name n \<noteq> name) (K_nodes k) \<and> K_upgrades k' = K_upgrades k
     | (k', Inl _) \<Rightarrow> K_nodes k' = K_nodes k \<and> K_upgrades k' = K_upgrades k)"
proof -
  obtain n where n: "steps = Suc n" using assms(2) by (cases steps) auto
  obtain k' r where d: "deleteNodeLoop isC isI name (Suc n) 0 ok k = (k', r)" by force
  show ?thesis
    using deleteNodeLoop_spec [OF assms(1) d] by (auto simp: DeleteNode_def n d withoutNode_def simp del: deleteNodeLoop.simps)
qed

section \<open>Instances\<close>

text \<open>An etcd cluster that admits one more member, the one with identifier 7; its state is the list of members.\<close>

definition sampleEtcd :: "64 word list etcdOps" where
  "sampleEtcd = \<lparr>loadTLSConfig = (\<lambda>_ _ _ _. ok), clientNew = (\<lambda>_. ok), memberList = (\<lambda>e. (e, Inr [])),
     memberAddAsLearner = (\<lambda>_ e. if 7 \<in> set e then (e, Inl noAddresses) else (7 # e, Inr (7, []))),
     memberPromote = (\<lambda>_ e. (e, ok)), memberRemove = (\<lambda>i e. (filter (\<lambda>j. j \<noteq> i) e, ok)), notEnoughStarted = (\<lambda>_. True)\<rparr>"

lemma sampleEtcd_laws: "memberLaws sampleEtcd set"
  by (simp add: memberLaws_def sampleEtcd_def) auto

definition sampleJoin :: "(64 word list, string) joinEnv" where
  "sampleJoin = \<lparr>Z_etcd = sampleEtcd, Z_k8sdClient = ok,
     Z_members = Inr [\<lparr>CM_Name = ''n0'', CM_Address = ''10.0.0.2'', CM_Port = 6400, CM_Role = ''voter''\<rparr>], Z_versions = stringVersions,
     Z_revision = Inr ''7'', Z_nodeVersion = Inr ''1.34'', Z_disableSeparateFeatureUpgrades = ''off'', Z_isConflict = (\<lambda>_. False),
     Z_isInternal = (\<lambda>_. True), Z_deleteSteps = 4, Z_applyCRDs = (\<lambda>k. (k, ok)), Z_promoteDone = (\<lambda>_. False)\<rparr>"

definition sampleDecoders :: hookDecoders where
  "sampleDecoders = \<lparr>decodeBootstrap = (\<lambda>_. Inr (sampleBootstrap, sampleArgs)), decodeWorkerJoin = (\<lambda>_. Inl noAddresses),
     decodeControlPlaneJoin = (\<lambda>_. Inr sampleArgs)\<rparr>"

definition sampleJoinState :: "64 word list JoinState" where
  "sampleJoinState = \<lparr>J_world = sampleWorld, J_kube = sampleKube UpgradePhaseNodeUpgrade, J_etcd = [3], J_log = [], J_revert = noRevert\<rparr>"


theorem DeleteNode_outcome_witness:
  "K_nodes (fst (DeleteNode (\<lambda>_. False) (\<lambda>_. True) 4 ''a'' (sampleKube UpgradePhaseNodeUpgrade))) = [sampleNode ''b'']"
proof -
  let ?k = "sampleKube UpgradePhaseNodeUpgrade"
  have "K_fault ?k n \<noteq> Some ErrNotFound" for n by (simp add: sampleKube_def)
  moreover have "DeleteNode (\<lambda>_. False) (\<lambda>_. True) 4 ''a'' ?k = (?k\<lparr>K_calls := 1, K_nodes := [sampleNode ''b'']\<rparr>, ok)"
    by (simp add: DeleteNode_def eval_nat_numeral deleteNodeRequest_def request_def findNode_def sampleKube_def sampleNode_def)
  ultimately show ?thesis using DeleteNode_outcome [of ?k 4 "\<lambda>_. False" "\<lambda>_. True" "''a''"] by simp
qed

end
