(* ===== verification/Cleanup.thy ===== *)
theory Cleanup
  imports NodeSetup Cilium
begin

text \<open>
  Cleaning up what the container runtime leaves on a node (\<open>pkg/snap/util/cleanup\<close>, \<open>pkg/utils/shims\<close>,
  \<open>pkg/utils/mount\<close>, \<open>pkg/utils/netns\<close>): processes, network namespaces, mounts, sockets and loop devices.

  The kernel is a parameter: its state is of type \<open>'k\<close>, and \<open>kernelOps\<close> holds what the code asks it. \<open>RT_calls\<close> records the
  processes killed and the mounts removed, in order. The mount table is read when it is opened.
\<close>

section \<open>The running node\<close>

datatype kernelCall = Unmount string nat | KillProcess int

record 'k Runtime =
  RT_machine :: Machine
  RT_kernel :: 'k
  RT_calls :: "kernelCall list"

text \<open>Go visits the map of processes in an order of its own each time: \<open>KO_shimOrder\<close> and \<open>KO_childOrder\<close>.\<close>

record processInfo =
  P_command :: string
  P_parentPID :: string

record 'k kernelOps =
  KO_ps :: "'k \<Rightarrow> string res"
  KO_shimOrder :: "processInfo gomap \<Rightarrow> processInfo gomap"
  KO_childOrder :: "processInfo gomap \<Rightarrow> processInfo gomap"
  KO_findProcess :: "int \<Rightarrow> 'k \<Rightarrow> unit res"
  KO_kill :: "int \<Rightarrow> 'k \<Rightarrow> ('k, unit) step"
  KO_openMounts :: "'k \<Rightarrow> string list res"
  KO_scanMounts :: "'k \<Rightarrow> unit res"
  KO_umount :: "string \<Rightarrow> nat \<Rightarrow> 'k \<Rightarrow> ('k, unit) step"
  KO_readDir :: "'k Runtime \<Rightarrow> string \<Rightarrow> (string \<times> bool) list res"

definition kernelStep :: "kernelCall \<Rightarrow> ('k \<Rightarrow> ('k, unit) step) \<Rightarrow> 'k Runtime \<Rightarrow> ('k Runtime, unit) step" where
  "kernelStep c f rt = (case f (RT_kernel rt) of (k, r) \<Rightarrow> (rt\<lparr>RT_kernel := k, RT_calls := RT_calls rt @ [c]\<rparr>, r))"

definition onDisk :: "(Machine \<Rightarrow> (Machine, 'a) step) \<Rightarrow> 'k Runtime \<Rightarrow> ('k Runtime, 'a) step" where
  "onDisk f rt = (case f (RT_machine rt) of (m, r) \<Rightarrow> (rt\<lparr>RT_machine := m\<rparr>, r))"

text \<open>\<open>strings.Fields\<close>\<close>

definition strFields :: "string \<Rightarrow> string list" where
  "strFields s = filter (\<lambda>w. w \<noteq> []) (splitOn (CHR '' '') (map (\<lambda>c. if isSpace c then CHR '' '' else c) s))"

section \<open>Processes of the container runtime\<close>

text \<open>\<open>reBinaryName\<close>: \<open>(^(/var/lib/snapd)?/snap/k8s/.*/bin/containerd-shim-runc-v2|^/pause$)\<close>\<close>

definition reBinaryName :: "string \<Rightarrow> bool" where
  "reBinaryName command \<longleftrightarrow>
     command = ''/pause'' \<or>
     list_ex (\<lambda>p. HasPrefix command p \<and> strContains (drop (length p) command) ''/bin/containerd-shim-runc-v2'')
       [''/var/lib/snapd/snap/k8s/'', ''/snap/k8s/'']"

fun processTable :: "string list \<Rightarrow> processInfo gomap \<Rightarrow> processInfo gomap" where
  "processTable [] procs = procs"
| "processTable (line # lines) procs =
     (case strFields line of
        pid # ppid # arg # args \<Rightarrow>
          processTable lines (AList.update pid \<lparr>P_command = joinWith (CHR '' '') (arg # args), P_parentPID = ppid\<rparr> procs)
      | _ \<Rightarrow> processTable lines procs)"

definition listAllSystemProcesses :: "'k kernelOps \<Rightarrow> 'k Runtime \<Rightarrow> ('k Runtime, processInfo gomap) step" where
  "listAllSystemProcesses ops rt =
     tryStep (onDisk (onFiles (\<lambda>h. runCommand h [''bash'', ''-c'', ''ps -e -o pid=,ppid=,args=''])) rt)
       ''failed to execute ps command (output=%q): %w'' [] (\<lambda>rt _.
     tryStep (rt, KO_ps ops (RT_kernel rt)) ''failed to execute ps command (output=%q): %w'' [] (\<lambda>rt out.
     (rt, Inr (processTable (splitOn newline out) []))))"

fun makeShallowChildPIDs :: "processInfo gomap \<Rightarrow> (string \<Rightarrow> string list) \<Rightarrow> string \<Rightarrow> string list" where
  "makeShallowChildPIDs [] result = result"
| "makeShallowChildPIDs ((pid, info) # procs) result =
     makeShallowChildPIDs procs (result(P_parentPID info := result (P_parentPID info) @ [pid]))"

definition findShimPIDs :: "processInfo gomap \<Rightarrow> string list" where
  "findShimPIDs procs = map fst (filter (\<lambda>(pid, info). reBinaryName (P_command info)) procs)"

text \<open>
  The recursion of \<open>findAllChildren\<close> ends when no process is its own ancestor; \<open>None\<close> stands for a depth beyond \<open>n\<close>.
\<close>

fun findAllChildren :: "nat \<Rightarrow> (string \<Rightarrow> string list) \<Rightarrow> string list \<Rightarrow> string list option" where
  "findAllChildren n shallow [] = Some []"
| "findAllChildren 0 shallow (pid # pids) = None"
| "findAllChildren (Suc n) shallow (pid # pids) =
     (case findAllChildren n shallow (shallow pid) of
        None \<Rightarrow> None
      | Some children \<Rightarrow>
          (case findAllChildren (Suc n) shallow pids of
             None \<Rightarrow> None
           | Some rest \<Rightarrow> Some (pid # children @ rest)))"

definition shimChildren :: "'k kernelOps \<Rightarrow> processInfo gomap \<Rightarrow> string list option" where
  "shimChildren ops procs =
     findAllChildren (Suc (length procs)) (makeShallowChildPIDs (KO_childOrder ops procs) (\<lambda>_. []))
       (findShimPIDs (KO_shimOrder ops procs))"

text \<open>A table with a cycle makes the program overflow its stack.\<close>

definition RunningContainerdShimPIDs :: "'k kernelOps \<Rightarrow> 'k Runtime \<Rightarrow> ('k Runtime, string list option) step" where
  "RunningContainerdShimPIDs ops rt =
     tryStep (listAllSystemProcesses ops rt) ''failed to list running host processes: %w'' [] (\<lambda>rt procs.
     (rt, Inr (shimChildren ops procs)))"

fun killLoop :: "'k kernelOps \<Rightarrow> string list \<Rightarrow> 'k Runtime \<Rightarrow> 'k Runtime" where
  "killLoop ops [] rt = rt"
| "killLoop ops (pid # pids) rt =
     killLoop ops pids
       (case Atoi pid of
          None \<Rightarrow> rt
        | Some intPid \<Rightarrow>
            (case KO_findProcess ops intPid (RT_kernel rt) of
               Inl _ \<Rightarrow> rt
             | Inr _ \<Rightarrow> fst (kernelStep (KillProcess intPid) (KO_kill ops intPid) rt)))"

definition RemoveContainers :: "'k kernelOps \<Rightarrow> 'k Runtime \<Rightarrow> 'k Runtime option" where
  "RemoveContainers ops rt =
     (case RunningContainerdShimPIDs ops rt of
        (rt, Inl _) \<Rightarrow> Some rt
      | (rt, Inr pids) \<Rightarrow> map_option (\<lambda>pids. killLoop ops pids rt) pids)"

section \<open>Mounts\<close>

definition MNT_FORCE :: nat where "MNT_FORCE = 1"
definition MNT_DETACH :: nat where "MNT_DETACH = 2"

definition unixUnmount :: "'k kernelOps \<Rightarrow> string \<Rightarrow> nat \<Rightarrow> 'k Runtime \<Rightarrow> ('k Runtime, unit) step" where
  "unixUnmount ops mountPoint flags rt =
     tryStep (kernelStep (Unmount mountPoint flags) (KO_umount ops mountPoint flags) rt) ''failed to unmount %s: %w'' [mountPoint]
       (\<lambda>rt _. (rt, ok))"

definition DetachLoopDevice :: "string \<Rightarrow> 'k Runtime \<Rightarrow> ('k Runtime, unit) step" where
  "DetachLoopDevice device rt =
     tryStep (onDisk (onFiles (\<lambda>h. runCommand h [''losetup'', ''-d'', device])) rt)
       ''failed to detach loop device using losetup %s: %w'' [device] (\<lambda>rt _. (rt, ok))"

type_synonym 'k mountCallback = "string \<Rightarrow> string \<Rightarrow> string \<Rightarrow> 'k Runtime \<Rightarrow> ('k Runtime, unit) step"

fun mountLoop :: "'k mountCallback \<Rightarrow> string list \<Rightarrow> 'k Runtime \<Rightarrow> 'k Runtime" where
  "mountLoop callback [] rt = rt"
| "mountLoop callback (line # lines) rt =
     mountLoop callback lines
       (case strFields line of
          device # mountPoint # fsType # flags # _ \<Rightarrow> fst (callback device mountPoint fsType rt)
        | _ \<Rightarrow> rt)"

definition forEachMount :: "'k kernelOps \<Rightarrow> 'k mountCallback \<Rightarrow> 'k Runtime \<Rightarrow> ('k Runtime, unit) step" where
  "forEachMount ops callback rt =
     tryStep (rt, KO_openMounts ops (RT_kernel rt)) ''failed to open %s: %w'' [''/proc/mounts''] (\<lambda>rt lines.
     let rt = mountLoop callback lines rt in
     tryStep (rt, KO_scanMounts ops (RT_kernel rt)) ''failed to read %s: %w'' [''/proc/mounts''] (\<lambda>rt _. (rt, ok)))"

definition containerdMountPrefixes :: "containerdLib \<Rightarrow> Snap \<Rightarrow> Machine \<Rightarrow> string list" where
  "containerdMountPrefixes lib s m =
     (if IsContainerdPathManaged lib s (ContainerdRootDir s) m then [ContainerdRootDir s] else []) @
     (if IsContainerdPathManaged lib s (ContainerdSocketDir s) m
      then [pathJoin (ContainerdSocketDir s) ''io.containerd.''] else [])"

definition RemoveVolumeMountsGracefully :: "'k kernelOps \<Rightarrow> containerdLib \<Rightarrow> Snap \<Rightarrow> 'k Runtime \<Rightarrow> 'k Runtime" where
  "RemoveVolumeMountsGracefully ops lib s rt =
     (let prefixes = ''/var/lib/kubelet/pods'' # containerdMountPrefixes lib s (RT_machine rt) in
      fst (forEachMount ops (\<lambda>device mountPoint fsType rt.
        if list_ex (\<lambda>prefix. HasPrefix mountPoint prefix \<and> \<not> strContains fsType ''nfs'') prefixes
        then unixUnmount ops mountPoint MNT_DETACH rt else (rt, ok)) rt))"

definition RemoveVolumeMountsForce :: "'k kernelOps \<Rightarrow> containerdLib \<Rightarrow> Snap \<Rightarrow> 'k Runtime \<Rightarrow> 'k Runtime" where
  "RemoveVolumeMountsForce ops lib s rt =
     (let prefixes = ''/var/lib/kubelet/pods'' # ''/var/lib/kubelet/plugins'' # containerdMountPrefixes lib s (RT_machine rt) in
      fst (forEachMount ops (\<lambda>device mountPoint fsType rt.
        if list_ex (HasPrefix mountPoint) prefixes then unixUnmount ops mountPoint MNT_FORCE rt else (rt, ok)) rt))"

definition RemoveLoopDevices :: "'k kernelOps \<Rightarrow> 'k Runtime \<Rightarrow> 'k Runtime" where
  "RemoveLoopDevices ops rt =
     fst (forEachMount ops (\<lambda>device mountPoint fsType rt.
       if HasPrefix mountPoint ''/var/lib/kubelet/pods'' \<and> HasPrefix device ''/dev/loop''
       then DetachLoopDevice device rt else (rt, ok)) rt)"

section \<open>Network namespaces\<close>

definition deleteNetworkNamespace :: "'k kernelOps \<Rightarrow> string \<Rightarrow> string \<Rightarrow> 'k Runtime \<Rightarrow> ('k Runtime, unit) step" where
  "deleteNetworkNamespace ops netnsDir namespace rt =
     (let nsPath = pathJoin netnsDir namespace in
      tryStep (unixUnmount ops nsPath MNT_DETACH rt) ''failed to unmount network namespace %s: %w'' [namespace] (\<lambda>rt _.
      tryStep (onDisk (removePath nsPath) rt) ''failed to remove network namespace %s: %w'' [namespace] (\<lambda>rt _. (rt, ok))))"

fun namespaceLoop :: "(string \<Rightarrow> 'k Runtime \<Rightarrow> ('k Runtime, unit) step) \<Rightarrow> (string \<times> bool) list \<Rightarrow> 'k Runtime \<Rightarrow> 'k Runtime" where
  "namespaceLoop callback [] rt = rt"
| "namespaceLoop callback ((name, _) # entries) rt = namespaceLoop callback entries (fst (callback name rt))"

definition forEachNetworkNamespace ::
  "'k kernelOps \<Rightarrow> string \<Rightarrow> (string \<Rightarrow> 'k Runtime \<Rightarrow> ('k Runtime, unit) step) \<Rightarrow> 'k Runtime \<Rightarrow> ('k Runtime, unit) step"
where
  "forEachNetworkNamespace ops netnsDir callback rt =
     tryStep (rt, KO_readDir ops rt netnsDir) ''failed to list files under network namespace directory %w'' [] (\<lambda>rt entries.
     (namespaceLoop callback entries rt, ok))"

definition RemoveNetworkNamespaces :: "'k kernelOps \<Rightarrow> 'k Runtime \<Rightarrow> 'k Runtime" where
  "RemoveNetworkNamespaces ops rt =
     fst (forEachNetworkNamespace ops ''/run/netns'' (\<lambda>namespace rt.
       if HasPrefix namespace ''cni-'' then deleteNetworkNamespace ops ''/run/netns'' namespace rt else (rt, ok)) rt)"

section \<open>Sockets of plugins\<close>

definition PluginDirs :: "string list" where
  "PluginDirs = [''/var/lib/kubelet/plugins/'', ''/var/lib/kubelet/plugins_registry/'']"

text \<open>\<open>removeSockets\<close> walks the tree; \<open>n\<close> bounds its depth.\<close>

fun removeSockets :: "'k kernelOps \<Rightarrow> nat \<Rightarrow> string \<Rightarrow> 'k Runtime \<Rightarrow> 'k Runtime option"
and socketLoop :: "'k kernelOps \<Rightarrow> nat \<Rightarrow> string \<Rightarrow> (string \<times> bool) list \<Rightarrow> 'k Runtime \<Rightarrow> 'k Runtime option"
where
  "removeSockets ops 0 dir rt = None"
| "removeSockets ops (Suc n) dir rt =
     (case KO_readDir ops rt dir of Inl _ \<Rightarrow> Some rt | Inr entries \<Rightarrow> socketLoop ops n dir entries rt)"
| "socketLoop ops n dir [] rt = Some rt"
| "socketLoop ops n dir ((name, isDir) # entries) rt =
     (let path = filepathJoin [dir, name] in
      case (if isDir then removeSockets ops n path rt
            else if HasSuffix name ''.sock'' then Some (fst (onDisk (RemoveAll path) rt)) else Some rt) of
        None \<Rightarrow> None
      | Some rt \<Rightarrow> socketLoop ops n dir entries rt)"

definition RemovePluginSockets :: "'k kernelOps \<Rightarrow> nat \<Rightarrow> 'k Runtime \<Rightarrow> 'k Runtime option" where
  "RemovePluginSockets ops depth rt =
     foldl (\<lambda>acc dir. Option.bind acc (removeSockets ops depth dir)) (Some rt) PluginDirs"

text \<open>The order matters: containers first, so that nothing mounts again.\<close>

definition TryCleanupContainers :: "'k kernelOps \<Rightarrow> containerdLib \<Rightarrow> Snap \<Rightarrow> nat \<Rightarrow> 'k Runtime \<Rightarrow> 'k Runtime option" where
  "TryCleanupContainers ops lib s depth rt =
     Option.bind (RemoveContainers ops rt) (\<lambda>rt.
     let rt = RemoveNetworkNamespaces ops rt;
         rt = RemoveVolumeMountsGracefully ops lib s rt;
         rt = RemoveVolumeMountsForce ops lib s rt
     in map_option (RemoveLoopDevices ops) (RemovePluginSockets ops depth rt))"

section \<open>The processes that are killed\<close>

text \<open>The parent relation of a table of processes.\<close>

definition childOf :: "processInfo gomap \<Rightarrow> (string \<times> string) set" where
  "childOf procs = {(P_parentPID info, pid) | pid info. (pid, info) \<in> set procs}"

lemma makeShallowChildPIDs_set:
  "set (makeShallowChildPIDs procs result p) = set (result p) \<union> {pid. (p, pid) \<in> childOf procs}"
proof (induction procs result rule: makeShallowChildPIDs.induct)
  case (2 pid info procs result)
  have ch: "childOf ((pid, info) # procs) = insert (P_parentPID info, pid) (childOf procs)"
    by (auto simp: childOf_def)
  show ?case unfolding ch makeShallowChildPIDs.simps 2 by auto
qed (simp add: childOf_def)

lemma rtrancl_children: "(p, q) \<in> R\<^sup>* \<longleftrightarrow> q = p \<or> (\<exists>c. (p, c) \<in> R \<and> (c, q) \<in> R\<^sup>*)"
  by (metis converse_rtranclE converse_rtrancl_into_rtrancl rtrancl.rtrancl_refl)

lemma findAllChildren_set:
  assumes "findAllChildren n sh ps = Some r" "\<And>p. set (sh p) = {c. (p, c) \<in> R}"
  shows "set r = {q. \<exists>p \<in> set ps. (p, q) \<in> R\<^sup>*}"
  using assms
proof (induction n sh ps arbitrary: r rule: findAllChildren.induct)
  case (3 n sh pid pids)
  then obtain cs rest where c: "findAllChildren n sh (sh pid) = Some cs" and r: "findAllChildren (Suc n) sh pids = Some rest"
    and rr: "r = pid # cs @ rest"
    by (auto split: option.splits)
  have "set cs = {q. \<exists>p \<in> set (sh pid). (p, q) \<in> R\<^sup>*}" using 3 c by blast
  moreover have "set rest = {q. \<exists>p \<in> set pids. (p, q) \<in> R\<^sup>*}" using 3 c r by blast
  ultimately show ?case
    using 3(4) [of pid] rtrancl_children [of pid _ R] unfolding rr by (simp add: set_eq_iff)
qed simp_all

text \<open>With a parent relation without cycles the recursion is never deeper than the table is long.\<close>

lemma findAllChildren_depth:
  assumes fin: "finite R" and acyc: "acyclic R" and sh: "\<And>p. set (sh p) = {c. (p, c) \<in> R}"
  shows "(\<And>p. p \<in> set ps \<Longrightarrow> card {q. (p, q) \<in> R\<^sup>+} < n) \<Longrightarrow> \<exists>r. findAllChildren n sh ps = Some r"
proof (induction n arbitrary: ps)
  case 0
  then show ?case by (cases ps) auto
next
  case (Suc n)
  show ?case
    using Suc.prems
  proof (induction ps)
    case (Cons p ps)
    have "card {q. (c, q) \<in> R\<^sup>+} < n" if c: "c \<in> set (sh p)" for c
    proof -
      have pc: "(p, c) \<in> R" using c sh by simp
      have "finite {q. (p, q) \<in> R\<^sup>+}"
        by (rule finite_subset [of _ "Range R"]) (use fin in \<open>auto simp: finite_Range elim: tranclE\<close>)
      moreover have "{q. (c, q) \<in> R\<^sup>+} \<subseteq> {q. (p, q) \<in> R\<^sup>+}" using pc by (auto intro: trancl_into_trancl2)
      moreover have "c \<in> {q. (p, q) \<in> R\<^sup>+}" "c \<notin> {q. (c, q) \<in> R\<^sup>+}" using pc acyc by (auto simp: acyclic_def)
      ultimately have "card {q. (c, q) \<in> R\<^sup>+} < card {q. (p, q) \<in> R\<^sup>+}" by (metis psubsetI psubset_card_mono)
      then show ?thesis using Cons.prems [of p] by simp
    qed
    then obtain cs where "findAllChildren n sh (sh p) = Some cs" using Suc.IH [of "sh p"] by blast
    moreover obtain rest where "findAllChildren (Suc n) sh ps = Some rest" using Cons by auto
    ultimately show ?case by simp
  qed simp
qed

lemma childOf_finite: "finite (childOf procs)"
proof -
  have "childOf procs = (\<lambda>(pid, info). (P_parentPID info, pid)) ` set procs"
    by (force simp: childOf_def)
  then show ?thesis by simp
qed

lemma childOf_card: "card {q. (p, q) \<in> (childOf procs)\<^sup>+} \<le> length procs"
proof -
  have "Range (childOf procs) \<subseteq> fst ` set procs" by (force simp: childOf_def)
  moreover have "{q. (p, q) \<in> (childOf procs)\<^sup>+} \<subseteq> Range (childOf procs)" by (auto elim: tranclE)
  ultimately have "{q. (p, q) \<in> (childOf procs)\<^sup>+} \<subseteq> fst ` set procs" by blast
  then have "card {q. (p, q) \<in> (childOf procs)\<^sup>+} \<le> card (fst ` set procs)" by (simp add: card_mono)
  also have "\<dots> \<le> length procs" by (metis card_length length_map set_map)
  finally show ?thesis .
qed

text \<open>
  C27: The processes of the container runtime are found completely. When no process is its own ancestor, the search over the
  process table ends, and it returns exactly the shim and pause processes of this snap and all their descendants.
\<close>

theorem shimChildren_descendants:
  assumes orders: "set (KO_shimOrder ops procs) = set procs" "set (KO_childOrder ops procs) = set procs"
    and acyc: "acyclic (childOf procs)"
  shows "\<exists>pids. shimChildren ops procs = Some pids \<and>
    set pids = {q. \<exists>(p, info) \<in> set procs. reBinaryName (P_command info) \<and> (p, q) \<in> (childOf procs)\<^sup>*}"
proof -
  let ?sh = "makeShallowChildPIDs (KO_childOrder ops procs) (\<lambda>_. [])"
  have co: "childOf (KO_childOrder ops procs) = childOf procs" by (simp add: childOf_def orders)
  have sh: "set (?sh p) = {c. (p, c) \<in> childOf procs}" for p by (simp add: makeShallowChildPIDs_set co)
  have "card {q. (p, q) \<in> (childOf procs)\<^sup>+} < Suc (length procs)" for p using childOf_card [of p procs] by simp
  then obtain pids where p: "shimChildren ops procs = Some pids"
    using findAllChildren_depth [OF childOf_finite acyc sh, of "findShimPIDs (KO_shimOrder ops procs)"]
    unfolding shimChildren_def by blast
  have "set (findShimPIDs (KO_shimOrder ops procs)) = {p. \<exists>info. (p, info) \<in> set procs \<and> reBinaryName (P_command info)}"
    by (force simp: findShimPIDs_def orders)
  then have "set pids = {q. \<exists>(p, info) \<in> set procs. reBinaryName (P_command info) \<and> (p, q) \<in> (childOf procs)\<^sup>*}"
    using findAllChildren_set [OF p [unfolded shimChildren_def] sh] by auto
  with p show ?thesis by blast
qed

section \<open>What the clean-up asks the kernel\<close>

lemma onDisk_calls [simp]: "RT_calls (fst (onDisk f rt)) = RT_calls rt"
  by (simp add: onDisk_def split: prod.splits)

lemma kernelStep_calls [simp]: "RT_calls (fst (kernelStep c f rt)) = RT_calls rt @ [c]"
  by (simp add: kernelStep_def split: prod.splits)

lemma fst_tryStep_end: "fst (tryStep r f a (\<lambda>s _. (s, ok))) = fst r"
  by (cases r; cases "snd r") auto

lemma unixUnmount_calls [simp]: "RT_calls (fst (unixUnmount ops mp fl rt)) = RT_calls rt @ [Unmount mp fl]"
  by (simp add: unixUnmount_def fst_tryStep_end)

lemma DetachLoopDevice_calls [simp]: "RT_calls (fst (DetachLoopDevice d rt)) = RT_calls rt"
  by (simp add: DetachLoopDevice_def fst_tryStep_end)

text \<open>\<open>calls\<close> that all satisfy \<open>P\<close> are added.\<close>

definition adds :: "(kernelCall \<Rightarrow> bool) \<Rightarrow> 'k Runtime \<Rightarrow> 'k Runtime \<Rightarrow> bool" where
  "adds P rt rt' \<longleftrightarrow> (\<exists>cs. RT_calls rt' = RT_calls rt @ cs \<and> list_all P cs)"

lemma addsI: "RT_calls rt' = RT_calls rt @ cs \<Longrightarrow> list_all P cs \<Longrightarrow> adds P rt rt'"
  by (auto simp: adds_def)

lemma adds_same: "RT_calls rt' = RT_calls rt \<Longrightarrow> adds P rt rt'"
  by (simp add: adds_def)

lemma adds_trans: "adds P rt rt1 \<Longrightarrow> adds P rt1 rt2 \<Longrightarrow> adds P rt rt2"
  by (auto simp: adds_def)

lemma killLoop_adds:
  "adds (\<lambda>c. \<exists>pid \<in> set pids. \<exists>i. Atoi pid = Some i \<and> c = KillProcess i) rt (killLoop ops pids rt)"
proof (induction pids arbitrary: rt)
  case (Cons pid pids)
  let ?P = "\<lambda>c. \<exists>p \<in> set (pid # pids). \<exists>i. Atoi p = Some i \<and> c = KillProcess i"
  let ?rt = "case Atoi pid of None \<Rightarrow> rt | Some i \<Rightarrow>
     (case KO_findProcess ops i (RT_kernel rt) of Inl _ \<Rightarrow> rt | Inr _ \<Rightarrow> fst (kernelStep (KillProcess i) (KO_kill ops i) rt))"
  have "adds ?P rt ?rt"
  proof (cases "Atoi pid")
    case None
    then show ?thesis by (simp add: adds_same)
  next
    case (Some i)
    then have "adds ?P rt (fst (kernelStep (KillProcess i) (KO_kill ops i) rt))"
      by (intro addsI [of _ _ "[KillProcess i]"]) simp_all
    then show ?thesis using Some by (cases "KO_findProcess ops i (RT_kernel rt)") (simp_all add: adds_same)
  qed
  moreover have "adds ?P ?rt (killLoop ops pids ?rt)"
    using Cons.IH [of ?rt] by (auto simp: adds_def list_all_iff)
  ultimately show ?case by (simp add: adds_trans)
qed (simp add: adds_same)

lemma mountLoop_adds:
  assumes "\<And>d mp fs rt. adds P rt (fst (callback d mp fs rt))"
  shows "adds P rt (mountLoop callback lines rt)"
proof (induction lines arbitrary: rt)
  case (Cons line lines)
  let ?rt = "case strFields line of d # mp # fs # fl # _ \<Rightarrow> fst (callback d mp fs rt) | _ \<Rightarrow> rt"
  have "adds P rt ?rt" using assms by (auto intro: adds_same split: list.splits)
  then show ?case using adds_trans Cons.IH [of ?rt] by simp
qed (simp add: adds_same)

lemma forEachMount_adds:
  assumes "\<And>d mp fs rt. adds P rt (fst (callback d mp fs rt))"
  shows "adds P rt (fst (forEachMount ops callback rt))"
  using mountLoop_adds [OF assms, where rt = rt]
  by (cases "KO_openMounts ops (RT_kernel rt)") (auto simp: forEachMount_def Let_def fst_tryStep_end intro: adds_same)

lemma namespaceLoop_adds:
  assumes "\<And>n rt. adds P rt (fst (callback n rt))"
  shows "adds P rt (namespaceLoop callback entries rt)"
proof (induction entries arbitrary: rt)
  case (Cons e entries)
  then show ?case using assms adds_trans by (cases e) fastforce
qed (simp add: adds_same)

lemma deleteNetworkNamespace_calls:
  "RT_calls (fst (deleteNetworkNamespace ops dir ns rt)) = RT_calls rt @ [Unmount (pathJoin dir ns) MNT_DETACH]"
proof -
  obtain rt' r where r: "unixUnmount ops (pathJoin dir ns) MNT_DETACH rt = (rt', r)" by force
  then have "RT_calls rt' = RT_calls rt @ [Unmount (pathJoin dir ns) MNT_DETACH]"
    using unixUnmount_calls [of ops "pathJoin dir ns" MNT_DETACH rt] by simp
  then show ?thesis by (cases r) (simp_all add: deleteNetworkNamespace_def Let_def r fst_tryStep_end)
qed

lemma removeSockets_calls:
  "removeSockets ops n dir rt = Some rt' \<Longrightarrow> RT_calls rt' = RT_calls rt"
  "socketLoop ops n dir entries rt = Some rt' \<Longrightarrow> RT_calls rt' = RT_calls rt"
proof (induction ops n dir rt and ops n dir entries rt arbitrary: rt' and rt' rule: removeSockets_socketLoop.induct)
  case (2 ops n dir rt)
  then show ?case by (cases "KO_readDir ops rt dir") simp_all
next
  case (4 ops n dir name isDir entries rt)
  let ?step = "if isDir then removeSockets ops n (filepathJoin [dir, name]) rt
     else if HasSuffix name ''.sock'' then Some (fst (onDisk (RemoveAll (filepathJoin [dir, name])) rt)) else Some rt"
  have eq: "socketLoop ops n dir ((name, isDir) # entries) rt =
      (case ?step of None \<Rightarrow> None | Some rt \<Rightarrow> socketLoop ops n dir entries rt)"
    by (simp only: socketLoop.simps Let_def)
  obtain rt1 where st: "?step = Some rt1" using 4(3) unfolding eq by (cases ?step) simp_all
  have "RT_calls rt1 = RT_calls rt"
    using st 4(1) [of "filepathJoin [dir, name]" rt1] by (auto split: if_splits)
  moreover have "RT_calls rt' = RT_calls rt1"
    using 4(2) [OF refl st] 4(3) unfolding eq st by simp
  ultimately show ?case by simp
qed simp_all

lemma RemovePluginSockets_calls: "RemovePluginSockets ops n rt = Some rt' \<Longrightarrow> RT_calls rt' = RT_calls rt"
  by (auto simp: RemovePluginSockets_def PluginDirs_def Option.bind_eq_Some_conv dest!: removeSockets_calls)

text \<open>What a volume clean-up may unmount: what lies under the directories of the kubelet or of this snap's containerd.\<close>

definition volumePrefixes :: "Snap \<Rightarrow> string list" where
  "volumePrefixes s = [''/var/lib/kubelet/pods'', ''/var/lib/kubelet/plugins'', ContainerdRootDir s,
     pathJoin (ContainerdSocketDir s) ''io.containerd.'']"

lemma containerdMountPrefixes_volume: "p \<in> set (containerdMountPrefixes lib s m) \<Longrightarrow> p \<in> set (volumePrefixes s)"
  by (auto simp: containerdMountPrefixes_def volumePrefixes_def split: if_splits)

definition volumeCall :: "Snap \<Rightarrow> nat \<Rightarrow> kernelCall \<Rightarrow> bool" where
  "volumeCall s flags c \<longleftrightarrow> (\<exists>mp prefix. c = Unmount mp flags \<and> prefix \<in> set (volumePrefixes s) \<and> HasPrefix mp prefix)"

lemma RemoveVolumeMountsGracefully_adds: "adds (volumeCall s MNT_DETACH) rt (RemoveVolumeMountsGracefully ops lib s rt)"
  unfolding RemoveVolumeMountsGracefully_def Let_def
proof (rule forEachMount_adds)
  fix d mp fs rt'
  let ?ps = "''/var/lib/kubelet/pods'' # containerdMountPrefixes lib s (RT_machine rt)"
  show "adds (volumeCall s MNT_DETACH) rt' (fst (if list_ex (\<lambda>p. HasPrefix mp p \<and> \<not> strContains fs ''nfs'') ?ps
      then unixUnmount ops mp MNT_DETACH rt' else (rt', ok)))"
  proof (cases "list_ex (\<lambda>p. HasPrefix mp p \<and> \<not> strContains fs ''nfs'') ?ps")
    case True
    then obtain p where "p \<in> set ?ps" "HasPrefix mp p" unfolding list_ex_iff by blast
    then have "volumeCall s MNT_DETACH (Unmount mp MNT_DETACH)"
      using containerdMountPrefixes_volume [of p lib s] by (auto simp: volumeCall_def volumePrefixes_def)
    then show ?thesis unfolding if_P [OF True] by (intro addsI [of _ _ "[Unmount mp MNT_DETACH]"]) simp_all
  qed (simp only: if_False fst_conv adds_same)
qed

lemma RemoveVolumeMountsForce_adds: "adds (volumeCall s MNT_FORCE) rt (RemoveVolumeMountsForce ops lib s rt)"
  unfolding RemoveVolumeMountsForce_def Let_def
proof (rule forEachMount_adds)
  fix d mp fs rt'
  let ?ps = "''/var/lib/kubelet/pods'' # ''/var/lib/kubelet/plugins'' # containerdMountPrefixes lib s (RT_machine rt)"
  show "adds (volumeCall s MNT_FORCE) rt' (fst (if list_ex (HasPrefix mp) ?ps then unixUnmount ops mp MNT_FORCE rt' else (rt', ok)))"
  proof (cases "list_ex (HasPrefix mp) ?ps")
    case True
    then obtain p where "p \<in> set ?ps" "HasPrefix mp p" unfolding list_ex_iff by blast
    then have "volumeCall s MNT_FORCE (Unmount mp MNT_FORCE)"
      using containerdMountPrefixes_volume [of p lib s] by (auto simp: volumeCall_def volumePrefixes_def)
    then show ?thesis unfolding if_P [OF True] by (intro addsI [of _ _ "[Unmount mp MNT_FORCE]"]) simp_all
  qed (simp only: if_False fst_conv adds_same)
qed

lemma RemoveLoopDevices_calls: "RT_calls (RemoveLoopDevices ops rt) = RT_calls rt"
proof -
  have "adds (\<lambda>_. False) rt (RemoveLoopDevices ops rt)"
    unfolding RemoveLoopDevices_def by (rule forEachMount_adds) (auto intro!: adds_same)
  then show ?thesis by (auto simp: adds_def list_all_iff)
qed

definition namespaceCall :: "kernelCall \<Rightarrow> bool" where
  "namespaceCall c \<longleftrightarrow> (\<exists>ns. c = Unmount (pathJoin ''/run/netns'' ns) MNT_DETACH \<and> HasPrefix ns ''cni-'')"

lemma RemoveNetworkNamespaces_adds: "adds namespaceCall rt (RemoveNetworkNamespaces ops rt)"
proof (cases "KO_readDir ops rt ''/run/netns''")
  case (Inl e)
  then show ?thesis by (simp add: RemoveNetworkNamespaces_def forEachNetworkNamespace_def adds_same)
next
  case (Inr entries)
  have "adds namespaceCall rt (namespaceLoop (\<lambda>ns rt. if HasPrefix ns ''cni-'' then deleteNetworkNamespace ops ''/run/netns'' ns rt
      else (rt, ok)) entries rt)"
  proof (rule namespaceLoop_adds)
    fix ns rt
    show "adds namespaceCall rt (fst (if HasPrefix ns ''cni-'' then deleteNetworkNamespace ops ''/run/netns'' ns rt else (rt, ok)))"
    proof (cases "HasPrefix ns ''cni-''")
      case True
      then show ?thesis unfolding if_P [OF True]
        by (intro addsI [OF deleteNetworkNamespace_calls]) (auto simp: namespaceCall_def)
    qed (simp only: if_False fst_conv adds_same)
  qed
  then show ?thesis by (simp add: RemoveNetworkNamespaces_def forEachNetworkNamespace_def Inr)
qed

lemma RunningContainerdShimPIDs_calls: "RunningContainerdShimPIDs ops rt = (rt', r) \<Longrightarrow> RT_calls rt' = RT_calls rt"
proof -
  have "RT_calls (fst (listAllSystemProcesses ops rt)) = RT_calls rt"
    unfolding listAllSystemProcesses_def
    by (intro tryStep_keeps [where P = "\<lambda>s. RT_calls s = RT_calls rt"]) simp_all
  then have "RT_calls (fst (RunningContainerdShimPIDs ops rt)) = RT_calls rt"
    unfolding RunningContainerdShimPIDs_def
    by (intro tryStep_keeps [where P = "\<lambda>s. RT_calls s = RT_calls rt"]) simp_all
  then show "RunningContainerdShimPIDs ops rt = (rt', r) \<Longrightarrow> RT_calls rt' = RT_calls rt" by simp
qed

text \<open>
  What the clean-up of a node does to the system, and in which order. It kills only processes that the search for this
  snap's shims returned; then it unmounts network namespaces whose name starts with \<open>cni-\<close>, then detaches and last forces
  off the mounts below the directories of the kubelet and of this snap's containerd. It unmounts and kills nothing else.
\<close>

theorem cleanup_calls:
  assumes "TryCleanupContainers ops lib s depth rt = Some rt'"
  shows "\<exists>kills namespaces graceful forced.
    RT_calls rt' = RT_calls rt @ kills @ namespaces @ graceful @ forced \<and>
    (\<forall>c \<in> set kills. \<exists>pids rt1. RunningContainerdShimPIDs ops rt = (rt1, Inr (Some pids)) \<and>
       (\<exists>pid \<in> set pids. \<exists>i. Atoi pid = Some i \<and> c = KillProcess i)) \<and>
    list_all namespaceCall namespaces \<and> list_all (volumeCall s MNT_DETACH) graceful \<and> list_all (volumeCall s MNT_FORCE) forced"
proof -
  from assms obtain rt1 rt2 where r1: "RemoveContainers ops rt = Some rt1"
    and r2: "RemovePluginSockets ops depth (RemoveVolumeMountsForce ops lib s (RemoveVolumeMountsGracefully ops lib s
        (RemoveNetworkNamespaces ops rt1))) = Some rt2" and rt': "rt' = RemoveLoopDevices ops rt2"
    by (auto simp: TryCleanupContainers_def Option.bind_eq_Some_conv Let_def)
  obtain rt0 p where p: "RunningContainerdShimPIDs ops rt = (rt0, p)" by force
  note c0 = RunningContainerdShimPIDs_calls [OF p]
  have "\<exists>kills. RT_calls rt1 = RT_calls rt @ kills \<and> (\<forall>c \<in> set kills. \<exists>pids rt1. RunningContainerdShimPIDs ops rt = (rt1, Inr (Some pids)) \<and>
       (\<exists>pid \<in> set pids. \<exists>i. Atoi pid = Some i \<and> c = KillProcess i))"
  proof (cases p)
    case (Inl e)
    then show ?thesis using r1 c0 by (simp add: RemoveContainers_def p)
  next
    case (Inr q)
    then obtain pids where q: "q = Some pids" "rt1 = killLoop ops pids rt0" using r1 by (auto simp: RemoveContainers_def p)
    then show ?thesis using killLoop_adds [of pids rt0 ops] c0 p Inr by (auto simp: adds_def list_all_iff)
  qed
  then obtain kills where kills: "RT_calls rt1 = RT_calls rt @ kills"
    "\<forall>c \<in> set kills. \<exists>pids rt1. RunningContainerdShimPIDs ops rt = (rt1, Inr (Some pids)) \<and>
       (\<exists>pid \<in> set pids. \<exists>i. Atoi pid = Some i \<and> c = KillProcess i)" by blast
  have calls: "RT_calls rt' = RT_calls (RemoveVolumeMountsForce ops lib s (RemoveVolumeMountsGracefully ops lib s (RemoveNetworkNamespaces ops rt1)))"
    unfolding rt' RemoveLoopDevices_calls by (rule RemovePluginSockets_calls [OF r2])
  obtain namespaces graceful forced where
    "RT_calls (RemoveNetworkNamespaces ops rt1) = RT_calls rt1 @ namespaces" "list_all namespaceCall namespaces"
    "RT_calls (RemoveVolumeMountsGracefully ops lib s (RemoveNetworkNamespaces ops rt1)) = RT_calls (RemoveNetworkNamespaces ops rt1) @ graceful"
    "list_all (volumeCall s MNT_DETACH) graceful"
    "RT_calls rt' = RT_calls (RemoveVolumeMountsGracefully ops lib s (RemoveNetworkNamespaces ops rt1)) @ forced"
    "list_all (volumeCall s MNT_FORCE) forced"
    using RemoveNetworkNamespaces_adds [of rt1 ops] RemoveVolumeMountsGracefully_adds [of s "RemoveNetworkNamespaces ops rt1" ops lib]
      RemoveVolumeMountsForce_adds [of s "RemoveVolumeMountsGracefully ops lib s (RemoveNetworkNamespaces ops rt1)" ops lib]
    unfolding adds_def calls by blast
  with kills show ?thesis by (intro exI [of _ kills] exI [of _ namespaces] exI [of _ graceful] exI [of _ forced]) simp
qed

section \<open>What is unmounted\<close>

lemma mountLoop_calls:
  assumes "line \<in> set lines" "strFields line = d # mp # fs # fl # rest"
    and "\<And>rt. c \<in> set (RT_calls (fst (callback d mp fs rt)))"
    and keep: "\<And>d mp fs rt. set (RT_calls rt) \<subseteq> set (RT_calls (fst (callback d mp fs rt)))"
  shows "c \<in> set (RT_calls (mountLoop callback lines rt))"
proof -
  have grows: "set (RT_calls rt) \<subseteq> set (RT_calls (mountLoop callback ls rt))" for ls rt
  proof (induction ls arbitrary: rt)
    case (Cons l ls)
    let ?rt = "case strFields l of d # mp # fs # fl # _ \<Rightarrow> fst (callback d mp fs rt) | _ \<Rightarrow> rt"
    have "set (RT_calls rt) \<subseteq> set (RT_calls ?rt)" using keep by (auto split: list.splits)
    then show ?case using Cons.IH [of ?rt] by auto
  qed simp
  show ?thesis
    using assms(1)
  proof (induction lines arbitrary: rt)
    case (Cons l ls)
    let ?rt = "case strFields l of d # mp # fs # fl # _ \<Rightarrow> fst (callback d mp fs rt) | _ \<Rightarrow> rt"
    show ?case
    proof (cases "l = line")
      case True
      then have "c \<in> set (RT_calls ?rt)" using assms(2,3) by simp
      then show ?thesis using grows [of ?rt ls] by auto
    next
      case False
      then show ?thesis using Cons by simp
    qed
  qed simp
qed

text \<open>
  The prefixes are compared as strings: with the containerd directory of this snap managed, a mount of a directory that only
  shares its first characters, for example \<open>/var/lib/containerd-other\<close> beside \<open>/var/lib/containerd\<close>, is forced off as well.
\<close>

theorem volume_cleanup_foreign:
  assumes "IsContainerdPathManaged lib s (ContainerdRootDir s) (RT_machine rt)"
    and "KO_openMounts ops (RT_kernel rt) = Inr lines" "line \<in> set lines"
    and "strFields line = [device, ContainerdRootDir s @ ''-other'', fsType, flags]"
  shows "Unmount (ContainerdRootDir s @ ''-other'') MNT_FORCE \<in> set (RT_calls (RemoveVolumeMountsForce ops lib s rt))"
proof -
  let ?ps = "''/var/lib/kubelet/pods'' # ''/var/lib/kubelet/plugins'' # containerdMountPrefixes lib s (RT_machine rt)"
  let ?cb = "\<lambda>device mountPoint fsType rt. if list_ex (HasPrefix mountPoint) ?ps then unixUnmount ops mountPoint MNT_FORCE rt else (rt, ok)"
  let ?mp = "ContainerdRootDir s @ ''-other''"
  have "HasPrefix ?mp (ContainerdRootDir s)" "ContainerdRootDir s \<in> set ?ps"
    using assms(1) by (simp_all add: HasPrefix_iff containerdMountPrefixes_def)
  then have ex: "list_ex (HasPrefix ?mp) ?ps" unfolding list_ex_iff by blast
  have "Unmount ?mp MNT_FORCE \<in> set (RT_calls (mountLoop ?cb lines rt))"
  proof (rule mountLoop_calls [OF assms(3,4)])
    show "Unmount ?mp MNT_FORCE \<in> set (RT_calls (fst (?cb device ?mp fsType rt')))" for rt'
      unfolding if_P [OF ex] by simp
    show "set (RT_calls rt') \<subseteq> set (RT_calls (fst (?cb d m f rt')))" for d m f rt'
      by (cases "list_ex (HasPrefix m) ?ps") (auto simp only: if_True if_False unixUnmount_calls set_append fst_conv)
  qed
  then show ?thesis
    using assms(2) by (simp add: RemoveVolumeMountsForce_def forEachMount_def Let_def fst_tryStep_end)
qed

section \<open>Instances\<close>

definition sampleProcs :: "processInfo gomap" where
  "sampleProcs = [(''10'', \<lparr>P_command = ''/snap/k8s/9/bin/containerd-shim-runc-v2 -id x'', P_parentPID = ''1''\<rparr>),
     (''11'', \<lparr>P_command = ''/pause'', P_parentPID = ''10''\<rparr>), (''12'', \<lparr>P_command = ''nginx'', P_parentPID = ''10''\<rparr>),
     (''20'', \<lparr>P_command = ''bash'', P_parentPID = ''1''\<rparr>)]"

definition sampleKernel :: "unit kernelOps" where
  "sampleKernel = \<lparr>KO_ps = (\<lambda>_. Inl ErrNotExist), KO_shimOrder = (\<lambda>m. m), KO_childOrder = (\<lambda>m. m), KO_findProcess = (\<lambda>_ _. ok),
     KO_kill = (\<lambda>_ k. (k, ok)), KO_openMounts = (\<lambda>_. Inr [''tmpfs /var/lib/kubelet/pods/x tmpfs rw'']), KO_scanMounts = (\<lambda>_. ok),
     KO_umount = (\<lambda>_ _ k. (k, ok)), KO_readDir = (\<lambda>_ _. Inl ErrNotExist)\<rparr>"

lemma sampleProcs_acyclic: "acyclic (childOf sampleProcs)"
proof -
  let ?f = "\<lambda>p. if p = ''1'' then 0 else if p = ''10'' then 1 else (2 :: nat)"
  have "childOf sampleProcs \<subseteq> measure ?f" by (auto simp: childOf_def sampleProcs_def)
  then show ?thesis by (rule wf_acyclic [OF wf_subset [OF wf_measure]])
qed

theorem shimChildren_descendants_witness:
  "shimChildren sampleKernel sampleProcs = Some [''10'', ''11'', ''12'', ''11''] \<and>
   set [''10'', ''11'', ''12'', ''11''] = {q. \<exists>(p, info) \<in> set sampleProcs. reBinaryName (P_command info) \<and> (p, q) \<in> (childOf sampleProcs)\<^sup>*}"
proof -
  have "shimChildren sampleKernel sampleProcs = Some [''10'', ''11'', ''12'', ''11'']"
    by (code_simp)
  with shimChildren_descendants [of sampleKernel sampleProcs] sampleProcs_acyclic show ?thesis
    by (simp only: sampleKernel_def kernelOps.simps) auto
qed

definition sampleRuntime :: "unit Runtime" where
  "sampleRuntime = \<lparr>RT_machine = sampleMachine, RT_kernel = (), RT_calls = []\<rparr>"

theorem cleanup_calls_witness:
  "\<exists>rt' kills namespaces graceful forced. TryCleanupContainers sampleKernel sampleLib sampleSnap 1 sampleRuntime = Some rt' \<and>
     RT_calls rt' = kills @ namespaces @ graceful @ forced \<and> list_all (volumeCall sampleSnap MNT_FORCE) forced"
proof -
  have "\<exists>rt'. TryCleanupContainers sampleKernel sampleLib sampleSnap 1 sampleRuntime = Some rt'"
  proof -
    have "RemovePluginSockets sampleKernel 1 rt = Some rt" for rt
      by (simp add: RemovePluginSockets_def PluginDirs_def sampleKernel_def)
    moreover have "RemoveContainers sampleKernel sampleRuntime \<noteq> None"
      by (auto simp: RemoveContainers_def RunningContainerdShimPIDs_def listAllSystemProcesses_def tryStep_def sampleKernel_def
          split: prod.splits sum.splits)
    ultimately show ?thesis by (auto simp: TryCleanupContainers_def Let_def)
  qed
  then obtain rt' where rt': "TryCleanupContainers sampleKernel sampleLib sampleSnap 1 sampleRuntime = Some rt'" by blast
  have "RT_calls sampleRuntime = []" by (simp add: sampleRuntime_def)
  then show ?thesis using cleanup_calls [OF rt'] rt' by auto
qed

end
