(* ===== verification/Removal.thy ===== *)
theory Removal
  imports Cleanup Join
begin

text \<open>
  Removing a node: the hook that cleans the node itself (\<open>pkg/k8sd/app/hooks_remove.go\<close>) and the API handler that takes it
  out of Kubernetes, of the datastore and of the microcluster (\<open>pkg/k8sd/api/cluster_remove.go\<close>, \<open>pkg/utils/node/node.go\<close>).

  The microcluster is a parameter: its state is of type \<open>'m\<close>, its calls are the fields of \<open>microcluster\<close>.
\<close>

section \<open>The microcluster\<close>

record 'm microcluster =
  MC_client :: "unit res"
  MC_member :: "string \<Rightarrow> 'm \<Rightarrow> ('m, clusterMember) step"
  MC_members :: "'m \<Rightarrow> ('m, clusterMember list) step"
  MC_remove :: "string \<Rightarrow> string \<Rightarrow> bool \<Rightarrow> 'm \<Rightarrow> ('m, unit) step"

text \<open>The zero value of the role is the empty string.\<close>

datatype DatastoreRole = RoleVoter | RoleStandBy | RoleSpare | RolePending | RoleUnknown | RoleUnset

record NodeStatus =
  NS_Name :: string
  NS_Address :: string
  NS_ClusterRole :: string
  NS_DatastoreRole :: DatastoreRole

definition DatastoreRoleFromString :: "string \<Rightarrow> DatastoreRole" where
  "DatastoreRoleFromString role =
     (if role = ''voter'' then RoleVoter else if role = ''stand-by'' then RoleStandBy else if role = ''spare'' then RoleSpare
      else if role = ''PENDING'' then RolePending else RoleUnknown)"

definition memberAddress :: "clusterMember \<Rightarrow> string" where
  "memberAddress m = JoinHostPortInt (CM_Address m) (CM_Port m)"

fun controlPlaneLoop :: "string \<Rightarrow> clusterMember list \<Rightarrow> NodeStatus option" where
  "controlPlaneLoop name [] = None"
| "controlPlaneLoop name (m # ms) =
     (if CM_Name m = name then
        Some \<lparr>NS_Name = CM_Name m, NS_Address = memberAddress m, NS_ClusterRole = ''control-plane'',
              NS_DatastoreRole = DatastoreRoleFromString (CM_Role m)\<rparr>
      else controlPlaneLoop name ms)"

definition GetControlPlaneNode :: "'m microcluster \<Rightarrow> string \<Rightarrow> 'm \<Rightarrow> ('m, NodeStatus option) step" where
  "GetControlPlaneNode mc name m =
     tryStep (m, MC_client mc) ''failed to get k8sd client: %w'' [] (\<lambda>m _.
     tryStep (MC_members mc m) ''failed to get microcluster members: %w'' [] (\<lambda>m members.
     (m, Inr (controlPlaneLoop name members))))"

definition IsControlPlaneNode :: "'m microcluster \<Rightarrow> string \<Rightarrow> 'm \<Rightarrow> ('m, bool) step" where
  "IsControlPlaneNode mc name m =
     tryStep (GetControlPlaneNode mc name m) ''failed to get control-plane node: %w'' [] (\<lambda>m node. (m, Inr (node \<noteq> None)))"

text \<open>Both removals wait until the node is no longer pending; they give up after ten failed calls.\<close>

definition maxRetries :: nat where "maxRetries = 10"

definition pendingCheck :: "'m microcluster \<Rightarrow> string \<Rightarrow> 'm \<times> nat \<Rightarrow> ('m \<times> nat, bool) step" where
  "pendingCheck mc self = (\<lambda>(m, retries).
     case MC_member mc self m of
       (m, Inl _) \<Rightarrow> ((m, Suc retries), Inr (Suc retries \<ge> maxRetries))
     | (m, Inr member) \<Rightarrow> ((m, retries), Inr (retries \<ge> maxRetries \<or> CM_Role member \<noteq> ''PENDING'')))"

definition waitNotPending :: "'m microcluster \<Rightarrow> nat \<Rightarrow> string \<Rightarrow> 'm \<Rightarrow> 'm" where
  "waitNotPending mc checks self m = fst (fst (WaitUntilReady checks (pendingCheck mc self) (m, 0)))"

section \<open>The hook of the node that is removed\<close>

definition zeroControlPlanePKI :: ControlPlanePKI where
  "zeroControlPlanePKI = NewControlPlanePKI [] [] [] 0 (Some 0) False False (\<lambda>t. t)"

definition zeroWorkerPKI :: WorkerNodePKI where
  "zeroWorkerPKI = \<lparr>W_CACert = [], W_ClientCACert = [], W_KubeletCert = [], W_KubeletKey = [], W_KubeProxyClientCert = [],
     W_KubeProxyClientKey = [], W_KubeletClientCert = [], W_KubeletClientKey = []\<rparr>"

definition zeroExternalPKI :: ExternalDatastorePKI where
  "zeroExternalPKI = \<lparr>DatastoreCACert = [], DatastoreClientCert = [], DatastoreClientKey = []\<rparr>"

text \<open>An error of a step is logged and the clean-up goes on.\<close>

abbreviation bestEffort :: "(Machine \<Rightarrow> (Machine, 'a) step) \<Rightarrow> 'k Runtime \<Rightarrow> 'k Runtime" where
  "bestEffort f rt \<equiv> fst (onDisk f rt)"

definition stopAndClean :: "'k kernelOps \<Rightarrow> containerdLib \<Rightarrow> Snap \<Rightarrow> nat \<Rightarrow> 'k Runtime \<Rightarrow> 'k Runtime option" where
  "stopAndClean ops lib s depth rt =
     (let rt = bestEffort (onFiles (EnsureWorkerPKI zeroWorkerPKI)) rt;
          rt = bestEffort (onFiles (EnsureControlPlanePKI zeroControlPlanePKI)) rt;
          rt = bestEffort (onFiles (\<lambda>h. StopK8sServices h [''--no-wait''])) rt
      in map_option (bestEffort (\<lambda>m. (TryCleanupContainerdPaths lib s m, ok))) (TryCleanupContainers ops lib s depth rt))"

definition cleanAlways :: "Snap \<Rightarrow> 'k Runtime \<Rightarrow> 'k Runtime" where
  "cleanAlways s rt =
     (let rt = bestEffort (onFiles (EnsureExtDatastorePKI zeroExternalPKI)) rt;
          rt = bestEffort (RemoveAll (EtcdDir s)) rt;
          rt = bestEffort (RemoveAll (ServiceArgumentsDir s)) rt
      in bestEffort (onFiles (MarkAsWorkerNode s False)) rt)"

definition skipsStop :: "string \<Rightarrow> ClusterConfig res \<Rightarrow> bool" where
  "skipsStop key cfg = (case cfg of Inl _ \<Rightarrow> True | Inr cfg \<Rightarrow> snd (Annotations_Get (CC_Annotations cfg) key))"

text \<open>\<open>skipStop\<close> is the annotation \<open>AnnotationSkipStopServicesOnRemove\<close> of the API.\<close>

definition onPreRemove ::
  "'k kernelOps \<Rightarrow> 'm microcluster \<Rightarrow> containerdLib \<Rightarrow> json \<Rightarrow> Snap \<Rightarrow> string \<Rightarrow> string \<Rightarrow> nat \<Rightarrow> nat \<Rightarrow> DB \<Rightarrow> 'm \<Rightarrow> 'k Runtime
   \<Rightarrow> ('m \<times> 'k Runtime \<times> unit res) option"
where
  "onPreRemove ops mc lib j s self skipStop checks depth db m rt =
     (case MC_client mc of
        Inl e \<Rightarrow> Some (m, rt, Inl (Wrapf ''failed to get k8sd client: %w'' [] e))
      | Inr _ \<Rightarrow>
          (let m = waitNotPending mc checks self m in
           map_option (\<lambda>rt. (m, cleanAlways s rt, ok))
             (if skipsStop skipStop (util_GetClusterConfig j db) then Some rt else stopAndClean ops lib s depth rt)))"

section \<open>The API handler\<close>

datatype removeEvent = RemovedFromKubernetes | RemovedFromDatastore | RemovedFromMicrocluster

record ('m, 'e) RemoveState =
  RM_micro :: 'm
  RM_kube :: Kube
  RM_etcd :: 'e
  RM_events :: "removeEvent list"

record ('m, 'e) removeEnv =
  RE_micro :: "'m microcluster"
  RE_etcd :: "'e etcdOps"
  RE_json :: json
  RE_db :: DB
  RE_host :: Host
  RE_self :: string
  RE_checks :: nat
  RE_kubernetesClient :: "unit res"
  RE_isConflict :: "error \<Rightarrow> bool"
  RE_isInternal :: "error \<Rightarrow> bool"
  RE_deleteSteps :: nat
  RE_skipCleanupNode :: string

record RemoveNodeRequest =
  RQ_Name :: string
  RQ_Force :: bool

definition onMicro :: "('m \<Rightarrow> ('m, 'a) step) \<Rightarrow> ('m, 'e) RemoveState \<Rightarrow> (('m, 'e) RemoveState, 'a) step" where
  "onMicro f st = (case f (RM_micro st) of (m, r) \<Rightarrow> (st\<lparr>RM_micro := m\<rparr>, r))"

text \<open>A removal that succeeded is recorded.\<close>

definition recording :: "removeEvent \<Rightarrow> (('m, 'e) RemoveState, unit) step \<Rightarrow> (('m, 'e) RemoveState, unit) step" where
  "recording ev r = tryPass r (\<lambda>st _. (st\<lparr>RM_events := RM_events st @ [ev]\<rparr>, ok))"

definition removeNodeFromKubernetes :: "('m, 'e) removeEnv \<Rightarrow> string \<Rightarrow> ('m, 'e) RemoveState \<Rightarrow> (('m, 'e) RemoveState, unit) step" where
  "removeNodeFromKubernetes env nodeName st =
     tryStep (st, RE_kubernetesClient env) ''failed to create k8s client: %w'' [] (\<lambda>st _.
     tryStep (case DeleteNode (RE_isConflict env) (RE_isInternal env) (RE_deleteSteps env) nodeName (RM_kube st) of
                (k, r) \<Rightarrow> (st\<lparr>RM_kube := k\<rparr>, r))
       ''failed to remove k8s node %q: %w'' [nodeName] (\<lambda>st _. (st, ok)))"

definition removeNodeFromEtcd ::
  "('m, 'e) removeEnv \<Rightarrow> ClusterConfig \<Rightarrow> string \<Rightarrow> ('m, 'e) RemoveState \<Rightarrow> (('m, 'e) RemoveState, unit) step"
where
  "removeNodeFromEtcd env cfg nodeName st =
     tryStep (st, MC_client (RE_micro env)) ''failed to get k8sd client: %w'' [] (\<lambda>st _.
     tryStep (onMicro (MC_members (RE_micro env)) st) ''failed to get microcluster members: %w'' [] (\<lambda>st members.
     let clientURLs = joinEndpoints nodeName (getInt (Datastore_EtcdPort (CC_Datastore cfg))) members in
     tryStep (st, etcd_NewClient (RE_etcd env) snapEtcdPKIDir clientURLs (RE_host env)) ''failed to create etcd client: %w'' [] (\<lambda>st _.
     tryStep (case RemoveNodeByName (RE_etcd env) nodeName (RM_etcd st) of (e, r) \<Rightarrow> (st\<lparr>RM_etcd := e\<rparr>, r))
       ''failed to remove node %s from etcd cluster: %w'' [nodeName] (\<lambda>st _. (st, ok)))))"

definition removeNodeFromDatastore ::
  "('m, 'e) removeEnv \<Rightarrow> ClusterConfig \<Rightarrow> string \<Rightarrow> ('m, 'e) RemoveState \<Rightarrow> (('m, 'e) RemoveState, unit) step"
where
  "removeNodeFromDatastore env cfg nodeName st =
     (if datastoreType cfg = ''etcd'' then
        tryStep (removeNodeFromEtcd env cfg nodeName st) ''failed to remove node from etcd cluster: %w'' [] (\<lambda>st _. (st, ok))
      else (st, ok))"

text \<open>The address of the member may be unknown; then it is passed as the empty string.\<close>

definition removeNodeFromMicrocluster ::
  "('m, 'e) removeEnv \<Rightarrow> string \<Rightarrow> bool \<Rightarrow> ('m, 'e) RemoveState \<Rightarrow> (('m, 'e) RemoveState, unit) step"
where
  "removeNodeFromMicrocluster env nodeName force st =
     (let mc = RE_micro env in
      tryStep (st, MC_client mc) ''failed to get k8sd client: %w'' [] (\<lambda>st _.
      let st = st\<lparr>RM_micro := waitNotPending mc (RE_checks env) (RE_self env) (RM_micro st)\<rparr> in
      case onMicro (MC_member mc nodeName) st of (st, r) \<Rightarrow>
        (let nodeAddr = (case r of Inl _ \<Rightarrow> [] | Inr member \<Rightarrow> memberAddress member) in
         tryStep (onMicro (MC_remove mc nodeName nodeAddr force) st) ''failed to delete cluster member %s: %w'' [nodeName]
           (\<lambda>st _. (st, ok)))))"

text \<open>With \<open>force\<close> the errors of a step are logged only.\<close>

definition unlessForced ::
  "bool \<Rightarrow> string \<Rightarrow> ('s, 'a) step \<Rightarrow> ('s \<Rightarrow> 'a option \<Rightarrow> 's \<times> 'b response) \<Rightarrow> 's \<times> 'b response"
where
  "unlessForced force msg r k =
     (case r of
        (st, Inr x) \<Rightarrow> k st (Some x)
      | (st, Inl e) \<Rightarrow> if force then k st None else (st, InternalError (Wrapf msg [] e)))"

definition removeControlPlane ::
  "('m, 'e) removeEnv \<Rightarrow> ClusterConfig \<Rightarrow> RemoveNodeRequest \<Rightarrow> ('m, 'e) RemoveState \<Rightarrow> ('m, 'e) RemoveState \<times> unit response"
where
  "removeControlPlane env cfg req st =
     unlessForced (RQ_Force req) ''failed to delete node from datastore: %w''
       (recording RemovedFromDatastore (removeNodeFromDatastore env cfg (RQ_Name req) st)) (\<lambda>st _.
     unlessForced (RQ_Force req) ''failed to delete node from microcluster: %w''
       (recording RemovedFromMicrocluster (removeNodeFromMicrocluster env (RQ_Name req) (RQ_Force req) st)) (\<lambda>st _.
     (st, SyncResponse ())))"

definition postClusterRemove ::
  "('m, 'e) removeEnv \<Rightarrow> RemoveNodeRequest res \<Rightarrow> ('m, 'e) RemoveState \<Rightarrow> ('m, 'e) RemoveState \<times> unit response"
where
  "postClusterRemove env decoded st =
     (case decoded of
        Inl e \<Rightarrow> (st, BadRequest (Wrapf ''failed to parse request: %w'' [] e))
      | Inr req \<Rightarrow>
          orFail 500 ''failed to get cluster config: %w'' [] (st, util_GetClusterConfig (RE_json env) (RE_db env)) (\<lambda>st cfg.
          unlessForced (RQ_Force req) ''failed to determine if node is control-plane: %w''
            (onMicro (IsControlPlaneNode (RE_micro env) (RQ_Name req)) st) (\<lambda>st isControlPlane.
          let rest = (\<lambda>st. if isControlPlane = Some True \<or> RQ_Force req then removeControlPlane env cfg req st else (st, SyncResponse ())) in
          if snd (Annotations_Get (CC_Annotations cfg) (RE_skipCleanupNode env)) then rest st
          else unlessForced (RQ_Force req) ''failed to remove node from Kubernetes: %w''
                 (recording RemovedFromKubernetes (removeNodeFromKubernetes env (RQ_Name req) st)) (\<lambda>st _. rest st))))"

section \<open>Waiting\<close>

lemma pendingCheck_gives_up:
  assumes "\<And>m. \<not> is_ok (snd (MC_member mc self m))"
  shows "retries < maxRetries \<Longrightarrow> maxRetries - retries \<le> n \<Longrightarrow> snd (WaitUntilReady n (pendingCheck mc self) (m, retries)) = ok"
proof (induction n arbitrary: m retries)
  case (Suc n)
  obtain m' e where c: "MC_member mc self m = (m', Inl e)"
    using assms [of m] by (cases "MC_member mc self m"; cases "snd (MC_member mc self m)") auto
  show ?case
  proof (cases "Suc retries \<ge> maxRetries")
    case True
    then show ?thesis by (simp add: pendingCheck_def c)
  next
    case False
    then have "snd (WaitUntilReady n (pendingCheck mc self) (m', Suc retries)) = ok"
      using Suc by (intro Suc.IH) simp_all
    then show ?thesis using False by (simp add: pendingCheck_def c)
  qed
qed simp

section \<open>What the hook removes\<close>

definition hostShrinks :: "(string \<Rightarrow> bool) \<Rightarrow> Host \<Rightarrow> Host \<Rightarrow> bool" where
  "hostShrinks P h h' \<longleftrightarrow>
     (\<forall>q. H_files h' q = H_files h q \<or> P q \<and> H_files h' q = None) \<and> Host.H_fault h' = Host.H_fault h"

lemma onDisk_shrinks:
  "shrinks P (RT_machine rt) (fst (f (RT_machine rt))) \<Longrightarrow> shrinks P (RT_machine rt) (RT_machine (fst (onDisk f rt)))"
  by (cases "f (RT_machine rt)") (simp add: onDisk_def)

lemma onFiles_shrinks: "hostShrinks P (M_host m) (fst (f (M_host m))) \<Longrightarrow> shrinks P m (fst (onFiles f m))"
proof -
  assume h: "hostShrinks P (M_host m) (fst (f (M_host m)))"
  obtain h' r where r: "f (M_host m) = (h', r)" by force
  have "H_files h' q = H_files (M_host m) q \<or> P q \<and> H_files h' q = None" for q
    using h by (simp add: hostShrinks_def r)
  moreover have "Host.H_fault h' = Host.H_fault (M_host m)" using h by (simp add: hostShrinks_def r)
  ultimately show "shrinks P m (fst (onFiles f m))"
    unfolding shrinks_def pathAt_def onFiles_def r by auto
qed

lemma hostShrinks_refl [simp]: "hostShrinks P h h"
  by (simp add: hostShrinks_def)

lemma hostShrinks_trans: "hostShrinks P h h1 \<Longrightarrow> hostShrinks P h1 h2 \<Longrightarrow> hostShrinks P h h2"
  unfolding hostShrinks_def by metis

lemma osRemove_shrinks: "P p \<Longrightarrow> hostShrinks P h (fst (osRemove h p))"
  by (auto simp: osRemove_def hostShrinks_def split: option.splits)

lemma ensureFiles_zero_shrinks:
  "(\<And>f c. (f, c) \<in> set fs \<Longrightarrow> c = [] \<and> P f) \<Longrightarrow> hostShrinks P h (fst (ensureFiles u g m fs ch h))"
proof (induction u g m fs ch h rule: ensureFiles.induct)
  case (2 u g m f c fs ch h)
  have z: "c = []" "P f" using 2(2) [of f c] by simp_all
  obtain h1 r where r: "osRemove h f = (h1, r)" by force
  have 1: "hostShrinks P h h1" using osRemove_shrinks [of P f h] z(2) r by simp
  obtain v where e: "ensureFile f c u g m h = (h1, v)"
    using r z(1) by (cases r) (auto simp: ensureFile_def, metis)
  show ?case
  proof (cases v)
    case (Inl x)
    then show ?thesis using 1 by (simp add: e)
  next
    case (Inr b)
    then have "hostShrinks P h1 (fst (ensureFiles u g m fs (ch \<or> b) h1))"
      by (intro 2(1)) (use 2(2) in auto)
    then show ?thesis using hostShrinks_trans [OF 1] Inr by (simp add: e)
  qed
qed simp

text \<open>Paths are only removed, and only those in \<open>P\<close>.\<close>

definition prunes :: "(string \<Rightarrow> bool) \<Rightarrow> 'k Runtime \<Rightarrow> 'k Runtime \<Rightarrow> bool" where
  "prunes P rt rt' \<longleftrightarrow> shrinks P (RT_machine rt) (RT_machine rt')"

lemma prunes_refl [simp]: "prunes P rt rt"
  by (simp add: prunes_def)

lemma prunes_trans: "prunes P rt rt1 \<Longrightarrow> prunes P rt1 rt2 \<Longrightarrow> prunes P rt rt2"
  unfolding prunes_def by (rule shrinks_trans)

lemma onDisk_kernel [simp]: "RT_kernel (fst (onDisk f rt)) = RT_kernel rt"
  by (cases "f (RT_machine rt)") (simp add: onDisk_def)

lemma prunes_disk: "(\<And>m. shrinks P m (fst (f m))) \<Longrightarrow> prunes P rt (fst (onDisk f rt))"
  unfolding prunes_def by (rule onDisk_shrinks)

lemma kernelStep_prunes [simp]: "prunes P rt (fst (kernelStep c f rt))"
  by (cases "f (RT_kernel rt)") (simp add: prunes_def kernelStep_def)

lemma runCommand_shrinks: "shrinks P m (fst (onFiles (\<lambda>h. runCommand h c) m))"
  by (rule onFiles_shrinks) (simp add: hostShrinks_def runCommand_def)

lemma tryStep_prunes:
  "prunes P rt (fst r) \<Longrightarrow> (\<And>s x. r = (s, Inr x) \<Longrightarrow> prunes P rt s \<Longrightarrow> prunes P rt (fst (k s x))) \<Longrightarrow> prunes P rt (fst (tryStep r f a k))"
  by (rule tryStep_keeps)

lemma unixUnmount_prunes [simp]: "prunes P rt (fst (unixUnmount ops mp fl rt))"
  by (simp add: unixUnmount_def fst_tryStep_end)

lemma killLoop_prunes: "prunes P rt (killLoop ops pids rt)"
proof (induction pids arbitrary: rt)
  case (Cons pid pids)
  let ?rt = "case Atoi pid of None \<Rightarrow> rt | Some i \<Rightarrow>
     (case KO_findProcess ops i (RT_kernel rt) of Inl _ \<Rightarrow> rt | Inr _ \<Rightarrow> fst (kernelStep (KillProcess i) (KO_kill ops i) rt))"
  have "prunes P rt ?rt" by (simp split: option.split sum.split)
  then show ?case using prunes_trans Cons.IH [of ?rt] by simp
qed simp

lemma listAllSystemProcesses_prunes: "prunes P rt (fst (listAllSystemProcesses ops rt))"
  unfolding listAllSystemProcesses_def
  by (intro tryStep_prunes prunes_disk runCommand_shrinks) simp_all

lemma RemoveContainers_prunes: "RemoveContainers ops rt = Some rt' \<Longrightarrow> prunes P rt rt'"
proof -
  assume r: "RemoveContainers ops rt = Some rt'"
  obtain rt0 p where p: "RunningContainerdShimPIDs ops rt = (rt0, p)" by force
  have "prunes P rt (fst (RunningContainerdShimPIDs ops rt))"
    unfolding RunningContainerdShimPIDs_def by (intro tryStep_prunes listAllSystemProcesses_prunes) simp
  then have "prunes P rt rt0" by (simp add: p)
  with r p show "prunes P rt rt'"
    by (cases p) (auto simp: RemoveContainers_def intro: prunes_trans killLoop_prunes)
qed

lemma mountLoop_prunes:
  assumes "\<And>d mp fs rt. prunes P rt (fst (callback d mp fs rt))"
  shows "prunes P rt (mountLoop callback lines rt)"
proof (induction lines arbitrary: rt)
  case (Cons line lines)
  let ?rt = "case strFields line of d # mp # fs # fl # _ \<Rightarrow> fst (callback d mp fs rt) | _ \<Rightarrow> rt"
  have "prunes P rt ?rt" using assms by (auto split: list.split)
  then show ?case using prunes_trans Cons.IH [of ?rt] by simp
qed simp

lemma forEachMount_prunes:
  assumes "\<And>d mp fs rt. prunes P rt (fst (callback d mp fs rt))"
  shows "prunes P rt (fst (forEachMount ops callback rt))"
  using mountLoop_prunes [OF assms, where rt = rt]
  by (cases "KO_openMounts ops (RT_kernel rt)") (simp_all add: forEachMount_def Let_def fst_tryStep_end)

lemma DetachLoopDevice_prunes [simp]: "prunes P rt (fst (DetachLoopDevice d rt))"
  unfolding DetachLoopDevice_def fst_tryStep_end by (rule prunes_disk) (rule runCommand_shrinks)

lemma mounts_prunes:
  "prunes P rt (RemoveVolumeMountsGracefully ops lib s rt)" "prunes P rt (RemoveVolumeMountsForce ops lib s rt)"
  "prunes P rt (RemoveLoopDevices ops rt)"
  unfolding RemoveVolumeMountsGracefully_def RemoveVolumeMountsForce_def RemoveLoopDevices_def Let_def
  by (rule forEachMount_prunes; auto)+

abbreviation everywhere :: "string \<Rightarrow> bool" where "everywhere \<equiv> \<lambda>_. True"

lemma deleteNetworkNamespace_prunes: "prunes everywhere rt (fst (deleteNetworkNamespace ops dir ns rt))"
proof -
  have p: "prunes everywhere rt (fst (onDisk (removePath (pathJoin dir ns)) rt'))" if "prunes everywhere rt rt'" for rt'
    by (rule prunes_trans [OF that]) (intro prunes_disk shrinks_mono [OF removePath_shrinks], simp)
  show ?thesis
    unfolding deleteNetworkNamespace_def Let_def by (rule tryStep_prunes) (simp_all add: fst_tryStep_end p)
qed

lemma RemoveNetworkNamespaces_prunes: "prunes everywhere rt (RemoveNetworkNamespaces ops rt)"
proof -
  have "prunes everywhere rt (namespaceLoop (\<lambda>ns rt. if HasPrefix ns ''cni-'' then deleteNetworkNamespace ops ''/run/netns'' ns rt
      else (rt, ok)) entries rt)" for entries
  proof (induction entries arbitrary: rt)
    case (Cons e entries)
    obtain ns d where e: "e = (ns, d)" by (cases e)
    let ?rt = "fst (if HasPrefix ns ''cni-'' then deleteNetworkNamespace ops ''/run/netns'' ns rt else (rt, ok))"
    have "prunes everywhere rt ?rt"
      by (cases "HasPrefix ns ''cni-''") (simp_all only: if_True if_False fst_conv prunes_refl deleteNetworkNamespace_prunes)
    then show ?case unfolding e namespaceLoop.simps using prunes_trans Cons.IH [of ?rt] by blast
  qed simp
  then show ?thesis
    by (cases "KO_readDir ops rt ''/run/netns''") (simp_all add: RemoveNetworkNamespaces_def forEachNetworkNamespace_def)
qed

lemma removeSockets_prunes:
  "removeSockets ops n dir rt = Some rt' \<Longrightarrow> prunes everywhere rt rt'"
  "socketLoop ops n dir entries rt = Some rt' \<Longrightarrow> prunes everywhere rt rt'"
proof (induction ops n dir rt and ops n dir entries rt arbitrary: rt' and rt' rule: removeSockets_socketLoop.induct)
  case (2 ops n dir rt)
  then show ?case by (cases "KO_readDir ops rt dir") simp_all
next
  case (4 ops n dir name isDir entries rt)
  let ?path = "filepathJoin [dir, name]"
  let ?step = "if isDir then removeSockets ops n ?path rt
     else if HasSuffix name ''.sock'' then Some (fst (onDisk (RemoveAll ?path) rt)) else Some rt"
  have eq: "socketLoop ops n dir ((name, isDir) # entries) rt =
      (case ?step of None \<Rightarrow> None | Some rt \<Rightarrow> socketLoop ops n dir entries rt)"
    by (simp only: socketLoop.simps Let_def)
  obtain rt1 where st: "?step = Some rt1" using 4(3) unfolding eq by (cases ?step) simp_all
  have "prunes everywhere rt (fst (onDisk (RemoveAll ?path) rt))"
    by (intro prunes_disk shrinks_mono [OF RemoveAll_shrinks]) simp
  then have "prunes everywhere rt rt1"
    using st 4(1) [of ?path rt1] by (auto split: if_splits)
  moreover have "prunes everywhere rt1 rt'"
    using 4(2) [OF refl st] 4(3) unfolding eq st by simp
  ultimately show ?case by (rule prunes_trans)
qed simp_all

lemma RemovePluginSockets_prunes: "RemovePluginSockets ops n rt = Some rt' \<Longrightarrow> prunes everywhere rt rt'"
  by (auto simp: RemovePluginSockets_def PluginDirs_def Option.bind_eq_Some_conv intro: prunes_trans dest!: removeSockets_prunes)

lemma TryCleanupContainers_prunes: "TryCleanupContainers ops lib s depth rt = Some rt' \<Longrightarrow> prunes everywhere rt rt'"
proof -
  assume c: "TryCleanupContainers ops lib s depth rt = Some rt'"
  then obtain rt1 rt2 where r1: "RemoveContainers ops rt = Some rt1"
    and r2: "RemovePluginSockets ops depth (RemoveVolumeMountsForce ops lib s (RemoveVolumeMountsGracefully ops lib s
        (RemoveNetworkNamespaces ops rt1))) = Some rt2" and rt': "rt' = RemoveLoopDevices ops rt2"
    by (auto simp: TryCleanupContainers_def Option.bind_eq_Some_conv Let_def)
  have "prunes everywhere rt1 rt2"
    by (rule prunes_trans [OF prunes_trans [OF prunes_trans [OF RemoveNetworkNamespaces_prunes mounts_prunes(1)] mounts_prunes(2)]
        RemovePluginSockets_prunes [OF r2]])
  then show "prunes everywhere rt rt'"
    unfolding rt' using RemoveContainers_prunes [OF r1] mounts_prunes (3) prunes_trans by metis
qed

text \<open>The paths the hook removes whether or not the services are stopped.\<close>

definition cleanedPath :: "Snap \<Rightarrow> string \<Rightarrow> bool" where
  "cleanedPath s q \<longleftrightarrow> q \<in> fst ` set (extDatastoreFiles zeroExternalPKI) \<or> below (EtcdDir s) q \<or> below (ServiceArgumentsDir s) q \<or>
     q = workerLock s"

lemma zeroFiles:
  "(f, c) \<in> set (extDatastoreFiles zeroExternalPKI) \<Longrightarrow> c = []"
  "(f, c) \<in> set (controlPlaneFiles zeroControlPlanePKI) \<Longrightarrow> c = []"
  "(f, c) \<in> set (workerFiles zeroWorkerPKI) \<Longrightarrow> c = []"
  by (auto simp: extDatastoreFiles_def zeroExternalPKI_def controlPlaneFiles_def zeroControlPlanePKI_def NewControlPlanePKI_def
      workerFiles_def zeroWorkerPKI_def)

lemma cleanAlways_prunes: "prunes (cleanedPath s) rt (cleanAlways s rt)"
proof -
  have ext: "hostShrinks (cleanedPath s) h (fst (EnsureExtDatastorePKI zeroExternalPKI h))" for h
    unfolding EnsureExtDatastorePKI_def
  proof (rule ensureFiles_zero_shrinks)
    fix f c assume fc: "(f, c) \<in> set (extDatastoreFiles zeroExternalPKI)"
    then have "f \<in> fst ` set (extDatastoreFiles zeroExternalPKI)" by force
    then show "c = [] \<and> cleanedPath s f" using zeroFiles(1) [OF fc] by (simp add: cleanedPath_def)
  qed
  have lock: "hostShrinks (cleanedPath s) h (fst (MarkAsWorkerNode s False h))" for h
    by (simp add: MarkAsWorkerNode_def Let_def fst_tryStep_end osRemove_shrinks cleanedPath_def)
  have 1: "prunes (cleanedPath s) r (bestEffort (onFiles (EnsureExtDatastorePKI zeroExternalPKI)) r)" for r :: "'a Runtime"
    by (intro prunes_disk onFiles_shrinks ext)
  have 2: "prunes (cleanedPath s) r (bestEffort (RemoveAll (EtcdDir s)) r)" for r :: "'a Runtime"
    by (intro prunes_disk shrinks_mono [OF RemoveAll_shrinks]) (simp add: cleanedPath_def)
  have 3: "prunes (cleanedPath s) r (bestEffort (RemoveAll (ServiceArgumentsDir s)) r)" for r :: "'a Runtime"
    by (intro prunes_disk shrinks_mono [OF RemoveAll_shrinks]) (simp add: cleanedPath_def)
  have 4: "prunes (cleanedPath s) r (bestEffort (onFiles (MarkAsWorkerNode s False)) r)" for r :: "'a Runtime"
    by (intro prunes_disk onFiles_shrinks lock)
  show ?thesis
    unfolding cleanAlways_def Let_def
    by (rule prunes_trans [OF prunes_trans [OF prunes_trans [OF 1 2] 3] 4])
qed

lemma stopAndClean_prunes: "stopAndClean ops lib s depth rt = Some rt' \<Longrightarrow> prunes everywhere rt rt'"
proof -
  assume c: "stopAndClean ops lib s depth rt = Some rt'"
  have w: "prunes everywhere r (bestEffort (onFiles (EnsureWorkerPKI zeroWorkerPKI)) r)" for r :: "'a Runtime"
    unfolding EnsureWorkerPKI_def by (intro prunes_disk onFiles_shrinks ensureFiles_zero_shrinks) (simp add: zeroFiles)
  have cp: "prunes everywhere r (bestEffort (onFiles (EnsureControlPlanePKI zeroControlPlanePKI)) r)" for r :: "'a Runtime"
    unfolding EnsureControlPlanePKI_def by (intro prunes_disk onFiles_shrinks ensureFiles_zero_shrinks) (simp add: zeroFiles)
  have stop: "prunes everywhere r (bestEffort (onFiles (\<lambda>h. StopK8sServices h [''--no-wait''])) r)" for r :: "'a Runtime"
    unfolding StopK8sServices_def StopServices_def
    by (intro prunes_disk onFiles_shrinks) (simp add: fst_tryStep_end hostShrinks_def runCommand_def)
  have cl: "prunes everywhere r (bestEffort (\<lambda>m. (TryCleanupContainerdPaths lib s m, ok)) r)" for r :: "'a Runtime"
  proof (rule prunes_disk)
    fix m
    show "shrinks everywhere m (fst (TryCleanupContainerdPaths lib s m, ok))"
      unfolding fst_conv TryCleanupContainerdPaths_def ForEachContainerdPath_def
      by (rule shrinks_mono [OF containerdPathLoop_cleanup_shrinks]) simp
  qed
  let ?rt = "bestEffort (onFiles (\<lambda>h. StopK8sServices h [''--no-wait''])) (bestEffort (onFiles (EnsureControlPlanePKI zeroControlPlanePKI))
      (bestEffort (onFiles (EnsureWorkerPKI zeroWorkerPKI)) rt))"
  obtain rt1 where t: "TryCleanupContainers ops lib s depth ?rt = Some rt1"
    and rt': "rt' = bestEffort (\<lambda>m. (TryCleanupContainerdPaths lib s m, ok)) rt1"
    using c unfolding stopAndClean_def Let_def by auto
  have "prunes everywhere rt ?rt" by (rule prunes_trans [OF prunes_trans [OF w cp] stop])
  then show "prunes everywhere rt rt'"
    unfolding rt' by (rule prunes_trans [OF prunes_trans [OF _ TryCleanupContainers_prunes [OF t]] cl])
qed

text \<open>
  The remove hook only removes. Whatever fails on the way, every file, directory and link of the node is after the hook
  either gone or what it was before. When the configuration cannot be read or asks to keep the services running, it touches
  only the certificates of the external datastore, the etcd and argument directories and the worker mark; no process is
  killed and nothing is unmounted.
\<close>

theorem preRemove_only_removes:
  assumes run: "onPreRemove ops mc lib j s self skipStop checks depth db m rt = Some (m', rt', r)"
  shows "shrinks (\<lambda>_. True) (RT_machine rt) (RT_machine rt') \<and>
    (\<not> skipsStop skipStop (util_GetClusterConfig j db) \<or>
     shrinks (cleanedPath s) (RT_machine rt) (RT_machine rt') \<and> RT_calls rt' = RT_calls rt \<and> RT_kernel rt' = RT_kernel rt)"
proof (cases "MC_client mc")
  case (Inl e)
  then show ?thesis using run by (simp add: onPreRemove_def)
next
  case (Inr u)
  show ?thesis
  proof (cases "skipsStop skipStop (util_GetClusterConfig j db)")
    case True
    then have rt': "rt' = cleanAlways s rt" using run Inr by (simp add: onPreRemove_def Let_def)
    have p: "shrinks (cleanedPath s) (RT_machine rt) (RT_machine rt')"
      using cleanAlways_prunes [of s rt] unfolding rt' prunes_def .
    moreover have "RT_calls rt' = RT_calls rt" "RT_kernel rt' = RT_kernel rt"
      unfolding rt' cleanAlways_def Let_def by (simp_all only: onDisk_calls onDisk_kernel)
    moreover have "shrinks everywhere (RT_machine rt) (RT_machine rt')" by (rule shrinks_mono [OF p]) simp
    ultimately show ?thesis by simp
  next
    case False
    then obtain rt1 where c: "stopAndClean ops lib s depth rt = Some rt1" and rt': "rt' = cleanAlways s rt1"
      using run Inr by (auto simp: onPreRemove_def Let_def)
    have "prunes everywhere rt rt1" by (rule stopAndClean_prunes [OF c])
    moreover have "prunes everywhere rt1 rt'"
      unfolding rt' prunes_def by (rule shrinks_mono [OF cleanAlways_prunes [unfolded prunes_def]]) simp
    ultimately have "prunes everywhere rt rt'" by (rule prunes_trans)
    then show ?thesis using False by (simp add: prunes_def)
  qed
qed

section \<open>What the handler removes\<close>

lemma onMicro_frame [simp]: "RM_events (fst (onMicro f st)) = RM_events st"
  by (cases "f (RM_micro st)") (simp add: onMicro_def)

lemma onMicro_events: "onMicro f st = (st', r) \<Longrightarrow> RM_events st' = RM_events st"
  using onMicro_frame [of f st] by simp

lemma removal_events [simp]:
  "RM_events (fst (removeNodeFromKubernetes env name st)) = RM_events st"
  "RM_events (fst (removeNodeFromEtcd env cfg name st)) = RM_events st"
  "RM_events (fst (removeNodeFromMicrocluster env name force st)) = RM_events st"
  unfolding removeNodeFromKubernetes_def removeNodeFromEtcd_def removeNodeFromMicrocluster_def Let_def
  by (intro tryStep_keeps [where P = "\<lambda>s. RM_events s = RM_events st"]; auto simp: fst_tryStep_end dest: onMicro_events split: prod.split)+

lemma removeNodeFromDatastore_events [simp]: "RM_events (fst (removeNodeFromDatastore env cfg name st)) = RM_events st"
  by (simp add: removeNodeFromDatastore_def fst_tryStep_end)

text \<open>The removals a request asks for, in order.\<close>

definition removalSteps :: "bool \<Rightarrow> bool \<Rightarrow> removeEvent list" where
  "removalSteps skipNode controlPlane =
     (if skipNode then [] else [RemovedFromKubernetes]) @ (if controlPlane then [RemovedFromDatastore, RemovedFromMicrocluster] else [])"

lemma recording_cases:
  assumes "RM_events (fst r) = es"
  obtains st e where "recording ev r = (st, Inl e)" "RM_events st = es"
  | st where "recording ev r = (st, ok)" "RM_events st = es @ [ev]"
proof -
  obtain st x where r: "r = (st, x)" by force
  show thesis
    using assms that r by (cases x) (auto simp: recording_def)
qed

lemma removeControlPlane_forced: "RQ_Force req \<Longrightarrow> snd (removeControlPlane env cfg req st) = SyncResponse ()"
  by (simp add: removeControlPlane_def unlessForced_def split: prod.split sum.split)

text \<open>Progress through a list of removals: all of them and success, or some of them and an internal error.\<close>

definition progress :: "removeEvent list \<Rightarrow> ('m, 'e) RemoveState \<Rightarrow> ('m, 'e) RemoveState \<times> unit response \<Rightarrow> bool" where
  "progress steps st r \<longleftrightarrow> (\<exists>n. RM_events (fst r) = RM_events st @ take n steps \<and>
     (snd r = SyncResponse () \<and> n = length steps \<or> (\<exists>e. snd r = InternalError e) \<and> n < length steps))"

lemma progress_done: "progress [] st (st, SyncResponse ())"
  by (simp add: progress_def)

lemma progress_failed: "RM_events st' = RM_events st \<Longrightarrow> steps \<noteq> [] \<Longrightarrow> progress steps st (st', InternalError e)"
  by (auto simp: progress_def intro!: exI [of _ 0])

lemma progress_step: "RM_events st1 = RM_events st @ [ev] \<Longrightarrow> progress steps st1 r \<Longrightarrow> progress (ev # steps) st r"
  unfolding progress_def by (elim exE) (rule_tac x = "Suc n" in exI, auto)

lemma progress_from: "RM_events st1 = RM_events st \<Longrightarrow> progress steps st1 r \<Longrightarrow> progress steps st r"
  by (simp add: progress_def)

lemma unlessForced_ok: "unlessForced f msg (st, Inr x) k = k st (Some x)"
  by (simp add: unlessForced_def)

lemma progress_unlessForced:
  assumes "RM_events (fst r) = RM_events st" "\<And>st'. progress steps st' (k st' (Some ()))"
  shows "progress (ev # steps) st (unlessForced False msg (recording ev r) k)"
proof (cases rule: recording_cases [OF assms(1), of ev])
  case (1 st1 e)
  then show ?thesis by (simp add: unlessForced_def progress_failed)
next
  case (2 st1)
  then show ?thesis using progress_step [OF 2(2) assms(2)] by (simp add: unlessForced_def)
qed

lemma removeControlPlane_progress:
  "\<not> RQ_Force req \<Longrightarrow> progress [RemovedFromDatastore, RemovedFromMicrocluster] st (removeControlPlane env cfg req st)"
  unfolding removeControlPlane_def by (simp add: progress_unlessForced progress_done)


text \<open>A removal does not hang on a microcluster that never answers: ten failed calls end the wait.\<close>

theorem wait_gives_up:
  assumes "\<And>m. \<not> is_ok (snd (MC_member mc self m))" "10 \<le> checks"
  shows "snd (WaitUntilReady checks (pendingCheck mc self) (m, 0)) = ok"
  using pendingCheck_gives_up [OF assms(1), of 0] assms(2) by (simp add: maxRetries_def)

section \<open>Instances\<close>

definition sampleMicro :: "clusterMember list microcluster" where
  "sampleMicro = \<lparr>MC_client = ok,
     MC_member = (\<lambda>name ms. (ms, case find (\<lambda>m. CM_Name m = name) ms of None \<Rightarrow> Inl ErrNotFound | Some m \<Rightarrow> Inr m)),
     MC_members = (\<lambda>ms. (ms, Inr ms)),
     MC_remove = (\<lambda>name _ _ ms. (filter (\<lambda>m. CM_Name m \<noteq> name) ms, ok))\<rparr>"

definition sampleMembers :: "clusterMember list" where
  "sampleMembers = [\<lparr>CM_Name = ''a'', CM_Address = ''10.0.0.1'', CM_Port = 6400, CM_Role = ''voter''\<rparr>,
     \<lparr>CM_Name = ''b'', CM_Address = ''10.0.0.2'', CM_Port = 6400, CM_Role = ''voter''\<rparr>]"

definition sampleRemove :: "(clusterMember list, 64 word list) removeEnv" where
  "sampleRemove = \<lparr>RE_micro = sampleMicro, RE_etcd = sampleEtcd, RE_json = sampleJson, RE_db = sampleDB, RE_host = emptyHost, RE_self = ''a'',
     RE_checks = 20, RE_kubernetesClient = ok, RE_isConflict = (\<lambda>_. False), RE_isInternal = (\<lambda>_. True), RE_deleteSteps = 4,
     RE_skipCleanupNode = ''skip''\<rparr>"

definition sampleRemoveState :: "(clusterMember list, 64 word list) RemoveState" where
  "sampleRemoveState = \<lparr>RM_micro = sampleMembers, RM_kube = sampleKube UpgradePhaseNodeUpgrade, RM_etcd = [3], RM_events = []\<rparr>"


theorem preRemove_only_removes_witness:
  "\<exists>m' rt' r. onPreRemove sampleKernel sampleMicro sampleLib sampleJson sampleSnap ''a'' ''skip'' 20 1
       (sampleDB\<lparr>DB_fault := (\<lambda>_ _. Some ErrNotFound)\<rparr>) sampleMembers sampleRuntime = Some (m', rt', r) \<and>
     shrinks (cleanedPath sampleSnap) (RT_machine sampleRuntime) (RT_machine rt') \<and> RT_calls rt' = []"
proof -
  let ?db = "sampleDB\<lparr>DB_fault := (\<lambda>_ _. Some ErrNotFound)\<rparr>"
  have skip: "skipsStop ''skip'' (util_GetClusterConfig sampleJson ?db)"
    by (simp add: skipsStop_def util_GetClusterConfig_def GetClusterConfig_def dbStmt_def)
  have "MC_client sampleMicro = ok" by (simp add: sampleMicro_def)
  then obtain m' rt' r where run: "onPreRemove sampleKernel sampleMicro sampleLib sampleJson sampleSnap ''a'' ''skip'' 20 1 ?db sampleMembers
      sampleRuntime = Some (m', rt', r)"
    using skip by (simp add: onPreRemove_def Let_def)
  have "RT_calls sampleRuntime = []" by (simp add: sampleRuntime_def)
  then show ?thesis using preRemove_only_removes [OF run] skip run by auto
qed

end
