(* ===== verification/KubeClient.thy ===== *)
theory KubeClient
  imports Features
begin

text \<open>
  What the daemon reads from Kubernetes: the addresses of the API servers (\<open>pkg/utils/endpoints.go\<close>, \<open>endpointslices.go\<close>,
  \<open>pkg/client/kubernetes/endpoints.go\<close>), the readiness of nodes and pods (\<open>status.go\<close>, \<open>pods.go\<close>), and the
  controller that spreads the CoreDNS pods (\<open>pkg/k8sd/controllers/dnsrebalancer\<close>).

  A list request is an argument: it changes a state of type \<open>'s\<close> and answers or fails.
\<close>

section \<open>API server addresses\<close>

record EndpointPort =
  EP_Name :: string
  EP_Port :: int

record EndpointSubset =
  SS_Ports :: "EndpointPort list"
  SS_Addresses :: "string list"

fun subsetPort :: "EndpointPort list \<Rightarrow> int" where
  "subsetPort [] = 6443"
| "subsetPort (p # ps) = (if EP_Name p = ''https'' then EP_Port p else subsetPort ps)"

definition endpointAddress :: "string \<Rightarrow> int \<Rightarrow> string" where
  "endpointAddress address portNumber = address @ '':'' @ Itoa portNumber"

definition bracketed :: "string \<Rightarrow> string" where
  "bracketed address = ''['' @ address @ '']''"

definition ParseEndpoints :: "EndpointSubset list \<Rightarrow> string list" where
  "ParseEndpoints subsets =
     sortStrings (concat (map (\<lambda>s.
       map (\<lambda>ip. endpointAddress (if IsIPv4 ip then ip else bracketed ip) (subsetPort (SS_Ports s)))
         (filter (\<lambda>ip. ip \<noteq> []) (SS_Addresses s))) subsets))"

datatype AddressType = AddressTypeIPv4 | AddressTypeIPv6 | AddressTypeFQDN | AddressTypeOther string

record SlicePort =
  SP_Name :: "string ptr"
  SP_Port :: "int ptr"

record EndpointSlice =
  ES_AddressType :: AddressType
  ES_Ports :: "SlicePort list"
  ES_Endpoints :: "string list list"

text \<open>The search ends at the first port with the name \<open>https\<close> that has a number.\<close>

fun slicePort :: "SlicePort list \<Rightarrow> int" where
  "slicePort [] = 6443"
| "slicePort (p # ps) =
     (if SP_Name p = Some ''https'' then (case SP_Port p of Some n \<Rightarrow> n | None \<Rightarrow> slicePort ps) else slicePort ps)"

fun sliceAddress :: "AddressType \<Rightarrow> string \<Rightarrow> string option" where
  "sliceAddress AddressTypeIPv4 a = Some a"
| "sliceAddress AddressTypeIPv6 a = Some (bracketed a)"
| "sliceAddress AddressTypeFQDN a = None"
| "sliceAddress (AddressTypeOther t) a = None"

definition sliceAddresses :: "EndpointSlice \<Rightarrow> string list" where
  "sliceAddresses s =
     List.map_filter (\<lambda>a. if a = [] then None
         else map_option (\<lambda>h. endpointAddress h (slicePort (ES_Ports s))) (sliceAddress (ES_AddressType s) a))
       (concat (ES_Endpoints s))"

definition ParseEndpointSlices :: "EndpointSlice list \<Rightarrow> string list" where
  "ParseEndpointSlices items = sortStrings (concat (map sliceAddresses items))"

text \<open>\<open>retry.OnError\<close> with a condition that always holds: the last error is returned after \<open>steps\<close> calls.\<close>

fun onErrorLoop :: "nat \<Rightarrow> ('s \<Rightarrow> ('s, 'a) step) \<Rightarrow> error \<Rightarrow> 's \<Rightarrow> ('s, 'a) step" where
  "onErrorLoop 0 f e s = (s, Inl e)"
| "onErrorLoop (Suc n) f e s = (case f s of (s', Inr x) \<Rightarrow> (s', Inr x) | (s', Inl e') \<Rightarrow> onErrorLoop n f e' s')"

definition GetKubeAPIServerEndpoints ::
  "nat \<Rightarrow> ('s \<Rightarrow> ('s, EndpointSlice list ptr) step) \<Rightarrow> 's \<Rightarrow> ('s, string list) step"
where
  "GetKubeAPIServerEndpoints steps listSlices s =
     tryStep (onErrorLoop steps listSlices ctxCanceled s) ''failed to get endpoints for kubernetes service: %w'' [] (\<lambda>s endpointSlices.
     case endpointSlices of
       None \<Rightarrow> (s, Inl (Errorf ''endpoints for kubernetes service not found'' []))
     | Some items \<Rightarrow>
         let addresses = ParseEndpointSlices items in
         if addresses = [] then (s, Inl (Errorf ''empty list of endpoints for the kubernetes service'' []))
         else (s, Inr addresses))"

definition WaitKubernetesEndpointAvailable ::
  "nat \<Rightarrow> nat \<Rightarrow> ('s \<Rightarrow> ('s, EndpointSlice list ptr) step) \<Rightarrow> 's \<Rightarrow> ('s, unit) step"
where
  "WaitKubernetesEndpointAvailable checks steps listSlices s =
     WaitUntilReady checks (\<lambda>s. case GetKubeAPIServerEndpoints steps listSlices s of (s, r) \<Rightarrow> (s, Inr (is_ok r))) s"

section \<open>Nodes and pods\<close>

record ObjectCondition =
  OC_Type :: string
  OC_Status :: string

definition readyCondition :: "ObjectCondition \<Rightarrow> bool" where
  "readyCondition c \<longleftrightarrow> OC_Type c = ''Ready'' \<and> OC_Status c = ''True''"

text \<open>A node is given by its conditions.\<close>

fun anyNodeReady :: "ObjectCondition list list \<Rightarrow> bool" where
  "anyNodeReady [] = False"
| "anyNodeReady (node # nodes) = (if list_ex readyCondition node then True else anyNodeReady nodes)"

definition HasReadyNodes :: "('s \<Rightarrow> ('s, ObjectCondition list list) step) \<Rightarrow> 's \<Rightarrow> ('s, bool) step" where
  "HasReadyNodes listConditions s =
     tryStep (listConditions s) ''failed to list nodes: %w'' [] (\<lambda>s nodes. (s, Inr (anyNodeReady nodes)))"

record Pod =
  Pod_Name :: string
  Pod_NodeName :: string
  Pod_Phase :: string
  Pod_Conditions :: "ObjectCondition list"

definition podIsReady :: "Pod \<Rightarrow> bool" where
  "podIsReady pod = (if Pod_Phase pod \<noteq> ''Running'' then False else list_ex readyCondition (Pod_Conditions pod))"

definition CheckForReadyPods :: "string \<Rightarrow> ('s \<Rightarrow> ('s, Pod list) step) \<Rightarrow> 's \<Rightarrow> ('s, unit) step" where
  "CheckForReadyPods namespace listPods s =
     tryStep (listPods s) ''failed to list pods: %w'' [] (\<lambda>s pods.
     if pods = [] then (s, Inl (Errorf ''no pods in %v namespace on the cluster'' [namespace]))
     else
       let notReadyPods = map Pod_Name (filter (\<lambda>p. \<not> podIsReady p) pods) in
       if length notReadyPods > 0 then (s, Inl (Errorf ''pods %v not ready'' notReadyPods)) else (s, ok))"

section \<open>DNS rebalancing\<close>

definition countReadyNodes :: "ObjectCondition list list \<Rightarrow> nat" where
  "countReadyNodes nodes = foldl (\<lambda>readyCount node. if list_ex readyCondition node then Suc readyCount else readyCount) 0 nodes"

fun allOnNode :: "string \<Rightarrow> Pod list \<Rightarrow> bool" where
  "allOnNode firstNodeName [] = True"
| "allOnNode firstNodeName (pod # pods) = (if Pod_NodeName pod \<noteq> firstNodeName then False else allOnNode firstNodeName pods)"

definition scheduledPods :: "Pod list \<Rightarrow> Pod list" where
  "scheduledPods pods = filter (\<lambda>p. Pod_NodeName p \<noteq> []) pods"

definition coreDNSNeedsRebalancing :: "Pod list res \<Rightarrow> bool res" where
  "coreDNSNeedsRebalancing listed =
     (case listed of
        Inl e \<Rightarrow> Inl e
      | Inr pods \<Rightarrow>
          if length pods = 0 then Inl (Errorf ''no CoreDNS pods found'' [])
          else
            (case scheduledPods pods of
               p # q # rest \<Rightarrow> Inr (allOnNode (Pod_NodeName p) (q # rest))
             | _ \<Rightarrow> Inl (Errorf ''less than 2 pods are scheduled'' [])))"

text \<open>
  The result of a reconciliation: the delay in seconds before the next one, or zero, and the error. What the manager's client
  lists is an argument; \<open>getConfig\<close> is absent when the controller was built without it.
\<close>

record dnsEnv =
  D_getClusterConfig :: "ClusterConfig res option"
  D_nodes :: "ObjectCondition list list res"
  D_pods :: "Pod list res"

definition dns_Reconcile :: "dnsEnv \<Rightarrow> featEnv \<Rightarrow> Cluster \<Rightarrow> Cluster \<times> nat \<times> unit res" where
  "dns_Reconcile d env c =
     (case D_getClusterConfig d of
        None \<Rightarrow> (c, 0, ok)
      | Some (Inl e) \<Rightarrow> (c, 0, Inl (Wrapf ''failed to get cluster config: %w'' [] e))
      | Some (Inr config) \<Rightarrow>
          if \<not> getBool (DNS_Enabled (CC_DNS config)) then (c, 0, ok)
          else
            (case D_nodes d of
               Inl e \<Rightarrow> if IsNotFound e then (c, 0, ok) else (c, 0, Inl e)
             | Inr nodeList \<Rightarrow>
                 if countReadyNodes nodeList < 2 then (c, 0, ok)
                 else
                   (case coreDNSNeedsRebalancing (D_pods d) of
                      Inl e \<Rightarrow> (c, 30, Inl (Wrapf ''failed to check CoreDNS pods distribution: %w'' [] e))
                    | Inr False \<Rightarrow> (c, 0, ok)
                    | Inr True \<Rightarrow>
                        (case E_client env of
                           Inl e \<Rightarrow> (c, 0, Inl e)
                         | Inr _ \<Rightarrow>
                             (case RestartDeployment env ''coredns'' ''kube-system'' c of
                                (c, Inl e) \<Rightarrow> (c, 0, Inl (Wrapf ''failed to restart CoreDNS deployment: %w'' [] e))
                              | (c, Inr _) \<Rightarrow> (c, 0, ok))))))"

section \<open>Requests that are repeated\<close>

lemma onErrorLoop_invariant: "(\<And>s. I s \<Longrightarrow> I (fst (f s))) \<Longrightarrow> I s \<Longrightarrow> I (fst (onErrorLoop n f e s))"
proof (induction n arbitrary: e s)
  case (Suc n)
  obtain s' r where f: "f s = (s', r)" by force
  have "I s'" using Suc.prems f by (metis fst_conv)
  then show ?case using Suc f by (cases r) auto
qed simp

lemma GetKubeAPIServerEndpoints_invariant:
  assumes "\<And>s. I s \<Longrightarrow> I (fst (f s))" "I s"
  shows "I (fst (GetKubeAPIServerEndpoints n f s))"
  unfolding GetKubeAPIServerEndpoints_def
  by (rule tryStep_keeps, rule onErrorLoop_invariant [where I = I, OF assms]) (simp_all add: Let_def split: option.split)

section \<open>Addresses: the two representations\<close>

text \<open>
  The API server mirrors an \<open>Endpoints\<close> object into endpoint slices: a slice holds the addresses of one family, one endpoint
  for each.
\<close>

definition mirrorSlice :: "bool \<Rightarrow> EndpointSubset \<Rightarrow> EndpointSlice" where
  "mirrorSlice v4 s =
     \<lparr>ES_AddressType = (if v4 then AddressTypeIPv4 else AddressTypeIPv6),
      ES_Ports = map (\<lambda>p. \<lparr>SP_Name = Some (EP_Name p), SP_Port = Some (EP_Port p)\<rparr>) (SS_Ports s),
      ES_Endpoints = map (\<lambda>a. [a]) (filter (\<lambda>a. IsIPv4 a = v4) (SS_Addresses s))\<rparr>"

definition mirrorSlices :: "EndpointSubset list \<Rightarrow> EndpointSlice list" where
  "mirrorSlices subsets = concat (map (\<lambda>s. [mirrorSlice True s, mirrorSlice False s]) subsets)"

lemma slicePort_mirror [simp]:
  "slicePort (map (\<lambda>p. \<lparr>SP_Name = Some (EP_Name p), SP_Port = Some (EP_Port p)\<rparr>) ps) = subsetPort ps"
  by (induction ps) simp_all

lemma concat_singletons [simp]: "concat (map (\<lambda>a. [a]) xs) = xs"
  by (induction xs) simp_all

lemma map_filter_nonempty:
  "List.map_filter (\<lambda>a. if a = [] then None else Some (f a)) xs = map f (filter (\<lambda>a. a \<noteq> []) xs)"
  by (induction xs) (simp_all add: map_filter_simps)

lemma sliceAddresses_mirror:
  "sliceAddresses (mirrorSlice v4 s) =
     map (\<lambda>ip. endpointAddress (if v4 then ip else bracketed ip) (subsetPort (SS_Ports s)))
       (filter (\<lambda>a. a \<noteq> []) (filter (\<lambda>a. IsIPv4 a = v4) (SS_Addresses s)))"
  by (cases v4) (simp_all add: sliceAddresses_def mirrorSlice_def map_filter_nonempty cong: if_cong)

lemma mset_split_family:
  "mset (map (f True) (filter P (filter (\<lambda>a. v a = True) xs))) + mset (map (f False) (filter P (filter (\<lambda>a. v a = False) xs))) =
   mset (map (\<lambda>x. f (v x) x) (filter P xs))"
  by (induction xs) (auto simp del: mset_map mset_filter)

lemma mset_concat_map: "mset (concat (map g xs)) = (\<Sum>x\<in>#mset xs. mset (g x))"
  by (induction xs) simp_all

lemma mirror_mset:
  "mset (concat (map sliceAddresses (mirrorSlices subsets))) =
   mset (concat (map (\<lambda>s. map (\<lambda>ip. endpointAddress (if IsIPv4 ip then ip else bracketed ip) (subsetPort (SS_Ports s)))
         (filter (\<lambda>ip. ip \<noteq> []) (SS_Addresses s))) subsets))"
proof (induction subsets)
  case (Cons s subsets)
  show ?case
    using Cons mset_split_family [of "\<lambda>b ip. endpointAddress (if b then ip else bracketed ip) (subsetPort (SS_Ports s))" _ IsIPv4]
    by (simp add: mirrorSlices_def sliceAddresses_mirror)
qed (simp add: mirrorSlices_def)

text \<open>
  The list of API servers is the same whether it is computed from the \<open>Endpoints\<close> object or from the
  slices that mirror it, whatever the order in which the slices are listed.
\<close>

theorem endpoints_mirror:
  assumes "mset slices = mset (mirrorSlices subsets)"
  shows "ParseEndpointSlices slices = ParseEndpoints subsets"
proof -
  have "mset (concat (map sliceAddresses slices)) = mset (concat (map sliceAddresses (mirrorSlices subsets)))"
    unfolding mset_concat_map assms ..
  then show ?thesis
    unfolding ParseEndpointSlices_def ParseEndpoints_def by (intro sortStrings_perm) (simp only: mirror_mset)
qed

definition sampleSubset :: EndpointSubset where
  "sampleSubset =
     \<lparr>SS_Ports = [\<lparr>EP_Name = ''https'', EP_Port = 16443\<rparr>], SS_Addresses = [''fd00::1'', ''10.0.0.2'', ''10.0.0.1'']\<rparr>"

theorem endpoints_mirror_witness:
  "ParseEndpointSlices [mirrorSlice False sampleSubset, mirrorSlice True sampleSubset] = ParseEndpoints [sampleSubset] \<and>
   set (ParseEndpoints [sampleSubset]) = {''10.0.0.1:16443'', ''10.0.0.2:16443'', ''[fd00::1]:16443''}"
proof
  show "ParseEndpointSlices [mirrorSlice False sampleSubset, mirrorSlice True sampleSubset] = ParseEndpoints [sampleSubset]"
    by (rule endpoints_mirror) (simp add: mirrorSlices_def add_mset_commute)
  have "IsIPv4 ''10.0.0.1''" "IsIPv4 ''10.0.0.2''" "\<not> IsIPv4 ''fd00::1''"
    by (simp_all add: IsIPv4_def net_eval)
  moreover have "Itoa 16443 = ''16443''"
    by (simp add: Itoa_def natToString.simps digitChar_def char_of_def bit_0)
  ultimately show "set (ParseEndpoints [sampleSubset]) = {''10.0.0.1:16443'', ''10.0.0.2:16443'', ''[fd00::1]:16443''}"
    by (simp add: ParseEndpoints_def sampleSubset_def endpointAddress_def bracketed_def insert_commute)
qed

text \<open>What a successful request returns.\<close>

lemma onErrorLoop_ok: "onErrorLoop n f e s = (s', Inr x) \<Longrightarrow> \<exists>t. f t = (s', Inr x)"
  by (induction n f e s rule: onErrorLoop.induct) (auto split: prod.splits sum.splits)

lemma GetKubeAPIServerEndpoints_ok:
  assumes "GetKubeAPIServerEndpoints steps listSlices s = (s', Inr servers)"
  shows "servers \<noteq> []" "sorted servers" "\<exists>t items. listSlices t = (s', Inr (Some items)) \<and> servers = ParseEndpointSlices items"
proof -
  obtain s1 slices where l: "onErrorLoop steps listSlices ctxCanceled s = (s1, Inr slices)"
    using assms by (auto simp: GetKubeAPIServerEndpoints_def tryStep_ok_iff)
  obtain items where i: "slices = Some items"
    using assms by (cases slices) (simp_all add: GetKubeAPIServerEndpoints_def l)
  have r: "servers = ParseEndpointSlices items" "servers \<noteq> []" "s' = s1"
    using assms by (auto simp: GetKubeAPIServerEndpoints_def l i Let_def split: if_splits)
  then show "servers \<noteq> []" "sorted servers" by (simp_all add: ParseEndpointSlices_def)
  show "\<exists>t items. listSlices t = (s', Inr (Some items)) \<and> servers = ParseEndpointSlices items"
    using onErrorLoop_ok [OF l] r i by blast
qed

section \<open>Rebalancing\<close>

lemma countReadyNodes_eq: "countReadyNodes nodes = length (filter (list_ex readyCondition) nodes)"
proof -
  have "foldl (\<lambda>r node. if list_ex readyCondition node then Suc r else r) n nodes = n + length (filter (list_ex readyCondition) nodes)" for n
    by (induction nodes arbitrary: n) auto
  then show ?thesis by (simp add: countReadyNodes_def)
qed

lemma anyNodeReady_iff: "anyNodeReady nodes \<longleftrightarrow> countReadyNodes nodes > 0"
  unfolding countReadyNodes_eq by (induction nodes) auto

lemma allOnNode_iff: "allOnNode n pods \<longleftrightarrow> Pod_NodeName ` set pods \<subseteq> {n}"
  by (induction pods) auto

text \<open>The deployment of CoreDNS is to be restarted: two nodes can run pods, and all pods that have a node share it.\<close>

definition dnsCrowded :: "dnsEnv \<Rightarrow> bool" where
  "dnsCrowded d \<longleftrightarrow>
     (\<exists>config nodes pods n. D_getClusterConfig d = Some (Inr config) \<and> getBool (DNS_Enabled (CC_DNS config)) \<and>
        D_nodes d = Inr nodes \<and> 2 \<le> length (filter (list_ex readyCondition) nodes) \<and>
        D_pods d = Inr pods \<and> 2 \<le> length (scheduledPods pods) \<and> Pod_NodeName ` set (scheduledPods pods) = {n})"

lemma coreDNSNeedsRebalancing_iff:
  "coreDNSNeedsRebalancing listed = Inr True \<longleftrightarrow>
     (\<exists>pods n. listed = Inr pods \<and> 2 \<le> length (scheduledPods pods) \<and> Pod_NodeName ` set (scheduledPods pods) = {n})"
proof (cases listed)
  case (Inr pods)
  show ?thesis
  proof (cases "scheduledPods pods")
    case Nil
    then show ?thesis by (simp add: coreDNSNeedsRebalancing_def Inr)
  next
    case (Cons p ps)
    then have "pods \<noteq> []" by (auto simp: scheduledPods_def)
    then show ?thesis using Cons
      by (cases ps) (auto simp: coreDNSNeedsRebalancing_def Inr allOnNode_iff)
  qed
qed (simp add: coreDNSNeedsRebalancing_def)

lemma dns_Reconcile_crowded:
  "dnsCrowded d \<Longrightarrow>
   dns_Reconcile d env c =
     (case E_client env of
        Inl e \<Rightarrow> (c, 0, Inl e)
      | Inr _ \<Rightarrow>
          (case RestartDeployment env ''coredns'' ''kube-system'' c of
             (c, Inl e) \<Rightarrow> (c, 0, Inl (Wrapf ''failed to restart CoreDNS deployment: %w'' [] e))
           | (c, Inr _) \<Rightarrow> (c, 0, ok)))"
  unfolding dnsCrowded_def
proof (elim exE conjE)
  fix config nodes pods n
  assume c: "D_getClusterConfig d = Some (Inr config)" "getBool (DNS_Enabled (CC_DNS config))"
    "D_nodes d = Inr nodes" "2 \<le> length (filter (list_ex readyCondition) nodes)"
    and "D_pods d = Inr pods" "2 \<le> length (scheduledPods pods)" "Pod_NodeName ` set (scheduledPods pods) = {n}"
  then have "coreDNSNeedsRebalancing (D_pods d) = Inr True" unfolding coreDNSNeedsRebalancing_iff by blast
  then show ?thesis using c by (simp add: dns_Reconcile_def countReadyNodes_eq)
qed

lemma dns_Reconcile_spread: "\<not> dnsCrowded d \<Longrightarrow> fst (dns_Reconcile d env c) = c"
proof -
  assume n: "\<not> dnsCrowded d"
  show ?thesis
  proof (cases "\<exists>config nodes. D_getClusterConfig d = Some (Inr config) \<and> getBool (DNS_Enabled (CC_DNS config)) \<and>
      D_nodes d = Inr nodes \<and> \<not> countReadyNodes nodes < 2")
    case False
    then show ?thesis unfolding dns_Reconcile_def by (auto split: option.splits sum.splits)
  next
    case True
    then obtain config nodes where c: "D_getClusterConfig d = Some (Inr config)" "getBool (DNS_Enabled (CC_DNS config))"
      "D_nodes d = Inr nodes" "\<not> countReadyNodes nodes < 2" by blast
    then have "2 \<le> length (filter (list_ex readyCondition) nodes)" by (simp add: countReadyNodes_eq)
    then have "coreDNSNeedsRebalancing (D_pods d) \<noteq> Inr True"
      using n c unfolding coreDNSNeedsRebalancing_iff dnsCrowded_def by blast
    then show ?thesis using c
      by (cases "coreDNSNeedsRebalancing (D_pods d)") (auto simp: dns_Reconcile_def split: bool.splits)
  qed
qed

text \<open>
  Without faults of the API server, CoreDNS is restarted exactly when DNS is enabled, at least two nodes are ready and all its
  pods that have a node, at least two, share one. A pod that waits for a node is not counted. In every other case the cluster
  is left as it is.
\<close>

theorem dns_rebalance_iff:
  assumes "E_client env = ok" "C_fault c = (\<lambda>_. None)" and dep: "find (\<lambda>w. fst w = (''coredns'', ''kube-system'')) (C_deployments c) = Some w"
  shows "C_deployments (fst (dns_Reconcile d env c)) =
    (if dnsCrowded d
     then map (\<lambda>x. if fst x = (''coredns'', ''kube-system'') then restartedAt (E_now env) w else x) (C_deployments c)
     else C_deployments c)"
proof (cases "dnsCrowded d")
  case True
  have "fst w = (''coredns'', ''kube-system'')" using dep by (auto simp: find_Some_iff)
  then have "C_deployments (fst (RestartDeployment env ''coredns'' ''kube-system'' c)) =
      map (\<lambda>x. if fst x = (''coredns'', ''kube-system'') then restartedAt (E_now env) w else x) (C_deployments c)"
    "snd (RestartDeployment env ''coredns'' ''kube-system'' c) = ok"
    using assms by (simp_all add: RestartDeployment_def clusterCall_def)
  then show ?thesis using True assms(1)
    by (cases "RestartDeployment env ''coredns'' ''kube-system'' c") (simp add: dns_Reconcile_crowded)
next
  case False
  then show ?thesis by (simp add: dns_Reconcile_spread)
qed

definition sampleDNS :: "string \<Rightarrow> dnsEnv" where
  "sampleDNS node =
     (let ready = [\<lparr>OC_Type = ''Ready'', OC_Status = ''True''\<rparr>];
          pod = (\<lambda>n. \<lparr>Pod_Name = ''p'', Pod_NodeName = n, Pod_Phase = ''Running'', Pod_Conditions = ready\<rparr>)
      in \<lparr>D_getClusterConfig = Some (Inr (emptyClusterConfig\<lparr>CC_DNS := emptyDNS\<lparr>DNS_Enabled := Some True\<rparr>\<rparr>)),
          D_nodes = Inr [ready, ready], D_pods = Inr [pod ''a'', pod node, pod '''']\<rparr>)"

definition sampleDNSCluster :: Cluster where
  "sampleDNSCluster = sampleCluster\<lparr>C_deployments := [((''coredns'', ''kube-system''), [])]\<rparr>"

theorem dns_rebalance_iff_witness:
  "C_deployments (fst (dns_Reconcile (sampleDNS ''a'') sampleFeat sampleDNSCluster)) =
     [((''coredns'', ''kube-system''), [(''kubectl.kubernetes.io/restartedAt'', E_now sampleFeat)])] \<and>
   C_deployments (fst (dns_Reconcile (sampleDNS ''b'') sampleFeat sampleDNSCluster)) = C_deployments sampleDNSCluster"
proof -
  have crowded: "dnsCrowded (sampleDNS ''a'')" "\<not> dnsCrowded (sampleDNS ''b'')"
    by (simp_all add: dnsCrowded_def sampleDNS_def scheduledPods_def readyCondition_def Let_def getters del: set_filter)
  have h: "E_client sampleFeat = ok" "C_fault sampleDNSCluster = (\<lambda>_. None)"
    "find (\<lambda>w. fst w = (''coredns'', ''kube-system'')) (C_deployments sampleDNSCluster) = Some ((''coredns'', ''kube-system''), [])"
    by (simp_all add: sampleFeat_def sampleDNSCluster_def sampleCluster_def)
  show ?thesis
    unfolding dns_rebalance_iff [OF h] using crowded by (simp add: restartedAt_def sampleDNSCluster_def)
qed

end
