(* ===== verification/Handlers.thy ===== *)
theory Handlers
  imports Removal KubeClient CertRefresh
begin

text \<open>
  The REST endpoints (\<open>pkg/k8sd/api\<close>): the table of endpoints with the check each request has to pass
  (\<open>endpoints.go\<close>, \<open>capi_access_handler.go\<close>, \<open>node_access_handler.go\<close>, \<open>worker_access_handler.go\<close>), and the handlers of join
  tokens, worker join information, cluster configuration, Kubernetes auth tokens and node status.

  The body of a request arrives decoded, or with the error of the decoder; the headers are a function from names to
  values, empty where a header is missing. Handlers work on the \<open>World\<close> of the node. The truststore, the cluster
  certificate and the calls into the microcluster library are arguments.
\<close>

section \<open>Access\<close>

type_synonym headers = "string \<Rightarrow> string"

datatype access = Granted | Refused nat error

abbreviation Unauthorized :: "error \<Rightarrow> access" where "Unauthorized \<equiv> Refused 401"
abbreviation Forbidden :: "error \<Rightarrow> access" where "Forbidden \<equiv> Refused 403"

definition missingHeader :: "string \<Rightarrow> error" where
  "missingHeader name = Errorf ''missing header %q'' [name]"

definition invalidToken :: error where
  "invalidToken = Errorf ''invalid token'' []"

text \<open>The end of a check against the database.\<close>

definition tokenVerdict :: "string \<Rightarrow> string \<Rightarrow> bool res \<Rightarrow> access" where
  "tokenVerdict checkFailed transactionFailed r =
     (case r of
        Inl e \<Rightarrow> Refused 500 (Wrapf transactionFailed [] (Wrapf checkFailed [] e))
      | Inr tokenIsValid \<Rightarrow> if \<not> tokenIsValid then Unauthorized invalidToken else Granted)"

definition ValidateCAPIAuthTokenAccessHandler :: "string \<Rightarrow> DB \<Rightarrow> headers \<Rightarrow> access" where
  "ValidateCAPIAuthTokenAccessHandler tokenHeaderName db hdr =
     (let token = hdr tokenHeaderName in
      if token = [] then Unauthorized (missingHeader tokenHeaderName)
      else tokenVerdict ''failed to check CAPI auth token: %w'' ''check CAPI auth token database transaction failed: %w''
             (ValidateClusterAPIToken token db))"

definition NodeTokenFile :: "Snap \<Rightarrow> string" where
  "NodeTokenFile s = filepathJoin [snapCommonDir s, ''node-token'']"

definition ValidateNodeTokenAccessHandler :: "string \<Rightarrow> Snap \<Rightarrow> Host \<Rightarrow> headers \<Rightarrow> access" where
  "ValidateNodeTokenAccessHandler tokenHeaderName s h hdr =
     (let token = hdr tokenHeaderName in
      if token = [] then Unauthorized (missingHeader tokenHeaderName)
      else
        (case ReadFile h (NodeTokenFile s) of
           Inl e \<Rightarrow> Refused 500 (Wrapf ''failed to read node access token: %w'' [] e)
         | Inr nodeToken \<Rightarrow> if TrimSpace nodeToken \<noteq> token then Unauthorized invalidToken else Granted))"

definition restrictWorkers :: "Snap \<Rightarrow> Host \<Rightarrow> access" where
  "restrictWorkers s h =
     (case IsWorker s h of
        Inl e \<Rightarrow> Refused 500 (Wrapf ''failed to check if node is a worker: %w'' [] e)
      | Inr isWorker \<Rightarrow> if isWorker then Forbidden (Errorf ''this action is restricted on workers'' []) else Granted)"

text \<open>A failed cleaning of the name returns the empty string, which the message shows.\<close>

definition ValidateWorkerInfoAccessHandler ::
  "('key, 'pub) csrCrypto \<Rightarrow> int \<Rightarrow> string \<Rightarrow> string \<Rightarrow> DB \<Rightarrow> headers \<Rightarrow> access"
where
  "ValidateWorkerInfoAccessHandler z now nodeHeaderName tokenHeaderName db hdr =
     (let name = hdr nodeHeaderName in
      if name = [] then Unauthorized (missingHeader nodeHeaderName)
      else
        (case CleanHostname z name of
           Inl e \<Rightarrow> Refused 400 (Wrapf ''invalid hostname %q: %w'' [''''] e)
         | Inr hostname \<Rightarrow>
             let token = hdr tokenHeaderName in
             if token = [] then Unauthorized invalidToken
             else tokenVerdict ''failed to check worker node token: %w'' ''check token database transaction failed: %w''
                    (CheckWorkerNodeToken now hostname token db)))"

section \<open>The table\<close>

datatype httpMethod = GET | PUT | POST | DELETE

datatype accessHandler =
  NoAccessHandler | RestrictWorkers | WorkerInfoToken string string | CAPIAuthToken string | NodeToken string

datatype handler =
  GetClusterStatus | PostClusterBootstrap | GetNodeStatus | PostClusterJoinTokens | PostClusterJoin | PostClusterRemove
| PostWorkerInfo | PostRefreshCertsPlan | PostRefreshCertsRun | PostRefreshCertsUpdate | GetCertificatesStatus | GetKubeconfig
| PutClusterConfig | GetClusterConfigHandler | PostKubernetesAuthTokens | DeleteKubernetesAuthTokens | PostKubernetesAuthWebhook
| PostSetClusterAPIAuthToken | PostCertificatesExpiry | PostApproveWorkerCSR | PostSnapRefresh | PostSnapRefreshStatus

record EndpointAction =
  Act_Handler :: handler
  Act_AccessHandler :: accessHandler
  Act_AllowUntrusted :: bool

record Endpoint =
  Endpoint_Name :: string
  Endpoint_Actions :: "(httpMethod \<times> EndpointAction) list"
  Endpoint_AllowedBeforeInit :: bool

definition plainAction :: "handler \<Rightarrow> accessHandler \<Rightarrow> EndpointAction" where
  "plainAction h a = \<lparr>Act_Handler = h, Act_AccessHandler = a, Act_AllowUntrusted = False\<rparr>"

definition openAction :: "handler \<Rightarrow> accessHandler \<Rightarrow> EndpointAction" where
  "openAction h a = \<lparr>Act_Handler = h, Act_AccessHandler = a, Act_AllowUntrusted = True\<rparr>"

definition endpoint :: "string \<Rightarrow> (httpMethod \<times> EndpointAction) list \<Rightarrow> Endpoint" where
  "endpoint name actions = \<lparr>Endpoint_Name = name, Endpoint_Actions = actions, Endpoint_AllowedBeforeInit = False\<rparr>"

definition Endpoints :: "Endpoint list" where
  "Endpoints =
    [(endpoint ''Cluster'' [(GET, plainAction GetClusterStatus RestrictWorkers), (POST, plainAction PostClusterBootstrap NoAccessHandler)])
       \<lparr>Endpoint_AllowedBeforeInit := True\<rparr>,
     endpoint ''NodeStatus'' [(GET, plainAction GetNodeStatus NoAccessHandler)],
     endpoint ''GetJoinToken'' [(POST, plainAction PostClusterJoinTokens RestrictWorkers)],
     (endpoint ''JoinCluster'' [(POST, plainAction PostClusterJoin NoAccessHandler)])\<lparr>Endpoint_AllowedBeforeInit := True\<rparr>,
     endpoint ''RemoveNode'' [(POST, plainAction PostClusterRemove RestrictWorkers)],
     endpoint ''GetWorkerJoinInfo'' [(POST, openAction PostWorkerInfo (WorkerInfoToken ''Worker-Name'' ''Worker-Token''))],
     endpoint ''RefreshCerts/Plan'' [(POST, plainAction PostRefreshCertsPlan NoAccessHandler)],
     endpoint ''RefreshCerts/Run'' [(POST, plainAction PostRefreshCertsRun NoAccessHandler)],
     endpoint ''RefreshCerts/Update'' [(POST, plainAction PostRefreshCertsUpdate NoAccessHandler)],
     endpoint ''CertsStatus'' [(GET, plainAction GetCertificatesStatus NoAccessHandler)],
     endpoint ''Kubeconfig'' [(GET, plainAction GetKubeconfig RestrictWorkers)],
     endpoint ''ClusterConfig'' [(PUT, plainAction PutClusterConfig RestrictWorkers), (GET, plainAction GetClusterConfigHandler RestrictWorkers)],
     endpoint ''KubernetesAuthTokens''
       [(POST, plainAction PostKubernetesAuthTokens NoAccessHandler), (DELETE, plainAction DeleteKubernetesAuthTokens NoAccessHandler)],
     endpoint ''KubernetesAuthWebhook'' [(POST, openAction PostKubernetesAuthWebhook NoAccessHandler)],
     endpoint ''ClusterAPI/GetJoinToken'' [(POST, openAction PostClusterJoinTokens (CAPIAuthToken ''capi-auth-token''))],
     endpoint ''ClusterAPI/SetAuthToken'' [(POST, plainAction PostSetClusterAPIAuthToken NoAccessHandler)],
     endpoint ''ClusterAPI/RemoveNode'' [(POST, openAction PostClusterRemove (CAPIAuthToken ''capi-auth-token''))],
     endpoint ''ClusterAPI/CertificatesExpiry'' [(POST, openAction PostCertificatesExpiry (NodeToken ''node-token''))],
     endpoint ''ClusterAPI/RefreshCerts/Plan'' [(POST, openAction PostRefreshCertsPlan (NodeToken ''node-token''))],
     endpoint ''ClusterAPI/RefreshCerts/Run'' [(POST, openAction PostRefreshCertsRun (NodeToken ''node-token''))],
     endpoint ''ClusterAPI/RefreshCerts/Approve'' [(POST, openAction PostApproveWorkerCSR (CAPIAuthToken ''capi-auth-token''))],
     endpoint ''Snap/Refresh'' [(POST, openAction PostSnapRefresh (NodeToken ''node-token''))],
     endpoint ''Snap/RefreshStatus'' [(POST, openAction PostSnapRefreshStatus (NodeToken ''node-token''))]]"

text \<open>What the access handler of an action answers on a node. Without one nothing is refused here.\<close>

record ('key, 'pub) accessEnv =
  AX_snap :: Snap
  AX_crypto :: "('key, 'pub) csrCrypto"
  AX_now :: int

fun accessCheck :: "('key, 'pub) accessEnv \<Rightarrow> DB \<Rightarrow> Host \<Rightarrow> accessHandler \<Rightarrow> headers \<Rightarrow> access" where
  "accessCheck env db h NoAccessHandler hdr = Granted"
| "accessCheck env db h RestrictWorkers hdr = restrictWorkers (AX_snap env) h"
| "accessCheck env db h (WorkerInfoToken n t) hdr = ValidateWorkerInfoAccessHandler (AX_crypto env) (AX_now env) n t db hdr"
| "accessCheck env db h (CAPIAuthToken t) hdr = ValidateCAPIAuthTokenAccessHandler t db hdr"
| "accessCheck env db h (NodeToken t) hdr = ValidateNodeTokenAccessHandler t (AX_snap env) h hdr"


section \<open>Join tokens\<close>

text \<open>
  What the handlers of a control plane node work on: the world of the node, the Kubernetes API server, and the microcluster.
\<close>

record 'm ApiState =
  P_world :: World
  P_kube :: Kube
  P_micro :: 'm

definition onWorldOf :: "(World \<Rightarrow> (World, 'a) step) \<Rightarrow> 'm ApiState \<Rightarrow> ('m ApiState, 'a) step" where
  "onWorldOf f st = (case f (P_world st) of (w, r) \<Rightarrow> (st\<lparr>P_world := w\<rparr>, r))"

definition onKubeOf :: "(Kube \<Rightarrow> (Kube, 'a) step) \<Rightarrow> 'm ApiState \<Rightarrow> ('m ApiState, 'a) step" where
  "onKubeOf f st = (case f (P_kube st) of (k, r) \<Rightarrow> (st\<lparr>P_kube := k\<rparr>, r))"

definition onMicroOf :: "('m \<Rightarrow> ('m, 'a) step) \<Rightarrow> 'm ApiState \<Rightarrow> ('m ApiState, 'a) step" where
  "onMicroOf f st = (case f (P_micro st) of (m, r) \<Rightarrow> (st\<lparr>P_micro := m\<rparr>, r))"

record ('m, 'key, 'pub) apiEnv =
  PE_crypto :: "'key crypto"
  PE_csr :: "('key, 'pub) csrCrypto"
  PE_json :: json
  PE_extern :: extern
  PE_kubeconfig :: kubeconfigIO
  PE_snap :: Snap
  PE_name :: string
  PE_hostname :: string
  PE_now :: int
  PE_random :: "byte list res"
  PE_sha256 :: "string \<Rightarrow> byte list"
  PE_kubernetesClient :: "unit res"
  PE_listSlices :: "Kube \<Rightarrow> (Kube, EndpointSlice list ptr) step"
  PE_checks :: nat
  PE_steps :: nat
  PE_ctxDone :: "nat \<Rightarrow> bool"
  PE_listJoinTokens :: "'m \<Rightarrow> ('m, (string \<times> string) list) step"
  PE_newJoinToken :: "string \<Rightarrow> int \<Rightarrow> 'm \<Rightarrow> ('m, string) step"
  PE_remoteAddresses :: "string list"
  PE_clusterCert :: "string res"
  PE_tokenJson :: tokenJson
  PE_datastoreType :: "UserFacingDatastoreConfig \<Rightarrow> string"

datatype nameProblem = errNodeNameAlreadyExists | errFailedToCheckNodeName

fun nameProblemText :: "nameProblem \<Rightarrow> string" where
  "nameProblemText errNodeNameAlreadyExists = ''a node with this name is already part of the cluster''"
| "nameProblemText errFailedToCheckNodeName = ''failed to check whether node name is available in cluster''"

definition checkNodeNameAvailable :: "string \<Rightarrow> Kube \<Rightarrow> Kube \<times> (nameProblem \<times> error) option" where
  "checkNodeNameAvailable nodeName k =
     (case getNode nodeName k of
        (k, Inr _) \<Rightarrow> (k, Some (errNodeNameAlreadyExists, Errorf ''%w: %q'' [nameProblemText errNodeNameAlreadyExists, nodeName]))
      | (k, Inl e) \<Rightarrow>
          if \<not> IsNotFound e
          then (k, Some (errFailedToCheckNodeName, Wrapf ''%w: %q: %w'' [nameProblemText errFailedToCheckNodeName, nodeName] e))
          else (k, None))"

fun findRecord :: "string \<Rightarrow> (string \<times> string) list \<Rightarrow> string option" where
  "findRecord tokenName [] = None"
| "findRecord tokenName ((name, token) # rs) = (if name = tokenName then Some token else findRecord tokenName rs)"

definition getOrCreateJoinToken :: "('m, 'key, 'pub) apiEnv \<Rightarrow> string \<Rightarrow> int \<Rightarrow> 'm \<Rightarrow> ('m, string) step" where
  "getOrCreateJoinToken env tokenName ttl m =
     (case PE_listJoinTokens env m of (m, records) \<Rightarrow>
        (case (case records of Inl _ \<Rightarrow> None | Inr rs \<Rightarrow> findRecord tokenName rs) of
           Some token \<Rightarrow> (m, Inr token)
         | None \<Rightarrow>
             tryStep (PE_newJoinToken env tokenName ttl m) ''failed to generate a new microcluster join token: %w'' []
               (\<lambda>m token. (m, Inr token))))"

definition CertFingerprint :: "(string \<Rightarrow> byte list) \<Rightarrow> string \<Rightarrow> string" where
  "CertFingerprint digest raw = hexEncode (digest raw)"

definition getOrCreateWorkerToken :: "('m, 'key, 'pub) apiEnv \<Rightarrow> string \<Rightarrow> int \<Rightarrow> World \<Rightarrow> (World, string) step" where
  "getOrCreateWorkerToken env nodeName ttl w =
     tryStep
       (tryStep (onStore (Transaction (GetOrCreateWorkerNodeToken (PE_random env) nodeName (PE_now env + ttl))) w)
          ''failed to create worker node token: %w'' [] (\<lambda>w token. (w, Inr token)))
       ''database transaction failed: %w'' [] (\<lambda>w token.
     tryStep (w, PE_clusterCert env) ''failed to get cluster certificate: %w'' [] (\<lambda>w cert.
     let info = \<lparr>WN_Token = '''', WN_Secret = token, WN_JoinAddresses = PE_remoteAddresses env,
                 WN_Fingerprint = CertFingerprint (PE_sha256 env) cert\<rparr> in
     tryStep (w, Token_Encode (PE_tokenJson env) info) ''failed to encode join token: %w'' [] (\<lambda>w token. (w, Inr token))))"

record GetJoinTokenRequest =
  GJ_Name :: string
  GJ_Worker :: bool
  GJ_TTL :: int

definition defaultTTL :: int where "defaultTTL = 24 * 3600 * 10 ^ 9"

definition postClusterJoinTokens ::
  "('m, 'key, 'pub) apiEnv \<Rightarrow> GetJoinTokenRequest res \<Rightarrow> 'm ApiState \<Rightarrow> 'm ApiState \<times> string response"
where
  "postClusterJoinTokens env decoded st =
     orFail 400 ''failed to parse request: %w'' [] (st, decoded) (\<lambda>st req.
     orFail 400 ''invalid hostname %q: %w'' [GJ_Name req] (st, CleanHostname (PE_csr env) (GJ_Name req)) (\<lambda>st hostname.
     orFail 500 ''failed to create k8s client: %w'' [] (st, PE_kubernetesClient env) (\<lambda>st _.
     case checkNodeNameAvailable hostname (P_kube st) of (k, taken) \<Rightarrow>
       (let st = st\<lparr>P_kube := k\<rparr> in
        case taken of
          Some (problem, e) \<Rightarrow> (st, if problem = errFailedToCheckNodeName then BadRequest e else InternalError e)
        | None \<Rightarrow>
            let ttl = (if GJ_TTL req = 0 then defaultTTL else GJ_TTL req) in
            orFail 500 ''failed to create token: %w'' []
              (if GJ_Worker req then onWorldOf (getOrCreateWorkerToken env hostname ttl) st
               else onMicroOf (getOrCreateJoinToken env hostname ttl) st)
              (\<lambda>st token. (st, SyncResponse token))))))"

section \<open>Worker join information\<close>

definition workerIssuer :: "('m, 'key, 'pub) apiEnv \<Rightarrow> ClusterConfig \<Rightarrow> ControlPlanePKI" where
  "workerIssuer env cfg =
     (let notBefore = timeNow (PE_crypto env); cc = CC_Certificates cfg in
      (NewControlPlanePKI [] [] [] notBefore (Some (AddDate notBefore 10 0 0)) False False (\<lambda>t. AddDate t 1 0 0))
        \<lparr>CACert := getStr (Certificates_CACert cc), CAKey := getStr (Certificates_CAKey cc),
         ClientCACert := getStr (Certificates_ClientCACert cc), ClientCAKey := getStr (Certificates_ClientCAKey cc)\<rparr>)"

text \<open>The closure of the retry assigns to \<open>servers\<close>.\<close>

definition fetchServers :: "('m, 'key, 'pub) apiEnv \<Rightarrow> Kube \<times> string list \<Rightarrow> (Kube \<times> string list, unit) step" where
  "fetchServers env = (\<lambda>(k, servers).
     case GetKubeAPIServerEndpoints (PE_steps env) (PE_listSlices env) k of
       (k, Inl e) \<Rightarrow> ((k, []), Inl (Wrapf ''failed to retrieve list of known kube-apiserver endpoints: %w'' [] e))
     | (k, Inr servers) \<Rightarrow> ((k, servers), ok))"

definition knownServers :: "('m, 'key, 'pub) apiEnv \<Rightarrow> Kube \<Rightarrow> (Kube, string list) step" where
  "knownServers env k =
     (case RetryFor (PE_ctxDone env) 5 (fetchServers env) (k, []) of
        ((k, servers), Inl e) \<Rightarrow> (k, Inl e)
      | ((k, servers), Inr _) \<Rightarrow> (k, Inr servers))"

definition workerJoinInfo :: "ClusterConfig \<Rightarrow> WorkerNodePKI \<Rightarrow> string list \<Rightarrow> workerInfo" where
  "workerJoinInfo cfg pki servers =
     \<lparr>WI_PKI = pki\<lparr>W_CACert := getStr (Certificates_CACert (CC_Certificates cfg)),
                    W_ClientCACert := getStr (Certificates_ClientCACert (CC_Certificates cfg))\<rparr>,
      WI_APIServers = servers, WI_PodCIDR = getStr (Network_PodCIDR (CC_Network cfg)),
      WI_ServiceCIDR = getStr (Network_ServiceCIDR (CC_Network cfg)), WI_KubeProxyEnabled = GetKubeProxyEnabled (CC_Network cfg),
      WI_K8sdPublicKey = getStr (Certificates_K8sdPublicKey (CC_Certificates cfg)), WI_Annotations = CC_Annotations cfg,
      WI_ClusterDNS = getStr (Kubelet_ClusterDNS (CC_Kubelet cfg)), WI_ClusterDomain = getStr (Kubelet_ClusterDomain (CC_Kubelet cfg)),
      WI_CloudProvider = getStr (Kubelet_CloudProvider (CC_Kubelet cfg))\<rparr>"

text \<open>The rest of the handler, once the node name is known to be free.\<close>

definition handOutJoinInfo ::
  "('m, 'key, 'pub) apiEnv \<Rightarrow> string \<Rightarrow> ClusterConfig \<Rightarrow> WorkerNodePKI \<Rightarrow> 'm ApiState \<Rightarrow> 'm ApiState \<times> workerInfo response"
where
  "handOutJoinInfo env workerToken cfg pki st =
     orFail 500 ''failed after retry: %w'' [] (onKubeOf (knownServers env) st) (\<lambda>st servers.
     orFail 500 ''delete worker node token transaction failed: %w'' []
       (onWorldOf (onStore (Transaction (DeleteWorkerNodeToken workerToken))) st) (\<lambda>st _.
     (st, SyncResponse (workerJoinInfo cfg pki servers))))"

definition postWorkerInfo ::
  "('m, 'key, 'pub) apiEnv \<Rightarrow> headers \<Rightarrow> string res \<Rightarrow> 'm ApiState \<Rightarrow> 'm ApiState \<times> workerInfo response"
where
  "postWorkerInfo env hdr decoded st =
     orFail 400 ''failed to parse request: %w'' [] (st, decoded) (\<lambda>st address.
     let workerName = hdr ''Worker-Name'' in
     case ParseIP address of
       None \<Rightarrow> (st, BadRequest (Errorf ''failed to parse node IP address %s'' [address]))
     | Some nodeIP \<Rightarrow>
         orFail 500 ''failed to get cluster config: %w'' [] (st, util_GetClusterConfig (PE_json env) (A_db (P_world st))) (\<lambda>st cfg.
         orFail 500 ''failed to generate worker PKI: %w'' []
           (onWorldOf (onRand (CompleteWorkerNodePKI (PE_crypto env) (workerIssuer env cfg) workerName nodeIP 2048)) st) (\<lambda>st pki.
         orFail 500 ''failed to create kubernetes client: %w'' [] (st, PE_kubernetesClient env) (\<lambda>st _.
         orFail 500 ''kubernetes endpoints not ready yet: %w'' []
           (onKubeOf (WaitKubernetesEndpointAvailable (PE_checks env) (PE_steps env) (PE_listSlices env)) st) (\<lambda>st _.
         case onKubeOf (getNode workerName) st of
           (st, Inr _) \<Rightarrow> (st, BadRequest (Errorf ''node name already exists: %s'' [workerName]))
         | (st, Inl e) \<Rightarrow>
             if \<not> IsNotFound e
             then (st, InternalError (Wrapf ''failed to check whether worker node name is available %s: %w'' [workerName] e))
             else handOutJoinInfo env (hdr ''Worker-Token'') cfg pki st)))))"


section \<open>Cluster configuration\<close>

text \<open>\<open>len(annotations) > 0\<close>\<close>

definition hasEntries :: "Annotations \<Rightarrow> bool" where
  "hasEntries a = (case a of None \<Rightarrow> False | Some m \<Rightarrow> m \<noteq> Map.empty)"

definition notifyRequested :: "ClusterConfig \<Rightarrow> World \<Rightarrow> World" where
  "notifyRequested requestedConfig w =
     (let hasAnnotations = hasEntries (CC_Annotations requestedConfig) in
      NotifyFeatureController
        (CC_Network requestedConfig \<noteq> emptyNetwork \<or> hasAnnotations)
        (CC_Gateway requestedConfig \<noteq> emptyGateway \<or> hasAnnotations)
        (CC_Ingress requestedConfig \<noteq> emptyIngress \<or> hasAnnotations)
        (CC_LoadBalancer requestedConfig \<noteq> emptyLoadBalancer \<or> hasAnnotations)
        (CC_LocalStorage requestedConfig \<noteq> emptyLocalStorage \<or> hasAnnotations)
        (CC_MetricsServer requestedConfig \<noteq> emptyMetricsServer \<or> hasAnnotations)
        (CC_DNS requestedConfig \<noteq> emptyDNS \<or> CC_Kubelet requestedConfig \<noteq> emptyKubelet \<or> hasAnnotations) w)"

text \<open>The request as a cluster configuration.\<close>

definition requestedClusterConfig ::
  "(UserFacingDatastoreConfig \<Rightarrow> string) \<Rightarrow> UserFacingClusterConfig \<times> UserFacingDatastoreConfig \<Rightarrow> ClusterConfig res"
where
  "requestedClusterConfig getType = (\<lambda>(config, datastore).
     case ClusterConfigFromUserFacing config of
       Inl e \<Rightarrow> Inl (Wrapf ''invalid configuration: %w'' [] e)
     | Inr c \<Rightarrow>
         (case DatastoreConfigFromUserFacing getType datastore of
            Inl e \<Rightarrow> Inl (Wrapf ''failed to parse datastore config: %w'' [] e)
          | Inr ds \<Rightarrow> Inr (c\<lparr>CC_Datastore := ds\<rparr>)))"

definition putClusterConfig ::
  "('m, 'key, 'pub) apiEnv \<Rightarrow> (UserFacingClusterConfig \<times> UserFacingDatastoreConfig) res \<Rightarrow> World \<Rightarrow> World \<times> unit response"
where
  "putClusterConfig env decoded w =
     orFail 400 ''failed to decode request: %w'' [] (w, decoded) (\<lambda>w req.
     case requestedClusterConfig (PE_datastoreType env) req of
       Inl e \<Rightarrow> (w, BadRequest e)
     | Inr requestedConfig \<Rightarrow>
         orFail 500 ''database transaction to update cluster configuration failed: %w'' []
           (onStore (Transaction (\<lambda>db.
              tryStep (SetClusterConfig (PE_extern env) (PE_json env) requestedConfig db)
                ''failed to update cluster configuration: %w'' [] (\<lambda>db _. (db, ok)))) w) (\<lambda>w _.
         (notifyRequested requestedConfig (NotifyUpdateNodeConfigController w), SyncResponse ())))"

record GetClusterConfigResponse =
  GC_Config :: UserFacingClusterConfig
  GC_Datastore :: UserFacingDatastoreConfig
  GC_PodCIDR :: "string ptr"
  GC_ServiceCIDR :: "string ptr"

definition api_getClusterConfig :: "('m, 'key, 'pub) apiEnv \<Rightarrow> World \<Rightarrow> World \<times> GetClusterConfigResponse response" where
  "api_getClusterConfig env w =
     orFail 500 ''failed to retrieve cluster configuration: %w'' [] (w, util_GetClusterConfig (PE_json env) (A_db w)) (\<lambda>w config.
     (w, SyncResponse \<lparr>GC_Config = ToUserFacing config, GC_Datastore = Datastore_ToUserFacing (CC_Datastore config),
            GC_PodCIDR = Network_PodCIDR (CC_Network config), GC_ServiceCIDR = Network_ServiceCIDR (CC_Network config)\<rparr>))"

definition getKubeconfig :: "('m, 'key, 'pub) apiEnv \<Rightarrow> string res \<Rightarrow> World \<Rightarrow> World \<times> string response" where
  "getKubeconfig env decoded w =
     orFail 400 ''failed to parse request: %w'' [] (w, decoded) (\<lambda>w requested.
     orFail 500 ''failed to retrieve cluster config: %w'' [] (w, util_GetClusterConfig (PE_json env) (A_db w)) (\<lambda>w config.
     let server = (if requested = [] then PE_hostname env @ '':'' @ Itoa (getInt (APIServer_SecurePort (CC_APIServer config))) else requested);
         cc = CC_Certificates config in
     orFail 500 ''failed to get kubeconfig: %w'' []
       (w, KubeconfigString (PE_kubeconfig env) server (getStr (Certificates_CACert cc)) (getStr (Certificates_AdminClientCert cc))
             (getStr (Certificates_AdminClientKey cc)))
       (\<lambda>w kubeconfig. (w, SyncResponse kubeconfig))))"

section \<open>Tokens\<close>

definition postSetClusterAPIAuthToken :: "string res \<Rightarrow> World \<Rightarrow> World \<times> unit response" where
  "postSetClusterAPIAuthToken decoded w =
     orFail 400 ''failed to parse request: %w'' [] (w, decoded) (\<lambda>w token.
     case onStore (Transaction (SetClusterAPIToken token)) w of
       (w, Inl e) \<Rightarrow> (w, InternalError e)
     | (w, Inr _) \<Rightarrow> (w, SyncResponse ()))"

definition GetOrCreateAuthToken :: "byte list res \<Rightarrow> string \<Rightarrow> string list \<Rightarrow> World \<Rightarrow> (World, string) step" where
  "GetOrCreateAuthToken random username groups w =
     tryStep (onStore (Transaction (GetOrCreateToken random username groups)) w) ''database transaction failed: %w'' []
       (\<lambda>w token. (w, Inr token))"

definition RevokeAuthToken :: "string \<Rightarrow> World \<Rightarrow> (World, unit) step" where
  "RevokeAuthToken token w =
     tryStep (onStore (Transaction (\<lambda>db. tryStep (DeleteToken token db) ''failed to delete token from database: %w'' [] (\<lambda>db _. (db, ok)))) w)
       ''database transaction failed: %w'' [] (\<lambda>w _. (w, ok))"

definition postKubernetesAuthTokens ::
  "('m, 'key, 'pub) apiEnv \<Rightarrow> (string \<times> string list) res \<Rightarrow> World \<Rightarrow> World \<times> string response"
where
  "postKubernetesAuthTokens env decoded w =
     orFail 400 ''failed to parse request: %w'' [] (w, decoded) (\<lambda>w (username, groups).
     case GetOrCreateAuthToken (PE_random env) username groups w of
       (w, Inl e) \<Rightarrow> (w, InternalError e)
     | (w, Inr token) \<Rightarrow> (w, SyncResponse token))"

definition deleteKubernetesAuthTokens :: "string res \<Rightarrow> World \<Rightarrow> World \<times> unit response" where
  "deleteKubernetesAuthTokens decoded w =
     orFail 400 ''failed to parse request: %w'' [] (w, decoded) (\<lambda>w token.
     orFail 500 ''failed to revoke auth token: %w'' [] (RevokeAuthToken token w) (\<lambda>w _. (w, SyncResponse ())))"

text \<open>
  The token review of the API server. A body sets only the fields it has; the others keep the values they were prepared with.
  A body that does not parse leaves what was read of it in the review. The response is a status code with the review itself.
\<close>

record UserInfo =
  User_UID :: string
  User_Username :: string
  User_Groups :: "string list"

record TokenReviewStatus =
  TS_Audiences :: "string list"
  TS_Authenticated :: bool
  TS_User :: UserInfo
  TS_Error :: "error option"

record TokenReview =
  TR_APIVersion :: string
  TR_Kind :: string
  TR_Token :: string
  TR_Audiences :: "string list"
  TR_Status :: TokenReviewStatus

record TokenReviewBody =
  TB_APIVersion :: "string ptr"
  TB_Kind :: "string ptr"
  TB_Token :: string
  TB_Audiences :: "string list"
  TB_Status :: TokenReviewStatus

definition emptyStatus :: TokenReviewStatus where
  "emptyStatus = \<lparr>TS_Audiences = [], TS_Authenticated = False,
     TS_User = \<lparr>User_UID = '''', User_Username = '''', User_Groups = []\<rparr>, TS_Error = None\<rparr>"

definition preparedReview :: TokenReview where
  "preparedReview = \<lparr>TR_APIVersion = ''authentication.k8s.io/v1'', TR_Kind = ''TokenReview'', TR_Token = '''', TR_Audiences = [],
     TR_Status = emptyStatus\<rparr>"

definition decodedReview :: "TokenReviewBody \<Rightarrow> TokenReview" where
  "decodedReview b =
     \<lparr>TR_APIVersion = getField (TR_APIVersion preparedReview) (TB_APIVersion b), TR_Kind = getField (TR_Kind preparedReview) (TB_Kind b),
      TR_Token = TB_Token b, TR_Audiences = TB_Audiences b, TR_Status = TB_Status b\<rparr>"

definition reviewFailed :: "TokenReview \<Rightarrow> error \<Rightarrow> TokenReview" where
  "reviewFailed review e = review\<lparr>TR_Status := (TR_Status review)\<lparr>TS_Error := Some e\<rparr>\<rparr>"

definition headerErrors :: "TokenReview \<Rightarrow> error list" where
  "headerErrors review =
     (if TR_APIVersion review \<in> {''authentication.k8s.io/v1'', ''authentication.k8s.io/v1beta1''} then []
      else [Errorf ''unknown GroupVersion=%s'' [TR_APIVersion review]]) @
     (if TR_Kind review = ''TokenReview'' then [] else [Errorf ''unknown Kind=%s'' [TR_Kind review]])"

definition normalHeader :: "TokenReview \<Rightarrow> TokenReview" where
  "normalHeader review = review
     \<lparr>TR_APIVersion := (if TR_APIVersion review \<in> {''authentication.k8s.io/v1'', ''authentication.k8s.io/v1beta1''}
                        then TR_APIVersion review else ''authentication.k8s.io/v1''),
      TR_Kind := ''TokenReview''\<rparr>"

definition postKubernetesAuthWebhook :: "(TokenReview \<times> error) + TokenReviewBody \<Rightarrow> DB \<Rightarrow> nat \<times> TokenReview" where
  "postKubernetesAuthWebhook decoded db =
     (case decoded of
        Inl (partial, e) \<Rightarrow> (400, reviewFailed partial (Wrapf ''failed to parse TokenReview: %w'' [] e))
      | Inr body \<Rightarrow>
          let review = (decodedReview body)\<lparr>TR_Status := emptyStatus\<rparr>; errs = headerErrors review; review = normalHeader review in
          if errs \<noteq> [] then (401, reviewFailed review (Wrapf ''invalid TokenReview: %w'' [] (Join errs)))
          else
            (case CheckToken (TR_Token review) db of
               Inl _ \<Rightarrow> (401, reviewFailed review (Errorf ''invalid token'' []))
             | Inr (username, groups) \<Rightarrow>
                 (200, review\<lparr>TR_Status := \<lparr>TS_Audiences = TR_Audiences review, TS_Authenticated = True,
                    TS_User = \<lparr>User_UID = username, User_Username = username, User_Groups = groups\<rparr>, TS_Error = None\<rparr>\<rparr>)))"


section \<open>Who gets in\<close>

lemma tokenVerdict_granted [simp]: "tokenVerdict a b r = Granted \<longleftrightarrow> r = Inr True"
  by (auto simp: tokenVerdict_def split: sum.splits)

lemma ValidateCAPIAuthToken_granted:
  "ValidateCAPIAuthTokenAccessHandler t db hdr = Granted \<Longrightarrow>
   hdr t \<noteq> [] \<and> map_of (DB_configs db) ''token::capi'' = Some (hdr t)"
  by (auto simp: ValidateCAPIAuthTokenAccessHandler_def ValidateClusterAPIToken_def Let_def
      split: if_splits sum.splits option.splits)

lemma ValidateNodeToken_granted:
  "ValidateNodeTokenAccessHandler t s h hdr = Granted \<Longrightarrow>
   hdr t \<noteq> [] \<and> (\<exists>content. ReadFile h (NodeTokenFile s) = Inr content \<and> TrimSpace content = hdr t)"
  by (auto simp: ValidateNodeTokenAccessHandler_def Let_def split: if_splits sum.splits)

text \<open>A stored worker token that is good for a node now.\<close>

definition workerTokenGood :: "int \<Rightarrow> string \<Rightarrow> string \<Rightarrow> WorkerToken \<Rightarrow> bool" where
  "workerTokenGood now hostname token r \<longleftrightarrow>
     WT_token r = token \<and> (WT_name r = [] \<or> WT_name r = hostname) \<and> now < WT_expiry r"

lemma CheckWorkerNodeToken_true:
  "CheckWorkerNodeToken now hostname token db = Inr True \<Longrightarrow> \<exists>r \<in> set (DB_workers db). workerTokenGood now hostname token r"
  by (auto simp: CheckWorkerNodeToken_def workerTokenGood_def find_Some_iff split: sum.splits option.splits if_splits)

lemma ValidateWorkerInfo_granted:
  assumes "ValidateWorkerInfoAccessHandler z now n t db hdr = Granted"
  shows "hdr n \<noteq> [] \<and> hdr t \<noteq> [] \<and>
    (\<exists>hostname. CleanHostname z (hdr n) = Inr hostname \<and> (\<exists>r \<in> set (DB_workers db). workerTokenGood now hostname (hdr t) r))"
  using assms
  by (auto simp: ValidateWorkerInfoAccessHandler_def Let_def dest!: CheckWorkerNodeToken_true split: if_splits sum.splits)

text \<open>What a client that the cluster does not trust has to present.\<close>

definition presentsCredentials :: "('key, 'pub) accessEnv \<Rightarrow> DB \<Rightarrow> Host \<Rightarrow> headers \<Rightarrow> handler \<Rightarrow> bool" where
  "presentsCredentials env db h hdr handler \<longleftrightarrow>
     handler = PostKubernetesAuthWebhook \<or>
     handler = PostWorkerInfo \<and>
       (\<exists>hostname. CleanHostname (AX_crypto env) (hdr ''Worker-Name'') = Inr hostname \<and>
         (\<exists>r \<in> set (DB_workers db). workerTokenGood (AX_now env) hostname (hdr ''Worker-Token'') r)) \<or>
     handler \<in> {PostClusterJoinTokens, PostClusterRemove, PostApproveWorkerCSR} \<and>
       hdr ''capi-auth-token'' \<noteq> [] \<and> map_of (DB_configs db) ''token::capi'' = Some (hdr ''capi-auth-token'') \<or>
     handler \<in> {PostCertificatesExpiry, PostRefreshCertsPlan, PostRefreshCertsRun, PostSnapRefresh, PostSnapRefreshStatus} \<and>
       hdr ''node-token'' \<noteq> [] \<and>
       (\<exists>content. ReadFile h (NodeTokenFile (AX_snap env)) = Inr content \<and> TrimSpace content = hdr ''node-token'')"

text \<open>The actions open to untrusted clients, with the check of each.\<close>

definition openActions :: "(handler \<times> accessHandler) list" where
  "openActions =
     map (\<lambda>a. (Act_Handler a, Act_AccessHandler a))
       (filter Act_AllowUntrusted (map snd (concat (map Endpoint_Actions Endpoints))))"

lemma openActions_eq:
  "openActions =
    [(PostWorkerInfo, WorkerInfoToken ''Worker-Name'' ''Worker-Token''), (PostKubernetesAuthWebhook, NoAccessHandler),
     (PostClusterJoinTokens, CAPIAuthToken ''capi-auth-token''), (PostClusterRemove, CAPIAuthToken ''capi-auth-token''),
     (PostCertificatesExpiry, NodeToken ''node-token''), (PostRefreshCertsPlan, NodeToken ''node-token''),
     (PostRefreshCertsRun, NodeToken ''node-token''), (PostApproveWorkerCSR, CAPIAuthToken ''capi-auth-token''),
     (PostSnapRefresh, NodeToken ''node-token''), (PostSnapRefreshStatus, NodeToken ''node-token'')]"
  by (simp add: openActions_def Endpoints_def endpoint_def plainAction_def openAction_def)

lemma openActions_checked:
  assumes "(handler, check) \<in> set openActions" "accessCheck env db h check hdr = Granted"
  shows "presentsCredentials env db h hdr handler"
proof -
  note granted = ValidateCAPIAuthToken_granted ValidateNodeToken_granted ValidateWorkerInfo_granted
  show ?thesis
    using assms unfolding openActions_eq presentsCredentials_def
    by (auto dest!: granted)
qed

text \<open>
  \<open>passes trusted open verdict\<close> says that the microcluster hands a request to its handler. It does so only for trusted
  clients or for actions that allow untrusted ones, and only when the access handler does not refuse.
\<close>

definition gateLaws :: "(bool \<Rightarrow> bool \<Rightarrow> access \<Rightarrow> bool) \<Rightarrow> bool" where
  "gateLaws passes \<longleftrightarrow> (\<forall>trusted allowed verdict. passes trusted allowed verdict \<longrightarrow> verdict = Granted \<and> (trusted \<or> allowed))"

text \<open>
  C29: A request of a client that is not trusted reaches a handler only with valid credentials: a worker token that is stored, not
  expired and issued for the node that asks or for any node; the ClusterAPI token of the cluster; or the token of the node. The
  only exception is the token review, which is itself the check of a token.
\<close>

theorem untrusted_present_credentials:
  assumes "gateLaws passes" "ep \<in> set Endpoints" "(m, a) \<in> set (Endpoint_Actions ep)"
    and "passes False (Act_AllowUntrusted a) (accessCheck env db h (Act_AccessHandler a) hdr)"
  shows "presentsCredentials env db h hdr (Act_Handler a)"
proof -
  have g: "accessCheck env db h (Act_AccessHandler a) hdr = Granted" "Act_AllowUntrusted a"
    using assms(1,4) unfolding gateLaws_def by blast+
  have "(Act_Handler a, Act_AccessHandler a) \<in> set openActions"
    using assms(2,3) g(2) by (force simp: openActions_def)
  then show ?thesis using g(1) by (rule openActions_checked)
qed

definition sampleAccess :: "(unit, unit) accessEnv" where
  "sampleAccess = \<lparr>AX_snap = sampleSnap, AX_crypto = sampleCSRCrypto, AX_now = 10\<rparr>"

definition sampleTokenDB :: DB where
  "sampleTokenDB = sampleDB\<lparr>DB_configs := [(''v1alpha2'', ''{}''), (''token::capi'', ''secret'')],
     DB_workers := [\<lparr>WT_name = ''w1'', WT_token = ''worker::00'', WT_expiry = 20\<rparr>]\<rparr>"

theorem untrusted_present_credentials_witness:
  "presentsCredentials sampleAccess sampleTokenDB emptyHost ((\<lambda>_. '''')(''capi-auth-token'' := ''secret'')) PostClusterRemove"
proof -
  let ?a = "openAction PostClusterRemove (CAPIAuthToken ''capi-auth-token'')"
  let ?hdr = "(\<lambda>_. '''')(''capi-auth-token'' := ''secret'')"
  let ?passes = "\<lambda>trusted allowed verdict. verdict = Granted \<and> (trusted \<or> allowed)"
  have "accessCheck sampleAccess sampleTokenDB emptyHost (CAPIAuthToken ''capi-auth-token'') ?hdr = Granted"
    by (simp add: ValidateCAPIAuthTokenAccessHandler_def ValidateClusterAPIToken_def sampleTokenDB_def sampleDB_def dbStmt_def)
  then have "presentsCredentials sampleAccess sampleTokenDB emptyHost ?hdr (Act_Handler ?a)"
    by (intro untrusted_present_credentials [of ?passes "endpoint ''ClusterAPI/RemoveNode'' [(POST, ?a)]" POST])
      (simp_all add: gateLaws_def Endpoints_def endpoint_def openAction_def)
  then show ?thesis by (simp add: openAction_def)
qed

section \<open>Token reviews\<close>

lemma find_Some_set: "find P xs = Some x \<Longrightarrow> x \<in> set xs \<and> P x"
  by (auto simp: find_Some_iff)


section \<open>Worker tokens are used once\<close>

text \<open>What a handler answers: \<open>P\<close> holds of the state and the value of a successful response, \<open>Q\<close> of the state of a failed one.\<close>

definition answers :: "('s \<Rightarrow> 'a \<Rightarrow> bool) \<Rightarrow> ('s \<Rightarrow> bool) \<Rightarrow> 's \<times> 'a response \<Rightarrow> bool" where
  "answers P Q r = (case r of (s, SyncResponse x) \<Rightarrow> P s x | (s, ErrorResponse c e) \<Rightarrow> Q s)"

lemma answers_simps [simp]:
  "answers P Q (s, SyncResponse x) = P s x" "answers P Q (s, ErrorResponse c e) = Q s"
  by (simp_all add: answers_def)

lemma answers_orFail:
  "Q (fst r) \<Longrightarrow> (\<And>s x. r = (s, Inr x) \<Longrightarrow> Q s \<Longrightarrow> answers P Q (k s x)) \<Longrightarrow> answers P Q (orFail c f a r k)"
  by (cases r; cases "snd r") auto

text \<open>A request for endpoint slices reads only.\<close>

definition readsOnly :: "(Kube \<Rightarrow> (Kube, 'a) step) \<Rightarrow> bool" where
  "readsOnly f \<longleftrightarrow> (\<forall>k. K_nodes (fst (f k)) = K_nodes k)"

lemma readsOnly_endpoints: "readsOnly f \<Longrightarrow> readsOnly (GetKubeAPIServerEndpoints n f)"
  using GetKubeAPIServerEndpoints_invariant [of "\<lambda>k'. K_nodes k' = K_nodes k" f k n for k] by (simp add: readsOnly_def)

lemma readsOnly_wait: "readsOnly f \<Longrightarrow> readsOnly (WaitKubernetesEndpointAvailable c n f)"
proof -
  assume "readsOnly f"
  then have "K_nodes (fst (GetKubeAPIServerEndpoints n f k)) = K_nodes k" for k
    using readsOnly_endpoints by (simp add: readsOnly_def)
  then have "K_nodes (fst (WaitUntilReady c (\<lambda>s. case GetKubeAPIServerEndpoints n f s of (s, r) \<Rightarrow> (s, Inr (is_ok r))) k)) = K_nodes k" for k
    by (intro WaitUntilReady_invariant [where I = "\<lambda>k'. K_nodes k' = K_nodes k"]) (simp_all add: case_prod_beta)
  then show "readsOnly (WaitKubernetesEndpointAvailable c n f)"
    by (simp add: readsOnly_def WaitKubernetesEndpointAvailable_def)
qed

lemma api_frame [simp]:
  "P_world (fst (onKubeOf f st)) = P_world st" "P_kube (fst (onWorldOf g st)) = P_kube st"
  "P_kube (fst (onKubeOf f st)) = fst (f (P_kube st))" "P_world (fst (onWorldOf g st)) = fst (g (P_world st))"
  by (simp_all add: onKubeOf_def onWorldOf_def split: prod.splits)

lemma attempt_run: "attempt f s n = r \<Longrightarrow> \<exists>s'. f s' = r"
  by (induction n arbitrary: s) auto

lemma knownServers_ok: "knownServers env k = (k', Inr servers) \<Longrightarrow> servers \<noteq> []"
proof -
  assume run: "knownServers env k = (k', Inr servers)"
  obtain k1 sv r where e: "RetryFor (PE_ctxDone env) 5 (fetchServers env) (k, []) = ((k1, sv), r)" by (metis surj_pair)
  then have "RetryFor (PE_ctxDone env) 5 (fetchServers env) (k, []) = ((k', servers), ok)"
    using run by (cases r) (simp_all add: knownServers_def)
  then have "\<exists>n < 5. attempt (fetchServers env) (k, []) n = ((k', servers), ok) \<and>
      (\<forall>j < n. \<not> is_ok (snd (attempt (fetchServers env) (k, []) j)) \<and> \<not> PE_ctxDone env j)"
    by (simp only: RetryFor_ok_iff [OF zero_less_numeral])
  then obtain n where "attempt (fetchServers env) (k, []) n = ((k', servers), ok)" by (elim exE conjE)
  then obtain s where "fetchServers env s = ((k', servers), ok)" by (rule exE [OF attempt_run])
  then show "servers \<noteq> []"
    by (auto simp: fetchServers_def split: prod.splits sum.splits dest: GetKubeAPIServerEndpoints_ok(1))
qed

lemma Transaction_delete_ok:
  "Transaction (DeleteWorkerNodeToken t) db = (db', Inr u) \<Longrightarrow> db' = db\<lparr>DB_workers := filter (\<lambda>r. WT_token r \<noteq> t) (DB_workers db)\<rparr>"
  by (auto simp: Transaction_def DeleteWorkerNodeToken_def tryStep_def dbExec_def dbStmt_def split: prod.splits sum.splits option.splits)

lemma Transaction_error: "Transaction f db = (db', Inl e) \<Longrightarrow> db' = db"
  by (auto simp: Transaction_def split: prod.splits sum.splits)

text \<open>The database and the nodes while the handler has not decided yet.\<close>

definition undecided :: "'m ApiState \<Rightarrow> 'm ApiState \<Rightarrow> bool" where
  "undecided st st' \<longleftrightarrow> A_db (P_world st') = A_db (P_world st)"

text \<open>The token is taken out of the database, and the answer names servers and the authorities of the stored configuration.\<close>

definition joinInfoIssued :: "('m, 'key, 'pub) apiEnv \<Rightarrow> string \<Rightarrow> 'm ApiState \<Rightarrow> 'm ApiState \<Rightarrow> workerInfo \<Rightarrow> bool" where
  "joinInfoIssued env token st st' info \<longleftrightarrow>
     A_db (P_world st') = (A_db (P_world st))\<lparr>DB_workers := filter (\<lambda>r. WT_token r \<noteq> token) (DB_workers (A_db (P_world st)))\<rparr> \<and>
     WI_APIServers info \<noteq> [] \<and>
     (\<exists>cfg. util_GetClusterConfig (PE_json env) (A_db (P_world st)) = Inr cfg \<and>
        W_CACert (WI_PKI info) = getStr (Certificates_CACert (CC_Certificates cfg)) \<and>
        W_ClientCACert (WI_PKI info) = getStr (Certificates_ClientCACert (CC_Certificates cfg)) \<and>
        WI_K8sdPublicKey info = getStr (Certificates_K8sdPublicKey (CC_Certificates cfg)))"

lemma handOutJoinInfo_answers:
  assumes "undecided st0 st" "util_GetClusterConfig (PE_json env) (A_db (P_world st0)) = Inr cfg"
  shows "answers (joinInfoIssued env token st0) (undecided st0) (handOutJoinInfo env token cfg pki st)"
  unfolding handOutJoinInfo_def
proof (rule answers_orFail)
  show "undecided st0 (fst (onKubeOf (knownServers env) st))" using assms by (simp add: undecided_def)
  fix s servers
  assume k: "onKubeOf (knownServers env) st = (s, Inr servers)" and u: "undecided st0 s"
  have ne: "servers \<noteq> []"
    using k by (auto simp: onKubeOf_def split: prod.splits dest: knownServers_ok)
  let ?t = "onWorldOf (onStore (Transaction (DeleteWorkerNodeToken token))) s"
  let ?k = "\<lambda>st _. (st, SyncResponse (workerJoinInfo cfg pki servers))"
  obtain db' r where t: "Transaction (DeleteWorkerNodeToken token) (A_db (P_world s)) = (db', r)" by force
  have e: "?t = (s\<lparr>P_world := (P_world s)\<lparr>A_db := db'\<rparr>\<rparr>, r)" by (simp add: onWorldOf_def onStore_def t)
  show "answers (joinInfoIssued env token st0) (undecided st0)
      (orFail 500 ''delete worker node token transaction failed: %w'' [] ?t ?k)"
  proof (cases r)
    case (Inl x)
    then show ?thesis using Transaction_error t u unfolding e by (auto simp: undecided_def)
  next
    case (Inr x)
    then have "db' = (A_db (P_world s))\<lparr>DB_workers := filter (\<lambda>r. WT_token r \<noteq> token) (DB_workers (A_db (P_world s)))\<rparr>"
      using Transaction_delete_ok t by blast
    then show ?thesis using u ne assms(2) Inr unfolding e by (simp add: joinInfoIssued_def undecided_def workerJoinInfo_def)
  qed
qed

lemma postWorkerInfo_answers:
  "answers (joinInfoIssued env (hdr ''Worker-Token'') st) (undecided st) (postWorkerInfo env hdr decoded st)"
  unfolding postWorkerInfo_def Let_def
proof (rule answers_orFail, simp add: undecided_def, goal_cases)
  case (1 s address)
  then have s: "s = st" by simp
  show ?case
  proof (cases "ParseIP address")
    case None
    then show ?thesis by (simp add: s undecided_def)
  next
    case (Some nodeIP)
    show ?thesis
      unfolding Some option.case s
    proof (rule answers_orFail, simp add: undecided_def, goal_cases)
      case (1 s1 cfg)
      then have cfg: "s1 = st" "util_GetClusterConfig (PE_json env) (A_db (P_world st)) = Inr cfg" by auto
      show ?case
        unfolding cfg(1)
      proof (rule answers_orFail, simp add: undecided_def, rule answers_orFail, simp, rule answers_orFail, simp add: undecided_def, goal_cases)
        case (1 s2 pki s3 _ s4 _)
        obtain s5 r where n: "onKubeOf (getNode (hdr ''Worker-Name'')) s4 = (s5, r)" by force
        have "P_world s5 = P_world s4" using api_frame(1) [of "getNode (hdr ''Worker-Name'')" s4] by (simp add: n)
        then have u: "undecided st s5" using 1(6) by (simp add: undecided_def)
        then show ?case
          using handOutJoinInfo_answers [OF u cfg(2)] by (cases r) (simp_all add: n)
      qed
    qed
  qed
qed



section \<open>Changes of the configuration\<close>

definition requestedChannels :: "ClusterConfig \<Rightarrow> (bool \<times> string) list" where
  "requestedChannels c =
     (let all = hasEntries (CC_Annotations c) in
      [(CC_Network c \<noteq> emptyNetwork \<or> all, ''network''), (CC_Gateway c \<noteq> emptyGateway \<or> all, ''gateway''),
       (CC_Ingress c \<noteq> emptyIngress \<or> all, ''ingress''), (CC_LoadBalancer c \<noteq> emptyLoadBalancer \<or> all, ''load-balancer''),
       (CC_LocalStorage c \<noteq> emptyLocalStorage \<or> all, ''local-storage''), (CC_MetricsServer c \<noteq> emptyMetricsServer \<or> all, ''metrics-server''),
       (CC_DNS c \<noteq> emptyDNS \<or> CC_Kubelet c \<noteq> emptyKubelet \<or> all, ''dns'')])"

lemma notifyRequested_fold:
  "notifyRequested c w = foldl (\<lambda>w (b, ch). if b then notify ch w else w) w (requestedChannels c)"
  by (simp only: notifyRequested_def NotifyFeatureController_def requestedChannels_def Let_def)

lemma notifyRequested_effect:
  "A_db (notifyRequested c (NotifyUpdateNodeConfigController w)) = A_db w"
  "A_signals (notifyRequested c (NotifyUpdateNodeConfigController w)) ch \<longleftrightarrow>
     A_signals w ch \<or> ch = ''update-node-config'' \<or> (True, ch) \<in> set (requestedChannels c)"
  using notify_fold [of "NotifyUpdateNodeConfigController w" "requestedChannels c" ch]
  unfolding notifyRequested_fold NotifyUpdateNodeConfigController_def
  by (simp_all add: notify_def MaybeNotify_def)

lemma Transaction_ok: "Transaction f db = (db', Inr x) \<longleftrightarrow> f db = (db', Inr x)"
  by (auto simp: Transaction_def split: prod.splits sum.splits)

text \<open>What a request to change the configuration does when it succeeds.\<close>

definition configChanged ::
  "('m, 'key, 'pub) apiEnv \<Rightarrow> UserFacingClusterConfig \<times> UserFacingDatastoreConfig \<Rightarrow> World \<Rightarrow> World \<Rightarrow> bool"
where
  "configChanged env req w w' \<longleftrightarrow>
     (\<exists>requested old new s. requestedClusterConfig (PE_datastoreType env) req = Inr requested \<and>
        GetClusterConfig (PE_json env) (A_db w) = Inr old \<and> MergeClusterConfig (PE_extern env) old requested = Inr new \<and>
        jsonMarshal (PE_json env) new = Inr s \<and> A_db w' = putConfig ''v1alpha2'' s (A_db w) \<and>
        (\<forall>ch. A_signals w' ch \<longleftrightarrow> A_signals w ch \<or> ch = ''update-node-config'' \<or> (True, ch) \<in> set (requestedChannels requested)) \<and>
        (jsonOK (PE_json env) new \<longrightarrow>
           api_getClusterConfig env w' = (w', SyncResponse \<lparr>GC_Config = ToUserFacing new, GC_Datastore = Datastore_ToUserFacing (CC_Datastore new),
             GC_PodCIDR = Network_PodCIDR (CC_Network new), GC_ServiceCIDR = Network_ServiceCIDR (CC_Network new)\<rparr>)))"

lemma putClusterConfig_stored:
  assumes req: "requestedClusterConfig (PE_datastoreType env) req = Inr requested"
    and set: "SetClusterConfig (PE_extern env) (PE_json env) requested (A_db w) = (db', Inr new)"
  shows "\<exists>w'. putClusterConfig env (Inr req) w = (w', SyncResponse ()) \<and> configChanged env req w w'"
proof -
  let ?w = "notifyRequested requested (NotifyUpdateNodeConfigController (w\<lparr>A_db := db'\<rparr>))"
  have run: "putClusterConfig env (Inr req) w = (?w, SyncResponse ())"
    by (simp add: putClusterConfig_def req set onStore_def Transaction_def)
  obtain old s where old: "GetClusterConfig (PE_json env) (A_db w) = Inr old" "MergeClusterConfig (PE_extern env) old requested = Inr new"
    "jsonMarshal (PE_json env) new = Inr s" "db' = putConfig ''v1alpha2'' s (A_db w)"
    using set by (auto simp: SetClusterConfig_ok_iff)
  have db: "A_db ?w = db'" by (simp add: notifyRequested_effect)
  have "jsonOK (PE_json env) new \<Longrightarrow> GetClusterConfig (PE_json env) (A_db ?w) = Inr new"
    unfolding db using GetClusterConfig_after_set [OF set] .
  then have readback: "jsonOK (PE_json env) new \<longrightarrow>
      api_getClusterConfig env ?w = (?w, SyncResponse \<lparr>GC_Config = ToUserFacing new, GC_Datastore = Datastore_ToUserFacing (CC_Datastore new),
        GC_PodCIDR = Network_PodCIDR (CC_Network new), GC_ServiceCIDR = Network_ServiceCIDR (CC_Network new)\<rparr>)"
    by (simp add: api_getClusterConfig_def util_GetClusterConfig_def)
  have signals: "\<forall>ch. A_signals ?w ch \<longleftrightarrow> A_signals w ch \<or> ch = ''update-node-config'' \<or> (True, ch) \<in> set (requestedChannels requested)"
    by (simp add: notifyRequested_effect)
  have "configChanged env req w ?w"
    unfolding configChanged_def by (intro exI conjI) (rule req old(1-3) trans [OF db old(4)] signals readback)+
  with run show ?thesis by blast
qed

text \<open>
  C32: A request to change the configuration either fails and changes nothing, neither the database nor the controllers that are
  triggered, or stores the merge of the stored configuration with the request, triggers the node configuration and exactly
  the features whose section the request sets (all of them if it sets annotations), and the configuration then read back
  is the merged one.
\<close>

theorem put_cluster_config:
  "(\<exists>req w'. decoded = Inr req \<and> putClusterConfig env decoded w = (w', SyncResponse ()) \<and> configChanged env req w w') \<or>
   (\<exists>c e. putClusterConfig env decoded w = (w, ErrorResponse c e))"
proof (cases decoded)
  case (Inl e)
  then show ?thesis by (simp add: putClusterConfig_def)
next
  case (Inr req)
  show ?thesis
  proof (cases "requestedClusterConfig (PE_datastoreType env) req")
    case (Inl e)
    then show ?thesis by (simp add: putClusterConfig_def Inr)
  next
    case requested: (Inr requested)
    obtain db' r where set: "SetClusterConfig (PE_extern env) (PE_json env) requested (A_db w) = (db', r)" by force
    show ?thesis
    proof (cases r)
      case (Inl e)
      then show ?thesis
        using set by (simp add: putClusterConfig_def Inr requested onStore_def Transaction_def)
    next
      case (Inr new)
      then show ?thesis using putClusterConfig_stored [OF requested] set \<open>decoded = Inr req\<close> by blast
    qed
  qed
qed

section \<open>A join token opens the door\<close>

definition tokenCodec :: "tokenJson \<Rightarrow> bool" where
  "tokenCodec j \<longleftrightarrow> (\<forall>t b. tokenMarshal j (t, ''m!!'') = Inr b \<longrightarrow> tokenUnmarshal j b = Inr (t, ''m!!''))"

lemma Token_Decode_Encode: "tokenCodec j \<Longrightarrow> Token_Encode j t = Inr e \<Longrightarrow> Token_Decode j e = Inr t"
  by (auto simp: tokenCodec_def Token_Encode_def Token_Decode_def internalWorkerNodeTokenSerializeMagicString_def b64.decode_encode
      split: sum.splits)

lemma CheckWorkerNodeToken_appended:
  assumes "dbStmt db ''select-worker-token'' = ok" "DB_fault db ''select-worker-token'' Exec = None"
    and "DB_workers db = ws @ [row]" "\<forall>r \<in> set ws. WT_token r \<noteq> WT_token row"
  shows "CheckWorkerNodeToken now hostname (WT_token row) db = Inr ((WT_name row = [] \<or> hostname = WT_name row) \<and> now < WT_expiry row)"
proof -
  have "find (\<lambda>r. WT_token r = WT_token row) (ws @ [row]) = Some row" using assms(4) by (induction ws) auto
  then show ?thesis using assms(1-3) by (simp add: CheckWorkerNodeToken_def)
qed


definition issuedToken :: "('m, 'key, 'pub) apiEnv \<Rightarrow> byte list \<Rightarrow> string \<Rightarrow> InternalWorkerNodeToken" where
  "issuedToken env b cert =
     \<lparr>WN_Token = '''', WN_Secret = ''worker::'' @ hexEncode b, WN_JoinAddresses = PE_remoteAddresses env,
      WN_Fingerprint = CertFingerprint (PE_sha256 env) cert\<rparr>"

definition issuedRow :: "('m, 'key, 'pub) apiEnv \<Rightarrow> byte list \<Rightarrow> string \<Rightarrow> int \<Rightarrow> WorkerToken" where
  "issuedRow env b nodeName ttl = \<lparr>WT_name = nodeName, WT_token = ''worker::'' @ hexEncode b, WT_expiry = PE_now env + ttl\<rparr>"

lemma workerNodeToken_inserted:
  "GetOrCreateWorkerNodeToken random n x db = (db', Inr t) \<Longrightarrow>
   \<exists>b. random = Inr b \<and> t = ''worker::'' @ hexEncode b \<and>
     db' = db\<lparr>DB_workers := DB_workers db @ [\<lparr>WT_name = n, WT_token = t, WT_expiry = x\<rparr>]\<rparr>"
  by (auto simp: GetOrCreateWorkerNodeToken_def tryStep_ok_iff dbExec_ok Let_def)

lemma getOrCreateWorkerToken_ok:
  assumes "getOrCreateWorkerToken env n ttl w = (w', Inr token)"
  shows "\<exists>b cert. PE_random env = Inr b \<and> PE_clusterCert env = Inr cert \<and>
    A_db w' = (A_db w)\<lparr>DB_workers := DB_workers (A_db w) @ [issuedRow env b n ttl]\<rparr> \<and>
    Token_Encode (PE_tokenJson env) (issuedToken env b cert) = Inr token"
proof -
  obtain db1 t where t: "GetOrCreateWorkerNodeToken (PE_random env) n (PE_now env + ttl) (A_db w) = (db1, Inr t)"
    and rest: "tryStep (w\<lparr>A_db := db1\<rparr>, PE_clusterCert env) ''failed to get cluster certificate: %w'' [] (\<lambda>w cert.
       tryStep (w, Token_Encode (PE_tokenJson env) \<lparr>WN_Token = '''', WN_Secret = t, WN_JoinAddresses = PE_remoteAddresses env,
           WN_Fingerprint = CertFingerprint (PE_sha256 env) cert\<rparr>) ''failed to encode join token: %w'' [] (\<lambda>w token. (w, Inr token))) =
      (w', Inr token)"
    using assms
    by (cases "GetOrCreateWorkerNodeToken (PE_random env) n (PE_now env + ttl) (A_db w)"; cases "snd (GetOrCreateWorkerNodeToken (PE_random env) n (PE_now env + ttl) (A_db w))")
      (simp_all add: getOrCreateWorkerToken_def onStore_def Transaction_def Let_def)
  obtain b where b: "PE_random env = Inr b" "t = ''worker::'' @ hexEncode b"
    "db1 = (A_db w)\<lparr>DB_workers := DB_workers (A_db w) @ [\<lparr>WT_name = n, WT_token = t, WT_expiry = PE_now env + ttl\<rparr>]\<rparr>"
    using workerNodeToken_inserted [OF t] by (elim exE conjE)
  obtain cert where "PE_clusterCert env = Inr cert" "w' = w\<lparr>A_db := db1\<rparr>"
    "Token_Encode (PE_tokenJson env) (issuedToken env b cert) = Inr token"
    using rest unfolding issuedToken_def b(2) by (auto simp: tryStep_ok_iff)
  then show ?thesis using b by (auto simp: issuedRow_def)
qed

lemma postClusterJoinTokens_worker:
  assumes "postClusterJoinTokens env (Inr req) st = (st', SyncResponse token)" "GJ_Worker req"
  shows "\<exists>hostname w. CleanHostname (PE_csr env) (GJ_Name req) = Inr hostname \<and> A_db w = A_db (P_world st) \<and>
    getOrCreateWorkerToken env hostname (if GJ_TTL req = 0 then defaultTTL else GJ_TTL req) w = (P_world st', Inr token)"
proof -
  obtain hostname where h: "CleanHostname (PE_csr env) (GJ_Name req) = Inr hostname"
    using assms(1) by (cases "CleanHostname (PE_csr env) (GJ_Name req)") (simp_all add: postClusterJoinTokens_def)
  obtain u where c: "PE_kubernetesClient env = Inr u"
    using assms(1) h by (cases "PE_kubernetesClient env") (simp_all add: postClusterJoinTokens_def)
  obtain k taken where a: "checkNodeNameAvailable hostname (P_kube st) = (k, taken)" by force
  have "taken = None"
    using assms(1) h c a by (cases taken) (auto simp: postClusterJoinTokens_def split: if_splits)
  then obtain s where s: "onWorldOf (getOrCreateWorkerToken env hostname (if GJ_TTL req = 0 then defaultTTL else GJ_TTL req)) (st\<lparr>P_kube := k\<rparr>) =
      (st', Inr token)"
    using assms h c a by (auto simp: postClusterJoinTokens_def Let_def orFail_sync_iff)
  then have "getOrCreateWorkerToken env hostname (if GJ_TTL req = 0 then defaultTTL else GJ_TTL req) (P_world st) = (P_world st', Inr token)"
    by (auto simp: onWorldOf_def split: prod.splits)
  with h show ?thesis by blast
qed

text \<open>
  C31: A worker token that the API hands out is what a worker needs: it decodes to the addresses of the members, the fingerprint of
  the cluster certificate, and a secret with which exactly the named node, until the token expires, is let in to fetch its
  join information. \<open>PE_random\<close> must not repeat a secret that is still stored.
\<close>

theorem worker_join_token_admits:
  assumes run: "postClusterJoinTokens env (Inr req) st = (st', SyncResponse token)" "GJ_Worker req"
    and codec: "tokenCodec (PE_tokenJson env)" and faults: "DB_fault (A_db (P_world st)) = (\<lambda>_ _. None)"
    and fresh: "\<And>b r. PE_random env = Inr b \<Longrightarrow> r \<in> set (DB_workers (A_db (P_world st))) \<Longrightarrow> WT_token r \<noteq> ''worker::'' @ hexEncode b"
  shows "\<exists>hostname t cert. CleanHostname (PE_csr env) (GJ_Name req) = Inr hostname \<and> Token_Decode (PE_tokenJson env) token = Inr t \<and>
    WN_JoinAddresses t = PE_remoteAddresses env \<and> PE_clusterCert env = Inr cert \<and> WN_Fingerprint t = CertFingerprint (PE_sha256 env) cert \<and>
    (\<forall>now name host. name \<noteq> [] \<longrightarrow> CleanHostname (PE_csr env) name = Inr host \<longrightarrow>
       (ValidateWorkerInfoAccessHandler (PE_csr env) now ''Worker-Name'' ''Worker-Token'' (A_db (P_world st'))
          ((\<lambda>_. '''')(''Worker-Name'' := name, ''Worker-Token'' := WN_Secret t)) = Granted \<longleftrightarrow>
        (hostname = [] \<or> host = hostname) \<and> now < PE_now env + (if GJ_TTL req = 0 then defaultTTL else GJ_TTL req)))"
proof -
  let ?ttl = "if GJ_TTL req = 0 then defaultTTL else GJ_TTL req"
  obtain hostname w where h: "CleanHostname (PE_csr env) (GJ_Name req) = Inr hostname" and w: "A_db w = A_db (P_world st)"
    and g: "getOrCreateWorkerToken env hostname ?ttl w = (P_world st', Inr token)"
    using postClusterJoinTokens_worker [OF run] by (elim exE conjE)
  obtain b cert where b: "PE_random env = Inr b" "PE_clusterCert env = Inr cert"
    and db: "A_db (P_world st') = (A_db w)\<lparr>DB_workers := DB_workers (A_db w) @ [issuedRow env b hostname ?ttl]\<rparr>"
    and e: "Token_Encode (PE_tokenJson env) (issuedToken env b cert) = Inr token"
    using getOrCreateWorkerToken_ok [OF g] by (elim exE conjE)
  note d = Token_Decode_Encode [OF codec e]
  have check: "CheckWorkerNodeToken now host (WN_Secret (issuedToken env b cert)) (A_db (P_world st')) =
      Inr ((hostname = [] \<or> host = hostname) \<and> now < PE_now env + ?ttl)" for now host
    using CheckWorkerNodeToken_appended [of "A_db (P_world st')" "DB_workers (A_db w)" "issuedRow env b hostname ?ttl" now host]
      faults fresh [OF b(1)] w
    by (auto simp: db dbStmt_def issuedRow_def issuedToken_def)
  have "WN_Secret (issuedToken env b cert) \<noteq> []" by (simp add: issuedToken_def)
  then have "ValidateWorkerInfoAccessHandler (PE_csr env) now ''Worker-Name'' ''Worker-Token'' (A_db (P_world st'))
        ((\<lambda>_. '''')(''Worker-Name'' := name, ''Worker-Token'' := WN_Secret (issuedToken env b cert))) = Granted \<longleftrightarrow>
      (hostname = [] \<or> host = hostname) \<and> now < PE_now env + ?ttl"
    if "name \<noteq> []" "CleanHostname (PE_csr env) name = Inr host" for now name host
    using that check by (simp add: ValidateWorkerInfoAccessHandler_def)
  then show ?thesis
    using h d b(2) by (intro exI [of _ hostname] exI [of _ "issuedToken env b cert"] exI [of _ cert]) (simp add: issuedToken_def)
qed


section \<open>Samples\<close>

definition sampleSlice :: EndpointSlice where
  "sampleSlice = \<lparr>ES_AddressType = AddressTypeIPv4, ES_Ports = [], ES_Endpoints = [[''10.0.0.1'']]\<rparr>"

definition sampleApiEnv :: "((string \<times> string) list, unit, unit) apiEnv" where
  "sampleApiEnv =
     \<lparr>PE_crypto = sampleCrypto, PE_csr = sampleCSRCrypto,
      PE_json = \<lparr>jsonMarshal = (\<lambda>_. Inr ''{}''), jsonUnmarshal = (\<lambda>_. Inr sampleIssuerConfig)\<rparr>, PE_extern = sampleExtern,
      PE_kubeconfig = sampleIO, PE_snap = sampleSnap, PE_name = ''n1'', PE_hostname = ''10.0.0.1'', PE_now = 10, PE_random = Inr [7],
      PE_sha256 = (\<lambda>_. [1]), PE_kubernetesClient = ok, PE_listSlices = (\<lambda>k. (k, Inr (Some [sampleSlice]))), PE_checks = 1, PE_steps = 1,
      PE_ctxDone = (\<lambda>_. False), PE_listJoinTokens = (\<lambda>m. (m, Inr m)), PE_newJoinToken = (\<lambda>n ttl m. ((n, ''t'') # m, Inr ''t'')),
      PE_remoteAddresses = [''10.0.0.1:6400''], PE_clusterCert = Inr ''c'',
      PE_tokenJson = \<lparr>tokenMarshal = (\<lambda>(t, m). if m = ''m!!'' \<and> t = \<lparr>WN_Token = '''', WN_Secret = ''worker::07'',
            WN_JoinAddresses = [''10.0.0.1:6400''], WN_Fingerprint = ''01''\<rparr> then Inr ''tok'' else Inl noAddresses),
          tokenUnmarshal = (\<lambda>_. Inr (\<lparr>WN_Token = '''', WN_Secret = ''worker::07'', WN_JoinAddresses = [''10.0.0.1:6400''],
            WN_Fingerprint = ''01''\<rparr>, ''m!!''))\<rparr>,
      PE_datastoreType = (\<lambda>_. ''external'')\<rparr>"

definition sampleApiState :: "(string \<times> string) list ApiState" where
  "sampleApiState = \<lparr>P_world = sampleWorld\<lparr>A_db := sampleTokenDB\<rparr>, P_kube = sampleKube UpgradePhaseNodeUpgrade, P_micro = []\<rparr>"

definition sampleWorkerHeaders :: headers where
  "sampleWorkerHeaders = (\<lambda>_. '''')(''Worker-Name'' := ''w1'', ''Worker-Token'' := ''worker::00'')"

lemma sample_endpoints:
  "GetKubeAPIServerEndpoints (Suc 0) (\<lambda>k. (k, Inr (Some [sampleSlice]))) k = (k, Inr [endpointAddress ''10.0.0.1'' 6443])"
  by (simp add: GetKubeAPIServerEndpoints_def ParseEndpointSlices_def sliceAddresses_def sampleSlice_def map_filter_simps sortStrings_def)

lemma sample_client: "PE_kubernetesClient sampleApiEnv = ok"
  by (simp add: sampleApiEnv_def)

lemma sample_servers:
  "WaitKubernetesEndpointAvailable (PE_checks sampleApiEnv) (PE_steps sampleApiEnv) (PE_listSlices sampleApiEnv) k = (k, ok)"
  "knownServers sampleApiEnv k = (k, Inr [endpointAddress ''10.0.0.1'' 6443])"
  by (simp_all add: WaitKubernetesEndpointAvailable_def knownServers_def fetchServers_def RetryFor_def sampleApiEnv_def sample_endpoints
      numeral_eq_Suc)

lemma sample_workerPKI:
  "\<exists>n' pki. CompleteWorkerNodePKI sampleCrypto (workerIssuer sampleApiEnv sampleIssuerConfig) name ip 2048 n = (n', Inr pki)"
  by (simp add: CompleteWorkerNodePKI_def workerKubelet_def workerClient_def workerIssuer_def sampleIssuerConfig_def NewControlPlanePKI_def
      sample_load sample_sign Let_def getters)




lemma sample_hex: "hexEncode [7] = ''07''" "hexEncode [1] = ''01''"
  by code_simp+

theorem worker_join_token_admits_witness:
  "\<exists>st' token. postClusterJoinTokens sampleApiEnv (Inr \<lparr>GJ_Name = ''w2'', GJ_Worker = True, GJ_TTL = 5\<rparr>) sampleApiState = (st', SyncResponse token) \<and>
     ValidateWorkerInfoAccessHandler sampleCSRCrypto 14 ''Worker-Name'' ''Worker-Token'' (A_db (P_world st'))
       ((\<lambda>_. '''')(''Worker-Name'' := ''w2'', ''Worker-Token'' := ''worker::07'')) = Granted"
proof -
  let ?req = "\<lparr>GJ_Name = ''w2'', GJ_Worker = True, GJ_TTL = 5\<rparr>"
  let ?t = "\<lparr>WN_Token = '''', WN_Secret = ''worker::07'', WN_JoinAddresses = [''10.0.0.1:6400''], WN_Fingerprint = ''01''\<rparr>"
  have clean: "CleanHostname (PE_csr sampleApiEnv) ''w2'' = Inr ''w2''"
    by (simp add: CleanHostname_def sampleApiEnv_def sampleCSRCrypto_def HasSuffix_def)
  have free: "checkNodeNameAvailable ''w2'' (P_kube sampleApiState) = ((P_kube sampleApiState)\<lparr>K_calls := 1\<rparr>, None)"
    by (simp add: checkNodeNameAvailable_def getNode_def request_def findNode_def sampleApiState_def sampleKube_def sampleNode_def)
  have enc: "Token_Encode (PE_tokenJson sampleApiEnv) ?t = Inr (base64Encode ''tok'')"
    by (simp add: Token_Encode_def sampleApiEnv_def internalWorkerNodeTokenSerializeMagicString_def del: base64Encode.simps)
  have env: "PE_random sampleApiEnv = Inr [7]" "PE_clusterCert sampleApiEnv = Inr ''c''" "PE_remoteAddresses sampleApiEnv = [''10.0.0.1:6400'']"
    "PE_sha256 sampleApiEnv = (\<lambda>_. [1])" "PE_csr sampleApiEnv = sampleCSRCrypto" "PE_now sampleApiEnv = 10"
    by (simp_all add: sampleApiEnv_def)
  have "\<exists>w'. getOrCreateWorkerToken sampleApiEnv ''w2'' 5 (P_world sampleApiState) = (w', Inr (base64Encode ''tok''))"
    using enc
    by (simp add: getOrCreateWorkerToken_def onStore_def Transaction_def GetOrCreateWorkerNodeToken_def dbStmt_def dbExec_def sampleApiState_def
        sampleTokenDB_def sampleDB_def sample_hex CertFingerprint_def env Let_def del: base64Encode.simps)
  then obtain w' where w: "getOrCreateWorkerToken sampleApiEnv ''w2'' 5 (P_world sampleApiState) = (w', Inr (base64Encode ''tok''))"
    by (elim exE)
  obtain st' where run: "postClusterJoinTokens sampleApiEnv (Inr ?req) sampleApiState = (st', SyncResponse (base64Encode ''tok''))"
    using clean free w by (simp add: postClusterJoinTokens_def sample_client onWorldOf_def del: base64Encode.simps)
  have codec: "tokenCodec (PE_tokenJson sampleApiEnv)"
    by (simp add: tokenCodec_def sampleApiEnv_def)
  have faults: "DB_fault (A_db (P_world sampleApiState)) = (\<lambda>_ _. None)"
    by (simp add: sampleApiState_def sampleTokenDB_def sampleDB_def)
  have fresh: "WT_token r \<noteq> ''worker::'' @ hexEncode b" if "PE_random sampleApiEnv = Inr b" "r \<in> set (DB_workers (A_db (P_world sampleApiState)))" for b r
    using that by (auto simp: env sampleApiState_def sampleTokenDB_def sample_hex)
  have "Token_Decode (PE_tokenJson sampleApiEnv) (base64Encode ''tok'') = Inr ?t"
    by (rule Token_Decode_Encode [OF codec enc])
  then have "ValidateWorkerInfoAccessHandler sampleCSRCrypto 14 ''Worker-Name'' ''Worker-Token'' (A_db (P_world st'))
       ((\<lambda>_. '''')(''Worker-Name'' := ''w2'', ''Worker-Token'' := ''worker::07'')) = Granted"
    using worker_join_token_admits [OF run _ codec faults fresh] clean by (auto simp: env)
  with run show ?thesis by blast
qed

end
