(* ===== verification/Loops.thy ===== *)
theory Loops
  imports Controllers FeatureLoop
begin

text \<open>
  The loops that drive the controllers: the client that is asked for until there is one (\<open>pkg/k8sd/controllers/utils.go\<close>), the
  watches on the config map of the nodes and on the node object (\<open>pkg/client/kubernetes/configmap.go\<close>, \<open>node.go\<close>), the \<open>Run\<close>
  methods of the node level controllers, the controllers that the application creates (\<open>New\<close> of \<open>pkg/k8sd/app/app.go\<close>) and those
  that the coordinator registers (\<open>pkg/k8sd/controllers/coordinator.go\<close>).

  What a channel delivers is a list in the order of delivery. A loop at the end of its list waits for more. A
  method call on a nil client ends the process; a \<open>Run\<close> that does so ends \<open>Panicked\<close>. The channels \<open>reconciledCh\<close> carry no
  data and no controller of the program reads those of these loops.
\<close>

section \<open>The client of a controller\<close>

text \<open>\<open>client i\<close> is the answer to the request number \<open>i\<close>, \<open>ctxDone i\<close> says that the context ends in the wait after it.\<close>

partial_function (option) clientLoop :: "(nat \<Rightarrow> bool) \<Rightarrow> (nat \<Rightarrow> 'c res) \<Rightarrow> nat \<Rightarrow> 'c res option" where
  "clientLoop ctxDone client i =
     (case client i of
        Inr c \<Rightarrow> Some (Inr c)
      | Inl _ \<Rightarrow> if ctxDone i then Some (Inl ctxCanceled) else clientLoop ctxDone client (Suc i))"

record 'c kubeClients =
  KC_admin :: "nat \<Rightarrow> 'c res"
  KC_node :: "nat \<Rightarrow> 'c res"

definition getNewK8sClientWithRetries :: "(nat \<Rightarrow> bool) \<Rightarrow> 'c kubeClients \<Rightarrow> bool \<Rightarrow> 'c res option" where
  "getNewK8sClientWithRetries ctxDone snap admin = clientLoop ctxDone (if admin then KC_admin snap else KC_node snap) 0"

definition getRESTConfig :: "(nat \<Rightarrow> bool) \<Rightarrow> 'c kubeClients \<Rightarrow> 'c res option" where
  "getRESTConfig ctxDone snap = clientLoop ctxDone (KC_admin snap) 0"

section \<open>Watches\<close>

datatype 'm watchEvent =
    CtxDone
  | Closed
  | ErrorEvent error string
  | ObjectEvent 'm
  | OtherEvent string

text \<open>
  An event of type \<open>Error\<close> carries what \<open>apierrors.FromObject\<close> makes of its object, and the object as \<open>%#v\<close> prints it. \<open>W_watch i rv\<close> answers the watch request number \<open>i\<close>, from the resource version \<open>rv\<close>,
  \<open>W_ctxErr i\<close> says whether the context had ended then.
\<close>

record watchEnv =
  W_watch :: "nat \<Rightarrow> string \<Rightarrow> unit res"
  W_expired :: "error \<Rightarrow> bool"
  W_ctxErr :: "nat \<Rightarrow> bool"

fun watchConfigMapLoop ::
  "watchEnv \<Rightarrow> string \<Rightarrow> string \<Rightarrow> ('m \<Rightarrow> 's \<Rightarrow> ('s, unit) step) \<Rightarrow> nat \<Rightarrow> 'm watchEvent list \<Rightarrow> 's \<Rightarrow> 's \<times> unit res option"
where
  "watchConfigMapLoop env namespace name reconcile i [] s = (s, None)"
| "watchConfigMapLoop env namespace name reconcile i (CtxDone # evts) s = (s, Some ok)"
| "watchConfigMapLoop env namespace name reconcile i (Closed # evts) s = (s, Some (Inl (Errorf ''watch closed'' [])))"
| "watchConfigMapLoop env namespace name reconcile i (ErrorEvent status obj # evts) s =
     (if W_expired env status then
        (case W_watch env (Suc i) [] of
           Inl e \<Rightarrow>
             if W_ctxErr env (Suc i) then (s, Some ok)
             else (s, Some (Inl (Wrapf ''failed to restart watch namespace=%s name=%s: %w'' [namespace, name] e)))
         | Inr _ \<Rightarrow> watchConfigMapLoop env namespace name reconcile (Suc i) evts s)
      else (s, Some (Inl (Wrapf ''watch error event: %w'' [] status))))"
| "watchConfigMapLoop env namespace name reconcile i (OtherEvent obj # evts) s =
     (s, Some (Inl (Errorf ''expected a ConfigMap but received %#v'' [obj])))"
| "watchConfigMapLoop env namespace name reconcile i (ObjectEvent configMap # evts) s =
     watchConfigMapLoop env namespace name reconcile i evts (fst (reconcile configMap s))"

definition WatchConfigMap ::
  "watchEnv \<Rightarrow> ('m \<Rightarrow> string) \<Rightarrow> 'm res \<Rightarrow> string \<Rightarrow> string \<Rightarrow> ('m \<Rightarrow> 's \<Rightarrow> ('s, unit) step) \<Rightarrow> 'm watchEvent list \<Rightarrow> 's
   \<Rightarrow> 's \<times> unit res option"
where
  "WatchConfigMap env resourceVersion get namespace name reconcile evts s =
     (case get of
        Inl e \<Rightarrow> (s, Some (Inl (Wrapf ''failed to get configmap namespace=%s name=%s: %w'' [namespace, name] e)))
      | Inr cm \<Rightarrow>
          (case reconcile cm s of
             (s, Inl e) \<Rightarrow> (s, Some (Inl (Wrapf ''initial reconcile failed: %w'' [] e)))
           | (s, Inr _) \<Rightarrow>
               (case W_watch env 0 (resourceVersion cm) of
                  Inl e \<Rightarrow> (s, Some (Inl (Wrapf ''failed to watch configmap namespace=%s name=%s: %w'' [namespace, name] e)))
                | Inr _ \<Rightarrow> watchConfigMapLoop env namespace name reconcile 0 evts s)))"

text \<open>The watch on a node has no case for error events: their object is a status and no node.\<close>

fun watchNodeLoop :: "('m \<Rightarrow> 's \<Rightarrow> ('s, unit) step) \<Rightarrow> 'm watchEvent list \<Rightarrow> 's \<Rightarrow> 's \<times> unit res option" where
  "watchNodeLoop reconcile [] s = (s, None)"
| "watchNodeLoop reconcile (CtxDone # evts) s = (s, Some ok)"
| "watchNodeLoop reconcile (Closed # evts) s = (s, Some (Inl (Errorf ''watch closed'' [])))"
| "watchNodeLoop reconcile (ErrorEvent status obj # evts) s =
     (s, Some (Inl (Errorf ''expected a Node but received %#v'' [obj])))"
| "watchNodeLoop reconcile (OtherEvent obj # evts) s =
     (s, Some (Inl (Errorf ''expected a Node but received %#v'' [obj])))"
| "watchNodeLoop reconcile (ObjectEvent node # evts) s = watchNodeLoop reconcile evts (fst (reconcile node s))"

definition WatchNode ::
  "watchEnv \<Rightarrow> string \<Rightarrow> ('m \<Rightarrow> 's \<Rightarrow> ('s, unit) step) \<Rightarrow> 'm watchEvent list \<Rightarrow> 's \<Rightarrow> 's \<times> unit res option"
where
  "WatchNode env name reconcile evts s =
     (case W_watch env 0 [] of
        Inl e \<Rightarrow> (s, Some (Inl (Wrapf ''failed to watch node name=%s: %w'' [name] e)))
      | Inr _ \<Rightarrow> watchNodeLoop reconcile evts s)"


section \<open>The loops of the controllers\<close>

datatype runEnd = Waiting | Stopped | Panicked

text \<open>
  A trigger of the controller that publishes the node configuration: the files of the node at that time, the answer of the
  database and that of \<open>getNewK8sClientWithRetries\<close>. The client stays nil when the context ended, and the reconciliation runs
  with it.
\<close>

record 'c updateTrigger =
  UT_host :: Host
  UT_config :: "ClusterConfig res"
  UT_client :: "'c res"

abbreviation clientPtr :: "'c res \<Rightarrow> 'c ptr" where
  "clientPtr r \<equiv> (case r of Inr c \<Rightarrow> Some c | Inl _ \<Rightarrow> None)"

text \<open>The server-side apply through a client, on a state that records whether the process has panicked.\<close>

definition applyThrough ::
  "'c ptr \<Rightarrow> (string \<Rightarrow> string \<Rightarrow> string gomap \<Rightarrow> 'k \<Rightarrow> ('k, unit) step)
   \<Rightarrow> string \<Rightarrow> string \<Rightarrow> string gomap \<Rightarrow> 'k \<times> bool \<Rightarrow> ('k \<times> bool, unit) step"
where
  "applyThrough client put namespace name data st =
     (case client of
        None \<Rightarrow> ((fst st, True), Inl (Errorf ''invalid memory address or nil pointer dereference'' []))
      | Some _ \<Rightarrow> (case put namespace name data (fst st) of (k, r) \<Rightarrow> ((k, snd st), r)))"

fun UpdateNodeConfiguration_Run ::
  "'sk crypto \<Rightarrow> ('sk, 'pk) nodeCrypto \<Rightarrow> (string \<Rightarrow> string \<Rightarrow> string gomap \<Rightarrow> 'k \<Rightarrow> ('k, unit) step) \<Rightarrow> Snap
   \<Rightarrow> 'c updateTrigger list \<Rightarrow> 'k \<Rightarrow> 'k \<times> runEnd"
where
  "UpdateNodeConfiguration_Run y x put s [] k = (k, Waiting)"
| "UpdateNodeConfiguration_Run y x put s (t # triggers) k =
     (case IsWorker s (UT_host t) of
        Inl _ \<Rightarrow> UpdateNodeConfiguration_Run y x put s triggers k
      | Inr True \<Rightarrow> (k, Stopped)
      | Inr False \<Rightarrow>
          (case UT_config t of
             Inl _ \<Rightarrow> UpdateNodeConfiguration_Run y x put s triggers k
           | Inr config \<Rightarrow>
               (case UpdateNodeConfiguration_reconcile y x (applyThrough (clientPtr (UT_client t)) put) config (k, False) of
                  ((k, True), _) \<Rightarrow> (k, Panicked)
                | ((k, False), _) \<Rightarrow> UpdateNodeConfiguration_Run y x put s triggers k)))"

text \<open>
  One round of the controller that applies the node configuration: the client, and when there is one the watch on the config map
  until it ends. Every round starts with the map that \<open>Get\<close> returns.
\<close>

record ('c, 'm) watchRound =
  WR_client :: "'c res"
  WR_get :: "'m res"
  WR_watch :: watchEnv
  WR_events :: "'m watchEvent list"

record ConfigMapObject =
  CM_ResourceVersion :: string
  CM_Data :: "string gomap ptr"

fun NodeConfiguration_Run ::
  "(ConfigMapObject \<Rightarrow> 'n \<Rightarrow> ('n, unit) step) \<Rightarrow> ('c, ConfigMapObject) watchRound list \<Rightarrow> 'n \<Rightarrow> 'n"
where
  "NodeConfiguration_Run reconcile [] n = n"
| "NodeConfiguration_Run reconcile (w # ws) n =
     NodeConfiguration_Run reconcile ws
       (case WR_client w of
          Inl _ \<Rightarrow> n
        | Inr _ \<Rightarrow> fst (WatchConfigMap (WR_watch w) CM_ResourceVersion (WR_get w) ''kube-system'' ''k8sd-config'' reconcile (WR_events w) n))"

definition nodeConfigurationLoop ::
  "'sk crypto \<Rightarrow> ('sk, 'pk) nodeCrypto \<Rightarrow> (string \<Rightarrow> 'pk option res) \<Rightarrow> extern \<Rightarrow> json \<Rightarrow> (nat \<Rightarrow> bool) \<Rightarrow> Snap
   \<Rightarrow> ('c, ConfigMapObject) watchRound list \<Rightarrow> Node \<Rightarrow> Node"
where
  "nodeConfigurationLoop y x parsePKIX ext j ctxDone s =
     NodeConfiguration_Run (\<lambda>cm. NodeConfiguration_reconcile y x parsePKIX ext j ctxDone s (CM_Data cm))"

text \<open>\<open>errors.NewAggregate\<close> of no error is nil.\<close>

definition aggregated :: "Host \<times> (error + error list) \<Rightarrow> (Host, unit) step" where
  "aggregated r =
     (case r of (h, Inl e) \<Rightarrow> (h, Inl e) | (h, Inr es) \<Rightarrow> (h, if es = [] then ok else Inl (Join es)))"

text \<open>The controller of the node labels goes on with a nil client, whose first use is the watch.\<close>

fun NodeLabel_Run ::
  "(KubeNode \<Rightarrow> Host \<Rightarrow> Host \<times> (error + error list)) \<Rightarrow> string \<Rightarrow> ('c, KubeNode) watchRound list \<Rightarrow> Host \<Rightarrow> Host \<times> runEnd"
where
  "NodeLabel_Run reconcile nodeName [] h = (h, Waiting)"
| "NodeLabel_Run reconcile nodeName (w # ws) h =
     (case WR_client w of
        Inl _ \<Rightarrow> (h, Panicked)
      | Inr _ \<Rightarrow> NodeLabel_Run reconcile nodeName ws
                   (fst (WatchNode (WR_watch w) nodeName (\<lambda>node h. aggregated (reconcile node h)) (WR_events w) h)))"

text \<open>Between two triggers the host changes by \<open>drift\<close>: files are edited and services restarted by others.\<close>

fun ServiceArgs_Run ::
  "(string \<Rightarrow> string \<Rightarrow> string res) \<Rightarrow> Snap \<Rightarrow> string list ptr \<Rightarrow> (Host \<Rightarrow> Host) list \<Rightarrow> Host \<Rightarrow> Host"
where
  "ServiceArgs_Run systemctl s services [] h = h"
| "ServiceArgs_Run systemctl s services (drift # triggers) h =
     ServiceArgs_Run systemctl s services triggers (fst (ServiceArgs_reconcile systemctl s services (drift h)))"

section \<open>The controllers of the application\<close>

record Config =
  Cfg_StateDir :: string
  Cfg_DisableNodeConfigController :: bool
  Cfg_NodeConfigControllerWatchDuration :: int
  Cfg_DisableNodeLabelController :: bool
  Cfg_DisableControlPlaneConfigController :: bool
  Cfg_DisableUpdateNodeConfigController :: bool
  Cfg_DisableFeatureController :: bool
  Cfg_DisableDNSRebalancerController :: bool
  Cfg_DisableCSRSigningController :: bool
  Cfg_DisableUpgradeController :: bool
  Cfg_FeatureControllerMaxRetryAttempts :: int
  Cfg_DisableServiceArgsController :: bool
  Cfg_ServiceArgsControllerCheckInterval :: int

record Coordinator =
  CO_upgradeDisable :: bool
  CO_csrSigningDisable :: bool
  CO_dnsRebalancerDisable :: bool

text \<open>
  A controller that was not created is \<open>None\<close>; else its argument: the duration of a watch, the interval of the checks and of
  the ticker, the bound on the attempts. The trigger channels are created in any case.
\<close>

record App =
  App_nodeConfigController :: "int ptr"
  App_nodeLabelController :: "unit ptr"
  App_controlPlaneConfigController :: "int ptr"
  App_serviceArgsController :: "int ptr"
  App_updateNodeConfigController :: "unit ptr"
  App_featureController :: "int ptr"
  App_controllerCoordinator :: Coordinator

definition App_New :: "unit res \<Rightarrow> unit res \<Rightarrow> Config \<Rightarrow> App res" where
  "App_New cluster localClient cfg =
     (case cluster of
        Inl e \<Rightarrow> Inl (Wrapf ''failed to create microcluster app: %w'' [] e)
      | Inr _ \<Rightarrow>
     (case localClient of
        Inl e \<Rightarrow> Inl (Wrapf ''failed to create microcluster local client: %w'' [] e)
      | Inr _ \<Rightarrow>
          Inr \<lparr>App_nodeConfigController =
                 (if \<not> Cfg_DisableNodeConfigController cfg then Some (max (Cfg_NodeConfigControllerWatchDuration cfg) (30 * Second)) else None),
               App_nodeLabelController = (if \<not> Cfg_DisableNodeLabelController cfg then Some () else None),
               App_controlPlaneConfigController = (if \<not> Cfg_DisableControlPlaneConfigController cfg then Some (10 * Second) else None),
               App_serviceArgsController =
                 (if \<not> Cfg_DisableServiceArgsController cfg then Some (max (Cfg_ServiceArgsControllerCheckInterval cfg) (30 * Second)) else None),
               App_updateNodeConfigController = (if \<not> Cfg_DisableUpdateNodeConfigController cfg then Some () else None),
               App_featureController =
                 (if \<not> Cfg_DisableFeatureController cfg then Some (Cfg_FeatureControllerMaxRetryAttempts cfg) else None),
               App_controllerCoordinator =
                 \<lparr>CO_upgradeDisable = Cfg_DisableUpgradeController cfg \<or> Cfg_DisableFeatureController cfg,
                  CO_csrSigningDisable = Cfg_DisableCSRSigningController cfg,
                  CO_dnsRebalancerDisable = Cfg_DisableDNSRebalancerController cfg\<rparr>\<rparr>))"

text \<open>The controllers that \<open>onStart\<close> starts before it triggers the features, in its order; the coordinator always exists.\<close>

abbreviation createdAs :: "string \<Rightarrow> 'a ptr \<Rightarrow> string list" where
  "createdAs name p \<equiv> (case p of None \<Rightarrow> [] | Some _ \<Rightarrow> [name])"

definition earlyControllers :: "App \<Rightarrow> string list" where
  "earlyControllers a =
     createdAs ''node-config'' (App_nodeConfigController a) @ createdAs ''node-label'' (App_nodeLabelController a) @
     createdAs ''control-plane-config'' (App_controlPlaneConfigController a) @
     createdAs ''update-node-config'' (App_updateNodeConfigController a) @ createdAs ''feature'' (App_featureController a) @
     [''coordinator'']"

section \<open>The coordinator\<close>

definition featureUpgradesDisabled :: "string \<Rightarrow> ClusterConfig \<Rightarrow> bool" where
  "featureUpgradesDisabled annotationKey clusterConfig = snd (Annotations_Get (CC_Annotations clusterConfig) annotationKey)"

text \<open>
  The manager is the list of the controllers that were set up with it. \<open>complete c\<close> is the answer of the builder of the
  controller runtime.
\<close>

definition setUp :: "(string \<Rightarrow> unit res) \<Rightarrow> string \<Rightarrow> string list \<Rightarrow> (string list, unit) step" where
  "setUp complete name mgr = (case complete name of Inl e \<Rightarrow> (mgr, Inl e) | Inr _ \<Rightarrow> (mgr @ [name], ok))"

definition setupUpgradeController ::
  "Coordinator \<Rightarrow> string \<Rightarrow> ClusterConfig res \<Rightarrow> (string \<Rightarrow> unit res) \<Rightarrow> string list \<Rightarrow> (string list, unit) step"
where
  "setupUpgradeController c annotationKey getConfig complete mgr =
     (if CO_upgradeDisable c then (mgr, ok)
      else
        tryStep (mgr, getConfig) ''failed to retrieve cluster configuration: %w'' [] (\<lambda>mgr clusterConfig.
        if featureUpgradesDisabled annotationKey clusterConfig then (mgr, ok)
        else tryStep (setUp complete ''upgrade'' mgr) ''failed to setup upgrade controller with manager: %w'' [] (\<lambda>mgr _. (mgr, ok))))"

definition setupCSRSigningController ::
  "Coordinator \<Rightarrow> (string \<Rightarrow> unit res) \<Rightarrow> string list \<Rightarrow> (string list, unit) step"
where
  "setupCSRSigningController c complete mgr =
     (if CO_csrSigningDisable c then (mgr, ok)
      else tryStep (setUp complete ''csrsigning'' mgr) ''failed to setup csrsigning controller with manager: %w'' [] (\<lambda>mgr _. (mgr, ok)))"

definition setupDNSRebalancerController ::
  "Coordinator \<Rightarrow> (string \<Rightarrow> unit res) \<Rightarrow> string list \<Rightarrow> (string list, unit) step"
where
  "setupDNSRebalancerController c complete mgr =
     (if CO_dnsRebalancerDisable c then (mgr, ok)
      else tryStep (setUp complete ''dnsrebalancer'' mgr) ''failed to setup DNS rebalancer controller with manager: %w'' [] (\<lambda>mgr _. (mgr, ok)))"

definition setupControllers ::
  "Coordinator \<Rightarrow> string \<Rightarrow> ClusterConfig res \<Rightarrow> (string \<Rightarrow> unit res) \<Rightarrow> string list \<Rightarrow> (string list, unit) step"
where
  "setupControllers c annotationKey getConfig complete mgr =
     tryStep (setupUpgradeController c annotationKey getConfig complete mgr) ''failed to setup upgrade controller: %w'' [] (\<lambda>mgr _.
     tryStep (setupCSRSigningController c complete mgr) ''failed to setup CSR signing controller: %w'' [] (\<lambda>mgr _.
     tryStep (setupDNSRebalancerController c complete mgr) ''failed to setup DNS rebalancer controller: %w'' [] (\<lambda>mgr _. (mgr, ok))))"

text \<open>
  \<open>CE_ready\<close> is the first of the two events that the coordinator waits for, the error when it is the end of the context;
  \<open>CE_start\<close> is what the manager returns when it ends. The result holds the manager that was started, if one was.
\<close>

record 'c coordinatorEnv =
  CE_ready :: "unit res"
  CE_ctxDone :: "nat \<Rightarrow> bool"
  CE_clients :: "'c kubeClients"
  CE_scheme :: "unit res"
  CE_manager :: "unit res"
  CE_start :: "unit res"
  CE_complete :: "string \<Rightarrow> unit res"
  CE_annotationKey :: string

definition Coordinator_Run ::
  "Coordinator \<Rightarrow> Snap \<Rightarrow> 'c coordinatorEnv \<Rightarrow> ClusterConfig res \<Rightarrow> Host \<Rightarrow> (string list ptr, unit) step option"
where
  "Coordinator_Run c s env getConfig h =
     (case IsWorker s h of
        Inl e \<Rightarrow> Some (None, Inl (Wrapf ''failed to determine if snap is running as worker: %w'' [] e))
      | Inr True \<Rightarrow> Some (None, ok)
      | Inr False \<Rightarrow>
     (case CE_ready env of
        Inl e \<Rightarrow> Some (None, Inl (Wrapf ''failed to wait for Microcluster to be ready: %w'' [] e))
      | Inr _ \<Rightarrow>
     (case getRESTConfig (CE_ctxDone env) (CE_clients env) of
        None \<Rightarrow> None
      | Some (Inl e) \<Rightarrow> Some (None, Inl (Wrapf ''failed to get Kubernetes REST config: %w'' [] e))
      | Some (Inr _) \<Rightarrow> Some
          (tryStep (None, CE_scheme env) ''failed to create scheme: %w'' [] (\<lambda>st _.
           tryStep (st, CE_manager env) ''failed to create manager: %w'' [] (\<lambda>st _.
           case setupControllers c (CE_annotationKey env) getConfig (CE_complete env) [] of
             (mgr, Inl e) \<Rightarrow> (st, Inl (Wrapf ''failed to setup controllers: %w'' [] e))
           | (mgr, Inr _) \<Rightarrow>
               tryStep (Some mgr, CE_start env) ''failed to start manager: %w'' [] (\<lambda>st _. (st, ok))))))))"

section \<open>Clients are found\<close>

lemma clientLoop_skip:
  "(\<forall>j \<in> {i..<i + n}. \<not> is_ok (client j) \<and> \<not> ctxDone j) \<Longrightarrow> clientLoop ctxDone client i = clientLoop ctxDone client (i + n)"
proof (induction n arbitrary: i)
  case (Suc n)
  have "\<not> is_ok (client i)" "\<not> ctxDone i" using Suc.prems by auto
  then have "clientLoop ctxDone client i = clientLoop ctxDone client (Suc i)"
    by (subst clientLoop.simps) (auto split: sum.split)
  also have "\<dots> = clientLoop ctxDone client (Suc i + n)" using Suc.prems by (intro Suc.IH) auto
  finally show ?case by simp
qed simp

lemma clientLoop_Some:
  "clientLoop ctxDone client i = Some r \<Longrightarrow> \<exists>j \<ge> i. (is_ok (client j) \<and> r = client j \<or> \<not> is_ok (client j) \<and> ctxDone j \<and> r = Inl ctxCanceled) \<and>
     (\<forall>m \<in> {i..<j}. \<not> is_ok (client m) \<and> \<not> ctxDone m)"
proof (rule clientLoop.raw_induct [of "\<lambda>ctxDone client i r. \<exists>j \<ge> i.
     (is_ok (client j) \<and> r = client j \<or> \<not> is_ok (client j) \<and> ctxDone j \<and> r = Inl ctxCanceled) \<and>
     (\<forall>m \<in> {i..<j}. \<not> is_ok (client m) \<and> \<not> ctxDone m)"], goal_cases)
  case (1 loop ctxDone client i r)
  show ?case
  proof (cases "is_ok (client i) \<or> ctxDone i")
    case True
    then show ?thesis using 1(3) by (intro exI [of _ i]) (cases "client i"; simp split: if_splits; drule sym; simp)
  next
    case False
    then have "loop ctxDone client (Suc i) = Some r" using 1(3) by (auto split: sum.splits)
    from 1(2) [OF this] obtain j where j: "j \<ge> Suc i"
      "is_ok (client j) \<and> r = client j \<or> \<not> is_ok (client j) \<and> ctxDone j \<and> r = Inl ctxCanceled"
      "\<forall>m \<in> {Suc i..<j}. \<not> is_ok (client m) \<and> \<not> ctxDone m" by blast
    have "\<forall>m \<in> {i..<j}. \<not> is_ok (client m) \<and> \<not> ctxDone m"
      using False j(3) by (metis Suc_leI atLeastLessThan_iff le_neq_implies_less)
    then show ?thesis using j(1,2) by (intro exI [of _ j]) auto
  qed
qed

lemma clientLoop_found:
  assumes "is_ok (client j) \<or> ctxDone j"
  shows "\<exists>r. clientLoop ctxDone client 0 = Some r"
proof -
  define n where "n = (LEAST j. is_ok (client j) \<or> ctxDone j)"
  have n: "is_ok (client n) \<or> ctxDone n" unfolding n_def using assms by (rule LeastI)
  have "\<forall>m \<in> {0..<0 + n}. \<not> is_ok (client m) \<and> \<not> ctxDone m"
    unfolding n_def using not_less_Least by fastforce
  from clientLoop_skip [OF this] have "clientLoop ctxDone client 0 = clientLoop ctxDone client n" by simp
  then show ?thesis using n by (subst (asm) (2) clientLoop.simps) (auto split: sum.splits)
qed

text \<open>
  The controllers ask for a client until they get one: the loop does not end only when every request fails and the context
  lives for ever, the client that is returned is that of the first request that succeeds, and an error is returned only
  when the context ended before any request succeeded.
\<close>

theorem client_of_first_success:
  fixes snap :: "'c kubeClients"
  defines "client \<equiv> \<lambda>admin. if admin then KC_admin snap else KC_node snap"
  shows "(getNewK8sClientWithRetries ctxDone snap admin = None \<longleftrightarrow> (\<forall>i. \<not> is_ok (client admin i) \<and> \<not> ctxDone i)) \<and>
    (\<forall>r. getNewK8sClientWithRetries ctxDone snap admin = Some r \<longrightarrow>
       (\<exists>i. (is_ok (client admin i) \<and> r = client admin i \<or> \<not> is_ok (client admin i) \<and> ctxDone i \<and> r = Inl ctxCanceled) \<and>
            (\<forall>j < i. \<not> is_ok (client admin j) \<and> \<not> ctxDone j)))"
proof -
  let ?c = "client admin"
  have e: "getNewK8sClientWithRetries ctxDone snap admin = clientLoop ctxDone ?c 0"
    by (simp add: getNewK8sClientWithRetries_def client_def)
  have none: "clientLoop ctxDone ?c 0 = None \<longleftrightarrow> (\<forall>i. \<not> is_ok (?c i) \<and> \<not> ctxDone i)"
  proof
    assume a: "clientLoop ctxDone ?c 0 = None"
    show "\<forall>i. \<not> is_ok (?c i) \<and> \<not> ctxDone i" using clientLoop_found [of ?c _ ctxDone] a by fastforce
  next
    assume a: "\<forall>i. \<not> is_ok (?c i) \<and> \<not> ctxDone i"
    show "clientLoop ctxDone ?c 0 = None" using clientLoop_Some [of ctxDone ?c 0] a by (cases "clientLoop ctxDone ?c 0") blast+
  qed
  show ?thesis unfolding e none using clientLoop_Some [of ctxDone ?c 0] by (auto simp: Ball_def)
qed

text \<open>The node client fails once and is there at the second request; the admin client never is.\<close>

theorem client_of_first_success_witness:
  fixes snap :: "nat kubeClients"
  defines "snap \<equiv> \<lparr>KC_admin = \<lambda>_. Inl ctxCanceled, KC_node = \<lambda>i. if i = 0 then Inl ctxCanceled else Inr i\<rparr>"
  shows "getNewK8sClientWithRetries (\<lambda>_. False) snap False = Some (Inr 1) \<and> getNewK8sClientWithRetries (\<lambda>_. False) snap True = None"
proof -
  have "getNewK8sClientWithRetries (\<lambda>_. False) snap False = Some (Inr 1)"
    unfolding getNewK8sClientWithRetries_def snap_def by (subst clientLoop.simps, subst clientLoop.simps) simp
  moreover have "getNewK8sClientWithRetries (\<lambda>_. False) snap True = None"
    using client_of_first_success [of "\<lambda>_. False" snap True] by (simp add: snap_def)
  ultimately show ?thesis by simp
qed

section \<open>Watches deliver in order\<close>

text \<open>The objects that a watch hands over: those of the events up to the first that ends it.\<close>

fun continues :: "watchEnv \<Rightarrow> 'm watchEvent \<Rightarrow> bool" where
  "continues env (ObjectEvent _) = True"
| "continues env (ErrorEvent status _) = W_expired env status"
| "continues env _ = False"

fun eventObjects :: "'m watchEvent list \<Rightarrow> 'm list" where
  "eventObjects [] = []"
| "eventObjects (ObjectEvent m # evts) = m # eventObjects evts"
| "eventObjects (_ # evts) = eventObjects evts"

definition reconcileAll :: "('m \<Rightarrow> 's \<Rightarrow> ('s, unit) step) \<Rightarrow> 'm list \<Rightarrow> 's \<Rightarrow> 's" where
  "reconcileAll reconcile ms s = foldl (\<lambda>s m. fst (reconcile m s)) s ms"

lemma watchConfigMapLoop_all:
  "\<forall>j. is_ok (W_watch env (Suc j) []) \<Longrightarrow>
    fst (watchConfigMapLoop env ns nm reconcile i evts s) = reconcileAll reconcile (eventObjects (takeWhile (continues env) evts)) s \<and>
    (snd (watchConfigMapLoop env ns nm reconcile i evts s) = None \<longleftrightarrow> (\<forall>e \<in> set evts. continues env e))"
proof (induction env ns nm reconcile i evts s rule: watchConfigMapLoop.induct)
  case (4 env ns nm reconcile i status obj evts s)
  show ?case
  proof (cases "W_expired env status")
    case True
    moreover obtain u where "W_watch env (Suc i) [] = Inr u"
      using "4.prems" by (cases "W_watch env (Suc i) []") (metis is_ok_simps(2), blast)
    ultimately show ?thesis using "4.IH" [OF True] "4.prems" by simp
  qed (simp add: reconcileAll_def)
qed (simp_all add: reconcileAll_def)



section \<open>Loops of the controllers\<close>

text \<open>
  The node label controller panics exactly when it could not get a client, which happens only when the daemon stops.
\<close>

theorem node_label_panics_iff:
  "snd (NodeLabel_Run reconcile nodeName ws h) = Panicked \<longleftrightarrow> (\<exists>w \<in> set ws. \<not> is_ok (WR_client w))"
  by (induction reconcile nodeName ws h rule: NodeLabel_Run.induct) (auto split: sum.splits)

text \<open>The data that the controller publishes for a configuration.\<close>

definition nodeConfigData :: "'sk crypto \<Rightarrow> ('sk, 'pk) nodeCrypto \<Rightarrow> ClusterConfig \<Rightarrow> string gomap res" where
  "nodeConfigData y x config =
     (let keyPEM = getStr (Certificates_K8sdPrivateKey (CC_Certificates config)) in
      case LoadRSAPrivateKey y keyPEM of
        Inl e \<Rightarrow> if keyPEM \<noteq> [] then Inl e else ClusterConfigToConfigMap x config None
      | Inr key \<Rightarrow> ClusterConfigToConfigMap x config (Some key))"

lemma publish_through:
  "publishConfigMap x (applyThrough (Some c) put) config key (k, False) =
     (case publishConfigMap x put config key k of (k', r) \<Rightarrow> ((k', False), r))"
  by (cases "ClusterConfigToConfigMap x config key")
    (auto simp: publishConfigMap_def UpdateConfigMap_def applyThrough_def tryStep_def split: prod.splits sum.splits)

lemma publish_nil:
  "fst (publishConfigMap x (applyThrough None put) config key (k, False)) = (k, is_ok (ClusterConfigToConfigMap x config key))"
  by (cases "ClusterConfigToConfigMap x config key")
    (simp_all add: publishConfigMap_def UpdateConfigMap_def applyThrough_def)

lemma reconcile_through:
  "UpdateNodeConfiguration_reconcile y x (applyThrough (Some c) put) config (k, False) =
     (case UpdateNodeConfiguration_reconcile y x put config k of (k', r) \<Rightarrow> ((k', False), r))"
  unfolding UpdateNodeConfiguration_reconcile_def Let_def publish_through by (simp split: sum.split)

lemma reconcile_nil:
  "fst (UpdateNodeConfiguration_reconcile y x (applyThrough None put) config (k, False)) = (k, is_ok (nodeConfigData y x config))"
  by (simp add: UpdateNodeConfiguration_reconcile_def nodeConfigData_def Let_def publish_nil split: sum.split)

abbreviation publishes :: "'sk crypto \<Rightarrow> ('sk, 'pk) nodeCrypto \<Rightarrow> 'c updateTrigger \<Rightarrow> bool" where
  "publishes y x t \<equiv> (case UT_config t of Inl _ \<Rightarrow> False | Inr config \<Rightarrow> is_ok (nodeConfigData y x config))"

lemma UpdateNodeConfiguration_Run_step:
  fixes t :: "'c updateTrigger"
  assumes "IsWorker s (UT_host t) = Inr False"
  shows "UpdateNodeConfiguration_Run y x put s (t # ts) k =
    (if \<not> is_ok (UT_client t) \<and> publishes y x t then (k, Panicked)
     else UpdateNodeConfiguration_Run y x put s ts
       (if is_ok (UT_client t) then reconcileAll (UpdateNodeConfiguration_reconcile y x put) (case UT_config t of Inl _ \<Rightarrow> [] | Inr c \<Rightarrow> [c]) k else k))"
proof (cases "UT_config t")
  case (Inr config)
  show ?thesis
  proof (cases "UT_client t")
    case (Inl e)
    obtain k' p r where u: "UpdateNodeConfiguration_reconcile y x (applyThrough (None :: 'c ptr) put) config (k, False) = ((k', p), r)"
      by (metis prod.exhaust)
    have "fst (UpdateNodeConfiguration_reconcile y x (applyThrough (None :: 'c ptr) put) config (k, False)) = (k, is_ok (nodeConfigData y x config))"
      by (rule reconcile_nil)
    then show ?thesis using u assms Inl \<open>UT_config t = _\<close> by (cases p) simp_all
  next
    case (Inr c)
    then show ?thesis using assms \<open>UT_config t = _\<close>
      by (simp add: reconcile_through reconcileAll_def split: prod.split)
  qed
qed (simp add: assms reconcileAll_def)

text \<open>
  C35: The controller that publishes the node configuration: on a control plane node, with a client at every trigger, it applies
  what the database holds at each trigger, in order, and goes on waiting after failures. It panics exactly when a
  configuration that can be published meets a nil client, which \<open>getNewK8sClientWithRetries\<close> returns when the daemon stops.
\<close>

theorem update_node_config_run:
  assumes "\<forall>t \<in> set ts. IsWorker s (UT_host t) = Inr False"
  shows "(snd (UpdateNodeConfiguration_Run y x put s ts k) = Panicked \<longleftrightarrow> (\<exists>t \<in> set ts. \<not> is_ok (UT_client t) \<and> publishes y x t)) \<and>
    ((\<forall>t \<in> set ts. is_ok (UT_client t)) \<longrightarrow> UpdateNodeConfiguration_Run y x put s ts k =
       (reconcileAll (UpdateNodeConfiguration_reconcile y x put) (concat (map (\<lambda>t. case UT_config t of Inl _ \<Rightarrow> [] | Inr c \<Rightarrow> [c]) ts)) k, Waiting))"
  using assms
proof (induction ts arbitrary: k)
  case (Cons t ts)
  then have w: "IsWorker s (UT_host t) = Inr False" by simp
  show ?case unfolding UpdateNodeConfiguration_Run_step [OF w]
    using Cons by (simp add: reconcileAll_def)
qed (simp add: reconcileAll_def)

section \<open>What the coordinator runs\<close>

definition coordinated :: "Config \<Rightarrow> bool \<Rightarrow> string list" where
  "coordinated cfg upgradesDisabled =
     (if Cfg_DisableUpgradeController cfg \<or> Cfg_DisableFeatureController cfg \<or> upgradesDisabled then [] else [''upgrade'']) @
     (if Cfg_DisableCSRSigningController cfg then [] else [''csrsigning'']) @
     (if Cfg_DisableDNSRebalancerController cfg then [] else [''dnsrebalancer''])"

lemma setupControllers_ok:
  assumes "CO_upgradeDisable c \<longleftrightarrow> Cfg_DisableUpgradeController cfg \<or> Cfg_DisableFeatureController cfg"
    "CO_csrSigningDisable c \<longleftrightarrow> Cfg_DisableCSRSigningController cfg" "CO_dnsRebalancerDisable c \<longleftrightarrow> Cfg_DisableDNSRebalancerController cfg"
  shows "setupControllers c key (Inr config) complete [] = (mgr, Inr u) \<longleftrightarrow>
    mgr = coordinated cfg (featureUpgradesDisabled key config) \<and> (\<forall>name \<in> set mgr. is_ok (complete name))"
proof (cases "CO_upgradeDisable c \<or> featureUpgradesDisabled key config")
  case True
  then have "setupUpgradeController c key (Inr config) complete [] = ([], ok)" by (auto simp: setupUpgradeController_def)
  then show ?thesis using assms True
    by (cases "complete ''csrsigning''"; cases "complete ''dnsrebalancer''")
      (auto simp: setupControllers_def setupCSRSigningController_def setupDNSRebalancerController_def setUp_def coordinated_def)
next
  case False
  then show ?thesis using assms
    by (cases "complete ''upgrade''"; cases "complete ''csrsigning''"; cases "complete ''dnsrebalancer''")
      (auto simp: setupControllers_def setupUpgradeController_def setupCSRSigningController_def setupDNSRebalancerController_def setUp_def
        coordinated_def)
qed

text \<open>
  The controllers that the cluster runs behind the leader election. A manager is started only on a control plane node that was
  marked ready, and it holds exactly the controllers that the flags of the daemon leave enabled, in order, each set
  up; the upgrade controller needs the feature controller, and the annotation that disables feature upgrades keeps it out. When
  the Kubernetes client, the scheme, the manager and the set-up of these controllers succeed, the manager is started.
\<close>

theorem coordinator_controllers:
  assumes a: "App_New cluster localClient cfg = Inr app"
  shows "(\<exists>r. Coordinator_Run (App_controllerCoordinator app) s env (Inr config) h = Some (Some mgr, r)) \<longleftrightarrow>
    IsWorker s h = Inr False \<and> is_ok (CE_ready env) \<and> (\<exists>c. getRESTConfig (CE_ctxDone env) (CE_clients env) = Some (Inr c)) \<and>
    is_ok (CE_scheme env) \<and> is_ok (CE_manager env) \<and>
    mgr = coordinated cfg (featureUpgradesDisabled (CE_annotationKey env) config) \<and> (\<forall>name \<in> set mgr. is_ok (CE_complete env name))"
    (is "?run \<longleftrightarrow> ?can")
proof -
  let ?c = "App_controllerCoordinator app"
  have c: "CO_upgradeDisable ?c \<longleftrightarrow> Cfg_DisableUpgradeController cfg \<or> Cfg_DisableFeatureController cfg"
    "CO_csrSigningDisable ?c \<longleftrightarrow> Cfg_DisableCSRSigningController cfg" "CO_dnsRebalancerDisable ?c \<longleftrightarrow> Cfg_DisableDNSRebalancerController cfg"
    using a by (auto simp: App_New_def split: sum.splits)
  obtain m r where m: "setupControllers ?c (CE_annotationKey env) (Inr config) (CE_complete env) [] = (m, r)" by fastforce
  note set_up = setupControllers_ok [OF c, of "CE_annotationKey env" config "CE_complete env"]
  show ?thesis
  proof (cases "getRESTConfig (CE_ctxDone env) (CE_clients env)")
    case None
    then show ?thesis by (auto simp: Coordinator_Run_def split: sum.split bool.split)
  next
    case (Some g)
    then show ?thesis using m set_up [of m "()"] set_up [of mgr "()"]
      by (cases "IsWorker s h"; cases "CE_ready env"; cases g; cases "CE_scheme env"; cases "CE_manager env"; cases r; cases "CE_start env")
        (auto simp: Coordinator_Run_def split: bool.splits)
  qed
qed

text \<open>With all flags at their defaults and no annotation, the three controllers are set up.\<close>

definition defaultConfig :: Config where
  "defaultConfig =
     \<lparr>Cfg_StateDir = [], Cfg_DisableNodeConfigController = False, Cfg_NodeConfigControllerWatchDuration = 600 * Second,
      Cfg_DisableNodeLabelController = False, Cfg_DisableControlPlaneConfigController = False, Cfg_DisableUpdateNodeConfigController = False,
      Cfg_DisableFeatureController = False, Cfg_DisableDNSRebalancerController = False, Cfg_DisableCSRSigningController = False,
      Cfg_DisableUpgradeController = False, Cfg_FeatureControllerMaxRetryAttempts = 0, Cfg_DisableServiceArgsController = False,
      Cfg_ServiceArgsControllerCheckInterval = 60 * Second\<rparr>"

definition readyEnv :: "unit coordinatorEnv" where
  "readyEnv = \<lparr>CE_ready = ok, CE_ctxDone = \<lambda>_. False, CE_clients = \<lparr>KC_admin = \<lambda>_. ok, KC_node = \<lambda>_. ok\<rparr>, CE_scheme = ok, CE_manager = ok,
     CE_start = ok, CE_complete = \<lambda>_. ok, CE_annotationKey = ''disable-upgrades''\<rparr>"

theorem coordinator_controllers_witness:
  "\<exists>app. App_New ok ok defaultConfig = Inr app \<and>
     (\<exists>r. Coordinator_Run (App_controllerCoordinator app) sampleSnap readyEnv (Inr emptyClusterConfig) emptyHost =
        Some (Some [''upgrade'', ''csrsigning'', ''dnsrebalancer''], r))"
proof -
  obtain app where app: "App_New ok ok defaultConfig = Inr app" by (simp add: App_New_def)
  have "IsWorker sampleSnap emptyHost = Inr False" by code_simp
  moreover have "getRESTConfig (CE_ctxDone readyEnv) (CE_clients readyEnv) = Some (Inr ())"
    unfolding getRESTConfig_def by (subst clientLoop.simps) (simp add: readyEnv_def)
  moreover have "coordinated defaultConfig (featureUpgradesDisabled (CE_annotationKey readyEnv) emptyClusterConfig) =
      [''upgrade'', ''csrsigning'', ''dnsrebalancer'']"
    by (simp add: coordinated_def defaultConfig_def featureUpgradesDisabled_def Annotations_Get_def emptyClusterConfig_def)
  ultimately show ?thesis
    using app coordinator_controllers [OF app, of sampleSnap readyEnv emptyClusterConfig emptyHost "[''upgrade'', ''csrsigning'', ''dnsrebalancer'']"]
    by (simp add: readyEnv_def)
qed

text \<open>Two triggers: the client is there for the first, and not for the second, whose configuration can be published.\<close>

theorem update_node_config_run_witness:
  "snd (UpdateNodeConfiguration_Run sampleCrypto sampleNodeCrypto (\<lambda>_ _ _ k. (Suc k, ok)) sampleSnap
     [\<lparr>UT_host = emptyHost, UT_config = Inr emptyClusterConfig, UT_client = ok\<rparr>,
      \<lparr>UT_host = emptyHost, UT_config = Inr emptyClusterConfig, UT_client = Inl ctxCanceled\<rparr>] 0) = Panicked"
proof -
  let ?ts = "[\<lparr>UT_host = emptyHost, UT_config = Inr emptyClusterConfig, UT_client = ok\<rparr>,
      \<lparr>UT_host = emptyHost, UT_config = Inr emptyClusterConfig, UT_client = Inl ctxCanceled\<rparr>]"
  have worker: "\<forall>t \<in> set ?ts. IsWorker sampleSnap (UT_host t) = Inr False" by code_simp
  have "is_ok (nodeConfigData sampleCrypto sampleNodeCrypto emptyClusterConfig)" by code_simp
  then show ?thesis
    using update_node_config_run [OF worker, of sampleCrypto sampleNodeCrypto "\<lambda>_ _ _ k. (Suc k, ok)" 0] by simp
qed

end
