(* ===== verification/Lifecycle.thy ===== *)
theory Lifecycle
  imports Handlers Loops
begin

text \<open>
  The start of the daemon on a node that is part of a cluster: \<open>onStart\<close> (\<open>pkg/k8sd/app/hooks_start.go\<close>), the wait until the node
  is ready (\<open>markNodeReady\<close> of \<open>app.go\<close>), the hook that runs then (\<open>hooks_node_ready.go\<close>) with the work that follows a snap
  refresh (\<open>hooks_post_refresh.go\<close>), the controllers that the coordinator registers (\<open>pkg/k8sd/controllers/coordinator.go\<close>), and
  the watch on the config map of the nodes (\<open>pkg/client/kubernetes/configmap.go\<close>).

  The controllers wait for \<open>readyWg\<close>; the field \<open>Y_ready\<close> says that it was released. A goroutine that was started is
  recorded in \<open>Y_started\<close>. The custom resource definitions live in a store of type \<open>'c\<close> behind the calls of \<open>crdOps\<close>.
\<close>

section \<open>Custom resource definitions\<close>

record CRD =
  CRD_Name :: string
  CRD_ResourceVersion :: string
  CRD_Spec :: string

record 'c crdOps =
  crdClient :: "unit res"
  crdDecode :: "string \<Rightarrow> string res"
  crdMarshalJSON :: "string \<Rightarrow> string res"
  crdUnmarshal :: "string \<Rightarrow> CRD res"
  crdGet :: "string \<Rightarrow> 'c \<Rightarrow> ('c, CRD) step"
  crdUpdate :: "CRD \<Rightarrow> 'c \<Rightarrow> ('c, unit) step"
  crdCreate :: "CRD \<Rightarrow> 'c \<Rightarrow> ('c, unit) step"

text \<open>The YAML document is decoded to an untyped object, which is converted through JSON.\<close>

definition convertUnstructuredToCRD :: "'c crdOps \<Rightarrow> string \<Rightarrow> CRD res" where
  "convertUnstructuredToCRD ops obj =
     (case crdMarshalJSON ops obj of
        Inl e \<Rightarrow> Inl (Wrapf ''failed to marshal unstructured object: %w'' [] e)
      | Inr crdBytes \<Rightarrow>
          (case crdUnmarshal ops crdBytes of
             Inl e \<Rightarrow> Inl (Wrapf ''failed to unmarshal to CRD: %w'' [] e)
           | Inr crd \<Rightarrow> Inr crd))"

definition CRDExists :: "'c crdOps \<Rightarrow> string \<Rightarrow> 'c \<Rightarrow> ('c, bool) step" where
  "CRDExists ops crdName c =
     tryStep (c, crdClient ops) ''failed to create API extensions client: %w'' [] (\<lambda>c _.
     case crdGet ops crdName c of
       (c, Inr _) \<Rightarrow> (c, Inr True)
     | (c, Inl e) \<Rightarrow> if IsNotFound e then (c, Inr False) else (c, Inl (Wrapf ''failed to check CRD existence: %w'' [] e)))"

text \<open>An existing definition is updated at its resource version, a missing one created; another error ends the call.\<close>

definition putCRD :: "'c crdOps \<Rightarrow> CRD \<Rightarrow> 'c \<Rightarrow> ('c, unit) step" where
  "putCRD ops crd c =
     (case crdGet ops (CRD_Name crd) c of
        (c, Inr existing) \<Rightarrow> crdUpdate ops (crd\<lparr>CRD_ResourceVersion := CRD_ResourceVersion existing\<rparr>) c
      | (c, Inl e) \<Rightarrow> if IsNotFound e then crdCreate ops crd c else (c, Inl e))"

fun ApplyCRDs :: "'c crdOps \<Rightarrow> nat \<Rightarrow> string list \<Rightarrow> 'c \<Rightarrow> ('c, unit) step" where
  "ApplyCRDs ops checks [] c = (c, ok)"
| "ApplyCRDs ops checks (yamlFile # files) c =
     tryStep (c, crdClient ops) ''failed to create API extensions client: %w'' [] (\<lambda>c _.
     tryStep (c, crdDecode ops yamlFile) ''failed to decode YAML: %w'' [] (\<lambda>c obj.
     tryStep (c, convertUnstructuredToCRD ops obj) ''failed to convert to CRD: %w'' [] (\<lambda>c crd.
     tryStep (putCRD ops crd c) ''failed to apply CRD: %w'' [] (\<lambda>c _.
     tryStep (WaitUntilReady checks (CRDExists ops (CRD_Name crd)) c) ''failed to wait for CRD to be ready: %w'' [] (\<lambda>c _.
     ApplyCRDs ops checks files c)))))"

section \<open>The node\<close>

record 'c LifeState =
  Y_world :: World
  Y_kube :: Kube
  Y_crds :: 'c
  Y_ready :: bool
  Y_started :: "string list"

record ('c, 'v) lifeEnv =
  LE_versions :: "'v versionOps"
  LE_revision :: "string res"
  LE_kubernetesVersion :: "'v res"
  LE_statusReady :: "bool res"
  LE_initialized :: "bool res"
  LE_disableSeparateFeatureUpgrades :: string
  LE_crds :: "'c crdOps"
  LE_crdYamls :: "string list"
  LE_checks :: nat
  LE_steps :: nat
  LE_databaseOpen :: "nat \<Rightarrow> bool"
  LE_nodeClient :: "Kube \<Rightarrow> (Kube, unit) step"
  LE_listSlices :: "Kube \<Rightarrow> (Kube, EndpointSlice list ptr) step"
  LE_k8sdClient :: "unit res"
  LE_app :: App

definition onLifeWorld :: "(World \<Rightarrow> (World, 'a) step) \<Rightarrow> 'c LifeState \<Rightarrow> ('c LifeState, 'a) step" where
  "onLifeWorld f st = (case f (Y_world st) of (w, r) \<Rightarrow> (st\<lparr>Y_world := w\<rparr>, r))"

definition onLifeKube :: "(Kube \<Rightarrow> (Kube, 'a) step) \<Rightarrow> 'c LifeState \<Rightarrow> ('c LifeState, 'a) step" where
  "onLifeKube f st = (case f (Y_kube st) of (k, r) \<Rightarrow> (st\<lparr>Y_kube := k\<rparr>, r))"

definition onLifeCRDs :: "('c \<Rightarrow> ('c, 'a) step) \<Rightarrow> 'c LifeState \<Rightarrow> ('c LifeState, 'a) step" where
  "onLifeCRDs f st = (case f (Y_crds st) of (c, r) \<Rightarrow> (st\<lparr>Y_crds := c\<rparr>, r))"

abbreviation lifeHost :: "'c LifeState \<Rightarrow> Host" where
  "lifeHost st \<equiv> M_host (A_machine (Y_world st))"

section \<open>After a refresh\<close>

definition kubeletNodeIPs :: "IP list \<Rightarrow> string list" where
  "kubeletNodeIPs nodeIPs = map IPString (filter (\<lambda>ip. \<not> IsLoopback ip) nodeIPs)"

definition updateNodeIPAddresses :: "'key hookEnv \<Rightarrow> World \<Rightarrow> (World, unit) step" where
  "updateNodeIPAddresses env w =
     (case ParseIP (X_hostname env) of
        None \<Rightarrow> (w, Inl (Errorf ''failed to parse node IP address %s'' [X_hostname env]))
      | Some nodeIP \<Rightarrow>
          tryStep (w, GetIPv46Addresses (X_interfaces env) nodeIP) ''failed to get local node IPs for kubelet: %w'' [] (\<lambda>w nodeIPs.
          let ips = kubeletNodeIPs nodeIPs in
          if ips \<noteq> [] then
            tryStep (onNode (UpdateServiceArguments (X_snap env) ''kubelet'' [(''--node-ip'', joinWith (CHR '','') ips)] []) w)
              ''failed to render arguments file: %w'' [] (\<lambda>w mustRestartKubelet.
            if mustRestartKubelet then
              tryStep (onNode (RetryFor (X_ctxDone env) 5 (\<lambda>h.
                  tryStep (RestartServices h [''kubelet''] []) ''failed to restart kubelet to apply node ip addresses: %w'' [] (\<lambda>h _. (h, ok)))) w)
                ''failed after retry: %w'' [] (\<lambda>w _. (w, ok))
            else (w, ok))
          else (w, ok)))"

definition postRefreshHook :: "'key hookEnv \<Rightarrow> ('c, 'v) lifeEnv \<Rightarrow> 'c LifeState \<Rightarrow> ('c LifeState, unit) step" where
  "postRefreshHook env le st =
     tryStep (onLifeWorld (updateNodeIPAddresses env) st) ''failed to update node IP addresses: %w'' [] (\<lambda>st _.
     tryStep (st, IsWorker (X_snap env) (lifeHost st)) ''failed to check if node is a worker: %w'' [] (\<lambda>st isWorker.
     if isWorker then (st, ok)
     else
       tryStep (st, util_GetClusterConfig (X_json env) (A_db (Y_world st))) ''failed to get cluster config: %w'' [] (\<lambda>st config.
       tryStep (onLifeWorld (onNode (SetSnapdFromK8sd (X_snapd env) (ToUserFacing config))) st)
         ''failed to set snapd configuration from k8sd: %w'' [] (\<lambda>st _.
       tryStep (st, LE_statusReady le) ''failed to get boostrap status: %w'' [] (\<lambda>st ready.
       if \<not> featureUpgradesDisabled (LE_disableSeparateFeatureUpgrades le) config \<and> ready then
         tryStep (onLifeKube (performPostUpgrade (LE_versions le) (X_ctxDone env) (X_kubernetesClient env) (LE_revision le)
             (LE_kubernetesVersion le) (X_name env)) st)
           ''failed to perform post-upgrade: %w'' [] (\<lambda>st _. (st, ok))
       else (st, ok))))))"

section \<open>Readiness\<close>

definition applyCustomCRDs :: "'key hookEnv \<Rightarrow> ('c, 'v) lifeEnv \<Rightarrow> 'c LifeState \<Rightarrow> ('c LifeState, unit) step" where
  "applyCustomCRDs env le st =
     tryStep (st, IsWorker (X_snap env) (lifeHost st)) ''failed to check if node is a worker: %w'' [] (\<lambda>st isWorker.
     if isWorker then (st, ok)
     else
       tryStep (st, X_kubernetesClient env) ''failed to create kubernetes client: %w'' [] (\<lambda>st _.
       tryStep (onLifeCRDs (ApplyCRDs (LE_crds le) (LE_checks le) (LE_crdYamls le)) st) ''failed to apply custom CRDs: %w'' []
         (\<lambda>st _. (st, ok))))"

text \<open>An error of the definitions is logged only.\<close>

definition onNodeReady :: "'key hookEnv \<Rightarrow> ('c, 'v) lifeEnv \<Rightarrow> 'c LifeState \<Rightarrow> ('c LifeState, unit) step" where
  "onNodeReady env le st =
     (let st = fst (applyCustomCRDs env le st); lock = PostRefreshLockPath (X_snap env) in
      tryStep (st, FileExists (lifeHost st) lock) ''failed to check if snap is post-refresh: %w'' [] (\<lambda>st isPostRefresh.
      if isPostRefresh then
        tryStep (postRefreshHook env le st) ''failed to run post-refresh hook: %w'' [] (\<lambda>st _.
        let st = st\<lparr>Y_world := NotifyUpdateNodeConfigController (Y_world st)\<rparr> in
        tryStep (onLifeWorld (onNode (\<lambda>h. osRemove h lock)) st) ''failed to remove post-refresh lock file: %w'' [] (\<lambda>st _. (st, ok)))
      else (st, ok)))"

definition databaseCheck :: "('c, 'v) lifeEnv \<Rightarrow> nat \<Rightarrow> (nat, bool) step" where
  "databaseCheck le i = (Suc i, Inr (LE_databaseOpen le i))"

definition endpointCheck :: "('c, 'v) lifeEnv \<Rightarrow> Kube \<Rightarrow> (Kube, bool) step" where
  "endpointCheck le k =
     (case LE_nodeClient le k of
        (k, Inl _) \<Rightarrow> (k, Inr False)
      | (k, Inr _) \<Rightarrow> (case GetKubeAPIServerEndpoints (LE_steps le) (LE_listSlices le) k of (k, r) \<Rightarrow> (k, Inr (is_ok r))))"

definition markNodeReady :: "'key hookEnv \<Rightarrow> ('c, 'v) lifeEnv \<Rightarrow> 'c LifeState \<Rightarrow> ('c LifeState, unit) step" where
  "markNodeReady env le st =
     tryStep (st, snd (WaitUntilReady (LE_checks le) (databaseCheck le) 0)) ''failed to wait for database to be open: %w'' [] (\<lambda>st _.
     tryStep (onLifeKube (WaitUntilReady (LE_checks le) (endpointCheck le)) st) ''failed to wait for kubernetes endpoint: %w'' [] (\<lambda>st _.
     tryStep (onNodeReady env le st) ''failed to execute onNodeReady hook: %w'' [] (\<lambda>st _.
     (st\<lparr>Y_ready := True\<rparr>, ok))))"

section \<open>Start\<close>

text \<open>The services may be restarted by a controller at the same time, so the start is tried five times.\<close>

definition ensureRunningServices :: "'key hookEnv \<Rightarrow> ('c, 'v) lifeEnv \<Rightarrow> World \<Rightarrow> (World, unit) step" where
  "ensureRunningServices env le w =
     tryStep (w, LE_k8sdClient le) ''failed to create a k8sd client: %w'' [] (\<lambda>w _.
     tryStep (w, LE_initialized le) ''failed to check the current node status: %w'' [] (\<lambda>w initialized.
     if \<not> initialized then (w, ok)
     else
       tryStep (w, IsWorker (X_snap env) (M_host (A_machine w))) ''failed to determine if the node is a worker: %w'' [] (\<lambda>w isWorker.
       tryStep (w, util_GetClusterConfig (X_json env) (A_db w)) ''failed to get cluster config: %w'' [] (\<lambda>w cfg.
       if isWorker then
         tryStep (onNode (RetryFor (X_ctxDone env) 5 (\<lambda>h. StartWorkerServices h (GetKubeProxyEnabled (CC_Network cfg)) [])) w)
           ''failed to start worker services after retry: %w'' [] (\<lambda>w _. (w, ok))
       else
         tryStep (onNode (RetryFor (X_ctxDone env) 5 (startControlPlaneServices cfg)) w)
           ''failed to start control-plane services: %w'' [] (\<lambda>w _. (w, ok))))))"

text \<open>
  What the controllers are given: the type of the datastore for the node labels, the address of the DNS service to record, the
  status of a feature to store, at the time of the call.
\<close>

definition getDatastoreType :: "json \<Rightarrow> DB \<Rightarrow> string res" where
  "getDatastoreType j db =
     (case util_GetClusterConfig j db of
        Inl e \<Rightarrow> Inl (Wrapf ''failed to retrieve cluster config: %w'' [] e)
      | Inr cfg \<Rightarrow>
          (case Datastore_Type (CC_Datastore cfg) of
             None \<Rightarrow> Inl (Errorf ''datastore type is not set in cluster config'' [])
           | Some t \<Rightarrow> Inr t))"

definition recordDNSIP :: "extern \<Rightarrow> json \<Rightarrow> string \<Rightarrow> World \<Rightarrow> (World, unit) step" where
  "recordDNSIP ext j dnsIP w =
     tryStep (onStore (Transaction (\<lambda>db.
         tryStep (SetClusterConfig ext j (emptyClusterConfig\<lparr>CC_Kubelet := emptyKubelet\<lparr>Kubelet_ClusterDNS := Some dnsIP\<rparr>\<rparr>) db)
           ''failed to update cluster configuration for dns=%s: %w'' [dnsIP] (\<lambda>db _. (db, ok)))) w)
       ''database transaction to update cluster configuration failed: %w'' [] (\<lambda>w _.
     (NotifyUpdateNodeConfigController w, ok))"

definition storeFeatureStatus :: "('t \<Rightarrow> string) \<Rightarrow> 't \<Rightarrow> string \<Rightarrow> 't FeatureStatus \<Rightarrow> World \<Rightarrow> (World, unit) step" where
  "storeFeatureStatus fmtTime now name featureStatus w =
     tryStep (onStore (Transaction (\<lambda>db.
         tryStep (SetFeatureStatus fmtTime name (featureStatus\<lparr>FS_UpdatedAt := now\<rparr>) db)
           ''failed to set feature status in db for %q: %w'' [name] (\<lambda>db _. (db, ok)))) w)
       ''database transaction to set feature status failed: %w'' [] (\<lambda>w _. (w, ok))"

text \<open>
  \<open>onStart\<close> up to its return: the controllers are those that \<open>New\<close> created; the service arguments controller is started after
  the features were triggered, the others before. An error of the system tuning is logged only.
\<close>

definition onStart :: "'key hookEnv \<Rightarrow> ('c, 'v) lifeEnv \<Rightarrow> 'c LifeState \<Rightarrow> ('c LifeState, unit) step" where
  "onStart env le st =
     tryStep (onLifeWorld (ensureRunningServices env le) st) ''failed to ensure running services: %w'' [] (\<lambda>st _.
     let st = st\<lparr>Y_started := Y_started st @ [''mark-node-ready'']\<rparr>;
         st = (if \<not> Strict (X_confinement env) (X_snap env) (lifeHost st)
               then fst (onLifeWorld (onNode (tuneSystemSettings (X_readDir env))) st) else st);
         st = st\<lparr>Y_started := Y_started st @ earlyControllers (LE_app le)\<rparr>;
         st = st\<lparr>Y_world := NotifyFeatureController True True True True True True True (Y_world st)\<rparr>;
         st = st\<lparr>Y_started := Y_started st @ createdAs ''service-args'' (App_serviceArgsController (LE_app le))\<rparr>
     in (st, ok))"

section \<open>Frames\<close>

abbreviation lockKept :: "string \<Rightarrow> 'c LifeState \<Rightarrow> 'c LifeState \<Rightarrow> bool" where
  "lockKept p st0 st \<equiv> Y_ready st = Y_ready st0 \<and> H_files (lifeHost st) p = H_files (lifeHost st0) p"

lemma onNode_host: "M_host (A_machine (fst (onNode f w))) = fst (f (M_host (A_machine w)))"
  by (simp add: onMachine_def onFiles_def split: prod.split)

lemma onNode_db [simp]: "A_db (fst (onNode f w)) = A_db w"
  by (simp add: onMachine_def split: prod.split)

lemma onLife_frame [simp]:
  "Y_world (fst (onLifeWorld f st)) = fst (f (Y_world st))" "Y_kube (fst (onLifeWorld f st)) = Y_kube st"
  "Y_ready (fst (onLifeWorld f st)) = Y_ready st" "Y_world (fst (onLifeKube g st)) = Y_world st" "Y_ready (fst (onLifeKube g st)) = Y_ready st"
  "Y_kube (fst (onLifeKube g st)) = fst (g (Y_kube st))"
  "Y_world (fst (onLifeCRDs c st)) = Y_world st" "Y_ready (fst (onLifeCRDs c st)) = Y_ready st" "Y_kube (fst (onLifeCRDs c st)) = Y_kube st"
  by (simp_all add: onLifeWorld_def onLifeKube_def onLifeCRDs_def split: prod.split)

lemma RetryFor_invariant:
  assumes "\<And>s. I s \<Longrightarrow> I (fst (f s))" "I s"
  shows "I (fst (RetryFor cd n f s))"
proof -
  obtain s' r where r: "retryLoop cd 0 n f ok s = (s', r)" by fastforce
  show ?thesis using retryLoop_invariant [OF assms r] by (simp add: RetryFor_def r)
qed

lemma restartKubelet_keeps:
  "H_files (fst (RetryFor cd n (\<lambda>h. tryStep (RestartServices h [svc] []) m a (\<lambda>h _. (h, ok))) h)) = H_files h \<and>
   Host.H_fault (fst (RetryFor cd n (\<lambda>h. tryStep (RestartServices h [svc] []) m a (\<lambda>h _. (h, ok))) h)) = Host.H_fault h"
proof (rule RetryFor_invariant [where I = "\<lambda>x. H_files x = H_files h \<and> Host.H_fault x = Host.H_fault h"])
  fix x :: Host assume "H_files x = H_files h \<and> Host.H_fault x = Host.H_fault h"
  then show "H_files (fst (tryStep (RestartServices x [svc] []) m a (\<lambda>h _. (h, ok)))) = H_files h \<and>
      Host.H_fault (fst (tryStep (RestartServices x [svc] []) m a (\<lambda>h _. (h, ok)))) = Host.H_fault h"
    by (intro tryStep_keeps [where P = "\<lambda>x. H_files x = H_files h \<and> Host.H_fault x = Host.H_fault h"]) (simp_all add: RestartServices_cmds)
qed simp

text \<open>The node addresses change the arguments of the kubelet and no other file.\<close>

lemma updateNodeIPAddresses_files:
  assumes "p \<noteq> argumentsFileForService (X_snap env) ''kubelet''"
  shows "H_files (M_host (A_machine (fst (updateNodeIPAddresses env w)))) p = H_files (M_host (A_machine w)) p \<and>
    Host.H_fault (M_host (A_machine (fst (updateNodeIPAddresses env w)))) = Host.H_fault (M_host (A_machine w)) \<and>
    A_db (fst (updateNodeIPAddresses env w)) = A_db w"
proof (cases "ParseIP (X_hostname env)")
  case (Some ip)
  let ?P = "\<lambda>x. H_files (M_host (A_machine x)) p = H_files (M_host (A_machine w)) p \<and>
    Host.H_fault (M_host (A_machine x)) = Host.H_fault (M_host (A_machine w)) \<and> A_db x = A_db w"
  have args: "?P (fst (onNode (UpdateServiceArguments (X_snap env) ''kubelet'' um []) w))" for um
    using UpdateServiceArguments_frame(4) [OF prod.collapse [symmetric] assms] UpdateServiceArguments_frame(2) [OF prod.collapse [symmetric]]
    by (simp add: onNode_host)
  show ?thesis unfolding updateNodeIPAddresses_def Some option.case
    by (rule tryStep_keeps [where P = ?P]; simp add: Let_def; rule impI; rule tryStep_keeps [where P = ?P]; simp add: args;
        rule impI; rule tryStep_keeps [where P = ?P]; simp add: onNode_host restartKubelet_keeps)
qed (simp add: updateNodeIPAddresses_def)

lemma SetSnapdFromK8sd_files: "H_files (fst (SetSnapdFromK8sd io c h)) = H_files h"
  by (auto simp: SetSnapdFromK8sd_def SnapctlSet_def tryStep_def split: sum.split prod.split) (metis fst_conv runCommand_files)+

lemma postRefreshHook_keeps:
  assumes "p \<noteq> argumentsFileForService (X_snap env) ''kubelet''"
  shows "lockKept p st (fst (postRefreshHook env le st))"
proof -
  have ips: "lockKept p st (fst (onLifeWorld (updateNodeIPAddresses env) st))"
    using updateNodeIPAddresses_files [OF assms] by simp
  have snapd: "lockKept p s0 (fst (onLifeWorld (onNode (SetSnapdFromK8sd io c)) s0))" for s0 :: "'b LifeState" and io c
    by (simp add: onNode_host SetSnapdFromK8sd_files)
  let ?P = "\<lambda>s. lockKept p st s"
  show ?thesis unfolding postRefreshHook_def
  proof (rule tryStep_keeps [where P = ?P], rule ips, goal_cases)
    case (1 s x)
    show ?case
    proof (rule tryStep_keeps [where P = ?P], goal_cases)
      case (2 s y)
      show ?case
      proof (cases y)
        case False
        show ?thesis unfolding if_False if_not_P [OF False]
        proof (rule tryStep_keeps [where P = ?P], goal_cases)
          case (2 s config)
          show ?case
            by (rule tryStep_keeps [where P = ?P], use 2 snapd in simp, rule tryStep_keeps [where P = ?P], simp, simp split: if_split,
                rule impI, rule tryStep_keeps [where P = ?P]) simp_all
        qed (use 2 in simp)
      qed (use 2 in simp)
    qed (use 1 in simp)
  qed
qed

lemma applyCustomCRDs_keeps:
  "Y_world (fst (applyCustomCRDs env le st)) = Y_world st \<and> Y_ready (fst (applyCustomCRDs env le st)) = Y_ready st \<and>
   Y_kube (fst (applyCustomCRDs env le st)) = Y_kube st"
  unfolding applyCustomCRDs_def
  by (cases "IsWorker (X_snap env) (lifeHost st)"; cases "X_kubernetesClient env"; simp split: if_split; intro conjI impI;
      rule tryStep_keeps; simp)

lemma NotifyUpdate_frame [simp]:
  "A_machine (NotifyUpdateNodeConfigController w) = A_machine w" "A_signals (NotifyUpdateNodeConfigController w) ''update-node-config''"
  by (simp_all add: NotifyUpdateNodeConfigController_def notify_def MaybeNotify_def)

text \<open>The lock file decides, and goes away only at the end.\<close>

lemma onNodeReady_lock:
  fixes env :: "'key hookEnv"
  assumes r: "onNodeReady env le st = (st', r)"
    and fault: "Host.H_fault (lifeHost st) OpStat (PostRefreshLockPath (X_snap env)) = None"
    and apart: "PostRefreshLockPath (X_snap env) \<noteq> argumentsFileForService (X_snap env) ''kubelet''"
  shows "Y_ready st' = Y_ready st \<and>
    (if r = ok then H_files (lifeHost st') (PostRefreshLockPath (X_snap env)) = None \<and>
        (H_files (lifeHost st) (PostRefreshLockPath (X_snap env)) \<noteq> None \<longrightarrow> A_signals (Y_world st') ''update-node-config'')
     else H_files (lifeHost st') (PostRefreshLockPath (X_snap env)) = H_files (lifeHost st) (PostRefreshLockPath (X_snap env)))"
proof -
  let ?lock = "PostRefreshLockPath (X_snap env)"
  define s1 where "s1 = fst (applyCustomCRDs env le st)"
  have s1: "Y_world s1 = Y_world st" "Y_ready s1 = Y_ready st" using applyCustomCRDs_keeps by (auto simp: s1_def)
  have exists: "FileExists (lifeHost st) ?lock = Inr (H_files (lifeHost st) ?lock \<noteq> None)"
    using fault by (simp add: FileExists_def osStat_def)
  show ?thesis
  proof (cases "H_files (lifeHost st) ?lock = None")
    case True
    then show ?thesis using r s1 exists by (auto simp: onNodeReady_def Let_def s1_def [symmetric])
  next
    case held: False
    obtain s2 q where h: "postRefreshHook env le s1 = (s2, q)" by fastforce
    then have s2: "lockKept ?lock s1 s2" using postRefreshHook_keeps [OF apart, of le s1] by simp
    show ?thesis
    proof (cases q)
      case (Inl e)
      then show ?thesis using r s1 s2 exists held h by (auto simp: onNodeReady_def Let_def s1_def [symmetric])
    next
      case (Inr u)
      let ?s3 = "s2\<lparr>Y_world := NotifyUpdateNodeConfigController (Y_world s2)\<rparr>"
      obtain h3 x where o: "osRemove (lifeHost s2) ?lock = (h3, x)" by fastforce
      then show ?thesis using r s1 s2 exists held h Inr
        by (cases x) (auto simp: onNodeReady_def Let_def s1_def [symmetric] onLifeWorld_def onMachine_def onFiles_def osRemove_def setFile_def
            split: option.splits if_splits)
    qed
  qed
qed

section \<open>Properties\<close>


text \<open>The requests of the endpoint check leave the upgrades of the cluster alone.\<close>

definition readOnly :: "('c, 'v) lifeEnv \<Rightarrow> bool" where
  "readOnly le \<longleftrightarrow>
     (\<forall>k. K_upgrades (fst (LE_nodeClient le k)) = K_upgrades k \<and> (quiet k \<longrightarrow> quiet (fst (LE_nodeClient le k)))) \<and>
     (\<forall>k. K_upgrades (fst (LE_listSlices le k)) = K_upgrades k \<and> (quiet k \<longrightarrow> quiet (fst (LE_listSlices le k))))"

lemma endpoint_wait_upgrades:
  assumes ro: "readOnly le" and q: "quiet k"
  shows "K_upgrades (fst (WaitUntilReady n (endpointCheck le) k)) = K_upgrades k \<and> quiet (fst (WaitUntilReady n (endpointCheck le) k))"
proof (rule WaitUntilReady_invariant [where I = "\<lambda>x. K_upgrades x = K_upgrades k \<and> quiet x"])
  fix x assume i: "K_upgrades x = K_upgrades k \<and> quiet x"
  obtain x1 c where c: "LE_nodeClient le x = (x1, c)" by fastforce
  have x1: "K_upgrades x1 = K_upgrades k \<and> quiet x1" using ro i c unfolding readOnly_def by (metis fst_conv)
  obtain x2 r where e: "GetKubeAPIServerEndpoints (LE_steps le) (LE_listSlices le) x1 = (x2, r)" by fastforce
  have "K_upgrades x2 = K_upgrades k \<and> quiet x2"
    using GetKubeAPIServerEndpoints_invariant [of "\<lambda>x. K_upgrades x = K_upgrades k \<and> quiet x" "LE_listSlices le" x1 "LE_steps le"] ro x1 e
    by (simp add: readOnly_def)
  with x1 show "K_upgrades (fst (endpointCheck le x)) = K_upgrades k \<and> quiet (fst (endpointCheck le x))"
    by (cases c) (simp_all add: endpointCheck_def c e)
qed (simp add: q)

lemma performPostUpgrade_taken:
  assumes "quiet k" "filter inProgress (K_upgrades k) = []" "X_kubernetesClient env = ok"
    "LE_revision le = Inr rv" "LE_kubernetesVersion le = Inr v"
    "findUpgrade (GetName (LE_versions le) \<lparr>Revision = rv, KubernetesVersion = Some v\<rparr>) k \<noteq> None"
  shows "\<exists>e. snd (performPostUpgrade (LE_versions le) cd (X_kubernetesClient env) (LE_revision le) (LE_kubernetesVersion le) n k) = Inl e"
  using performPostUpgrade_name_taken [OF assms(1,2,6), of cd n] assms(3-5) by (auto simp: Let_def split: prod.splits)

text \<open>The state in which the hook of a refreshed control plane node comes to the upgrade of this revision.\<close>

definition revisionSeen :: "'key hookEnv \<Rightarrow> ('c, 'v) lifeEnv \<Rightarrow> 'c LifeState \<Rightarrow> bool" where
  "revisionSeen env le st \<longleftrightarrow>
     IsWorker (X_snap env) (lifeHost st) = Inr False \<and> X_kubernetesClient env = ok \<and> LE_statusReady le = Inr True \<and>
     (\<exists>config. util_GetClusterConfig (X_json env) (A_db (Y_world st)) = Inr config \<and>
        \<not> featureUpgradesDisabled (LE_disableSeparateFeatureUpgrades le) config) \<and>
     quiet (Y_kube st) \<and> filter inProgress (K_upgrades (Y_kube st)) = [] \<and>
     (\<exists>rv v. LE_revision le = Inr rv \<and> LE_kubernetesVersion le = Inr v \<and>
        findUpgrade (GetName (LE_versions le) \<lparr>Revision = rv, KubernetesVersion = Some v\<rparr>) (Y_kube st) \<noteq> None)"

lemma postRefreshHook_seen:
  assumes seen: "revisionSeen env le st"
    and apart: "workerLock (X_snap env) \<noteq> argumentsFileForService (X_snap env) ''kubelet''"
  shows "snd (postRefreshHook env le st) \<noteq> ok"
proof -
  obtain config where config: "util_GetClusterConfig (X_json env) (A_db (Y_world st)) = Inr config"
    "\<not> featureUpgradesDisabled (LE_disableSeparateFeatureUpgrades le) config" using seen by (auto simp: revisionSeen_def)
  obtain s1 x where i: "onLifeWorld (updateNodeIPAddresses env) st = (s1, x)" by fastforce
  have w1: "Y_world s1 = fst (updateNodeIPAddresses env (Y_world st))" "Y_kube s1 = Y_kube st"
    using onLife_frame(1,2) [of "updateNodeIPAddresses env" st] by (simp_all add: i)
  have s1: "Y_kube s1 = Y_kube st" "A_db (Y_world s1) = A_db (Y_world st)"
    "IsWorker (X_snap env) (lifeHost s1) = IsWorker (X_snap env) (lifeHost st)"
    unfolding w1 IsWorker_def FileExists_def osStat_def by (simp_all only: updateNodeIPAddresses_files [OF apart, THEN conjunct1]
      updateNodeIPAddresses_files [OF apart, THEN conjunct2])
  obtain s2 y where p: "onLifeWorld (onNode (SetSnapdFromK8sd (X_snapd env) (ToUserFacing config))) s1 = (s2, y)" by fastforce
  have s2: "Y_kube s2 = Y_kube st" using onLife_frame(2) [of "onNode (SetSnapdFromK8sd (X_snapd env) (ToUserFacing config))" s1] s1 by (simp add: p)
  let ?run = "performPostUpgrade (LE_versions le) (X_ctxDone env) (X_kubernetesClient env) (LE_revision le) (LE_kubernetesVersion le) (X_name env)"
  have "\<exists>e. snd (onLifeKube ?run s2) = Inl e"
  proof -
    obtain rv v where "LE_revision le = Inr rv" "LE_kubernetesVersion le = Inr v"
      "findUpgrade (GetName (LE_versions le) \<lparr>Revision = rv, KubernetesVersion = Some v\<rparr>) (Y_kube st) \<noteq> None"
      "quiet (Y_kube st)" "filter inProgress (K_upgrades (Y_kube st)) = []" "X_kubernetesClient env = ok"
      using seen unfolding revisionSeen_def by (elim conjE exE)
    note performPostUpgrade_taken [OF this(4,5,6,1,2,3), of "X_ctxDone env" "X_name env"]
    then show ?thesis by (simp add: onLifeKube_def s2 case_prod_beta)
  qed
  then obtain s3 e where u: "onLifeKube ?run s2 = (s3, Inl e)" by (metis prod.collapse)
  have ready: "LE_statusReady le = Inr True" "IsWorker (X_snap env) (lifeHost st) = Inr False" using seen by (simp_all add: revisionSeen_def)
  show ?thesis
    by (cases x; cases y) (simp_all add: postRefreshHook_def i s1 config p ready u)
qed

text \<open>
  A snap refresh to a revision that the cluster has been upgraded to before (for instance after a revert) keeps the daemon of a
  control plane node from ever getting ready: the upgrade object of the revision still exists, the hook cannot create it, and so
  \<open>markNodeReady\<close> fails, the controllers stay blocked and the lock file stays, with which the next start comes
  to the same point.
\<close>

theorem seen_revision_blocks_node:
  fixes env :: "'key hookEnv"
  assumes r: "markNodeReady env le st = (st', r)" and seen: "revisionSeen env le st" and ro: "readOnly le"
    and lock: "FileExists (lifeHost st) (PostRefreshLockPath (X_snap env)) = Inr True"
    and apart: "argumentsFileForService (X_snap env) ''kubelet'' \<notin> {workerLock (X_snap env), PostRefreshLockPath (X_snap env)}"
  shows "r \<noteq> ok \<and> Y_ready st' = Y_ready st \<and>
    H_files (lifeHost st') (PostRefreshLockPath (X_snap env)) = H_files (lifeHost st) (PostRefreshLockPath (X_snap env))"
proof -
  let ?lock = "PostRefreshLockPath (X_snap env)"
  obtain s1 q where w: "onLifeKube (WaitUntilReady (LE_checks le) (endpointCheck le)) st = (s1, q)" by fastforce
  define s2 where "s2 = fst (applyCustomCRDs env le s1)"
  have quiet: "quiet (Y_kube st)" using seen by (simp add: revisionSeen_def)
  have k1: "K_upgrades (Y_kube s1) = K_upgrades (Y_kube st) \<and> quiet (Y_kube s1)"
    using endpoint_wait_upgrades [OF ro quiet, of "LE_checks le"]
      onLife_frame(6) [of "WaitUntilReady (LE_checks le) (endpointCheck le)" st] by (simp add: w)
  have w1: "Y_world s1 = Y_world st" "Y_ready s1 = Y_ready st"
    using onLife_frame(4,5) [of "WaitUntilReady (LE_checks le) (endpointCheck le)" st] by (simp_all add: w)
  have s2: "Y_world s2 = Y_world st" "Y_ready s2 = Y_ready st" "Y_kube s2 = Y_kube s1"
    using applyCustomCRDs_keeps [of env le s1] w1 by (simp_all add: s2_def)
  have "revisionSeen env le s2" using seen k1 by (auto simp: revisionSeen_def s2 findUpgrade_def)
  then have fails: "snd (postRefreshHook env le s2) \<noteq> ok" by (rule postRefreshHook_seen) (use apart in auto)
  obtain s3 y where h: "postRefreshHook env le s2 = (s3, y)" by fastforce
  then obtain e where y: "y = Inl e" using fails by (cases y) auto
  have s3: "lockKept ?lock s2 s3" using postRefreshHook_keeps [of ?lock env le s2] apart h by auto
  have n: "onNodeReady env le s1 = (s3, Inl (Wrapf ''failed to run post-refresh hook: %w'' [] e))"
    using lock by (simp add: onNodeReady_def Let_def s2_def [symmetric] s2 h y)
  show ?thesis using r s2 s3 w1
    by (cases "snd (WaitUntilReady (LE_checks le) (databaseCheck le) 0)"; cases q) (auto simp: markNodeReady_def w n)
qed

text \<open>
  The address of the DNS service is recorded once. The callback of the feature controller either changes nothing, or stores
  the address, from where the node configuration takes it, and asks for the node configuration to be published.
  While the DNS feature is enabled, an address that differs from the recorded one is refused.
\<close>

theorem dns_ip_recorded_once:
  assumes r: "recordDNSIP ext j dnsIP w = (w', r)"
    and codec: "\<forall>c s. jsonMarshal j c = Inr s \<longrightarrow> jsonUnmarshal j s = Inr c"
  shows "(r \<noteq> ok \<longrightarrow> w' = w) \<and>
    (r = ok \<longrightarrow> A_signals w' ''update-node-config'' \<and>
       (\<exists>old new. GetClusterConfig j (A_db w) = Inr old \<and> GetClusterConfig j (A_db w') = Inr new \<and>
          Kubelet_ClusterDNS (CC_Kubelet new) = Some dnsIP \<and>
          (getBool (DNS_Enabled (CC_DNS old)) \<longrightarrow> Kubelet_ClusterDNS (CC_Kubelet old) \<in> {None, Some dnsIP})))"
proof -
  let ?new = "emptyClusterConfig\<lparr>CC_Kubelet := emptyKubelet\<lparr>Kubelet_ClusterDNS := Some dnsIP\<rparr>\<rparr>"
  obtain db' q where q: "SetClusterConfig ext j ?new (A_db w) = (db', q)" by fastforce
  show ?thesis
  proof (cases q)
    case (Inl e)
    then show ?thesis using r q by (auto simp: recordDNSIP_def onStore_def Transaction_def)
  next
    case (Inr c)
    then have w': "w' = NotifyUpdateNodeConfigController (w\<lparr>A_db := db'\<rparr>)" "r = ok"
      using r q by (auto simp: recordDNSIP_def onStore_def Transaction_def)
    obtain old s where old: "GetClusterConfig j (A_db w) = Inr old" "MergeClusterConfig ext old ?new = Inr c" "jsonMarshal j c = Inr s"
      using q Inr by (auto simp: SetClusterConfig_ok_iff)
    have stored: "GetClusterConfig j db' = Inr c"
      using GetClusterConfig_after_set [OF q [unfolded Inr]] codec old(3) by (simp add: jsonOK_def)
    have "c = overrideConfig old ?new" using old(2) by (simp add: MergeClusterConfig_char)
    then have dns: "Kubelet_ClusterDNS (CC_Kubelet c) = Some dnsIP" by (simp add: override_defs)
    have kept: "getBool (DNS_Enabled (CC_DNS old)) \<longrightarrow> keptIfSet (Kubelet_ClusterDNS (CC_Kubelet old)) (Kubelet_ClusterDNS (CC_Kubelet c))"
      using MergeClusterConfig_guarded_fields [OF old(2), THEN conjunct1]
      by (simp add: boolFieldRemainedEnabled_def emptyClusterConfig_def emptyDNS_def)
    show ?thesis using w' old(1) stored dns kept by (auto simp: NotifyUpdateNodeConfigController_def notify_def MaybeNotify_def)
  qed
qed

section \<open>Sample runs\<close>

definition sampleCRDs :: "unit crdOps" where
  "sampleCRDs = \<lparr>crdClient = ok, crdDecode = Inr, crdMarshalJSON = Inr,
     crdUnmarshal = (\<lambda>b. Inr \<lparr>CRD_Name = b, CRD_ResourceVersion = [], CRD_Spec = []\<rparr>), crdGet = (\<lambda>n c. (c, Inl ErrNotFound)),
     crdUpdate = (\<lambda>_ c. (c, ok)), crdCreate = (\<lambda>_ c. (c, ok))\<rparr>"

definition sampleLife :: "(unit, string) lifeEnv" where
  "sampleLife = \<lparr>LE_versions = stringVersions, LE_revision = Inr ''7'', LE_kubernetesVersion = Inr ''1.34'', LE_statusReady = Inr True,
     LE_initialized = Inr True, LE_disableSeparateFeatureUpgrades = ''disable-upgrades'', LE_crds = sampleCRDs, LE_crdYamls = [],
     LE_checks = Suc 0, LE_steps = Suc 0, LE_databaseOpen = (\<lambda>_. True), LE_nodeClient = (\<lambda>k. (k, ok)),
     LE_listSlices = (\<lambda>k. (k, Inr (Some [sampleSlice]))), LE_k8sdClient = ok,
     LE_app = \<lparr>App_nodeConfigController = None, App_nodeLabelController = None, App_controlPlaneConfigController = None,
       App_serviceArgsController = None, App_updateNodeConfigController = None, App_featureController = None,
       App_controllerCoordinator = \<lparr>CO_upgradeDisable = True, CO_csrSigningDisable = True, CO_dnsRebalancerDisable = True\<rparr>\<rparr>\<rparr>"

definition sampleLifeState :: "unit LifeState" where
  "sampleLifeState = \<lparr>Y_world = sampleWorld, Y_kube = sampleKube UpgradePhaseCompleted, Y_crds = (), Y_ready = False, Y_started = []\<rparr>"

lemma sample_locks:
  "PostRefreshLockPath sampleSnap = ''/var/snap/k8s/common/lock/post-refresh''" "workerLock sampleSnap = ''/var/snap/k8s/common/lock/worker''"
  "argumentsFileForService sampleSnap ''kubelet'' = ''/var/snap/k8s/common/args/kubelet''"
  by (simp_all add: PostRefreshLockPath_def workerLock_def LockFilesDir_def argumentsFileForService_def ServiceArgumentsDir_def sampleSnap_def
      NewSnap_def path_eval)

lemma sample_host:
  "H_files (lifeHost sampleLifeState) p = (if p = ''/snap/k8s/current/bin/cni'' then Some (newNode emptyHost ''elf'' perm700) else None)"
  "Host.H_fault (lifeHost sampleLifeState) = (\<lambda>_ _. None)"
  by (simp_all add: sampleLifeState_def sampleWorld_def sampleMachine_def setFile_def emptyHost_def)


text \<open>After a refresh to revision 7, to which the cluster was upgraded before.\<close>

theorem seen_revision_blocks_node_witness:
  "let st = sampleLifeState\<lparr>Y_world := sampleWorld\<lparr>A_machine := sampleMachine\<lparr>M_host :=
       setFile ''/var/snap/k8s/common/lock/post-refresh'' (Some (newNode emptyHost [] perm700)) emptyHost\<rparr>\<rparr>\<rparr> in
   snd (markNodeReady (sampleHook ''10.0.0.1'') sampleLife st) \<noteq> ok"
proof -
  let ?env = "sampleHook ''10.0.0.1''"
  let ?st = "sampleLifeState\<lparr>Y_world := sampleWorld\<lparr>A_machine := sampleMachine\<lparr>M_host :=
       setFile ''/var/snap/k8s/common/lock/post-refresh'' (Some (newNode emptyHost [] perm700)) emptyHost\<rparr>\<rparr>\<rparr>"
  have snap: "X_snap ?env = sampleSnap" "X_kubernetesClient ?env = ok" by (simp_all add: sampleHook_def)
  have config: "util_GetClusterConfig (X_json ?env) (A_db (Y_world ?st)) = Inr sampleConfig"
    by (simp add: util_GetClusterConfig_def GetClusterConfig_def sampleHook_def sampleWorld_def sampleDB_def dbStmt_def)
  have "\<not> featureUpgradesDisabled ''disable-upgrades'' sampleConfig" by code_simp
  then have seen: "revisionSeen ?env sampleLife ?st"
    using config by (simp add: revisionSeen_def snap IsWorker_def sample_locks FileExists_def osStat_def setFile_def emptyHost_def sampleLife_def
        sampleLifeState_def upgrade_eval)
  obtain st' r where m: "markNodeReady ?env sampleLife ?st = (st', r)" by fastforce
  have "r \<noteq> ok"
    by (rule seen_revision_blocks_node [OF m seen, THEN conjunct1])
      (simp_all add: readOnly_def sampleLife_def snap sample_locks FileExists_def osStat_def setFile_def emptyHost_def)
  then show ?thesis by (simp add: m Let_def)
qed

end
