(* ===== verification/Status.thy ===== *)
theory Status
  imports Handlers
begin

text \<open>
  What the API reports and replaces on a running node: the status and the expiry of certificates (\<open>certificates_status.go\<close>,
  \<open>capi_certificates_expiry.go\<close>), the update of external certificates (\<open>certificates_update.go\<close>), the status of the node and of the
  cluster (\<open>node.go\<close>, \<open>cluster.go\<close>, \<open>impl/k8sd.go\<close>), all of \<open>pkg/k8sd/api\<close>.

  Times stay numbers of seconds; the API prints them in the format of RFC 3339. \<open>issuer\<close> is the common name of the issuer of a
  parsed certificate.
\<close>

section \<open>Status of certificates\<close>

record CertificateStatus =
  Cs_Name :: string
  Cs_Expires :: int
  Cs_CertificateAuthority :: string
  Cs_ExternallyManaged :: bool

record CertificateAuthorityStatus =
  Ca_Name :: string
  Ca_Expires :: int
  Ca_ExternallyManaged :: bool

definition controlPlaneCertificateNames :: "string list" where
  "controlPlaneCertificateNames = [''apiserver'', ''apiserver-kubelet-client'', ''front-proxy-client'', ''kubelet'']"

definition controlPlaneKubeconfigs :: "string list" where
  "controlPlaneKubeconfigs = [''admin.conf'', ''controller.conf'', ''kubelet.conf'', ''proxy.conf'', ''scheduler.conf'']"

definition dataStoreCertificateNames :: "string list" where "dataStoreCertificateNames = [''client'']"
definition workerCertificateNames :: "string list" where "workerCertificateNames = [''kubelet'']"
definition workerKubeconfigs :: "string list" where "workerKubeconfigs = [''kubelet.conf'', ''proxy.conf'']"

definition certificateStatus :: "(Certificate \<Rightarrow> string) \<Rightarrow> string \<Rightarrow> Certificate \<Rightarrow> CertificateStatus" where
  "certificateStatus issuer name cert =
     \<lparr>Cs_Name = name, Cs_Expires = NotAfter cert, Cs_CertificateAuthority = issuer cert, Cs_ExternallyManaged = False\<rparr>"

fun readKubeconfigCertificates ::
  "'key crypto \<Rightarrow> (Certificate \<Rightarrow> string) \<Rightarrow> kubeconfigIO \<Rightarrow> string \<Rightarrow> Host \<Rightarrow> string list \<Rightarrow> CertificateStatus list res"
where
  "readKubeconfigCertificates x issuer io kubeconfigDir h [] = Inr []"
| "readKubeconfigCertificates x issuer io kubeconfigDir h (config # configs) =
     (case LoadFromFile io h (pathJoin kubeconfigDir config) of
        Inl e \<Rightarrow> Inl (Wrapf ''failed to load kubeconfig %s: %w'' [config] e)
      | Inr kubeConfig \<Rightarrow>
     (case map_of (AuthInfos kubeConfig) ''k8s-user'' of
        None \<Rightarrow> Inl (Errorf ''user 'k8s-user' not found in kubeconfig %s'' [config])
      | Some authInfo \<Rightarrow>
     (case ClientCertificateData authInfo of
        None \<Rightarrow> Inl (Errorf ''no client certificate data found in kubeconfig %s'' [config])
      | Some data \<Rightarrow>
     (case LoadCertificate x data [] of
        Inl e \<Rightarrow> Inl (Wrapf ''failed to load certificate data from kubeconfig %s: %w'' [config] e)
      | Inr (cert, _) \<Rightarrow>
     (case readKubeconfigCertificates x issuer io kubeconfigDir h configs of
        Inl e \<Rightarrow> Inl e
      | Inr certificates \<Rightarrow> Inr (certificateStatus issuer config cert # certificates))))))"

fun loadAuthorities :: "'key crypto \<Rightarrow> (string \<times> string \<times> string) list \<Rightarrow> CertificateAuthorityStatus list res" where
  "loadAuthorities x [] = Inr []"
| "loadAuthorities x ((certPEM, keyPEM, name) # rest) =
     (case LoadCertificate x certPEM keyPEM of
        Inl e \<Rightarrow> Inl (Wrapf ''failed to load %s: %w'' [name] e)
      | Inr (cert, key) \<Rightarrow>
          (case loadAuthorities x rest of
             Inl e \<Rightarrow> Inl e
           | Inr cas \<Rightarrow>
               Inr (\<lparr>Ca_Name = CommonName (Subject cert), Ca_Expires = NotAfter cert, Ca_ExternallyManaged = (key = None)\<rparr> # cas)))"

definition readCertificateAuthorities :: "'key crypto \<Rightarrow> ClusterConfig \<Rightarrow> CertificateAuthorityStatus list res" where
  "readCertificateAuthorities x clusterConfig =
     (let c = CC_Certificates clusterConfig in
      loadAuthorities x
        [(getStr (Certificates_CACert c), getStr (Certificates_CAKey c), ''CA''),
         (getStr (Certificates_ClientCACert c), getStr (Certificates_ClientCAKey c), ''Client CA''),
         (getStr (Certificates_FrontProxyCACert c), getStr (Certificates_FrontProxyCAKey c), ''Front Proxy CA'')])"

fun loadCertificateStatusesFromDir ::
  "'key crypto \<Rightarrow> (Certificate \<Rightarrow> string) \<Rightarrow> string \<Rightarrow> Host \<Rightarrow> string list \<Rightarrow> CertificateStatus list res"
where
  "loadCertificateStatusesFromDir x issuer baseDir h [] = Inr []"
| "loadCertificateStatusesFromDir x issuer baseDir h (certName # certNames) =
     (case LoadCertificatePairFromDir x h baseDir certName of
        Inl e \<Rightarrow> Inl (Wrapf ''failed to extract information from certificate %s: %w'' [certName] e)
      | Inr (cert, _) \<Rightarrow>
          (case loadCertificateStatusesFromDir x issuer baseDir h certNames of
             Inl e \<Rightarrow> Inl e
           | Inr certs \<Rightarrow> Inr (certificateStatus issuer certName cert # certs)))"

text \<open>The first authority with the name of the issuer decides.\<close>

definition updateExternallyManaged ::
  "CertificateAuthorityStatus list \<Rightarrow> CertificateStatus list \<Rightarrow> CertificateStatus list"
where
  "updateExternallyManaged authorities certificates =
     map (\<lambda>cert. case find (\<lambda>a. Ca_Name a = Cs_CertificateAuthority cert) authorities of
                   None \<Rightarrow> cert
                 | Some a \<Rightarrow> cert\<lparr>Cs_ExternallyManaged := Ca_ExternallyManaged a\<rparr>) certificates"

record CertificatesStatusResponse =
  Sr_Certificates :: "CertificateStatus list"
  Sr_Authorities :: "CertificateAuthorityStatus list"

definition getCertsStatusControlPlane ::
  "'key crypto \<Rightarrow> (Certificate \<Rightarrow> string) \<Rightarrow> kubeconfigIO \<Rightarrow> json \<Rightarrow> DB \<Rightarrow> Host \<Rightarrow> CertificatesStatusResponse response"
where
  "getCertsStatusControlPlane x issuer io j db h =
     snd (orFail 500 ''failed to retrieve cluster configuration: %w'' [] ((), util_GetClusterConfig j db) (\<lambda>_ clusterConfig.
     orFail 500 ''failed to read certificates authorities: %w'' [] ((), readCertificateAuthorities x clusterConfig) (\<lambda>_ authorities.
     orFail 500 ''failed to read node certificates: %w'' []
       ((), loadCertificateStatusesFromDir x issuer snapKubernetesPKIDir h controlPlaneCertificateNames) (\<lambda>_ nodeCerts.
     orFail 500 ''failed to read kubeconfig certificates: %w'' []
       ((), readKubeconfigCertificates x issuer io KubernetesConfigDir h controlPlaneKubeconfigs) (\<lambda>_ kubeConfigCerts.
     orFail 500 ''failed to read datastore certificates: %w'' []
       ((), if getStr (Datastore_Type (CC_Datastore clusterConfig)) = ''external''
            then loadCertificateStatusesFromDir x issuer snapEtcdPKIDir h dataStoreCertificateNames else Inr []) (\<lambda>_ dataStoreCerts.
       ((), SyncResponse \<lparr>Sr_Certificates = updateExternallyManaged authorities (nodeCerts @ kubeConfigCerts @ dataStoreCerts),
              Sr_Authorities = authorities\<rparr>)))))))"

definition getCertsStatusWorker ::
  "'key crypto \<Rightarrow> (Certificate \<Rightarrow> string) \<Rightarrow> kubeconfigIO \<Rightarrow> Host \<Rightarrow> CertificatesStatusResponse response"
where
  "getCertsStatusWorker x issuer io h =
     snd (orFail 500 ''failed to read node certificates: %w'' []
       ((), loadCertificateStatusesFromDir x issuer snapKubernetesPKIDir h workerCertificateNames) (\<lambda>_ nodeCerts.
     orFail 500 ''failed to read kubeconfig certificates: %w'' []
       ((), readKubeconfigCertificates x issuer io KubernetesConfigDir h workerKubeconfigs) (\<lambda>_ kubeConfigCerts.
       ((), SyncResponse \<lparr>Sr_Certificates = map (\<lambda>cert. cert\<lparr>Cs_ExternallyManaged := True\<rparr>) (nodeCerts @ kubeConfigCerts),
              Sr_Authorities = []\<rparr>))))"

definition getCertificatesStatus ::
  "'key crypto \<Rightarrow> (Certificate \<Rightarrow> string) \<Rightarrow> kubeconfigIO \<Rightarrow> json \<Rightarrow> Snap \<Rightarrow> DB \<Rightarrow> Host \<Rightarrow> CertificatesStatusResponse response"
where
  "getCertificatesStatus x issuer io j s db h =
     (case IsWorker s h of
        Inl e \<Rightarrow> InternalError (Wrapf ''failed to check if node is a worker: %w'' [] e)
      | Inr isWorker \<Rightarrow> if isWorker then getCertsStatusWorker x issuer io h else getCertsStatusControlPlane x issuer io j db h)"

section \<open>Earliest expiry\<close>

text \<open>The zero value of \<open>time.Time\<close> is the first second of the year 1.\<close>

definition zeroTime :: int where "zeroTime = - 62135596800"

fun expiryLoop :: "'key crypto \<Rightarrow> string list \<Rightarrow> int \<Rightarrow> int res" where
  "expiryLoop x [] earliestExpiry = Inr earliestExpiry"
| "expiryLoop x (cert # certs) earliestExpiry =
     (if cert = [] then expiryLoop x certs earliestExpiry
      else
        (case LoadCertificate x cert [] of
           Inl e \<Rightarrow> Inl (Wrapf ''failed to load certificate: %w'' [] e)
         | Inr (c, _) \<Rightarrow>
             expiryLoop x certs
               (if earliestExpiry = zeroTime \<or> NotAfter c < earliestExpiry then NotAfter c else earliestExpiry)))"

definition expiryCertificates :: "ClusterConfig \<Rightarrow> string list" where
  "expiryCertificates config =
     (let c = CC_Certificates config in
      map getStr [Certificates_CACert c, Certificates_ClientCACert c, Certificates_AdminClientCert c,
        Certificates_APIServerKubeletClientCert c, Certificates_FrontProxyCACert c])"

definition postCertificatesExpiry :: "'key crypto \<Rightarrow> json \<Rightarrow> DB \<Rightarrow> int response" where
  "postCertificatesExpiry x j db =
     (case util_GetClusterConfig j db of
        Inl e \<Rightarrow> InternalError (Wrapf ''failed to get cluster config: %w'' [] e)
      | Inr config \<Rightarrow>
          (case expiryLoop x (expiryCertificates config) zeroTime of
             Inl e \<Rightarrow> InternalError e
           | Inr earliestExpiry \<Rightarrow> SyncResponse earliestExpiry))"

section \<open>Update of external certificates\<close>

text \<open>What the getters of the request return; a field that the request leaves out is the empty string.\<close>

record UpdateRequest =
  Up_AdminClientCert :: string
  Up_AdminClientKey :: string
  Up_APIServerKubeletClientCert :: string
  Up_APIServerKubeletClientKey :: string
  Up_KubeControllerManagerClientCert :: string
  Up_KubeControllerManagerClientKey :: string
  Up_KubeSchedulerClientCert :: string
  Up_KubeSchedulerClientKey :: string
  Up_APIServerCert :: string
  Up_APIServerKey :: string
  Up_KubeProxyClientCert :: string
  Up_KubeProxyClientKey :: string
  Up_KubeletClientCert :: string
  Up_KubeletClientKey :: string
  Up_KubeletCert :: string
  Up_KubeletKey :: string
  Up_FrontProxyClientCert :: string
  Up_FrontProxyClientKey :: string

definition updatedPKI :: "ClusterConfig \<Rightarrow> UpdateRequest \<Rightarrow> ControlPlanePKI \<Rightarrow> ControlPlanePKI" where
  "updatedPKI cfg req c =
     (let cc = CC_Certificates cfg in
      c\<lparr>CACert := getStr (Certificates_CACert cc), CAKey := getStr (Certificates_CAKey cc),
        ClientCACert := getStr (Certificates_ClientCACert cc), ClientCAKey := getStr (Certificates_ClientCAKey cc),
        FrontProxyCACert := getStr (Certificates_FrontProxyCACert cc), FrontProxyCAKey := getStr (Certificates_FrontProxyCAKey cc),
        K8sdPrivateKey := getStr (Certificates_K8sdPrivateKey cc), K8sdPublicKey := getStr (Certificates_K8sdPublicKey cc),
        ServiceAccountKey := getStr (Certificates_ServiceAccountKey cc),
        AdminClientCert := Up_AdminClientCert req, AdminClientKey := Up_AdminClientKey req,
        APIServerKubeletClientCert := Up_APIServerKubeletClientCert req, APIServerKubeletClientKey := Up_APIServerKubeletClientKey req,
        KubeControllerManagerClientCert := Up_KubeControllerManagerClientCert req,
        KubeControllerManagerClientKey := Up_KubeControllerManagerClientKey req,
        KubeSchedulerClientCert := Up_KubeSchedulerClientCert req, KubeSchedulerClientKey := Up_KubeSchedulerClientKey req,
        APIServerCert := Up_APIServerCert req, APIServerKey := Up_APIServerKey req,
        KubeProxyClientCert := Up_KubeProxyClientCert req, KubeProxyClientKey := Up_KubeProxyClientKey req,
        KubeletClientCert := Up_KubeletClientCert req, KubeletClientKey := Up_KubeletClientKey req,
        KubeletCert := Up_KubeletCert req, KubeletKey := Up_KubeletKey req,
        FrontProxyClientCert := Up_FrontProxyClientCert req, FrontProxyClientKey := Up_FrontProxyClientKey req\<rparr>)"

definition refreshCertsUpdateControlPlane ::
  "'key crypto \<Rightarrow> kubeconfigIO \<Rightarrow> json \<Rightarrow> nodeEnv \<Rightarrow> DB \<Rightarrow> UpdateRequest res \<Rightarrow> nat \<times> Host \<Rightarrow> (nat \<times> Host) \<times> unit response"
where
  "refreshCertsUpdateControlPlane x io j env db decoded st =
     orFail 400 ''failed to parse request: %w'' [] (st, decoded) (\<lambda>st req.
     orFail 500 ''failed to recover cluster config: %w'' [] (st, util_GetClusterConfig j db) (\<lambda>st cfg.
     case ParseIP (Env_Address env) of
       None \<Rightarrow> (st, InternalError (Errorf ''failed to parse node IP address %q'' [Env_Address env]))
     | Some nodeIP \<Rightarrow>
         let serviceCIDR = getStr (Network_ServiceCIDR (CC_Network cfg)) in
         orFail 500 ''failed to get IP address(es) from ServiceCIDR %q: %w'' [serviceCIDR]
           (st, GetKubernetesServiceIPsFromServiceCIDRs serviceCIDR) (\<lambda>(n, h) serviceIPs.
         let c = NewControlPlanePKI (Env_Name env) [] (nodeIP # serviceIPs) (timeNow x) None False False (\<lambda>t. AddDate t 1 0 0) in
         orFail 500 ''failed to read managed control plane certificates: %w'' [] ((n, h), ReadControlPlanePKI io True c h) (\<lambda>(n, h) c.
         case CompleteCertificates x (Env_InterfaceAddrs env) (updatedPKI cfg req c) n of (n, completed) \<Rightarrow>
         orFail 500 ''failed to verify certificates: %w'' [] ((n, h), completed) (\<lambda>(n, h) c.
         case EnsureControlPlanePKI c h of (h, written) \<Rightarrow>
         orFail 500 ''failed to write control plane certificates: %w'' [] ((n, h), written) (\<lambda>(n, h) _.
         case SetupControlPlaneKubeconfigs io (Env_Localhost env) KubernetesConfigDir
                (getInt (APIServer_SecurePort (CC_APIServer cfg))) c h of (h, configs) \<Rightarrow>
         orFail 500 ''failed to generate control plane kubeconfigs: %w'' [] ((n, h), configs) (\<lambda>(n, h) _.
           ((n, asyncRestart (Env_Rendered env)
                  (\<lambda>h. tryStep (RestartControlPlaneServices h (GetKubeProxyEnabled (CC_Network cfg)) [])
                         ''failed to restart control plane services: %w'' [] (\<lambda>h _. (h, ok))) h),
            SyncResponse ()))))))))"

definition updatedWorkerPKI :: "ClusterConfig \<Rightarrow> UpdateRequest \<Rightarrow> WorkerNodePKI" where
  "updatedWorkerPKI cfg req =
     \<lparr>W_CACert = getStr (Certificates_CACert (CC_Certificates cfg)), W_ClientCACert = getStr (Certificates_ClientCACert (CC_Certificates cfg)),
      W_KubeletCert = Up_KubeletCert req, W_KubeletKey = Up_KubeletKey req, W_KubeProxyClientCert = Up_KubeProxyClientCert req,
      W_KubeProxyClientKey = Up_KubeProxyClientKey req, W_KubeletClientCert = Up_KubeletClientCert req,
      W_KubeletClientKey = Up_KubeletClientKey req\<rparr>"

definition refreshCertsUpdateWorker ::
  "kubeconfigIO \<Rightarrow> json \<Rightarrow> nodeEnv \<Rightarrow> DB \<Rightarrow> UpdateRequest res \<Rightarrow> nat \<times> Host \<Rightarrow> (nat \<times> Host) \<times> unit response"
where
  "refreshCertsUpdateWorker io j env db decoded st =
     orFail 400 ''failed to parse request: %w'' [] (st, decoded) (\<lambda>st req.
     orFail 500 ''failed to recover cluster config: %w'' [] (st, util_GetClusterConfig j db) (\<lambda>st cfg.
     case ParseIP (Env_Address env) of
       None \<Rightarrow> (st, InternalError (Errorf ''failed to parse node IP address %q'' [Env_Address env]))
     | Some _ \<Rightarrow>
         let certificates = updatedWorkerPKI cfg req in
         orFail 500 ''failed to verify certificates: %w'' [] (st, Worker_CompleteCertificates certificates) (\<lambda>(n, h) _.
         case EnsureWorkerPKI certificates h of (h, written) \<Rightarrow>
         orFail 500 ''failed to write worker certificates: %w'' [] ((n, h), written) (\<lambda>(n, h) _.
         case SetupWorkerKubeconfigs io (Env_Localhost env) KubernetesConfigDir
                (getInt (APIServer_SecurePort (CC_APIServer cfg))) certificates h of (h, configs) \<Rightarrow>
         orFail 500 ''failed to generate worker kubeconfigs: %w'' [] ((n, h), configs) (\<lambda>(n, h) _.
           ((n, asyncRestart (Env_Rendered env) (\<lambda>h.
                  tryStep (RestartServices h [''kubelet''] []) ''failed to restart kubelet: %w'' [] (\<lambda>h _.
                  tryStep (RestartServices h [''kube-proxy''] []) ''failed to restart kube-proxy: %w'' [] (\<lambda>h _. (h, ok)))) h),
            SyncResponse ()))))))"

definition postRefreshCertsUpdate ::
  "'key crypto \<Rightarrow> kubeconfigIO \<Rightarrow> json \<Rightarrow> nodeEnv \<Rightarrow> Snap \<Rightarrow> DB \<Rightarrow> UpdateRequest res \<Rightarrow> nat \<times> Host \<Rightarrow> (nat \<times> Host) \<times> unit response"
where
  "postRefreshCertsUpdate x io j env s db decoded st =
     orFail 500 ''failed to check if node is a worker: %w'' [] (st, IsWorker s (snd st)) (\<lambda>st isWorker.
     if isWorker then refreshCertsUpdateWorker io j env db decoded st else refreshCertsUpdateControlPlane x io j env db decoded st)"

section \<open>Status of the node and of the cluster\<close>

definition getNodeTaints :: "Snap \<Rightarrow> Host \<Rightarrow> string list res" where
  "getNodeTaints s h =
     (case GetServiceArgument s ''kubelet'' ''--register-with-taints'' h of
        Inl e \<Rightarrow> if errorsIs e ErrNotExist then Inr [] else Inl (Wrapf ''failed to get kubelet taints: %w'' [] e)
      | Inr taintsStr \<Rightarrow> Inr (splitOn (CHR '','') taintsStr))"

definition GetClusterMembers :: "'m microcluster \<Rightarrow> 'm \<Rightarrow> ('m, NodeStatus list) step" where
  "GetClusterMembers mc m =
     tryStep (m, MC_client mc) ''failed to get k8sd client: %w'' [] (\<lambda>m _.
     tryStep (MC_members mc m) ''failed to get cluster members: %w'' [] (\<lambda>m clusterMembers.
     (m, Inr (map (\<lambda>c. \<lparr>NS_Name = CM_Name c, NS_Address = memberAddress c, NS_ClusterRole = ''control-plane'',
                        NS_DatastoreRole = DatastoreRoleFromString (CM_Role c)\<rparr>) clusterMembers))))"

definition GetLocalNodeStatus ::
  "'m microcluster \<Rightarrow> Snap \<Rightarrow> string \<Rightarrow> string \<Rightarrow> Host \<Rightarrow> 'm \<Rightarrow> ('m, NodeStatus) step"
where
  "GetLocalNodeStatus mc s name address h m =
     (case IsWorker s h of
        Inl e \<Rightarrow> (m, Inl (Wrapf ''failed to check if node is a worker: %w'' [] e))
      | Inr isWorker \<Rightarrow>
          let status = (\<lambda>role. \<lparr>NS_Name = name, NS_Address = address, NS_ClusterRole = role, NS_DatastoreRole = RoleUnset\<rparr>) in
          if isWorker then (m, Inr (status ''worker''))
          else
            (case GetControlPlaneNode mc name m of
               (m, Inl _) \<Rightarrow> (m, Inr (status ''unknown''))
             | (m, Inr (Some node)) \<Rightarrow> (m, Inr node)
             | (m, Inr None) \<Rightarrow> (m, Inr (status ''unknown''))))"

record NodeStatusResponse =
  Nr_Status :: NodeStatus
  Nr_Taints :: "string list"

definition getNodeStatus ::
  "'m microcluster \<Rightarrow> Snap \<Rightarrow> string \<Rightarrow> string \<Rightarrow> Host \<Rightarrow> 'm \<Rightarrow> 'm \<times> NodeStatusResponse response"
where
  "getNodeStatus mc s name address h m =
     (case GetLocalNodeStatus mc s name address h m of
        (m, Inl e) \<Rightarrow> (m, InternalError e)
      | (m, Inr status) \<Rightarrow>
          orFail 500 ''failed to get node taints: %w'' [] (m, getNodeTaints s h) (\<lambda>m taints.
            (m, SyncResponse \<lparr>Nr_Status = status, Nr_Taints = taints\<rparr>)))"

definition checkKubeletClusterDNS ::
  "(string \<Rightarrow> string \<Rightarrow> string res) \<Rightarrow> Host \<Rightarrow> Features.Cluster \<Rightarrow> (Features.Cluster, unit) step"
where
  "checkKubeletClusterDNS systemctl h c =
     tryStep (GetServiceClusterIP ''coredns'' ''kube-system'' c) ''failed to get coredns service cluster IP: %w'' [] (\<lambda>c corednsClusterIP.
     if corednsClusterIP = [] then (c, Inl (Errorf ''coredns does not have a cluster IP yet'' []))
     else
       tryStep (c, RunningServiceArgs systemctl h ''kubelet'') ''failed to get args for kubelet: %w'' [] (\<lambda>c serviceArgs.
       let argsDNS = mapGet serviceArgs ''--cluster-dns'' in
       if argsDNS \<noteq> corednsClusterIP
       then (c, Inl (Errorf ''kubelet --cluster-dns %q does not match coredns service clusterIP %q'' [argsDNS, corednsClusterIP]))
       else (c, ok)))"

record ('m, 't) statusEnv =
  SE_databaseOpen :: "unit res"
  SE_micro :: "'m microcluster"
  SE_json :: json
  SE_kubernetesClient :: "unit res"
  SE_listConditions :: "Features.Cluster \<Rightarrow> (Features.Cluster, ObjectCondition list list) step"
  SE_systemctl :: "string \<Rightarrow> string \<Rightarrow> string res"
  SE_parseTime :: "string \<Rightarrow> 't res"
  SE_zeroTime :: 't

record 't ClusterStatus =
  St_Ready :: bool
  St_Members :: "NodeStatus list"
  St_Config :: UserFacingClusterConfig
  St_DatastoreType :: string
  St_DatastoreServers :: "string list"
  St_Features :: "(string \<times> 't FeatureStatus) list"

text \<open>The status of a feature of which none is stored is the zero value.\<close>

definition noStatus :: "'t \<Rightarrow> 't FeatureStatus" where
  "noStatus zero = \<lparr>FS_Enabled = False, FS_Message = [], FS_Version = [], FS_UpdatedAt = zero\<rparr>"

definition reportedFeatures :: "string list" where
  "reportedFeatures = [''dns'', ''network'', ''load-balancer'', ''ingress'', ''gateway'', ''metrics-server'', ''local-storage'']"

definition clusterStatus ::
  "('m, 't) statusEnv \<Rightarrow> bool \<Rightarrow> NodeStatus list \<Rightarrow> ClusterConfig \<Rightarrow> 't FeatureStatus gomap \<Rightarrow> 't ClusterStatus"
where
  "clusterStatus env ready members config statuses =
     \<lparr>St_Ready = ready, St_Members = members, St_Config = ToUserFacing config,
      St_DatastoreType = getStr (Datastore_Type (CC_Datastore config)),
      St_DatastoreServers = getList (Datastore_ExternalServers (CC_Datastore config)),
      St_Features = map (\<lambda>f. (f, case map_of statuses f of None \<Rightarrow> noStatus (SE_zeroTime env) | Some st \<Rightarrow> st)) reportedFeatures\<rparr>"

definition getClusterStatus ::
  "('m, 't) statusEnv \<Rightarrow> DB \<Rightarrow> Host \<Rightarrow> 'm \<times> Features.Cluster \<Rightarrow> ('m \<times> Features.Cluster) \<times> 't ClusterStatus response"
where
  "getClusterStatus env db h = (\<lambda>(m, c).
     case SE_databaseOpen env of
       Inl _ \<Rightarrow> ((m, c), Unavailable (Errorf ''daemon not yet initialized'' []))
     | Inr _ \<Rightarrow>
         (case GetClusterMembers (SE_micro env) m of (m, found) \<Rightarrow>
         orFail 500 ''failed to get cluster members: %w'' [] ((m, c), found) (\<lambda>(m, c) members.
         orFail 500 ''failed to get cluster config: %w'' [] ((m, c), util_GetClusterConfig (SE_json env) db) (\<lambda>(m, c) config.
         orFail 500 ''failed to create k8s client: %w'' [] ((m, c), SE_kubernetesClient env) (\<lambda>(m, c) _.
         case HasReadyNodes (SE_listConditions env) c of (c, hasReady) \<Rightarrow>
         orFail 500 ''failed to check if cluster has ready nodes: %w'' [] ((m, c), hasReady) (\<lambda>(m, c) ready.
         case (if getBool (DNS_Enabled (CC_DNS config)) then checkKubeletClusterDNS (SE_systemctl env) h c else (c, ok)) of (c, dns) \<Rightarrow>
         orFail 500 ''database transaction failed: %w'' []
           ((m, c), case GetFeatureStatuses (SE_parseTime env) (SE_zeroTime env) db of
                      Inl e \<Rightarrow> Inl (Wrapf ''failed to get feature statuses: %w'' [] e) | Inr statuses \<Rightarrow> Inr statuses) (\<lambda>(m, c) statuses.
           ((m, c), SyncResponse (clusterStatus env (ready \<and> is_ok dns) members config statuses)))))))))"

section \<open>Properties\<close>

text \<open>
  A cluster is reported as ready exactly when some node is ready and, with the DNS feature enabled, the kubelet of the
  answering node runs with the address of the CoreDNS service as its cluster DNS.
\<close>

theorem cluster_ready_iff:
  assumes r: "getClusterStatus env db h (m, c) = (st', SyncResponse status)"
  shows "\<exists>config nodes c1. util_GetClusterConfig (SE_json env) db = Inr config \<and> SE_listConditions env c = (c1, Inr nodes) \<and>
    (St_Ready status \<longleftrightarrow> anyNodeReady nodes \<and>
       (getBool (DNS_Enabled (CC_DNS config)) \<longrightarrow>
          (\<exists>ip args. ip \<noteq> [] \<and> snd (GetServiceClusterIP ''coredns'' ''kube-system'' c1) = Inr ip \<and>
             RunningServiceArgs (SE_systemctl env) h ''kubelet'' = Inr args \<and> mapGet args ''--cluster-dns'' = ip)))"
proof -
  obtain m1 found where g: "GetClusterMembers (SE_micro env) m = (m1, found)" by fastforce
  obtain c1 listed where l: "SE_listConditions env c = (c1, listed)" by fastforce
  obtain u where open_db: "SE_databaseOpen env = Inr u" using r by (cases "SE_databaseOpen env") (auto simp: getClusterStatus_def)
  obtain members where "found = Inr members" using r open_db g by (cases found) (auto simp: getClusterStatus_def)
  moreover obtain config where config: "util_GetClusterConfig (SE_json env) db = Inr config"
    using r open_db g calculation by (cases "util_GetClusterConfig (SE_json env) db") (auto simp: getClusterStatus_def)
  moreover obtain v where "SE_kubernetesClient env = Inr v"
    using r open_db g calculation by (cases "SE_kubernetesClient env") (auto simp: getClusterStatus_def)
  moreover obtain nodes where nodes: "listed = Inr nodes"
    using r open_db g l calculation by (cases listed) (auto simp: getClusterStatus_def HasReadyNodes_def)
  ultimately have "St_Ready status \<longleftrightarrow> anyNodeReady nodes \<and>
      is_ok (snd (if getBool (DNS_Enabled (CC_DNS config)) then checkKubeletClusterDNS (SE_systemctl env) h c1 else (c1, ok)))"
    using r open_db g l
    by (auto simp: getClusterStatus_def HasReadyNodes_def clusterStatus_def orFail_def split: prod.splits sum.splits if_splits)
  moreover have "is_ok (snd (checkKubeletClusterDNS (SE_systemctl env) h c1)) \<longleftrightarrow>
      (\<exists>ip args. ip \<noteq> [] \<and> snd (GetServiceClusterIP ''coredns'' ''kube-system'' c1) = Inr ip \<and>
         RunningServiceArgs (SE_systemctl env) h ''kubelet'' = Inr args \<and> mapGet args ''--cluster-dns'' = ip)"
    by (cases "GetServiceClusterIP ''coredns'' ''kube-system'' c1"; cases "snd (GetServiceClusterIP ''coredns'' ''kube-system'' c1)";
        cases "RunningServiceArgs (SE_systemctl env) h ''kubelet''")
      (auto simp: checkKubeletClusterDNS_def Let_def)
  ultimately show ?thesis using config l nodes by auto
qed


text \<open>The certificates that are looked at, as far as they parse, and when they expire.\<close>

definition expiries :: "'key crypto \<Rightarrow> string list \<Rightarrow> int set" where
  "expiries x certs = {NotAfter c | cert c k. cert \<in> set certs \<and> cert \<noteq> [] \<and> LoadCertificate x cert [] = Inr (c, k)}"

lemma expiries_Cons:
  "expiries x (cert # certs) =
     (if cert = [] then {} else case LoadCertificate x cert [] of Inl _ \<Rightarrow> {} | Inr (c, _) \<Rightarrow> {NotAfter c}) \<union> expiries x certs"
  by (auto simp: expiries_def split: sum.split)

lemma expiryLoop_least:
  assumes "expiryLoop x certs e = Inr t" "zeroTime \<notin> expiries x certs"
  shows "if expiries x certs = {} then t = e
    else t \<in> expiries x certs \<union> ({e} - {zeroTime}) \<and> (\<forall>u \<in> expiries x certs. t \<le> u) \<and> (e \<noteq> zeroTime \<longrightarrow> t \<le> e) \<and> t \<noteq> zeroTime"
  using assms
proof (induction x certs e rule: expiryLoop.induct)
  case (1 x e)
  then show ?case by (simp add: expiries_def)
next
  case (2 x cert certs e)
  show ?case
  proof (cases "cert = []")
    case True
    then show ?thesis using 2 by (auto simp: expiries_Cons split: if_splits)
  next
    case False
    then obtain c k where c: "LoadCertificate x cert [] = Inr (c, k)"
      using "2.prems"(1) by (cases "LoadCertificate x cert []") auto
    let ?e = "if e = zeroTime \<or> NotAfter c < e then NotAfter c else e"
    have rest: "expiryLoop x certs ?e = Inr t" "zeroTime \<notin> expiries x certs" and nz: "NotAfter c \<noteq> zeroTime" "?e \<noteq> zeroTime"
      using "2.prems" False c by (auto simp: expiries_Cons)
    show ?thesis using "2.IH"(2) [OF False c refl rest] nz False c
      by (simp add: expiries_Cons split: if_splits) fastforce+
  qed
qed

text \<open>
  The expiry that the Cluster API provider is told is the earliest of the cluster's certificates that are set; with none set it
  is the zero time.
\<close>

theorem expiry_earliest:
  assumes config: "util_GetClusterConfig j db = Inr config" and r: "postCertificatesExpiry x j db = SyncResponse t"
    and nonzero: "zeroTime \<notin> expiries x (expiryCertificates config)"
  shows "if expiries x (expiryCertificates config) = {} then t = zeroTime
    else t \<in> expiries x (expiryCertificates config) \<and> (\<forall>u \<in> expiries x (expiryCertificates config). t \<le> u)"
proof -
  have "expiryLoop x (expiryCertificates config) zeroTime = Inr t"
    using config r by (auto simp: postCertificatesExpiry_def split: sum.splits)
  from expiryLoop_least [OF this nonzero] show ?thesis by (auto split: if_splits)
qed

lemma loadCertificateStatusesFromDir_names:
  "loadCertificateStatusesFromDir x issuer dir h names = Inr certs \<Longrightarrow> map Cs_Name certs = names"
  by (induction names arbitrary: certs) (auto simp: certificateStatus_def split: sum.splits)

lemma readKubeconfigCertificates_names:
  "readKubeconfigCertificates x issuer io dir h configs = Inr certs \<Longrightarrow> map Cs_Name certs = configs"
  by (induction configs arbitrary: certs) (auto simp: certificateStatus_def split: sum.splits option.splits)

lemma loadAuthorities_managed:
  "loadAuthorities x cas = Inr as \<Longrightarrow> map Ca_ExternallyManaged as = map (\<lambda>(_, key, _). key = []) cas"
  by (induction x cas arbitrary: as rule: loadAuthorities.induct) (auto simp: LoadCertificate_key split: sum.splits)

lemma updateExternallyManaged_names: "map Cs_Name (updateExternallyManaged as certs) = map Cs_Name certs"
  by (simp add: updateExternallyManaged_def comp_def split: option.split)

lemma updateExternallyManaged_flags:
  assumes "\<forall>cert \<in> set certs. \<not> Cs_ExternallyManaged cert" "cert \<in> set (updateExternallyManaged as certs)"
  shows "Cs_ExternallyManaged cert \<longleftrightarrow>
    (\<exists>a. find (\<lambda>a. Ca_Name a = Cs_CertificateAuthority cert) as = Some a \<and> Ca_ExternallyManaged a)"
  using assms by (auto simp: updateExternallyManaged_def split: option.splits)

lemma dir_statuses_unmanaged:
  "loadCertificateStatusesFromDir x issuer dir h names = Inr certs \<Longrightarrow> cert \<in> set certs \<Longrightarrow> \<not> Cs_ExternallyManaged cert"
  by (induction names arbitrary: certs) (auto simp: certificateStatus_def split: sum.splits)

lemma kubeconfig_statuses_unmanaged:
  "readKubeconfigCertificates x issuer io dir h configs = Inr certs \<Longrightarrow> cert \<in> set certs \<Longrightarrow> \<not> Cs_ExternallyManaged cert"
  by (induction configs arbitrary: certs) (auto simp: certificateStatus_def split: sum.splits option.splits)

text \<open>
  The certificate status of a control plane node lists every certificate of the node, every kubeconfig and, with an external
  datastore, its client certificate, in this order; a certificate is reported as externally managed exactly when the first
  authority with the name of its issuer has no key in the cluster configuration. A worker reports all of its
  certificates as externally managed.
\<close>

theorem certificate_status_complete:
  assumes r: "getCertificatesStatus x issuer io j s db h = SyncResponse res" and w: "IsWorker s h = Inr isWorker"
  shows "if isWorker
    then map Cs_Name (Sr_Certificates res) = workerCertificateNames @ workerKubeconfigs \<and> Sr_Authorities res = [] \<and>
      (\<forall>cert \<in> set (Sr_Certificates res). Cs_ExternallyManaged cert)
    else \<exists>config. util_GetClusterConfig j db = Inr config \<and>
      map Cs_Name (Sr_Certificates res) = controlPlaneCertificateNames @ controlPlaneKubeconfigs @
        (if getStr (Datastore_Type (CC_Datastore config)) = ''external'' then dataStoreCertificateNames else []) \<and>
      map Ca_ExternallyManaged (Sr_Authorities res) =
        map (\<lambda>get. getStr (get (CC_Certificates config)) = []) [Certificates_CAKey, Certificates_ClientCAKey, Certificates_FrontProxyCAKey] \<and>
      (\<forall>cert \<in> set (Sr_Certificates res). Cs_ExternallyManaged cert \<longleftrightarrow>
         (\<exists>a. find (\<lambda>a. Ca_Name a = Cs_CertificateAuthority cert) (Sr_Authorities res) = Some a \<and> Ca_ExternallyManaged a))"
proof (cases isWorker)
  case True
  then show ?thesis using r w
    by (auto simp: getCertificatesStatus_def getCertsStatusWorker_def orFail_def comp_def split: sum.splits prod.splits
        dest!: loadCertificateStatusesFromDir_names readKubeconfigCertificates_names)
next
  case False
  then have run: "getCertsStatusControlPlane x issuer io j db h = SyncResponse res" using r w by (simp add: getCertificatesStatus_def)
  obtain config as nodes configs stores where parts: "util_GetClusterConfig j db = Inr config" "readCertificateAuthorities x config = Inr as"
    "loadCertificateStatusesFromDir x issuer snapKubernetesPKIDir h controlPlaneCertificateNames = Inr nodes"
    "readKubeconfigCertificates x issuer io KubernetesConfigDir h controlPlaneKubeconfigs = Inr configs"
    "(if getStr (Datastore_Type (CC_Datastore config)) = ''external''
      then loadCertificateStatusesFromDir x issuer snapEtcdPKIDir h dataStoreCertificateNames else Inr []) = Inr stores"
    "res = \<lparr>Sr_Certificates = updateExternallyManaged as (nodes @ configs @ stores), Sr_Authorities = as\<rparr>"
    using run unfolding getCertsStatusControlPlane_def orFail_def by (auto split: sum.splits)
  have "map Cs_Name stores = (if getStr (Datastore_Type (CC_Datastore config)) = ''external'' then dataStoreCertificateNames else [])"
    "\<forall>cert \<in> set stores. \<not> Cs_ExternallyManaged cert"
    using parts(5) by (auto split: if_splits dest: loadCertificateStatusesFromDir_names dir_statuses_unmanaged)
  moreover note loadCertificateStatusesFromDir_names [OF parts(3)] readKubeconfigCertificates_names [OF parts(4)]
    dir_statuses_unmanaged [OF parts(3)] kubeconfig_statuses_unmanaged [OF parts(4)]
  ultimately have "map Cs_Name (nodes @ configs @ stores) = controlPlaneCertificateNames @ controlPlaneKubeconfigs @
      (if getStr (Datastore_Type (CC_Datastore config)) = ''external'' then dataStoreCertificateNames else [])"
    "\<forall>cert \<in> set (nodes @ configs @ stores). \<not> Cs_ExternallyManaged cert" by auto
  then show ?thesis
    using False parts(1,6) loadAuthorities_managed [OF parts(2) [unfolded readCertificateAuthorities_def Let_def]]
      updateExternallyManaged_flags [of "nodes @ configs @ stores" _ as]
    by (simp add: updateExternallyManaged_names del: map_append)
qed

section \<open>External certificates\<close>

lemma updatedPKI_files:
  "\<forall>(path, rd, setField) \<in> set (fileFields readManaged ca clientCA frontProxyCA). \<forall>v c. updatedPKI cfg req (setField v c) = updatedPKI cfg req c"
  by (simp add: fileFields_def updatedPKI_def Let_def)

lemma updatedPKI_kubeconfigs:
  "\<forall>(name, setCert, setKey) \<in> set kubeconfigFields. \<forall>v c. updatedPKI cfg req (setCert v c) = updatedPKI cfg req c \<and>
     updatedPKI cfg req (setKey v c) = updatedPKI cfg req c"
  by (simp add: kubeconfigFields_def updatedPKI_def Let_def)

lemma readFileLoop_absorbed:
  "\<forall>(path, rd, setField) \<in> set es. \<forall>v c. f (setField v c) = f c \<Longrightarrow> readFileLoop h es c = Inr c' \<Longrightarrow> f c' = f c"
  by (induction h es c rule: readFileLoop.induct) (auto split: if_splits sum.splits)

lemma readKubeconfigLoop_absorbed:
  "\<forall>(name, setCert, setKey) \<in> set es. \<forall>v c. f (setCert v c) = f c \<and> f (setKey v c) = f c \<Longrightarrow>
   readKubeconfigLoop io h rd es c = Inr c' \<Longrightarrow> f c' = f c"
  by (induction io h rd es c rule: readKubeconfigLoop.induct) (auto simp: Let_def split: if_splits sum.splits option.splits)

lemma ReadControlPlanePKI_absorbed: "ReadControlPlanePKI io readManaged c h = Inr c' \<Longrightarrow> updatedPKI cfg req c' = updatedPKI cfg req c"
  by (auto simp: ReadControlPlanePKI_def split: sum.splits
      dest!: readFileLoop_absorbed [OF updatedPKI_files [of _ _ _ _ cfg req]] readKubeconfigLoop_absorbed [OF updatedPKI_kubeconfigs [of cfg req]])

text \<open>
  An update of the certificates of a control plane node writes what the request gives: every pair of the request that is
  complete is among the certificates that were written, and the authorities, the service account key and the key pair of the
  cluster are those of the configuration. Nothing of the certificates that were read from the node before is kept: a managed certificate is
  generated again.
\<close>

theorem certificates_updated:
  assumes pem: "pemNonEmpty x"
    and r: "refreshCertsUpdateControlPlane x io j env db decoded (n, h) = (st', SyncResponse ())"
  shows "\<exists>req cfg nodeIP ips given n' c. decoded = Inr req \<and> util_GetClusterConfig j db = Inr cfg \<and>
    given = updatedPKI cfg req (NewControlPlanePKI (Env_Name env) [] (nodeIP # ips) (timeNow x) None False False (\<lambda>t. AddDate t 1 0 0)) \<and>
    CompleteCertificates x (Env_InterfaceAddrs env) given n = (n', Inr c) \<and> is_ok (snd (EnsureControlPlanePKI c h)) \<and>
    list_all2 completedPair (leafPairs given) (leafPairs c) \<and> caPairs c = caPairs given \<and> ServiceAccountKey c = ServiceAccountKey given"
proof -
  obtain req where req: "decoded = Inr req" using r by (cases decoded) (auto simp: refreshCertsUpdateControlPlane_def)
  obtain cfg where cfg: "util_GetClusterConfig j db = Inr cfg"
    using r req by (cases "util_GetClusterConfig j db") (auto simp: refreshCertsUpdateControlPlane_def)
  obtain nodeIP where ip: "ParseIP (Env_Address env) = Some nodeIP"
    using r req cfg by (cases "ParseIP (Env_Address env)") (auto simp: refreshCertsUpdateControlPlane_def)
  obtain ips where ips: "GetKubernetesServiceIPsFromServiceCIDRs (getStr (Network_ServiceCIDR (CC_Network cfg))) = Inr ips"
    using r req cfg ip by (cases "GetKubernetesServiceIPsFromServiceCIDRs (getStr (Network_ServiceCIDR (CC_Network cfg)))")
      (auto simp: refreshCertsUpdateControlPlane_def Let_def)
  let ?new = "NewControlPlanePKI (Env_Name env) [] (nodeIP # ips) (timeNow x) None False False (\<lambda>t. AddDate t 1 0 0)"
  let ?given = "updatedPKI cfg req ?new"
  obtain c0 where c0: "ReadControlPlanePKI io True ?new h = Inr c0"
    using r req cfg ip ips by (cases "ReadControlPlanePKI io True ?new h") (auto simp: refreshCertsUpdateControlPlane_def Let_def)
  obtain n' done' where run: "CompleteCertificates x (Env_InterfaceAddrs env) ?given n = (n', done')" by fastforce
  obtain c where c: "done' = Inr c"
    using r req cfg ip ips c0 run by (cases done') (auto simp: refreshCertsUpdateControlPlane_def Let_def ReadControlPlanePKI_absorbed [OF c0])
  have "is_ok (snd (EnsureControlPlanePKI c h))"
    using r req cfg ip ips c0 run c by (cases "EnsureControlPlanePKI c h"; cases "snd (EnsureControlPlanePKI c h)")
      (auto simp: refreshCertsUpdateControlPlane_def Let_def ReadControlPlanePKI_absorbed [OF c0])
  moreover have "\<not> allowSelfSignedCA ?given" by (simp add: updatedPKI_def NewControlPlanePKI_def Let_def)
  ultimately show ?thesis
    using CompleteCertificates_pairs [OF pem run [unfolded c]] req cfg run c
    by (intro exI [of _ req] exI [of _ cfg] exI [of _ nodeIP] exI [of _ ips] exI [of _ ?given] exI [of _ n'] exI [of _ c])
      (auto simp: caPairs_def)
qed

text \<open>The taints that a node reports are the parts of the argument of the kubelet; without the argument there is one, the empty string.\<close>

theorem untainted_node_reports_empty_taint:
  assumes "GetServiceArgument s ''kubelet'' ''--register-with-taints'' h = Inr []"
  shows "getNodeTaints s h = Inr [[]]"
  using assms by (simp add: getNodeTaints_def)

end
