(* ===== verification/Requests.thy ===== *)
theory Requests
  imports Handlers
begin

text \<open>
  The requests that make a node part of a cluster and keep it up to date: the configuration that a handler passes to the hooks
  (\<open>pkg/utils/microcluster.go\<close>), bootstrap and join (\<open>pkg/k8sd/api/cluster_bootstrap.go\<close>, \<open>cluster_join.go\<close>) with the hook that runs
  before (\<open>pkg/k8sd/app/hooks_preinit.go\<close>), the approval of a worker's certificates by the Cluster API provider
  (\<open>capi_certificate_refresh.go\<close>), the refresh of the snap (\<open>snap_refresh.go\<close>, \<open>snap_refresh_status.go\<close>, \<open>pkg/snap/snap.go\<close>), and the
  variant of the snap that is run by pebble (\<open>pkg/snap/pebble.go\<close>).
\<close>

section \<open>The configuration of the hooks\<close>

text \<open>\<open>time.Duration\<close> prints itself and is parsed again; the two functions are those of the standard library.\<close>

record durations =
  durationString :: "int \<Rightarrow> string"
  parseDuration :: "string \<Rightarrow> int res"

abbreviation made :: "string gomap ptr \<Rightarrow> string gomap" where
  "made m \<equiv> (case m of None \<Rightarrow> [] | Some m \<Rightarrow> m)"

definition MicroclusterMapWithTimeout :: "durations \<Rightarrow> string gomap ptr \<Rightarrow> int \<Rightarrow> string gomap ptr" where
  "MicroclusterMapWithTimeout d m timeout =
     (if timeout = 0 then m else Some (AList.update ''_timeout'' (durationString d timeout) (made m)))"

definition MicroclusterTimeoutFromMap :: "durations \<Rightarrow> string gomap \<Rightarrow> int" where
  "MicroclusterTimeoutFromMap d m =
     (case map_of m ''_timeout'' of
        None \<Rightarrow> 0
      | Some v \<Rightarrow> (case parseDuration d v of Inl _ \<Rightarrow> 0 | Inr t \<Rightarrow> t))"

definition MicroclusterMapWithBootstrapConfig :: "('b \<Rightarrow> string res) \<Rightarrow> string gomap ptr \<Rightarrow> 'b \<Rightarrow> string gomap ptr res" where
  "MicroclusterMapWithBootstrapConfig marshal m bootstrap =
     (case marshal bootstrap of
        Inl e \<Rightarrow> Inl (Wrapf ''failed to marshal bootstrap config: %w'' [] e)
      | Inr b \<Rightarrow> Inr (Some (AList.update ''bootstrapConfig'' b (made m))))"

definition MicroclusterMapWithControlPlaneJoinConfig :: "string gomap ptr \<Rightarrow> string \<Rightarrow> string gomap ptr" where
  "MicroclusterMapWithControlPlaneJoinConfig m controlPlaneJoinConfigJSON =
     Some (AList.update ''controlPlaneJoinConfig'' controlPlaneJoinConfigJSON (made m))"

definition MicroclusterMapWithWorkerJoinConfig :: "string gomap ptr \<Rightarrow> string \<Rightarrow> string \<Rightarrow> string gomap ptr" where
  "MicroclusterMapWithWorkerJoinConfig m token workerJoinConfigJSON =
     Some (AList.update ''workerJoinConfig'' workerJoinConfigJSON (AList.update ''workerToken'' token (made m)))"

section \<open>Bootstrap and join\<close>

record 'm clusterOps =
  CL_status :: "'m \<Rightarrow> ('m, bool) step"
  CL_new :: "string \<Rightarrow> string \<Rightarrow> string gomap \<Rightarrow> 'm \<Rightarrow> ('m, unit) step"
  CL_join :: "string \<Rightarrow> string \<Rightarrow> string \<Rightarrow> string gomap \<Rightarrow> 'm \<Rightarrow> ('m, unit) step"

text \<open>The handlers change the cluster and the directory of containerd in the snap.\<close>

record 'm requestState =
  QS_cluster :: 'm
  QS_snap :: Snap

definition onCluster :: "('m \<Rightarrow> ('m, 'a) step) \<Rightarrow> 'm requestState \<Rightarrow> ('m requestState, 'a) step" where
  "onCluster f st = (case f (QS_cluster st) of (m, r) \<Rightarrow> (st\<lparr>QS_cluster := m\<rparr>, r))"

definition SetContainerdBaseDir :: "string \<Rightarrow> 'm requestState \<Rightarrow> 'm requestState" where
  "SetContainerdBaseDir baseDir st = st\<lparr>QS_snap := (QS_snap st)\<lparr>containerdBaseDir := baseDir\<rparr>\<rparr>"

record 'b BootstrapRequest =
  BR_Name :: string
  BR_Address :: string
  BR_Config :: 'b
  BR_ContainerdBaseDir :: string
  BR_Timeout :: int

definition postClusterBootstrap ::
  "'m clusterOps \<Rightarrow> durations \<Rightarrow> ('b \<Rightarrow> string res) \<Rightarrow> ('key, 'pub) csrCrypto \<Rightarrow> 'b BootstrapRequest res \<Rightarrow> 'm requestState
   \<Rightarrow> 'm requestState \<times> (string \<times> string) response"
where
  "postClusterBootstrap ops d marshal z decoded st =
     orFail 400 ''failed to parse request: %w'' [] (st, decoded) (\<lambda>st req.
     orFail 400 ''failed to prepare bootstrap config: %w'' [] (st, MicroclusterMapWithBootstrapConfig marshal None (BR_Config req)) (\<lambda>st config.
     orFail 400 ''invalid hostname %q: %w'' [BR_Name req] (st, CleanHostname z (BR_Name req)) (\<lambda>st hostname.
     orFail 400 ''failed to get boostrap status: %w'' [] (onCluster (CL_status ops) st) (\<lambda>st ready.
     if ready then (st, BadRequest (Errorf ''cluster is already bootstrapped'' []))
     else
       let st = (if BR_ContainerdBaseDir req \<noteq> [] then SetContainerdBaseDir (BR_ContainerdBaseDir req) st else st);
           config = MicroclusterMapWithTimeout d config (BR_Timeout req) in
       orFail 400 ''failed to bootstrap new cluster: %w'' [] (onCluster (CL_new ops hostname (BR_Address req) (made config)) st) (\<lambda>st _.
         (st, SyncResponse (hostname, BR_Address req)))))))"

abbreviation NodeInUse :: "error \<Rightarrow> 'a response" where "NodeInUse \<equiv> ErrorResponse 521"

record JoinRequest =
  JR_Name :: string
  JR_Address :: string
  JR_Token :: string
  JR_Config :: string
  JR_Timeout :: int

text \<open>\<open>yamlBaseDir\<close> reads the key \<open>containerd-base-dir\<close> of a YAML document.\<close>

definition postClusterJoin ::
  "'m clusterOps \<Rightarrow> durations \<Rightarrow> tokenJson \<Rightarrow> (string \<Rightarrow> string res) \<Rightarrow> ('key, 'pub) csrCrypto \<Rightarrow> JoinRequest res \<Rightarrow> 'm requestState
   \<Rightarrow> 'm requestState \<times> unit response"
where
  "postClusterJoin ops d tj yamlBaseDir z decoded st =
     orFail 400 ''failed to parse request: %w'' [] (st, decoded) (\<lambda>st req.
     orFail 400 ''invalid hostname %q: %w'' [JR_Name req] (st, CleanHostname z (JR_Name req)) (\<lambda>st hostname.
     orFail 400 ''failed to get microcluster status: %w'' [] (onCluster (CL_status ops) st) (\<lambda>st ready.
     if ready then (st, NodeInUse (Errorf ''node %q is part of the cluster'' [hostname]))
     else
       orFail 400 ''failed to parse request config: %w'' [] (st, yamlBaseDir (JR_Config req)) (\<lambda>st baseDir.
       let st = (if baseDir \<noteq> [] then SetContainerdBaseDir baseDir st else st);
           config = MicroclusterMapWithTimeout d (Some []) (JR_Timeout req) in
       if is_ok (Token_Decode tj (JR_Token req)) then
         let config = MicroclusterMapWithWorkerJoinConfig config (JR_Token req) (JR_Config req) in
         orFail 500 ''failed to join k8sd cluster as worker: %w'' [] (onCluster (CL_new ops hostname (JR_Address req) (made config)) st)
           (\<lambda>st _. (st, SyncResponse ()))
       else
         let config = MicroclusterMapWithControlPlaneJoinConfig config (JR_Config req) in
         orFail 500 ''failed to join k8sd cluster as control plane: %w'' []
           (onCluster (CL_join ops hostname (JR_Address req) (JR_Token req) (made config)) st) (\<lambda>st _. (st, SyncResponse ()))))))"

section \<open>Before a node is initialised\<close>

text \<open>
  A node that joins gets a new server certificate with the names of its join configuration. \<open>keyPairAndCA\<close> writes the new pair into the
  directory of the state.
\<close>

record preInitOps =
  PI_stateDir :: string
  PI_keyPairAndCA :: "string \<Rightarrow> string list \<Rightarrow> Host \<Rightarrow> (Host, string \<times> string) step"
  PI_updateCertificates :: "string \<times> string \<Rightarrow> unit res"

definition onPreInit :: "preInitOps \<Rightarrow> hookDecoders \<Rightarrow> string \<Rightarrow> bool \<Rightarrow> string gomap \<Rightarrow> Host \<Rightarrow> (Host, unit) step" where
  "onPreInit ops d name bootstrap initConfig h =
     (if bootstrap then (h, ok)
      else
        tryStep (h, MicroclusterControlPlaneJoinConfigFromMap d initConfig) ''failed to get control plane join config, boostrap %v: %w'' [''false'']
          (\<lambda>h controlPlaneJoinConfig.
        tryStep (osRemove h (pathJoin (PI_stateDir ops) ''server.crt'')) ''failed to remove server.crt: %w'' [] (\<lambda>h _.
        tryStep (osRemove h (pathJoin (PI_stateDir ops) ''server.key'')) ''failed to remove server.key: %w'' [] (\<lambda>h _.
        tryPass (PI_keyPairAndCA ops name (NA_ExtraSANs controlPlaneJoinConfig) h) (\<lambda>h cert.
        tryStep (h, PI_updateCertificates ops cert) ''failed to update certificate %s: %w'' [''server''] (\<lambda>h _. (h, ok)))))))"

section \<open>Approval of the certificates of a worker\<close>

definition approvedByCAPI :: Condition where
  "approvedByCAPI = \<lparr>Condition_Type = CertificateApproved, Condition_Status = True, Condition_Reason = ''ApprovedByCK8sCAPI'',
     Condition_Message = ''This CSR was approved by the Canonical Kubernetes CAPI Provider''\<rparr>"

definition approvedCSRNames :: "int \<Rightarrow> string list" where
  "approvedCSRNames seed =
     [''k8sd-'' @ Itoa seed @ ''-worker-kubelet-serving'', ''k8sd-'' @ Itoa seed @ ''-worker-kubelet-client'',
      ''k8sd-'' @ Itoa seed @ ''-worker-kube-proxy-client'']"

text \<open>One goroutine: the first request of the name that the watch delivers is approved; the result is what was sent.\<close>

definition approveCSR ::
  "(string \<Rightarrow> CertificateSigningRequest \<Rightarrow> unit res) \<Rightarrow> (string \<Rightarrow> CertificateSigningRequest option list res list) \<Rightarrow> string
   \<Rightarrow> CertificateSigningRequest res"
where
  "approveCSR updateApproval watch csrName =
     (case WatchCertificateSigningRequest csrName (\<lambda>csr.
        let csr = csr\<lparr>Status_Conditions := Status_Conditions csr @ [approvedByCAPI]\<rparr> in
        case updateApproval csrName csr of
          Inl e \<Rightarrow> Inl (Wrapf ''failed to update CSR %s: %w'' [csrName] e)
        | Inr _ \<Rightarrow> Inr (Some csr)) (watch csrName) of
        Inl e \<Rightarrow> Inl (Wrapf ''certificate signing request failed: %w'' [] e)
      | Inr csr \<Rightarrow> Inr csr)"

text \<open>The group waits for all and returns the error that came first, which \<open>firstError\<close> picks.\<close>

definition postApproveWorkerCSR ::
  "(string \<Rightarrow> CertificateSigningRequest \<Rightarrow> unit res) \<Rightarrow> (string \<Rightarrow> CertificateSigningRequest option list res list) \<Rightarrow> (error list \<Rightarrow> error)
   \<Rightarrow> unit res \<Rightarrow> unit res \<Rightarrow> int res \<Rightarrow> unit response"
where
  "postApproveWorkerCSR updateApproval watch firstError closed client decoded =
     (case decoded of
        Inl e \<Rightarrow> BadRequest (Wrapf ''failed to parse request: %w'' [] e)
      | Inr seed \<Rightarrow>
     (case closed of
        Inl e \<Rightarrow> InternalError (Wrapf ''failed to close request body: %w'' [] e)
      | Inr _ \<Rightarrow>
     (case client of
        Inl e \<Rightarrow> InternalError (Wrapf ''failed to get Kubernetes client: %w'' [] e)
      | Inr _ \<Rightarrow>
          let errs = concat (map (\<lambda>name. case approveCSR updateApproval watch name of Inl e \<Rightarrow> [e] | Inr _ \<Rightarrow> []) (approvedCSRNames seed)) in
          if errs = [] then SyncResponse () else InternalError (Wrapf ''failed to approve worker node CSR: %w'' [] (firstError errs)))))"

section \<open>Refresh of the snap\<close>

record RefreshStatus =
  Rs_Status :: string
  Rs_Ready :: bool
  Rs_Err :: string

record snapdInfo =
  SI_StatusCode :: int
  SI_Revision :: string

record snapdOps =
  SD_newClient :: "unit res"
  SD_refreshStatus :: "string \<Rightarrow> RefreshStatus res"
  SD_snapInfo :: "string \<Rightarrow> snapdInfo res"

definition refreshCommand :: "Snap \<Rightarrow> RefreshOpts \<Rightarrow> string list res" where
  "refreshCommand s to =
     (if Refresh_Channel to \<noteq> [] then
        Inr [''snap'', ''refresh'', snapInstanceName s, ''--amend'', ''--channel'', Refresh_Channel to, ''--no-wait'']
      else if Refresh_Revision to \<noteq> [] then
        Inr [''snap'', ''refresh'', snapInstanceName s, ''--amend'', ''--revision'', Refresh_Revision to, ''--no-wait'']
      else if Refresh_LocalPath to \<noteq> [] then
        Inr [''snap'', ''install'', Refresh_LocalPath to, ''--classic'', ''--dangerous'', ''--name'', snapInstanceName s, ''--no-wait'']
      else Inl (Errorf ''empty refresh options'' []))"

text \<open>\<open>output\<close> is what a command prints.\<close>

definition Refresh ::
  "(string \<Rightarrow> string res) \<Rightarrow> (string list \<Rightarrow> string) \<Rightarrow> Snap \<Rightarrow> RefreshOpts \<Rightarrow> Host \<Rightarrow> (Host, string) step"
where
  "Refresh confinement output s to h =
     (if Strict confinement s h then (h, Inl (Errorf ''refresh operation not available on strictly confined deployments'' []))
      else
        (case refreshCommand s to of
           Inl e \<Rightarrow> (h, Inl e)
         | Inr cmd \<Rightarrow>
             tryStep (runCommand h cmd) ''failed to refresh snap: %w'' [] (\<lambda>h _. (h, Inr (TrimSpace (output cmd))))))"

definition RefreshStatus_of :: "snapdOps \<Rightarrow> (string \<Rightarrow> string res) \<Rightarrow> Snap \<Rightarrow> Host \<Rightarrow> string \<Rightarrow> RefreshStatus res" where
  "RefreshStatus_of ops confinement s h changeID =
     (if Strict confinement s h then Inl (Errorf ''refresh status operation not available on strictly confined deployments'' [])
      else
        (case SD_newClient ops of
           Inl e \<Rightarrow> Inl (Wrapf ''failed to create snapd client: %w'' [] e)
         | Inr _ \<Rightarrow>
             (case SD_refreshStatus ops changeID of
                Inl e \<Rightarrow> Inl (Wrapf ''failed to get snapd refresh status: %w'' [] e)
              | Inr status \<Rightarrow> Inr status)))"

definition postSnapRefresh ::
  "(string list \<Rightarrow> string list) \<Rightarrow> (string \<Rightarrow> string res) \<Rightarrow> (string list \<Rightarrow> string) \<Rightarrow> Snap \<Rightarrow> RefreshOpts res \<Rightarrow> Host \<Rightarrow> Host \<times> string response"
where
  "postSnapRefresh order confinement output s decoded h =
     orFail 400 ''failed to parse request: %w'' [] (h, decoded) (\<lambda>h req.
     orFail 400 ''invalid refresh options: %w'' [] (h, RefreshOptsFromAPI order req) (\<lambda>h refreshOpts.
     orFail 500 ''failed to refresh snap: %w'' [] (Refresh confinement output s refreshOpts h) (\<lambda>h changeID. (h, SyncResponse changeID))))"

definition postSnapRefreshStatus :: "snapdOps \<Rightarrow> (string \<Rightarrow> string res) \<Rightarrow> Snap \<Rightarrow> Host \<Rightarrow> string res \<Rightarrow> RefreshStatus response" where
  "postSnapRefreshStatus ops confinement s h decoded =
     (case decoded of
        Inl e \<Rightarrow> BadRequest (Wrapf ''failed to parse request: %w'' [] e)
      | Inr changeID \<Rightarrow>
          (case RefreshStatus_of ops confinement s h changeID of
             Inl e \<Rightarrow> InternalError (Wrapf ''failed to get snap refresh status: %w'' [] e)
           | Inr status \<Rightarrow> SyncResponse status))"

definition snap_Revision :: "snapdOps \<Rightarrow> Snap \<Rightarrow> string res" where
  "snap_Revision ops s =
     (case SD_newClient ops of
        Inl e \<Rightarrow> Inl (Wrapf ''failed to create snapd client: %w'' [] e)
      | Inr _ \<Rightarrow>
     (case SD_snapInfo ops (snapInstanceName s) of
        Inl e \<Rightarrow> Inl (Wrapf ''failed to get snap info: %w'' [] e)
      | Inr info \<Rightarrow>
          if SI_StatusCode info \<noteq> 200 then Inl (Errorf ''failed to get snap info: snapd returned with error code %d'' [Itoa (SI_StatusCode info)])
          else if SI_Revision info = [] then Inl (Errorf ''failed to get snap revision: got empty string'' [])
          else Inr (SI_Revision info)))"

text \<open>The bill of materials: the versions that \<open>json.Unmarshal\<close> finds in it, empty when the key is missing.\<close>

record bom =
  Bom_kubernetesVersion :: string
  Bom_k8sRevision :: string

definition NodeKubernetesVersion :: "(string \<Rightarrow> bom res) \<Rightarrow> (string \<Rightarrow> 'v res) \<Rightarrow> Snap \<Rightarrow> Host \<Rightarrow> 'v res" where
  "NodeKubernetesVersion unmarshal parse s h =
     (case ReadFile h (filepathJoin [snapDir s, ''bom.json'']) of
        Inl e \<Rightarrow> Inl (Wrapf ''failed to read bom.json: %w'' [] e)
      | Inr data \<Rightarrow>
     (case unmarshal data of
        Inl e \<Rightarrow> Inl (Wrapf ''failed to unmarshal bom.json: %w'' [] e)
      | Inr bom \<Rightarrow>
          let versionStr = Bom_kubernetesVersion bom in
          if versionStr = [] then Inl (Errorf ''kubernetes version not found in bom.json'' [])
          else (case parse versionStr of
                  Inl e \<Rightarrow> Inl (Wrapf ''failed to parse node Kubernetes version %q: %w'' [versionStr] e)
                | Inr v \<Rightarrow> Inr v)))"

section \<open>Pebble\<close>

definition NewPebble :: "string \<Rightarrow> string \<Rightarrow> string \<Rightarrow> string \<Rightarrow> Snap" where
  "NewPebble dir commonDir baseDir hostname =
     \<lparr>snapDir = dir, snapCommonDir = commonDir, snapInstanceName = [], containerdBaseDir = (if baseDir = [] then ''/'' else baseDir),
      Hostname = hostname, OnLXD = Inr True\<rparr>"

definition buildPebbleCommand :: "Snap \<Rightarrow> string \<Rightarrow> string list \<Rightarrow> string list \<Rightarrow> string list" where
  "buildPebbleCommand s subcommand names extraPebbleArgs =
     filepathJoin [snapDir s, ''bin'', ''pebble''] # subcommand # names @ extraPebbleArgs"

definition pebble_StartServices :: "Snap \<Rightarrow> Host \<Rightarrow> string list \<Rightarrow> string list \<Rightarrow> (Host, unit) step" where
  "pebble_StartServices s h names extra = runCommand h (buildPebbleCommand s ''start'' names extra)"

definition pebble_StopServices :: "Snap \<Rightarrow> Host \<Rightarrow> string list \<Rightarrow> string list \<Rightarrow> (Host, unit) step" where
  "pebble_StopServices s h names extra = runCommand h (buildPebbleCommand s ''stop'' names extra)"

definition pebble_RestartServices :: "Snap \<Rightarrow> Host \<Rightarrow> string list \<Rightarrow> string list \<Rightarrow> (Host, unit) step" where
  "pebble_RestartServices s h names extra = runCommand h (buildPebbleCommand s ''restart'' names extra)"

text \<open>
  A refresh is answered at once; the goroutine that replaces the binary and restarts the services, five seconds later, is
  \<open>pebble_replace\<close>, whose failures are logged only.
\<close>

definition pebble_Refresh :: "RefreshOpts \<Rightarrow> string res" where
  "pebble_Refresh to =
     (if Refresh_Revision to \<noteq> [] then Inl (Errorf ''pebble does not support refreshing to a revision, only a local path'' [])
      else if Refresh_Channel to \<noteq> [] then Inl (Errorf ''pebble does not support refreshing to a channel, only a local path'' [])
      else if Refresh_LocalPath to \<noteq> [] then Inr ''0''
      else Inl (Errorf ''empty refresh options'' []))"

definition pebble_replace :: "bool \<Rightarrow> Snap \<Rightarrow> RefreshOpts \<Rightarrow> Host \<Rightarrow> Host" where
  "pebble_replace ctxDone s to h =
     (if ctxDone then h
      else
        let h = fst (runCommand h [''cp'', ''-f'', Refresh_LocalPath to, filepathJoin [snapDir s, ''bin'', ''kubernetes'']]) in
        fst (pebble_RestartServices s h [''kube-apiserver'', ''kubelet'', ''kube-controller-manager'', ''kube-proxy'', ''kube-scheduler''] []))"

definition pebble_RefreshStatus :: RefreshStatus where
  "pebble_RefreshStatus = \<lparr>Rs_Status = ''Done'', Rs_Ready = True, Rs_Err = []\<rparr>"

definition pebble_Revision :: "(string \<Rightarrow> bom res) \<Rightarrow> Snap \<Rightarrow> Host \<Rightarrow> string res" where
  "pebble_Revision unmarshal s h =
     (case ReadFile h (filepathJoin [snapDir s, ''bom.json'']) of
        Inl e \<Rightarrow> Inl (Wrapf ''failed to read bom.json: %w'' [] e)
      | Inr data \<Rightarrow>
     (case unmarshal data of
        Inl e \<Rightarrow> Inl (Wrapf ''failed to unmarshal bom.json: %w'' [] e)
      | Inr bom \<Rightarrow> if Bom_k8sRevision bom = [] then Inl (Errorf ''k8s revision not found in bom.json'' []) else Inr (Bom_k8sRevision bom)))"

text \<open>Without snapd there is no configuration: the answer to a query is fixed, and a write does nothing.\<close>

definition pebble_SnapctlGet :: string where
  "pebble_SnapctlGet = ''{'' @ [CHR 34] @ ''meta'' @ [CHR 34] @ '': {'' @ [CHR 34] @ ''apiVersion'' @ [CHR 34] @ '': '' @ [CHR 34] @ ''1.30'' @ [CHR 34] @
     '', '' @ [CHR 34] @ ''orb'' @ [CHR 34] @ '': '' @ [CHR 34] @ ''none'' @ [CHR 34] @ ''}''"

definition pebble_SnapctlSet :: "string list \<Rightarrow> Host \<Rightarrow> (Host, unit) step" where
  "pebble_SnapctlSet args h = (h, ok)"

section \<open>Service managers\<close>

text \<open>
  What the callers rely on when they start, stop and restart services, whichever manager runs them: a call runs one command, which
  depends on the action and the names and names every service, touches no file, and fails exactly when the command does.
\<close>

locale serviceManager =
  fixes serviceCommand :: "string \<Rightarrow> string list \<Rightarrow> string list \<Rightarrow> string list"
    and start stop restart :: "Host \<Rightarrow> string list \<Rightarrow> string list \<Rightarrow> (Host, unit) step"
  assumes start_runs: "start h names extra = runCommand h (serviceCommand ''start'' names extra)"
    and stop_runs: "stop h names extra = runCommand h (serviceCommand ''stop'' names extra)"
    and restart_runs: "restart h names extra = runCommand h (serviceCommand ''restart'' names extra)"
    and named: "name \<in> set names \<Longrightarrow> \<exists>prefix. prefix @ name \<in> set (serviceCommand action names extra)"
begin

lemma restart_retried:
  assumes "0 < n"
  shows "(\<exists>m \<le> n. H_cmds (fst (RetryFor cd n (\<lambda>h. restart h names extra) h)) = H_cmds h @ replicate m (serviceCommand ''restart'' names extra)) \<and>
    (snd (RetryFor cd n (\<lambda>h. restart h names extra) h) = ok \<longleftrightarrow>
      (\<exists>k < n. H_cmdFault h (length (H_cmds h) + k) (serviceCommand ''restart'' names extra) = None \<and>
        (\<forall>j < k. H_cmdFault h (length (H_cmds h) + j) (serviceCommand ''restart'' names extra) \<noteq> None \<and> \<not> cd j)))"
  unfolding restart_runs using assms by (rule RetryFor_command)

lemma stop_start:
  "H_cmdFault h = (\<lambda>_ _. None) \<Longrightarrow> start (fst (stop h names extra)) names extra =
     (h\<lparr>H_cmds := H_cmds h @ [serviceCommand ''stop'' names extra, serviceCommand ''start'' names extra]\<rparr>, ok)"
  by (simp add: start_runs stop_runs runCommand_def)

end

text \<open>The snap also enables what it starts and disables what it stops.\<close>

definition snapServiceCommand :: "string \<Rightarrow> string list \<Rightarrow> string list \<Rightarrow> string list" where
  "snapServiceCommand action names extra =
     buildServiceCommand action names
       ((if action = ''start'' then [''--enable''] else if action = ''stop'' then [''--disable''] else []) @ extra)"

interpretation snapServices: serviceManager snapServiceCommand StartServices StopServices RestartServices
proof unfold_locales
  show "\<exists>prefix. prefix @ name \<in> set (snapServiceCommand action names extra)" if "name \<in> set names" for name names action extra
  proof -
    have "\<exists>prefix. prefix @ name = serviceName name" by (auto simp: serviceName_def intro: exI [of _ "[]"])
    then obtain prefix where "prefix @ name = serviceName name" by blast
    then show ?thesis using that by (intro exI [of _ prefix]) (auto simp: snapServiceCommand_def buildServiceCommand_def)
  qed
qed (simp_all add: StartServices_def StopServices_def RestartServices_def snapServiceCommand_def)

interpretation pebbleServices: serviceManager "buildPebbleCommand s" "pebble_StartServices s" "pebble_StopServices s" "pebble_RestartServices s" for s
  by unfold_locales (auto simp: pebble_StartServices_def pebble_StopServices_def pebble_RestartServices_def buildPebbleCommand_def intro: exI [of _ "[]"])

section \<open>Requests reach their hooks\<close>

text \<open>
  C37: A request to join reaches the hook that fits its token. A worker token makes the node bootstrap as a worker, with the token and the
  configuration of the request; any other token makes it join as a control plane node, with the configuration of the request in its
  join configuration. A node that is already part of a cluster is refused and nothing changes but the answer of the status call.
\<close>

theorem join_request_dispatch:
  assumes r: "postClusterJoin ops d tj yamlBaseDir z (Inr req) st = (st', SyncResponse ())"
    and codec: "\<forall>t. parseDuration d (durationString d t) = Inr t"
  shows "\<exists>hostname m cfg. CleanHostname z (JR_Name req) = Inr hostname \<and> CL_status ops (QS_cluster st) = (m, Inr False) \<and>
    MicroclusterTimeoutFromMap d cfg = JR_Timeout req \<and>
    (if is_ok (Token_Decode tj (JR_Token req))
     then CL_new ops hostname (JR_Address req) cfg m = (QS_cluster st', ok) \<and>
       onBootstrap env net tj dec cfg w =
         tryStep (w, MicroclusterWorkerJoinConfigFromMap dec [(''workerJoinConfig'', JR_Config req)]) ''failed to unmarshal worker join config: %w'' []
           (\<lambda>w a. onBootstrapWorkerNode env net tj (JR_Token req) a w)
     else CL_join ops hostname (JR_Address req) (JR_Token req) cfg m = (QS_cluster st', ok) \<and>
       MicroclusterControlPlaneJoinConfigFromMap dec cfg =
         MicroclusterControlPlaneJoinConfigFromMap dec [(''controlPlaneJoinConfig'', JR_Config req)])"
proof -
  obtain hostname where hostname: "CleanHostname z (JR_Name req) = Inr hostname"
    using r by (cases "CleanHostname z (JR_Name req)") (auto simp: postClusterJoin_def)
  obtain m q where m: "CL_status ops (QS_cluster st) = (m, q)" by fastforce
  have q: "q = Inr False" using r by (cases q) (auto simp: postClusterJoin_def hostname onCluster_def m split: if_splits)
  obtain baseDir where base: "yamlBaseDir (JR_Config req) = Inr baseDir"
    using r by (cases "yamlBaseDir (JR_Config req)") (auto simp: postClusterJoin_def hostname onCluster_def m q)
  have cluster: "QS_cluster (SetContainerdBaseDir b s0) = QS_cluster s0" for b and s0 :: "'a requestState"
    by (simp add: SetContainerdBaseDir_def)
  let ?t = "MicroclusterMapWithTimeout d (Some []) (JR_Timeout req)"
  have timeout: "MicroclusterTimeoutFromMap d (made (MicroclusterMapWithWorkerJoinConfig ?t a b)) = JR_Timeout req"
    "MicroclusterTimeoutFromMap d (made (MicroclusterMapWithControlPlaneJoinConfig ?t a)) = JR_Timeout req" for a b
    using codec by (simp_all add: MicroclusterTimeoutFromMap_def MicroclusterMapWithWorkerJoinConfig_def
        MicroclusterMapWithControlPlaneJoinConfig_def MicroclusterMapWithTimeout_def update_conv')
  show ?thesis
  proof (cases "is_ok (Token_Decode tj (JR_Token req))")
    case True
    let ?cfg = "made (MicroclusterMapWithWorkerJoinConfig ?t (JR_Token req) (JR_Config req))"
    have "CL_new ops hostname (JR_Address req) ?cfg m = (QS_cluster st', ok)"
      using r True base by (auto simp: postClusterJoin_def hostname onCluster_def m q Let_def orFail_def cluster split: prod.splits sum.splits if_splits)
    moreover have "onBootstrap env net tj dec ?cfg w =
        tryStep (w, MicroclusterWorkerJoinConfigFromMap dec [(''workerJoinConfig'', JR_Config req)]) ''failed to unmarshal worker join config: %w'' []
          (\<lambda>w a. onBootstrapWorkerNode env net tj (JR_Token req) a w)"
      by (simp add: onBootstrap_def MicroclusterMapWithWorkerJoinConfig_def update_conv' MicroclusterWorkerJoinConfigFromMap_def)
    ultimately show ?thesis using True hostname m q timeout(1) by (intro exI [of _ hostname] exI [of _ m] exI [of _ ?cfg]) simp
  next
    case False
    let ?cfg = "made (MicroclusterMapWithControlPlaneJoinConfig ?t (JR_Config req))"
    have "CL_join ops hostname (JR_Address req) (JR_Token req) ?cfg m = (QS_cluster st', ok)"
      using r False base by (auto simp: postClusterJoin_def hostname onCluster_def m q Let_def orFail_def cluster split: prod.splits sum.splits if_splits)
    then show ?thesis using False hostname m q timeout(2)
      by (intro exI [of _ hostname] exI [of _ m] exI [of _ ?cfg])
        (simp add: MicroclusterControlPlaneJoinConfigFromMap_def MicroclusterMapWithControlPlaneJoinConfig_def update_conv')
  qed
qed

text \<open>
  A request to bootstrap reaches the hook as it was sent: the configuration decodes to that of the request and the node does
  not become a worker.
\<close>

theorem bootstrap_request_delivered:
  fixes env :: "'k hookEnv"
  assumes r: "postClusterBootstrap ops d marshal z (Inr req) st = (st', SyncResponse res)"
    and codec: "\<forall>t. parseDuration d (durationString d t) = Inr t"
    and json: "\<forall>b. marshal (BR_Config req) = Inr b \<longrightarrow> decodeBootstrap dec b = Inr (config, args)"
  shows "\<exists>hostname m cfg. CleanHostname z (BR_Name req) = Inr hostname \<and> CL_status ops (QS_cluster st) = (m, Inr False) \<and>
    CL_new ops hostname (BR_Address req) cfg m = (QS_cluster st', ok) \<and> res = (hostname, BR_Address req) \<and>
    MicroclusterTimeoutFromMap d cfg = BR_Timeout req \<and> onBootstrap env net tj dec cfg w = onBootstrapControlPlane env config args w"
proof -
  obtain b where b: "marshal (BR_Config req) = Inr b"
    using r by (cases "marshal (BR_Config req)") (auto simp: postClusterBootstrap_def MicroclusterMapWithBootstrapConfig_def)
  obtain hostname where hostname: "CleanHostname z (BR_Name req) = Inr hostname"
    using r by (cases "CleanHostname z (BR_Name req)") (auto simp: postClusterBootstrap_def MicroclusterMapWithBootstrapConfig_def b)
  obtain m q where m: "CL_status ops (QS_cluster st) = (m, q)" by fastforce
  have q: "q = Inr False"
    using r by (cases q) (auto simp: postClusterBootstrap_def MicroclusterMapWithBootstrapConfig_def b hostname onCluster_def m split: if_splits)
  let ?cfg = "made (MicroclusterMapWithTimeout d (Some [(''bootstrapConfig'', b)]) (BR_Timeout req))"
  have "CL_new ops hostname (BR_Address req) ?cfg m = (QS_cluster st', ok)" "res = (hostname, BR_Address req)"
    using r by (auto simp: postClusterBootstrap_def MicroclusterMapWithBootstrapConfig_def b hostname onCluster_def m q Let_def orFail_def
        SetContainerdBaseDir_def split: prod.splits sum.splits if_splits)
  moreover have "MicroclusterTimeoutFromMap d ?cfg = BR_Timeout req"
    using codec by (simp add: MicroclusterTimeoutFromMap_def MicroclusterMapWithTimeout_def)
  moreover have "onBootstrap env net tj dec ?cfg w = onBootstrapControlPlane env config args w"
    using json b by (simp add: onBootstrap_def MicroclusterMapWithTimeout_def MicroclusterBootstrapConfigFromMap_def)
  ultimately show ?thesis using hostname m q by (intro exI [of _ hostname] exI [of _ m] exI [of _ ?cfg]) simp
qed

section \<open>What a refresh runs\<close>

lemma onlyOneSet_count: "onlyOneSet vs b \<longleftrightarrow> length (filter (\<lambda>v. v \<noteq> []) vs) + (if b then 1 else 0) \<le> 1"
  by (induction vs b rule: onlyOneSet.induct) auto

abbreviation targets :: "RefreshOpts \<Rightarrow> string list" where
  "targets req \<equiv> filter (\<lambda>v. v \<noteq> []) [Refresh_LocalPath req, Refresh_Channel req, Refresh_Revision req]"

lemma RefreshOptsFromAPI_iff:
  assumes "\<forall>vs. mset (order vs) = mset vs"
  shows "RefreshOptsFromAPI order req = Inr opts \<longleftrightarrow> length (targets req) = 1 \<and> opts = req"
proof -
  have "mset (filter (\<lambda>v. v \<noteq> []) (order vs)) = mset (filter (\<lambda>v. v \<noteq> []) vs)" for vs :: "string list" using assms by simp
  then have "length (filter (\<lambda>v. v \<noteq> []) (order vs)) = length (filter (\<lambda>v. v \<noteq> []) vs)" for vs :: "string list" by (metis size_mset)
  then show ?thesis unfolding RefreshOptsFromAPI_def onlyOneSet_count
    by (cases req) (auto simp: noRefreshOpts_def)
qed

text \<open>
  A request to refresh the snap runs one command, for the one target that it names, and answers with the change that the command
  started; it runs nothing on a strictly confined node, nor when it names no target or several. The order in which Go visits the
  options does not matter.
\<close>

theorem snap_refresh_runs_target:
  assumes order: "\<forall>vs. mset (order vs) = mset vs" and r: "postSnapRefresh order confinement output s (Inr req) h = (h', res)"
  shows "if length (targets req) = 1 \<and> \<not> Strict confinement s h
    then \<exists>cmd. refreshCommand s req = Inr cmd \<and> hd (targets req) \<in> set cmd \<and> H_cmds h' = H_cmds h @ [cmd] \<and>
      (case res of SyncResponse changeID \<Rightarrow> changeID = TrimSpace (output cmd) \<and> H_cmdFault h (length (H_cmds h)) cmd = None
       | ErrorResponse code _ \<Rightarrow> code = 500 \<and> H_cmdFault h (length (H_cmds h)) cmd \<noteq> None)
    else h' = h \<and> (\<exists>code e. res = ErrorResponse code e)"
proof (cases "length (targets req) = 1")
  case True
  then have opts: "RefreshOptsFromAPI order req = Inr req" using RefreshOptsFromAPI_iff [OF order] by simp
  obtain cmd where "refreshCommand s req = Inr cmd" "hd (targets req) \<in> set cmd"
    using True by (cases req) (auto simp: refreshCommand_def split: if_splits)
  then show ?thesis using r opts True
    by (auto simp: postSnapRefresh_def Refresh_def runCommand_def split: option.splits)
next
  case False
  then have "\<not> is_ok (RefreshOptsFromAPI order req)" using RefreshOptsFromAPI_iff [OF order, of req] by (cases "RefreshOptsFromAPI order req") auto
  then show ?thesis using r False by (cases "RefreshOptsFromAPI order req") (auto simp: postSnapRefresh_def)
qed

section \<open>Approvals fit the requests\<close>

text \<open>
  The requests that the Cluster API provider approves are those that a worker creates for the same seed, and an approved
  request counts as approved for the worker that waits for it.
\<close>

theorem approvals_fit_requests:
  "approvedCSRNames seed = map (\<lambda>(_, d). csrObjectName seed d) (getWorkerCSRDefinitions hostname)"
  by (simp add: approvedCSRNames_def getWorkerCSRDefinitions_def csrObjectName_def)

lemma flagConditions_append: "flagConditions (cs @ ds) f = flagConditions ds (flagConditions cs f)"
  by (induction cs f rule: flagConditions.induct) (auto split: RequestConditionType.splits)

lemma watchEvents_result:
  "watchCertificateSigningRequestEvents name verify es = WatchResult (Inr r) \<Longrightarrow> \<exists>csr. verify csr = Inr (Some r)"
  by (induction name verify es rule: watchCertificateSigningRequestEvents.induct) (auto split: sum.splits option.splits)

lemma WatchCertificateSigningRequest_result:
  "WatchCertificateSigningRequest name verify ws = Inr r \<Longrightarrow> \<exists>csr. verify csr = Inr (Some r)"
  by (induction name verify ws rule: WatchCertificateSigningRequest.induct)
    (auto split: watchEnd.splits sum.splits dest: watchEvents_result)

theorem approveCSR_approves:
  assumes "approveCSR updateApproval watch name = Inr csr"
  shows "updateApproval name csr = Inr () \<and> (\<exists>old. csr = old\<lparr>Status_Conditions := Status_Conditions old @ [approvedByCAPI]\<rparr>) \<and>
    Fl_approved (flagConditions (Status_Conditions csr) \<lparr>Fl_approved = False, Fl_failed = None, Fl_denied = None\<rparr>)"
  using assms
  by (auto simp: approveCSR_def flagConditions_append approvedByCAPI_def Let_def split: sum.splits
      dest!: WatchCertificateSigningRequest_result)

text \<open>The answer of pebble to a query is not JSON: its outer object is never closed.\<close>

theorem pebble_meta_unclosed:
  "count_list pebble_SnapctlGet (CHR ''{'') = 2 \<and> count_list pebble_SnapctlGet (CHR ''}'') = 1"
  by (simp add: pebble_SnapctlGet_def)

section \<open>Sample requests\<close>

definition sampleDurations :: durations where
  "sampleDurations = \<lparr>durationString = (\<lambda>t. replicate (nat \<bar>t\<bar>) (if t < 0 then CHR ''-'' else CHR ''s'')),
     parseDuration = (\<lambda>s. Inr (if hd (s @ ''s'') = CHR ''-'' then - int (length s) else int (length s)))\<rparr>"

lemma sampleDurations_codec: "parseDuration sampleDurations (durationString sampleDurations t) = Inr t"
  by (cases "nat \<bar>t\<bar>") (auto simp: sampleDurations_def)

definition sampleClusterOps :: "string list clusterOps" where
  "sampleClusterOps = \<lparr>CL_status = (\<lambda>m. (m, Inr (m \<noteq> []))), CL_new = (\<lambda>name _ _ m. (m @ [''new '' @ name], ok)),
     CL_join = (\<lambda>name _ token _ m. (m @ [''join '' @ name @ '' '' @ token], ok))\<rparr>"

definition sampleJoinRequest :: JoinRequest where
  "sampleJoinRequest = \<lparr>JR_Name = ''n2'', JR_Address = ''10.0.0.2:6400'', JR_Token = ''token'', JR_Config = [], JR_Timeout = 90\<rparr>"

definition noTokens :: tokenJson where
  "noTokens = \<lparr>tokenMarshal = (\<lambda>_. Inr []), tokenUnmarshal = (\<lambda>_. Inl ErrNotFound)\<rparr>"

lemma noTokens_decode: "\<not> is_ok (Token_Decode noTokens t)"
  by (simp add: Token_Decode_def noTokens_def split: sum.split)

theorem join_request_dispatch_witness:
  "\<exists>hostname m cfg st'. postClusterJoin sampleClusterOps sampleDurations noTokens (\<lambda>_. Inr []) sampleCSRCrypto (Inr sampleJoinRequest)
       \<lparr>QS_cluster = [], QS_snap = sampleSnap\<rparr> = (st', SyncResponse ()) \<and>
     CL_join sampleClusterOps hostname ''10.0.0.2:6400'' ''token'' cfg m = (QS_cluster st', ok) \<and>
     MicroclusterTimeoutFromMap sampleDurations cfg = 90"
proof -
  obtain hostname where hostname: "CleanHostname sampleCSRCrypto ''n2'' = Inr hostname"
    by (simp add: CleanHostname_def sampleCSRCrypto_def HasSuffix_def)
  obtain st' where r: "postClusterJoin sampleClusterOps sampleDurations noTokens (\<lambda>_. Inr []) sampleCSRCrypto (Inr sampleJoinRequest)
       \<lparr>QS_cluster = [], QS_snap = sampleSnap\<rparr> = (st', SyncResponse ())"
    by (simp add: postClusterJoin_def sampleJoinRequest_def hostname onCluster_def sampleClusterOps_def noTokens_decode Let_def)
  have "\<forall>t. parseDuration sampleDurations (durationString sampleDurations t) = Inr t" by (simp add: sampleDurations_codec)
  from join_request_dispatch [OF r this, where dec = sampleDecoders] show ?thesis using r noTokens_decode by (auto simp: sampleJoinRequest_def)
qed

theorem snap_refresh_runs_target_witness:
  "let req = noRefreshOpts\<lparr>Refresh_Channel := ''1.34-classic/stable''\<rparr>;
       (h', res) = postSnapRefresh rev (\<lambda>_. Inr ''classic'') (\<lambda>_. '' 42'') sampleSnap (Inr req) emptyHost in
   H_cmds h' = [[''snap'', ''refresh'', ''k8s'', ''--amend'', ''--channel'', ''1.34-classic/stable'', ''--no-wait'']] \<and> res = SyncResponse ''42''"
proof -
  let ?req = "noRefreshOpts\<lparr>Refresh_Channel := ''1.34-classic/stable''\<rparr>"
  obtain h' res where r: "postSnapRefresh rev (\<lambda>_. Inr ''classic'') (\<lambda>_. '' 42'') sampleSnap (Inr ?req) emptyHost = (h', res)" by fastforce
  have "\<forall>vs :: string list. mset (rev vs) = mset vs" by simp
  note run = snap_refresh_runs_target [OF this r]
  have strict: "\<not> Strict (\<lambda>_. Inr ''classic'') sampleSnap emptyHost" by (simp add: Strict_def split: sum.split)
  have targets: "targets ?req = [''1.34-classic/stable'']" by (simp add: noRefreshOpts_def)
  have cmd: "refreshCommand sampleSnap ?req = Inr [''snap'', ''refresh'', ''k8s'', ''--amend'', ''--channel'', ''1.34-classic/stable'', ''--no-wait'']"
    by (simp add: refreshCommand_def noRefreshOpts_def sampleSnap_def NewSnap_def)
  have trimmed: "TrimSpace '' 42'' = ''42''" by code_simp
  have host: "H_cmds emptyHost = []" "H_cmdFault emptyHost = (\<lambda>_ _. None)" by (simp_all add: emptyHost_def)
  from run strict have "H_cmds h' = [[''snap'', ''refresh'', ''k8s'', ''--amend'', ''--channel'', ''1.34-classic/stable'', ''--no-wait'']] \<and>
      (case res of SyncResponse changeID \<Rightarrow> changeID = ''42'' | ErrorResponse _ _ \<Rightarrow> False)"
    unfolding targets cmd host trimmed by (auto split: response.splits)
  then show ?thesis unfolding Let_def r by (auto split: response.splits)
qed

end
