(* ===== verification/Proxy.thy ===== *)
theory Proxy
  imports ServiceSetup KubeClient
begin

text \<open>
  The API server proxy of worker nodes (\<open>pkg/proxy\<close>, \<open>cmd/k8s-apiserver-proxy\<close>). A proxy keeps one \<open>remote\<close> for every
  known API server; a connection is handed to the remote that \<open>pick\<close> chooses, one that does not answer is put aside, and
  a monitor tries those again. The list of API servers is a file that a watcher replaces when the cluster reports another list;
  the proxy is then started again.

  The random numbers of a pick are an argument: \<open>intn k n\<close> is the result of the \<open>k\<close>-th call in that pick, \<open>rand.Intn(n)\<close>. Dialling
  is an argument too: \<open>dial k addr\<close> is the outcome of the \<open>k\<close>-th attempt. Copying bytes between the two
  connections is left to \<open>io.Copy\<close>. Remotes are named by their position, since they are pointers in the source. Locks are
  not modelled: a pick, the mark of a failed remote and the result of a reactivation are each one step.
\<close>

section \<open>Remotes\<close>

record SRV =
  SRV_Target :: string
  SRV_Port :: "16 word"
  SRV_Priority :: "16 word"
  SRV_Weight :: "16 word"

record remote =
  R_srv :: SRV
  R_addr :: string
  R_inactive :: bool

record tcpproxy =
  T_Endpoints :: "SRV list"
  T_MonitorInterval :: int
  T_remotes :: "remote list"
  T_pickCount :: nat

definition isActive :: "tcpproxy \<Rightarrow> nat \<Rightarrow> bool" where
  "isActive tp i \<longleftrightarrow> \<not> R_inactive (T_remotes tp ! i)"

definition setInactive :: "bool \<Rightarrow> nat \<Rightarrow> tcpproxy \<Rightarrow> tcpproxy" where
  "setInactive b i tp = tp\<lparr>T_remotes := (T_remotes tp)[i := (T_remotes tp ! i)\<lparr>R_inactive := b\<rparr>]\<rparr>"

definition inactivate :: "nat \<Rightarrow> tcpproxy \<Rightarrow> tcpproxy" where
  "inactivate i tp = setInactive True i tp"

text \<open>The outcome of \<open>connect\<close> for the address of a remote.\<close>

definition connect :: "(string \<Rightarrow> unit res) \<Rightarrow> remote \<Rightarrow> unit res" where
  "connect dial r =
     (case dial (R_addr r) of Inl e \<Rightarrow> Inl (Wrapf ''failed to establish tcp connection: %w'' [] e) | Inr _ \<Rightarrow> ok)"

definition tryReactivate :: "(string \<Rightarrow> unit res) \<Rightarrow> nat \<Rightarrow> tcpproxy \<Rightarrow> (tcpproxy, unit) step" where
  "tryReactivate dial i tp =
     (case connect dial (T_remotes tp ! i) of Inl e \<Rightarrow> (tp, Inl e) | Inr _ \<Rightarrow> (setInactive False i tp, ok))"

text \<open>The remotes that \<open>Run\<close> makes of the endpoints; \<open>net.ParseIP\<close> returns \<open>nil\<close> for what is not an address.\<close>

definition remoteAddr :: "SRV \<Rightarrow> string" where
  "remoteAddr srv =
     ToIPString (case ParseIP (SRV_Target srv) of Some ip \<Rightarrow> ip | None \<Rightarrow> []) @ '':'' @ natToString (unat (SRV_Port srv))"

definition monitorDefault :: int where "monitorDefault = 5 * 60 * 10 ^ 9"

definition proxyRun :: "tcpproxy \<Rightarrow> tcpproxy" where
  "proxyRun tp = tp\<lparr>
     T_MonitorInterval := (if T_MonitorInterval tp = 0 then monitorDefault else T_MonitorInterval tp),
     T_remotes := T_remotes tp @ map (\<lambda>srv. \<lparr>R_srv = srv, R_addr = remoteAddr srv, R_inactive = False\<rparr>) (T_Endpoints tp)\<rparr>"

section \<open>Picking a remote\<close>

text \<open>The state of the loop: the best priority, the sum of the weights, the weighted and the unweighted remotes.\<close>

type_synonym classes = "16 word \<times> nat \<times> nat list \<times> nat list"

abbreviation weightOf :: "tcpproxy \<Rightarrow> nat \<Rightarrow> 16 word" where
  "weightOf tp i \<equiv> SRV_Weight (R_srv (T_remotes tp ! i))"

abbreviation priorityOf :: "tcpproxy \<Rightarrow> nat \<Rightarrow> 16 word" where
  "priorityOf tp i \<equiv> SRV_Priority (R_srv (T_remotes tp ! i))"

fun addRemote :: "tcpproxy \<Rightarrow> nat \<Rightarrow> classes \<Rightarrow> classes" where
  "addRemote tp i (bestPr, w, weighted, unweighted) =
     (if 0 < weightOf tp i then (bestPr, w + unat (weightOf tp i), weighted @ [i], unweighted)
      else (bestPr, w, weighted, unweighted @ [i]))"

fun classify :: "tcpproxy \<Rightarrow> classes \<Rightarrow> nat \<Rightarrow> classes" where
  "classify tp (bestPr, w, weighted, unweighted) i =
     (if \<not> isActive tp i then (bestPr, w, weighted, unweighted)
      else if priorityOf tp i < bestPr then addRemote tp i (priorityOf tp i, 0, [], [])
      else if priorityOf tp i = bestPr then addRemote tp i (bestPr, w, weighted, unweighted)
      else (bestPr, w, weighted, unweighted))"

definition bestClass :: "tcpproxy \<Rightarrow> classes" where
  "bestClass tp = foldl (classify tp) (65535, 0, [], []) [0..<length (T_remotes tp)]"

fun chooseWeighted :: "tcpproxy \<Rightarrow> int \<Rightarrow> nat list \<Rightarrow> nat option" where
  "chooseWeighted tp chosen [] = None"
| "chooseWeighted tp chosen (i # weighted) =
     (let chosen = chosen - uint (weightOf tp i) in
      if chosen \<le> 0 then Some i else chooseWeighted tp chosen weighted)"

definition countPick :: "tcpproxy \<Rightarrow> tcpproxy" where
  "countPick tp = tp\<lparr>T_pickCount := T_pickCount tp + 1\<rparr>"

text \<open>The loop over as many remotes as there are, from the counter on.\<close>

fun nextActive :: "nat \<Rightarrow> tcpproxy \<Rightarrow> tcpproxy \<times> nat option" where
  "nextActive 0 tp = (tp, None)"
| "nextActive (Suc n) tp =
     (let picked = T_pickCount tp mod length (T_remotes tp) in
      if isActive tp picked then (countPick tp, Some picked) else nextActive n (countPick tp))"

definition pickUnweighted :: "nat list \<Rightarrow> tcpproxy \<Rightarrow> tcpproxy \<times> nat option" where
  "pickUnweighted unweighted tp =
     (if unweighted \<noteq> [] then nextActive (length (T_remotes tp)) tp else (tp, None))"

definition pick :: "(nat \<Rightarrow> nat \<Rightarrow> nat) \<Rightarrow> tcpproxy \<Rightarrow> tcpproxy \<times> nat option" where
  "pick intn tp =
     (case bestClass tp of
        (bestPr, w, weighted, unweighted) \<Rightarrow>
          if weighted \<noteq> [] then
            if unweighted \<noteq> [] \<and> intn 0 100 = 1
            then (countPick tp, Some (unweighted ! (T_pickCount tp mod length unweighted)))
            else
              (case chooseWeighted tp (int (intn 1 w)) weighted of
                 Some i \<Rightarrow> (tp, Some i)
               | None \<Rightarrow> pickUnweighted unweighted tp)
          else pickUnweighted unweighted tp)"

subsection \<open>What is picked\<close>

lemma isActive_cong [simp]: "isActive (tp\<lparr>T_pickCount := n\<rparr>) = isActive tp"
  by (rule ext) (simp add: isActive_def)

lemma countPick_simps [simp]:
  "T_remotes (countPick tp) = T_remotes tp" "T_pickCount (countPick tp) = Suc (T_pickCount tp)"
  "isActive (countPick tp) = isActive tp"
  by (simp_all add: countPick_def)

text \<open>What holds of the classes after the remotes of \<open>I\<close> were seen.\<close>

fun classOk :: "tcpproxy \<Rightarrow> nat list \<Rightarrow> classes \<Rightarrow> bool" where
  "classOk tp I (bestPr, w, weighted, unweighted) \<longleftrightarrow>
     set (weighted @ unweighted) \<subseteq> {i \<in> set I. isActive tp i \<and> priorityOf tp i = bestPr} \<and>
     (\<forall>i \<in> set I. isActive tp i \<longrightarrow> bestPr \<le> priorityOf tp i \<and> weighted @ unweighted \<noteq> []) \<and>
     (weighted @ unweighted = [] \<longrightarrow> bestPr = 65535) \<and>
     w = sum_list (map (\<lambda>i. unat (weightOf tp i)) weighted)"

lemma word16_max: "(p :: 16 word) \<le> 65535"
proof -
  have "uint p \<le> 65535" using uint_lt2p [of p] by simp
  then show ?thesis by (simp add: word_le_def)
qed

lemma classify_ok:
  assumes "classOk tp I acc"
  shows "classOk tp (I @ [i]) (classify tp acc i)"
proof -
  obtain p w ws us where [simp]: "acc = (p, w, ws, us)" by (cases acc)
  consider "\<not> isActive tp i" | "isActive tp i" "priorityOf tp i < p" | "isActive tp i" "priorityOf tp i = p"
    | "isActive tp i" "p < priorityOf tp i" using less_linear by blast
  then show ?thesis
  proof cases
    case 1
    then show ?thesis using assms by auto
  next
    case 2
    then show ?thesis using assms by (auto simp: word_gt_0 order.strict_trans2 dest: less_imp_le)
  next
    case 3
    then show ?thesis using assms by (auto simp: word_gt_0)
  next
    case 4
    then have "ws @ us \<noteq> []" using assms word16_max [of "priorityOf tp i"] by auto
    then show ?thesis using 4 assms by auto
  qed
qed

lemma bestClass_ok: "classOk tp [0..<length (T_remotes tp)] (bestClass tp)"
proof -
  have "classOk tp [0..<n] (foldl (classify tp) (65535, 0, [], []) [0..<n])" for n
  proof (induction n)
    case (Suc n)
    then show ?case using classify_ok by simp
  qed simp
  then show ?thesis by (simp add: bestClass_def)
qed

fun positiveSum :: "classes \<Rightarrow> bool" where
  "positiveSum (bestPr, w, weighted, unweighted) \<longleftrightarrow> (weighted \<noteq> [] \<longrightarrow> 0 < w)"

lemma classify_positive: "positiveSum acc \<Longrightarrow> positiveSum (classify tp acc i)"
  by (cases acc) (simp add: unat_gt_0 word_neq_0_conv)

lemma bestClass_positive: "bestClass tp = (p, w, ws, us) \<Longrightarrow> ws \<noteq> [] \<Longrightarrow> 0 < w"
proof -
  have "positiveSum acc \<Longrightarrow> positiveSum (foldl (classify tp) acc xs)" for acc xs
    by (induction xs arbitrary: acc) (simp_all add: classify_positive)
  then have "positiveSum (bestClass tp)" by (simp add: bestClass_def)
  then show "bestClass tp = (p, w, ws, us) \<Longrightarrow> ws \<noteq> [] \<Longrightarrow> 0 < w" by simp
qed

lemma chooseWeighted_in: "chooseWeighted tp c ws = Some i \<Longrightarrow> i \<in> set ws"
  by (induction tp c ws rule: chooseWeighted.induct) (auto simp: Let_def split: if_splits)

lemma chooseWeighted_total:
  "ws \<noteq> [] \<Longrightarrow> c \<le> int (sum_list (map (\<lambda>i. unat (weightOf tp i)) ws)) \<Longrightarrow> \<exists>i. chooseWeighted tp c ws = Some i"
proof (induction tp c ws rule: chooseWeighted.induct)
  case (2 tp c i ws)
  let ?c = "c - uint (weightOf tp i)"
  show ?case
  proof (cases "?c \<le> 0")
    case False
    have le: "?c \<le> int (sum_list (map (\<lambda>i. unat (weightOf tp i)) ws))"
      using 2(3) by simp
    with False have "ws \<noteq> []" by auto
    then show ?thesis using 2(1) [OF refl False] le False by (simp add: Let_def)
  qed (simp add: Let_def)
qed simp

lemma nextActive_Some:
  "nextActive n tp = (tp', Some i) \<Longrightarrow> isActive tp i \<and> (T_remotes tp \<noteq> [] \<longrightarrow> i < length (T_remotes tp))"
  by (induction n tp rule: nextActive.induct) (auto simp: Let_def split: if_splits)

lemma nextActive_frame:
  "nextActive n tp = (tp', r) \<Longrightarrow> T_remotes tp' = T_remotes tp \<and> isActive tp' = isActive tp"
  by (induction n tp rule: nextActive.induct) (auto simp: Let_def split: if_splits)

lemma nextActive_None:
  "nextActive n tp = (tp', None) \<Longrightarrow> k < n \<Longrightarrow> \<not> isActive tp ((T_pickCount tp + k) mod length (T_remotes tp))"
proof (induction n tp arbitrary: k rule: nextActive.induct)
  case (2 n tp)
  then show ?case by (cases k) (auto simp: Let_def split: if_splits)
qed simp

lemma rotation_reaches:
  assumes "j < (n :: nat)"
  obtains k where "k < n" "(c + k) mod n = j"
proof
  let ?k = "(j + (n - c mod n)) mod n"
  show "?k < n" using assms by simp
  have "(c + ?k) mod n = (c + (j + (n - c mod n))) mod n" by (rule mod_add_right_eq)
  also have "c + (j + (n - c mod n)) = n * (c div n) + (j + n)"
    using assms mod_less_divisor [of n c] mult_div_mod_eq [of n c] by linarith
  also have "(n * (c div n) + (j + n)) mod n = j mod n" by simp
  finally show "(c + ?k) mod n = j" using assms by simp
qed

lemma nextActive_total:
  assumes "j < length (T_remotes tp)" "isActive tp j"
  shows "\<exists>i. snd (nextActive (length (T_remotes tp)) tp) = Some i"
proof (rule ccontr)
  assume "\<not> ?thesis"
  then obtain tp' where n: "nextActive (length (T_remotes tp)) tp = (tp', None)"
    by (cases "nextActive (length (T_remotes tp)) tp") auto
  obtain k where "k < length (T_remotes tp)" "(T_pickCount tp + k) mod length (T_remotes tp) = j"
    using rotation_reaches assms(1) by blast
  then show False using nextActive_None [OF n] assms(2) by blast
qed

text \<open>A pick returns an active remote, whatever the random numbers are, and changes only the counter.\<close>

lemma pick_Some:
  assumes "pick intn tp = (tp', Some i)"
  shows "i < length (T_remotes tp)" "isActive tp i"
proof -
  obtain p w ws us where c: "bestClass tp = (p, w, ws, us)" by (cases "bestClass tp")
  have mem: "set (ws @ us) \<subseteq> {i. i < length (T_remotes tp) \<and> isActive tp i}"
    using bestClass_ok [of tp] c by auto
  have us: "us \<noteq> [] \<Longrightarrow> us ! (T_pickCount tp mod length us) \<in> set us" by simp
  have nxt: "pickUnweighted us tp = (tp', Some i) \<Longrightarrow> i < length (T_remotes tp) \<and> isActive tp i"
    using nextActive_Some [of "length (T_remotes tp)" tp tp' i] mem
    by (cases us) (auto simp: pickUnweighted_def)
  have "i < length (T_remotes tp) \<and> isActive tp i"
  proof (cases "ws = []")
    case True
    then show ?thesis using assms c nxt by (simp add: pick_def)
  next
    case False
    show ?thesis
    proof (cases "us \<noteq> [] \<and> intn 0 100 = 1")
      case True
      then show ?thesis using assms c us mem False by (auto simp: pick_def)
    next
      case no: False
      show ?thesis
      proof (cases "chooseWeighted tp (int (intn 1 w)) ws")
        case None
        then show ?thesis using assms c nxt False no by (auto simp: pick_def)
      next
        case (Some j)
        then have "i = j" using assms c False no by (auto simp: pick_def)
        then show ?thesis using chooseWeighted_in [OF Some] mem by auto
      qed
    qed
  qed
  then show "i < length (T_remotes tp)" "isActive tp i" by simp_all
qed

lemma pickUnweighted_frame:
  "pickUnweighted us tp = (tp', r) \<Longrightarrow> T_remotes tp' = T_remotes tp \<and> isActive tp' = isActive tp"
  unfolding pickUnweighted_def using nextActive_frame by (cases us) auto

lemma pick_frame:
  assumes "pick intn tp = (tp', r)"
  shows "T_remotes tp' = T_remotes tp" "isActive tp' = isActive tp"
proof -
  obtain p w ws us where c: "bestClass tp = (p, w, ws, us)" by (cases "bestClass tp")
  have "T_remotes tp' = T_remotes tp \<and> isActive tp' = isActive tp"
    using assms c pickUnweighted_frame
    by (auto simp: pick_def split: if_splits option.splits dest: pickUnweighted_frame)
  then show "T_remotes tp' = T_remotes tp" "isActive tp' = isActive tp" by simp_all
qed

text \<open>\<open>rand.Intn(n)\<close> is below \<open>n\<close>; under this, nothing is picked only when no remote is active.\<close>

definition goodDraws :: "(nat \<Rightarrow> nat \<Rightarrow> nat) \<Rightarrow> bool" where
  "goodDraws intn \<longleftrightarrow> (\<forall>k n. 0 < n \<longrightarrow> intn k n < n)"

lemma pick_total:
  assumes "goodDraws intn" "j < length (T_remotes tp)" "isActive tp j"
  shows "\<exists>tp' i. pick intn tp = (tp', Some i)"
proof -
  obtain p w ws us where c: "bestClass tp = (p, w, ws, us)" by (cases "bestClass tp")
  have k: "classOk tp [0..<length (T_remotes tp)] (p, w, ws, us)" using bestClass_ok [of tp] c by simp
  then have ne: "ws @ us \<noteq> []" and w: "w = sum_list (map (\<lambda>i. unat (weightOf tp i)) ws)" using assms by auto
  have nxt: "us \<noteq> [] \<Longrightarrow> \<exists>tp' i. pickUnweighted us tp = (tp', Some i)"
    using nextActive_total [OF assms(2,3)]
    by (cases "nextActive (length (T_remotes tp)) tp") (auto simp: pickUnweighted_def)
  show ?thesis
  proof (cases "ws = []")
    case True
    then show ?thesis using c nxt ne by (simp add: pick_def)
  next
    case False
    show ?thesis
    proof (cases "us \<noteq> [] \<and> intn 0 100 = 1")
      case True
      then show ?thesis using c False by (simp add: pick_def)
    next
      case no: False
      have "int (intn 1 w) \<le> int w"
        using assms(1) bestClass_positive [OF c False] by (simp add: goodDraws_def order.strict_implies_order)
      then obtain i where "chooseWeighted tp (int (intn 1 w)) ws = Some i"
        using chooseWeighted_total [OF False] w by metis
      then show ?thesis using c False no by (auto simp: pick_def)
    qed
  qed
qed

section \<open>Serving a connection\<close>

definition activeCount :: "tcpproxy \<Rightarrow> nat" where
  "activeCount tp = length (filter (\<lambda>r. \<not> R_inactive r) (T_remotes tp))"

lemma inactivate_simps [simp]:
  "length (T_remotes (inactivate i tp)) = length (T_remotes tp)" "T_pickCount (inactivate i tp) = T_pickCount tp"
  "i < length (T_remotes tp) \<Longrightarrow> isActive (inactivate i tp) j \<longleftrightarrow> isActive tp j \<and> j \<noteq> i"
  by (auto simp: inactivate_def setInactive_def isActive_def nth_list_update)

lemma setInactive_addr [simp]: "R_addr (T_remotes (setInactive b i tp) ! j) = R_addr (T_remotes tp ! j)"
  by (cases "i < length (T_remotes tp)"; cases "j = i") (simp_all add: setInactive_def list_update_beyond not_less)

lemma inactivate_addr [simp]: "R_addr (T_remotes (inactivate i tp) ! j) = R_addr (T_remotes tp ! j)"
  by (simp add: inactivate_def)

lemma filter_update_less:
  "i < length xs \<Longrightarrow> P (xs ! i) \<Longrightarrow> \<not> P y \<Longrightarrow> length (filter P (xs[i := y])) < length (filter P xs)"
proof (induction xs arbitrary: i)
  case (Cons x xs)
  then show ?case by (cases i) simp_all
qed simp

lemma activeCount_inactivate:
  "i < length (T_remotes tp) \<Longrightarrow> isActive tp i \<Longrightarrow> activeCount (inactivate i tp) < activeCount tp"
  unfolding activeCount_def inactivate_def setInactive_def isActive_def by (simp add: filter_update_less)

lemma activeCount_pick: "pick intn tp = (tp', r) \<Longrightarrow> activeCount tp' = activeCount tp"
  by (simp add: activeCount_def pick_frame)

text \<open>
  The loop of \<open>serve\<close>: \<open>draws k\<close> are the random numbers of the \<open>k\<close>-th pick. It returns the remote the connection is
  forwarded to, or \<open>None\<close> when the incoming connection is closed.
\<close>

function serve ::
  "(nat \<Rightarrow> nat \<Rightarrow> nat \<Rightarrow> nat) \<Rightarrow> (nat \<Rightarrow> string \<Rightarrow> unit res) \<Rightarrow> nat \<Rightarrow> tcpproxy \<Rightarrow> tcpproxy \<times> nat option"
where
  "serve draws dial k tp =
     (case pick (draws k) tp of
        (tp', None) \<Rightarrow> (tp', None)
      | (tp', Some i) \<Rightarrow>
          (case connect (dial k) (T_remotes tp' ! i) of
             Inr _ \<Rightarrow> (tp', Some i)
           | Inl e \<Rightarrow> serve draws dial (Suc k) (inactivate i tp')))"
  by pat_completeness auto

termination serve
proof (relation "measure (\<lambda>(draws, dial, k, tp). activeCount tp)", goal_cases)
  case (2 draws dial k tp tp' r i e)
  then have "pick (draws k) tp = (tp', Some i)" by simp
  then show ?case
    using activeCount_inactivate [of i tp'] pick_Some [of "draws k" tp tp' i] pick_frame [of "draws k" tp tp' "Some i"] activeCount_pick
    by simp
qed simp

declare serve.simps [simp del]

lemma serve_step:
  "serve draws dial k tp =
     (case pick (draws k) tp of
        (tp', None) \<Rightarrow> (tp', None)
      | (tp', Some i) \<Rightarrow>
          (case connect (dial k) (T_remotes tp' ! i) of
             Inr _ \<Rightarrow> (tp', Some i)
           | Inl e \<Rightarrow> serve draws dial (Suc k) (inactivate i tp')))"
  by (rule serve.simps)

text \<open>One round of the monitor: every remote that was put aside is dialled, and is active again when it answers.\<close>

definition monitorStep :: "(string \<Rightarrow> unit res) \<Rightarrow> tcpproxy \<Rightarrow> nat \<Rightarrow> tcpproxy" where
  "monitorStep dial tp i = (if isActive tp i then tp else fst (tryReactivate dial i tp))"

definition runMonitor :: "(string \<Rightarrow> unit res) \<Rightarrow> tcpproxy \<Rightarrow> tcpproxy" where
  "runMonitor dial tp =
     foldl (monitorStep dial) tp [0..<length (T_remotes tp)]"

subsection \<open>Which connections are served\<close>

abbreviation addrOf :: "tcpproxy \<Rightarrow> nat \<Rightarrow> string" where
  "addrOf tp i \<equiv> R_addr (T_remotes tp ! i)"

lemma connect_ok_iff: "connect dial r = ok \<longleftrightarrow> dial (R_addr r) = ok"
  by (cases "dial (R_addr r)") (simp_all add: connect_def)

lemma connect_err_iff: "(\<exists>e. connect dial r = Inl e) \<longleftrightarrow> dial (R_addr r) \<noteq> ok"
  by (cases "dial (R_addr r)") (simp_all add: connect_def)

text \<open>
  The outcome of serving one connection, from the state before: remotes are only put aside, and only after a failed
  dial; a connection is forwarded to an active remote that answered; it is closed only when all are put aside.
\<close>

definition serveOk ::
  "(nat \<Rightarrow> string \<Rightarrow> unit res) \<Rightarrow> tcpproxy \<Rightarrow> tcpproxy \<times> nat option \<Rightarrow> bool"
where
  "serveOk dial tp out \<longleftrightarrow>
     length (T_remotes (fst out)) = length (T_remotes tp) \<and>
     (\<forall>j < length (T_remotes tp). addrOf (fst out) j = addrOf tp j \<and>
        (isActive (fst out) j \<longrightarrow> isActive tp j) \<and>
        (isActive tp j \<and> \<not> isActive (fst out) j \<longrightarrow> (\<exists>k. dial k (addrOf tp j) \<noteq> ok))) \<and>
     (case snd out of
        Some i \<Rightarrow> i < length (T_remotes tp) \<and> isActive (fst out) i \<and> (\<exists>k. dial k (addrOf tp i) = ok)
      | None \<Rightarrow> \<forall>j < length (T_remotes tp). \<not> isActive (fst out) j)"

lemma serve_ok:
  assumes "\<And>k. goodDraws (draws k)"
  shows "serveOk dial tp (serve draws dial k tp)"
proof (induction "activeCount tp" arbitrary: tp k rule: less_induct)
  case less
  obtain tp' r where p: "pick (draws k) tp = (tp', r)" by (cases "pick (draws k) tp")
  note f = pick_frame [OF p]
  show ?case
  proof (cases r)
    case None
    then have "\<forall>j < length (T_remotes tp). \<not> isActive tp j"
      using pick_total [OF assms [of k], of _ tp] p by fastforce
    then show ?thesis using p None f by (subst serve_step) (simp add: serveOk_def)
  next
    case (Some i)
    have i: "i < length (T_remotes tp)" "isActive tp i" using pick_Some [OF p [unfolded Some]] .
    show ?thesis
    proof (cases "connect (dial k) (T_remotes tp' ! i)")
      case (Inr u)
      then have "dial k (addrOf tp i) = ok" using connect_ok_iff [of "dial k"] f by simp
      then show ?thesis using p Some f i Inr by (subst serve_step) (auto simp: serveOk_def)
    next
      case (Inl e)
      then have d: "dial k (addrOf tp i) \<noteq> ok" using connect_ok_iff [of "dial k" "T_remotes tp' ! i"] f by simp
      have s: "serve draws dial k tp = serve draws dial (Suc k) (inactivate i tp')"
        using p Some Inl by (subst serve_step) simp
      have "activeCount (inactivate i tp') < activeCount tp"
        using activeCount_inactivate [of i tp'] i f activeCount_pick [OF p] by simp
      from less [OF this, of "Suc k"] show ?thesis
        unfolding s serveOk_def using i f d by (auto split: option.splits)
    qed
  qed
qed

lemma setInactive_simps [simp]:
  "length (T_remotes (setInactive b i tp)) = length (T_remotes tp)" "T_pickCount (setInactive b i tp) = T_pickCount tp"
  "i < length (T_remotes tp) \<Longrightarrow> isActive (setInactive False i tp) j \<longleftrightarrow> isActive tp j \<or> j = i"
  by (auto simp: setInactive_def isActive_def nth_list_update)

lemma monitorStep_spec:
  assumes "i < length (T_remotes tp)"
  shows "length (T_remotes (monitorStep dial tp i)) = length (T_remotes tp)"
    "addrOf (monitorStep dial tp i) j = addrOf tp j"
    "isActive (monitorStep dial tp i) j \<longleftrightarrow> isActive tp j \<or> j = i \<and> dial (addrOf tp i) = ok"
proof -
  show "length (T_remotes (monitorStep dial tp i)) = length (T_remotes tp)"
    "addrOf (monitorStep dial tp i) j = addrOf tp j"
    by (simp_all add: monitorStep_def tryReactivate_def split: sum.split)
  show "isActive (monitorStep dial tp i) j \<longleftrightarrow> isActive tp j \<or> j = i \<and> dial (addrOf tp i) = ok"
    using assms by (cases "dial (addrOf tp i)") (auto simp: monitorStep_def tryReactivate_def connect_def)
qed

lemma monitor_prefix:
  "n \<le> length (T_remotes tp) \<Longrightarrow>
   (let res = foldl (monitorStep dial) tp [0..<n] in
    length (T_remotes res) = length (T_remotes tp) \<and>
    (\<forall>j. addrOf res j = addrOf tp j \<and> (isActive res j \<longleftrightarrow> isActive tp j \<or> j < n \<and> dial (addrOf tp j) = ok)))"
proof (induction n)
  case (Suc n)
  then show ?case
    using monitorStep_spec [of n "foldl (monitorStep dial) tp [0..<n]" dial] by (auto simp: Let_def less_Suc_eq)
qed simp

lemma runMonitor_spec:
  "length (T_remotes (runMonitor dial tp)) = length (T_remotes tp)" "addrOf (runMonitor dial tp) j = addrOf tp j"
  "j < length (T_remotes tp) \<Longrightarrow> isActive (runMonitor dial tp) j \<longleftrightarrow> isActive tp j \<or> dial (addrOf tp j) = ok"
  using monitor_prefix [of "length (T_remotes tp)" tp dial] by (simp_all add: runMonitor_def Let_def)

text \<open>
  C38: A connection is served when some server answers: an active one at once, one that was put aside after the next
  round of the monitor. No server that answers is put aside on the way, and the connection is forwarded to one that answered.
\<close>

theorem reachable_server_serves:
  assumes draws: "\<And>k. goodDraws (draws k)"
    and server: "j < length (T_remotes tp)" "\<And>k. dial k (addrOf tp j) = ok"
    and known: "isActive tp j \<or> monitored = runMonitor (dial m) tp" "isActive tp j \<longrightarrow> monitored = tp"
  shows "\<exists>tp' i. serve draws dial n monitored = (tp', Some i) \<and> i < length (T_remotes tp) \<and> isActive tp' i \<and>
    (\<exists>k. dial k (addrOf tp i) = ok) \<and> isActive tp' j"
proof -
  have mon: "length (T_remotes monitored) = length (T_remotes tp)" "\<And>i. addrOf monitored i = addrOf tp i" "isActive monitored j"
    using known server runMonitor_spec [where tp = tp and dial = "dial m"] by auto
  obtain tp' r where s: "serve draws dial n monitored = (tp', r)" by (cases "serve draws dial n monitored")
  have out: "serveOk dial monitored (tp', r)" using serve_ok [of draws dial monitored n, OF draws] s by simp
  have j: "isActive tp' j" using out mon server by (auto simp: serveOk_def)
  obtain i where "r = Some i" using out j mon server by (cases r) (auto simp: serveOk_def)
  then show ?thesis using out s mon j by (auto simp: serveOk_def)
qed

subsection \<open>Connections take turns\<close>

text \<open>The remotes of \<open>startProxy\<close> have no weights and the same priority.\<close>

definition plainRemotes :: "tcpproxy \<Rightarrow> bool" where
  "plainRemotes tp \<longleftrightarrow> list_all (\<lambda>r. SRV_Priority (R_srv r) = 0 \<and> SRV_Weight (R_srv r) = 0) (T_remotes tp)"

lemma plainRemotes_class:
  assumes "plainRemotes tp" "list_all (\<lambda>r. \<not> R_inactive r) (T_remotes tp)" "n \<le> length (T_remotes tp)"
  shows "foldl (classify tp) (65535, 0, [], []) [0..<n] = (if n = 0 then 65535 else 0, 0, [], [0..<n])"
  using assms(3)
proof (induction n)
  case (Suc n)
  have "isActive tp n" "priorityOf tp n = 0" "weightOf tp n = 0"
    using assms(1,2) Suc.prems by (simp_all add: plainRemotes_def list_all_length isActive_def)
  then show ?case using Suc by simp
qed simp

lemma plainRemotes_pick:
  assumes "plainRemotes tp" "list_all (\<lambda>r. \<not> R_inactive r) (T_remotes tp)" "T_remotes tp \<noteq> []"
  shows "pick intn tp = (countPick tp, Some (T_pickCount tp mod length (T_remotes tp)))"
proof -
  obtain n where n: "length (T_remotes tp) = Suc n" using assms(3) by (cases "T_remotes tp") simp_all
  have "isActive tp (T_pickCount tp mod length (T_remotes tp))"
    using assms(2,3) by (simp add: list_all_length isActive_def)
  moreover have "bestClass tp = (0, 0, [], [0..<length (T_remotes tp)])"
    using plainRemotes_class [OF assms(1,2) order.refl] assms(3) by (simp add: bestClass_def)
  ultimately show ?thesis by (simp add: pick_def pickUnweighted_def n Let_def del: upt_Suc)
qed

text \<open>A sequence of connections, each with its own random numbers and dials.\<close>

fun serveMany ::
  "(nat \<Rightarrow> nat \<Rightarrow> nat \<Rightarrow> nat) \<Rightarrow> (nat \<Rightarrow> string \<Rightarrow> unit res) \<Rightarrow> nat \<Rightarrow> tcpproxy \<Rightarrow> tcpproxy \<times> nat option list"
where
  "serveMany draws dial 0 tp = (tp, [])"
| "serveMany draws dial (Suc m) tp =
     (case serve draws dial 0 tp of (tp', r) \<Rightarrow> (case serveMany draws dial m tp' of (tp'', rs) \<Rightarrow> (tp'', r # rs)))"

theorem connections_take_turns:
  assumes "plainRemotes tp" "list_all (\<lambda>r. \<not> R_inactive r \<and> (\<forall>k. dial k (R_addr r) = ok)) (T_remotes tp)" "T_remotes tp \<noteq> []"
  shows "snd (serveMany draws dial m tp) = map (\<lambda>k. Some ((T_pickCount tp + k) mod length (T_remotes tp))) [0..<m]"
  using assms
proof (induction m arbitrary: tp)
  case (Suc m)
  let ?i = "T_pickCount tp mod length (T_remotes tp)"
  have act: "list_all (\<lambda>r. \<not> R_inactive r) (T_remotes tp)" using Suc.prems(2) by (auto simp: list_all_iff)
  have "?i < length (T_remotes tp)" using Suc.prems(3) by simp
  then have "connect (dial 0) (T_remotes tp ! ?i) = ok"
    using Suc.prems(2) by (simp add: connect_ok_iff list_all_length)
  then have s: "serve draws dial 0 tp = (countPick tp, Some ?i)"
    using plainRemotes_pick [OF Suc.prems(1) act Suc.prems(3)] by (subst serve_step) simp
  have "snd (serveMany draws dial m (countPick tp)) =
      map (\<lambda>k. Some ((Suc (T_pickCount tp) + k) mod length (T_remotes tp))) [0..<m]"
    using Suc.IH [of "countPick tp"] Suc.prems by (simp add: plainRemotes_def)
  then show ?case using s by (simp add: split_beta upt_conv_Cons map_Suc_upt [symmetric] del: upt_Suc)
qed simp

text \<open>
  A weighted remote at the end of its class is chosen for no random number when its weight is one: the loop stops at the
  first sum that is not below the number, and the number never reaches the sum of all weights.
\<close>

theorem last_weight_one_starves:
  assumes "weightOf tp i = 1" "ws \<noteq> []" "c < int (sum_list (map (\<lambda>j. unat (weightOf tp j)) (ws @ [i])))"
  shows "\<exists>j \<in> set ws. chooseWeighted tp c (ws @ [i]) = Some j"
  using assms(2,3)
proof (induction ws arbitrary: c)
  case (Cons j ws)
  show ?case
  proof (cases "c - uint (weightOf tp j) \<le> 0")
    case False
    have lt: "c - uint (weightOf tp j) < int (sum_list (map (\<lambda>j. unat (weightOf tp j)) (ws @ [i])))"
      using Cons.prems(2) by simp
    have "ws \<noteq> []" using False lt assms(1) by auto
    from Cons.IH [OF this lt] False show ?thesis by (simp add: Let_def)
  qed (simp add: Let_def)
qed simp

section \<open>Starting a proxy\<close>

text \<open>
  \<open>urlHost s\<close> is the host of \<open>url.Parse(s)\<close>, \<open>None\<close> when the parser returns an error.
  \<open>strconv.ParseUint(s, 10, 16)\<close> takes digits with a value below \<open>2^16\<close>.
\<close>

definition ParseUint16 :: "string \<Rightarrow> 16 word option" where
  "ParseUint16 s =
     (if s = [] \<or> \<not> list_all isDigit s \<or> 2 ^ 16 \<le> decVal s then None else Some (of_nat (decVal s)))"

definition endpointSRV :: "(string \<Rightarrow> string option) \<Rightarrow> string \<Rightarrow> SRV res" where
  "endpointSRV urlHost endpoint0 =
     (let endpoint = (case urlHost endpoint0 of Some host \<Rightarrow> if host \<noteq> [] then host else endpoint0 | None \<Rightarrow> endpoint0) in
      case SplitHostPort endpoint of
        None \<Rightarrow> Inl (Wrapf ''failed to parse endpoint %q: %w'' [endpoint] (Errorf ''address %s: cannot split host and port'' [endpoint]))
      | Some (host, port) \<Rightarrow>
          (case ParseUint16 port of
             None \<Rightarrow> Inl (Wrapf ''failed to parse port %q: %w'' [port] (Errorf ''strconv.ParseUint: %q'' [port]))
           | Some portNumber \<Rightarrow> Inr \<lparr>SRV_Target = host, SRV_Port = portNumber, SRV_Priority = 0, SRV_Weight = 0\<rparr>))"

text \<open>The proxy that serves until its context ends; \<open>listen\<close> is the result of \<open>net.Listen\<close>.\<close>

definition startProxy :: "(string \<Rightarrow> string option) \<Rightarrow> unit res \<Rightarrow> string list \<Rightarrow> tcpproxy res" where
  "startProxy urlHost listen endpointURLs =
     (if endpointURLs = [] then Inl (Errorf ''empty list of endpoints'' [])
      else
        (case map_res (endpointSRV urlHost) endpointURLs of
           Inl e \<Rightarrow> Inl e
         | Inr srvs \<Rightarrow>
             (case listen of
                Inl e \<Rightarrow> Inl (Wrapf ''failed to start listener: %w'' [] e)
              | Inr _ \<Rightarrow>
                  Inr (proxyRun \<lparr>T_Endpoints = srvs, T_MonitorInterval = 60 * 10 ^ 9, T_remotes = [], T_pickCount = 0\<rparr>))))"

subsection \<open>Addresses survive the proxy\<close>

lemma natToString_small: "n < 10 \<Longrightarrow> natToString n = [digitChar n]"
  by (simp add: natToString.simps [of n])

lemma natToString_split: "10 \<le> n \<Longrightarrow> natToString n = natToString (n div 10) @ [digitChar (n mod 10)]"
  by (subst natToString.simps) simp

lemma parseIPv4Fields_number:
  assumes "n < 256"
  shows "parseIPv4Fields (natToString n @ cs) fs 0 0 = parseIPv4Fields cs fs n (length (natToString n))"
proof -
  consider "n < 10" | "10 \<le> n" "n < 100" | "100 \<le> n" by linarith
  then show ?thesis
  proof cases
    case 1
    then show ?thesis by (simp add: natToString_small)
  next
    case 2
    then have d: "n div 10 < 10" "n div 10 \<noteq> 0" by auto
    have v: "n div 10 * 10 + n mod 10 = n" by simp
    have "natToString n = [digitChar (n div 10), digitChar (n mod 10)]"
      using natToString_split [OF 2(1)] natToString_small [OF d(1)] by simp
    then show ?thesis using d v assms by simp
  next
    case 3
    let ?h = "n div 10 div 10" and ?t = "n div 10 mod 10"
    have d: "?h < 10" "?h \<noteq> 0" "10 \<le> n div 10" "10 \<le> n" "\<not> 255 < n div 10" "\<not> 255 < ?h" using 3 assms by auto
    have v: "?h * 10 + ?t = n div 10" "n div 10 * 10 + n mod 10 = n" by simp_all
    have "natToString n = [digitChar ?h, digitChar ?t, digitChar (n mod 10)]"
      using natToString_split [OF d(4)] natToString_split [OF d(3)] natToString_small [OF d(1)] by simp
    then show ?thesis using d v assms by simp (intro conjI impI, linarith+)
  qed
qed

definition dottedQuad :: "byte \<Rightarrow> byte \<Rightarrow> byte \<Rightarrow> byte \<Rightarrow> string" where
  "dottedQuad a b c d = joinWith (CHR ''.'') (map (\<lambda>x. natToString (unat x)) [a, b, c, d])"

lemma parseIPv4Fields_dot:
  assumes "n < 256" "cs \<noteq> []" "length fs < 3"
  shows "parseIPv4Fields (natToString n @ CHR ''.'' # cs) fs 0 0 = parseIPv4Fields cs (fs @ [of_nat n]) 0 0"
  using assms by (subst parseIPv4Fields_number) (simp_all add: isDigit_def)

lemma byte_less_256: "unat (x :: byte) < 256"
  using unsigned_less [of x] by simp

lemma parse_dottedQuad: "parseIPv4Fields (dottedQuad a b c d) [] 0 0 = Some [a, b, c, d]"
proof -
  have "parseIPv4Fields (natToString (unat d)) [a, b, c] 0 0 = Some [a, b, c, d]"
    using parseIPv4Fields_number [of "unat d" "[]" "[a, b, c]"] byte_less_256 by simp
  then show ?thesis
    by (simp add: dottedQuad_def parseIPv4Fields_dot byte_less_256)
qed

lemma dottedQuad_head: "\<exists>cs. dottedQuad a b c d = natToString (unat a) @ CHR ''.'' # cs"
  by (simp add: dottedQuad_def)

lemma dottedQuad_chars: "set (dottedQuad a b c d) \<subseteq> {x. isDigit x} \<union> {CHR ''.''}"
  using natToString_digits by (auto simp: dottedQuad_def)

lemma addrKind_digits: "\<forall>c \<in> set xs. isDigit c \<Longrightarrow> addrKind (xs @ CHR ''.'' # cs) = Some (CHR ''.'')"
  by (induction xs) (auto simp: isDigit_def)

lemma ParseIP_dottedQuad: "ParseIP (dottedQuad a b c d) = Some (v4InV6Prefix @ [a, b, c, d])"
proof -
  have "addrKind (dottedQuad a b c d) = Some (CHR ''.'')"
    using dottedQuad_head [of a b c d] addrKind_digits [of "natToString (unat a)"] natToString_digits by auto
  then show ?thesis by (simp add: ParseIP_def ParseAddr_def parse_dottedQuad)
qed

lemma ToIPString_v4: "ToIPString (v4InV6Prefix @ [a, b, c, d]) = dottedQuad a b c d"
proof -
  have "To4 (v4InV6Prefix @ [a, b, c, d]) = Some [a, b, c, d]" by (simp add: To4_def)
  then show ?thesis by (simp add: ToIPString_def IPString_def dottedQuad_def v4InV6Prefix_def)
qed

lemma ParseUint16_natToString: "ParseUint16 (natToString (unat (p :: 16 word))) = Some p"
proof -
  have "unat p < 65536" using unsigned_less [of p] by simp
  then show ?thesis
    using natToString_digits [of "unat p"] by (simp add: ParseUint16_def decVal_natToString list_all_iff)
qed

lemma SplitHostPort_v4: "SplitHostPort (dottedQuad a b c d @ '':'' @ natToString n) = Some (dottedQuad a b c d, natToString n)"
proof -
  have no: "x \<notin> set (dottedQuad a b c d)" if "x \<in> {CHR '':'', CHR ''['', CHR '']''}" for x
    using dottedQuad_chars [of a b c d] that by (auto simp: isDigit_def)
  have p: "x \<notin> set (natToString n)" if "x \<in> {CHR '':'', CHR ''['', CHR '']''}" for x
    using natToString_digits [of n] that by (auto simp: isDigit_def)
  have "SplitHostPort (JoinHostPort (dottedQuad a b c d) (natToString n)) = Some (dottedQuad a b c d, natToString n)"
    by (rule SplitHostPort_JoinHostPort) (use no p in blast)+
  then show ?thesis using no by (simp add: JoinHostPort_def)
qed

text \<open>A target that is not an address is not resolved: the address to dial holds the text of a missing address.\<close>

theorem hostname_is_not_dialled:
  assumes "ParseIP (SRV_Target srv) = None"
  shows "remoteAddr srv = ''[<nil>]:'' @ natToString (unat (SRV_Port srv))"
  using assms by (simp add: remoteAddr_def ToIPString_def IPString_def To4_def)

text \<open>The endpoint of an IPv4 API server is dialled as it was written.\<close>

definition v4Endpoint :: "byte \<times> byte \<times> byte \<times> byte \<times> 16 word \<Rightarrow> string" where
  "v4Endpoint e = (case e of (a, b, c, d, p) \<Rightarrow> dottedQuad a b c d @ '':'' @ natToString (unat p))"

lemma endpointSRV_v4:
  assumes "\<And>e. urlHost (v4Endpoint e) = None"
  shows "\<exists>srv. endpointSRV urlHost (v4Endpoint e) = Inr srv \<and> remoteAddr srv = v4Endpoint e \<and> SRV_Priority srv = 0 \<and> SRV_Weight srv = 0"
proof -
  obtain a b c d p where e: "e = (a, b, c, d, p)" by (cases e)
  have "urlHost (dottedQuad a b c d @ '':'' @ natToString (unat p)) = None"
    using assms [of e] by (simp add: v4Endpoint_def e)
  then show ?thesis
    using SplitHostPort_v4 [of a b c d "unat p"]
    by (simp add: endpointSRV_def v4Endpoint_def e ParseUint16_natToString remoteAddr_def ParseIP_dottedQuad ToIPString_v4 Let_def)
qed

lemma startProxy_ok:
  assumes "startProxy urlHost listen eps = Inr tp"
  shows "eps \<noteq> []" "T_pickCount tp = 0" "length (T_remotes tp) = length eps" "plainRemotes tp"
    "list_all (\<lambda>r. \<not> R_inactive r) (T_remotes tp)"
proof -
  obtain srvs where s: "map_res (endpointSRV urlHost) eps = Inr srvs" and ne: "eps \<noteq> []"
    using assms by (auto simp: startProxy_def split: if_splits sum.splits)
  have tp: "tp = proxyRun \<lparr>T_Endpoints = srvs, T_MonitorInterval = 60 * 10 ^ 9, T_remotes = [], T_pickCount = 0\<rparr>"
    using assms s ne by (auto simp: startProxy_def split: sum.splits)
  have each: "SRV_Priority srv = 0 \<and> SRV_Weight srv = 0" if "endpointSRV urlHost e = Inr srv" for e srv
    using that by (auto simp: endpointSRV_def Let_def split: option.splits prod.splits)
  have "\<forall>srv \<in> set srvs. SRV_Priority srv = 0 \<and> SRV_Weight srv = 0"
  proof
    fix srv assume "srv \<in> set srvs"
    then have "Inr srv \<in> set (map (endpointSRV urlHost) eps)" using s by (simp add: map_res_Inr_iff)
    then show "SRV_Priority srv = 0 \<and> SRV_Weight srv = 0" using each by auto
  qed
  then show "plainRemotes tp" by (simp add: tp proxyRun_def plainRemotes_def list_all_iff)
  show "eps \<noteq> []" "T_pickCount tp = 0" "length (T_remotes tp) = length eps" "list_all (\<lambda>r. \<not> R_inactive r) (T_remotes tp)"
    using ne map_res_length [OF s] by (simp_all add: tp proxyRun_def list_all_iff)
qed

lemma startProxy_v4:
  assumes "\<And>e. urlHost (v4Endpoint e) = None" "es \<noteq> []"
  shows "\<exists>tp. startProxy urlHost ok (map v4Endpoint es) = Inr tp \<and> map R_addr (T_remotes tp) = map v4Endpoint es"
proof -
  have "\<exists>srvs. map_res (endpointSRV urlHost) (map v4Endpoint es) = Inr srvs \<and> map remoteAddr srvs = map v4Endpoint es"
  proof (induction es)
    case (Cons e es)
    then show ?case using endpointSRV_v4 [of urlHost e, OF assms(1)] by (auto split: sum.split)
  qed simp
  then obtain srvs where "map_res (endpointSRV urlHost) (map v4Endpoint es) = Inr srvs" "map remoteAddr srvs = map v4Endpoint es"
    by blast
  then show ?thesis using assms(2) by (simp add: startProxy_def proxyRun_def comp_def)
qed

section \<open>Following the API servers\<close>

text \<open>What the calls to one API server return.\<close>

record kubeEndpointsAPI =
  KE_config :: "unit res"
  KE_client :: "unit res"
  KE_slices :: "EndpointSlice list ptr res"
  KE_endpoints :: "EndpointSubset list ptr res"

definition getKubernetesEndpoints :: "(string \<Rightarrow> kubeEndpointsAPI) \<Rightarrow> string \<Rightarrow> string list res" where
  "getKubernetesEndpoints api server =
     (case KE_config (api (''https://'' @ server)) of
        Inl e \<Rightarrow> Inl (Wrapf ''failed to read load kubeconfig: %w'' [] e)
      | Inr _ \<Rightarrow>
     (case KE_client (api (''https://'' @ server)) of
        Inl e \<Rightarrow> Inl (Wrapf ''failed to initialize kubernetes client: %w'' [] e)
      | Inr _ \<Rightarrow>
     (case KE_slices (api (''https://'' @ server)) of
        Inr None \<Rightarrow> Inr []
      | Inr (Some slices) \<Rightarrow> Inr (ParseEndpointSlices slices)
      | Inl _ \<Rightarrow>
     (case KE_endpoints (api (''https://'' @ server)) of
        Inl e \<Rightarrow> Inl (Wrapf ''failed to retrieve endpoints for kubernetes service: %w'' [] e)
      | Inr None \<Rightarrow> Inr []
      | Inr (Some subsets) \<Rightarrow> Inr (ParseEndpoints subsets)))))"

text \<open>The servers are asked in order until one answers; the last result is kept.\<close>

fun askEndpoints :: "(string \<Rightarrow> string list res) \<Rightarrow> string list \<Rightarrow> string list res \<Rightarrow> string list res" where
  "askEndpoints get [] newEndpoints = newEndpoints"
| "askEndpoints get (ep # eps) newEndpoints =
     (case get ep of Inr servers \<Rightarrow> Inr servers | Inl e \<Rightarrow> askEndpoints get eps (Inl e))"

text \<open>One refresh; the flag tells whether the proxy is stopped to be started again.\<close>

definition refreshEndpoints ::
  "(string list \<Rightarrow> string res) \<Rightarrow> string \<Rightarrow> (string \<Rightarrow> kubeEndpointsAPI) \<Rightarrow> string list \<Rightarrow> Host \<Rightarrow> Host \<times> bool"
where
  "refreshEndpoints marshal configFile api endpoints h =
     (case askEndpoints (getKubernetesEndpoints api) endpoints (Inr []) of
        Inl e \<Rightarrow> (h, False)
      | Inr newEndpoints \<Rightarrow>
          if newEndpoints = [] then (h, False)
          else if newEndpoints = endpoints then (h, False)
          else
            (case WriteEndpointsConfig marshal newEndpoints configFile h of
               (h', Inl e) \<Rightarrow> (h', False)
             | (h', Inr _) \<Rightarrow> (h', True)))"

text \<open>
  The watcher takes the answers of the API at each refresh. It returns at the first refresh that stops
  the proxy, with the refreshes that are left, or when its context ends (no refresh is left). A proxy without refresh
  interval has no watcher: the list is empty.
\<close>

fun watchForNewEndpoints ::
  "(string list \<Rightarrow> string res) \<Rightarrow> string \<Rightarrow> (string \<Rightarrow> kubeEndpointsAPI) list \<Rightarrow> string list \<Rightarrow> Host
   \<Rightarrow> Host \<times> (string \<Rightarrow> kubeEndpointsAPI) list option"
where
  "watchForNewEndpoints marshal configFile [] endpoints h = (h, None)"
| "watchForNewEndpoints marshal configFile (api # apis) endpoints h =
     (case refreshEndpoints marshal configFile api endpoints h of
        (h', True) \<Rightarrow> (h', Some apis)
      | (h', False) \<Rightarrow> watchForNewEndpoints marshal configFile apis endpoints h')"

text \<open>
  \<open>APIServerProxy.Run\<close> up to the end of its context: the lists of endpoints it was started with, one per
  round, and its result. A round ends when the watcher stops it, or at once when the proxy cannot start; \<open>starts\<close> says for
  each round whether it can (its length bounds the rounds, the context ends after the last).
\<close>

fun runProxy ::
  "(string list \<Rightarrow> string res) \<Rightarrow> (string \<Rightarrow> string list res) \<Rightarrow> (string \<Rightarrow> string option) \<Rightarrow> string
   \<Rightarrow> unit res list \<Rightarrow> (string \<Rightarrow> kubeEndpointsAPI) list \<Rightarrow> Host \<Rightarrow> Host \<times> string list list \<times> unit res"
where
  "runProxy marshal unmarshal urlHost configFile [] apis h = (h, [], ok)"
| "runProxy marshal unmarshal urlHost configFile (listen # listens) apis h =
     (case loadEndpointsConfig unmarshal configFile h of
        Inl e \<Rightarrow> (h, [], Inl (Wrapf ''failed to load endpoints configuration: %w'' [] e))
      | Inr endpoints \<Rightarrow>
          (case startProxy urlHost listen endpoints of
             Inl e \<Rightarrow>
               (case runProxy marshal unmarshal urlHost configFile listens apis h of
                  (h', rounds, r) \<Rightarrow> (h', endpoints # rounds, r))
           | Inr tp \<Rightarrow>
               (case watchForNewEndpoints marshal configFile apis endpoints h of
                  (h', None) \<Rightarrow> (h', [endpoints], ok)
                | (h', Some apis') \<Rightarrow>
                    (case runProxy marshal unmarshal urlHost configFile listens apis' h' of
                       (h'', rounds, r) \<Rightarrow> (h'', endpoints # rounds, r)))))"

text \<open>The interval of the command line flag: none for 0, at least fifteen seconds otherwise.\<close>

definition refreshInterval :: "int \<Rightarrow> int option" where
  "refreshInterval interval = (if interval = 0 then None else if interval < 15 * 10 ^ 9 then Some (15 * 10 ^ 9) else Some interval)"

subsection \<open>The endpoints are never lost\<close>

lemma ParseEndpoints_sorted: "sorted (ParseEndpoints s)" "sorted (ParseEndpointSlices i)"
  by (simp_all add: ParseEndpoints_def ParseEndpointSlices_def sortStrings_def)

lemma getKubernetesEndpoints_sorted: "getKubernetesEndpoints api server = Inr eps \<Longrightarrow> sorted eps"
  by (auto simp: getKubernetesEndpoints_def ParseEndpoints_sorted split: sum.splits option.splits)

lemma askEndpoints_source:
  "askEndpoints get eps r = Inr servers \<Longrightarrow> r = Inr servers \<or> (\<exists>ep \<in> set eps. get ep = Inr servers)"
  by (induction get eps r rule: askEndpoints.induct) (auto split: sum.splits)

text \<open>The codec of the file: what is written is read back.\<close>

definition codecOk :: "(string list \<Rightarrow> string res) \<Rightarrow> (string \<Rightarrow> string list res) \<Rightarrow> bool" where
  "codecOk marshal unmarshal \<longleftrightarrow> (\<forall>eps. \<exists>b. marshal eps = Inr b \<and> unmarshal b = Inr eps)"

lemma WriteEndpointsConfig_load:
  assumes "codecOk marshal unmarshal" "Host.H_fault h OpRead f = None" "sorted eps"
    "WriteEndpointsConfig marshal eps f h = (h', r)"
  shows "Host.H_fault h' = Host.H_fault h" "r = ok \<Longrightarrow> loadEndpointsConfig unmarshal f h' = Inr eps" "r \<noteq> ok \<Longrightarrow> h' = h"
proof -
  obtain b where b: "marshal eps = Inr b" "unmarshal b = Inr eps" using assms(1) by (auto simp: codecOk_def)
  consider e where "WriteFile h f b perm600 = (h, Inl e)" | "WriteFile h f b perm600 = (setFile f (Some (newNode h b perm600)) h, ok)"
    using WriteFile_cases [of h f b perm600] by metis
  then have "Host.H_fault h' = Host.H_fault h \<and> (r = ok \<longrightarrow> loadEndpointsConfig unmarshal f h' = Inr eps) \<and> (r \<noteq> ok \<longrightarrow> h' = h)"
  proof cases
    case 1
    then show ?thesis using assms(4) b by (auto simp: WriteEndpointsConfig_def)
  next
    case 2
    then have "h' = setFile f (Some (newNode h b perm600)) h" "r = ok"
      using assms(4) b by (simp_all add: WriteEndpointsConfig_def)
    then show ?thesis using b assms by (simp add: loadEndpointsConfig_def sortStrings_idem)
  qed
  then show "Host.H_fault h' = Host.H_fault h" "r = ok \<Longrightarrow> loadEndpointsConfig unmarshal f h' = Inr eps" "r \<noteq> ok \<Longrightarrow> h' = h" by simp_all
qed

lemma refreshEndpoints_spec:
  assumes "codecOk marshal unmarshal" "Host.H_fault h OpRead f = None" "refreshEndpoints marshal f api cur h = (h', again)"
  shows "Host.H_fault h' = Host.H_fault h"
    "\<not> again \<Longrightarrow> h' = h"
    "again \<Longrightarrow> \<exists>eps. eps \<noteq> [] \<and> eps \<noteq> cur \<and> sorted eps \<and> loadEndpointsConfig unmarshal f h' = Inr eps \<and>
       (\<exists>ep \<in> set cur. getKubernetesEndpoints api ep = Inr eps)"
proof -
  have "Host.H_fault h' = Host.H_fault h \<and> (\<not> again \<longrightarrow> h' = h) \<and>
    (again \<longrightarrow> (\<exists>eps. eps \<noteq> [] \<and> eps \<noteq> cur \<and> sorted eps \<and> loadEndpointsConfig unmarshal f h' = Inr eps \<and>
       (\<exists>ep \<in> set cur. getKubernetesEndpoints api ep = Inr eps)))"
  proof (cases "askEndpoints (getKubernetesEndpoints api) cur (Inr [])")
    case (Inl e)
    then show ?thesis using assms(3) by (simp add: refreshEndpoints_def)
  next
    case (Inr eps)
    show ?thesis
    proof (cases "eps = [] \<or> eps = cur")
      case True
      then have "refreshEndpoints marshal f api cur h = (h, False)" using Inr by (auto simp: refreshEndpoints_def)
      then show ?thesis using assms(3) by simp
    next
      case False
      have src: "\<exists>ep \<in> set cur. getKubernetesEndpoints api ep = Inr eps"
        using askEndpoints_source [OF Inr] False by auto
      then have sorted: "sorted eps" using getKubernetesEndpoints_sorted by blast
      obtain h1 r where w: "WriteEndpointsConfig marshal eps f h = (h1, r)" by (cases "WriteEndpointsConfig marshal eps f h")
      note W = WriteEndpointsConfig_load [OF assms(1,2) sorted w]
      have "h' = h1" "again \<longleftrightarrow> r = ok"
        using assms(3) Inr False w by (auto simp: refreshEndpoints_def split: sum.splits)
      then show ?thesis using W False src sorted by auto
    qed
  qed
  then show "Host.H_fault h' = Host.H_fault h" "\<not> again \<Longrightarrow> h' = h"
    "again \<Longrightarrow> \<exists>eps. eps \<noteq> [] \<and> eps \<noteq> cur \<and> sorted eps \<and> loadEndpointsConfig unmarshal f h' = Inr eps \<and>
       (\<exists>ep \<in> set cur. getKubernetesEndpoints api ep = Inr eps)" by simp_all
qed

lemma watchForNewEndpoints_spec:
  assumes "codecOk marshal unmarshal" "Host.H_fault h OpRead f = None" "watchForNewEndpoints marshal f apis cur h = (h', r)"
  shows "Host.H_fault h' = Host.H_fault h \<and> (r = None \<longrightarrow> h' = h) \<and>
    (r \<noteq> None \<longrightarrow> (\<exists>eps. eps \<noteq> [] \<and> eps \<noteq> cur \<and> sorted eps \<and> loadEndpointsConfig unmarshal f h' = Inr eps \<and>
       (\<exists>api \<in> set apis. \<exists>ep \<in> set cur. getKubernetesEndpoints api ep = Inr eps)))"
  using assms(2,3)
proof (induction apis arbitrary: h)
  case (Cons api apis)
  obtain h1 again where s: "refreshEndpoints marshal f api cur h = (h1, again)" by (cases "refreshEndpoints marshal f api cur h")
  note R = refreshEndpoints_spec [OF assms(1) Cons.prems(1) s]
  show ?case
  proof (cases again)
    case True
    then have "h' = h1" "r = Some apis" using Cons.prems(2) s by simp_all
    then show ?thesis using R(1) R(3) [OF True] by auto
  next
    case False
    then have "h1 = h" using R by simp
    then have "watchForNewEndpoints marshal f apis cur h = (h', r)" using Cons.prems(2) s False by simp
    from Cons.IH [OF Cons.prems(1) this] show ?thesis by auto
  qed
qed simp

text \<open>
  C39: However often the API servers are asked and whatever they answer, the proxy keeps a file of endpoints it can
  read, is always started with a list that is not empty, and runs until its context ends.
\<close>

theorem proxy_keeps_endpoints:
  assumes "codecOk marshal unmarshal" "Host.H_fault h OpRead configFile = None"
    and "loadEndpointsConfig unmarshal configFile h = Inr eps" "eps \<noteq> []"
    and "runProxy marshal unmarshal urlHost configFile listens apis h = (h', rounds, r)"
  shows "r = ok \<and> [] \<notin> set rounds \<and> (\<exists>eps'. eps' \<noteq> [] \<and> loadEndpointsConfig unmarshal configFile h' = Inr eps')"
  using assms(2-5)
proof (induction listens arbitrary: apis h eps rounds h' r)
  case (Cons listen listens)
  show ?case
  proof (cases "startProxy urlHost listen eps")
    case (Inl e)
    obtain h1 rs r1 where n: "runProxy marshal unmarshal urlHost configFile listens apis h = (h1, rs, r1)"
      by (cases "runProxy marshal unmarshal urlHost configFile listens apis h")
    from Cons.IH [OF Cons.prems(1,2,3) n] show ?thesis using Cons.prems Inl n by auto
  next
    case (Inr tp)
    obtain h1 again where w: "watchForNewEndpoints marshal configFile apis eps h = (h1, again)"
      by (cases "watchForNewEndpoints marshal configFile apis eps h")
    note W = watchForNewEndpoints_spec [OF assms(1) Cons.prems(1) w]
    show ?thesis
    proof (cases again)
      case None
      then show ?thesis using Cons.prems Inr w W by auto
    next
      case (Some apis')
      then obtain eps1 where e: "eps1 \<noteq> []" "loadEndpointsConfig unmarshal configFile h1 = Inr eps1" using W by auto
      obtain h2 rs r2 where n: "runProxy marshal unmarshal urlHost configFile listens apis' h1 = (h2, rs, r2)"
        by (cases "runProxy marshal unmarshal urlHost configFile listens apis' h1")
      have f: "Host.H_fault h1 OpRead configFile = None" using W Cons.prems(1) by simp
      from Cons.IH [OF f e(2) e(1) n] show ?thesis using Cons.prems Inr w n Some by auto
    qed
  qed
qed auto

text \<open>
  When all API servers report the same list, the proxy is started again once if it runs with another one, and not any more after
  that.
\<close>

lemma askEndpoints_agree:
  "eps \<noteq> [] \<Longrightarrow> (\<And>ep. get ep = Inr servers) \<Longrightarrow> askEndpoints get eps r = Inr servers"
  by (cases eps) simp_all

lemma watch_settled:
  assumes "\<And>api ep. api \<in> set apis \<Longrightarrow> getKubernetesEndpoints api ep = Inr eps" "eps \<noteq> []"
  shows "watchForNewEndpoints marshal f apis eps h = (h, None)"
  using assms(1)
proof (induction apis)
  case (Cons api apis)
  then have "askEndpoints (getKubernetesEndpoints api) eps (Inr []) = Inr eps"
    using askEndpoints_agree [OF assms(2), of "getKubernetesEndpoints api"] by simp
  then show ?case using Cons assms(2) by (simp add: refreshEndpoints_def)
qed simp

theorem proxy_settles:
  assumes codec: "codecOk marshal unmarshal" and host: "noFaults h"
    and cur: "loadEndpointsConfig unmarshal configFile h = Inr cur" "cur \<noteq> []"
    and agree: "\<And>a ep. a \<in> set (api # apis) \<Longrightarrow> getKubernetesEndpoints a ep = Inr eps" "eps \<noteq> []"
    and starts: "\<And>l. l \<in> set (listen # listen' # listens) \<Longrightarrow> is_ok (startProxy urlHost l cur) \<and> is_ok (startProxy urlHost l eps)"
  shows "fst (snd (runProxy marshal unmarshal urlHost configFile (listen # listen' # listens) (api # apis) h)) =
    (if cur = eps then [cur] else [cur, eps])"
proof -
  obtain tp tp' where tp: "startProxy urlHost listen cur = Inr tp" "startProxy urlHost listen' eps = Inr tp'"
    using starts by (metis is_ok_iff list.set_intros)
  show ?thesis
  proof (cases "cur = eps")
    case True
    then show ?thesis using watch_settled [of "api # apis" eps, OF agree] cur tp by simp
  next
    case False
    obtain b where b: "marshal eps = Inr b" using codec by (auto simp: codecOk_def)
    let ?h = "setFile configFile (Some (newNode h b perm600)) h"
    have w: "WriteEndpointsConfig marshal eps configFile h = (?h, ok)"
      using host b by (simp add: WriteEndpointsConfig_def)
    have sorted: "sorted eps" using agree(1) [of api] getKubernetesEndpoints_sorted by auto
    have read: "Host.H_fault h OpRead configFile = None" using host by (simp add: noFaults_def)
    have load: "loadEndpointsConfig unmarshal configFile ?h = Inr eps"
      using WriteEndpointsConfig_load(2) [OF codec read sorted w] by simp
    have ask: "askEndpoints (getKubernetesEndpoints api) cur (Inr []) = Inr eps"
      using askEndpoints_agree [OF cur(2), of "getKubernetesEndpoints api"] agree(1) by simp
    have first: "watchForNewEndpoints marshal configFile (api # apis) cur h = (?h, Some apis)"
      using ask w False agree(2) by (simp add: refreshEndpoints_def)
    have second: "watchForNewEndpoints marshal configFile apis eps ?h = (?h, None)"
      using watch_settled [of apis eps] agree by simp
    have "runProxy marshal unmarshal urlHost configFile (listen' # listens) apis ?h = (?h, [eps], ok)"
      using load tp(2) second by simp
    then show ?thesis using cur tp(1) first False by simp
  qed
qed

subsection \<open>Concrete proxies\<close>

definition sampleServers :: "string list" where
  "sampleServers = [''10.0.0.1:6443'', ''10.0.0.2:6443'']"

definition sampleProxy :: tcpproxy where
  "sampleProxy = proxyRun \<lparr>T_Endpoints =
      [\<lparr>SRV_Target = ''10.0.0.1'', SRV_Port = 6443, SRV_Priority = 0, SRV_Weight = 0\<rparr>,
       \<lparr>SRV_Target = ''10.0.0.2'', SRV_Port = 6443, SRV_Priority = 0, SRV_Weight = 0\<rparr>],
     T_MonitorInterval = 60 * 10 ^ 9, T_remotes = [], T_pickCount = 0\<rparr>"

lemma remoteAddr_v4:
  "SRV_Target srv = dottedQuad a b c d \<Longrightarrow> remoteAddr srv = dottedQuad a b c d @ '':'' @ natToString (unat (SRV_Port srv))"
  by (simp add: remoteAddr_def ParseIP_dottedQuad ToIPString_v4)

lemma sample_quads: "dottedQuad 10 0 0 1 = ''10.0.0.1''" "dottedQuad 10 0 0 2 = ''10.0.0.2''" "natToString 6443 = ''6443''"
  by (simp add: dottedQuad_def natToString_small natToString_split digitChar_def, code_simp)+

lemma sampleProxy_remotes: "map R_addr (T_remotes sampleProxy) = sampleServers" "length (T_remotes sampleProxy) = 2"
  "\<And>i. i < 2 \<Longrightarrow> isActive sampleProxy i"
proof -
  have a: "remoteAddr \<lparr>SRV_Target = ''10.0.0.1'', SRV_Port = 6443, SRV_Priority = 0, SRV_Weight = 0\<rparr> = ''10.0.0.1:6443''"
    "remoteAddr \<lparr>SRV_Target = ''10.0.0.2'', SRV_Port = 6443, SRV_Priority = 0, SRV_Weight = 0\<rparr> = ''10.0.0.2:6443''"
    using remoteAddr_v4 [of _ 10 0 0 1] remoteAddr_v4 [of _ 10 0 0 2] by (simp_all add: sample_quads)
  then show "map R_addr (T_remotes sampleProxy) = sampleServers" "length (T_remotes sampleProxy) = 2"
    by (simp_all add: sampleProxy_def proxyRun_def sampleServers_def)
  show "\<And>i. i < 2 \<Longrightarrow> isActive sampleProxy i"
    by (auto simp: sampleProxy_def proxyRun_def isActive_def less_2_cases_iff)
qed

text \<open>The second server answers, the first does not.\<close>

definition halfDial :: "nat \<Rightarrow> string \<Rightarrow> unit res" where
  "halfDial k addr = (if addr = ''10.0.0.2:6443'' then ok else Inl (Errorf ''connection refused'' []))"

theorem reachable_server_serves_witness:
  "\<exists>tp' i. serve (\<lambda>_ _ _. 0) halfDial 0 sampleProxy = (tp', Some i) \<and> i < length (T_remotes sampleProxy) \<and> isActive tp' i \<and>
    (\<exists>k. halfDial k (addrOf sampleProxy i) = ok) \<and> isActive tp' 1"
proof -
  have "addrOf sampleProxy 1 = map R_addr (T_remotes sampleProxy) ! 1" using sampleProxy_remotes(2) by simp
  then have "addrOf sampleProxy 1 = ''10.0.0.2:6443''" by (simp add: sampleProxy_remotes(1) sampleServers_def)
  then show ?thesis
    using reachable_server_serves [of "\<lambda>_ _ _. 0" 1 sampleProxy halfDial sampleProxy 0 0] sampleProxy_remotes(2,3)
    by (simp add: goodDraws_def halfDial_def)
qed

theorem connections_take_turns_witness:
  "snd (serveMany (\<lambda>_ _ _. 0) (\<lambda>_ _. ok) 5 sampleProxy) = [Some 0, Some 1, Some 0, Some 1, Some 0]"
proof -
  have "plainRemotes sampleProxy" "T_pickCount sampleProxy = 0"
    "list_all (\<lambda>r. \<not> R_inactive r \<and> (\<forall>k::nat. (\<lambda>_ _. ok) k (R_addr r) = ok)) (T_remotes sampleProxy)"
    by (simp_all add: sampleProxy_def proxyRun_def plainRemotes_def)
  moreover have "T_remotes sampleProxy \<noteq> []" using sampleProxy_remotes(2) by auto
  ultimately show ?thesis
    using connections_take_turns [of sampleProxy "\<lambda>_ _. ok" "\<lambda>_ _ _. 0" 5] by (simp add: sampleProxy_remotes(2) upt_conv_Cons)
qed

text \<open>A codec of lists of strings: every character is preceded by a mark, every string is ended by a dot.\<close>

definition markList :: "string list \<Rightarrow> string" where
  "markList eps = concat (map (\<lambda>s. concat (map (\<lambda>c. [CHR ''c'', c]) s) @ ''.'') eps)"

fun unmarkList :: "string \<Rightarrow> string \<Rightarrow> string list res" where
  "unmarkList acc [] = (if acc = [] then Inr [] else Inl (Errorf ''unexpected end'' []))"
| "unmarkList acc (m # s) =
     (if m = CHR ''.'' then (case unmarkList [] s of Inl e \<Rightarrow> Inl e | Inr eps \<Rightarrow> Inr (acc # eps))
      else (case s of [] \<Rightarrow> Inl (Errorf ''unexpected end'' []) | c # s' \<Rightarrow> unmarkList (acc @ [c]) s'))"

lemma unmarkList_string:
  "unmarkList acc (concat (map (\<lambda>c. [CHR ''c'', c]) s) @ CHR ''.'' # rest) =
    (case unmarkList [] rest of Inl e \<Rightarrow> Inl e | Inr eps \<Rightarrow> Inr ((acc @ s) # eps))"
  by (induction s arbitrary: acc) (simp_all split: sum.split)

lemma sampleCodec: "codecOk (\<lambda>eps. Inr (markList eps)) (unmarkList [])"
proof -
  have "unmarkList [] (markList eps) = Inr eps" for eps
  proof (induction eps)
    case (Cons s eps)
    then show ?case using unmarkList_string [of "[]" s "markList eps"] by (simp add: markList_def)
  qed (simp add: markList_def)
  then show ?thesis by (simp add: codecOk_def)
qed

definition sampleProxyHost :: Host where
  "sampleProxyHost = setFile ''proxy.json'' (Some (newNode emptyHost (markList [''10.0.0.1:6443'']) perm600)) emptyHost"

definition sampleEndpointsAPI :: "string \<Rightarrow> kubeEndpointsAPI" where
  "sampleEndpointsAPI server = \<lparr>KE_config = ok, KE_client = ok,
     KE_slices = Inr (Some [\<lparr>ES_AddressType = AddressTypeIPv4, ES_Ports = [], ES_Endpoints = [[''10.0.0.2''], [''10.0.0.1'']]\<rparr>]),
     KE_endpoints = Inr None\<rparr>"

lemma sampleEndpointsAPI_servers: "getKubernetesEndpoints sampleEndpointsAPI ep = Inr sampleServers"
proof -
  have port: "Itoa 6443 = ''6443''" using sample_quads(3) by (simp add: Itoa_def)
  have "sorted sampleServers" by (simp add: sampleServers_def less_eq_list_code less_char_def)
  then have "sortStrings sampleServers = sampleServers" by (rule sortStrings_idem)
  moreover have "sortStrings [''10.0.0.2:6443'', ''10.0.0.1:6443''] = sortStrings sampleServers"
    by (rule sortStrings_perm) (simp add: sampleServers_def)
  ultimately have "ParseEndpointSlices [\<lparr>ES_AddressType = AddressTypeIPv4, ES_Ports = [], ES_Endpoints = [[''10.0.0.2''], [''10.0.0.1'']]\<rparr>] = sampleServers"
    by (simp add: ParseEndpointSlices_def sliceAddresses_def endpointAddress_def map_filter_simps port)
  then show ?thesis by (simp add: getKubernetesEndpoints_def sampleEndpointsAPI_def)
qed

lemma sampleProxyHost_load: "loadEndpointsConfig (unmarkList []) ''proxy.json'' sampleProxyHost = Inr [''10.0.0.1:6443'']"
proof -
  have "unmarkList [] (markList [''10.0.0.1:6443'']) = Inr [''10.0.0.1:6443'']" by code_simp
  then show ?thesis
    using emptyHost_noFaults by (simp add: sampleProxyHost_def loadEndpointsConfig_def sortStrings_idem noFaults_def)
qed

lemma sampleServers_start:
  "is_ok (startProxy (\<lambda>_. None) ok [''10.0.0.1:6443''])" "is_ok (startProxy (\<lambda>_. None) ok sampleServers)"
proof -
  have v: "map v4Endpoint [(10, 0, 0, 1, 6443)] = [''10.0.0.1:6443'']"
    "map v4Endpoint [(10, 0, 0, 1, 6443), (10, 0, 0, 2, 6443)] = sampleServers"
    by (simp_all add: v4Endpoint_def sampleServers_def sample_quads)
  show "is_ok (startProxy (\<lambda>_. None) ok [''10.0.0.1:6443''])" "is_ok (startProxy (\<lambda>_. None) ok sampleServers)"
    using startProxy_v4 [of "\<lambda>_. None" "[(10, 0, 0, 1, 6443)]"]
      startProxy_v4 [of "\<lambda>_. None" "[(10, 0, 0, 1, 6443), (10, 0, 0, 2, 6443)]"] by (auto simp: v simp del: list.map)
qed

lemma sampleProxyHost_noFaults: "noFaults sampleProxyHost"
  using emptyHost_noFaults by (simp add: sampleProxyHost_def noFaults_def)

theorem proxy_keeps_endpoints_witness:
  "\<exists>h' rounds. runProxy (\<lambda>eps. Inr (markList eps)) (unmarkList []) (\<lambda>_. None) ''proxy.json'' [ok, ok] [sampleEndpointsAPI] sampleProxyHost
     = (h', rounds, ok) \<and> [] \<notin> set rounds"
proof -
  obtain h' rounds r where run: "runProxy (\<lambda>eps. Inr (markList eps)) (unmarkList []) (\<lambda>_. None) ''proxy.json'' [ok, ok] [sampleEndpointsAPI] sampleProxyHost
     = (h', rounds, r)"
    by (cases "runProxy (\<lambda>eps. Inr (markList eps)) (unmarkList []) (\<lambda>_. None) ''proxy.json'' [ok, ok] [sampleEndpointsAPI] sampleProxyHost")
  have "Host.H_fault sampleProxyHost OpRead ''proxy.json'' = None" using sampleProxyHost_noFaults by (simp add: noFaults_def)
  from proxy_keeps_endpoints [OF sampleCodec this sampleProxyHost_load _ run] run show ?thesis by simp
qed

theorem proxy_settles_witness:
  "fst (snd (runProxy (\<lambda>eps. Inr (markList eps)) (unmarkList []) (\<lambda>_. None) ''proxy.json'' [ok, ok, ok]
     [sampleEndpointsAPI, sampleEndpointsAPI] sampleProxyHost)) = [[''10.0.0.1:6443''], sampleServers]"
proof -
  have "fst (snd (runProxy (\<lambda>eps. Inr (markList eps)) (unmarkList []) (\<lambda>_. None) ''proxy.json'' (ok # ok # [ok])
      (sampleEndpointsAPI # [sampleEndpointsAPI]) sampleProxyHost)) =
    (if [''10.0.0.1:6443''] = sampleServers then [[''10.0.0.1:6443'']] else [[''10.0.0.1:6443''], sampleServers])"
    by (rule proxy_settles [OF sampleCodec sampleProxyHost_noFaults sampleProxyHost_load])
      (auto simp: sampleEndpointsAPI_servers sampleServers_start sampleServers_def [symmetric], auto simp: sampleServers_def)
  then show ?thesis by (simp add: sampleServers_def)
qed

end
