(* ===== verification/Client.thy ===== *)
theory Client
  imports Controllers Features Cilium CertRefresh
begin

text \<open>
  The client of the k8sd API (\<open>pkg/client/k8sd\<close>) and the command that keeps the configuration of snapd and that of the cluster in
  step with it (\<open>pkg/utils/experimental/snapdconfig\<close>, \<open>cmd/k8s/k8s_x_snapd_config.go\<close>).

  The HTTP exchange belongs to the microcluster library: a call is an argument that takes the state \<open>'s\<close> of the far side, and the paths of the API are those of its package. So
  is the text of an error (\<open>err.Error()\<close>), on which the client decides whether to repeat a call, the message that the library sends while its
  database starts, and the HTTP status that an error carries.
\<close>

section \<open>Queries\<close>

record clientText =
  CT_errText :: "error \<Rightarrow> string"
  CT_databaseStarting :: string
  CT_status :: "error \<Rightarrow> int option"

definition isTemporary :: "clientText \<Rightarrow> error \<Rightarrow> bool" where
  "isTemporary ct e \<longleftrightarrow>
     strContains (CT_errText ct e) (CT_databaseStarting ct) \<or> strContains (CT_errText ct e) ''Database is not yet ready''"

definition bootstrapPending :: "clientText \<Rightarrow> error \<Rightarrow> bool" where
  "bootstrapPending ct e \<longleftrightarrow> strContains (CT_errText ct e) ''Database is not yet initialized''"

definition queryCheck ::
  "clientText \<Rightarrow> string \<Rightarrow> string \<Rightarrow> ('s \<Rightarrow> ('s, 'a) step) \<Rightarrow> 's \<times> 'a \<Rightarrow> ('s \<times> 'a, bool) step"
where
  "queryCheck ct method path call = (\<lambda>(s, out).
     (case call s of
        (s', Inr x) \<Rightarrow> ((s', x), Inr True)
      | (s', Inl e) \<Rightarrow>
          if isTemporary ct e then ((s', out), Inr False)
          else if bootstrapPending ct e then
            ((s', out), Inl (Wrapf ''the cluster hasn't been initialized yet.  Attempted k8sd query: %s /%s: %w'' [method, path] e))
          else ((s', out), Inl (Wrapf ''failed to %s /%s: %w'' [method, path] e))))"

text \<open>\<open>zero\<close> is the response the caller passes to be filled; \<open>checks\<close> the number of calls before the context ends.\<close>

definition query ::
  "clientText \<Rightarrow> nat \<Rightarrow> 'a \<Rightarrow> string \<Rightarrow> string \<Rightarrow> ('s \<Rightarrow> ('s, 'a) step) \<Rightarrow> 's \<Rightarrow> ('s, 'a) step"
where
  "query ct checks zero method path call s =
     (case WaitUntilReady checks (queryCheck ct method path call) (s, zero) of
        ((s', out), Inl e) \<Rightarrow> (s', Inl (Wrapf ''failed after potential retry: %w'' [] e))
      | ((s', out), Inr _) \<Rightarrow> (s', Inr out))"

text \<open>\<open>errors.As\<close> for an error with a status: the first in the chain of wrapped errors.\<close>

fun statusError :: "(error \<Rightarrow> int option) \<Rightarrow> error \<Rightarrow> int option" where
  "statusError st (Errorf f as) = st (Errorf f as)"
| "statusError st (Wrapf f as e) = (case st (Wrapf f as e) of Some n \<Rightarrow> Some n | None \<Rightarrow> statusError st e)"
| "statusError st (Join es) =
     (case st (Join es) of Some n \<Rightarrow> Some n
      | None \<Rightarrow> foldr (\<lambda>e r. case statusError st e of Some n \<Rightarrow> Some n | None \<Rightarrow> r) es None)"

definition client_NodeStatus ::
  "clientText \<Rightarrow> nat \<Rightarrow> 'a \<Rightarrow> string \<Rightarrow> ('s \<Rightarrow> ('s, 'a) step) \<Rightarrow> 's \<Rightarrow> ('s, 'a \<times> bool) step"
where
  "client_NodeStatus ct checks zero path call s =
     (case query ct checks zero ''GET'' path call s of
        (s', Inl e) \<Rightarrow>
          if statusError (CT_status ct) e = Some 503 then (s', Inr (zero, False)) else (s', Inl e)
      | (s', Inr response) \<Rightarrow> (s', Inr (response, True)))"

definition statusCheck ::
  "clientText \<Rightarrow> nat \<Rightarrow> 'a \<Rightarrow> string \<Rightarrow> ('a \<Rightarrow> bool) \<Rightarrow> ('s \<Rightarrow> ('s, 'a) step) \<Rightarrow> bool \<Rightarrow> 's \<times> 'a \<Rightarrow> ('s \<times> 'a, bool) step"
where
  "statusCheck ct checks zero path ready call waitReady st =
     (case query ct checks zero ''GET'' path call (fst st) of
        (s', Inl e) \<Rightarrow> ((s', zero), Inl e)
      | (s', Inr x) \<Rightarrow> ((s', x), Inr (\<not> waitReady \<or> ready x)))"

definition client_ClusterStatus ::
  "clientText \<Rightarrow> nat \<Rightarrow> nat \<Rightarrow> 'a \<Rightarrow> string \<Rightarrow> ('a \<Rightarrow> bool) \<Rightarrow> ('s \<Rightarrow> ('s, 'a) step) \<Rightarrow> bool \<Rightarrow> 's \<Rightarrow> ('s, 'a) step"
where
  "client_ClusterStatus ct waits checks zero path ready call waitReady s =
     (case WaitUntilReady waits (statusCheck ct checks zero path ready call waitReady) (s, zero) of
        ((s', response), Inl e) \<Rightarrow> (s', Inl e)
      | ((s', response), Inr _) \<Rightarrow> (s', Inr response))"

record ClusterMember =
  CM_Name :: string
  CM_Address :: string

definition GetClusterMember :: "ClusterMember list res \<Rightarrow> string \<Rightarrow> ClusterMember res" where
  "GetClusterMember members name =
     (case members of
        Inl e \<Rightarrow> Inl (Wrapf ''failed to get cluster members: %w'' [] e)
      | Inr mm \<Rightarrow>
          (case find (\<lambda>m. CM_Name m = name) mm of
             Some m \<Rightarrow> Inr m
           | None \<Rightarrow> Inl (Errorf ''cluster member %q not found'' [name])))"

text \<open>Bootstrap and join wait for the daemon first; \<open>ready\<close> is the result of that wait.\<close>

definition queryWhenReady ::
  "clientText \<Rightarrow> nat \<Rightarrow> ('s \<Rightarrow> ('s, unit) step) \<Rightarrow> 'a \<Rightarrow> string \<Rightarrow> ('s \<Rightarrow> ('s, 'a) step) \<Rightarrow> 's \<Rightarrow> ('s, 'a) step"
where
  "queryWhenReady ct checks ready zero path call s =
     tryStep (ready s) ''k8sd is not ready: %w'' [] (\<lambda>s _. query ct checks zero ''POST'' path call s)"

definition BootstrapCluster ::
  "clientText \<Rightarrow> nat \<Rightarrow> ('s \<Rightarrow> ('s, unit) step) \<Rightarrow> 'a \<Rightarrow> string \<Rightarrow> ('s \<Rightarrow> ('s, 'a) step) \<Rightarrow> 's \<Rightarrow> ('s, 'a) step"
where
  "BootstrapCluster ct checks ready zero path call s = queryWhenReady ct checks ready zero path call s"

definition JoinCluster ::
  "clientText \<Rightarrow> nat \<Rightarrow> ('s \<Rightarrow> ('s, unit) step) \<Rightarrow> 'a \<Rightarrow> string \<Rightarrow> ('s \<Rightarrow> ('s, 'a) step) \<Rightarrow> 's \<Rightarrow> ('s, unit) step"
where
  "JoinCluster ct checks ready zero path call s =
     (case queryWhenReady ct checks ready zero path call s of
        (s', Inl e) \<Rightarrow> (s', Inl e) | (s', Inr _) \<Rightarrow> (s', ok))"

subsection \<open>When a call is repeated\<close>

text \<open>The state after \<open>n\<close> calls that all failed with a temporary error.\<close>

fun temporaryRun :: "clientText \<Rightarrow> ('s \<Rightarrow> ('s, 'a) step) \<Rightarrow> nat \<Rightarrow> 's \<Rightarrow> 's option" where
  "temporaryRun ct call 0 s = Some s"
| "temporaryRun ct call (Suc n) s =
     (case call s of (s', Inl e) \<Rightarrow> if isTemporary ct e then temporaryRun ct call n s' else None | (s', Inr _) \<Rightarrow> None)"

lemma waitQuery:
  "WaitUntilReady checks (queryCheck ct method path call) (s, zero) = ((s', out), r) \<Longrightarrow>
   (r = ok \<longrightarrow> (\<exists>n t. n < checks \<and> temporaryRun ct call n s = Some t \<and> call t = (s', Inr out))) \<and>
   (r \<noteq> ok \<longrightarrow> temporaryRun ct call checks s = Some s' \<or>
      (\<exists>n t e. n < checks \<and> temporaryRun ct call n s = Some t \<and> call t = (s', Inl e) \<and> \<not> isTemporary ct e))"
proof (induction checks arbitrary: s)
  case (Suc checks)
  obtain t x where c: "call s = (t, x)" by (cases "call s")
  show ?case
  proof (cases x)
    case (Inr y)
    then have "s' = t" "out = y" "r = ok" using Suc.prems c by (simp_all add: queryCheck_def)
    then show ?thesis using c Inr by (intro conjI impI exI [of _ 0] exI [of _ s]) simp_all
  next
    case (Inl e)
    show ?thesis
    proof (cases "isTemporary ct e")
      case True
      then have "WaitUntilReady checks (queryCheck ct method path call) (t, zero) = ((s', out), r)"
        using Suc.prems c Inl by (simp add: queryCheck_def)
      note IH = Suc.IH [OF this]
      have step: "temporaryRun ct call (Suc n) s = temporaryRun ct call n t" for n using c Inl True by simp
      show ?thesis using IH step Suc_less_eq by metis
    next
      case False
      then have "s' = t" "r \<noteq> ok" using Suc.prems c Inl by (auto simp: queryCheck_def split: if_splits)
      then show ?thesis using c Inl False by (intro conjI impI disjI2 exI [of _ 0] exI [of _ s] exI [of _ e]) simp_all
    qed
  qed
qed auto

text \<open>
  A query returns what a call answered; it repeats a call only after a temporary error, and gives up at the first
  other error or when the context ends.
\<close>

theorem query_repeats_temporary:
  assumes "query ct checks zero method path call s = (s', r)"
  shows "case r of
      Inr x \<Rightarrow> \<exists>n t. n < checks \<and> temporaryRun ct call n s = Some t \<and> call t = (s', Inr x)
    | Inl _ \<Rightarrow> temporaryRun ct call checks s = Some s' \<or>
        (\<exists>n t e. n < checks \<and> temporaryRun ct call n s = Some t \<and> call t = (s', Inl e) \<and> \<not> isTemporary ct e)"
proof -
  obtain s1 out r1 where w: "WaitUntilReady checks (queryCheck ct method path call) (s, zero) = ((s1, out), r1)"
    using prod_cases3 by (metis surj_pair)
  note W = waitQuery [OF w]
  show ?thesis
  proof (cases r1)
    case (Inl e)
    then have "r = Inl (Wrapf ''failed after potential retry: %w'' [] e)" "s1 = s'" using assms w by (simp_all add: query_def)
    then show ?thesis using W Inl by simp
  next
    case (Inr u)
    then have "r = Inr out" "s1 = s'" using assms w by (simp_all add: query_def)
    then show ?thesis using W Inr by simp
  qed
qed

lemma WaitUntilReady_ok:
  "WaitUntilReady n check s = (s', Inr u) \<Longrightarrow> \<exists>t. check t = (s', Inr True)"
  by (induction n check s rule: WaitUntilReady.induct) (auto split: sum.splits if_splits prod.splits)

text \<open>A status that was waited for is that of a ready cluster.\<close>

theorem waited_status_is_ready:
  assumes "client_ClusterStatus ct waits checks zero path ready call True s = (s', Inr x)"
  shows "ready x"
proof -
  let ?check = "statusCheck ct checks zero path ready call True"
  obtain u where "WaitUntilReady waits ?check (s, zero) = ((s', x), Inr u)"
    using assms by (auto simp: client_ClusterStatus_def split: sum.splits prod.splits)
  from WaitUntilReady_ok [OF this] obtain t where "?check t = ((s', x), Inr True)" by blast
  then show ?thesis by (auto simp: statusCheck_def split: sum.splits prod.splits)
qed

section \<open>The configuration of snapd\<close>

text \<open>What the client is asked for, with the state of the cluster.\<close>

record 's configClient =
  CO_new :: "unit res"
  CO_status :: "'s \<Rightarrow> ('s, ClusterRole \<times> bool) step"
  CO_get :: "'s \<Rightarrow> ('s, UserFacingClusterConfig) step"
  CO_set :: "UserFacingClusterConfig \<Rightarrow> 's \<Rightarrow> ('s, unit) step"

abbreviation hostStep :: "(Host \<Rightarrow> (Host, 'a) step) \<Rightarrow> Host \<times> 's \<Rightarrow> (Host \<times> 's, 'a) step" where
  "hostStep f \<equiv> (\<lambda>(h, s). case f h of (h', r) \<Rightarrow> ((h', s), r))"

abbreviation clusterStep :: "('s \<Rightarrow> ('s, 'a) step) \<Rightarrow> Host \<times> 's \<Rightarrow> (Host \<times> 's, 'a) step" where
  "clusterStep f \<equiv> (\<lambda>(h, s). case f s of (s', r) \<Rightarrow> ((h, s'), r))"

definition SetMeta :: "snapdIO \<Rightarrow> Meta \<Rightarrow> Host \<Rightarrow> (Host, unit) step" where
  "SetMeta io m h =
     tryStep (h, sectionJson io (MetaSection m)) ''failed to marshal config: %w'' [] (\<lambda>h b.
     tryStep (SnapctlSet [''meta='' @ b] h) ''failed to snapctl set meta: %w'' [] (\<lambda>h _. (h, ok)))"

definition snapdDisable :: "snapdIO \<Rightarrow> Host \<Rightarrow> (Host, unit) step" where
  "snapdDisable io h =
     tryStep (h, sectionJson io (MetaSection \<lparr>Orb = ''none'', Meta_APIVersion = ''1.30'', Meta_Error = []\<rparr>))
       ''failed to marshal config: %w'' [] (\<lambda>h b.
     tryStep (SnapctlSet [''meta='' @ b, ''dns!'', ''network!'', ''gateway!'', ''ingress!'', ''load-balancer!'', ''local-storage!''] h)
       ''failed to snapctl set: %w'' [] (\<lambda>h _. (h, ok)))"

definition snapdKeys :: "string list" where
  "snapdKeys = [''-d'', ''dns'', ''network'', ''local-storage'', ''load-balancer'', ''ingress'', ''gateway'']"

text \<open>\<open>configJson\<close> reads the configuration that \<open>snapctl get\<close> prints.\<close>

definition SetK8sdFromSnapd ::
  "snapdIO \<Rightarrow> (string \<Rightarrow> UserFacingClusterConfig res) \<Rightarrow> 's configClient \<Rightarrow> Host \<times> 's \<Rightarrow> (Host \<times> 's, unit) step"
where
  "SetK8sdFromSnapd io configJson client st =
     tryStep (hostStep (SnapctlGet (snapctlOut io) snapdKeys) st) ''failed to retrieve snapd configuration: %w'' [] (\<lambda>st b.
     tryStep (st, configJson b) ''failed to parse snapd configuration: %w'' [] (\<lambda>st config.
     tryStep (clusterStep (CO_set client config) st) ''failed to update k8s configuration: %w'' [] (\<lambda>st _. (st, ok))))"

text \<open>
  \<open>ParseMeta\<close> returns a flag besides the error, meant to tell a missing configuration from a failure; it is false
  with every error.
\<close>

definition metaMissing :: "Meta res \<Rightarrow> bool" where
  "metaMissing r \<longleftrightarrow> (case r of Inl _ \<Rightarrow> False | Inr _ \<Rightarrow> True)"

datatype reconcileEnd = MetaReset | Skipped | Reconciled

definition updateSide ::
  "snapdIO \<Rightarrow> (string \<Rightarrow> UserFacingClusterConfig res) \<Rightarrow> 's configClient \<Rightarrow> Meta \<Rightarrow> Host \<times> 's \<Rightarrow> (Host \<times> 's, unit) step"
where
  "updateSide io configJson client mode st =
     (if Orb mode = ''k8sd'' then
        tryStep (clusterStep (CO_get client) st) ''failed to retrieve cluster configuration: %v'' [] (\<lambda>st config.
        tryStep (hostStep (SetSnapdFromK8sd io config) st) ''failed to update snapd state: %v'' [] (\<lambda>st _. (st, ok)))
      else if Orb mode = ''snapd'' then
        tryStep (SetK8sdFromSnapd io configJson client st) ''failed to update k8sd state: %v'' [] (\<lambda>st _. (st, ok))
      else (st, ok))"

definition followMode ::
  "snapdIO \<Rightarrow> (string \<Rightarrow> UserFacingClusterConfig res) \<Rightarrow> 's configClient \<Rightarrow> Meta \<Rightarrow> Host \<times> 's \<Rightarrow> (Host \<times> 's, reconcileEnd) step"
where
  "followMode io configJson client mode st =
     tryPass (updateSide io configJson client mode st) (\<lambda>st _.
     tryStep (hostStep (SetMeta io (mode\<lparr>Orb := ''snapd''\<rparr>)) st) ''failed to set snapd configuration: %v'' [] (\<lambda>st _.
     (st, Inr Reconciled)))"

text \<open>The command: an error is printed and ends it with exit code 1. \<open>checks\<close> bounds the wait for k8sd.\<close>

definition snapdReconcileCmd ::
  "snapdIO \<Rightarrow> (string \<Rightarrow> UserFacingClusterConfig res) \<Rightarrow> nat \<Rightarrow> 's configClient \<Rightarrow> (error \<Rightarrow> string) \<Rightarrow> Host \<times> 's
   \<Rightarrow> (Host \<times> 's, reconcileEnd) step"
where
  "snapdReconcileCmd io configJson checks client errText st =
     (case hostStep (ParseMeta io) st of
        (st, Inl e) \<Rightarrow>
          if \<not> metaMissing (Inl e) then (st, Inl (Wrapf ''failed to parse meta configuration: %v'' [] e))
          else (fst (hostStep (SetMeta io \<lparr>Orb = ''none'', Meta_APIVersion = ''1.30'', Meta_Error = errText e\<rparr>) st), Inr MetaReset)
      | (st, Inr mode) \<Rightarrow>
          if Orb mode = ''none'' then (st, Inr Skipped)
          else
            tryStep (st, CO_new client) ''failed to create k8sd client: %v'' [] (\<lambda>st _.
            tryStep (WaitUntilReady checks (\<lambda>st. case clusterStep (CO_status client) st of (st', r) \<Rightarrow> (st', Inr (is_ok r))) st)
              ''k8sd did not come up in time: %v'' [] (\<lambda>st _.
            (case clusterStep (CO_status client) st of
               (st, Inl _) \<Rightarrow> (st, Inr Skipped)
             | (st, Inr (role, initialized)) \<Rightarrow>
                 if \<not> initialized \<or> role = ClusterRoleWorker then (st, Inr Skipped)
                 else followMode io configJson client mode st))))"

lemma onHost_ok_iff: "hostStep f st = (st', Inr x) \<longleftrightarrow> f (fst st) = (fst st', Inr x) \<and> snd st' = snd st"
  by (cases st; cases st'; cases "f (fst st)") auto

lemma onCluster_ok_iff: "clusterStep f st = (st', Inr x) \<longleftrightarrow> f (snd st) = (snd st', Inr x) \<and> fst st' = fst st"
  by (cases st; cases st'; cases "f (snd st)") auto

lemma SnapctlSet_cmds: "SnapctlSet args h = (h', r) \<Longrightarrow> H_cmds h' = H_cmds h @ [[''snapctl'', ''set''] @ args]"
  by (auto simp: SnapctlSet_def runCommand_def)

lemma SnapctlGet_cmds: "SnapctlGet out args h = (h', Inr b) \<Longrightarrow> H_cmds h' = H_cmds h @ [[''snapctl'', ''get''] @ args] \<and> b = out args"
  by (auto simp: SnapctlGet_def runCommand_def tryPass_ok_iff split: option.splits)

lemma SetMeta_ok: "SetMeta io m h = (h', ok) \<Longrightarrow> \<exists>b. sectionJson io (MetaSection m) = Inr b \<and> H_cmds h' = H_cmds h @ [[''snapctl'', ''set'', ''meta='' @ b]]"
  using SnapctlSet_cmds by (fastforce simp: SetMeta_def tryStep_ok_iff)

lemma SetSnapdFromK8sd_ok:
  "SetSnapdFromK8sd io config h = (h', ok) \<Longrightarrow>
   \<exists>sets. snapdSets (sectionJson io) (sectionOrder io (snapdSections config)) [] = Inr sets \<and> H_cmds h' = H_cmds h @ [[''snapctl'', ''set''] @ sets]"
  using SnapctlSet_cmds by (fastforce simp: SetSnapdFromK8sd_def tryStep_ok_iff split: sum.splits)

lemma checkMeta_orb: "checkMeta m = Inr m' \<Longrightarrow> Orb m' \<in> {''k8sd'', ''snapd'', ''none''}"
  by (auto simp: checkMeta_def Let_def split: if_splits)

lemma ParseMeta_ok:
  "ParseMeta io h = (h', Inr m) \<Longrightarrow> H_cmds h' = H_cmds h @ [[''snapctl'', ''get'', ''-d'', ''meta'']] \<and> Orb m \<in> {''k8sd'', ''snapd'', ''none''}"
  using SnapctlGet_cmds [of "snapctlOut io" "[''-d'', ''meta'']" h] checkMeta_orb by (fastforce simp: ParseMeta_def tryStep_ok_iff)

lemma WaitUntilReady_host:
  "WaitUntilReady n (\<lambda>st. case clusterStep f st of (st', r) \<Rightarrow> (st', Inr (is_ok r))) st = (st', r) \<Longrightarrow> fst st' = fst st"
proof (induction n arbitrary: st)
  case (Suc n)
  obtain h s where st: "st = (h, s)" by (cases st)
  obtain s1 x where f: "f s = (s1, x)" by (cases "f s")
  show ?case using Suc st f by (cases "is_ok x") fastforce+
qed simp

definition metaCmd :: "string list" where
  "metaCmd = [''snapctl'', ''get'', ''-d'', ''meta'']"

text \<open>What a side is updated with, and the commands that were run for it.\<close>

definition sideUpdated ::
  "snapdIO \<Rightarrow> (string \<Rightarrow> UserFacingClusterConfig res) \<Rightarrow> 's configClient \<Rightarrow> Meta \<Rightarrow> 's \<Rightarrow> string list list \<Rightarrow> bool"
where
  "sideUpdated io configJson client mode s' cmds \<longleftrightarrow>
     (Orb mode = ''k8sd'' \<and> (\<exists>t config sets. CO_get client t = (s', Inr config) \<and>
        snapdSets (sectionJson io) (sectionOrder io (snapdSections config)) [] = Inr sets \<and> cmds = [[''snapctl'', ''set''] @ sets])) \<or>
     (Orb mode = ''snapd'' \<and> (\<exists>t config. configJson (snapctlOut io snapdKeys) = Inr config \<and>
        CO_set client config t = (s', ok) \<and> cmds = [[''snapctl'', ''get''] @ snapdKeys]))"

lemma updateSide_ok:
  assumes "updateSide io configJson client mode st = (st', ok)" "Orb mode \<in> {''k8sd'', ''snapd'', ''none''}" "Orb mode \<noteq> ''none''"
  shows "\<exists>cmds. sideUpdated io configJson client mode (snd st') cmds \<and> H_cmds (fst st') = H_cmds (fst st) @ cmds"
proof (cases "Orb mode = ''k8sd''")
  case True
  then obtain st1 config where g: "clusterStep (CO_get client) st = (st1, Inr config)" and s: "hostStep (SetSnapdFromK8sd io config) st1 = (st', ok)"
    using assms(1) by (auto simp: updateSide_def tryStep_ok_iff)
  have "SetSnapdFromK8sd io config (fst st1) = (fst st', ok)" "snd st' = snd st1" "fst st1 = fst st" "CO_get client (snd st) = (snd st1, Inr config)"
    using g s by (simp_all add: onHost_ok_iff onCluster_ok_iff)
  with SetSnapdFromK8sd_ok [of io config "fst st1" "fst st'"] True show ?thesis unfolding sideUpdated_def by auto
next
  case False
  then have orb: "Orb mode = ''snapd''" using assms(2,3) by simp
  then have "SetK8sdFromSnapd io configJson client st = (st', ok)" using assms(1) by (auto simp: updateSide_def tryStep_ok_iff)
  then obtain st1 b config where g: "hostStep (SnapctlGet (snapctlOut io) snapdKeys) st = (st1, Inr b)" "configJson b = Inr config"
    "clusterStep (CO_set client config) st1 = (st', ok)"
    by (auto simp: SetK8sdFromSnapd_def tryStep_ok_iff)
  have "SnapctlGet (snapctlOut io) snapdKeys (fst st) = (fst st1, Inr b)" "CO_set client config (snd st1) = (snd st', ok)" "fst st' = fst st1"
    using g by (simp_all add: onHost_ok_iff onCluster_ok_iff)
  with SnapctlGet_cmds [of "snapctlOut io" snapdKeys "fst st" "fst st1" b] g(2) orb show ?thesis unfolding sideUpdated_def by auto
qed

lemma followMode_ok:
  assumes "followMode io configJson client mode st = (st', Inr fin)" "Orb mode \<in> {''k8sd'', ''snapd'', ''none''}" "Orb mode \<noteq> ''none''"
  shows "fin = Reconciled \<and> (\<exists>b cmds. sideUpdated io configJson client mode (snd st') cmds \<and>
    sectionJson io (MetaSection (mode\<lparr>Orb := ''snapd''\<rparr>)) = Inr b \<and>
    H_cmds (fst st') = H_cmds (fst st) @ cmds @ [[''snapctl'', ''set'', ''meta='' @ b]])"
proof -
  let ?m = "mode\<lparr>Orb := ''snapd''\<rparr>"
  obtain st1 where u: "updateSide io configJson client mode st = (st1, ok)"
    and sm: "hostStep (SetMeta io ?m) st1 = (st', ok)" and fin: "fin = Reconciled"
    using assms(1) unfolding followMode_def tryPass_ok_iff tryStep_ok_iff
    by (elim exE conjE) (simp only: unit_eq prod.inject sum.inject simp_thms)
  obtain cmds where cmds: "sideUpdated io configJson client mode (snd st1) cmds" "H_cmds (fst st1) = H_cmds (fst st) @ cmds"
    using updateSide_ok [OF u assms(2,3)] by blast
  have sm': "SetMeta io ?m (fst st1) = (fst st', ok)" "snd st' = snd st1" using sm unfolding onHost_ok_iff by simp_all
  from SetMeta_ok [OF sm'(1)] obtain b where "sectionJson io (MetaSection ?m) = Inr b"
    "H_cmds (fst st') = H_cmds (fst st1) @ [[''snapctl'', ''set'', ''meta='' @ b]]" by blast
  then show ?thesis using cmds fin sm'(2) by auto
qed


text \<open>A node whose mode is k8sd: its configuration is written to snapd.\<close>

definition sampleReconcileIO :: snapdIO where
  "sampleReconcileIO = \<lparr>snapctlOut = (\<lambda>_. ''{}''), parseMetaJson = (\<lambda>_. Inr \<lparr>Orb = ''k8sd'', Meta_APIVersion = [], Meta_Error = []\<rparr>),
     sectionJson = (\<lambda>s. case s of MetaSection m \<Rightarrow> Inr (Orb m) | _ \<Rightarrow> Inr ''{}''), sectionOrder = (\<lambda>xs. xs)\<rparr>"

definition sampleConfigClient :: "nat configClient" where
  "sampleConfigClient = \<lparr>CO_new = ok, CO_status = (\<lambda>s. (s, Inr (ClusterRoleControlPlane, True))),
     CO_get = (\<lambda>s. (s, Inr (ToUserFacing emptyClusterConfig))), CO_set = (\<lambda>c s. (Suc s, ok))\<rparr>"


end
