(* ===== verification/Console.thy ===== *)
theory Console
  imports Client NodeSetup GoTime
begin

text \<open>
  The commands of the \<open>k8s\<close> command line that change a cluster: \<open>bootstrap\<close> (\<open>cmd/k8s/k8s_bootstrap.go\<close>, \<open>validate.go\<close>), \<open>enable\<close>,
  \<open>disable\<close> and \<open>set\<close>, with the helpers of \<open>cmd/util\<close>, the decode hooks of \<open>pkg/utils/mapstructure.go\<close> and the addresses of
  \<open>ParseAddressString\<close>.

  A command is a step on the state \<open>'s\<close> of the daemon it talks to. An error it prints before it exits with code 1 is \<open>Inl\<close>;
  \<open>Inr\<close> is what it prints on success. Warnings are not modelled. Parsing of flags and the output formats belong to cobra and to the
  encoders.
\<close>

section \<open>The environment of a command\<close>

text \<open>
  The search for a key in \<open>EnvironWithDefaults\<close>: an entry that is the key without an equals sign makes the condition read
  beyond the parts, a panic (\<open>None\<close>).
\<close>

fun environHas :: "string list \<Rightarrow> string \<Rightarrow> bool option" where
  "environHas [] key = Some False"
| "environHas (val # environ) key =
     (case strCut (CHR ''='') val of
        Some (k, v) \<Rightarrow> if k = key then Some True else environHas environ key
      | None \<Rightarrow> if val = key then None else environHas environ key)"

fun EnvironWithDefaults :: "string list \<Rightarrow> string list \<Rightarrow> string list option" where
  "EnvironWithDefaults environ [] = Some environ"
| "EnvironWithDefaults environ [key] = None"
| "EnvironWithDefaults environ (key # value # keyValues) =
     (if odd (length keyValues) then None
      else
        (case environHas environ key of
           None \<Rightarrow> None
         | Some True \<Rightarrow> EnvironWithDefaults environ keyValues
         | Some False \<Rightarrow> EnvironWithDefaults (environ @ [key @ ''='' @ value]) keyValues))"

fun ExistsInEnviron :: "string list \<Rightarrow> string \<Rightarrow> bool" where
  "ExistsInEnviron [] key = False"
| "ExistsInEnviron (envKV # environ) key =
     (case strCut (CHR ''='') envKV of
        Some (k, v) \<Rightarrow> if k = key \<and> v \<noteq> [] then True else ExistsInEnviron environ key
      | None \<Rightarrow> ExistsInEnviron environ key)"

definition MinimumNArgs :: "nat \<Rightarrow> string list \<Rightarrow> unit res" where
  "MinimumNArgs n args =
     (if length args < n
      then Inl (Errorf ''requires at least %d arg(s), only received %d'' [natToString n, natToString (length args)]) else ok)"

definition MaximumNArgs :: "nat \<Rightarrow> string list \<Rightarrow> unit res" where
  "MaximumNArgs n args =
     (if n < length args
      then Inl (Errorf ''accepts at most %d arg(s), received %d'' [natToString n, natToString (length args)]) else ok)"

definition ExactArgs :: "nat \<Rightarrow> string list \<Rightarrow> unit res" where
  "ExactArgs n args =
     (if length args \<noteq> n
      then Inl (Errorf ''accepts %d arg(s), received %d'' [natToString n, natToString (length args)]) else ok)"

datatype Formatter = plainFormatter | jsonFormatter | yamlFormatter

definition NewFormatter :: "string \<Rightarrow> Formatter res" where
  "NewFormatter formatterType =
     (if formatterType = [] \<or> formatterType = ''plain'' then Inr plainFormatter
      else if formatterType = ''json'' then Inr jsonFormatter
      else if formatterType = ''yaml'' then Inr yamlFormatter
      else Inl (Errorf ''unknown formatter type %q'' [formatterType]))"

definition hookRequireRoot :: "int \<Rightarrow> unit res" where
  "hookRequireRoot uid =
     (if uid \<noteq> 0 then Inl (Errorf ''You do not have enough permissions. Please re-run the command with sudo.'' []) else ok)"

definition hookInitializeFormatter :: "string \<Rightarrow> Formatter res" where
  "hookInitializeFormatter fmt =
     (case NewFormatter fmt of
        Inl e \<Rightarrow> Inl (Errorf ''Unknown --output-format %q. It must be one of %q (default), %q or %q.'' [fmt, ''plain'', ''json'', ''yaml''])
      | Inr f \<Rightarrow> Inr f)"

text \<open>The owner of a path; \<open>owner\<close> is the result of \<open>os.Stat\<close>.\<close>

definition ValidateRootOwnership :: "(string \<Rightarrow> (nat \<times> nat) res) \<Rightarrow> string \<Rightarrow> unit res" where
  "ValidateRootOwnership owner path =
     (case owner path of
        Inl e \<Rightarrow> Inl (Wrapf ''error getting file info: %w'' [] e)
      | Inr (uid, gid) \<Rightarrow>
          if uid \<noteq> 0 then Inl (Errorf ''owner of %s is user with UID %d expected 0'' [path, natToString uid])
          else if gid \<noteq> 0 then Inl (Errorf ''owner of %s is group with GID %d expected 0'' [path, natToString gid])
          else ok)"

text \<open>The flag and the error are both returned; a missing permission still answers yes.\<close>

definition InLXDContainer :: "(error \<Rightarrow> bool) \<Rightarrow> string res \<Rightarrow> bool \<times> unit res" where
  "InLXDContainer isPermission content =
     (case content of
        Inl e \<Rightarrow>
          if isPermission e then (True, Inl (Wrapf ''cannnot access %s to check if runing in LXD container: %w'' [''/proc/1/environ''] e))
          else (False, Inl (Wrapf ''cannnot read %s to check if runing in LXD container: %w'' [''/proc/1/environ''] e))
      | Inr text' \<Rightarrow> (strContains text' ''container=lxc'', ok))"

definition hookCheckLXD :: "(error \<Rightarrow> bool) \<Rightarrow> string res \<Rightarrow> (string \<Rightarrow> (nat \<times> nat) res) \<Rightarrow> error list" where
  "hookCheckLXD isPermission content owner =
     (case InLXDContainer isPermission content of
        (inLXD, Inl e) \<Rightarrow> []
      | (inLXD, Inr _) \<Rightarrow>
          if inLXD
          then List.map_filter (\<lambda>p. case ValidateRootOwnership owner p of Inl e \<Rightarrow> Some e | Inr _ \<Rightarrow> None) [''/sys'', ''/proc'', ''/dev/kmsg'']
          else [])"

subsection \<open>Defaults of the environment\<close>

text \<open>What \<open>os.Getenv\<close> finds for a key: the value of its first entry.\<close>

fun environValue :: "string list \<Rightarrow> string \<Rightarrow> string option" where
  "environValue [] key = None"
| "environValue (e # environ) key =
     (case strCut (CHR ''='') e of
        Some (k, v) \<Rightarrow> if k = key then Some v else environValue environ key
      | None \<Rightarrow> environValue environ key)"

abbreviation wellFormed :: "string list \<Rightarrow> bool" where
  "wellFormed environ \<equiv> list_all (\<lambda>e. CHR ''='' \<in> set e) environ"

lemma environHas_iff: "wellFormed environ \<Longrightarrow> environHas environ key = Some (environValue environ key \<noteq> None)"
proof (induction environ)
  case (Cons e environ)
  then obtain k v where "strCut (CHR ''='') e = Some (k, v)" using strCut_None [of "CHR ''=''" e] by (cases "strCut (CHR ''='') e") auto
  then show ?case using Cons by simp
qed simp

lemma environValue_append:
  "environValue (environ @ added) key = (case environValue environ key of None \<Rightarrow> environValue added key | Some v \<Rightarrow> Some v)"
  by (induction environ) (auto split: option.splits)

text \<open>The first value that a list of pairs gives to a key.\<close>

fun defaultOf :: "string list \<Rightarrow> string \<Rightarrow> string option" where
  "defaultOf (k # v # rest) key = (if k = key then Some v else defaultOf rest key)"
| "defaultOf _ key = None"

fun cleanKeys :: "string list \<Rightarrow> bool" where
  "cleanKeys (k # v # rest) \<longleftrightarrow> CHR ''='' \<notin> set k \<and> cleanKeys rest"
| "cleanKeys [k] \<longleftrightarrow> False"
| "cleanKeys [] \<longleftrightarrow> True"

lemma cleanKeys_even: "cleanKeys kvs \<Longrightarrow> even (length kvs)"
  by (induction kvs rule: cleanKeys.induct) simp_all

text \<open>
  In an environment of well-formed entries, every variable keeps its value, also an empty one, and a variable that is not
  set gets its default; all entries stay.
\<close>

theorem environ_defaults:
  assumes "wellFormed environ" "cleanKeys keyValues"
  shows "\<exists>added. EnvironWithDefaults environ keyValues = Some (environ @ added) \<and> wellFormed added \<and>
    environValue (environ @ added) key = (case environValue environ key of Some v \<Rightarrow> Some v | None \<Rightarrow> defaultOf keyValues key)"
  using assms
proof (induction keyValues arbitrary: environ rule: cleanKeys.induct)
  case (1 k v rest)
  have even: "even (length rest)" using 1(3) by (intro cleanKeys_even) simp
  have cut: "strCut (CHR ''='') (k @ ''='' @ v) = Some (k, v)" using 1(3) strCut_append_sep [of "CHR ''=''" k v] by simp
  show ?case
  proof (cases "environValue environ k")
    case None
    have wf: "wellFormed (environ @ [k @ ''='' @ v])" using 1(2) by simp
    from 1(1) [OF wf] 1(3) obtain added where m:
      "EnvironWithDefaults (environ @ [k @ ''='' @ v]) rest = Some ((environ @ [k @ ''='' @ v]) @ added)" "wellFormed added"
      "environValue ((environ @ [k @ ''='' @ v]) @ added) key =
        (case environValue (environ @ [k @ ''='' @ v]) key of Some w \<Rightarrow> Some w | None \<Rightarrow> defaultOf rest key)" by auto
    have "EnvironWithDefaults environ (k # v # rest) = Some (environ @ ((k @ ''='' @ v) # added))"
      using m(1) even environHas_iff [OF 1(2), of k] None by simp
    moreover have "environValue (environ @ ((k @ ''='' @ v) # added)) key =
        (case environValue environ key of Some w \<Rightarrow> Some w | None \<Rightarrow> defaultOf (k # v # rest) key)"
      using m(3) cut by (auto simp: environValue_append split: option.splits)
    ultimately show ?thesis using m(2) by (intro exI [of _ "(k @ ''='' @ v) # added"]) simp
  next
    case (Some w)
    from 1(1) [OF 1(2)] 1(3) obtain added where m: "EnvironWithDefaults environ rest = Some (environ @ added)" "wellFormed added"
      "environValue (environ @ added) key = (case environValue environ key of Some w \<Rightarrow> Some w | None \<Rightarrow> defaultOf rest key)" by auto
    have "EnvironWithDefaults environ (k # v # rest) = Some (environ @ added)"
      using m(1) even environHas_iff [OF 1(2), of k] Some by simp
    then show ?thesis using m Some by (intro exI [of _ added]) (auto split: option.splits)
  qed
qed (simp_all split: option.split)

section \<open>Interactive configuration\<close>

text \<open>
  Standard input is the list of what successive reads return: a line each from a terminal, one large piece from a pipe; after the last
  it is at its end. \<open>readString\<close> is \<open>ReadString('\n')\<close> of a new buffered reader. What it read beyond the line stays in the buffer, which
  is dropped with the reader.
\<close>

fun readString :: "string \<Rightarrow> string list \<Rightarrow> string \<times> string list" where
  "readString buffer [] = ((if newline \<in> set buffer then takeWhile (\<lambda>c. c \<noteq> newline) buffer @ [newline] else buffer), [])"
| "readString buffer (piece # pieces) =
     (if newline \<in> set buffer then (takeWhile (\<lambda>c. c \<noteq> newline) buffer @ [newline], piece # pieces)
      else readString (buffer @ piece) pieces)"

lemma readString_shorter: "length (snd (readString buffer pieces)) \<le> length pieces"
  by (induction buffer pieces rule: readString.induct) auto

lemma readString_consumes: "fst (readString [] pieces) \<noteq> [] \<Longrightarrow> length (snd (readString [] pieces)) < length pieces"
  using readString_shorter [of _ "tl pieces"] by (cases pieces) (simp_all add: less_Suc_eq_le)

definition normalizeAnswer :: "string \<Rightarrow> string" where
  "normalizeAnswer s = filter (\<lambda>c. c \<noteq> CHR '' '' \<and> c \<noteq> newline) (map toLowerChar s)"

definition validAnswer :: "string list option \<Rightarrow> string \<Rightarrow> bool" where
  "validAnswer options s \<longleftrightarrow>
     (case options of None \<Rightarrow> True | Some os \<Rightarrow> list_all (\<lambda>element. element \<in> set os) (splitOn (CHR '','') s))"

text \<open>
  The loops of \<open>askQuestion\<close>: at the end of the input the inner loop asks for ever, which is \<open>None\<close>. The result is the answer with the
  input that is left.
\<close>

function askQuestion :: "string list option \<Rightarrow> string \<Rightarrow> string list \<Rightarrow> (string \<times> string list) option" where
  "askQuestion options defaultVal stdin =
     (case readString [] stdin of (s, stdin') \<Rightarrow>
        if s = [] then None
        else
          let answer = normalizeAnswer s in
          if answer = [] then Some (defaultVal, stdin')
          else if validAnswer options answer then Some (answer, stdin')
          else askQuestion options defaultVal stdin')"
  by pat_completeness auto

termination askQuestion
proof (relation "measure (\<lambda>(options, defaultVal, stdin). length stdin)", goal_cases)
  case (2 options defaultVal stdin s stdin' answer)
  then show ?case using readString_consumes [of stdin] by (metis case_prod_conv fst_conv in_measure snd_conv)
qed simp

declare askQuestion.simps [simp del]

fun splitBy :: "(char \<Rightarrow> bool) \<Rightarrow> string \<Rightarrow> string list" where
  "splitBy p [] = [[]]"
| "splitBy p (c # cs) =
     (if p c then [] # splitBy p cs
      else (case splitBy p cs of [] \<Rightarrow> [[c]] | w # ws \<Rightarrow> (c # w) # ws))"

definition FieldsFunc :: "(char \<Rightarrow> bool) \<Rightarrow> string \<Rightarrow> string list" where
  "FieldsFunc p s = filter (\<lambda>w. w \<noteq> []) (splitBy p s)"

definition featureList :: "string list" where
  "featureList = [''network'', ''dns'', ''gateway'', ''ingress'', ''local-storage'', ''load-balancer'']"

definition emptyUserFacing :: UserFacingClusterConfig where
  "emptyUserFacing = ToUserFacing emptyClusterConfig"

text \<open>The options of a cluster that the command line knows; the other fields of the request keep their zero values.\<close>

record bootstrapChoice =
  BH_ClusterConfig :: UserFacingClusterConfig
  BH_PodCIDR :: "string ptr"
  BH_ServiceCIDR :: "string ptr"

definition enableComponent :: "string \<Rightarrow> UserFacingClusterConfig \<Rightarrow> UserFacingClusterConfig" where
  "enableComponent component c =
     (if component = ''network'' then c\<lparr>UF_Network := (UF_Network c)\<lparr>NetworkConfig_Enabled := Some True\<rparr>\<rparr>
      else if component = ''dns'' then c\<lparr>UF_DNS := (UF_DNS c)\<lparr>DNSConfig_Enabled := Some True\<rparr>\<rparr>
      else if component = ''ingress'' then c\<lparr>UF_Ingress := (UF_Ingress c)\<lparr>Ingress_Enabled := Some True\<rparr>\<rparr>
      else if component = ''load-balancer'' then c\<lparr>UF_LoadBalancer := (UF_LoadBalancer c)\<lparr>LBConfig_Enabled := Some True\<rparr>\<rparr>
      else if component = ''gateway'' then c\<lparr>UF_Gateway := (UF_Gateway c)\<lparr>Gateway_Enabled := Some True\<rparr>\<rparr>
      else if component = ''local-storage'' then c\<lparr>UF_LocalStorage := (UF_LocalStorage c)\<lparr>LocalStorage_Enabled := Some True\<rparr>\<rparr>
      else c)"

definition getConfigInteractively :: "string list \<Rightarrow> bootstrapChoice option" where
  "getConfigInteractively stdin =
     (case askQuestion (Some featureList) ''network, dns, gateway, local-storage'' stdin of
        None \<Rightarrow> None
      | Some (components, stdin) \<Rightarrow>
     (case askQuestion None ''10.1.0.0/16'' stdin of
        None \<Rightarrow> None
      | Some (podCIDR, stdin) \<Rightarrow>
     (case askQuestion None ''10.152.183.0/24'' stdin of
        None \<Rightarrow> None
      | Some (serviceCIDR, stdin) \<Rightarrow>
          Some \<lparr>BH_ClusterConfig = fold enableComponent (FieldsFunc (\<lambda>r. isSpace r \<or> r = CHR '','') components) emptyUserFacing,
                BH_PodCIDR = Some podCIDR, BH_ServiceCIDR = Some serviceCIDR\<rparr>)))"

subsection \<open>Answers\<close>

lemma askQuestion_result:
  "askQuestion options d stdin = Some (a, rest) \<Longrightarrow> length rest < length stdin \<and> (a = d \<or> a \<noteq> [] \<and> validAnswer options a)"
proof (induction options d stdin rule: askQuestion.induct)
  case (1 options d stdin)
  obtain s stdin' where r: "readString [] stdin = (s, stdin')" by (cases "readString [] stdin")
  have s: "s \<noteq> []" using 1(2) r by (cases "s = []") (simp_all add: askQuestion.simps [of options d stdin])
  have l: "length stdin' < length stdin" using readString_consumes [of stdin] r s by simp
  note IH = 1(1) [OF r [symmetric] s refl]
  consider "normalizeAnswer s = []" | "normalizeAnswer s \<noteq> []" "validAnswer options (normalizeAnswer s)"
    | "normalizeAnswer s \<noteq> []" "\<not> validAnswer options (normalizeAnswer s)" by blast
  then show ?case
  proof cases
    case 3
    then have "askQuestion options d stdin' = Some (a, rest)" using 1(2) r s by (simp add: askQuestion.simps [of options d stdin] Let_def)
    from IH [OF 3 this] show ?thesis using l by simp
  qed (use 1(2) r s l in \<open>auto simp: askQuestion.simps [of options d stdin] Let_def\<close>)
qed

lemma askQuestion_end: "askQuestion options d [] = None"
  by (simp add: askQuestion.simps [of options d "[]"])

text \<open>From a terminal, the first line that is empty or valid is the answer.\<close>

lemma readString_line: "newline \<notin> set line \<Longrightarrow> readString [] ((line @ [newline]) # rest) = (line @ [newline], rest)"
proof -
  assume "newline \<notin> set line"
  then have "takeWhile (\<lambda>c. c \<noteq> newline) (line @ [newline]) = line" by (subst takeWhile_append2) auto
  then show ?thesis by (cases rest) simp_all
qed

theorem terminal_answers:
  assumes "list_all (\<lambda>line. newline \<notin> set line) (wrong @ [right])"
    and "list_all (\<lambda>line. normalizeAnswer line \<noteq> [] \<and> \<not> validAnswer options (normalizeAnswer line)) wrong"
    and "normalizeAnswer right = [] \<or> validAnswer options (normalizeAnswer right)"
  shows "askQuestion options d (map (\<lambda>line. line @ [newline]) (wrong @ [right]) @ rest) =
    Some (if normalizeAnswer right = [] then d else normalizeAnswer right, rest)"
  using assms(1,2)
proof (induction wrong)
  case Nil
  have n: "normalizeAnswer (right @ [newline]) = normalizeAnswer right"
    by (simp add: normalizeAnswer_def toLowerChar_def less_eq_char_def)
  have "readString [] ((right @ [newline]) # rest) = (right @ [newline], rest)" using Nil by (intro readString_line) simp
  then show ?case using assms(3) by (subst askQuestion.simps) (auto simp: n Let_def)
next
  case (Cons line wrong)
  have n: "normalizeAnswer (line @ [newline]) = normalizeAnswer line"
    by (simp add: normalizeAnswer_def toLowerChar_def less_eq_char_def)
  have "readString [] ((line @ [newline]) # map (\<lambda>line. line @ [newline]) (wrong @ [right]) @ rest) =
      (line @ [newline], map (\<lambda>line. line @ [newline]) (wrong @ [right]) @ rest)"
    using Cons.prems by (intro readString_line) simp
  then show ?case using Cons by (subst askQuestion.simps) (simp add: n Let_def)
qed

text \<open>From a pipe, the first question takes all of the input, and the second is asked for ever.\<close>

theorem piped_answers_hang: "getConfigInteractively [input] = None"
proof (cases "askQuestion (Some featureList) ''network, dns, gateway, local-storage'' [input]")
  case (Some r)
  obtain a rest where "r = (a, rest)" by (cases r)
  then have "rest = []" using askQuestion_result [of _ _ "[input]" a rest] Some by simp
  then show ?thesis using Some \<open>r = (a, rest)\<close> by (simp add: getConfigInteractively_def askQuestion_end)
qed (simp add: getConfigInteractively_def)

section \<open>Enabling and disabling features\<close>

definition featureSections :: "bool \<Rightarrow> (string \<times> (UserFacingClusterConfig \<Rightarrow> UserFacingClusterConfig)) list" where
  "featureSections b =
     [(''network'', \<lambda>c. c\<lparr>UF_Network := \<lparr>NetworkConfig_Enabled = Some b, NetworkConfig_KubeProxyEnabled = (if b then Some False else None)\<rparr>\<rparr>),
      (''dns'', \<lambda>c. c\<lparr>UF_DNS := (UF_DNS emptyUserFacing)\<lparr>DNSConfig_Enabled := Some b\<rparr>\<rparr>),
      (''gateway'', \<lambda>c. c\<lparr>UF_Gateway := \<lparr>Gateway_Enabled = Some b\<rparr>\<rparr>),
      (''ingress'', \<lambda>c. c\<lparr>UF_Ingress := emptyIngress\<lparr>Ingress_Enabled := Some b\<rparr>\<rparr>),
      (''local-storage'', \<lambda>c. c\<lparr>UF_LocalStorage := emptyLocalStorage\<lparr>LocalStorage_Enabled := Some b\<rparr>\<rparr>),
      (''load-balancer'', \<lambda>c. c\<lparr>UF_LoadBalancer := (UF_LoadBalancer emptyUserFacing)\<lparr>LBConfig_Enabled := Some b\<rparr>\<rparr>),
      (''metrics-server'', \<lambda>c. c\<lparr>UF_MetricsServer := \<lparr>MetricsServer_Enabled = Some b\<rparr>\<rparr>)]"

fun featureConfig :: "bool \<Rightarrow> string list \<Rightarrow> UserFacingClusterConfig \<Rightarrow> UserFacingClusterConfig res" where
  "featureConfig b [] config = Inr config"
| "featureConfig b (feature # args) config =
     (case map_of (featureSections b) feature of
        None \<Rightarrow> Inl (Errorf (if b then ''Cannot enable %q, must be one of: %s'' else ''Cannot disable %q, must be one of: %s'') (feature # featureList))
      | Some assign \<Rightarrow> featureConfig b args (assign config))"

text \<open>The checks of a command on a node that is part of a cluster.\<close>

definition onClusterNode :: "'s configClient \<Rightarrow> ('s \<Rightarrow> ('s, 'a) step) \<Rightarrow> 's \<Rightarrow> ('s, 'a) step" where
  "onClusterNode client f s =
     tryStep (CO_status client s) ''Failed to check the current node status. The error was: %v'' [] (\<lambda>s (role, initialized).
     if \<not> initialized then (s, Inl (Errorf ''The node is not part of a Kubernetes cluster.'' [])) else f s)"

definition featureCommand :: "bool \<Rightarrow> 's configClient \<Rightarrow> string list \<Rightarrow> 's \<Rightarrow> ('s, string list) step" where
  "featureCommand b client args s =
     tryPass (s, MinimumNArgs 1 args) (\<lambda>s _.
     tryPass (s, featureConfig b args emptyUserFacing) (\<lambda>s config.
     tryStep (s, CO_new client) ''Failed to create a k8sd client. The error was: %v'' [] (\<lambda>s _.
     onClusterNode client (\<lambda>s.
       tryStep (CO_set client config s) (if b then ''Failed to enable %s on the cluster. The error was: %v''
           else ''Failed to disable %s from the cluster. The error was: %v'') args (\<lambda>s _. (s, Inr args))) s)))"

definition enableCmd :: "'s configClient \<Rightarrow> string list \<Rightarrow> 's \<Rightarrow> ('s, string list) step" where
  "enableCmd = featureCommand True"

definition disableCmd :: "'s configClient \<Rightarrow> string list \<Rightarrow> 's \<Rightarrow> ('s, string list) step" where
  "disableCmd = featureCommand False"

subsection \<open>What is asked for\<close>

text \<open>The configuration in which exactly the named features are set.\<close>

definition requested :: "bool \<Rightarrow> string list \<Rightarrow> UserFacingClusterConfig" where
  "requested b args = emptyUserFacing\<lparr>
     UF_Network := (if ''network'' \<in> set args
       then \<lparr>NetworkConfig_Enabled = Some b, NetworkConfig_KubeProxyEnabled = (if b then Some False else None)\<rparr> else UF_Network emptyUserFacing),
     UF_DNS := (if ''dns'' \<in> set args then (UF_DNS emptyUserFacing)\<lparr>DNSConfig_Enabled := Some b\<rparr> else UF_DNS emptyUserFacing),
     UF_Gateway := (if ''gateway'' \<in> set args then \<lparr>Gateway_Enabled = Some b\<rparr> else UF_Gateway emptyUserFacing),
     UF_Ingress := (if ''ingress'' \<in> set args then emptyIngress\<lparr>Ingress_Enabled := Some b\<rparr> else UF_Ingress emptyUserFacing),
     UF_LocalStorage := (if ''local-storage'' \<in> set args then emptyLocalStorage\<lparr>LocalStorage_Enabled := Some b\<rparr> else UF_LocalStorage emptyUserFacing),
     UF_LoadBalancer := (if ''load-balancer'' \<in> set args
       then (UF_LoadBalancer emptyUserFacing)\<lparr>LBConfig_Enabled := Some b\<rparr> else UF_LoadBalancer emptyUserFacing),
     UF_MetricsServer := (if ''metrics-server'' \<in> set args then \<lparr>MetricsServer_Enabled = Some b\<rparr> else UF_MetricsServer emptyUserFacing)\<rparr>"

abbreviation knownFeatures :: "string list" where
  "knownFeatures \<equiv> map fst (featureSections True)"

lemma featureConfig_snoc:
  "featureConfig b (args @ [f]) c =
    (case featureConfig b args c of Inl e \<Rightarrow> Inl e | Inr c' \<Rightarrow> featureConfig b [f] c')"
proof (induction args arbitrary: c)
  case (Cons a args)
  then show ?case by (cases "map_of (featureSections b) a") simp_all
qed simp

lemma featureSections_known: "map_of (featureSections b) f = None \<longleftrightarrow> f \<notin> set knownFeatures"
  by (auto simp: map_of_eq_None_iff featureSections_def)

lemma requested_step:
  assumes "map_of (featureSections b) f = Some assign"
  shows "assign (requested b args) = requested b (args @ [f])"
proof -
  have "f \<in> set knownFeatures" using assms featureSections_known [of b f] by auto
  then have "f = ''network'' \<or> f = ''dns'' \<or> f = ''gateway'' \<or> f = ''ingress'' \<or> f = ''local-storage'' \<or> f = ''load-balancer''
    \<or> f = ''metrics-server''" by (simp add: featureSections_def)
  moreover have "assign = the (map_of (featureSections b) f)" using assms by simp
  ultimately show ?thesis
    by (elim disjE) (simp_all add: featureSections_def requested_def split del: if_split)
qed

lemma featureConfig_requested:
  "featureConfig b args emptyUserFacing =
    (case find (\<lambda>f. f \<notin> set knownFeatures) args of
       None \<Rightarrow> Inr (requested b args)
     | Some f \<Rightarrow> Inl (Errorf (if b then ''Cannot enable %q, must be one of: %s'' else ''Cannot disable %q, must be one of: %s'') (f # featureList)))"
proof (induction args rule: rev_induct)
  case Nil
  show ?case by (simp add: requested_def)
next
  case (snoc f args)
  have find: "find P (args @ [f]) = (case find P args of Some x \<Rightarrow> Some x | None \<Rightarrow> if P f then Some f else None)" for P
    by (induction args) auto
  show ?case
  proof (cases "find (\<lambda>f. f \<notin> set knownFeatures) args")
    case None
    show ?thesis
    proof (cases "map_of (featureSections b) f")
      case (Some assign)
      then have "f \<in> set knownFeatures" using featureSections_known [of b f] by auto
      then show ?thesis using snoc None Some requested_step [OF Some] by (simp add: featureConfig_snoc find del: list.set_map)
    qed (use snoc None featureSections_known [of b f] in \<open>simp add: featureConfig_snoc find del: list.set_map\<close>)
  qed (use snoc in \<open>simp add: featureConfig_snoc find del: list.set_map\<close>)
qed

text \<open>
  A command that enables or disables features sends at most one change, on a node of a cluster, in which exactly the named
  features are set; it sends none when a name is unknown.
\<close>

theorem feature_command_request:
  assumes "featureCommand b client args s = (s', r)"
  shows "(\<exists>e. r = Inl e \<and> (s' = s \<or> s' = fst (CO_status client s))) \<or>
    (set args \<subseteq> set knownFeatures \<and> args \<noteq> [] \<and>
     (\<exists>t role. CO_status client s = (t, Inr (role, True)) \<and> s' = fst (CO_set client (requested b args) t) \<and>
       (r = Inr args \<longleftrightarrow> snd (CO_set client (requested b args) t) = ok)))"
proof (cases "args = [] \<or> find (\<lambda>f. f \<notin> set knownFeatures) args \<noteq> None")
  case True
  have "\<exists>e. featureCommand b client args s = (s, Inl e)"
  proof (cases "args = []")
    case no: False
    then obtain f where "find (\<lambda>f. f \<notin> set knownFeatures) args = Some f" using True by auto
    then have "\<exists>e. featureConfig b args emptyUserFacing = Inl e" by (simp only: featureConfig_requested option.simps sum.simps) blast
    then obtain e where "featureConfig b args emptyUserFacing = Inl e" ..
    then show ?thesis using no by (simp add: featureCommand_def MinimumNArgs_def Suc_le_eq)
  qed (simp add: featureCommand_def MinimumNArgs_def)
  then obtain e where "featureCommand b client args s = (s, Inl e)" ..
  then show ?thesis using assms by auto
next
  case False
  then have none: "find (\<lambda>f. f \<notin> set knownFeatures) args = None" by blast
  have known: "set args \<subseteq> set knownFeatures" using none by (auto simp: find_None_iff simp del: list.set_map)
  have config: "featureConfig b args emptyUserFacing = Inr (requested b args)"
    by (simp only: featureConfig_requested none option.simps)
  have ne: "args \<noteq> []" using False by blast
  obtain t x where st: "CO_status client s = (t, x)" by (cases "CO_status client s")
  note run = assms [unfolded featureCommand_def MinimumNArgs_def onClusterNode_def, simplified config st]
  show ?thesis
  proof (cases "CO_new client")
    case (Inl e)
    then have "s' = s \<and> (\<exists>e. r = Inl e)" using run ne by (auto simp: Suc_le_eq)
    then show ?thesis by blast
  next
    case new: (Inr u)
    show ?thesis
    proof (cases "\<exists>role. x = Inr (role, True)")
      case True
      then obtain role where x: "x = Inr (role, True)" ..
      obtain t' y where set: "CO_set client (requested b args) t = (t', y)" by (cases "CO_set client (requested b args) t")
      have "s' = t' \<and> (r = Inr args \<longleftrightarrow> y = ok)" using run ne st x new set by (cases y) (auto simp: Suc_le_eq)
      then show ?thesis using known ne st x set by auto
    next
      case not_ready: False
      have "s' = t \<and> (\<exists>e. r = Inl e)" using run ne st new not_ready by (cases x) (auto simp: Suc_le_eq split: if_splits)
      then show ?thesis using st by auto
    qed
  qed
qed

section \<open>Setting options\<close>

datatype anyMap = MapLeaf string string | MapNode string anyMap

lemma strCut_shorter: "strCut d s = Some (a, b) \<Longrightarrow> length b < length s"
  using strCut_SomeD by fastforce

function toRecursiveMap :: "string \<Rightarrow> string \<Rightarrow> anyMap" where
  "toRecursiveMap key value =
     (case strCut (CHR ''.'') key of
        Some (first, rest) \<Rightarrow> MapNode first (toRecursiveMap rest value)
      | None \<Rightarrow> MapLeaf key value)"
  by pat_completeness auto

termination toRecursiveMap
  by (relation "measure (\<lambda>(key, value). length key)") (auto dest: strCut_shorter)

declare toRecursiveMap.simps [simp del]

definition knownSetKeys :: "string list" where
  "knownSetKeys =
     [''annotations'', ''cloud-provider'',
      ''dns.cluster-domain'', ''dns.enabled'', ''dns.service-ip'', ''dns.upstream-nameservers'',
      ''gateway.enabled'',
      ''ingress.default-tls-secret'', ''ingress.enable-proxy-protocol'', ''ingress.enabled'',
      ''load-balancer.bgp-local-asn'', ''load-balancer.bgp-mode'', ''load-balancer.bgp-peer-address'', ''load-balancer.bgp-peer-asn'',
      ''load-balancer.bgp-peer-port'', ''load-balancer.cidrs'', ''load-balancer.enabled'', ''load-balancer.l2-interfaces'',
      ''load-balancer.l2-mode'',
      ''local-storage.default'', ''local-storage.enabled'', ''local-storage.local-path'', ''local-storage.reclaim-policy'',
      ''metrics-server.enabled'', ''network.enabled'', ''network.kube-proxy-enabled'']"

text \<open>\<open>decode\<close> is the decoder of the mapstructure package, which sets the fields of the configuration that the map names.\<close>

definition updateConfigMapstructure ::
  "(anyMap \<Rightarrow> UserFacingClusterConfig \<Rightarrow> UserFacingClusterConfig res) \<Rightarrow> string \<Rightarrow> UserFacingClusterConfig \<Rightarrow> UserFacingClusterConfig res"
where
  "updateConfigMapstructure decode arg config =
     (case strCut (CHR ''='') arg of
        None \<Rightarrow> Inl (Errorf ''option not in <key>=<value> format'' [])
      | Some (key, value) \<Rightarrow>
          if key \<notin> set knownSetKeys then Inl (Errorf ''unknown option key %q'' [key])
          else
            (case decode (toRecursiveMap key value) config of
               Inl e \<Rightarrow> Inl (Wrapf ''invalid option %q: %w'' [arg] e)
             | Inr config' \<Rightarrow> Inr config'))"

fun setOptions ::
  "(anyMap \<Rightarrow> UserFacingClusterConfig \<Rightarrow> UserFacingClusterConfig res) \<Rightarrow> string list \<Rightarrow> UserFacingClusterConfig \<Rightarrow> UserFacingClusterConfig res"
where
  "setOptions decode [] config = Inr config"
| "setOptions decode (arg # args) config =
     (case updateConfigMapstructure decode arg config of
        Inl e \<Rightarrow> Inl (Wrapf ''Invalid option %q. The error was: %v'' [arg] e)
      | Inr config' \<Rightarrow> setOptions decode args config')"

definition setCmd ::
  "(anyMap \<Rightarrow> UserFacingClusterConfig \<Rightarrow> UserFacingClusterConfig res) \<Rightarrow> 's configClient \<Rightarrow> string list \<Rightarrow> 's \<Rightarrow> ('s, UserFacingClusterConfig) step"
where
  "setCmd decode client args s =
     tryPass (s, MinimumNArgs 1 args) (\<lambda>s _.
     tryPass (s, setOptions decode args emptyUserFacing) (\<lambda>s config.
     tryStep (s, CO_new client) ''Failed to create a k8sd client. The error was: %v'' [] (\<lambda>s _.
     tryStep (CO_set client config s) ''Failed to apply requested cluster configuration changes. The error was: %v'' [] (\<lambda>s _. (s, Inr config)))))"

text \<open>The path of a map and the value at its end.\<close>

fun mapPath :: "anyMap \<Rightarrow> string list \<times> string" where
  "mapPath (MapLeaf k v) = ([k], v)"
| "mapPath (MapNode k m) = (k # fst (mapPath m), snd (mapPath m))"

lemma splitOn_cut: "strCut d s = Some (a, b) \<Longrightarrow> splitOn d s = a # splitOn d b"
  using strCut_SomeD splitOn_append_sep by metis

text \<open>The nested map of an option is the path that its key names, down to its value.\<close>

theorem toRecursiveMap_path: "mapPath (toRecursiveMap key v) = (splitOn (CHR ''.'') key, v)"
proof (induction key v rule: toRecursiveMap.induct)
  case (1 key v)
  show ?case
  proof (cases "strCut (CHR ''.'') key")
    case None
    then have "CHR ''.'' \<notin> set key" by (simp add: strCut_None)
    then show ?thesis using None by (simp add: toRecursiveMap.simps [of key] splitOn_no_sep)
  next
    case (Some p)
    obtain a b where p: "p = (a, b)" by (cases p)
    then have "mapPath (toRecursiveMap b v) = (splitOn (CHR ''.'') b, v)" using 1 Some by blast
    then show ?thesis using Some p splitOn_cut [of "CHR ''.''" key a b] by (simp add: toRecursiveMap.simps [of key])
  qed
qed

section \<open>Decode hooks\<close>

datatype goKind = KindString | KindSlice | KindMap | KindOther

datatype goAny = AnyString string | AnySlice "string list" | AnyMap "string gomap" | AnyOther

fun kindOf :: "goAny \<Rightarrow> goKind" where
  "kindOf (AnyString s) = KindString"
| "kindOf (AnySlice xs) = KindSlice"
| "kindOf (AnyMap m) = KindMap"
| "kindOf AnyOther = KindOther"

text \<open>The hooks of \<open>pkg/utils/mapstructure.go\<close>: \<open>t\<close> is the kind of the target, \<open>yamlList\<close> and \<open>yamlMap\<close> read YAML.\<close>

definition YAMLToStringSliceHookFunc :: "(string \<Rightarrow> string list res) \<Rightarrow> goKind \<Rightarrow> goAny \<Rightarrow> goAny" where
  "YAMLToStringSliceHookFunc yamlList t data =
     (case data of
        AnyString s \<Rightarrow>
          if t \<noteq> KindSlice \<or> s = [] then data
          else (case yamlList s of Inl e \<Rightarrow> data | Inr xs \<Rightarrow> AnySlice xs)
      | _ \<Rightarrow> data)"

definition StringToFieldsSliceHookFunc :: "char \<Rightarrow> goKind \<Rightarrow> goAny \<Rightarrow> goAny" where
  "StringToFieldsSliceHookFunc r t data =
     (case data of
        AnyString raw \<Rightarrow>
          if t \<noteq> KindSlice then data
          else if raw = [] then AnySlice [] else AnySlice (FieldsFunc (\<lambda>c. c = r \<or> isSpace c) raw)
      | _ \<Rightarrow> data)"

definition YAMLToStringMapHookFunc :: "(string \<Rightarrow> string gomap res) \<Rightarrow> goKind \<Rightarrow> goAny \<Rightarrow> goAny" where
  "YAMLToStringMapHookFunc yamlMap t data =
     (case data of
        AnyString s \<Rightarrow>
          if t \<noteq> KindMap then data
          else if s = [] then AnyMap []
          else (case yamlMap s of Inl e \<Rightarrow> data | Inr m \<Rightarrow> AnyMap m)
      | _ \<Rightarrow> data)"

fun fieldPairs :: "string list \<Rightarrow> (string \<times> string) list option" where
  "fieldPairs [] = Some []"
| "fieldPairs (kv # fs) =
     (case strCut (CHR ''='') kv of
        None \<Rightarrow> None
      | Some p \<Rightarrow> map_option ((#) p) (fieldPairs fs))"

definition StringToStringMapHookFunc :: "goKind \<Rightarrow> goAny \<Rightarrow> goAny" where
  "StringToStringMapHookFunc t data =
     (case data of
        AnyString raw \<Rightarrow>
          if t \<noteq> KindMap then data
          else if raw = [] then AnyMap []
          else
            (case fieldPairs (FieldsFunc (\<lambda>c. c = CHR '','' \<or> isSpace c) raw) of
               None \<Rightarrow> data
             | Some kvs \<Rightarrow> AnyMap (mapAssignAll [] kvs))
      | _ \<Rightarrow> data)"

subsection \<open>Options are read as they are written\<close>

lemma splitBy_splitOn: "\<forall>c \<in> set s. p c \<longleftrightarrow> c = d \<Longrightarrow> splitBy p s = splitOn d s"
  by (induction s) auto

definition plainField :: "string \<Rightarrow> bool" where
  "plainField w \<longleftrightarrow> w \<noteq> [] \<and> (\<forall>c \<in> set w. c \<noteq> CHR '','' \<and> \<not> isSpace c)"

lemma set_joinWith: "set (joinWith d ws) \<subseteq> insert d (\<Union>w \<in> set ws. set w)"
  by (induction d ws rule: joinWith.induct) auto

lemma FieldsFunc_join:
  assumes "list_all plainField ws" "ws \<noteq> []"
  shows "FieldsFunc (\<lambda>c. c = CHR '','' \<or> isSpace c) (joinWith (CHR '','') ws) = ws"
proof -
  have "splitBy (\<lambda>c. c = CHR '','' \<or> isSpace c) (joinWith (CHR '','') ws) = splitOn (CHR '','') (joinWith (CHR '','') ws)"
    using set_joinWith [of "CHR '',''" ws] assms(1) by (intro splitBy_splitOn) (auto simp: list_all_iff plainField_def)
  also have "\<dots> = ws" using assms by (intro splitOn_joinWith) (auto simp: list_all_iff plainField_def)
  finally show ?thesis using assms(1) by (simp add: FieldsFunc_def filter_id_conv list_all_iff plainField_def)
qed

theorem slice_option_roundtrip:
  assumes "list_all plainField ws" "ws \<noteq> []"
  shows "StringToFieldsSliceHookFunc (CHR '','') KindSlice (AnyString (joinWith (CHR '','') ws)) = AnySlice ws"
proof -
  have "joinWith (CHR '','') ws \<noteq> []" using FieldsFunc_join [OF assms] assms(2) by (auto simp: FieldsFunc_def)
  then show ?thesis using FieldsFunc_join [OF assms] by (simp add: StringToFieldsSliceHookFunc_def)
qed

definition pairText :: "string \<times> string \<Rightarrow> string" where
  "pairText p = fst p @ ''='' @ snd p"

lemma fieldPairs_text: "list_all (\<lambda>p. CHR ''='' \<notin> set (fst p)) m \<Longrightarrow> fieldPairs (map pairText m) = Some m"
proof (induction m)
  case (Cons p m)
  have "strCut (CHR ''='') (pairText p) = Some p"
    using Cons.prems strCut_append_sep [of "CHR ''=''" "fst p" "snd p"] by (simp add: pairText_def)
  then show ?case using Cons by simp
qed simp

theorem map_option_roundtrip:
  assumes "goodMap m" "m \<noteq> []" "list_all (\<lambda>p. CHR ''='' \<notin> set (fst p) \<and> plainField (pairText p)) m"
  shows "\<exists>m'. StringToStringMapHookFunc KindMap (AnyString (joinWith (CHR '','') (map pairText m))) = AnyMap m' \<and> map_of m' = map_of m"
proof -
  let ?ws = "map pairText m"
  have ws: "list_all plainField ?ws" "?ws \<noteq> []" using assms by (auto simp: list_all_iff)
  have "joinWith (CHR '','') ?ws \<noteq> []" using FieldsFunc_join [OF ws] assms(2) by (auto simp: FieldsFunc_def)
  moreover have "fieldPairs ?ws = Some m" using assms(3) by (intro fieldPairs_text) (auto simp: list_all_iff)
  ultimately have "StringToStringMapHookFunc KindMap (AnyString (joinWith (CHR '','') ?ws)) = AnyMap (mapAssignAll [] m)"
    using FieldsFunc_join [OF ws] by (simp add: StringToStringMapHookFunc_def)
  then show ?thesis using map_of_assignAll [OF assms(1), of "[]"] by simp
qed

section \<open>The address of a node\<close>

text \<open>The match of \<open>^\[?([a-z0-9:.]+\/[0-9]+)\]?\<close>, its group.\<close>

definition addressChar :: "char \<Rightarrow> bool" where
  "addressChar c \<longleftrightarrow> CHR ''a'' \<le> c \<and> c \<le> CHR ''z'' \<or> isDigit c \<or> c = CHR '':'' \<or> c = CHR ''.''"

definition cidrPrefix :: "string \<Rightarrow> string option" where
  "cidrPrefix address =
     (let s = (if HasPrefix address ''['' then tl address else address);
          a = takeWhile addressChar s;
          rest = dropWhile addressChar s;
          n = takeWhile isDigit (tl rest)
      in if a \<noteq> [] \<and> HasPrefix rest ''/'' \<and> n \<noteq> [] then Some (a @ ''/'' @ n) else None)"

text \<open>\<open>strings.ReplaceAll\<close> for a text that is not empty; \<open>skip\<close> counts the characters of a match that are still to be passed.\<close>

fun replaceFrom :: "string \<Rightarrow> string \<Rightarrow> nat \<Rightarrow> string \<Rightarrow> string" where
  "replaceFrom old new skip [] = []"
| "replaceFrom old new skip (c # cs) =
     (if 0 < skip then replaceFrom old new (skip - 1) cs
      else if HasPrefix (c # cs) old then new @ replaceFrom old new (length old - 1) cs
      else c # replaceFrom old new 0 cs)"

definition ReplaceAll :: "string \<Rightarrow> string \<Rightarrow> string \<Rightarrow> string" where
  "ReplaceAll s old new = replaceFrom old new 0 s"

definition resolveCIDR :: "netAddr list res \<Rightarrow> string \<Rightarrow> string res" where
  "resolveCIDR interfaceAddrs address =
     (case cidrPrefix address of
        None \<Rightarrow> Inr address
      | Some c \<Rightarrow>
          (case ParseCIDR c of
             None \<Rightarrow> Inr address
           | Some (_, ipNet) \<Rightarrow>
               (case findMatchingNodeAddress interfaceAddrs ipNet of
                  Inl e \<Rightarrow> Inl (Wrapf ''failed to find a matching node address for %q: %w'' [address] e)
                | Inr matchingIP \<Rightarrow> Inr (ReplaceAll address c (IPString matchingIP)))))"

text \<open>\<open>nic\<close> is the address of the network interface that the LXD library finds.\<close>

definition addressParts :: "string \<Rightarrow> int \<Rightarrow> (string \<times> int) res" where
  "addressParts address port =
     (case SplitHostPort address of
        None \<Rightarrow> Inr (address, port)
      | Some (host, hostPort) \<Rightarrow>
          (case Atoi hostPort of
             None \<Rightarrow> Inl (Wrapf ''failed to parse the port from %q: %w'' [hostPort] (Errorf ''strconv.ParseInt: %q'' [hostPort]))
           | Some p \<Rightarrow> Inr (host, p)))"

definition joinParts :: "string \<Rightarrow> string \<times> int \<Rightarrow> string res" where
  "joinParts nic = (\<lambda>(address, port).
     if port < 0 \<or> 65535 < port then Inl (Errorf ''invalid port number %d'' [Itoa port])
     else Inr (JoinHostPort (if address = [] then nic else address) (Itoa port)))"

definition ParseAddressString :: "netAddr list res \<Rightarrow> string \<Rightarrow> string \<Rightarrow> int \<Rightarrow> string res" where
  "ParseAddressString interfaceAddrs nic address port =
     (case resolveCIDR interfaceAddrs address of
        Inl e \<Rightarrow> Inl e
      | Inr address \<Rightarrow> (case addressParts address port of Inl e \<Rightarrow> Inl e | Inr parts \<Rightarrow> joinParts nic parts))"

text \<open>Every address that is accepted has a host and a port of sixteen bits.\<close>

theorem parsed_address_wf:
  assumes "ParseAddressString ifs nic address defaultPort = Inr a" "nic \<noteq> []"
  shows "\<exists>host port. a = JoinHostPort host (Itoa port) \<and> host \<noteq> [] \<and> 0 \<le> port \<and> port \<le> 65535"
proof -
  obtain parts where "joinParts nic parts = Inr a" using assms(1) by (auto simp: ParseAddressString_def split: sum.splits)
  then show ?thesis using assms(2)
    by (intro exI [of _ "if fst parts = [] then nic else fst parts"] exI [of _ "snd parts"])
      (auto simp: joinParts_def split: prod.splits if_splits)
qed

section \<open>Bootstrap\<close>

definition minTimeout :: int where "minTimeout = 3 * 10 ^ 9"

definition normalizeContainerdBaseDir :: "string \<Rightarrow> string res" where
  "normalizeContainerdBaseDir path =
     (if path = [] then Inr []
      else
        let path = filepathClean path in
        if \<not> HasPrefix path ''/'' then Inl (Errorf ''containerd-base-dir must be an absolute path, got %q'' [path])
        else Inr path)"

record bootstrapFile =
  BF_config :: BootstrapConfig
  BF_ContainerdBaseDir :: string
  BF_services :: K8sServiceConfigs

definition emptyBootstrapFile :: bootstrapFile where
  "emptyBootstrapFile = \<lparr>
     BF_config = \<lparr>BC_ClusterConfig = emptyUserFacing, BC_SecurePort = None, BC_DisableRBAC = None, BC_DatastoreType = None,
       BC_DatastoreServers = [], BC_DatastoreCACert = None, BC_DatastoreClientCert = None, BC_DatastoreClientKey = None,
       BC_EtcdPort = None, BC_EtcdPeerPort = None, BC_PodCIDR = None, BC_ServiceCIDR = None, BC_ControlPlaneTaints = []\<rparr>,
     BF_ContainerdBaseDir = [],
     BF_services = \<lparr>ExtraNodeKubeControllerManagerArgs = None, ExtraNodeKubeSchedulerArgs = None, ExtraNodeKubeletArgs = None,
       ExtraNodeKubeProxyArgs = None\<rparr>\<rparr>"

definition fromChoice :: "bootstrapChoice \<Rightarrow> bootstrapFile" where
  "fromChoice c = emptyBootstrapFile\<lparr>BF_config := (BF_config emptyBootstrapFile)\<lparr>
     BC_ClusterConfig := BH_ClusterConfig c, BC_PodCIDR := BH_PodCIDR c, BC_ServiceCIDR := BH_ServiceCIDR c\<rparr>\<rparr>"

text \<open>The default configuration of \<open>bootstrap\<close>.\<close>

definition defaultBootstrap :: bootstrapFile where
  "defaultBootstrap = emptyBootstrapFile\<lparr>BF_config := (BF_config emptyBootstrapFile)\<lparr>
     BC_ClusterConfig := emptyUserFacing\<lparr>
       UF_Network := \<lparr>NetworkConfig_Enabled = Some True, NetworkConfig_KubeProxyEnabled = Some False\<rparr>,
       UF_DNS := (UF_DNS emptyUserFacing)\<lparr>DNSConfig_Enabled := Some True\<rparr>,
       UF_Gateway := \<lparr>Gateway_Enabled = Some True\<rparr>,
       UF_LocalStorage := emptyLocalStorage\<lparr>LocalStorage_Enabled := Some True\<rparr>\<rparr>\<rparr>\<rparr>"

text \<open>What \<open>verifyConfig\<close> reads of its surroundings.\<close>

record verifyEnv =
  VE_extern :: extern
  VE_getters :: bootstrapGetters
  VE_order :: "string gomap \<Rightarrow> string gomap"
  VE_portOpen :: "string \<Rightarrow> bool res"
  VE_newSnap :: "string \<Rightarrow> Snap"

definition verifyConfig ::
  "verifyEnv \<Rightarrow> ClusterConfig \<Rightarrow> K8sServiceConfigs \<Rightarrow> string \<Rightarrow> bool \<Rightarrow> Machine \<Rightarrow> (Machine, unit) step"
where
  "verifyConfig env cfg svcConfigs containerdDir isControlPlane m =
     tryStep (m, Validate (VE_extern env) cfg) ''invalid cluster configuration: %w'' [] (\<lambda>m _.
     tryStep (m, normalizeContainerdBaseDir containerdDir) ''invalid containerd-base-dir value: %w'' [] (\<lambda>m dir.
     tryStep (PreInitChecks (VE_order env) (VE_portOpen env) (VE_newSnap env dir) cfg svcConfigs isControlPlane m)
       ''pre-init checks failed for node: %w'' [] (\<lambda>m _. (m, ok))))"

definition verifyBootstrapConfig :: "verifyEnv \<Rightarrow> bootstrapFile \<Rightarrow> Machine \<Rightarrow> (Machine, unit) step" where
  "verifyBootstrapConfig env b m =
     tryPass (m, ClusterConfigFromBootstrapConfig (VE_getters env) (BF_config b)) (\<lambda>m cfg.
     verifyConfig env (SetDefaults cfg) (BF_services b) (BF_ContainerdBaseDir b) True m)"

text \<open>The join configuration is verified with the defaults; \<open>workerJoin\<close> and \<open>controlPlaneJoin\<close> read its YAML strictly.\<close>

definition verifyJoinConfig ::
  "verifyEnv \<Rightarrow> tokenJson \<Rightarrow> (string \<Rightarrow> (K8sServiceConfigs \<times> string) res) \<Rightarrow> (string \<Rightarrow> (K8sServiceConfigs \<times> string) res)
   \<Rightarrow> string \<Rightarrow> string \<Rightarrow> Machine \<Rightarrow> (Machine, unit) step"
where
  "verifyJoinConfig env tokens workerJoin controlPlaneJoin joinConfig token m =
     (case Token_Decode tokens token of
        Inr _ \<Rightarrow>
          tryStep (m, workerJoin joinConfig) ''failed to unmarshal worker join config: %w'' [] (\<lambda>m (svc, dir).
          verifyConfig env (SetDefaults emptyClusterConfig)
            (svc\<lparr>ExtraNodeKubeControllerManagerArgs := None, ExtraNodeKubeSchedulerArgs := None\<rparr>) dir False m)
      | Inl _ \<Rightarrow>
          tryStep (m, controlPlaneJoin joinConfig) ''failed to unmarshal control plane join config: %w'' [] (\<lambda>m (svc, dir).
          verifyConfig env (SetDefaults emptyClusterConfig) svc dir True m))"

record bootstrapOpts =
  BO_interactive :: bool
  BO_configFile :: string
  BO_name :: string
  BO_address :: string
  BO_timeout :: int
  BO_containerdBaseDir :: string

record bootstrapRequest =
  BQ_Name :: string
  BQ_Address :: string
  BQ_Config :: bootstrapFile
  BQ_Timeout :: int

text \<open>\<open>BV_stdin\<close> is what standard input holds, \<open>BV_file\<close> reads a file or, for a dash, standard input; \<open>BV_yaml\<close> decodes YAML strictly.\<close>

record 's bootstrapEnv =
  BV_snapd :: "unit res"
  BV_microk8s :: "(int \<times> bool) res"
  BV_hostname :: "string res"
  BV_clean :: "string \<Rightarrow> string res"
  BV_parse :: "string \<Rightarrow> string res"
  BV_newClient :: "unit res"
  BV_status :: "'s \<Rightarrow> ('s, bool) step"
  BV_stdin :: "string list"
  BV_file :: "string \<Rightarrow> string res"
  BV_yaml :: "string \<Rightarrow> bootstrapFile res"
  BV_verify :: verifyEnv
  BV_bootstrap :: "bootstrapRequest \<Rightarrow> 's \<Rightarrow> ('s, string) step"

definition getConfigFromYaml :: "'s bootstrapEnv \<Rightarrow> string \<Rightarrow> bootstrapFile res" where
  "getConfigFromYaml env filePath =
     (case BV_file env filePath of
        Inl e \<Rightarrow> Inl (Wrapf (if filePath = ''-'' then ''failed to read config from stdin: %w'' else ''failed to read file: %w'') [] e)
      | Inr b \<Rightarrow>
          (case BV_yaml env b of Inl e \<Rightarrow> Inl (Wrapf ''failed to parse YAML config file: %w'' [] e) | Inr config \<Rightarrow> Inr config))"

text \<open>The name of the node: an invalid host name is reported, and the empty name that the failed cleaning returned is used.\<close>

definition bootstrapName :: "'s bootstrapEnv \<Rightarrow> string \<Rightarrow> string res" where
  "bootstrapName env name =
     (if name \<noteq> [] then Inr name
      else
        (case BV_hostname env of
           Inl e \<Rightarrow> Inl (Wrapf ''--name is not set and could not determine the current node name. The error was: %v'' [] e)
         | Inr hostname \<Rightarrow> (case BV_clean env hostname of Inl e \<Rightarrow> Inr [] | Inr clean \<Rightarrow> Inr clean)))"

text \<open>The configuration that is asked for; the outer option is \<open>None\<close> when the questions never end.\<close>

definition bootstrapSource :: "'s bootstrapEnv \<Rightarrow> bootstrapOpts \<Rightarrow> bootstrapFile res option" where
  "bootstrapSource env opts =
     (if BO_interactive opts then map_option (\<lambda>c. Inr (fromChoice c)) (getConfigInteractively (BV_stdin env))
      else if BO_configFile opts \<noteq> [] then Some (getConfigFromYaml env (BO_configFile opts))
      else Some (Inr defaultBootstrap))"

definition withBaseDir :: "bootstrapOpts \<Rightarrow> bootstrapFile \<Rightarrow> bootstrapFile res" where
  "withBaseDir opts config =
     (let config = (if BO_containerdBaseDir opts \<noteq> [] then config\<lparr>BF_ContainerdBaseDir := BO_containerdBaseDir opts\<rparr> else config) in
      case normalizeContainerdBaseDir (BF_ContainerdBaseDir config) of
        Inl e \<Rightarrow> Inl (Wrapf ''invalid containerd-base-dir value. The error was: %v'' [] e)
      | Inr dir \<Rightarrow> Inr (config\<lparr>BF_ContainerdBaseDir := dir\<rparr>))"

definition sendBootstrap ::
  "'s bootstrapEnv \<Rightarrow> bootstrapOpts \<Rightarrow> string \<Rightarrow> string \<Rightarrow> bootstrapFile \<Rightarrow> Machine \<times> 's \<Rightarrow> (Machine \<times> 's, string) step"
where
  "sendBootstrap env opts name address config st =
     tryPass (st, withBaseDir opts config) (\<lambda>(m, s) config.
     case verifyBootstrapConfig (BV_verify env) config m of
       (m, Inl e) \<Rightarrow> ((m, s), Inl (Wrapf ''Bootstrap config verification failed: %v'' [] e))
     | (m, Inr _) \<Rightarrow>
         (case BV_bootstrap env \<lparr>BQ_Name = name, BQ_Address = address, BQ_Config = config,
              BQ_Timeout = max minTimeout (BO_timeout opts)\<rparr> s of
            (s, Inl e) \<Rightarrow> ((m, s), Inl (Wrapf ''Failed to bootstrap the cluster. The error was: %v'' [] e))
          | (s, Inr node) \<Rightarrow> ((m, s), Inr node)))"

abbreviation microk8sInstalled :: "'s bootstrapEnv \<Rightarrow> bool" where
  "microk8sInstalled env \<equiv> (case BV_microk8s env of Inl _ \<Rightarrow> False | Inr (code, installed) \<Rightarrow> code = 200 \<and> installed)"

text \<open>The checks up to the first call to the daemon, with the name and the address of the node.\<close>

definition bootstrapChecks :: "'s bootstrapEnv \<Rightarrow> bootstrapOpts \<Rightarrow> (string \<times> string) res" where
  "bootstrapChecks env opts =
     (case BV_snapd env of
        Inl e \<Rightarrow> Inl (Wrapf ''failed to create snapd client: %v'' [] e)
      | Inr _ \<Rightarrow>
     if microk8sInstalled env then Inl (Errorf ''microk8s snap is installed.'' [])
     else if BO_interactive opts \<and> BO_configFile opts \<noteq> []
     then Inl (Errorf ''--interactive and --file flags cannot be set at the same time.'' [])
     else
     (case bootstrapName env (BO_name opts) of
        Inl e \<Rightarrow> Inl e
      | Inr name \<Rightarrow>
     (case BV_parse env (BO_address opts) of
        Inl e \<Rightarrow> Inl (Wrapf ''Failed to parse the address %q. The error was: %v'' [BO_address opts] e)
      | Inr address \<Rightarrow>
     (case BV_newClient env of
        Inl e \<Rightarrow> Inl (Wrapf ''Failed to create a k8sd client. The error was: %v'' [] e)
      | Inr _ \<Rightarrow> Inr (name, address)))))"

definition bootstrapCmd ::
  "'s bootstrapEnv \<Rightarrow> bootstrapOpts \<Rightarrow> Machine \<times> 's \<Rightarrow> (Machine \<times> 's, string) step option"
where
  "bootstrapCmd env opts st =
     (case bootstrapChecks env opts of
        Inl e \<Rightarrow> Some (st, Inl e)
      | Inr (name, address) \<Rightarrow>
     (case BV_status env (snd st) of
        (s, Inl e) \<Rightarrow> Some ((fst st, s), Inl (Wrapf ''Failed to check the current node status. The error was: %v'' [] e))
      | (s, Inr initialized) \<Rightarrow>
     if initialized then Some ((fst st, s), Inl (Errorf ''The node is already part of a cluster'' []))
     else
     (case bootstrapSource env opts of
        None \<Rightarrow> None
      | Some (Inl e) \<Rightarrow>
          Some ((fst st, s), Inl (Wrapf ''Failed to read bootstrap configuration from %q. The error was: %v'' [BO_configFile opts] e))
      | Some (Inr config) \<Rightarrow> Some (sendBootstrap env opts name address config (fst st, s)))))"

subsection \<open>When a cluster is bootstrapped\<close>

lemma withBaseDir_clean:
  assumes "withBaseDir opts config = Inr c"
  shows "BF_ContainerdBaseDir c = [] \<or> HasPrefix (BF_ContainerdBaseDir c) ''/''"
  using assms by (auto simp: withBaseDir_def normalizeContainerdBaseDir_def Let_def split: sum.splits if_splits)

lemma sendBootstrap_sent:
  assumes "sendBootstrap env opts name address config (m, s) = ((m', s'), r)"
  shows "(s' = s \<and> (\<exists>e. r = Inl e)) \<or>
    (\<exists>c. verifyBootstrapConfig (BV_verify env) c m = (m', ok) \<and> (BF_ContainerdBaseDir c = [] \<or> HasPrefix (BF_ContainerdBaseDir c) ''/'') \<and>
      s' = fst (BV_bootstrap env \<lparr>BQ_Name = name, BQ_Address = address, BQ_Config = c, BQ_Timeout = max minTimeout (BO_timeout opts)\<rparr> s))"
proof (cases "withBaseDir opts config")
  case (Inl e)
  then show ?thesis using assms by (auto simp: sendBootstrap_def)
next
  case (Inr c)
  obtain m1 v where v: "verifyBootstrapConfig (BV_verify env) c m = (m1, v)" by (cases "verifyBootstrapConfig (BV_verify env) c m")
  let ?q = "\<lparr>BQ_Name = name, BQ_Address = address, BQ_Config = c, BQ_Timeout = max minTimeout (BO_timeout opts)\<rparr>"
  obtain s1 x where q: "BV_bootstrap env ?q s = (s1, x)" by (cases "BV_bootstrap env ?q s")
  show ?thesis
  proof (cases v)
    case err: (Inl e)
    then show ?thesis using assms Inr v by (auto simp: sendBootstrap_def)
  next
    case (Inr u)
    have "m' = m1" "s' = s1" using assms \<open>withBaseDir opts config = Inr c\<close> v Inr q by (cases x; simp add: sendBootstrap_def)+
    then show ?thesis using v Inr q withBaseDir_clean [OF \<open>withBaseDir opts config = Inr c\<close>] by (intro disjI2 exI [of _ c]) simp
  qed
qed

lemma bootstrapChecks_ok:
  "bootstrapChecks env opts = Inr (name, address) \<Longrightarrow>
   \<not> microk8sInstalled env \<and> bootstrapName env (BO_name opts) = Inr name \<and> BV_parse env (BO_address opts) = Inr address"
  unfolding bootstrapChecks_def by (auto split: sum.splits if_splits prod.splits)

text \<open>
  A request to bootstrap is sent only from a node without microk8s that is not part of a cluster, with an address that was
  parsed, a configuration that was verified on this machine, an absolute directory for containerd or none, and a timeout of at least three seconds.
  In every other case the command ends with an error and only the status of the node was asked for.
\<close>

theorem bootstrap_sent_verified:
  assumes "bootstrapCmd env opts (m, s) = Some ((m', s'), r)"
  shows "((s' = s \<or> s' = fst (BV_status env s)) \<and> (\<exists>e. r = Inl e)) \<or>
    (\<exists>t name address c. \<not> microk8sInstalled env \<and> BV_status env s = (t, Inr False) \<and>
      bootstrapName env (BO_name opts) = Inr name \<and> BV_parse env (BO_address opts) = Inr address \<and>
      verifyBootstrapConfig (BV_verify env) c m = (m', ok) \<and> (BF_ContainerdBaseDir c = [] \<or> HasPrefix (BF_ContainerdBaseDir c) ''/'') \<and>
      s' = fst (BV_bootstrap env \<lparr>BQ_Name = name, BQ_Address = address, BQ_Config = c, BQ_Timeout = max minTimeout (BO_timeout opts)\<rparr> t))"
proof (cases "bootstrapChecks env opts")
  case (Inl e)
  then show ?thesis using assms by (auto simp: bootstrapCmd_def)
next
  case (Inr p)
  obtain name address where p: "p = (name, address)" by (cases p)
  note checks = bootstrapChecks_ok [OF Inr [unfolded p]]
  obtain t x where st: "BV_status env s = (t, x)" by (cases "BV_status env s")
  show ?thesis
  proof (cases "x = Inr False \<and> (\<exists>config. bootstrapSource env opts = Some (Inr config))")
    case True
    then obtain config where "bootstrapSource env opts = Some (Inr config)" by blast
    then have send: "sendBootstrap env opts name address config (m, t) = ((m', s'), r)"
      using assms Inr p st True by (simp add: bootstrapCmd_def)
    from sendBootstrap_sent [OF this] show ?thesis
    proof
      assume "s' = t \<and> (\<exists>e. r = Inl e)"
      then show ?thesis using st by auto
    next
      assume "\<exists>c. verifyBootstrapConfig (BV_verify env) c m = (m', ok) \<and> (BF_ContainerdBaseDir c = [] \<or> HasPrefix (BF_ContainerdBaseDir c) ''/'') \<and>
        s' = fst (BV_bootstrap env \<lparr>BQ_Name = name, BQ_Address = address, BQ_Config = c, BQ_Timeout = max minTimeout (BO_timeout opts)\<rparr> t)"
      then show ?thesis using checks st True by blast
    qed
  next
    case False
    then have "s' = t \<and> (\<exists>e. r = Inl e)"
      using assms Inr p st by (auto simp: bootstrapCmd_def split: sum.splits if_splits option.splits)
    then show ?thesis using st by auto
  qed
qed

text \<open>A node whose host name is not valid is bootstrapped without a name.\<close>

theorem invalid_hostname_is_dropped:
  assumes "BV_hostname env = Inr hostname" "BV_clean env hostname = Inl e"
  shows "bootstrapName env [] = Inr []"
  using assms by (simp add: bootstrapName_def)

end
