(* ===== verification/Recover.thy ===== *)
theory Recover
  imports NodeFiles Cilium
begin

text \<open>
  The recovery of a cluster that lost its quorum (\<open>cmd/k8sd/k8sd_cluster_recover.go\<close>, \<open>pkg/utils/yaml.go\<close>) and the removal of what Cilium leaves
  on a node (\<open>pkg/k8sd/features/cilium/cleanup.go\<close>).

  The text editor, YAML and the microcluster library are arguments; the editor may return another text at each of its calls. The regular
  expressions of the source are functions on text, with the reading of Go's regexp: leftmost, first alternative, and for \<open>ReplaceAll\<close>
  one match after the other.
\<close>

section \<open>Texts for the editor\<close>

definition yamlHelperCommentFooter :: string where
  "yamlHelperCommentFooter = ''# ------- everything below will be written -------'' @ [newline]"

text \<open>The text behind the first place where \<open>sub\<close> occurs.\<close>

fun dropThrough :: "string \<Rightarrow> string \<Rightarrow> string option" where
  "dropThrough sub [] = (if sub = [] then Some [] else None)"
| "dropThrough sub (c # cs) = (if HasPrefix (c # cs) sub then Some (drop (length sub) (c # cs)) else dropThrough sub cs)"

lemma dropThrough_shorter: "dropThrough sub s = Some t \<Longrightarrow> sub \<noteq> [] \<Longrightarrow> length t < length s"
  by (induction sub s rule: dropThrough.induct) (auto split: if_splits)

text \<open>\<open>(?s).*?FOOTER *\<close>: each match begins where the last one ended and reaches to the next footer and the blanks behind it.\<close>

function removeYamlHelperComments :: "string \<Rightarrow> string" where
  "removeYamlHelperComments content =
     (case dropThrough yamlHelperCommentFooter content of
        None \<Rightarrow> content
      | Some rest \<Rightarrow> removeYamlHelperComments (dropWhile (\<lambda>c. c = CHR '' '') rest))"
  by pat_completeness auto

lemma yamlFooter_nonempty: "yamlHelperCommentFooter \<noteq> []"
  by (simp add: yamlHelperCommentFooter_def)

termination removeYamlHelperComments
proof (relation "measure length", goal_cases)
  case (2 content rest)
  then show ?case
    using dropThrough_shorter [OF 2 yamlFooter_nonempty] length_dropWhile_le [of "\<lambda>c. c = CHR '' ''" rest] by simp
qed simp

declare removeYamlHelperComments.simps [simp del]

definition reSpace :: "char \<Rightarrow> bool" where
  "reSpace c \<longleftrightarrow> c \<in> {CHR 0x09, newline, CHR 0x0C, CHR 0x0D, CHR '' ''}"

text \<open>
  \<open>(?m)^\s*$\<close>: at the start of a line the longest run of white space is taken that ends before a line break or at the end of the text. Between two
  lines with other characters this is all of the white space but its last line break and what follows that.
\<close>

function removeEmptyLines :: "string \<Rightarrow> string" where
  "removeEmptyLines content =
     (let ws = takeWhile reSpace content;
          rest = dropWhile reSpace content
      in if rest = [] then []
         else
           (if newline \<in> set ws then newline # rev (takeWhile (\<lambda>c. c \<noteq> newline) (rev ws)) else ws) @
           takeWhile (\<lambda>c. c \<noteq> newline) rest @
           (case dropWhile (\<lambda>c. c \<noteq> newline) rest of [] \<Rightarrow> [] | c # tail \<Rightarrow> c # removeEmptyLines tail))"
  by pat_completeness auto

termination removeEmptyLines
proof (relation "measure length", goal_cases)
  case (2 content ws rest c tail)
  have "length (dropWhile (\<lambda>c. c \<noteq> newline) rest) \<le> length rest" "length rest \<le> length content"
    unfolding 2(2) by (rule length_dropWhile_le)+
  then show ?case using 2(4) by (simp add: Suc_le_eq)
qed simp

declare removeEmptyLines.simps [simp del]

text \<open>\<open>(?m)^\<close> is replaced: a mark at the start and behind every line break.\<close>

definition YamlCommentLines :: "string \<Rightarrow> string" where
  "YamlCommentLines content = ''# '' @ concat (map (\<lambda>c. if c = newline then [newline] @ ''# '' else [c]) content)"

text \<open>The result of \<open>yamlEditorGuide\<close> is the edited text; the file is written when \<open>applyChanges\<close> is set.\<close>

definition yamlEditorGuide ::
  "(string \<Rightarrow> string res) \<Rightarrow> string \<Rightarrow> bool \<Rightarrow> string \<Rightarrow> bool \<Rightarrow> Host \<Rightarrow> (Host, string) step"
where
  "yamlEditorGuide editor path readFile guideContent applyChanges h =
     tryStep (h, if readFile then ReadFile h path else Inr []) ''could not read file: %s, error: %w'' [path] (\<lambda>h content.
     let currContent = (if readFile then removeEmptyLines content else []) in
     tryStep (h, editor (guideContent @ [newline] @ currContent)) ''text editor failed, error: %w'' [] (\<lambda>h edited.
     let newContent = removeEmptyLines (removeYamlHelperComments edited) in
     if applyChanges
     then tryStep (WriteFile h path newContent perm644) ''could not write file: %s, error: %w'' [path] (\<lambda>h _. (h, Inr newContent))
     else (h, Inr newContent)))"

section \<open>Recovery\<close>

record ('m, 's) recoverEnv =
  RV_app :: "unit res"
  RV_members :: "'m list res"
  RV_marshal :: "'m list \<Rightarrow> string res"
  RV_unmarshal :: "string \<Rightarrow> 'm list res"
  RV_databaseDir :: string
  RV_stateDir :: string
  RV_editor :: "nat \<Rightarrow> string \<Rightarrow> string res"
  RV_recover :: "'m list \<Rightarrow> 's \<Rightarrow> ('s, string) step"

text \<open>The comments shown above what can be edited.\<close>

definition commentLines :: "string list \<Rightarrow> string" where
  "commentLines ls = concat (map (\<lambda>l. l @ [newline]) ls)"

definition clusterK8sdYamlRecoveryComment :: string where
  \<open>clusterK8sdYamlRecoveryComment = commentLines
     [''# Member roles can be modified. Unrecoverable nodes should be given the role "spare".'',
      ''#'',
      ''# "voter" (0) - Voting member of the database. A majority of voters is a quorum.'',
      ''# "stand-by" (1) - Non-voting member of the database; can be promoted to voter.'',
      ''# "spare" (2) - Not a member of the database.'',
      ''#'',
      ''# The edit is aborted if:'',
      ''# - the number of members changes'',
      ''# - the name of any member changes'',
      ''# - the ID of any member changes'',
      ''# - the address of any member changes'',
      ''# - no changes are made'']\<close>

definition infoYamlRecoveryComment :: string where
  "infoYamlRecoveryComment = commentLines [''# Verify the ID, address and role of the local node.'', ''#'', ''# Cluster members:'']"

definition daemonYamlRecoveryComment :: string where
  "daemonYamlRecoveryComment = commentLines [''# Verify the name and address of the local node.'', ''#'', ''# Cluster members:'']"

definition clusterGuide :: "string \<Rightarrow> string \<Rightarrow> string" where
  "clusterGuide path members =
     commentLines [''# K8sd cluster configuration'', ''# (based on the trust store and '' @ path @ '')'', ''#''] @
     clusterK8sdYamlRecoveryComment @ yamlHelperCommentFooter @ [newline] @ members"

definition fileGuide :: "string \<Rightarrow> string \<Rightarrow> string \<Rightarrow> string \<Rightarrow> string" where
  "fileGuide name path note clusterYaml =
     commentLines [''# K8sd '' @ name, ''# ('' @ path @ '')'', ''#''] @ note @ YamlCommentLines clusterYaml @ [newline] @ yamlHelperCommentFooter"

definition editClusterFiles :: "('m, 's) recoverEnv \<Rightarrow> string \<Rightarrow> Host \<Rightarrow> (Host, string) step" where
  "editClusterFiles env oldMembersYaml h =
     (let clusterYamlPath = pathJoin (RV_databaseDir env) ''cluster.yaml'';
          infoYamlPath = pathJoin (RV_databaseDir env) ''info.yaml'';
          daemonYamlPath = pathJoin (RV_stateDir env) ''daemon.yaml''
      in
      tryStep (yamlEditorGuide (RV_editor env 0) [] False (clusterGuide clusterYamlPath oldMembersYaml) False h)
        ''interactive text editor failed, error: %w'' [] (\<lambda>h clusterYaml.
      tryStep (yamlEditorGuide (RV_editor env 1) infoYamlPath True (fileGuide ''info.yaml'' infoYamlPath infoYamlRecoveryComment clusterYaml) True h)
        ''interactive text editor failed, error: %w'' [] (\<lambda>h _.
      tryStep (yamlEditorGuide (RV_editor env 2) daemonYamlPath True (fileGuide ''daemon.yaml'' daemonYamlPath daemonYamlRecoveryComment clusterYaml) True h)
        ''interactive text editor failed, error: %w'' [] (\<lambda>h _. (h, Inr clusterYaml)))))"

definition recoverK8sd ::
  "('m, 's) recoverEnv \<Rightarrow> bool \<Rightarrow> Host \<times> 's \<Rightarrow> (Host \<times> 's, string) step"
where
  "recoverK8sd env nonInteractive = (\<lambda>(h, s).
     tryStep ((h, s), RV_app env) ''could not initialize microcluster app, error: %w'' [] (\<lambda>(h, s) _.
     tryStep ((h, s), RV_members env) ''could not retrieve K8sd cluster members, error: %w'' [] (\<lambda>(h, s) members.
     tryStep ((h, s), RV_marshal env members) ''could not serialize cluster members, error: %w'' [] (\<lambda>(h, s) oldMembersYaml.
     tryPass (if nonInteractive then ((h, s), Inr oldMembersYaml)
              else (case editClusterFiles env oldMembersYaml h of (h, r) \<Rightarrow> ((h, s), r))) (\<lambda>(h, s) clusterYaml.
     tryStep ((h, s), RV_unmarshal env clusterYaml) ''couldn't parse cluster.yaml, error: %w'' [] (\<lambda>(h, s) newMembers.
     tryStep (case RV_recover env newMembers s of (s, r) \<Rightarrow> ((h, s), r)) ''k8sd recovery failed, error: %w'' [] (\<lambda>st tarball.
       (st, Inr tarball))))))))"

text \<open>\<open>answer\<close> is the line that is read from the terminal.\<close>

definition confirms :: "string \<Rightarrow> bool" where
  "confirms input \<longleftrightarrow> map toLowerChar (if HasSuffix input [newline] then butlast input else input) = ''yes''"

definition recoveryCmdPrechecks :: "bool \<Rightarrow> bool \<Rightarrow> string \<Rightarrow> string res \<Rightarrow> unit res" where
  "recoveryCmdPrechecks isTerminal nonInteractive stateDir answer =
     (if \<not> isTerminal \<and> \<not> nonInteractive then Inl (Errorf ''interactive mode requested in a non-interactive terminal'' [])
      else if stateDir = [] then Inl (Errorf ''k8sd state dir not specified'' [])
      else if nonInteractive then ok
      else
        (case answer of
           Inl e \<Rightarrow> Inl (Wrapf ''couldn't read user input, error: %w'' [] e)
         | Inr input \<Rightarrow>
             if \<not> confirms input then Inl (Errorf ''cluster edit aborted; no changes made'' []) else ok))"

definition clusterRecoverCmd ::
  "('m, 's) recoverEnv \<Rightarrow> bool \<Rightarrow> bool \<Rightarrow> string \<Rightarrow> string res \<Rightarrow> Host \<times> 's \<Rightarrow> (Host \<times> 's, string) step"
where
  "clusterRecoverCmd env isTerminal nonInteractive stateDir answer st =
     tryStep (st, recoveryCmdPrechecks isTerminal nonInteractive stateDir answer) ''Recovery precheck failed: %v'' [] (\<lambda>st _.
     tryStep (recoverK8sd env nonInteractive st) ''Failed to recover k8sd, error: %v'' [] (\<lambda>st tarball. (st, Inr tarball)))"

subsection \<open>What is recovered\<close>

lemma dropThrough_prefix:
  assumes "sub \<noteq> []" "\<And>i. i < length pre \<Longrightarrow> \<not> HasPrefix (drop i (pre @ sub @ rest)) sub"
  shows "dropThrough sub (pre @ sub @ rest) = Some rest"
  using assms(2)
proof (induction pre)
  case Nil
  show ?case using assms(1) by (cases sub) (simp_all add: HasPrefix_def)
next
  case (Cons c pre)
  have "\<not> HasPrefix (c # pre @ sub @ rest) sub" using Cons.prems [of 0] by simp
  moreover have "dropThrough sub (pre @ sub @ rest) = Some rest" using Cons.prems by (intro Cons.IH) (metis Suc_less_eq append_Cons drop_Suc_Cons length_Cons)
  ultimately show ?case by simp
qed

text \<open>White space aside, no text is lost: every character of a line that is not blank stays, in order.\<close>

lemma takeWhile_blank: "filter (\<lambda>c. \<not> reSpace c) (takeWhile reSpace s) = []"
  by (induction s) auto

theorem removeEmptyLines_text: "filter (\<lambda>c. \<not> reSpace c) (removeEmptyLines s) = filter (\<lambda>c. \<not> reSpace c) s"
proof (induction s rule: removeEmptyLines.induct)
  case (1 content)
  let ?ws = "takeWhile reSpace content" and ?rest = "dropWhile reSpace content"
  have split: "filter (\<lambda>c. \<not> reSpace c) content = filter (\<lambda>c. \<not> reSpace c) ?rest"
    using takeWhile_blank [of content] takeWhile_dropWhile_id [of reSpace content] by (metis append_Nil filter_append)
  show ?case
  proof (cases "?rest = []")
    case True
    then show ?thesis using split by (subst removeEmptyLines.simps) (simp add: Let_def)
  next
    case False
    let ?line = "takeWhile (\<lambda>c. c \<noteq> newline) ?rest" and ?tail = "dropWhile (\<lambda>c. c \<noteq> newline) ?rest"
    let ?lead = "if newline \<in> set ?ws then newline # rev (takeWhile (\<lambda>c. c \<noteq> newline) (rev ?ws)) else ?ws"
    have lead: "filter (\<lambda>c. \<not> reSpace c) ?lead = []"
      by (auto simp: filter_empty_conv reSpace_def dest!: set_takeWhileD)
    have tail: "filter (\<lambda>c. \<not> reSpace c) (case ?tail of [] \<Rightarrow> [] | c # tail \<Rightarrow> c # removeEmptyLines tail) = filter (\<lambda>c. \<not> reSpace c) ?tail"
    proof (cases ?tail)
      case Nil
      show ?thesis unfolding Nil by simp
    next
      case (Cons c tail)
      then have "filter (\<lambda>c. \<not> reSpace c) (removeEmptyLines tail) = filter (\<lambda>c. \<not> reSpace c) tail" using 1 False by blast
      then show ?thesis unfolding Cons by simp
    qed
    have "removeEmptyLines content = ?lead @ ?line @ (case ?tail of [] \<Rightarrow> [] | c # tail \<Rightarrow> c # removeEmptyLines tail)"
      by (subst removeEmptyLines.simps) (simp only: Let_def False if_False)
    then have "filter (\<lambda>c. \<not> reSpace c) (removeEmptyLines content) = filter (\<lambda>c. \<not> reSpace c) (?line @ ?tail)"
      by (simp only: filter_append lead tail append_Nil)
    then show ?thesis using split by simp
  qed
qed

text \<open>An empty line between two others stays, although the function is to remove it.\<close>

theorem empty_line_stays: "removeEmptyLines ([CHR ''a'', newline, newline, CHR ''b'']) = [CHR ''a'', newline, newline, CHR ''b'']"
  by (simp add: removeEmptyLines.simps reSpace_def Let_def)

text \<open>
  Without the editor the members are recovered as the library knows them, and no file is changed; nothing at all is done without
  the consent of the user or the flag that replaces it.
\<close>

theorem recover_non_interactive:
  assumes "\<And>ms y. RV_marshal env ms = Inr y \<Longrightarrow> RV_unmarshal env y = Inr ms"
    and "clusterRecoverCmd env isTerminal True stateDir answer (h, s) = ((h', s'), Inr tarball)"
  shows "h' = h \<and> (\<exists>ms. RV_members env = Inr ms \<and> RV_recover env ms s = (s', Inr tarball))"
proof -
  have "recoverK8sd env True (h, s) = ((h', s'), Inr tarball)"
    using assms(2) by (auto simp: clusterRecoverCmd_def tryStep_ok_iff)
  then obtain ms y where m: "RV_members env = Inr ms" "RV_marshal env ms = Inr y"
    and r: "tryStep ((h, s), RV_unmarshal env y) ''couldn't parse cluster.yaml, error: %w'' [] (\<lambda>(h, s) newMembers.
      tryStep (case RV_recover env newMembers s of (s, r) \<Rightarrow> ((h, s), r)) ''k8sd recovery failed, error: %w'' [] (\<lambda>st tarball.
       (st, Inr tarball))) = ((h', s'), Inr tarball)"
    by (auto simp: recoverK8sd_def tryStep_ok_iff tryPass_ok_iff)
  have "RV_unmarshal env y = Inr ms" by (rule assms(1) [OF m(2)])
  with r m show ?thesis by (cases "RV_recover env ms s") (auto simp: tryStep_ok_iff)
qed

theorem recover_needs_consent:
  assumes "clusterRecoverCmd env isTerminal nonInteractive stateDir answer st = (st', r)"
  shows "(st' = st \<and> (\<exists>e. r = Inl e)) \<or> nonInteractive \<or>
    (isTerminal \<and> (\<exists>line. answer = Inr line \<and> confirms line))"
proof (cases "recoveryCmdPrechecks isTerminal nonInteractive stateDir answer")
  case (Inl e)
  then show ?thesis using assms by (auto simp: clusterRecoverCmd_def)
next
  case (Inr u)
  show ?thesis
  proof (cases nonInteractive)
    case False
    then obtain line where line: "answer = Inr line" and t: "isTerminal"
      using Inr by (cases isTerminal; cases "stateDir = []"; cases answer) (simp_all add: recoveryCmdPrechecks_def)
    have "confirms line" using Inr False line t by (simp add: recoveryCmdPrechecks_def split: if_splits)
    then show ?thesis using line t by blast
  qed simp
qed

text \<open>
  A file that the user leaves as the editor shows it keeps its text, white space aside; the guide above it is not written.
\<close>

theorem unchanged_file_keeps_text:
  assumes "ReadFile h path = Inr content"
    and "\<And>i. i < length (pre @ [newline]) \<Longrightarrow>
      \<not> HasPrefix (drop i ((pre @ [newline]) @ yamlHelperCommentFooter @ [newline] @ removeEmptyLines content)) yamlHelperCommentFooter"
    and "dropThrough yamlHelperCommentFooter ([newline] @ removeEmptyLines content) = None"
    and "yamlEditorGuide Inr path True (pre @ [newline] @ yamlHelperCommentFooter) True h = (h', Inr written)"
  shows "filter (\<lambda>c. \<not> reSpace c) written = filter (\<lambda>c. \<not> reSpace c) content"
proof -
  let ?curr = "removeEmptyLines content"
  have "dropThrough yamlHelperCommentFooter ((pre @ [newline]) @ yamlHelperCommentFooter @ [newline] @ ?curr) = Some ([newline] @ ?curr)"
    by (rule dropThrough_prefix [OF yamlFooter_nonempty assms(2)])
  then have "removeYamlHelperComments (pre @ [newline] @ yamlHelperCommentFooter @ [newline] @ ?curr) = removeYamlHelperComments ([newline] @ ?curr)"
    by (subst removeYamlHelperComments.simps) simp
  also have "\<dots> = [newline] @ ?curr" using assms(3) by (subst removeYamlHelperComments.simps) simp
  finally have "written = removeEmptyLines ([newline] @ ?curr)"
    using assms(1,4) by (auto simp: yamlEditorGuide_def Let_def tryStep_ok_iff)
  moreover have "reSpace newline" by (simp add: reSpace_def)
  ultimately show ?thesis by (simp add: removeEmptyLines_text)
qed

section \<open>Removing the traces of Cilium\<close>

text \<open>\<open>saved cmd\<close> is what \<open>cmd-save\<close> prints; the state keeps what was given to the restore commands.\<close>

definition ciliumFree :: "string \<Rightarrow> string" where
  "ciliumFree out =
     joinWith newline (map (\<lambda>line. if strContains (map toLowerChar line) ''cilium'' then [] else line) (splitOn newline out))"

definition iptablesCommands :: "string list" where
  "iptablesCommands = [''iptables'', ''ip6tables'', ''iptables-legacy'', ''ip6tables-legacy'']"

definition cleanTable :: "(string \<Rightarrow> string) \<Rightarrow> string \<Rightarrow> Host \<times> (string \<times> string) list \<Rightarrow> (Host \<times> (string \<times> string) list, unit) step" where
  "cleanTable saved cmd = (\<lambda>(h, restored).
     tryStep (case runCommand h [cmd @ ''-save''] of (h, r) \<Rightarrow> ((h, restored), r)) ''failed to read iptables rules: %w'' [] (\<lambda>(h, restored) _.
     tryStep (case runCommand h [cmd @ ''-restore''] of (h, r) \<Rightarrow> ((h, restored @ [(cmd, ciliumFree (saved cmd))]), r))
       ''failed to restore iptables rules: %w'' [] (\<lambda>st _. (st, ok))))"

definition CleanupNetwork ::
  "(string \<Rightarrow> string) \<Rightarrow> Host \<times> (string \<times> string) list \<Rightarrow> (Host \<times> (string \<times> string) list, unit) step"
where
  "CleanupNetwork saved = (\<lambda>(h, restored).
     let h = fst (osRemove h ''/var/run/cilium/cilium.pid'') in
     tryStep (if is_ok (osStat h ''/opt/cni/bin/cilium-dbg'')
              then (case runCommand h [''/opt/cni/bin/cilium-dbg'', ''post-uninstall-cleanup'', ''--all-state'', ''--force''] of
                      (h, r) \<Rightarrow> ((h, restored), r))
              else ((h, restored), ok)) ''cilium-dbg cleanup failed: %w'' [] (\<lambda>st _.
     forEach (cleanTable saved) iptablesCommands st))"

subsection \<open>Rules that stay\<close>

abbreviation mentionsCilium :: "string \<Rightarrow> bool" where
  "mentionsCilium line \<equiv> strContains (map toLowerChar line) ''cilium''"

lemma ciliumFree_lines:
  "splitOn newline (ciliumFree out) = map (\<lambda>line. if mentionsCilium line then [] else line) (splitOn newline out)"
  unfolding ciliumFree_def by (intro splitOn_joinWith) (auto dest: splitOn_sep_free split: if_splits)

lemma forEach_snoc_ok: "forEach f (x # xs) st = (st', ok) \<longleftrightarrow> (\<exists>st1. f x st = (st1, ok) \<and> forEach f xs st1 = (st', ok))"
  by (cases "f x st"; cases "snd (f x st)") auto

lemma cleanTable_ok: "cleanTable saved cmd st = (st', ok) \<Longrightarrow> snd st' = snd st @ [(cmd, ciliumFree (saved cmd))]"
  by (cases st) (auto simp: cleanTable_def tryStep_ok_iff split: prod.splits)

lemma cleanTables_ok:
  "forEach (cleanTable saved) cmds st = (st', ok) \<Longrightarrow> snd st' = snd st @ map (\<lambda>c. (c, ciliumFree (saved c))) cmds"
proof (induction cmds arbitrary: st)
  case (Cons c cmds)
  from Cons.prems obtain st1 where c: "cleanTable saved c st = (st1, ok)" "forEach (cleanTable saved) cmds st1 = (st', ok)"
    unfolding forEach_snoc_ok by blast
  show ?case using cleanTable_ok [OF c(1)] Cons.IH [OF c(2)] by simp
qed simp

text \<open>
  A clean-up that succeeds restores all four tables; the lines of each are those that were saved, with every line that
  mentions Cilium emptied.
\<close>

theorem cilium_rules_removed:
  assumes "CleanupNetwork saved (h, []) = ((h', restored), ok)"
  shows "map fst restored = iptablesCommands \<and>
    (\<forall>(cmd, text') \<in> set restored. splitOn newline text' =
       map (\<lambda>line. if mentionsCilium line then [] else line) (splitOn newline (saved cmd)))"
proof -
  obtain st where "forEach (cleanTable saved) iptablesCommands st = ((h', restored), ok)" "snd st = []"
    using assms by (auto simp: CleanupNetwork_def Let_def tryStep_ok_iff split: if_splits prod.splits)
  from cleanTables_ok [OF this(1)] this(2) have "restored = map (\<lambda>c. (c, ciliumFree (saved c))) iptablesCommands" by simp
  then show ?thesis by (auto simp: ciliumFree_lines comp_def)
qed

end
