(* ===== verification/Spec2Isabelle.thy ===== *)
theory Spec2Isabelle
  imports Convert Database NodeFiles ServiceSetup NodeConfig Controllers CertRefresh Cilium Join Cleanup Removal KubeClient Handlers Lifecycle Status Requests Proxy Client Console Recover
begin

text \<open>
  A verification library of k8sd, the daemon that manages a Canonical Kubernetes cluster.

  \<^bold>\<open>The program.\<close> On every node k8sd keeps a replicated database with the cluster configuration, writes the files and
  arguments of the Kubernetes services of its node, starts and stops them through the snap, and runs controllers that
  bring the node and the cluster to the configured state. An API (\<open>pkg/k8sd/api\<close>) changes the configuration; hooks
  (\<open>pkg/k8sd/app\<close>) bootstrap a cluster, join, refresh and remove nodes; features (\<open>pkg/k8sd/features\<close>) install network, DNS,
  ingress and storage as Helm charts.

  \<^bold>\<open>How the model is built.\<close> Go functions are HOL functions with the name of the source. A function that changes state takes
  the state as its last argument and returns the new state with a result, \<open>(state, error + value)\<close>, so that what was
  done before a failure stays done (\<open>step\<close>, \<open>tryStep\<close>, \<open>tryPass\<close> of \<open>Prelude\<close>); errors are values that keep their
  format string. The state of a node is \<open>Host\<close> (files, commands that were run, faults of both) and \<open>Machine\<close> (directories,
  links); that of the cluster is \<open>DB\<close> (tables), \<open>Kube\<close> (nodes and upgrade objects), \<open>HelmState\<close> (releases). Every fault the
  system can show is part of these states, so the theorems speak of runs in which any step may fail. Integers are \<open>int\<close>
  where Go's \<open>int\<close> cannot wrap in the code at hand and words of their width where it can (back-off delays, failure
  domains, expiration seconds, addresses).

  \<^bold>\<open>The theories.\<close>
  \<^item> \<open>Prelude\<close>: results, steps, Go maps, strings and slices, and the lemmas on them that all theories share.
  \<^item> \<open>GoNet\<close>, \<open>CIDR\<close>: \<open>net\<close> and \<open>netip\<close> parsing and printing of addresses; \<open>pkg/utils/cidr.go\<close>, \<open>net.go\<close>,
    \<open>localhost.go\<close>. Overlap of CIDRs is proved equivalent to having a common address.
  \<^item> \<open>ClusterConfig\<close>, \<open>Validate\<close>, \<open>Merge\<close>, \<open>Convert\<close>: the records of \<open>pkg/k8sd/types\<close>, validation, the merge of an
    update, defaults, and conversion from and to the API. A merge is proved to refine a pointwise override; protected fields
    never change; a valid configuration has disjoint pod and service ranges.
  \<^item> \<open>Database\<close>: the statements of \<open>pkg/k8sd/database\<close> over tables with faults, an invariant over every run, and
    the life cycles of tokens. The locale of a store is interpreted on the configuration and status tables.
  \<^item> \<open>Host\<close>, \<open>ServiceArgs\<close>: the snap (\<open>pkg/snap\<close>), service commands, retries, argument files. An update of arguments
    refines a map update, and its result does not depend on the order in which Go visits a map.
  \<^item> \<open>PKI\<close>, \<open>NodeFiles\<close>, \<open>ServiceSetup\<close>: \<open>pkg/k8sd/pki\<close> and \<open>pkg/k8sd/setup\<close>: certificates are completed, written and read
    back; the arguments of every service.
  \<^item> \<open>NodeConfig\<close>, \<open>Controllers\<close>: the signed config map from control plane to workers and the controllers that apply it,
    with convergence and with rejection of anything not signed.
  \<^item> \<open>GoTime\<close>, \<open>CSRSigning\<close>, \<open>Api\<close>, \<open>CertRefresh\<close>: calendar arithmetic, the signing controller, and the certificate
    refresh API; a worker's request is issued end to end.
  \<^item> \<open>Upgrade\<close>, \<open>UpgradeLife\<close>: upgrade objects, the controller and the hooks as one transition system; the phases
    are ordered, finished upgrades are final, and an upgrade completes when nothing fails.
  \<^item> \<open>FeatureLoop\<close>, \<open>Helm\<close>, \<open>Features\<close>, \<open>Cilium\<close>: the loop that applies a feature, the Helm client, and the built-in
    features with the values they give to their charts.
  \<^item> \<open>NodeSetup\<close>: directories, containerd, port and binary checks, system tuning.
  \<^item> \<open>Bootstrap\<close>, \<open>Join\<close>: the hooks that bring up the first node, a worker and further control plane nodes, with the
    etcd membership and its revert.
  \<^item> \<open>Cleanup\<close>, \<open>Removal\<close>: processes, mounts and files that a node leaves, the remove hook and the remove API.
  \<^item> \<open>KubeClient\<close>: the addresses of the API servers (\<open>pkg/utils/endpoints.go\<close>, \<open>endpointslices.go\<close>), readiness of nodes and pods, and the DNS
    rebalancer. Both kinds of endpoint objects give the same list.
  \<^item> \<open>Handlers\<close>, \<open>Status\<close>, \<open>Requests\<close>: \<open>pkg/k8sd/api\<close>. The table of endpoints with its access checks, tokens, the configuration
    API and the token webhook; status of certificates, nodes and the cluster; bootstrap, join and refresh requests with the hook before them. The
    manager of services is a locale, interpreted on the snap and on pebble.
  \<^item> \<open>Loops\<close>, \<open>Lifecycle\<close>: the run loops and watches of the controllers, the coordinator, and the start of a node with its post-refresh
    work; controllers are released only after it.
  \<^item> \<open>Proxy\<close>: the API server proxy of workers (\<open>pkg/proxy\<close>). The loop that looks for a server terminates, connections are served when a server
    answers and take turns, and the list of servers is never lost and settles.
  \<^item> \<open>Client\<close>, \<open>Console\<close>, \<open>Recover\<close>: the k8sd client and the configuration of snapd, the commands that change a cluster, and the
    recovery from a lost quorum (\<open>pkg/client/k8sd\<close>, \<open>cmd/k8s\<close>, \<open>cmd/util\<close>, \<open>cmd/k8sd\<close>).

  \<^bold>\<open>Parameters and hypotheses.\<close> Code that is not in the repository is an argument: cryptography (\<open>crypto\<close>), JSON and YAML
  (\<open>json\<close>, \<open>tokenJson\<close>, \<open>kubeconfigIO\<close>), Helm's storage (\<open>helmLib\<close>), etcd (\<open>etcdOps\<close>), the microcluster (\<open>microcluster\<close>),
  the kernel (\<open>kernelOps\<close>), snapd (\<open>snapdOps\<close>), the outcome of dialling an address, random numbers, the text editor, the order in which Go visits a map. What a theorem needs of them is a hypothesis
  of its statement (a PEM block is never empty, unmarshalling inverts marshalling, an etcd member that was removed is gone),
  and its witness gives a concrete instance.

  \<^bold>\<open>Bounds.\<close> Loops over slices are structural. A loop that waits takes the number of checks before its context ends;
  retries take their count from the source. The search through the process table takes the size of the table as its
  depth, which is proved to be enough when no process is its own ancestor; the walk over plugin directories takes a depth, and
  \<open>None\<close> stands for a deeper tree. Links are followed forty times, as the kernel does.

  \<^bold>\<open>Not modelled.\<close> Goroutines and channels are modelled by what one round of a loop does, and a watch or a run loop by the list of
  the events that are delivered to it; interleavings only where the code depends on them (the feature signals, the upgrade system). Not modelled are the
  commands that only read and print, flag parsing, the start of the microcluster daemon and profiling, logging, the
  clients of snapd, Kubernetes and Helm beyond the calls whose answers are parameters, SQL text and schema migrations,
  registration with controller-runtime, the netlink walk, the copying of bytes between sockets, thin wrappers of the standard library, the documentation generator and
  test doubles.
\<close>


end
